(* ===== verification/Dfci_Prelude.thy ===== *)
theory Dfci_Prelude
  imports "HOL-Library.Word" "HOL-Library.Monad_Syntax"
begin

unbundle bit_operations_syntax

text \<open>
  Prelude of the DFCI development: the machine integers, the UEFI status codes, the byte
  level (little-endian fields of packed structures), C strings, and the small list lemmas
  that every component uses.

  Conventions of all the theories.
  \<^item> \<open>'a option\<close> as the result of an operation: \<open>None\<close> is undefined behaviour (a read
    outside a buffer, a NULL dereference); every defined outcome, error returns included,
    is \<open>Some\<close>.
  \<^item> A pointer parameter that the code compares with NULL is an \<open>option\<close>; an OUT parameter
    is a component of the result, so the checks of OUT pointers have no counterpart.
  \<^item> \<open>DEBUG\<close> and \<open>ASSERT\<close> have no effect (release build); \<open>FreePool\<close> has none either.
  \<^item> A pointer into a buffer is an offset into the list of its bytes.
\<close>

section \<open>Machine integers and status codes\<close>

type_synonym u8 = "8 word"
type_synonym u16 = "16 word"
type_synonym u32 = "32 word"
type_synonym u64 = "64 word"
type_synonym byte = "8 word"
type_synonym bytes = "8 word list"
type_synonym EFI_STATUS = "64 word"

named_theorems status_simps \<open>which status codes are errors\<close>
named_theorems rd_simps \<open>reading the fields of a packed structure\<close>
named_theorems demo_simps \<open>the services of the concrete platform\<close>
named_theorems enc_length \<open>lengths of encoded structures\<close>

text \<open>The status codes of the UEFI specification (64-bit): bit 63 marks an error.\<close>

definition EFI_ERROR :: "EFI_STATUS \<Rightarrow> bool" where
  "EFI_ERROR s \<longleftrightarrow> bit s 63"

abbreviation (input) EFI_SUCCESS :: EFI_STATUS where "EFI_SUCCESS \<equiv> 0"
abbreviation (input) EFI_INVALID_PARAMETER :: EFI_STATUS where "EFI_INVALID_PARAMETER \<equiv> 0x8000000000000002"
abbreviation (input) EFI_UNSUPPORTED :: EFI_STATUS where "EFI_UNSUPPORTED \<equiv> 0x8000000000000003"
abbreviation (input) EFI_BAD_BUFFER_SIZE :: EFI_STATUS where "EFI_BAD_BUFFER_SIZE \<equiv> 0x8000000000000004"
abbreviation (input) EFI_BUFFER_TOO_SMALL :: EFI_STATUS where "EFI_BUFFER_TOO_SMALL \<equiv> 0x8000000000000005"
abbreviation (input) EFI_NOT_READY :: EFI_STATUS where "EFI_NOT_READY \<equiv> 0x8000000000000006"
abbreviation (input) EFI_DEVICE_ERROR :: EFI_STATUS where "EFI_DEVICE_ERROR \<equiv> 0x8000000000000007"
abbreviation (input) EFI_OUT_OF_RESOURCES :: EFI_STATUS where "EFI_OUT_OF_RESOURCES \<equiv> 0x8000000000000009"
abbreviation (input) EFI_MEDIA_CHANGED :: EFI_STATUS where "EFI_MEDIA_CHANGED \<equiv> 0x800000000000000D"
abbreviation (input) EFI_NOT_FOUND :: EFI_STATUS where "EFI_NOT_FOUND \<equiv> 0x800000000000000E"
abbreviation (input) EFI_ACCESS_DENIED :: EFI_STATUS where "EFI_ACCESS_DENIED \<equiv> 0x800000000000000F"
abbreviation (input) EFI_NO_MAPPING :: EFI_STATUS where "EFI_NO_MAPPING \<equiv> 0x8000000000000011"
abbreviation (input) EFI_ALREADY_STARTED :: EFI_STATUS where "EFI_ALREADY_STARTED \<equiv> 0x8000000000000014"
abbreviation (input) EFI_ABORTED :: EFI_STATUS where "EFI_ABORTED \<equiv> 0x8000000000000015"
abbreviation (input) EFI_PROTOCOL_ERROR :: EFI_STATUS where "EFI_PROTOCOL_ERROR \<equiv> 0x8000000000000018"
abbreviation (input) EFI_INCOMPATIBLE_VERSION :: EFI_STATUS where "EFI_INCOMPATIBLE_VERSION \<equiv> 0x8000000000000019"
abbreviation (input) EFI_SECURITY_VIOLATION :: EFI_STATUS where "EFI_SECURITY_VIOLATION \<equiv> 0x800000000000001A"
abbreviation (input) EFI_CRC_ERROR :: EFI_STATUS where "EFI_CRC_ERROR \<equiv> 0x800000000000001B"
abbreviation (input) EFI_COMPROMISED_DATA :: EFI_STATUS where "EFI_COMPROMISED_DATA \<equiv> 0x8000000000000021"

lemma EFI_ERROR_SUCCESS [status_simps, simp]: "\<not> EFI_ERROR EFI_SUCCESS"
  by (simp add: EFI_ERROR_def)

lemma EFI_ERROR_codes [status_simps, simp]:
  "EFI_ERROR EFI_INVALID_PARAMETER" "EFI_ERROR EFI_UNSUPPORTED" "EFI_ERROR EFI_BAD_BUFFER_SIZE"
  "EFI_ERROR EFI_BUFFER_TOO_SMALL" "EFI_ERROR EFI_NOT_READY" "EFI_ERROR EFI_DEVICE_ERROR"
  "EFI_ERROR EFI_OUT_OF_RESOURCES" "EFI_ERROR EFI_MEDIA_CHANGED" "EFI_ERROR EFI_NOT_FOUND"
  "EFI_ERROR EFI_ACCESS_DENIED" "EFI_ERROR EFI_NO_MAPPING" "EFI_ERROR EFI_ALREADY_STARTED"
  "EFI_ERROR EFI_ABORTED" "EFI_ERROR EFI_PROTOCOL_ERROR" "EFI_ERROR EFI_INCOMPATIBLE_VERSION"
  "EFI_ERROR EFI_SECURITY_VIOLATION" "EFI_ERROR EFI_CRC_ERROR" "EFI_ERROR EFI_COMPROMISED_DATA"
  by (simp_all add: EFI_ERROR_def)

lemma EFI_ERROR_or: "EFI_ERROR (a OR b) \<longleftrightarrow> EFI_ERROR a \<or> EFI_ERROR b"
  by (simp add: EFI_ERROR_def bit_or_iff)

text \<open>Subtraction of two \<open>UINTN\<close> sizes, which wraps.\<close>

definition uintn_sub :: "nat \<Rightarrow> nat \<Rightarrow> nat" where
  "uintn_sub a b = nat ((int a - int b) mod 2 ^ 64)"

lemma uintn_sub_le: "b \<le> a \<Longrightarrow> a < 2 ^ 64 \<Longrightarrow> uintn_sub a b = a - b"
  by (simp add: uintn_sub_def flip: of_nat_diff)

section \<open>Little-endian fields\<close>

fun nat_le :: "nat \<Rightarrow> nat \<Rightarrow> bytes" where
  "nat_le 0 k = []"
| "nat_le (Suc n) k = word_of_nat k # nat_le n (k div 256)"

fun le_nat :: "bytes \<Rightarrow> nat" where
  "le_nat [] = 0"
| "le_nat (b # bs) = unat b + 256 * le_nat bs"

definition le16 :: "u16 \<Rightarrow> bytes" where "le16 w = nat_le 2 (unat w)"
definition le32 :: "u32 \<Rightarrow> bytes" where "le32 w = nat_le 4 (unat w)"
definition le64 :: "u64 \<Rightarrow> bytes" where "le64 w = nat_le 8 (unat w)"

text \<open>Reading a field at an offset; outside the buffer the C program's behaviour is undefined.\<close>

definition rd :: "bytes \<Rightarrow> nat \<Rightarrow> nat \<Rightarrow> bytes option" where
  "rd bs off n = (if off + n \<le> length bs then Some (take n (drop off bs)) else None)"

definition rd8 :: "bytes \<Rightarrow> nat \<Rightarrow> u8 option" where
  "rd8 bs off = (if off < length bs then Some (bs ! off) else None)"

definition rd16 :: "bytes \<Rightarrow> nat \<Rightarrow> u16 option" where
  "rd16 bs off = map_option (\<lambda>b. word_of_nat (le_nat b)) (rd bs off 2)"

definition rd32 :: "bytes \<Rightarrow> nat \<Rightarrow> u32 option" where
  "rd32 bs off = map_option (\<lambda>b. word_of_nat (le_nat b)) (rd bs off 4)"

definition rd64 :: "bytes \<Rightarrow> nat \<Rightarrow> u64 option" where
  "rd64 bs off = map_option (\<lambda>b. word_of_nat (le_nat b)) (rd bs off 8)"

lemma length_nat_le [simp]: "length (nat_le n k) = n"
  by (induction n arbitrary: k) auto

lemma le_nat_nat_le: "le_nat (nat_le n k) = k mod 256 ^ n"
proof (induction n arbitrary: k)
  case 0
  then show ?case by simp
next
  case (Suc n)
  have "le_nat (nat_le (Suc n) k) = k mod 256 + 256 * (k div 256 mod 256 ^ n)"
    using Suc.IH by (simp add: unat_of_nat)
  also have "\<dots> = k mod (256 * 256 ^ n)"
    by (simp add: mod_mult2_eq)
  finally show ?case by simp
qed

lemma unat_bound: "unat (a :: 'a::len word) < 2 ^ LENGTH('a)"
  by simp

lemma unat_ucast32: "x \<le> 0xFFFFFFFF \<Longrightarrow> unat (ucast (x :: u64) :: u32) = unat x"
  by (simp add: unsigned_ucast_eq take_bit_nat_eq_self word_le_nat_alt)

lemma length_le [simp, enc_length]:
  "length (le16 a) = 2" "length (le32 b) = 4" "length (le64 c) = 8"
  by (simp_all add: le16_def le32_def le64_def)

lemma le_nat_le [simp]:
  "word_of_nat (le_nat (le16 a)) = a"
  "word_of_nat (le_nat (le32 b)) = b"
  "word_of_nat (le_nat (le64 c)) = c"
  using unat_bound [of a] unat_bound [of b] unat_bound [of c]
  by (simp_all add: le16_def le32_def le64_def le_nat_nat_le)

lemma rd_append [rd_simps]:
  "length xs = off \<Longrightarrow> length ys = n \<Longrightarrow> rd (xs @ ys @ zs) off n = Some ys"
  by (simp add: rd_def)

lemma rd_shift: "length xs \<le> off \<Longrightarrow> rd (xs @ ys) off n = rd ys (off - length xs) n"
  by (auto simp: rd_def)

lemma rd8_shift: "length xs \<le> off \<Longrightarrow> rd8 (xs @ ys) off = rd8 ys (off - length xs)"
  by (auto simp: rd8_def nth_append)

lemma rd8_Some_iff: "rd8 bs off = Some b \<longleftrightarrow> off < length bs \<and> b = bs ! off"
  by (auto simp: rd8_def)

lemma rd_defined:
  "off < length bs \<Longrightarrow> \<exists>b. rd8 bs off = Some b"
  "off + 2 \<le> length bs \<Longrightarrow> \<exists>h. rd16 bs off = Some h"
  "off + 4 \<le> length bs \<Longrightarrow> \<exists>w. rd32 bs off = Some w"
  "off + 8 \<le> length bs \<Longrightarrow> \<exists>d. rd64 bs off = Some d"
  by (auto simp: rd8_def rd16_def rd32_def rd64_def rd_def)

lemma take_drop_split: "bs = take a bs @ take b (drop a bs) @ drop (a + b) bs"
  by (metis add.commute append_take_drop_id drop_drop)

lemma length_2E: "length xs = 2 \<Longrightarrow> \<exists>a b. xs = [a, b]"
  by (auto simp: length_Suc_conv numeral_2_eq_2)

lemma length_4E: "length xs = 4 \<Longrightarrow> \<exists>a b c d. xs = [a, b, c, d]"
  by (auto simp: length_Suc_conv numeral_eq_Suc)

lemma rd_field_append [rd_simps]:
  assumes "length xs = off"
  shows "rd8 (xs @ b # ys) off = Some b"
    "rd16 (xs @ le16 h @ ys) off = Some h"
    "rd32 (xs @ le32 w @ ys) off = Some w"
    "rd64 (xs @ le64 d @ ys) off = Some d"
  using assms by (auto simp: rd8_def rd16_def rd32_def rd64_def rd_append)

lemma rd_field_shift:
  assumes "length xs \<le> off"
  shows "rd8 (xs @ ys) off = rd8 ys (off - length xs)"
    "rd16 (xs @ ys) off = rd16 ys (off - length xs)"
    "rd32 (xs @ ys) off = rd32 ys (off - length xs)"
    "rd64 (xs @ ys) off = rd64 ys (off - length xs)"
  using assms by (auto simp: rd8_shift rd16_def rd32_def rd64_def rd_shift)

lemma rd_field_head [rd_simps]:
  "rd8 (b # ys) 0 = Some b" "rd16 (le16 h @ ys) 0 = Some h" "rd32 (le32 w @ ys) 0 = Some w" "rd64 (le64 d @ ys) 0 = Some d"
  using rd_field_append [of "[]" 0] by simp_all

lemma rd_field_Cons:
  assumes "0 < off"
  shows "rd8 (b # ys) off = rd8 ys (off - 1)" "rd16 (b # ys) off = rd16 ys (off - 1)"
    "rd32 (b # ys) off = rd32 ys (off - 1)" "rd64 (b # ys) off = rd64 ys (off - 1)"
  using rd_field_shift [of "[b]" off ys] assms by simp_all

lemmas rd_layout = rd_field_head rd_field_shift rd_field_Cons

section \<open>C strings\<close>

text \<open>
  A \<open>CHAR8\<close> string is the list of its characters before the terminating NUL.
  \<open>AsciiStrnCmp (a, b, n) == 0\<close>, \<open>AsciiStrnSizeS\<close> and the scan of a string inside a buffer
  (which stops at a NUL or after \<open>max\<close> characters) are those of the C library of EDK2.
\<close>

definition NUL :: char where "NUL = CHR 0x00"

definition cstring :: "string \<Rightarrow> bool" where
  "cstring s \<longleftrightarrow> NUL \<notin> set s"

definition char_to_byte :: "char \<Rightarrow> byte" where
  "char_to_byte c = word_of_nat (of_char c)"

definition byte_to_char :: "byte \<Rightarrow> char" where
  "byte_to_char b = char_of (unat b)"

definition to_bytes :: "string \<Rightarrow> bytes" where
  "to_bytes s = map char_to_byte s"

definition AsciiStrnCmp_eq :: "string \<Rightarrow> string \<Rightarrow> nat \<Rightarrow> bool" where
  "AsciiStrnCmp_eq a b n \<longleftrightarrow> take n a = take n b"

definition AsciiStrnSizeS :: "string \<Rightarrow> nat \<Rightarrow> nat" where
  "AsciiStrnSizeS s lim = (if length s < lim then length s + 1 else lim + 1)"

definition is_digit :: "char \<Rightarrow> bool" where
  "is_digit c \<longleftrightarrow> of_char c \<ge> (48 :: nat) \<and> of_char c \<le> (57 :: nat)"

fun starts_numeric :: "string \<Rightarrow> bool" where
  "starts_numeric [] = False"
| "starts_numeric (c # cs) = is_digit c"

fun scan_cstr :: "nat \<Rightarrow> bytes \<Rightarrow> string option" where
  "scan_cstr 0 bs = Some []"
| "scan_cstr (Suc n) [] = None"
| "scan_cstr (Suc n) (b # bs) =
     (if b = 0 then Some [] else map_option ((#) (byte_to_char b)) (scan_cstr n bs))"

definition rd_cstr :: "bytes \<Rightarrow> nat \<Rightarrow> nat \<Rightarrow> string option" where
  "rd_cstr bs off lim = scan_cstr lim (drop off bs)"

lemma unat_char_to_byte [simp]: "unat (char_to_byte c) = of_char c"
  using nat_of_char_less_256 [of c] by (simp add: char_to_byte_def unat_of_nat)

lemma byte_to_char_to_byte [simp]: "byte_to_char (char_to_byte c) = c"
  by (simp add: byte_to_char_def)

lemma char_to_byte_eq_0 [simp]: "char_to_byte c = 0 \<longleftrightarrow> c = NUL"
proof -
  have "char_to_byte c = 0 \<longleftrightarrow> of_char c = (0 :: nat)"
    by (metis unat_0 unat_char_to_byte unat_eq_zero)
  also have "\<dots> \<longleftrightarrow> c = char_of (0 :: nat)"
    by (metis char_of_char of_char_of mod_0)
  also have "char_of (0 :: nat) = NUL"
    by (simp add: NUL_def char_of_def)
  finally show ?thesis .
qed

lemma length_to_bytes [simp, enc_length]: "length (to_bytes s) = length s"
  by (simp add: to_bytes_def)

lemma scan_cstr_to_bytes:
  "cstring s \<Longrightarrow> length s < n \<Longrightarrow> scan_cstr n (to_bytes s @ 0 # rest) = Some s"
proof (induction s arbitrary: n)
  case Nil
  then obtain m where "n = Suc m" by (cases n) auto
  then show ?case by (simp add: to_bytes_def)
next
  case (Cons c s)
  then obtain m where "n = Suc m" by (cases n) auto
  with Cons show ?case by (auto simp: to_bytes_def cstring_def)
qed

lemma scan_cstr_length: "scan_cstr n bs = Some s \<Longrightarrow> length s \<le> n"
  by (induction n bs arbitrary: s rule: scan_cstr.induct) (auto split: if_splits)

lemma AsciiStrnCmp_eq_full:
  "length a \<le> n \<Longrightarrow> length b \<le> n \<Longrightarrow> AsciiStrnCmp_eq a b n \<longleftrightarrow> a = b"
  by (simp add: AsciiStrnCmp_eq_def)

lemma AsciiStrnSizeS_le: "AsciiStrnSizeS s lim \<le> lim \<longleftrightarrow> length s < lim"
  by (simp add: AsciiStrnSizeS_def)

section \<open>Lists searched from the front\<close>

text \<open>
  The linked lists of the code are walked from the head; a walk that returns a pointer to
  an entry is modelled by the position of the first entry that satisfies the test.
\<close>

fun first_index :: "('a \<Rightarrow> bool) \<Rightarrow> 'a list \<Rightarrow> nat option" where
  "first_index P [] = None"
| "first_index P (x # xs) = (if P x then Some 0 else map_option Suc (first_index P xs))"

fun remove_nth :: "nat \<Rightarrow> 'a list \<Rightarrow> 'a list" where
  "remove_nth n [] = []"
| "remove_nth 0 (x # xs) = xs"
| "remove_nth (Suc n) (x # xs) = x # remove_nth n xs"

lemma first_index_None: "first_index P xs = None \<longleftrightarrow> (\<forall>x\<in>set xs. \<not> P x)"
  by (induction xs) auto

lemma first_index_SomeD:
  "first_index P xs = Some i \<Longrightarrow> i < length xs \<and> P (xs ! i) \<and> (\<forall>j<i. \<not> P (xs ! j))"
proof (induction xs arbitrary: i)
  case Nil
  then show ?case by simp
next
  case (Cons x xs)
  show ?case
  proof (cases "P x")
    case True
    with Cons.prems show ?thesis by simp
  next
    case False
    with Cons.prems obtain k where k: "first_index P xs = Some k" "i = Suc k" by auto
    from Cons.IH [OF k(1)] k(2) False show ?thesis
      by (auto simp: nth_Cons split: nat.splits)
  qed
qed

lemma first_index_append:
  "first_index P (xs @ ys) =
     (case first_index P xs of Some i \<Rightarrow> Some i
      | None \<Rightarrow> map_option (\<lambda>i. length xs + i) (first_index P ys))"
proof (induction xs)
  case Nil
  show ?case by (cases "first_index P ys") auto
next
  case (Cons x xs)
  then show ?case by (cases "first_index P ys") (auto split: option.splits)
qed

lemma first_index_find: "find P xs = map_option (\<lambda>i. xs ! i) (first_index P xs)"
  by (induction xs) (auto simp: option.map_comp comp_def)

lemma first_index_split:
  assumes "first_index P xs = Some i"
  obtains ys x zs where "xs = ys @ x # zs" "length ys = i" "P x" "\<forall>y\<in>set ys. \<not> P y"
proof -
  from assms have i: "i < length xs" "P (xs ! i)" "\<forall>j<i. \<not> P (xs ! j)"
    by (auto dest: first_index_SomeD)
  have "xs = take i xs @ xs ! i # drop (Suc i) xs"
    using i(1) by (rule id_take_nth_drop)
  moreover have "\<forall>y\<in>set (take i xs). \<not> P y"
    using i by (auto simp: in_set_conv_nth)
  ultimately show ?thesis
    using that [of "take i xs" "xs ! i" "drop (Suc i) xs"] i by simp
qed

lemma remove_nth_append: "remove_nth (length ys) (ys @ x # zs) = ys @ zs"
  by (induction ys) auto

lemma length_remove_nth: "k < length m \<Longrightarrow> length (remove_nth k m) = length m - 1"
  by (induction k m rule: remove_nth.induct) auto

lemma set_remove_nth: "set (remove_nth n xs) \<subseteq> set xs"
  by (induction n xs rule: remove_nth.induct) auto

lemma option_bind_Some_iff: "Option.bind m f = Some y \<longleftrightarrow> (\<exists>x. m = Some x \<and> f x = Some y)"
  by (cases m) auto

end
