(* ===== verification/Platform.thy ===== *)
theory Platform
  imports Dfci_Prelude
begin

text \<open>
  The environment of the DFCI modules.  The UEFI services, the XML tree library, the print
  and string conversion libraries, the platform's group library, the V1 translation library
  and the fixed PCDs are not part of the repository: they are the fields of the record
  \<open>platform\<close>, an argument of every operation that calls them.  The type variable \<open>'s\<close> is
  the state these services act on (variable store, heap, clock).

  What the proofs use of these services is stated by the named predicates of the second
  section; they are hypotheses of the theorems that need them and hold for the concrete
  platform \<open>demo\<close> at the end of the theory.
\<close>

section \<open>Data exchanged with the platform\<close>

record EFI_TIME =
  tm_Year :: u16
  tm_Month :: u8
  tm_Day :: u8
  tm_Hour :: u8
  tm_Minute :: u8
  tm_Second :: u8
  tm_Pad1 :: u8
  tm_Nanosecond :: u32
  tm_TimeZone :: u16
  tm_Daylight :: u8
  tm_Pad2 :: u8

definition zero_time :: EFI_TIME where
  "zero_time = \<lparr>tm_Year = 0, tm_Month = 0, tm_Day = 0, tm_Hour = 0, tm_Minute = 0,
     tm_Second = 0, tm_Pad1 = 0, tm_Nanosecond = 0, tm_TimeZone = 0, tm_Daylight = 0,
     tm_Pad2 = 0\<rparr>"

definition time_bytes :: "EFI_TIME \<Rightarrow> bytes" where
  "time_bytes t = le16 (tm_Year t) @ [tm_Month t, tm_Day t, tm_Hour t, tm_Minute t,
     tm_Second t, tm_Pad1 t] @ le32 (tm_Nanosecond t) @ le16 (tm_TimeZone t) @
     [tm_Daylight t, tm_Pad2 t]"

definition rd_time :: "bytes \<Rightarrow> nat \<Rightarrow> EFI_TIME option" where
  "rd_time bs off = do {
     y \<leftarrow> rd16 bs off; mo \<leftarrow> rd8 bs (off + 2); d \<leftarrow> rd8 bs (off + 3);
     h \<leftarrow> rd8 bs (off + 4); mi \<leftarrow> rd8 bs (off + 5); s \<leftarrow> rd8 bs (off + 6);
     p1 \<leftarrow> rd8 bs (off + 7); ns \<leftarrow> rd32 bs (off + 8); tz \<leftarrow> rd16 bs (off + 12);
     dl \<leftarrow> rd8 bs (off + 14); p2 \<leftarrow> rd8 bs (off + 15);
     Some \<lparr>tm_Year = y, tm_Month = mo, tm_Day = d, tm_Hour = h, tm_Minute = mi,
       tm_Second = s, tm_Pad1 = p1, tm_Nanosecond = ns, tm_TimeZone = tz,
       tm_Daylight = dl, tm_Pad2 = p2\<rparr> }"

text \<open>
  A node of an XML tree: name, value (NULL when absent), attributes, whether the node
  carries the XML declaration (only the root of a parsed document does) and the children.
  A pointer to a node of a tree under construction is the path of child positions that
  leads to it from the root.
\<close>

datatype xml_node = XmlNode
  (xn_Name: string) (xn_Value: "string option") (xn_Attributes: "(string \<times> string) list")
  (xn_Declaration: bool) (xn_Children: "xml_node list")

fun node_at :: "xml_node \<Rightarrow> nat list \<Rightarrow> xml_node option" where
  "node_at n [] = Some n"
| "node_at n (i # is) =
     (if i < length (xn_Children n) then node_at (xn_Children n ! i) is else None)"

section \<open>The services\<close>

text \<open>
  \<open>GetVariable\<close> returns status, contents and attributes (\<open>GetVariable2\<close>/\<open>GetVariable3\<close> of
  UefiLib); \<open>SetVariable\<close> with attributes 0 and no data deletes.  \<open>CreateXmlTree\<close> yields the
  root, \<open>FindFirstChildNodeByName\<close> the position of a child, \<open>FindFirstAttributeByName\<close> the
  value of an attribute; \<open>AddNode\<close> takes a tree and the path of the parent and returns the
  new tree and the path of the new node.
\<close>

record 's platform =
  AllocatePool :: "nat \<Rightarrow> 's \<Rightarrow> bool \<times> 's"
  GetVariable :: "string \<Rightarrow> string \<Rightarrow> 's \<Rightarrow> EFI_STATUS \<times> bytes \<times> u32"
  SetVariable :: "string \<Rightarrow> string \<Rightarrow> u32 \<Rightarrow> bytes \<Rightarrow> 's \<Rightarrow> EFI_STATUS \<times> 's"
  GetTime :: "'s \<Rightarrow> EFI_STATUS \<times> EFI_TIME \<times> 's"
  CreateXmlTree :: "string \<Rightarrow> 's \<Rightarrow> EFI_STATUS \<times> xml_node \<times> 's"
  FindFirstChildNodeByName :: "xml_node \<Rightarrow> string \<Rightarrow> nat option"
  FindFirstAttributeByName :: "xml_node \<Rightarrow> string \<Rightarrow> string option"
  AddNode :: "xml_node \<Rightarrow> nat list \<Rightarrow> string \<Rightarrow> string option \<Rightarrow> 's
    \<Rightarrow> EFI_STATUS \<times> xml_node \<times> nat list \<times> 's"
  AddAttributeToNode :: "xml_node \<Rightarrow> nat list \<Rightarrow> string \<Rightarrow> string \<Rightarrow> 's
    \<Rightarrow> EFI_STATUS \<times> xml_node \<times> 's"
  XmlTreeToString :: "xml_node \<Rightarrow> 's \<Rightarrow> EFI_STATUS \<times> string \<times> nat \<times> 's"
  AsciiStrDecimalToUintn :: "string option \<Rightarrow> u64"
  AsciiValueToStringS :: "nat \<Rightarrow> bool \<Rightarrow> u64 \<Rightarrow> nat \<Rightarrow> EFI_STATUS \<times> string"
  AsciiSPrint_date :: "EFI_TIME \<Rightarrow> string"
  DfciV1TranslateEnum :: "u32 \<Rightarrow> string option"
  DfciV1TranslateString :: "string \<Rightarrow> string option"
  DfciGetGroupEntries :: "(string \<times> string list) list option"
  GetSectionFromAnyFv :: "'s \<Rightarrow> EFI_STATUS \<times> string"
  PcdUnsignedListFormatAllow :: bool

definition child_by_name :: "'s platform \<Rightarrow> xml_node \<Rightarrow> string \<Rightarrow> xml_node option option" where
  "child_by_name U n nm = (case FindFirstChildNodeByName U n nm of None \<Rightarrow> Some None
     | Some i \<Rightarrow> if i < length (xn_Children n) then Some (Some (xn_Children n ! i)) else None)"

section \<open>What the proofs use of the services\<close>

text \<open>The reads and writes of the variable service that must not disturb variables.\<close>

definition same_vars :: "'s platform \<Rightarrow> 's \<Rightarrow> 's \<Rightarrow> bool" where
  "same_vars U s s' \<longleftrightarrow> (\<forall>n g. GetVariable U n g s' = GetVariable U n g s)"

text \<open>Memory allocation succeeds, and neither it nor the clock touches variables.\<close>

definition alloc_succeeds :: "'s platform \<Rightarrow> bool" where
  "alloc_succeeds U \<longleftrightarrow> (\<forall>n s. fst (AllocatePool U n s))"

definition alloc_keeps_vars :: "'s platform \<Rightarrow> bool" where
  "alloc_keeps_vars U \<longleftrightarrow> (\<forall>n s. same_vars U s (snd (AllocatePool U n s)))
     \<and> (\<forall>s. same_vars U s (snd (snd (GetTime U s))))"

text \<open>
  The UEFI specification of the variable services: after a successful \<open>SetVariable\<close> of
  non-empty data the variable reads back as written; other variables keep their values.  The code
  writes data with the attributes 3 and 7 only and, when it puts the TLS certificate back, with those the
  variable had; it never writes data with the attribute 0 or with \<open>EFI_VARIABLE_APPEND_WRITE\<close>.
\<close>

definition variable_laws :: "'s platform \<Rightarrow> bool" where
  "variable_laws U \<longleftrightarrow>
     (\<forall>n g a d s st s'. SetVariable U n g a d s = (st, s') \<longrightarrow> \<not> EFI_ERROR st \<longrightarrow> d \<noteq> [] \<longrightarrow>
        GetVariable U n g s' = (EFI_SUCCESS, d, a))
   \<and> (\<forall>n g a d s st s' n' g'. SetVariable U n g a d s = (st, s') \<longrightarrow> (n', g') \<noteq> (n, g) \<longrightarrow>
        GetVariable U n' g' s' = GetVariable U n' g' s)
   \<and> (\<forall>n g a d s st s'. SetVariable U n g a d s = (st, s') \<longrightarrow> EFI_ERROR st \<longrightarrow>
        same_vars U s s')"

text \<open>The XML tree library works on memory only.\<close>

definition xml_keeps_vars :: "'s platform \<Rightarrow> bool" where
  "xml_keeps_vars U \<longleftrightarrow> (\<forall>t s. same_vars U s (snd (snd (CreateXmlTree U t s))))
     \<and> (\<forall>t p n v s. same_vars U s (snd (snd (snd (AddNode U t p n v s)))))
     \<and> (\<forall>t p n w s. same_vars U s (snd (snd (AddAttributeToNode U t p n w s))))
     \<and> (\<forall>t s. same_vars U s (snd (snd (snd (XmlTreeToString U t s)))))"

lemma same_vars_refl [simp]: "same_vars U s s"
  by (simp add: same_vars_def)

lemma same_vars_trans: "same_vars U a b \<Longrightarrow> same_vars U b c \<Longrightarrow> same_vars U a c"
  by (simp add: same_vars_def)

lemma alloc_succeedsD: "alloc_succeeds U \<Longrightarrow> AllocatePool U n s = (ok, s') \<Longrightarrow> ok"
  by (metis alloc_succeeds_def fst_conv)

lemma alloc_keeps_varsD:
  "alloc_keeps_vars U \<Longrightarrow> AllocatePool U n s = (ok, s') \<Longrightarrow> same_vars U s s'"
  "alloc_keeps_vars U \<Longrightarrow> GetTime U s = (st, t, s') \<Longrightarrow> same_vars U s s'"
  by (metis alloc_keeps_vars_def snd_conv)+

lemma variable_lawsD:
  "variable_laws U \<Longrightarrow> SetVariable U n g a d s = (st, s') \<Longrightarrow> \<not> EFI_ERROR st \<Longrightarrow> d \<noteq> [] \<Longrightarrow>
     GetVariable U n g s' = (EFI_SUCCESS, d, a)"
  "variable_laws U \<Longrightarrow> SetVariable U n g a d s = (st, s') \<Longrightarrow> (n', g') \<noteq> (n, g) \<Longrightarrow>
     GetVariable U n' g' s' = GetVariable U n' g' s"
  "variable_laws U \<Longrightarrow> SetVariable U n g a d s = (st, s') \<Longrightarrow> EFI_ERROR st \<Longrightarrow> same_vars U s s'"
  by (simp_all add: variable_laws_def)

lemma xml_vars:
  assumes "xml_keeps_vars U"
  shows "CreateXmlTree U t s = (st, n, s') \<Longrightarrow> same_vars U s s'"
    "AddNode U t' p nm v s = (st, n, q, s') \<Longrightarrow> same_vars U s s'"
    "AddAttributeToNode U t' p nm w s = (st, n, s') \<Longrightarrow> same_vars U s s'"
    "XmlTreeToString U t' s = (st, x, k, s') \<Longrightarrow> same_vars U s s'"
  using assms unfolding xml_keeps_vars_def by (metis snd_conv)+

lemma length_time_bytes [simp, enc_length]: "length (time_bytes t) = 16"
  by (simp add: time_bytes_def)

lemma time_roundtrip:
  assumes "length xs = off"
  shows "rd_time (xs @ time_bytes t @ ys) off = Some t"
proof -
  have s: "rd_time (xs @ zs) off = rd_time zs 0" for zs
    using assms by (simp add: rd_time_def rd16_def rd32_def rd8_shift rd_shift del: add_2_eq_Suc')
  obtain a b where y: "le16 (tm_Year t) = [a, b]"
    by (metis length_2E length_le(1))
  obtain c d where z: "le16 (tm_TimeZone t) = [c, d]"
    by (metis length_2E length_le(1))
  obtain e f g h where n: "le32 (tm_Nanosecond t) = [e, f, g, h]"
    by (metis length_4E length_le(2))
  have "word_of_nat (le_nat [a, b]) = tm_Year t" "word_of_nat (le_nat [c, d]) = tm_TimeZone t"
    "word_of_nat (le_nat [e, f, g, h]) = tm_Nanosecond t"
    using le_nat_le y z n by metis+
  then show ?thesis
    unfolding s by (simp add: rd_time_def time_bytes_def y z n rd16_def rd32_def rd_def rd8_def
        numeral_eq_Suc del: le_nat.simps)
qed

section \<open>A concrete platform\<close>

text \<open>
  The smallest platform on which the laws above hold: variables in an association list,
  documents in a table from text to tree, memory that never runs out and a clock that stands.
  It instantiates the platform in the concrete instances of the theorems.
\<close>

record demo_state =
  dm_vars :: "((string \<times> string) \<times> bytes \<times> u32) list"
  dm_docs :: "(string \<times> xml_node) list"

fun add_child :: "xml_node \<Rightarrow> nat list \<Rightarrow> xml_node \<Rightarrow> xml_node" where
  "add_child (XmlNode n v a d cs) [] c = XmlNode n v a d (cs @ [c])"
| "add_child (XmlNode n v a d cs) (i # is) c =
     (if i < length cs then XmlNode n v a d (cs[i := add_child (cs ! i) is c])
      else XmlNode n v a d cs)"

fun parse_decimal :: "nat \<Rightarrow> string \<Rightarrow> nat" where
  "parse_decimal acc [] = acc"
| "parse_decimal acc (c # cs) =
     (if is_digit c then parse_decimal (10 * acc + (of_char c - 48)) cs else acc)"

definition demo_platform :: "demo_state platform" where
  "demo_platform = \<lparr>
     AllocatePool = (\<lambda>n s. (True, s)),
     GetVariable = (\<lambda>n g s. case map_of (dm_vars s) (n, g) of
        None \<Rightarrow> (EFI_NOT_FOUND, [], 0) | Some (d, a) \<Rightarrow> (EFI_SUCCESS, d, a)),
     SetVariable = (\<lambda>n g a d s.
        (EFI_SUCCESS, s\<lparr>dm_vars := (if d = [] then filter (\<lambda>p. fst p \<noteq> (n, g)) (dm_vars s)
                                  else ((n, g), (d, a)) # dm_vars s)\<rparr>)),
     GetTime = (\<lambda>s. (EFI_SUCCESS, zero_time, s)),
     CreateXmlTree = (\<lambda>t s. case map_of (dm_docs s) t of
        None \<Rightarrow> (EFI_NOT_FOUND, XmlNode [] None [] False [], s) | Some n \<Rightarrow> (EFI_SUCCESS, n, s)),
     FindFirstChildNodeByName = (\<lambda>n nm. first_index (\<lambda>c. xn_Name c = nm) (xn_Children n)),
     FindFirstAttributeByName = (\<lambda>n nm. map_of (xn_Attributes n) nm),
     AddNode = (\<lambda>t p nm v s. (EFI_SUCCESS, add_child t p (XmlNode nm v [] False []),
        p @ [case node_at t p of None \<Rightarrow> 0 | Some n \<Rightarrow> length (xn_Children n)], s)),
     AddAttributeToNode = (\<lambda>t p nm v s. (EFI_SUCCESS, t, s)),
     XmlTreeToString = (\<lambda>t s. (EFI_SUCCESS, ''<xml/>'', 7, s)),
     AsciiStrDecimalToUintn = (\<lambda>v. case v of None \<Rightarrow> 0 | Some t \<Rightarrow> word_of_nat (parse_decimal 0 t)),
     AsciiValueToStringS = (\<lambda>sz hex v w. (EFI_SUCCESS, ''0'')),
     AsciiSPrint_date = (\<lambda>t. ''2020-01-01T00:00:00''),
     DfciV1TranslateEnum = (\<lambda>e. if e = 1 then Some ''Dfci.OwnerKey.Enum'' else None),
     DfciV1TranslateString = (\<lambda>t. None),
     DfciGetGroupEntries = Some [(''G1'', [''A'', ''B'']), (''G2'', [''B''])],
     GetSectionFromAnyFv = (\<lambda>s. (EFI_NOT_FOUND, [])),
     PcdUnsignedListFormatAllow = True\<rparr>"

lemma demo_services [demo_simps]:
  "AllocatePool demo_platform n s = (True, s)"
  "GetVariable demo_platform nm g s = (case map_of (dm_vars s) (nm, g) of
     None \<Rightarrow> (EFI_NOT_FOUND, [], 0) | Some (d, a) \<Rightarrow> (EFI_SUCCESS, d, a))"
  "SetVariable demo_platform nm g a d s =
     (EFI_SUCCESS, s\<lparr>dm_vars := (if d = [] then filter (\<lambda>p. fst p \<noteq> (nm, g)) (dm_vars s)
        else ((nm, g), (d, a)) # dm_vars s)\<rparr>)"
  "GetTime demo_platform s = (EFI_SUCCESS, zero_time, s)"
  "CreateXmlTree demo_platform t s = (case map_of (dm_docs s) t of
     None \<Rightarrow> (EFI_NOT_FOUND, XmlNode [] None [] False [], s) | Some n \<Rightarrow> (EFI_SUCCESS, n, s))"
  "FindFirstChildNodeByName demo_platform nd nm = first_index (\<lambda>c. xn_Name c = nm) (xn_Children nd)"
  "FindFirstAttributeByName demo_platform nd nm = map_of (xn_Attributes nd) nm"
  "AddNode demo_platform nd p nm v s = (EFI_SUCCESS, add_child nd p (XmlNode nm v [] False []),
     p @ [case node_at nd p of None \<Rightarrow> 0 | Some n \<Rightarrow> length (xn_Children n)], s)"
  "AddAttributeToNode demo_platform nd p nm w s = (EFI_SUCCESS, nd, s)"
  "XmlTreeToString demo_platform nd s = (EFI_SUCCESS, ''<xml/>'', 7, s)"
  "AsciiStrDecimalToUintn demo_platform v = (case v of None \<Rightarrow> 0 | Some t \<Rightarrow> word_of_nat (parse_decimal 0 t))"
  "AsciiValueToStringS demo_platform sz hex u wd = (EFI_SUCCESS, ''0'')"
  "DfciV1TranslateString demo_platform t = None"
  "DfciGetGroupEntries demo_platform = Some [(''G1'', [''A'', ''B'']), (''G2'', [''B''])]"
  "GetSectionFromAnyFv demo_platform s = (EFI_NOT_FOUND, [])"
  "PcdUnsignedListFormatAllow demo_platform"
  by (simp_all add: demo_platform_def)

lemma map_of_filter_other:
  "map_of (filter (\<lambda>p. fst p \<noteq> k) xs) j = (if j = k then None else map_of xs j)"
  by (induction xs) auto

lemma demo_laws:
  "alloc_succeeds demo_platform" "alloc_keeps_vars demo_platform" "variable_laws demo_platform"
  "xml_keeps_vars demo_platform"
  by (auto simp: demo_simps alloc_succeeds_def alloc_keeps_vars_def variable_laws_def xml_keeps_vars_def
      map_of_filter_other split: if_splits option.splits)

end
