(* ===== verification/Permission_Store.thy ===== *)
theory Permission_Store
  imports Platform
begin

text \<open>
  The in-memory permission store (\<open>PermissionStoreSupport.c\<close>, \<open>DfciSettingPermission.h\<close> and the
  identity masks of \<open>DfciSystemSettingTypes.h\<close>): a list of permission entries searched from
  the front.  A \<open>DFCI_PERMISSION_STORE *\<close> is a \<open>perm_store option\<close> (\<open>None\<close> is NULL), a pointer to
  an entry is its position in the list.

  The theory shows that the list behaves as a finite map from setting ids to mask pairs
  (the interface \<open>permission_table\<close>), that every operation keeps the entries well formed,
  and what marking and sweeping delete.
\<close>

section \<open>Identities and masks\<close>

type_synonym DFCI_PERMISSION_MASK = u8
type_synonym DFCI_IDENTITY_ID = u8

abbreviation (input) DFCI_IDENTITY_INVALID :: u8 where "DFCI_IDENTITY_INVALID \<equiv> 0x00"
abbreviation (input) DFCI_IDENTITY_LOCAL :: u8 where "DFCI_IDENTITY_LOCAL \<equiv> 0x01"
abbreviation (input) DFCI_IDENTITY_UNSIGNED_LOCAL :: u8 where "DFCI_IDENTITY_UNSIGNED_LOCAL \<equiv> 0x02"
abbreviation (input) DFCI_IDENTITY_SIGNER_ZTD :: u8 where "DFCI_IDENTITY_SIGNER_ZTD \<equiv> 0x08"
abbreviation (input) DFCI_IDENTITY_SIGNER_USER2 :: u8 where "DFCI_IDENTITY_SIGNER_USER2 \<equiv> 0x10"
abbreviation (input) DFCI_IDENTITY_SIGNER_USER1 :: u8 where "DFCI_IDENTITY_SIGNER_USER1 \<equiv> 0x20"
abbreviation (input) DFCI_IDENTITY_SIGNER_USER :: u8 where "DFCI_IDENTITY_SIGNER_USER \<equiv> 0x40"
abbreviation (input) DFCI_IDENTITY_SIGNER_OWNER :: u8 where "DFCI_IDENTITY_SIGNER_OWNER \<equiv> 0x80"
abbreviation (input) DFCI_IDENTITY_NOT_SPECIFIED :: u8 where "DFCI_IDENTITY_NOT_SPECIFIED \<equiv> 0xFE"

abbreviation (input) DFCI_PERMISSION_MASK__NONE :: u8 where "DFCI_PERMISSION_MASK__NONE \<equiv> 0"

definition DFCI_PERMISSION_MASK__ALL :: u8 where
  "DFCI_PERMISSION_MASK__ALL = DFCI_IDENTITY_LOCAL OR DFCI_IDENTITY_SIGNER_ZTD OR
     DFCI_IDENTITY_SIGNER_USER OR DFCI_IDENTITY_SIGNER_USER1 OR DFCI_IDENTITY_SIGNER_USER2 OR
     DFCI_IDENTITY_SIGNER_OWNER"

definition DFCI_PERMISSION_MASK__USERS :: u8 where
  "DFCI_PERMISSION_MASK__USERS = DFCI_IDENTITY_SIGNER_USER OR DFCI_IDENTITY_SIGNER_USER1 OR
     DFCI_IDENTITY_SIGNER_USER2 OR DFCI_IDENTITY_SIGNER_OWNER"

definition DFCI_PERMISSION_MASK__DEFAULT :: u8 where
  "DFCI_PERMISSION_MASK__DEFAULT = DFCI_IDENTITY_LOCAL"

definition DFCI_PERMISSION_MASK__DEFAULT_UNSIGNED :: u8 where
  "DFCI_PERMISSION_MASK__DEFAULT_UNSIGNED = DFCI_IDENTITY_LOCAL OR DFCI_IDENTITY_UNSIGNED_LOCAL"

definition DFCI_PERMISSION_MASK__DELEGATED_DEFAULT :: u8 where
  "DFCI_PERMISSION_MASK__DELEGATED_DEFAULT = DFCI_IDENTITY_SIGNER_OWNER"

lemmas mask_defs = DFCI_PERMISSION_MASK__ALL_def DFCI_PERMISSION_MASK__USERS_def
  DFCI_PERMISSION_MASK__DEFAULT_def DFCI_PERMISSION_MASK__DEFAULT_UNSIGNED_def
  DFCI_PERMISSION_MASK__DELEGATED_DEFAULT_def

text \<open>\<open>HighBitSet32\<close> of BaseLib: position of the highest set bit, \<open>None\<close> (-1 in C) for 0.\<close>

definition HighBitSet32 :: "u32 \<Rightarrow> nat option" where
  "HighBitSet32 w = find (bit w) (rev [0..<32])"

definition HIGHEST_IDENTITY :: "DFCI_PERMISSION_MASK \<Rightarrow> u32" where
  "HIGHEST_IDENTITY m =
     (case HighBitSet32 (ucast (m AND DFCI_PERMISSION_MASK__USERS)) of
        None \<Rightarrow> 0 | Some k \<Rightarrow> push_bit k 1)"

abbreviation (input) DFCI_MAX_ID_SIZE :: nat where "DFCI_MAX_ID_SIZE \<equiv> 97"
abbreviation (input) DFCI_MAX_ID_LEN :: nat where "DFCI_MAX_ID_LEN \<equiv> 96"

section \<open>The store\<close>

record perm_entry =
  pe_Id :: string
  pe_PMask :: DFCI_PERMISSION_MASK
  pe_DMask :: DFCI_PERMISSION_MASK
  pe_IdSize :: u8
  pe_MarkedForDeletion :: bool

record perm_store =
  ps_Version :: u32
  ps_Lsv :: u32
  ps_Modified :: bool
  ps_CreatedOn :: EFI_TIME
  ps_SavedOn :: EFI_TIME
  ps_DefaultPMask :: DFCI_PERMISSION_MASK
  ps_DefaultDMask :: DFCI_PERMISSION_MASK
  ps_List :: "perm_entry list"

definition entry_matches :: "string \<Rightarrow> nat \<Rightarrow> perm_entry \<Rightarrow> bool" where
  "entry_matches i IdSize e \<longleftrightarrow> IdSize = unat (pe_IdSize e) \<and> AsciiStrnCmp_eq (pe_Id e) i IdSize"

definition FindPermissionEntry :: "perm_store option \<Rightarrow> string option \<Rightarrow> nat option" where
  "FindPermissionEntry Store IdPtr = (case Store of None \<Rightarrow> None | Some S \<Rightarrow>
     (case IdPtr of None \<Rightarrow> None | Some i \<Rightarrow>
        let IdSize = AsciiStrnSizeS i DFCI_MAX_ID_SIZE in
        if IdSize < 1 \<or> IdSize > DFCI_MAX_ID_SIZE then None
        else first_index (entry_matches i IdSize) (ps_List S)))"

definition AddPermissionEntry :: "'s platform \<Rightarrow> string option \<Rightarrow> u8 \<Rightarrow> u8 \<Rightarrow> perm_store option \<Rightarrow> 's
    \<Rightarrow> EFI_STATUS \<times> perm_store option \<times> 's" where
  "AddPermissionEntry U IdPtr PMask DMask Store s = (case Store of
     None \<Rightarrow> (EFI_INVALID_PARAMETER, Store, s)
   | Some S \<Rightarrow> (case IdPtr of None \<Rightarrow> (EFI_INVALID_PARAMETER, Store, s)
   | Some i \<Rightarrow>
       if starts_numeric i then (EFI_SUCCESS, Store, s)
       else
         let IdSize = AsciiStrnSizeS i DFCI_MAX_ID_SIZE in
         if IdSize < 1 \<or> IdSize > DFCI_MAX_ID_SIZE then (EFI_INVALID_PARAMETER, Store, s)
         else case AllocatePool U (40 + IdSize) s of (ok, s') \<Rightarrow>
           if \<not> ok then (EFI_ABORTED, Store, s')
           else (EFI_SUCCESS,
             Some (S\<lparr>ps_List := ps_List S @ [\<lparr>pe_Id = i, pe_PMask = PMask, pe_DMask = DMask,
               pe_IdSize = word_of_nat IdSize, pe_MarkedForDeletion = False\<rparr>]\<rparr>), s')))"

definition set_masks :: "nat \<Rightarrow> u8 \<Rightarrow> u8 \<Rightarrow> perm_store \<Rightarrow> perm_store" where
  "set_masks k PMask DMask S =
     S\<lparr>ps_List := (ps_List S)[k := (ps_List S ! k)\<lparr>pe_PMask := PMask, pe_DMask := DMask\<rparr>]\<rparr>"

definition AddRequiredPermissionEntry :: "'s platform \<Rightarrow> string option \<Rightarrow> u8 \<Rightarrow> u8
    \<Rightarrow> perm_store option \<Rightarrow> 's \<Rightarrow> EFI_STATUS \<times> perm_store option \<times> 's" where
  "AddRequiredPermissionEntry U IdPtr PMask DMask Store s =
     (case FindPermissionEntry Store IdPtr of
        None \<Rightarrow> AddPermissionEntry U IdPtr PMask DMask Store s
      | Some k \<Rightarrow> (EFI_SUCCESS, map_option (set_masks k PMask DMask) Store, s))"

definition FreePermissionStore :: "perm_store option \<Rightarrow> perm_store option" where
  "FreePermissionStore Store = None"

definition GetNumberOfPermissionEntires :: "perm_store option \<Rightarrow> nat \<times> nat" where
  "GetNumberOfPermissionEntires Store = (case Store of None \<Rightarrow> (0, 0) | Some S \<Rightarrow>
     fold (\<lambda>e (Count, Total). (Count + 1, Total + unat (pe_IdSize e))) (ps_List S) (0, 0))"

definition mark_entry :: "DFCI_IDENTITY_ID \<Rightarrow> perm_entry \<Rightarrow> perm_entry" where
  "mark_entry Ident e =
     (if pe_DMask e AND DFCI_PERMISSION_MASK__USERS \<noteq> 0 then
        (if ucast Ident AND HIGHEST_IDENTITY (pe_DMask e) \<noteq> 0 then e\<lparr>pe_MarkedForDeletion := True\<rparr> else e)
      else e)"

definition MarkPermissionEntriesForDeletion :: "DFCI_IDENTITY_ID \<Rightarrow> perm_store option
    \<Rightarrow> EFI_STATUS \<times> perm_store option" where
  "MarkPermissionEntriesForDeletion Ident Store = (case Store of
     None \<Rightarrow> (EFI_INVALID_PARAMETER, None)
   | Some S \<Rightarrow> (EFI_SUCCESS, Some (S\<lparr>ps_List := map (mark_entry Ident) (ps_List S)\<rparr>)))"

definition DeleteMarkedPermissionEntries :: "perm_store option \<Rightarrow> EFI_STATUS \<times> perm_store option" where
  "DeleteMarkedPermissionEntries Store = (case Store of
     None \<Rightarrow> (EFI_INVALID_PARAMETER, None)
   | Some S \<Rightarrow> (EFI_SUCCESS,
       Some (S\<lparr>ps_List := filter (\<lambda>e. \<not> pe_MarkedForDeletion e) (ps_List S)\<rparr>)))"

definition DeletePermissionEntry :: "string option \<Rightarrow> perm_store option
    \<Rightarrow> EFI_STATUS \<times> perm_store option" where
  "DeletePermissionEntry IdPtr Store = (case Store of
     None \<Rightarrow> (EFI_INVALID_PARAMETER, None)
   | Some S \<Rightarrow> (case IdPtr of None \<Rightarrow> (EFI_INVALID_PARAMETER, Store)
   | Some i \<Rightarrow>
       let IdSize = AsciiStrnSizeS i DFCI_MAX_ID_SIZE in
       if IdSize < 1 \<or> IdSize > DFCI_MAX_ID_SIZE then (EFI_INVALID_PARAMETER, Store)
       else case first_index (entry_matches i IdSize) (ps_List S) of
          None \<Rightarrow> (EFI_NOT_FOUND, Store)
        | Some k \<Rightarrow> (EFI_SUCCESS, Some (S\<lparr>ps_List := remove_nth k (ps_List S)\<rparr>))))"

section \<open>Well-formed stores\<close>

text \<open>
  An entry is well formed when \<open>IdSize\<close> is the size of its id with the NUL, the id fits and is
  a setting name (an id that starts with a digit is an untranslated V1 number).  In a
  \<open>keyed\<close> store no two entries share an id.
\<close>

definition wf_id :: "string \<Rightarrow> bool" where
  "wf_id i \<longleftrightarrow> length i \<le> DFCI_MAX_ID_LEN \<and> \<not> starts_numeric i"

definition wf_entry :: "perm_entry \<Rightarrow> bool" where
  "wf_entry e \<longleftrightarrow> wf_id (pe_Id e) \<and> unat (pe_IdSize e) = length (pe_Id e) + 1"

definition wf_list :: "perm_entry list \<Rightarrow> bool" where
  "wf_list es \<longleftrightarrow> (\<forall>e\<in>set es. wf_entry e)"

definition wf_store :: "perm_store \<Rightarrow> bool" where
  "wf_store S \<longleftrightarrow> wf_list (ps_List S)"

definition keyed :: "perm_store \<Rightarrow> bool" where
  "keyed S \<longleftrightarrow> distinct (map pe_Id (ps_List S))"

definition wf_ref :: "perm_store option \<Rightarrow> bool" where
  "wf_ref Store \<longleftrightarrow> (case Store of None \<Rightarrow> False | Some S \<Rightarrow> wf_store S)"

text \<open>The finite map the list stands for.\<close>

definition entry_masks :: "perm_entry \<Rightarrow> u8 \<times> u8" where
  "entry_masks e = (pe_PMask e, pe_DMask e)"

definition perm_map :: "perm_store \<Rightarrow> string \<Rightarrow> (u8 \<times> u8) option" where
  "perm_map S = map_of (map (\<lambda>e. (pe_Id e, entry_masks e)) (ps_List S))"

definition perm_lookup :: "perm_store option \<Rightarrow> string \<Rightarrow> (u8 \<times> u8) option" where
  "perm_lookup Store i = (case Store of None \<Rightarrow> None | Some S \<Rightarrow>
     map_option (\<lambda>k. entry_masks (ps_List S ! k)) (FindPermissionEntry Store (Some i)))"

section \<open>The interface of the store\<close>

text \<open>
  What the clients of the store rely on: a table from ids to masks, with an operation that
  adds or overwrites one id and reports a status.  Nothing but that id changes, and a failed
  call changes nothing.
\<close>

locale permission_table =
  fixes inv :: "'t \<Rightarrow> bool"
    and storable :: "string \<Rightarrow> bool"
    and lookup :: "'t \<Rightarrow> string \<Rightarrow> (u8 \<times> u8) option"
    and put :: "string option \<Rightarrow> u8 \<Rightarrow> u8 \<Rightarrow> 't \<Rightarrow> 's \<Rightarrow> EFI_STATUS \<times> 't \<times> 's"
  assumes put_inv: "inv t \<Longrightarrow> put (Some k) p d t s = (st, t', s') \<Longrightarrow> inv t'"
    and lookup_put: "inv t \<Longrightarrow> storable k \<Longrightarrow> put (Some k) p d t s = (st, t', s') \<Longrightarrow>
        lookup t' j = (if \<not> EFI_ERROR st \<and> j = k then Some (p, d) else lookup t j)"
begin

text \<open>A sequence of such calls whose statuses are ignored, as the code makes them.\<close>

fun put_all :: "(string \<times> u8 \<times> u8) list \<Rightarrow> 't \<Rightarrow> 's \<Rightarrow> 't \<times> 's" where
  "put_all [] t s = (t, s)"
| "put_all ((k, p, d) # ks) t s = (case put (Some k) p d t s of (st, t', s') \<Rightarrow> put_all ks t' s')"

lemma put_all_inv: "inv t \<Longrightarrow> put_all ks t s = (t', s') \<Longrightarrow> inv t'"
  by (induction ks t s rule: put_all.induct) (auto split: prod.splits dest: put_inv)

text \<open>Each id of the sequence ends with one of the masks written for it, or is as before.\<close>

lemma put_all_member:
  "inv t \<Longrightarrow> \<forall>x\<in>set ks. storable (fst x) \<Longrightarrow> put_all ks t s = (t', s') \<Longrightarrow>
   lookup t' j = lookup t j \<or> (\<exists>m. (j, m) \<in> set ks \<and> lookup t' j = Some m)"
proof (induction ks t s rule: put_all.induct)
  case (1 t s)
  then show ?case by simp
next
  case (2 k p d ks t s)
  obtain st t1 s1 where p: "put (Some k) p d t s = (st, t1, s1)" by (metis prod_cases3)
  with 2 have "lookup t' j = lookup t1 j \<or> (\<exists>m. (j, m) \<in> set ks \<and> lookup t' j = Some m)"
    by (auto dest: put_inv)
  moreover have "lookup t1 j = lookup t j \<or> j = k \<and> lookup t1 j = Some (p, d)"
    using lookup_put [OF _ _ p] 2 by auto
  ultimately show ?case by auto
qed

text \<open>When no call fails, distinct ids end with their own masks.\<close>

lemma put_all_lookup:
  assumes "inv t" "\<forall>x\<in>set ks. storable (fst x)" "distinct (map fst ks)" "put_all ks t s = (t', s')"
    and total: "\<And>t k p d s. inv t \<Longrightarrow> storable k \<Longrightarrow> \<not> EFI_ERROR (fst (put (Some k) p d t s))"
    and "(j, m) \<in> set ks"
  shows "lookup t' j = Some m"
  using assms(1-4,6)
proof (induction ks t s rule: put_all.induct)
  case (1 t s)
  then show ?case by simp
next
  case (2 k p d ks t s)
  obtain st t1 s1 where p: "put (Some k) p d t s = (st, t1, s1)" by (metis prod_cases3)
  have t1: "inv t1" "put_all ks t1 s1 = (t', s')" "\<not> EFI_ERROR st"
    using 2 p put_inv total [of t k p d s] by auto
  show ?case
  proof (cases "j = k")
    case True
    have k: "k \<notin> fst ` set ks" using 2(4) by simp
    then have "m = (p, d)" using 2(6) True by force
    moreover have "lookup t1 j = Some (p, d)"
      using lookup_put [OF 2(2) _ p] 2(3) t1(3) True by simp
    moreover have "\<nexists>m. (j, m) \<in> set ks" using k True by force
    ultimately show ?thesis
      using put_all_member [OF t1(1) _ t1(2), of j] 2(3) by simp
  next
    case False
    then show ?thesis using 2 p t1 by auto
  qed
qed

lemma put_all_keeps:
  assumes "put_all ks t s = (t', s')" "\<And>t k p d s. f (fst (snd (put (Some k) p d t s))) = f t"
  shows "f t' = f t"
  using assms(1)
proof (induction ks t s rule: put_all.induct)
  case (2 k p d ks t s)
  then show ?case using assms(2) [of k p d t s] by (auto split: prod.splits)
qed simp

corollary put_all_other:
  "inv t \<Longrightarrow> \<forall>x\<in>set ks. storable (fst x) \<Longrightarrow> put_all ks t s = (t', s') \<Longrightarrow> j \<notin> fst ` set ks \<Longrightarrow>
   lookup t' j = lookup t j"
  using put_all_member [of t ks s t' s' j] by force

end

section \<open>The store implements the interface\<close>

lemma wf_entry_length: "wf_entry e \<Longrightarrow> length (pe_Id e) \<le> DFCI_MAX_ID_LEN"
  by (simp add: wf_entry_def wf_id_def)

lemma entry_matches_iff:
  assumes "wf_entry e" "length i \<le> DFCI_MAX_ID_LEN"
  shows "entry_matches i (Suc (length i)) e \<longleftrightarrow> pe_Id e = i"
proof -
  have "unat (pe_IdSize e) = Suc (length (pe_Id e))"
    using assms by (simp add: wf_entry_def)
  moreover have "length i = length j \<Longrightarrow> take (Suc (length i)) j = take (Suc (length i)) i \<longleftrightarrow> j = i" for j
    by simp
  ultimately show ?thesis
    unfolding entry_matches_def AsciiStrnCmp_eq_def by (metis Suc_inject)
qed

lemma first_index_cong: "(\<And>x. x \<in> set xs \<Longrightarrow> P x = Q x) \<Longrightarrow> first_index P xs = first_index Q xs"
  by (induction xs) auto

lemma first_index_matches:
  assumes "wf_list es"
  shows "(if AsciiStrnSizeS i DFCI_MAX_ID_SIZE > DFCI_MAX_ID_SIZE then None
          else first_index (entry_matches i (AsciiStrnSizeS i DFCI_MAX_ID_SIZE)) es)
         = first_index (\<lambda>e. pe_Id e = i) es"
proof (cases "length i \<le> DFCI_MAX_ID_LEN")
  case True
  then have "AsciiStrnSizeS i DFCI_MAX_ID_SIZE = Suc (length i)"
    by (simp add: AsciiStrnSizeS_def)
  with True assms show ?thesis
    by (auto simp: wf_list_def entry_matches_iff intro!: first_index_cong)
next
  case False
  then have "first_index (\<lambda>e. pe_Id e = i) es = None"
    using assms wf_entry_length by (force simp: wf_list_def first_index_None)
  with False show ?thesis by (simp add: AsciiStrnSizeS_def)
qed

lemma AsciiStrnSizeS_pos: "\<not> AsciiStrnSizeS i n < 1"
  by (simp add: AsciiStrnSizeS_def)

lemma FindPermissionEntry_wf:
  "wf_store S \<Longrightarrow> FindPermissionEntry (Some S) (Some i) = first_index (\<lambda>e. pe_Id e = i) (ps_List S)"
  using first_index_matches [of "ps_List S" i] AsciiStrnSizeS_pos [of i DFCI_MAX_ID_SIZE]
  by (simp add: FindPermissionEntry_def Let_def wf_store_def)

lemma map_of_first_index:
  "map_of (map (\<lambda>e. (f e, g e)) es) i = map_option (\<lambda>k. g (es ! k)) (first_index (\<lambda>e. f e = i) es)"
  by (induction es) (auto simp: option.map_comp comp_def)

lemma perm_lookup_map: "wf_store S \<Longrightarrow> perm_lookup (Some S) = perm_map S"
  by (rule ext) (simp add: perm_lookup_def perm_map_def FindPermissionEntry_wf map_of_first_index)

lemma AddPermissionEntry_cases:
  assumes "AddPermissionEntry U (Some i) p d (Some S) s = (st, Store', s')"
  obtains
    (numeric) "starts_numeric i" "st = EFI_SUCCESS" "Store' = Some S" "s' = s"
  | (toolong) "\<not> starts_numeric i" "\<not> wf_id i" "st = EFI_INVALID_PARAMETER" "Store' = Some S" "s' = s"
  | (nomem) "wf_id i" "st = EFI_ABORTED" "Store' = Some S" "AllocatePool U (41 + length i) s = (False, s')"
  | (added) "wf_id i" "st = EFI_SUCCESS" "AllocatePool U (41 + length i) s = (True, s')"
      "Store' = Some (S\<lparr>ps_List := ps_List S @ [\<lparr>pe_Id = i, pe_PMask = p, pe_DMask = d,
         pe_IdSize = word_of_nat (Suc (length i)), pe_MarkedForDeletion = False\<rparr>]\<rparr>)"
proof (cases "starts_numeric i")
  case True
  then show ?thesis
    using assms numeric by (simp add: AddPermissionEntry_def)
next
  case ns: False
  show ?thesis
  proof (cases "length i \<le> DFCI_MAX_ID_LEN")
    case False
    then show ?thesis
      using assms toolong ns
      by (simp add: AddPermissionEntry_def AsciiStrnSizeS_def wf_id_def Let_def)
  next
    case True
    then have sz: "AsciiStrnSizeS i DFCI_MAX_ID_SIZE = Suc (length i)"
      by (simp add: AsciiStrnSizeS_def)
    obtain ok s1 where al: "AllocatePool U (41 + length i) s = (ok, s1)" by (metis prod.exhaust)
    then have "AllocatePool U (40 + Suc (length i)) s = (ok, s1)"
      by (simp add: add.commute)
    then show ?thesis
      using assms ns True nomem added al
      by (cases ok) (auto simp: AddPermissionEntry_def sz Let_def wf_id_def)
  qed
qed

lemma wf_entry_new:
  "wf_id i \<Longrightarrow> wf_entry \<lparr>pe_Id = i, pe_PMask = p, pe_DMask = d,
     pe_IdSize = word_of_nat (Suc (length i)), pe_MarkedForDeletion = m\<rparr>"
  by (simp add: wf_entry_def wf_id_def unat_of_nat del: of_nat_Suc)

lemma AddPermissionEntry_wf:
  "wf_store S \<Longrightarrow> AddPermissionEntry U (Some i) p d (Some S) s = (st, Store', s') \<Longrightarrow> wf_ref Store'"
  by (erule AddPermissionEntry_cases)
    (auto simp: wf_ref_def wf_store_def wf_list_def wf_entry_new simp del: of_nat_Suc of_nat_add)

lemma set_masks_wf: "wf_store S \<Longrightarrow> k < length (ps_List S) \<Longrightarrow> wf_store (set_masks k p d S)"
  by (auto simp: wf_store_def wf_list_def set_masks_def wf_entry_def dest!: set_update_subset_insert [THEN subsetD])

lemma set_masks_map:
  assumes "first_index (\<lambda>e. pe_Id e = i) (ps_List S) = Some k"
  shows "perm_map (set_masks k p d S) = (perm_map S)(i \<mapsto> (p, d))"
proof -
  from assms obtain ys x zs where
    l: "ps_List S = ys @ x # zs" "length ys = k" "pe_Id x = i" "\<forall>y\<in>set ys. pe_Id y \<noteq> i"
    by (rule first_index_split)
  have "map_of (map (\<lambda>e. (pe_Id e, entry_masks e)) ys) i = None"
    using l(4) by (auto simp: map_of_eq_None_iff)
  with l show ?thesis
    by (auto simp: perm_map_def set_masks_def entry_masks_def map_add_def fun_eq_iff
        split: option.splits)
qed

lemma AddRequiredPermissionEntry_map:
  assumes wf: "wf_store S" and i: "wf_id i"
    and r: "AddRequiredPermissionEntry U (Some i) p d (Some S) s = (st, Store', s')"
  shows "\<exists>S'. Store' = Some S' \<and> wf_store S'
     \<and> perm_map S' = (if EFI_ERROR st then perm_map S else (perm_map S)(i \<mapsto> (p, d)))"
proof (cases "first_index (\<lambda>e. pe_Id e = i) (ps_List S)")
  case (Some k)
  then have "k < length (ps_List S)" by (auto dest: first_index_SomeD)
  with Some r show ?thesis
    by (auto simp: AddRequiredPermissionEntry_def FindPermissionEntry_wf wf set_masks_wf set_masks_map)
next
  case None
  then have a: "AddPermissionEntry U (Some i) p d (Some S) s = (st, Store', s')"
    using r by (simp add: AddRequiredPermissionEntry_def FindPermissionEntry_wf wf)
  from None have n: "perm_map S i = None"
    by (simp add: perm_map_def map_of_first_index)
  from AddPermissionEntry_wf [OF wf a] obtain S' where s': "Store' = Some S'" "wf_store S'"
    by (auto simp: wf_ref_def split: option.splits)
  from a i have "perm_map S' = (if EFI_ERROR st then perm_map S else (perm_map S)(i \<mapsto> (p, d)))"
  proof (cases rule: AddPermissionEntry_cases)
    case added
    with n s'(1) show ?thesis
      by (auto simp: perm_map_def map_add_def entry_masks_def fun_eq_iff split: option.splits)
  qed (use s'(1) in \<open>auto simp: wf_id_def\<close>)
  with s' show ?thesis by blast
qed

interpretation perm_tbl: permission_table wf_ref wf_id perm_lookup "AddRequiredPermissionEntry U"
  for U
proof (unfold_locales, goal_cases)
  case (1 t k p d s st t' s')
  then obtain S where S: "t = Some S" "wf_store S" by (auto simp: wf_ref_def split: option.splits)
  show ?case
  proof (cases "first_index (\<lambda>e. pe_Id e = k) (ps_List S)")
    case (Some j)
    then have "j < length (ps_List S)" by (auto dest: first_index_SomeD)
    with Some S 1 show ?thesis
      by (auto simp: AddRequiredPermissionEntry_def FindPermissionEntry_wf set_masks_wf wf_ref_def)
  next
    case None
    with S 1 show ?thesis
      by (auto simp: AddRequiredPermissionEntry_def FindPermissionEntry_wf intro: AddPermissionEntry_wf)
  qed
next
  case (2 t k p d s st t' s' j)
  then obtain S where "t = Some S" "wf_store S" by (auto simp: wf_ref_def split: option.splits)
  with AddRequiredPermissionEntry_map [of S k U p d s st t' s'] 2 show ?case
    by (auto simp: perm_lookup_map)
qed

section \<open>Marking, sweeping and deleting\<close>

text \<open>
  An entry belongs to the most privileged user identity of its \<open>DMask\<close>, in the order owner,
  user, user1, user2; \<open>entry_owner\<close> states this without bit scanning.
\<close>

definition entry_owner :: "u8 \<Rightarrow> u8" where
  "entry_owner m = (if bit m 7 then DFCI_IDENTITY_SIGNER_OWNER
     else if bit m 6 then DFCI_IDENTITY_SIGNER_USER
     else if bit m 5 then DFCI_IDENTITY_SIGNER_USER1
     else if bit m 4 then DFCI_IDENTITY_SIGNER_USER2 else DFCI_IDENTITY_INVALID)"

definition owned_by :: "u8 \<Rightarrow> perm_entry \<Rightarrow> bool" where
  "owned_by Ident e \<longleftrightarrow> Ident AND entry_owner (pe_DMask e) \<noteq> 0"

lemma users_mask: "DFCI_PERMISSION_MASK__USERS = 0xF0"
  by (simp add: mask_defs)

lemma upto32: "rev [0..<32] = [31, 30, 29, 28, 27, 26, 25, 24, 23, 22, 21, 20, 19, 18, 17, 16, 15,
    14, 13, 12, 11, 10, 9, 8, 7, 6, 5, 4, 3, 2, 1, 0 :: nat]"
  by (simp add: upt_rec)

lemma HIGHEST_IDENTITY_owner: "HIGHEST_IDENTITY m = ucast (entry_owner m)"
  by (simp add: HIGHEST_IDENTITY_def HighBitSet32_def upto32 users_mask bit_unsigned_iff bit_and_iff
      entry_owner_def)

lemma ucast_and_eq_0: "(ucast (a :: u8) :: u32) AND ucast b = 0 \<longleftrightarrow> a AND b = 0"
proof -
  have "n < 8" "n < 32" if "bit a n" for n
    using that bit_imp_le_length [of a n] by simp_all
  then show ?thesis
    by (auto simp: bit_eq_iff bit_and_iff bit_unsigned_iff)
qed

lemma owner_in_users: "m AND DFCI_PERMISSION_MASK__USERS = 0 \<Longrightarrow> entry_owner m = 0"
proof -
  assume "m AND DFCI_PERMISSION_MASK__USERS = 0"
  then have "\<not> bit (m AND 0xF0) k" for k by (simp add: users_mask)
  from this [of 7] this [of 6] this [of 5] this [of 4] show ?thesis
    by (simp add: entry_owner_def bit_and_iff)
qed

lemma mark_entry_owned:
  "mark_entry Ident e = (if owned_by Ident e then e\<lparr>pe_MarkedForDeletion := True\<rparr> else e)"
  using owner_in_users [of "pe_DMask e"]
  by (auto simp: mark_entry_def owned_by_def HIGHEST_IDENTITY_owner ucast_and_eq_0)


text \<open>Replacing the permissions of an identity: mark its entries, later sweep the marked ones.\<close>

lemma mark_then_sweep:
  "snd (DeleteMarkedPermissionEntries (snd (MarkPermissionEntriesForDeletion Ident (Some S)))) =
   Some (S\<lparr>ps_List := filter (\<lambda>e. \<not> pe_MarkedForDeletion e \<and> \<not> owned_by Ident e) (ps_List S)\<rparr>)"
proof -
  have "filter (\<lambda>e. \<not> pe_MarkedForDeletion e) (map (mark_entry Ident) es) =
        filter (\<lambda>e. \<not> pe_MarkedForDeletion e \<and> \<not> owned_by Ident e) es" for es
    by (induction es) (auto simp: mark_entry_owned)
  then show ?thesis
    by (simp add: DeleteMarkedPermissionEntries_def MarkPermissionEntriesForDeletion_def)
qed

lemma DeletePermissionEntry_wf:
  assumes "wf_store S"
  shows "DeletePermissionEntry (Some i) (Some S) =
    (if length i > DFCI_MAX_ID_LEN then (EFI_INVALID_PARAMETER, Some S)
     else case first_index (\<lambda>e. pe_Id e = i) (ps_List S) of
        None \<Rightarrow> (EFI_NOT_FOUND, Some S)
      | Some k \<Rightarrow> (EFI_SUCCESS, Some (S\<lparr>ps_List := remove_nth k (ps_List S)\<rparr>)))"
proof -
  have "first_index (entry_matches i (AsciiStrnSizeS i DFCI_MAX_ID_SIZE)) (ps_List S)
        = first_index (\<lambda>e. pe_Id e = i) (ps_List S)" if "length i \<le> DFCI_MAX_ID_LEN"
    using that first_index_matches [of "ps_List S" i] assms
    by (simp add: wf_store_def AsciiStrnSizeS_def)
  then show ?thesis
    by (simp add: DeletePermissionEntry_def AsciiStrnSizeS_def Let_def)
qed

lemma DeletePermissionEntry_map:
  assumes "wf_store S" "keyed S" "DeletePermissionEntry (Some i) (Some S) = (st, Store')"
  shows "\<exists>S'. Store' = Some S' \<and> wf_store S' \<and> keyed S' \<and> perm_map S' = (perm_map S)(i := None)
     \<and> (\<not> EFI_ERROR st \<longleftrightarrow> i \<in> dom (perm_map S))"
proof (cases "length i > DFCI_MAX_ID_LEN \<or> first_index (\<lambda>e. pe_Id e = i) (ps_List S) = None")
  case True
  then have "first_index (\<lambda>e. pe_Id e = i) (ps_List S) = None"
    using assms(1) wf_entry_length by (force simp: wf_store_def wf_list_def first_index_None)
  then have "perm_map S i = None"
    by (simp add: perm_map_def map_of_first_index)
  with True assms show ?thesis
    by (auto simp: DeletePermissionEntry_wf fun_upd_idem split: if_splits)
next
  case False
  then obtain k where k: "first_index (\<lambda>e. pe_Id e = i) (ps_List S) = Some k" by auto
  then obtain ys x zs where
    l: "ps_List S = ys @ x # zs" "length ys = k" "pe_Id x = i" "\<forall>y\<in>set ys. pe_Id y \<noteq> i"
    by (rule first_index_split)
  have r: "st = EFI_SUCCESS" "Store' = Some (S\<lparr>ps_List := ys @ zs\<rparr>)"
  proof -
    have "remove_nth k (ps_List S) = ys @ zs"
      using l(1,2) remove_nth_append [of ys x zs] by simp
    then show "st = EFI_SUCCESS" "Store' = Some (S\<lparr>ps_List := ys @ zs\<rparr>)"
      using assms(3) False k by (simp_all add: DeletePermissionEntry_wf [OF assms(1)])
  qed
  have z: "\<forall>y\<in>set zs. pe_Id y \<noteq> i"
  proof -
    have "pe_Id x \<notin> pe_Id ` set zs"
      using assms(2) l(1) by (simp add: keyed_def)
    with l(3) show ?thesis by blast
  qed
  have m: "map_of (map (\<lambda>e. (pe_Id e, entry_masks e)) es) i = None"
    if "\<forall>y\<in>set es. pe_Id y \<noteq> i" for es
    using that by (auto simp: map_of_eq_None_iff)
  have "perm_map (S\<lparr>ps_List := ys @ zs\<rparr>) = (perm_map S)(i := None)"
    using m [OF l(4)] m [OF z] l(3)
    by (auto simp: perm_map_def l(1) map_add_def fun_eq_iff split: option.splits)
  moreover have "perm_map S i \<noteq> None"
    by (simp add: perm_map_def map_of_first_index k)
  ultimately show ?thesis
    using r l(1) assms(1,2) by (auto simp: wf_store_def wf_list_def keyed_def)
qed

lemma AddRequiredPermissionEntry_keyed:
  assumes "wf_store S" "keyed S"
    and "AddRequiredPermissionEntry U (Some i) p d (Some S) s = (st, Some S', s')"
  shows "keyed S'"
proof (cases "first_index (\<lambda>e. pe_Id e = i) (ps_List S)")
  case (Some k)
  then have "pe_Id (ps_List S ! k) = i" "k < length (ps_List S)" by (auto dest: first_index_SomeD)
  then have "map pe_Id (ps_List (set_masks k p d S)) = map pe_Id (ps_List S)"
    by (simp add: set_masks_def map_update list_update_same_conv)
  with Some assms show ?thesis
    by (auto simp: AddRequiredPermissionEntry_def FindPermissionEntry_wf keyed_def)
next
  case None
  then have "i \<notin> pe_Id ` set (ps_List S)" by (auto simp: first_index_None)
  moreover have "AddPermissionEntry U (Some i) p d (Some S) s = (st, Some S', s')"
    using None assms by (simp add: AddRequiredPermissionEntry_def FindPermissionEntry_wf)
  ultimately show ?thesis
    using assms(2) by (elim AddPermissionEntry_cases) (auto simp: keyed_def)
qed

section \<open>Properties\<close>

text \<open>A small store and platform state for concrete instances.\<close>

definition example_store :: perm_store where
  "example_store = \<lparr>ps_Version = 2, ps_Lsv = 1, ps_Modified = True, ps_CreatedOn = zero_time,
     ps_SavedOn = zero_time, ps_DefaultPMask = 1, ps_DefaultDMask = 0x80,
     ps_List = [\<lparr>pe_Id = ''A'', pe_PMask = 1, pe_DMask = 0xC0, pe_IdSize = 2, pe_MarkedForDeletion = False\<rparr>,
                \<lparr>pe_Id = ''B'', pe_PMask = 9, pe_DMask = 0x40, pe_IdSize = 2, pe_MarkedForDeletion = False\<rparr>]\<rparr>"

definition example_state :: demo_state where
  "example_state = \<lparr>dm_vars = [], dm_docs = []\<rparr>"

lemma example_store_wf: "wf_store example_store" "keyed example_store"
  by (simp_all add: example_store_def wf_store_def wf_list_def wf_entry_def wf_id_def keyed_def is_digit_def)

text \<open>
  Property C23: adding or overwriting a required permission is an update of the map from
  setting ids to masks.  On success exactly the given id is mapped to the given masks, on an
  error the map is unchanged; the entries stay well formed and no id occurs twice.
\<close>

theorem AddRequiredPermissionEntry_refines_update:
  assumes "wf_store S" "keyed S" "wf_id i"
    and "AddRequiredPermissionEntry U (Some i) p d (Some S) s = (st, Store', s')"
  shows "\<exists>S'. Store' = Some S' \<and> wf_store S' \<and> keyed S'
     \<and> perm_map S' = (if EFI_ERROR st then perm_map S else (perm_map S)(i \<mapsto> (p, d)))"
  using AddRequiredPermissionEntry_map [OF assms(1,3,4)] AddRequiredPermissionEntry_keyed [OF assms(1,2), of U i p d s st _ s']
    assms(4) by auto

theorem AddRequiredPermissionEntry_refines_update_witness:
  "\<exists>S'. AddRequiredPermissionEntry demo_platform (Some ''C'') 8 0 (Some example_store) example_state
      = (EFI_SUCCESS, Some S', example_state) \<and> keyed S' \<and> perm_map S' ''C'' = Some (8, 0)"
proof -
  obtain Store' where r: "AddRequiredPermissionEntry demo_platform (Some ''C'') 8 0 (Some example_store)
      example_state = (EFI_SUCCESS, Store', example_state)"
    by (simp add: AddRequiredPermissionEntry_def FindPermissionEntry_def AddPermissionEntry_def
        AsciiStrnSizeS_def example_store_def entry_matches_def AsciiStrnCmp_eq_def is_digit_def
        demo_platform_def)
  have "wf_id ''C''" by (simp add: wf_id_def is_digit_def)
  from AddRequiredPermissionEntry_refines_update [OF example_store_wf this r] r show ?thesis by auto
qed

text \<open>
  An id is found by \<open>FindPermissionEntry\<close> exactly when the map of the store is
  defined at it, and the position returned is that of the first entry with this id; ids longer
  than the limit are never found.
\<close>

lemma FindPermissionEntry_correct:
  assumes "wf_store S"
  shows "case FindPermissionEntry (Some S) (Some i) of
      None \<Rightarrow> perm_map S i = None \<and> (\<forall>e\<in>set (ps_List S). pe_Id e \<noteq> i)
    | Some k \<Rightarrow> k < length (ps_List S) \<and> pe_Id (ps_List S ! k) = i
        \<and> (\<forall>j<k. pe_Id (ps_List S ! j) \<noteq> i) \<and> perm_map S i = Some (entry_masks (ps_List S ! k))"
proof -
  have m: "perm_map S i = map_option (\<lambda>k. entry_masks (ps_List S ! k)) (first_index (\<lambda>e. pe_Id e = i) (ps_List S))"
    by (simp add: perm_map_def map_of_first_index)
  show ?thesis
    using first_index_SomeD [of "\<lambda>e. pe_Id e = i" "ps_List S"]
    by (auto simp: FindPermissionEntry_wf assms m first_index_None split: option.split)
qed

text \<open>
  Replacing the permissions of an identity (mark, then sweep) deletes exactly the
  entries already marked and the entries whose most privileged delegate is one of the given
  identities; all others keep their place and contents.
\<close>

lemma replace_deletes_owned_entries:
  "snd (DeleteMarkedPermissionEntries (snd (MarkPermissionEntriesForDeletion Ident (Some S)))) =
   Some (S\<lparr>ps_List := filter (\<lambda>e. \<not> pe_MarkedForDeletion e \<and> \<not> owned_by Ident e) (ps_List S)\<rparr>)"
  by (rule mark_then_sweep)

text \<open>
  Deleting an id removes it from the map and nothing else; the call succeeds
  exactly when the id was present.
\<close>

lemma DeletePermissionEntry_refines_delete:
  assumes "wf_store S" "keyed S" "DeletePermissionEntry (Some i) (Some S) = (st, Store')"
  shows "\<exists>S'. Store' = Some S' \<and> wf_store S' \<and> keyed S' \<and> perm_map S' = (perm_map S)(i := None)
     \<and> (\<not> EFI_ERROR st \<longleftrightarrow> i \<in> dom (perm_map S))"
  by (rule DeletePermissionEntry_map [OF assms])

end
