(* ===== verification/Identity_Map.thy ===== *)
theory Identity_Map
  imports Permission_Store
begin

text \<open>
  The identity manager (\<open>IdentityManager.c\<close>): the list \<open>mAuthIdMapList\<close> that maps the
  authentication tokens handed out during this boot to identities.  The properties of an
  identity are static and hold only its bit, so an entry carries the bit itself.

  The theory shows that the list implements a partial map from tokens to identities; the
  locale \<open>token_table\<close> states this contract for the authentication manager.
\<close>

section \<open>Operations\<close>

record auth_entry =
  ae_AuthToken :: u64
  ae_Identity :: DFCI_IDENTITY_ID

definition FindListEntryByAuthToken :: "u64 \<Rightarrow> auth_entry list \<Rightarrow> nat option" where
  "FindListEntryByAuthToken Token m = first_index (\<lambda>e. ae_AuthToken e = Token) m"

definition AddAuthHandleMapping :: "'s platform \<Rightarrow> u64 option \<Rightarrow> DFCI_IDENTITY_ID option \<Rightarrow> auth_entry list \<Rightarrow> 's
    \<Rightarrow> EFI_STATUS \<times> auth_entry list \<times> 's" where
  "AddAuthHandleMapping U Token Properties m s = (case (Token, Properties) of
     (Some t, Some p) \<Rightarrow>
       (if FindListEntryByAuthToken t m \<noteq> None then (EFI_INVALID_PARAMETER, m, s)
        else case AllocatePool U 40 s of (ok, s') \<Rightarrow>
          if \<not> ok then (EFI_OUT_OF_RESOURCES, m, s')
          else (EFI_SUCCESS, m @ [\<lparr>ae_AuthToken = t, ae_Identity = p\<rparr>], s'))
   | _ \<Rightarrow> (EFI_INVALID_PARAMETER, m, s))"

definition FreeAuthHandleMapping :: "nat option \<Rightarrow> auth_entry list \<Rightarrow> auth_entry list" where
  "FreeAuthHandleMapping Entry m = (case Entry of None \<Rightarrow> m | Some k \<Rightarrow> remove_nth k m)"

text \<open>The walk of \<open>DisposeAllIdentityMappings\<close>: \<open>k\<close> is the position \<open>Link\<close> has reached.\<close>

function dispose_loop :: "u8 \<Rightarrow> nat \<Rightarrow> auth_entry list \<Rightarrow> auth_entry list" where
  "dispose_loop Msk k m =
     (if k < length m then
        if ae_Identity (m ! k) AND Msk \<noteq> 0 then dispose_loop Msk k (FreeAuthHandleMapping (Some k) m)
        else dispose_loop Msk (k + 1) m
      else m)"
  by pat_completeness auto
termination
  by (relation "measure (\<lambda>(Msk, k, m). length m - k)")
    (auto simp: FreeAuthHandleMapping_def length_remove_nth)

declare dispose_loop.simps [simp del]

definition DisposeAllIdentityMappings :: "u8 \<Rightarrow> auth_entry list \<Rightarrow> EFI_STATUS \<times> auth_entry list" where
  "DisposeAllIdentityMappings Msk m = (EFI_SUCCESS, dispose_loop Msk 0 m)"

definition DisposeAuthToken :: "u64 option \<Rightarrow> auth_entry list \<Rightarrow> EFI_STATUS \<times> u64 option \<times> auth_entry list" where
  "DisposeAuthToken IdentityToken m = (case IdentityToken of
     None \<Rightarrow> (EFI_INVALID_PARAMETER, IdentityToken, m)
   | Some t \<Rightarrow> (case FindListEntryByAuthToken t m of
        Some k \<Rightarrow> (EFI_SUCCESS, Some 0, FreeAuthHandleMapping (Some k) m)
      | None \<Rightarrow> (EFI_NOT_FOUND, IdentityToken, m)))"

text \<open>\<open>Properties\<close> is the caller's buffer, which keeps its contents on an error.\<close>

definition GetIdentityProperties :: "u64 option \<Rightarrow> DFCI_IDENTITY_ID \<Rightarrow> auth_entry list \<Rightarrow> EFI_STATUS \<times> DFCI_IDENTITY_ID" where
  "GetIdentityProperties IdentityToken Properties m = (case IdentityToken of
     None \<Rightarrow> (EFI_INVALID_PARAMETER, Properties)
   | Some t \<Rightarrow> (case FindListEntryByAuthToken t m of
        None \<Rightarrow> (EFI_NOT_FOUND, Properties)
      | Some k \<Rightarrow> (EFI_SUCCESS, ae_Identity (m ! k))))"

section \<open>The map from tokens to identities\<close>

definition token_map :: "auth_entry list \<Rightarrow> u64 \<rightharpoonup> DFCI_IDENTITY_ID" where
  "token_map m = map_of (map (\<lambda>e. (ae_AuthToken e, ae_Identity e)) m)"

definition tokens :: "auth_entry list \<Rightarrow> u64 list" where
  "tokens m = map ae_AuthToken m"

text \<open>No token is mapped twice, and the invalid token is not mapped.\<close>

definition wf_map :: "auth_entry list \<Rightarrow> bool" where
  "wf_map m \<longleftrightarrow> distinct (tokens m) \<and> 0 \<notin> set (tokens m)"

lemma find_token:
  "FindListEntryByAuthToken t m = None \<longleftrightarrow> token_map m t = None"
  "FindListEntryByAuthToken t m = Some k \<Longrightarrow> k < length m \<and> token_map m t = Some (ae_Identity (m ! k))"
proof -
  have c: "token_map m t = map_option (\<lambda>k. ae_Identity (m ! k)) (FindListEntryByAuthToken t m)"
    unfolding token_map_def FindListEntryByAuthToken_def
    by (induction m) (auto simp: option.map_comp comp_def)
  then show "FindListEntryByAuthToken t m = None \<longleftrightarrow> token_map m t = None" by simp
  show "FindListEntryByAuthToken t m = Some k \<Longrightarrow> k < length m \<and> token_map m t = Some (ae_Identity (m ! k))"
    using c by (auto simp: FindListEntryByAuthToken_def dest: first_index_SomeD)
qed

lemma remove_token:
  assumes "distinct (tokens m)" "FindListEntryByAuthToken t m = Some k"
  shows "token_map (remove_nth k m) = (token_map m)(t := None)"
    "distinct (tokens (remove_nth k m))" "set (tokens (remove_nth k m)) \<subseteq> set (tokens m)"
proof -
  from assms(2) obtain ys x zs where s: "m = ys @ x # zs" "length ys = k" "ae_AuthToken x = t"
    "\<forall>y\<in>set ys. ae_AuthToken y \<noteq> t"
    unfolding FindListEntryByAuthToken_def by (rule first_index_split) simp_all
  then have r: "remove_nth k m = ys @ zs" using remove_nth_append by metis
  have "t \<notin> ae_AuthToken ` set zs" using assms(1) s by (auto simp: tokens_def)
  then have z: "map_of (map (\<lambda>e. (ae_AuthToken e, ae_Identity e)) zs) t = None"
    by (simp add: map_of_eq_None_iff image_image)
  have y: "map_of (map (\<lambda>e. (ae_AuthToken e, ae_Identity e)) ys) t = None"
    using s(4) by (auto simp: map_of_eq_None_iff image_image)
  show "token_map (remove_nth k m) = (token_map m)(t := None)"
    unfolding r token_map_def using z y s(1,3) by (auto simp: fun_eq_iff map_add_def split: option.splits)
  show "distinct (tokens (remove_nth k m))" "set (tokens (remove_nth k m)) \<subseteq> set (tokens m)"
    unfolding r tokens_def using assms(1) s(1) by (auto simp: tokens_def)
qed

lemma dispose_loop_filter:
  "k \<le> length m \<Longrightarrow> dispose_loop Msk k m = take k m @ filter (\<lambda>e. ae_Identity e AND Msk = 0) (drop k m)"
proof (induction Msk k m rule: dispose_loop.induct)
  case (1 Msk k m)
  show ?case
  proof (cases "k < length m")
    case False
    with "1.prems" show ?thesis by (simp add: dispose_loop.simps)
  next
    case k: True
    define x where "x = m ! k"
    define zs where "zs = drop (Suc k) m"
    have m: "m = take k m @ x # zs" "drop k m = x # zs"
      using k by (simp_all add: x_def zs_def Cons_nth_drop_Suc id_take_nth_drop)
    have r: "remove_nth k m = take k m @ zs"
      using remove_nth_append [of "take k m" x zs] m(1) k by simp
    show ?thesis
    proof (cases "ae_Identity x AND Msk = 0")
      case False
      then have "dispose_loop Msk k m = dispose_loop Msk k (remove_nth k m)"
        using k by (subst dispose_loop.simps) (simp add: x_def FreeAuthHandleMapping_def)
      also have "\<dots> = take k (remove_nth k m) @ filter (\<lambda>e. ae_Identity e AND Msk = 0) (drop k (remove_nth k m))"
        using "1.IH"(1) [OF k] False k by (simp add: x_def FreeAuthHandleMapping_def length_remove_nth)
      finally show ?thesis using k False by (simp add: r m(2))
    next
      case True
      then have "dispose_loop Msk k m = dispose_loop Msk (k + 1) m"
        using k by (subst dispose_loop.simps) (simp add: x_def)
      also have "\<dots> = take (k + 1) m @ filter (\<lambda>e. ae_Identity e AND Msk = 0) (drop (k + 1) m)"
        using "1.IH"(2) [OF k] True k by (simp add: x_def)
      finally show ?thesis
        using k True by (simp add: take_Suc_conv_app_nth x_def zs_def m(2))
    qed
  qed
qed

section \<open>The contract of a token table\<close>

text \<open>
  What the authentication manager relies on: tokens are added once, the invalid token is never
  mapped, and dropping a token removes it and nothing else.
\<close>

locale token_table =
  fixes lookup :: "'m \<Rightarrow> u64 \<rightharpoonup> DFCI_IDENTITY_ID"
    and add :: "u64 \<Rightarrow> DFCI_IDENTITY_ID \<Rightarrow> 'm \<Rightarrow> 's \<Rightarrow> EFI_STATUS \<times> 'm \<times> 's"
    and drop :: "u64 \<Rightarrow> 'm \<Rightarrow> 'm"
    and inv :: "'m \<Rightarrow> bool"
  assumes add_error: "add t p m s = (st, m', s') \<Longrightarrow> EFI_ERROR st \<Longrightarrow> m' = m"
    and add_fresh: "inv m \<Longrightarrow> add t p m s = (st, m', s') \<Longrightarrow> \<not> EFI_ERROR st \<Longrightarrow> lookup m t = None"
    and lookup_add: "inv m \<Longrightarrow> add t p m s = (st, m', s') \<Longrightarrow> \<not> EFI_ERROR st \<Longrightarrow> lookup m' = (lookup m)(t \<mapsto> p)"
    and add_inv: "inv m \<Longrightarrow> t \<noteq> 0 \<Longrightarrow> add t p m s = (st, m', s') \<Longrightarrow> inv m'"
    and lookup_drop: "inv m \<Longrightarrow> lookup (drop t m) = (lookup m)(t := None)"
    and drop_inv: "inv m \<Longrightarrow> inv (drop t m)"
    and lookup_invalid: "inv m \<Longrightarrow> lookup m 0 = None"
begin

text \<open>A session: a token is issued, used and dropped; afterwards exactly the old tokens are valid.\<close>

lemma session:
  assumes "inv m" "t \<noteq> 0" "add t p m s = (st, m', s')" "\<not> EFI_ERROR st"
  shows "lookup m' t = Some p" "lookup (drop t m') = lookup m" "inv (drop t m')"
  using lookup_add [OF assms(1,3,4)] add_fresh [OF assms(1,3,4)] add_inv [OF assms(1-3)]
  by (auto simp: lookup_drop drop_inv)

lemma others_kept:
  assumes "inv m" "add t p m s = (st, m', s')" "lookup m u = Some q"
  shows "lookup m' u = Some q"
proof (cases "EFI_ERROR st")
  case True
  with add_error [OF assms(2)] assms(3) show ?thesis by simp
next
  case False
  with lookup_add [OF assms(1,2)] add_fresh [OF assms(1,2)] assms(3) show ?thesis by auto
qed

end

definition drop_token :: "u64 \<Rightarrow> auth_entry list \<Rightarrow> auth_entry list" where
  "drop_token t m = snd (snd (DisposeAuthToken (Some t) m))"

lemma AddAuthHandleMapping_ok:
  assumes "AddAuthHandleMapping U (Some t) (Some p) m s = (st, m', s')"
  shows "if EFI_ERROR st then m' = m
    else token_map m t = None \<and> m' = m @ [\<lparr>ae_AuthToken = t, ae_Identity = p\<rparr>]"
  using assms find_token(1) [of t m]
  by (auto simp: AddAuthHandleMapping_def case_prod_beta split: if_splits)

lemma token_map_append:
  "token_map m t = None \<Longrightarrow> token_map (m @ [\<lparr>ae_AuthToken = t, ae_Identity = p\<rparr>]) = (token_map m)(t \<mapsto> p)"
  by (auto simp: token_map_def fun_eq_iff map_add_def split: option.splits)

lemma token_map_None: "token_map m t = None \<longleftrightarrow> t \<notin> set (tokens m)"
  by (auto simp: token_map_def tokens_def map_of_eq_None_iff image_image)

interpretation tok: token_table token_map "\<lambda>t p. AddAuthHandleMapping U (Some t) (Some p)" drop_token wf_map
  for U
proof (unfold_locales, goal_cases)
  case (1 t p m s st m' s')
  then show ?case using AddAuthHandleMapping_ok [OF 1(1)] by simp
next
  case (2 m t p s st m' s')
  then show ?case using AddAuthHandleMapping_ok [OF 2(2)] by simp
next
  case (3 m t p s st m' s')
  then show ?case using AddAuthHandleMapping_ok [OF 3(2)] token_map_append by simp
next
  case (4 m t p s st m' s')
  then show ?case using AddAuthHandleMapping_ok [OF 4(3)]
    by (auto simp: wf_map_def tokens_def token_map_None split: if_splits)
next
  case (5 m t)
  then show ?case
    using find_token(1) [of t m] remove_token(1) [of m t]
    by (auto simp: drop_token_def DisposeAuthToken_def FreeAuthHandleMapping_def wf_map_def
        split: option.splits)
next
  case (6 m t)
  then show ?case
    using remove_token(2,3) [of m t]
    by (auto simp: drop_token_def DisposeAuthToken_def FreeAuthHandleMapping_def wf_map_def
        split: option.splits)
next
  case (7 m)
  then show ?case by (simp add: wf_map_def token_map_None)
qed

lemma GetIdentityProperties_map:
  "GetIdentityProperties (Some t) p m = (case token_map m t of None \<Rightarrow> (EFI_NOT_FOUND, p) | Some i \<Rightarrow> (EFI_SUCCESS, i))"
proof (cases "FindListEntryByAuthToken t m")
  case None
  with find_token(1) [of t m] show ?thesis by (simp add: GetIdentityProperties_def)
next
  case (Some k)
  with find_token(2) [OF Some] show ?thesis by (simp add: GetIdentityProperties_def)
qed

section \<open>Properties\<close>

text \<open>
  A token that was added is resolved to its identity until it is disposed of;
  disposing of it succeeds, sets the caller's token to the invalid one and leaves exactly the
  tokens valid that were valid before it was added.
\<close>

lemma token_session:
  assumes "wf_map m" "t \<noteq> 0" "AddAuthHandleMapping U (Some t) (Some p) m s = (EFI_SUCCESS, m', s')"
  shows "GetIdentityProperties (Some t) q m' = (EFI_SUCCESS, p)
    \<and> (\<exists>m''. DisposeAuthToken (Some t) m' = (EFI_SUCCESS, Some 0, m'') \<and> wf_map m''
         \<and> (\<forall>u q. GetIdentityProperties (Some u) q m'' = GetIdentityProperties (Some u) q m))"
proof -
  note ses = tok.session [OF assms EFI_ERROR_SUCCESS]
  obtain k where "FindListEntryByAuthToken t m' = Some k"
    using ses(1) find_token(1) [of t m'] by auto
  then have "DisposeAuthToken (Some t) m' = (EFI_SUCCESS, Some 0, drop_token t m')"
    by (simp add: DisposeAuthToken_def drop_token_def)
  then show ?thesis using ses by (auto simp: GetIdentityProperties_map)
qed

text \<open>
  When an identity changes, every token of the identities in the mask is revoked
  and no other token is touched.
\<close>

lemma DisposeAllIdentityMappings_revokes:
  assumes "wf_map m" "DisposeAllIdentityMappings Msk m = (st, m')"
  shows "st = EFI_SUCCESS \<and> wf_map m'
    \<and> (\<forall>t. token_map m' t = (case token_map m t of None \<Rightarrow> None
         | Some i \<Rightarrow> if i AND Msk = 0 then Some i else None))"
proof -
  have m': "m' = filter (\<lambda>e. ae_Identity e AND Msk = 0) m" and st: "st = EFI_SUCCESS"
    using assms(2) by (simp_all add: DisposeAllIdentityMappings_def dispose_loop_filter)
  have "distinct (tokens m) \<Longrightarrow> token_map (filter (\<lambda>e. ae_Identity e AND Msk = 0) m) t =
      (case token_map m t of None \<Rightarrow> None | Some i \<Rightarrow> if i AND Msk = 0 then Some i else None)" for t
  proof (induction m)
    case (Cons e m)
    have "token_map m (ae_AuthToken e) = None"
      using Cons.prems by (simp add: token_map_None tokens_def)
    with Cons show ?case by (auto simp: token_map_def tokens_def)
  qed (simp add: token_map_def)
  moreover have "wf_map m'"
    using assms(1) unfolding m' wf_map_def tokens_def by (auto simp: distinct_map intro: inj_on_subset)
  ultimately show ?thesis using assms(1) st by (simp add: m' wf_map_def)
qed

end
