(* ===== verification/Nv_Storage.thy ===== *)
theory Nv_Storage
  imports Platform
begin

text \<open>
  The contract between a component's in-memory state and its copy in a non-volatile
  variable.  The permission library and the identity manager both keep such a copy and both
  commit or restore it after a packet (the last-known-good protocol of
  \<open>DfciApplyPacket.h\<close>); the lemmas here are what their handlers rest on.
\<close>

text \<open>The variables below live in one namespace and have the same attributes (\<open>DfciInternalVariableGuid.h\<close>).\<close>

definition gDfciInternalVariableGuid :: string where
  "gDfciInternalVariableGuid = ''gDfciInternalVariableGuid''"

abbreviation (input) DFCI_INTERNAL_VAR_ATTRIBUTES :: u32 where "DFCI_INTERNAL_VAR_ATTRIBUTES \<equiv> 3"

definition nv_laws :: "'s platform \<Rightarrow> bool" where
  "nv_laws U \<longleftrightarrow> alloc_succeeds U \<and> alloc_keeps_vars U \<and> variable_laws U"

lemma nv_lawsD: "nv_laws U \<Longrightarrow> alloc_succeeds U" "nv_laws U \<Longrightarrow> alloc_keeps_vars U" "nv_laws U \<Longrightarrow> variable_laws U"
  by (simp_all add: nv_laws_def)

locale nv_component =
  fixes save :: "'m \<Rightarrow> 's \<Rightarrow> (EFI_STATUS \<times> 'm \<times> 's) option"
    and load :: "'s \<Rightarrow> (EFI_STATUS \<times> 'm \<times> 's) option"
    and ready :: "'m \<Rightarrow> 's \<Rightarrow> bool"
    and stored :: "'s \<Rightarrow> 'm \<Rightarrow> bool"
    and same :: "'m \<Rightarrow> 'm \<Rightarrow> bool"
  assumes save_total: "ready m s \<Longrightarrow> \<exists>st m' s'. save m s = Some (st, m', s')"
    and save_stores: "ready m s \<Longrightarrow> save m s = Some (st, m', s') \<Longrightarrow> \<not> EFI_ERROR st \<Longrightarrow> stored s' m"
    and save_error: "ready m s \<Longrightarrow> save m s = Some (st, m', s') \<Longrightarrow> EFI_ERROR st \<Longrightarrow> stored s m0 \<Longrightarrow> stored s' m0"
    and load_stored: "stored s m \<Longrightarrow> \<exists>m' s'. load s = Some (EFI_SUCCESS, m', s') \<and> same m m' \<and> stored s' m"
begin

lemma save_load:
  assumes "ready m s" "save m s = Some (st, m', s')" "\<not> EFI_ERROR st"
  shows "\<exists>m'' s''. load s' = Some (EFI_SUCCESS, m'', s'') \<and> same m m''"
  using load_stored [OF save_stores [OF assms]] by blast

text \<open>Commit: save, and when that fails fall back to the copy in the variable.\<close>

definition commit :: "'m \<Rightarrow> 's \<Rightarrow> (EFI_STATUS \<times> 'm \<times> 's) option" where
  "commit m s = do {
     (st, m', s') \<leftarrow> save m s;
     if EFI_ERROR st then map_option (\<lambda>(_, m'', s''). (st, m'', s'')) (load s')
     else Some (st, m', s') }"

text \<open>
  After a commit the variable holds either the new state, and the call succeeded, or the
  previous one, and memory has been reset to it: never a mixture.
\<close>

lemma commit_or_rollback:
  assumes "ready m s" "stored s m0"
  shows "\<exists>st m' s'. commit m s = Some (st, m', s') \<and>
     (if EFI_ERROR st then same m0 m' \<and> stored s' m0 else stored s' m)"
proof -
  obtain st m1 s1 where s: "save m s = Some (st, m1, s1)" using save_total [OF assms(1)] by blast
  show ?thesis
  proof (cases "EFI_ERROR st")
    case True
    from load_stored [OF save_error [OF assms(1) s True assms(2)]] True show ?thesis
      by (auto simp: commit_def s)
  next
    case False
    with save_stores [OF assms(1) s] show ?thesis by (simp add: commit_def s)
  qed
qed

end

end
