(* ===== verification/Cert_Store.thy ===== *)
theory Cert_Store
  imports Nv_Storage Permission_Store
begin

text \<open>
  The store of provisioned certificates (\<open>AuthManagerProvisionedData.c\<close>): \<open>mInternalCertStore\<close>, its
  copy in the variable \<open>_IPCVN\<close> and the mask of populated identities.  The global store is passed
  explicitly.

  Layout of the variable (packed): header signature 0 (\<open>UINTN\<close>), header version 8, number of
  certificates 9, sizes from 10; V2: version 24, lowest supported version 28, data at 32;
  V1 (four certificates): data at 18.

  The theory shows that a saved store is loaded back, what loading does to the mask of
  identities, and how the store is set up at boot.
\<close>

section \<open>The store\<close>

record cert_details =
  cd_Cert :: "bytes option"
  cd_CertSize :: nat

record cert_store =
  cs_Version :: u32
  cs_Lsv :: u32
  cs_PopulatedIdentities :: u8
  cs_Certs :: "cert_details list"

abbreviation (input) MAX_NUMBER_OF_CERTS :: nat where "MAX_NUMBER_OF_CERTS \<equiv> 7"
abbreviation (input) MAX_NUMBER_OF_CERTS_V1 :: nat where "MAX_NUMBER_OF_CERTS_V1 \<equiv> 4"
abbreviation (input) CERT_USER_INDEX :: nat where "CERT_USER_INDEX \<equiv> 0"
abbreviation (input) CERT_USER1_INDEX :: nat where "CERT_USER1_INDEX \<equiv> 1"
abbreviation (input) CERT_USER2_INDEX :: nat where "CERT_USER2_INDEX \<equiv> 2"
abbreviation (input) CERT_OWNER_INDEX :: nat where "CERT_OWNER_INDEX \<equiv> 3"
abbreviation (input) CERT_ZTD_INDEX :: nat where "CERT_ZTD_INDEX \<equiv> 4"

definition DFCI_IDENTITY_MASK_USER_KEYS :: u8 where
  "DFCI_IDENTITY_MASK_USER_KEYS = DFCI_IDENTITY_SIGNER_USER OR DFCI_IDENTITY_SIGNER_USER1 OR DFCI_IDENTITY_SIGNER_USER2"

definition DFCI_IDENTITY_MASK_KEYS :: u8 where
  "DFCI_IDENTITY_MASK_KEYS = DFCI_IDENTITY_SIGNER_USER OR DFCI_IDENTITY_SIGNER_USER1 OR DFCI_IDENTITY_SIGNER_USER2
     OR DFCI_IDENTITY_SIGNER_OWNER OR DFCI_IDENTITY_SIGNER_ZTD"

lemma identity_masks [simp]: "DFCI_IDENTITY_MASK_USER_KEYS = 0x70" "DFCI_IDENTITY_MASK_KEYS = 0xF8"
  by (simp_all add: DFCI_IDENTITY_MASK_USER_KEYS_def DFCI_IDENTITY_MASK_KEYS_def)

definition no_cert :: cert_details where
  "no_cert = \<lparr>cd_Cert = None, cd_CertSize = 0\<rparr>"

definition mInternalCertStore :: cert_store where
  "mInternalCertStore = \<lparr>cs_Version = 0, cs_Lsv = 0, cs_PopulatedIdentities = DFCI_IDENTITY_LOCAL,
     cs_Certs = replicate MAX_NUMBER_OF_CERTS no_cert\<rparr>"

text \<open>\<open>None\<close> is \<open>CERT_INVALID_INDEX\<close>.\<close>

definition DfciIdentityToCertIndex :: "u8 \<Rightarrow> nat option" where
  "DfciIdentityToCertIndex IdentityId =
     (if IdentityId = DFCI_IDENTITY_SIGNER_ZTD then Some CERT_ZTD_INDEX
      else if IdentityId = DFCI_IDENTITY_SIGNER_USER then Some CERT_USER_INDEX
      else if IdentityId = DFCI_IDENTITY_SIGNER_USER1 then Some CERT_USER1_INDEX
      else if IdentityId = DFCI_IDENTITY_SIGNER_USER2 then Some CERT_USER2_INDEX
      else if IdentityId = DFCI_IDENTITY_SIGNER_OWNER then Some CERT_OWNER_INDEX
      else None)"

definition CertIndexToDfciIdentity :: "nat \<Rightarrow> u8" where
  "CertIndexToDfciIdentity i =
     (if i = CERT_USER_INDEX then DFCI_IDENTITY_SIGNER_USER
      else if i = CERT_USER1_INDEX then DFCI_IDENTITY_SIGNER_USER1
      else if i = CERT_USER2_INDEX then DFCI_IDENTITY_SIGNER_USER2
      else if i = CERT_OWNER_INDEX then DFCI_IDENTITY_SIGNER_OWNER
      else if i = CERT_ZTD_INDEX then DFCI_IDENTITY_SIGNER_ZTD
      else DFCI_IDENTITY_INVALID)"

definition Provisioned :: "cert_store \<Rightarrow> u8" where
  "Provisioned C = cs_PopulatedIdentities C"

definition GetEnrolledIdentities :: "cert_store \<Rightarrow> EFI_STATUS \<times> u8" where
  "GetEnrolledIdentities C = (EFI_SUCCESS, Provisioned C)"

text \<open>The data pointer (NULL when the slot is empty) and the size; \<open>CertData\<close> and \<open>CertSize\<close> are kept on errors.\<close>

definition GetProvisionedCertDataAndSize :: "bytes option \<Rightarrow> nat \<Rightarrow> u8 \<Rightarrow> cert_store
    \<Rightarrow> EFI_STATUS \<times> bytes option \<times> nat" where
  "GetProvisionedCertDataAndSize CertData CertSize Key C =
     (if Key AND DFCI_IDENTITY_MASK_KEYS = 0 then (EFI_INVALID_PARAMETER, CertData, CertSize)
      else if Key AND Provisioned C = 0 then (EFI_NOT_FOUND, CertData, CertSize)
      else case DfciIdentityToCertIndex Key of
          None \<Rightarrow> (EFI_INVALID_PARAMETER, CertData, CertSize)
        | Some Index \<Rightarrow> (EFI_SUCCESS, cd_Cert (cs_Certs C ! Index), cd_CertSize (cs_Certs C ! Index)))"

section \<open>Saving\<close>

definition CERT_VAR_NAME :: string where "CERT_VAR_NAME = ''_IPCVN''"
definition DFCI_IDENTITY_CURRENT_VAR_NAME :: string where "DFCI_IDENTITY_CURRENT_VAR_NAME = ''DfciIdentityCurrent''"
definition gDfciAuthProvisionVarNamespace :: string where
  "gDfciAuthProvisionVarNamespace = ''gDfciAuthProvisionVarNamespace''"

abbreviation (input) CERT_VAR_SIGNATURE :: u64 where "CERT_VAR_SIGNATURE \<equiv> 0x56435049"

text \<open>The bytes \<open>CopyMem\<close> takes from a certificate; reading past its buffer is undefined.\<close>

definition cert_bytes :: "cert_details \<Rightarrow> bytes option" where
  "cert_bytes c = (case cd_Cert c of None \<Rightarrow> Some []
     | Some b \<Rightarrow> if cd_CertSize c \<le> length b then Some (take (cd_CertSize c) b) else None)"

fun packed_certs :: "cert_details list \<Rightarrow> bytes option" where
  "packed_certs [] = Some []"
| "packed_certs (c # cs) = do { b \<leftarrow> cert_bytes c; bs \<leftarrow> packed_certs cs; Some (b @ bs) }"

definition cert_var_size :: "cert_store \<Rightarrow> nat" where
  "cert_var_size C = 32 + sum_list (map cd_CertSize (filter (\<lambda>c. cd_Cert c \<noteq> None) (cs_Certs C)))"

definition cert_header :: "cert_store \<Rightarrow> bytes" where
  "cert_header C = le64 CERT_VAR_SIGNATURE @ [2, 7] @ concat (map (\<lambda>c. le16 (word_of_nat (cd_CertSize c))) (cs_Certs C))
     @ le32 (cs_Version C) @ le32 (cs_Lsv C)"

definition SaveProvisionedData :: "'s platform \<Rightarrow> cert_store \<Rightarrow> 's \<Rightarrow> (EFI_STATUS \<times> 's) option" where
  "SaveProvisionedData U C s = (case AllocatePool U (cert_var_size C) s of (ok, s1) \<Rightarrow>
     if \<not> ok then Some (EFI_OUT_OF_RESOURCES, s1)
     else do {
       PackedCertData \<leftarrow> packed_certs (cs_Certs C);
       Some (SetVariable U CERT_VAR_NAME gDfciInternalVariableGuid DFCI_INTERNAL_VAR_ATTRIBUTES
         (cert_header C @ PackedCertData) s1) })"

definition FreeCertStore :: "cert_store \<Rightarrow> cert_store" where
  "FreeCertStore C = C\<lparr>cs_Certs :=
     fold (\<lambda>i cs. if i \<noteq> CERT_ZTD_INDEX then cs[i := no_cert] else cs) [0..<MAX_NUMBER_OF_CERTS] (cs_Certs C)\<rparr>"

definition InitializeProvisionedData :: "'s platform \<Rightarrow> cert_store \<Rightarrow> 's \<Rightarrow> (EFI_STATUS \<times> cert_store \<times> 's) option" where
  "InitializeProvisionedData U C s =
     (let s1 = snd (SetVariable U CERT_VAR_NAME gDfciInternalVariableGuid 0 [] s);
          s2 = snd (SetVariable U DFCI_IDENTITY_CURRENT_VAR_NAME gDfciAuthProvisionVarNamespace 0 [] s1);
          C1 = FreeCertStore C;
          C2 = C1\<lparr>cs_PopulatedIdentities := (if cd_CertSize (cs_Certs C1 ! CERT_ZTD_INDEX) \<noteq> 0
                    then DFCI_IDENTITY_LOCAL OR DFCI_IDENTITY_SIGNER_ZTD else DFCI_IDENTITY_LOCAL)\<rparr>
      in map_option (\<lambda>(Status, s3). (Status, C2, s3)) (SaveProvisionedData U C2 s2))"

section \<open>Loading\<close>

definition TransitionOldInternalVar :: EFI_STATUS where
  "TransitionOldInternalVar = EFI_UNSUPPORTED"

definition set_cert :: "nat \<Rightarrow> cert_details \<Rightarrow> cert_store \<Rightarrow> cert_store" where
  "set_cert i c C = C\<lparr>cs_Certs := (cs_Certs C)[i := c]\<rparr>"

text \<open>
  The loop over the certificates: \<open>n\<close> are left, \<open>i\<close> is the index, \<open>p\<close> the offset of \<open>BytePtr\<close>.
  The remaining size \<open>VarSize\<close> is the difference of the size and \<open>p\<close> and wraps as in C.
\<close>

fun load_certs :: "'s platform \<Rightarrow> bytes \<Rightarrow> nat \<Rightarrow> nat \<Rightarrow> nat \<Rightarrow> cert_store \<Rightarrow> 's
    \<Rightarrow> (EFI_STATUS \<times> cert_store \<times> 's) option" where
  "load_certs U Var 0 i p C s = Some (EFI_SUCCESS, C, s)"
| "load_certs U Var (Suc n) i p C s = do {
     CertSize \<leftarrow> rd16 Var (10 + 2 * i);
     let C1 = set_cert i \<lparr>cd_Cert = None, cd_CertSize = unat CertSize\<rparr> C;
     if CertSize = 0 then load_certs U Var n (i + 1) p C1 s
     else if uintn_sub (length Var) p < unat CertSize then Some (EFI_COMPROMISED_DATA, C1, s)
     else case AllocatePool U (unat CertSize) s of (ok, s1) \<Rightarrow>
       if \<not> ok then Some (EFI_OUT_OF_RESOURCES, C1, s1)
       else do {
         b \<leftarrow> rd Var p (unat CertSize);
         let C2 = set_cert i \<lparr>cd_Cert = Some b, cd_CertSize = unat CertSize\<rparr> C1;
         let C3 = (if CertIndexToDfciIdentity i \<noteq> DFCI_IDENTITY_INVALID
                   then C2\<lparr>cs_PopulatedIdentities := cs_PopulatedIdentities C2 OR CertIndexToDfciIdentity i\<rparr> else C2);
         load_certs U Var n (i + 1) (p + unat CertSize) C3 s1 } }"

text \<open>User keys without an owner key: their certificates are dropped.\<close>

definition clear_user_cert :: "nat \<Rightarrow> cert_store \<Rightarrow> cert_store" where
  "clear_user_cert i C =
     (if CertIndexToDfciIdentity i \<noteq> DFCI_IDENTITY_INVALID
         \<and> CertIndexToDfciIdentity i AND DFCI_IDENTITY_MASK_USER_KEYS \<noteq> 0 \<and> cd_Cert (cs_Certs C ! i) \<noteq> None
      then (set_cert i ((cs_Certs C ! i)\<lparr>cd_Cert := None\<rparr>) C)\<lparr>cs_Version := 0, cs_Lsv := 0\<rparr> else C)"

definition load_rules :: "cert_store \<Rightarrow> EFI_STATUS \<times> cert_store" where
  "load_rules C =
     (if cs_PopulatedIdentities C AND DFCI_IDENTITY_MASK_USER_KEYS > 0
         \<and> cs_PopulatedIdentities C AND DFCI_IDENTITY_SIGNER_OWNER = 0
      then (EFI_PROTOCOL_ERROR, fold clear_user_cert [0..<MAX_NUMBER_OF_CERTS] C)
      else (EFI_SUCCESS, C))"

text \<open>The switch over the header version: the offset of the data, the number of certificates, the versions.\<close>

definition load_header :: "bytes \<Rightarrow> u8 \<Rightarrow> cert_store \<Rightarrow> (EFI_STATUS \<times> nat \<times> nat \<times> cert_store) option" where
  "load_header Var HeaderVersion C =
     (if HeaderVersion = 1 then Some (EFI_SUCCESS, 18, MAX_NUMBER_OF_CERTS_V1, C\<lparr>cs_Version := 0, cs_Lsv := 0\<rparr>)
      else if HeaderVersion = 2 then do {
        Version \<leftarrow> rd32 Var 24;
        Lsv \<leftarrow> rd32 Var 28;
        Some (EFI_SUCCESS, 32, MAX_NUMBER_OF_CERTS, C\<lparr>cs_Version := Version, cs_Lsv := Lsv\<rparr>) }
      else Some (EFI_INCOMPATIBLE_VERSION, 0, 0, C))"

definition LoadProvisionedData :: "'s platform \<Rightarrow> cert_store \<Rightarrow> 's \<Rightarrow> (EFI_STATUS \<times> cert_store \<times> 's) option" where
  "LoadProvisionedData U C s =
     (case GetVariable U CERT_VAR_NAME gDfciInternalVariableGuid s of (Status, Var, Attributes) \<Rightarrow>
      if EFI_ERROR Status then Some (Status, C, s)
      else if Attributes \<noteq> DFCI_INTERNAL_VAR_ATTRIBUTES then Some (EFI_COMPROMISED_DATA, C, s)
      else do {
        sig \<leftarrow> rd64 Var 0;
        if sig \<noteq> CERT_VAR_SIGNATURE then Some (EFI_COMPROMISED_DATA, C, s)
        else do {
          HeaderVersion \<leftarrow> rd8 Var 8;
          (Status, p, MaxCertsAllowed, C1) \<leftarrow> load_header Var HeaderVersion C;
          if EFI_ERROR Status then Some (Status, C1, s)
          else do {
            MaxCerts \<leftarrow> rd8 Var 9;
            if unat MaxCerts \<noteq> MaxCertsAllowed then Some (EFI_UNSUPPORTED, C1, s)
            else do {
              (Status, C2, s2) \<leftarrow> load_certs U Var MaxCertsAllowed 0 p C1 s;
              if EFI_ERROR Status then Some (Status, C2, s2)
              else case load_rules C2 of (Status, C3) \<Rightarrow> Some (Status, C3, s2) } } } })"

definition PopulateInternalCertStore :: "'s platform \<Rightarrow> cert_store \<Rightarrow> 's \<Rightarrow> (EFI_STATUS \<times> cert_store \<times> 's) option" where
  "PopulateInternalCertStore U C s = do {
     (Status, C1, s1) \<leftarrow> LoadProvisionedData U C s;
     if \<not> EFI_ERROR Status then Some (Status, C1, s1)
     else do {
       let C2 = FreeCertStore C1;
       (C3, s3) \<leftarrow>
         (if Status \<in> {EFI_NOT_FOUND, EFI_UNSUPPORTED, EFI_COMPROMISED_DATA, EFI_PROTOCOL_ERROR} then do {
            (_, C3, s3) \<leftarrow> InitializeProvisionedData U C2 s1;
            Some (C3, s3) }
          else Some (C2, s1));
       LoadProvisionedData U C3 s3 } }"

section \<open>Well-formed stores\<close>

text \<open>A slot is empty or holds a buffer of the recorded size, which fits the 16-bit field of the variable.\<close>

definition wf_cert :: "cert_details \<Rightarrow> bool" where
  "wf_cert c \<longleftrightarrow> (case cd_Cert c of None \<Rightarrow> cd_CertSize c = 0
     | Some b \<Rightarrow> cd_CertSize c = length b \<and> 0 < length b \<and> length b < 65536)"

definition wf_certs :: "cert_store \<Rightarrow> bool" where
  "wf_certs C \<longleftrightarrow> length (cs_Certs C) = 7 \<and> (\<forall>c\<in>set (cs_Certs C). wf_cert c)"

text \<open>The identities whose certificates are present, slots numbered from \<open>i\<close>.\<close>

fun cert_ids :: "nat \<Rightarrow> cert_details list \<Rightarrow> u8" where
  "cert_ids i [] = 0"
| "cert_ids i (c # cs) = (if cd_Cert c \<noteq> None then CertIndexToDfciIdentity i else 0) OR cert_ids (i + 1) cs"

text \<open>User keys are present only together with an owner key.\<close>

definition owner_rule :: "u8 \<Rightarrow> bool" where
  "owner_rule m \<longleftrightarrow> m AND DFCI_IDENTITY_MASK_USER_KEYS = 0 \<or> m AND DFCI_IDENTITY_SIGNER_OWNER \<noteq> 0"

definition cert_data :: "cert_details list \<Rightarrow> bytes" where
  "cert_data cs = concat (map (\<lambda>c. case cd_Cert c of None \<Rightarrow> [] | Some b \<Rightarrow> b) cs)"

lemma cert_data_simps [simp]:
  "cert_data [] = []" "cert_data (c # cs) = (case cd_Cert c of None \<Rightarrow> [] | Some b \<Rightarrow> b) @ cert_data cs"
  by (simp_all add: cert_data_def)

lemma packed_certs_wf: "\<forall>c\<in>set cs. wf_cert c \<Longrightarrow> packed_certs cs = Some (cert_data cs)"
  by (induction cs) (auto simp: cert_bytes_def wf_cert_def split: option.splits)

lemma word_of_nat16: "n < 65536 \<Longrightarrow> unat (word_of_nat n :: u16) = n"
  by (simp add: unat_of_nat)

lemma add_identity:
  "(if k \<noteq> 0 then C\<lparr>cs_PopulatedIdentities := cs_PopulatedIdentities C OR k\<rparr> else C)
    = C\<lparr>cs_PopulatedIdentities := cs_PopulatedIdentities C OR k\<rparr>"
  by simp

lemma load_certs_ok:
  assumes "alloc_succeeds U" "\<forall>c\<in>set cs. wf_cert c"
    and "\<forall>j<length cs. rd16 Var (10 + 2 * (i + j)) = Some (word_of_nat (cd_CertSize (cs ! j)))"
    and "drop p Var = cert_data cs @ rest" "p \<le> length Var" "length Var < 2 ^ 64" "length (cs_Certs C) \<ge> i + length cs"
  shows "\<exists>s'. load_certs U Var (length cs) i p C s = Some (EFI_SUCCESS,
     C\<lparr>cs_Certs := take i (cs_Certs C) @ cs @ drop (i + length cs) (cs_Certs C),
       cs_PopulatedIdentities := cs_PopulatedIdentities C OR cert_ids i cs\<rparr>, s')"
  using assms(2-7)
proof (induction cs arbitrary: i p C s)
  case Nil
  then show ?case by simp
next
  case (Cons c cs)
  have rd: "rd16 Var (10 + 2 * i) = Some (word_of_nat (cd_CertSize c))"
    using Cons.prems(2) by (auto dest: spec [of _ 0])
  have rds: "\<forall>j<length cs. rd16 Var (10 + 2 * (Suc i + j)) = Some (word_of_nat (cd_CertSize (cs ! j)))"
  proof (intro allI impI)
    fix j assume "j < length cs"
    then show "rd16 Var (10 + 2 * (Suc i + j)) = Some (word_of_nat (cd_CertSize (cs ! j)))"
      using Cons.prems(2) [rule_format, of "Suc j"] by simp
  qed
  have upd: "take (Suc i) ((cs_Certs C)[i := x]) = take i (cs_Certs C) @ [x]"
    "drop (Suc (i + n)) ((cs_Certs C)[i := x]) = drop (Suc (i + n)) (cs_Certs C)" for x n
    using Cons.prems(6) by (simp_all add: take_Suc_conv_app_nth)
  have len: "Suc i + length cs \<le> length ((cs_Certs C)[i := x])" for x
    using Cons.prems(6) by simp
  show ?case
  proof (cases "cd_Cert c")
    case None
    then have c: "\<lparr>cd_Cert = None, cd_CertSize = 0\<rparr> = c" "cd_CertSize c = 0"
      using Cons.prems(1) by (simp_all add: wf_cert_def)
    define C1 where "C1 = C\<lparr>cs_Certs := (cs_Certs C)[i := c]\<rparr>"
    have "\<exists>s'. load_certs U Var (length cs) (Suc i) p C1 s = Some (EFI_SUCCESS,
        C1\<lparr>cs_Certs := take (Suc i) (cs_Certs C1) @ cs @ drop (Suc i + length cs) (cs_Certs C1),
          cs_PopulatedIdentities := cs_PopulatedIdentities C1 OR cert_ids (Suc i) cs\<rparr>, s')"
      using Cons.prems None rds len [of c] by (intro Cons.IH) (auto simp: C1_def)
    then show ?thesis
      using rd c(2) None by (simp add: set_cert_def C1_def upd c(1))
  next
    case (Some b)
    then have c: "\<lparr>cd_Cert = Some b, cd_CertSize = length b\<rparr> = c" "cd_CertSize c = length b"
      "0 < length b" "length b < 65536"
      using Cons.prems(1) by (simp_all add: wf_cert_def)
    have dr: "drop p Var = b @ cert_data cs @ rest" using Cons.prems(3) Some by simp
    then have l: "length b \<le> length Var - p" by (metis length_append length_drop le_add1)
    have r: "rd Var p (length b) = Some b" using dr l Cons.prems(4) by (simp add: rd_def)
    have dr': "drop (p + length b) Var = cert_data cs @ rest"
      using dr by (metis append_eq_conv_conj add.commute drop_drop)
    have z: "(word_of_nat (length b) :: u16) \<noteq> 0" using word_of_nat16 [OF c(4)] c(3) by auto
    obtain ok s1 where a: "AllocatePool U (length b) s = (ok, s1)" "ok"
      using alloc_succeedsD [OF assms(1)] by (metis prod.exhaust)
    define C1 where "C1 = C\<lparr>cs_Certs := (cs_Certs C)[i := c],
      cs_PopulatedIdentities := cs_PopulatedIdentities C OR CertIndexToDfciIdentity i\<rparr>"
    have "\<exists>s'. load_certs U Var (length cs) (Suc i) (p + length b) C1 s1 = Some (EFI_SUCCESS,
        C1\<lparr>cs_Certs := take (Suc i) (cs_Certs C1) @ cs @ drop (Suc i + length cs) (cs_Certs C1),
          cs_PopulatedIdentities := cs_PopulatedIdentities C1 OR cert_ids (Suc i) cs\<rparr>, s')"
      using Cons.prems(1,4,5) rds dr' l len [of c] by (intro Cons.IH) (auto simp: C1_def)
    moreover have "load_certs U Var (length (c # cs)) i p C s = load_certs U Var (length cs) (Suc i) (p + length b) C1 s1"
      using rd [unfolded c(2)] z a r l Cons.prems(4,5)
      by (simp add: set_cert_def C1_def uintn_sub_le word_of_nat16 [OF c(4)] Let_def add_identity c(1))
    ultimately show ?thesis
      using c Some by (simp add: C1_def upd or.assoc)
  qed
qed

section \<open>Saving and loading\<close>

lemma length_certs7: "length xs = 7 \<Longrightarrow> \<exists>a b c d e f g. xs = [a, b, c, d, e, f, g]"
  by (auto simp: length_Suc_conv numeral_eq_Suc)

lemma length_cert_header: "length (cs_Certs C) = 7 \<Longrightarrow> length (cert_header C) = 32"
  by (auto simp: cert_header_def dest!: length_certs7)

lemma cert_header_fields:
  assumes "length (cs_Certs C) = 7"
  shows "rd64 (cert_header C @ d) 0 = Some CERT_VAR_SIGNATURE" "rd8 (cert_header C @ d) 8 = Some 2"
    "rd8 (cert_header C @ d) 9 = Some 7" "rd32 (cert_header C @ d) 24 = Some (cs_Version C)"
    "rd32 (cert_header C @ d) 28 = Some (cs_Lsv C)"
proof -
  define A where "A = le64 CERT_VAR_SIGNATURE"
  define B where "B = concat (map (\<lambda>c. le16 (word_of_nat (cd_CertSize c))) (cs_Certs C))"
  have l: "length A = 8" "length B = 14"
    using assms by (auto simp: A_def B_def dest!: length_certs7)
  have h: "cert_header C @ d = A @ [2, 7] @ B @ le32 (cs_Version C) @ le32 (cs_Lsv C) @ d"
    by (simp add: cert_header_def A_def B_def)
  show "rd64 (cert_header C @ d) 0 = Some CERT_VAR_SIGNATURE"
    unfolding h A_def using rd_field_append(4) [of "[]" 0] by simp
  show "rd8 (cert_header C @ d) 8 = Some 2" "rd8 (cert_header C @ d) 9 = Some 7"
    unfolding h using l by (simp_all add: rd8_def nth_append)
  show "rd32 (cert_header C @ d) 24 = Some (cs_Version C)"
    unfolding h using rd_field_append(3) [of "A @ [2, 7] @ B" 24 "cs_Version C"] l by simp
  show "rd32 (cert_header C @ d) 28 = Some (cs_Lsv C)"
    unfolding h using rd_field_append(3) [of "A @ [2, 7] @ B @ le32 (cs_Version C)" 28 "cs_Lsv C"] l by simp
qed

lemma cert_header_sizes:
  assumes "length (cs_Certs C) = 7" "j < 7"
  shows "rd16 (cert_header C @ d) (10 + 2 * j) = Some (word_of_nat (cd_CertSize (cs_Certs C ! j)))"
proof -
  define sz where "sz = (\<lambda>c :: cert_details. le16 (word_of_nat (cd_CertSize c)))"
  have c: "cs_Certs C = take j (cs_Certs C) @ cs_Certs C ! j # drop (Suc j) (cs_Certs C)"
    using assms by (simp add: id_take_nth_drop)
  have "length (concat (map sz cs)) = 2 * length cs" for cs
    by (induction cs) (simp_all add: sz_def)
  then have l: "length (le64 CERT_VAR_SIGNATURE @ [2, 7] @ concat (map sz (take j (cs_Certs C)))) = 10 + 2 * j"
    using assms by simp
  have "cert_header C @ d = (le64 CERT_VAR_SIGNATURE @ [2, 7] @ concat (map sz (take j (cs_Certs C))))
      @ le16 (word_of_nat (cd_CertSize (cs_Certs C ! j))) @ concat (map sz (drop (Suc j) (cs_Certs C)))
      @ le32 (cs_Version C) @ le32 (cs_Lsv C) @ d"
    unfolding cert_header_def by (subst c) (simp add: sz_def)
  then show ?thesis using rd_field_append(2) [OF l] by simp
qed

text \<open>
  The variable holds the store \<open>C\<close>, which can be loaded over the store \<open>C0\<close> in memory: the identities
  of both obey the rule of \<open>LoadProvisionedData\<close>.
\<close>

definition cert_ready :: "'s platform \<Rightarrow> cert_store \<Rightarrow> cert_store \<Rightarrow> bool" where
  "cert_ready U C0 C \<longleftrightarrow> nv_laws U \<and> wf_certs C \<and> owner_rule (cert_ids 0 (cs_Certs C))
     \<and> owner_rule (cs_PopulatedIdentities C0) \<and> length (cs_Certs C0) = 7"

definition cert_stored :: "'s platform \<Rightarrow> cert_store \<Rightarrow> 's \<Rightarrow> cert_store \<Rightarrow> bool" where
  "cert_stored U C0 s C \<longleftrightarrow> cert_ready U C0 C
     \<and> GetVariable U CERT_VAR_NAME gDfciInternalVariableGuid s =
         (EFI_SUCCESS, cert_header C @ cert_data (cs_Certs C), DFCI_INTERNAL_VAR_ATTRIBUTES)"

definition same_certs :: "cert_store \<Rightarrow> cert_store \<Rightarrow> bool" where
  "same_certs C C' \<longleftrightarrow> cs_Certs C' = cs_Certs C \<and> cs_Version C' = cs_Version C \<and> cs_Lsv C' = cs_Lsv C"

lemma word_or_0: "(a :: u8) OR b = 0 \<longleftrightarrow> a = 0 \<and> b = 0"
  by (auto simp: bit_eq_iff bit_or_iff)

lemma owner_rule_or: "owner_rule a \<Longrightarrow> owner_rule b \<Longrightarrow> owner_rule (a OR b)"
  by (auto simp: owner_rule_def bit.conj_disj_distrib2 word_or_0 simp del: identity_masks)

lemma owner_rule_load: "owner_rule (cs_PopulatedIdentities C) \<Longrightarrow> load_rules C = (EFI_SUCCESS, C)"
  by (auto simp: owner_rule_def load_rules_def)

lemma length_cert_data: "\<forall>c\<in>set cs. wf_cert c \<Longrightarrow> length (cert_data cs) \<le> length cs * 65536"
  by (induction cs) (auto simp: wf_cert_def split: option.splits)

lemma LoadProvisionedData_stored:
  assumes st: "cert_stored U C0 s C"
  shows "\<exists>C' s'. LoadProvisionedData U C0 s = Some (EFI_SUCCESS, C', s') \<and> same_certs C C'
    \<and> cs_PopulatedIdentities C' = cs_PopulatedIdentities C0 OR cert_ids 0 (cs_Certs C)"
proof -
  define Var where "Var = cert_header C @ cert_data (cs_Certs C)"
  have C: "wf_certs C" "nv_laws U" "owner_rule (cs_PopulatedIdentities C0)" "owner_rule (cert_ids 0 (cs_Certs C))"
    and v: "GetVariable U CERT_VAR_NAME gDfciInternalVariableGuid s = (EFI_SUCCESS, Var, DFCI_INTERNAL_VAR_ATTRIBUTES)"
    and l0: "length (cs_Certs C0) = 7"
    using st by (simp_all add: cert_stored_def cert_ready_def Var_def)
  have l: "length (cs_Certs C) = 7" "\<forall>c\<in>set (cs_Certs C). wf_cert c" using C(1) by (simp_all add: wf_certs_def)
  have lv: "length Var = 32 + length (cert_data (cs_Certs C))" using length_cert_header [OF l(1)] by (simp add: Var_def)
  have dr: "drop 32 Var = cert_data (cs_Certs C) @ []" using length_cert_header [OF l(1)] by (simp add: Var_def)
  have bound: "length Var < 2 ^ 64" using lv length_cert_data [OF l(2)] l(1) by simp
  have sizes: "\<forall>j<length (cs_Certs C). rd16 Var (10 + 2 * (0 + j)) = Some (word_of_nat (cd_CertSize (cs_Certs C ! j)))"
    using cert_header_sizes [OF l(1)] l(1) by (simp add: Var_def)
  define C1 where "C1 = C0\<lparr>cs_Version := cs_Version C, cs_Lsv := cs_Lsv C\<rparr>"
  have l1: "0 + length (cs_Certs C) \<le> length (cs_Certs C1)" using l(1) l0 by (simp add: C1_def)
  have "32 \<le> length Var" using lv by simp
  from load_certs_ok [OF nv_lawsD(1) [OF C(2)] l(2) sizes dr this bound l1, of s]
  obtain s' where lc: "load_certs U Var 7 0 32 C1 s = Some (EFI_SUCCESS, C1\<lparr>cs_Certs := cs_Certs C,
      cs_PopulatedIdentities := cs_PopulatedIdentities C0 OR cert_ids 0 (cs_Certs C)\<rparr>, s')"
    using l(1) l0 by (auto simp: C1_def)
  have lr: "load_rules (C1\<lparr>cs_Certs := cs_Certs C,
      cs_PopulatedIdentities := cs_PopulatedIdentities C0 OR cert_ids 0 (cs_Certs C)\<rparr>)
    = (EFI_SUCCESS, C1\<lparr>cs_Certs := cs_Certs C,
      cs_PopulatedIdentities := cs_PopulatedIdentities C0 OR cert_ids 0 (cs_Certs C)\<rparr>)"
    using owner_rule_or [OF C(3,4)] by (intro owner_rule_load) simp
  show ?thesis
    using v lc lr cert_header_fields [OF l(1), of "cert_data (cs_Certs C)"]
    by (simp add: LoadProvisionedData_def load_header_def Var_def [symmetric] C1_def [symmetric])
      (simp add: C1_def same_certs_def)
qed

lemma load_certs_vars:
  "alloc_keeps_vars U \<Longrightarrow> load_certs U Var n i p C s = Some (st, C', s') \<Longrightarrow> same_vars U s s'"
proof (induction n arbitrary: i p C s)
  case (Suc n)
  show ?case
    using Suc.prems Suc.IH [OF Suc.prems(1)] alloc_keeps_varsD(1) [OF Suc.prems(1)]
    by (auto simp: Let_def split: Option.bind_splits if_splits prod.splits) (meson same_vars_trans)+
qed simp

lemma LoadProvisionedData_vars:
  "alloc_keeps_vars U \<Longrightarrow> LoadProvisionedData U C s = Some (st, C', s') \<Longrightarrow> same_vars U s s'"
  by (auto simp: LoadProvisionedData_def dest: load_certs_vars split: Option.bind_splits if_splits prod.splits)

lemma cert_stored_vars: "same_vars U s s' \<Longrightarrow> cert_stored U C0 s C \<Longrightarrow> cert_stored U C0 s' C"
  by (simp add: cert_stored_def same_vars_def)

definition save_certs :: "'s platform \<Rightarrow> cert_store \<Rightarrow> 's \<Rightarrow> (EFI_STATUS \<times> cert_store \<times> 's) option" where
  "save_certs U C s = map_option (\<lambda>(st, s'). (st, C, s')) (SaveProvisionedData U C s)"

lemma SaveProvisionedData_wf:
  assumes "cert_ready U C0 C"
  obtains s1 where "same_vars U s s1" "SaveProvisionedData U C s = Some (SetVariable U CERT_VAR_NAME
    gDfciInternalVariableGuid DFCI_INTERNAL_VAR_ATTRIBUTES (cert_header C @ cert_data (cs_Certs C)) s1)"
proof -
  obtain ok s1 where a: "AllocatePool U (cert_var_size C) s = (ok, s1)" by (metis prod.exhaust)
  have ok: "ok" and v: "same_vars U s s1"
    using alloc_succeedsD [OF _ a] alloc_keeps_varsD(1) [OF _ a] assms by (simp_all add: cert_ready_def nv_laws_def)
  have "packed_certs (cs_Certs C) = Some (cert_data (cs_Certs C))"
    using assms by (intro packed_certs_wf) (simp add: cert_ready_def wf_certs_def)
  with that [OF v] a ok show ?thesis by (simp add: SaveProvisionedData_def)
qed

interpretation cert_nv: nv_component "save_certs U" "LoadProvisionedData U C0" "\<lambda>C s. cert_ready U C0 C"
  "cert_stored U C0" same_certs
  for U C0
proof (unfold_locales, goal_cases)
  case (1 C s)
  then obtain s1 where sv: "SaveProvisionedData U C s = Some (SetVariable U CERT_VAR_NAME gDfciInternalVariableGuid
      DFCI_INTERNAL_VAR_ATTRIBUTES (cert_header C @ cert_data (cs_Certs C)) s1)"
    by (rule SaveProvisionedData_wf)
  show ?case by (simp add: save_certs_def sv case_prod_beta)
next
  case (2 C s st C' s')
  then obtain s1 where sv: "SaveProvisionedData U C s = Some (SetVariable U CERT_VAR_NAME gDfciInternalVariableGuid
      DFCI_INTERNAL_VAR_ATTRIBUTES (cert_header C @ cert_data (cs_Certs C)) s1)"
    by (elim SaveProvisionedData_wf)
  then have "SetVariable U CERT_VAR_NAME gDfciInternalVariableGuid DFCI_INTERNAL_VAR_ATTRIBUTES
      (cert_header C @ cert_data (cs_Certs C)) s1 = (st, s')"
    using 2 by (auto simp: save_certs_def split: prod.splits)
  moreover have "cert_header C \<noteq> []" "variable_laws U"
    using 2(1) by (auto simp: cert_header_def cert_ready_def nv_laws_def)
  ultimately show ?case
    using 2(1,3) variable_lawsD(1) by (fastforce simp: cert_stored_def)
next
  case (3 C s st C' s' C1)
  then obtain s1 where v: "same_vars U s s1" and sv: "SaveProvisionedData U C s = Some (SetVariable U CERT_VAR_NAME
      gDfciInternalVariableGuid DFCI_INTERNAL_VAR_ATTRIBUTES (cert_header C @ cert_data (cs_Certs C)) s1)"
    by (elim SaveProvisionedData_wf)
  then have w: "SetVariable U CERT_VAR_NAME gDfciInternalVariableGuid DFCI_INTERNAL_VAR_ATTRIBUTES
      (cert_header C @ cert_data (cs_Certs C)) s1 = (st, s')"
    using 3 by (auto simp: save_certs_def split: prod.splits)
  have "variable_laws U" using 3(1) by (simp add: cert_ready_def nv_laws_def)
  then have "same_vars U s1 s'"
    using w 3(3) by (rule variable_lawsD(3))
  from cert_stored_vars [OF same_vars_trans [OF v this] 3(4)] show ?case .
next
  case (4 s C)
  then obtain C' s' where l: "LoadProvisionedData U C0 s = Some (EFI_SUCCESS, C', s')" "same_certs C C'"
    using LoadProvisionedData_stored [OF 4] by blast
  have "alloc_keeps_vars U" using 4 by (simp add: cert_stored_def cert_ready_def nv_laws_def)
  from cert_stored_vars [OF LoadProvisionedData_vars [OF this l(1)] 4] l show ?case by blast
qed

section \<open>The mask of identities\<close>

lemma cert_ids_append: "cert_ids i (xs @ ys) = cert_ids i xs OR cert_ids (i + length xs) ys"
  by (induction xs arbitrary: i) (simp_all add: or.assoc)

lemma load_certs_mask:
  assumes "load_certs U Var n i p C s = Some (st, C', s')" "\<not> EFI_ERROR st" "i + n \<le> length (cs_Certs C)"
  shows "length (cs_Certs C') = length (cs_Certs C) \<and> take i (cs_Certs C') = take i (cs_Certs C)
    \<and> drop (i + n) (cs_Certs C') = drop (i + n) (cs_Certs C)
    \<and> cs_PopulatedIdentities C' = cs_PopulatedIdentities C OR cert_ids i (take n (drop i (cs_Certs C')))
    \<and> (\<forall>c\<in>set (take n (drop i (cs_Certs C'))). wf_cert c)"
  using assms
proof (induction n arbitrary: i p C s)
  case (Suc n)
  obtain x p1 C1 s1 where x: "wf_cert x" "cs_Certs C1 = (cs_Certs C)[i := x]"
    "cs_PopulatedIdentities C1 = cs_PopulatedIdentities C OR (if cd_Cert x \<noteq> None then CertIndexToDfciIdentity i else 0)"
    "load_certs U Var n (Suc i) p1 C1 s1 = Some (st, C', s')"
  proof -
    obtain k where k: "rd16 Var (10 + 2 * i) = Some k" using Suc.prems(1) by (auto split: Option.bind_splits)
    show ?thesis
    proof (cases "k = 0")
      case True
      then show ?thesis
        using that [of "\<lparr>cd_Cert = None, cd_CertSize = 0\<rparr>" "set_cert i \<lparr>cd_Cert = None, cd_CertSize = 0\<rparr> C" p s]
          Suc.prems(1) k by (simp add: wf_cert_def set_cert_def Let_def)
    next
      case False
      then obtain ok s2 b where a: "AllocatePool U (unat k) s = (ok, s2)" "ok" "rd Var p (unat k) = Some b"
        "\<not> uintn_sub (length Var) p < unat k"
        using Suc.prems(1,2) k by (auto simp: Let_def split: Option.bind_splits if_splits prod.splits)
      have "length b = unat k" "0 < unat k" "unat k < 65536"
        using a(3) False unat_bound [of k] by (auto simp: rd_def unat_gt_0 split: if_splits)
      then show ?thesis
        using that [of "\<lparr>cd_Cert = Some b, cd_CertSize = unat k\<rparr>"
            "C\<lparr>cs_Certs := (cs_Certs C)[i := \<lparr>cd_Cert = Some b, cd_CertSize = unat k\<rparr>],
               cs_PopulatedIdentities := cs_PopulatedIdentities C OR CertIndexToDfciIdentity i\<rparr>" "p + unat k" s2]
          Suc.prems(1) k a False
        by (simp add: wf_cert_def set_cert_def Let_def add_identity)
    qed
  qed
  have l: "Suc i + n \<le> length (cs_Certs C1)" using Suc.prems(3) x(2) by simp
  note IH = Suc.IH [OF x(4) Suc.prems(2) l]
  have i: "i < length (cs_Certs C)" using Suc.prems(3) by simp
  have tk: "take (Suc i) (cs_Certs C1) = take i (cs_Certs C) @ [x]" using i x(2) by (simp add: take_Suc_conv_app_nth)
  have ci: "cs_Certs C' ! i = x" "take i (cs_Certs C') = take i (cs_Certs C)"
    using IH tk i x(2) by (metis (no_types, lifting) length_list_update nth_append_length nth_take lessI length_take min.absorb4)
      (metis IH tk append_eq_conv_conj length_take min.absorb4 i take_take min_def Suc_n_not_le_n nat_less_le less_imp_le)
  have d: "drop i (cs_Certs C') = x # drop (Suc i) (cs_Certs C')"
    using ci(1) IH i x(2) by (metis Cons_nth_drop_Suc length_list_update)
  show ?case using IH ci d x i by (simp add: or.assoc)
qed simp

lemma load_certs_status:
  "load_certs U Var n i p C s = Some (st, C', s') \<Longrightarrow> \<not> EFI_ERROR st \<Longrightarrow> st = EFI_SUCCESS"
proof (induction n arbitrary: i p C s)
  case (Suc n)
  from Suc.prems Suc.IH show ?case
    by (auto simp: Let_def split: Option.bind_splits if_splits prod.splits)
qed simp

lemma load_rules_success: "load_rules C = (EFI_SUCCESS, C') \<longleftrightarrow> C' = C \<and> owner_rule (cs_PopulatedIdentities C)"
proof -
  have "(0 :: u8) < x \<longleftrightarrow> x \<noteq> 0" for x by (simp add: word_gt_0)
  then show ?thesis by (auto simp: load_rules_def owner_rule_def)
qed

lemma LoadProvisionedData_mask:
  assumes "LoadProvisionedData U C s = Some (st, C', s')" "\<not> EFI_ERROR st" "length (cs_Certs C) = 7"
  obtains n where "n = 4 \<or> n = 7" "length (cs_Certs C') = 7" "drop n (cs_Certs C') = drop n (cs_Certs C)"
    "cs_PopulatedIdentities C' = cs_PopulatedIdentities C OR cert_ids 0 (take n (cs_Certs C'))"
    "\<forall>c\<in>set (take n (cs_Certs C')). wf_cert c" "owner_rule (cs_PopulatedIdentities C')"
proof -
  obtain Var p n C1 C2 where n: "n = 4 \<or> n = 7" "cs_Certs C1 = cs_Certs C"
    "cs_PopulatedIdentities C1 = cs_PopulatedIdentities C"
    and l: "load_certs U Var n 0 p C1 s = Some (EFI_SUCCESS, C2, s')"
    and r: "load_rules C2 = (EFI_SUCCESS, C')"
  proof -
    obtain Var ver st1 p n C1 st2 C2 where c: "load_header Var ver C = Some (st1, p, n, C1)"
      "load_certs U Var n 0 p C1 s = Some (st2, C2, s')" "\<not> EFI_ERROR st2" "load_rules C2 = (st, C')"
      and e: "\<not> EFI_ERROR st1"
      using assms(1,2)
      by (auto simp: LoadProvisionedData_def split: Option.bind_splits if_splits prod.splits)
    have "st2 = EFI_SUCCESS" using load_certs_status [OF c(2,3)] .
    moreover have "st = EFI_SUCCESS" using c(4) assms(2) by (auto simp: load_rules_def split: if_splits)
    moreover have "(n = 4 \<or> n = 7) \<and> cs_Certs C1 = cs_Certs C \<and> cs_PopulatedIdentities C1 = cs_PopulatedIdentities C"
      using c(1) e by (auto simp: load_header_def split: if_splits Option.bind_splits)
    ultimately show ?thesis using that [of n C1 Var p C2] c by simp
  qed
  have "0 + n \<le> length (cs_Certs C1)" using n assms(3) by auto
  from load_certs_mask [OF l EFI_ERROR_SUCCESS this] r n assms(3) show ?thesis
    by (intro that [of n]) (auto simp: load_rules_success)
qed

section \<open>Properties\<close>

text \<open>
  Property C24: a store whose certificates were saved without an error is loaded back with the
  same certificates and versions, over any store in memory whose identities obey the owner rule.
\<close>

theorem SaveProvisionedData_LoadProvisionedData_roundtrip:
  assumes "cert_ready U C0 C" "SaveProvisionedData U C s = Some (st, s')" "\<not> EFI_ERROR st"
  shows "\<exists>C' s''. LoadProvisionedData U C0 s' = Some (EFI_SUCCESS, C', s'') \<and> cs_Certs C' = cs_Certs C
    \<and> cs_Version C' = cs_Version C \<and> cs_Lsv C' = cs_Lsv C"
proof -
  have "save_certs U C s = Some (st, C, s')" using assms(2) by (simp add: save_certs_def)
  from cert_nv.save_load [OF assms(1) this assms(3)] show ?thesis by (auto simp: same_certs_def)
qed

definition example_certs :: cert_store where
  "example_certs = \<lparr>cs_Version = 1, cs_Lsv = 1, cs_PopulatedIdentities = 0xC1, cs_Certs =
     [\<lparr>cd_Cert = Some [1, 2], cd_CertSize = 2\<rparr>, no_cert, no_cert, \<lparr>cd_Cert = Some [3], cd_CertSize = 1\<rparr>,
      no_cert, no_cert, no_cert]\<rparr>"

lemma example_cert_ready: "cert_ready demo_platform mInternalCertStore example_certs"
  using demo_laws
  by (simp add: cert_ready_def nv_laws_def wf_certs_def example_certs_def wf_cert_def no_cert_def owner_rule_def
      mInternalCertStore_def CertIndexToDfciIdentity_def)

theorem SaveProvisionedData_LoadProvisionedData_roundtrip_witness:
  "\<exists>s' C' s''. SaveProvisionedData demo_platform example_certs example_state = Some (EFI_SUCCESS, s')
     \<and> LoadProvisionedData demo_platform mInternalCertStore s' = Some (EFI_SUCCESS, C', s'')
     \<and> cs_Certs C' ! 3 = \<lparr>cd_Cert = Some [3], cd_CertSize = 1\<rparr>"
proof -
  obtain s' where sv: "SaveProvisionedData demo_platform example_certs example_state = Some (EFI_SUCCESS, s')"
    by (simp add: SaveProvisionedData_def demo_simps example_certs_def cert_bytes_def no_cert_def)
  from SaveProvisionedData_LoadProvisionedData_roundtrip [OF example_cert_ready sv] sv show ?thesis
    by (auto simp: example_certs_def)
qed

text \<open>
  Property C25: at boot a variable that is accepted yields a well-formed store whose mask of
  populated identities is exactly the local user and the identities with a certificate, and in
  which user keys occur only together with an owner key.
\<close>

theorem LoadProvisionedData_at_boot:
  assumes "LoadProvisionedData U mInternalCertStore s = Some (st, C, s')" "\<not> EFI_ERROR st"
  shows "wf_certs C \<and> cs_PopulatedIdentities C = DFCI_IDENTITY_LOCAL OR cert_ids 0 (cs_Certs C)
    \<and> owner_rule (cs_PopulatedIdentities C)"
proof -
  have "length (cs_Certs mInternalCertStore) = 7" by (simp add: mInternalCertStore_def)
  with assms obtain n where n: "n = 4 \<or> n = 7" "length (cs_Certs C) = 7"
    "drop n (cs_Certs C) = drop n (cs_Certs mInternalCertStore)"
    "cs_PopulatedIdentities C = cs_PopulatedIdentities mInternalCertStore OR cert_ids 0 (take n (cs_Certs C))"
    "\<forall>c\<in>set (take n (cs_Certs C)). wf_cert c" "owner_rule (cs_PopulatedIdentities C)"
    by (rule LoadProvisionedData_mask)
  have d: "drop n (cs_Certs C) = replicate (7 - n) no_cert"
    using n(3) by (simp add: mInternalCertStore_def)
  have z: "cert_ids i (replicate k no_cert) = 0" for i k
    by (induction k arbitrary: i) (simp_all add: no_cert_def)
  have c: "cs_Certs C = take n (cs_Certs C) @ replicate (7 - n) no_cert"
    using d by (metis append_take_drop_id)
  have "cert_ids 0 (cs_Certs C) = cert_ids 0 (take n (cs_Certs C))"
    by (subst c) (simp add: cert_ids_append z)
  moreover have "\<forall>c\<in>set (cs_Certs C). wf_cert c"
    using n(5) by (subst c) (auto simp: wf_cert_def no_cert_def)
  ultimately show ?thesis using n by (simp add: wf_certs_def mInternalCertStore_def)
qed

theorem LoadProvisionedData_at_boot_witness:
  "\<exists>C s'. LoadProvisionedData demo_platform mInternalCertStore
     (snd (the (SaveProvisionedData demo_platform example_certs example_state))) = Some (EFI_SUCCESS, C, s')
     \<and> wf_certs C"
proof -
  obtain s' where sv: "SaveProvisionedData demo_platform example_certs example_state = Some (EFI_SUCCESS, s')"
    by (simp add: SaveProvisionedData_def demo_simps example_certs_def cert_bytes_def no_cert_def)
  have "save_certs demo_platform example_certs example_state = Some (EFI_SUCCESS, example_certs, s')"
    using sv by (simp add: save_certs_def)
  from cert_nv.save_load [OF example_cert_ready this] obtain C s'' where
    l: "LoadProvisionedData demo_platform mInternalCertStore s' = Some (EFI_SUCCESS, C, s'')" by auto
  from LoadProvisionedData_at_boot [OF l] l sv show ?thesis by auto
qed

lemma FreeCertStore_certs:
  assumes "length (cs_Certs C) = 7"
  shows "cs_Certs (FreeCertStore C) = [no_cert, no_cert, no_cert, no_cert, cs_Certs C ! 4, no_cert, no_cert]"
  using length_certs7 [OF assms] by (auto simp: FreeCertStore_def upt_rec numeral_eq_Suc)

text \<open>
  Clearing the provisioned data removes every certificate but the zero-touch one
  from the store and from the variable: the next boot finds the local user and, if its
  certificate was present, the zero-touch identity, and nobody else.
\<close>

lemma InitializeProvisionedData_forgets_keys:
  assumes laws: "nv_laws U" and w: "wf_certs C"
    and i: "InitializeProvisionedData U C s = Some (st, C', s')" and ok: "\<not> EFI_ERROR st"
  shows "cs_Certs C' = [no_cert, no_cert, no_cert, no_cert, cs_Certs C ! 4, no_cert, no_cert]
    \<and> cs_PopulatedIdentities C' = (if cd_Cert (cs_Certs C ! 4) = None then DFCI_IDENTITY_LOCAL
         else DFCI_IDENTITY_LOCAL OR DFCI_IDENTITY_SIGNER_ZTD)
    \<and> (\<exists>C'' s''. LoadProvisionedData U mInternalCertStore s' = Some (EFI_SUCCESS, C'', s'')
         \<and> cs_Certs C'' = cs_Certs C' \<and> cs_PopulatedIdentities C'' = cs_PopulatedIdentities C')"
proof -
  have l: "length (cs_Certs C) = 7" and z: "wf_cert (cs_Certs C ! 4)" using w by (auto simp: wf_certs_def)
  then have zs: "cd_CertSize (cs_Certs C ! 4) = 0 \<longleftrightarrow> cd_Cert (cs_Certs C ! 4) = None"
    by (auto simp: wf_cert_def split: option.splits)
  note F = FreeCertStore_certs [OF l]
  from i obtain s2 where C': "C' = (FreeCertStore C)\<lparr>cs_PopulatedIdentities := (if cd_Cert (cs_Certs C ! 4) = None
      then DFCI_IDENTITY_LOCAL else DFCI_IDENTITY_LOCAL OR DFCI_IDENTITY_SIGNER_ZTD)\<rparr>"
    and sv: "SaveProvisionedData U C' s2 = Some (st, s')"
    using zs by (auto simp: InitializeProvisionedData_def Let_def F split: if_splits)
  have r: "cert_ready U mInternalCertStore C'"
    using laws z by (auto simp: cert_ready_def wf_certs_def C' F wf_cert_def no_cert_def owner_rule_def
        mInternalCertStore_def CertIndexToDfciIdentity_def)
  have "save_certs U C' s2 = Some (st, C', s')" using sv by (simp add: save_certs_def)
  from LoadProvisionedData_stored [OF cert_nv.save_stores [OF r this ok]]
  obtain C'' s'' where "LoadProvisionedData U mInternalCertStore s' = Some (EFI_SUCCESS, C'', s'')"
    "cs_Certs C'' = cs_Certs C'" "cs_PopulatedIdentities C'' = DFCI_IDENTITY_LOCAL OR cert_ids 0 (cs_Certs C')"
    by (auto simp: same_certs_def mInternalCertStore_def)
  then show ?thesis by (auto simp: C' F no_cert_def CertIndexToDfciIdentity_def)
qed

text \<open>
  A variable that declares a zero-touch certificate of \<open>n\<close> bytes but ends with its header.
\<close>

definition truncated_certs :: "nat \<Rightarrow> cert_store" where
  "truncated_certs n = \<lparr>cs_Version = 0, cs_Lsv = 0, cs_PopulatedIdentities = DFCI_IDENTITY_LOCAL, cs_Certs =
     [no_cert, no_cert, no_cert, no_cert, \<lparr>cd_Cert = None, cd_CertSize = n\<rparr>, no_cert, no_cert]\<rparr>"

lemma truncated_load:
  assumes "0 < n" "n < 65536"
    and v: "GetVariable U CERT_VAR_NAME gDfciInternalVariableGuid s =
      (EFI_SUCCESS, cert_header (truncated_certs n), DFCI_INTERNAL_VAR_ATTRIBUTES)"
    and c: "cs_Certs C = [no_cert, no_cert, no_cert, no_cert, x, no_cert, no_cert]"
  shows "LoadProvisionedData U C s = Some (EFI_COMPROMISED_DATA,
    C\<lparr>cs_Version := 0, cs_Lsv := 0, cs_Certs := cs_Certs (truncated_certs n)\<rparr>, s)"
proof -
  have l: "length (cs_Certs (truncated_certs n)) = 7" by (simp add: truncated_certs_def)
  note f = cert_header_fields [OF l, of "[]", simplified]
  have sz: "rd16 (cert_header (truncated_certs n)) (10 + 2 * j) =
      Some (word_of_nat (cd_CertSize (cs_Certs (truncated_certs n) ! j)))" if "j < 7" for j
    using cert_header_sizes [OF l that, of "[]"] by simp
  have nz: "(word_of_nat n :: u16) \<noteq> 0" using word_of_nat16 [OF assms(2)] assms(1) by auto
  have skip: "load_certs U (cert_header (truncated_certs n)) (Suc k) j 32 C1 s
      = load_certs U (cert_header (truncated_certs n)) k (j + 1) 32 C1 s"
    if "j < 4" "cs_Certs C1 = cs_Certs C" for k j C1
  proof -
    have j: "j = 0 \<or> j = 1 \<or> j = 2 \<or> j = 3" using that(1) by auto
    then have "cs_Certs (truncated_certs n) ! j = no_cert" "cs_Certs C1 ! j = no_cert"
      by (auto simp: truncated_certs_def that(2) c)
    then have "rd16 (cert_header (truncated_certs n)) (10 + 2 * j) = Some 0" "(cs_Certs C1)[j := no_cert] = cs_Certs C1"
      using sz [of j] that(1) list_update_id [of "cs_Certs C1" j] by (simp_all add: no_cert_def)
    then show ?thesis by (simp add: set_cert_def no_cert_def)
  qed
  have "load_certs U (cert_header (truncated_certs n)) 7 0 32 C1 s = Some (EFI_COMPROMISED_DATA,
      C1\<lparr>cs_Certs := cs_Certs (truncated_certs n)\<rparr>, s)"
    if C1: "cs_Certs C1 = cs_Certs C" for C1
  proof -
    have "load_certs U (cert_header (truncated_certs n)) 7 0 32 C1 s
        = load_certs U (cert_header (truncated_certs n)) (Suc 2) 4 32 C1 s"
      using skip [OF _ C1, of 0 6] skip [OF _ C1, of 1 5] skip [OF _ C1, of 2 4] skip [OF _ C1, of 3 3]
      by (simp add: numeral_eq_Suc)
    moreover have "rd16 (cert_header (truncated_certs n)) (10 + 2 * 4) = Some (word_of_nat n)"
      using sz [of 4] by (simp add: truncated_certs_def)
    moreover have "(cs_Certs C1)[4 := \<lparr>cd_Cert = None, cd_CertSize = n\<rparr>] = cs_Certs (truncated_certs n)"
      by (simp add: C1 c truncated_certs_def)
    ultimately show ?thesis
      using nz assms(1) word_of_nat16 [OF assms(2)] length_cert_header [OF l]
      by (simp only: load_certs.simps(2)) (simp add: set_cert_def uintn_sub_le)
  qed
  then show ?thesis
    using v f by (simp add: LoadProvisionedData_def load_header_def truncated_certs_def)
qed

text \<open>
  A variable that declares a zero-touch certificate but does not hold it can not
  be repaired.  The load is rejected as compromised, the re-initialisation keeps the declared
  size of the zero-touch slot and writes the very same variable again, and the second load is
  rejected as well; every later boot starts from the same variable.
\<close>

lemma PopulateInternalCertStore_truncated_ztd:
  assumes laws: "nv_laws U" and wr: "\<forall>n g a d s. \<not> EFI_ERROR (fst (SetVariable U n g a d s))"
    and n: "0 < n" "n < 65536"
    and v: "GetVariable U CERT_VAR_NAME gDfciInternalVariableGuid s =
      (EFI_SUCCESS, cert_header (truncated_certs n), DFCI_INTERNAL_VAR_ATTRIBUTES)"
  shows "\<exists>C' s'. PopulateInternalCertStore U mInternalCertStore s = Some (EFI_COMPROMISED_DATA, C', s')
    \<and> GetVariable U CERT_VAR_NAME gDfciInternalVariableGuid s' = GetVariable U CERT_VAR_NAME gDfciInternalVariableGuid s"
proof -
  let ?C = "mInternalCertStore\<lparr>cs_Version := 0, cs_Lsv := 0, cs_Certs := cs_Certs (truncated_certs n)\<rparr>"
  let ?C2 = "?C\<lparr>cs_PopulatedIdentities := DFCI_IDENTITY_LOCAL OR DFCI_IDENTITY_SIGNER_ZTD\<rparr>"
  have c0: "cs_Certs mInternalCertStore = [no_cert, no_cert, no_cert, no_cert, no_cert, no_cert, no_cert]"
    by (simp add: mInternalCertStore_def numeral_eq_Suc)
  have free: "FreeCertStore ?C = ?C" "FreeCertStore (FreeCertStore ?C) = ?C"
    using FreeCertStore_certs [of ?C] by (simp_all add: FreeCertStore_def truncated_certs_def upt_rec)
  have pk: "packed_certs (cs_Certs (truncated_certs n)) = Some []"
    by (simp add: truncated_certs_def cert_bytes_def no_cert_def)
  have zs: "cd_CertSize (cs_Certs (truncated_certs n) ! 4) = n" by (simp add: truncated_certs_def)
  have hd: "cert_header ?C2 = cert_header (truncated_certs n)"
    by (simp add: cert_header_def truncated_certs_def)
  define s2 where "s2 = snd (SetVariable U DFCI_IDENTITY_CURRENT_VAR_NAME gDfciAuthProvisionVarNamespace 0 []
    (snd (SetVariable U CERT_VAR_NAME gDfciInternalVariableGuid 0 [] s)))"
  obtain ok s3 where a: "AllocatePool U (cert_var_size ?C2) s2 = (ok, s3)" "ok"
    using alloc_succeedsD [OF nv_lawsD(1) [OF laws]] by (metis prod.exhaust)
  obtain st s4 where w: "SetVariable U CERT_VAR_NAME gDfciInternalVariableGuid DFCI_INTERNAL_VAR_ATTRIBUTES
      (cert_header (truncated_certs n)) s3 = (st, s4)" by (metis prod.exhaust)
  have "\<not> EFI_ERROR st" using wr w by (metis fst_conv)
  moreover have "cert_header (truncated_certs n) \<noteq> []" by (simp add: cert_header_def)
  ultimately have v4: "GetVariable U CERT_VAR_NAME gDfciInternalVariableGuid s4 =
      (EFI_SUCCESS, cert_header (truncated_certs n), DFCI_INTERNAL_VAR_ATTRIBUTES)"
    using variable_lawsD(1) [OF nv_lawsD(3) [OF laws] w] by simp
  have i: "InitializeProvisionedData U ?C s = Some (st, ?C2, s4)"
    using zs n(1) a w pk free(1) hd
    by (simp add: InitializeProvisionedData_def SaveProvisionedData_def Let_def s2_def [symmetric])
  have "cs_Certs ?C2 = [no_cert, no_cert, no_cert, no_cert, \<lparr>cd_Cert = None, cd_CertSize = n\<rparr>, no_cert, no_cert]"
    by (simp add: truncated_certs_def)
  from truncated_load [OF n v4 this] truncated_load [OF n v c0] i free(1) v v4 show ?thesis
    by (simp add: PopulateInternalCertStore_def)
qed

end
