(* ===== verification/Dfci_Packet.thy ===== *)
theory Dfci_Packet
  imports Platform
begin

text \<open>
  The internal packet (\<open>DFCI_INTERNAL_PACKET\<close> of \<open>DfciApplyPacket.h\<close>) that the DFCI manager hands
  to the identity, permission and settings managers, and the authentication protocol
  (\<open>DfciAuthentication.h\<close>) through which these reach the identity and authentication manager.
  A pointer into the packet is the offset of the byte it points to, \<open>None\<close> being NULL.
\<close>

datatype packet_state =
    STATE_UNINITIALIZED | STATE_DATA_PRESENT | STATE_DATA_AUTHENTICATED | STATE_DATA_USER_APPROVED
  | STATE_DATA_APPLIED | STATE_DATA_COMPLETE | STATE_VERSION_ERROR | STATE_ABORTED
  | STATE_ACCESS_DENIED | STATE_BAD_XML | STATE_DATA_NO_OWNER | STATE_DATA_NOT_CORRECT_TARGET
  | STATE_DATA_DELAYED_PROCESSING | STATE_DATA_USER_REJECTED | STATE_DATA_INVALID
  | STATE_DATA_AUTH_FAILED | STATE_DATA_SYSTEM_ERROR

record packet =
  pk_Packet :: bytes
  pk_PacketSize :: nat
  pk_MailboxName :: string
  pk_ResultName :: string
  pk_NameSpace :: string
  pk_ExpectedSignature :: u32
  pk_ExpectedVersion :: u8
  pk_Signature :: "nat option"
  pk_SignedDataLength :: nat
  pk_State :: packet_state
  pk_SessionId :: u32
  pk_DfciWildcard :: bool
  pk_VarIdentity :: "nat option"
  pk_Version :: "nat option"
  pk_LSV :: "nat option"
  pk_V1Mode :: bool
  pk_StatusCode :: EFI_STATUS
  pk_ResetRequired :: bool
  pk_LKGDirty :: bool
  pk_Unenroll :: bool
  pk_PayloadSize :: nat
  pk_Payload :: "nat option"
  pk_AuthToken :: u64
  pk_DfciIdentity :: u8
  pk_UserConfirmationRequired :: bool
  pk_ResultXml :: "string option"
  pk_ResultXmlSize :: nat
  pk_Manufacturer :: "nat option"
  pk_ManufacturerSize :: nat
  pk_ProductName :: "nat option"
  pk_ProductNameSize :: nat
  pk_SerialNumber :: "nat option"
  pk_SerialNumberSize :: nat

text \<open>An error of a stage of processing: the state and the status of the packet.\<close>

type_synonym stage_error = "packet_state \<times> EFI_STATUS"

text \<open>A status or a set of flags as the text of a result document.\<close>

definition status_string :: "'s platform \<Rightarrow> EFI_STATUS \<Rightarrow> string" where
  "status_string U Status = ''0x'' @ snd (AsciiValueToStringS U 23 True Status 18)"

abbreviation (input) DFCI_AUTH_TOKEN_INVALID :: u64 where "DFCI_AUTH_TOKEN_INVALID \<equiv> 0"
abbreviation (input) DFCI_LKG_RESTORE :: u8 where "DFCI_LKG_RESTORE \<equiv> 1"
abbreviation (input) DFCI_LKG_COMMIT :: u8 where "DFCI_LKG_COMMIT \<equiv> 2"

definition MAX_ALLOWABLE_DFCI_APPLY_VAR_SIZE :: nat where "MAX_ALLOWABLE_DFCI_APPLY_VAR_SIZE = 24576"
definition MAX_ALLOWABLE_DFCI_RESULT_VAR_SIZE :: nat where "MAX_ALLOWABLE_DFCI_RESULT_VAR_SIZE = 8192"

text \<open>The password pointer of \<open>AuthWithPW\<close>: NULL, the special value, or a string.\<close>

datatype password = PW_NULL | DFCI_AUTH_WITH_NO_PASSWORD_UNSIGNED | PW string

text \<open>
  The operations of the authentication protocol the other managers call.  \<open>ap_AuthWithSignedData\<close>
  takes the signed bytes, the bytes of the signature and the caller's token variable.
\<close>

record 's auth_protocol =
  ap_GetEnrolledIdentities :: "'s \<Rightarrow> EFI_STATUS \<times> u8"
  ap_AuthWithPW :: "password \<Rightarrow> nat \<Rightarrow> 's \<Rightarrow> EFI_STATUS \<times> u64 \<times> 's"
  ap_AuthWithSignedData :: "bytes \<Rightarrow> bytes \<Rightarrow> u64 \<Rightarrow> 's \<Rightarrow> (EFI_STATUS \<times> u64 \<times> 's) option"
  ap_DisposeAuthToken :: "u64 \<Rightarrow> 's \<Rightarrow> EFI_STATUS \<times> u64 \<times> 's"
  ap_GetIdentityProperties :: "u64 \<Rightarrow> 's \<Rightarrow> EFI_STATUS \<times> u8"

end
