(* ===== verification/Auth_Manager.thy ===== *)
theory Auth_Manager
  imports Identity_Map Cert_Store Dfci_Packet
begin

text \<open>
  The authentication manager (\<open>AuthManager.c\<close>): random tokens, password and signature
  authentication.  The state of the driver (token list, certificate store, located random number
  generator, state of the administrator password) is the record \<open>auth_state\<close>; the cryptographic
  library, the random number protocol and the password store are parameters, the record
  \<open>auth_env\<close>.

  The theory shows that a signature yields a token only for the first provisioned identity, in
  the order of the code, whose certificate verifies it, that a password yields a token of the
  local user only, and that the driver implements the authentication protocol the permission
  library relies on.
\<close>

section \<open>State and environment\<close>

record auth_state =
  au_Map :: "auth_entry list"
  au_Certs :: cert_store
  au_RngLocated :: bool
  au_AdminPasswordSetState :: u8

record 's auth_env =
  LocateRng :: "'s \<Rightarrow> EFI_STATUS \<times> 's"
  GetRNG :: "'s \<Rightarrow> EFI_STATUS \<times> u64 \<times> 's"
  Pkcs7Verify :: "bytes \<Rightarrow> bytes \<Rightarrow> bytes \<Rightarrow> bool"
  gEfiCertPkcs7Guid :: bytes
  PasswordStoreIsPasswordSet :: "'s \<Rightarrow> bool"
  PasswordStoreAuthenticatePassword :: "string \<Rightarrow> 's \<Rightarrow> bool"

abbreviation (input) AUTH_MANAGER_PW_STATE_UNKNOWN :: u8 where "AUTH_MANAGER_PW_STATE_UNKNOWN \<equiv> 0"
abbreviation (input) AUTH_MANAGER_PW_STATE_NO_PW :: u8 where "AUTH_MANAGER_PW_STATE_NO_PW \<equiv> 1"
abbreviation (input) AUTH_MANAGER_PW_STATE_PW :: u8 where "AUTH_MANAGER_PW_STATE_PW \<equiv> 2"

section \<open>Tokens\<close>

definition CreateRandomAuthToken :: "'s auth_env \<Rightarrow> auth_state \<Rightarrow> 's \<Rightarrow> u64 \<times> auth_state \<times> 's" where
  "CreateRandomAuthToken E a s =
     (case (if au_RngLocated a then (EFI_SUCCESS, s) else LocateRng E s) of (Status, s1) \<Rightarrow>
      if EFI_ERROR Status then (DFCI_AUTH_TOKEN_INVALID, a, s1)
      else case GetRNG E s1 of (Status, RandomValue, s2) \<Rightarrow>
        (if EFI_ERROR Status then DFCI_AUTH_TOKEN_INVALID else RandomValue, a\<lparr>au_RngLocated := True\<rparr>, s2))"

text \<open>The identities that have static properties; any other id is rejected.\<close>

definition identity_properties :: "u8 \<Rightarrow> u8 option" where
  "identity_properties i =
     (if i = DFCI_IDENTITY_LOCAL then Some DFCI_IDENTITY_LOCAL
      else if i = DFCI_IDENTITY_SIGNER_USER then Some DFCI_IDENTITY_SIGNER_USER
      else if i = DFCI_IDENTITY_SIGNER_USER1 then Some DFCI_IDENTITY_SIGNER_USER1
      else if i = DFCI_IDENTITY_SIGNER_USER2 then Some DFCI_IDENTITY_SIGNER_USER2
      else if i = DFCI_IDENTITY_SIGNER_OWNER then Some DFCI_IDENTITY_SIGNER_OWNER
      else if i = DFCI_IDENTITY_SIGNER_ZTD then Some DFCI_IDENTITY_SIGNER_ZTD
      else if i = DFCI_IDENTITY_UNSIGNED_LOCAL then Some DFCI_IDENTITY_UNSIGNED_LOCAL
      else None)"

definition CreateAuthTokenWithMapping :: "'s platform \<Rightarrow> 's auth_env \<Rightarrow> u8 \<Rightarrow> auth_state \<Rightarrow> 's \<Rightarrow> u64 \<times> auth_state \<times> 's" where
  "CreateAuthTokenWithMapping U E i a s =
     (case CreateRandomAuthToken E a s of (Random, a1, s1) \<Rightarrow>
      if Random = DFCI_AUTH_TOKEN_INVALID then (Random, a1, s1)
      else case identity_properties i of
          None \<Rightarrow> (DFCI_AUTH_TOKEN_INVALID, a1, s1)
        | Some Props \<Rightarrow>
            (case AddAuthHandleMapping U (Some Random) (Some Props) (au_Map a1) s1 of (Status, m, s2) \<Rightarrow>
              (if EFI_ERROR Status then DFCI_AUTH_TOKEN_INVALID else Random, a1\<lparr>au_Map := m\<rparr>, s2)))"

section \<open>Authentication with a password\<close>

text \<open>The decision: an error, or success.\<close>

definition password_check :: "'s auth_env \<Rightarrow> password \<Rightarrow> nat \<Rightarrow> u8 \<Rightarrow> 's \<Rightarrow> EFI_STATUS" where
  "password_check E Password PasswordLength PwState s =
     (if PwState = AUTH_MANAGER_PW_STATE_NO_PW then
        (if Password = PW_NULL \<and> PasswordLength < 1 then EFI_SUCCESS else EFI_SECURITY_VIOLATION)
      else if Password = PW_NULL \<or> PasswordLength < 1 then EFI_SECURITY_VIOLATION
      else case Password of
          PW p \<Rightarrow> if PasswordStoreAuthenticatePassword E p s then EFI_SUCCESS else EFI_SECURITY_VIOLATION
        | _ \<Rightarrow> EFI_SECURITY_VIOLATION)"

definition AuthWithPW :: "'s platform \<Rightarrow> 's auth_env \<Rightarrow> password \<Rightarrow> nat \<Rightarrow> auth_state \<Rightarrow> 's
    \<Rightarrow> EFI_STATUS \<times> u64 \<times> auth_state \<times> 's" where
  "AuthWithPW U E Password PasswordLength a s =
     (let i = (if Password = DFCI_AUTH_WITH_NO_PASSWORD_UNSIGNED then DFCI_IDENTITY_UNSIGNED_LOCAL else DFCI_IDENTITY_LOCAL);
          Password = (if Password = DFCI_AUTH_WITH_NO_PASSWORD_UNSIGNED then PW_NULL else Password);
          a1 = (if au_AdminPasswordSetState a = AUTH_MANAGER_PW_STATE_UNKNOWN
                then a\<lparr>au_AdminPasswordSetState := (if PasswordStoreIsPasswordSet E s
                  then AUTH_MANAGER_PW_STATE_PW else AUTH_MANAGER_PW_STATE_NO_PW)\<rparr> else a);
          Status = password_check E Password PasswordLength (au_AdminPasswordSetState a1) s
      in if EFI_ERROR Status then (Status, DFCI_AUTH_TOKEN_INVALID, a1, s)
         else case CreateAuthTokenWithMapping U E i a1 s of (Random, a2, s2) \<Rightarrow>
           if Random = DFCI_AUTH_TOKEN_INVALID then (EFI_DEVICE_ERROR, Random, a2, s2)
           else (Status, Random, a2, s2))"

section \<open>Authentication with signed data\<close>

abbreviation (input) WIN_CERT_TYPE_EFI_GUID :: u16 where "WIN_CERT_TYPE_EFI_GUID \<equiv> 0x0EF1"

text \<open>
  A \<open>WIN_CERTIFICATE\<close> at the head of the bytes \<open>Signature\<close> points to: length 0, revision 4,
  type 6, GUID 8, data 24.
\<close>

definition VerifySignature :: "'s auth_env \<Rightarrow> bytes option \<Rightarrow> bytes option \<Rightarrow> bytes option \<Rightarrow> nat \<Rightarrow> EFI_STATUS option" where
  "VerifySignature E SignedData Signature TrustedCert TrustedCertSize =
     (case (SignedData, Signature, TrustedCert) of
        (Some d, Some sg, Some cert) \<Rightarrow>
          if length d < 1 \<or> TrustedCertSize < 1 then Some EFI_INVALID_PARAMETER
          else do {
            dwLength \<leftarrow> rd32 sg 0;
            if unat dwLength \<le> 8 then Some EFI_INVALID_PARAMETER
            else do {
              wRevision \<leftarrow> rd16 sg 4;
              if wRevision \<noteq> 0x200 then Some EFI_UNSUPPORTED
              else do {
                wCertificateType \<leftarrow> rd16 sg 6;
                if wCertificateType \<noteq> WIN_CERT_TYPE_EFI_GUID then Some EFI_UNSUPPORTED
                else if unat dwLength \<le> 24 then Some EFI_INVALID_PARAMETER
                else do {
                  guid \<leftarrow> rd sg 8 16;
                  if guid \<noteq> gEfiCertPkcs7Guid E then Some EFI_UNSUPPORTED
                  else do {
                    p7 \<leftarrow> rd sg 24 (unat dwLength - 24);
                    trusted \<leftarrow> rd cert 0 TrustedCertSize;
                    Some (if Pkcs7Verify E p7 trusted d then EFI_SUCCESS else EFI_SECURITY_VIOLATION) } } } } }
      | _ \<Rightarrow> Some EFI_INVALID_PARAMETER)"

text \<open>One of the five blocks of \<open>AuthWithSignedData\<close>: try the key of an identity unless one has been found.\<close>

definition check_key :: "'s auth_env \<Rightarrow> cert_store \<Rightarrow> u8 \<Rightarrow> bytes option \<Rightarrow> bytes option \<Rightarrow> u8 \<Rightarrow> u8 \<Rightarrow> u8 option" where
  "check_key E C IdMask SignedData Signature Key i =
     (if i = DFCI_IDENTITY_INVALID \<and> IdMask AND Key \<noteq> 0 then
        (case GetProvisionedCertDataAndSize None 0 Key C of (Status, CertData, CertSize) \<Rightarrow>
          if EFI_ERROR Status then Some i
          else do {
            Status \<leftarrow> VerifySignature E SignedData Signature CertData CertSize;
            Some (if EFI_ERROR Status then i else Key) })
      else Some i)"

fun check_keys :: "'s auth_env \<Rightarrow> cert_store \<Rightarrow> u8 \<Rightarrow> bytes option \<Rightarrow> bytes option \<Rightarrow> u8 list \<Rightarrow> u8 \<Rightarrow> u8 option" where
  "check_keys E C IdMask SignedData Signature [] i = Some i"
| "check_keys E C IdMask SignedData Signature (Key # ks) i = do {
     i' \<leftarrow> check_key E C IdMask SignedData Signature Key i;
     check_keys E C IdMask SignedData Signature ks i' }"

definition key_order :: "u8 list" where
  "key_order = [DFCI_IDENTITY_SIGNER_ZTD, DFCI_IDENTITY_SIGNER_OWNER, DFCI_IDENTITY_SIGNER_USER,
     DFCI_IDENTITY_SIGNER_USER1, DFCI_IDENTITY_SIGNER_USER2]"

definition AuthWithSignedData :: "'s platform \<Rightarrow> 's auth_env \<Rightarrow> bytes option \<Rightarrow> bytes option \<Rightarrow> u64 option
    \<Rightarrow> auth_state \<Rightarrow> 's \<Rightarrow> (EFI_STATUS \<times> u64 option \<times> auth_state \<times> 's) option" where
  "AuthWithSignedData U E SignedData Signature IdentityToken a s =
     (case (SignedData, Signature, IdentityToken) of
        (Some d, Some sg, Some t) \<Rightarrow>
          if length d < 1 then Some (EFI_INVALID_PARAMETER, IdentityToken, a, s)
          else let IdMask = Provisioned (au_Certs a) in
            if IdMask AND DFCI_IDENTITY_MASK_KEYS = 0 then Some (EFI_NOT_READY, IdentityToken, a, s)
            else do {
              i \<leftarrow> check_keys E (au_Certs a) IdMask SignedData Signature key_order DFCI_IDENTITY_INVALID;
              if i = DFCI_IDENTITY_INVALID then Some (EFI_SECURITY_VIOLATION, IdentityToken, a, s)
              else case CreateAuthTokenWithMapping U E i a s of (Random, a1, s1) \<Rightarrow>
                if Random = DFCI_AUTH_TOKEN_INVALID then Some (EFI_DEVICE_ERROR, IdentityToken, a1, s1)
                else Some (EFI_SUCCESS, Some Random, a1, s1) }
      | _ \<Rightarrow> Some (EFI_INVALID_PARAMETER, IdentityToken, a, s))"

section \<open>Who signed\<close>

text \<open>The PKCS7 data of a well-formed certificate structure.\<close>

definition win_cert_data :: "'s auth_env \<Rightarrow> bytes \<Rightarrow> bytes option" where
  "win_cert_data E sg = do {
     dwLength \<leftarrow> rd32 sg 0;
     wRevision \<leftarrow> rd16 sg 4;
     wCertificateType \<leftarrow> rd16 sg 6;
     guid \<leftarrow> rd sg 8 16;
     if unat dwLength > 24 \<and> wRevision = 0x200 \<and> wCertificateType = WIN_CERT_TYPE_EFI_GUID \<and> guid = gEfiCertPkcs7Guid E
     then rd sg 24 (unat dwLength - 24) else None }"

lemma VerifySignature_success:
  assumes "VerifySignature E D S T n = Some st"
  shows "\<not> EFI_ERROR st \<longleftrightarrow> (\<exists>d sg cert p7. D = Some d \<and> d \<noteq> [] \<and> S = Some sg \<and> T = Some cert \<and> 1 \<le> n
    \<and> n \<le> length cert \<and> win_cert_data E sg = Some p7 \<and> Pkcs7Verify E p7 (take n cert) d)"
  using assms
  by (auto simp: VerifySignature_def win_cert_data_def rd_def [of _ 0] Suc_le_eq split: option.splits Option.bind_splits if_splits)

text \<open>
  The key of identity \<open>k\<close> verifies the signature: the identity is populated, its slot holds a
  certificate and the PKCS7 data of the signature verify the signed data against it.
\<close>

definition verifies :: "'s auth_env \<Rightarrow> cert_store \<Rightarrow> bytes \<Rightarrow> bytes \<Rightarrow> u8 \<Rightarrow> bool" where
  "verifies E C d sg k \<longleftrightarrow> k AND Provisioned C \<noteq> 0 \<and> (\<exists>j cert p7. DfciIdentityToCertIndex k = Some j
     \<and> cd_Cert (cs_Certs C ! j) = Some cert \<and> 1 \<le> cd_CertSize (cs_Certs C ! j) \<and> cd_CertSize (cs_Certs C ! j) \<le> length cert
     \<and> win_cert_data E sg = Some p7 \<and> Pkcs7Verify E p7 (take (cd_CertSize (cs_Certs C ! j)) cert) d)"

lemma check_key_verifies:
  assumes "check_key E C (Provisioned C) (Some d) (Some sg) k 0 = Some i" "d \<noteq> []" "k \<in> set key_order"
  shows "i = (if verifies E C d sg k then k else 0)"
proof -
  obtain j where j: "DfciIdentityToCertIndex k = Some j" "k AND DFCI_IDENTITY_MASK_KEYS \<noteq> 0"
    using assms(3) by (auto simp: key_order_def DfciIdentityToCertIndex_def)
  show ?thesis
  proof (cases "k AND Provisioned C = 0")
    case True
    then show ?thesis using assms(1) by (auto simp: check_key_def verifies_def and.commute)
  next
    case False
    then have g: "GetProvisionedCertDataAndSize None 0 k C =
        (EFI_SUCCESS, cd_Cert (cs_Certs C ! j), cd_CertSize (cs_Certs C ! j))"
      using j by (simp add: GetProvisionedCertDataAndSize_def del: identity_masks)
    then obtain st where v: "VerifySignature E (Some d) (Some sg) (cd_Cert (cs_Certs C ! j))
        (cd_CertSize (cs_Certs C ! j)) = Some st" "i = (if EFI_ERROR st then 0 else k)"
      using assms(1) False by (auto simp: check_key_def and.commute split: Option.bind_splits if_splits)
    show ?thesis
      using VerifySignature_success [OF v(1)] v(2) j(1) False assms(2) by (auto simp: verifies_def)
  qed
qed

lemma check_keys_found: "i \<noteq> 0 \<Longrightarrow> check_keys E C m D S ks i = Some i"
  by (induction ks) (simp_all add: check_key_def)

lemma check_keys_first:
  assumes "check_keys E C (Provisioned C) (Some d) (Some sg) ks 0 = Some i" "d \<noteq> []" "set ks \<subseteq> set key_order"
  shows "i = (case find (verifies E C d sg) ks of None \<Rightarrow> 0 | Some k \<Rightarrow> k)"
  using assms(1,3)
proof (induction ks)
  case (Cons k ks)
  then obtain i' where c: "check_key E C (Provisioned C) (Some d) (Some sg) k 0 = Some i'"
    "check_keys E C (Provisioned C) (Some d) (Some sg) ks i' = Some i"
    by (auto split: Option.bind_splits)
  have i': "i' = (if verifies E C d sg k then k else 0)"
    using check_key_verifies [OF c(1) assms(2)] Cons.prems(2) by simp
  have "k \<noteq> 0" using Cons.prems(2) by (auto simp: key_order_def)
  then show ?case using i' c(2) Cons check_keys_found [of k E C] by (auto split: if_splits)
qed simp

lemma CreateAuthTokenWithMapping_ok:
  assumes w: "wf_map (au_Map a)" and c: "CreateAuthTokenWithMapping U E i a s = (u, a', s')"
  shows "wf_map (au_Map a') \<and> au_Certs a' = au_Certs a \<and> au_AdminPasswordSetState a' = au_AdminPasswordSetState a
    \<and> (if u = 0 then token_map (au_Map a') = token_map (au_Map a)
       else token_map (au_Map a) u = None \<and> token_map (au_Map a') = (token_map (au_Map a))(u \<mapsto> i))"
proof -
  obtain r a1 s1 where r: "CreateRandomAuthToken E a s = (r, a1, s1)" by (metis prod_cases3)
  have a1: "au_Map a1 = au_Map a" "au_Certs a1 = au_Certs a" "au_AdminPasswordSetState a1 = au_AdminPasswordSetState a"
    using r by (auto simp: CreateRandomAuthToken_def split: prod.splits if_splits)
  show ?thesis
  proof (cases "r = 0 \<or> identity_properties i = None")
    case True
    then have "u = 0 \<and> a' = a1" using c r by (auto simp: CreateAuthTokenWithMapping_def split: if_splits)
    then show ?thesis using a1 w by simp
  next
    case False
    then have p: "identity_properties i = Some i" by (auto simp: identity_properties_def split: if_splits)
    obtain st m s2 where m: "AddAuthHandleMapping U (Some r) (Some i) (au_Map a) s1 = (st, m, s2)" by (metis prod_cases3)
    then have u: "u = (if EFI_ERROR st then 0 else r)" "a' = a1\<lparr>au_Map := m\<rparr>"
      using c r p a1(1) False by (auto simp: CreateAuthTokenWithMapping_def)
    have inv: "wf_map m" using tok.add_inv [OF w _ m] False by simp
    show ?thesis
      using u a1 inv tok.add_error [OF m] tok.add_fresh [OF w m] tok.lookup_add [OF w m] False by auto
  qed
qed

section \<open>Properties\<close>

text \<open>An environment for concrete instances: a certificate verifies data signed with itself.\<close>

definition demo_env :: "demo_state auth_env" where
  "demo_env = \<lparr>LocateRng = (\<lambda>s. (EFI_SUCCESS, s)), GetRNG = (\<lambda>s. (EFI_SUCCESS, 7, s)),
     Pkcs7Verify = (\<lambda>p c d. p = c), gEfiCertPkcs7Guid = replicate 16 0,
     PasswordStoreIsPasswordSet = (\<lambda>s. True), PasswordStoreAuthenticatePassword = (\<lambda>p s. p = ''secret'')\<rparr>"

definition example_auth_state :: auth_state where
  "example_auth_state = \<lparr>au_Map = [], au_Certs = example_certs, au_RngLocated = False, au_AdminPasswordSetState = 0\<rparr>"

definition owner_signature :: bytes where
  "owner_signature = le32 25 @ le16 0x200 @ le16 0x0EF1 @ replicate 16 0 @ [3]"

lemma example_auth_wf: "wf_map (au_Map example_auth_state)"
  by (simp add: example_auth_state_def wf_map_def tokens_def)

lemma AuthWithSignedData_spec:
  assumes w: "wf_map (au_Map a)"
    and r: "AuthWithSignedData U E (Some d) (Some sg) (Some t) a s = Some (st, t', a', s')"
  shows "wf_map (au_Map a') \<and> au_Certs a' = au_Certs a \<and>
    (if EFI_ERROR st then t' = Some t \<and> token_map (au_Map a') = token_map (au_Map a)
     else \<exists>k u. find (verifies E (au_Certs a) d sg) key_order = Some k \<and> t' = Some u \<and> u \<noteq> 0
       \<and> token_map (au_Map a) u = None \<and> token_map (au_Map a') = (token_map (au_Map a))(u \<mapsto> k))"
proof -
  consider (rejected) "EFI_ERROR st" "t' = Some t" "a' = a"
    | (created) i u s1 where "d \<noteq> []" "i \<noteq> 0" "CreateAuthTokenWithMapping U E i a s = (u, a', s1)"
        "check_keys E (au_Certs a) (Provisioned (au_Certs a)) (Some d) (Some sg) key_order 0 = Some i"
        "if u = 0 then EFI_ERROR st \<and> t' = Some t else st = EFI_SUCCESS \<and> t' = Some u"
    using r by (auto simp: AuthWithSignedData_def Let_def split: Option.bind_splits if_splits prod.splits)
  then show ?thesis
  proof cases
    case rejected
    then show ?thesis using w by simp
  next
    case created
    have k: "find (verifies E (au_Certs a) d sg) key_order = Some i"
      using check_keys_first [OF created(4,1)] created(2) by (auto split: option.splits)
    show ?thesis
      using CreateAuthTokenWithMapping_ok [OF w created(3)] created(5) k by (auto split: if_splits)
  qed
qed

lemma AuthWithSignedData_correct_map:
  assumes "wf_map (au_Map a)" "AuthWithSignedData U E (Some d) (Some sg) (Some t) a s = Some (st, t', a', s')"
    and "\<not> EFI_ERROR st"
  shows "\<exists>k u. find (verifies E (au_Certs a) d sg) key_order = Some k \<and> t' = Some u \<and> token_map (au_Map a') u = Some k"
  using AuthWithSignedData_spec [OF assms(1,2)] assms(3) by auto

text \<open>
  Property C17: authentication by signature.  A token is issued only for the first identity, in
  the order zero-touch, owner, user, user1, user2, whose provisioned certificate verifies the
  signature over the data; it is a fresh, valid token that resolves to that identity, and all
  other tokens stay as they are.  On every error the caller's token and the valid tokens are
  unchanged.
\<close>

theorem AuthWithSignedData_correct:
  assumes w: "wf_map (au_Map a)"
    and r: "AuthWithSignedData U E (Some d) (Some sg) (Some t) a s = Some (st, t', a', s')"
  shows "wf_map (au_Map a') \<and> au_Certs a' = au_Certs a \<and>
    (if EFI_ERROR st then t' = Some t \<and> token_map (au_Map a') = token_map (au_Map a)
     else \<exists>k u. find (verifies E (au_Certs a) d sg) key_order = Some k \<and> t' = Some u \<and> u \<noteq> 0
       \<and> token_map (au_Map a) u = None \<and> token_map (au_Map a') = (token_map (au_Map a))(u \<mapsto> k))"
  by (rule AuthWithSignedData_spec [OF assms])

theorem AuthWithSignedData_correct_witness:
  "\<exists>t' a' s'. AuthWithSignedData demo_platform demo_env (Some [9]) (Some owner_signature) (Some 0) example_auth_state
      example_state = Some (EFI_SUCCESS, t', a', s')
    \<and> (\<exists>k u. find (verifies demo_env example_certs [9] owner_signature) key_order = Some k \<and> t' = Some u \<and> u \<noteq> 0)"
proof -
  have "map_option fst (AuthWithSignedData demo_platform demo_env (Some [9]) (Some owner_signature) (Some 0)
      example_auth_state example_state) = Some EFI_SUCCESS"
    by code_simp
  then obtain t' a' s' where r: "AuthWithSignedData demo_platform demo_env (Some [9]) (Some owner_signature) (Some 0)
      example_auth_state example_state = Some (EFI_SUCCESS, t', a', s')"
    by fastforce
  from AuthWithSignedData_correct [OF example_auth_wf r] r show ?thesis
    by (auto simp: example_auth_state_def)
qed

text \<open>A password check that cannot be passed without the password when one is set.\<close>

lemma password_check_success:
  "\<not> EFI_ERROR (password_check E p n st s) \<Longrightarrow> p \<noteq> DFCI_AUTH_WITH_NO_PASSWORD_UNSIGNED \<Longrightarrow>
   if st = AUTH_MANAGER_PW_STATE_NO_PW then p = PW_NULL
   else \<exists>q. p = PW q \<and> PasswordStoreAuthenticatePassword E q s"
  by (auto simp: password_check_def split: if_splits password.splits)

lemma AuthWithPW_spec:
  assumes w: "wf_map (au_Map a)" and r: "AuthWithPW U E p n a s = (st, u, a', s')"
  shows "wf_map (au_Map a') \<and> au_Certs a' = au_Certs a \<and>
    (if EFI_ERROR st then u = 0 \<and> token_map (au_Map a') = token_map (au_Map a)
     else u \<noteq> 0 \<and> token_map (au_Map a) u = None
       \<and> token_map (au_Map a') = (token_map (au_Map a))(u \<mapsto>
           (if p = DFCI_AUTH_WITH_NO_PASSWORD_UNSIGNED then DFCI_IDENTITY_UNSIGNED_LOCAL else DFCI_IDENTITY_LOCAL))
       \<and> (if au_AdminPasswordSetState a' = AUTH_MANAGER_PW_STATE_NO_PW then \<forall>q. p \<noteq> PW q
          else \<exists>q. p = PW q \<and> PasswordStoreAuthenticatePassword E q s))"
proof -
  define a1 where "a1 = (if au_AdminPasswordSetState a = AUTH_MANAGER_PW_STATE_UNKNOWN
    then a\<lparr>au_AdminPasswordSetState := (if PasswordStoreIsPasswordSet E s
      then AUTH_MANAGER_PW_STATE_PW else AUTH_MANAGER_PW_STATE_NO_PW)\<rparr> else a)"
  define i where "i = (if p = DFCI_AUTH_WITH_NO_PASSWORD_UNSIGNED then DFCI_IDENTITY_UNSIGNED_LOCAL else DFCI_IDENTITY_LOCAL)"
  define q where "q = (if p = DFCI_AUTH_WITH_NO_PASSWORD_UNSIGNED then PW_NULL else p)"
  have a1: "au_Map a1 = au_Map a" "au_Certs a1 = au_Certs a" by (simp_all add: a1_def)
  have w1: "wf_map (au_Map a1)" using w a1 by simp
  note def = r [unfolded AuthWithPW_def Let_def, folded a1_def i_def q_def]
  show ?thesis
  proof (cases "EFI_ERROR (password_check E q n (au_AdminPasswordSetState a1) s)")
    case True
    then show ?thesis using def a1 w by auto
  next
    case False
    obtain u1 a2 s2 where c: "CreateAuthTokenWithMapping U E i a1 s = (u1, a2, s2)" by (metis prod_cases3)
    have "q \<noteq> DFCI_AUTH_WITH_NO_PASSWORD_UNSIGNED" by (simp add: q_def)
    note pw = password_check_success [OF False this]
    show ?thesis
      using CreateAuthTokenWithMapping_ok [OF w1 c] def c False a1 pw
      by (auto simp: i_def q_def split: if_splits)
  qed
qed

text \<open>
  Property C26: authentication by password.  A token is issued only for the local user, with the
  reduced identity exactly when the caller asked for the unsigned one; when a password is known
  to be set it is issued only against the right password.  On an error the caller gets the
  invalid token and the valid tokens are unchanged.
\<close>

theorem AuthWithPW_correct:
  assumes w: "wf_map (au_Map a)" and r: "AuthWithPW U E p n a s = (st, u, a', s')"
  shows "wf_map (au_Map a') \<and> au_Certs a' = au_Certs a \<and>
    (if EFI_ERROR st then u = 0 \<and> token_map (au_Map a') = token_map (au_Map a)
     else u \<noteq> 0 \<and> token_map (au_Map a) u = None
       \<and> token_map (au_Map a') = (token_map (au_Map a))(u \<mapsto>
           (if p = DFCI_AUTH_WITH_NO_PASSWORD_UNSIGNED then DFCI_IDENTITY_UNSIGNED_LOCAL else DFCI_IDENTITY_LOCAL))
       \<and> (if au_AdminPasswordSetState a' = AUTH_MANAGER_PW_STATE_NO_PW then \<forall>q. p \<noteq> PW q
          else \<exists>q. p = PW q \<and> PasswordStoreAuthenticatePassword E q s))"
  by (rule AuthWithPW_spec [OF assms])

theorem AuthWithPW_correct_witness:
  "\<exists>a' s'. AuthWithPW demo_platform demo_env (PW ''secret'') 6 example_auth_state example_state = (EFI_SUCCESS, 7, a', s')
     \<and> token_map (au_Map a') 7 = Some DFCI_IDENTITY_LOCAL"
proof -
  obtain a' s' where r: "AuthWithPW demo_platform demo_env (PW ''secret'') 6 example_auth_state example_state
      = (EFI_SUCCESS, 7, a', s')"
    by (simp add: AuthWithPW_def password_check_def demo_env_def example_auth_state_def CreateAuthTokenWithMapping_def
        CreateRandomAuthToken_def identity_properties_def AddAuthHandleMapping_def FindListEntryByAuthToken_def demo_simps)
  from AuthWithPW_correct [OF example_auth_wf r] r show ?thesis by simp
qed

end
