(* ===== verification/Permission_Groups.thy ===== *)
theory Permission_Groups
  imports Permission_Store
begin

text \<open>
  Setting groups (\<open>GroupSupport.c\<close>): the list \<open>mGroupList\<close> of groups with their members, filled
  from the platform's group table as settings register, and the search for the groups of a
  setting, which resumes after the group returned by the previous call (the \<open>Key\<close>).
  A pointer to a group is its position in the list.

  The theory shows that group names stay unique, that registering a setting puts it into
  exactly the groups of the table that list it, and that the resumable search enumerates the
  groups of a setting in list order.
\<close>

section \<open>Groups\<close>

record group =
  gr_GroupId :: string
  gr_Members :: "string list"

definition FindGroup :: "string \<Rightarrow> group list \<Rightarrow> nat option" where
  "FindGroup i gs = first_index (\<lambda>g. AsciiStrnCmp_eq (gr_GroupId g) i DFCI_MAX_ID_LEN) gs"

definition RegisterGroup :: "'s platform \<Rightarrow> string \<Rightarrow> group list \<Rightarrow> 's \<Rightarrow> EFI_STATUS \<times> group list \<times> 's" where
  "RegisterGroup U GroupId gs s = (case FindGroup GroupId gs of
     None \<Rightarrow> (case AllocatePool U 48 s of (ok, s') \<Rightarrow>
        if \<not> ok then (EFI_OUT_OF_RESOURCES, gs, s')
        else (EFI_SUCCESS, gs @ [\<lparr>gr_GroupId = GroupId, gr_Members = []\<rparr>], s'))
   | Some k \<Rightarrow> (EFI_ALREADY_STARTED, gs, s))"

definition add_member :: "nat \<Rightarrow> string \<Rightarrow> group list \<Rightarrow> group list" where
  "add_member k i gs = gs[k := (gs ! k)\<lparr>gr_Members := gr_Members (gs ! k) @ [i]\<rparr>]"

text \<open>One group of the platform's table that lists the setting: the body of the inner loop.\<close>

definition add_setting_to_group :: "'s platform \<Rightarrow> string \<Rightarrow> string \<Rightarrow> group list \<Rightarrow> 's
    \<Rightarrow> EFI_STATUS \<times> group list \<times> 's" where
  "add_setting_to_group U i GroupId gs s =
     (case (case FindGroup GroupId gs of
              Some k \<Rightarrow> (Some k, gs, s)
            | None \<Rightarrow> (case RegisterGroup U GroupId gs s of (st, gs', s') \<Rightarrow>
                (if \<not> EFI_ERROR st then FindGroup GroupId gs' else None, gs', s')))
      of (None, gs', s') \<Rightarrow> (EFI_OUT_OF_RESOURCES, gs', s')
       | (Some k, gs', s') \<Rightarrow> (case AllocatePool U 32 s' of (ok, s'') \<Rightarrow>
           if \<not> ok then (EFI_OUT_OF_RESOURCES, gs', s'')
           else (EFI_SUCCESS, add_member k i gs', s'')))"

fun register_loop :: "'s platform \<Rightarrow> string \<Rightarrow> (string \<times> string list) list \<Rightarrow> EFI_STATUS \<Rightarrow> group list \<Rightarrow> 's
    \<Rightarrow> EFI_STATUS \<times> group list \<times> 's" where
  "register_loop U i [] Status gs s = (Status, gs, s)"
| "register_loop U i ((GroupId, Members) # es) Status gs s =
     (if \<exists>m\<in>set Members. AsciiStrnCmp_eq i m DFCI_MAX_ID_LEN then
        (case add_setting_to_group U i GroupId gs s of (st, gs', s') \<Rightarrow>
           if EFI_ERROR st then (st, gs', s') else register_loop U i es st gs' s')
      else register_loop U i es Status gs s)"

definition RegisterSettingToGroup :: "'s platform \<Rightarrow> string \<Rightarrow> group list \<Rightarrow> 's
    \<Rightarrow> EFI_STATUS \<times> group list \<times> 's" where
  "RegisterSettingToGroup U i gs s =
     (if FindGroup i gs \<noteq> None then (EFI_UNSUPPORTED, gs, s)
      else case DfciGetGroupEntries U of
          None \<Rightarrow> (EFI_NOT_FOUND, gs, s)
        | Some es \<Rightarrow> register_loop U i es EFI_NOT_FOUND gs s)"

definition is_member :: "string \<Rightarrow> group \<Rightarrow> bool" where
  "is_member i g \<longleftrightarrow> (\<exists>m\<in>set (gr_Members g). AsciiStrnCmp_eq i m DFCI_MAX_ID_LEN)"

fun group_scan :: "string \<Rightarrow> nat option \<Rightarrow> bool \<Rightarrow> nat \<Rightarrow> group list \<Rightarrow> nat option" where
  "group_scan i Key PreviousFound n [] = None"
| "group_scan i Key PreviousFound n (g # gs) =
     (if Key = Some n then group_scan i Key True (n + 1) gs
      else if \<not> PreviousFound then group_scan i Key PreviousFound (n + 1) gs
      else if is_member i g then Some n
      else group_scan i Key PreviousFound (n + 1) gs)"

definition FindGroupIdBySetting :: "string \<Rightarrow> nat option \<Rightarrow> group list \<Rightarrow> string option \<times> nat option" where
  "FindGroupIdBySetting i Key gs = (case group_scan i Key (Key = None) 0 gs of
     None \<Rightarrow> (None, Key)
   | Some n \<Rightarrow> (Some (gr_GroupId (gs ! n)), Some n))"

section \<open>The search enumerates the groups of a setting\<close>

text \<open>The positions, in order, of the groups that contain a setting.\<close>

definition groups_of :: "string \<Rightarrow> group list \<Rightarrow> nat list" where
  "groups_of i gs = filter (\<lambda>n. is_member i (gs ! n)) [0..<length gs]"

definition next_group :: "string \<Rightarrow> nat \<Rightarrow> group list \<Rightarrow> nat option" where
  "next_group i from gs = find (\<lambda>n. is_member i (gs ! n)) [from..<length gs]"

lemma group_scan_found:
  "\<forall>k. Key = Some k \<longrightarrow> k < n \<Longrightarrow>
   group_scan i Key True n gs = map_option (\<lambda>k. n + k) (first_index (is_member i) gs)"
proof (induction gs arbitrary: n)
  case Nil
  then show ?case by simp
next
  case (Cons g gs)
  then have k: "Key \<noteq> Some n" by auto
  have "\<forall>k. Key = Some k \<longrightarrow> k < n + 1" using Cons.prems by auto
  from Cons.IH [OF this] k show ?case
    by (auto simp: option.map_comp comp_def)
qed

lemma group_scan_skip:
  "n \<le> k \<Longrightarrow> k < n + length gs \<Longrightarrow>
   group_scan i (Some k) False n gs =
     map_option (\<lambda>j. k + 1 + j) (first_index (is_member i) (drop (k + 1 - n) gs))"
proof (induction gs arbitrary: n)
  case Nil
  then show ?case by simp
next
  case (Cons g gs)
  show ?case
  proof (cases "n = k")
    case True
    then show ?thesis using group_scan_found [of "Some k" "k + 1" i gs] by simp
  next
    case False
    then show ?thesis using Cons.IH [of "n + 1"] Cons.prems by (simp add: Suc_diff_le)
  qed
qed

lemma first_index_upt:
  "map_option (\<lambda>j. k + j) (first_index P (drop k gs)) = find (\<lambda>n. P (gs ! n)) [k..<length gs]"
proof (induction "length gs - k" arbitrary: k)
  case 0
  then show ?case by simp
next
  case (Suc m)
  then have k: "k < length gs" by simp
  then have d: "drop k gs = gs ! k # drop (Suc k) gs" "[k..<length gs] = k # [Suc k..<length gs]"
    by (simp_all add: Cons_nth_drop_Suc upt_conv_Cons)
  have "m = length gs - Suc k" using Suc.hyps(2) by simp
  from Suc.hyps(1) [OF this] show ?case
    by (cases "first_index P (drop (Suc k) gs)") (auto simp: d)
qed

lemma FindGroupIdBySetting_next:
  assumes "\<forall>k. Key = Some k \<longrightarrow> k < length gs"
  shows "FindGroupIdBySetting i Key gs =
    (case next_group i (case Key of None \<Rightarrow> 0 | Some k \<Rightarrow> k + 1) gs of
       None \<Rightarrow> (None, Key) | Some n \<Rightarrow> (Some (gr_GroupId (gs ! n)), Some n))"
proof (cases Key)
  case None
  then show ?thesis
    using group_scan_found [of None 0 i gs] first_index_upt [of 0 "is_member i" gs]
    by (auto simp: FindGroupIdBySetting_def next_group_def split: option.splits)
next
  case (Some k)
  then show ?thesis
    using assms group_scan_skip [of 0 k gs i] first_index_upt [of "k + 1" "is_member i" gs]
    by (auto simp: FindGroupIdBySetting_def next_group_def split: option.splits)
qed

lemma next_group_Some:
  "next_group i k gs = Some n \<Longrightarrow> k \<le> n \<and> n < length gs \<and> is_member i (gs ! n)"
  by (auto simp: next_group_def find_Some_iff)

lemma groups_from_next:
  "filter (\<lambda>n. is_member i (gs ! n)) [k..<length gs] = (case next_group i k gs of
     None \<Rightarrow> [] | Some n \<Rightarrow> n # filter (\<lambda>n. is_member i (gs ! n)) [n + 1..<length gs])"
proof (induction "length gs - k" arbitrary: k)
  case 0
  then show ?case by (simp add: next_group_def)
next
  case (Suc m)
  then have u: "[k..<length gs] = k # [Suc k..<length gs]" by (simp add: upt_conv_Cons)
  have "m = length gs - Suc k" using Suc.hyps(2) by simp
  from Suc.hyps(1) [OF this] show ?case
    by (auto simp: u next_group_def)
qed

section \<open>Registration\<close>

text \<open>
  The group table as a map from names to member lists.  Names of at most
  \<open>DFCI_MAX_ID_LEN\<close> characters are compared in full by \<open>AsciiStrnCmp\<close>.
\<close>

definition short_id :: "string \<Rightarrow> bool" where
  "short_id i \<longleftrightarrow> length i \<le> DFCI_MAX_ID_LEN"

definition wf_groups :: "group list \<Rightarrow> bool" where
  "wf_groups gs \<longleftrightarrow> distinct (map gr_GroupId gs) \<and> (\<forall>g\<in>set gs. short_id (gr_GroupId g))"

definition group_members :: "group list \<Rightarrow> string \<Rightarrow> string list" where
  "group_members gs G = (case map_of (map (\<lambda>g. (gr_GroupId g, gr_Members g)) gs) G of
     None \<Rightarrow> [] | Some ms \<Rightarrow> ms)"

lemma FindGroup_short:
  "wf_groups gs \<Longrightarrow> short_id i \<Longrightarrow> FindGroup i gs = first_index (\<lambda>g. gr_GroupId g = i) gs"
  unfolding FindGroup_def
  by (rule first_index_cong) (auto simp: wf_groups_def short_id_def AsciiStrnCmp_eq_def)

lemma add_member_members:
  assumes "first_index (\<lambda>g. gr_GroupId g = G) gs = Some k"
  shows "group_members (add_member k i gs) = (group_members gs)(G := group_members gs G @ [i])"
proof -
  from assms obtain ys x zs where
    l: "gs = ys @ x # zs" "length ys = k" "gr_GroupId x = G" "\<forall>y\<in>set ys. gr_GroupId y \<noteq> G"
    by (rule first_index_split)
  have "map_of (map (\<lambda>g. (gr_GroupId g, gr_Members g)) ys) G = None"
    using l(4) by (auto simp: map_of_eq_None_iff)
  moreover have "add_member k i gs = ys @ x\<lparr>gr_Members := gr_Members x @ [i]\<rparr> # zs"
    using l(1,2) by (simp add: add_member_def nth_append list_update_append)
  ultimately show ?thesis
    by (auto simp: group_members_def l(1,3) map_add_def fun_eq_iff split: option.splits)
qed

lemma add_member_wf:
  assumes "wf_groups gs" "k < length gs"
  shows "wf_groups (add_member k i gs)"
proof -
  have "map gr_GroupId (add_member k i gs) = map gr_GroupId gs"
    using assms(2) by (simp add: add_member_def map_update list_update_same_conv)
  then show ?thesis
    using assms(1) unfolding wf_groups_def by (metis (no_types, lifting) imageE imageI list.set_map)
qed

lemma RegisterGroup_new:
  assumes "wf_groups gs" "short_id G" "first_index (\<lambda>g. gr_GroupId g = G) gs = None"
    and "AllocatePool U 48 s = (True, s')"
  shows "RegisterGroup U G gs s = (EFI_SUCCESS, gs @ [\<lparr>gr_GroupId = G, gr_Members = []\<rparr>], s')"
    "wf_groups (gs @ [\<lparr>gr_GroupId = G, gr_Members = []\<rparr>])"
    "group_members (gs @ [\<lparr>gr_GroupId = G, gr_Members = []\<rparr>]) = group_members gs"
    "first_index (\<lambda>g. gr_GroupId g = G) (gs @ [\<lparr>gr_GroupId = G, gr_Members = []\<rparr>]) = Some (length gs)"
proof -
  show "first_index (\<lambda>g. gr_GroupId g = G) (gs @ [\<lparr>gr_GroupId = G, gr_Members = []\<rparr>]) = Some (length gs)"
    using assms(3) by (simp add: first_index_append)
qed (use assms in \<open>auto simp: RegisterGroup_def FindGroup_short wf_groups_def group_members_def
      map_add_def fun_eq_iff first_index_None split: option.splits\<close>)

lemma add_setting_to_group_ok:
  assumes wf: "wf_groups gs" and G: "short_id G" and a: "alloc_succeeds U"
  shows "\<exists>gs' s'. add_setting_to_group U i G gs s = (EFI_SUCCESS, gs', s') \<and> wf_groups gs'
    \<and> group_members gs' = (group_members gs)(G := group_members gs G @ [i])"
proof (cases "first_index (\<lambda>g. gr_GroupId g = G) gs")
  case (Some k)
  obtain s' where al: "AllocatePool U 32 s = (True, s')"
    using alloc_succeedsD [OF a] by (metis (full_types) prod.exhaust)
  have "k < length gs" using Some by (auto dest: first_index_SomeD)
  then show ?thesis
    using Some al wf G
    by (simp add: add_setting_to_group_def FindGroup_short add_member_wf add_member_members)
next
  case None
  obtain s1 where al: "AllocatePool U 48 s = (True, s1)"
    using alloc_succeedsD [OF a] by (metis (full_types) prod.exhaust)
  obtain s2 where al2: "AllocatePool U 32 s1 = (True, s2)"
    using alloc_succeedsD [OF a] by (metis (full_types) prod.exhaust)
  note r = RegisterGroup_new [OF wf G None al]
  then show ?thesis
    using None wf G al2 add_member_members [OF r(4), of i] add_member_wf [OF r(2), of "length gs" i]
    by (simp add: add_setting_to_group_def FindGroup_short)
qed

lemma register_loop_ok:
  assumes "wf_groups gs" "\<forall>e\<in>set es. short_id (fst e)" "alloc_succeeds U" "short_id i"
    "\<forall>e\<in>set es. \<forall>m\<in>set (snd e). short_id m"
  shows "\<exists>gs' s'. register_loop U i es st gs s =
       (if \<exists>e\<in>set es. i \<in> set (snd e) then EFI_SUCCESS else st, gs', s') \<and> wf_groups gs'
     \<and> (\<forall>G. group_members gs' G = group_members gs G @
          replicate (length (filter (\<lambda>e. fst e = G \<and> i \<in> set (snd e)) es)) i)"
  using assms
proof (induction es arbitrary: gs st s)
  case Nil
  then show ?case by simp
next
  case (Cons e es)
  obtain G ms where e: "e = (G, ms)" by (cases e)
  have m: "(\<exists>m\<in>set ms. AsciiStrnCmp_eq i m DFCI_MAX_ID_LEN) \<longleftrightarrow> i \<in> set ms"
    using Cons.prems e by (auto simp: short_id_def AsciiStrnCmp_eq_def)
  show ?case
  proof (cases "i \<in> set ms")
    case True
    obtain g1 s1 where 1: "add_setting_to_group U i G gs s = (EFI_SUCCESS, g1, s1)" "wf_groups g1"
      "group_members g1 = (group_members gs)(G := group_members gs G @ [i])"
      using add_setting_to_group_ok [of gs G U i s] Cons.prems e by auto
    show ?thesis
      using Cons.IH [of g1 EFI_SUCCESS s1] Cons.prems 1 True m e by (auto simp: replicate_append_same)
  next
    case False
    then show ?thesis
      using Cons.IH [of gs st s] Cons.prems m e by auto
  qed
qed

section \<open>Properties\<close>

text \<open>
  Registering a setting adds it to every group of the platform's table that lists
  it, once per listing and at the end of the member list, changes no other group, keeps group
  names unique, and reports success exactly when some group lists it.
\<close>

lemma RegisterSettingToGroup_groups:
  assumes "wf_groups gs" "short_id i" "FindGroup i gs = None" "alloc_succeeds U"
    and "DfciGetGroupEntries U = Some es" "\<forall>e\<in>set es. short_id (fst e) \<and> (\<forall>m\<in>set (snd e). short_id m)"
  shows "\<exists>gs' s'. RegisterSettingToGroup U i gs s =
      (if \<exists>e\<in>set es. i \<in> set (snd e) then EFI_SUCCESS else EFI_NOT_FOUND, gs', s') \<and> wf_groups gs'
    \<and> (\<forall>G. group_members gs' G = group_members gs G @
         replicate (length (filter (\<lambda>e. fst e = G \<and> i \<in> set (snd e)) es)) i)"
  using register_loop_ok [of gs es U i EFI_NOT_FOUND s] assms by (simp add: RegisterSettingToGroup_def)

end
