(* ===== verification/Permission_Xml_Schema.thy ===== *)
theory Permission_Xml_Schema
  imports Permission_Store
begin

text \<open>
  The schema of the permission documents (\<open>DfciXmlPermissionSchemaSupport.c\<close> and the element
  names of \<open>DfciXmlPermissionSchemaSupportLib.h\<close>): reading the input packet, building the
  result document and the document of the current permissions.

  Input documents are values; a document under construction is a tree together with the path
  of the node the code holds a pointer to.
\<close>

section \<open>Reading the input packet\<close>

definition PERMISSIONS_PACKET_ELEMENT_NAME :: string where
  "PERMISSIONS_PACKET_ELEMENT_NAME = ''PermissionsPacket''"
definition PERMISSIONS_LIST_ELEMENT_NAME :: string where
  "PERMISSIONS_LIST_ELEMENT_NAME = ''Permissions''"
definition RESULTS_PACKET_ELEMENT_NAME :: string where
  "RESULTS_PACKET_ELEMENT_NAME = ''ResultsPacket''"
definition CURRENT_PERMISSION_PACKET_ELEMENT_NAME :: string where
  "CURRENT_PERMISSION_PACKET_ELEMENT_NAME = ''CurrentPermissionsPacket''"

text \<open>\<open>AsciiStrnCmp (Name, X, sizeof (X)) == 0\<close>: the comparison includes the NUL.\<close>

definition is_element :: "string \<Rightarrow> xml_node \<Rightarrow> bool" where
  "is_element nm n \<longleftrightarrow> AsciiStrnCmp_eq (xn_Name n) nm (length nm + 1)"

definition root_element :: "string \<Rightarrow> xml_node option \<Rightarrow> xml_node option" where
  "root_element nm RootNode = (case RootNode of None \<Rightarrow> None | Some n \<Rightarrow>
     if \<not> xn_Declaration n then None
     else if \<not> is_element nm n then None
     else Some n)"

definition GetPermissionPacketNode :: "xml_node option \<Rightarrow> xml_node option" where
  "GetPermissionPacketNode = root_element PERMISSIONS_PACKET_ELEMENT_NAME"

definition GetCurrentPermissionsPacketNode :: "xml_node option \<Rightarrow> xml_node option" where
  "GetCurrentPermissionsPacketNode = root_element CURRENT_PERMISSION_PACKET_ELEMENT_NAME"

definition GetResultsPermissionPacketNode :: "xml_node option \<Rightarrow> xml_node option" where
  "GetResultsPermissionPacketNode = root_element RESULTS_PACKET_ELEMENT_NAME"

definition GetPermissionsListNodeFromPacketNode :: "'s platform \<Rightarrow> xml_node \<Rightarrow> nat option" where
  "GetPermissionsListNodeFromPacketNode U PacketNode =
     FindFirstChildNodeByName U PacketNode PERMISSIONS_LIST_ELEMENT_NAME"

text \<open>OUT parameters keep their previous value on the branches that do not write them.\<close>

definition ConvertAsciiDecimalToPermissionMask :: "'s platform \<Rightarrow> string option \<Rightarrow> u8 \<Rightarrow> EFI_STATUS \<times> u8" where
  "ConvertAsciiDecimalToPermissionMask U PermAscii Msk = (case PermAscii of
     None \<Rightarrow> (EFI_INVALID_PARAMETER, Msk)
   | Some a \<Rightarrow>
       let t = AsciiStrDecimalToUintn U PermAscii in
       if t > ucast DFCI_PERMISSION_MASK__ALL then (EFI_INVALID_PARAMETER, Msk)
       else (EFI_SUCCESS, ucast t))"

definition GetPermissionsListDefaultPMask :: "'s platform \<Rightarrow> xml_node option \<Rightarrow> u8 \<Rightarrow> u8
    \<Rightarrow> EFI_STATUS \<times> u8 \<times> u8" where
  "GetPermissionsListDefaultPMask U PermissionListNode PMask DMask = (case PermissionListNode of
     None \<Rightarrow> (EFI_INVALID_PARAMETER, PMask, DMask)
   | Some n \<Rightarrow>
       if \<not> is_element PERMISSIONS_LIST_ELEMENT_NAME n then (EFI_INVALID_PARAMETER, PMask, DMask)
       else case FindFirstAttributeByName U n ''Default'' of
           None \<Rightarrow> (EFI_NOT_FOUND, PMask, DMask)
         | Some v \<Rightarrow> (case ConvertAsciiDecimalToPermissionMask U (Some v) PMask of (Status, PMask') \<Rightarrow>
             if EFI_ERROR Status then (Status, PMask', DMask)
             else case FindFirstAttributeByName U n ''Delegated'' of
                 None \<Rightarrow> (EFI_SUCCESS, PMask', DMask)
               | Some v' \<Rightarrow> (case ConvertAsciiDecimalToPermissionMask U (Some v') DMask of
                   (Status, DMask') \<Rightarrow> (Status, PMask', DMask'))))"

definition PermissionListEntriesAppend :: "'s platform \<Rightarrow> xml_node option \<Rightarrow> bool \<Rightarrow> EFI_STATUS \<times> bool" where
  "PermissionListEntriesAppend U PermissionListNode Result = (case PermissionListNode of
     None \<Rightarrow> (EFI_INVALID_PARAMETER, Result)
   | Some n \<Rightarrow>
       if \<not> is_element PERMISSIONS_LIST_ELEMENT_NAME n then (EFI_INVALID_PARAMETER, Result)
       else case FindFirstAttributeByName U n ''Append'' of
           None \<Rightarrow> (EFI_NOT_FOUND, Result)
         | Some v \<Rightarrow> (EFI_SUCCESS, AsciiStrnCmp_eq v ''True'' 5))"

text \<open>
  One \<open>Permission\<close> element; \<open>Parent\<close> is its \<open>ParentNode\<close>.  The id is a NULL pointer until it has
  been read; an id element without a value is dereferenced (\<open>None\<close>).
\<close>

definition GetInputPermission :: "'s platform \<Rightarrow> xml_node option \<Rightarrow> xml_node \<Rightarrow> string option \<Rightarrow> u8 \<Rightarrow> u8
    \<Rightarrow> (EFI_STATUS \<times> string option \<times> u8 \<times> u8) option" where
  "GetInputPermission U Parent n IdPtr PMask DMask = (case Parent of
     None \<Rightarrow> Some (EFI_INVALID_PARAMETER, IdPtr, PMask, DMask)
   | Some par \<Rightarrow>
     if \<not> is_element PERMISSIONS_LIST_ELEMENT_NAME par then Some (EFI_INVALID_PARAMETER, IdPtr, PMask, DMask)
     else do {
       idn \<leftarrow> child_by_name U n ''Id'';
       (case idn of None \<Rightarrow> Some (EFI_NOT_FOUND, IdPtr, PMask, DMask) | Some Temp \<Rightarrow> do {
          v \<leftarrow> xn_Value Temp;
          let IdPtr = (if starts_numeric v
            then (case DfciV1TranslateString U v of None \<Rightarrow> Some v | Some t \<Rightarrow> Some t) else Some v);
          pn \<leftarrow> child_by_name U n ''PMask'';
          (case pn of None \<Rightarrow> Some (EFI_NOT_FOUND, IdPtr, PMask, DMask) | Some Temp \<Rightarrow>
            (case ConvertAsciiDecimalToPermissionMask U (xn_Value Temp) PMask of (Status, PMask') \<Rightarrow>
              if EFI_ERROR Status then Some (Status, IdPtr, PMask', DFCI_IDENTITY_NOT_SPECIFIED)
              else do {
                dn \<leftarrow> child_by_name U n ''DMask'';
                (case dn of None \<Rightarrow> Some (Status, IdPtr, PMask', DFCI_IDENTITY_NOT_SPECIFIED)
                 | Some Temp \<Rightarrow>
                    (case ConvertAsciiDecimalToPermissionMask U (xn_Value Temp) DFCI_IDENTITY_NOT_SPECIFIED of
                      (Status, DMask') \<Rightarrow> Some (Status, IdPtr, PMask', DMask'))) })) }) })"

section \<open>Building documents\<close>

definition RESULT_XML_TEMPLATE :: string where
  "RESULT_XML_TEMPLATE = ''<?xml version=\"1.0\" encoding=\"utf-8\"?><ResultsPacket xmlns=\"urn:UefiSettings-Schema\"></ResultsPacket>''"
definition CURRENT_XML_TEMPLATE :: string where
  "CURRENT_XML_TEMPLATE = ''<?xml version=\"1.0\" encoding=\"utf-8\"?><CurrentPermissionsPacket xmlns=\"urn:UefiSettings-Schema\"></CurrentPermissionsPacket>''"

text \<open>A document from its template: a dated node, then the empty list.\<close>

definition new_document :: "'s platform \<Rightarrow> string \<Rightarrow> string \<Rightarrow> string \<Rightarrow> EFI_TIME \<Rightarrow> 's \<Rightarrow> xml_node option \<times> 's" where
  "new_document U template dateName listName Date s =
     (case CreateXmlTree U template s of (Status, Root, s1) \<Rightarrow>
      if EFI_ERROR Status then (None, s1)
      else case AddNode U Root [] dateName (Some (AsciiSPrint_date U Date)) s1 of (Status, Root, _, s2) \<Rightarrow>
        if EFI_ERROR Status then (None, s2)
        else case AddNode U Root [] listName None s2 of (Status, Root, _, s3) \<Rightarrow>
          if EFI_ERROR Status then (None, s3) else (Some Root, s3))"

definition New_CurrentPermissionsPacketNodeList :: "'s platform \<Rightarrow> EFI_TIME \<Rightarrow> 's \<Rightarrow> xml_node option \<times> 's" where
  "New_CurrentPermissionsPacketNodeList U = new_document U CURRENT_XML_TEMPLATE ''Date'' PERMISSIONS_LIST_ELEMENT_NAME"

definition New_ResultPermissionPacketNodeList :: "'s platform \<Rightarrow> EFI_TIME \<Rightarrow> 's \<Rightarrow> xml_node option \<times> 's" where
  "New_ResultPermissionPacketNodeList U = new_document U RESULT_XML_TEMPLATE ''AppliedOn'' PERMISSIONS_LIST_ELEMENT_NAME"

text \<open>An element with text below the given node; the status is turned into a device error.\<close>

definition add_text_node :: "'s platform \<Rightarrow> xml_node \<Rightarrow> nat list \<Rightarrow> string \<Rightarrow> string \<Rightarrow> 's
    \<Rightarrow> EFI_STATUS \<times> xml_node \<times> 's" where
  "add_text_node U t p nm v s = (case AddNode U t p nm (Some v) s of (Status, t', _, s') \<Rightarrow>
     (if EFI_ERROR Status then EFI_DEVICE_ERROR else EFI_SUCCESS, t', s'))"

definition SetOutputPermissionStatus :: "'s platform \<Rightarrow> xml_node \<Rightarrow> nat list \<Rightarrow> string option \<Rightarrow> string \<Rightarrow> 's
    \<Rightarrow> (EFI_STATUS \<times> xml_node \<times> 's) option" where
  "SetOutputPermissionStatus U t p IdPtr Result s = (case IdPtr of
     None \<Rightarrow> Some (EFI_INVALID_PARAMETER, t, s)
   | Some i \<Rightarrow> do {
       par \<leftarrow> node_at t p;
       if \<not> is_element PERMISSIONS_LIST_ELEMENT_NAME par then Some (EFI_INVALID_PARAMETER, t, s)
       else case AddNode U t p ''PermissionResult'' None s of (Status, t1, q, s1) \<Rightarrow>
         if EFI_ERROR Status then Some (EFI_DEVICE_ERROR, t1, s1)
         else case add_text_node U t1 q ''Id'' i s1 of (Status, t2, s2) \<Rightarrow>
           if EFI_ERROR Status then Some (Status, t2, s2)
           else Some (add_text_node U t2 q ''Result'' Result s2) })"

text \<open>A mask printed in decimal into a node \<open>nm\<close> below \<open>q\<close>.\<close>

definition add_mask_node :: "'s platform \<Rightarrow> xml_node \<Rightarrow> nat list \<Rightarrow> string \<Rightarrow> u8 \<Rightarrow> 's
    \<Rightarrow> EFI_STATUS \<times> xml_node \<times> 's" where
  "add_mask_node U t q nm v s = (case AsciiValueToStringS U 8 False (ucast v) 5 of (Status, str) \<Rightarrow>
     if EFI_ERROR Status then (EFI_DEVICE_ERROR, t, s) else add_text_node U t q nm str s)"

definition SetCurrentPermissions :: "'s platform \<Rightarrow> xml_node \<Rightarrow> nat list \<Rightarrow> string \<Rightarrow> u8 \<Rightarrow> u8 \<Rightarrow> 's
    \<Rightarrow> (EFI_STATUS \<times> xml_node \<times> 's) option" where
  "SetCurrentPermissions U t p i Val DelegatedVal s = do {
     par \<leftarrow> node_at t p;
     if \<not> is_element PERMISSIONS_LIST_ELEMENT_NAME par then Some (EFI_INVALID_PARAMETER, t, s)
     else case AddNode U t p ''PermissionCurrent'' None s of (Status, t1, q, s1) \<Rightarrow>
       if EFI_ERROR Status then Some (EFI_DEVICE_ERROR, t1, s1)
       else case add_text_node U t1 q ''Id'' i s1 of (Status, t2, s2) \<Rightarrow>
         if EFI_ERROR Status then Some (Status, t2, s2)
         else case add_mask_node U t2 q ''PMask'' Val s2 of (Status, t3, s3) \<Rightarrow>
           if EFI_ERROR Status then Some (Status, t3, s3)
           else if DelegatedVal \<noteq> 0 then Some (add_mask_node U t3 q ''DMask'' DelegatedVal s3)
           else Some (EFI_SUCCESS, t3, s3) }"

definition AddPermissionsLsvNode :: "'s platform \<Rightarrow> xml_node \<Rightarrow> string \<Rightarrow> 's \<Rightarrow> EFI_STATUS \<times> xml_node \<times> 's" where
  "AddPermissionsLsvNode U t Lsv s =
     (if \<not> is_element CURRENT_PERMISSION_PACKET_ELEMENT_NAME t then (EFI_INVALID_PARAMETER, t, s)
      else case AddNode U t [] ''LSV'' (Some Lsv) s of (Status, t', _, s') \<Rightarrow> (Status, t', s'))"

definition AddCurrentAttributes :: "'s platform \<Rightarrow> xml_node \<Rightarrow> u8 \<Rightarrow> u8 \<Rightarrow> 's \<Rightarrow> EFI_STATUS \<times> xml_node \<times> 's" where
  "AddCurrentAttributes U t PMask DelegatedPMask s =
     (case AsciiValueToStringS U 8 False (ucast PMask) 5 of (Status, str) \<Rightarrow>
      if EFI_ERROR Status then (EFI_DEVICE_ERROR, t, s)
      else case AddAttributeToNode U t [] ''Default'' str s of (Status, t1, s1) \<Rightarrow>
        if EFI_ERROR Status then (EFI_DEVICE_ERROR, t1, s1)
        else case AsciiValueToStringS U 8 False (ucast DelegatedPMask) 5 of (Status, str) \<Rightarrow>
          if EFI_ERROR Status then (EFI_DEVICE_ERROR, t1, s1)
          else case AddAttributeToNode U t1 [] ''Delegated'' str s1 of (Status, t2, s2) \<Rightarrow>
            if EFI_ERROR Status then (EFI_DEVICE_ERROR, t2, s2) else (Status, t2, s2))"

lemma add_text_node_vars:
  "xml_keeps_vars U \<Longrightarrow> add_text_node U t p nm v s = (st, t', s') \<Longrightarrow> same_vars U s s'"
  by (auto simp: add_text_node_def split: prod.splits dest: xml_vars)

lemma new_document_vars:
  assumes "xml_keeps_vars U" "new_document U te da ln t s = (r, s')"
  shows "same_vars U s s'"
  using assms(2) xml_vars [OF assms(1)]
  by (auto simp: new_document_def split: prod.splits if_splits) (meson same_vars_trans)+

end
