(* ===== verification/Permission_Default.thy ===== *)
theory Permission_Default
  imports Permission_Xml_Schema
begin

text \<open>
  The initial permission store: the permissions of unsigned packets that the platform ships in
  its firmware volume (\<open>ModifyUnsignedPermissionEntries\<close> of \<open>DfciSettingPermissionProvisionXml.c\<close>)
  and \<open>AddRequiredPermissions\<close>, \<open>InitPermStore\<close> of \<open>PermissionStoreSupport.c\<close>.

  The theory shows which permissions a freshly initialised store grants, whatever the
  platform's unsigned list contains.
\<close>

section \<open>Unsigned permissions\<close>

text \<open>The walk over the \<open>Permission\<close> elements; \<open>Mask\<close> and \<open>DMask\<close> live across iterations.\<close>

fun unsigned_loop :: "'s platform \<Rightarrow> bool \<Rightarrow> xml_node \<Rightarrow> xml_node list \<Rightarrow> EFI_STATUS \<Rightarrow> u8 \<Rightarrow> u8
    \<Rightarrow> perm_store option \<Rightarrow> 's \<Rightarrow> (EFI_STATUS \<times> perm_store option \<times> 's) option" where
  "unsigned_loop U AddEntries par [] Status Msk DMask Store s = Some (Status, Store, s)"
| "unsigned_loop U AddEntries par (n # ns) Status Msk DMask Store s = do {
     (Status, IdPtr, Msk, DMask) \<leftarrow> GetInputPermission U (Some par) n None Msk DMask;
     if EFI_ERROR Status then Some (EFI_NO_MAPPING, Store, s)
     else case (if AddEntries then AddPermissionEntry U IdPtr Msk DMask Store s
                else (case DeletePermissionEntry IdPtr Store of (st, Store') \<Rightarrow> (st, Store', s))) of
       (Status, Store, s) \<Rightarrow>
         if EFI_ERROR Status then Some (EFI_ABORTED, Store, s)
         else unsigned_loop U AddEntries par ns Status Msk DMask Store s }"

definition ModifyUnsignedPermissionEntries :: "'s platform \<Rightarrow> bool \<Rightarrow> perm_store option \<Rightarrow> 's
    \<Rightarrow> (EFI_STATUS \<times> perm_store option \<times> 's) option" where
  "ModifyUnsignedPermissionEntries U AddEntries Store s =
     (case GetSectionFromAnyFv U s of (Status, PermXml) \<Rightarrow>
      if EFI_ERROR Status then Some (EFI_SUCCESS, Store, s)
      else case CreateXmlTree U PermXml s of (Status, Root, s) \<Rightarrow>
        if EFI_ERROR Status then Some (EFI_NO_MAPPING, Store, s)
        else case GetPermissionPacketNode (Some Root) of
            None \<Rightarrow> Some (EFI_NO_MAPPING, Store, s)
          | Some Packet \<Rightarrow> do {
              ln \<leftarrow> (case GetPermissionsListNodeFromPacketNode U Packet of None \<Rightarrow> Some None
                 | Some k \<Rightarrow> map_option Some (node_at Packet [k]));
              (case ln of
                 None \<Rightarrow> Some (EFI_NO_MAPPING, Store, s)
               | Some lst \<Rightarrow>
                   if PcdUnsignedListFormatAllow U
                   then unsigned_loop U AddEntries lst (xn_Children lst) Status
                          DFCI_PERMISSION_MASK__DEFAULT_UNSIGNED 0 Store s
                   else do {
                     S \<leftarrow> Store;
                     unsigned_loop U AddEntries lst (xn_Children lst) Status
                       DFCI_PERMISSION_MASK__DEFAULT 0
                       (Some (S\<lparr>ps_DefaultPMask := DFCI_PERMISSION_MASK__DEFAULT_UNSIGNED\<rparr>)) s }) })"

definition AddUnsignedPermissionEntries :: "'s platform \<Rightarrow> perm_store option \<Rightarrow> 's
    \<Rightarrow> (EFI_STATUS \<times> perm_store option \<times> 's) option" where
  "AddUnsignedPermissionEntries U = ModifyUnsignedPermissionEntries U True"

definition RemoveUnsignedPermissionEntries :: "'s platform \<Rightarrow> perm_store option \<Rightarrow> 's
    \<Rightarrow> (EFI_STATUS \<times> perm_store option \<times> 's) option" where
  "RemoveUnsignedPermissionEntries U = ModifyUnsignedPermissionEntries U False"

section \<open>Required permissions and initialisation\<close>

definition ID_OWNER_KEY :: string where "ID_OWNER_KEY = ''Dfci.OwnerKey.Enum''"
definition ID_ZTD_KEY :: string where "ID_ZTD_KEY = ''Dfci.ZtdKey.Enum''"
definition ID_ZTD_UNENROLL :: string where "ID_ZTD_UNENROLL = ''Dfci.ZtdUnenroll.Enable''"
definition ID_DFCI_RECOVERY :: string where "ID_DFCI_RECOVERY = ''Dfci.Recovery.Enable''"
definition ID_ZTD_RECOVERY :: string where "ID_ZTD_RECOVERY = ''Dfci.Ztd.Recovery.Enable''"

lemmas private_ids = ID_OWNER_KEY_def ID_ZTD_KEY_def ID_ZTD_UNENROLL_def ID_DFCI_RECOVERY_def
  ID_ZTD_RECOVERY_def

definition AddRequiredPermissions :: "'s platform \<Rightarrow> perm_store option \<Rightarrow> 's
    \<Rightarrow> (EFI_STATUS \<times> perm_store option \<times> 's) option" where
  "AddRequiredPermissions U Store s =
     (case AddRequiredPermissionEntry U (Some ID_OWNER_KEY)
             (DFCI_IDENTITY_LOCAL OR DFCI_IDENTITY_SIGNER_ZTD) DFCI_IDENTITY_SIGNER_OWNER Store s of (_, Store, s) \<Rightarrow>
      case AddRequiredPermissionEntry U (Some ID_ZTD_KEY) DFCI_IDENTITY_LOCAL
             DFCI_PERMISSION_MASK__NONE Store s of (_, Store, s) \<Rightarrow>
      case AddRequiredPermissionEntry U (Some ID_ZTD_UNENROLL) DFCI_IDENTITY_INVALID
             DFCI_PERMISSION_MASK__NONE Store s of (_, Store, s) \<Rightarrow>
      case AddRequiredPermissionEntry U (Some ID_ZTD_RECOVERY) DFCI_IDENTITY_INVALID
             DFCI_PERMISSION_MASK__NONE Store s of (_, Store, s) \<Rightarrow>
      do { (_, Store, s) \<leftarrow> AddUnsignedPermissionEntries U Store s;
           Some (EFI_SUCCESS, Store, s) })"

definition InitPermStore :: "'s platform \<Rightarrow> 's \<Rightarrow> (EFI_STATUS \<times> perm_store option \<times> 's) option" where
  "InitPermStore U s = (case AllocatePool U 80 s of (ok, s1) \<Rightarrow>
     if \<not> ok then Some (EFI_ABORTED, None, s1)
     else case GetTime U s1 of (Status, t, s2) \<Rightarrow>
       let CreatedOn = (if EFI_ERROR Status then zero_time else t) in
       AddRequiredPermissions U (Some \<lparr>ps_Version = 0, ps_Lsv = 0, ps_Modified = True,
         ps_CreatedOn = CreatedOn, ps_SavedOn = CreatedOn,
         ps_DefaultPMask = DFCI_PERMISSION_MASK__DEFAULT,
         ps_DefaultDMask = DFCI_PERMISSION_MASK__DELEGATED_DEFAULT, ps_List = []\<rparr>) s2)"

section \<open>What a fresh store grants\<close>

text \<open>
  The unsigned list only appends: entries already present keep their position, so the first
  match for a required id is the required entry.
\<close>

definition extends :: "perm_store \<Rightarrow> perm_store \<Rightarrow> bool" where
  "extends S S' \<longleftrightarrow> (\<exists>es. ps_List S' = ps_List S @ es \<and> wf_list es)
     \<and> ps_Version S' = ps_Version S \<and> ps_Lsv S' = ps_Lsv S
     \<and> ps_DefaultDMask S' = ps_DefaultDMask S \<and> ps_Modified S' = ps_Modified S"

lemma extends_refl: "extends S S"
  by (auto simp: extends_def wf_list_def)

lemma extends_trans: "extends a b \<Longrightarrow> extends b c \<Longrightarrow> extends a c"
  by (auto simp: extends_def wf_list_def)

lemma AddPermissionEntry_extends:
  assumes "AddPermissionEntry U i p d (Some S) s = (st, Store', s')"
  shows "\<exists>S'. Store' = Some S' \<and> extends S S'"
proof (cases i)
  case None
  with assms show ?thesis by (auto simp: AddPermissionEntry_def extends_refl)
next
  case (Some x)
  show ?thesis
    using assms unfolding Some
    by (cases rule: AddPermissionEntry_cases)
      (auto simp: extends_def wf_list_def wf_entry_new simp del: of_nat_Suc)
qed

lemma unsigned_loop_extends:
  "unsigned_loop U True par ns st m d (Some S) s = Some (st', Store', s') \<Longrightarrow>
   \<exists>S'. Store' = Some S' \<and> extends S S'"
proof (induction ns arbitrary: st m d S s)
  case Nil
  then show ?case by (auto simp: extends_refl)
next
  case (Cons n ns)
  obtain st1 i m1 d1 where g: "GetInputPermission U (Some par) n None m d = Some (st1, i, m1, d1)"
    using Cons.prems by (auto simp: option_bind_Some_iff)
  obtain st2 Store2 s2 where a: "AddPermissionEntry U i m1 d1 (Some S) s = (st2, Store2, s2)"
    by (metis prod_cases3)
  obtain S2 where S2: "Store2 = Some S2" "extends S S2"
    using AddPermissionEntry_extends [OF a] by blast
  show ?case
  proof (cases "EFI_ERROR st1 \<or> EFI_ERROR st2")
    case True
    then show ?thesis
      using Cons.prems g a S2 by (auto simp: extends_refl split: if_splits)
  next
    case False
    then have "unsigned_loop U True par ns st2 m1 d1 (Some S2) s2 = Some (st', Store', s')"
      using Cons.prems g a S2 by simp
    then show ?thesis
      using Cons.IH S2(2) extends_trans by blast
  qed
qed

lemma AddUnsigned_extends:
  assumes "AddUnsignedPermissionEntries U (Some S) s = Some (st', Store', s')"
  shows "\<exists>S'. Store' = Some S' \<and> extends S S'"
proof -
  have x: "extends S (S\<lparr>ps_DefaultPMask := m\<rparr>)" for m
    by (simp add: extends_def wf_list_def)
  show ?thesis
    using assms extends_refl [of S]
    by (auto simp: AddUnsignedPermissionEntries_def ModifyUnsignedPermissionEntries_def option_bind_Some_iff
        case_prod_beta split: if_splits option.splits
        dest!: unsigned_loop_extends intro: extends_trans [OF x])
qed

lemma extends_lookup:
  "extends S S' \<Longrightarrow> wf_store S \<Longrightarrow> wf_store S' \<and> (perm_map S i = Some m \<longrightarrow> perm_map S' i = Some m)"
  by (auto simp: extends_def wf_store_def wf_list_def perm_map_def)

lemma private_ids_wf [simp]: "wf_id ID_OWNER_KEY" "wf_id ID_ZTD_KEY" "wf_id ID_ZTD_UNENROLL"
  "wf_id ID_ZTD_RECOVERY" "wf_id ID_DFCI_RECOVERY"
  by (simp_all add: private_ids wf_id_def is_digit_def)

lemma private_ids_distinct [simp]: "distinct [ID_OWNER_KEY, ID_ZTD_KEY, ID_ZTD_UNENROLL, ID_DFCI_RECOVERY, ID_ZTD_RECOVERY]"
  by (simp add: private_ids)


text \<open>The four required entries are a sequence of updates of the table.\<close>

definition required_permissions :: "(string \<times> u8 \<times> u8) list" where
  "required_permissions =
    [(ID_OWNER_KEY, 0x09, 0x80), (ID_ZTD_KEY, 0x01, 0), (ID_ZTD_UNENROLL, 0, 0), (ID_ZTD_RECOVERY, 0, 0)]"

lemma AddRequiredPermissions_table:
  "AddRequiredPermissions U Store s = (case perm_tbl.put_all U required_permissions Store s of (Store, s) \<Rightarrow>
     do { (_, Store, s) \<leftarrow> AddUnsignedPermissionEntries U Store s; Some (EFI_SUCCESS, Store, s) })"
  by (simp add: AddRequiredPermissions_def required_permissions_def split_def)

text \<open>The part of a store that the required entries leave alone.\<close>

definition header_of :: "perm_store option \<Rightarrow> (u32 \<times> u32 \<times> bool \<times> u8 \<times> u8) option" where
  "header_of = map_option (\<lambda>S. (ps_Version S, ps_Lsv S, ps_Modified S, ps_DefaultPMask S, ps_DefaultDMask S))"

lemma AddRequired_header:
  "header_of (fst (snd (AddRequiredPermissionEntry U (Some k) p d Store s))) = header_of Store"
  by (auto simp: AddRequiredPermissionEntry_def AddPermissionEntry_def header_of_def set_masks_def Let_def
      case_prod_beta option.map_comp comp_def split: option.splits)

lemma AddRequired_total:
  assumes a: "alloc_succeeds U" and "wf_ref Store" "wf_id k"
  shows "\<not> EFI_ERROR (fst (AddRequiredPermissionEntry U (Some k) p d Store s))"
proof -
  obtain S where S: "Store = Some S" using assms(2) by (auto simp: wf_ref_def split: option.splits)
  obtain st Store' s' where r: "AddPermissionEntry U (Some k) p d (Some S) s = (st, Store', s')"
    by (metis prod_cases3)
  then have "\<not> EFI_ERROR st"
    by (cases rule: AddPermissionEntry_cases)
      (use assms(3) alloc_succeedsD [OF a] in \<open>auto simp: wf_id_def\<close>)
  with r S show ?thesis
    by (auto simp: AddRequiredPermissionEntry_def split: option.splits)
qed

lemma required_put_all:
  assumes a: "alloc_succeeds U" and wf: "wf_store S0"
    and p: "perm_tbl.put_all U required_permissions (Some S0) s = (Store, s')"
  shows "\<exists>S. Store = Some S \<and> wf_store S \<and> header_of (Some S) = header_of (Some S0)
    \<and> (\<forall>(k, m) \<in> set required_permissions. perm_map S k = Some m)"
proof -
  have ref: "wf_ref (Some S0)" using wf by (simp add: wf_ref_def)
  have ids: "\<forall>x\<in>set required_permissions. wf_id (fst x)" "distinct (map fst required_permissions)"
    using private_ids_distinct by (auto simp: required_permissions_def)
  have w: "wf_ref Store" using perm_tbl.put_all_inv [OF ref p] .
  then obtain S where S: "Store = Some S" "wf_store S"
    by (auto simp: wf_ref_def split: option.splits)
  have "perm_map S k = Some m" if "(k, m) \<in> set required_permissions" for k m
    using perm_tbl.put_all_lookup [OF ref ids p AddRequired_total [OF a] that] S
    by (simp add: perm_lookup_map)
  moreover have "header_of Store = header_of (Some S0)"
    by (rule perm_tbl.put_all_keeps [OF p AddRequired_header])
  ultimately show ?thesis using S by (intro exI [of _ S]) (auto simp del: split_paired_All)
qed

lemma InitPermStore_grants:
  assumes a: "alloc_succeeds U" and i: "InitPermStore U s = Some (st, Store, s')"
  shows "\<exists>S. Store = Some S \<and> st = EFI_SUCCESS \<and> wf_store S
    \<and> (\<forall>(k, m) \<in> set required_permissions. perm_map S k = Some m)
    \<and> ps_DefaultDMask S = DFCI_IDENTITY_SIGNER_OWNER \<and> ps_Version S = 0 \<and> ps_Lsv S = 0 \<and> ps_Modified S"
proof -
  obtain s1 where al: "AllocatePool U 80 s = (True, s1)"
    using alloc_succeedsD [OF a] by (metis (full_types) prod.exhaust)
  obtain S0 s2 where S0: "AddRequiredPermissions U (Some S0) s2 = Some (st, Store, s')"
    "ps_List S0 = []" "ps_DefaultDMask S0 = DFCI_IDENTITY_SIGNER_OWNER" "ps_Version S0 = 0" "ps_Lsv S0 = 0" "ps_Modified S0"
  proof -
    obtain gt t s2 where gt: "GetTime U s1 = (gt, t, s2)" by (metis prod_cases3)
    define c where "c = (if EFI_ERROR gt then zero_time else t)"
    show ?thesis
      using i al gt that [of "\<lparr>ps_Version = 0, ps_Lsv = 0, ps_Modified = True, ps_CreatedOn = c,
        ps_SavedOn = c, ps_DefaultPMask = DFCI_PERMISSION_MASK__DEFAULT,
        ps_DefaultDMask = DFCI_PERMISSION_MASK__DELEGATED_DEFAULT, ps_List = []\<rparr>" s2]
      by (simp add: InitPermStore_def mask_defs Let_def c_def)
  qed
  obtain Store1 s3 where p: "perm_tbl.put_all U required_permissions (Some S0) s2 = (Store1, s3)"
    by (metis prod.exhaust)
  have "wf_store S0" using S0(2) by (simp add: wf_store_def wf_list_def)
  from required_put_all [OF a this p] obtain S1 where S1: "Store1 = Some S1" "wf_store S1"
    "header_of (Some S1) = header_of (Some S0)" "\<forall>(k, m) \<in> set required_permissions. perm_map S1 k = Some m"
    by blast
  obtain st' where u: "AddUnsignedPermissionEntries U (Some S1) s3 = Some (st', Store, s')" "st = EFI_SUCCESS"
    using S0(1) by (auto simp: AddRequiredPermissions_table p S1(1) option_bind_Some_iff)
  then obtain S where S: "Store = Some S" "extends S1 S"
    using AddUnsigned_extends [OF u(1)] by auto
  then show ?thesis
    using S1 S0 u(2) extends_lookup [OF S(2) S1(2)] by (auto simp: extends_def header_of_def)
qed

section \<open>Properties\<close>

text \<open>
  A freshly initialised store, whatever unsigned permissions the platform ships,
  lets only the local user and the zero-touch identity enrol an owner, only the local user set
  the zero-touch key, nobody unenroll or recover through the zero-touch identity, and delegates
  all other permissions to the owner; it starts at version 0 and is marked for saving.
\<close>

theorem InitPermStore_initial_permissions:
  assumes "alloc_succeeds U" "InitPermStore U s = Some (st, Store, s')"
  shows "\<exists>S. Store = Some S \<and> st = EFI_SUCCESS \<and> wf_store S
    \<and> perm_map S ID_OWNER_KEY = Some (DFCI_IDENTITY_LOCAL OR DFCI_IDENTITY_SIGNER_ZTD, DFCI_IDENTITY_SIGNER_OWNER)
    \<and> perm_map S ID_ZTD_KEY = Some (DFCI_IDENTITY_LOCAL, 0)
    \<and> perm_map S ID_ZTD_UNENROLL = Some (0, 0) \<and> perm_map S ID_ZTD_RECOVERY = Some (0, 0)
    \<and> ps_DefaultDMask S = DFCI_IDENTITY_SIGNER_OWNER \<and> ps_Version S = 0 \<and> ps_Lsv S = 0 \<and> ps_Modified S"
  using InitPermStore_grants [OF assms] by (auto simp: required_permissions_def)

theorem InitPermStore_initial_permissions_witness:
  "\<exists>S s'. InitPermStore demo_platform example_state = Some (EFI_SUCCESS, Some S, s')
     \<and> perm_map S ID_OWNER_KEY = Some (9, 0x80)"
proof -
  have "InitPermStore demo_platform example_state \<noteq> None"
    by (simp add: InitPermStore_def AddRequiredPermissions_def AddUnsignedPermissionEntries_def
        ModifyUnsignedPermissionEntries_def case_prod_beta demo_simps)
  then obtain st Store s' where r: "InitPermStore demo_platform example_state = Some (st, Store, s')"
    by auto
  from InitPermStore_initial_permissions [OF demo_laws(1) r] r show ?thesis by auto
qed

end
