(* ===== verification/Permission_Flash.thy ===== *)
theory Permission_Flash
  imports Permission_Store Nv_Storage
begin

text \<open>
  The permission store in non-volatile memory (\<open>DfciSettingPermissionProvisioned.c\<close>): the
  packed layout of the variable \<open>_SPP\<close> in its four versions, saving, and loading with
  conversion of the older versions.  A variable is the list of its bytes; every field read is
  bounds checked, \<open>None\<close> standing for a read outside the buffer.

  Layout (offsets): signature 0, header version 4, Version 5, LSV 9, CreatedOn 13, SavedOn 29,
  DefaultPMask 45; V3/V4: DefaultDMask 46, NumberOfEntries 47, table at 49 with entries of
  3 + IdSize bytes; V1/V2: NumberOfEntries 46, table at 48.

  The theory shows that a saved store loads back as it was and that saving and loading meet the
  contract of a component with a non-volatile copy.
\<close>

section \<open>Saving\<close>

definition VAR_NAME :: string where "VAR_NAME = ''_SPP''"

abbreviation (input) VAR_HEADER_SIG :: u32 where "VAR_HEADER_SIG \<equiv> 0x5A434253"
abbreviation (input) MAX_SIZE_FOR_VAR :: u64 where "MAX_SIZE_FOR_VAR \<equiv> 2048"

definition entry_bytes :: "perm_entry \<Rightarrow> bytes" where
  "entry_bytes e = [pe_PMask e, pe_DMask e, pe_IdSize e] @
     take (unat (pe_IdSize e)) (to_bytes (pe_Id e) @ [0])"

definition flash_head :: "u8 \<Rightarrow> perm_store \<Rightarrow> bytes" where
  "flash_head v S = le32 VAR_HEADER_SIG @ [v] @ le32 (ps_Version S) @ le32 (ps_Lsv S)"

definition flash_tail :: "perm_store \<Rightarrow> bytes" where
  "flash_tail S = [ps_DefaultPMask S, ps_DefaultDMask S] @
     le16 (word_of_nat (length (ps_List S))) @ concat (map entry_bytes (ps_List S))"

definition flash_var :: "perm_store \<Rightarrow> EFI_TIME \<Rightarrow> EFI_TIME \<Rightarrow> bytes" where
  "flash_var S c t = flash_head 4 S @ (time_bytes c @ time_bytes t) @ flash_tail S"

definition save_size :: "nat \<Rightarrow> nat \<Rightarrow> u64" where
  "save_size NumEntries TotalIdSize =
     52 + ((word_of_nat NumEntries - 1) * 3 + word_of_nat TotalIdSize)"

text \<open>\<open>ZeroMem\<close> of \<open>CreatedOn\<close> and \<open>SavedOn\<close>.\<close>

definition zero_times :: "bytes \<Rightarrow> bytes" where
  "zero_times bs = take 13 bs @ replicate 32 0 @ drop 45 bs"

definition SaveToFlash :: "'s platform \<Rightarrow> perm_store option \<Rightarrow> 's
    \<Rightarrow> EFI_STATUS \<times> perm_store option \<times> 's" where
  "SaveToFlash U Store s = (case Store of None \<Rightarrow> (EFI_INVALID_PARAMETER, None, s) | Some S \<Rightarrow>
     if \<not> ps_Modified S then (EFI_SUCCESS, Store, s)
     else case GetNumberOfPermissionEntires Store of (NumEntries, TotalIdSize) \<Rightarrow>
       let VarSize = save_size NumEntries TotalIdSize in
       if VarSize > MAX_SIZE_FOR_VAR then (EFI_INVALID_PARAMETER, Store, s)
       else case AllocatePool U (unat VarSize) s of (ok, s1) \<Rightarrow>
         if \<not> ok then (EFI_ABORTED, Store, s1)
         else case GetTime U s1 of (_, t, s2) \<Rightarrow>
           case GetVariable U VAR_NAME gDfciInternalVariableGuid s2 of (Status, OldVar, _) \<Rightarrow>
           if \<not> EFI_ERROR Status \<and> length OldVar = unat VarSize
              \<and> zero_times OldVar = zero_times (flash_var S zero_time zero_time)
           then (Status, Store, s2)
           else case SetVariable U VAR_NAME gDfciInternalVariableGuid DFCI_INTERNAL_VAR_ATTRIBUTES
                       (flash_var S (ps_CreatedOn S) t) s2 of (Status, s3) \<Rightarrow>
             if EFI_ERROR Status then (Status, Store, s3)
             else (Status, Some (S\<lparr>ps_SavedOn := t, ps_Modified := False\<rparr>), s3))"

section \<open>Loading\<close>

text \<open>
  The id of an entry as \<open>AddPermissionEntry\<close> reads it through the pointer into the variable:
  the first character, and when that is not a digit the characters up to a NUL, at most
  \<open>DFCI_MAX_ID_SIZE\<close>.
\<close>

definition flash_id :: "bytes \<Rightarrow> nat \<Rightarrow> string option" where
  "flash_id Var off = do {
     b \<leftarrow> rd8 Var off;
     if is_digit (byte_to_char b) then Some [byte_to_char b] else rd_cstr Var off DFCI_MAX_ID_SIZE }"

text \<open>
  The loops over the table: \<open>n\<close> entries are left, \<open>p\<close> is \<open>PermPtr\<close>, \<open>Count\<close> the entries seen.
  \<open>Inl\<close> is the early return.
\<close>

fun load_entries_v2 :: "'s platform \<Rightarrow> bytes \<Rightarrow> nat \<Rightarrow> nat \<Rightarrow> nat \<Rightarrow> perm_store option \<Rightarrow> 's
    \<Rightarrow> ((EFI_STATUS + nat) \<times> perm_store option \<times> 's) option" where
  "load_entries_v2 U Var 0 p Count Store s = Some (Inr Count, Store, s)"
| "load_entries_v2 U Var (Suc n) p Count Store s =
     (if p < length Var then do {
        IdSize \<leftarrow> rd8 Var (p + 1);
        if p + 2 + unat IdSize > length Var then Some (Inl EFI_COMPROMISED_DATA, Store, s)
        else do {
          i \<leftarrow> flash_id Var (p + 2);
          Permissions \<leftarrow> rd8 Var p;
          (case AddPermissionEntry U (Some i) Permissions DFCI_IDENTITY_SIGNER_OWNER Store s of
            (_, Store', s') \<Rightarrow>
              load_entries_v2 U Var n (p + 2 + unat IdSize) (Count + 1) Store' s') } }
      else Some (Inr Count, Store, s))"

fun load_entries :: "'s platform \<Rightarrow> bytes \<Rightarrow> nat \<Rightarrow> nat \<Rightarrow> nat \<Rightarrow> perm_store option \<Rightarrow> 's
    \<Rightarrow> ((EFI_STATUS + nat) \<times> perm_store option \<times> 's) option" where
  "load_entries U Var 0 p Count Store s = Some (Inr Count, Store, s)"
| "load_entries U Var (Suc n) p Count Store s =
     (if p < length Var then do {
        IdSize \<leftarrow> rd8 Var (p + 2);
        if p + 3 + unat IdSize > length Var then Some (Inl EFI_COMPROMISED_DATA, Store, s)
        else do {
          i \<leftarrow> flash_id Var (p + 3);
          Permissions \<leftarrow> rd8 Var p;
          DMask \<leftarrow> rd8 Var (p + 1);
          (case AddPermissionEntry U (Some i) Permissions DMask Store s of (_, Store', s') \<Rightarrow>
            load_entries U Var n (p + 3 + unat IdSize) (Count + 1) Store' s') } }
      else Some (Inr Count, Store, s))"

fun load_entries_v1 :: "'s platform \<Rightarrow> bytes \<Rightarrow> nat \<Rightarrow> nat \<Rightarrow> perm_store option \<Rightarrow> 's
    \<Rightarrow> (EFI_STATUS \<times> perm_store option \<times> 's) option" where
  "load_entries_v1 U Var 0 p Store s = Some (EFI_SUCCESS, Store, s)"
| "load_entries_v1 U Var (Suc n) p Store s = do {
     e \<leftarrow> rd32 Var p;
     (case DfciV1TranslateEnum U e of
        None \<Rightarrow> Some (EFI_COMPROMISED_DATA, Store, s)
      | Some i \<Rightarrow> do {
          Permissions \<leftarrow> rd8 Var (p + 4);
          (case AddPermissionEntry U (Some i) Permissions DFCI_IDENTITY_SIGNER_OWNER Store s of
            (_, Store', s') \<Rightarrow> load_entries_v1 U Var n (p + 5) Store' s') }) }"

definition ConvertFromV1 :: "'s platform \<Rightarrow> bytes \<Rightarrow> perm_store option \<Rightarrow> 's
    \<Rightarrow> (EFI_STATUS \<times> perm_store option \<times> 's) option" where
  "ConvertFromV1 U Var Store s = do {
     NumberOfEntries \<leftarrow> rd16 Var 46;
     if length Var \<noteq> 48 + unat NumberOfEntries * 5 then Some (EFI_COMPROMISED_DATA, Store, s)
     else do {
       (st, Store1, s1) \<leftarrow> load_entries_v1 U Var (unat NumberOfEntries) 48 Store s;
       if EFI_ERROR st then Some (st, Store1, s1)
       else do {
         S \<leftarrow> Store1;
         (case SaveToFlash U (Some (S\<lparr>
              ps_DefaultPMask := (if ps_DefaultPMask S = DFCI_IDENTITY_LOCAL
                then DFCI_PERMISSION_MASK__DEFAULT else ps_DefaultPMask S),
              ps_DefaultDMask := DFCI_PERMISSION_MASK__DELEGATED_DEFAULT,
              ps_Modified := True\<rparr>)) s1 of
            (_, Store2, s2) \<Rightarrow> Some (EFI_SUCCESS, Store2, s2)) } } }"

definition ConvertFromV2 :: "'s platform \<Rightarrow> bytes \<Rightarrow> perm_store option \<Rightarrow> 's
    \<Rightarrow> (EFI_STATUS \<times> perm_store option \<times> 's) option" where
  "ConvertFromV2 U Var Store s = do {
     NumberOfEntries \<leftarrow> rd16 Var 46;
     (r, Store1, s1) \<leftarrow> load_entries_v2 U Var (unat NumberOfEntries) 48 0 Store s;
     (case r of
        Inl st \<Rightarrow> Some (st, Store1, s1)
      | Inr Count \<Rightarrow>
          if Count \<noteq> unat NumberOfEntries then Some (EFI_COMPROMISED_DATA, Store1, s1)
          else do {
            S \<leftarrow> Store1;
            (case SaveToFlash U (Some (S\<lparr>
                ps_DefaultPMask := (if ps_DefaultPMask S = DFCI_IDENTITY_LOCAL
                  then ps_DefaultPMask S OR DFCI_PERMISSION_MASK__DEFAULT else ps_DefaultPMask S),
                ps_DefaultDMask := DFCI_PERMISSION_MASK__DELEGATED_DEFAULT,
                ps_Modified := True\<rparr>)) s1 of
              (_, Store2, s2) \<Rightarrow> Some (EFI_SUCCESS, Store2, s2)) }) }"

definition ConvertFromV3 :: "'s platform \<Rightarrow> perm_store option \<Rightarrow> 's
    \<Rightarrow> (EFI_STATUS \<times> perm_store option \<times> 's) option" where
  "ConvertFromV3 U Store s = do {
     S \<leftarrow> Store;
     (case SaveToFlash U (Some (S\<lparr>
         ps_DefaultDMask := (if ps_DefaultDMask S = 0 then DFCI_PERMISSION_MASK__USERS
           else ps_DefaultDMask S),
         ps_Modified := True\<rparr>)) s of
       (_, Store', s') \<Rightarrow> Some (EFI_SUCCESS, Store', s')) }"

definition LoadCurrentFromFlash :: "'s platform \<Rightarrow> bytes \<Rightarrow> perm_store option \<Rightarrow> 's
    \<Rightarrow> (EFI_STATUS \<times> perm_store option \<times> 's) option" where
  "LoadCurrentFromFlash U Var Store s = do {
     NumberOfEntries \<leftarrow> rd16 Var 47;
     (r, Store1, s1) \<leftarrow> load_entries U Var (unat NumberOfEntries) 49 0 Store s;
     (case r of
        Inl st \<Rightarrow> Some (st, Store1, s1)
      | Inr Count \<Rightarrow>
          if Count \<noteq> unat NumberOfEntries then Some (EFI_COMPROMISED_DATA, Store1, s1)
          else do {
            S \<leftarrow> Store1;
            DMask \<leftarrow> rd8 Var 46;
            Some (EFI_SUCCESS, Some (S\<lparr>ps_DefaultDMask := DMask\<rparr>), s1) }) }"

text \<open>The switch over the header version.\<close>

definition load_version :: "'s platform \<Rightarrow> u8 \<Rightarrow> bytes \<Rightarrow> perm_store option \<Rightarrow> 's
    \<Rightarrow> (EFI_STATUS \<times> perm_store option \<times> 's) option" where
  "load_version U ver Var Store s =
     (if ver = 1 then ConvertFromV1 U Var Store s
      else if ver = 2 then ConvertFromV2 U Var Store s
      else if ver = 3 then do {
        (st, Store1, s1) \<leftarrow> LoadCurrentFromFlash U Var Store s;
        if \<not> EFI_ERROR st then ConvertFromV3 U Store1 s1 else Some (st, Store1, s1) }
      else if ver = 4 then LoadCurrentFromFlash U Var Store s
      else Some (EFI_COMPROMISED_DATA, Store, s))"

definition LoadFromFlash :: "'s platform \<Rightarrow> 's \<Rightarrow> (EFI_STATUS \<times> perm_store option \<times> 's) option" where
  "LoadFromFlash U s =
     (case GetVariable U VAR_NAME gDfciInternalVariableGuid s of (Status, Var, VarAttributes) \<Rightarrow>
      if EFI_ERROR Status then Some (Status, None, s)
      else if word_of_nat (length Var) > MAX_SIZE_FOR_VAR then Some (EFI_NOT_FOUND, None, s)
      else if VarAttributes \<noteq> DFCI_INTERNAL_VAR_ATTRIBUTES then Some (EFI_NOT_FOUND, None, s)
      else do {
        sig \<leftarrow> rd32 Var 0;
        if sig \<noteq> VAR_HEADER_SIG then Some (EFI_COMPROMISED_DATA, None, s)
        else do {
          Version \<leftarrow> rd32 Var 5;
          Lsv \<leftarrow> rd32 Var 9;
          if Version < Lsv then Some (EFI_COMPROMISED_DATA, None, s)
          else case AllocatePool U 80 s of (ok, s1) \<Rightarrow>
            if \<not> ok then Some (EFI_ABORTED, None, s1)
            else do {
              CreatedOn \<leftarrow> rd_time Var 13;
              SavedOn \<leftarrow> rd_time Var 29;
              DefaultPMask \<leftarrow> rd8 Var 45;
              ver \<leftarrow> rd8 Var 4;
              (st, Store, s2) \<leftarrow> load_version U ver Var (Some \<lparr>ps_Version = Version, ps_Lsv = Lsv,
                 ps_Modified = False, ps_CreatedOn = CreatedOn, ps_SavedOn = SavedOn,
                 ps_DefaultPMask = DefaultPMask,
                 ps_DefaultDMask = DFCI_PERMISSION_MASK__DELEGATED_DEFAULT, ps_List = []\<rparr>) s1;
              Some (st, if EFI_ERROR st then None else Store, s2) } } })"

section \<open>Sizes\<close>

text \<open>An entry that survives the round trip: well formed, and its id is a C string.\<close>

definition flashable :: "perm_entry \<Rightarrow> bool" where
  "flashable e \<longleftrightarrow> wf_entry e \<and> cstring (pe_Id e)"

definition clear_mark :: "perm_entry \<Rightarrow> perm_entry" where
  "clear_mark e = e\<lparr>pe_MarkedForDeletion := False\<rparr>"

definition var_size :: "perm_store \<Rightarrow> nat" where
  "var_size S = 49 + sum_list (map (\<lambda>e. 3 + unat (pe_IdSize e)) (ps_List S))"

lemma count_entries_acc:
  "fold (\<lambda>e (Count, Total). (Count + 1, Total + unat (pe_IdSize e))) es (c, t) =
     (c + length es, t + sum_list (map (\<lambda>e. unat (pe_IdSize e)) es))"
  by (induction es arbitrary: c t) auto

lemma count_entries:
  "GetNumberOfPermissionEntires (Some S) =
     (length (ps_List S), sum_list (map (\<lambda>e. unat (pe_IdSize e)) (ps_List S)))"
  unfolding GetNumberOfPermissionEntires_def option.case count_entries_acc by simp

lemma sum_entries: "sum_list (map (\<lambda>e. 3 + f e) es) = 3 * length es + sum_list (map f es)"
  by (induction es) auto

lemma save_size_var: "save_size (length (ps_List S))
    (sum_list (map (\<lambda>e. unat (pe_IdSize e)) (ps_List S))) = word_of_nat (var_size S)"
  by (simp add: save_size_def var_size_def sum_entries algebra_simps)

lemma length_entry_bytes: "wf_entry e \<Longrightarrow> length (entry_bytes e) = 3 + unat (pe_IdSize e)"
  by (simp add: entry_bytes_def wf_entry_def)

lemma length_entries:
  "wf_list es \<Longrightarrow> length (concat (map entry_bytes es)) = sum_list (map (\<lambda>e. 3 + unat (pe_IdSize e)) es)"
  by (induction es) (auto simp: wf_list_def length_entry_bytes)

lemma length_flash_parts:
  "length (flash_head v S) = 13"
  "wf_store S \<Longrightarrow> length (flash_tail S) + 45 = var_size S"
  by (simp_all add: flash_head_def flash_tail_def var_size_def length_entries wf_store_def)

lemma length_flash_var: "wf_store S \<Longrightarrow> length (flash_var S c t) = var_size S"
  using length_flash_parts(2) [of S] by (simp add: flash_var_def length_flash_parts(1))

lemma zero_times_split:
  "zero_times (flash_head v S @ time_bytes c @ time_bytes t @ flash_tail S) =
     flash_head v S @ replicate 32 0 @ flash_tail S"
  by (simp add: zero_times_def length_flash_parts(1))

lemma zero_times_eq:
  assumes "zero_times bs = flash_head v S @ replicate 32 0 @ flash_tail S"
    and "length bs = length (flash_head v S @ replicate 32 (0 :: byte) @ flash_tail S)"
  shows "\<exists>mid. length mid = 32 \<and> bs = flash_head v S @ mid @ flash_tail S"
proof (intro exI conjI)
  have len: "45 \<le> length bs" using assms(2) by (simp add: length_flash_parts(1))
  show "length (take 32 (drop 13 bs)) = 32" using len by simp
  have "take 13 bs = flash_head v S" "drop 45 bs = flash_tail S"
    using assms(1) len by (simp_all add: zero_times_def append_eq_append_conv length_flash_parts(1))
  moreover have "bs = take 13 bs @ take 32 (drop 13 bs) @ drop 45 bs"
    using take_drop_split [of bs 13 32] by simp
  ultimately show "bs = flash_head v S @ take 32 (drop 13 bs) @ flash_tail S" by metis
qed

section \<open>A saved store loads back\<close>

lemma flash_id_entry:
  assumes "flashable e" "length pre = p"
  shows "flash_id (pre @ take (unat (pe_IdSize e)) (to_bytes (pe_Id e) @ [0]) @ rest) p = Some (pe_Id e)"
proof -
  have e: "unat (pe_IdSize e) = Suc (length (pe_Id e))" "length (pe_Id e) < DFCI_MAX_ID_SIZE"
    "\<not> starts_numeric (pe_Id e)" "cstring (pe_Id e)"
    using assms(1) by (auto simp: flashable_def wf_entry_def wf_id_def)
  have v: "take (unat (pe_IdSize e)) (to_bytes (pe_Id e) @ [0]) @ rest = to_bytes (pe_Id e) @ 0 # rest"
    by (simp add: e(1))
  have "rd_cstr (pre @ to_bytes (pe_Id e) @ 0 # rest) p DFCI_MAX_ID_SIZE = Some (pe_Id e)"
    using assms(2) e by (simp add: rd_cstr_def scan_cstr_to_bytes)
  moreover have "\<exists>b. rd8 (pre @ to_bytes (pe_Id e) @ 0 # rest) p = Some b \<and> \<not> is_digit (byte_to_char b)"
  proof (cases "pe_Id e")
    case Nil
    then show ?thesis
      using assms(2) by (auto simp: rd8_def to_bytes_def byte_to_char_def is_digit_def)
  next
    case (Cons c cs)
    then show ?thesis
      using assms(2) e(3) by (auto simp: rd8_def to_bytes_def)
  qed
  ultimately show ?thesis
    unfolding v by (auto simp: flash_id_def)
qed

lemma AddPermissionEntry_flashable:
  assumes "flashable e" "alloc_succeeds U"
  shows "\<exists>s'. AddPermissionEntry U (Some (pe_Id e)) (pe_PMask e) (pe_DMask e) (Some S) s =
     (EFI_SUCCESS, Some (S\<lparr>ps_List := ps_List S @ [clear_mark e]\<rparr>), s')"
proof -
  obtain st St s' where r:
    "AddPermissionEntry U (Some (pe_Id e)) (pe_PMask e) (pe_DMask e) (Some S) s = (st, St, s')"
    by (metis prod_cases3)
  have sz: "unat (pe_IdSize e) = Suc (length (pe_Id e))" and i: "wf_id (pe_Id e)"
    using assms(1) by (auto simp: flashable_def wf_entry_def)
  have e: "wf_id (pe_Id e)" "word_of_nat (Suc (length (pe_Id e))) = pe_IdSize e"
    using i by (simp_all flip: sz)
  from r show ?thesis
  proof (cases rule: AddPermissionEntry_cases)
    case nomem
    then show ?thesis using alloc_succeedsD [OF assms(2)] by blast
  next
    case added
    moreover have "\<lparr>pe_Id = pe_Id e, pe_PMask = pe_PMask e, pe_DMask = pe_DMask e,
        pe_IdSize = pe_IdSize e, pe_MarkedForDeletion = False\<rparr> = clear_mark e"
      by (simp add: clear_mark_def)
    ultimately show ?thesis using r e(2) by (simp del: of_nat_Suc)
  qed (use e(1) in \<open>auto simp: wf_id_def\<close>)
qed

lemma load_entries_ok:
  assumes "\<forall>e\<in>set es. flashable e" "alloc_succeeds U" "length pre = p"
  shows "\<exists>s'. load_entries U (pre @ concat (map entry_bytes es)) (length es) p c (Some S) s =
     Some (Inr (c + length es), Some (S\<lparr>ps_List := ps_List S @ map clear_mark es\<rparr>), s')"
  using assms
proof (induction es arbitrary: pre p c S s)
  case Nil
  then show ?case by simp
next
  case (Cons e es)
  let ?rest = "concat (map entry_bytes es)"
  let ?id = "take (unat (pe_IdSize e)) (to_bytes (pe_Id e) @ [0])"
  let ?Var = "pre @ concat (map entry_bytes (e # es))"
  have f: "flashable e" using Cons.prems by simp
  then have len: "length ?id = unat (pe_IdSize e)" by (simp add: flashable_def wf_entry_def)
  have v: "?Var = pre @ pe_PMask e # pe_DMask e # pe_IdSize e # ?id @ ?rest"
    by (simp add: entry_bytes_def)
  have r: "rd8 ?Var (p + 2) = Some (pe_IdSize e)" "rd8 ?Var p = Some (pe_PMask e)"
    "rd8 ?Var (p + 1) = Some (pe_DMask e)" "p < length ?Var"
    "\<not> p + 3 + unat (pe_IdSize e) > length ?Var"
    unfolding v using Cons.prems(3) len by (simp_all add: rd8_def nth_append)
  have i: "flash_id ?Var (p + 3) = Some (pe_Id e)"
    using flash_id_entry [OF f, of "pre @ [pe_PMask e, pe_DMask e, pe_IdSize e]" "p + 3" ?rest] v
      Cons.prems(3) by simp
  obtain s1 where a: "AddPermissionEntry U (Some (pe_Id e)) (pe_PMask e) (pe_DMask e) (Some S) s =
     (EFI_SUCCESS, Some (S\<lparr>ps_List := ps_List S @ [clear_mark e]\<rparr>), s1)"
    using AddPermissionEntry_flashable [OF f Cons.prems(2)] by blast
  have "length (pre @ entry_bytes e) = p + 3 + unat (pe_IdSize e)"
    using f Cons.prems(3) by (simp add: length_entry_bytes flashable_def)
  from Cons.IH [OF _ Cons.prems(2) this, of "c + 1" "S\<lparr>ps_List := ps_List S @ [clear_mark e]\<rparr>" s1]
  show ?case
    using Cons.prems(1) r i a by simp
qed

text \<open>The contents of the variable with any 32 bytes in the place of the two times.\<close>

definition flash_image :: "u8 \<Rightarrow> perm_store \<Rightarrow> bytes \<Rightarrow> bytes" where
  "flash_image v S mid = flash_head v S @ mid @ flash_tail S"

lemma flash_image_var: "flash_var S c t = flash_image 4 S (time_bytes c @ time_bytes t)"
  by (simp add: flash_var_def flash_image_def)

lemma flash_image_fields:
  assumes "length mid = 32"
  shows "rd32 (flash_image v S mid) 0 = Some VAR_HEADER_SIG"
    "rd8 (flash_image v S mid) 4 = Some v"
    "rd32 (flash_image v S mid) 5 = Some (ps_Version S)"
    "rd32 (flash_image v S mid) 9 = Some (ps_Lsv S)"
    "rd8 (flash_image v S mid) 45 = Some (ps_DefaultPMask S)"
    "rd8 (flash_image v S mid) 46 = Some (ps_DefaultDMask S)"
    "rd16 (flash_image v S mid) 47 = Some (word_of_nat (length (ps_List S)))"
proof -
  let ?sig = "le32 VAR_HEADER_SIG" and ?n = "word_of_nat (length (ps_List S))"
  let ?t = "concat (map entry_bytes (ps_List S))"
  have h: "flash_image v S mid = ?sig @ v # le32 (ps_Version S) @ le32 (ps_Lsv S) @ mid @
      ps_DefaultPMask S # ps_DefaultDMask S # le16 ?n @ ?t"
    by (simp add: flash_image_def flash_head_def flash_tail_def)
  show "rd32 (flash_image v S mid) 0 = Some VAR_HEADER_SIG"
    using rd_field_append(3) [of "[]" 0] by (simp add: h)
  show "rd8 (flash_image v S mid) 4 = Some v"
    using rd_field_append(1) [of ?sig 4] by (simp add: h)
  show "rd32 (flash_image v S mid) 5 = Some (ps_Version S)"
    using rd_field_append(3) [of "?sig @ [v]" 5] by (simp add: h)
  show "rd32 (flash_image v S mid) 9 = Some (ps_Lsv S)"
    using rd_field_append(3) [of "?sig @ v # le32 (ps_Version S)" 9] by (simp add: h)
  let ?h = "?sig @ v # le32 (ps_Version S) @ le32 (ps_Lsv S) @ mid"
  show "rd8 (flash_image v S mid) 45 = Some (ps_DefaultPMask S)"
    using rd_field_append(1) [of ?h 45] assms by (simp add: h)
  show "rd8 (flash_image v S mid) 46 = Some (ps_DefaultDMask S)"
    using rd_field_append(1) [of "?h @ [ps_DefaultPMask S]" 46] assms by (simp add: h)
  show "rd16 (flash_image v S mid) 47 = Some ?n"
    using rd_field_append(2) [of "?h @ [ps_DefaultPMask S, ps_DefaultDMask S]" 47] assms by (simp add: h)
qed

lemma rd_time_defined:
  assumes "off + 16 \<le> length bs"
  shows "\<exists>t. rd_time bs off = Some t"
proof -
  have *: "\<exists>x. rd8 bs (off + k) = Some x" if "k < 16" for k using assms that by (simp add: rd8_def)
  have "\<exists>x. rd16 bs off = Some x" "\<exists>x. rd32 bs (off + 8) = Some x" "\<exists>x. rd16 bs (off + 12) = Some x"
    using assms by (intro rd_defined; simp)+
  with * [of 2] * [of 3] * [of 4] * [of 5] * [of 6] * [of 7] * [of 14] * [of 15] show ?thesis
    by (auto simp: rd_time_def)
qed

text \<open>The store as it comes back: same contents, no marks, not modified.\<close>

definition same_permissions :: "perm_store \<Rightarrow> perm_store \<Rightarrow> bool" where
  "same_permissions S S' \<longleftrightarrow> ps_Version S' = ps_Version S \<and> ps_Lsv S' = ps_Lsv S
     \<and> ps_DefaultPMask S' = ps_DefaultPMask S \<and> ps_DefaultDMask S' = ps_DefaultDMask S
     \<and> ps_List S' = map clear_mark (ps_List S)"

definition flash_ok :: "perm_store \<Rightarrow> bool" where
  "flash_ok S \<longleftrightarrow> (\<forall>e\<in>set (ps_List S). flashable e) \<and> ps_Lsv S \<le> ps_Version S \<and> var_size S \<le> 2048"

lemma entries_bound: "3 * length es \<le> sum_list (map (\<lambda>e. 3 + f e) es)"
  by (simp add: sum_entries)

lemma flash_image_length:
  assumes "wf_store S" "length mid = 32"
  shows "length (flash_image v S mid) = var_size S"
  using length_flash_parts(2) [OF assms(1)] assms(2)
  by (simp add: flash_image_def length_flash_parts(1))

lemma LoadCurrent_image:
  assumes "flash_ok S" "alloc_succeeds U" "length mid = 32" "ps_List S0 = []"
  shows "\<exists>s'. LoadCurrentFromFlash U (flash_image v S mid) (Some S0) s =
     Some (EFI_SUCCESS, Some (S0\<lparr>ps_List := map clear_mark (ps_List S),
        ps_DefaultDMask := ps_DefaultDMask S\<rparr>), s')"
proof -
  let ?es = "ps_List S"
  have "length ?es \<le> 2048"
    using assms(1) entries_bound [of ?es "\<lambda>e. unat (pe_IdSize e)"] by (simp add: flash_ok_def var_size_def)
  then have n: "unat (word_of_nat (length ?es) :: u16) = length ?es"
    by (simp add: unat_of_nat)
  let ?pre = "flash_head v S @ mid @ [ps_DefaultPMask S, ps_DefaultDMask S] @ le16 (word_of_nat (length ?es))"
  have "flash_image v S mid = ?pre @ concat (map entry_bytes ?es)"
    by (simp add: flash_image_def flash_tail_def)
  moreover have "length ?pre = 49"
    using assms(3) by (simp add: length_flash_parts(1))
  ultimately obtain s' where "load_entries U (flash_image v S mid) (length ?es) 49 0 (Some S0) s =
     Some (Inr (length ?es), Some (S0\<lparr>ps_List := map clear_mark ?es\<rparr>), s')"
    using load_entries_ok [of ?es U ?pre 49 0 S0 s] assms by (auto simp: flash_ok_def)
  then show ?thesis
    by (simp add: LoadCurrentFromFlash_def flash_image_fields assms(3) n)
qed

lemma LoadFromFlash_image:
  assumes ok: "flash_ok S" and a: "alloc_succeeds U" and m: "length mid = 32"
    and v: "GetVariable U VAR_NAME gDfciInternalVariableGuid s =
      (st, flash_image 4 S mid, DFCI_INTERNAL_VAR_ATTRIBUTES)" "\<not> EFI_ERROR st"
  shows "\<exists>S' s'. LoadFromFlash U s = Some (EFI_SUCCESS, Some S', s') \<and> same_permissions S S'
     \<and> \<not> ps_Modified S'"
proof -
  have wf: "wf_store S" using ok by (auto simp: flash_ok_def wf_store_def wf_list_def flashable_def)
  let ?V = "flash_image 4 S mid"
  have len: "length ?V = var_size S" "49 \<le> length ?V" "length ?V \<le> 2048"
    using flash_image_length [OF wf m] ok by (simp_all add: flash_ok_def var_size_def)
  then have sz: "\<not> word_of_nat (length ?V) > MAX_SIZE_FOR_VAR"
    by (simp add: word_less_nat_alt unat_of_nat)
  obtain c t where t: "rd_time ?V 13 = Some c" "rd_time ?V 29 = Some t"
    using rd_time_defined [of 13 ?V] rd_time_defined [of 29 ?V] len(2) by auto
  obtain s1 where al: "AllocatePool U 80 s = (True, s1)"
    using alloc_succeedsD [OF a] by (metis (full_types) prod.exhaust)
  let ?S0 = "\<lparr>ps_Version = ps_Version S, ps_Lsv = ps_Lsv S, ps_Modified = False, ps_CreatedOn = c,
     ps_SavedOn = t, ps_DefaultPMask = ps_DefaultPMask S,
     ps_DefaultDMask = DFCI_PERMISSION_MASK__DELEGATED_DEFAULT, ps_List = []\<rparr>"
  obtain s2 where "LoadCurrentFromFlash U ?V (Some ?S0) s1 = Some (EFI_SUCCESS,
      Some (?S0\<lparr>ps_List := map clear_mark (ps_List S), ps_DefaultDMask := ps_DefaultDMask S\<rparr>), s2)"
    using LoadCurrent_image [OF ok a m, of ?S0 4 s1] by auto
  moreover have "\<not> ps_Version S < ps_Lsv S"
    using ok by (simp add: flash_ok_def not_less)
  ultimately show ?thesis
    using sz t al v m flash_image_fields [OF m, of 4 S]
    by (simp add: LoadFromFlash_def load_version_def same_permissions_def)
qed

section \<open>The store and its variable\<close>

text \<open>Loading reads the variable service and allocates memory; it leaves a V4 variable alone.\<close>

lemma alloc_vars_proj:
  assumes "alloc_keeps_vars U"
  shows "same_vars U s (snd (AllocatePool U n s))" "same_vars U s (snd (snd (GetTime U s)))"
  using assms by (auto simp: alloc_keeps_vars_def)

lemma AddPermissionEntry_vars:
  "alloc_keeps_vars U \<Longrightarrow> same_vars U s (snd (snd (AddPermissionEntry U i p d Store s)))"
  using alloc_vars_proj(1) [of U s]
  by (auto simp: AddPermissionEntry_def Let_def case_prod_beta split: option.splits)

lemma load_entries_vars:
  assumes "alloc_keeps_vars U"
  shows "load_entries U Var n p c Store s = Some (r, Store', s') \<Longrightarrow> same_vars U s s'"
proof (induction n arbitrary: p c Store s)
  case 0
  then show ?case by simp
next
  case (Suc n)
  show ?case
    using Suc.prems Suc.IH AddPermissionEntry_vars [OF assms]
    by (auto simp: option_bind_Some_iff case_prod_beta split: if_splits) (meson same_vars_trans)
qed

lemma LoadCurrent_vars:
  assumes "alloc_keeps_vars U" "LoadCurrentFromFlash U Var X s1 = Some (st2, Y, s2)"
  shows "same_vars U s1 s2"
proof -
  obtain n r St s3 where l: "load_entries U Var n 49 0 X s1 = Some (r, St, s3)"
    and e: "(case r of Inl st \<Rightarrow> Some (st, St, s3) | Inr Count \<Rightarrow> if Count \<noteq> n
        then Some (EFI_COMPROMISED_DATA, St, s3) else do { S \<leftarrow> St; DMask \<leftarrow> rd8 Var 46;
          Some (EFI_SUCCESS, Some (S\<lparr>ps_DefaultDMask := DMask\<rparr>), s3) }) = Some (st2, Y, s2)"
    using assms(2) by (auto simp: LoadCurrentFromFlash_def option_bind_Some_iff)
  have "s2 = s3"
    using e by (auto simp: option_bind_Some_iff split: sum.splits if_splits)
  with load_entries_vars [OF assms(1) l] show ?thesis by simp
qed

lemma LoadFromFlash_vars_v4:
  assumes a: "alloc_keeps_vars U"
    and v: "GetVariable U VAR_NAME gDfciInternalVariableGuid s = (st, Var, attr)" "rd8 Var 4 = Some 4"
    and l: "LoadFromFlash U s = Some (st', Store, s')"
  shows "same_vars U s s'"
proof -
  have "load_version U 4 Var X s1 = Some (st2, Y, s2) \<Longrightarrow> same_vars U s1 s2" for X s1 st2 Y s2
    using LoadCurrent_vars [OF a] by (simp add: load_version_def)
  then show ?thesis
    using l v alloc_vars_proj(1) [OF a, of s 80]
    by (auto simp: LoadFromFlash_def option_bind_Some_iff case_prod_beta split: if_splits
        intro: same_vars_trans)
qed

definition perm_stored :: "'s platform \<Rightarrow> 's \<Rightarrow> perm_store option \<Rightarrow> bool" where
  "perm_stored U s m \<longleftrightarrow> nv_laws U \<and> (\<exists>S mid st. m = Some S \<and> flash_ok S \<and> length mid = 32
     \<and> GetVariable U VAR_NAME gDfciInternalVariableGuid s =
         (st, flash_image 4 S mid, DFCI_INTERNAL_VAR_ATTRIBUTES) \<and> \<not> EFI_ERROR st)"

text \<open>
  When a save is meaningful: entries that can be written, LSV not above the version, the
  modified flag set, and a variable that, if present, was written by this code.
\<close>

definition perm_ready :: "'s platform \<Rightarrow> perm_store option \<Rightarrow> 's \<Rightarrow> bool" where
  "perm_ready U m s \<longleftrightarrow> nv_laws U \<and> (\<exists>S. m = Some S \<and> (\<forall>e\<in>set (ps_List S). flashable e)
     \<and> ps_Lsv S \<le> ps_Version S \<and> var_size S < 2 ^ 64 \<and> ps_Modified S)
     \<and> (\<forall>st d a. GetVariable U VAR_NAME gDfciInternalVariableGuid s = (st, d, a) \<longrightarrow> \<not> EFI_ERROR st
          \<longrightarrow> a = DFCI_INTERNAL_VAR_ATTRIBUTES)"

definition same_refs :: "perm_store option \<Rightarrow> perm_store option \<Rightarrow> bool" where
  "same_refs m m' \<longleftrightarrow> (\<exists>S S'. m = Some S \<and> m' = Some S' \<and> same_permissions S S')"

lemma SaveToFlash_stores:
  assumes r: "perm_ready U m s" and sv: "SaveToFlash U m s = (st, m', s')" and ok: "\<not> EFI_ERROR st"
  shows "perm_stored U s' m"
proof -
  from r obtain S where S: "m = Some S" "\<forall>e\<in>set (ps_List S). flashable e" "ps_Lsv S \<le> ps_Version S"
    "var_size S < 2 ^ 64" "ps_Modified S" and laws: "nv_laws U"
    by (auto simp: perm_ready_def)
  have wf: "wf_store S" using S(2) by (auto simp: wf_store_def wf_list_def flashable_def)
  have sz: "save_size (length (ps_List S)) (sum_list (map (\<lambda>e. unat (pe_IdSize e)) (ps_List S)))
      = word_of_nat (var_size S)" by (rule save_size_var)
  have nat: "unat (word_of_nat (var_size S) :: u64) = var_size S" using S(4) by (simp add: unat_of_nat)
  obtain ok' s1 where 1: "AllocatePool U (var_size S) s = (ok', s1)" by (metis prod.exhaust)
  obtain gt t s2 where 2: "GetTime U s1 = (gt, t, s2)" by (metis prod_cases3)
  obtain gv Old att where 3: "GetVariable U VAR_NAME gDfciInternalVariableGuid s2 = (gv, Old, att)"
    by (metis prod_cases3)
  have le: "var_size S \<le> 2048" and al: "ok'"
    using sv ok S 1 by (auto simp: SaveToFlash_def count_entries sz nat word_less_nat_alt Let_def
        split: if_splits)
  have fok: "flash_ok S" using S le by (simp add: flash_ok_def)
  have att: "att = DFCI_INTERNAL_VAR_ATTRIBUTES" if "\<not> EFI_ERROR gv"
  proof -
    have "same_vars U s s2"
      using laws same_vars_trans [OF alloc_keeps_varsD(1) [OF _ 1] alloc_keeps_varsD(2) [OF _ 2]]
      by (simp add: nv_laws_def)
    then show ?thesis using r 3 that by (auto simp: perm_ready_def same_vars_def)
  qed
  show ?thesis
  proof (cases "\<not> EFI_ERROR gv \<and> length Old = var_size S
      \<and> zero_times Old = zero_times (flash_var S zero_time zero_time)")
    case True
    then have "s' = s2"
      using sv S 1 2 3 le al
      by (simp add: SaveToFlash_def count_entries sz nat word_less_nat_alt Let_def)
    moreover obtain mid where "length mid = 32" "Old = flash_image 4 S mid"
      using zero_times_eq [of Old 4 S] True length_flash_parts(1) [of 4 S] length_flash_parts(2) [of S] wf
      by (auto simp: flash_image_def flash_var_def zero_times_split)
    ultimately show ?thesis
      using 3 att True S(1) fok laws by (auto simp: perm_stored_def)
  next
    case False
    obtain sst s3 where 4: "SetVariable U VAR_NAME gDfciInternalVariableGuid DFCI_INTERNAL_VAR_ATTRIBUTES
        (flash_var S (ps_CreatedOn S) t) s2 = (sst, s3)" by (metis prod.exhaust)
    have "\<not> EFI_ERROR sst" "s' = s3"
      using sv S 1 2 3 4 le al False ok
      by (auto simp: SaveToFlash_def count_entries sz nat word_less_nat_alt Let_def split: if_splits)
    moreover have "flash_var S (ps_CreatedOn S) t \<noteq> []"
      using length_flash_var [OF wf, of "ps_CreatedOn S" t] by (auto simp: var_size_def)
    ultimately have "GetVariable U VAR_NAME gDfciInternalVariableGuid s' =
        (EFI_SUCCESS, flash_var S (ps_CreatedOn S) t, DFCI_INTERNAL_VAR_ATTRIBUTES)"
      using 4 laws by (auto simp: nv_laws_def variable_laws_def)
    then show ?thesis
      using S(1) fok laws
      by (auto simp: perm_stored_def flash_image_var
          intro!: exI [of _ "time_bytes (ps_CreatedOn S) @ time_bytes t"])
  qed
qed

lemma perm_stored_vars: "same_vars U s s' \<Longrightarrow> perm_stored U s m \<Longrightarrow> perm_stored U s' m"
  by (simp add: perm_stored_def same_vars_def)

lemma SaveToFlash_error:
  assumes laws: "nv_laws U" and sv: "SaveToFlash U m s = (st, m', s')" and e: "EFI_ERROR st"
  shows "same_vars U s s'"
proof -
  have k: "alloc_keeps_vars U" "variable_laws U" using laws by (auto simp: nv_laws_def)
  have "same_vars U a b" if "SetVariable U n g at d a = (x, b)" "EFI_ERROR x" for n g at d a x b
    using k(2) that unfolding variable_laws_def by blast
  then show ?thesis
    using sv e alloc_keeps_varsD [OF k(1)]
    by (auto simp: SaveToFlash_def Let_def split: option.splits if_splits prod.splits)
      (meson same_vars_trans)+
qed

interpretation perm_nv: nv_component "\<lambda>m s. Some (SaveToFlash U m s)" "LoadFromFlash U" "perm_ready U" "perm_stored U" same_refs
  for U
proof (unfold_locales, goal_cases)
  case (1 m s)
  then show ?case by (metis prod_cases3)
next
  case (2 m s st m' s')
  then show ?case using SaveToFlash_stores [of U m s st m' s'] by simp
next
  case (3 m s st m' s' m0)
  then show ?case
    using SaveToFlash_error perm_stored_vars by (metis perm_ready_def option.inject)
next
  case (4 s m)
  then obtain S mid st where S: "m = Some S" "flash_ok S" "length mid = 32" "nv_laws U"
    "GetVariable U VAR_NAME gDfciInternalVariableGuid s =
       (st, flash_image 4 S mid, DFCI_INTERNAL_VAR_ATTRIBUTES)" "\<not> EFI_ERROR st"
    by (auto simp: perm_stored_def)
  then obtain S' s' where l: "LoadFromFlash U s = Some (EFI_SUCCESS, Some S', s')" "same_permissions S S'"
    using LoadFromFlash_image [of S U mid s st] by (auto simp: nv_laws_def)
  moreover have "perm_stored U s' m"
    using LoadFromFlash_vars_v4 [OF _ S(5) _ l(1)] S(3,4) flash_image_fields(2) [OF S(3)] 4
      perm_stored_vars by (metis nv_laws_def)
  ultimately show ?case using S(1) by (auto simp: same_refs_def)
qed

section \<open>Properties\<close>

lemma example_flashable:
  "\<forall>e\<in>set (ps_List example_store). flashable e" "var_size example_store = 59"
  by (simp_all add: example_store_def flashable_def wf_entry_def wf_id_def is_digit_def cstring_def
      NUL_def var_size_def)

lemma example_ready: "perm_ready demo_platform (Some example_store) example_state"
  using example_flashable demo_laws
  by (simp add: perm_ready_def nv_laws_def) (simp add: example_store_def example_state_def demo_platform_def)

lemma example_save:
  "\<exists>s'. SaveToFlash demo_platform (Some example_store) example_state
      = (EFI_SUCCESS, Some (example_store\<lparr>ps_Modified := False\<rparr>), s') \<and> dm_docs s' = dm_docs example_state"
  by (simp add: SaveToFlash_def GetNumberOfPermissionEntires_def save_size_def example_store_def
      example_state_def demo_platform_def)

text \<open>
  Property C22: a modified store that was saved without an error is read back by the next load
  with the same version, lowest supported version, default masks and entries; in particular a
  reload after power-up enforces exactly the permissions that were committed.
\<close>

theorem SaveToFlash_LoadFromFlash_roundtrip:
  assumes "perm_ready U (Some S) s" "SaveToFlash U (Some S) s = (st, m', s')" "\<not> EFI_ERROR st"
  shows "\<exists>S' s''. LoadFromFlash U s' = Some (EFI_SUCCESS, Some S', s'') \<and> same_permissions S S'
     \<and> perm_map S' = perm_map S"
proof -
  from perm_nv.save_load [OF assms(1) arg_cong [OF assms(2), of Some] assms(3)] obtain S' s'' where
    l: "LoadFromFlash U s' = Some (EFI_SUCCESS, Some S', s'')" "same_permissions S S'"
    by (auto simp: same_refs_def)
  then have "perm_map S' = perm_map S"
    by (simp add: same_permissions_def perm_map_def comp_def clear_mark_def entry_masks_def)
  with l show ?thesis by blast
qed

theorem SaveToFlash_LoadFromFlash_roundtrip_witness:
  "\<exists>s' S' s''. SaveToFlash demo_platform (Some example_store) example_state
      = (EFI_SUCCESS, Some (example_store\<lparr>ps_Modified := False\<rparr>), s')
     \<and> LoadFromFlash demo_platform s' = Some (EFI_SUCCESS, Some S', s'') \<and> perm_map S' ''A'' = Some (1, 0xC0)"
proof -
  obtain s' where sv: "SaveToFlash demo_platform (Some example_store) example_state
      = (EFI_SUCCESS, Some (example_store\<lparr>ps_Modified := False\<rparr>), s')"
    using example_save by blast
  have "perm_map example_store ''A'' = Some (1, 0xC0)"
    by (simp add: perm_map_def example_store_def entry_masks_def)
  with SaveToFlash_LoadFromFlash_roundtrip [OF example_ready sv] sv show ?thesis by auto
qed

end
