(* ===== verification/Permission_Current.thy ===== *)
theory Permission_Current
  imports Permission_Xml_Schema
begin

text \<open>
  The published document of the current permissions
  (\<open>DfciSettingPermissionCurrentPermissionXml.c\<close>), written to the variable
  \<open>DfciPermissionCurrent\<close> for management tools to read.
\<close>

definition gDfciPermissionManagerVarNamespace :: string where
  "gDfciPermissionManagerVarNamespace = ''gDfciPermissionManagerVarNamespace''"
definition PERMISSION_CURRENT_VAR_NAME :: string where
  "PERMISSION_CURRENT_VAR_NAME = ''DfciPermissionCurrent''"
abbreviation (input) PERMISSION_APPLY_VAR_ATTRIBUTES :: u32 where "PERMISSION_APPLY_VAR_ATTRIBUTES \<equiv> 7"

text \<open>The loop over the store; the status of an entry is overwritten by the next one.\<close>

fun current_loop :: "'s platform \<Rightarrow> nat list \<Rightarrow> perm_entry list \<Rightarrow> xml_node \<Rightarrow> 's \<Rightarrow> (xml_node \<times> 's) option" where
  "current_loop U p [] t s = Some (t, s)"
| "current_loop U p (e # es) t s = do {
     (_, t', s') \<leftarrow> SetCurrentPermissions U t p (pe_Id e) (pe_PMask e) (pe_DMask e) s;
     current_loop U p es t' s' }"

definition CreateXmlStringFromCurrentPermissions :: "'s platform \<Rightarrow> perm_store option \<Rightarrow> 's
    \<Rightarrow> (EFI_STATUS \<times> (string \<times> nat) option \<times> 's) option" where
  "CreateXmlStringFromCurrentPermissions U mPermStore s = (case GetTime U s of (Status, Time, s) \<Rightarrow>
     if EFI_ERROR Status then Some (Status, None, s)
     else case New_CurrentPermissionsPacketNodeList U Time s of (Lst, s) \<Rightarrow>
     (case Lst of None \<Rightarrow> Some (EFI_ABORTED, None, s) | Some t \<Rightarrow>
      if GetCurrentPermissionsPacketNode (Some t) = None then Some (EFI_NO_MAPPING, None, s)
      else case AddPermissionsLsvNode U t (snd (AsciiValueToStringS U 20 False 0 19)) s of (Status, t, s) \<Rightarrow>
        if EFI_ERROR Status then Some (Status, None, s)
        else case GetPermissionsListNodeFromPacketNode U t of
            None \<Rightarrow> Some (EFI_NO_MAPPING, None, s)
          | Some k \<Rightarrow> (case mPermStore of
              None \<Rightarrow> Some (EFI_NOT_FOUND, None, s)
            | Some S \<Rightarrow>
                (case AddCurrentAttributes U t (ps_DefaultPMask S) (ps_DefaultDMask S) s of (Status, t, s) \<Rightarrow>
                 if EFI_ERROR Status then Some (Status, None, s)
                 else do {
                   (t, s) \<leftarrow> current_loop U [k] (ps_List S) t s;
                   (case XmlTreeToString U t s of (Status, str, n, s) \<Rightarrow>
                     Some (Status, if EFI_ERROR Status then None else Some (str, n), s)) }))))"

text \<open>\<open>GetVariable\<close> with a NULL buffer of size 0: only status and attributes.\<close>

definition probe_variable :: "'s platform \<Rightarrow> string \<Rightarrow> string \<Rightarrow> 's \<Rightarrow> EFI_STATUS \<times> u32" where
  "probe_variable U n g s = (case GetVariable U n g s of (Status, d, a) \<Rightarrow>
     (if EFI_ERROR Status then Status else if d = [] then EFI_SUCCESS else EFI_BUFFER_TOO_SMALL, a))"

definition PopulateCurrentPermissions :: "'s platform \<Rightarrow> perm_store option \<Rightarrow> bool \<Rightarrow> 's
    \<Rightarrow> (EFI_STATUS \<times> 's) option" where
  "PopulateCurrentPermissions U mPermStore Force s =
     (case probe_variable U PERMISSION_CURRENT_VAR_NAME gDfciPermissionManagerVarNamespace s of (Status, Attributes) \<Rightarrow>
      if Status = EFI_BUFFER_TOO_SMALL \<and> Attributes = PERMISSION_APPLY_VAR_ATTRIBUTES \<and> \<not> Force
      then Some (EFI_SUCCESS, s)
      else
        let s1 = (if Status = EFI_SUCCESS \<and> Attributes \<noteq> PERMISSION_APPLY_VAR_ATTRIBUTES
          then snd (SetVariable U PERMISSION_CURRENT_VAR_NAME gDfciPermissionManagerVarNamespace 0 [] s) else s)
        in do {
          (Status, Var, s2) \<leftarrow> CreateXmlStringFromCurrentPermissions U mPermStore s1;
          if EFI_ERROR Status then Some (Status, s2)
          else do {
            (str, n) \<leftarrow> Var;
            (case SetVariable U PERMISSION_CURRENT_VAR_NAME gDfciPermissionManagerVarNamespace
                PERMISSION_APPLY_VAR_ATTRIBUTES (take n (to_bytes str @ [0])) s2 of (Status, s3) \<Rightarrow>
              Some (if EFI_ERROR Status then Status else EFI_SUCCESS, s3)) } })"

end
