(* ===== verification/Permission_Access.thy ===== *)
theory Permission_Access
  imports Permission_Groups Permission_Default Permission_Flash Permission_Current Dfci_Packet
begin

text \<open>
  The library class routines of the permission manager (\<open>DfciSettingPermission.c\<close>): who may write
  a setting, who may unenroll, resetting to defaults, the reaction to an identity change and
  the start of the library.  \<open>mPermStore\<close> and \<open>mGroupList\<close> are passed explicitly;
  \<open>mAuthenticationProtocol\<close> is \<open>None\<close> until it has been located.

  The theory shows that the access decision equals a declarative rule on the permission map and
  the groups, and what an identity change does to the required permissions.
\<close>

section \<open>Access decisions\<close>

lemma group_scan_bound:
  "group_scan i Key prev n gs = Some m \<Longrightarrow> n \<le> m \<and> m < n + length gs \<and> (\<forall>k. Key = Some k \<longrightarrow> \<not> prev \<longrightarrow> k < m)"
proof (induction gs arbitrary: prev n)
  case Nil
  then show ?case by simp
next
  case (Cons g gs)
  show ?case
  proof (cases "Key = Some n")
    case True
    with Cons.prems have "group_scan i Key True (n + 1) gs = Some m" by simp
    from Cons.IH [OF this] True show ?thesis by auto
  next
    case False
    with Cons show ?thesis by (fastforce split: if_splits)
  qed
qed

lemma FindGroupIdBySetting_progress:
  assumes "FindGroupIdBySetting i Key gs = (Some G, Key')"
  shows "\<exists>m. Key' = Some m \<and> m < length gs \<and> (\<forall>k. Key = Some k \<longrightarrow> k < m)"
proof (cases "group_scan i Key (Key = None) 0 gs")
  case None
  with assms show ?thesis by (simp add: FindGroupIdBySetting_def)
next
  case (Some m)
  then have "Key' = Some m" using assms by (simp add: FindGroupIdBySetting_def)
  with group_scan_bound [OF Some] show ?thesis by auto
qed

text \<open>
  The loop over the groups of a setting.  \<open>Inl\<close> is the early return of \<open>FALSE\<close>, \<open>Inr\<close> the flag
  \<open>MemberOfGroup\<close> at the end.  It terminates because the key advances in the group list.
\<close>

function group_loop :: "string \<Rightarrow> perm_store \<Rightarrow> group list \<Rightarrow> u8 \<Rightarrow> nat option \<Rightarrow> bool \<Rightarrow> bool + bool" where
  "group_loop i S gs Ident Key MemberOfGroup =
     (case FindGroupIdBySetting i Key gs of
        (None, _) \<Rightarrow> Inr MemberOfGroup
      | (Some G, Key') \<Rightarrow>
          (case FindPermissionEntry (Some S) (Some G) of
             Some k \<Rightarrow> if pe_PMask (ps_List S ! k) AND Ident = 0 then Inl False
                       else group_loop i S gs Ident Key' True
           | None \<Rightarrow> group_loop i S gs Ident Key' MemberOfGroup))"
  by pat_completeness auto
termination
  by (relation "measure (\<lambda>(i, S, gs, Ident, Key, m). length gs - (case Key of None \<Rightarrow> 0 | Some k \<Rightarrow> k + 1))")
    (auto dest!: FindGroupIdBySetting_progress [OF sym] split: option.splits)

declare group_loop.simps [simp del]

definition HasWritePermissions :: "'s auth_protocol option \<Rightarrow> perm_store option \<Rightarrow> group list \<Rightarrow> string option
    \<Rightarrow> u64 option \<Rightarrow> bool \<Rightarrow> 's \<Rightarrow> EFI_STATUS \<times> bool" where
  "HasWritePermissions mAuth mPermStore gs SettingId AuthToken Result s =
     (case (AuthToken, SettingId) of
        (Some tok, Some i) \<Rightarrow> (case mPermStore of
           None \<Rightarrow> (EFI_NOT_READY, Result)
         | Some S \<Rightarrow> (case mAuth of
             None \<Rightarrow> (EFI_NOT_READY, Result)
           | Some A \<Rightarrow> (case ap_GetIdentityProperties A tok s of (Status, Ident) \<Rightarrow>
               if EFI_ERROR Status then (Status, Result)
               else case group_loop i S gs Ident None False of
                   Inl r \<Rightarrow> (EFI_SUCCESS, r)
                 | Inr True \<Rightarrow> (EFI_SUCCESS, True)
                 | Inr False \<Rightarrow>
                     let PMask = (case FindPermissionEntry mPermStore (Some i) of
                        None \<Rightarrow> ps_DefaultPMask S | Some k \<Rightarrow> pe_PMask (ps_List S ! k))
                     in (EFI_SUCCESS, PMask AND Ident \<noteq> 0))))
      | _ \<Rightarrow> (EFI_INVALID_PARAMETER, Result))"

definition HasUnenrollPermission :: "'s auth_protocol option \<Rightarrow> perm_store option \<Rightarrow> group list
    \<Rightarrow> u64 option \<Rightarrow> bool \<Rightarrow> 's \<Rightarrow> EFI_STATUS \<times> bool" where
  "HasUnenrollPermission mAuth mPermStore gs AuthToken Result s = (case AuthToken of
     None \<Rightarrow> (EFI_INVALID_PARAMETER, Result)
   | Some tok \<Rightarrow>
     (case HasWritePermissions mAuth mPermStore gs (Some ID_OWNER_KEY) AuthToken False s of (Status, Can) \<Rightarrow>
      if EFI_ERROR Status then (Status, Result)
      else if Can then (EFI_SUCCESS, True)
      else case HasWritePermissions mAuth mPermStore gs (Some ID_DFCI_RECOVERY) AuthToken Can s of (Status, Can) \<Rightarrow>
        if EFI_ERROR Status then (Status, Result)
        else if Can then (EFI_SUCCESS, True)
        else case HasWritePermissions mAuth mPermStore gs (Some ID_ZTD_RECOVERY) AuthToken Can s of (Status, Can) \<Rightarrow>
          if EFI_ERROR Status then (Status, Result) else (EFI_SUCCESS, Can)))"

definition QueryPermission :: "perm_store option \<Rightarrow> string option \<Rightarrow> u8 \<Rightarrow> EFI_STATUS \<times> u8" where
  "QueryPermission mPermStore SettingId Permissions = (case mPermStore of
     None \<Rightarrow> (EFI_NOT_READY, Permissions)
   | Some S \<Rightarrow> (case SettingId of
       None \<Rightarrow> (EFI_INVALID_PARAMETER, Permissions)
     | Some i \<Rightarrow> (EFI_SUCCESS, case FindPermissionEntry mPermStore (Some i) of
         None \<Rightarrow> ps_DefaultPMask S | Some k \<Rightarrow> pe_PMask (ps_List S ! k))))"

section \<open>Reset, identity changes, start\<close>

definition ResetPermissionsToDefault :: "'s platform \<Rightarrow> 's auth_protocol option \<Rightarrow> group list \<Rightarrow> u64 option
    \<Rightarrow> perm_store option \<Rightarrow> 's \<Rightarrow> (EFI_STATUS \<times> perm_store option \<times> 's) option" where
  "ResetPermissionsToDefault U mAuth gs AuthToken mPermStore s =
     (let reset = do {
        (Status, Store, s1) \<leftarrow> InitPermStore U s;
        if EFI_ERROR Status then Some (Status, None, s1)
        else case SaveToFlash U Store s1 of (Status, Store, s2) \<Rightarrow> do {
          (_, s3) \<leftarrow> PopulateCurrentPermissions U Store True s2;
          Some (Status, Store, s3) } } in
      case AuthToken of
        None \<Rightarrow> reset
      | Some tok \<Rightarrow>
          if Option.is_none mAuth then Some (EFI_NOT_READY, mPermStore, s)
          else case HasUnenrollPermission mAuth mPermStore gs AuthToken False s of (Status, CanUnenroll) \<Rightarrow>
            if EFI_ERROR Status then Some (Status, mPermStore, s)
            else if \<not> CanUnenroll then Some (EFI_ACCESS_DENIED, mPermStore, s)
            else reset)"

datatype identity_change = FIRST_ENROLL | ENROLL | UNENROLL

text \<open>Step 3: an owner is being enrolled.  \<open>Status\<close> is that of \<open>ap_GetIdentityProperties\<close> before.\<close>

definition owner_enrolled :: "'s platform \<Rightarrow> u8 \<Rightarrow> identity_change \<Rightarrow> EFI_STATUS \<Rightarrow> perm_store option \<Rightarrow> 's
    \<Rightarrow> (EFI_STATUS \<times> perm_store option \<times> 's) option" where
  "owner_enrolled U CertIdentity ChangeType Status Store s =
     (if CertIdentity = DFCI_IDENTITY_SIGNER_OWNER then
        (case AddRequiredPermissionEntry U (Some ID_ZTD_KEY) DFCI_IDENTITY_INVALID DFCI_PERMISSION_MASK__NONE Store s of
          (Status, Store, s) \<Rightarrow>
            if ChangeType = FIRST_ENROLL then RemoveUnsignedPermissionEntries U Store s
            else Some (Status, Store, s))
      else Some (Status, Store, s))"

definition IdentityChange :: "'s platform \<Rightarrow> 's auth_protocol option \<Rightarrow> u64 option \<Rightarrow> u8 \<Rightarrow> identity_change
    \<Rightarrow> perm_store option \<Rightarrow> 's \<Rightarrow> (EFI_STATUS \<times> perm_store option \<times> 's) option" where
  "IdentityChange U mAuth AuthToken CertIdentity ChangeType Store s = (case AuthToken of
     None \<Rightarrow> Some (EFI_INVALID_PARAMETER, Store, s)
   | Some tok \<Rightarrow>
     if ChangeType = UNENROLL then Some (EFI_SUCCESS, Store, s)
     else case mAuth of
         None \<Rightarrow> Some (EFI_NOT_READY, Store, s)
       | Some A \<Rightarrow> (case ap_GetIdentityProperties A tok s of (Status, Ident) \<Rightarrow>
           if EFI_ERROR Status then Some (EFI_ACCESS_DENIED, Store, s)
           else do {
             (Status, Store, s) \<leftarrow> owner_enrolled U CertIdentity ChangeType Status Store s;
             if Ident = DFCI_IDENTITY_SIGNER_ZTD then
               (case AddRequiredPermissionEntry U (Some ID_ZTD_RECOVERY) DFCI_IDENTITY_SIGNER_ZTD
                       DFCI_PERMISSION_MASK__NONE Store s of (_, Store, s) \<Rightarrow>
                case AddRequiredPermissionEntry U (Some ID_ZTD_UNENROLL) DFCI_IDENTITY_SIGNER_ZTD
                       DFCI_PERMISSION_MASK__NONE Store s of (_, Store, s) \<Rightarrow>
                case AddRequiredPermissionEntry U (Some ID_DFCI_RECOVERY) DFCI_PERMISSION_MASK__NONE
                       DFCI_PERMISSION_MASK__NONE Store s of (_, Store, s) \<Rightarrow>
                Some (EFI_SUCCESS, Store, s))
             else Some (Status, Store, s) }))"

text \<open>
  The notification that the authentication protocol has been installed: \<open>located\<close> is the result
  of \<open>LocateProtocol\<close>.  An enrolled system loads its store, any other starts from defaults.
\<close>

definition CheckForAuthenticationProtocol :: "'s platform \<Rightarrow> EFI_STATUS \<times> 's auth_protocol
    \<Rightarrow> 's auth_protocol option \<Rightarrow> perm_store option \<Rightarrow> 's
    \<Rightarrow> ('s auth_protocol option \<times> perm_store option \<times> 's) option" where
  "CheckForAuthenticationProtocol U located mAuth mPermStore s = (case mAuth of
     Some A \<Rightarrow> Some (mAuth, mPermStore, s)
   | None \<Rightarrow> (case located of (Status, A) \<Rightarrow>
       if EFI_ERROR Status then Some (None, mPermStore, s)
       else case ap_GetEnrolledIdentities A s of (Status, IdMask) \<Rightarrow>
         if EFI_ERROR Status then Some (Some A, mPermStore, s)
         else do {
           (Status, Store, s1) \<leftarrow>
             (if IdMask AND DFCI_IDENTITY_SIGNER_OWNER \<noteq> 0 then LoadFromFlash U s
              else Some (EFI_NOT_FOUND, mPermStore, s));
           (Store, s2) \<leftarrow>
             (if EFI_ERROR Status then do {
                (Status, Store, s2) \<leftarrow> InitPermStore U s1;
                if EFI_ERROR Status then Some (None, s2)
                else case SaveToFlash U Store s2 of (_, Store, s3) \<Rightarrow> Some (Store, s3) }
              else Some (Store, s1));
           if Store \<noteq> None then do {
             (_, s3) \<leftarrow> PopulateCurrentPermissions U Store False s2;
             Some (Some A, Store, s3) }
           else Some (Some A, Store, s2) }))"

section \<open>The access rule\<close>

text \<open>
  The masks of the groups, at position \<open>k\<close> or later, that contain the setting and have an
  entry of their own in the store.
\<close>

definition explicit_masks :: "string \<Rightarrow> perm_store \<Rightarrow> group list \<Rightarrow> nat \<Rightarrow> u8 list" where
  "explicit_masks i S gs k =
     List.map_filter (\<lambda>n. map_option fst (perm_map S (gr_GroupId (gs ! n))))
       (filter (\<lambda>n. is_member i (gs ! n)) [k..<length gs])"

text \<open>
  The rule: explicit group permissions override the permission of the setting and must all
  grant access; otherwise the setting's own mask, or the default, decides.
\<close>

definition may_write :: "perm_store \<Rightarrow> group list \<Rightarrow> u8 \<Rightarrow> string \<Rightarrow> bool" where
  "may_write S gs Ident i =
     (let ms = explicit_masks i S gs 0 in
      if ms \<noteq> [] then \<forall>m\<in>set ms. m AND Ident \<noteq> 0
      else (case perm_map S i of None \<Rightarrow> ps_DefaultPMask S | Some (p, _) \<Rightarrow> p) AND Ident \<noteq> 0)"

lemma FindPermissionEntry_masks:
  assumes "wf_store S"
  shows "map_option (\<lambda>k. pe_PMask (ps_List S ! k)) (FindPermissionEntry (Some S) (Some i)) =
    map_option fst (perm_map S i)"
  by (simp add: FindPermissionEntry_wf assms perm_map_def map_of_first_index option.map_comp comp_def entry_masks_def)

lemma explicit_masks_next:
  "explicit_masks i S gs k = (case next_group i k gs of None \<Rightarrow> []
     | Some n \<Rightarrow> (case perm_map S (gr_GroupId (gs ! n)) of None \<Rightarrow> [] | Some m \<Rightarrow> [fst m])
         @ explicit_masks i S gs (n + 1))"
  unfolding explicit_masks_def groups_from_next [of i gs k]
  by (auto split: option.splits)

lemma group_loop_masks:
  assumes "wf_store S"
  shows "\<forall>k. Key = Some k \<longrightarrow> k < length gs \<Longrightarrow>
    group_loop i S gs Ident Key M =
      (let ms = explicit_masks i S gs (case Key of None \<Rightarrow> 0 | Some k \<Rightarrow> k + 1) in
       if \<exists>m\<in>set ms. m AND Ident = 0 then Inl False else Inr (M \<or> ms \<noteq> []))"
proof (induction "length gs - (case Key of None \<Rightarrow> 0 | Some k \<Rightarrow> k + 1)" arbitrary: Key M rule: less_induct)
  case less
  let ?k = "case Key of None \<Rightarrow> 0 | Some k \<Rightarrow> k + 1"
  note nx = FindGroupIdBySetting_next [OF less.prems, of i]
  show ?case
  proof (cases "next_group i ?k gs")
    case None
    then have f: "FindGroupIdBySetting i Key gs = (None, Key)" by (simp add: nx)
    show ?thesis
      by (subst group_loop.simps) (simp add: f explicit_masks_next [of i S gs ?k] None)
  next
    case (Some n)
    have n: "n < length gs" "?k \<le> n" using next_group_Some [OF Some] by simp_all
    have f: "FindGroupIdBySetting i Key gs = (Some (gr_GroupId (gs ! n)), Some n)" by (simp add: nx Some)
    have IH: "group_loop i S gs Ident (Some n) M' = (let ms = explicit_masks i S gs (n + 1) in
        if \<exists>m\<in>set ms. m AND Ident = 0 then Inl False else Inr (M' \<or> ms \<noteq> []))" for M'
      using less.hyps [of "Some n" M'] n by simp
    have p: "(case FindPermissionEntry (Some S) (Some (gr_GroupId (gs ! n))) of
         Some k \<Rightarrow> if pe_PMask (ps_List S ! k) AND Ident = 0 then Inl False
                   else group_loop i S gs Ident (Some n) True
       | None \<Rightarrow> group_loop i S gs Ident (Some n) M) =
      (case perm_map S (gr_GroupId (gs ! n)) of
         Some m \<Rightarrow> if fst m AND Ident = 0 then Inl False else group_loop i S gs Ident (Some n) True
       | None \<Rightarrow> group_loop i S gs Ident (Some n) M)"
      using FindPermissionEntry_masks [OF assms, of "gr_GroupId (gs ! n)"]
      by (auto split: option.splits)
    show ?thesis
      by (subst group_loop.simps)
        (auto simp: f p IH Let_def explicit_masks_next [of i S gs ?k] Some split: option.splits)
  qed
qed

lemma HasWritePermissions_may_write:
  assumes "wf_store S" "ap_GetIdentityProperties A tok s = (st, Ident)" "\<not> EFI_ERROR st"
  shows "HasWritePermissions (Some A) (Some S) gs (Some i) (Some tok) r s = (EFI_SUCCESS, may_write S gs Ident i)"
proof -
  have g: "group_loop i S gs Ident None False = (let ms = explicit_masks i S gs 0 in
      if \<exists>m\<in>set ms. m AND Ident = 0 then Inl False else Inr (ms \<noteq> []))"
    using group_loop_masks [OF assms(1), of None gs i Ident False] by (simp add: Let_def)
  have d: "(case FindPermissionEntry (Some S) (Some i) of None \<Rightarrow> ps_DefaultPMask S
      | Some k \<Rightarrow> pe_PMask (ps_List S ! k)) = (case perm_map S i of None \<Rightarrow> ps_DefaultPMask S | Some (p, _) \<Rightarrow> p)"
    using FindPermissionEntry_masks [OF assms(1), of i] by (auto split: option.splits)
  show ?thesis
    by (auto simp: HasWritePermissions_def assms g d may_write_def Let_def split: bool.splits)
qed


lemma DeletePermissionEntry_keeps_wf:
  "wf_ref Store \<Longrightarrow> wf_ref (snd (DeletePermissionEntry i Store))"
proof -
  have "wf_list es \<Longrightarrow> wf_list (remove_nth k es)" for k es
    using set_remove_nth [of k es] by (auto simp: wf_list_def)
  then show "wf_ref Store \<Longrightarrow> wf_ref (snd (DeletePermissionEntry i Store))"
    by (auto simp: DeletePermissionEntry_def wf_ref_def wf_store_def Let_def split: option.splits)
qed

lemma AddPermissionEntry_keeps_wf:
  "wf_ref Store \<Longrightarrow> wf_ref (fst (snd (AddPermissionEntry U i p d Store s)))"
proof (cases i)
  case (Some x)
  assume "wf_ref Store"
  then obtain S where "Store = Some S" "wf_store S" by (auto simp: wf_ref_def split: option.splits)
  with Some show ?thesis using AddPermissionEntry_wf by (metis prod.collapse)
qed (auto simp: AddPermissionEntry_def split: option.splits)

lemma unsigned_loop_wf:
  "wf_ref Store \<Longrightarrow> unsigned_loop U a par ns st m d Store s = Some (st', Store', s') \<Longrightarrow> wf_ref Store'"
proof (induction ns arbitrary: st m d Store s)
  case Nil
  then show ?case by simp
next
  case (Cons n ns)
  then obtain st1 i m1 d1 where g: "GetInputPermission U (Some par) n None m d = Some (st1, i, m1, d1)"
    by (auto simp: option_bind_Some_iff)
  obtain st2 Store2 s2 where r: "(if a then AddPermissionEntry U i m1 d1 Store s
      else (case DeletePermissionEntry i Store of (st, Store') \<Rightarrow> (st, Store', s))) = (st2, Store2, s2)"
    by (metis prod_cases3)
  then have w: "wf_ref Store2"
    using DeletePermissionEntry_keeps_wf [OF Cons.prems(1), of i] AddPermissionEntry_keeps_wf [OF Cons.prems(1), of U i m1 d1 s]
    by (auto simp: case_prod_beta split: if_splits)
  show ?case
    using Cons.prems Cons.IH [OF w] w by (auto simp: g r split: if_splits)
qed

lemma RemoveUnsigned_wf:
  assumes "wf_ref Store" "RemoveUnsignedPermissionEntries U Store s = Some (st, Store', s')"
  shows "wf_ref Store'"
proof -
  have "wf_ref (Some (S\<lparr>ps_DefaultPMask := m\<rparr>))" if "Store = Some S" for S m
    using assms(1) that by (simp add: wf_ref_def wf_store_def)
  then show ?thesis
    using assms
    by (auto simp: RemoveUnsignedPermissionEntries_def ModifyUnsignedPermissionEntries_def option_bind_Some_iff
        case_prod_beta split: if_splits option.splits dest!: unsigned_loop_wf [rotated])
qed

text \<open>The permissions that follow an enrolment signed by the zero-touch identity.\<close>

definition ztd_permissions :: "(string \<times> u8 \<times> u8) list" where
  "ztd_permissions = [(ID_ZTD_RECOVERY, DFCI_IDENTITY_SIGNER_ZTD, 0), (ID_ZTD_UNENROLL, DFCI_IDENTITY_SIGNER_ZTD, 0),
     (ID_DFCI_RECOVERY, 0, 0)]"

lemma owner_enrolled_wf:
  assumes "wf_ref Store" "owner_enrolled U ci ct st Store s = Some (st', Store', s')"
  shows "wf_ref Store'"
proof -
  have "wf_ref (fst (snd (AddRequiredPermissionEntry U (Some ID_ZTD_KEY) 0 0 Store s)))"
    using perm_tbl.put_inv [OF assms(1)] by (metis prod.collapse)
  then show ?thesis
    using assms RemoveUnsigned_wf
    by (auto simp: owner_enrolled_def case_prod_beta split: if_splits)
qed

lemma IdentityChange_ztd_table:
  assumes "ap_GetIdentityProperties A tok s = (gst, DFCI_IDENTITY_SIGNER_ZTD)" "\<not> EFI_ERROR gst" "ct \<noteq> UNENROLL"
    and "IdentityChange U (Some A) (Some tok) ci ct Store s = Some (st, Store', s')"
  shows "\<exists>st1 Store1 s1. owner_enrolled U ci ct gst Store s = Some (st1, Store1, s1) \<and> st = EFI_SUCCESS
    \<and> perm_tbl.put_all U ztd_permissions Store1 s1 = (Store', s')"
  using assms
  by (auto simp: IdentityChange_def option_bind_Some_iff ztd_permissions_def case_prod_beta)

section \<open>Properties\<close>

text \<open>An authentication protocol that knows one token, of the user identity, for concrete instances.\<close>

definition example_auth :: "u8 \<Rightarrow> demo_state auth_protocol" where
  "example_auth Ident = \<lparr>ap_GetEnrolledIdentities = (\<lambda>s. (EFI_SUCCESS, 0x81)),
     ap_AuthWithPW = (\<lambda>p n s. (EFI_SUCCESS, 7, s)),
     ap_AuthWithSignedData = (\<lambda>d sig t s. Some (EFI_SUCCESS, 7, s)),
     ap_DisposeAuthToken = (\<lambda>t s. (EFI_SUCCESS, 0, s)),
     ap_GetIdentityProperties = (\<lambda>t s. if t = 7 then (EFI_SUCCESS, Ident) else (EFI_NOT_FOUND, 0))\<rparr>"

definition example_groups :: "group list" where
  "example_groups = [\<lparr>gr_GroupId = ''B'', gr_Members = [''X'', ''Y'']\<rparr>, \<lparr>gr_GroupId = ''Z'', gr_Members = [''X'']\<rparr>]"

text \<open>
  Property C16: for a token that the authentication manager knows, \<open>HasWritePermissions\<close> answers
  exactly the access rule: the explicit permissions of all groups of the setting when there are
  any, else the permission of the setting, else the default.
\<close>

theorem HasWritePermissions_rule:
  assumes "wf_store S" "ap_GetIdentityProperties A tok s = (st, Ident)" "\<not> EFI_ERROR st"
  shows "HasWritePermissions (Some A) (Some S) gs (Some i) (Some tok) r s = (EFI_SUCCESS, may_write S gs Ident i)"
  by (rule HasWritePermissions_may_write [OF assms])

theorem HasWritePermissions_rule_witness:
  "HasWritePermissions (Some (example_auth 0x08)) (Some example_store) example_groups (Some ''X'') (Some 7) False
     example_state = (EFI_SUCCESS, True) \<and> may_write example_store example_groups 0x08 ''X''"
proof -
  have "ap_GetIdentityProperties (example_auth 0x08) 7 example_state = (EFI_SUCCESS, 0x08)"
    by (simp add: example_auth_def)
  from HasWritePermissions_rule [OF example_store_wf(1) this, of example_groups "''X''" False]
  show ?thesis
    by (simp add: may_write_def explicit_masks_def example_groups_def is_member_def AsciiStrnCmp_eq_def
        perm_map_def example_store_def entry_masks_def List.map_filter_def upt_rec)
qed

text \<open>
  Without a located authentication protocol, without a store, or for a token the
  authentication manager rejects, no write access is reported: the call returns an error and
  the caller's result variable is not touched.
\<close>

lemma HasWritePermissions_errors:
  assumes "mAuth = None \<or> mPermStore = None \<or> EFI_ERROR (fst (ap_GetIdentityProperties (the mAuth) tok s))"
  shows "EFI_ERROR (fst (HasWritePermissions mAuth mPermStore gs (Some i) (Some tok) r s))
    \<and> snd (HasWritePermissions mAuth mPermStore gs (Some i) (Some tok) r s) = r"
  using assms by (auto simp: HasWritePermissions_def case_prod_beta split: option.splits)

text \<open>
  The right to unenroll (and to reset the permissions) is exactly the right to write
  the owner key, or the recovery permission, or the zero-touch recovery permission.
\<close>

lemma HasUnenrollPermission_rule:
  assumes "wf_store S" "ap_GetIdentityProperties A tok s = (st, Ident)" "\<not> EFI_ERROR st"
  shows "HasUnenrollPermission (Some A) (Some S) gs (Some tok) r s = (EFI_SUCCESS,
     may_write S gs Ident ID_OWNER_KEY \<or> may_write S gs Ident ID_DFCI_RECOVERY \<or> may_write S gs Ident ID_ZTD_RECOVERY)"
  by (simp add: HasUnenrollPermission_def HasWritePermissions_may_write [OF assms])

text \<open>
  When the zero-touch identity signs an enrolment, the resulting permissions let
  the zero-touch identity, and nobody else, unenroll and recover, and no identity has the
  recovery permission; when the certificate is only rolled the zero-touch key is locked as well.
\<close>

lemma IdentityChange_signed_by_ztd:
  assumes "alloc_succeeds U" "wf_store S"
    and "ap_GetIdentityProperties A tok s = (gst, DFCI_IDENTITY_SIGNER_ZTD)" "\<not> EFI_ERROR gst" "ct \<noteq> UNENROLL"
    and "IdentityChange U (Some A) (Some tok) DFCI_IDENTITY_SIGNER_OWNER ct (Some S) s = Some (st, Store', s')"
  shows "\<exists>S'. Store' = Some S' \<and> st = EFI_SUCCESS
    \<and> perm_map S' ID_ZTD_RECOVERY = Some (DFCI_IDENTITY_SIGNER_ZTD, 0)
    \<and> perm_map S' ID_ZTD_UNENROLL = Some (DFCI_IDENTITY_SIGNER_ZTD, 0)
    \<and> perm_map S' ID_DFCI_RECOVERY = Some (0, 0)
    \<and> (ct = ENROLL \<longrightarrow> perm_map S' ID_ZTD_KEY = Some (0, 0))"
proof -
  from IdentityChange_ztd_table [OF assms(3-6)] obtain st1 Store1 s1 where
    o: "owner_enrolled U DFCI_IDENTITY_SIGNER_OWNER ct gst (Some S) s = Some (st1, Store1, s1)"
    and st: "st = EFI_SUCCESS" and p: "perm_tbl.put_all U ztd_permissions Store1 s1 = (Store', s')"
    by blast
  have ref: "wf_ref (Some S)" using assms(2) by (simp add: wf_ref_def)
  have w1: "wf_ref Store1" by (rule owner_enrolled_wf [OF ref o])
  have ids: "\<forall>x\<in>set ztd_permissions. wf_id (fst x)" "distinct (map fst ztd_permissions)"
    using private_ids_distinct by (auto simp: ztd_permissions_def)
  from perm_tbl.put_all_inv [OF w1 p] obtain S' where S': "Store' = Some S'" "wf_store S'"
    by (auto simp: wf_ref_def split: option.splits)
  have m: "perm_map S' k = Some v" if "(k, v) \<in> set ztd_permissions" for k v
    using perm_tbl.put_all_lookup [OF w1 ids p AddRequired_total [OF assms(1)] that] S'
    by (simp add: perm_lookup_map)
  have "perm_map S' ID_ZTD_KEY = Some (0, 0)" if "ct = ENROLL"
  proof -
    have a: "AddRequiredPermissionEntry U (Some ID_ZTD_KEY) 0 0 (Some S) s = (st1, Store1, s1)"
      using o that by (auto simp: owner_enrolled_def case_prod_beta)
    then have "perm_lookup Store1 ID_ZTD_KEY = Some (0, 0)"
      using perm_tbl.lookup_put [OF ref private_ids_wf(2) a] AddRequired_total [OF assms(1) ref private_ids_wf(2), of 0 0 s]
      by simp
    moreover have "ID_ZTD_KEY \<notin> fst ` set ztd_permissions"
      using private_ids_distinct by (auto simp: ztd_permissions_def)
    ultimately show ?thesis
      using perm_tbl.put_all_other [OF w1 ids(1) p] S' by (simp add: perm_lookup_map)
  qed
  with S'(1) st m show ?thesis by (auto simp: ztd_permissions_def)
qed

end
