(* ===== verification/Permission_Apply.thy ===== *)
theory Permission_Apply
  imports Permission_Access
begin

text \<open>
  Applying a signed permission packet (\<open>DfciSettingPermissionProvisionXml.c\<close>): validation of the
  decoded packet, authentication, the walk over the XML, the response variable and the
  last-known-good handler.  \<open>ApplyPermissionsInXml\<close> is split at its stages; the \<open>goto EXIT\<close> of a
  stage is the value \<open>Inl (State, Status)\<close>.

  The theory shows that only validated packets reach the XML, that the lowest supported version
  never decreases, that an identity changes only the entries delegated to it, and that a failed
  packet leaves the permissions of the last commit in force.
\<close>

section \<open>Validation and authentication\<close>

definition ValidatePermissionsPacket :: "packet \<Rightarrow> EFI_STATUS" where
  "ValidatePermissionsPacket Data =
     (if pk_PacketSize Data > MAX_ALLOWABLE_DFCI_APPLY_VAR_SIZE then EFI_COMPROMISED_DATA
      else if pk_SignedDataLength Data \<ge> pk_PacketSize Data then EFI_COMPROMISED_DATA
      else if pk_Signature Data \<noteq> Some (pk_SignedDataLength Data) then EFI_COMPROMISED_DATA
      else case pk_Payload Data of
          None \<Rightarrow> EFI_COMPROMISED_DATA
        | Some p \<Rightarrow>
            if p \<le> 0 \<or> p + pk_PayloadSize Data > pk_SignedDataLength Data then EFI_COMPROMISED_DATA
            else EFI_SUCCESS)"

definition ValidateAndAuthenticatePermissions :: "'s auth_protocol \<Rightarrow> packet \<Rightarrow> 's
    \<Rightarrow> (EFI_STATUS \<times> packet \<times> 's) option" where
  "ValidateAndAuthenticatePermissions A Data s = do {
     dwLength \<leftarrow> rd32 (pk_Packet Data) (pk_SignedDataLength Data);
     if uintn_sub (pk_PacketSize Data) (pk_SignedDataLength Data) \<noteq> unat dwLength
     then Some (EFI_BAD_BUFFER_SIZE,
       Data\<lparr>pk_State := STATE_DATA_INVALID, pk_StatusCode := EFI_BAD_BUFFER_SIZE\<rparr>, s)
     else do {
       (Status, Token, s') \<leftarrow> ap_AuthWithSignedData A
          (take (pk_SignedDataLength Data) (pk_Packet Data))
          (drop (pk_SignedDataLength Data) (pk_Packet Data)) (pk_AuthToken Data) s;
       let Data = Data\<lparr>pk_AuthToken := Token\<rparr>;
       if EFI_ERROR Status
       then Some (EFI_SECURITY_VIOLATION,
         Data\<lparr>pk_State := STATE_DATA_AUTH_FAILED, pk_StatusCode := EFI_SECURITY_VIOLATION\<rparr>, s')
       else Some (EFI_SUCCESS, Data\<lparr>pk_State := STATE_DATA_AUTHENTICATED\<rparr>, s') } }"

section \<open>The stages of ApplyPermissionsInXml\<close>

text \<open>The two documents: the parsed input and the empty result.\<close>

definition apply_documents :: "'s platform \<Rightarrow> string \<Rightarrow> 's \<Rightarrow> (stage_error + (xml_node \<times> xml_node)) \<times> 's" where
  "apply_documents U Payload s = (case CreateXmlTree U Payload s of (Status, Input, s1) \<Rightarrow>
     if EFI_ERROR Status then (Inl (STATE_BAD_XML, EFI_NO_MAPPING), s1)
     else case GetTime U s1 of (Status, ApplyTime, s2) \<Rightarrow>
       if EFI_ERROR Status then (Inl (STATE_DATA_SYSTEM_ERROR, EFI_ABORTED), s2)
       else case New_ResultPermissionPacketNodeList U ApplyTime s2 of (r, s3) \<Rightarrow>
         (case r of
            None \<Rightarrow> (Inl (STATE_BAD_XML, EFI_ABORTED), s3)
          | Some Result \<Rightarrow>
              if GetPermissionPacketNode (Some Input) = None then (Inl (STATE_BAD_XML, EFI_NO_MAPPING), s3)
              else if GetResultsPermissionPacketNode (Some Result) = None then (Inl (STATE_BAD_XML, EFI_NO_MAPPING), s3)
              else (Inr (Input, Result), s3)))"

text \<open>Version and lowest supported version of the packet against those of the store.\<close>

definition apply_versions :: "'s platform \<Rightarrow> xml_node \<Rightarrow> perm_store option \<Rightarrow> (stage_error + (u64 \<times> u64)) option" where
  "apply_versions U Packet Store = do {
     vn \<leftarrow> child_by_name U Packet ''Version'';
     (case vn of None \<Rightarrow> Some (Inl (STATE_BAD_XML, EFI_NO_MAPPING)) | Some n \<Rightarrow>
        let Version = AsciiStrDecimalToUintn U (xn_Value n) in
        if Version > 0xFFFFFFFF then Some (Inl (STATE_BAD_XML, EFI_NO_MAPPING))
        else do {
          S \<leftarrow> Store;
          if Version < ucast (ps_Lsv S) then Some (Inl (STATE_VERSION_ERROR, EFI_ACCESS_DENIED))
          else do {
          ln \<leftarrow> child_by_name U Packet ''LowestSupportedVersion'';
          (case ln of None \<Rightarrow> Some (Inl (STATE_BAD_XML, EFI_NO_MAPPING)) | Some n \<Rightarrow>
             let Lsv = AsciiStrDecimalToUintn U (xn_Value n) in
             if Lsv > 0xFFFFFFFF then Some (Inl (STATE_BAD_XML, EFI_NO_MAPPING))
             else if Lsv > Version then Some (Inl (STATE_DATA_INVALID, EFI_NO_MAPPING))
             else Some (Inr (Version, max (ucast (ps_Lsv S)) Lsv))) } }) }"

text \<open>The lists of permissions in both documents and the append attribute.\<close>

definition apply_lists :: "'s platform \<Rightarrow> bool \<Rightarrow> xml_node \<Rightarrow> xml_node
    \<Rightarrow> (stage_error + (xml_node \<times> nat list \<times> bool)) option" where
  "apply_lists U V1Mode Packet Result =
     (case GetPermissionsListNodeFromPacketNode U Packet of
        None \<Rightarrow> Some (Inl (STATE_BAD_XML, EFI_NO_MAPPING))
      | Some k \<Rightarrow> do {
          lst \<leftarrow> node_at Packet [k];
          (case GetPermissionsListNodeFromPacketNode U Result of
             None \<Rightarrow> Some (Inl (STATE_BAD_XML, EFI_ABORTED))
           | Some r \<Rightarrow> (case PermissionListEntriesAppend U (Some lst) False of (Status, Append) \<Rightarrow>
               if EFI_ERROR Status then Some (Inl (STATE_BAD_XML, EFI_NO_MAPPING))
               else if Append \<and> V1Mode then Some (Inl (STATE_BAD_XML, EFI_NO_MAPPING))
               else Some (Inr (lst, [r], Append)))) })"

text \<open>Default masks of the packet: taken over only when the defaults are delegated to the identity.\<close>

definition apply_defaults :: "'s platform \<Rightarrow> u8 \<Rightarrow> xml_node \<Rightarrow> perm_store \<Rightarrow> (stage_error + u8) \<times> perm_store" where
  "apply_defaults U Ident lst S =
     (case GetPermissionsListDefaultPMask U (Some lst) (ps_DefaultPMask S) (ps_DefaultDMask S) of (Status, PMask, DMask) \<Rightarrow>
      if EFI_ERROR Status then
        (if Status = EFI_NOT_FOUND then (Inr DMask, S) else (Inl (STATE_BAD_XML, EFI_NO_MAPPING), S))
      else if Ident AND ps_DefaultDMask S \<noteq> 0
        then (Inr DMask, S\<lparr>ps_DefaultPMask := PMask, ps_DefaultDMask := DMask\<rparr>)
        else (Inr DMask, S))"

text \<open>The effect of one permission on the store; \<open>Inl\<close> when the entry cannot be allocated.\<close>

definition update_entry :: "nat \<Rightarrow> u8 \<Rightarrow> u8 \<Rightarrow> perm_store \<Rightarrow> perm_store" where
  "update_entry k Msk DMask S = S\<lparr>ps_List := (ps_List S)[k := (ps_List S ! k)\<lparr>
     pe_PMask := Msk,
     pe_DMask := (if DMask \<noteq> DFCI_IDENTITY_NOT_SPECIFIED then DMask else pe_DMask (ps_List S ! k)),
     pe_MarkedForDeletion := False\<rparr>]\<rparr>"

definition apply_permission :: "'s platform \<Rightarrow> u8 \<Rightarrow> string option \<Rightarrow> u8 \<Rightarrow> u8 \<Rightarrow> perm_store \<Rightarrow> 's
    \<Rightarrow> (stage_error + EFI_STATUS) \<times> u8 \<times> perm_store \<times> 's" where
  "apply_permission U Ident IdPtr Msk DMask S s = (case FindPermissionEntry (Some S) IdPtr of
     Some k \<Rightarrow>
       if Ident AND pe_DMask (ps_List S ! k) \<noteq> 0
       then (Inr EFI_SUCCESS, DMask, update_entry k Msk DMask S, s)
       else (Inr EFI_ACCESS_DENIED, DMask, S, s)
   | None \<Rightarrow>
       if Ident AND ps_DefaultDMask S \<noteq> 0 then
         let DMask = (if DMask = DFCI_IDENTITY_NOT_SPECIFIED then Ident else DMask) in
         (case AddPermissionEntry U IdPtr Msk DMask (Some S) s of (Status, Store, s') \<Rightarrow>
          let S' = (case Store of None \<Rightarrow> S | Some S' \<Rightarrow> S') in
          if EFI_ERROR Status then (Inl (STATE_DATA_SYSTEM_ERROR, EFI_ABORTED), DMask, S', s')
          else (Inr Status, DMask, S', s'))
       else (Inr EFI_ACCESS_DENIED, DMask, S, s))"

text \<open>The walk over the \<open>Permission\<close> elements; every outcome is recorded in the result document.\<close>

fun apply_loop :: "'s platform \<Rightarrow> u8 \<Rightarrow> xml_node \<Rightarrow> nat list \<Rightarrow> xml_node list \<Rightarrow> u8 \<Rightarrow> perm_store \<Rightarrow> xml_node \<Rightarrow> 's
    \<Rightarrow> ((stage_error + xml_node) \<times> perm_store \<times> 's) option" where
  "apply_loop U Ident lst rp [] DMask S Result s = Some (Inr Result, S, s)"
| "apply_loop U Ident lst rp (n # ns) DMask S Result s = do {
     (Status, IdPtr, Msk, DMask) \<leftarrow> GetInputPermission U (Some lst) n None 0 DMask;
     if EFI_ERROR Status then Some (Inl (STATE_BAD_XML, EFI_NO_MAPPING), S, s)
     else case apply_permission U Ident IdPtr Msk DMask S s of (r, DMask, S, s) \<Rightarrow>
       (case r of
          Inl e \<Rightarrow> Some (Inl e, S, s)
        | Inr Status \<Rightarrow> do {
            (Status, Result, s) \<leftarrow> SetOutputPermissionStatus U Result rp IdPtr (status_string U Status) s;
            if EFI_ERROR Status then Some (Inl (STATE_DATA_SYSTEM_ERROR, EFI_DEVICE_ERROR), S, s)
            else apply_loop U Ident lst rp ns DMask S Result s }) }"

text \<open>From the versions to the end of the loop: the part of the function that changes the store.\<close>

definition apply_store :: "'s platform \<Rightarrow> u8 \<Rightarrow> bool \<Rightarrow> xml_node \<Rightarrow> xml_node \<Rightarrow> perm_store option \<Rightarrow> 's
    \<Rightarrow> ((stage_error + xml_node) \<times> perm_store option \<times> 's) option" where
  "apply_store U Ident V1Mode Packet Result Store s = do {
     v \<leftarrow> apply_versions U Packet Store;
     (case v of Inl e \<Rightarrow> Some (Inl e, Store, s) | Inr (Version, NewLsv) \<Rightarrow> do {
        S \<leftarrow> Store;
        l \<leftarrow> apply_lists U V1Mode Packet Result;
        (case l of Inl e \<Rightarrow> Some (Inl e, Store, s) | Inr (lst, rp, Append) \<Rightarrow> do {
           S1 \<leftarrow> (if Append then Store else snd (MarkPermissionEntriesForDeletion Ident Store));
           (case apply_defaults U Ident lst (S1\<lparr>ps_Lsv := ucast NewLsv, ps_Version := ucast Version\<rparr>) of
              (Inl e, S2) \<Rightarrow> Some (Inl e, Some S2, s)
            | (Inr DMask, S2) \<Rightarrow> do {
                (r, S3, s3) \<leftarrow> apply_loop U Ident lst rp (xn_Children lst) DMask S2 Result s;
                (case r of Inl e \<Rightarrow> Some (Inl e, Some S3, s3)
                 | Inr Result \<Rightarrow> Some (Inr Result, snd (DeleteMarkedPermissionEntries (Some S3)), s3)) }) }) }) }"

text \<open>The result document as text, with the checks of its size.\<close>

definition apply_result :: "'s platform \<Rightarrow> xml_node \<Rightarrow> packet \<Rightarrow> 's \<Rightarrow> EFI_STATUS \<times> packet \<times> 's" where
  "apply_result U Result Data s = (case XmlTreeToString U Result s of (Status, str, n, s') \<Rightarrow>
     let Data = Data\<lparr>pk_State := STATE_DATA_APPLIED\<rparr> in
     if EFI_ERROR Status then (EFI_ABORTED, Data, s')
     else let Data = Data\<lparr>pk_ResultXml := Some str, pk_ResultXmlSize := n\<rparr> in
       if n > MAX_ALLOWABLE_DFCI_RESULT_VAR_SIZE then (EFI_ABORTED, Data, s')
       else (EFI_SUCCESS, Data, s'))"

text \<open>
  The EXIT label: after an error the store is loaded from flash again (and is NULL when that
  fails), and the status goes into the packet.
\<close>

definition apply_exit :: "'s platform \<Rightarrow> EFI_STATUS \<Rightarrow> packet \<Rightarrow> perm_store option \<Rightarrow> 's
    \<Rightarrow> (EFI_STATUS \<times> packet \<times> perm_store option \<times> 's) option" where
  "apply_exit U Status Data mPermStore s =
     (if EFI_ERROR Status then do {
        (_, Store, s') \<leftarrow> LoadFromFlash U s;
        Some (Status, Data\<lparr>pk_StatusCode := Status\<rparr>, Store, s') }
      else Some (Status, Data\<lparr>pk_StatusCode := Status\<rparr>, mPermStore, s))"

definition ApplyPermissionsInXml :: "'s platform \<Rightarrow> 's auth_protocol \<Rightarrow> packet \<Rightarrow> perm_store option \<Rightarrow> 's
    \<Rightarrow> (EFI_STATUS \<times> packet \<times> perm_store option \<times> 's) option" where
  "ApplyPermissionsInXml U A Data mPermStore s =
     (if pk_State Data \<noteq> STATE_DATA_AUTHENTICATED
      then Some (EFI_ABORTED, Data\<lparr>pk_State := STATE_DATA_SYSTEM_ERROR, pk_StatusCode := EFI_ABORTED\<rparr>, mPermStore, s)
      else case ap_GetIdentityProperties A (pk_AuthToken Data) s of (Status, Ident) \<Rightarrow>
        if EFI_ERROR Status
        then Some (EFI_ABORTED, Data\<lparr>pk_State := STATE_DATA_SYSTEM_ERROR, pk_StatusCode := EFI_ABORTED\<rparr>, mPermStore, s)
        else do {
          off \<leftarrow> pk_Payload Data;
          Payload \<leftarrow> rd_cstr (pk_Packet Data) off (pk_PayloadSize Data);
          (case apply_documents U Payload s of
             (Inl (State, Status), s1) \<Rightarrow> apply_exit U Status (Data\<lparr>pk_State := State\<rparr>) mPermStore s1
           | (Inr (Input, Result), s1) \<Rightarrow> do {
               (r, Store, s2) \<leftarrow> apply_store U Ident (pk_V1Mode Data) Input Result mPermStore s1;
               (case r of
                  Inl (State, Status) \<Rightarrow> apply_exit U Status (Data\<lparr>pk_State := State\<rparr>) Store s2
                | Inr Result \<Rightarrow> (case apply_result U Result Data s2 of (Status, Data, s3) \<Rightarrow>
                    apply_exit U Status Data Store s3)) }) })"

section \<open>The packet protocol\<close>

text \<open>The body up to the CLEANUP label.\<close>

definition permissions_packet_body :: "'s platform \<Rightarrow> 's auth_protocol \<Rightarrow> packet
    \<Rightarrow> perm_store option \<Rightarrow> 's \<Rightarrow> (EFI_STATUS \<times> packet \<times> perm_store option \<times> 's) option" where
  "permissions_packet_body U A D mPermStore s =
     (if pk_State D \<noteq> STATE_DATA_PRESENT then Some (EFI_ABORTED, D, mPermStore, s)
      else let Status = ValidatePermissionsPacket D in
        if EFI_ERROR Status
        then Some (Status, D\<lparr>pk_State := STATE_DATA_SYSTEM_ERROR, pk_StatusCode := EFI_ABORTED\<rparr>, mPermStore, s)
        else do {
          (Status, D, s) \<leftarrow> ValidateAndAuthenticatePermissions A D s;
          if EFI_ERROR Status then Some (Status, D, mPermStore, s)
          else do {
            (Status, D, Store, s) \<leftarrow> ApplyPermissionsInXml U A D mPermStore s;
            if EFI_ERROR Status then Some (Status, D, Store, s)
            else do {
              S \<leftarrow> Store;
              Some (Status, D\<lparr>pk_LKGDirty := True\<rparr>, Some (S\<lparr>ps_Modified := True\<rparr>), s) } } })"

definition ApplyNewPermissionsPacket :: "'s platform \<Rightarrow> 's auth_protocol option \<Rightarrow> bool \<Rightarrow> packet option
    \<Rightarrow> perm_store option \<Rightarrow> 's \<Rightarrow> (EFI_STATUS \<times> packet option \<times> perm_store option \<times> 's) option" where
  "ApplyNewPermissionsPacket U mAuth This_ok Data mPermStore s = (case (Data, mAuth) of
     (Some D, Some A) \<Rightarrow>
       if \<not> This_ok then Some (EFI_INVALID_PARAMETER, Data, mPermStore, s)
       else do {
         (Status, D, Store, s) \<leftarrow> permissions_packet_body U A D mPermStore s;
         if pk_AuthToken D \<noteq> DFCI_AUTH_TOKEN_INVALID
         then (case ap_DisposeAuthToken A (pk_AuthToken D) s of (_, tok, s) \<Rightarrow>
           Some (Status, Some (D\<lparr>pk_AuthToken := tok\<rparr>), Store, s))
         else Some (Status, Some D, Store, s) }
   | _ \<Rightarrow> Some (EFI_INVALID_PARAMETER, Data, mPermStore, s))"

text \<open>
  The response variable.  Its three reserved bytes are not initialised by the code: \<open>rsvd\<close> is
  what the allocated memory held.
\<close>

definition SetPermissionsResponse :: "'s platform \<Rightarrow> bytes \<Rightarrow> packet option \<Rightarrow> 's \<Rightarrow> (EFI_STATUS \<times> 's) option" where
  "SetPermissionsResponse U rsvd Data s = (case Data of None \<Rightarrow> Some (EFI_INVALID_PARAMETER, s) | Some D \<Rightarrow>
     if pk_State D = STATE_UNINITIALIZED then Some (EFI_INVALID_PARAMETER, s)
     else
       let v2 = (pk_ExpectedVersion D = 2);
           VarSize = (if v2 then 22 + pk_ResultXmlSize D else 20)
       in case AllocatePool U VarSize s of (ok, s1) \<Rightarrow>
         if \<not> ok then Some (EFI_OUT_OF_RESOURCES, s1)
         else do {
           payload \<leftarrow> (if \<not> v2 then Some []
              else if pk_ResultXmlSize D = 0 then Some (le16 0)
              else map_option (\<lambda>x. le16 (word_of_nat (pk_ResultXmlSize D)) @ take (pk_ResultXmlSize D) (to_bytes x @ [0]))
                     (pk_ResultXml D));
           Some (SetVariable U (pk_ResultName D) gDfciPermissionManagerVarNamespace PERMISSION_APPLY_VAR_ATTRIBUTES
             (le32 0x5250504D @ [if v2 then 2 else 1] @ rsvd @ le64 (pk_StatusCode D) @ le32 (pk_SessionId D) @ payload) s1) })"

definition FreeNvVarsForIncomingPermissions :: "'s platform \<Rightarrow> packet option \<Rightarrow> 's \<Rightarrow> 's" where
  "FreeNvVarsForIncomingPermissions U Data s = (case Data of None \<Rightarrow> s | Some D \<Rightarrow>
     if pk_State D \<noteq> STATE_UNINITIALIZED
     then snd (SetVariable U (pk_MailboxName D) gDfciPermissionManagerVarNamespace 0 [] s) else s)"

definition LKG_Handler :: "'s platform \<Rightarrow> bool \<Rightarrow> packet option \<Rightarrow> u8 \<Rightarrow> perm_store option \<Rightarrow> 's
    \<Rightarrow> (EFI_STATUS \<times> packet option \<times> perm_store option \<times> 's) option" where
  "LKG_Handler U This_ok Data Operation mPermStore s0 =
     (let s = FreeNvVarsForIncomingPermissions U Data s0 in
      case Data of
        None \<Rightarrow> Some (EFI_INVALID_PARAMETER, Data, mPermStore, s)
      | Some D \<Rightarrow>
          if \<not> This_ok then Some (EFI_INVALID_PARAMETER, Data, mPermStore, s)
          else do {
            (Status, D, Store, s) \<leftarrow>
              (if Operation = DFCI_LKG_RESTORE then
                 (if pk_LKGDirty D then do {
                    (Status, Store, s) \<leftarrow> LoadFromFlash U s;
                    Some (Status, D\<lparr>pk_LKGDirty := False\<rparr>, Store, s) }
                  else Some (EFI_SUCCESS, D, mPermStore, s))
               else if Operation = DFCI_LKG_COMMIT then
                 (if pk_LKGDirty D then
                    (case SaveToFlash U mPermStore s of (Status, Store, s) \<Rightarrow>
                     if EFI_ERROR Status then do {
                       (_, Store, s) \<leftarrow> LoadFromFlash U s;
                       Some (Status, D\<lparr>pk_LKGDirty := False\<rparr>, Store, s) }
                     else do {
                       (_, s) \<leftarrow> PopulateCurrentPermissions U Store True s;
                       Some (Status, D\<lparr>pk_LKGDirty := False\<rparr>, Store, s) })
                  else Some (EFI_SUCCESS, D, mPermStore, s))
               else Some (EFI_INVALID_PARAMETER, D, mPermStore, s));
            Some (Status,
              Some (if EFI_ERROR Status then D\<lparr>pk_StatusCode := Status, pk_State := STATE_DATA_SYSTEM_ERROR\<rparr> else D),
              Store, s) })"

section \<open>An identity stays within its delegation\<close>

text \<open>
  From \<open>S\<close> to \<open>S'\<close> the identity has kept every entry that is not delegated to it, and, unless the
  defaults are delegated to it, has neither added an id nor touched the defaults.
\<close>

definition confined :: "u8 \<Rightarrow> perm_store \<Rightarrow> perm_store \<Rightarrow> bool" where
  "confined Ident S S' \<longleftrightarrow>
     (\<forall>e\<in>set (ps_List S). Ident AND pe_DMask e = 0 \<longrightarrow> e \<in> set (ps_List S')) \<and>
     (Ident AND ps_DefaultDMask S = 0 \<longrightarrow>
        ps_DefaultDMask S' = ps_DefaultDMask S \<and> ps_DefaultPMask S' = ps_DefaultPMask S \<and>
        pe_Id ` set (ps_List S') \<subseteq> pe_Id ` set (ps_List S))"

definition sound_store :: "perm_store \<Rightarrow> bool" where
  "sound_store S \<longleftrightarrow> wf_store S \<and> keyed S"

lemma confined_refl: "confined Ident S S"
  by (simp add: confined_def)

lemma confined_trans: "confined Ident a b \<Longrightarrow> confined Ident b c \<Longrightarrow> confined Ident a c"
  unfolding confined_def by fastforce

lemma ids_update_entry:
  "k < length (ps_List S) \<Longrightarrow> map pe_Id (ps_List (update_entry k m d S)) = map pe_Id (ps_List S)"
  by (simp add: update_entry_def map_update list_update_same_conv)

lemma update_entry_step:
  assumes "sound_store S" "k < length (ps_List S)" "Ident AND pe_DMask (ps_List S ! k) \<noteq> 0"
  shows "sound_store (update_entry k m d S)" "confined Ident S (update_entry k m d S)"
proof -
  have "wf_entry e" if "e \<in> set (ps_List (update_entry k m d S))" for e
    using that assms(1,2)
    by (auto simp: update_entry_def sound_store_def wf_store_def wf_list_def wf_entry_def
        dest!: set_update_subset_insert [THEN subsetD])
  moreover have "keyed (update_entry k m d S)"
    using assms(1) ids_update_entry [OF assms(2)] by (simp add: sound_store_def keyed_def)
  ultimately show "sound_store (update_entry k m d S)"
    by (simp add: sound_store_def wf_store_def wf_list_def)
  have "e \<in> set (ps_List (update_entry k m d S))"
    if e: "e \<in> set (ps_List S)" "Ident AND pe_DMask e = 0" for e
  proof -
    obtain j where j: "j < length (ps_List S)" "ps_List S ! j = e" using e(1) by (auto simp: in_set_conv_nth)
    then have "j \<noteq> k" using e(2) assms(3) by auto
    with j show ?thesis by (auto simp: update_entry_def in_set_conv_nth intro!: exI [of _ j])
  qed
  moreover have "pe_Id ` set (ps_List (update_entry k m d S)) = pe_Id ` set (ps_List S)"
    using ids_update_entry [OF assms(2)] by (metis list.set_map)
  ultimately show "confined Ident S (update_entry k m d S)"
    by (auto simp: confined_def update_entry_def)
qed

lemma AddPermissionEntry_sound:
  assumes "sound_store S" "FindPermissionEntry (Some S) i = None" "Ident AND ps_DefaultDMask S \<noteq> 0"
    and "AddPermissionEntry U i m d (Some S) s = (st, Store', s')"
  shows "\<exists>S'. Store' = Some S' \<and> sound_store S' \<and> confined Ident S S' \<and> ps_Lsv S' = ps_Lsv S \<and> ps_Version S' = ps_Version S"
proof (cases i)
  case None
  with assms show ?thesis by (auto simp: AddPermissionEntry_def confined_refl)
next
  case (Some x)
  have n: "x \<notin> pe_Id ` set (ps_List S)"
    using assms(1,2) by (auto simp: Some FindPermissionEntry_wf sound_store_def first_index_None)
  from assms(4) show ?thesis
    unfolding Some
  proof (cases rule: AddPermissionEntry_cases)
    case added
    with n assms(1,3) wf_entry_new [OF added(1), of m d False] show ?thesis
      by (auto simp: sound_store_def wf_store_def wf_list_def keyed_def confined_def simp del: of_nat_Suc)
  qed (use assms(1) in \<open>auto simp: confined_refl\<close>)
qed

lemma apply_permission_step:
  assumes "sound_store S" "apply_permission U Ident i m d S s = (r, d', S', s')"
  shows "sound_store S' \<and> confined Ident S S' \<and> ps_Lsv S' = ps_Lsv S \<and> ps_Version S' = ps_Version S"
proof (cases "FindPermissionEntry (Some S) i")
  case (Some k)
  then obtain x where "i = Some x" by (cases i) (auto simp: FindPermissionEntry_def)
  then have "k < length (ps_List S)"
    using Some assms(1) by (auto simp: FindPermissionEntry_wf sound_store_def dest: first_index_SomeD)
  then show ?thesis
    using assms(2) Some update_entry_step [OF assms(1), of k Ident m d] assms(1)
    by (auto simp: apply_permission_def confined_refl update_entry_def split: if_splits)
next
  case None
  show ?thesis
  proof (cases "Ident AND ps_DefaultDMask S = 0")
    case True
    with None assms show ?thesis by (auto simp: apply_permission_def confined_refl)
  next
    case False
    define D where "D = (if d = DFCI_IDENTITY_NOT_SPECIFIED then Ident else d)"
    obtain st Store' s1 where a: "AddPermissionEntry U i m D (Some S) s = (st, Store', s1)"
      by (metis prod_cases3)
    from AddPermissionEntry_sound [OF assms(1) None False a] obtain S1 where
      "Store' = Some S1" "sound_store S1" "confined Ident S S1" "ps_Lsv S1 = ps_Lsv S" "ps_Version S1 = ps_Version S"
      by blast
    with assms(2) None False a show ?thesis
      by (auto simp: apply_permission_def Let_def simp flip: D_def split: if_splits)
  qed
qed

lemma apply_loop_step:
  "sound_store S \<Longrightarrow> apply_loop U Ident lst rp ns d S R s = Some (r, S', s') \<Longrightarrow>
   sound_store S' \<and> confined Ident S S' \<and> ps_Lsv S' = ps_Lsv S \<and> ps_Version S' = ps_Version S"
proof (induction ns arbitrary: d S R s)
  case Nil
  then show ?case by (auto simp: confined_refl)
next
  case (Cons n ns)
  obtain st i m d1 where g: "GetInputPermission U (Some lst) n None 0 d = Some (st, i, m, d1)"
    using Cons.prems(2) by (auto simp: option_bind_Some_iff)
  obtain r1 d2 S1 s1 where p: "apply_permission U Ident i m d1 S s = (r1, d2, S1, s1)"
    by (metis prod_cases4)
  note st1 = apply_permission_step [OF Cons.prems(1) p]
  show ?case
  proof (cases "EFI_ERROR st \<or> isl r1")
    case True
    then show ?thesis
      using Cons.prems st1 by (auto simp: g p confined_refl split: if_splits sum.splits)
  next
    case False
    then obtain x where x: "r1 = Inr x" by (cases r1) auto
    obtain st2 R2 s2 where o: "SetOutputPermissionStatus U R rp i (status_string U x) s1 = Some (st2, R2, s2)"
      using Cons.prems(2) False by (auto simp: g p x option_bind_Some_iff)
    show ?thesis
    proof (cases "EFI_ERROR st2")
      case True
      then show ?thesis using Cons.prems(2) False st1 by (auto simp: g p x o)
    next
      case nerr: False
      then have "apply_loop U Ident lst rp ns d2 S1 R2 s2 = Some (r, S', s')"
        using Cons.prems(2) False by (simp add: g p x o)
      then show ?thesis using Cons.IH [of S1 d2 R2 s2] st1 confined_trans by auto
    qed
  qed
qed


lemma apply_versions_bounds:
  assumes "apply_versions U P (Some S) = Some (Inr (V, N))"
  shows "ps_Lsv S \<le> ucast N" "(ucast N :: u32) \<le> ucast V" "unat (ps_Lsv S) \<le> unat (ucast V :: u32)"
proof -
  have v: "V \<le> 0xFFFFFFFF" "ucast (ps_Lsv S) \<le> V" and n: "ucast (ps_Lsv S) \<le> N" "N \<le> V"
    using assms by (auto simp: apply_versions_def Let_def not_less split: Option.bind_splits option.splits if_splits)
  have u: "unat (ucast (ps_Lsv S) :: u64) = unat (ps_Lsv S)"
    using order.strict_trans [OF unat_bound [of "ps_Lsv S"], of "2 ^ 64"]
    by (simp add: unsigned_ucast_eq take_bit_nat_eq_self)
  have "N \<le> 0xFFFFFFFF" using n(2) v(1) by (rule order_trans)
  with v n u show "ps_Lsv S \<le> ucast N" "(ucast N :: u32) \<le> ucast V" "unat (ps_Lsv S) \<le> unat (ucast V :: u32)"
    by (simp_all add: word_le_nat_alt unat_ucast32)
qed

lemma owner_bits: "Ident AND d = 0 \<Longrightarrow> Ident AND entry_owner d = 0"
proof -
  assume a: "Ident AND d = 0"
  have "\<not> (bit Ident k \<and> bit d k)" for k
    using a by (metis bit_0_eq bit_and_iff bot_apply bot_bool_def)
  from this [of 7] this [of 6] this [of 5] this [of 4] show ?thesis
    using bit_iff_and_push_bit_not_eq_0 [of Ident 7] bit_iff_and_push_bit_not_eq_0 [of Ident 6]
      bit_iff_and_push_bit_not_eq_0 [of Ident 5] bit_iff_and_push_bit_not_eq_0 [of Ident 4]
    by (auto simp: entry_owner_def push_bit_of_1)
qed

lemma mark_step:
  assumes "sound_store S" "snd (MarkPermissionEntriesForDeletion Ident (Some S)) = Some S'"
  shows "sound_store S' \<and> confined Ident S S' \<and> ps_Lsv S' = ps_Lsv S"
proof -
  have S': "S' = S\<lparr>ps_List := map (mark_entry Ident) (ps_List S)\<rparr>"
    using assms(2) by (simp add: MarkPermissionEntriesForDeletion_def)
  have i: "pe_Id (mark_entry Ident e) = pe_Id e" "wf_entry (mark_entry Ident e) = wf_entry e" for e
    by (simp_all add: mark_entry_def wf_entry_def)
  then have "pe_Id \<circ> mark_entry Ident = pe_Id" by auto
  moreover have "mark_entry Ident e = e" if "Ident AND pe_DMask e = 0" for e
    using owner_bits [OF that] by (simp add: mark_entry_owned owned_by_def)
  ultimately show ?thesis
    using assms(1) i
    by (auto simp: S' sound_store_def wf_store_def wf_list_def keyed_def confined_def) force
qed

lemma apply_defaults_step:
  assumes "sound_store S" "apply_defaults U Ident lst S = (r, S')"
  shows "sound_store S' \<and> confined Ident S S' \<and> ps_Lsv S' = ps_Lsv S \<and> ps_Version S' = ps_Version S"
  using assms
  by (auto simp: apply_defaults_def sound_store_def wf_store_def keyed_def confined_def case_prod_beta split: if_splits)

definition unmarked :: "perm_store \<Rightarrow> bool" where
  "unmarked S \<longleftrightarrow> (\<forall>e\<in>set (ps_List S). \<not> pe_MarkedForDeletion e)"

lemma sweep_step:
  assumes "sound_store S" "confined Ident S0 S" "unmarked S0"
    and "snd (DeleteMarkedPermissionEntries (Some S)) = Some S'"
  shows "sound_store S' \<and> confined Ident S0 S' \<and> unmarked S' \<and> ps_Lsv S' = ps_Lsv S \<and> ps_Version S' = ps_Version S"
proof -
  have S': "S' = S\<lparr>ps_List := filter (\<lambda>e. \<not> pe_MarkedForDeletion e) (ps_List S)\<rparr>"
    using assms(4) by (simp add: DeleteMarkedPermissionEntries_def)
  have "keyed S'"
    using assms(1) by (simp add: S' sound_store_def keyed_def distinct_map inj_on_def)
  then show ?thesis
    using assms(1-3)
    by (auto simp: S' sound_store_def wf_store_def wf_list_def confined_def unmarked_def)
qed

lemma apply_store_confined:
  assumes S: "sound_store S" "unmarked S"
    and a: "apply_store U Ident v1 P R (Some S) s = Some (Inr R', Store', s')"
  shows "\<exists>S'. Store' = Some S' \<and> sound_store S' \<and> unmarked S' \<and> confined Ident S S'
     \<and> ps_Lsv S \<le> ps_Lsv S' \<and> ps_Lsv S' \<le> ps_Version S' \<and> ps_Lsv S \<le> ps_Version S'"
proof -
  obtain x where "apply_versions U P (Some S) = Some x" using a by (auto simp: apply_store_def option_bind_Some_iff)
  then obtain V N where v: "apply_versions U P (Some S) = Some (Inr (V, N))"
    using a by (cases x) (auto simp: apply_store_def)
  obtain y where "apply_lists U v1 P R = Some y" using a by (auto simp: apply_store_def v option_bind_Some_iff)
  then obtain lst rp App where l: "apply_lists U v1 P R = Some (Inr (lst, rp, App))"
    using a by (cases y) (auto simp: apply_store_def v)
  obtain S1 where S1: "(if App then Some S else snd (MarkPermissionEntriesForDeletion Ident (Some S))) = Some S1"
    using a by (auto simp: apply_store_def v l option_bind_Some_iff)
  obtain z S2 where "apply_defaults U Ident lst (S1\<lparr>ps_Lsv := ucast N, ps_Version := ucast V\<rparr>) = (z, S2)"
    by (metis prod.exhaust)
  then obtain d where S2: "apply_defaults U Ident lst (S1\<lparr>ps_Lsv := ucast N, ps_Version := ucast V\<rparr>) = (Inr d, S2)"
    using a S1 by (cases z) (auto simp: apply_store_def v l)
  obtain w S3 s3 where "apply_loop U Ident lst rp (xn_Children lst) d S2 R s = Some (w, S3, s3)"
    using a S1 S2 by (auto simp: apply_store_def v l option_bind_Some_iff)
  then have S3: "apply_loop U Ident lst rp (xn_Children lst) d S2 R s = Some (Inr R', S3, s')"
    and St: "Store' = snd (DeleteMarkedPermissionEntries (Some S3))"
    using a S1 S2 by (cases w; auto simp: apply_store_def v l)+
  obtain S4 where S4: "snd (DeleteMarkedPermissionEntries (Some S3)) = Some S4"
    by (simp add: DeleteMarkedPermissionEntries_def)
  have 1: "sound_store S1" "confined Ident S S1"
    using mark_step [OF S(1)] S1 S(1) by (auto simp: confined_refl split: if_splits)
  let ?S1 = "S1\<lparr>ps_Lsv := ucast N, ps_Version := ucast V\<rparr>"
  have h1: "sound_store ?S1" "confined Ident S ?S1"
    using 1 by (simp_all add: sound_store_def wf_store_def keyed_def confined_def)
  note 2 = apply_defaults_step [OF h1(1) S2]
  note 3 = apply_loop_step [OF _ S3]
  have c3: "confined Ident S S3" "sound_store S3"
    using h1 2 3 confined_trans by blast+
  note 4 = sweep_step [OF c3(2,1) S(2) S4]
  show ?thesis
    using 2 3 4 apply_versions_bounds [OF v] by (auto simp: St S4 word_le_nat_alt)
qed

section \<open>Failed packets\<close>

lemma apply_documents_error: "apply_documents U p s = (Inl (x, st), s') \<Longrightarrow> EFI_ERROR st"
  by (auto simp: apply_documents_def split: prod.splits if_splits option.splits)

lemma apply_versions_error: "apply_versions U P St = Some (Inl (x, st)) \<Longrightarrow> EFI_ERROR st"
  by (auto simp: apply_versions_def Let_def split: Option.bind_splits option.splits if_splits)

lemma apply_lists_error: "apply_lists U v P R = Some (Inl (x, st)) \<Longrightarrow> EFI_ERROR st"
  by (auto simp: apply_lists_def split: Option.bind_splits option.splits if_splits prod.splits)

lemma apply_defaults_error: "apply_defaults U i l S = (Inl (x, st), S') \<Longrightarrow> EFI_ERROR st"
  by (auto simp: apply_defaults_def split: if_splits prod.splits)

lemma apply_permission_error: "apply_permission U i p m d S s = (Inl (x, st), d', S', s') \<Longrightarrow> EFI_ERROR st"
  by (auto simp: apply_permission_def Let_def split: option.splits if_splits prod.splits)

lemma apply_loop_error: "apply_loop U i l rp ns d S R s = Some (Inl (x, st), S', s') \<Longrightarrow> EFI_ERROR st"
proof (induction ns arbitrary: d S R s)
  case (Cons n ns)
  from Cons.prems show ?case
    by (auto split: Option.bind_splits if_splits prod.splits sum.splits dest: Cons.IH apply_permission_error)
qed simp

lemma apply_store_error: "apply_store U i v P R St s = Some (Inl (x, st), St', s') \<Longrightarrow> EFI_ERROR st"
  by (auto simp: apply_store_def split: Option.bind_splits sum.splits prod.splits if_splits
      dest: apply_versions_error apply_lists_error apply_defaults_error apply_loop_error)

lemma apply_exit_status: "apply_exit U st D St s = Some (st', D', St', s') \<Longrightarrow> st' = st"
  by (auto simp: apply_exit_def split: Option.bind_splits if_splits)

lemma ApplyPermissionsInXml_success:
  assumes S: "sound_store S" "unmarked S"
    and i: "ap_GetIdentityProperties A (pk_AuthToken D) s = (ist, Ident)"
    and a: "ApplyPermissionsInXml U A D (Some S) s = Some (st, D', Store', s')" "\<not> EFI_ERROR st"
  shows "\<exists>S'. Store' = Some S' \<and> sound_store S' \<and> unmarked S' \<and> confined Ident S S'
     \<and> ps_Lsv S \<le> ps_Lsv S' \<and> ps_Lsv S' \<le> ps_Version S' \<and> ps_Lsv S \<le> ps_Version S'"
proof -
  obtain Input R s1 R' Store1 s2 st0 D1 s3 where
    st: "apply_store U Ident (pk_V1Mode D) Input R (Some S) s1 = Some (Inr R', Store1, s2)"
    and e: "apply_exit U st0 D1 Store1 s3 = Some (st, D', Store', s')"
    using a i
    by (auto simp: ApplyPermissionsInXml_def split: Option.bind_splits if_splits prod.splits sum.splits
        dest: apply_documents_error apply_store_error apply_exit_status)
  from e a(2) apply_exit_status [OF e] have "Store' = Store1" by (simp add: apply_exit_def)
  with apply_store_confined [OF S st] show ?thesis by simp
qed

lemma keyed_map: "keyed S \<Longrightarrow> perm_map S i = Some m \<longleftrightarrow> (\<exists>e\<in>set (ps_List S). pe_Id e = i \<and> entry_masks e = m)"
  unfolding perm_map_def keyed_def
  by (subst map_of_eq_Some_iff) (auto simp: comp_def)

lemma confined_map:
  assumes "confined Ident S S'" "keyed S" "keyed S'"
  shows "perm_map S i = Some (p, d) \<Longrightarrow> Ident AND d = 0 \<Longrightarrow> perm_map S' i = Some (p, d)"
    "Ident AND ps_DefaultDMask S = 0 \<Longrightarrow> dom (perm_map S') \<subseteq> dom (perm_map S)"
proof -
  show "perm_map S' i = Some (p, d)" if "perm_map S i = Some (p, d)" "Ident AND d = 0"
    using that assms by (auto simp: keyed_map confined_def entry_masks_def)
  have dom: "dom (perm_map T) = pe_Id ` set (ps_List T)" for T
    by (simp add: perm_map_def dom_map_of_conv_image_fst image_image)
  show "dom (perm_map S') \<subseteq> dom (perm_map S)" if "Ident AND ps_DefaultDMask S = 0"
    using that assms(1) by (simp add: dom confined_def)
qed


text \<open>Nothing before the EXIT label writes a variable, so flash still holds the last commit.\<close>

lemma apply_documents_vars:
  assumes x: "xml_keeps_vars U" and a: "alloc_keeps_vars U" and d: "apply_documents U p s = (r, s')"
  shows "same_vars U s s'"
  using d xml_vars(1) [OF x] alloc_keeps_varsD(2) [OF a] new_document_vars [OF x]
  by (auto simp: apply_documents_def New_ResultPermissionPacketNodeList_def split: prod.splits if_splits option.splits)
    (meson same_vars_trans)+

lemma SetOutputPermissionStatus_vars:
  assumes x: "xml_keeps_vars U" and o: "SetOutputPermissionStatus U t p i r s = Some (st, t', s')"
  shows "same_vars U s s'"
  using o xml_vars(2) [OF x] add_text_node_vars [OF x]
  by (auto simp: SetOutputPermissionStatus_def split: Option.bind_splits prod.splits if_splits option.splits)
    (meson same_vars_trans)+

lemma apply_permission_vars:
  assumes "alloc_keeps_vars U" "apply_permission U Ident i m d S s = (r, d', S', s')"
  shows "same_vars U s s'"
  using assms(2) AddPermissionEntry_vars [OF assms(1)]
  by (auto simp: apply_permission_def Let_def case_prod_beta split: option.splits if_splits)

lemma apply_loop_vars:
  assumes x: "xml_keeps_vars U" and a: "alloc_keeps_vars U"
  shows "apply_loop U Ident l rp ns d S R s = Some (r, S', s') \<Longrightarrow> same_vars U s s'"
proof (induction ns arbitrary: d S R s)
  case (Cons n ns)
  from Cons.prems show ?case
    using apply_permission_vars [OF a] SetOutputPermissionStatus_vars [OF x] Cons.IH
    by (auto split: Option.bind_splits if_splits prod.splits sum.splits) (meson same_vars_trans)+
qed simp

lemma apply_store_vars:
  assumes x: "xml_keeps_vars U" and a: "alloc_keeps_vars U"
    and st: "apply_store U Ident v P R Store s = Some (r, Store', s')"
  shows "same_vars U s s'"
  using st apply_loop_vars [OF x a]
  by (auto simp: apply_store_def split: Option.bind_splits sum.splits prod.splits if_splits)

lemma apply_result_vars:
  "xml_keeps_vars U \<Longrightarrow> apply_result U R D s = (st, D', s') \<Longrightarrow> same_vars U s s'"
  by (auto simp: apply_result_def Let_def split: prod.splits if_splits dest: xml_vars)

lemma apply_exit_restores:
  assumes "perm_stored U s m" "EFI_ERROR st" "apply_exit U st D Store s = Some (st', D', Store', s')"
  shows "same_refs m Store' \<and> perm_stored U s' m"
  using assms(2,3) perm_nv.load_stored [OF assms(1)] by (auto simp: apply_exit_def)

lemma ApplyPermissionsInXml_failure:
  assumes x: "xml_keeps_vars U" and m: "perm_stored U s m"
    and i: "\<not> EFI_ERROR (fst (ap_GetIdentityProperties A (pk_AuthToken D) s))" "pk_State D = STATE_DATA_AUTHENTICATED"
    and a: "ApplyPermissionsInXml U A D Store s = Some (st, D', Store', s')" "EFI_ERROR st"
  shows "same_refs m Store' \<and> perm_stored U s' m"
proof -
  have k: "alloc_keeps_vars U" using m by (simp add: perm_stored_def nv_laws_def)
  note v = apply_documents_vars [OF x k] apply_store_vars [OF x k] apply_result_vars [OF x]
  obtain st0 D1 Store1 s3 where e: "apply_exit U st0 D1 Store1 s3 = Some (st, D', Store', s')" "same_vars U s s3"
    using a(1) i v
    by (auto simp: ApplyPermissionsInXml_def split: Option.bind_splits if_splits prod.splits sum.splits)
      (meson same_vars_trans)+
  from apply_exit_restores [OF perm_stored_vars [OF e(2) m] _ e(1)] apply_exit_status [OF e(1)] a(2)
  show ?thesis by simp
qed

section \<open>The last-known-good handler\<close>

text \<open>Writes to the mailboxes and to the published document leave the variable of the store alone.\<close>

definition spp_same :: "'s platform \<Rightarrow> 's \<Rightarrow> 's \<Rightarrow> bool" where
  "spp_same U s s' \<longleftrightarrow> GetVariable U VAR_NAME gDfciInternalVariableGuid s' = GetVariable U VAR_NAME gDfciInternalVariableGuid s"

lemma spp_same_refl [simp]: "spp_same U s s"
  by (simp add: spp_same_def)

lemma spp_same_trans: "spp_same U a b \<Longrightarrow> spp_same U b c \<Longrightarrow> spp_same U a c"
  by (simp add: spp_same_def)

lemma spp_same_vars: "same_vars U s s' \<Longrightarrow> spp_same U s s'"
  by (simp add: same_vars_def spp_same_def)

lemma spp_same_cong:
  "spp_same U s s' \<Longrightarrow> perm_stored U s m \<Longrightarrow> perm_stored U s' m"
  "spp_same U s s' \<Longrightarrow> perm_ready U m s \<Longrightarrow> perm_ready U m s'"
  by (simp_all add: spp_same_def perm_stored_def perm_ready_def)

lemma SetVariable_spp:
  assumes "variable_laws U" "SetVariable U n gDfciPermissionManagerVarNamespace a d s = (st, s')"
  shows "spp_same U s s'"
proof -
  have "(VAR_NAME, gDfciInternalVariableGuid) \<noteq> (n, gDfciPermissionManagerVarNamespace)"
    by (simp add: gDfciInternalVariableGuid_def gDfciPermissionManagerVarNamespace_def)
  with assms show ?thesis unfolding variable_laws_def spp_same_def by blast
qed

lemma FreeNvVars_spp: "variable_laws U \<Longrightarrow> spp_same U s (FreeNvVarsForIncomingPermissions U D s)"
  by (auto simp: FreeNvVarsForIncomingPermissions_def split: option.splits)
    (metis SetVariable_spp prod.collapse)

lemma AddCurrentAttributes_vars:
  assumes "xml_keeps_vars U" "AddCurrentAttributes U t p d s = (st, t', s')"
  shows "same_vars U s s'"
  using assms(2) xml_vars(3) [OF assms(1)]
  by (auto simp: AddCurrentAttributes_def split: prod.splits if_splits) (meson same_vars_trans)+

lemma SetCurrentPermissions_vars:
  assumes x: "xml_keeps_vars U" and c: "SetCurrentPermissions U t p i v d s = Some (st, t', s')"
  shows "same_vars U s s'"
proof -
  have m: "add_mask_node U t q nm w s = (st, t', s') \<Longrightarrow> same_vars U s s'" for t q nm w s st t' s'
    using add_text_node_vars [OF x] by (auto simp: add_mask_node_def split: prod.splits if_splits)
  show ?thesis
    using c xml_vars(2) [OF x] add_text_node_vars [OF x] m
    by (auto simp: SetCurrentPermissions_def split: Option.bind_splits prod.splits if_splits) (meson same_vars_trans)+
qed

lemma current_loop_vars:
  assumes "xml_keeps_vars U"
  shows "current_loop U p es t s = Some (t', s') \<Longrightarrow> same_vars U s s'"
proof (induction es arbitrary: t s)
  case (Cons e es)
  then show ?case
    using SetCurrentPermissions_vars [OF assms]
    by (auto split: Option.bind_splits prod.splits) (meson same_vars_trans)
qed simp

lemma AddPermissionsLsvNode_vars:
  "xml_keeps_vars U \<Longrightarrow> AddPermissionsLsvNode U t l s = (st, t', s') \<Longrightarrow> same_vars U s s'"
  by (auto simp: AddPermissionsLsvNode_def split: if_splits prod.splits dest: xml_vars)

lemma CreateXmlString_vars:
  assumes x: "xml_keeps_vars U" and a: "alloc_keeps_vars U"
    and c: "CreateXmlStringFromCurrentPermissions U m s = Some (st, v, s')"
  shows "same_vars U s s'"
  using c alloc_keeps_varsD(2) [OF a] new_document_vars [OF x] AddPermissionsLsvNode_vars [OF x]
    AddCurrentAttributes_vars [OF x] current_loop_vars [OF x] xml_vars(4) [OF x]
  by (auto simp: CreateXmlStringFromCurrentPermissions_def New_CurrentPermissionsPacketNodeList_def
      split: Option.bind_splits prod.splits if_splits option.splits) (meson same_vars_trans)+

lemma PopulateCurrentPermissions_spp:
  assumes x: "xml_keeps_vars U" and l: "nv_laws U"
    and c: "PopulateCurrentPermissions U m f s = Some (st, s')"
  shows "spp_same U s s'"
proof -
  have k: "alloc_keeps_vars U" "variable_laws U" using l by (simp_all add: nv_laws_def)
  have d: "spp_same U s (snd (SetVariable U n gDfciPermissionManagerVarNamespace a d s))" for n a d s
    by (metis SetVariable_spp [OF k(2)] prod.collapse)
  show ?thesis
    using c spp_same_vars [OF CreateXmlString_vars [OF x k(1)]] SetVariable_spp [OF k(2)] d
    by (auto simp: PopulateCurrentPermissions_def Let_def split: Option.bind_splits prod.splits if_splits)
      (meson spp_same_trans)+
qed

section \<open>Properties\<close>

text \<open>
  A signed packet and its documents for concrete instances: version 3, lowest supported version
  2, replacing the permissions of the user identity by one for the setting \<open>B\<close>.
\<close>

definition example_input :: xml_node where
  "example_input = XmlNode ''PermissionsPacket'' None [] True
     [XmlNode ''Version'' (Some ''3'') [] False [], XmlNode ''LowestSupportedVersion'' (Some ''2'') [] False [],
      XmlNode ''Permissions'' None [(''Append'', ''False'')] False
        [XmlNode ''Permission'' None [] False
           [XmlNode ''Id'' (Some ''B'') [] False [], XmlNode ''PMask'' (Some ''1'') [] False []]]]"

definition example_docs :: demo_state where
  "example_docs = \<lparr>dm_vars = [],
     dm_docs = [(''P'', example_input), (RESULT_XML_TEMPLATE, XmlNode ''ResultsPacket'' None [] True [])]\<rparr>"

definition example_packet :: packet where
  "example_packet = \<lparr>pk_Packet = replicate 22 0 @ to_bytes ''P'' @ le32 24 @ replicate 20 0, pk_PacketSize = 47,
     pk_MailboxName = ''DfciPermissionApply'', pk_ResultName = ''DfciPermissionResult'',
     pk_NameSpace = gDfciPermissionManagerVarNamespace, pk_ExpectedSignature = 0x4150504D, pk_ExpectedVersion = 2,
     pk_Signature = Some 23, pk_SignedDataLength = 23, pk_State = STATE_DATA_PRESENT, pk_SessionId = 5,
     pk_DfciWildcard = False, pk_VarIdentity = None, pk_Version = None, pk_LSV = None, pk_V1Mode = False,
     pk_StatusCode = 0, pk_ResetRequired = False, pk_LKGDirty = False, pk_Unenroll = False, pk_PayloadSize = 1,
     pk_Payload = Some 22, pk_AuthToken = 0, pk_DfciIdentity = 0, pk_UserConfirmationRequired = False,
     pk_ResultXml = None, pk_ResultXmlSize = 0, pk_Manufacturer = None, pk_ManufacturerSize = 0,
     pk_ProductName = None, pk_ProductNameSize = 0, pk_SerialNumber = None, pk_SerialNumberSize = 0\<rparr>"

definition authenticated_packet :: packet where
  "authenticated_packet = example_packet\<lparr>pk_State := STATE_DATA_AUTHENTICATED, pk_AuthToken := 7\<rparr>"

lemma example_sound: "sound_store example_store" "unmarked example_store"
  using example_store_wf by (simp_all add: sound_store_def unmarked_def example_store_def)

lemma example_applies:
  "map_option fst (ApplyPermissionsInXml demo_platform (example_auth 0x40) authenticated_packet (Some example_store)
      example_docs) = Some EFI_SUCCESS"
  by code_simp


lemma example_result:
  obtains D' Store' s' where "ApplyPermissionsInXml demo_platform (example_auth 0x40) authenticated_packet
    (Some example_store) example_docs = Some (EFI_SUCCESS, D', Store', s')"
  using example_applies by fastforce

lemma example_identity: "ap_GetIdentityProperties (example_auth 0x40) (pk_AuthToken authenticated_packet) example_docs = (EFI_SUCCESS, 0x40)"
  by (simp add: example_auth_def authenticated_packet_def)

text \<open>
  A permission packet that is applied changes only what has been delegated to the
  identity that signed it.  Every permission whose delegation mask does not include the identity
  is found unchanged afterwards, and when the default delegation mask does not include the
  identity, no setting gains an entry and the default masks stay as they were.
\<close>

lemma ApplyPermissionsInXml_respects_delegation:
  assumes "sound_store S" "unmarked S" "ap_GetIdentityProperties A (pk_AuthToken D) s = (ist, Ident)"
    and "ApplyPermissionsInXml U A D (Some S) s = Some (st, D', Store', s')" "\<not> EFI_ERROR st"
  shows "\<exists>S'. Store' = Some S' \<and> sound_store S' \<and> unmarked S'
    \<and> (\<forall>i p d. perm_map S i = Some (p, d) \<longrightarrow> Ident AND d = 0 \<longrightarrow> perm_map S' i = Some (p, d))
    \<and> (Ident AND ps_DefaultDMask S = 0 \<longrightarrow> dom (perm_map S') \<subseteq> dom (perm_map S)
         \<and> ps_DefaultPMask S' = ps_DefaultPMask S \<and> ps_DefaultDMask S' = ps_DefaultDMask S)"
proof -
  obtain S' where S': "Store' = Some S'" "sound_store S'" "unmarked S'" "confined Ident S S'"
    using ApplyPermissionsInXml_success [OF assms] by blast
  then show ?thesis
    using confined_map [OF S'(4)] assms(1) by (auto simp: sound_store_def confined_def)
qed

text \<open>
  Property C19: anti-rollback.  A permission packet is applied only when its version is at least
  the lowest supported version of the store; afterwards the lowest supported version is not
  smaller than before and not larger than the stored version, so the store can be saved and
  loaded again.
\<close>

theorem ApplyPermissionsInXml_lsv_monotone:
  assumes "sound_store S" "unmarked S" "ap_GetIdentityProperties A (pk_AuthToken D) s = (ist, Ident)"
    and "ApplyPermissionsInXml U A D (Some S) s = Some (st, D', Store', s')" "\<not> EFI_ERROR st"
  shows "\<exists>S'. Store' = Some S' \<and> ps_Lsv S \<le> ps_Version S' \<and> ps_Lsv S \<le> ps_Lsv S' \<and> ps_Lsv S' \<le> ps_Version S'"
  using ApplyPermissionsInXml_success [OF assms] by blast

theorem ApplyPermissionsInXml_lsv_monotone_witness:
  "\<exists>D' S' s'. ApplyPermissionsInXml demo_platform (example_auth 0x40) authenticated_packet (Some example_store)
     example_docs = Some (EFI_SUCCESS, D', Some S', s') \<and> 1 \<le> ps_Lsv S' \<and> ps_Lsv S' \<le> ps_Version S'"
proof -
  obtain D' Store' s' where a: "ApplyPermissionsInXml demo_platform (example_auth 0x40) authenticated_packet
      (Some example_store) example_docs = Some (EFI_SUCCESS, D', Store', s')"
    by (rule example_result)
  have "ps_Lsv example_store = 1" by (simp add: example_store_def)
  with ApplyPermissionsInXml_lsv_monotone [OF example_sound example_identity a] a show ?thesis by auto
qed

text \<open>The authentication protocol writes no variable.\<close>

definition auth_keeps_vars :: "'s platform \<Rightarrow> 's auth_protocol \<Rightarrow> bool" where
  "auth_keeps_vars U A \<longleftrightarrow>
     (\<forall>d g t s st t' s'. ap_AuthWithSignedData A d g t s = Some (st, t', s') \<longrightarrow> same_vars U s s') \<and>
     (\<forall>t s st t' s'. ap_DisposeAuthToken A t s = (st, t', s') \<longrightarrow> same_vars U s s')"

lemma ValidateAndAuthenticate_vars:
  assumes "auth_keeps_vars U A" "ValidateAndAuthenticatePermissions A D s = Some (st, D', s')"
  shows "same_vars U s s' \<and> (\<not> EFI_ERROR st \<longrightarrow> pk_State D' = STATE_DATA_AUTHENTICATED)"
  using assms
  by (auto simp: ValidateAndAuthenticatePermissions_def auth_keeps_vars_def Let_def
      split: Option.bind_splits if_splits prod.splits)

lemma ApplyPermissionsInXml_no_identity:
  assumes "EFI_ERROR (fst (ap_GetIdentityProperties A (pk_AuthToken D) s)) \<or> pk_State D \<noteq> STATE_DATA_AUTHENTICATED"
  shows "\<exists>D'. ApplyPermissionsInXml U A D Store s = Some (EFI_ABORTED, D', Store, s)"
  using assms by (auto simp: ApplyPermissionsInXml_def case_prod_beta)

lemma permissions_packet_body_failure:
  assumes x: "xml_keeps_vars U" and A: "auth_keeps_vars U A" and m: "perm_stored U s m"
    and b: "permissions_packet_body U A D Store s = Some (st, D', Store', s')" and e: "EFI_ERROR st"
  shows "(Store' = Store \<or> same_refs m Store') \<and> perm_stored U s' m"
proof -
  have va: "perm_stored U s1 m" if "ValidateAndAuthenticatePermissions A D s = Some (st1, D1, s1)" for st1 D1 s1
    by (rule perm_stored_vars [OF conjunct1 [OF ValidateAndAuthenticate_vars [OF A that]] m])
  have ap: "(Store1 = Store \<or> same_refs m Store1) \<and> perm_stored U s2 m"
    if "ApplyPermissionsInXml U A D1 Store s1 = Some (st1, D2, Store1, s2)" "EFI_ERROR st1" "perm_stored U s1 m"
    for D1 s1 st1 D2 Store1 s2
    using that ApplyPermissionsInXml_failure [OF x that(3) _ _ that(1,2)]
      ApplyPermissionsInXml_no_identity [of A D1 s1 U Store] by fastforce
  consider (early) "Store' = Store" "s' = s"
    | (auth) st1 D1 where "ValidateAndAuthenticatePermissions A D s = Some (st1, D1, s')" "Store' = Store"
    | (xml) st1 D1 s1 D2 where "ValidateAndAuthenticatePermissions A D s = Some (st1, D1, s1)"
        "ApplyPermissionsInXml U A D1 Store s1 = Some (st, D2, Store', s')"
    using b e
    by (auto simp: permissions_packet_body_def Let_def split: Option.bind_splits if_splits prod.splits)
  then show ?thesis
  proof cases
    case xml
    from ap [OF xml(2) e va [OF xml(1)]] show ?thesis .
  qed (simp_all add: m va)
qed

text \<open>
  Property C18: a permission packet that fails, at whatever stage, leaves in memory either the
  store as it was before the packet or the store of the last commit, and the variable with the
  last commit is untouched: a rejected packet never has a partial effect.
\<close>

theorem ApplyNewPermissionsPacket_failure_has_no_effect:
  assumes x: "xml_keeps_vars U" and A: "auth_keeps_vars U A" and m: "perm_stored U s m"
    and a: "ApplyNewPermissionsPacket U (Some A) This_ok (Some D) Store s = Some (st, D', Store', s')"
    and e: "EFI_ERROR st"
  shows "(Store' = Store \<or> same_refs m Store') \<and> perm_stored U s' m"
proof -
  have dispose: "perm_stored U s2 m" if "ap_DisposeAuthToken A t s1 = (x1, x2, s2)" "perm_stored U s1 m" for t s1 x1 x2 s2
    using A that perm_stored_vars by (metis auth_keeps_vars_def)
  show ?thesis
    using a e m permissions_packet_body_failure [OF x A m] dispose
    by (auto simp: ApplyNewPermissionsPacket_def split: Option.bind_splits if_splits prod.splits)
qed

definition example_saved :: demo_state where
  "example_saved = snd (snd (SaveToFlash demo_platform (Some example_store) example_state))"

lemma example_stored:
  "perm_stored demo_platform example_saved (Some example_store)" "dm_docs example_saved = dm_docs example_state"
proof -
  obtain s' where s: "SaveToFlash demo_platform (Some example_store) example_state
      = (EFI_SUCCESS, Some (example_store\<lparr>ps_Modified := False\<rparr>), s')" "dm_docs s' = dm_docs example_state"
    using example_save by blast
  then have "example_saved = s'" by (simp add: example_saved_def)
  with s SaveToFlash_stores [OF example_ready s(1)]
  show "perm_stored demo_platform example_saved (Some example_store)" "dm_docs example_saved = dm_docs example_state"
    by simp_all
qed

lemma example_payload:
  "uintn_sub 47 23 = 24"
  "rd_cstr (replicate 22 0 @ to_bytes ''P'' @ le32 24 @ replicate 20 0) 22 (Suc 0) = Some ''P''"
  by code_simp+

lemma example_auth_vars: "auth_keeps_vars demo_platform (example_auth i)"
  by (auto simp: auth_keeps_vars_def example_auth_def)

theorem ApplyNewPermissionsPacket_failure_has_no_effect_witness:
  "\<exists>D' Store' s'. ApplyNewPermissionsPacket demo_platform (Some (example_auth 0x40)) True (Some example_packet)
       (Some example_store) example_saved = Some (EFI_NO_MAPPING, D', Store', s')
     \<and> perm_stored demo_platform s' (Some example_store)"
proof -
  obtain m2 s3 where "LoadFromFlash demo_platform example_saved = Some (EFI_SUCCESS, m2, s3)"
    using perm_nv.load_stored [OF example_stored(1)] by blast
  then have "map_option fst (ApplyNewPermissionsPacket demo_platform (Some (example_auth 0x40)) True (Some example_packet)
      (Some example_store) example_saved) = Some EFI_NO_MAPPING"
    by (simp add: ApplyNewPermissionsPacket_def permissions_packet_body_def ValidatePermissionsPacket_def
        ValidateAndAuthenticatePermissions_def ApplyPermissionsInXml_def apply_documents_def apply_exit_def
        new_document_def demo_services example_packet_def example_auth_def example_stored(2) example_state_def
        MAX_ALLOWABLE_DFCI_APPLY_VAR_SIZE_def rd32_def rd_def example_payload)
  then obtain D' Store' s' where a: "ApplyNewPermissionsPacket demo_platform (Some (example_auth 0x40)) True
      (Some example_packet) (Some example_store) example_saved = Some (EFI_NO_MAPPING, D', Store', s')"
    by fastforce
  from ApplyNewPermissionsPacket_failure_has_no_effect [OF demo_laws(4) example_auth_vars example_stored(1) a] a
  show ?thesis by auto
qed

text \<open>
  A packet that passes \<open>ValidatePermissionsPacket\<close> is at most 24 KiB, its signature
  starts exactly where the signed data ends, inside the packet, and its payload lies behind the
  first byte and completely inside the signed data, so everything that is parsed was signed.
\<close>

lemma ValidatePermissionsPacket_accepts:
  "\<not> EFI_ERROR (ValidatePermissionsPacket D) \<longleftrightarrow>
     pk_PacketSize D \<le> 24576 \<and> pk_SignedDataLength D < pk_PacketSize D
     \<and> pk_Signature D = Some (pk_SignedDataLength D)
     \<and> (\<exists>p. pk_Payload D = Some p \<and> 0 < p \<and> p + pk_PayloadSize D \<le> pk_SignedDataLength D)"
  by (auto simp: ValidatePermissionsPacket_def MAX_ALLOWABLE_DFCI_APPLY_VAR_SIZE_def split: option.splits)

text \<open>
  Property C39: committing the permissions after a packet either writes them to the variable and
  succeeds, or, when the write fails, reports the error and goes back to the permissions of the
  previous commit, in memory as in the variable.  Restoring brings back the previous commit.
\<close>

theorem LKG_Handler_commit_or_rollback:
  assumes x: "xml_keeps_vars U" and m: "perm_stored U s m0" and d: "pk_LKGDirty D"
    and r: "perm_ready U Store s" and oper: "Operation \<in> {DFCI_LKG_COMMIT, DFCI_LKG_RESTORE}"
    and l: "LKG_Handler U True (Some D) Operation Store s = Some (st, D', Store', s')"
  shows "if Operation = DFCI_LKG_COMMIT \<and> \<not> EFI_ERROR st then perm_stored U s' Store
         else same_refs m0 Store' \<and> perm_stored U s' m0"
proof -
  have laws: "nv_laws U" "variable_laws U" using m by (auto simp: perm_stored_def nv_laws_def)
  define s1 where "s1 = FreeNvVarsForIncomingPermissions U (Some D) s"
  have f: "spp_same U s s1" unfolding s1_def by (rule FreeNvVars_spp [OF laws(2)])
  note m1 = spp_same_cong(1) [OF f m] and r1 = spp_same_cong(2) [OF f r]
  obtain sst Store1 s2 where sv: "SaveToFlash U Store s1 = (sst, Store1, s2)" by (metis prod_cases3)
  have c: "if EFI_ERROR sst then perm_stored U s2 m0 else perm_stored U s2 Store"
    using perm_nv.save_stores [OF r1 arg_cong [OF sv, of Some]]
      perm_nv.save_error [OF r1 arg_cong [OF sv, of Some] _ m1] by simp
  obtain m2 s3 where ld: "LoadFromFlash U s1 = Some (EFI_SUCCESS, m2, s3)" "same_refs m0 m2" "perm_stored U s3 m0"
    using perm_nv.load_stored [OF m1] by blast
  have ld2: "\<exists>m2 s3. LoadFromFlash U s2 = Some (EFI_SUCCESS, m2, s3) \<and> same_refs m0 m2 \<and> perm_stored U s3 m0"
    if "EFI_ERROR sst"
    using perm_nv.load_stored c that by simp
  have pc: "perm_stored U s4 Store" if "PopulateCurrentPermissions U Store1 True s2 = Some (x1, s4)" "\<not> EFI_ERROR sst" for x1 s4
    using spp_same_cong(1) [OF PopulateCurrentPermissions_spp [OF x laws(1) that(1)]] c that(2) by simp
  show ?thesis
    using oper l d sv ld ld2 pc
    by (auto simp: LKG_Handler_def Let_def s1_def [symmetric] split: Option.bind_splits if_splits prod.splits)
qed

theorem LKG_Handler_commit_or_rollback_witness:
  "\<exists>D' Store' s'. LKG_Handler demo_platform True (Some (example_packet\<lparr>pk_LKGDirty := True\<rparr>)) DFCI_LKG_RESTORE
      (Some example_store) example_saved = Some (EFI_SUCCESS, D', Store', s') \<and> same_refs (Some example_store) Store'"
proof -
  have r: "perm_ready demo_platform (Some example_store) example_saved"
    using example_flashable demo_laws example_stored(1)
    by (auto simp: perm_ready_def nv_laws_def perm_stored_def) (simp_all add: example_store_def)
  obtain m2 s3 where "LoadFromFlash demo_platform
      (FreeNvVarsForIncomingPermissions demo_platform (Some (example_packet\<lparr>pk_LKGDirty := True\<rparr>)) example_saved)
      = Some (EFI_SUCCESS, m2, s3)"
    using perm_nv.load_stored [OF spp_same_cong(1) [OF FreeNvVars_spp [OF demo_laws(3)] example_stored(1)]] by blast
  then have "map_option fst (LKG_Handler demo_platform True (Some (example_packet\<lparr>pk_LKGDirty := True\<rparr>)) DFCI_LKG_RESTORE
      (Some example_store) example_saved) = Some EFI_SUCCESS"
    by (simp add: LKG_Handler_def)
  then obtain D' Store' s' where a: "LKG_Handler demo_platform True (Some (example_packet\<lparr>pk_LKGDirty := True\<rparr>))
      DFCI_LKG_RESTORE (Some example_store) example_saved = Some (EFI_SUCCESS, D', Store', s')"
    by fastforce
  have "pk_LKGDirty (example_packet\<lparr>pk_LKGDirty := True\<rparr>)" by simp
  from LKG_Handler_commit_or_rollback [OF demo_laws(4) example_stored(1) this r _ a] a show ?thesis by auto
qed

end
