(* ===== verification/Auth_Protocol.thy ===== *)
theory Auth_Protocol
  imports Auth_Manager Permission_Apply
begin

text \<open>
  The authentication protocol as the identity and authentication manager installs it
  (\<open>mAuthProtocol\<close> in \<open>IdentityAndAuthManagerDxe.c\<close>): the operations of \<open>Identity_Map\<close>,
  \<open>Cert_Store\<close> and \<open>Auth_Manager\<close> as the record the permission library takes as its parameter.
  The state of the whole system is the pair of the driver's state and the platform's state; the
  platform services act on the second component.

  The theory shows that the manager meets the contract under which the permission library was
  verified.
\<close>

section \<open>The platform of the whole system\<close>

definition lift_platform :: "'s platform \<Rightarrow> (auth_state \<times> 's) platform" where
  "lift_platform U = \<lparr>
     AllocatePool = (\<lambda>n (a, s). case AllocatePool U n s of (ok, s') \<Rightarrow> (ok, (a, s'))),
     GetVariable = (\<lambda>n g (a, s). GetVariable U n g s),
     SetVariable = (\<lambda>n g at d (a, s). case SetVariable U n g at d s of (st, s') \<Rightarrow> (st, (a, s'))),
     GetTime = (\<lambda>(a, s). case GetTime U s of (st, t, s') \<Rightarrow> (st, t, (a, s'))),
     CreateXmlTree = (\<lambda>t (a, s). case CreateXmlTree U t s of (st, n, s') \<Rightarrow> (st, n, (a, s'))),
     FindFirstChildNodeByName = FindFirstChildNodeByName U,
     FindFirstAttributeByName = FindFirstAttributeByName U,
     AddNode = (\<lambda>t p nm v (a, s). case AddNode U t p nm v s of (st, t', q, s') \<Rightarrow> (st, t', q, (a, s'))),
     AddAttributeToNode = (\<lambda>t p nm v (a, s). case AddAttributeToNode U t p nm v s of (st, t', s') \<Rightarrow> (st, t', (a, s'))),
     XmlTreeToString = (\<lambda>t (a, s). case XmlTreeToString U t s of (st, x, n, s') \<Rightarrow> (st, x, n, (a, s'))),
     AsciiStrDecimalToUintn = AsciiStrDecimalToUintn U,
     AsciiValueToStringS = AsciiValueToStringS U,
     AsciiSPrint_date = AsciiSPrint_date U,
     DfciV1TranslateEnum = DfciV1TranslateEnum U,
     DfciV1TranslateString = DfciV1TranslateString U,
     DfciGetGroupEntries = DfciGetGroupEntries U,
     GetSectionFromAnyFv = (\<lambda>(a, s). GetSectionFromAnyFv U s),
     PcdUnsignedListFormatAllow = PcdUnsignedListFormatAllow U\<rparr>"

definition auth_manager :: "'s platform \<Rightarrow> 's auth_env \<Rightarrow> (auth_state \<times> 's) auth_protocol" where
  "auth_manager U E = \<lparr>
     ap_GetEnrolledIdentities = (\<lambda>(a, s). GetEnrolledIdentities (au_Certs a)),
     ap_AuthWithPW = (\<lambda>p n (a, s). case AuthWithPW U E p n a s of (st, t, a', s') \<Rightarrow> (st, t, (a', s'))),
     ap_AuthWithSignedData = (\<lambda>d sg t (a, s). do {
        (st, t', a', s') \<leftarrow> AuthWithSignedData U E (Some d) (Some sg) (Some t) a s;
        u \<leftarrow> t';
        Some (st, u, (a', s')) }),
     ap_DisposeAuthToken = (\<lambda>t (a, s). case DisposeAuthToken (Some t) (au_Map a) of (st, t', m) \<Rightarrow>
        (st, case t' of None \<Rightarrow> t | Some u \<Rightarrow> u, (a\<lparr>au_Map := m\<rparr>, s))),
     ap_GetIdentityProperties = (\<lambda>t (a, s). GetIdentityProperties (Some t) 0 (au_Map a))\<rparr>"

section \<open>The contract of the protocol\<close>

lemma lift_same_vars: "same_vars (lift_platform U) (a, s) (a', s') \<longleftrightarrow> same_vars U s s'"
  by (simp add: same_vars_def lift_platform_def)

lemma lift_services:
  "AllocatePool (lift_platform U) n (a, s) = (fst (AllocatePool U n s), (a, snd (AllocatePool U n s)))"
  "GetVariable (lift_platform U) nm g (a, s) = GetVariable U nm g s"
  "SetVariable (lift_platform U) nm g at d (a, s) = (fst (SetVariable U nm g at d s), (a, snd (SetVariable U nm g at d s)))"
  "GetTime (lift_platform U) (a, s) = (fst (GetTime U s), fst (snd (GetTime U s)), (a, snd (snd (GetTime U s))))"
  "CreateXmlTree (lift_platform U) x (a, s) =
     (fst (CreateXmlTree U x s), fst (snd (CreateXmlTree U x s)), (a, snd (snd (CreateXmlTree U x s))))"
  "snd (snd (snd (AddNode (lift_platform U) nd p nm v (a, s)))) = (a, snd (snd (snd (AddNode U nd p nm v s))))"
  "snd (snd (AddAttributeToNode (lift_platform U) nd p nm w (a, s))) = (a, snd (snd (AddAttributeToNode U nd p nm w s)))"
  "snd (snd (snd (XmlTreeToString (lift_platform U) nd (a, s)))) = (a, snd (snd (snd (XmlTreeToString U nd s))))"
  by (simp_all add: lift_platform_def case_prod_beta)

lemma lift_laws:
  "alloc_succeeds U \<Longrightarrow> alloc_succeeds (lift_platform U)"
  "alloc_keeps_vars U \<Longrightarrow> alloc_keeps_vars (lift_platform U)"
  "variable_laws U \<Longrightarrow> variable_laws (lift_platform U)"
  "xml_keeps_vars U \<Longrightarrow> xml_keeps_vars (lift_platform U)"
proof -
  show "variable_laws (lift_platform U)" if v: "variable_laws U"
  proof -
    have "\<not> EFI_ERROR (fst (SetVariable U n g at d s)) \<Longrightarrow> d \<noteq> [] \<Longrightarrow>
        GetVariable U n g (snd (SetVariable U n g at d s)) = (EFI_SUCCESS, d, at)"
      "(n', g') \<noteq> (n, g) \<Longrightarrow> GetVariable U n' g' (snd (SetVariable U n g at d s)) = GetVariable U n' g' s"
      "EFI_ERROR (fst (SetVariable U n g at d s)) \<Longrightarrow> same_vars U s (snd (SetVariable U n g at d s))" for n g at d s n' g'
      using variable_lawsD [OF v prod.collapse [symmetric]] by auto
    then show ?thesis
      unfolding variable_laws_def by (auto simp: lift_services lift_same_vars)
  qed
qed (auto simp: alloc_succeeds_def alloc_keeps_vars_def xml_keeps_vars_def lift_services lift_same_vars)

text \<open>The random number generator does not write variables.\<close>

definition rng_keeps_vars :: "'s platform \<Rightarrow> 's auth_env \<Rightarrow> bool" where
  "rng_keeps_vars U E \<longleftrightarrow> (\<forall>s. same_vars U s (snd (LocateRng E s))) \<and> (\<forall>s. same_vars U s (snd (snd (GetRNG E s))))"

lemma CreateRandomAuthToken_vars:
  assumes "rng_keeps_vars U E" "CreateRandomAuthToken E a s = (r, a', s')"
  shows "same_vars U s s'"
proof -
  have "same_vars U x y" if "LocateRng E x = (st, y)" for st x y
    using assms(1) that by (metis rng_keeps_vars_def snd_conv)
  moreover have "same_vars U x y" if "GetRNG E x = (st, v, y)" for st v x y
    using assms(1) that by (metis rng_keeps_vars_def snd_conv)
  ultimately show ?thesis
    using assms(2) by (auto simp: CreateRandomAuthToken_def split: prod.splits if_splits) (meson same_vars_trans)+
qed

lemma CreateAuthTokenWithMapping_vars:
  assumes k: "alloc_keeps_vars U" and r: "rng_keeps_vars U E" and c: "CreateAuthTokenWithMapping U E i a s = (u, a', s')"
  shows "same_vars U s s'"
proof -
  have "same_vars U x y" if "AddAuthHandleMapping U t p m x = (st, m', y)" for t p m x st m' y
    using that alloc_keeps_varsD(1) [OF k]
    by (auto simp: AddAuthHandleMapping_def split: option.splits prod.splits if_splits)
  then show ?thesis
    using c CreateRandomAuthToken_vars [OF r]
    by (auto simp: CreateAuthTokenWithMapping_def split: prod.splits if_splits option.splits) (meson same_vars_trans)+
qed

lemma auth_manager_keeps_vars:
  assumes "alloc_keeps_vars U" "rng_keeps_vars U E"
  shows "auth_keeps_vars (lift_platform U) (auth_manager U E)"
  using CreateAuthTokenWithMapping_vars [OF assms]
  by (auto simp: auth_keeps_vars_def auth_manager_def lift_same_vars AuthWithSignedData_def Let_def
      split: Option.bind_splits prod.splits option.splits if_splits)

section \<open>Authentication of a permission packet\<close>

lemma auth_manager_token:
  assumes w: "wf_map (au_Map a)"
    and r: "ap_AuthWithSignedData (auth_manager U E) d sg t (a, s) = Some (st, u, (a', s'))" and ok: "\<not> EFI_ERROR st"
  obtains k where "find (verifies E (au_Certs a) d sg) key_order = Some k"
    "ap_GetIdentityProperties (auth_manager U E) u (a', s') = (EFI_SUCCESS, k)"
proof -
  obtain t' where c: "AuthWithSignedData U E (Some d) (Some sg) (Some t) a s = Some (st, t', a', s')" "t' = Some u"
    using r by (auto simp: auth_manager_def split: Option.bind_splits)
  show ?thesis
    using AuthWithSignedData_correct_map [OF w c(1) ok] c(2) that
    by (auto simp: auth_manager_def GetIdentityProperties_map)
qed

lemma ValidateAndAuthenticate_signed:
  assumes w: "wf_map (au_Map a)"
    and v: "ValidateAndAuthenticatePermissions (auth_manager U E) D (a, s) = Some (st, D', s')" and ok: "\<not> EFI_ERROR st"
  obtains k where "find (verifies E (au_Certs a) (take (pk_SignedDataLength D) (pk_Packet D))
      (drop (pk_SignedDataLength D) (pk_Packet D))) key_order = Some k"
    "ap_GetIdentityProperties (auth_manager U E) (pk_AuthToken D') s' = (EFI_SUCCESS, k)"
proof -
  obtain st1 u where c: "ap_AuthWithSignedData (auth_manager U E) (take (pk_SignedDataLength D) (pk_Packet D))
      (drop (pk_SignedDataLength D) (pk_Packet D)) (pk_AuthToken D) (a, s) = Some (st1, u, s')"
    "\<not> EFI_ERROR st1" "pk_AuthToken D' = u"
    using v ok by (auto simp: ValidateAndAuthenticatePermissions_def Let_def split: Option.bind_splits if_splits)
  obtain a1 s1 where s': "s' = (a1, s1)" by (cases s')
  show ?thesis
    using auth_manager_token [OF w c(1) [unfolded s'] c(2)] c(3) that unfolding s' by metis
qed

end
