(* ===== verification/Setting_Provider.thy ===== *)
theory Setting_Provider
  imports Permission_Access Dfci_Packet
begin

text \<open>
  The settings manager's list of providers (\<open>SettingsManagerProvider.c\<close>) and the setting access
  protocol on top of it (\<open>SettingsManager.c\<close>).  A provider is a record of functions, as in
  \<open>DfciSettingsProvider.h\<close>; the list of providers and the list of groups are passed explicitly.
  A value is the list of its bytes.  Base64, hexadecimal conversion, certificate thumbprints and
  the platform's notification of a changed setting are parameters, the record \<open>set_env\<close>.

  The theory shows that a value reaches a provider only if the identity behind the token may write
  the setting, what reading a group returns, and that the text forms of the enumerations are read
  back as they were printed.
\<close>

section \<open>Providers\<close>

datatype setting_type =
    TYPE_ENABLE | TYPE_SECUREBOOTKEYENUM | TYPE_PASSWORD | TYPE_USBPORTENUM | TYPE_STRING | TYPE_BINARY
  | TYPE_CERT | TYPE_UNDEFINED

text \<open>
  \<open>pv_Get\<close> and \<open>pv_GetDefault\<close> take whether a buffer is given and its size, and return the status,
  the new size and the bytes written to the buffer.
\<close>

record 's provider =
  pv_Id :: string
  pv_Type :: setting_type
  pv_Flags :: u64
  pv_Set :: "bytes \<Rightarrow> u64 \<Rightarrow> 's \<Rightarrow> EFI_STATUS \<times> u64 \<times> 's"
  pv_Get :: "bool \<Rightarrow> nat \<Rightarrow> 's \<Rightarrow> EFI_STATUS \<times> nat \<times> bytes"
  pv_GetDefault :: "bool \<Rightarrow> nat \<Rightarrow> 's \<Rightarrow> EFI_STATUS \<times> nat \<times> bytes"
  pv_SetDefault :: "'s \<Rightarrow> EFI_STATUS \<times> 's"

record 's set_env =
  Base64Decode :: "string \<Rightarrow> bool \<Rightarrow> nat \<Rightarrow> EFI_STATUS \<times> nat \<times> bytes"
  Base64Encode :: "bytes \<Rightarrow> EFI_STATUS \<times> nat \<times> string"
  AsciiStrHexToBytes :: "string \<Rightarrow> EFI_STATUS \<times> bytes"
  DfciV1NumberFromId :: "string \<Rightarrow> string option"
  CertThumbprint :: "bytes \<Rightarrow> 's \<Rightarrow> EFI_STATUS \<times> string"
  DfciSettingChangedNotification :: "string \<Rightarrow> u64 \<Rightarrow> setting_type \<Rightarrow> bytes \<Rightarrow> u64 \<Rightarrow> 's \<Rightarrow> EFI_STATUS \<times> 's"

abbreviation (input) FLAGS_OUT_REBOOT_REQUIRED :: u64 where "FLAGS_OUT_REBOOT_REQUIRED \<equiv> 0x1"
abbreviation (input) FLAGS_OUT_WRITE_ACCESS :: u64 where "FLAGS_OUT_WRITE_ACCESS \<equiv> 0x100"
abbreviation (input) FLAGS_OUT_ALREADY_SET :: u64 where "FLAGS_OUT_ALREADY_SET \<equiv> 0x80000000"
abbreviation (input) FLAGS_NO_PREBOOT_UI :: u64 where "FLAGS_NO_PREBOOT_UI \<equiv> 0x1000000000000"
abbreviation (input) ENABLE_TRUE :: u8 where "ENABLE_TRUE \<equiv> 1"
abbreviation (input) ENABLE_INCONSISTENT :: u8 where "ENABLE_INCONSISTENT \<equiv> 0xFF"
abbreviation (input) DfciUsbPortEnabled :: u8 where "DfciUsbPortEnabled \<equiv> 0"
abbreviation (input) DfciUsbPortHwDisabled :: u8 where "DfciUsbPortHwDisabled \<equiv> 0xF0"
abbreviation (input) DfciUsbPortDataDisabled :: u8 where "DfciUsbPortDataDisabled \<equiv> 0xF1"
abbreviation (input) DfciUsbPortAuthenticated :: u8 where "DfciUsbPortAuthenticated \<equiv> 0xF2"

text \<open>An id that starts with a digit is an id of the first version of the interface.\<close>

definition FindProviderById :: "'s platform \<Rightarrow> 's provider list \<Rightarrow> string \<Rightarrow> 's provider option" where
  "FindProviderById U ps SettingId =
     (case (if starts_numeric SettingId then DfciV1TranslateString U SettingId else Some SettingId) of
        None \<Rightarrow> None
      | Some RealId \<Rightarrow> find (\<lambda>p. AsciiStrnCmp_eq (pv_Id p) RealId DFCI_MAX_ID_LEN) ps)"

definition RegisterProvider :: "'s platform \<Rightarrow> 's provider option \<Rightarrow> 's provider list \<Rightarrow> group list \<Rightarrow> 's
    \<Rightarrow> EFI_STATUS \<times> 's provider list \<times> group list \<times> 's" where
  "RegisterProvider U Provider ps gs s = (case Provider of
     None \<Rightarrow> (EFI_INVALID_PARAMETER, ps, gs, s)
   | Some p \<Rightarrow>
       if starts_numeric (pv_Id p) then (EFI_INVALID_PARAMETER, ps, gs, s)
       else if FindProviderById U ps (pv_Id p) \<noteq> None then (EFI_INVALID_PARAMETER, ps, gs, s)
       else case AllocatePool U 80 s of (ok, s1) \<Rightarrow>
         if \<not> ok then (EFI_OUT_OF_RESOURCES, ps, gs, s1)
         else case RegisterSettingToGroup U (pv_Id p) gs s1 of (_, gs', s2) \<Rightarrow> (EFI_SUCCESS, ps @ [p], gs', s2))"

text \<open>Errors of single providers are only reported.\<close>

fun reset_loop :: "u64 \<Rightarrow> 's provider list \<Rightarrow> 's \<Rightarrow> 's" where
  "reset_loop FilterFlag [] s = s"
| "reset_loop FilterFlag (p # ps) s =
     reset_loop FilterFlag ps (if pv_Flags p AND FilterFlag \<noteq> 0 then snd (pv_SetDefault p s) else s)"

definition ResetAllProvidersToDefaultsWithMatchingFlags :: "u64 \<Rightarrow> 's provider list \<Rightarrow> 's \<Rightarrow> EFI_STATUS \<times> 's" where
  "ResetAllProvidersToDefaultsWithMatchingFlags FilterFlag ps s = (EFI_SUCCESS, reset_loop FilterFlag ps s)"

section \<open>The setting access protocol\<close>

text \<open>Writing a setting whose provider has been found.\<close>

definition set_provider :: "'s set_env \<Rightarrow> 's auth_protocol option \<Rightarrow> perm_store option \<Rightarrow> group list \<Rightarrow> 's provider
    \<Rightarrow> string \<Rightarrow> u64 \<Rightarrow> setting_type \<Rightarrow> bytes \<Rightarrow> u64 \<Rightarrow> 's \<Rightarrow> EFI_STATUS \<times> u64 \<times> 's" where
  "set_provider X mAuth Store gs prov SettingId AuthToken Type Value Flags s =
     (case HasWritePermissions mAuth Store gs (Some SettingId) (Some AuthToken) False s of (Status, AuthStatus) \<Rightarrow>
      if EFI_ERROR Status then (Status, Flags, s)
      else if \<not> AuthStatus then (EFI_ACCESS_DENIED, Flags, s)
      else if Type \<noteq> pv_Type prov then (EFI_INVALID_PARAMETER, Flags, s)
      else case pv_Set prov Value Flags s of (Status, Flags, s) \<Rightarrow>
        if EFI_ERROR Status then (Status, Flags, s)
        else if Flags AND FLAGS_OUT_ALREADY_SET = 0 then
          (case DfciSettingChangedNotification X SettingId AuthToken Type Value Flags s of (Status, s) \<Rightarrow> (Status, Flags, s))
        else (Status, Flags, s))"

text \<open>The members of a group: the recursive call, which does not look for groups again.\<close>

fun set_members :: "'s platform \<Rightarrow> 's set_env \<Rightarrow> 's auth_protocol option \<Rightarrow> perm_store option \<Rightarrow> group list
    \<Rightarrow> 's provider list \<Rightarrow> string list \<Rightarrow> u64 \<Rightarrow> setting_type \<Rightarrow> bytes \<Rightarrow> EFI_STATUS \<Rightarrow> u64 \<Rightarrow> 's
    \<Rightarrow> EFI_STATUS \<times> u64 \<times> 's" where
  "set_members U X mAuth Store gs ps [] AuthToken Type Value ReturnStatus Flags s = (ReturnStatus, Flags, s)"
| "set_members U X mAuth Store gs ps (m # ms) AuthToken Type Value ReturnStatus Flags s =
     (case (case FindProviderById U ps m of
              None \<Rightarrow> (EFI_UNSUPPORTED, Flags, s)
            | Some prov \<Rightarrow> set_provider X mAuth Store gs prov m AuthToken Type Value Flags s)
      of (Status, Flags, s) \<Rightarrow>
        set_members U X mAuth Store gs ps ms AuthToken Type Value
          (if EFI_ERROR Status then Status else ReturnStatus) Flags s)"

definition InternalSystemSettingAccessSet :: "'s platform \<Rightarrow> 's set_env \<Rightarrow> 's auth_protocol option \<Rightarrow> perm_store option
    \<Rightarrow> group list \<Rightarrow> 's provider list \<Rightarrow> string option \<Rightarrow> u64 option \<Rightarrow> setting_type \<Rightarrow> bytes option \<Rightarrow> u64 \<Rightarrow> 's
    \<Rightarrow> EFI_STATUS \<times> u64 \<times> 's" where
  "InternalSystemSettingAccessSet U X mAuth Store gs ps SettingId AuthToken Type Value Flags s =
     (case (SettingId, AuthToken, Value) of
        (Some i, Some tok, Some v) \<Rightarrow>
          (case FindProviderById U ps i of
             Some prov \<Rightarrow> set_provider X mAuth Store gs prov i tok Type v Flags s
           | None \<Rightarrow> (case FindGroup i gs of
               None \<Rightarrow> (EFI_NOT_FOUND, Flags, s)
             | Some k \<Rightarrow> set_members U X mAuth Store gs ps (gr_Members (gs ! k)) tok Type v EFI_SUCCESS Flags s))
      | _ \<Rightarrow> (EFI_INVALID_PARAMETER, Flags, s))"

definition SystemSettingAccessSet :: "'s platform \<Rightarrow> 's set_env \<Rightarrow> 's auth_protocol option \<Rightarrow> perm_store option
    \<Rightarrow> group list \<Rightarrow> 's provider list \<Rightarrow> string option \<Rightarrow> u64 option \<Rightarrow> setting_type \<Rightarrow> bytes option \<Rightarrow> u64 \<Rightarrow> 's
    \<Rightarrow> EFI_STATUS \<times> u64 \<times> 's" where
  "SystemSettingAccessSet = InternalSystemSettingAccessSet"

text \<open>
  Reading: the flags pointer is optional; on a provider the flags become those of the provider,
  with the write-access flag added when the token may write the setting.
\<close>

definition get_provider :: "'s auth_protocol option \<Rightarrow> perm_store option \<Rightarrow> group list \<Rightarrow> 's provider
    \<Rightarrow> string \<Rightarrow> u64 option \<Rightarrow> setting_type \<Rightarrow> nat \<Rightarrow> u64 option \<Rightarrow> 's
    \<Rightarrow> EFI_STATUS \<times> nat \<times> bytes \<times> u64 option" where
  "get_provider mAuth Store gs prov SettingId AuthToken Type ValueSize Flags s =
     (if Type \<noteq> pv_Type prov then (EFI_INVALID_PARAMETER, ValueSize, [], Flags)
      else let Flags' = (case Flags of None \<Rightarrow> None | Some _ \<Rightarrow> (case AuthToken of
                 None \<Rightarrow> Some (pv_Flags prov)
               | Some tok \<Rightarrow> (case HasWritePermissions mAuth Store gs (Some SettingId) AuthToken False s of (Status, AuthStatus) \<Rightarrow>
                   Some (if \<not> EFI_ERROR Status \<and> AuthStatus then pv_Flags prov OR FLAGS_OUT_WRITE_ACCESS
                         else pv_Flags prov))));
               r = pv_Get prov True ValueSize s
           in (fst r, fst (snd r), snd (snd r), Flags'))"

text \<open>
  The loop over the members: \<open>MasterValue\<close> starts as the inconsistent value, and the loop stops
  at the first value that differs.  A provider that writes nothing leaves \<open>LocalValue\<close> unset.
\<close>

fun get_members :: "'s platform \<Rightarrow> 's auth_protocol option \<Rightarrow> perm_store option \<Rightarrow> group list \<Rightarrow> 's provider list
    \<Rightarrow> string list \<Rightarrow> u64 option \<Rightarrow> setting_type \<Rightarrow> EFI_STATUS \<Rightarrow> u8 \<Rightarrow> u8 option \<Rightarrow> u64 option \<Rightarrow> 's
    \<Rightarrow> (EFI_STATUS \<times> u8 \<times> u64 option) option" where
  "get_members U mAuth Store gs ps [] AuthToken Type ReturnStatus MasterValue LocalValue Flags s =
     Some (ReturnStatus, MasterValue, Flags)"
| "get_members U mAuth Store gs ps (m # ms) AuthToken Type ReturnStatus MasterValue LocalValue Flags s =
     (case (case FindProviderById U ps m of
              None \<Rightarrow> (EFI_UNSUPPORTED, 1, [], Flags)
            | Some prov \<Rightarrow> get_provider mAuth Store gs prov m AuthToken Type 1 Flags s)
      of (Status, _, Data, Flags) \<Rightarrow>
        let LocalValue = (case Data of [] \<Rightarrow> LocalValue | b # _ \<Rightarrow> Some b) in
        if EFI_ERROR Status then get_members U mAuth Store gs ps ms AuthToken Type Status MasterValue LocalValue Flags s
        else do {
          v \<leftarrow> LocalValue;
          if MasterValue = ENABLE_INCONSISTENT
          then get_members U mAuth Store gs ps ms AuthToken Type ReturnStatus v LocalValue Flags s
          else if MasterValue \<noteq> v then Some (ReturnStatus, ENABLE_INCONSISTENT, Flags)
          else get_members U mAuth Store gs ps ms AuthToken Type ReturnStatus MasterValue LocalValue Flags s })"

definition InternalSystemSettingAccessGet :: "'s platform \<Rightarrow> 's auth_protocol option \<Rightarrow> perm_store option
    \<Rightarrow> group list \<Rightarrow> 's provider list \<Rightarrow> string \<Rightarrow> u64 option \<Rightarrow> setting_type \<Rightarrow> bool \<Rightarrow> nat \<Rightarrow> u64 option \<Rightarrow> 's
    \<Rightarrow> (EFI_STATUS \<times> nat \<times> bytes \<times> u64 option) option" where
  "InternalSystemSettingAccessGet U mAuth Store gs ps SettingId AuthToken Type Value_ok ValueSize Flags s =
     (if \<not> Value_ok then Some (EFI_INVALID_PARAMETER, ValueSize, [], Flags)
      else case FindProviderById U ps SettingId of
        Some prov \<Rightarrow> Some (get_provider mAuth Store gs prov SettingId AuthToken Type ValueSize Flags s)
      | None \<Rightarrow> (case FindGroup SettingId gs of
          None \<Rightarrow> Some (EFI_NOT_FOUND, ValueSize, [], Flags)
        | Some k \<Rightarrow>
            if ValueSize < 1 then Some (EFI_BUFFER_TOO_SMALL, 1, [], Flags)
            else do {
              (ReturnStatus, MasterValue, Flags) \<leftarrow>
                get_members U mAuth Store gs ps (gr_Members (gs ! k)) AuthToken Type EFI_SUCCESS ENABLE_INCONSISTENT None Flags s;
              Some (if ReturnStatus = EFI_SUCCESS then (ReturnStatus, 1, [MasterValue], Flags)
                    else if ReturnStatus = EFI_BUFFER_TOO_SMALL then (ReturnStatus, 1, [], Flags)
                    else (ReturnStatus, ValueSize, [], Flags)) }))"

definition SystemSettingAccessGet :: "'s platform \<Rightarrow> 's auth_protocol option \<Rightarrow> perm_store option
    \<Rightarrow> group list \<Rightarrow> 's provider list \<Rightarrow> string \<Rightarrow> u64 option \<Rightarrow> setting_type \<Rightarrow> bool \<Rightarrow> nat \<Rightarrow> u64 option \<Rightarrow> 's
    \<Rightarrow> (EFI_STATUS \<times> nat \<times> bytes \<times> u64 option) option" where
  "SystemSettingAccessGet = InternalSystemSettingAccessGet"

section \<open>Values as text\<close>

definition ProviderTypeAsAscii :: "setting_type \<Rightarrow> string" where
  "ProviderTypeAsAscii t = (case t of
     TYPE_ENABLE \<Rightarrow> ''ENABLE/DISABLE TYPE'' | TYPE_SECUREBOOTKEYENUM \<Rightarrow> ''SECURE BOOT KEY ENUM TYPE''
   | TYPE_PASSWORD \<Rightarrow> ''PASSWORD TYPE'' | TYPE_USBPORTENUM \<Rightarrow> ''USB PORT STATE TYPE'' | TYPE_STRING \<Rightarrow> ''STRING TYPE''
   | TYPE_BINARY \<Rightarrow> ''BINARY TYPE'' | TYPE_CERT \<Rightarrow> ''CERT TYPE'' | TYPE_UNDEFINED \<Rightarrow> ''Unknown'')"

text \<open>
  The conversion of an input text to the bytes of the value (the \<open>switch\<close> of
  \<open>SetProviderValueFromAscii\<close>).  The string type keeps its terminating NUL.
\<close>

definition value_from_ascii :: "'s platform \<Rightarrow> 's set_env \<Rightarrow> setting_type \<Rightarrow> string \<Rightarrow> 's
    \<Rightarrow> (EFI_STATUS + bytes) \<times> 's" where
  "value_from_ascii U X Type Value s = (case Type of
     TYPE_ENABLE \<Rightarrow>
       (if Value = ''Enabled'' then (Inr [1], s) else if Value = ''Disabled'' then (Inr [0], s)
        else (Inl EFI_INVALID_PARAMETER, s))
   | TYPE_SECUREBOOTKEYENUM \<Rightarrow>
       (if Value = ''MsOnly'' then (Inr [0], s) else if Value = ''MsPlus3rdParty'' then (Inr [1], s)
        else if Value = ''None'' then (Inr [2], s) else (Inl EFI_INVALID_PARAMETER, s))
   | TYPE_PASSWORD \<Rightarrow>
       (let n = length Value in
        if n < 4 \<or> odd n then (Inl EFI_INVALID_PARAMETER, s)
        else if drop (n - 2) Value \<notin> {''eb'', ''EB'', ''eB'', ''Eb''} then (Inl EFI_INVALID_PARAMETER, s)
        else case AllocatePool U ((n - 2) div 2) s of (ok, s1) \<Rightarrow>
          if \<not> ok then (Inl EFI_OUT_OF_RESOURCES, s1)
          else case AsciiStrHexToBytes X (take (n - 2) Value) of (Status, b) \<Rightarrow>
            (if EFI_ERROR Status then Inl EFI_INVALID_PARAMETER else Inr b, s1))
   | TYPE_USBPORTENUM \<Rightarrow>
       (if Value = ''UsbPortEnabled'' then (Inr [DfciUsbPortEnabled], s)
        else if Value = ''UsbPortHwDisabled'' then (Inr [DfciUsbPortHwDisabled], s)
        else if Value = ''UsbPortDataDisabled'' then (Inr [DfciUsbPortDataDisabled], s)
        else if Value = ''UsbPortAuthenticated'' then (Inr [DfciUsbPortAuthenticated], s)
        else (Inl EFI_INVALID_PARAMETER, s))
   | TYPE_STRING \<Rightarrow>
       (if length Value > MAX_ALLOWABLE_DFCI_APPLY_VAR_SIZE then (Inl EFI_INVALID_PARAMETER, s)
        else (Inr (to_bytes Value @ [0]), s))
   | TYPE_UNDEFINED \<Rightarrow> (Inl EFI_INVALID_PARAMETER, s)
   | _ \<Rightarrow>
       (let b64 = take MAX_ALLOWABLE_DFCI_APPLY_VAR_SIZE Value in
        case Base64Decode X b64 False 0 of (Status, ValueSize, _) \<Rightarrow>
        if Status \<noteq> EFI_BUFFER_TOO_SMALL then (Inl EFI_INVALID_PARAMETER, s)
        else case AllocatePool U ValueSize s of (ok, s1) \<Rightarrow>
          if \<not> ok then (Inl EFI_OUT_OF_RESOURCES, s1)
          else case Base64Decode X b64 True ValueSize of (Status, _, b) \<Rightarrow>
            (if EFI_ERROR Status then Inl Status else Inr b, s1)))"

definition SetProviderValueFromAscii :: "'s platform \<Rightarrow> 's set_env \<Rightarrow> 's auth_protocol option \<Rightarrow> perm_store option
    \<Rightarrow> group list \<Rightarrow> 's provider list \<Rightarrow> 's provider \<Rightarrow> string \<Rightarrow> u64 \<Rightarrow> u64 \<Rightarrow> 's \<Rightarrow> EFI_STATUS \<times> u64 \<times> 's" where
  "SetProviderValueFromAscii U X mAuth Store gs ps Provider Value AuthToken Flags s =
     (case value_from_ascii U X (pv_Type Provider) Value s of
        (Inl Status, s1) \<Rightarrow> (Status, Flags, s1)
      | (Inr v, s1) \<Rightarrow> SystemSettingAccessSet U X mAuth Store gs ps (Some (pv_Id Provider)) (Some AuthToken)
          (pv_Type Provider) (Some v) Flags s1)"

definition SetIndividualSettings :: "'s platform \<Rightarrow> 's set_env \<Rightarrow> 's auth_protocol option \<Rightarrow> perm_store option
    \<Rightarrow> group list \<Rightarrow> 's provider list \<Rightarrow> 's provider \<Rightarrow> string option \<Rightarrow> u64 \<Rightarrow> u64 \<Rightarrow> 's \<Rightarrow> EFI_STATUS \<times> u64 \<times> 's" where
  "SetIndividualSettings U X mAuth Store gs ps Provider Value AuthToken Flags s =
     (if pv_Type Provider \<noteq> TYPE_STRING \<and> pv_Type Provider \<noteq> TYPE_CERT then
        (case Value of None \<Rightarrow> (EFI_UNSUPPORTED, Flags, s)
         | Some v \<Rightarrow> SetProviderValueFromAscii U X mAuth Store gs ps Provider v AuthToken Flags s)
      else SetProviderValueFromAscii U X mAuth Store gs ps Provider (case Value of None \<Rightarrow> [] | Some v \<Rightarrow> v) AuthToken Flags s)"

fun set_group_members :: "'s platform \<Rightarrow> 's set_env \<Rightarrow> 's auth_protocol option \<Rightarrow> perm_store option
    \<Rightarrow> group list \<Rightarrow> 's provider list \<Rightarrow> string list \<Rightarrow> string option \<Rightarrow> u64 \<Rightarrow> EFI_STATUS \<Rightarrow> u64 \<Rightarrow> 's
    \<Rightarrow> EFI_STATUS \<times> u64 \<times> 's" where
  "set_group_members U X mAuth Store gs ps [] Value AuthToken ReturnStatus Flags s = (ReturnStatus, Flags, s)"
| "set_group_members U X mAuth Store gs ps (m # ms) Value AuthToken ReturnStatus Flags s =
     (case FindProviderById U ps m of
        None \<Rightarrow> (EFI_NOT_FOUND, Flags, s)
      | Some p \<Rightarrow> (case SetIndividualSettings U X mAuth Store gs ps p Value AuthToken Flags s of (Status, Flags, s) \<Rightarrow>
          set_group_members U X mAuth Store gs ps ms Value AuthToken
            (if EFI_ERROR Status then Status else ReturnStatus) Flags s))"

definition SetSettingFromAscii :: "'s platform \<Rightarrow> 's set_env \<Rightarrow> 's auth_protocol option \<Rightarrow> perm_store option
    \<Rightarrow> group list \<Rightarrow> 's provider list \<Rightarrow> string option \<Rightarrow> string option \<Rightarrow> u64 option \<Rightarrow> u64 \<Rightarrow> 's
    \<Rightarrow> EFI_STATUS \<times> u64 \<times> 's" where
  "SetSettingFromAscii U X mAuth Store gs ps SettingId Value AuthToken Flags s =
     (case (SettingId, AuthToken) of
        (Some i, Some tok) \<Rightarrow>
          (case FindProviderById U ps i of
             Some p \<Rightarrow> SetIndividualSettings U X mAuth Store gs ps p Value tok Flags s
           | None \<Rightarrow> (case FindGroup i gs of
               None \<Rightarrow> (EFI_NOT_FOUND, Flags, s)
             | Some k \<Rightarrow> set_group_members U X mAuth Store gs ps (gr_Members (gs ! k)) Value tok EFI_SUCCESS Flags s))
      | _ \<Rightarrow> (EFI_UNSUPPORTED, Flags, s))"

text \<open>Printing the current or the default value of a provider; \<open>None\<close> is NULL.\<close>

definition read_value :: "'s provider \<Rightarrow> bool \<Rightarrow> bool \<Rightarrow> nat \<Rightarrow> 's \<Rightarrow> EFI_STATUS \<times> nat \<times> bytes" where
  "read_value Provider Current = (if Current then pv_Get Provider else pv_GetDefault Provider)"

definition enum_text :: "setting_type \<Rightarrow> u8 \<Rightarrow> string" where
  "enum_text Type b = (case Type of
     TYPE_ENABLE \<Rightarrow> if b = ENABLE_INCONSISTENT then ''Inconsistent'' else if b = ENABLE_TRUE then ''Enabled'' else ''Disabled''
   | TYPE_SECUREBOOTKEYENUM \<Rightarrow> if b = 0 then ''MsOnly'' else if b = 1 then ''MsPlus3rdParty''
       else if b = 3 then ''Custom'' else ''None''
   | TYPE_PASSWORD \<Rightarrow> if b \<noteq> 0 then ''System Password Set'' else ''No System Password''
   | _ \<Rightarrow> if b = DfciUsbPortHwDisabled then ''UsbPortHwDisabled'' else if b = DfciUsbPortEnabled then ''UsbPortEnabled''
       else if b = DfciUsbPortDataDisabled then ''UsbPortDataDisabled''
       else if b = DfciUsbPortAuthenticated then ''UsbPortAuthenticated''
       else if b = ENABLE_INCONSISTENT then ''Inconsistent'' else ''UnsupportedValue'')"

text \<open>The bytes of a value of variable size: its size is asked for first.  \<open>Inl\<close> is the status of the query.\<close>

definition read_buffer :: "'s platform \<Rightarrow> 's provider \<Rightarrow> bool \<Rightarrow> nat \<Rightarrow> 's \<Rightarrow> bytes option \<times> 's" where
  "read_buffer U Provider Current ValueSize s =
     (if ValueSize > MAX_ALLOWABLE_DFCI_APPLY_VAR_SIZE then (None, s)
      else case AllocatePool U ValueSize s of (ok, s1) \<Rightarrow>
        if \<not> ok then (None, s1)
        else case read_value Provider Current True ValueSize s1 of (Status, n, b) \<Rightarrow>
          (if EFI_ERROR Status then None else Some (take n b), s1))"

definition string_as_ascii :: "'s platform \<Rightarrow> 's provider \<Rightarrow> bool \<Rightarrow> 's \<Rightarrow> string option \<times> 's" where
  "string_as_ascii U Provider Current s =
     (case read_value Provider Current False 0 s of (Status, ValueSize, _) \<Rightarrow>
      if Status \<noteq> EFI_BUFFER_TOO_SMALL \<or> ValueSize = 0 then (None, s)
      else case read_buffer U Provider Current ValueSize s of (b, s1) \<Rightarrow>
        (case b of None \<Rightarrow> None | Some v \<Rightarrow> scan_cstr (length v + 1) v, s1))"

definition cert_as_ascii :: "'s platform \<Rightarrow> 's set_env \<Rightarrow> 's provider \<Rightarrow> bool \<Rightarrow> 's \<Rightarrow> string option \<times> 's" where
  "cert_as_ascii U X Provider Current s =
     (case read_value Provider Current False 0 s of (Status, ValueSize, _) \<Rightarrow>
      if ValueSize \<noteq> 0 \<and> Status \<noteq> EFI_BUFFER_TOO_SMALL then (None, s)
      else if ValueSize = 0 then (case AllocatePool U 1 s of (ok, s1) \<Rightarrow> (if ok then Some [] else None, s1))
      else case read_buffer U Provider Current ValueSize s of (b, s1) \<Rightarrow>
        (case b of None \<Rightarrow> (None, s1)
         | Some v \<Rightarrow> (case CertThumbprint X v s1 of (Status, t) \<Rightarrow>
             if \<not> EFI_ERROR Status then (Some t, s1)
             else (case AllocatePool U 30 s1 of (ok, s2) \<Rightarrow>
               (if ok then Some ''No Cert information available'' else None, s2)))))"

definition binary_as_ascii :: "'s platform \<Rightarrow> 's set_env \<Rightarrow> 's provider \<Rightarrow> bool \<Rightarrow> 's \<Rightarrow> string option \<times> 's" where
  "binary_as_ascii U X Provider Current s =
     (case read_value Provider Current False 0 s of (Status, ValueSize, _) \<Rightarrow>
      if Status \<noteq> EFI_BUFFER_TOO_SMALL \<or> ValueSize = 0 then (None, s)
      else case read_buffer U Provider Current ValueSize s of (b, s1) \<Rightarrow>
        (case b of None \<Rightarrow> (None, s1)
         | Some v \<Rightarrow> (case Base64Encode X v of (Status, AsciiSize, t) \<Rightarrow>
             (case AllocatePool U AsciiSize s1 of (ok, s2) \<Rightarrow>
               (if \<not> ok \<or> EFI_ERROR Status then None else Some t, s2)))))"

definition ProviderValueAsAscii :: "'s platform \<Rightarrow> 's set_env \<Rightarrow> 's provider \<Rightarrow> bool \<Rightarrow> 's \<Rightarrow> string option \<times> 's" where
  "ProviderValueAsAscii U X Provider Current s = (case pv_Type Provider of
     TYPE_STRING \<Rightarrow> string_as_ascii U Provider Current s
   | TYPE_CERT \<Rightarrow> cert_as_ascii U X Provider Current s
   | TYPE_BINARY \<Rightarrow> binary_as_ascii U X Provider Current s
   | TYPE_UNDEFINED \<Rightarrow> (None, s)
   | _ \<Rightarrow> (case read_value Provider Current True 1 s of (Status, _, d) \<Rightarrow>
       if EFI_ERROR Status then (None, s)
       else let b = (case d of [] \<Rightarrow> if pv_Type Provider = TYPE_PASSWORD then 0 else 0xFF | x # _ \<Rightarrow> x);
                t = enum_text (pv_Type Provider) b
            in case AllocatePool U (length t + 1) s of (ok, s1) \<Rightarrow> (if ok then Some t else None, s1)))"

section \<open>Writes are guarded\<close>

text \<open>
  A relation between states that is kept by writes to the settings in \<open>ok\<close>: it is reflexive and
  transitive, the provider of such a setting keeps it, and so do memory allocation and the platform's
  notification.  A token is guarded by \<open>ok\<close> when the permission check passes for no other setting.
\<close>

definition write_frame :: "'s platform \<Rightarrow> 's set_env \<Rightarrow> 's provider list \<Rightarrow> (string \<Rightarrow> bool) \<Rightarrow> ('s \<Rightarrow> 's \<Rightarrow> bool) \<Rightarrow> bool" where
  "write_frame U X ps ok R \<longleftrightarrow>
     (\<forall>x. R x x) \<and> (\<forall>x y z. R x y \<longrightarrow> R y z \<longrightarrow> R x z)
   \<and> (\<forall>i p v f x. FindProviderById U ps i = Some p \<longrightarrow> ok i \<longrightarrow> R x (snd (snd (pv_Set p v f x))))
   \<and> (\<forall>i t ty v f x. R x (snd (DfciSettingChangedNotification X i t ty v f x)))
   \<and> (\<forall>n x. R x (snd (AllocatePool U n x)))"

definition guarded :: "'s auth_protocol option \<Rightarrow> perm_store option \<Rightarrow> group list \<Rightarrow> u64 \<Rightarrow> (string \<Rightarrow> bool) \<Rightarrow> ('s \<Rightarrow> 's \<Rightarrow> bool) \<Rightarrow> 's \<Rightarrow> bool" where
  "guarded mAuth Store gs tok ok R s0 \<longleftrightarrow> (\<forall>x i st. R s0 x \<longrightarrow>
     HasWritePermissions mAuth Store gs (Some i) (Some tok) False x = (st, True) \<longrightarrow> \<not> EFI_ERROR st \<longrightarrow> ok i)"

lemma write_frameD:
  assumes "write_frame U X ps ok R"
  shows "R x x" "R x y \<Longrightarrow> R y z \<Longrightarrow> R x z"
    "FindProviderById U ps i = Some p \<Longrightarrow> ok i \<Longrightarrow> R x (snd (snd (pv_Set p v f x)))"
    "R x (snd (DfciSettingChangedNotification X i t ty v f x))" "R x (snd (AllocatePool U n x))"
  using assms unfolding write_frame_def by blast+

text \<open>While a token has its identity, it is guarded by the access rule for that identity.\<close>

lemma guarded_identity:
  assumes "wf_store S"
    and k: "\<And>x. R s0 x \<Longrightarrow> \<not> EFI_ERROR (fst (ap_GetIdentityProperties A tok x)) \<and> snd (ap_GetIdentityProperties A tok x) = Ident"
  shows "guarded (Some A) (Some S) gs tok (may_write S gs Ident) R s0"
proof -
  have "may_write S gs Ident i"
    if x: "R s0 x" and h: "HasWritePermissions (Some A) (Some S) gs (Some i) (Some tok) False x = (st, True)" for x i st
  proof -
    have g: "ap_GetIdentityProperties A tok x = (fst (ap_GetIdentityProperties A tok x), Ident)"
      using k [OF x] by (simp add: prod_eq_iff)
    show ?thesis using HasWritePermissions_may_write [OF assms(1) g] k [OF x] h by simp
  qed
  then show ?thesis by (simp add: guarded_def)
qed

lemma set_provider_rule:
  assumes "wf_store S" "ap_GetIdentityProperties A tok s = (st, Ident)" "\<not> EFI_ERROR st"
  shows "set_provider X (Some A) (Some S) gs prov i tok ty v fl s =
    (if \<not> may_write S gs Ident i then (EFI_ACCESS_DENIED, fl, s)
     else if ty \<noteq> pv_Type prov then (EFI_INVALID_PARAMETER, fl, s)
     else case pv_Set prov v fl s of (st, fl, s) \<Rightarrow>
       if EFI_ERROR st then (st, fl, s)
       else if fl AND FLAGS_OUT_ALREADY_SET = 0 then
         (case DfciSettingChangedNotification X i tok ty v fl s of (st, s) \<Rightarrow> (st, fl, s))
       else (st, fl, s))"
  unfolding set_provider_def HasWritePermissions_may_write [OF assms] by simp

lemma set_provider_frame:
  assumes f: "write_frame U X ps ok R" and g: "guarded mAuth Store gs tok ok R s0"
    and p: "FindProviderById U ps i = Some prov" and x: "R s0 x"
  shows "R s0 (snd (snd (set_provider X mAuth Store gs prov i tok ty v fl x)))"
proof -
  obtain st b where h: "HasWritePermissions mAuth Store gs (Some i) (Some tok) False x = (st, b)" by (metis prod.exhaust)
  have set: "R s0 (snd (snd (pv_Set prov v fl x)))" if "\<not> EFI_ERROR st" b
  proof -
    have "ok i" using g x h that by (auto simp: guarded_def)
    then show ?thesis by (rule write_frameD(2) [OF f x write_frameD(3) [OF f p]])
  qed
  have note1: "R s0 (snd (DfciSettingChangedNotification X i tok ty' v fl' (snd (snd (pv_Set prov v fl x)))))"
    if "\<not> EFI_ERROR st" b for fl' ty'
    by (rule write_frameD(2) [OF f set [OF that] write_frameD(4) [OF f]])
  show ?thesis
    using x set note1 by (simp add: set_provider_def h case_prod_beta)
qed

lemma set_members_frame:
  assumes f: "write_frame U X ps ok R" and g: "guarded mAuth Store gs tok ok R s0"
  shows "R s0 x \<Longrightarrow> R s0 (snd (snd (set_members U X mAuth Store gs ps ms tok ty v rs fl x)))"
proof (induction ms arbitrary: rs fl x)
  case (Cons m ms)
  show ?case
  proof (cases "FindProviderById U ps m")
    case None
    then show ?thesis using Cons by simp
  next
    case (Some prov)
    have "R s0 (snd (snd (set_provider X mAuth Store gs prov m tok ty v fl x)))"
      by (rule set_provider_frame [OF f g Some Cons.prems])
    from Cons.IH [OF this] show ?thesis using Some by (simp add: case_prod_beta)
  qed
qed simp

lemma AccessSet_frame:
  assumes f: "write_frame U X ps ok R" and g: "guarded mAuth Store gs tok ok R s0" and x: "R s0 x"
  shows "R s0 (snd (snd (SystemSettingAccessSet U X mAuth Store gs ps i (Some tok) ty v fl x)))"
  using set_provider_frame [OF f g _ x] set_members_frame [OF f g x] x
  by (auto simp: SystemSettingAccessSet_def InternalSystemSettingAccessSet_def split: option.splits)

lemma value_from_ascii_state:
  "snd (value_from_ascii U X ty v s) = s \<or> (\<exists>n. snd (value_from_ascii U X ty v s) = snd (AllocatePool U n s))"
  by (cases ty) (auto simp: value_from_ascii_def Let_def case_prod_beta)

lemma value_from_ascii_frame:
  assumes f: "write_frame U X ps ok R" and x: "R s0 x"
  shows "R s0 (snd (value_from_ascii U X ty v x))"
proof -
  have "R s0 (snd (AllocatePool U n x))" for n by (rule write_frameD(2) [OF f x write_frameD(5) [OF f]])
  then show ?thesis using value_from_ascii_state [of U X ty v x] x by metis
qed

lemma SetIndividual_frame:
  assumes f: "write_frame U X ps ok R" and g: "guarded mAuth Store gs tok ok R s0" and x: "R s0 x"
  shows "R s0 (snd (snd (SetIndividualSettings U X mAuth Store gs ps p v tok fl x)))"
proof -
  have "R s0 (snd (snd (SetProviderValueFromAscii U X mAuth Store gs ps p v' tok fl x)))" for v'
  proof -
    obtain r y where r: "value_from_ascii U X (pv_Type p) v' x = (r, y)" by (cases "value_from_ascii U X (pv_Type p) v' x")
    have y: "R s0 y" using value_from_ascii_frame [OF f x, of "pv_Type p" v'] r by simp
    show ?thesis
      using y AccessSet_frame [OF f g y] by (auto simp: SetProviderValueFromAscii_def r split: sum.splits)
  qed
  then show ?thesis using x by (auto simp: SetIndividualSettings_def split: option.splits)
qed

lemma set_group_members_frame:
  assumes f: "write_frame U X ps ok R" and g: "guarded mAuth Store gs tok ok R s0"
  shows "R s0 x \<Longrightarrow> R s0 (snd (snd (set_group_members U X mAuth Store gs ps ms v tok rs fl x)))"
proof (induction ms arbitrary: rs fl x)
  case (Cons m ms)
  show ?case
    using Cons.prems Cons.IH [OF SetIndividual_frame [OF f g Cons.prems]]
    by (simp add: case_prod_beta split: option.splits)
qed simp

lemma SetSetting_frame:
  assumes f: "write_frame U X ps ok R" and g: "guarded mAuth Store gs tok ok R s0" and x: "R s0 x"
  shows "R s0 (snd (snd (SetSettingFromAscii U X mAuth Store gs ps i v (Some tok) fl x)))"
  using SetIndividual_frame [OF f g x] set_group_members_frame [OF f g x] x
  by (auto simp: SetSettingFromAscii_def split: option.splits)

section \<open>Reading a group\<close>

text \<open>The values the members of a group have.\<close>

definition member_reads :: "'s platform \<Rightarrow> 's provider list \<Rightarrow> setting_type \<Rightarrow> 's \<Rightarrow> string \<Rightarrow> u8 \<Rightarrow> bool" where
  "member_reads U ps ty s m v \<longleftrightarrow> (\<exists>p n. FindProviderById U ps m = Some p \<and> pv_Type p = ty
     \<and> pv_Get p True 1 s = (EFI_SUCCESS, n, [v]) \<and> v \<noteq> ENABLE_INCONSISTENT)"

lemma get_members_values:
  assumes "list_all2 (member_reads U ps ty s) ms vs"
  shows "\<exists>fl'. get_members U mAuth Store gs ps ms tok ty EFI_SUCCESS mv lv fl s = Some (EFI_SUCCESS,
     (if mv = ENABLE_INCONSISTENT then (if vs = [] then mv else if \<forall>v\<in>set vs. v = hd vs then hd vs else ENABLE_INCONSISTENT)
      else if \<forall>v\<in>set vs. v = mv then mv else ENABLE_INCONSISTENT), fl')"
  using assms
proof (induction ms vs arbitrary: mv lv fl rule: list_all2_induct)
  case (Cons m ms v vs)
  obtain p n where p: "FindProviderById U ps m = Some p" "pv_Type p = ty"
    "pv_Get p True 1 s = (EFI_SUCCESS, n, [v])" and v: "v \<noteq> ENABLE_INCONSISTENT"
    using Cons.hyps(1) by (auto simp: member_reads_def)
  obtain fl1 where g: "get_provider mAuth Store gs p m tok ty 1 fl s = (EFI_SUCCESS, n, [v], fl1)"
    using p by (simp add: get_provider_def Let_def)
  show ?case
    using Cons.IH [of v "Some v" fl1] Cons.IH [of mv "Some v" fl1] v p(1) g by auto
qed simp

section \<open>Properties\<close>

text \<open>
  Setting a value from text, for a single setting or for every member of a group,
  changes the state only through providers whose setting the identity behind the token may write:
  every relation that is kept by such writes, and along which the token keeps its identity, holds
  between the state before and after.
\<close>

lemma SetSettingFromAscii_only_permitted:
  assumes "wf_store S" "write_frame U X ps (may_write S gs Ident) R"
    and "\<And>x. R s x \<Longrightarrow> \<not> EFI_ERROR (fst (ap_GetIdentityProperties A tok x)) \<and> snd (ap_GetIdentityProperties A tok x) = Ident"
  shows "R s (snd (snd (SetSettingFromAscii U X (Some A) (Some S) gs ps i v (Some tok) fl s)))"
  by (rule SetSetting_frame [OF assms(2) guarded_identity [OF assms(1,3)] write_frameD(1) [OF assms(2)]])

text \<open>
  The setting access protocol writes a setting that has a provider exactly according
  to the access rule for the id the caller gave: without the right to write it nothing changes and access
  is denied, with it and the right type the provider decides, and the platform is told of a change
  unless the provider says that the value was already set.
\<close>

lemma SystemSettingAccessSet_rule:
  assumes "wf_store S" "ap_GetIdentityProperties A tok s = (st, Ident)" "\<not> EFI_ERROR st"
    and "FindProviderById U ps i = Some prov"
  shows "SystemSettingAccessSet U X (Some A) (Some S) gs ps (Some i) (Some tok) ty (Some v) fl s =
    (if \<not> may_write S gs Ident i then (EFI_ACCESS_DENIED, fl, s)
     else if ty \<noteq> pv_Type prov then (EFI_INVALID_PARAMETER, fl, s)
     else case pv_Set prov v fl s of (st, fl, s) \<Rightarrow>
       if EFI_ERROR st then (st, fl, s)
       else if fl AND FLAGS_OUT_ALREADY_SET = 0 then
         (case DfciSettingChangedNotification X i tok ty v fl s of (st, s) \<Rightarrow> (st, fl, s))
       else (st, fl, s))"
  unfolding SystemSettingAccessSet_def InternalSystemSettingAccessSet_def using assms(4)
  by (simp add: set_provider_rule [OF assms(1-3)])

text \<open>
  Reading a group whose members can all be read yields their common value, or the
  inconsistent value when two members differ.
\<close>

lemma SystemSettingAccessGet_group:
  assumes "FindProviderById U ps i = None" "FindGroup i gs = Some k"
    and "list_all2 (member_reads U ps ty s) (gr_Members (gs ! k)) vs" "1 \<le> n" "vs \<noteq> []"
  shows "\<exists>fl'. SystemSettingAccessGet U mAuth Store gs ps i tok ty True n fl s = Some (EFI_SUCCESS, 1,
    [if \<forall>v\<in>set vs. v = hd vs then hd vs else ENABLE_INCONSISTENT], fl')"
proof -
  obtain fl' where "get_members U mAuth Store gs ps (gr_Members (gs ! k)) tok ty EFI_SUCCESS ENABLE_INCONSISTENT None fl s
      = Some (EFI_SUCCESS, if \<forall>v\<in>set vs. v = hd vs then hd vs else ENABLE_INCONSISTENT, fl')"
    using get_members_values [OF assms(3), of mAuth Store gs tok ENABLE_INCONSISTENT None fl] assms(5) by auto
  then show ?thesis
    using assms(1,2,4) by (simp add: SystemSettingAccessGet_def InternalSystemSettingAccessGet_def)
qed

text \<open>
  An enumeration value that is accepted as text is printed as the same text: for the
  enable, secure boot key and USB port types, a provider that returns the bytes the text was
  converted to is shown with that text.
\<close>

lemma enum_text_roundtrip:
  assumes "ty \<in> {TYPE_ENABLE, TYPE_SECUREBOOTKEYENUM, TYPE_USBPORTENUM}"
    and "value_from_ascii U X ty t s = (Inr b, s1)" "pv_Type p = ty" "pv_Get p True 1 s' = (EFI_SUCCESS, n, b)"
    and "alloc_succeeds U"
  shows "fst (ProviderValueAsAscii U X p True s') = Some t"
proof -
  have b: "\<exists>c. b = [c] \<and> enum_text ty c = t"
    using assms(1,2) by (auto simp: value_from_ascii_def enum_text_def split: if_splits)
  have "fst (AllocatePool U k s')" for k using assms(5) by (simp add: alloc_succeeds_def)
  then show ?thesis
    using b assms(1,3,4) by (auto simp: ProviderValueAsAscii_def read_value_def Let_def case_prod_beta)
qed

section \<open>Concrete instances\<close>

text \<open>Two settings of the enable type, kept in variables, and a group that contains both.\<close>

definition var_provider :: "string \<Rightarrow> demo_state provider" where
  "var_provider i = \<lparr>pv_Id = i, pv_Type = TYPE_ENABLE, pv_Flags = 0,
     pv_Set = (\<lambda>v f s. case SetVariable demo_platform i ''Provider'' 7 v s of (st, s') \<Rightarrow> (st, f, s')),
     pv_Get = (\<lambda>b n s. (EFI_SUCCESS, 1, [if GetVariable demo_platform i ''Provider'' s = (EFI_SUCCESS, [1], 7) then 1 else 0])),
     pv_GetDefault = (\<lambda>b n s. (EFI_SUCCESS, 1, [0])),
     pv_SetDefault = (\<lambda>s. SetVariable demo_platform i ''Provider'' 0 [] s)\<rparr>"

definition demo_providers :: "demo_state provider list" where
  "demo_providers = [var_provider ''A'', var_provider ''B'']"

definition demo_group :: "group list" where
  "demo_group = [\<lparr>gr_GroupId = ''G'', gr_Members = [''A'', ''B'']\<rparr>]"

definition demo_set_env :: "demo_state set_env" where
  "demo_set_env = \<lparr>Base64Decode = (\<lambda>t b n. if t = [] then (EFI_SUCCESS, 0, []) else (EFI_BUFFER_TOO_SMALL, length t, to_bytes t)),
     Base64Encode = (\<lambda>b. (EFI_SUCCESS, length b, [])), AsciiStrHexToBytes = (\<lambda>t. (EFI_SUCCESS, to_bytes t)),
     DfciV1NumberFromId = (\<lambda>i. None), CertThumbprint = (\<lambda>b s. (EFI_NOT_FOUND, [])), DfciSettingChangedNotification = (\<lambda>i t ty v f s. (EFI_SUCCESS, s))\<rparr>"

lemma demo_provider_found:
  "FindProviderById demo_platform demo_providers i =
     (if i = ''A'' then Some (var_provider ''A'') else if i = ''B'' then Some (var_provider ''B'') else None)"
proof -
  have "take DFCI_MAX_ID_LEN i = [c] \<longleftrightarrow> i = [c]" for c
    by (cases i; cases "tl i") auto
  moreover have "take DFCI_MAX_ID_LEN [c] = [c]" for c :: char by simp
  ultimately show ?thesis
    by (auto simp: FindProviderById_def demo_providers_def var_provider_def AsciiStrnCmp_eq_def demo_simps is_digit_def
        eq_commute [of "[_]" "take _ _"])
qed

lemma demo_may_write:
  "\<not> may_write example_store demo_group 0x08 ''A''" "may_write example_store demo_group 0x08 ''B''"
  by (simp_all add: may_write_def explicit_masks_def demo_group_def is_member_def AsciiStrnCmp_eq_def
        perm_map_def example_store_def entry_masks_def List.map_filter_def upt_rec)

lemma demo_write_frame:
  "write_frame demo_platform demo_set_env demo_providers (may_write example_store demo_group 0x08)
     (\<lambda>x y. GetVariable demo_platform ''A'' ''Provider'' y = GetVariable demo_platform ''A'' ''Provider'' x)"
  using demo_may_write(1)
  by (auto simp: write_frame_def demo_set_env_def demo_provider_found var_provider_def demo_simps map_of_filter_other
      split: if_splits option.splits)

section \<open>Two observations\<close>

text \<open>
  An empty certificate value is turned into the empty string by \<open>SetIndividualSettings\<close>, but the
  conversion then rejects it, because decoding nothing needs no buffer (documented behaviour of
  \<open>Base64Decode\<close>): a certificate setting cannot be cleared.
\<close>

lemma SetIndividualSettings_empty_cert:
  assumes "fst (Base64Decode X [] False 0) = EFI_SUCCESS" "pv_Type p = TYPE_CERT"
  shows "SetIndividualSettings U X mAuth Store gs ps p None tok fl s = (EFI_INVALID_PARAMETER, fl, s)"
  using assms by (simp add: SetIndividualSettings_def SetProviderValueFromAscii_def value_from_ascii_def case_prod_beta)

text \<open>
  The access rule is applied to the id of the caller, not to the id of the provider that is found
  for it: with a translated id of the first version the permission of the setting is not consulted.
\<close>

lemma SystemSettingAccessSet_translated_id:
  assumes "wf_store S" "ap_GetIdentityProperties A tok s = (EFI_SUCCESS, Ident)" "starts_numeric i"
    and "DfciV1TranslateString U i = Some r" "find (\<lambda>p. AsciiStrnCmp_eq (pv_Id p) r DFCI_MAX_ID_LEN) ps = Some prov"
    and "explicit_masks i S gs 0 = []" "perm_map S i = None" "ps_DefaultPMask S AND Ident \<noteq> 0"
    and "pv_Set prov v fl s = (st, fl', s')" "EFI_ERROR st \<or> fl' AND FLAGS_OUT_ALREADY_SET \<noteq> 0"
  shows "SystemSettingAccessSet U X (Some A) (Some S) gs ps (Some i) (Some tok) (pv_Type prov) (Some v) fl s = (st, fl', s')"
proof -
  have p: "FindProviderById U ps i = Some prov" using assms(3-5) by (simp add: FindProviderById_def)
  have m: "may_write S gs Ident i" using assms(6-8) by (simp add: may_write_def)
  show ?thesis
    using p m assms(9,10) by (auto simp: SystemSettingAccessSet_def InternalSystemSettingAccessSet_def
        set_provider_rule [OF assms(1,2)])
qed

end
