(* ===== verification/Setting_Store.thy ===== *)
theory Setting_Store
  imports Nv_Storage
begin

text \<open>
  The settings manager's own record in flash (\<open>SettingsManagerProvisionedData.c\<close>): version and
  lowest supported version of the last settings packet, kept in the variable \<open>_SMID\<close> byte by
  byte.  A pointer to the record is an option; an operation that frees it returns \<open>None\<close>.

  The theory shows that the record is a component of non-volatile storage in the sense of
  \<open>nv_component\<close>, so a saved record is read back, and a failed save leaves the stored one.
\<close>

section \<open>The record and its variable\<close>

record setting_data =
  si_CurrentVersion :: u32
  si_LSV :: u32
  si_CreatedOn :: EFI_TIME
  si_Modified :: bool

definition SMID_VAR_NAME :: string where "SMID_VAR_NAME = ''_SMID''"

abbreviation (input) SMID_HEADER_SIG :: u32 where "SMID_HEADER_SIG \<equiv> 0x44494D53"

text \<open>Layout: signature 0, header version 4, version 5, lowest supported version 9, times 13 and 29.\<close>

definition smid_header :: "setting_data \<Rightarrow> bytes" where
  "smid_header d = le32 SMID_HEADER_SIG @ [1] @ le32 (si_CurrentVersion d) @ le32 (si_LSV d)"

definition SMID_InitInternalData :: "'s platform \<Rightarrow> 's \<Rightarrow> EFI_STATUS \<times> setting_data option \<times> 's" where
  "SMID_InitInternalData U s = (case AllocatePool U 25 s of (ok, s1) \<Rightarrow>
     if \<not> ok then (EFI_ABORTED, None, s1)
     else case GetTime U s1 of (Status, t, s2) \<Rightarrow>
       (EFI_SUCCESS, Some \<lparr>si_CurrentVersion = 0, si_LSV = 0,
          si_CreatedOn = (if EFI_ERROR Status then zero_time else t), si_Modified = True\<rparr>, s2))"

definition SMID_TransitionInternalVariableData :: "bytes option \<Rightarrow> EFI_STATUS" where
  "SMID_TransitionInternalVariableData Var = (case Var of None \<Rightarrow> EFI_INVALID_PARAMETER | Some _ \<Rightarrow> EFI_UNSUPPORTED)"

text \<open>The checks on the contents of the variable; \<open>Inr\<close> carries the record.\<close>

definition smid_decode :: "bytes \<Rightarrow> u32 \<Rightarrow> (EFI_STATUS + setting_data) option" where
  "smid_decode Var VarAttributes =
     (if length Var < 5 then Some (Inl EFI_NOT_FOUND)
      else if VarAttributes \<noteq> DFCI_INTERNAL_VAR_ATTRIBUTES then Some (Inl EFI_NOT_FOUND)
      else do {
        sig \<leftarrow> rd32 Var 0;
        ver \<leftarrow> rd8 Var 4;
        if sig \<noteq> SMID_HEADER_SIG then Some (Inl EFI_COMPROMISED_DATA)
        else if ver \<noteq> 1 then Some (Inl (SMID_TransitionInternalVariableData (Some Var)))
        else if length Var \<noteq> 45 then Some (Inl EFI_COMPROMISED_DATA)
        else do {
          Version \<leftarrow> rd32 Var 5;
          Lsv \<leftarrow> rd32 Var 9;
          if Version < Lsv then Some (Inl EFI_COMPROMISED_DATA)
          else do {
            t \<leftarrow> rd_time Var 13;
            Some (Inr \<lparr>si_CurrentVersion = Version, si_LSV = Lsv, si_CreatedOn = t, si_Modified = False\<rparr>) } } })"

definition SMID_LoadFromFlash :: "'s platform \<Rightarrow> setting_data option \<Rightarrow> 's \<Rightarrow> (EFI_STATUS \<times> setting_data option \<times> 's) option" where
  "SMID_LoadFromFlash U InternalData s =
     (case GetVariable U SMID_VAR_NAME gDfciInternalVariableGuid s of (Status, Var, VarAttributes) \<Rightarrow>
      if EFI_ERROR Status then Some (Status, InternalData, s)
      else do {
        r \<leftarrow> smid_decode Var VarAttributes;
        (case r of Inl e \<Rightarrow> Some (e, None, s)
         | Inr d \<Rightarrow> (case AllocatePool U 25 s of (ok, s1) \<Rightarrow>
             Some (if ok then (EFI_SUCCESS, Some d, s1) else (EFI_ABORTED, None, s1)))) })"

text \<open>When the clock fails, \<open>t\<close> is whatever the stack held: the time the platform returns.\<close>

definition SMID_SaveToFlash :: "'s platform \<Rightarrow> setting_data option \<Rightarrow> 's \<Rightarrow> EFI_STATUS \<times> setting_data option \<times> 's" where
  "SMID_SaveToFlash U InternalData s = (case InternalData of None \<Rightarrow> (EFI_INVALID_PARAMETER, None, s) | Some d \<Rightarrow>
     if \<not> si_Modified d then (EFI_SUCCESS, Some d, s)
     else case AllocatePool U 45 s of (ok, s1) \<Rightarrow>
       if \<not> ok then (EFI_ABORTED, Some d, s1)
       else case GetTime U s1 of (_, t, s2) \<Rightarrow>
         case SetVariable U SMID_VAR_NAME gDfciInternalVariableGuid DFCI_INTERNAL_VAR_ATTRIBUTES
                (smid_header d @ time_bytes (si_CreatedOn d) @ time_bytes t) s2 of (Status, s3) \<Rightarrow>
           (Status, Some (if EFI_ERROR Status then d else d\<lparr>si_Modified := False\<rparr>), s3))"

definition SMID_ResetInFlash :: "'s platform \<Rightarrow> 's \<Rightarrow> EFI_STATUS \<times> 's" where
  "SMID_ResetInFlash U s =
     (case SetVariable U SMID_VAR_NAME gDfciInternalVariableGuid DFCI_INTERNAL_VAR_ATTRIBUTES [] s of (Status, s1) \<Rightarrow>
      (if Status = EFI_NOT_FOUND then EFI_SUCCESS else Status, s1))"

section \<open>Saving and loading\<close>

lemma length_smid_header [simp, enc_length]: "length (smid_header d) = 13"
  by (simp add: smid_header_def)

lemma smid_decode_encoded:
  assumes "si_LSV d \<le> si_CurrentVersion d"
  shows "smid_decode (smid_header d @ time_bytes (si_CreatedOn d) @ time_bytes t) DFCI_INTERNAL_VAR_ATTRIBUTES
    = Some (Inr (d\<lparr>si_Modified := False\<rparr>))"
proof -
  let ?b = "smid_header d @ time_bytes (si_CreatedOn d) @ time_bytes t"
  have f: "rd32 ?b 0 = Some SMID_HEADER_SIG" "rd8 ?b 4 = Some 1" "rd32 ?b 5 = Some (si_CurrentVersion d)"
    "rd32 ?b 9 = Some (si_LSV d)"
    by (simp_all add: smid_header_def rd_layout)
  have t: "rd_time ?b 13 = Some (si_CreatedOn d)"
    by (rule time_roundtrip) simp
  have l: "length ?b = 45" by simp
  show ?thesis
    unfolding smid_decode_def f t l using assms by (cases d) (simp add: not_less)
qed

definition setting_ready :: "'s platform \<Rightarrow> setting_data option \<Rightarrow> 's \<Rightarrow> bool" where
  "setting_ready U m s \<longleftrightarrow> nv_laws U \<and> (\<exists>d. m = Some d \<and> si_LSV d \<le> si_CurrentVersion d \<and> si_Modified d)"

definition setting_stored :: "'s platform \<Rightarrow> 's \<Rightarrow> setting_data option \<Rightarrow> bool" where
  "setting_stored U s m \<longleftrightarrow> nv_laws U \<and> (\<exists>d t. m = Some d \<and> si_LSV d \<le> si_CurrentVersion d
     \<and> GetVariable U SMID_VAR_NAME gDfciInternalVariableGuid s
       = (EFI_SUCCESS, smid_header d @ time_bytes (si_CreatedOn d) @ time_bytes t, DFCI_INTERNAL_VAR_ATTRIBUTES))"

definition same_setting_data :: "setting_data option \<Rightarrow> setting_data option \<Rightarrow> bool" where
  "same_setting_data m m' \<longleftrightarrow> m' = map_option (\<lambda>d. d\<lparr>si_Modified := False\<rparr>) m"

lemma setting_stored_vars: "same_vars U s s' \<Longrightarrow> setting_stored U s m \<Longrightarrow> setting_stored U s' m"
  by (simp add: setting_stored_def same_vars_def)

lemma SMID_SaveToFlash_cases:
  assumes "setting_ready U (Some d) s" "SMID_SaveToFlash U (Some d) s = (st, m', s')"
  obtains "EFI_ERROR st" "same_vars U s s'" "m' = Some d"
  | t where "\<not> EFI_ERROR st" "m' = Some (d\<lparr>si_Modified := False\<rparr>)"
      "GetVariable U SMID_VAR_NAME gDfciInternalVariableGuid s'
        = (EFI_SUCCESS, smid_header d @ time_bytes (si_CreatedOn d) @ time_bytes t, DFCI_INTERNAL_VAR_ATTRIBUTES)"
proof -
  have l: "alloc_keeps_vars U" "alloc_succeeds U" "variable_laws U" and d: "si_Modified d"
    using assms(1) by (auto simp: setting_ready_def nv_laws_def)
  obtain ok s1 where 1: "AllocatePool U 45 s = (ok, s1)" by (metis prod.exhaust)
  obtain g t s2 where 2: "GetTime U s1 = (g, t, s2)" by (metis prod_cases3)
  obtain st3 s3 where 3: "SetVariable U SMID_VAR_NAME gDfciInternalVariableGuid DFCI_INTERNAL_VAR_ATTRIBUTES
      (smid_header d @ time_bytes (si_CreatedOn d) @ time_bytes t) s2 = (st3, s3)" by (metis prod.exhaust)
  have r: "st = st3" "s' = s3" "m' = Some (if EFI_ERROR st3 then d else d\<lparr>si_Modified := False\<rparr>)"
    using assms(2) alloc_succeedsD [OF l(2) 1] 1 2 3 d by (auto simp: SMID_SaveToFlash_def)
  have v: "same_vars U s s2"
    by (rule same_vars_trans [OF alloc_keeps_varsD(1) [OF l(1) 1] alloc_keeps_varsD(2) [OF l(1) 2]])
  show ?thesis
  proof (cases "EFI_ERROR st3")
    case True
    then show ?thesis
      using that(1) r same_vars_trans [OF v variable_lawsD(3) [OF l(3) 3 True]] by simp
  next
    case False
    have "smid_header d @ time_bytes (si_CreatedOn d) @ time_bytes t \<noteq> []"
      using length_smid_header [of d] by (metis append_is_Nil_conv list.size(3) zero_neq_numeral)
    then show ?thesis
      using that(2) [of t] r variable_lawsD(1) [OF l(3) 3 False] False by simp
  qed
qed

lemma SMID_LoadFromFlash_stored:
  assumes "setting_stored U s m"
  shows "\<exists>m' s'. SMID_LoadFromFlash U m0 s = Some (EFI_SUCCESS, m', s') \<and> same_setting_data m m' \<and> setting_stored U s' m"
proof -
  from assms obtain d t where d: "m = Some d" "si_LSV d \<le> si_CurrentVersion d"
    and v: "GetVariable U SMID_VAR_NAME gDfciInternalVariableGuid s
       = (EFI_SUCCESS, smid_header d @ time_bytes (si_CreatedOn d) @ time_bytes t, DFCI_INTERNAL_VAR_ATTRIBUTES)"
    and l: "nv_laws U"
    by (auto simp: setting_stored_def)
  obtain ok s1 where 1: "AllocatePool U 25 s = (ok, s1)" by (metis prod.exhaust)
  have "same_vars U s s1" by (rule alloc_keeps_varsD(1) [OF nv_lawsD(2) [OF l] 1])
  moreover have ok by (rule alloc_succeedsD [OF nv_lawsD(1) [OF l] 1])
  ultimately show ?thesis
    using d v 1 setting_stored_vars assms
    by (simp add: SMID_LoadFromFlash_def smid_decode_encoded same_setting_data_def)
qed

interpretation setting_nv: nv_component "\<lambda>m s. Some (SMID_SaveToFlash U m s)" "SMID_LoadFromFlash U m0"
  "setting_ready U" "setting_stored U" same_setting_data
  for U m0
proof (unfold_locales, goal_cases)
  case (1 m s)
  then show ?case by (metis prod_cases3)
next
  case (2 m s st m' s')
  then obtain d where d: "m = Some d" "si_LSV d \<le> si_CurrentVersion d" "nv_laws U" by (auto simp: setting_ready_def)
  have "setting_ready U (Some d) s" "SMID_SaveToFlash U (Some d) s = (st, m', s')" using 2 d by simp_all
  then show ?case by (rule SMID_SaveToFlash_cases) (use 2(3) d in \<open>auto simp: setting_stored_def\<close>)
next
  case (3 m s st m' s' m1)
  then obtain d where d: "m = Some d" by (auto simp: setting_ready_def)
  have "setting_ready U (Some d) s" "SMID_SaveToFlash U (Some d) s = (st, m', s')" using 3 d by simp_all
  then show ?case by (rule SMID_SaveToFlash_cases) (use 3(3,4) setting_stored_vars in auto)
next
  case (4 s m)
  then show ?case by (rule SMID_LoadFromFlash_stored)
qed

section \<open>Properties\<close>

text \<open>
  The versions saved after a settings packet are the ones the next load reads, byte
  for byte through the variable, whatever record the caller's pointer held before.
\<close>

lemma SMID_SaveToFlash_LoadFromFlash_roundtrip:
  assumes "setting_ready U (Some d) s" "SMID_SaveToFlash U (Some d) s = (st, m', s')" "\<not> EFI_ERROR st"
  shows "\<exists>s''. SMID_LoadFromFlash U m0 s' = Some (EFI_SUCCESS, Some (d\<lparr>si_Modified := False\<rparr>), s'')"
  using setting_nv.save_load [OF assms(1) arg_cong [OF assms(2), of Some] assms(3)]
  by (auto simp: same_setting_data_def)

definition example_setting_data :: setting_data where
  "example_setting_data = \<lparr>si_CurrentVersion = 7, si_LSV = 3, si_CreatedOn = zero_time, si_Modified = True\<rparr>"

lemma example_setting_ready: "setting_ready demo_platform (Some example_setting_data) s"
  by (simp add: setting_ready_def nv_laws_def demo_laws example_setting_data_def)

end
