(* ===== verification/Setting_Xml_Schema.thy ===== *)
theory Setting_Xml_Schema
  imports Permission_Xml_Schema
begin

text \<open>
  The schema of the settings documents (\<open>DfciXmlSettingSchemaSupport.c\<close> with the element names of
  \<open>DfciXmlSettingSchemaSupportLib.h\<close>): reading the settings of an input packet, building the result
  document and the document of the current settings.  Trees and paths are those of the permission
  schema; building a document writes no variable.
\<close>

section \<open>Reading the input packet\<close>

definition SETTINGS_PACKET_ELEMENT_NAME :: string where "SETTINGS_PACKET_ELEMENT_NAME = ''SettingsPacket''"
definition SETTINGS_LIST_ELEMENT_NAME :: string where "SETTINGS_LIST_ELEMENT_NAME = ''Settings''"
definition CURRENT_PACKET_ELEMENT_NAME :: string where "CURRENT_PACKET_ELEMENT_NAME = ''CurrentSettingsPacket''"
definition CURRENT_SETTINGS_XML_TEMPLATE :: string where
  "CURRENT_SETTINGS_XML_TEMPLATE = ''<?xml version=\"1.0\" encoding=\"utf-8\"?><CurrentSettingsPacket xmlns=\"urn:UefiSettings-Schema\"></CurrentSettingsPacket>''"

definition GetSettingsPacketNode :: "xml_node option \<Rightarrow> xml_node option" where
  "GetSettingsPacketNode = root_element SETTINGS_PACKET_ELEMENT_NAME"

definition GetResultsPacketNode :: "xml_node option \<Rightarrow> xml_node option" where
  "GetResultsPacketNode = root_element RESULTS_PACKET_ELEMENT_NAME"

definition GetCurrentSettingsPacketNode :: "xml_node option \<Rightarrow> xml_node option" where
  "GetCurrentSettingsPacketNode = root_element CURRENT_PACKET_ELEMENT_NAME"

definition GetSettingsListNodeFromPacketNode :: "'s platform \<Rightarrow> xml_node \<Rightarrow> nat option" where
  "GetSettingsListNodeFromPacketNode U PacketNode = FindFirstChildNodeByName U PacketNode SETTINGS_LIST_ELEMENT_NAME"

text \<open>One \<open>Setting\<close> element below \<open>Parent\<close>; id and value are NULL when the elements are empty.\<close>

definition GetInputSettings :: "'s platform \<Rightarrow> xml_node option \<Rightarrow> xml_node
    \<Rightarrow> (EFI_STATUS \<times> string option \<times> string option) option" where
  "GetInputSettings U Parent n = (case Parent of None \<Rightarrow> Some (EFI_INVALID_PARAMETER, None, None) | Some par \<Rightarrow>
     if \<not> is_element SETTINGS_LIST_ELEMENT_NAME par then Some (EFI_INVALID_PARAMETER, None, None)
     else do {
       idn \<leftarrow> child_by_name U n ''Id'';
       (case idn of None \<Rightarrow> Some (EFI_NOT_FOUND, None, None) | Some i \<Rightarrow> do {
          vn \<leftarrow> child_by_name U n ''Value'';
          Some (case vn of None \<Rightarrow> (EFI_NOT_FOUND, xn_Value i, None) | Some v \<Rightarrow> (EFI_SUCCESS, xn_Value i, xn_Value v)) }) })"

section \<open>Building documents\<close>

definition New_ResultPacketNodeList :: "'s platform \<Rightarrow> EFI_TIME \<Rightarrow> 's \<Rightarrow> xml_node option \<times> 's" where
  "New_ResultPacketNodeList U = new_document U RESULT_XML_TEMPLATE ''AppliedOn'' SETTINGS_LIST_ELEMENT_NAME"

definition New_CurrentSettingsPacketNodeList :: "'s platform \<Rightarrow> EFI_TIME \<Rightarrow> 's \<Rightarrow> xml_node option \<times> 's" where
  "New_CurrentSettingsPacketNodeList U = new_document U CURRENT_SETTINGS_XML_TEMPLATE ''Date'' SETTINGS_LIST_ELEMENT_NAME"

definition SetOutputSettingsStatus :: "'s platform \<Rightarrow> xml_node \<Rightarrow> nat list \<Rightarrow> string option \<Rightarrow> string \<Rightarrow> string option \<Rightarrow> 's
    \<Rightarrow> (EFI_STATUS \<times> xml_node \<times> 's) option" where
  "SetOutputSettingsStatus U t p IdPtr Result Flags s = (case IdPtr of
     None \<Rightarrow> Some (EFI_INVALID_PARAMETER, t, s)
   | Some i \<Rightarrow> do {
       par \<leftarrow> node_at t p;
       if \<not> is_element SETTINGS_LIST_ELEMENT_NAME par then Some (EFI_INVALID_PARAMETER, t, s)
       else case AddNode U t p ''SettingResult'' None s of (Status, t1, q, s1) \<Rightarrow>
         if EFI_ERROR Status then Some (EFI_DEVICE_ERROR, t1, s1)
         else case add_text_node U t1 q ''Id'' i s1 of (Status, t2, s2) \<Rightarrow>
           if EFI_ERROR Status then Some (Status, t2, s2)
           else case (case Flags of None \<Rightarrow> (EFI_SUCCESS, t2, s2) | Some f \<Rightarrow> add_text_node U t2 q ''Flags'' f s2)
             of (Status, t3, s3) \<Rightarrow>
               if EFI_ERROR Status then Some (Status, t3, s3)
               else Some (add_text_node U t3 q ''Result'' Result s3) })"

definition SetCurrentSettings :: "'s platform \<Rightarrow> xml_node \<Rightarrow> nat list \<Rightarrow> string option \<Rightarrow> string option \<Rightarrow> 's
    \<Rightarrow> (EFI_STATUS \<times> xml_node \<times> 's) option" where
  "SetCurrentSettings U t p IdPtr Value s = (case (IdPtr, Value) of
     (Some i, Some v) \<Rightarrow> do {
       par \<leftarrow> node_at t p;
       if \<not> is_element SETTINGS_LIST_ELEMENT_NAME par then Some (EFI_INVALID_PARAMETER, t, s)
       else case AddNode U t p ''SettingCurrent'' None s of (Status, t1, q, s1) \<Rightarrow>
         if EFI_ERROR Status then Some (EFI_DEVICE_ERROR, t1, s1)
         else case add_text_node U t1 q ''Id'' i s1 of (Status, t2, s2) \<Rightarrow>
           if EFI_ERROR Status then Some (Status, t2, s2)
           else Some (add_text_node U t2 q ''Value'' v s2) }
   | _ \<Rightarrow> Some (EFI_INVALID_PARAMETER, t, s))"

definition AddSettingsLsvNode :: "'s platform \<Rightarrow> xml_node \<Rightarrow> string \<Rightarrow> 's \<Rightarrow> EFI_STATUS \<times> xml_node \<times> 's" where
  "AddSettingsLsvNode U t Lsv s =
     (if \<not> is_element CURRENT_PACKET_ELEMENT_NAME t then (EFI_INVALID_PARAMETER, t, s)
      else case AddNode U t [] ''LSV'' (Some Lsv) s of (Status, t', _, s') \<Rightarrow> (Status, t', s'))"

section \<open>Building documents writes no variable\<close>

lemma SetOutputSettingsStatus_vars:
  assumes x: "xml_keeps_vars U" and o: "SetOutputSettingsStatus U t p i r f s = Some (st, t', s')"
  shows "same_vars U s s'"
  using o xml_vars(2) [OF x] add_text_node_vars [OF x]
  by (auto simp: SetOutputSettingsStatus_def split: Option.bind_splits prod.splits if_splits option.splits)
    (meson same_vars_trans)+

lemma SetCurrentSettings_vars:
  assumes x: "xml_keeps_vars U" and o: "SetCurrentSettings U t p i v s = Some (st, t', s')"
  shows "same_vars U s s'"
  using o xml_vars(2) [OF x] add_text_node_vars [OF x]
  by (auto simp: SetCurrentSettings_def split: Option.bind_splits prod.splits if_splits option.splits)
    (meson same_vars_trans)+

lemma AddSettingsLsvNode_vars:
  assumes x: "xml_keeps_vars U" and o: "AddSettingsLsvNode U t l s = (st, t', s')"
  shows "same_vars U s s'"
  using o xml_vars(2) [OF x] by (auto simp: AddSettingsLsvNode_def split: prod.splits if_splits)

end
