(* ===== verification/Setting_Current.thy ===== *)
theory Setting_Current
  imports Setting_Provider Setting_Store Setting_Xml_Schema
begin

text \<open>
  The published documents of the current settings (\<open>SettingsManagerCurrentSettingXml.c\<close>): one
  element per provider and per group, in the two versions of the interface.  The theory shows that
  the variables are rewritten exactly when something other than the date has changed.
\<close>

section \<open>Creating the document\<close>

definition gDfciSettingsManagerVarNamespace :: string where
  "gDfciSettingsManagerVarNamespace = ''gDfciSettingsManagerVarNamespace''"
definition DFCI_SETTINGS_CURRENT_OUTPUT_VAR_NAME :: string where
  "DFCI_SETTINGS_CURRENT_OUTPUT_VAR_NAME = ''DfciSettingsCurrent''"
definition V1_SETTINGS_CURRENT_VAR_NAME :: string where "V1_SETTINGS_CURRENT_VAR_NAME = ''UEFISettingsCurrent''"

abbreviation (input) DFCI_SECURED_SETTINGS_VAR_ATTRIBUTES :: u32 where "DFCI_SECURED_SETTINGS_VAR_ATTRIBUTES \<equiv> 7"

text \<open>The status of an element is only reported.  In a document of version 1 the id is a number.\<close>

fun provider_loop :: "'s platform \<Rightarrow> 's set_env \<Rightarrow> bool \<Rightarrow> nat list \<Rightarrow> 's provider list \<Rightarrow> xml_node \<Rightarrow> 's
    \<Rightarrow> (xml_node \<times> 's) option" where
  "provider_loop U X V1Compatible p [] t s = Some (t, s)"
| "provider_loop U X V1Compatible p (Prov # ps) t s = (case ProviderValueAsAscii U X Prov True s of (Value, s1) \<Rightarrow>
     if Value = None then provider_loop U X V1Compatible p ps t s1
     else do {
       (_, t2, s2) \<leftarrow> SetCurrentSettings U t p
          (if V1Compatible then DfciV1NumberFromId X (pv_Id Prov) else Some (pv_Id Prov)) Value s1;
       provider_loop U X V1Compatible p ps t2 s2 })"

definition group_text :: "setting_type \<Rightarrow> u8 \<Rightarrow> string" where
  "group_text GroupType Value = (case GroupType of
     TYPE_ENABLE \<Rightarrow> if Value = 0 then ''Disabled'' else if Value = ENABLE_TRUE then ''Enabled''
       else if Value = ENABLE_INCONSISTENT then ''Inconsistent'' else ''Unknown''
   | TYPE_USBPORTENUM \<Rightarrow> if Value = DfciUsbPortHwDisabled then ''UsbPortHwDisabled''
       else if Value = DfciUsbPortEnabled then ''UsbPortEnabled''
       else if Value = DfciUsbPortDataDisabled then ''UsbPortDataDisabled''
       else if Value = DfciUsbPortAuthenticated then ''UsbPortAuthenticated''
       else if Value = ENABLE_INCONSISTENT then ''Inconsistent'' else ''UnsupportedValue''
   | _ \<Rightarrow> ''UnsupportedValue'')"

text \<open>
  The value of a group as text; \<open>Inl\<close> leaves the whole function.  A successful read that writes no
  byte would leave \<open>Value\<close> unset.
\<close>

definition group_value :: "'s platform \<Rightarrow> 's auth_protocol option \<Rightarrow> perm_store option \<Rightarrow> group list \<Rightarrow> 's provider list
    \<Rightarrow> group \<Rightarrow> 's \<Rightarrow> (EFI_STATUS + string) option" where
  "group_value U mAuth Store gs ps Grp s = (case gr_Members Grp of
     [] \<Rightarrow> Some (Inl EFI_NOT_FOUND)
   | m # _ \<Rightarrow> (case FindProviderById U ps m of
       None \<Rightarrow> Some (Inl EFI_NOT_FOUND)
     | Some Provider \<Rightarrow> do {
         (Status, _, Value, _) \<leftarrow> SystemSettingAccessGet U mAuth Store gs ps (gr_GroupId Grp) None (pv_Type Provider) True 1 None s;
         if EFI_ERROR Status then Some (Inr ''Error'')
         else (case Value of [] \<Rightarrow> None | v # _ \<Rightarrow> Some (Inr (group_text (pv_Type Provider) v))) }))"

fun group_value_loop :: "'s platform \<Rightarrow> 's auth_protocol option \<Rightarrow> perm_store option \<Rightarrow> group list \<Rightarrow> 's provider list
    \<Rightarrow> nat list \<Rightarrow> group list \<Rightarrow> xml_node \<Rightarrow> 's \<Rightarrow> ((EFI_STATUS + xml_node) \<times> 's) option" where
  "group_value_loop U mAuth Store gs ps p [] t s = Some (Inr t, s)"
| "group_value_loop U mAuth Store gs ps p (Grp # rest) t s = do {
     r \<leftarrow> group_value U mAuth Store gs ps Grp s;
     (case r of Inl e \<Rightarrow> Some (Inl e, s)
      | Inr ReturnValue \<Rightarrow> do {
          (_, t1, s1) \<leftarrow> SetCurrentSettings U t p (Some (gr_GroupId Grp)) (Some ReturnValue) s;
          group_value_loop U mAuth Store gs ps p rest t1 s1 }) }"

definition current_lsv :: "'s platform \<Rightarrow> 's \<Rightarrow> (u32 \<times> 's) option" where
  "current_lsv U s = do {
     (Status, InternalData, s1) \<leftarrow> SMID_LoadFromFlash U None s;
     if EFI_ERROR Status then Some (0, s1)
     else do { d \<leftarrow> InternalData; Some (si_LSV d, s1) } }"

definition settings_document :: "'s platform \<Rightarrow> u32 \<Rightarrow> 's \<Rightarrow> (EFI_STATUS + (xml_node \<times> nat)) \<times> 's" where
  "settings_document U Lsv s = (case GetTime U s of (Status, Time, s1) \<Rightarrow>
     if EFI_ERROR Status then (Inl Status, s1)
     else case New_CurrentSettingsPacketNodeList U Time s1 of (Lst, s2) \<Rightarrow>
       (case Lst of None \<Rightarrow> (Inl EFI_ABORTED, s2) | Some t \<Rightarrow>
        if GetCurrentSettingsPacketNode (Some t) = None then (Inl EFI_NO_MAPPING, s2)
        else case AddSettingsLsvNode U t (snd (AsciiValueToStringS U 20 False (ucast Lsv) 19)) s2 of (Status, t, s3) \<Rightarrow>
          if EFI_ERROR Status then (Inl Status, s3)
          else (case GetSettingsListNodeFromPacketNode U t of
              None \<Rightarrow> (Inl EFI_NO_MAPPING, s3) | Some k \<Rightarrow> (Inr (t, k), s3))))"

definition CreateXmlStringFromCurrentSettings :: "'s platform \<Rightarrow> 's set_env \<Rightarrow> 's auth_protocol option \<Rightarrow> perm_store option
    \<Rightarrow> group list \<Rightarrow> 's provider list \<Rightarrow> bool \<Rightarrow> 's \<Rightarrow> (EFI_STATUS \<times> (string \<times> nat) option \<times> 's) option" where
  "CreateXmlStringFromCurrentSettings U X mAuth Store gs ps V1Compatible s = do {
     (Lsv, s1) \<leftarrow> current_lsv U s;
     (case settings_document U Lsv s1 of
        (Inl e, s2) \<Rightarrow> Some (e, None, s2)
      | (Inr (t, k), s2) \<Rightarrow> do {
          (t, s3) \<leftarrow> provider_loop U X V1Compatible [k] ps t s2;
          (r, s4) \<leftarrow> group_value_loop U mAuth Store gs ps [k] gs t s3;
          (case r of Inl e \<Rightarrow> Some (e, None, s4)
           | Inr t \<Rightarrow> (case XmlTreeToString U t s4 of (Status, str, n, s5) \<Rightarrow>
               Some (Status, if EFI_ERROR Status then None else Some (str, n), s5))) }) }"

section \<open>Publishing it\<close>

text \<open>\<open>AsciiStrStr\<close>: the offset of the first occurrence.\<close>

fun AsciiStrStr :: "string \<Rightarrow> string \<Rightarrow> nat option" where
  "AsciiStrStr [] p = (if p = [] then Some 0 else None)"
| "AsciiStrStr (c # cs) p = (if take (length p) (c # cs) = p then Some 0 else map_option Suc (AsciiStrStr cs p))"

text \<open>The text before the date and the text from the end of the date on; NULL when a mark is missing.\<close>

definition around_date :: "string \<Rightarrow> (string \<times> string) option" where
  "around_date v = (case (AsciiStrStr v ''<Date>'', AsciiStrStr v ''/Date>'') of
     (Some i, Some j) \<Rightarrow> Some (take i v, drop j v) | _ \<Rightarrow> None)"

definition write_current :: "'s platform \<Rightarrow> string \<Rightarrow> string \<times> nat \<Rightarrow> 's \<Rightarrow> EFI_STATUS \<times> 's" where
  "write_current U nm Var s = SetVariable U nm gDfciSettingsManagerVarNamespace
     DFCI_SECURED_SETTINGS_VAR_ATTRIBUTES (take (snd Var) (to_bytes (fst Var) @ [0])) s"

text \<open>Writing both documents: the second one, of version 1, is only created when the first is written.\<close>

definition write_both :: "'s platform \<Rightarrow> 's set_env \<Rightarrow> 's auth_protocol option \<Rightarrow> perm_store option \<Rightarrow> group list
    \<Rightarrow> 's provider list \<Rightarrow> string \<times> nat \<Rightarrow> 's \<Rightarrow> (EFI_STATUS \<times> 's) option" where
  "write_both U X mAuth Store gs ps Var s =
     (case write_current U DFCI_SETTINGS_CURRENT_OUTPUT_VAR_NAME Var s of (Status, s1) \<Rightarrow>
      if EFI_ERROR Status then Some (Status, s1)
      else do {
        (Status, Var, s2) \<leftarrow> CreateXmlStringFromCurrentSettings U X mAuth Store gs ps True s1;
        if EFI_ERROR Status then Some (Status, s2)
        else do { v \<leftarrow> Var; Some (write_current U V1_SETTINGS_CURRENT_VAR_NAME v s2) } })"

definition PopulateCurrentSettingsIfNeeded :: "'s platform \<Rightarrow> 's set_env \<Rightarrow> 's auth_protocol option \<Rightarrow> perm_store option
    \<Rightarrow> group list \<Rightarrow> 's provider list \<Rightarrow> 's \<Rightarrow> (EFI_STATUS \<times> 's) option" where
  "PopulateCurrentSettingsIfNeeded U X mAuth Store gs ps s =
     (case GetVariable U DFCI_SETTINGS_CURRENT_OUTPUT_VAR_NAME gDfciSettingsManagerVarNamespace s of (Status, OldVar, _) \<Rightarrow> do {
        old \<leftarrow> (if EFI_ERROR Status then Some None
               else do { v \<leftarrow> scan_cstr (length OldVar + 1) OldVar; Some (Some (around_date v)) });
        if old = Some None then Some (EFI_INVALID_PARAMETER, s)
        else do {
          (Status, Var, s1) \<leftarrow> CreateXmlStringFromCurrentSettings U X mAuth Store gs ps False s;
          if EFI_ERROR Status then Some (Status, s1)
          else do {
            v \<leftarrow> Var;
            (case old of
               None \<Rightarrow> write_both U X mAuth Store gs ps v s1
             | Some o1 \<Rightarrow>
                 if around_date (fst v) = None then Some (EFI_INVALID_PARAMETER, s1)
                 else if around_date (fst v) = o1 then Some (Status, s1)
                 else write_both U X mAuth Store gs ps v s1) } } })"

section \<open>Creating the document writes no variable\<close>

lemma ProviderValueAsAscii_vars:
  assumes "alloc_keeps_vars U" "ProviderValueAsAscii U X p c s = (v, s')"
  shows "same_vars U s s'"
  using assms(2) alloc_keeps_varsD(1) [OF assms(1)]
  by (auto simp: ProviderValueAsAscii_def string_as_ascii_def cert_as_ascii_def binary_as_ascii_def read_buffer_def Let_def
      split: setting_type.splits prod.splits if_splits option.splits) (meson same_vars_trans)+

lemma provider_loop_vars:
  assumes a: "alloc_keeps_vars U" and x: "xml_keeps_vars U"
  shows "provider_loop U X v p ps t s = Some (t', s') \<Longrightarrow> same_vars U s s'"
proof (induction ps arbitrary: t s)
  case (Cons q ps)
  obtain val s1 where v: "ProviderValueAsAscii U X q True s = (val, s1)" by (metis prod.exhaust)
  note v1 = ProviderValueAsAscii_vars [OF a v]
  show ?case
  proof (cases val)
    case None
    then show ?thesis using Cons v same_vars_trans [OF v1 Cons.IH] by simp
  next
    case (Some w)
    obtain st t2 s2 where c: "SetCurrentSettings U t p (if v then DfciV1NumberFromId X (pv_Id q) else Some (pv_Id q)) (Some w) s1
        = Some (st, t2, s2)" and r: "provider_loop U X v p ps t2 s2 = Some (t', s')"
      using Cons.prems v Some by (simp split: Option.bind_splits) auto
    show ?thesis
      by (rule same_vars_trans [OF v1 same_vars_trans [OF SetCurrentSettings_vars [OF x c] Cons.IH [OF r]]])
  qed
qed simp

lemma group_value_loop_vars:
  assumes x: "xml_keeps_vars U"
  shows "group_value_loop U A S gs ps p ks t s = Some (r, s') \<Longrightarrow> same_vars U s s'"
proof (induction ks arbitrary: t s)
  case (Cons g ks)
  then obtain v where v: "group_value U A S gs ps g s = Some v" by (auto split: Option.bind_splits)
  show ?case
  proof (cases v)
    case (Inl e)
    then show ?thesis using Cons.prems v by simp
  next
    case (Inr w)
    obtain st t1 s1 where c: "SetCurrentSettings U t p (Some (gr_GroupId g)) (Some w) s = Some (st, t1, s1)"
      and l: "group_value_loop U A S gs ps p ks t1 s1 = Some (r, s')"
      using Cons.prems v Inr by (simp split: Option.bind_splits) auto
    show ?thesis by (rule same_vars_trans [OF SetCurrentSettings_vars [OF x c] Cons.IH [OF l]])
  qed
qed simp

lemma settings_document_vars:
  assumes a: "alloc_keeps_vars U" and x: "xml_keeps_vars U" and d: "settings_document U l s = (r, s')"
  shows "same_vars U s s'"
  using d alloc_keeps_varsD(2) [OF a] new_document_vars [OF x] AddSettingsLsvNode_vars [OF x]
  by (auto simp: settings_document_def New_CurrentSettingsPacketNodeList_def split: prod.splits if_splits option.splits)
    (meson same_vars_trans)+

lemma current_lsv_vars:
  assumes a: "alloc_keeps_vars U" and d: "current_lsv U s = Some (l, s')"
  shows "same_vars U s s'"
  using d alloc_keeps_varsD(1) [OF a]
  by (auto simp: current_lsv_def SMID_LoadFromFlash_def split: prod.splits if_splits sum.splits Option.bind_splits)

lemma CreateXmlStringFromCurrentSettings_vars:
  assumes a: "alloc_keeps_vars U" and x: "xml_keeps_vars U"
    and c: "CreateXmlStringFromCurrentSettings U X A S gs ps v s = Some (st, r, s')"
  shows "same_vars U s s'"
proof -
  obtain l s1 where 1: "current_lsv U s = Some (l, s1)"
    using c by (auto simp: CreateXmlStringFromCurrentSettings_def split: Option.bind_splits)
  obtain d s2 where 2: "settings_document U l s1 = (d, s2)" by (metis prod.exhaust)
  have 12: "same_vars U s s2"
    by (rule same_vars_trans [OF current_lsv_vars [OF a 1] settings_document_vars [OF a x 2]])
  moreover have "same_vars U s2 s'"
  proof (cases d)
    case (Inl e)
    then show ?thesis using c 1 2 by (simp add: CreateXmlStringFromCurrentSettings_def)
  next
    case (Inr b)
    then show ?thesis
      using c 1 2 provider_loop_vars [OF a x] group_value_loop_vars [OF x] xml_vars(4) [OF x]
      by (auto simp: CreateXmlStringFromCurrentSettings_def split: Option.bind_splits sum.splits prod.splits)
        (meson same_vars_trans)+
  qed
  ultimately show ?thesis by (rule same_vars_trans)
qed

section \<open>Properties\<close>

text \<open>
  Publishing the current settings compares the new document with the published one
  outside the date.  When they agree no variable changes, so a boot without a change of settings
  does not wear the flash; when they differ, a successful call leaves the new document in the
  variable.
\<close>

theorem PopulateCurrentSettingsIfNeeded_on_change:
  assumes laws: "nv_laws U" "xml_keeps_vars U"
    and old: "GetVariable U DFCI_SETTINGS_CURRENT_OUTPUT_VAR_NAME gDfciSettingsManagerVarNamespace s
      = (EFI_SUCCESS, to_bytes old @ [0], att)" "cstring old" "around_date old = Some d"
    and new: "CreateXmlStringFromCurrentSettings U X A S gs ps False s = Some (EFI_SUCCESS, Some (str, length str + 1), s1)"
      "around_date str = Some d'"
    and r: "PopulateCurrentSettingsIfNeeded U X A S gs ps s = Some (st, s')"
  shows "if d' = d then st = EFI_SUCCESS \<and> same_vars U s s'
    else \<not> EFI_ERROR st \<longrightarrow> GetVariable U DFCI_SETTINGS_CURRENT_OUTPUT_VAR_NAME gDfciSettingsManagerVarNamespace s'
      = (EFI_SUCCESS, to_bytes str @ [0], DFCI_SECURED_SETTINGS_VAR_ATTRIBUTES)"
proof -
  have a: "alloc_keeps_vars U" and v: "variable_laws U" using laws(1) by (simp_all add: nv_laws_def)
  have sc: "scan_cstr (Suc (Suc (length old))) (to_bytes old @ [0]) = Some old"
    using old(2) by (intro scan_cstr_to_bytes) auto
  have s1: "same_vars U s s1" by (rule CreateXmlStringFromCurrentSettings_vars [OF a laws(2) new(1)])
  have p: "(if d' = d then Some (EFI_SUCCESS, s1) else write_both U X A S gs ps (str, length str + 1) s1) = Some (st, s')"
    using r by (simp add: PopulateCurrentSettingsIfNeeded_def old sc new split: if_splits)
  show ?thesis
  proof (cases "d' = d")
    case True
    then show ?thesis using p s1 by simp
  next
    case False
    obtain st2 s2 where w: "write_current U DFCI_SETTINGS_CURRENT_OUTPUT_VAR_NAME (str, length str + 1) s1 = (st2, s2)"
      by (metis prod.exhaust)
    have wb: "write_both U X A S gs ps (str, length str + 1) s1 = Some (st, s')" using p False by simp
    have "GetVariable U DFCI_SETTINGS_CURRENT_OUTPUT_VAR_NAME gDfciSettingsManagerVarNamespace s'
      = (EFI_SUCCESS, to_bytes str @ [0], DFCI_SECURED_SETTINGS_VAR_ATTRIBUTES)" if ok: "\<not> EFI_ERROR st"
    proof -
      have e2: "\<not> EFI_ERROR st2" using wb w ok by (auto simp: write_both_def)
      obtain v1 k s3 where c1: "CreateXmlStringFromCurrentSettings U X A S gs ps True s2 = Some (k, v1, s3)"
        using wb w e2 by (auto simp: write_both_def split: Option.bind_splits)
      have ne: "\<not> EFI_ERROR k" using wb w e2 c1 ok by (auto simp: write_both_def)
      obtain y where y: "write_current U V1_SETTINGS_CURRENT_VAR_NAME y s3 = (st, s')"
        using wb w e2 c1 ne by (auto simp: write_both_def split: Option.bind_splits)
      have "GetVariable U DFCI_SETTINGS_CURRENT_OUTPUT_VAR_NAME gDfciSettingsManagerVarNamespace s2
        = (EFI_SUCCESS, to_bytes str @ [0], DFCI_SECURED_SETTINGS_VAR_ATTRIBUTES)"
        using variable_lawsD(1) [OF v _ e2] w by (simp add: write_current_def)
      moreover have "same_vars U s2 s3" by (rule CreateXmlStringFromCurrentSettings_vars [OF a laws(2) c1])
      moreover have "GetVariable U DFCI_SETTINGS_CURRENT_OUTPUT_VAR_NAME gDfciSettingsManagerVarNamespace s'
        = GetVariable U DFCI_SETTINGS_CURRENT_OUTPUT_VAR_NAME gDfciSettingsManagerVarNamespace s3"
        by (rule variable_lawsD(2) [OF v y [unfolded write_current_def]])
          (simp add: DFCI_SETTINGS_CURRENT_OUTPUT_VAR_NAME_def V1_SETTINGS_CURRENT_VAR_NAME_def)
      ultimately show ?thesis by (simp add: same_vars_def)
    qed
    then show ?thesis using False by simp
  qed
qed

text \<open>A platform whose documents print with a date that changes, and an unchanged list of settings.\<close>

definition dated_platform :: "demo_state platform" where
  "dated_platform = demo_platform\<lparr>XmlTreeToString := (\<lambda>t s. (EFI_SUCCESS, ''<Date>2</Date>'', 15, s))\<rparr>"

definition dated_state :: demo_state where
  "dated_state = \<lparr>dm_vars = [((DFCI_SETTINGS_CURRENT_OUTPUT_VAR_NAME, gDfciSettingsManagerVarNamespace),
       to_bytes ''<Date>1</Date>'' @ [0], DFCI_SECURED_SETTINGS_VAR_ATTRIBUTES)],
     dm_docs = [(CURRENT_SETTINGS_XML_TEMPLATE, XmlNode CURRENT_PACKET_ELEMENT_NAME None [] True [])]\<rparr>"

lemma dated_services: "GetVariable dated_platform = GetVariable demo_platform" "SetVariable dated_platform = SetVariable demo_platform"
  "AllocatePool dated_platform = AllocatePool demo_platform" "GetTime dated_platform = GetTime demo_platform"
  "CreateXmlTree dated_platform = CreateXmlTree demo_platform" "AddNode dated_platform = AddNode demo_platform"
  "AddAttributeToNode dated_platform = AddAttributeToNode demo_platform"
  "XmlTreeToString dated_platform t s = (EFI_SUCCESS, ''<Date>2</Date>'', 15, s)"
  by (simp_all add: dated_platform_def)

lemma dated_laws: "nv_laws dated_platform" "xml_keeps_vars dated_platform"
  using demo_laws
  by (simp_all add: nv_laws_def xml_keeps_vars_def alloc_succeeds_def alloc_keeps_vars_def variable_laws_def same_vars_def
      dated_services)

theorem PopulateCurrentSettingsIfNeeded_on_change_witness:
  "\<exists>s'. PopulateCurrentSettingsIfNeeded dated_platform demo_set_env None None [] [] dated_state = Some (EFI_SUCCESS, s')
     \<and> same_vars dated_platform dated_state s'"
proof -
  have old: "GetVariable dated_platform DFCI_SETTINGS_CURRENT_OUTPUT_VAR_NAME gDfciSettingsManagerVarNamespace dated_state
      = (EFI_SUCCESS, to_bytes ''<Date>1</Date>'' @ [0], DFCI_SECURED_SETTINGS_VAR_ATTRIBUTES)"
    "cstring ''<Date>1</Date>''" "around_date ''<Date>1</Date>'' = Some ([], ''/Date>'')" "around_date ''<Date>2</Date>'' = Some ([], ''/Date>'')"
    by code_simp+
  have "map_option (\<lambda>(st, v, s). (st, v)) (CreateXmlStringFromCurrentSettings dated_platform demo_set_env None None [] [] False dated_state)
      = Some (EFI_SUCCESS, Some (''<Date>2</Date>'', length ''<Date>2</Date>'' + 1))"
    by code_simp
  then obtain s1 where new: "CreateXmlStringFromCurrentSettings dated_platform demo_set_env None None [] [] False dated_state
      = Some (EFI_SUCCESS, Some (''<Date>2</Date>'', length ''<Date>2</Date>'' + 1), s1)" by fastforce
  have "map_option fst (PopulateCurrentSettingsIfNeeded dated_platform demo_set_env None None [] [] dated_state) = Some EFI_SUCCESS"
    by code_simp
  then obtain s' where r: "PopulateCurrentSettingsIfNeeded dated_platform demo_set_env None None [] [] dated_state = Some (EFI_SUCCESS, s')"
    by fastforce
  from PopulateCurrentSettingsIfNeeded_on_change [OF dated_laws old(1-3) new old(4) r] r show ?thesis by simp
qed

end
