(* ===== verification/Setting_Apply.thy ===== *)
theory Setting_Apply
  imports Setting_Current
begin

text \<open>
  Settings packets (\<open>SettingsManagerTransportXml.c\<close>) with the pass-through to the authentication
  protocol of \<open>SettingsManagerDxe.c\<close> and the reset of \<open>SettingsManager.c\<close>.  As for permissions,
  the long function \<open>ApplySettings\<close> is cut into its stages; an error of a stage is the state and the
  status the code leaves in the packet.

  The theory shows that a packet reaches only providers whose settings its identity may write, that
  the stored lowest supported version never decreases, and that only the owner of an unenroll
  permission can reset the settings.
\<close>

section \<open>Authentication\<close>

text \<open>Without the authentication protocol the status is the one of \<open>LocateProtocol\<close>.\<close>

definition CheckAuthAndGetToken :: "'s auth_protocol option \<Rightarrow> bytes \<Rightarrow> bytes option \<Rightarrow> u64 \<Rightarrow> 's
    \<Rightarrow> (EFI_STATUS \<times> u64 \<times> 's) option" where
  "CheckAuthAndGetToken mAuth SignedData Signature AuthToken s = (case mAuth of
     None \<Rightarrow> Some (EFI_NOT_FOUND, AuthToken, s)
   | Some A \<Rightarrow> (case Signature of
       None \<Rightarrow> Some (ap_AuthWithPW A DFCI_AUTH_WITH_NO_PASSWORD_UNSIGNED 0 s)
     | Some sig \<Rightarrow> ap_AuthWithSignedData A SignedData sig AuthToken s))"

definition AuthTokenDispose :: "'s auth_protocol option \<Rightarrow> u64 \<Rightarrow> 's \<Rightarrow> EFI_STATUS \<times> u64 \<times> 's" where
  "AuthTokenDispose mAuth AuthToken s =
     (if AuthToken = DFCI_AUTH_TOKEN_INVALID then (EFI_SUCCESS, AuthToken, s)
      else case mAuth of None \<Rightarrow> (EFI_NOT_READY, AuthToken, s) | Some A \<Rightarrow> ap_DisposeAuthToken A AuthToken s)"

definition ValidateAndAuthenticateSettings :: "'s auth_protocol option \<Rightarrow> packet \<Rightarrow> 's \<Rightarrow> (EFI_STATUS \<times> packet \<times> 's) option" where
  "ValidateAndAuthenticateSettings mAuth Data s = do {
     (Status, Token, s1) \<leftarrow> CheckAuthAndGetToken mAuth (take (pk_SignedDataLength Data) (pk_Packet Data))
        (map_option (\<lambda>k. drop k (pk_Packet Data)) (pk_Signature Data)) (pk_AuthToken Data) s;
     let Data = Data\<lparr>pk_AuthToken := Token\<rparr>;
     Some (if EFI_ERROR Status
       then (EFI_SECURITY_VIOLATION, Data\<lparr>pk_State := STATE_DATA_AUTH_FAILED, pk_StatusCode := EFI_SECURITY_VIOLATION\<rparr>, s1)
       else (EFI_SUCCESS, Data\<lparr>pk_State := STATE_DATA_AUTHENTICATED\<rparr>, s1)) }"

definition ValidateSettingsPacket :: "packet \<Rightarrow> EFI_STATUS" where
  "ValidateSettingsPacket Data =
     (if pk_PacketSize Data > MAX_ALLOWABLE_DFCI_APPLY_VAR_SIZE then EFI_COMPROMISED_DATA
      else if (case pk_Signature Data of None \<Rightarrow> pk_SignedDataLength Data \<noteq> pk_PacketSize Data
               | Some k \<Rightarrow> pk_SignedDataLength Data \<ge> pk_PacketSize Data \<or> k \<noteq> pk_SignedDataLength Data)
      then EFI_COMPROMISED_DATA
      else case pk_Payload Data of
          None \<Rightarrow> EFI_COMPROMISED_DATA
        | Some p \<Rightarrow>
            if p \<le> 0 \<or> p + pk_PayloadSize Data > (case pk_Signature Data of None \<Rightarrow> pk_PacketSize Data | Some _ \<Rightarrow> pk_SignedDataLength Data)
            then EFI_COMPROMISED_DATA else EFI_SUCCESS)"

section \<open>The stages of ApplySettings\<close>

definition settings_documents :: "'s platform \<Rightarrow> string \<Rightarrow> 's \<Rightarrow> (stage_error + (xml_node \<times> xml_node)) \<times> 's" where
  "settings_documents U Payload s = (case CreateXmlTree U Payload s of (Status, Input, s1) \<Rightarrow>
     if EFI_ERROR Status then (Inl (STATE_BAD_XML, EFI_NO_MAPPING), s1)
     else case GetTime U s1 of (Status, ApplyTime, s2) \<Rightarrow>
       if EFI_ERROR Status then (Inl (STATE_DATA_SYSTEM_ERROR, EFI_ABORTED), s2)
       else case New_ResultPacketNodeList U ApplyTime s2 of (r, s3) \<Rightarrow>
         (case r of
            None \<Rightarrow> (Inl (STATE_BAD_XML, EFI_ABORTED), s3)
          | Some Result \<Rightarrow>
              if GetSettingsPacketNode (Some Input) = None then (Inl (STATE_BAD_XML, EFI_NO_MAPPING), s3)
              else if GetResultsPacketNode (Some Result) = None then (Inl (STATE_BAD_XML, EFI_NO_MAPPING), s3)
              else (Inr (Input, Result), s3)))"

text \<open>The versions of the packet against the stored ones; the result is the record with the new ones.\<close>

definition new_versions :: "u64 \<Rightarrow> u64 \<Rightarrow> setting_data \<Rightarrow> setting_data" where
  "new_versions Version Lsv d =
     (let d1 = (if si_CurrentVersion d \<noteq> ucast Version then d\<lparr>si_CurrentVersion := ucast Version, si_Modified := True\<rparr> else d)
      in if ucast Lsv > si_LSV d1 then d1\<lparr>si_LSV := ucast Lsv, si_Modified := True\<rparr> else d1)"

definition settings_versions :: "'s platform \<Rightarrow> xml_node \<Rightarrow> setting_data \<Rightarrow> (stage_error + setting_data) option" where
  "settings_versions U Packet d = do {
     vn \<leftarrow> child_by_name U Packet ''Version'';
     (case vn of None \<Rightarrow> Some (Inl (STATE_BAD_XML, EFI_NO_MAPPING)) | Some n \<Rightarrow>
        let Version = AsciiStrDecimalToUintn U (xn_Value n) in
        if Version > 0xFFFFFFFF then Some (Inl (STATE_BAD_XML, EFI_NO_MAPPING))
        else if si_LSV d > ucast Version then Some (Inl (STATE_VERSION_ERROR, EFI_ACCESS_DENIED))
        else do {
          ln \<leftarrow> child_by_name U Packet ''LowestSupportedVersion'';
          (case ln of None \<Rightarrow> Some (Inl (STATE_BAD_XML, EFI_NO_MAPPING)) | Some n \<Rightarrow>
             let Lsv = AsciiStrDecimalToUintn U (xn_Value n) in
             if Lsv > 0xFFFFFFFF then Some (Inl (STATE_BAD_XML, EFI_NO_MAPPING))
             else if Lsv > Version then Some (Inl (STATE_DATA_INVALID, EFI_NO_MAPPING))
             else Some (Inr (new_versions Version Lsv d))) }) }"

definition settings_lists :: "'s platform \<Rightarrow> xml_node \<Rightarrow> xml_node \<Rightarrow> (stage_error + (xml_node \<times> nat list)) option" where
  "settings_lists U Packet Result = (case GetSettingsListNodeFromPacketNode U Packet of
     None \<Rightarrow> Some (Inl (STATE_BAD_XML, EFI_NO_MAPPING))
   | Some k \<Rightarrow> do {
       lst \<leftarrow> node_at Packet [k];
       Some (case GetSettingsListNodeFromPacketNode U Result of
         None \<Rightarrow> Inl (STATE_BAD_XML, EFI_ABORTED) | Some r \<Rightarrow> Inr (lst, [r])) })"

text \<open>The walk over the settings; the outcome of every setting is recorded in the result document.\<close>

fun settings_loop :: "'s platform \<Rightarrow> 's set_env \<Rightarrow> 's auth_protocol option \<Rightarrow> perm_store option \<Rightarrow> group list
    \<Rightarrow> 's provider list \<Rightarrow> u64 \<Rightarrow> xml_node \<Rightarrow> nat list \<Rightarrow> xml_node list \<Rightarrow> bool \<Rightarrow> xml_node \<Rightarrow> 's
    \<Rightarrow> ((stage_error + xml_node) \<times> bool \<times> 's) option" where
  "settings_loop U X mAuth Store gs ps tok lst rp [] ResetRequired Result s = Some (Inr Result, ResetRequired, s)"
| "settings_loop U X mAuth Store gs ps tok lst rp (n # ns) ResetRequired Result s = do {
     (Status, IdPtr, Value) \<leftarrow> GetInputSettings U (Some lst) n;
     if EFI_ERROR Status then Some (Inl (STATE_BAD_XML, EFI_NO_MAPPING), ResetRequired, s)
     else case SetSettingFromAscii U X mAuth Store gs ps IdPtr Value (Some tok) 0 s of (Status, Flags, s1) \<Rightarrow> do {
       (Status, Result, s2) \<leftarrow> SetOutputSettingsStatus U Result rp IdPtr (status_string U Status) (Some (status_string U Flags)) s1;
       if EFI_ERROR Status then Some (Inl (STATE_DATA_SYSTEM_ERROR, EFI_DEVICE_ERROR), ResetRequired, s2)
       else settings_loop U X mAuth Store gs ps tok lst rp ns
         (ResetRequired \<or> Flags AND FLAGS_OUT_REBOOT_REQUIRED \<noteq> 0) Result s2 } }"

definition settings_result :: "'s platform \<Rightarrow> xml_node \<Rightarrow> packet \<Rightarrow> 's \<Rightarrow> EFI_STATUS \<times> packet \<times> 's" where
  "settings_result U Result Data s = (case XmlTreeToString U Result s of (Status, str, n, s') \<Rightarrow>
     let Data = Data\<lparr>pk_State := STATE_DATA_APPLIED\<rparr> in
     if EFI_ERROR Status then (EFI_ABORTED, Data, s')
     else let Data = Data\<lparr>pk_ResultXml := Some str, pk_ResultXmlSize := n\<rparr> in
       if n > MAX_ALLOWABLE_DFCI_RESULT_VAR_SIZE then (EFI_ABORTED, Data, s')
       else (EFI_SUCCESS, Data, s'))"

text \<open>The part of the function between the documents and the conversion of the result.\<close>

definition settings_body :: "'s platform \<Rightarrow> 's set_env \<Rightarrow> 's auth_protocol option \<Rightarrow> perm_store option \<Rightarrow> group list
    \<Rightarrow> 's provider list \<Rightarrow> xml_node \<Rightarrow> xml_node \<Rightarrow> packet \<Rightarrow> setting_data \<Rightarrow> 's
    \<Rightarrow> (EFI_STATUS \<times> packet \<times> setting_data \<times> 's) option" where
  "settings_body U X mAuth Store gs ps Input Result Data d s = do {
     v \<leftarrow> settings_versions U Input d;
     (case v of Inl (State, Status) \<Rightarrow> Some (Status, Data\<lparr>pk_State := State\<rparr>, d, s) | Inr d \<Rightarrow> do {
        l \<leftarrow> settings_lists U Input Result;
        (case l of Inl (State, Status) \<Rightarrow> Some (Status, Data\<lparr>pk_State := State\<rparr>, d, s) | Inr (lst, rp) \<Rightarrow> do {
           (r, Reset, s1) \<leftarrow> settings_loop U X mAuth Store gs ps (pk_AuthToken Data) lst rp (xn_Children lst)
              (pk_ResetRequired Data) Result s;
           let Data = Data\<lparr>pk_ResetRequired := Reset\<rparr>;
           (case r of
              Inl (State, Status) \<Rightarrow> Some (Status, Data\<lparr>pk_State := State\<rparr>, d, s1)
            | Inr Result \<Rightarrow> (case settings_result U Result Data s1 of (Status, Data, s2) \<Rightarrow> Some (Status, Data, d, s2))) }) }) }"

definition ApplySettings :: "'s platform \<Rightarrow> 's set_env \<Rightarrow> 's auth_protocol option \<Rightarrow> perm_store option \<Rightarrow> group list
    \<Rightarrow> 's provider list \<Rightarrow> packet \<Rightarrow> setting_data \<Rightarrow> 's \<Rightarrow> (EFI_STATUS \<times> packet \<times> setting_data \<times> 's) option" where
  "ApplySettings U X mAuth Store gs ps Data d s =
     (if pk_State Data \<noteq> STATE_DATA_AUTHENTICATED
      then Some (EFI_ABORTED, Data\<lparr>pk_State := STATE_DATA_SYSTEM_ERROR, pk_StatusCode := EFI_ABORTED\<rparr>, d, s)
      else do {
        off \<leftarrow> pk_Payload Data;
        Payload \<leftarrow> rd_cstr (pk_Packet Data) off (pk_PayloadSize Data);
        (case settings_documents U Payload s of
           (Inl (State, Status), s1) \<Rightarrow> Some (Status, Data\<lparr>pk_State := State, pk_StatusCode := Status\<rparr>, d, s1)
         | (Inr (Input, Result), s1) \<Rightarrow> do {
             (Status, Data, d, s2) \<leftarrow> settings_body U X mAuth Store gs ps Input Result Data d s1;
             Some (Status, Data\<lparr>pk_StatusCode := Status\<rparr>, d, s2) }) })"

section \<open>The packet protocol\<close>

text \<open>
  The result variable.  Its reserved bytes are not initialised: \<open>rsvd\<close> is what the allocated memory
  held.  The versions are saved only after success, and a failure to save is only reported.
\<close>

definition UpdateSettingsResult :: "'s platform \<Rightarrow> bytes \<Rightarrow> packet \<Rightarrow> setting_data \<Rightarrow> 's \<Rightarrow> (setting_data \<times> 's) option" where
  "UpdateSettingsResult U rsvd Data d s =
     (if pk_State Data = STATE_UNINITIALIZED then Some (d, s)
      else case AllocatePool U (pk_ResultXmlSize Data + 22) s of (ok, s1) \<Rightarrow>
        if \<not> ok then Some (d, s1)
        else do {
          payload \<leftarrow> (if pk_ResultXmlSize Data = 0 then Some []
             else map_option (\<lambda>x. take (pk_ResultXmlSize Data) (to_bytes x @ [0])) (pk_ResultXml Data));
          (case SetVariable U (pk_ResultName Data) gDfciSettingsManagerVarNamespace DFCI_SECURED_SETTINGS_VAR_ATTRIBUTES
             (le32 0x5253534D @ [1] @ rsvd @ le64 (pk_StatusCode Data) @ le32 (pk_SessionId Data)
               @ le16 (word_of_nat (pk_ResultXmlSize Data)) @ payload) s1 of (_, s2) \<Rightarrow>
           if EFI_ERROR (pk_StatusCode Data) then Some (d, s2)
           else case SMID_SaveToFlash U (Some d) s2 of (_, m, s3) \<Rightarrow> Some (case m of None \<Rightarrow> d | Some d' \<Rightarrow> d', s3)) })"

definition FreeSettings :: "'s platform \<Rightarrow> packet \<Rightarrow> 's \<Rightarrow> 's" where
  "FreeSettings U Data s = (if pk_State Data \<noteq> STATE_UNINITIALIZED
     then snd (SetVariable U (pk_MailboxName Data) gDfciSettingsManagerVarNamespace 0 [] s) else s)"

definition FreeInstanceMemory :: "packet \<Rightarrow> setting_data option \<Rightarrow> packet \<times> setting_data option" where
  "FreeInstanceMemory Data InternalData = (Data\<lparr>pk_ResultXml := None\<rparr>, None)"

text \<open>Loading the stored versions, or a fresh record when that fails.\<close>

definition load_versions :: "'s platform \<Rightarrow> 's \<Rightarrow> (EFI_STATUS \<times> setting_data option \<times> 's) option" where
  "load_versions U s = do {
     (Status, m, s1) \<leftarrow> SMID_LoadFromFlash U None s;
     if EFI_ERROR Status
     then (case SMID_InitInternalData U s1 of (Status, m, s2) \<Rightarrow>
       Some (Status, if EFI_ERROR Status then None else m, s2))
     else Some (Status, m, s1) }"

text \<open>The body up to the CLEANUP label.\<close>

definition settings_packet_body :: "'s platform \<Rightarrow> 's set_env \<Rightarrow> 's auth_protocol option \<Rightarrow> perm_store option \<Rightarrow> group list
    \<Rightarrow> 's provider list \<Rightarrow> packet \<Rightarrow> 's \<Rightarrow> (EFI_STATUS \<times> packet \<times> setting_data option \<times> 's) option" where
  "settings_packet_body U X mAuth Store gs ps Data s =
     (if pk_State Data \<noteq> STATE_DATA_PRESENT then Some (EFI_ABORTED, Data, None, s)
      else let Status = ValidateSettingsPacket Data in
        if EFI_ERROR Status
        then Some (Status, Data\<lparr>pk_State := STATE_DATA_SYSTEM_ERROR, pk_StatusCode := EFI_ABORTED\<rparr>, None, s)
        else do {
          (Status, m, s1) \<leftarrow> load_versions U s;
          if EFI_ERROR Status then Some (Status, Data, m, s1)
          else do {
            d \<leftarrow> m;
            (Status, Data, s2) \<leftarrow> ValidateAndAuthenticateSettings mAuth Data s1;
            if EFI_ERROR Status then Some (Status, Data, Some d, s2)
            else do {
              (Status, Data, d, s3) \<leftarrow> ApplySettings U X mAuth Store gs ps Data d s2;
              Some (Status, Data, Some d, s3) } } })"

definition ApplyNewSettingsPacket :: "'s platform \<Rightarrow> 's set_env \<Rightarrow> 's auth_protocol option \<Rightarrow> perm_store option \<Rightarrow> group list
    \<Rightarrow> 's provider list \<Rightarrow> bytes \<Rightarrow> bool \<Rightarrow> packet option \<Rightarrow> 's \<Rightarrow> (EFI_STATUS \<times> packet option \<times> 's) option" where
  "ApplyNewSettingsPacket U X mAuth Store gs ps rsvd This_ok Data s = (case Data of
     None \<Rightarrow> Some (EFI_INVALID_PARAMETER, Data, s)
   | Some D \<Rightarrow>
       if \<not> This_ok then Some (EFI_INVALID_PARAMETER, Data, s)
       else do {
         (Status, D, m, s1) \<leftarrow> settings_packet_body U X mAuth Store gs ps D s;
         s2 \<leftarrow> (case m of None \<Rightarrow> Some s1 | Some d \<Rightarrow> map_option snd (UpdateSettingsResult U rsvd D d s1));
         (case AuthTokenDispose mAuth (pk_AuthToken D) (FreeSettings U D s2) of (_, tok, s3) \<Rightarrow>
           Some (Status, Some (fst (FreeInstanceMemory (D\<lparr>pk_AuthToken := tok\<rparr>) m)), s3)) })"

text \<open>The settings manager answers at once and cannot undo a packet.\<close>

definition SetSettingsResponse :: "packet option \<Rightarrow> EFI_STATUS" where
  "SetSettingsResponse Data = EFI_SUCCESS"

definition SettingsLKG_Handler :: "packet option \<Rightarrow> u8 \<Rightarrow> EFI_STATUS" where
  "SettingsLKG_Handler Data Operation = EFI_SUCCESS"

text \<open>The reset of the setting access protocol: errors of the two steps are only reported.\<close>

definition SystemSettingsAccessReset :: "'s platform \<Rightarrow> 's auth_protocol option \<Rightarrow> perm_store option \<Rightarrow> group list
    \<Rightarrow> 's provider list \<Rightarrow> u64 option \<Rightarrow> 's \<Rightarrow> EFI_STATUS \<times> 's" where
  "SystemSettingsAccessReset U mAuth Store gs ps AuthToken s = (case AuthToken of
     None \<Rightarrow> (EFI_INVALID_PARAMETER, s)
   | Some tok \<Rightarrow> (case HasUnenrollPermission mAuth Store gs (Some tok) False s of (Status, CanUnenroll) \<Rightarrow>
       if EFI_ERROR Status then (Status, s)
       else if \<not> CanUnenroll then (EFI_ACCESS_DENIED, s)
       else case ResetAllProvidersToDefaultsWithMatchingFlags FLAGS_NO_PREBOOT_UI ps s of (_, s1) \<Rightarrow>
         (EFI_SUCCESS, snd (SMID_ResetInFlash U s1))))"

section \<open>What a packet can change\<close>

text \<open>
  A relation that is kept by the permitted writes, by the XML library and the clock; and one that the
  operations of the authentication protocol keep as well.
\<close>

definition document_frame :: "'s platform \<Rightarrow> 's set_env \<Rightarrow> 's provider list \<Rightarrow> (string \<Rightarrow> bool) \<Rightarrow> ('s \<Rightarrow> 's \<Rightarrow> bool) \<Rightarrow> bool" where
  "document_frame U X ps ok R \<longleftrightarrow> write_frame U X ps ok R
   \<and> (\<forall>x. R x (snd (snd (GetTime U x))))
   \<and> (\<forall>t x. R x (snd (snd (CreateXmlTree U t x))))
   \<and> (\<forall>t p n v x. R x (snd (snd (snd (AddNode U t p n v x)))))
   \<and> (\<forall>t x. R x (snd (snd (snd (XmlTreeToString U t x)))))"

definition packet_frame :: "'s platform \<Rightarrow> 's set_env \<Rightarrow> 's auth_protocol option \<Rightarrow> 's provider list \<Rightarrow> (string \<Rightarrow> bool)
    \<Rightarrow> ('s \<Rightarrow> 's \<Rightarrow> bool) \<Rightarrow> bool" where
  "packet_frame U X mAuth ps ok R \<longleftrightarrow> document_frame U X ps ok R
   \<and> (\<forall>A. mAuth = Some A \<longrightarrow> (\<forall>p n x. R x (snd (snd (ap_AuthWithPW A p n x))))
        \<and> (\<forall>d sg t x st u y. ap_AuthWithSignedData A d sg t x = Some (st, u, y) \<longrightarrow> R x y)
        \<and> (\<forall>t x. R x (snd (snd (ap_DisposeAuthToken A t x)))))"

lemma document_frameD:
  assumes "document_frame U X ps ok R"
  shows "write_frame U X ps ok R" "R x x" "R x y \<Longrightarrow> R y z \<Longrightarrow> R x z"
    "AllocatePool U n x = (b, y) \<Longrightarrow> R x y" "GetTime U x = (st, tm, y) \<Longrightarrow> R x y" "CreateXmlTree U t x = (st, nd, y) \<Longrightarrow> R x y"
    "AddNode U nd p nm v x = (st, nd', q, y) \<Longrightarrow> R x y" "XmlTreeToString U nd x = (st, str, k, y) \<Longrightarrow> R x y"
proof -
  note a = assms [unfolded document_frame_def]
  show w: "write_frame U X ps ok R" using a by blast
  show "R x x" and "R x y \<Longrightarrow> R y z \<Longrightarrow> R x z" using write_frameD(1,2) [OF w] by blast+
  show "AllocatePool U n x = (b, y) \<Longrightarrow> R x y" using write_frameD(5) [OF w] by (metis snd_conv)
  show "GetTime U x = (st, tm, y) \<Longrightarrow> R x y" "CreateXmlTree U t x = (st, nd, y) \<Longrightarrow> R x y"
    "AddNode U nd p nm v x = (st, nd', q, y) \<Longrightarrow> R x y" "XmlTreeToString U nd x = (st, str, k, y) \<Longrightarrow> R x y"
    using a by (metis snd_conv)+
qed

lemma packet_frameD:
  assumes "packet_frame U X mAuth ps ok R"
  shows "document_frame U X ps ok R"
    "CheckAuthAndGetToken mAuth d sg u x = Some (st, u', y) \<Longrightarrow> R x y"
    "AuthTokenDispose mAuth u x = (st, u', y) \<Longrightarrow> R x y"
proof -
  note a = assms [unfolded packet_frame_def]
  show d: "document_frame U X ps ok R" using a by blast
  note r = document_frameD(2) [OF d]
  show "CheckAuthAndGetToken mAuth d sg u x = Some (st, u', y) \<Longrightarrow> R x y"
    using a r by (auto simp: CheckAuthAndGetToken_def split: option.splits) (metis snd_conv)
  show "AuthTokenDispose mAuth u x = (st, u', y) \<Longrightarrow> R x y"
    using a r by (auto simp: AuthTokenDispose_def split: option.splits if_splits) (metis snd_conv)
qed

lemma add_text_node_frame:
  assumes "document_frame U X ps ok R" "add_text_node U t p nm v x = (st, t', y)"
  shows "R x y"
  using assms(2) document_frameD(7) [OF assms(1)] by (auto simp: add_text_node_def split: prod.splits)

lemma SetOutputSettingsStatus_frame:
  assumes f: "document_frame U X ps ok R" and o: "SetOutputSettingsStatus U t p i r fl s = Some (st, t', s')"
  shows "R s s'"
  using o document_frameD(2,7) [OF f] add_text_node_frame [OF f]
  by (auto simp: SetOutputSettingsStatus_def split: Option.bind_splits prod.splits if_splits option.splits)
    (meson document_frameD(3) [OF f])+

lemma settings_documents_frame:
  assumes f: "document_frame U X ps ok R" and d: "settings_documents U t s = (r, s')"
  shows "R s s'"
  using d document_frameD(5-7) [OF f]
  by (auto simp: settings_documents_def New_ResultPacketNodeList_def new_document_def split: prod.splits if_splits option.splits)
    (meson document_frameD(3) [OF f])+

lemma settings_loop_frame:
  assumes f: "document_frame U X ps ok R" and g: "guarded mAuth Store gs tok ok R s0"
  shows "R s0 x \<Longrightarrow> settings_loop U X mAuth Store gs ps tok lst rp ns b t x = Some (r, b', y) \<Longrightarrow> R s0 y"
proof (induction ns arbitrary: b t x)
  case (Cons n ns)
  obtain st i v where i: "GetInputSettings U (Some lst) n = Some (st, i, v)"
    using Cons.prems(2) by (auto split: Option.bind_splits)
  obtain st1 fl s1 where w: "SetSettingFromAscii U X mAuth Store gs ps i v (Some tok) 0 x = (st1, fl, s1)" by (metis prod_cases3)
  have 1: "R s0 s1" using SetSetting_frame [OF document_frameD(1) [OF f] g Cons.prems(1), of i v 0] w by simp
  show ?case
  proof (cases "EFI_ERROR st")
    case True
    then show ?thesis using Cons.prems i by simp
  next
    case False
    obtain st2 t2 s2 where o: "SetOutputSettingsStatus U t rp i (status_string U st1) (Some (status_string U fl)) s1 = Some (st2, t2, s2)"
      using Cons.prems(2) i w False by (auto split: Option.bind_splits)
    have "R s0 s2" by (rule document_frameD(3) [OF f 1 SetOutputSettingsStatus_frame [OF f o]])
    then show ?thesis using Cons i w False o by (auto split: if_splits)
  qed
qed simp

lemma settings_body_frame:
  assumes f: "document_frame U X ps ok R" and g: "guarded mAuth Store gs (pk_AuthToken D) ok R s0" and x: "R s0 x"
    and b: "settings_body U X mAuth Store gs ps i t D d x = Some (st, D', d', y)"
  shows "R s0 y"
  using b x settings_loop_frame [OF f g x] document_frameD(8) [OF f]
  by (auto simp: settings_body_def settings_result_def Let_def
      split: Option.bind_splits sum.splits prod.splits if_splits) (meson document_frameD(3) [OF f])+

lemma ApplySettings_frame:
  assumes f: "document_frame U X ps ok R" and g: "guarded mAuth Store gs (pk_AuthToken D) ok R s"
    and b: "ApplySettings U X mAuth Store gs ps D d s = Some (st, D', d', s')"
  shows "R s s'"
proof (cases "pk_State D = STATE_DATA_AUTHENTICATED")
  case False
  then show ?thesis using b document_frameD(2) [OF f] by (simp add: ApplySettings_def)
next
  case True
  then obtain off p where p: "pk_Payload D = Some off" "rd_cstr (pk_Packet D) off (pk_PayloadSize D) = Some p"
    using b by (auto simp: ApplySettings_def split: Option.bind_splits)
  obtain r s1 where d: "settings_documents U p s = (r, s1)" by (metis prod.exhaust)
  note 1 = settings_documents_frame [OF f d]
  show ?thesis
    using b True p d 1 settings_body_frame [OF f g 1]
    by (auto simp: ApplySettings_def split: sum.splits Option.bind_splits)
qed

lemma load_versions_frame:
  assumes f: "document_frame U X ps ok R" and l: "load_versions U s = Some (st, m, s')"
  shows "R s s'"
  using l document_frameD(2,4,5) [OF f]
  by (auto simp: load_versions_def SMID_LoadFromFlash_def SMID_InitInternalData_def
      split: Option.bind_splits sum.splits prod.splits if_splits option.splits) (meson document_frameD(3) [OF f])+

text \<open>
  What the authentication of a packet yields: a state related by \<open>R\<close> to the one before, and a token
  that is guarded by \<open>ok\<close> as long as the relation \<open>G\<close> holds.  The relation \<open>R\<close> spans the whole packet,
  \<open>G\<close> the part in which the token is valid.
\<close>

definition authenticates :: "'s auth_protocol option \<Rightarrow> perm_store option \<Rightarrow> group list \<Rightarrow> packet \<Rightarrow> (string \<Rightarrow> bool)
    \<Rightarrow> ('s \<Rightarrow> 's \<Rightarrow> bool) \<Rightarrow> ('s \<Rightarrow> 's \<Rightarrow> bool) \<Rightarrow> 's \<Rightarrow> bool" where
  "authenticates mAuth Store gs D ok G R x \<longleftrightarrow> (\<forall>st tok y.
     CheckAuthAndGetToken mAuth (take (pk_SignedDataLength D) (pk_Packet D))
        (map_option (\<lambda>k. drop k (pk_Packet D)) (pk_Signature D)) (pk_AuthToken D) x = Some (st, tok, y)
     \<longrightarrow> R x y \<and> (\<not> EFI_ERROR st \<longrightarrow> guarded mAuth Store gs tok ok G y))"

lemma ValidateAndAuthenticateSettings_frame:
  assumes g: "authenticates mAuth Store gs D ok G R s" and v: "ValidateAndAuthenticateSettings mAuth D s = Some (st, D', s')"
  shows "R s s' \<and> (\<not> EFI_ERROR st \<longrightarrow> guarded mAuth Store gs (pk_AuthToken D') ok G s')"
  using v g by (auto simp: ValidateAndAuthenticateSettings_def authenticates_def Let_def split: Option.bind_splits if_splits)

lemma settings_packet_body_frame:
  assumes f: "document_frame U X ps ok G" and sub: "\<And>x y. G x y \<Longrightarrow> R x y" and tr: "\<And>x y z. R x y \<Longrightarrow> R y z \<Longrightarrow> R x z"
    and g: "\<And>x. G s x \<Longrightarrow> authenticates mAuth Store gs D ok G R x"
    and b: "settings_packet_body U X mAuth Store gs ps D s = Some (st, D', m, s')"
  shows "R s s'"
proof (cases "pk_State D = STATE_DATA_PRESENT \<and> \<not> EFI_ERROR (ValidateSettingsPacket D)")
  case False
  then show ?thesis using b sub document_frameD(2) [OF f] by (auto simp: settings_packet_body_def Let_def split: if_splits)
next
  case True
  then obtain st1 m1 s1 where l: "load_versions U s = Some (st1, m1, s1)"
    using b by (auto simp: settings_packet_body_def split: Option.bind_splits)
  note 1 = load_versions_frame [OF f l]
  show ?thesis
  proof (cases "EFI_ERROR st1")
    case True
    then show ?thesis using b sub [OF 1] l \<open>pk_State D = _ \<and> _\<close> by (simp add: settings_packet_body_def)
  next
    case False
    then obtain d st2 D2 s2 where d: "m1 = Some d" and v: "ValidateAndAuthenticateSettings mAuth D s1 = Some (st2, D2, s2)"
      using b l True by (auto simp: settings_packet_body_def split: Option.bind_splits)
    note 2 = ValidateAndAuthenticateSettings_frame [OF g [OF 1] v]
    have 3: "R s s2" by (rule tr [OF sub [OF 1] conjunct1 [OF 2]])
    have "R s2 s4" if "\<not> EFI_ERROR st2" "ApplySettings U X mAuth Store gs ps D2 d s2 = Some (a, b, c, s4)" for a b c s4
      using sub [OF ApplySettings_frame [OF f _ that(2)]] 2 that(1) by blast
    then show ?thesis
      using b l True False d v 3 by (auto simp: settings_packet_body_def split: Option.bind_splits if_splits) (meson tr)+
  qed
qed

section \<open>Versions\<close>

text \<open>The record of versions a packet leaves: well-formed, not below the loaded one, marked when it differs.\<close>

definition versions_grow :: "setting_data \<Rightarrow> setting_data \<Rightarrow> bool" where
  "versions_grow d d' \<longleftrightarrow> si_LSV d' \<le> si_CurrentVersion d' \<and> si_LSV d \<le> si_LSV d' \<and> (\<not> si_Modified d' \<longrightarrow> d' = d)"

lemma new_versions_grow:
  assumes "Version \<le> 0xFFFFFFFF" "Lsv \<le> Version" "si_LSV d \<le> ucast Version"
  shows "versions_grow d (new_versions Version Lsv d)"
proof -
  have "(ucast Lsv :: u32) \<le> ucast Version"
    using assms(2) by (simp add: word_le_nat_alt unat_ucast32 [OF assms(1)] unat_ucast32 [OF order_trans [OF assms(2,1)]])
  then show ?thesis
    using assms(3) by (auto simp: versions_grow_def new_versions_def Let_def)
qed

lemma settings_versions_grow: "settings_versions U n d = Some (Inr d') \<Longrightarrow> versions_grow d d'"
  by (auto simp: settings_versions_def Let_def not_less intro!: new_versions_grow
      split: Option.bind_splits option.splits if_splits)

lemma ApplySettings_versions:
  assumes "si_LSV d \<le> si_CurrentVersion d" "ApplySettings U X mAuth Store gs ps D d s = Some (st, D', d', s')"
  shows "versions_grow d d' \<and> (pk_State D = STATE_DATA_AUTHENTICATED \<longrightarrow> pk_StatusCode D' = st)"
proof -
  have r: "versions_grow d d" using assms(1) by (simp add: versions_grow_def)
  have "versions_grow d d2" if "settings_body U X mAuth Store gs ps i t D d s1 = Some (st, D2, d2, s2)" for i t s1 st D2 d2 s2
    using that r settings_versions_grow
    by (auto simp: settings_body_def Let_def split: Option.bind_splits sum.splits prod.splits)
  then show ?thesis
    using assms(2) r by (auto simp: ApplySettings_def split: if_splits Option.bind_splits sum.splits prod.splits)
qed

lemma settings_packet_body_versions:
  assumes "setting_stored U s (Some d0)" "settings_packet_body U X mAuth Store gs ps D s = Some (st, D', m, s')"
  shows "case m of None \<Rightarrow> True | Some d \<Rightarrow> versions_grow (d0\<lparr>si_Modified := False\<rparr>) d"
proof -
  have v: "si_LSV d0 \<le> si_CurrentVersion d0" using assms(1) by (simp add: setting_stored_def)
  obtain s1 where "SMID_LoadFromFlash U None s = Some (EFI_SUCCESS, Some (d0\<lparr>si_Modified := False\<rparr>), s1)"
    using SMID_LoadFromFlash_stored [OF assms(1), of None] by (auto simp: same_setting_data_def)
  then have l: "load_versions U s = Some (EFI_SUCCESS, Some (d0\<lparr>si_Modified := False\<rparr>), s1)"
    by (simp add: load_versions_def)
  have r: "versions_grow (d0\<lparr>si_Modified := False\<rparr>) (d0\<lparr>si_Modified := False\<rparr>)" using v by (simp add: versions_grow_def)
  have a: "versions_grow (d0\<lparr>si_Modified := False\<rparr>) d'"
    if "ApplySettings U X mAuth Store gs ps E (d0\<lparr>si_Modified := False\<rparr>) x = Some (st, D', d', s')" for E x st D' d' s'
    using ApplySettings_versions [OF _ that] v by simp
  show ?thesis
    using assms(2) r by (auto simp: settings_packet_body_def l Let_def a split: if_splits Option.bind_splits)
qed

lemma settings_packet_body_names:
  assumes "settings_packet_body U X mAuth Store gs ps D s = Some (st, D', m, s')"
  shows "pk_ResultName D' = pk_ResultName D \<and> pk_MailboxName D' = pk_MailboxName D"
proof -
  have b: "pk_ResultName D' = pk_ResultName D \<and> pk_MailboxName D' = pk_MailboxName D"
    if "settings_body U X mAuth Store gs ps i t D d s = Some (st, D', d', s')" for D i t d s st D' d' s'
    using that by (auto simp: settings_body_def settings_result_def Let_def
        split: Option.bind_splits sum.splits prod.splits if_splits)
  have a: "pk_ResultName D' = pk_ResultName D \<and> pk_MailboxName D' = pk_MailboxName D"
    if "ApplySettings U X mAuth Store gs ps D d s = Some (st, D', d', s')" for D d s st D' d' s'
    using that b by (auto simp: ApplySettings_def split: if_splits Option.bind_splits sum.splits prod.splits)
  have v: "pk_ResultName D' = pk_ResultName D \<and> pk_MailboxName D' = pk_MailboxName D"
    if "ValidateAndAuthenticateSettings mAuth D s = Some (st, D', s')" for D s st D' s'
    using that by (auto simp: ValidateAndAuthenticateSettings_def Let_def split: Option.bind_splits if_splits)
  show ?thesis
    using assms v a by (auto simp: settings_packet_body_def Let_def split: if_splits Option.bind_splits)
qed

text \<open>The variable of the versions is in a namespace of its own.\<close>

lemma settings_variable_ne: "(n, gDfciSettingsManagerVarNamespace) \<noteq> (SMID_VAR_NAME, gDfciInternalVariableGuid)"
  by (simp add: gDfciSettingsManagerVarNamespace_def gDfciInternalVariableGuid_def)

definition same_smid :: "'s platform \<Rightarrow> 's \<Rightarrow> 's \<Rightarrow> bool" where
  "same_smid U x y \<longleftrightarrow> GetVariable U SMID_VAR_NAME gDfciInternalVariableGuid y = GetVariable U SMID_VAR_NAME gDfciInternalVariableGuid x"

lemma same_smid_set:
  assumes "variable_laws U" "SetVariable U n gDfciSettingsManagerVarNamespace a d x = (st, y)"
  shows "same_smid U x y"
  using variable_lawsD(2) [OF assms settings_variable_ne [symmetric]] by (simp add: same_smid_def)

lemma setting_stored_smid: "same_smid U x y \<Longrightarrow> setting_stored U x m \<Longrightarrow> setting_stored U y m"
  by (simp add: same_smid_def setting_stored_def)

lemma UpdateSettingsResult_versions:
  assumes st: "setting_stored U s (Some d0)" and g: "versions_grow (d0\<lparr>si_Modified := False\<rparr>) d"
    and u: "UpdateSettingsResult U rsvd D d s = Some (d', s')"
  shows "\<exists>d1. setting_stored U s' (Some d1) \<and> si_LSV d0 \<le> si_LSV d1"
proof -
  have l: "nv_laws U" using st by (simp add: setting_stored_def)
  have al: "setting_stored U y (Some d0)" if "AllocatePool U n s = (b, y)" for n b y
    by (rule setting_stored_vars [OF alloc_keeps_varsD(1) [OF nv_lawsD(2) [OF l] that] st])
  have save: "\<exists>d1. setting_stored U y (Some d1) \<and> si_LSV d0 \<le> si_LSV d1"
    if x: "setting_stored U x (Some d0)" and sv: "SMID_SaveToFlash U (Some d) x = (a, m, y)" for x a m y
  proof (cases "si_Modified d")
    case False
    then show ?thesis using sv x by (auto simp: SMID_SaveToFlash_def)
  next
    case True
    then have "setting_ready U (Some d) x" using g l by (simp add: setting_ready_def versions_grow_def)
    from this sv show ?thesis
    proof (rule SMID_SaveToFlash_cases)
      assume "same_vars U x y"
      from setting_stored_vars [OF this x] show ?thesis by auto
    next
      fix t assume "GetVariable U SMID_VAR_NAME gDfciInternalVariableGuid y
          = (EFI_SUCCESS, smid_header d @ time_bytes (si_CreatedOn d) @ time_bytes t, DFCI_INTERNAL_VAR_ATTRIBUTES)"
      then have "setting_stored U y (Some d)" using l g by (auto simp: setting_stored_def versions_grow_def)
      then show ?thesis using g by (auto simp: versions_grow_def)
    qed
  qed
  have set: "setting_stored U z (Some d0)"
    if "setting_stored U x (Some d0)" "SetVariable U n gDfciSettingsManagerVarNamespace a b x = (c, z)" for x n a b c z
    by (rule setting_stored_smid [OF same_smid_set [OF nv_lawsD(3) [OF l] that(2)] that(1)])
  show ?thesis
    using u st al set save by (auto simp: UpdateSettingsResult_def split: if_splits prod.splits Option.bind_splits) blast+
qed

text \<open>The end of a packet keeps a relation that the writes of its variables keep.\<close>

lemma SMID_SaveToFlash_frame:
  assumes f: "document_frame U X ps ok R"
    and v: "\<And>a d x. R x (snd (SetVariable U SMID_VAR_NAME gDfciInternalVariableGuid a d x))"
    and s: "SMID_SaveToFlash U (Some d) x = (c, m, y)"
  shows "R x y"
proof -
  have v': "SetVariable U SMID_VAR_NAME gDfciInternalVariableGuid a b z = (st, w) \<Longrightarrow> R z w" for a b z st w
    using v [of z a b] by simp
  show ?thesis
    using s document_frameD(2,4,5) [OF f] v'
    by (auto simp: SMID_SaveToFlash_def split: if_splits prod.splits) (meson document_frameD(3) [OF f])+
qed

lemma UpdateSettingsResult_frame:
  assumes f: "document_frame U X ps ok R"
    and r: "\<And>a d x. R x (snd (SetVariable U (pk_ResultName D) gDfciSettingsManagerVarNamespace a d x))"
    and v: "\<And>a d x. R x (snd (SetVariable U SMID_VAR_NAME gDfciInternalVariableGuid a d x))"
    and u: "UpdateSettingsResult U rsvd D d x = Some (d', y)"
  shows "R x y"
proof -
  have r': "SetVariable U (pk_ResultName D) gDfciSettingsManagerVarNamespace a b z = (st, w) \<Longrightarrow> R z w" for a b z st w
    using r [of z a b] by simp
  show ?thesis
    using u document_frameD(2,4) [OF f] r' SMID_SaveToFlash_frame [OF f v]
    by (auto simp: UpdateSettingsResult_def split: if_splits prod.splits Option.bind_splits) (meson document_frameD(3) [OF f])+
qed

section \<open>Properties\<close>

lemma ApplyNewSettingsPacket_frame:
  assumes f: "document_frame U X ps ok G" and sub: "\<And>x y. G x y \<Longrightarrow> R x y" and tr: "\<And>x y z. R x y \<Longrightarrow> R y z \<Longrightarrow> R x z"
    and g: "\<And>x. G s x \<Longrightarrow> authenticates mAuth Store gs D ok G R x"
    and dis: "\<And>t x c u y. AuthTokenDispose mAuth t x = (c, u, y) \<Longrightarrow> R x y"
    and var: "\<And>n g a d x. (n, g) \<in> {(pk_ResultName D, gDfciSettingsManagerVarNamespace),
        (pk_MailboxName D, gDfciSettingsManagerVarNamespace), (SMID_VAR_NAME, gDfciInternalVariableGuid)}
      \<Longrightarrow> G x (snd (SetVariable U n g a d x))"
    and r: "ApplyNewSettingsPacket U X mAuth Store gs ps rsvd True (Some D) s = Some (st, D', s')"
  shows "R s s'"
proof -
  obtain st1 D1 m s1 where b: "settings_packet_body U X mAuth Store gs ps D s = Some (st1, D1, m, s1)"
    using r by (auto simp: ApplyNewSettingsPacket_def split: Option.bind_splits)
  have n: "pk_ResultName D1 = pk_ResultName D" "pk_MailboxName D1 = pk_MailboxName D"
    using settings_packet_body_names [OF b] by auto
  have 1: "R s s1" by (rule settings_packet_body_frame [OF f sub tr g b])
  have v: "G x (snd (SetVariable U (pk_ResultName D) gDfciSettingsManagerVarNamespace a d x))"
    "G x (snd (SetVariable U (pk_MailboxName D) gDfciSettingsManagerVarNamespace a d x))"
    "G x (snd (SetVariable U SMID_VAR_NAME gDfciInternalVariableGuid a d x))" for a d x
    by (simp_all add: var)
  have up: "R x y" if "UpdateSettingsResult U rsvd D1 d x = Some (d', y)" for d x d' y
    by (rule sub [OF UpdateSettingsResult_frame [OF f v(1) [folded n(1)] v(3) that]])
  have fr: "R x (FreeSettings U D1 x)" for x
    using sub [OF document_frameD(2) [OF f]] sub [OF v(2)] by (simp add: FreeSettings_def n)
  have di: "R x y" if "AuthTokenDispose mAuth t (FreeSettings U D1 x) = (c, u, y)" for t x c u y
    by (rule tr [OF fr dis [OF that]])
  show ?thesis
    using r b 1 up di
    by (auto simp: ApplyNewSettingsPacket_def split: Option.bind_splits option.splits prod.splits) (meson tr)+
qed

text \<open>
  Property C6: anti-rollback.  Whatever a settings packet contains and however its processing ends,
  the lowest supported version in flash never decreases, and the stored record stays readable.
\<close>

theorem ApplyNewSettingsPacket_lsv_monotone:
  assumes st: "setting_stored U s (Some d0)" and f: "packet_frame U X mAuth ps (\<lambda>_. True) (same_smid U)"
    and r: "ApplyNewSettingsPacket U X mAuth Store gs ps rsvd This_ok Data s = Some (st, D', s')"
  shows "\<exists>d. setting_stored U s' (Some d) \<and> si_LSV d0 \<le> si_LSV d"
proof (cases "\<exists>D. Data = Some D \<and> This_ok")
  case False
  then show ?thesis using r st by (auto simp: ApplyNewSettingsPacket_def split: option.splits)
next
  case True
  then obtain D where D: "Data = Some D" "This_ok" by blast
  have l: "variable_laws U" using st by (simp add: setting_stored_def nv_laws_def)
  note fd = packet_frameD(1) [OF f]
  have g: "authenticates mAuth Store gs D (\<lambda>_. True) (same_smid U) (same_smid U) x" for x
    using packet_frameD(2) [OF f] by (auto simp: authenticates_def guarded_def)
  obtain st1 D1 m s1 where b: "settings_packet_body U X mAuth Store gs ps D s = Some (st1, D1, m, s1)"
    using r D by (auto simp: ApplyNewSettingsPacket_def split: Option.bind_splits)
  have 1: "setting_stored U s1 (Some d0)"
    by (rule setting_stored_smid [OF settings_packet_body_frame [OF fd _ document_frameD(3) [OF fd] g b] st])
  obtain s2 d1 where u: "(case m of None \<Rightarrow> Some s1 | Some d \<Rightarrow> map_option snd (UpdateSettingsResult U rsvd D1 d s1)) = Some s2"
    and d1: "setting_stored U s2 (Some d1)" "si_LSV d0 \<le> si_LSV d1"
  proof (cases m)
    case None
    then show thesis using that 1 by simp
  next
    case (Some d)
    have v: "versions_grow (d0\<lparr>si_Modified := False\<rparr>) d" using settings_packet_body_versions [OF st b] Some by simp
    obtain s2 d' where u: "UpdateSettingsResult U rsvd D1 d s1 = Some (d', s2)"
      using r D b Some by (auto simp: ApplyNewSettingsPacket_def split: Option.bind_splits)
    obtain d1 where "setting_stored U s2 (Some d1)" "si_LSV d0 \<le> si_LSV d1"
      using UpdateSettingsResult_versions [OF 1 v u] by blast
    with u Some show thesis by (intro that [of s2 d1]) simp_all
  qed
  have fr: "same_smid U s2 (FreeSettings U D1 s2)"
    using same_smid_set [OF l, of "pk_MailboxName D1" 0 "[]" s2] document_frameD(2) [OF fd]
    by (auto simp: FreeSettings_def prod_eq_iff)
  obtain c u3 s3 where a: "AuthTokenDispose mAuth (pk_AuthToken D1) (FreeSettings U D1 s2) = (c, u3, s3)" by (metis prod_cases3)
  have "s' = s3" using r D b u a by (auto simp: ApplyNewSettingsPacket_def split: Option.bind_splits)
  then have "same_smid U s2 s'" using document_frameD(3) [OF fd fr packet_frameD(3) [OF f a]] by simp
  from setting_stored_smid [OF this d1(1)] d1(2) show ?thesis by blast
qed

lemma reset_loop_fold:
  "reset_loop fl ps s = fold (\<lambda>p s. snd (pv_SetDefault p s)) (filter (\<lambda>p. pv_Flags p AND fl \<noteq> 0) ps) s"
  by (induction ps arbitrary: s) simp_all

text \<open>
  Property C38: resetting the settings needs the right to unenroll; without it nothing changes.  With
  it exactly the providers flagged as having no other user interface are set to their defaults, in
  the order of their registration, and the stored versions are deleted.
\<close>

theorem SystemSettingsAccessReset_rule:
  assumes "wf_store S" "ap_GetIdentityProperties A tok s = (st, Ident)" "\<not> EFI_ERROR st"
  shows "SystemSettingsAccessReset U (Some A) (Some S) gs ps (Some tok) s =
    (if may_write S gs Ident ID_OWNER_KEY \<or> may_write S gs Ident ID_DFCI_RECOVERY \<or> may_write S gs Ident ID_ZTD_RECOVERY
     then (EFI_SUCCESS, snd (SetVariable U SMID_VAR_NAME gDfciInternalVariableGuid DFCI_INTERNAL_VAR_ATTRIBUTES []
       (fold (\<lambda>p s. snd (pv_SetDefault p s)) (filter (\<lambda>p. pv_Flags p AND FLAGS_NO_PREBOOT_UI \<noteq> 0) ps) s)))
     else (EFI_ACCESS_DENIED, s))"
  by (simp add: SystemSettingsAccessReset_def HasUnenrollPermission_def HasWritePermissions_may_write [OF assms]
      ResetAllProvidersToDefaultsWithMatchingFlags_def reset_loop_fold SMID_ResetInFlash_def case_prod_beta)

section \<open>Concrete instances\<close>

text \<open>An unsigned packet that enables the settings \<open>A\<close> and \<open>B\<close>, of which its identity may write only \<open>B\<close>.\<close>

definition settings_input :: xml_node where
  "settings_input = XmlNode SETTINGS_PACKET_ELEMENT_NAME None [] True
     [XmlNode ''Version'' (Some ''9'') [] False [], XmlNode ''LowestSupportedVersion'' (Some ''5'') [] False [],
      XmlNode SETTINGS_LIST_ELEMENT_NAME None [] False
        [XmlNode ''Setting'' None [] False [XmlNode ''Id'' (Some ''A'') [] False [], XmlNode ''Value'' (Some ''Enabled'') [] False []],
         XmlNode ''Setting'' None [] False [XmlNode ''Id'' (Some ''B'') [] False [], XmlNode ''Value'' (Some ''Enabled'') [] False []]]]"

definition settings_packet :: packet where
  "settings_packet = \<lparr>pk_Packet = replicate 22 0 @ to_bytes ''P'', pk_PacketSize = 23,
     pk_MailboxName = ''DfciSettingsRequest'', pk_ResultName = ''DfciSettingsResult'',
     pk_NameSpace = gDfciSettingsManagerVarNamespace, pk_ExpectedSignature = 0x4153534D, pk_ExpectedVersion = 2,
     pk_Signature = None, pk_SignedDataLength = 23, pk_State = STATE_DATA_PRESENT, pk_SessionId = 5,
     pk_DfciWildcard = False, pk_VarIdentity = None, pk_Version = None, pk_LSV = None, pk_V1Mode = False,
     pk_StatusCode = 0, pk_ResetRequired = False, pk_LKGDirty = False, pk_Unenroll = False, pk_PayloadSize = 1,
     pk_Payload = Some 22, pk_AuthToken = 0, pk_DfciIdentity = 0, pk_UserConfirmationRequired = False,
     pk_ResultXml = None, pk_ResultXmlSize = 0, pk_Manufacturer = None, pk_ManufacturerSize = 0,
     pk_ProductName = None, pk_ProductNameSize = 0, pk_SerialNumber = None, pk_SerialNumberSize = 0\<rparr>"

definition settings_state :: demo_state where
  "settings_state = \<lparr>dm_vars = [((SMID_VAR_NAME, gDfciInternalVariableGuid),
       smid_header example_setting_data @ time_bytes zero_time @ time_bytes zero_time, DFCI_INTERNAL_VAR_ATTRIBUTES)],
     dm_docs = [(''P'', settings_input), (RESULT_XML_TEMPLATE, XmlNode ''ResultsPacket'' None [] True [])]\<rparr>"

lemma demo_sets:
  "SetSettingFromAscii demo_platform demo_set_env (Some (example_auth 0x08)) (Some example_store) demo_group demo_providers
     (Some ''A'') (Some ''Enabled'') (Some 7) 0 s = (EFI_ACCESS_DENIED, 0, s)"
  "SetSettingFromAscii demo_platform demo_set_env (Some (example_auth 0x08)) (Some example_store) demo_group demo_providers
     (Some ''B'') (Some ''Enabled'') (Some 7) 0 s = (EFI_SUCCESS, 0, s\<lparr>dm_vars := ((''B'', ''Provider''), [1], 7) # dm_vars s\<rparr>)"
proof -
  have g: "ap_GetIdentityProperties (example_auth 0x08) 7 s = (EFI_SUCCESS, 0x08)" by (simp add: example_auth_def)
  note w = HasWritePermissions_may_write [OF example_store_wf(1) g]
  show "SetSettingFromAscii demo_platform demo_set_env (Some (example_auth 0x08)) (Some example_store) demo_group demo_providers
     (Some ''A'') (Some ''Enabled'') (Some 7) 0 s = (EFI_ACCESS_DENIED, 0, s)"
    "SetSettingFromAscii demo_platform demo_set_env (Some (example_auth 0x08)) (Some example_store) demo_group demo_providers
     (Some ''B'') (Some ''Enabled'') (Some 7) 0 s = (EFI_SUCCESS, 0, s\<lparr>dm_vars := ((''B'', ''Provider''), [1], 7) # dm_vars s\<rparr>)"
    using demo_may_write
    by (simp_all add: SetSettingFromAscii_def SetIndividualSettings_def SetProviderValueFromAscii_def value_from_ascii_def
        SystemSettingAccessSet_def InternalSystemSettingAccessSet_def set_provider_def w demo_provider_found var_provider_def
        demo_services demo_set_env_def)
qed

definition settings_output :: xml_node where
  "settings_output = XmlNode RESULTS_PACKET_ELEMENT_NAME None [] True
     [XmlNode ''AppliedOn'' (Some ''2020-01-01T00:00:00'') [] False [], XmlNode SETTINGS_LIST_ELEMENT_NAME None [] False []]"

lemmas settings_names = SETTINGS_PACKET_ELEMENT_NAME_def RESULTS_PACKET_ELEMENT_NAME_def SETTINGS_LIST_ELEMENT_NAME_def
  RESULT_XML_TEMPLATE_def is_element_def AsciiStrnCmp_eq_def

lemma demo_documents: "settings_documents demo_platform ''P'' settings_state = (Inr (settings_input, settings_output), settings_state)"
  by (simp add: settings_documents_def New_ResultPacketNodeList_def new_document_def settings_state_def settings_names settings_output_def
      GetSettingsPacketNode_def GetResultsPacketNode_def root_element_def settings_input_def demo_platform_def)

lemma demo_packet_facts:
  "rd_cstr (pk_Packet settings_packet) 22 (Suc 0) = Some ''P''" "ValidateSettingsPacket settings_packet = EFI_SUCCESS"
  "ValidateAndAuthenticateSettings (Some (example_auth 0x08)) settings_packet s
     = Some (EFI_SUCCESS, settings_packet\<lparr>pk_AuthToken := 7, pk_State := STATE_DATA_AUTHENTICATED\<rparr>, s)"
  by (code_simp, code_simp, simp add: ValidateAndAuthenticateSettings_def CheckAuthAndGetToken_def settings_packet_def example_auth_def)

lemma demo_body:
  assumes "si_LSV d = 3"
  shows "\<exists>D s'. settings_body demo_platform demo_set_env (Some (example_auth 0x08)) (Some example_store) demo_group demo_providers
       settings_input settings_output (settings_packet\<lparr>pk_AuthToken := 7, pk_State := STATE_DATA_AUTHENTICATED\<rparr>) d s
       = Some (EFI_SUCCESS, D, new_versions 9 5 d, s') \<and> pk_ResultXml D = Some ''<xml/>'' \<and> pk_ResultXmlSize D = 7
     \<and> pk_State D = STATE_DATA_APPLIED"
  using assms
  by (simp add: settings_body_def settings_versions_def child_by_name_def settings_input_def settings_output_def demo_services
      settings_lists_def GetSettingsListNodeFromPacketNode_def settings_names GetInputSettings_def demo_sets SetOutputSettingsStatus_def
      add_text_node_def settings_result_def Let_def settings_packet_def is_digit_def MAX_ALLOWABLE_DFCI_RESULT_VAR_SIZE_def)

lemma settings_state_stored: "setting_stored demo_platform settings_state (Some example_setting_data)"
  by (auto simp: setting_stored_def nv_laws_def demo_laws demo_services settings_state_def example_setting_data_def)

lemma settings_packet_applies:
  obtains D' s' where "ApplyNewSettingsPacket demo_platform demo_set_env (Some (example_auth 0x08)) (Some example_store) demo_group
    demo_providers [0, 0, 0] True (Some settings_packet) settings_state = Some (EFI_SUCCESS, D', s')"
proof -
  let ?d = "example_setting_data\<lparr>si_Modified := False\<rparr>"
  have l: "SMID_LoadFromFlash demo_platform None settings_state = Some (EFI_SUCCESS, Some ?d, settings_state)"
    using smid_decode_encoded [of example_setting_data zero_time]
    by (simp add: SMID_LoadFromFlash_def demo_services settings_state_def example_setting_data_def)
  obtain D s' where b: "settings_body demo_platform demo_set_env (Some (example_auth 0x08)) (Some example_store) demo_group demo_providers
       settings_input settings_output (settings_packet\<lparr>pk_AuthToken := 7, pk_State := STATE_DATA_AUTHENTICATED\<rparr>) ?d settings_state
       = Some (EFI_SUCCESS, D, new_versions 9 5 ?d, s')" "pk_ResultXml D = Some ''<xml/>''" "pk_ResultXmlSize D = 7"
       "pk_State D = STATE_DATA_APPLIED"
    using demo_body [of ?d settings_state] by (auto simp: example_setting_data_def)
  have s: "pk_Payload settings_packet = Some 22" "pk_PayloadSize settings_packet = 1" "pk_State settings_packet = STATE_DATA_PRESENT"
    by (simp_all add: settings_packet_def)
  have "\<exists>D' s'. ApplyNewSettingsPacket demo_platform demo_set_env (Some (example_auth 0x08)) (Some example_store) demo_group
    demo_providers [0, 0, 0] True (Some settings_packet) settings_state = Some (EFI_SUCCESS, D', s')"
    by (simp add: ApplyNewSettingsPacket_def settings_packet_body_def demo_packet_facts s load_versions_def l ApplySettings_def
        demo_documents b UpdateSettingsResult_def demo_services case_prod_beta Let_def)
  with that show thesis by blast
qed

lemma demo_smid_frame:
  "packet_frame demo_platform demo_set_env (Some (example_auth 0x08)) demo_providers (\<lambda>_. True) (same_smid demo_platform)"
  by (auto simp: packet_frame_def document_frame_def write_frame_def same_smid_def example_auth_def demo_services demo_set_env_def SMID_VAR_NAME_def
      gDfciInternalVariableGuid_def demo_provider_found var_provider_def map_of_filter_other split: option.splits if_splits)

theorem ApplyNewSettingsPacket_lsv_monotone_witness:
  "\<exists>D' s' d. ApplyNewSettingsPacket demo_platform demo_set_env (Some (example_auth 0x08)) (Some example_store) demo_group
      demo_providers [0, 0, 0] True (Some settings_packet) settings_state = Some (EFI_SUCCESS, D', s')
    \<and> setting_stored demo_platform s' (Some d) \<and> 3 \<le> si_LSV d"
proof -
  obtain D' s' where r: "ApplyNewSettingsPacket demo_platform demo_set_env (Some (example_auth 0x08)) (Some example_store) demo_group
    demo_providers [0, 0, 0] True (Some settings_packet) settings_state = Some (EFI_SUCCESS, D', s')"
    by (rule settings_packet_applies)
  from ApplyNewSettingsPacket_lsv_monotone [OF settings_state_stored demo_smid_frame r] r show ?thesis
    by (auto simp: example_setting_data_def)
qed

theorem SystemSettingsAccessReset_rule_witness:
  "SystemSettingsAccessReset demo_platform (Some (example_auth 0x40)) (Some example_store) [] demo_providers (Some 7) settings_state
     = (EFI_ACCESS_DENIED, settings_state)"
proof -
  have "ap_GetIdentityProperties (example_auth 0x40) 7 settings_state = (EFI_SUCCESS, 0x40)" by (simp add: example_auth_def)
  from SystemSettingsAccessReset_rule [OF example_store_wf(1) this, of demo_platform "[]" demo_providers] show ?thesis
    by (simp add: may_write_def explicit_masks_def perm_map_def example_store_def private_ids List.map_filter_def)
qed

end
