(* ===== verification/Service_Frame.thy ===== *)
theory Service_Frame
  imports Auth_Protocol Setting_Apply
begin

text \<open>
  The permission operations reach the rest of the system only through the services of the
  platform.  The locale \<open>memory_frame\<close> states this for the operations that allocate memory, build
  documents and read the clock but write no variable, for any relation that these services keep; its
  extension \<open>service_frame\<close> adds the operations that write variables.  The first is interpreted for the
  relation that no variable changed, the second for the platform of the whole system, where the
  relation says that the state of the identity manager is unchanged.
\<close>

locale memory_frame =
  fixes U :: "'s platform" and R :: "'s \<Rightarrow> 's \<Rightarrow> bool"
  assumes refl: "R s s" and trans: "R a b \<Longrightarrow> R b c \<Longrightarrow> R a c"
    and alloc: "AllocatePool U n s = (ok, s') \<Longrightarrow> R s s'"
    and get_time: "GetTime U s = (st, t, s') \<Longrightarrow> R s s'"
    and xml_tree: "CreateXmlTree U x s = (st, nd, s') \<Longrightarrow> R s s'"
    and xml_node: "AddNode U nd p nm v s = (st, nd', q, s') \<Longrightarrow> R s s'"
    and xml_attr: "AddAttributeToNode U nd p nm w s = (st, nd', s') \<Longrightarrow> R s s'"
    and xml_text: "XmlTreeToString U nd s = (st, x, k, s') \<Longrightarrow> R s s'"
begin

lemma AddPermissionEntry_R: "AddPermissionEntry U i p d Store s = (st, Store', s') \<Longrightarrow> R s s'"
  by (auto simp: AddPermissionEntry_def Let_def refl alloc split: option.splits if_splits prod.splits)

lemma AddRequiredPermissionEntry_R: "AddRequiredPermissionEntry U i p d Store s = (st, Store', s') \<Longrightarrow> R s s'"
  by (auto simp: AddRequiredPermissionEntry_def refl AddPermissionEntry_R split: option.splits)

lemma unsigned_loop_R: "unsigned_loop U b par ns st m d Store s = Some (st', Store', s') \<Longrightarrow> R s s'"
proof (induction ns arbitrary: st m d Store s)
  case (Cons n ns)
  show ?case
    using Cons.prems Cons.IH AddPermissionEntry_R
    by (auto simp: refl split: Option.bind_splits if_splits prod.splits) (meson trans refl)+
qed (simp add: refl)

lemma ModifyUnsigned_R: "ModifyUnsignedPermissionEntries U b Store s = Some (st, Store', s') \<Longrightarrow> R s s'"
  using unsigned_loop_R xml_tree
  by (auto simp: ModifyUnsignedPermissionEntries_def refl split: Option.bind_splits if_splits prod.splits option.splits)
    (meson trans)+

lemma InitPermStore_R: "InitPermStore U s = Some (st, Store, s') \<Longrightarrow> R s s'"
  using AddRequiredPermissionEntry_R ModifyUnsigned_R alloc get_time
  by (auto simp: InitPermStore_def AddRequiredPermissions_def AddUnsignedPermissionEntries_def
      split: Option.bind_splits if_splits prod.splits) (meson trans)+

lemma new_document_R: "new_document U te da ln t s = (r, s') \<Longrightarrow> R s s'"
  using xml_tree xml_node by (auto simp: new_document_def split: prod.splits if_splits) (meson trans)+

lemma add_text_node_R: "add_text_node U t p nm v s = (st, t', s') \<Longrightarrow> R s s'"
  using xml_node by (auto simp: add_text_node_def split: prod.splits)

lemma add_mask_node_R: "add_mask_node U t p nm v s = (st, t', s') \<Longrightarrow> R s s'"
  using add_text_node_R by (auto simp: add_mask_node_def refl split: prod.splits if_splits)

lemma SetCurrentPermissions_R: "SetCurrentPermissions U t p i v d s = Some (st, t', s') \<Longrightarrow> R s s'"
  using add_text_node_R add_mask_node_R xml_node
  by (auto simp: SetCurrentPermissions_def refl split: Option.bind_splits prod.splits if_splits) (meson trans)+

lemma current_loop_R: "current_loop U p es t s = Some (t', s') \<Longrightarrow> R s s'"
proof (induction es arbitrary: t s)
  case (Cons e es)
  then show ?case
    using SetCurrentPermissions_R by (auto split: Option.bind_splits) (meson trans)
qed (simp add: refl)

lemma AddPermissionsLsvNode_R: "AddPermissionsLsvNode U t l s = (st, t', s') \<Longrightarrow> R s s'"
  using xml_node by (auto simp: AddPermissionsLsvNode_def refl split: prod.splits if_splits)

lemma AddCurrentAttributes_R: "AddCurrentAttributes U t p d s = (st, t', s') \<Longrightarrow> R s s'"
  using xml_attr by (auto simp: AddCurrentAttributes_def refl split: prod.splits if_splits) (meson trans)+

lemma CreateXmlStringFromCurrentPermissions_R:
  "CreateXmlStringFromCurrentPermissions U Store s = Some (st, v, s') \<Longrightarrow> R s s'"
  using get_time new_document_R AddPermissionsLsvNode_R AddCurrentAttributes_R current_loop_R xml_text
  by (auto simp: CreateXmlStringFromCurrentPermissions_def New_CurrentPermissionsPacketNodeList_def
      split: Option.bind_splits prod.splits if_splits option.splits) (meson trans)+

lemma IdentityChange_R: "IdentityChange U mAuth tok c ct Store s = Some (st, Store', s') \<Longrightarrow> R s s'"
  using AddRequiredPermissionEntry_R ModifyUnsigned_R
  by (auto simp: IdentityChange_def owner_enrolled_def RemoveUnsignedPermissionEntries_def refl
      split: Option.bind_splits prod.splits if_splits option.splits) (meson trans)+

end

locale service_frame = memory_frame +
  assumes set_var: "SetVariable U nm g at d s = (st, s') \<Longrightarrow> R s s'"
begin

lemma set_var_snd: "R s (snd (SetVariable U nm g at d s))"
  by (rule set_var [OF prod.collapse [symmetric]])

lemma SaveToFlash_R: "SaveToFlash U Store s = (st, Store', s') \<Longrightarrow> R s s'"
  using alloc get_time set_var
  by (auto simp: SaveToFlash_def Let_def refl split: if_splits prod.splits option.splits) (meson trans)+

lemma PopulateCurrentPermissions_R: "PopulateCurrentPermissions U Store f s = Some (st, s') \<Longrightarrow> R s s'"
  using CreateXmlStringFromCurrentPermissions_R set_var_snd set_var
  by (auto simp: PopulateCurrentPermissions_def Let_def refl split: Option.bind_splits prod.splits if_splits) (meson trans)+

lemma ResetPermissionsToDefault_R: "ResetPermissionsToDefault U mAuth gs tok Store s = Some (st, Store', s') \<Longrightarrow> R s s'"
  using InitPermStore_R SaveToFlash_R PopulateCurrentPermissions_R
  by (auto simp: ResetPermissionsToDefault_def Let_def refl split: Option.bind_splits prod.splits if_splits option.splits)
    (meson trans)+

end

interpretation variables: memory_frame U "\<lambda>s s'. alloc_keeps_vars U \<longrightarrow> xml_keeps_vars U \<longrightarrow> same_vars U s s'" for U
  by unfold_locales (auto intro: same_vars_trans alloc_keeps_varsD dest: xml_vars)

interpretation lifted: service_frame "lift_platform U" "\<lambda>z z'. fst z' = fst z" for U
  by unfold_locales (auto simp: lift_platform_def split: prod.splits)

end
