(* ===== verification/Identity_Current.thy ===== *)
theory Identity_Current
  imports Permission_Current Cert_Store
begin

text \<open>
  The published document of the current identities (\<open>IdentityCurrentSettingsXml.c\<close>), with the
  schema of \<open>DfciXmlIdentitySchemaSupportLib.c\<close> and the thumbprint of \<open>CertSupport.c\<close>.  The
  SHA-1 implementation is a parameter; it returns nothing when one of its three steps fails.
  The theory shows that publishing writes no other variable.
\<close>

section \<open>Thumbprints\<close>

record sha1_lib =
  Sha1GetContextSize :: nat
  Sha1 :: "bytes \<Rightarrow> bytes option"

definition GetSha1Thumbprint :: "'s platform \<Rightarrow> sha1_lib \<Rightarrow> bytes option \<Rightarrow> nat \<Rightarrow> 's
    \<Rightarrow> (EFI_STATUS \<times> bytes \<times> 's) option" where
  "GetSha1Thumbprint U X TrustedCert CertLength s = (case TrustedCert of
     None \<Rightarrow> Some (EFI_INVALID_PARAMETER, [], s)
   | Some cert \<Rightarrow>
       if CertLength = 0 then Some (EFI_INVALID_PARAMETER, [], s)
       else case AllocatePool U (Sha1GetContextSize X) s of (ok, s1) \<Rightarrow>
         if \<not> ok then Some (EFI_OUT_OF_RESOURCES, [], s1)
         else do {
           b \<leftarrow> rd cert 0 CertLength;
           Some (case Sha1 X b of None \<Rightarrow> (EFI_ABORTED, [], s1) | Some CertDigest \<Rightarrow> (EFI_SUCCESS, CertDigest, s1)) })"

fun hex_loop :: "'s platform \<Rightarrow> nat \<Rightarrow> bool \<Rightarrow> nat \<Rightarrow> bytes \<Rightarrow> EFI_STATUS \<Rightarrow> string \<Rightarrow> EFI_STATUS \<times> string" where
  "hex_loop U FormatSize UiFormat i [] Status Temp = (Status, Temp)"
| "hex_loop U FormatSize UiFormat i (b # bs) Status Temp =
     (let Temp = (if UiFormat \<and> i \<noteq> 0 then Temp @ '' '' else Temp) in
      case AsciiValueToStringS U (FormatSize + 1) True (ucast b) 2 of (Status, t) \<Rightarrow>
        if EFI_ERROR Status then (Status, Temp)
        else hex_loop U FormatSize UiFormat (i + 1) bs Status (Temp @ t))"

text \<open>\<open>Value\<close> is the caller's pointer, kept on errors.\<close>

definition GetSha1Thumbprint8 :: "'s platform \<Rightarrow> sha1_lib \<Rightarrow> bytes option \<Rightarrow> nat \<Rightarrow> bool \<Rightarrow> string \<Rightarrow> 's
    \<Rightarrow> (EFI_STATUS \<times> string \<times> 's) option" where
  "GetSha1Thumbprint8 U X TrustedCert CertSize UiFormat Value s = do {
     (Status, CertDigest, s1) \<leftarrow> GetSha1Thumbprint U X TrustedCert CertSize s;
     if EFI_ERROR Status then Some (Status, Value, s1)
     else let FormatSize = (if UiFormat then 3 else 2) in
       case AllocatePool U (length CertDigest * FormatSize + 1) s1 of (ok, s2) \<Rightarrow>
         if \<not> ok then Some (EFI_OUT_OF_RESOURCES, Value, s2)
         else case hex_loop U FormatSize UiFormat 0 CertDigest EFI_INVALID_PARAMETER [] of (Status, Result) \<Rightarrow>
           Some (if EFI_ERROR Status then (Status, Value, s2) else (Status, Result, s2)) }"

section \<open>The document\<close>

definition IDENTITY_CURRENT_PACKET_ELEMENT_NAME :: string where
  "IDENTITY_CURRENT_PACKET_ELEMENT_NAME = ''UEFIIdentityCurrentPacket''"
definition IDENTITY_CURRENT_LIST_ELEMENT_NAME :: string where
  "IDENTITY_CURRENT_LIST_ELEMENT_NAME = ''Certificates''"
definition IDENTITY_CURRENT_XML_TEMPLATE :: string where
  "IDENTITY_CURRENT_XML_TEMPLATE = ''<?xml version=\"1.0\" encoding=\"utf-8\"?><UEFIIdentityCurrentPacket></UEFIIdentityCurrentPacket>''"
definition IDENTITY_CURRENT_NO_CERTIFICATE_VALUE :: string where
  "IDENTITY_CURRENT_NO_CERTIFICATE_VALUE = ''Cert not installed''"

definition GetIdentityCurrentPacketNode :: "xml_node option \<Rightarrow> xml_node option" where
  "GetIdentityCurrentPacketNode = root_element IDENTITY_CURRENT_PACKET_ELEMENT_NAME"

definition GetIdentityCurrentListNodeFromPacketNode :: "'s platform \<Rightarrow> xml_node \<Rightarrow> nat option" where
  "GetIdentityCurrentListNodeFromPacketNode U PacketNode =
     FindFirstChildNodeByName U PacketNode IDENTITY_CURRENT_LIST_ELEMENT_NAME"

definition New_IdentityCurrentPacketNodeList :: "'s platform \<Rightarrow> 's \<Rightarrow> xml_node option \<times> 's" where
  "New_IdentityCurrentPacketNodeList U s =
     (case CreateXmlTree U IDENTITY_CURRENT_XML_TEMPLATE s of (Status, Root, s1) \<Rightarrow>
      if EFI_ERROR Status then (None, s1)
      else case AddNode U Root [] IDENTITY_CURRENT_LIST_ELEMENT_NAME None s1 of (Status, Root, _, s2) \<Rightarrow>
        if EFI_ERROR Status then (None, s2) else (Some Root, s2))"

definition AddVersionNode :: "'s platform \<Rightarrow> xml_node \<Rightarrow> string \<Rightarrow> 's \<Rightarrow> EFI_STATUS \<times> xml_node \<times> 's" where
  "AddVersionNode U t Version s =
     (if \<not> is_element IDENTITY_CURRENT_PACKET_ELEMENT_NAME t then (EFI_INVALID_PARAMETER, t, s)
      else case AddNode U t [] ''Version'' (Some Version) s of (Status, t', _, s') \<Rightarrow> (Status, t', s'))"

definition SetIdentityCurrentCertificate :: "'s platform \<Rightarrow> xml_node \<Rightarrow> nat list \<Rightarrow> string \<Rightarrow> string \<Rightarrow> 's
    \<Rightarrow> (EFI_STATUS \<times> xml_node \<times> 's) option" where
  "SetIdentityCurrentCertificate U t p Signer Value s = do {
     par \<leftarrow> node_at t p;
     if \<not> is_element IDENTITY_CURRENT_LIST_ELEMENT_NAME par then Some (EFI_INVALID_PARAMETER, t, s)
     else case AddNode U t p ''Certificate'' None s of (Status, t1, q, s1) \<Rightarrow>
       if EFI_ERROR Status then Some (EFI_DEVICE_ERROR, t1, s1)
       else case add_text_node U t1 q ''Id'' Signer s1 of (Status, t2, s2) \<Rightarrow>
         if EFI_ERROR Status then Some (Status, t2, s2)
         else Some (add_text_node U t2 q ''Value'' Value s2) }"

definition cert_name :: "nat \<Rightarrow> string option" where
  "cert_name i = (let d = CertIndexToDfciIdentity i in
     if d = DFCI_IDENTITY_SIGNER_ZTD then Some ''ZeroTouch''
     else if d = DFCI_IDENTITY_SIGNER_OWNER then Some ''Owner''
     else if d = DFCI_IDENTITY_SIGNER_USER then Some ''User''
     else if d = DFCI_IDENTITY_SIGNER_USER1 then Some ''User1''
     else if d = DFCI_IDENTITY_SIGNER_USER2 then Some ''User2''
     else None)"

text \<open>One certificate: its thumbprint, or the text for an empty slot, and the element of a named slot.\<close>

definition cert_thumbprint :: "'s platform \<Rightarrow> sha1_lib \<Rightarrow> cert_details \<Rightarrow> 's \<Rightarrow> (string \<times> 's) option" where
  "cert_thumbprint U X c s = (case cd_Cert c of
     None \<Rightarrow> Some (IDENTITY_CURRENT_NO_CERTIFICATE_VALUE, s)
   | Some cert \<Rightarrow> map_option snd (GetSha1Thumbprint8 U X (Some cert) (cd_CertSize c) False
       IDENTITY_CURRENT_NO_CERTIFICATE_VALUE s))"

definition add_certificate :: "'s platform \<Rightarrow> nat list \<Rightarrow> nat \<Rightarrow> string \<Rightarrow> xml_node \<Rightarrow> 's \<Rightarrow> (xml_node \<times> 's) option" where
  "add_certificate U p i Thumbprint t s = (case cert_name i of
     None \<Rightarrow> Some (t, s)
   | Some nm \<Rightarrow> map_option snd (SetIdentityCurrentCertificate U t p nm Thumbprint s))"

text \<open>The loop over the certificates; a failure to add one is only reported.\<close>

fun identity_loop :: "'s platform \<Rightarrow> sha1_lib \<Rightarrow> nat list \<Rightarrow> nat \<Rightarrow> cert_details list \<Rightarrow> xml_node \<Rightarrow> 's
    \<Rightarrow> (xml_node \<times> 's) option" where
  "identity_loop U X p i [] t s = Some (t, s)"
| "identity_loop U X p i (c # cs) t s = do {
     (Thumbprint, s1) \<leftarrow> cert_thumbprint U X c s;
     (t2, s2) \<leftarrow> add_certificate U p i Thumbprint t s1;
     identity_loop U X p (i + 1) cs t2 s2 }"

definition CreateXmlStringFromCurrentIdentities :: "'s platform \<Rightarrow> sha1_lib \<Rightarrow> cert_store \<Rightarrow> 's
    \<Rightarrow> (EFI_STATUS \<times> (string \<times> nat) option \<times> 's) option" where
  "CreateXmlStringFromCurrentIdentities U X C s = (case New_IdentityCurrentPacketNodeList U s of (Lst, s) \<Rightarrow>
     (case Lst of None \<Rightarrow> Some (EFI_ABORTED, None, s) | Some t \<Rightarrow>
      if GetIdentityCurrentPacketNode (Some t) = None then Some (EFI_NO_MAPPING, None, s)
      else case GetIdentityCurrentListNodeFromPacketNode U t of
          None \<Rightarrow> Some (EFI_NO_MAPPING, None, s)
        | Some k \<Rightarrow> do {
            (t, s) \<leftarrow> identity_loop U X [k] 0 (cs_Certs C) t s;
            (case XmlTreeToString U t s of (Status, str, n, s) \<Rightarrow>
              Some (Status, if EFI_ERROR Status then None else Some (str, n), s)) }))"

abbreviation (input) DFCI_IDENTITY_VAR_ATTRIBUTES :: u32 where "DFCI_IDENTITY_VAR_ATTRIBUTES \<equiv> 7"

definition PopulateCurrentIdentities :: "'s platform \<Rightarrow> sha1_lib \<Rightarrow> cert_store \<Rightarrow> bool \<Rightarrow> 's
    \<Rightarrow> (EFI_STATUS \<times> 's) option" where
  "PopulateCurrentIdentities U X C Force s =
     (case probe_variable U DFCI_IDENTITY_CURRENT_VAR_NAME gDfciAuthProvisionVarNamespace s of (Status, Attributes) \<Rightarrow>
      if Status = EFI_BUFFER_TOO_SMALL \<and> Attributes = DFCI_IDENTITY_VAR_ATTRIBUTES \<and> \<not> Force
      then Some (EFI_SUCCESS, s)
      else
        let s1 = (if Status = EFI_SUCCESS \<and> Attributes \<noteq> DFCI_IDENTITY_VAR_ATTRIBUTES
          then snd (SetVariable U DFCI_IDENTITY_CURRENT_VAR_NAME gDfciAuthProvisionVarNamespace 0 [] s) else s)
        in do {
          (Status, Var, s2) \<leftarrow> CreateXmlStringFromCurrentIdentities U X C s1;
          if EFI_ERROR Status then Some (Status, s2)
          else do {
            (str, n) \<leftarrow> Var;
            (case SetVariable U DFCI_IDENTITY_CURRENT_VAR_NAME gDfciAuthProvisionVarNamespace
                DFCI_IDENTITY_VAR_ATTRIBUTES (take n (to_bytes str @ [0])) s2 of (Status, s3) \<Rightarrow>
              Some (if EFI_ERROR Status then Status else EFI_SUCCESS, s3)) } })"

section \<open>Publishing writes one variable\<close>

lemma GetSha1Thumbprint8_vars:
  assumes "alloc_keeps_vars U" "GetSha1Thumbprint8 U X c n ui v s = Some (st, t, s')"
  shows "same_vars U s s'"
  using assms(2) alloc_keeps_varsD(1) [OF assms(1)]
  by (auto simp: GetSha1Thumbprint8_def GetSha1Thumbprint_def Let_def
      split: Option.bind_splits option.splits if_splits prod.splits) (meson same_vars_trans)+

lemma SetIdentityCurrentCertificate_vars:
  assumes x: "xml_keeps_vars U" and "SetIdentityCurrentCertificate U t p nm v s = Some (st, t', s')"
  shows "same_vars U s s'"
  using assms(2) add_text_node_vars [OF x] xml_vars(2) [OF x]
  by (auto simp: SetIdentityCurrentCertificate_def split: Option.bind_splits if_splits prod.splits) (meson same_vars_trans)+

lemma identity_steps_vars:
  "alloc_keeps_vars U \<Longrightarrow> cert_thumbprint U X c s = Some (th, s') \<Longrightarrow> same_vars U s s'"
  "xml_keeps_vars U \<Longrightarrow> add_certificate U p i th t s = Some (t', s') \<Longrightarrow> same_vars U s s'"
  by (auto simp: cert_thumbprint_def add_certificate_def GetSha1Thumbprint8_vars SetIdentityCurrentCertificate_vars
      split: option.splits)

lemma identity_loop_vars:
  assumes "alloc_keeps_vars U" "xml_keeps_vars U"
  shows "identity_loop U X p i cs t s = Some (t', s') \<Longrightarrow> same_vars U s s'"
proof (induction cs arbitrary: i t s)
  case (Cons c cs)
  then obtain th s1 t2 s2 where 1: "cert_thumbprint U X c s = Some (th, s1)"
    and 2: "add_certificate U p i th t s1 = Some (t2, s2)" and 3: "identity_loop U X p (i + 1) cs t2 s2 = Some (t', s')"
    by (auto split: Option.bind_splits)
  show ?case
    by (rule same_vars_trans [OF same_vars_trans [OF identity_steps_vars(1) [OF assms(1) 1]
          identity_steps_vars(2) [OF assms(2) 2]] Cons.IH [OF 3]])
qed simp

lemma New_IdentityCurrentPacketNodeList_vars:
  assumes "xml_keeps_vars U" "New_IdentityCurrentPacketNodeList U s = (n, s')"
  shows "same_vars U s s'"
  using assms(2) xml_vars [OF assms(1)]
  by (auto simp: New_IdentityCurrentPacketNodeList_def split: prod.splits if_splits) (meson same_vars_trans)+

lemma CurrentIdentities_vars:
  assumes "alloc_keeps_vars U" "xml_keeps_vars U" "CreateXmlStringFromCurrentIdentities U X C s = Some (st, v, s')"
  shows "same_vars U s s'"
  using assms(3) identity_loop_vars [OF assms(1,2)] New_IdentityCurrentPacketNodeList_vars [OF assms(2)] xml_vars(4) [OF assms(2)]
  by (auto simp: CreateXmlStringFromCurrentIdentities_def split: Option.bind_splits option.splits if_splits prod.splits)
    (meson same_vars_trans)+

lemma PopulateCurrentIdentities_other_vars:
  assumes "alloc_keeps_vars U" "xml_keeps_vars U" "variable_laws U" "PopulateCurrentIdentities U X C f s = Some (st, s')"
    and "(n, g) \<noteq> (DFCI_IDENTITY_CURRENT_VAR_NAME, gDfciAuthProvisionVarNamespace)"
  shows "GetVariable U n g s' = GetVariable U n g s"
proof -
  define s1 where "s1 = (if fst (probe_variable U DFCI_IDENTITY_CURRENT_VAR_NAME gDfciAuthProvisionVarNamespace s) = EFI_SUCCESS
      \<and> snd (probe_variable U DFCI_IDENTITY_CURRENT_VAR_NAME gDfciAuthProvisionVarNamespace s) \<noteq> DFCI_IDENTITY_VAR_ATTRIBUTES
    then snd (SetVariable U DFCI_IDENTITY_CURRENT_VAR_NAME gDfciAuthProvisionVarNamespace 0 [] s) else s)"
  have set: "GetVariable U n g (snd (SetVariable U DFCI_IDENTITY_CURRENT_VAR_NAME gDfciAuthProvisionVarNamespace a d x))
      = GetVariable U n g x" for a d x
    using variable_lawsD(2) [OF assms(3) prod.collapse [symmetric]] assms(5) by blast
  have 1: "GetVariable U n g s1 = GetVariable U n g s" by (simp add: s1_def set)
  have 2: "GetVariable U n g s2 = GetVariable U n g s1" if "CreateXmlStringFromCurrentIdentities U X C s1 = Some (st, v, s2)" for st v s2
    using CurrentIdentities_vars [OF assms(1,2) that] by (simp add: same_vars_def)
  show ?thesis
    using assms(4) 1 2 set
    by (auto simp: PopulateCurrentIdentities_def Let_def case_prod_beta s1_def split: Option.bind_splits if_splits)
qed

end
