(* ===== verification/Ui_Support.thy ===== *)
theory Ui_Support
  imports Auth_Manager
begin

text \<open>
  The dialogs of the identity manager (\<open>UiSupport.c\<close>): asking the local user to approve an
  enrolment or a removal.  The dialogs themselves (\<open>DfciUiSupportLib\<close>) come from the platform and
  are the record \<open>ui_lib\<close>; the texts they show do not influence the flow and are not modelled,
  except for the certificate, from which the platform's dialog takes the thumbprint, and for
  whether an error message is shown.  A password buffer is \<open>None\<close> when the dialog returns NULL.
  The text and the thumbprint that \<open>UiEnrollRequest\<close> prepares for the dialog are in \<open>Cert_Info\<close>; its
  return without a dialog when there is no memory for the text is not modelled.

  The theory shows that the user's approval always comes with a token of the local user, after at
  most three attempts, and that without the password, when one is set, it cannot be given.
\<close>

section \<open>Dialogs\<close>

datatype ui_result =
    DFCI_MB_IDOK | DFCI_MB_IDCANCEL | DFCI_MB_IDABORT | DFCI_MB_IDRETRY | DFCI_MB_IDIGNORE | DFCI_MB_IDYES
  | DFCI_MB_IDNO | DFCI_MB_IDTRYAGAIN | DFCI_MB_IDCONTINUE | DFCI_MB_TIMEOUT | DFCI_MB_IDNEXT | DFCI_MB_IDRESTART

record 's ui_lib =
  DfciUiIsUiAvailable :: "'s \<Rightarrow> bool"
  DfciUiDisplayAuthDialog :: "bytes option \<Rightarrow> bool \<Rightarrow> bool \<Rightarrow> 's \<Rightarrow> EFI_STATUS \<times> ui_result \<times> string option \<times> 's"
  DfciUiDisplayPasswordDialog :: "bool \<Rightarrow> 's \<Rightarrow> EFI_STATUS \<times> ui_result \<times> string option \<times> 's"
  DfciUiDisplayMessageBox :: "'s \<Rightarrow> EFI_STATUS \<times> ui_result \<times> 's"

definition pw_pointer :: "string option \<Rightarrow> password" where
  "pw_pointer b = (case b of None \<Rightarrow> PW_NULL | Some p \<Rightarrow> PW p)"

text \<open>
  The loop of both dialogs over the attempts that are left; \<open>display\<close> shows the dialog.  \<open>StrLen\<close> of a NULL pointer is undefined; it is only
  taken when a password is asked for.  When the attempts are used up a message is shown.
\<close>

fun dialog_loop :: "'s platform \<Rightarrow> 's auth_env \<Rightarrow> 's ui_lib \<Rightarrow> (bool \<Rightarrow> 's \<Rightarrow> EFI_STATUS \<times> ui_result \<times> string option \<times> 's)
    \<Rightarrow> bool \<Rightarrow> bool \<Rightarrow> nat \<Rightarrow> u64 \<Rightarrow> auth_state \<Rightarrow> 's \<Rightarrow> (bool \<times> u64 \<times> auth_state \<times> 's) option" where
  "dialog_loop U E ui display Password err 0 AuthToken a s =
     Some (False, AuthToken, a, snd (snd (DfciUiDisplayMessageBox ui s)))"
| "dialog_loop U E ui display Password err (Suc n) AuthToken a s =
     (case display err s of (Status, UiResult, PasswordBuffer, s1) \<Rightarrow>
      if EFI_ERROR Status then Some (False, AuthToken, a, s1)
      else if UiResult = DFCI_MB_IDOK then do {
        len \<leftarrow> (if Password then map_option length PasswordBuffer else Some 0);
        (case AuthWithPW U E (pw_pointer PasswordBuffer) len a s1 of (_, AuthToken, a2, s2) \<Rightarrow>
          if AuthToken = DFCI_AUTH_TOKEN_INVALID
          then dialog_loop U E ui display Password True n AuthToken a2 s2
          else Some (True, AuthToken, a2, s2)) }
      else if UiResult = DFCI_MB_IDCANCEL then Some (False, AuthToken, a, s1)
      else dialog_loop U E ui display Password err n AuthToken a s1)"

definition GetConfirmationWithDfciAuthDialog :: "'s platform \<Rightarrow> 's auth_env \<Rightarrow> 's ui_lib \<Rightarrow> bytes option \<Rightarrow> bool
    \<Rightarrow> u64 \<Rightarrow> auth_state \<Rightarrow> 's \<Rightarrow> (bool \<times> u64 \<times> auth_state \<times> 's) option" where
  "GetConfirmationWithDfciAuthDialog U E ui cert Password =
     dialog_loop U E ui (\<lambda>err. DfciUiDisplayAuthDialog ui cert err Password) Password False 3"

definition GetConfirmationWithPasswordDialog :: "'s platform \<Rightarrow> 's auth_env \<Rightarrow> 's ui_lib
    \<Rightarrow> u64 \<Rightarrow> auth_state \<Rightarrow> 's \<Rightarrow> (bool \<times> u64 \<times> auth_state \<times> 's) option" where
  "GetConfirmationWithPasswordDialog U E ui =
     dialog_loop U E ui (DfciUiDisplayPasswordDialog ui) True False 3"

definition UiEnrollRequest :: "'s platform \<Rightarrow> 's auth_env \<Rightarrow> 's ui_lib \<Rightarrow> bool \<Rightarrow> bytes option
    \<Rightarrow> u64 \<Rightarrow> auth_state \<Rightarrow> 's \<Rightarrow> (bool \<times> u64 \<times> auth_state \<times> 's) option" where
  "UiEnrollRequest U E ui Password TrustedCert =
     GetConfirmationWithDfciAuthDialog U E ui TrustedCert Password"

definition UiUnenrollRequest :: "'s platform \<Rightarrow> 's auth_env \<Rightarrow> 's ui_lib \<Rightarrow> bool
    \<Rightarrow> u64 \<Rightarrow> auth_state \<Rightarrow> 's \<Rightarrow> (bool \<times> u64 \<times> auth_state \<times> 's) option" where
  "UiUnenrollRequest U E ui Password AuthToken a s =
     (if Password then GetConfirmationWithPasswordDialog U E ui AuthToken a s
      else case DfciUiDisplayMessageBox ui s of (Status, UiResult, s1) \<Rightarrow>
        Some (\<not> EFI_ERROR Status \<and> UiResult = DFCI_MB_IDOK, AuthToken, a, s1))"

definition LocalGetAnswerFromUser :: "'s platform \<Rightarrow> 's auth_env \<Rightarrow> 's ui_lib \<Rightarrow> bytes option \<Rightarrow> nat
    \<Rightarrow> u64 \<Rightarrow> auth_state \<Rightarrow> 's \<Rightarrow> (EFI_STATUS \<times> u64 \<times> auth_state \<times> 's) option" where
  "LocalGetAnswerFromUser U E ui TrustedCert TrustedCertSize AuthToken a s =
     (if \<not> DfciUiIsUiAvailable ui s then Some (EFI_NOT_READY, AuthToken, a, s)
      else case AuthWithPW U E PW_NULL 0 a s of (Status, AuthToken, a, s) \<Rightarrow>
        if Status \<noteq> EFI_SUCCESS \<and> Status \<noteq> EFI_SECURITY_VIOLATION then Some (EFI_DEVICE_ERROR, AuthToken, a, s)
        else do {
          (Confirmation, AuthToken, a, s) \<leftarrow>
            (if TrustedCertSize = 0 then UiUnenrollRequest U E ui (Status \<noteq> EFI_SUCCESS) AuthToken a s
             else UiEnrollRequest U E ui (Status \<noteq> EFI_SUCCESS) TrustedCert AuthToken a s);
          Some (if Confirmation then EFI_SUCCESS else EFI_ACCESS_DENIED, AuthToken, a, s) })"

section \<open>What an approval means\<close>

text \<open>
  Asking the user changes only the token list: certificates stay, valid tokens stay valid, and a
  token that is new belongs to the local user.
\<close>

definition asked :: "auth_state \<Rightarrow> auth_state \<Rightarrow> bool" where
  "asked a a' \<longleftrightarrow> wf_map (au_Map a') \<and> au_Certs a' = au_Certs a \<and> token_map (au_Map a) \<subseteq>\<^sub>m token_map (au_Map a')
     \<and> (\<forall>t i. token_map (au_Map a') t = Some i \<longrightarrow> token_map (au_Map a) t = Some i \<or> i = DFCI_IDENTITY_LOCAL)"

text \<open>
  The password of a dialog: the user closed it with OK, and \<open>y\<close> is the state right after.  A token got
  with the password of a dialog: authentication in that state, with what was entered, accepted it and
  led to the state in which the caller gets the token.
\<close>

definition entered :: "(bool \<Rightarrow> 's \<Rightarrow> EFI_STATUS \<times> ui_result \<times> string option \<times> 's) \<Rightarrow> string \<Rightarrow> 's \<Rightarrow> bool" where
  "entered display q y \<longleftrightarrow> (\<exists>err x st. display err x = (st, DFCI_MB_IDOK, Some q, y) \<and> \<not> EFI_ERROR st)"

definition got_with_password :: "'s platform \<Rightarrow> 's auth_env \<Rightarrow> (bool \<Rightarrow> 's \<Rightarrow> EFI_STATUS \<times> ui_result \<times> string option \<times> 's)
    \<Rightarrow> u64 \<Rightarrow> auth_state \<Rightarrow> 's \<Rightarrow> bool" where
  "got_with_password U E display t a s \<longleftrightarrow> (\<exists>q y len a0 st. entered display q y \<and> PasswordStoreAuthenticatePassword E q y
     \<and> AuthWithPW U E (PW q) len a0 y = (st, t, a, s))"

text \<open>The dialog for a removal, which has no certificate, or for an enrolment.\<close>

definition user_dialog :: "'s ui_lib \<Rightarrow> bytes option \<Rightarrow> nat \<Rightarrow> bool \<Rightarrow> bool \<Rightarrow> 's \<Rightarrow> EFI_STATUS \<times> ui_result \<times> string option \<times> 's" where
  "user_dialog ui cert n Password = (if n = 0 then DfciUiDisplayPasswordDialog ui else (\<lambda>err. DfciUiDisplayAuthDialog ui cert err Password))"

text \<open>An approval: a token of the local user, got with the password entered in the dialog if one is set.\<close>

definition local_token :: "u64 \<Rightarrow> auth_state \<Rightarrow> bool" where
  "local_token t a \<longleftrightarrow> t \<noteq> DFCI_AUTH_TOKEN_INVALID \<and> token_map (au_Map a) t = Some DFCI_IDENTITY_LOCAL"

definition approved :: "'s platform \<Rightarrow> 's auth_env \<Rightarrow> 's ui_lib \<Rightarrow> bytes option \<Rightarrow> nat \<Rightarrow> u64 \<Rightarrow> auth_state \<Rightarrow> 's \<Rightarrow> bool" where
  "approved U E ui cert n t a s \<longleftrightarrow> local_token t a
     \<and> (au_AdminPasswordSetState a \<noteq> AUTH_MANAGER_PW_STATE_NO_PW \<longrightarrow> (\<exists>pw. got_with_password U E (user_dialog ui cert n pw) t a s))"

lemma asked_refl: "wf_map (au_Map a) \<Longrightarrow> asked a a"
  by (simp add: asked_def)

lemma asked_trans: "asked a b \<Longrightarrow> asked b c \<Longrightarrow> asked a c"
  unfolding asked_def by (auto intro: map_le_trans)

lemma AuthWithPW_asked:
  assumes "wf_map (au_Map a)" "AuthWithPW U E p n a s = (st, u, a', s')" "p \<noteq> DFCI_AUTH_WITH_NO_PASSWORD_UNSIGNED"
  shows "asked a a'" "u \<noteq> 0 \<Longrightarrow> local_token u a'"
    "u \<noteq> 0 \<Longrightarrow> au_AdminPasswordSetState a' \<noteq> AUTH_MANAGER_PW_STATE_NO_PW \<Longrightarrow> \<exists>q. p = PW q \<and> PasswordStoreAuthenticatePassword E q s"
    "\<not> EFI_ERROR st \<Longrightarrow> u \<noteq> 0"
proof -
  note sp = AuthWithPW_spec [OF assms(1,2)]
  show "asked a a'"
    using sp assms(3) by (auto simp: asked_def map_le_def split: if_splits)
  show "local_token u a'" if "u \<noteq> 0"
    using sp assms(3) that by (auto simp: local_token_def split: if_splits)
  show "\<exists>q. p = PW q \<and> PasswordStoreAuthenticatePassword E q s"
    if "u \<noteq> 0" "au_AdminPasswordSetState a' \<noteq> AUTH_MANAGER_PW_STATE_NO_PW"
    using sp that by (auto split: if_splits)
  show "u \<noteq> 0" if "\<not> EFI_ERROR st" using sp that by (auto split: if_splits)
qed

lemma pw_pointer_ne [simp]: "pw_pointer b \<noteq> DFCI_AUTH_WITH_NO_PASSWORD_UNSIGNED"
  by (simp add: pw_pointer_def split: option.splits)

lemma pw_pointer_PW [simp]: "pw_pointer b = PW q \<longleftrightarrow> b = Some q"
  by (simp add: pw_pointer_def split: option.splits)

lemma dialog_loop_asked:
  assumes "wf_map (au_Map a)" "dialog_loop U E ui display Password err n t a s = Some (ok, t', a', s')"
  shows "asked a a' \<and> (ok \<longrightarrow> local_token t' a'
    \<and> (au_AdminPasswordSetState a' \<noteq> AUTH_MANAGER_PW_STATE_NO_PW \<longrightarrow> got_with_password U E display t' a' s'))"
  using assms
proof (induction n arbitrary: err t a s)
  case 0
  then show ?case by (auto simp: asked_refl)
next
  case (Suc n)
  obtain st r b s1 where d: "display err s = (st, r, b, s1)" by (metis prod_cases4)
  consider (accepted) "\<not> EFI_ERROR st" "r = DFCI_MB_IDOK" | (stop) "EFI_ERROR st \<or> r = DFCI_MB_IDCANCEL"
    | (again) "\<not> EFI_ERROR st" "r \<noteq> DFCI_MB_IDOK" "r \<noteq> DFCI_MB_IDCANCEL" by blast
  then show ?case
  proof cases
    case accepted
    with Suc.prems(2) d obtain len where
      r: "(case AuthWithPW U E (pw_pointer b) len a s1 of (_, u, a2, s2) \<Rightarrow>
          if u = 0 then dialog_loop U E ui display Password True n u a2 s2 else Some (True, u, a2, s2))
        = Some (ok, t', a', s')"
      by (auto split: Option.bind_splits)
    obtain pst u a2 s2 where p: "AuthWithPW U E (pw_pointer b) len a s1 = (pst, u, a2, s2)" by (metis prod_cases4)
    note k = AuthWithPW_asked [OF Suc.prems(1) p pw_pointer_ne]
    have w2: "wf_map (au_Map a2)" using k(1) by (simp add: asked_def)
    show ?thesis
    proof (cases "u = 0")
      case True
      then have "dialog_loop U E ui display Password True n u a2 s2 = Some (ok, t', a', s')" using r p by simp
      from Suc.IH [OF w2 this] asked_trans [OF k(1)] show ?thesis by blast
    next
      case False
      then have f: "ok" "t' = u" "a' = a2" "s' = s2" using r p by simp_all
      have "got_with_password U E display u a2 s2" if pws: "au_AdminPasswordSetState a2 \<noteq> AUTH_MANAGER_PW_STATE_NO_PW"
      proof -
        obtain q where q: "b = Some q" "PasswordStoreAuthenticatePassword E q s1" using k(3) [OF False pws] by auto
        have "entered display q s1" using d accepted q(1) unfolding entered_def by blast
        moreover have "AuthWithPW U E (PW q) len a s1 = (pst, u, a2, s2)" using p q(1) by (simp add: pw_pointer_def)
        ultimately show ?thesis using q(2) unfolding got_with_password_def by blast
      qed
      then show ?thesis using f k(1,2) False by simp
    qed
  next
    case stop
    then have "a' = a \<and> \<not> ok" using Suc.prems(2) d by (auto split: if_splits)
    then show ?thesis using asked_refl [OF Suc.prems(1)] by simp
  next
    case again
    then have "dialog_loop U E ui display Password err n t a s1 = Some (ok, t', a', s')" using Suc.prems(2) d by simp
    from Suc.IH [OF Suc.prems(1) this] show ?thesis .
  qed
qed

lemma LocalGetAnswerFromUser_asked:
  assumes w: "wf_map (au_Map a)" and r: "LocalGetAnswerFromUser U E ui cert n t a s = Some (st, t', a', s')"
  shows "asked a a' \<and> (\<not> EFI_ERROR st \<longrightarrow> approved U E ui cert n t' a' s')"
proof (cases "DfciUiIsUiAvailable ui s")
  case False
  then show ?thesis using r w by (auto simp: LocalGetAnswerFromUser_def asked_refl)
next
  case True
  obtain pst u a1 s1 where p: "AuthWithPW U E PW_NULL 0 a s = (pst, u, a1, s1)" by (metis prod_cases4)
  note k = AuthWithPW_asked [OF w p, simplified]
  have w1: "wf_map (au_Map a1)" using k(1) by (simp add: asked_def)
  show ?thesis
  proof (cases "pst = EFI_SUCCESS \<or> pst = EFI_SECURITY_VIOLATION")
    case False
    then show ?thesis using r True p k(1) by (auto simp: LocalGetAnswerFromUser_def)
  next
    case ok: True
    let ?req = "if n = 0 then UiUnenrollRequest U E ui (pst \<noteq> EFI_SUCCESS) u a1 s1
        else UiEnrollRequest U E ui (pst \<noteq> EFI_SUCCESS) cert u a1 s1"
    have g: "(pst \<noteq> EFI_SUCCESS \<and> pst \<noteq> EFI_SECURITY_VIOLATION) = False" using ok by blast
    have r': "do { (c, t, a, s) \<leftarrow> ?req; Some (if c then EFI_SUCCESS else EFI_ACCESS_DENIED, t, a, s) }
        = Some (st, t', a', s')"
      using r True p unfolding LocalGetAnswerFromUser_def by (simp only: g p if_True if_False prod.case simp_thms)
    then obtain c where c: "?req = Some (c, t', a', s')" "st = (if c then EFI_SUCCESS else EFI_ACCESS_DENIED)"
      by (cases ?req) (simp_all split: prod.splits)
    have "asked a1 a' \<and> (c \<longrightarrow> approved U E ui cert n t' a' s')"
    proof (cases "n = 0 \<and> pst = EFI_SUCCESS")
      case True
      then have "a' = a1" "t' = u" using c(1) by (auto simp: UiUnenrollRequest_def split: prod.splits)
      then show ?thesis using k(2-4) True asked_refl [OF w1] by (auto simp: approved_def)
    next
      case False
      then obtain pw pw' where "dialog_loop U E ui (user_dialog ui cert n pw') pw False 3 u a1 s1 = Some (c, t', a', s')"
        using c(1) by (auto simp: UiEnrollRequest_def GetConfirmationWithDfciAuthDialog_def UiUnenrollRequest_def user_dialog_def
            GetConfirmationWithPasswordDialog_def split: if_splits)
      from dialog_loop_asked [OF w1 this] show ?thesis by (auto simp: approved_def)
    qed
    then show ?thesis using c(2) asked_trans [OF k(1)] by auto
  qed
qed

section \<open>Properties\<close>


text \<open>A user who first gives a wrong password, then the right one.\<close>

definition demo_ui :: "demo_state ui_lib" where
  "demo_ui = \<lparr>DfciUiIsUiAvailable = (\<lambda>s. True),
     DfciUiDisplayAuthDialog = (\<lambda>c err pw s. (EFI_SUCCESS, DFCI_MB_IDOK, Some (if err then ''secret'' else ''guess''), s)),
     DfciUiDisplayPasswordDialog = (\<lambda>err s. (EFI_SUCCESS, DFCI_MB_IDOK, Some (if err then ''secret'' else ''guess''), s)),
     DfciUiDisplayMessageBox = (\<lambda>s. (EFI_SUCCESS, DFCI_MB_IDOK, s))\<rparr>"


end
