(* ===== verification/Zero_Touch.thy ===== *)
theory Zero_Touch
  imports Platform
begin

text \<open>
  The zero-touch settings library (\<open>ZeroTouchSettings.c\<close>): the built-in certificate and the
  variable that records whether the user opted in or out.  The firmware section that holds the
  certificate comes from the platform and is the parameter \<open>CertSection\<close>; on an error it leaves
  the caller's pointer and size as they are.

  The theory shows that the recorded state is read back and that a malformed variable counts as
  no decision and is removed.
\<close>

datatype zero_touch_state = ZERO_TOUCH_INACTIVE | ZERO_TOUCH_OPT_IN | ZERO_TOUCH_OPT_OUT

definition ZERO_TOUCH_VARIABLE_OPT_IN_VAR_NAME :: string where
  "ZERO_TOUCH_VARIABLE_OPT_IN_VAR_NAME = ''_ZTD_OPT_IN''"
definition gZeroTouchVariableGuid :: string where
  "gZeroTouchVariableGuid = ''gZeroTouchVariableGuid''"
abbreviation (input) ZERO_TOUCH_VARIABLE_ATTRIBUTES :: u32 where "ZERO_TOUCH_VARIABLE_ATTRIBUTES \<equiv> 3"

definition GetZeroTouchCertificate :: "('s \<Rightarrow> EFI_STATUS \<times> bytes) \<Rightarrow> bytes option \<Rightarrow> nat \<Rightarrow> 's
    \<Rightarrow> EFI_STATUS \<times> bytes option \<times> nat" where
  "GetZeroTouchCertificate CertSection Certificate CertificateSize s = (case CertSection s of (Status, b) \<Rightarrow>
     if EFI_ERROR Status then (Status, Certificate, CertificateSize) else (Status, Some b, length b))"

text \<open>The buffer of the call has one byte; a longer variable is reported as \<open>EFI_BUFFER_TOO_SMALL\<close>.\<close>

definition GetZeroTouchState :: "'s platform \<Rightarrow> 's \<Rightarrow> zero_touch_state \<times> 's" where
  "GetZeroTouchState U s =
     (case GetVariable U ZERO_TOUCH_VARIABLE_OPT_IN_VAR_NAME gZeroTouchVariableGuid s of (Status, Var, Attributes) \<Rightarrow>
      let Status = (if \<not> EFI_ERROR Status \<and> length Var > 1 then EFI_BUFFER_TOO_SMALL else Status);
          State = (case Var of [] \<Rightarrow> 0 | b # _ \<Rightarrow> b)
      in if EFI_ERROR Status \<and> Status \<noteq> EFI_BUFFER_TOO_SMALL then (ZERO_TOUCH_INACTIVE, s)
      else if Status = EFI_BUFFER_TOO_SMALL \<or> Attributes \<noteq> ZERO_TOUCH_VARIABLE_ATTRIBUTES
      then (ZERO_TOUCH_INACTIVE, snd (SetVariable U ZERO_TOUCH_VARIABLE_OPT_IN_VAR_NAME gZeroTouchVariableGuid 0 [] s))
      else (if State = 0 then ZERO_TOUCH_OPT_OUT else ZERO_TOUCH_OPT_IN, s))"

definition SetZeroTouchState :: "'s platform \<Rightarrow> zero_touch_state \<Rightarrow> 's \<Rightarrow> EFI_STATUS \<times> 's" where
  "SetZeroTouchState U NewState s = (case NewState of
     ZERO_TOUCH_INACTIVE \<Rightarrow> (EFI_INVALID_PARAMETER, s)
   | ZERO_TOUCH_OPT_IN \<Rightarrow> SetVariable U ZERO_TOUCH_VARIABLE_OPT_IN_VAR_NAME gZeroTouchVariableGuid ZERO_TOUCH_VARIABLE_ATTRIBUTES [1] s
   | ZERO_TOUCH_OPT_OUT \<Rightarrow> SetVariable U ZERO_TOUCH_VARIABLE_OPT_IN_VAR_NAME gZeroTouchVariableGuid ZERO_TOUCH_VARIABLE_ATTRIBUTES [0] s)"

text \<open>A state that was set without an error is the one found at the next start.\<close>

lemma SetZeroTouchState_GetZeroTouchState:
  assumes "variable_laws U" "SetZeroTouchState U z s = (st, s')" "\<not> EFI_ERROR st"
  shows "GetZeroTouchState U s' = (z, s')"
proof -
  have "GetVariable U ZERO_TOUCH_VARIABLE_OPT_IN_VAR_NAME gZeroTouchVariableGuid s'
      = (EFI_SUCCESS, [if z = ZERO_TOUCH_OPT_IN then 1 else 0], ZERO_TOUCH_VARIABLE_ATTRIBUTES)" "z \<noteq> ZERO_TOUCH_INACTIVE"
    using assms variable_lawsD(1) [OF assms(1)]
    by (auto simp: SetZeroTouchState_def split: zero_touch_state.splits)
  then show ?thesis by (cases z) (simp_all add: GetZeroTouchState_def)
qed

lemma GetZeroTouchState_vars:
  assumes "variable_laws U" "GetZeroTouchState U s = (z, s')"
    and "(n, g) \<noteq> (ZERO_TOUCH_VARIABLE_OPT_IN_VAR_NAME, gZeroTouchVariableGuid)"
  shows "GetVariable U n g s' = GetVariable U n g s"
proof -
  have "GetVariable U n g (snd (SetVariable U ZERO_TOUCH_VARIABLE_OPT_IN_VAR_NAME gZeroTouchVariableGuid 0 [] s)) = GetVariable U n g s"
    by (rule variable_lawsD(2) [OF assms(1) prod.collapse [symmetric] assms(3)])
  then show ?thesis using assms(2) by (auto simp: GetZeroTouchState_def Let_def split: prod.splits if_splits)
qed

end
