(* ===== verification/Identity_Provision.thy ===== *)
theory Identity_Provision
  imports Service_Frame Identity_Current Ui_Support Zero_Touch
begin

text \<open>
  Identity packets (\<open>AuthManagerProvision.c\<close>) and the start of the driver
  (\<open>IdentityAndAuthManagerDxe.c\<close>).  The state is the pair of the driver's state (tokens, certificates)
  and the state of the platform; the permission store of the settings manager is passed along.
  The driver locates the permission protocol when it starts and installs nothing without it.

  The theory shows that a packet changes a certificate only with the signature of an identity that
  has the permission, under the zero-touch unenroll rule, or with the approval of the local user
  where local approval is permitted, and that the changes are committed or rolled back together.
\<close>

section \<open>The environment\<close>

text \<open>
  What the driver works with: the platform, the cryptographic and password libraries, the digest
  library, the dialogs, the groups and providers of the settings manager, the result of locating
  the setting access protocol, the zero-touch section of the firmware, whether the device is in
  manufacturing mode and the feature flag \<open>PcdDfciEnabled\<close>.
\<close>

record 's identity_env =
  ie_U :: "'s platform"
  ie_E :: "'s auth_env"
  ie_X :: sha1_lib
  ie_Ui :: "'s ui_lib"
  ie_Groups :: "group list"
  ie_Providers :: "(auth_state \<times> 's) provider list"
  ie_SettingsAccess :: EFI_STATUS
  ie_CertSection :: "'s \<Rightarrow> EFI_STATUS \<times> bytes"
  ie_ManufacturingMode :: "'s \<Rightarrow> bool"
  ie_PcdDfciEnabled :: bool

type_synonym 's sys = "auth_state \<times> 's"

definition ie_Platform :: "'s identity_env \<Rightarrow> 's sys platform" where
  "ie_Platform I = lift_platform (ie_U I)"

definition ie_Auth :: "'s identity_env \<Rightarrow> 's sys auth_protocol" where
  "ie_Auth I = auth_manager (ie_U I) (ie_E I)"

text \<open>The permission protocol of the settings manager (\<open>SettingsManager.c\<close>).\<close>

definition SystemSettingPermissionGetPermission :: "bool \<Rightarrow> string option \<Rightarrow> perm_store option \<Rightarrow> u8 option
    \<Rightarrow> EFI_STATUS \<times> u8 option" where
  "SystemSettingPermissionGetPermission This_ok SettingId Store PermissionMask = (case PermissionMask of
     None \<Rightarrow> (EFI_INVALID_PARAMETER, None)
   | Some m \<Rightarrow> if \<not> This_ok then (EFI_INVALID_PARAMETER, Some m)
       else case QueryPermission Store SettingId m of (Status, m') \<Rightarrow> (Status, Some m'))"

definition SystemSettingPermissionResetPermission :: "'s platform \<Rightarrow> 's auth_protocol option \<Rightarrow> group list \<Rightarrow> bool
    \<Rightarrow> u64 option \<Rightarrow> perm_store option \<Rightarrow> 's \<Rightarrow> (EFI_STATUS \<times> perm_store option \<times> 's) option" where
  "SystemSettingPermissionResetPermission U mAuth gs This_ok AuthToken Store s =
     (if \<not> This_ok \<or> AuthToken = None then Some (EFI_INVALID_PARAMETER, Store, s)
      else ResetPermissionsToDefault U mAuth gs AuthToken Store s)"

definition SystemSettingPermissionIdentityChange :: "'s platform \<Rightarrow> 's auth_protocol option \<Rightarrow> bool \<Rightarrow> u64 option
    \<Rightarrow> u8 \<Rightarrow> identity_change \<Rightarrow> perm_store option \<Rightarrow> 's \<Rightarrow> (EFI_STATUS \<times> perm_store option \<times> 's) option" where
  "SystemSettingPermissionIdentityChange U mAuth This_ok AuthToken CertIdentity ChangeType Store s =
     (if \<not> This_ok \<or> AuthToken = None then Some (EFI_INVALID_PARAMETER, Store, s)
      else IdentityChange U mAuth AuthToken CertIdentity ChangeType Store s)"

section \<open>Identity codes and the response\<close>

abbreviation (input) VAR_IDENTITY_INVALID :: u8 where "VAR_IDENTITY_INVALID \<equiv> 0"
abbreviation (input) VAR_IDENTITY_OWNER :: u8 where "VAR_IDENTITY_OWNER \<equiv> 1"
abbreviation (input) VAR_IDENTITY_USER :: u8 where "VAR_IDENTITY_USER \<equiv> 2"
abbreviation (input) VAR_IDENTITY_USER1 :: u8 where "VAR_IDENTITY_USER1 \<equiv> 3"
abbreviation (input) VAR_IDENTITY_USER2 :: u8 where "VAR_IDENTITY_USER2 \<equiv> 4"
abbreviation (input) VAR_IDENTITY_ZTD :: u8 where "VAR_IDENTITY_ZTD \<equiv> 5"

definition VarIdentityToDfciIdentity :: "u8 \<Rightarrow> u8" where
  "VarIdentityToDfciIdentity v =
     (if v = VAR_IDENTITY_ZTD then DFCI_IDENTITY_SIGNER_ZTD
      else if v = VAR_IDENTITY_OWNER then DFCI_IDENTITY_SIGNER_OWNER
      else if v = VAR_IDENTITY_USER then DFCI_IDENTITY_SIGNER_USER
      else if v = VAR_IDENTITY_USER1 then DFCI_IDENTITY_SIGNER_USER1
      else if v = VAR_IDENTITY_USER2 then DFCI_IDENTITY_SIGNER_USER2
      else DFCI_IDENTITY_INVALID)"

definition DfciIdentityToVarIdentity :: "u8 \<Rightarrow> u8" where
  "DfciIdentityToVarIdentity i =
     (if i = DFCI_IDENTITY_SIGNER_ZTD then VAR_IDENTITY_ZTD
      else if i = DFCI_IDENTITY_SIGNER_OWNER then VAR_IDENTITY_OWNER
      else if i = DFCI_IDENTITY_SIGNER_USER then VAR_IDENTITY_USER
      else if i = DFCI_IDENTITY_SIGNER_USER1 then VAR_IDENTITY_USER1
      else if i = DFCI_IDENTITY_SIGNER_USER2 then VAR_IDENTITY_USER2
      else VAR_IDENTITY_INVALID)"

definition DfciIdentityToSettingId :: "u8 \<Rightarrow> string option" where
  "DfciIdentityToSettingId i =
     (if i = DFCI_IDENTITY_SIGNER_ZTD then Some ID_ZTD_KEY
      else if i = DFCI_IDENTITY_SIGNER_USER then Some ''Dfci.UserKey.Enum''
      else if i = DFCI_IDENTITY_SIGNER_OWNER then Some ID_OWNER_KEY
      else if i = DFCI_IDENTITY_SIGNER_USER1 then Some ''Dfci.User1Key.Enum''
      else if i = DFCI_IDENTITY_SIGNER_USER2 then Some ''Dfci.User2Key.Enum''
      else None)"

definition SetIdentityResponse :: "'s platform \<Rightarrow> packet option \<Rightarrow> 's \<Rightarrow> EFI_STATUS \<times> 's" where
  "SetIdentityResponse U Data s = (case Data of
     None \<Rightarrow> (EFI_INVALID_PARAMETER, s)
   | Some D \<Rightarrow>
       if pk_State D = STATE_UNINITIALIZED then (EFI_SUCCESS, s)
       else if pk_State D = STATE_DATA_DELAYED_PROCESSING then (EFI_SUCCESS, s)
       else SetVariable U (pk_ResultName D) gDfciAuthProvisionVarNamespace DFCI_IDENTITY_VAR_ATTRIBUTES
         (le32 0x5250534D @ [1, DfciIdentityToVarIdentity (pk_DfciIdentity D)] @ le32 (pk_SessionId D)
           @ le64 (pk_StatusCode D)) s)"

section \<open>Authentication of a packet\<close>

text \<open>The bytes behind a payload pointer; the NULL pointer is no bytes.\<close>

definition payload_bytes :: "packet \<Rightarrow> bytes option option" where
  "payload_bytes Data = (case pk_Payload Data of None \<Rightarrow> Some None
     | Some p \<Rightarrow> map_option Some (rd (pk_Packet Data) p (pk_PayloadSize Data)))"

text \<open>The checks on the identity the packet provisions; the identity is recorded in the packet.\<close>

definition check_identity :: "cert_store \<Rightarrow> packet \<Rightarrow> (stage_error option \<times> packet) option" where
  "check_identity C Data = do {
     off \<leftarrow> pk_VarIdentity Data;
     v \<leftarrow> rd8 (pk_Packet Data) off;
     let Data = Data\<lparr>pk_DfciIdentity := VarIdentityToDfciIdentity v\<rparr>;
     Some (if pk_DfciIdentity Data = DFCI_IDENTITY_INVALID then Some (STATE_DATA_INVALID, EFI_UNSUPPORTED)
       else if v \<noteq> VAR_IDENTITY_OWNER \<and> Provisioned C AND DFCI_IDENTITY_SIGNER_OWNER = 0
       then Some (STATE_DATA_NO_OWNER, EFI_UNSUPPORTED)
       else if pk_PayloadSize Data = 0 \<and> pk_DfciIdentity Data AND Provisioned C = 0
       then Some (STATE_DATA_NO_OWNER, EFI_UNSUPPORTED)
       else None, Data) }"

text \<open>
  The test signature, by the new certificate over itself, and the room for the signature of the
  packet; the result is the length of the data that the latter covers.
\<close>

definition check_test_signature :: "'s auth_env \<Rightarrow> packet \<Rightarrow> (stage_error + nat) option" where
  "check_test_signature E Data = do {
     r \<leftarrow> (if pk_PayloadSize Data > 0 then
         if pk_PacketSize Data \<le> pk_SignedDataLength Data + 8 then Some (Inl (STATE_DATA_INVALID, EFI_COMPROMISED_DATA))
         else do {
           dwLength \<leftarrow> rd32 (pk_Packet Data) (pk_SignedDataLength Data);
           if unat dwLength + pk_SignedDataLength Data > pk_PacketSize Data
           then Some (Inl (STATE_DATA_INVALID, EFI_COMPROMISED_DATA))
           else do {
             Payload \<leftarrow> payload_bytes Data;
             Status \<leftarrow> VerifySignature E Payload (Some (drop (pk_SignedDataLength Data) (pk_Packet Data))) Payload (pk_PayloadSize Data);
             Some (if EFI_ERROR Status then Inl (STATE_DATA_INVALID, EFI_CRC_ERROR)
               else Inr (pk_SignedDataLength Data + unat dwLength)) } }
       else Some (Inr (pk_SignedDataLength Data)));
     Some (case r of Inl e \<Rightarrow> Inl e
       | Inr n \<Rightarrow> if n + 24 \<ge> pk_PacketSize Data then Inl (STATE_DATA_INVALID, EFI_COMPROMISED_DATA) else Inr n) }"

text \<open>Whether the permissions let the signer make the change; \<open>Inl\<close> is a failed query.\<close>

definition signer_permitted :: "perm_store option \<Rightarrow> packet \<Rightarrow> u8 \<Rightarrow> u8 \<Rightarrow> EFI_STATUS + bool" where
  "signer_permitted Store Data PermMask Ident =
     (if pk_PayloadSize Data = 0 \<and> Ident = DFCI_IDENTITY_SIGNER_ZTD then
        (case SystemSettingPermissionGetPermission True (Some ID_ZTD_UNENROLL) Store (Some 0) of (Status, m) \<Rightarrow>
          if EFI_ERROR Status then Inl Status else Inr (pk_DfciIdentity Data AND the m \<noteq> 0))
      else Inr (Ident AND PermMask \<noteq> 0))"

definition set_outcome :: "packet_state \<Rightarrow> EFI_STATUS \<Rightarrow> packet \<Rightarrow> packet" where
  "set_outcome State Status Data = Data\<lparr>pk_StatusCode := Status, pk_State := State\<rparr>"

text \<open>The last part: permission, signature of the packet, or a question to the local user.\<close>

definition authorise :: "'s identity_env \<Rightarrow> perm_store option \<Rightarrow> nat \<Rightarrow> packet \<Rightarrow> 's sys
    \<Rightarrow> (EFI_STATUS \<times> packet \<times> 's sys) option" where
  "authorise I Store SignedDataLength Data z =
     (case SystemSettingPermissionGetPermission True (DfciIdentityToSettingId (pk_DfciIdentity Data)) Store (Some 0) of (Status, m) \<Rightarrow>
      if EFI_ERROR Status then Some (Status, set_outcome STATE_DATA_INVALID Status Data, z)
      else let PermMask = the m in do {
        dwLength \<leftarrow> rd32 (pk_Packet Data) SignedDataLength;
        if pk_PacketSize Data \<noteq> unat dwLength + SignedDataLength
        then Some (EFI_COMPROMISED_DATA, set_outcome STATE_DATA_INVALID EFI_COMPROMISED_DATA Data, z)
        else do {
          (Status, tok, z1) \<leftarrow> ap_AuthWithSignedData (ie_Auth I) (take SignedDataLength (pk_Packet Data))
             (drop SignedDataLength (pk_Packet Data)) (pk_AuthToken Data) z;
          let Data = Data\<lparr>pk_AuthToken := tok\<rparr>;
          let local_user = (if PermMask AND DFCI_IDENTITY_LOCAL \<noteq> 0
            then (EFI_SUCCESS, set_outcome STATE_DATA_AUTHENTICATED EFI_SUCCESS (Data\<lparr>pk_UserConfirmationRequired := True\<rparr>), z1)
            else (EFI_ACCESS_DENIED, set_outcome STATE_DATA_AUTH_FAILED EFI_ACCESS_DENIED Data, z1));
          Some (if EFI_ERROR Status then local_user
            else (case ap_GetIdentityProperties (ie_Auth I) tok z1 of (Status, Ident) \<Rightarrow>
              if EFI_ERROR Status then (EFI_ABORTED, set_outcome STATE_DATA_AUTH_FAILED EFI_ABORTED Data, z1)
              else (case signer_permitted Store Data PermMask Ident of
                  Inl Status \<Rightarrow> (Status, set_outcome STATE_DATA_INVALID Status Data, z1)
                | Inr ok \<Rightarrow> if ok then (EFI_SUCCESS,
                    set_outcome STATE_DATA_AUTHENTICATED EFI_SUCCESS (Data\<lparr>pk_UserConfirmationRequired := False\<rparr>), z1)
                  else local_user))) } })"

definition ValidateAndAuthenticatePendingProvisionData :: "'s identity_env \<Rightarrow> perm_store option \<Rightarrow> packet \<Rightarrow> 's sys
    \<Rightarrow> (EFI_STATUS \<times> packet \<times> 's sys) option" where
  "ValidateAndAuthenticatePendingProvisionData I Store Data z = do {
     (e, Data) \<leftarrow> check_identity (au_Certs (fst z)) Data;
     (case e of Some (State, Status) \<Rightarrow> Some (Status, set_outcome State Status Data, z)
      | None \<Rightarrow> do {
          r \<leftarrow> check_test_signature (ie_E I) Data;
          (case r of Inl (State, Status) \<Rightarrow> Some (Status, set_outcome State Status Data, z)
           | Inr SignedDataLength \<Rightarrow> authorise I Store SignedDataLength Data z) }) }"

section \<open>Clearing all DFCI data\<close>

text \<open>\<open>PermProtocol\<close> says whether the permission protocol has been located.\<close>

definition ClearDFCI :: "'s identity_env \<Rightarrow> bool \<Rightarrow> u64 \<Rightarrow> perm_store option \<Rightarrow> 's sys
    \<Rightarrow> (EFI_STATUS \<times> perm_store option \<times> 's sys) option" where
  "ClearDFCI I PermProtocol AuthToken Store z =
     (if AuthToken = DFCI_AUTH_TOKEN_INVALID then Some (EFI_INVALID_PARAMETER, Store, z)
      else if \<not> PermProtocol then Some (EFI_NOT_READY, Store, z)
      else if EFI_ERROR (ie_SettingsAccess I) then Some (ie_SettingsAccess I, Store, z)
      else case SystemSettingsAccessReset (ie_Platform I) (Some (ie_Auth I)) Store (ie_Groups I) (ie_Providers I) (Some AuthToken) z of
        (Status, z1) \<Rightarrow>
          if EFI_ERROR Status then Some (Status, Store, z1)
          else do {
            (Status, Store, z2) \<leftarrow> SystemSettingPermissionResetPermission (ie_Platform I) (Some (ie_Auth I)) (ie_Groups I) True
               (Some AuthToken) Store z1;
            if EFI_ERROR Status then Some (Status, Store, z2)
            else do {
              (Status, C, s3) \<leftarrow> InitializeProvisionedData (ie_U I) (au_Certs (fst z2)) (snd z2);
              let a3 = (fst z2)\<lparr>au_Certs := C\<rparr>;
              if EFI_ERROR Status then Some (Status, Store, (a3, s3))
              else case DisposeAllIdentityMappings DFCI_IDENTITY_MASK_KEYS (au_Map a3) of
                (Status, m) \<Rightarrow> Some (Status, Store, (a3\<lparr>au_Map := m\<rparr>, s3)) } })"

section \<open>Applying a packet\<close>

text \<open>
  Replacing or removing the certificate of a slot: a new certificate is copied when the payload
  pointer is not NULL, whatever its size.
\<close>

definition replace_cert :: "nat \<Rightarrow> u8 \<Rightarrow> bytes option \<Rightarrow> nat \<Rightarrow> cert_store \<Rightarrow> cert_store" where
  "replace_cert Index i Payload PayloadSize C =
     (let C1 = (if cd_Cert (cs_Certs C ! Index) \<noteq> None
          then (set_cert Index no_cert C)\<lparr>cs_PopulatedIdentities := cs_PopulatedIdentities C AND NOT i\<rparr> else C)
      in case Payload of None \<Rightarrow> C1
       | Some b \<Rightarrow> (set_cert Index \<lparr>cd_Cert = (if PayloadSize > 0 then Some b else None), cd_CertSize = PayloadSize\<rparr> C1)
           \<lparr>cs_PopulatedIdentities := cs_PopulatedIdentities C1 OR i\<rparr>)"

definition ApplyProvisionData :: "'s identity_env \<Rightarrow> packet option \<Rightarrow> perm_store option \<Rightarrow> 's sys
    \<Rightarrow> (EFI_STATUS \<times> packet option \<times> perm_store option \<times> 's sys) option" where
  "ApplyProvisionData I Data Store z = (case Data of
     None \<Rightarrow> Some (EFI_INVALID_PARAMETER, None, Store, z)
   | Some D \<Rightarrow>
     if pk_State D \<noteq> STATE_DATA_USER_APPROVED then Some (EFI_UNSUPPORTED, Some D, Store, z)
     else if pk_PayloadSize D = 0 \<and> pk_DfciIdentity D = DFCI_IDENTITY_SIGNER_OWNER then do {
       (Status, Store, z1) \<leftarrow> ClearDFCI I True (pk_AuthToken D) Store z;
       Some (Status, Some (set_outcome (if EFI_ERROR Status then STATE_DATA_SYSTEM_ERROR else STATE_DATA_COMPLETE) Status
         (D\<lparr>pk_ResetRequired := True\<rparr>)), Store, z1) }
     else (case DfciIdentityToCertIndex (pk_DfciIdentity D) of
         None \<Rightarrow> Some (EFI_UNSUPPORTED, Some (set_outcome STATE_DATA_INVALID EFI_UNSUPPORTED D), Store, z)
       | Some Index \<Rightarrow> (case (if pk_PayloadSize D > 0 then AllocatePool (ie_U I) (pk_PayloadSize D) (snd z) else (True, snd z)) of
           (ok, s1) \<Rightarrow>
           if \<not> ok then Some (EFI_OUT_OF_RESOURCES, Some (set_outcome STATE_DATA_SYSTEM_ERROR EFI_OUT_OF_RESOURCES D), Store, (fst z, s1))
           else do {
             Payload \<leftarrow> payload_bytes D;
             let C = replace_cert Index (pk_DfciIdentity D) Payload (pk_PayloadSize D) (au_Certs (fst z));
             Some (EFI_SUCCESS, Some (set_outcome STATE_DATA_COMPLETE EFI_SUCCESS (D\<lparr>pk_LKGDirty := True\<rparr>)), Store,
               ((fst z)\<lparr>au_Certs := C\<rparr>, s1)) })))"

definition DeleteProvisionVariable :: "'s platform \<Rightarrow> packet option \<Rightarrow> 's \<Rightarrow> 's" where
  "DeleteProvisionVariable U Data s = (case Data of
     None \<Rightarrow> s
   | Some D \<Rightarrow> if pk_State D = STATE_UNINITIALIZED \<or> pk_State D = STATE_DATA_DELAYED_PROCESSING then s
       else snd (SetVariable U (pk_MailboxName D) gDfciAuthProvisionVarNamespace 0 [] s))"

text \<open>
  Addresses are compared as offsets: \<open>x \<le> 0\<close> is at or before the first byte of the packet.  The
  checks of the version pointers are made only for pointers that are NULL; a NULL pointer lies
  before the packet.
\<close>

definition ValidateIdentityPacket :: "packet \<Rightarrow> EFI_STATUS option" where
  "ValidateIdentityPacket Data =
     (if pk_PacketSize Data > MAX_ALLOWABLE_DFCI_APPLY_VAR_SIZE then Some EFI_COMPROMISED_DATA
      else if pk_SignedDataLength Data \<ge> pk_PacketSize Data then Some EFI_COMPROMISED_DATA
      else if pk_Signature Data \<noteq> Some (pk_SignedDataLength Data) then Some EFI_COMPROMISED_DATA
      else case pk_VarIdentity Data of None \<Rightarrow> Some EFI_COMPROMISED_DATA
      | Some v \<Rightarrow>
        if v \<le> 0 \<or> v \<ge> pk_SignedDataLength Data then Some EFI_COMPROMISED_DATA
        else do {
          PktVersion \<leftarrow> rd8 (pk_Packet Data) 4;
          if PktVersion \<ge> 2 \<and> pk_Version Data = None then Some EFI_COMPROMISED_DATA
          else if PktVersion \<ge> 2 \<and> pk_LSV Data = None then Some EFI_COMPROMISED_DATA
          else if (pk_PayloadSize Data \<noteq> 0 \<or> pk_Payload Data \<noteq> None)
            \<and> (case pk_Payload Data of None \<Rightarrow> True | Some p \<Rightarrow> p \<le> 0 \<or> p + pk_PayloadSize Data > pk_SignedDataLength Data)
          then Some EFI_COMPROMISED_DATA
          else Some EFI_SUCCESS })"

text \<open>The local user's answer where one is required.\<close>

definition user_input :: "'s identity_env \<Rightarrow> packet \<Rightarrow> 's sys \<Rightarrow> (EFI_STATUS \<times> packet \<times> 's sys) option" where
  "user_input I D z =
     (if \<not> pk_UserConfirmationRequired D then Some (EFI_SUCCESS, D\<lparr>pk_State := STATE_DATA_USER_APPROVED\<rparr>, z)
      else do {
        Payload \<leftarrow> payload_bytes D;
        (Status, tok, a1, s1) \<leftarrow> LocalGetAnswerFromUser (ie_U I) (ie_E I) (ie_Ui I) Payload (pk_PayloadSize D)
           (pk_AuthToken D) (fst z) (snd z);
        let D = D\<lparr>pk_AuthToken := tok\<rparr>;
        Some (if EFI_ERROR Status then
            (Status, if Status = EFI_NOT_READY then set_outcome STATE_DATA_SYSTEM_ERROR EFI_NOT_READY D
               else set_outcome STATE_DATA_USER_REJECTED EFI_ABORTED D, (a1, s1))
          else (Status, D\<lparr>pk_ResetRequired := True, pk_State := STATE_DATA_USER_APPROVED\<rparr>, (a1, s1))) })"

definition change_type :: "packet \<Rightarrow> cert_store \<Rightarrow> identity_change" where
  "change_type D C =
     (if pk_PayloadSize D = 0 then UNENROLL
      else if pk_DfciIdentity D = DFCI_IDENTITY_SIGNER_OWNER \<and> cs_PopulatedIdentities C AND DFCI_IDENTITY_SIGNER_OWNER = 0
      then FIRST_ENROLL else ENROLL)"

text \<open>Steps 5 and 6: the change, the notification of the permissions and the disposal of old tokens.\<close>

definition make_change :: "'s identity_env \<Rightarrow> packet \<Rightarrow> perm_store option \<Rightarrow> 's sys
    \<Rightarrow> (EFI_STATUS \<times> packet \<times> perm_store option \<times> 's sys) option" where
  "make_change I D Store z = do {
     let ChangeType = change_type D (au_Certs (fst z));
     (Status, Data, Store, z1) \<leftarrow> ApplyProvisionData I (Some D) Store z;
     D \<leftarrow> Data;
     if EFI_ERROR Status then Some (Status, D, Store, z1)
     else do {
       (Status, Store, z2) \<leftarrow> SystemSettingPermissionIdentityChange (ie_Platform I) (Some (ie_Auth I)) True
          (Some (pk_AuthToken D)) (pk_DfciIdentity D) ChangeType Store z1;
       if EFI_ERROR Status then Some (Status, set_outcome STATE_DATA_INVALID Status D, Store, z2)
       else case DisposeAllIdentityMappings (pk_DfciIdentity D) (au_Map (fst z2)) of
         (Status, m) \<Rightarrow> Some (Status, D, Store, ((fst z2)\<lparr>au_Map := m\<rparr>, snd z2)) } }"

text \<open>The body up to the CLEANUP label.\<close>

definition identity_packet_body :: "'s identity_env \<Rightarrow> packet \<Rightarrow> perm_store option \<Rightarrow> 's sys
    \<Rightarrow> (EFI_STATUS \<times> packet \<times> perm_store option \<times> 's sys) option" where
  "identity_packet_body I D Store z =
     (if pk_State D \<noteq> STATE_DATA_PRESENT then Some (EFI_ABORTED, D, Store, z)
      else do {
        Status \<leftarrow> ValidateIdentityPacket D;
        if EFI_ERROR Status then Some (Status, set_outcome STATE_DATA_SYSTEM_ERROR EFI_ABORTED D, Store, z)
        else do {
          (Status, D, z1) \<leftarrow> ValidateAndAuthenticatePendingProvisionData I Store D z;
          if EFI_ERROR Status then Some (Status, D, Store, z1)
          else if \<not> DfciUiIsUiAvailable (ie_Ui I) (snd z1) \<and> pk_UserConfirmationRequired D
          then Some (Status, D\<lparr>pk_State := STATE_DATA_DELAYED_PROCESSING\<rparr>, Store, z1)
          else do {
            (Status, D, z2) \<leftarrow> user_input I D z1;
            if EFI_ERROR Status then Some (Status, D, Store, z2)
            else make_change I D Store z2 } } })"

definition ApplyNewIdentityPacket :: "'s identity_env \<Rightarrow> bool \<Rightarrow> packet option \<Rightarrow> perm_store option \<Rightarrow> 's sys
    \<Rightarrow> (EFI_STATUS \<times> packet option \<times> perm_store option \<times> 's sys) option" where
  "ApplyNewIdentityPacket I This_ok Data Store z = (case Data of
     None \<Rightarrow> Some (EFI_INVALID_PARAMETER, Data, Store, z)
   | Some D \<Rightarrow>
       if \<not> This_ok then Some (EFI_INVALID_PARAMETER, Data, Store, z)
       else do {
         (Status, D, Store, z1) \<leftarrow> identity_packet_body I D Store z;
         Some (if pk_AuthToken D \<noteq> DFCI_AUTH_TOKEN_INVALID
           then (Status, Some (D\<lparr>pk_AuthToken := DFCI_AUTH_TOKEN_INVALID\<rparr>), Store,
             snd (snd (ap_DisposeAuthToken (ie_Auth I) (pk_AuthToken D) z1)))
           else (Status, Some D, Store, z1)) })"

section \<open>Last known good\<close>

definition Identity_LKG_Handler :: "'s identity_env \<Rightarrow> bool \<Rightarrow> packet option \<Rightarrow> u8 \<Rightarrow> 's sys
    \<Rightarrow> (EFI_STATUS \<times> packet option \<times> 's sys) option" where
  "Identity_LKG_Handler I This_ok Data Operation z =
     (let a = fst z; s = DeleteProvisionVariable (ie_U I) Data (snd z) in
      case Data of
        None \<Rightarrow> Some (EFI_INVALID_PARAMETER, None, (a, s))
      | Some D \<Rightarrow>
        if \<not> This_ok then Some (EFI_INVALID_PARAMETER, Data, (a, s))
        else do {
          (Status, D, a1, s1) \<leftarrow>
            (if Operation = DFCI_LKG_RESTORE then
               (if pk_LKGDirty D then do {
                  (Status, C, s1) \<leftarrow> LoadProvisionedData (ie_U I) (au_Certs a) s;
                  Some (Status, D\<lparr>pk_LKGDirty := False\<rparr>, a\<lparr>au_Certs := C\<rparr>, s1) }
                else Some (EFI_SUCCESS, D, a, s))
             else if Operation = DFCI_LKG_COMMIT then
               (if pk_LKGDirty D then do {
                  (Status, s1) \<leftarrow> SaveProvisionedData (ie_U I) (au_Certs a) s;
                  if EFI_ERROR Status then do {
                    (_, C, s2) \<leftarrow> LoadProvisionedData (ie_U I) (au_Certs a) s1;
                    Some (Status, D\<lparr>pk_LKGDirty := False\<rparr>, a\<lparr>au_Certs := C\<rparr>, s2) }
                  else do {
                    (_, s2) \<leftarrow> PopulateCurrentIdentities (ie_U I) (ie_X I) (au_Certs a) True s1;
                    Some (Status, D\<lparr>pk_LKGDirty := False\<rparr>, a, s2) } }
                else Some (EFI_SUCCESS, D, a, s))
             else Some (EFI_INVALID_PARAMETER, D, a, s));
          Some (Status, Some (if EFI_ERROR Status then set_outcome STATE_DATA_SYSTEM_ERROR Status D else D), (a1, s1)) })"

section \<open>Start of the driver\<close>

text \<open>
  The zero-touch certificate is added when the user opted in, or in manufacturing mode, and no
  owner is enrolled; it is removed when the user opted out.
\<close>

definition zero_touch_step :: "'s identity_env \<Rightarrow> zero_touch_state \<Rightarrow> cert_store \<Rightarrow> 's \<Rightarrow> bool \<times> cert_store" where
  "zero_touch_step I ZeroTouchState C s =
     (let ztd = cs_Certs C ! CERT_ZTD_INDEX in
      if ZeroTouchState = ZERO_TOUCH_OPT_IN then
        (if cd_Cert ztd = None \<and> cd_Cert (cs_Certs C ! CERT_OWNER_INDEX) = None \<and> ie_PcdDfciEnabled I then
           (case GetZeroTouchCertificate (ie_CertSection I) (cd_Cert ztd) (cd_CertSize ztd) s of (Status, Cert, CertSize) \<Rightarrow>
              let C1 = set_cert CERT_ZTD_INDEX \<lparr>cd_Cert = Cert, cd_CertSize = CertSize\<rparr> C in
              if EFI_ERROR Status then (False, C1)
              else (True, C1\<lparr>cs_PopulatedIdentities := cs_PopulatedIdentities C OR DFCI_IDENTITY_SIGNER_ZTD\<rparr>))
         else (False, C))
      else if ZeroTouchState = ZERO_TOUCH_OPT_OUT \<and> cd_Cert ztd \<noteq> None
      then (True, (set_cert CERT_ZTD_INDEX no_cert C)\<lparr>cs_PopulatedIdentities := cs_PopulatedIdentities C AND NOT DFCI_IDENTITY_SIGNER_ZTD\<rparr>)
      else (False, C))"

text \<open>
  \<open>located\<close> is the result of locating the permission protocol.  The result says whether the driver
  came to the point where it installs its protocols.
\<close>

definition Identity_Init :: "'s identity_env \<Rightarrow> EFI_STATUS \<Rightarrow> 's sys \<Rightarrow> (EFI_STATUS \<times> bool \<times> 's sys) option" where
  "Identity_Init I located z =
     (if EFI_ERROR located then Some (located, False, z)
      else do {
        (_, C, s1) \<leftarrow> PopulateInternalCertStore (ie_U I) (au_Certs (fst z)) (snd z);
        (case GetZeroTouchState (ie_U I) s1 of (ZeroTouchState, s2) \<Rightarrow>
          let ZeroTouchState = (if ZeroTouchState = ZERO_TOUCH_INACTIVE \<and> ie_ManufacturingMode I s2
                then ZERO_TOUCH_OPT_IN else ZeroTouchState) in
          case zero_touch_step I ZeroTouchState C s2 of (SaveState, C) \<Rightarrow> do {
            s3 \<leftarrow> (if SaveState then do {
                (_, s3) \<leftarrow> SaveProvisionedData (ie_U I) C s2;
                map_option snd (PopulateCurrentIdentities (ie_U I) (ie_X I) C True s3) }
              else Some s2);
            (_, s4) \<leftarrow> PopulateCurrentIdentities (ie_U I) (ie_X I) C False s3;
            Some (EFI_SUCCESS, True, ((fst z)\<lparr>au_Certs := C\<rparr>, s4)) }) })"

section \<open>Who may change a certificate\<close>

text \<open>The permission mask that governs an id.\<close>

definition key_mask :: "perm_store \<Rightarrow> string \<Rightarrow> u8" where
  "key_mask S i = (case perm_map S i of None \<Rightarrow> ps_DefaultPMask S | Some (p, _) \<Rightarrow> p)"

lemma GetPermission_mask:
  assumes "wf_store S"
  shows "SystemSettingPermissionGetPermission True (Some i) (Some S) (Some m) = (EFI_SUCCESS, Some (key_mask S i))"
  using FindPermissionEntry_masks [OF assms, of i]
  by (auto simp: SystemSettingPermissionGetPermission_def QueryPermission_def key_mask_def split: option.splits)

text \<open>
  A signer may change the certificate of identity \<open>i\<close> when the mask of the certificate's key names
  the signer; a removal signed by the zero-touch key is governed by the zero-touch unenroll mask,
  which must name the identity that is removed.
\<close>

definition permitted :: "perm_store \<Rightarrow> nat \<Rightarrow> u8 \<Rightarrow> u8 \<Rightarrow> bool" where
  "permitted S PayloadSize i k = (if PayloadSize = 0 \<and> k = DFCI_IDENTITY_SIGNER_ZTD then i AND key_mask S ID_ZTD_UNENROLL \<noteq> 0
     else k AND key_mask S (the (DfciIdentityToSettingId i)) \<noteq> 0)"

text \<open>The new certificate verifies the test signature over itself.\<close>

definition self_signed :: "'s auth_env \<Rightarrow> packet \<Rightarrow> bool" where
  "self_signed E D \<longleftrightarrow> (\<exists>b p7. payload_bytes D = Some (Some b) \<and> length b = pk_PayloadSize D
     \<and> win_cert_data E (drop (pk_SignedDataLength D) (pk_Packet D)) = Some p7 \<and> Pkcs7Verify E p7 b b)"

text \<open>The local user was shown the request and approved it.\<close>

definition user_approved :: "'s identity_env \<Rightarrow> packet \<Rightarrow> bool" where
  "user_approved I D \<longleftrightarrow> (\<exists>cert t t' a s a' s'. payload_bytes D = Some cert
     \<and> LocalGetAnswerFromUser (ie_U I) (ie_E I) (ie_Ui I) cert (pk_PayloadSize D) t a s = Some (EFI_SUCCESS, t', a', s')
     \<and> approved (ie_U I) (ie_E I) (ie_Ui I) cert (pk_PayloadSize D) t' a' s')"

text \<open>The request a packet makes; processing changes only the other fields.\<close>

definition same_request :: "packet \<Rightarrow> packet \<Rightarrow> bool" where
  "same_request D D' \<longleftrightarrow> pk_Packet D' = pk_Packet D \<and> pk_PacketSize D' = pk_PacketSize D
     \<and> pk_SignedDataLength D' = pk_SignedDataLength D \<and> pk_PayloadSize D' = pk_PayloadSize D \<and> pk_Payload D' = pk_Payload D"

lemma same_request_simps [simp]:
  "same_request D D" "same_request D (set_outcome x y D') = same_request D D'"
  "same_request D (D'\<lparr>pk_AuthToken := t\<rparr>) = same_request D D'" "same_request D (D'\<lparr>pk_State := p\<rparr>) = same_request D D'"
  "same_request D (D'\<lparr>pk_DfciIdentity := i\<rparr>) = same_request D D'" "same_request D (D'\<lparr>pk_UserConfirmationRequired := c\<rparr>) = same_request D D'"
  "same_request D (D'\<lparr>pk_ResetRequired := c\<rparr>) = same_request D D'"
  by (simp_all add: same_request_def set_outcome_def)

lemma set_outcome_simps [simp]:
  "pk_State (set_outcome x y D) = x" "pk_StatusCode (set_outcome x y D) = y" "pk_DfciIdentity (set_outcome x y D) = pk_DfciIdentity D"
  "pk_AuthToken (set_outcome x y D) = pk_AuthToken D" "pk_UserConfirmationRequired (set_outcome x y D) = pk_UserConfirmationRequired D"
  "pk_PayloadSize (set_outcome x y D) = pk_PayloadSize D" "pk_LKGDirty (set_outcome x y D) = pk_LKGDirty D"
  "pk_Payload (set_outcome x y D) = pk_Payload D" "pk_MailboxName (set_outcome x y D) = pk_MailboxName D"
  by (simp_all add: set_outcome_def)

lemma same_request_payload: "same_request D D' \<Longrightarrow> payload_bytes D' = payload_bytes D"
  by (simp add: same_request_def payload_bytes_def split: option.split)

lemma check_identity_accepts:
  assumes "check_identity C D = Some (None, D')"
  shows "\<exists>v. rd8 (pk_Packet D) (the (pk_VarIdentity D)) = Some v \<and> D' = D\<lparr>pk_DfciIdentity := VarIdentityToDfciIdentity v\<rparr>
    \<and> pk_DfciIdentity D' \<noteq> 0 \<and> (pk_DfciIdentity D' = DFCI_IDENTITY_SIGNER_OWNER \<or> Provisioned C AND DFCI_IDENTITY_SIGNER_OWNER \<noteq> 0)
    \<and> (pk_PayloadSize D = 0 \<longrightarrow> pk_DfciIdentity D' AND Provisioned C \<noteq> 0)"
proof -
  have "VarIdentityToDfciIdentity VAR_IDENTITY_OWNER = DFCI_IDENTITY_SIGNER_OWNER" by (simp add: VarIdentityToDfciIdentity_def)
  then show ?thesis
    using assms by (auto simp: check_identity_def Let_def split: Option.bind_splits if_splits)
qed

lemma check_identity_request: "check_identity C D = Some (e, D') \<Longrightarrow> same_request D D'"
  by (auto simp: check_identity_def Let_def split: Option.bind_splits)

lemma check_test_signature_accepts:
  assumes "check_test_signature E D = Some (Inr n)"
  shows "(if pk_PayloadSize D = 0 then n = pk_SignedDataLength D else pk_SignedDataLength D \<le> n \<and> self_signed E D) \<and> n + 24 < pk_PacketSize D"
proof (cases "0 < pk_PayloadSize D")
  case False
  then show ?thesis using assms by (auto simp: check_test_signature_def split: if_splits)
next
  case True
  then obtain dw pay st where d: "payload_bytes D = Some pay"
    "VerifySignature E pay (Some (drop (pk_SignedDataLength D) (pk_Packet D))) pay (pk_PayloadSize D) = Some st" "\<not> EFI_ERROR st"
    "n = pk_SignedDataLength D + unat (dw :: u32)" "n + 24 < pk_PacketSize D"
    using assms by (auto simp: check_test_signature_def split: Option.bind_splits if_splits sum.splits)
  obtain b p7 where b: "pay = Some b" "pk_PayloadSize D \<le> length b"
    "win_cert_data E (drop (pk_SignedDataLength D) (pk_Packet D)) = Some p7" "Pkcs7Verify E p7 (take (pk_PayloadSize D) b) b"
    using VerifySignature_success [OF d(2)] d(3) by auto
  have "length b = pk_PayloadSize D"
    using d(1) b(1) by (auto simp: payload_bytes_def rd_def split: option.splits if_splits)
  with d b True show ?thesis by (auto simp: self_signed_def)
qed

lemma ie_Auth_signed:
  assumes w: "wf_map (au_Map (fst z))"
    and r: "ap_AuthWithSignedData (ie_Auth I) d sg t z = Some (st, u, z')"
  shows "wf_map (au_Map (fst z')) \<and> au_Certs (fst z') = au_Certs (fst z)
    \<and> (if EFI_ERROR st then u = t \<and> token_map (au_Map (fst z')) = token_map (au_Map (fst z))
       else \<exists>k. find (verifies (ie_E I) (au_Certs (fst z)) d sg) key_order = Some k \<and> u \<noteq> 0
         \<and> token_map (au_Map (fst z)) u = None \<and> token_map (au_Map (fst z')) = (token_map (au_Map (fst z)))(u \<mapsto> k))"
proof -
  obtain t' where "AuthWithSignedData (ie_U I) (ie_E I) (Some d) (Some sg) (Some t) (fst z) (snd z)
      = Some (st, t', fst z', snd z')" "t' = Some u"
    using r by (cases z) (auto simp: ie_Auth_def auth_manager_def split: Option.bind_splits)
  from AuthWithSignedData_spec [OF w this(1)] this(2) show ?thesis by (auto split: if_splits)
qed

lemma ie_Auth_properties:
  "ap_GetIdentityProperties (ie_Auth I) t z = (case token_map (au_Map (fst z)) t of None \<Rightarrow> (EFI_NOT_FOUND, 0) | Some i \<Rightarrow> (EFI_SUCCESS, i))"
  by (cases z) (simp add: ie_Auth_def auth_manager_def GetIdentityProperties_map)

text \<open>
  The outcome of the authentication, for the identity \<open>i\<close> and the mask \<open>m\<close> of its key: without a
  question to the user the signature is by an identity that is permitted; with one the mask names
  the local user.
\<close>

definition authorised :: "'s identity_env \<Rightarrow> perm_store \<Rightarrow> cert_store \<Rightarrow> nat \<Rightarrow> packet \<Rightarrow> bool" where
  "authorised I S C n D \<longleftrightarrow> (if pk_UserConfirmationRequired D
     then key_mask S (the (DfciIdentityToSettingId (pk_DfciIdentity D))) AND DFCI_IDENTITY_LOCAL \<noteq> 0
     else \<exists>k. find (verifies (ie_E I) C (take n (pk_Packet D)) (drop n (pk_Packet D))) key_order = Some k
       \<and> permitted S (pk_PayloadSize D) (pk_DfciIdentity D) k)"

lemma authorise_spec:
  assumes w: "wf_map (au_Map (fst z))" "wf_store S" and i: "DfciIdentityToSettingId (pk_DfciIdentity D) = Some x"
    and r: "authorise I (Some S) n D z = Some (st, D', z')"
  shows "wf_map (au_Map (fst z')) \<and> au_Certs (fst z') = au_Certs (fst z) \<and> same_request D D'
    \<and> pk_DfciIdentity D' = pk_DfciIdentity D \<and> (\<not> EFI_ERROR st \<longrightarrow> authorised I S (au_Certs (fst z)) n D')"
proof -
  note g = GetPermission_mask [OF w(2)]
  consider (rejected) "EFI_ERROR st" "D' = set_outcome STATE_DATA_INVALID EFI_COMPROMISED_DATA D" "z' = z"
    | (signed) ast u where "ap_AuthWithSignedData (ie_Auth I) (take n (pk_Packet D)) (drop n (pk_Packet D)) (pk_AuthToken D) z
        = Some (ast, u, z')"
      "(st, D', z') =
        (let D1 = D\<lparr>pk_AuthToken := u\<rparr>;
             local_user = (if key_mask S x AND DFCI_IDENTITY_LOCAL \<noteq> 0
              then (EFI_SUCCESS, set_outcome STATE_DATA_AUTHENTICATED EFI_SUCCESS (D1\<lparr>pk_UserConfirmationRequired := True\<rparr>), z')
              else (EFI_ACCESS_DENIED, set_outcome STATE_DATA_AUTH_FAILED EFI_ACCESS_DENIED D1, z'))
         in if EFI_ERROR ast then local_user
         else (case ap_GetIdentityProperties (ie_Auth I) u z' of (pst, k) \<Rightarrow>
           if EFI_ERROR pst then (EFI_ABORTED, set_outcome STATE_DATA_AUTH_FAILED EFI_ABORTED D1, z')
           else (case signer_permitted (Some S) D1 (key_mask S x) k of
               Inl pst \<Rightarrow> (pst, set_outcome STATE_DATA_INVALID pst D1, z')
             | Inr ok \<Rightarrow> if ok then (EFI_SUCCESS,
                 set_outcome STATE_DATA_AUTHENTICATED EFI_SUCCESS (D1\<lparr>pk_UserConfirmationRequired := False\<rparr>), z')
               else local_user)))"
    using r by (auto simp: authorise_def i g Let_def split: Option.bind_splits if_splits prod.splits sum.splits)
  then show ?thesis
  proof cases
    case rejected
    then show ?thesis using w by simp
  next
    case signed
    have sp: "signer_permitted (Some S) (D\<lparr>pk_AuthToken := u\<rparr>) (key_mask S x) k
        = Inr (permitted S (pk_PayloadSize D) (pk_DfciIdentity D) k)" for k
      by (simp add: signer_permitted_def g permitted_def i)
    show ?thesis
      using signed(2) ie_Auth_signed [OF w(1) signed(1)] i
      by (auto simp: Let_def sp ie_Auth_properties authorised_def set_outcome_def same_request_def split: if_splits)
  qed
qed

lemma VarIdentity_setting: "VarIdentityToDfciIdentity v \<noteq> 0 \<Longrightarrow> \<exists>x. DfciIdentityToSettingId (VarIdentityToDfciIdentity v) = Some x"
  by (auto simp: VarIdentityToDfciIdentity_def DfciIdentityToSettingId_def split: if_splits)

text \<open>What a packet that passed all checks has shown.\<close>

definition acceptable :: "'s identity_env \<Rightarrow> perm_store \<Rightarrow> cert_store \<Rightarrow> packet \<Rightarrow> u8 \<Rightarrow> nat \<Rightarrow> bool" where
  "acceptable I S C D i n \<longleftrightarrow>
     (\<exists>v. rd8 (pk_Packet D) (the (pk_VarIdentity D)) = Some v \<and> i = VarIdentityToDfciIdentity v) \<and> i \<noteq> DFCI_IDENTITY_INVALID
   \<and> (i = DFCI_IDENTITY_SIGNER_OWNER \<or> Provisioned C AND DFCI_IDENTITY_SIGNER_OWNER \<noteq> 0)
   \<and> (if pk_PayloadSize D = 0 then i AND Provisioned C \<noteq> 0 \<and> n = pk_SignedDataLength D
       else self_signed (ie_E I) D \<and> pk_SignedDataLength D \<le> n) \<and> n + 24 < pk_PacketSize D"

lemma authenticate_spec:
  assumes w: "wf_map (au_Map (fst z))" "wf_store S"
    and r: "ValidateAndAuthenticatePendingProvisionData I (Some S) D z = Some (st, D', z')"
  shows "wf_map (au_Map (fst z')) \<and> au_Certs (fst z') = au_Certs (fst z) \<and> same_request D D'
    \<and> (\<not> EFI_ERROR st \<longrightarrow> (\<exists>n. acceptable I S (au_Certs (fst z)) D (pk_DfciIdentity D') n \<and> authorised I S (au_Certs (fst z)) n D'))"
proof -
  obtain e D1 where c: "check_identity (au_Certs (fst z)) D = Some (e, D1)"
    using r by (auto simp: ValidateAndAuthenticatePendingProvisionData_def split: Option.bind_splits)
  note q1 = check_identity_request [OF c]
  have err: "EFI_ERROR b" if "check_identity C D = Some (Some (x, b), D1)" for C x b
    using that by (auto simp: check_identity_def Let_def split: Option.bind_splits if_splits)
  have err2: "EFI_ERROR b" if "check_test_signature E D1 = Some (Inl (x, b))" for E x b
    using that by (auto simp: check_test_signature_def split: Option.bind_splits if_splits sum.splits)
  show ?thesis
  proof (cases e)
    case (Some p)
    then show ?thesis using r c w q1 err
      by (auto simp: ValidateAndAuthenticatePendingProvisionData_def split: prod.splits)
  next
    case None
    note c' = c [unfolded None]
    obtain t where t: "check_test_signature (ie_E I) D1 = Some t"
      using r c None by (auto simp: ValidateAndAuthenticatePendingProvisionData_def split: Option.bind_splits)
    show ?thesis
    proof (cases t)
      case (Inl p)
      then show ?thesis using r c t None w q1 err2
        by (auto simp: ValidateAndAuthenticatePendingProvisionData_def split: prod.splits)
    next
      case (Inr n)
      have a: "authorise I (Some S) n D1 z = Some (st, D', z')"
        using r c t None Inr by (simp add: ValidateAndAuthenticatePendingProvisionData_def)
      obtain v where v: "rd8 (pk_Packet D) (the (pk_VarIdentity D)) = Some v"
        "D1 = D\<lparr>pk_DfciIdentity := VarIdentityToDfciIdentity v\<rparr>" "pk_DfciIdentity D1 \<noteq> 0"
        "pk_DfciIdentity D1 = DFCI_IDENTITY_SIGNER_OWNER \<or> Provisioned (au_Certs (fst z)) AND DFCI_IDENTITY_SIGNER_OWNER \<noteq> 0"
        "pk_PayloadSize D = 0 \<longrightarrow> pk_DfciIdentity D1 AND Provisioned (au_Certs (fst z)) \<noteq> 0"
        using check_identity_accepts [OF c'] by (elim exE conjE)
      obtain x where x: "DfciIdentityToSettingId (pk_DfciIdentity D1) = Some x"
        using VarIdentity_setting [of v] v(2,3) by auto
      note ts = check_test_signature_accepts [OF t [unfolded Inr]]
      have ss: "self_signed (ie_E I) D1 = self_signed (ie_E I) D"
        using same_request_payload [OF q1] by (simp add: self_signed_def v(2))
      note sp = authorise_spec [OF w x a]
      have "acceptable I S (au_Certs (fst z)) D (pk_DfciIdentity D') n" if "\<not> EFI_ERROR st"
        unfolding acceptable_def using sp v ts ss that by (auto simp: v(2))
      then show ?thesis using sp q1 by (auto simp: same_request_def)
    qed
  qed
qed

lemma user_input_spec:
  assumes w: "wf_map (au_Map (fst z))" and r: "user_input I D z = Some (st, D', z')"
  shows "wf_map (au_Map (fst z')) \<and> au_Certs (fst z') = au_Certs (fst z) \<and> same_request D D'
    \<and> pk_DfciIdentity D' = pk_DfciIdentity D
    \<and> (\<not> EFI_ERROR st \<longrightarrow> pk_State D' = STATE_DATA_USER_APPROVED \<and> (pk_UserConfirmationRequired D \<longrightarrow> user_approved I D))"
proof (cases "pk_UserConfirmationRequired D")
  case False
  then show ?thesis using r w by (auto simp: user_input_def)
next
  case True
  then obtain cert lst t a1 s1 where c: "payload_bytes D = Some cert"
    "LocalGetAnswerFromUser (ie_U I) (ie_E I) (ie_Ui I) cert (pk_PayloadSize D) (pk_AuthToken D) (fst z) (snd z) = Some (lst, t, a1, s1)"
    and o: "st = lst" "z' = (a1, s1)"
    "D' = (if EFI_ERROR lst then if lst = EFI_NOT_READY then set_outcome STATE_DATA_SYSTEM_ERROR EFI_NOT_READY (D\<lparr>pk_AuthToken := t\<rparr>)
         else set_outcome STATE_DATA_USER_REJECTED EFI_ABORTED (D\<lparr>pk_AuthToken := t\<rparr>)
       else D\<lparr>pk_AuthToken := t, pk_ResetRequired := True, pk_State := STATE_DATA_USER_APPROVED\<rparr>)"
    using r by (auto simp: user_input_def Let_def split: Option.bind_splits if_splits)
  note k = LocalGetAnswerFromUser_asked [OF w c(2)]
  have "lst = EFI_SUCCESS" if "\<not> EFI_ERROR lst"
    using c(2) that by (auto simp: LocalGetAnswerFromUser_def split: Option.bind_splits prod.splits if_splits)
  with k c have "user_approved I D" if "\<not> EFI_ERROR lst"
    unfolding user_approved_def using that by blast
  with k o show ?thesis by (auto simp: asked_def)
qed

lemma same_request_approved: "same_request D D' \<Longrightarrow> user_approved I D' = user_approved I D"
  using same_request_payload [of D D'] by (simp add: user_approved_def same_request_def)

lemma same_request_trans: "same_request D D' \<Longrightarrow> same_request D' D'' \<Longrightarrow> same_request D D''"
  by (simp add: same_request_def)

text \<open>The two ways to an authorised change of the certificate of identity \<open>i\<close>.\<close>

definition authorised_by :: "'s identity_env \<Rightarrow> perm_store \<Rightarrow> cert_store \<Rightarrow> packet \<Rightarrow> u8 \<Rightarrow> nat \<Rightarrow> bool" where
  "authorised_by I S C D i n \<longleftrightarrow>
     (\<exists>k. find (verifies (ie_E I) C (take n (pk_Packet D)) (drop n (pk_Packet D))) key_order = Some k \<and> permitted S (pk_PayloadSize D) i k)
   \<or> (key_mask S (the (DfciIdentityToSettingId i)) AND DFCI_IDENTITY_LOCAL \<noteq> 0 \<and> user_approved I D)"

text \<open>Either nothing of the certificates and the permissions changes, or the change step is reached with authority.\<close>

lemma identity_packet_body_cases:
  assumes w: "wf_map (au_Map (fst z))" "wf_store S"
    and r: "identity_packet_body I D (Some S) z = Some (st, D', Store', z')"
  obtains (unchanged) "wf_map (au_Map (fst z'))" "au_Certs (fst z') = au_Certs (fst z)" "Store' = Some S"
  | (change) n D1 z1 where "wf_map (au_Map (fst z1))" "au_Certs (fst z1) = au_Certs (fst z)" "same_request D D1"
      "pk_State D1 = STATE_DATA_USER_APPROVED" "acceptable I S (au_Certs (fst z)) D (pk_DfciIdentity D1) n"
      "authorised_by I S (au_Certs (fst z)) D (pk_DfciIdentity D1) n" "make_change I D1 (Some S) z1 = Some (st, D', Store', z')"
proof (cases "pk_State D \<noteq> STATE_DATA_PRESENT \<or> (\<exists>v. ValidateIdentityPacket D = Some v \<and> EFI_ERROR v)")
  case True
  then show ?thesis using r w unchanged by (auto simp: identity_packet_body_def split: Option.bind_splits if_splits)
next
  case False
  then obtain ast D1 z1 where a: "ValidateAndAuthenticatePendingProvisionData I (Some S) D z = Some (ast, D1, z1)"
    and r1: "(if EFI_ERROR ast then Some (ast, D1, Some S, z1)
       else if \<not> DfciUiIsUiAvailable (ie_Ui I) (snd z1) \<and> pk_UserConfirmationRequired D1
       then Some (ast, D1\<lparr>pk_State := STATE_DATA_DELAYED_PROCESSING\<rparr>, Some S, z1)
       else do {
         (Status, D, z2) \<leftarrow> user_input I D1 z1;
         if EFI_ERROR Status then Some (Status, D, Some S, z2) else make_change I D (Some S) z2 }) = Some (st, D', Store', z')"
    using r by (auto simp: identity_packet_body_def split: Option.bind_splits if_splits)
  note sp = authenticate_spec [OF w a]
  show ?thesis
  proof (cases "EFI_ERROR ast \<or> (\<not> DfciUiIsUiAvailable (ie_Ui I) (snd z1) \<and> pk_UserConfirmationRequired D1)")
    case True
    then show ?thesis using r1 sp unchanged by (auto split: if_splits)
  next
    case F2: False
    then obtain ust D2 z2 where u: "user_input I D1 z1 = Some (ust, D2, z2)"
      and r2: "(if EFI_ERROR ust then Some (ust, D2, Some S, z2) else make_change I D2 (Some S) z2) = Some (st, D', Store', z')"
      using r1 by (auto split: Option.bind_splits if_splits)
    have w1: "wf_map (au_Map (fst z1))" using sp by blast
    note us = user_input_spec [OF w1 u]
    show ?thesis
    proof (cases "EFI_ERROR ust")
      case True
      then show ?thesis using r2 sp us unchanged by (auto split: if_splits)
    next
      case False
      obtain n where n: "acceptable I S (au_Certs (fst z)) D (pk_DfciIdentity D1) n" "authorised I S (au_Certs (fst z)) n D1"
        using sp F2 by blast
      have "authorised_by I S (au_Certs (fst z)) D (pk_DfciIdentity D1) n"
        using n(2) us False sp same_request_approved [of D D1 I]
        by (auto simp: authorised_by_def authorised_def same_request_def split: if_splits)
      with n us sp False r2 same_request_trans show ?thesis by (intro change [of z2 D2 n]) auto
    qed
  qed
qed

lemma Dispose_keeps_certs: "au_Certs (fst (snd (snd (ap_DisposeAuthToken (ie_Auth I) t z)))) = au_Certs (fst z)"
  by (cases z) (simp add: ie_Auth_def auth_manager_def split: prod.splits)

text \<open>Without an error and without a delay the change step was reached.\<close>

lemma identity_packet_body_reached:
  assumes w: "wf_map (au_Map (fst z))" "wf_store S"
    and r: "identity_packet_body I D (Some S) z = Some (st, D', Store', z')"
    and ok: "\<not> EFI_ERROR st" "pk_State D' \<noteq> STATE_DATA_DELAYED_PROCESSING"
  shows "\<exists>n D1 z1. wf_map (au_Map (fst z1)) \<and> au_Certs (fst z1) = au_Certs (fst z) \<and> same_request D D1
    \<and> acceptable I S (au_Certs (fst z)) D (pk_DfciIdentity D1) n \<and> make_change I D1 (Some S) z1 = Some (st, D', Store', z')"
proof -
  obtain ast D1 z1 where a: "ValidateAndAuthenticatePendingProvisionData I (Some S) D z = Some (ast, D1, z1)" "\<not> EFI_ERROR ast"
    and r1: "do {
         (Status, D, z2) \<leftarrow> user_input I D1 z1;
         if EFI_ERROR Status then Some (Status, D, Some S, z2) else make_change I D (Some S) z2 } = Some (st, D', Store', z')"
    using r ok by (auto simp: identity_packet_body_def split: Option.bind_splits if_splits)
  note sp = authenticate_spec [OF w a(1)]
  obtain ust D2 z2 where u: "user_input I D1 z1 = Some (ust, D2, z2)" "make_change I D2 (Some S) z2 = Some (st, D', Store', z')"
    using r1 ok by (auto split: Option.bind_splits if_splits)
  have w1: "wf_map (au_Map (fst z1))" using sp by blast
  from sp a(2) user_input_spec [OF w1 u(1)] u(2) same_request_trans show ?thesis by metis
qed

section \<open>Properties of identity packets\<close>

text \<open>
  Property C3: only authorised packets change certificates or permissions.  If processing an identity
  packet changed the certificate store or the permissions, then the packet provisions a known
  identity, an owner is enrolled unless it is the owner's certificate, a removal concerns an enrolled
  identity and a new certificate verifies its test signature; and the packet is signed by an
  identity that the permissions let change this certificate, or the permissions let the local user
  approve the change and the user did so.
\<close>

theorem ApplyNewIdentityPacket_authorised:
  assumes "wf_map (au_Map a)" "wf_store S"
    and r: "ApplyNewIdentityPacket I This_ok (Some D) (Some S) (a, s) = Some (st, D', Store', (a', s'))"
    and c: "au_Certs a' \<noteq> au_Certs a \<or> Store' \<noteq> Some S"
  shows "\<exists>i n. acceptable I S (au_Certs a) D i n \<and> authorised_by I S (au_Certs a) D i n"
proof -
  have "This_ok" using r c by (auto simp: ApplyNewIdentityPacket_def split: if_splits)
  then obtain D1 z1 where b: "identity_packet_body I D (Some S) (a, s) = Some (st, D1, Store', z1)"
    and z: "(a', s') = z1 \<or> (a', s') = snd (snd (ap_DisposeAuthToken (ie_Auth I) (pk_AuthToken D1) z1))"
    using r by (auto simp: ApplyNewIdentityPacket_def split: Option.bind_splits if_splits)
  have k: "au_Certs a' = au_Certs (fst z1)" using z Dispose_keeps_certs by (metis fst_conv)
  have w: "wf_map (au_Map (fst (a, s)))" using assms(1) by simp
  show ?thesis
    by (rule identity_packet_body_cases [OF w assms(2) b]) (use c k in auto)
qed

section \<open>The invariant of the identity manager\<close>

text \<open>
  The certificates are well formed, the mask of populated identities is exactly the local user and
  the identities with a certificate, and user certificates occur only together with an owner's.
\<close>

definition certs_inv :: "cert_store \<Rightarrow> bool" where
  "certs_inv C \<longleftrightarrow> wf_certs C \<and> cs_PopulatedIdentities C = DFCI_IDENTITY_LOCAL OR cert_ids 0 (cs_Certs C)
     \<and> owner_rule (cs_PopulatedIdentities C)"

definition identity_inv :: "auth_state \<Rightarrow> bool" where
  "identity_inv a \<longleftrightarrow> wf_map (au_Map a) \<and> certs_inv (au_Certs a)"

text \<open>The mask as a function of the slots that hold a certificate: user, user1, user2, owner, zero-touch.\<close>

definition ids_mask :: "bool \<Rightarrow> bool \<Rightarrow> bool \<Rightarrow> bool \<Rightarrow> bool \<Rightarrow> u8" where
  "ids_mask u u1 u2 ow z = 0x01 OR (if u then 0x40 else 0) OR (if u1 then 0x20 else 0) OR (if u2 then 0x10 else 0)
     OR (if ow then 0x80 else 0) OR (if z then 0x08 else 0)"

lemma ids_mask_certs:
  "cs_Certs C = [a, b, c, d, e, f, g] \<Longrightarrow> DFCI_IDENTITY_LOCAL OR cert_ids 0 (cs_Certs C) =
     ids_mask (cd_Cert a \<noteq> None) (cd_Cert b \<noteq> None) (cd_Cert c \<noteq> None) (cd_Cert d \<noteq> None) (cd_Cert e \<noteq> None)"
  by (simp add: ids_mask_def CertIndexToDfciIdentity_def)

lemma ids_mask_update:
  "(ids_mask u u1 u2 ow z AND NOT 0x40) OR (if p then 0x40 else 0) = ids_mask p u1 u2 ow z"
  "(ids_mask u u1 u2 ow z AND NOT 0x20) OR (if p then 0x20 else 0) = ids_mask u p u2 ow z"
  "(ids_mask u u1 u2 ow z AND NOT 0x10) OR (if p then 0x10 else 0) = ids_mask u u1 p ow z"
  "(ids_mask u u1 u2 ow z AND NOT 0x80) OR (if p then 0x80 else 0) = ids_mask u u1 u2 p z"
  "(ids_mask u u1 u2 ow z AND NOT 0x08) OR (if p then 0x08 else 0) = ids_mask u u1 u2 ow p"
  by (cases u; cases u1; cases u2; cases ow; cases z; cases p; simp add: ids_mask_def)+

lemma ids_mask_owner:
  "owner_rule (ids_mask u u1 u2 ow z) \<longleftrightarrow> ow \<or> \<not> (u \<or> u1 \<or> u2)" "ids_mask u u1 u2 ow z AND 0x80 \<noteq> 0 \<longleftrightarrow> ow"
  by (cases u; cases u1; cases u2; cases ow; cases z; simp add: ids_mask_def owner_rule_def)+

lemma certs_inv_slots:
  assumes "certs_inv C"
  obtains a b c d e f g where "cs_Certs C = [a, b, c, d, e, f, g]"
    "cs_PopulatedIdentities C = ids_mask (cd_Cert a \<noteq> None) (cd_Cert b \<noteq> None) (cd_Cert c \<noteq> None) (cd_Cert d \<noteq> None) (cd_Cert e \<noteq> None)"
    "cd_Cert d \<noteq> None \<or> cd_Cert a = None \<and> cd_Cert b = None \<and> cd_Cert c = None"
proof -
  obtain a b c d e f g where l: "cs_Certs C = [a, b, c, d, e, f, g]"
    using assms length_certs7 [of "cs_Certs C"] by (auto simp: certs_inv_def wf_certs_def)
  have m: "cs_PopulatedIdentities C = ids_mask (cd_Cert a \<noteq> None) (cd_Cert b \<noteq> None) (cd_Cert c \<noteq> None) (cd_Cert d \<noteq> None) (cd_Cert e \<noteq> None)"
    and "owner_rule (cs_PopulatedIdentities C)"
    using assms unfolding certs_inv_def ids_mask_certs [OF l] by blast+
  then have "cd_Cert d \<noteq> None \<or> cd_Cert a = None \<and> cd_Cert b = None \<and> cd_Cert c = None"
    unfolding m ids_mask_owner by blast
  with l m that show thesis by blast
qed

text \<open>The slot of a new certificate, or of none.\<close>

definition new_slot :: "bytes option \<Rightarrow> nat \<Rightarrow> cert_details" where
  "new_slot P n = (if n = 0 then no_cert else \<lparr>cd_Cert = P, cd_CertSize = n\<rparr>)"

lemma replace_cert_slots:
  assumes C: "certs_inv C" and j: "DfciIdentityToCertIndex i = Some j"
    and pay: "if n = 0 then P = None else \<exists>b. P = Some b"
  shows "cs_Certs (replace_cert j i P n C) = (cs_Certs C)[j := new_slot P n]"
    "cs_PopulatedIdentities (replace_cert j i P n C) = (cs_PopulatedIdentities C AND NOT i) OR (if cd_Cert (new_slot P n) \<noteq> None then i else 0)"
proof -
  have j7: "j < 7" using j by (auto simp: DfciIdentityToCertIndex_def split: if_splits)
  have "cs_Certs C ! j = no_cert" if "cd_Cert (cs_Certs C ! j) = None"
    using that C j7 by (auto simp: certs_inv_def wf_certs_def wf_cert_def no_cert_def all_set_conv_all_nth
        intro!: cert_details.equality split: option.splits)
  then show "cs_Certs (replace_cert j i P n C) = (cs_Certs C)[j := new_slot P n]"
    using pay by (auto simp: replace_cert_def Let_def set_cert_def new_slot_def no_cert_def split: if_splits)
  have "cs_PopulatedIdentities C AND NOT i = cs_PopulatedIdentities C" if "cd_Cert (cs_Certs C ! j) = None"
    using C
  proof (rule certs_inv_slots)
    fix a b c d e f g
    assume l: "cs_Certs C = [a, b, c, d, e, f, g]"
      and m: "cs_PopulatedIdentities C = ids_mask (cd_Cert a \<noteq> None) (cd_Cert b \<noteq> None) (cd_Cert c \<noteq> None) (cd_Cert d \<noteq> None) (cd_Cert e \<noteq> None)"
    show ?thesis
      using j that ids_mask_update [where p = False] unfolding m
      by (auto simp: DfciIdentityToCertIndex_def l split: if_splits)
  qed
  then show "cs_PopulatedIdentities (replace_cert j i P n C) = (cs_PopulatedIdentities C AND NOT i) OR (if cd_Cert (new_slot P n) \<noteq> None then i else 0)"
    using pay by (auto simp: replace_cert_def set_cert_def Let_def new_slot_def no_cert_def split: if_splits)
qed

lemma replace_cert_mask:
  assumes C: "certs_inv C" and j: "DfciIdentityToCertIndex i = Some j"
    and cs: "cs_Certs C' = (cs_Certs C)[j := x]"
    and k: "cs_PopulatedIdentities C' = (cs_PopulatedIdentities C AND NOT i) OR (if cd_Cert x \<noteq> None then i else 0)"
    and ow: "if cd_Cert x = None then i \<noteq> DFCI_IDENTITY_SIGNER_OWNER
      else i = DFCI_IDENTITY_SIGNER_OWNER \<or> Provisioned C AND DFCI_IDENTITY_SIGNER_OWNER \<noteq> 0"
  shows "cs_PopulatedIdentities C' = DFCI_IDENTITY_LOCAL OR cert_ids 0 (cs_Certs C') \<and> owner_rule (cs_PopulatedIdentities C')"
  using C
proof (rule certs_inv_slots)
  fix a b c d e f g
  assume l: "cs_Certs C = [a, b, c, d, e, f, g]"
    and m: "cs_PopulatedIdentities C = ids_mask (cd_Cert a \<noteq> None) (cd_Cert b \<noteq> None) (cd_Cert c \<noteq> None) (cd_Cert d \<noteq> None) (cd_Cert e \<noteq> None)"
    and r: "cd_Cert d \<noteq> None \<or> cd_Cert a = None \<and> cd_Cert b = None \<and> cd_Cert c = None"
  have ow': "i = 0x80 \<longrightarrow> cd_Cert x \<noteq> None" "cd_Cert x \<noteq> None \<longrightarrow> i = 0x80 \<or> cd_Cert d \<noteq> None"
    using ow by (auto simp: Provisioned_def m ids_mask_owner split: if_splits)
  note kk = k [unfolded m] ow' r
  consider "i = 0x08" "cs_Certs C' = [a, b, c, d, x, f, g]" | "i = 0x40" "cs_Certs C' = [x, b, c, d, e, f, g]"
    | "i = 0x20" "cs_Certs C' = [a, x, c, d, e, f, g]" | "i = 0x10" "cs_Certs C' = [a, b, x, d, e, f, g]"
    | "i = 0x80" "cs_Certs C' = [a, b, c, x, e, f, g]"
    using j by (auto simp: DfciIdentityToCertIndex_def l cs split: if_splits)
  then show ?thesis
  proof cases
    case 1
    from kk 1(1) show ?thesis unfolding ids_mask_certs [OF 1(2)] by (simp only: ids_mask_update ids_mask_owner; auto)
  next
    case 2
    from kk 2(1) show ?thesis unfolding ids_mask_certs [OF 2(2)] by (simp only: ids_mask_update ids_mask_owner; auto)
  next
    case 3
    from kk 3(1) show ?thesis unfolding ids_mask_certs [OF 3(2)] by (simp only: ids_mask_update ids_mask_owner; auto)
  next
    case 4
    from kk 4(1) show ?thesis unfolding ids_mask_certs [OF 4(2)] by (simp only: ids_mask_update ids_mask_owner; auto)
  next
    case 5
    from kk 5(1) show ?thesis unfolding ids_mask_certs [OF 5(2)] by (simp only: ids_mask_update ids_mask_owner; auto)
  qed
qed

lemma replace_cert_inv:
  assumes C: "certs_inv C" and j: "DfciIdentityToCertIndex i = Some j"
    and pay: "if n = 0 then P = None \<and> i \<noteq> DFCI_IDENTITY_SIGNER_OWNER
      else (\<exists>b. P = Some b \<and> length b = n) \<and> n < 65536
        \<and> (i = DFCI_IDENTITY_SIGNER_OWNER \<or> Provisioned C AND DFCI_IDENTITY_SIGNER_OWNER \<noteq> 0)"
  shows "certs_inv (replace_cert j i P n C)"
proof -
  have p: "if n = 0 then P = None else \<exists>b. P = Some b" using pay by (auto split: if_splits)
  note k = replace_cert_slots [OF C j p]
  have x: "wf_cert (new_slot P n)" using pay by (auto simp: new_slot_def no_cert_def wf_cert_def split: if_splits)
  have "\<forall>c\<in>set (cs_Certs C). wf_cert c" "length (cs_Certs C) = 7" using C by (simp_all add: certs_inv_def wf_certs_def)
  with x have "wf_certs (replace_cert j i P n C)"
    unfolding wf_certs_def k(1) by (auto dest: set_update_subset_insert [THEN subsetD])
  moreover have "if cd_Cert (new_slot P n) = None then i \<noteq> DFCI_IDENTITY_SIGNER_OWNER
      else i = DFCI_IDENTITY_SIGNER_OWNER \<or> Provisioned C AND DFCI_IDENTITY_SIGNER_OWNER \<noteq> 0"
    using pay by (auto simp: new_slot_def no_cert_def split: if_splits)
  from replace_cert_mask [OF C j k this] have "cs_PopulatedIdentities (replace_cert j i P n C)
      = DFCI_IDENTITY_LOCAL OR cert_ids 0 (cs_Certs (replace_cert j i P n C)) \<and> owner_rule (cs_PopulatedIdentities (replace_cert j i P n C))" .
  ultimately show ?thesis unfolding certs_inv_def by blast
qed

lemma InitializeProvisionedData_inv:
  assumes C: "certs_inv C" and i: "InitializeProvisionedData U C s = Some (st, C', s')"
  shows "certs_inv C' \<and> cs_Certs C' = [no_cert, no_cert, no_cert, no_cert, cs_Certs C ! 4, no_cert, no_cert]"
proof -
  have l: "length (cs_Certs C) = 7" and z: "wf_cert (cs_Certs C ! 4)" using C by (auto simp: certs_inv_def wf_certs_def)
  then have zs: "cd_CertSize (cs_Certs C ! 4) = 0 \<longleftrightarrow> cd_Cert (cs_Certs C ! 4) = None"
    by (auto simp: wf_cert_def split: option.splits)
  note F = FreeCertStore_certs [OF l]
  from i have C': "C' = (FreeCertStore C)\<lparr>cs_PopulatedIdentities := (if cd_Cert (cs_Certs C ! 4) = None
      then DFCI_IDENTITY_LOCAL else DFCI_IDENTITY_LOCAL OR DFCI_IDENTITY_SIGNER_ZTD)\<rparr>"
    using zs by (auto simp: InitializeProvisionedData_def Let_def F split: if_splits)
  show ?thesis
    using z by (auto simp: C' F certs_inv_def wf_certs_def wf_cert_def no_cert_def CertIndexToDfciIdentity_def owner_rule_def)
qed

text \<open>Setting providers do not reach into the identity manager.\<close>

definition providers_apart :: "'s sys provider list \<Rightarrow> bool" where
  "providers_apart ps \<longleftrightarrow> (\<forall>p\<in>set ps. \<forall>z. fst (snd (pv_SetDefault p z)) = fst z)"

lemma reset_loop_apart: "providers_apart ps \<Longrightarrow> fst (reset_loop fl ps z) = fst z"
  by (induction ps arbitrary: z) (auto simp: providers_apart_def)

lemma SystemSettingsAccessReset_apart:
  assumes "providers_apart ps" "SystemSettingsAccessReset (lift_platform U) mAuth Store gs ps tok z = (st, z')"
  shows "fst z' = fst z"
  using assms(2)
  by (auto simp: SystemSettingsAccessReset_def ResetAllProvidersToDefaultsWithMatchingFlags_def SMID_ResetInFlash_def
      reset_loop_apart [OF assms(1)] dest!: lifted.set_var split: option.splits prod.splits if_splits)

lemma ResetPermission_apart:
  "SystemSettingPermissionResetPermission (lift_platform U) mAuth gs b tok Store z = Some (st, Store', z') \<Longrightarrow> fst z' = fst z"
  by (auto simp: SystemSettingPermissionResetPermission_def dest: lifted.ResetPermissionsToDefault_R split: if_splits)

lemma IdentityChange_apart:
  "SystemSettingPermissionIdentityChange (lift_platform U) mAuth b tok i ct Store z = Some (st, Store', z') \<Longrightarrow> fst z' = fst z"
  by (auto simp: SystemSettingPermissionIdentityChange_def dest: lifted.IdentityChange_R split: if_splits)

text \<open>The tokens after disposing of all mappings of the identities in a mask.\<close>

lemma DisposeAll_spec:
  assumes "wf_map m" "DisposeAllIdentityMappings Msk m = (st, m')"
  shows "st = EFI_SUCCESS \<and> wf_map m' \<and> m' = filter (\<lambda>e. ae_Identity e AND Msk = 0) m"
  using assms unfolding wf_map_def tokens_def
  by (auto simp: DisposeAllIdentityMappings_def dispose_loop_filter distinct_map intro: inj_on_subset)

lemma ClearDFCI_spec:
  assumes p: "providers_apart (ie_Providers I)" and inv: "identity_inv (fst z)"
    and r: "ClearDFCI I b tok Store z = Some (st, Store', z')"
  shows "identity_inv (fst z') \<and> (\<not> EFI_ERROR st \<longrightarrow>
    cs_Certs (au_Certs (fst z')) = [no_cert, no_cert, no_cert, no_cert, cs_Certs (au_Certs (fst z)) ! 4, no_cert, no_cert]
    \<and> au_Map (fst z') = filter (\<lambda>e. ae_Identity e AND DFCI_IDENTITY_MASK_KEYS = 0) (au_Map (fst z)))"
proof -
  obtain st1 z1 where a: "SystemSettingsAccessReset (ie_Platform I) (Some (ie_Auth I)) Store (ie_Groups I) (ie_Providers I) (Some tok) z
      = (st1, z1)" by (metis prod.exhaust)
  have z1: "fst z1 = fst z" by (rule SystemSettingsAccessReset_apart [OF p a [unfolded ie_Platform_def]])
  have z2: "fst z2 = fst z" if "SystemSettingPermissionResetPermission (ie_Platform I) (Some (ie_Auth I)) (ie_Groups I) True
      (Some tok) Store z1 = Some (st2, Store2, z2)" for st2 Store2 z2
    using ResetPermission_apart [OF that [unfolded ie_Platform_def]] z1 by simp
  consider (stop) "EFI_ERROR st" "fst z' = fst z"
    | (init) st2 z2 C s3 where "fst z2 = fst z" "InitializeProvisionedData (ie_U I) (au_Certs (fst z2)) (snd z2) = Some (st2, C, s3)"
        "if EFI_ERROR st2 then st = st2 \<and> fst z' = (fst z)\<lparr>au_Certs := C\<rparr>
         else DisposeAllIdentityMappings DFCI_IDENTITY_MASK_KEYS (au_Map (fst z)) = (st, au_Map (fst z')) \<and> au_Certs (fst z') = C"
  proof (cases "tok = 0 \<or> \<not> b \<or> EFI_ERROR (ie_SettingsAccess I) \<or> EFI_ERROR st1")
    case True
    then show thesis using r a z1 stop by (auto simp: ClearDFCI_def split: if_splits)
  next
    case False
    then obtain st2 Store2 z2 where b: "SystemSettingPermissionResetPermission (ie_Platform I) (Some (ie_Auth I)) (ie_Groups I) True
        (Some tok) Store z1 = Some (st2, Store2, z2)"
      using r a by (auto simp: ClearDFCI_def split: Option.bind_splits)
    show thesis
    proof (cases "EFI_ERROR st2")
      case True
      then show thesis using r a b False z2 [OF b] stop by (simp add: ClearDFCI_def)
    next
      case F2: False
      then obtain st3 C s3 where i: "InitializeProvisionedData (ie_U I) (au_Certs (fst z2)) (snd z2) = Some (st3, C, s3)"
        using r a b False by (auto simp: ClearDFCI_def split: Option.bind_splits)
      show thesis
        using r a b False F2 i z2 [OF b]
        by (intro init [OF z2 [OF b] i]) (auto simp: ClearDFCI_def Let_def split: if_splits prod.splits)
    qed
  qed
  then show ?thesis
  proof cases
    case stop
    then show ?thesis using inv by simp
  next
    case init
    have "certs_inv (au_Certs (fst z2))" using inv init(1) by (simp add: identity_inv_def)
    from InitializeProvisionedData_inv [OF this init(2)] init DisposeAll_spec inv show ?thesis
      by (auto simp: identity_inv_def split: if_splits)
  qed
qed

text \<open>
  A packet as the decoder leaves it: the payload pointer is NULL exactly when there is no payload,
  and the size comes from a 16-bit field.
\<close>

definition decoded_payload :: "packet \<Rightarrow> bool" where
  "decoded_payload D \<longleftrightarrow> (pk_PayloadSize D = 0 \<longleftrightarrow> pk_Payload D = None) \<and> pk_PayloadSize D < 65536"

lemma payload_bytes_decoded:
  assumes "decoded_payload D" "payload_bytes D = Some P"
  shows "if pk_PayloadSize D = 0 then P = None else \<exists>b. P = Some b \<and> length b = pk_PayloadSize D"
  using assms by (auto simp: decoded_payload_def payload_bytes_def rd_def split: option.splits if_splits)

lemma ApplyProvisionData_inv:
  assumes p: "providers_apart (ie_Providers I)" and inv: "identity_inv (fst z)" and dp: "decoded_payload D"
    and ow: "pk_DfciIdentity D = DFCI_IDENTITY_SIGNER_OWNER \<or> Provisioned (au_Certs (fst z)) AND DFCI_IDENTITY_SIGNER_OWNER \<noteq> 0"
    and r: "ApplyProvisionData I (Some D) Store z = Some (st, Data', Store', z')"
  shows "identity_inv (fst z') \<and> (\<exists>D'. Data' = Some D' \<and> pk_AuthToken D' = pk_AuthToken D \<and> pk_DfciIdentity D' = pk_DfciIdentity D)"
proof (cases "pk_State D = STATE_DATA_USER_APPROVED")
  case False
  then show ?thesis using r inv by (auto simp: ApplyProvisionData_def)
next
  case st: True
  show ?thesis
  proof (cases "pk_PayloadSize D = 0 \<and> pk_DfciIdentity D = DFCI_IDENTITY_SIGNER_OWNER")
    case True
    then obtain st1 Store1 where c: "ClearDFCI I True (pk_AuthToken D) Store z = Some (st1, Store1, z')"
      using r st by (auto simp: ApplyProvisionData_def split: Option.bind_splits)
    show ?thesis using ClearDFCI_spec [OF p inv c] r st True c by (auto simp: ApplyProvisionData_def)
  next
    case False
    consider (same) "fst z' = fst z" "\<exists>D'. Data' = Some D' \<and> pk_AuthToken D' = pk_AuthToken D \<and> pk_DfciIdentity D' = pk_DfciIdentity D"
      | (new) j P where "DfciIdentityToCertIndex (pk_DfciIdentity D) = Some j" "payload_bytes D = Some P"
         "fst z' = (fst z)\<lparr>au_Certs := replace_cert j (pk_DfciIdentity D) P (pk_PayloadSize D) (au_Certs (fst z))\<rparr>"
         "Data' = Some (set_outcome STATE_DATA_COMPLETE EFI_SUCCESS (D\<lparr>pk_LKGDirty := True\<rparr>))"
      using r st False
      by (auto simp: ApplyProvisionData_def Let_def split: option.splits Option.bind_splits if_splits prod.splits)
    then show ?thesis
    proof cases
      case same
      then show ?thesis using inv by simp
    next
      case new
      have "certs_inv (replace_cert j (pk_DfciIdentity D) P (pk_PayloadSize D) (au_Certs (fst z)))"
        using inv payload_bytes_decoded [OF dp new(2)] dp ow False
        by (intro replace_cert_inv [OF _ new(1)]) (auto simp: identity_inv_def decoded_payload_def)
      then show ?thesis using new inv by (simp add: identity_inv_def)
    qed
  qed
qed

lemma make_change_inv:
  assumes "providers_apart (ie_Providers I)" "identity_inv (fst z)" "decoded_payload D"
    and "pk_DfciIdentity D = DFCI_IDENTITY_SIGNER_OWNER \<or> Provisioned (au_Certs (fst z)) AND DFCI_IDENTITY_SIGNER_OWNER \<noteq> 0"
    and r: "make_change I D Store z = Some (st, D', Store', z')"
  shows "identity_inv (fst z')"
proof -
  obtain st1 D1 Store1 z1 where a: "ApplyProvisionData I (Some D) Store z = Some (st1, Some D1, Store1, z1)"
    using r by (auto simp: make_change_def Let_def split: Option.bind_splits)
  note i1 = ApplyProvisionData_inv [OF assms(1-4) a]
  show ?thesis
  proof (cases "EFI_ERROR st1")
    case True
    then show ?thesis using r a i1 by (simp add: make_change_def Let_def)
  next
    case False
    then obtain st2 Store2 z2 where c: "SystemSettingPermissionIdentityChange (ie_Platform I) (Some (ie_Auth I)) True
        (Some (pk_AuthToken D1)) (pk_DfciIdentity D1) (change_type D (au_Certs (fst z))) Store1 z1 = Some (st2, Store2, z2)"
      using r a by (auto simp: make_change_def Let_def split: Option.bind_splits)
    have z2: "fst z2 = fst z1" by (rule IdentityChange_apart [OF c [unfolded ie_Platform_def]])
    obtain st3 m where d: "DisposeAllIdentityMappings (pk_DfciIdentity D1) (au_Map (fst z2)) = (st3, m)" by (metis prod.exhaust)
    have "wf_map (au_Map (fst z2))" using i1 z2 by (simp add: identity_inv_def)
    from DisposeAll_spec [OF this d] i1 z2 r a c d False show ?thesis
      by (auto simp: make_change_def Let_def identity_inv_def split: if_splits)
  qed
qed

lemma Dispose_token:
  "fst (snd (snd (ap_DisposeAuthToken (ie_Auth I) t z))) = (fst z)\<lparr>au_Map := drop_token t (au_Map (fst z))\<rparr>"
  by (cases z) (simp add: ie_Auth_def auth_manager_def drop_token_def split: prod.splits)

lemma packet_final_state:
  assumes "ApplyNewIdentityPacket I True (Some D) Store z = Some (st, Data', Store', z')"
  obtains D1 z1 where "identity_packet_body I D Store z = Some (st, D1, Store', z1)" "Data' = Some (D1\<lparr>pk_AuthToken := 0\<rparr>)"
    "fst z' = (fst z1)\<lparr>au_Map := (if pk_AuthToken D1 \<noteq> 0 then drop_token (pk_AuthToken D1) (au_Map (fst z1)) else au_Map (fst z1))\<rparr>"
proof -
  obtain D1 z1 where b: "identity_packet_body I D Store z = Some (st, D1, Store', z1)"
    "if pk_AuthToken D1 \<noteq> 0 then Data' = Some (D1\<lparr>pk_AuthToken := 0\<rparr>) \<and> z' = snd (snd (ap_DisposeAuthToken (ie_Auth I) (pk_AuthToken D1) z1))
     else Data' = Some D1 \<and> z' = z1"
    using assms by (auto simp: ApplyNewIdentityPacket_def split: Option.bind_splits if_splits)
  show thesis
    using b(2) Dispose_token [of I "pk_AuthToken D1" z1] by (intro that [OF b(1)]) (auto split: if_splits)
qed

text \<open>
  Property C4: the identity manager keeps its invariant.  Whatever an identity packet contains,
  after it has been processed the certificates are well formed, the mask of populated identities
  matches them, user certificates occur only together with an owner's, and the tokens are
  distinct and valid; the packet's own token has been disposed of.
\<close>

theorem ApplyNewIdentityPacket_invariant:
  assumes inv: "identity_inv a" and S: "wf_store S" and p: "providers_apart (ie_Providers I)" and dp: "decoded_payload D"
    and r: "ApplyNewIdentityPacket I True (Some D) (Some S) (a, s) = Some (st, Data', Store', (a', s'))"
  shows "identity_inv a' \<and> (\<exists>D'. Data' = Some D' \<and> pk_AuthToken D' = DFCI_AUTH_TOKEN_INVALID)"
proof -
  obtain D1 z1 where b: "identity_packet_body I D (Some S) (a, s) = Some (st, D1, Store', z1)" "Data' = Some (D1\<lparr>pk_AuthToken := 0\<rparr>)"
    and f: "a' = (fst z1)\<lparr>au_Map := (if pk_AuthToken D1 \<noteq> 0 then drop_token (pk_AuthToken D1) (au_Map (fst z1)) else au_Map (fst z1))\<rparr>"
    using packet_final_state [OF r] by (metis fst_conv)
  have w: "wf_map (au_Map (fst (a, s)))" using inv by (simp add: identity_inv_def)
  have "identity_inv (fst z1)"
  proof (rule identity_packet_body_cases [OF w S b(1)])
    assume "wf_map (au_Map (fst z1))" "au_Certs (fst z1) = au_Certs (fst (a, s))"
    then show ?thesis using inv by (simp add: identity_inv_def)
  next
    fix n D2 z2
    assume c: "wf_map (au_Map (fst z2))" "au_Certs (fst z2) = au_Certs (fst (a, s))" "same_request D D2"
      "acceptable I S (au_Certs (fst (a, s))) D (pk_DfciIdentity D2) n" "make_change I D2 (Some S) z2 = Some (st, D1, Store', z1)"
    have i2: "identity_inv (fst z2)" using inv c(1,2) by (simp add: identity_inv_def)
    have d2: "decoded_payload D2" using dp c(3) by (simp add: decoded_payload_def same_request_def)
    have "pk_DfciIdentity D2 = DFCI_IDENTITY_SIGNER_OWNER \<or> Provisioned (au_Certs (fst z2)) AND DFCI_IDENTITY_SIGNER_OWNER \<noteq> 0"
      using c(2,4) by (simp add: acceptable_def)
    from make_change_inv [OF p i2 d2 this c(5)] show ?thesis .
  qed
  then show ?thesis using b(2) tok.drop_inv by (simp add: f identity_inv_def)
qed

section \<open>Effect of an accepted packet\<close>

lemma filter_revokes: "wf_map m \<Longrightarrow> token_map (filter (\<lambda>e. ae_Identity e AND Msk = 0) m) t = Some i \<Longrightarrow> i AND Msk = 0"
  by (auto simp: token_map_def dest!: map_of_SomeD)

text \<open>The slot of the identity holds the new certificate; unenrolling the owner leaves only the zero-touch certificate.\<close>

definition new_certs :: "packet \<Rightarrow> u8 \<Rightarrow> cert_details list \<Rightarrow> cert_details list" where
  "new_certs D i cs = (if pk_PayloadSize D = 0 \<and> i = DFCI_IDENTITY_SIGNER_OWNER
     then [no_cert, no_cert, no_cert, no_cert, cs ! 4, no_cert, no_cert]
     else cs[the (DfciIdentityToCertIndex i) := new_slot (the (payload_bytes D)) (pk_PayloadSize D)])"

lemma ApplyProvisionData_effect:
  assumes p: "providers_apart (ie_Providers I)" and inv: "identity_inv (fst z)" and dp: "decoded_payload D"
    and r: "ApplyProvisionData I (Some D) Store z = Some (st, Data', Store', z')" and ok: "\<not> EFI_ERROR st"
  shows "cs_Certs (au_Certs (fst z')) = new_certs D (pk_DfciIdentity D) (cs_Certs (au_Certs (fst z)))"
proof (cases "pk_PayloadSize D = 0 \<and> pk_DfciIdentity D = DFCI_IDENTITY_SIGNER_OWNER")
  case True
  then obtain st1 Store1 where c: "ClearDFCI I True (pk_AuthToken D) Store z = Some (st1, Store1, z')" "st = st1"
    using r ok by (auto simp: ApplyProvisionData_def split: Option.bind_splits if_splits)
  show ?thesis using ClearDFCI_spec [OF p inv c(1)] c(2) ok True by (simp add: new_certs_def)
next
  case False
  then obtain j P where n: "DfciIdentityToCertIndex (pk_DfciIdentity D) = Some j" "payload_bytes D = Some P"
     "fst z' = (fst z)\<lparr>au_Certs := replace_cert j (pk_DfciIdentity D) P (pk_PayloadSize D) (au_Certs (fst z))\<rparr>"
    using r ok by (auto simp: ApplyProvisionData_def Let_def split: option.splits Option.bind_splits if_splits prod.splits)
  have C: "certs_inv (au_Certs (fst z))" using inv by (simp add: identity_inv_def)
  have "if pk_PayloadSize D = 0 then P = None else \<exists>b. P = Some b"
    using payload_bytes_decoded [OF dp n(2)] by (auto split: if_splits)
  from replace_cert_slots(1) [OF C n(1) this] n False show ?thesis by (auto simp: new_certs_def)
qed

lemma make_change_effect:
  assumes p: "providers_apart (ie_Providers I)" and inv: "identity_inv (fst z)" and dp: "decoded_payload D"
    and ow: "pk_DfciIdentity D = DFCI_IDENTITY_SIGNER_OWNER \<or> Provisioned (au_Certs (fst z)) AND DFCI_IDENTITY_SIGNER_OWNER \<noteq> 0"
    and r: "make_change I D Store z = Some (st, D', Store', z')" and ok: "\<not> EFI_ERROR st"
  shows "cs_Certs (au_Certs (fst z')) = new_certs D (pk_DfciIdentity D) (cs_Certs (au_Certs (fst z)))
    \<and> pk_DfciIdentity D' = pk_DfciIdentity D
    \<and> (\<forall>t i. token_map (au_Map (fst z')) t = Some i \<longrightarrow> i AND pk_DfciIdentity D = 0)"
proof -
  obtain st1 D1 Store1 z1 where a: "ApplyProvisionData I (Some D) Store z = Some (st1, Some D1, Store1, z1)" "\<not> EFI_ERROR st1"
    using r ok by (auto simp: make_change_def Let_def split: Option.bind_splits if_splits)
  note i1 = ApplyProvisionData_inv [OF p inv dp ow a(1)]
  obtain st2 Store2 z2 where c: "SystemSettingPermissionIdentityChange (ie_Platform I) (Some (ie_Auth I)) True
      (Some (pk_AuthToken D1)) (pk_DfciIdentity D1) (change_type D (au_Certs (fst z))) Store1 z1 = Some (st2, Store2, z2)" "\<not> EFI_ERROR st2"
    using r a ok by (auto simp: make_change_def Let_def split: Option.bind_splits if_splits)
  have z2: "fst z2 = fst z1" by (rule IdentityChange_apart [OF c(1) [unfolded ie_Platform_def]])
  obtain st3 m where d: "DisposeAllIdentityMappings (pk_DfciIdentity D1) (au_Map (fst z2)) = (st3, m)" by (metis prod.exhaust)
  have w: "wf_map (au_Map (fst z2))" using i1 z2 by (simp add: identity_inv_def)
  have z': "D' = D1" "fst z' = (fst z1)\<lparr>au_Map := m\<rparr>" using r a c d z2 by (auto simp: make_change_def Let_def)
  have i: "pk_DfciIdentity D1 = pk_DfciIdentity D" using i1 by auto
  have m: "m = filter (\<lambda>e. ae_Identity e AND pk_DfciIdentity D = 0) (au_Map (fst z2))"
    using DisposeAll_spec [OF w d] unfolding i by blast
  have "j AND pk_DfciIdentity D = 0" if "token_map m t = Some j" for t j
    by (rule filter_revokes [OF w that [unfolded m]])
  then show ?thesis
    using ApplyProvisionData_effect [OF p inv dp a] i by (simp add: z')
qed

text \<open>
  Property C20: the effect of an identity packet that was processed without an error and not
  delayed.  The slot of its identity holds exactly the new certificate, or is empty after a removal,
  and all other slots are unchanged; removing the owner's certificate removes all certificates but
  the zero-touch one.  No token of the identity stays valid.
\<close>

theorem ApplyNewIdentityPacket_effect:
  assumes inv: "identity_inv a" and S: "wf_store S" and p: "providers_apart (ie_Providers I)" and dp: "decoded_payload D"
    and r: "ApplyNewIdentityPacket I True (Some D) (Some S) (a, s) = Some (st, Some D', Store', (a', s'))"
    and ok: "\<not> EFI_ERROR st" "pk_State D' \<noteq> STATE_DATA_DELAYED_PROCESSING"
  shows "cs_Certs (au_Certs a') = new_certs D (pk_DfciIdentity D') (cs_Certs (au_Certs a))
    \<and> (\<forall>t i. token_map (au_Map a') t = Some i \<longrightarrow> i AND pk_DfciIdentity D' = 0)"
proof -
  obtain D1 z1 where b: "identity_packet_body I D (Some S) (a, s) = Some (st, D1, Store', z1)" "Some D' = Some (D1\<lparr>pk_AuthToken := 0\<rparr>)"
    and f: "a' = (fst z1)\<lparr>au_Map := (if pk_AuthToken D1 \<noteq> 0 then drop_token (pk_AuthToken D1) (au_Map (fst z1)) else au_Map (fst z1))\<rparr>"
    using packet_final_state [OF r] by (metis fst_conv)
  have w: "wf_map (au_Map (fst (a, s)))" using inv by (simp add: identity_inv_def)
  have D': "D' = D1\<lparr>pk_AuthToken := 0\<rparr>" using b(2) by simp
  obtain n D2 z2 where c: "wf_map (au_Map (fst z2))" "au_Certs (fst z2) = au_Certs (fst (a, s))" "same_request D D2"
      "acceptable I S (au_Certs (fst (a, s))) D (pk_DfciIdentity D2) n" "make_change I D2 (Some S) z2 = Some (st, D1, Store', z1)"
    using identity_packet_body_reached [OF w S b(1)] ok D' by auto
  have i2: "identity_inv (fst z2)" using inv c(1,2) by (simp add: identity_inv_def)
  have d2: "decoded_payload D2" using dp c(3) by (simp add: decoded_payload_def same_request_def)
  have ow: "pk_DfciIdentity D2 = DFCI_IDENTITY_SIGNER_OWNER \<or> Provisioned (au_Certs (fst z2)) AND DFCI_IDENTITY_SIGNER_OWNER \<noteq> 0"
    using c(2,4) by (simp add: acceptable_def)
  note e = make_change_effect [OF p i2 d2 ow c(5) ok(1)]
  have nc: "new_certs D2 i = new_certs D i" for i
    using c(3) same_request_payload [OF c(3)] by (simp add: new_certs_def same_request_def fun_eq_iff)
  have "identity_inv (fst z1)" by (rule make_change_inv [OF p i2 d2 ow c(5)])
  then have w1: "wf_map (au_Map (fst z1))" by (simp add: identity_inv_def)
  have "token_map (au_Map (fst z1)) t = Some i" if "token_map (au_Map a') t = Some i" for t i
    using that by (simp add: f tok.lookup_drop [OF w1] split: if_splits)
  then have "i AND pk_DfciIdentity D2 = 0" if "token_map (au_Map a') t = Some i" for t i
    using e that by blast
  then show ?thesis using e c(2) by (simp add: D' f nc)
qed

section \<open>Zero-touch unenrolment\<close>


section \<open>Commit and rollback\<close>

lemma certs_inv_ready:
  assumes "certs_inv C" "nv_laws U" "owner_rule (cs_PopulatedIdentities C0)" "length (cs_Certs C0) = 7"
  shows "cert_ready U C0 C"
proof -
  have "owner_rule (DFCI_IDENTITY_LOCAL OR x) \<longleftrightarrow> owner_rule x" for x :: u8
    by (simp add: owner_rule_def bit.conj_disj_distrib2)
  then show ?thesis using assms unfolding certs_inv_def cert_ready_def by metis
qed

lemma boot_store: "owner_rule (cs_PopulatedIdentities mInternalCertStore)" "length (cs_Certs mInternalCertStore) = 7"
  by (simp_all add: mInternalCertStore_def owner_rule_def)

lemma cert_stored_other:
  assumes "GetVariable U CERT_VAR_NAME gDfciInternalVariableGuid s' = GetVariable U CERT_VAR_NAME gDfciInternalVariableGuid s"
  shows "cert_stored U C0 s C \<Longrightarrow> cert_stored U C0 s' C"
  using assms by (simp add: cert_stored_def)

lemma cert_var_other: "(CERT_VAR_NAME, gDfciInternalVariableGuid) \<noteq> (n, gDfciAuthProvisionVarNamespace)"
  by (simp add: gDfciInternalVariableGuid_def gDfciAuthProvisionVarNamespace_def)

lemma DeleteProvisionVariable_keeps:
  assumes "variable_laws U"
  shows "GetVariable U CERT_VAR_NAME gDfciInternalVariableGuid (DeleteProvisionVariable U Data s)
    = GetVariable U CERT_VAR_NAME gDfciInternalVariableGuid s"
  using variable_lawsD(2) [OF assms prod.collapse [symmetric] cert_var_other]
  by (auto simp: DeleteProvisionVariable_def split: option.splits)

lemma rolled_back:
  assumes "alloc_keeps_vars U" "cert_stored U C s C0" "LoadProvisionedData U C s = Some (u, C', s')"
  shows "same_certs C0 C' \<and> cs_PopulatedIdentities C' = cs_PopulatedIdentities C OR cert_ids 0 (cs_Certs C0) \<and> cert_stored U C s' C0"
  using LoadProvisionedData_stored [OF assms(2)] assms cert_stored_vars [OF LoadProvisionedData_vars [OF assms(1,3)]] by auto

lemma Identity_LKG_outcome:
  assumes inv: "certs_inv (au_Certs a)" and x: "xml_keeps_vars (ie_U I)" and st: "cert_stored (ie_U I) (au_Certs a) s C0"
    and d: "pk_LKGDirty D" and oper: "Operation \<in> {DFCI_LKG_COMMIT, DFCI_LKG_RESTORE}"
    and r: "Identity_LKG_Handler I True (Some D) Operation (a, s) = Some (lst, Data', (a', s'))"
  shows "if Operation = DFCI_LKG_COMMIT \<and> \<not> EFI_ERROR lst then a' = a \<and> cert_stored (ie_U I) (au_Certs a) s' (au_Certs a)
    else same_certs C0 (au_Certs a') \<and> cs_PopulatedIdentities (au_Certs a') = cs_PopulatedIdentities (au_Certs a) OR cert_ids 0 (cs_Certs C0)
      \<and> cert_stored (ie_U I) (au_Certs a) s' C0"
proof -
  let ?U = "ie_U I"
  have laws: "nv_laws ?U" using st by (simp add: cert_stored_def cert_ready_def)
  note law = nv_lawsD [OF laws]
  define s1 where "s1 = DeleteProvisionVariable ?U (Some D) s"
  have st1: "cert_stored ?U (au_Certs a) s1 C0"
    unfolding s1_def by (rule cert_stored_other [OF DeleteProvisionVariable_keeps [OF law(3)] st])
  have ready: "cert_ready ?U (au_Certs a) (au_Certs a)"
    using certs_inv_ready [OF inv laws, of "au_Certs a"] inv by (auto simp: certs_inv_def wf_certs_def)
  show ?thesis
  proof (cases "Operation = DFCI_LKG_RESTORE")
    case True
    then obtain u C where l: "LoadProvisionedData ?U (au_Certs a) s1 = Some (u, C, s')" "au_Certs a' = C"
      using r d by (auto simp: Identity_LKG_Handler_def Let_def s1_def split: Option.bind_splits)
    from rolled_back [OF law(2) st1 l(1)] l(2) True show ?thesis by simp
  next
    case False
    then obtain u s2 where sv: "SaveProvisionedData ?U (au_Certs a) s1 = Some (u, s2)"
      using r d oper by (auto simp: Identity_LKG_Handler_def Let_def s1_def split: Option.bind_splits)
    then have sv': "save_certs ?U (au_Certs a) s1 = Some (u, au_Certs a, s2)" by (simp add: save_certs_def)
    show ?thesis
    proof (cases "EFI_ERROR u")
      case True
      then obtain v C where l: "LoadProvisionedData ?U (au_Certs a) s2 = Some (v, C, s')" "au_Certs a' = C" "lst = u"
        using r d oper False sv by (auto simp: Identity_LKG_Handler_def Let_def s1_def split: Option.bind_splits)
      from rolled_back [OF law(2) cert_nv.save_error [OF ready sv' True st1] l(1)] l True show ?thesis by simp
    next
      case F: False
      then obtain v where l: "PopulateCurrentIdentities ?U (ie_X I) (au_Certs a) True s2 = Some (v, s')" "a' = a" "lst = u"
        using r d oper False sv by (auto simp: Identity_LKG_Handler_def Let_def s1_def split: Option.bind_splits)
      have "cert_stored ?U (au_Certs a) s' (au_Certs a)"
        by (rule cert_stored_other [OF PopulateCurrentIdentities_other_vars [OF law(2) x law(3) l(1) cert_var_other]
            cert_nv.save_stores [OF ready sv' F]])
      with l F oper False show ?thesis by simp
    qed
  qed
qed

lemma stored_boots:
  assumes "cert_stored U C s C1"
  shows "\<exists>C' s'. LoadProvisionedData U mInternalCertStore s = Some (EFI_SUCCESS, C', s') \<and> same_certs C1 C'"
proof -
  have "cert_stored U mInternalCertStore s C1" using assms boot_store by (simp add: cert_stored_def cert_ready_def)
  from LoadProvisionedData_stored [OF this] show ?thesis by blast
qed

text \<open>
  Property C21: the last-known-good protocol of the identity manager.  A commit that succeeds makes
  the certificates in memory the stored ones; a restore, or a commit that fails, brings the stored
  certificates back into memory.  In every case the next boot finds the certificates that are in
  memory.  A restore does not clear the identities of the certificates it takes back from the mask.
\<close>

theorem Identity_LKG_commit_or_rollback:
  assumes inv: "certs_inv (au_Certs a)" and x: "xml_keeps_vars (ie_U I)" and st: "cert_stored (ie_U I) (au_Certs a) s C0"
    and d: "pk_LKGDirty D" and oper: "Operation \<in> {DFCI_LKG_COMMIT, DFCI_LKG_RESTORE}"
    and r: "Identity_LKG_Handler I True (Some D) Operation (a, s) = Some (lst, Data', (a', s'))"
  shows "(if Operation = DFCI_LKG_COMMIT \<and> \<not> EFI_ERROR lst then a' = a
      else same_certs C0 (au_Certs a') \<and> cs_PopulatedIdentities (au_Certs a') = cs_PopulatedIdentities (au_Certs a) OR cert_ids 0 (cs_Certs C0))
    \<and> (\<exists>C s''. LoadProvisionedData (ie_U I) mInternalCertStore s' = Some (EFI_SUCCESS, C, s'') \<and> same_certs (au_Certs a') C)"
proof (cases "Operation = DFCI_LKG_COMMIT \<and> \<not> EFI_ERROR lst")
  case True
  then have "a' = a" "cert_stored (ie_U I) (au_Certs a) s' (au_Certs a)" using Identity_LKG_outcome [OF assms] by simp_all
  with stored_boots [OF this(2)] True show ?thesis by simp
next
  case False
  then have o: "same_certs C0 (au_Certs a')" "cs_PopulatedIdentities (au_Certs a') = cs_PopulatedIdentities (au_Certs a) OR cert_ids 0 (cs_Certs C0)"
    "cert_stored (ie_U I) (au_Certs a) s' C0" using Identity_LKG_outcome [OF assms] by (simp_all only: if_False)
  obtain C s'' where "LoadProvisionedData (ie_U I) mInternalCertStore s' = Some (EFI_SUCCESS, C, s'')" "same_certs C0 C"
    using stored_boots [OF o(3)] by blast
  moreover have "same_certs (au_Certs a') C" using calculation(2) o(1) by (simp add: same_certs_def)
  ultimately show ?thesis using o False by auto
qed

section \<open>Concrete instances\<close>

text \<open>A packet, signed by the owner, that enrols the certificate \<open>[9]\<close> of the identity user1.\<close>

definition user1_packet :: packet where
  "user1_packet = settings_packet\<lparr>pk_Packet := [0, 0, 0, 0, 2, 3] @ replicate 16 0 @ [9]
       @ le32 25 @ le16 0x200 @ le16 0x0EF1 @ replicate 16 0 @ [9] @ owner_signature,
     pk_PacketSize := 73, pk_MailboxName := ''DfciIdentityApply'', pk_ResultName := ''DfciIdentityResult'',
     pk_NameSpace := gDfciAuthProvisionVarNamespace, pk_ExpectedSignature := 0x4150534D,
     pk_Signature := Some 23, pk_SignedDataLength := 23, pk_VarIdentity := Some 5, pk_Version := Some 24, pk_LSV := Some 28,
     pk_PayloadSize := 1, pk_Payload := Some 22\<rparr>"

definition demo_identity :: "demo_state identity_env" where
  "demo_identity = \<lparr>ie_U = demo_platform, ie_E = demo_env, ie_X = \<lparr>Sha1GetContextSize = 0, Sha1 = (\<lambda>b. Some (take 20 b))\<rparr>,
     ie_Ui = demo_ui, ie_Groups = [], ie_Providers = [], ie_SettingsAccess = EFI_SUCCESS, ie_CertSection = (\<lambda>s. (EFI_SUCCESS, [5])),
     ie_ManufacturingMode = (\<lambda>s. False), ie_PcdDfciEnabled = True\<rparr>"

text \<open>Permissions that let the owner change keys.\<close>

definition key_store :: perm_store where
  "key_store = example_store\<lparr>ps_DefaultPMask := 0x80\<rparr>"

lemma key_store_wf: "wf_store key_store"
  using example_store_wf(1) by (simp add: key_store_def wf_store_def)

lemma example_identity_inv: "identity_inv example_auth_state"
  using example_auth_wf example_cert_ready
  by (simp add: identity_inv_def certs_inv_def cert_ready_def example_auth_state_def)
    (simp add: example_certs_def no_cert_def CertIndexToDfciIdentity_def owner_rule_def)

lemma user1_packet_applies:
  obtains D' Store' a' s' where "ApplyNewIdentityPacket demo_identity True (Some user1_packet) (Some key_store)
      (example_auth_state, example_state) = Some (EFI_SUCCESS, Some D', Store', (a', s'))"
    "cs_Certs (au_Certs a') ! 1 = \<lparr>cd_Cert = Some [9], cd_CertSize = 1\<rparr>" "pk_State D' = STATE_DATA_COMPLETE" "pk_DfciIdentity D' = 0x20"
proof -
  have "map_option (\<lambda>(st, D, Store, z). (st, map_option (\<lambda>D. (pk_State D, pk_DfciIdentity D)) D, cs_Certs (au_Certs (fst z)) ! 1))
      (ApplyNewIdentityPacket demo_identity True (Some user1_packet) (Some key_store) (example_auth_state, example_state))
    = Some (EFI_SUCCESS, Some (STATE_DATA_COMPLETE, 0x20), \<lparr>cd_Cert = Some [9], cd_CertSize = 1\<rparr>)"
    by code_simp
  with that show thesis by (auto split: prod.splits)
qed

theorem ApplyNewIdentityPacket_authorised_witness:
  "\<exists>i n. acceptable demo_identity key_store example_certs user1_packet i n \<and> authorised_by demo_identity key_store example_certs user1_packet i n"
proof (rule user1_packet_applies)
  fix D' Store' a' s'
  assume r: "ApplyNewIdentityPacket demo_identity True (Some user1_packet) (Some key_store)
      (example_auth_state, example_state) = Some (EFI_SUCCESS, Some D', Store', (a', s'))"
    and c: "cs_Certs (au_Certs a') ! 1 = \<lparr>cd_Cert = Some [9], cd_CertSize = 1\<rparr>"
  have "au_Certs a' \<noteq> au_Certs example_auth_state"
    using c by (auto simp: example_auth_state_def example_certs_def no_cert_def)
  with ApplyNewIdentityPacket_authorised [OF example_auth_wf key_store_wf r] show ?thesis
    by (simp add: example_auth_state_def)
qed

lemma user1_decoded: "decoded_payload user1_packet" "providers_apart (ie_Providers demo_identity)"
  by (simp_all add: decoded_payload_def user1_packet_def providers_apart_def demo_identity_def)

theorem ApplyNewIdentityPacket_invariant_witness:
  "\<exists>D' Store' a' s'. ApplyNewIdentityPacket demo_identity True (Some user1_packet) (Some key_store)
      (example_auth_state, example_state) = Some (EFI_SUCCESS, Some D', Store', (a', s')) \<and> identity_inv a'"
proof (rule user1_packet_applies)
  fix D' Store' a' s'
  assume r: "ApplyNewIdentityPacket demo_identity True (Some user1_packet) (Some key_store)
      (example_auth_state, example_state) = Some (EFI_SUCCESS, Some D', Store', (a', s'))"
  from ApplyNewIdentityPacket_invariant [OF example_identity_inv key_store_wf user1_decoded(2,1) r] r show ?thesis by blast
qed

theorem ApplyNewIdentityPacket_effect_witness:
  "\<exists>D' Store' a' s'. ApplyNewIdentityPacket demo_identity True (Some user1_packet) (Some key_store)
      (example_auth_state, example_state) = Some (EFI_SUCCESS, Some D', Store', (a', s'))
    \<and> cs_Certs (au_Certs a') = new_certs user1_packet 0x20 (cs_Certs example_certs)"
proof (rule user1_packet_applies)
  fix D' Store' a' s'
  assume r: "ApplyNewIdentityPacket demo_identity True (Some user1_packet) (Some key_store)
      (example_auth_state, example_state) = Some (EFI_SUCCESS, Some D', Store', (a', s'))"
    and c: "pk_State D' = STATE_DATA_COMPLETE" "pk_DfciIdentity D' = 0x20"
  from ApplyNewIdentityPacket_effect [OF example_identity_inv key_store_wf user1_decoded(2,1) r] r c show ?thesis
    by (simp add: example_auth_state_def)
qed

text \<open>A removal of the owner's certificate, signed by the zero-touch identity.\<close>

definition ztd_certs :: cert_store where
  "ztd_certs = \<lparr>cs_Version = 1, cs_Lsv = 1, cs_PopulatedIdentities = 0x89, cs_Certs =
     [no_cert, no_cert, no_cert, \<lparr>cd_Cert = Some [3], cd_CertSize = 1\<rparr>, \<lparr>cd_Cert = Some [5], cd_CertSize = 1\<rparr>, no_cert, no_cert]\<rparr>"

definition ztd_state :: auth_state where
  "ztd_state = example_auth_state\<lparr>au_Certs := ztd_certs\<rparr>"

definition removal_packet :: packet where
  "removal_packet = user1_packet\<lparr>pk_Packet := [0, 0, 0, 0, 2, 1] @ replicate 16 0
       @ le32 25 @ le16 0x200 @ le16 0x0EF1 @ replicate 16 0 @ [5],
     pk_PacketSize := 47, pk_Signature := Some 22, pk_SignedDataLength := 22, pk_PayloadSize := 0, pk_Payload := None\<rparr>"

definition ztd_store :: perm_store where
  "ztd_store = example_store\<lparr>ps_DefaultPMask := 0x08, ps_List := [\<lparr>pe_Id = ID_OWNER_KEY, pe_PMask = 0x09, pe_DMask = 0,
     pe_IdSize = 19, pe_MarkedForDeletion = False\<rparr>]\<rparr>"

lemma ztd_store_wf: "wf_store ztd_store"
  by code_simp

lemma ztd_removal_evaluates:
  "map_option (\<lambda>(st, D, z). (st, pk_DfciIdentity D))
     (ValidateAndAuthenticatePendingProvisionData demo_identity (Some ztd_store) removal_packet (ztd_state, example_state))
   = Some (EFI_SUCCESS, DFCI_IDENTITY_SIGNER_OWNER)"
  "find (verifies demo_env ztd_certs (take 22 (pk_Packet removal_packet)) (drop 22 (pk_Packet removal_packet))) key_order
   = Some DFCI_IDENTITY_SIGNER_ZTD"
  "key_mask ztd_store ID_ZTD_UNENROLL = DFCI_IDENTITY_SIGNER_ZTD"
  subgoal by code_simp
  subgoal
  proof -
    have "check_key demo_env ztd_certs (Provisioned ztd_certs) (Some (take 22 (pk_Packet removal_packet)))
        (Some (drop 22 (pk_Packet removal_packet))) DFCI_IDENTITY_SIGNER_ZTD 0 = Some DFCI_IDENTITY_SIGNER_ZTD"
      "take 22 (pk_Packet removal_packet) \<noteq> []"
      by code_simp+
    from check_key_verifies [OF this] show ?thesis by (simp add: key_order_def split: if_splits)
  qed
  subgoal by code_simp
  done


lemma example_certs_stored:
  obtains s where "cert_stored demo_platform example_certs s example_certs"
proof -
  obtain s where sv: "SaveProvisionedData demo_platform example_certs example_state = Some (EFI_SUCCESS, s)"
    by (simp add: SaveProvisionedData_def demo_simps example_certs_def cert_bytes_def no_cert_def)
  have "nv_laws demo_platform" using demo_laws by (simp add: nv_laws_def)
  moreover have "certs_inv example_certs" using example_identity_inv by (simp add: identity_inv_def example_auth_state_def)
  ultimately have "cert_ready demo_platform example_certs example_certs"
    by (intro certs_inv_ready) (auto simp: certs_inv_def wf_certs_def)
  from cert_nv.save_stores [OF this, of example_state EFI_SUCCESS] sv that show thesis by (simp add: save_certs_def)
qed

theorem Identity_LKG_commit_or_rollback_witness:
  "\<exists>s Data' a' s'. Identity_LKG_Handler demo_identity True (Some (user1_packet\<lparr>pk_LKGDirty := True\<rparr>)) DFCI_LKG_RESTORE
      (example_auth_state, s) = Some (EFI_SUCCESS, Data', (a', s')) \<and> same_certs example_certs (au_Certs a')"
proof (rule example_certs_stored)
  fix s assume st: "cert_stored demo_platform example_certs s example_certs"
  let ?D = "user1_packet\<lparr>pk_LKGDirty := True\<rparr>"
  have U: "ie_U demo_identity = demo_platform" "au_Certs example_auth_state = example_certs"
    by (simp_all add: demo_identity_def example_auth_state_def)
  have st1: "cert_stored demo_platform example_certs (DeleteProvisionVariable demo_platform (Some ?D) s) example_certs"
    by (rule cert_stored_other [OF DeleteProvisionVariable_keeps [OF demo_laws(3)] st])
  obtain Data' a' s' where r: "Identity_LKG_Handler demo_identity True (Some ?D) DFCI_LKG_RESTORE (example_auth_state, s)
      = Some (EFI_SUCCESS, Data', (a', s'))"
    using LoadProvisionedData_stored [OF st1] by (auto simp: Identity_LKG_Handler_def U)
  have "certs_inv (au_Certs example_auth_state)" using example_identity_inv by (simp add: identity_inv_def)
  from Identity_LKG_commit_or_rollback [OF this _ _ _ _ r, unfolded U, OF demo_laws(4) st] r show ?thesis by auto
qed

end
