(* ===== verification/Stored_Frame.thy ===== *)
theory Stored_Frame
  imports Identity_Provision
begin

text \<open>
  What survives a reset: the variable with the certificates and the variable with the permissions.
  The theory collects the operations of the three managers that leave both alone, which is all of
  them but the commits and the removal of the owner.  A permission variable of an older version is
  converted when it is loaded, so the statement is about variables of the current version.
\<close>

section \<open>The relation\<close>

definition perm_current :: "'s platform \<Rightarrow> 's \<Rightarrow> bool" where
  "perm_current U s \<longleftrightarrow> (case GetVariable U VAR_NAME gDfciInternalVariableGuid s of (st, Var, att) \<Rightarrow> EFI_ERROR st \<or> rd8 Var 4 = Some 4)"

definition stored_same :: "'s platform \<Rightarrow> 's \<Rightarrow> 's \<Rightarrow> bool" where
  "stored_same U s s' \<longleftrightarrow> (perm_current U s \<longrightarrow>
     GetVariable U VAR_NAME gDfciInternalVariableGuid s' = GetVariable U VAR_NAME gDfciInternalVariableGuid s
     \<and> GetVariable U CERT_VAR_NAME gDfciInternalVariableGuid s' = GetVariable U CERT_VAR_NAME gDfciInternalVariableGuid s)"

lemma stored_same_refl [simp]: "stored_same U s s"
  by (simp add: stored_same_def)

lemma stored_same_trans: "stored_same U a b \<Longrightarrow> stored_same U b c \<Longrightarrow> stored_same U a c"
  by (auto simp: stored_same_def perm_current_def)

lemma stored_same_vars: "same_vars U s s' \<Longrightarrow> stored_same U s s'"
  by (simp add: stored_same_def same_vars_def)

lemma stored_same_lift: "stored_same (lift_platform U) (a, s) (a', s') \<longleftrightarrow> stored_same U s s'"
  by (simp add: stored_same_def perm_current_def lift_services)

text \<open>Variables outside the two may be written.\<close>

definition other_variable :: "string \<Rightarrow> string \<Rightarrow> bool" where
  "other_variable n g \<longleftrightarrow> (n, g) \<noteq> (VAR_NAME, gDfciInternalVariableGuid) \<and> (n, g) \<noteq> (CERT_VAR_NAME, gDfciInternalVariableGuid)"

lemma other_variables [simp]:
  "other_variable n gDfciPermissionManagerVarNamespace" "other_variable n gDfciAuthProvisionVarNamespace"
  "other_variable n gDfciSettingsManagerVarNamespace" "other_variable SMID_VAR_NAME gDfciInternalVariableGuid"
  by (simp_all add: other_variable_def gDfciInternalVariableGuid_def gDfciPermissionManagerVarNamespace_def
      gDfciAuthProvisionVarNamespace_def gDfciSettingsManagerVarNamespace_def VAR_NAME_def CERT_VAR_NAME_def SMID_VAR_NAME_def)

lemma set_variable_stored:
  assumes "variable_laws U" "other_variable n g"
  shows "SetVariable U n g a d s = (st, s') \<Longrightarrow> stored_same U s s'" "stored_same U s (snd (SetVariable U n g a d s))"
proof -
  show *: "SetVariable U n g a d s = (st, s') \<Longrightarrow> stored_same U s s'" for st s'
    using assms variable_lawsD(2) [OF assms(1)] unfolding stored_same_def other_variable_def by metis
  show "stored_same U s (snd (SetVariable U n g a d s))" by (rule * [OF prod.collapse [symmetric]])
qed

section \<open>The permission manager\<close>

lemma LoadFromFlash_stored:
  assumes a: "alloc_keeps_vars U" and l: "LoadFromFlash U s = Some (st, Store, s')"
  shows "stored_same U s s'"
proof (cases "perm_current U s")
  case True
  obtain gs Var att where g: "GetVariable U VAR_NAME gDfciInternalVariableGuid s = (gs, Var, att)" by (metis prod_cases3)
  show ?thesis
  proof (cases "EFI_ERROR gs")
    case True
    then show ?thesis using l g by (simp add: LoadFromFlash_def)
  next
    case False
    with True g have "rd8 Var 4 = Some 4" by (simp add: perm_current_def)
    from stored_same_vars [OF LoadFromFlash_vars_v4 [OF a g this l]] show ?thesis .
  qed
qed (simp add: stored_same_def)

lemma ApplyPermissionsInXml_stored:
  assumes x: "xml_keeps_vars U" and k: "alloc_keeps_vars U" and a: "ApplyPermissionsInXml U A D Store s = Some (st, D', Store', s')"
  shows "stored_same U s s'"
proof -
  note v = apply_documents_vars [OF x k] apply_store_vars [OF x k] apply_result_vars [OF x]
  have ex: "stored_same U s1 s2" if "apply_exit U u D1 S1 s1 = Some (u', D2, S2, s2)" for u D1 S1 s1 u' D2 S2 s2
    using that LoadFromFlash_stored [OF k] by (auto simp: apply_exit_def split: Option.bind_splits if_splits)
  have "s' = s \<or> (\<exists>u D1 S1 s1. same_vars U s s1 \<and> apply_exit U u D1 S1 s1 = Some (st, D', Store', s'))"
    using a v by (auto simp: ApplyPermissionsInXml_def split: Option.bind_splits if_splits prod.splits sum.splits)
      (meson same_vars_trans)+
  then show ?thesis using ex stored_same_vars stored_same_trans by (metis stored_same_refl)
qed

lemma ApplyNewPermissionsPacket_stored:
  assumes x: "xml_keeps_vars U" and k: "alloc_keeps_vars U" and A: "auth_keeps_vars U A"
    and a: "ApplyNewPermissionsPacket U (Some A) True (Some D) Store s = Some (st, D', Store', s')"
  shows "stored_same U s s'"
proof -
  have di: "stored_same U x1 y1" if "ap_DisposeAuthToken A t x1 = (u, t', y1)" for t x1 u t' y1
    using A that by (intro stored_same_vars) (simp add: auth_keeps_vars_def)
  have va: "stored_same U x1 y1" if "ValidateAndAuthenticatePermissions A D0 x1 = Some (u, D1, y1)" for D0 x1 u D1 y1
    using ValidateAndAuthenticate_vars [OF A that] by (simp add: stored_same_vars)
  have bd: "stored_same U s y1" if "permissions_packet_body U A D Store s = Some (u, D1, S1, y1)" for u D1 S1 y1
    using that va ApplyPermissionsInXml_stored [OF x k]
    by (auto simp: permissions_packet_body_def Let_def split: Option.bind_splits if_splits) (meson stored_same_trans)+
  show ?thesis
    using a bd di
    by (auto simp: ApplyNewPermissionsPacket_def split: Option.bind_splits if_splits prod.splits) (meson stored_same_trans)+
qed

lemma LKG_restore_stored:
  assumes v: "variable_laws U" and k: "alloc_keeps_vars U"
    and l: "LKG_Handler U True (Some D) DFCI_LKG_RESTORE Store s = Some (st, D', Store', s')"
  shows "stored_same U s s'"
proof -
  have 1: "stored_same U s (FreeNvVarsForIncomingPermissions U (Some D) s)"
    by (simp add: FreeNvVarsForIncomingPermissions_def set_variable_stored(2) [OF v])
  show ?thesis
    using l 1 LoadFromFlash_stored [OF k]
    by (auto simp: LKG_Handler_def Let_def split: Option.bind_splits if_splits) (meson stored_same_trans)+
qed

lemma SetPermissionsResponse_stored:
  assumes "variable_laws U" "alloc_keeps_vars U" "SetPermissionsResponse U rsvd Data s = Some (st, s')"
  shows "stored_same U s s'"
  using assms(3) set_variable_stored(1) [OF assms(1) other_variables(1)] stored_same_vars [OF alloc_keeps_varsD(1) [OF assms(2)]]
  by (auto simp: SetPermissionsResponse_def Let_def split: Option.bind_splits if_splits prod.splits option.splits)
    (meson stored_same_trans)+

section \<open>The identity manager\<close>

text \<open>The dialogs write no variable.\<close>

definition ui_keeps_vars :: "'s platform \<Rightarrow> 's ui_lib \<Rightarrow> bool" where
  "ui_keeps_vars U ui \<longleftrightarrow> (\<forall>c e p s. same_vars U s (snd (snd (snd (DfciUiDisplayAuthDialog ui c e p s)))))
     \<and> (\<forall>e s. same_vars U s (snd (snd (snd (DfciUiDisplayPasswordDialog ui e s)))))
     \<and> (\<forall>s. same_vars U s (snd (snd (DfciUiDisplayMessageBox ui s))))"

text \<open>The password library of the platform writes no variable either.\<close>

lemma AuthWithPW_vars:
  assumes "alloc_keeps_vars U" "rng_keeps_vars U E" "AuthWithPW U E p n a s = (st, t, a', s')"
  shows "same_vars U s s'"
  using assms(3) CreateAuthTokenWithMapping_vars [OF assms(1,2)]
  by (auto simp: AuthWithPW_def Let_def split: prod.splits if_splits password.splits)

lemma dialog_loop_vars:
  assumes k: "alloc_keeps_vars U" "rng_keeps_vars U E" and d: "\<And>e s. same_vars U s (snd (snd (snd (display e s))))"
    and b: "\<And>s. same_vars U s (snd (snd (DfciUiDisplayMessageBox ui s)))"
  shows "dialog_loop U E ui display Password err n t a s = Some (ok, t', a', s') \<Longrightarrow> same_vars U s s'"
proof (induction n arbitrary: err t a s)
  case 0
  then show ?case using b by auto
next
  case (Suc n)
  have dd: "same_vars U x y" if "display e x = (u, v, w, y)" for e x u v w y using d [of x e] that by simp
  show ?case
    using Suc.prems Suc.IH dd AuthWithPW_vars [OF k]
    by (auto split: prod.splits if_splits Option.bind_splits) (meson same_vars_trans)+
qed

lemma LocalGetAnswerFromUser_vars:
  assumes k: "alloc_keeps_vars U" "rng_keeps_vars U E" and u: "ui_keeps_vars U ui"
    and r: "LocalGetAnswerFromUser U E ui c n t a s = Some (st, t', a', s')"
  shows "same_vars U s s'"
proof -
  have m: "same_vars U x y" if "DfciUiDisplayMessageBox ui x = (p, q, y)" for x p q y
    using u that unfolding ui_keeps_vars_def by (metis snd_conv)
  have 1: "same_vars U x y" if "GetConfirmationWithDfciAuthDialog U E ui c P t a x = Some (ok, t', a', y)" for P t a x ok t' a' y
    by (rule dialog_loop_vars [OF k _ _ that [unfolded GetConfirmationWithDfciAuthDialog_def]]) (use u in \<open>simp_all add: ui_keeps_vars_def\<close>)
  have 2: "same_vars U x y" if "GetConfirmationWithPasswordDialog U E ui t a x = Some (ok, t', a', y)" for t a x ok t' a' y
    by (rule dialog_loop_vars [OF k _ _ that [unfolded GetConfirmationWithPasswordDialog_def]]) (use u in \<open>simp_all add: ui_keeps_vars_def\<close>)
  show ?thesis
    using r AuthWithPW_vars [OF k] m 1 2
    by (auto simp: LocalGetAnswerFromUser_def UiUnenrollRequest_def UiEnrollRequest_def split: prod.splits if_splits Option.bind_splits)
      (meson same_vars_trans)+
qed

text \<open>The hypotheses on the environment of the identity manager, collected.\<close>

definition identity_services :: "'s identity_env \<Rightarrow> bool" where
  "identity_services I \<longleftrightarrow> alloc_keeps_vars (ie_U I) \<and> xml_keeps_vars (ie_U I) \<and> variable_laws (ie_U I)
     \<and> rng_keeps_vars (ie_U I) (ie_E I) \<and> ui_keeps_vars (ie_U I) (ie_Ui I)"

lemma identity_servicesD:
  assumes "identity_services I"
  shows "alloc_keeps_vars (ie_Platform I)" "xml_keeps_vars (ie_Platform I)" "variable_laws (ie_Platform I)"
    "auth_keeps_vars (ie_Platform I) (ie_Auth I)"
  using assms by (simp_all add: identity_services_def ie_Platform_def ie_Auth_def lift_laws auth_manager_keeps_vars)

lemma authenticate_vars:
  assumes i: "identity_services I" and a: "ValidateAndAuthenticatePendingProvisionData I Store D z = Some (st, D', z')"
  shows "same_vars (ie_Platform I) z z' \<and> pk_PayloadSize D' = pk_PayloadSize D"
proof -
  have au: "same_vars (ie_Platform I) x y" if "ap_AuthWithSignedData (ie_Auth I) d g t x = Some (u, t', y)" for d g t x u t' y
    using identity_servicesD(4) [OF i] that unfolding auth_keeps_vars_def by blast
  have "same_vars (ie_Platform I) z y \<and> pk_PayloadSize D2 = pk_PayloadSize D1" if "authorise I Store n D1 z = Some (u, D2, y)" for n D1 u D2 y
    using that au by (auto simp: authorise_def set_outcome_def Let_def split: Option.bind_splits prod.splits if_splits sum.splits)
  moreover have "pk_PayloadSize D1 = pk_PayloadSize D" if "check_identity C D = Some (e, D1)" for C e D1
    using check_identity_request [OF that] by (simp add: same_request_def)
  ultimately show ?thesis
    using a by (auto simp: ValidateAndAuthenticatePendingProvisionData_def set_outcome_def
        split: Option.bind_splits option.splits sum.splits prod.splits)
qed

lemma user_input_vars:
  assumes i: "identity_services I" and a: "user_input I D z = Some (st, D', z')"
  shows "same_vars (ie_Platform I) z z' \<and> pk_PayloadSize D' = pk_PayloadSize D"
proof -
  have "same_vars (ie_U I) x y" if "LocalGetAnswerFromUser (ie_U I) (ie_E I) (ie_Ui I) c n t au x = Some (u, t', a', y)" for c n t au x u t' a' y
    by (rule LocalGetAnswerFromUser_vars [OF _ _ _ that]) (use i in \<open>simp_all add: identity_services_def\<close>)
  then show ?thesis
    using a by (cases z) (auto simp: user_input_def Let_def ie_Platform_def lift_same_vars set_outcome_def
        split: Option.bind_splits if_splits)
qed

lemma make_change_vars:
  assumes i: "identity_services I" and n: "pk_PayloadSize D \<noteq> 0" and a: "make_change I D Store z = Some (st, D', Store', z')"
  shows "same_vars (ie_Platform I) z z'"
proof -
  have al: "same_vars (ie_U I) x y" if "AllocatePool (ie_U I) k x = (ok, y)" for k x ok y
    using alloc_keeps_varsD(1) [OF _ that] i by (simp add: identity_services_def)
  have ap: "same_vars (ie_Platform I) z y" if "ApplyProvisionData I (Some D) Store z = Some (u, D1, S1, y)" for u D1 S1 y
    using that n al by (cases z) (auto simp: ApplyProvisionData_def ie_Platform_def lift_same_vars Let_def
        split: Option.bind_splits if_splits option.splits prod.splits)
  have ic: "same_vars (ie_Platform I) x y" if "SystemSettingPermissionIdentityChange (ie_Platform I) A b t j ct S1 x = Some (u, S2, y)" for A b t j ct S1 x u S2 y
    using that variables.IdentityChange_R [of "ie_Platform I"] identity_servicesD(1,2) [OF i]
    by (auto simp: SystemSettingPermissionIdentityChange_def split: if_splits)
  have up: "same_vars (ie_Platform I) x (a1, snd x)" for a1 x
    by (cases x) (simp add: ie_Platform_def lift_same_vars)
  show ?thesis
    using a ap ic up by (auto simp: make_change_def Let_def split: Option.bind_splits if_splits prod.splits) (meson same_vars_trans)+
qed

lemma identity_packet_body_vars:
  assumes i: "identity_services I" and n: "pk_PayloadSize D \<noteq> 0" and b: "identity_packet_body I D Store z = Some (st, D', Store', z')"
  shows "same_vars (ie_Platform I) z z'"
proof -
  consider (same) "z' = z"
    | (auth) u D1 where "ValidateAndAuthenticatePendingProvisionData I Store D z = Some (u, D1, z')"
    | (user) u D1 z1 v D2 where "ValidateAndAuthenticatePendingProvisionData I Store D z = Some (u, D1, z1)" "user_input I D1 z1 = Some (v, D2, z')"
    | (change) u D1 z1 v D2 z2 where "ValidateAndAuthenticatePendingProvisionData I Store D z = Some (u, D1, z1)" "user_input I D1 z1 = Some (v, D2, z2)"
        "make_change I D2 Store z2 = Some (st, D', Store', z')"
    using b by (auto simp: identity_packet_body_def split: Option.bind_splits if_splits)
  then show ?thesis
  proof cases
    case auth
    then show ?thesis using authenticate_vars [OF i auth] by simp
  next
    case user
    show ?thesis
      by (rule same_vars_trans [OF conjunct1 [OF authenticate_vars [OF i user(1)]] conjunct1 [OF user_input_vars [OF i user(2)]]])
  next
    case change
    note a = authenticate_vars [OF i change(1)] and u = user_input_vars [OF i change(2)]
    have "same_vars (ie_Platform I) z2 z'" by (rule make_change_vars [OF i _ change(3)]) (use n a u in simp)
    from same_vars_trans [OF same_vars_trans [OF conjunct1 [OF a] conjunct1 [OF u]] this] show ?thesis .
  qed simp
qed

lemma ApplyNewIdentityPacket_vars:
  assumes i: "identity_services I" and n: "pk_PayloadSize D \<noteq> 0"
    and a: "ApplyNewIdentityPacket I True (Some D) Store z = Some (st, D', Store', z')"
  shows "same_vars (ie_Platform I) z z'"
proof -
  have di: "same_vars (ie_Platform I) x (snd (snd (ap_DisposeAuthToken (ie_Auth I) t x)))" for x t
    using identity_servicesD(4) [OF i] unfolding auth_keeps_vars_def by (metis prod.collapse)
  obtain D1 z1 where b: "identity_packet_body I D Store z = Some (st, D1, Store', z1)"
    "z' = z1 \<or> z' = snd (snd (ap_DisposeAuthToken (ie_Auth I) (pk_AuthToken D1) z1))"
    using a by (auto simp: ApplyNewIdentityPacket_def split: Option.bind_splits if_splits)
  note v = identity_packet_body_vars [OF i n b(1)]
  from b(2) v same_vars_trans [OF v di] show ?thesis by auto
qed

lemma Identity_LKG_restore_stored:
  assumes i: "identity_services I" and l: "Identity_LKG_Handler I True (Some D) DFCI_LKG_RESTORE z = Some (st, D', z')"
  shows "stored_same (ie_Platform I) z z'"
proof -
  have v: "variable_laws (ie_U I)" "alloc_keeps_vars (ie_U I)" using i by (simp_all add: identity_services_def)
  let ?s = "DeleteProvisionVariable (ie_U I) (Some D) (snd z)"
  have 1: "stored_same (ie_U I) (snd z) ?s"
    by (simp add: DeleteProvisionVariable_def set_variable_stored(2) [OF v(1)])
  have "snd z' = ?s \<or> (\<exists>u C. LoadProvisionedData (ie_U I) (au_Certs (fst z)) ?s = Some (u, C, snd z'))"
    using l by (auto simp: Identity_LKG_Handler_def Let_def split: Option.bind_splits if_splits)
  then have "stored_same (ie_U I) (snd z) (snd z')"
    using 1 stored_same_trans [OF 1 stored_same_vars [OF LoadProvisionedData_vars [OF v(2)]]] by auto
  then show ?thesis by (cases z, cases z') (simp add: ie_Platform_def stored_same_lift)
qed

lemma SetIdentityResponse_stored:
  assumes "variable_laws U" "SetIdentityResponse U Data s = (st, s')"
  shows "stored_same U s s'"
  using assms(2) set_variable_stored(1) [OF assms(1) other_variables(2)]
  by (auto simp: SetIdentityResponse_def split: option.splits if_splits)

end
