(* ===== verification/Packet_Decode.thy ===== *)
theory Packet_Decode
  imports Permission_Apply
begin

text \<open>
  Decoding of the mailbox packets (\<open>CheckTarget\<close>, \<open>DecodePacket\<close> and \<open>DecodeIdentityPacket\<close> of
  \<open>DfciManager.c\<close>, layout in \<open>DfciPacketHeader.h\<close>).  A packet comes from a variable the operating
  system can write, so every field of it is chosen by the sender.

  Layout of the header (packed, 22 bytes): signature 0, version 4, identity 5, session id 8,
  manufacturer offset 12, product offset 14, serial number offset 16, payload size 18, payload
  offset 20.  The NULL pointer \<open>Data->Packet\<close> is the empty list of bytes.  A \<open>UINTN\<close> has 64 bits, so
  that the sums of offsets and sizes, which are below \<open>2^33\<close>, do not wrap.

  The debug message of \<open>CheckTarget\<close> prints a target string of the packet up to its terminator.  It is
  the one debug message that is part of the model, because the string comes from the sender.

  The theory shows that decoding reads outside the packet only through that message, and only for an
  unsigned settings packet whose target string is not terminated; that every pointer decoding leaves
  in an accepted packet lies inside it, and that an accepted packet is addressed to the device.
\<close>

section \<open>Operations\<close>

text \<open>The device identifiers (\<open>DfciDeviceIdSupportLib\<close>, provided by the platform), with their size.\<close>

record 's device_id =
  DfciIdSupportGetManufacturer :: "'s \<Rightarrow> EFI_STATUS \<times> bytes"
  DfciIdSupportGetProductName :: "'s \<Rightarrow> EFI_STATUS \<times> bytes"
  DfciIdSupportGetSerialNumber :: "'s \<Rightarrow> EFI_STATUS \<times> bytes"

definition wrong_target :: "packet \<Rightarrow> packet" where
  "wrong_target Data = Data\<lparr>pk_StatusCode := EFI_ABORTED, pk_State := STATE_DATA_NOT_CORRECT_TARGET\<rparr>"

text \<open>
  The target string that the debug message \<open>Target failed %a - %a\<close> reads; there is none when the rest
  of the packet has no terminator.  The identifier of the device is a terminated string.
\<close>

definition print_target :: "bytes \<Rightarrow> nat \<Rightarrow> bytes option" where
  "print_target pkt Name = (if 0 \<in> set (drop Name pkt) then Some (takeWhile (\<lambda>b. b \<noteq> 0) (drop Name pkt)) else None)"

definition CheckTarget :: "packet \<Rightarrow> EFI_STATUS \<times> bytes \<Rightarrow> nat \<Rightarrow> nat \<Rightarrow> (EFI_STATUS \<times> packet) option" where
  "CheckTarget Data IdSupport Name NameSize = do {
     c \<leftarrow> rd8 (pk_Packet Data) Name;
     if c = 0 then Some (EFI_SUCCESS, Data\<lparr>pk_DfciWildcard := True\<rparr>)
     else case IdSupport of (Status, Temp) \<Rightarrow>
       if EFI_ERROR Status then Some (EFI_ABORTED, wrong_target Data)
       else do {
         differs \<leftarrow> (if length Temp \<noteq> NameSize then Some True
            else map_option (\<lambda>b. b \<noteq> Temp) (rd (pk_Packet Data) Name (length Temp)));
         if differs then do {
           _ \<leftarrow> print_target (pk_Packet Data) Name;
           Some (EFI_ABORTED, wrong_target Data) }
         else Some (EFI_SUCCESS, Data) } }"

definition invalid_packet :: "EFI_STATUS \<Rightarrow> packet \<Rightarrow> EFI_STATUS \<times> packet" where
  "invalid_packet Status Data = (Status, Data\<lparr>pk_StatusCode := Status, pk_State := STATE_DATA_INVALID\<rparr>)"

abbreviation (input) SETTINGS_APPLY_VAR_SIGNATURE :: u32 where "SETTINGS_APPLY_VAR_SIGNATURE \<equiv> 0x4153534D"

text \<open>The fields of the internal packet, taken from the header.\<close>

definition decode_fields :: "packet \<Rightarrow> u32 \<Rightarrow> nat \<Rightarrow> nat \<Rightarrow> nat \<Rightarrow> nat \<Rightarrow> nat \<Rightarrow> packet" where
  "decode_fields Data SessionId Mfg Product Serial PayloadSize PayloadOffset = Data\<lparr>
     pk_SignedDataLength := PayloadOffset + PayloadSize, pk_SessionId := SessionId, pk_PayloadSize := PayloadSize,
     pk_Payload := (if PayloadSize \<noteq> 0 then Some PayloadOffset else pk_Payload Data),
     pk_Manufacturer := Some Mfg, pk_ManufacturerSize := Product - Mfg,
     pk_ProductName := Some Product, pk_ProductNameSize := Serial - Product,
     pk_SerialNumber := Some Serial, pk_SerialNumberSize := PayloadOffset - Serial,
     pk_Packet := take 8 (pk_Packet Data) @ [0, 0, 0, 0] @ drop 12 (pk_Packet Data)\<rparr>"

text \<open>The position of the signature, or the absence of one in an unsigned settings packet.\<close>

definition decode_signature :: "packet \<Rightarrow> (EFI_STATUS \<times> packet) option" where
  "decode_signature Data = do {
     sig \<leftarrow> rd32 (pk_Packet Data) 0;
     if sig = SETTINGS_APPLY_VAR_SIGNATURE \<and> pk_SignedDataLength Data = pk_PacketSize Data
     then Some (EFI_SUCCESS, Data\<lparr>pk_Signature := None\<rparr>)
     else if pk_PacketSize Data < pk_SignedDataLength Data + 8 then Some (invalid_packet EFI_COMPROMISED_DATA Data)
     else do {
       dwLength \<leftarrow> rd32 (pk_Packet Data) (pk_SignedDataLength Data);
       let Data = Data\<lparr>pk_Signature := Some (pk_SignedDataLength Data)\<rparr>;
       Some (if pk_PacketSize Data < pk_SignedDataLength Data + unat dwLength
             then invalid_packet EFI_BAD_BUFFER_SIZE Data else (EFI_SUCCESS, Data)) } }"

definition check_targets :: "'s device_id \<Rightarrow> nat \<Rightarrow> nat \<Rightarrow> nat \<Rightarrow> packet \<Rightarrow> 's \<Rightarrow> (EFI_STATUS \<times> packet) option" where
  "check_targets ids Mfg Product Serial Data s = do {
     (Status, Data) \<leftarrow> CheckTarget Data (DfciIdSupportGetManufacturer ids s) Mfg (pk_ManufacturerSize Data);
     (Status, Data) \<leftarrow> (if \<not> EFI_ERROR Status
        then CheckTarget Data (DfciIdSupportGetProductName ids s) Product (pk_ProductNameSize Data)
        else Some (Status, Data));
     if \<not> EFI_ERROR Status
     then CheckTarget Data (DfciIdSupportGetSerialNumber ids s) Serial (pk_SerialNumberSize Data)
     else Some (Status, Data) }"

definition DecodePacket :: "'s device_id \<Rightarrow> packet \<Rightarrow> 's \<Rightarrow> (EFI_STATUS \<times> packet) option" where
  "DecodePacket ids Data s =
     (if pk_PacketSize Data = 0 \<or> pk_Packet Data = [] then Some (invalid_packet EFI_INVALID_PARAMETER Data)
      else if pk_PacketSize Data > MAX_ALLOWABLE_DFCI_APPLY_VAR_SIZE then Some (invalid_packet EFI_BAD_BUFFER_SIZE Data)
      else let Data = Data\<lparr>pk_State := STATE_DATA_PRESENT\<rparr> in
      if pk_PacketSize Data < 22 then Some (invalid_packet EFI_COMPROMISED_DATA Data)
      else do {
        sig \<leftarrow> rd32 (pk_Packet Data) 0;
        if sig \<noteq> pk_ExpectedSignature Data then Some (invalid_packet EFI_COMPROMISED_DATA Data)
        else do {
          ver \<leftarrow> rd8 (pk_Packet Data) 4;
          if ver \<noteq> pk_ExpectedVersion Data then Some (invalid_packet EFI_INCOMPATIBLE_VERSION Data)
          else do {
            Mfg \<leftarrow> rd16 (pk_Packet Data) 12;
            Product \<leftarrow> rd16 (pk_Packet Data) 14;
            Serial \<leftarrow> rd16 (pk_Packet Data) 16;
            PayloadOffset \<leftarrow> rd16 (pk_Packet Data) 20;
            if Mfg \<ge> Product \<or> Product \<ge> Serial \<or> Serial \<ge> PayloadOffset \<or> unat Mfg < 22 \<or> unat Product < 22 \<or> unat Serial < 22
            then Some (invalid_packet EFI_INCOMPATIBLE_VERSION Data)
            else do {
              PayloadSize \<leftarrow> rd16 (pk_Packet Data) 18;
              SessionId \<leftarrow> rd32 (pk_Packet Data) 8;
              (Status, Data) \<leftarrow> decode_signature
                (decode_fields Data SessionId (unat Mfg) (unat Product) (unat Serial) (unat PayloadSize) (unat PayloadOffset));
              if EFI_ERROR Status then Some (Status, Data)
              else check_targets ids (unat Mfg) (unat Product) (unat Serial) Data s } } } })"

definition DecodeIdentityPacket :: "'s device_id \<Rightarrow> packet \<Rightarrow> 's \<Rightarrow> (EFI_STATUS \<times> packet) option" where
  "DecodeIdentityPacket ids Data s = do {
     (Status, Data) \<leftarrow> DecodePacket ids Data s;
     Some (Status, if EFI_ERROR Status then Data
       else Data\<lparr>pk_VarIdentity := Some 5, pk_Version := Some 24, pk_LSV := Some 28,
         pk_Unenroll := (if pk_PayloadSize Data = 0 then True else pk_Unenroll Data)\<rparr>) }"

section \<open>Accepted packets\<close>

text \<open>What a decoded packet guarantees to the managers that use it.\<close>

definition decoded :: "packet \<Rightarrow> bool" where
  "decoded D \<longleftrightarrow> pk_PacketSize D = length (pk_Packet D) \<and> pk_PacketSize D \<le> MAX_ALLOWABLE_DFCI_APPLY_VAR_SIZE
     \<and> pk_State D = STATE_DATA_PRESENT \<and> pk_SignedDataLength D \<le> pk_PacketSize D
     \<and> (\<exists>m p q off. pk_Manufacturer D = Some m \<and> pk_ProductName D = Some p \<and> pk_SerialNumber D = Some q
          \<and> 22 \<le> m \<and> m < p \<and> p < q \<and> q < off \<and> m + pk_ManufacturerSize D = p \<and> p + pk_ProductNameSize D = q \<and> q + pk_SerialNumberSize D = off
          \<and> off + pk_PayloadSize D = pk_SignedDataLength D
          \<and> (if pk_PayloadSize D = 0 then pk_Payload D = None else pk_Payload D = Some off))
     \<and> (case pk_Signature D of
          None \<Rightarrow> pk_SignedDataLength D = pk_PacketSize D \<and> pk_ExpectedSignature D = SETTINGS_APPLY_VAR_SIGNATURE
        | Some sg \<Rightarrow> sg = pk_SignedDataLength D \<and> sg + 8 \<le> pk_PacketSize D
            \<and> (\<exists>dw. rd32 (pk_Packet D) sg = Some dw \<and> sg + unat dw \<le> pk_PacketSize D))"

text \<open>A target string either is a wildcard or equals the identifier of the device.\<close>

definition target_matches :: "bytes \<Rightarrow> EFI_STATUS \<times> bytes \<Rightarrow> nat \<Rightarrow> nat \<Rightarrow> bool" where
  "target_matches pkt IdSupport Name NameSize \<longleftrightarrow>
     \<not> EFI_ERROR (fst IdSupport) \<and> rd pkt Name NameSize = Some (snd IdSupport)"

lemma CheckTarget_cases:
  assumes "0 < n" "p + n \<le> length (pk_Packet D)"
  obtains st D' where "CheckTarget D i p n = Some (st, D')" "EFI_ERROR st"
  | "CheckTarget D i p n = None" "0 \<notin> set (drop p (pk_Packet D))"
  | w where "CheckTarget D i p n = Some (EFI_SUCCESS, D\<lparr>pk_DfciWildcard := w\<rparr>)"
      "w \<or> w = pk_DfciWildcard D \<and> target_matches (pk_Packet D) i p n" "pk_DfciWildcard D \<longrightarrow> w"
proof -
  obtain c where c: "rd8 (pk_Packet D) p = Some c" using assms rd_defined(1) [of p "pk_Packet D"] by auto
  obtain st t where i: "i = (st, t)" by (cases i)
  have r: "rd (pk_Packet D) p n = Some (take n (drop p (pk_Packet D)))" using assms by (simp add: rd_def)
  consider (wild) "c = 0" | (fail) "c \<noteq> 0" "EFI_ERROR st \<or> length t \<noteq> n \<or> rd (pk_Packet D) p n \<noteq> Some t"
    | (match) "c \<noteq> 0" "\<not> EFI_ERROR st" "length t = n" "rd (pk_Packet D) p n = Some t" by blast
  then show ?thesis
  proof cases
    case wild
    then show ?thesis using that(3) [of True] c by (simp add: CheckTarget_def)
  next
    case fail
    show ?thesis
    proof (cases "EFI_ERROR st \<or> 0 \<in> set (drop p (pk_Packet D))")
      case True
      then have "CheckTarget D i p n = Some (EFI_ABORTED, wrong_target D)"
        using fail c i r by (auto simp: CheckTarget_def print_target_def)
      then show ?thesis using that(1) by auto
    next
      case False
      then have "CheckTarget D i p n = None" using fail c i r by (auto simp: CheckTarget_def print_target_def)
      then show ?thesis using that(2) False by auto
    qed
  next
    case match
    then have "CheckTarget D i p n = Some (EFI_SUCCESS, D\<lparr>pk_DfciWildcard := pk_DfciWildcard D\<rparr>)"
      using c i by (auto simp: CheckTarget_def)
    then show ?thesis using that(3) [of "pk_DfciWildcard D"] match i by (simp add: target_matches_def)
  qed
qed

text \<open>The last of the three strings is the shortest rest of the packet that can be read.\<close>

lemma drop_later: "0 \<notin> set (drop a xs) \<Longrightarrow> a \<le> b \<Longrightarrow> 0 \<notin> set (drop b xs)"
  by (meson set_drop_subset_set_drop subsetD)

lemma check_targets_cases:
  assumes "0 < pk_ManufacturerSize D" "m + pk_ManufacturerSize D \<le> length (pk_Packet D)"
    and "0 < pk_ProductNameSize D" "p + pk_ProductNameSize D \<le> length (pk_Packet D)"
    and "0 < pk_SerialNumberSize D" "q + pk_SerialNumberSize D \<le> length (pk_Packet D)" and o: "m \<le> q" "p \<le> q"
  obtains st D' where "check_targets ids m p q D s = Some (st, D')" "EFI_ERROR st"
  | "check_targets ids m p q D s = None" "0 \<notin> set (drop q (pk_Packet D))"
  | w where "check_targets ids m p q D s = Some (EFI_SUCCESS, D\<lparr>pk_DfciWildcard := w\<rparr>)"
      "w \<or> target_matches (pk_Packet D) (DfciIdSupportGetManufacturer ids s) m (pk_ManufacturerSize D)
         \<and> target_matches (pk_Packet D) (DfciIdSupportGetProductName ids s) p (pk_ProductNameSize D)
         \<and> target_matches (pk_Packet D) (DfciIdSupportGetSerialNumber ids s) q (pk_SerialNumberSize D)"
  using assms(1,2)
proof (cases rule: CheckTarget_cases [of _ m D "DfciIdSupportGetManufacturer ids s"])
  case (1 st D')
  then show ?thesis using that(1) by (simp add: check_targets_def)
next
  case 2
  then show ?thesis using that(2) drop_later [OF 2(2) o(1)] by (simp add: check_targets_def)
next
  case (3 w1)
  let ?D1 = "D\<lparr>pk_DfciWildcard := w1\<rparr>"
  note c1 = 3
  have "0 < pk_ProductNameSize D" "p + pk_ProductNameSize D \<le> length (pk_Packet ?D1)" using assms by simp_all
  then show ?thesis
  proof (cases rule: CheckTarget_cases [of _ p ?D1 "DfciIdSupportGetProductName ids s"])
    case (1 st D')
    then show ?thesis using that(1) c1 by (simp add: check_targets_def)
  next
    case 2
    have "0 \<notin> set (drop p (pk_Packet D))" using 2(2) by simp
    from drop_later [OF this o(2)] show ?thesis using that(2) c1 2(1) by (simp add: check_targets_def)
  next
    case (3 w2)
    let ?D2 = "D\<lparr>pk_DfciWildcard := w2\<rparr>"
    note c2 = 3
    have "0 < pk_SerialNumberSize D" "q + pk_SerialNumberSize D \<le> length (pk_Packet ?D2)" using assms by simp_all
    then show ?thesis
    proof (cases rule: CheckTarget_cases [of _ q ?D2 "DfciIdSupportGetSerialNumber ids s"])
      case (1 st D')
      then show ?thesis using that(1) c1 c2 by (simp add: check_targets_def)
    next
      case 2
      then show ?thesis using that(2) c1 c2 by (simp add: check_targets_def)
    next
      case (3 w3)
      then show ?thesis using that(3) [of w3] c1 c2 by (auto simp: check_targets_def)
    qed
  qed
qed

lemma rd_prefix: "off + n \<le> k \<Longrightarrow> k \<le> length bs \<Longrightarrow> rd (take k bs @ zs) off n = rd bs off n"
proof -
  assume a: "off + n \<le> k" "k \<le> length bs"
  have "take n (drop off (take k bs @ zs)) = take n (drop off bs)"
    using a by (intro nth_equalityI) (auto simp: nth_append)
  then show ?thesis using a by (simp add: rd_def min_def)
qed

lemma decode_signature_cases:
  assumes "pk_PacketSize D = length (pk_Packet D)" "4 \<le> length (pk_Packet D)"
  obtains st D' where "decode_signature D = Some (st, D')" "EFI_ERROR st"
  | "decode_signature D = Some (EFI_SUCCESS, D\<lparr>pk_Signature := None\<rparr>)" "pk_SignedDataLength D = pk_PacketSize D"
      "rd32 (pk_Packet D) 0 = Some SETTINGS_APPLY_VAR_SIGNATURE"
  | dw where "decode_signature D = Some (EFI_SUCCESS, D\<lparr>pk_Signature := Some (pk_SignedDataLength D)\<rparr>)"
      "pk_SignedDataLength D + 8 \<le> pk_PacketSize D" "rd32 (pk_Packet D) (pk_SignedDataLength D) = Some dw"
      "pk_SignedDataLength D + unat dw \<le> pk_PacketSize D"
proof -
  obtain sig where sig: "rd32 (pk_Packet D) 0 = Some sig"
    using assms(2) rd_defined(3) [of 0 "pk_Packet D"] by auto
  show ?thesis
  proof (cases "pk_SignedDataLength D + 8 \<le> pk_PacketSize D")
    case True
    then obtain dw where dw: "rd32 (pk_Packet D) (pk_SignedDataLength D) = Some dw"
      using assms(1) rd_defined(3) [of "pk_SignedDataLength D" "pk_Packet D"] by auto
    show ?thesis
      using that(1,3) sig dw True
      by (cases "pk_SignedDataLength D + unat dw \<le> pk_PacketSize D")
        (auto simp: decode_signature_def invalid_packet_def)
  next
    case False
    show ?thesis
    proof (cases "sig = SETTINGS_APPLY_VAR_SIGNATURE \<and> pk_SignedDataLength D = pk_PacketSize D")
      case True
      then show ?thesis using that(2) sig by (simp add: decode_signature_def)
    next
      case unsigned: False
      have "decode_signature D = Some (invalid_packet EFI_COMPROMISED_DATA D)"
        using sig False unsigned by (auto simp: decode_signature_def)
      then show ?thesis using that(1) by (simp add: invalid_packet_def)
    qed
  qed
qed

text \<open>The header of a packet that is not rejected before the signature is looked at.\<close>

definition header_ok :: "packet \<Rightarrow> nat \<Rightarrow> nat \<Rightarrow> nat \<Rightarrow> nat \<Rightarrow> bool" where
  "header_ok D m p q off \<longleftrightarrow> 22 \<le> length (pk_Packet D) \<and> length (pk_Packet D) \<le> MAX_ALLOWABLE_DFCI_APPLY_VAR_SIZE
     \<and> rd32 (pk_Packet D) 0 = Some (pk_ExpectedSignature D) \<and> 22 \<le> m \<and> m < p \<and> p < q \<and> q < off"

lemma DecodePacket_header:
  assumes "pk_PacketSize D = length (pk_Packet D)"
  obtains st D' where "DecodePacket ids D s = Some (st, D')" "EFI_ERROR st"
  | m p q off n sid where "header_ok D m p q off" "rd16 (pk_Packet D) 16 = Some (of_nat q)" "rd16 (pk_Packet D) 20 = Some (of_nat off)"
      "rd16 (pk_Packet D) 18 = Some (of_nat n)" "q < 65536" "off < 65536" "n < 65536"
      "DecodePacket ids D s = do {
         (Status, Data) \<leftarrow> decode_signature (decode_fields (D\<lparr>pk_State := STATE_DATA_PRESENT\<rparr>) sid m p q n off);
         if EFI_ERROR Status then Some (Status, Data) else check_targets ids m p q Data s }"
proof -
  let ?pkt = "pk_Packet D"
  consider (small) "length ?pkt < 22" | (big) "MAX_ALLOWABLE_DFCI_APPLY_VAR_SIZE < length ?pkt"
    | (ok) "22 \<le> length ?pkt" "length ?pkt \<le> MAX_ALLOWABLE_DFCI_APPLY_VAR_SIZE" by linarith
  then show ?thesis
  proof cases
    case small
    then have "\<exists>st D'. DecodePacket ids D s = Some (st, D') \<and> EFI_ERROR st"
      using assms by (auto simp: DecodePacket_def invalid_packet_def MAX_ALLOWABLE_DFCI_APPLY_VAR_SIZE_def)
    then show ?thesis using that(1) by blast
  next
    case big
    then have "\<exists>st D'. DecodePacket ids D s = Some (st, D') \<and> EFI_ERROR st"
      using assms by (auto simp: DecodePacket_def invalid_packet_def)
    then show ?thesis using that(1) by blast
  next
    case ok
    then obtain sig ver m p q off n sid where rds: "rd32 ?pkt 0 = Some sig" "rd8 ?pkt 4 = Some ver"
      "rd16 ?pkt 12 = Some m" "rd16 ?pkt 14 = Some p" "rd16 ?pkt 16 = Some q" "rd16 ?pkt 20 = Some off"
      "rd16 ?pkt 18 = Some n" "rd32 ?pkt 8 = Some sid"
      using rd_defined(3) [of 0 ?pkt] rd_defined(1) [of 4 ?pkt] rd_defined(2) [of 12 ?pkt] rd_defined(2) [of 14 ?pkt]
        rd_defined(2) [of 16 ?pkt] rd_defined(2) [of 20 ?pkt] rd_defined(2) [of 18 ?pkt] rd_defined(3) [of 8 ?pkt]
      by auto
    have ne: "?pkt \<noteq> []" using ok by auto
    show ?thesis
    proof (cases "sig = pk_ExpectedSignature D \<and> ver = pk_ExpectedVersion D \<and> m < p \<and> p < q \<and> q < off \<and> 22 \<le> unat m")
      case True
      then have h: "header_ok D (unat m) (unat p) (unat q) (unat off)"
        using ok rds(1) by (simp add: header_ok_def word_less_nat_alt)
      have lt: "\<not> p \<le> m" "\<not> q \<le> p" "\<not> off \<le> q" "\<not> unat m < 22" "\<not> unat p < 22" "\<not> unat q < 22"
        using True by (auto simp: word_less_nat_alt word_le_nat_alt)
      have "DecodePacket ids D s = do {
         (Status, Data) \<leftarrow> decode_signature (decode_fields (D\<lparr>pk_State := STATE_DATA_PRESENT\<rparr>) sid
            (unat m) (unat p) (unat q) (unat n) (unat off));
         if EFI_ERROR Status then Some (Status, Data) else check_targets ids (unat m) (unat p) (unat q) Data s }"
        using ok ne assms rds True lt by (simp add: DecodePacket_def Let_def)
      moreover have "unat x < 65536" for x :: u16 using unsigned_less [of x, where ?'a = nat] by simp
      ultimately show ?thesis using that(2) [OF h, of "unat n" sid] rds(5-7) by simp
    next
      case False
      then have "\<exists>st D'. DecodePacket ids D s = Some (st, D') \<and> EFI_ERROR st"
        using ok ne assms rds by (auto simp: DecodePacket_def Let_def invalid_packet_def not_less not_le)
      then show ?thesis using that(1) by blast
    qed
  qed
qed

lemma decode_fields_simps [simp]:
  "pk_PacketSize (decode_fields D sid m p q n off) = pk_PacketSize D"
  "pk_State (decode_fields D sid m p q n off) = pk_State D"
  "pk_SignedDataLength (decode_fields D sid m p q n off) = off + n"
  "pk_ExpectedSignature (decode_fields D sid m p q n off) = pk_ExpectedSignature D"
  "pk_Unenroll (decode_fields D sid m p q n off) = pk_Unenroll D"
  "pk_PayloadSize (decode_fields D sid m p q n off) = n"
  "pk_Payload (decode_fields D sid m p q n off) = (if n \<noteq> 0 then Some off else pk_Payload D)"
  "pk_Manufacturer (decode_fields D sid m p q n off) = Some m"
  "pk_ManufacturerSize (decode_fields D sid m p q n off) = p - m"
  "pk_ProductName (decode_fields D sid m p q n off) = Some p"
  "pk_ProductNameSize (decode_fields D sid m p q n off) = q - p"
  "pk_SerialNumber (decode_fields D sid m p q n off) = Some q"
  "pk_SerialNumberSize (decode_fields D sid m p q n off) = off - q"
  "22 \<le> length (pk_Packet D) \<Longrightarrow> length (pk_Packet (decode_fields D sid m p q n off)) = length (pk_Packet D)"
  "22 \<le> length (pk_Packet D) \<Longrightarrow> rd32 (pk_Packet (decode_fields D sid m p q n off)) 0 = rd32 (pk_Packet D) 0"
  using rd_prefix [of 0 4 8 "pk_Packet D"] by (simp_all add: decode_fields_def rd32_def)

text \<open>A packet addressed to the device: its three target strings are those of the device.\<close>

definition addressed :: "'s device_id \<Rightarrow> packet \<Rightarrow> 's \<Rightarrow> bool" where
  "addressed ids D s \<longleftrightarrow>
     target_matches (pk_Packet D) (DfciIdSupportGetManufacturer ids s) (the (pk_Manufacturer D)) (pk_ManufacturerSize D)
   \<and> target_matches (pk_Packet D) (DfciIdSupportGetProductName ids s) (the (pk_ProductName D)) (pk_ProductNameSize D)
   \<and> target_matches (pk_Packet D) (DfciIdSupportGetSerialNumber ids s) (the (pk_SerialNumber D)) (pk_SerialNumberSize D)"

text \<open>
  The packets on which the debug message reads too far: an unsigned settings packet, whose payload
  ends with the packet, without a terminator from the serial number on.
\<close>

definition unterminated_target :: "bytes \<Rightarrow> bool" where
  "unterminated_target pkt = (case (rd16 pkt 16, rd16 pkt 18, rd16 pkt 20) of
      (Some Serial, Some PayloadSize, Some PayloadOffset) \<Rightarrow> rd32 pkt 0 = Some SETTINGS_APPLY_VAR_SIGNATURE
        \<and> unat PayloadOffset + unat PayloadSize = length pkt \<and> 0 \<notin> set (drop (unat Serial) pkt)
    | _ \<Rightarrow> False)"

text \<open>A signature has a length below the size of a mailbox, hence a zero byte.\<close>

lemma small_length_has_zero:
  assumes "rd32 bs k = Some dw" "unat dw \<le> MAX_ALLOWABLE_DFCI_APPLY_VAR_SIZE"
  shows "0 \<in> set (drop k bs)"
proof -
  have l: "k + 4 \<le> length bs" and dw: "dw = word_of_nat (le_nat (take 4 (drop k bs)))"
    using assms(1) by (auto simp: rd32_def rd_def split: if_splits)
  define t where "t = take 4 (drop k bs)"
  have "length t = 4" using l by (simp add: t_def)
  then obtain a b c d where t: "t = [a, b, c, d]" by (auto simp: numeral_eq_Suc length_Suc_conv)
  have b8: "unat x < 256" for x :: u8 using unsigned_less [of x, where ?'a = nat] by simp
  have "le_nat t < 2 ^ 32" using b8 [of a] b8 [of b] b8 [of c] b8 [of d] by (simp add: t)
  then have "unat dw = le_nat t" by (simp only: dw t_def [symmetric] unat_of_nat) simp
  then have "unat d = 0" using assms(2) by (simp add: t MAX_ALLOWABLE_DFCI_APPLY_VAR_SIZE_def)
  then have "0 \<in> set t" by (simp add: t unat_eq_0)
  then show ?thesis unfolding t_def by (rule in_set_takeD)
qed

lemma DecodePacket_cases:
  assumes "pk_PacketSize D = length (pk_Packet D)" "pk_Payload D = None"
  obtains st D' where "DecodePacket ids D s = Some (st, D')" "EFI_ERROR st"
  | "DecodePacket ids D s = None" "unterminated_target (pk_Packet D)" "pk_ExpectedSignature D = SETTINGS_APPLY_VAR_SIGNATURE"
  | D' where "DecodePacket ids D s = Some (EFI_SUCCESS, D')" "decoded D'" "pk_DfciWildcard D' \<or> addressed ids D' s"
      "pk_ExpectedSignature D' = pk_ExpectedSignature D" "pk_Unenroll D' = pk_Unenroll D"
  using assms(1)
proof (cases rule: DecodePacket_header [of D ids s])
  case (1 st D')
  then show ?thesis using that(1) by blast
next
  case (2 m p q off n sid)
  note reject = that(1) and overread = that(2) and accept = that(3)
  define F where "F = decode_fields (D\<lparr>pk_State := STATE_DATA_PRESENT\<rparr>) sid m p q n off"
  have h: "22 \<le> length (pk_Packet D)" "length (pk_Packet D) \<le> MAX_ALLOWABLE_DFCI_APPLY_VAR_SIZE"
    "rd32 (pk_Packet D) 0 = Some (pk_ExpectedSignature D)" "22 \<le> m" "m < p" "p < q" "q < off"
    using 2(1) by (auto simp: header_ok_def)
  have F: "pk_PacketSize F = length (pk_Packet F)" "length (pk_Packet F) = length (pk_Packet D)"
    "rd32 (pk_Packet F) 0 = Some (pk_ExpectedSignature D)" "pk_SignedDataLength F = off + n"
    using assms(1) h by (simp_all add: F_def)
  have rest: "drop k (pk_Packet F) = drop k (pk_Packet D)" if k: "22 \<le> k" for k
  proof -
    obtain j where "k = 12 + j" using k le_Suc_ex [of 12 k] by auto
    with h(1) show ?thesis by (simp add: F_def decode_fields_def numeral_eq_Suc)
  qed
  have dec: "DecodePacket ids D s = do {
         (Status, Data) \<leftarrow> decode_signature F;
         if EFI_ERROR Status then Some (Status, Data) else check_targets ids m p q Data s }"
    using 2(8) by (simp add: F_def)
  have step: thesis if sg: "decode_signature F = Some (EFI_SUCCESS, F\<lparr>pk_Signature := sg\<rparr>)"
      and le: "off + n \<le> pk_PacketSize F"
      and un: "0 \<notin> set (drop q (pk_Packet F)) \<Longrightarrow> off + n = pk_PacketSize F \<and> pk_ExpectedSignature D = SETTINGS_APPLY_VAR_SIGNATURE"
      and ok: "\<And>w. decoded (F\<lparr>pk_Signature := sg, pk_DfciWildcard := w\<rparr>)" for sg
  proof -
    let ?G = "F\<lparr>pk_Signature := sg\<rparr>"
    have "0 < pk_ManufacturerSize ?G" "m + pk_ManufacturerSize ?G \<le> length (pk_Packet ?G)"
      "0 < pk_ProductNameSize ?G" "p + pk_ProductNameSize ?G \<le> length (pk_Packet ?G)"
      "0 < pk_SerialNumberSize ?G" "q + pk_SerialNumberSize ?G \<le> length (pk_Packet ?G)" "m \<le> q" "p \<le> q"
      using h le F(1) by (simp_all add: F_def)
    then show thesis
    proof (cases rule: check_targets_cases [of ?G m p q ids s])
      case (1 st D')
      then show ?thesis using reject dec sg by simp
    next
      case t: 2
      then have q: "0 \<notin> set (drop q (pk_Packet F))" by simp
      have "unterminated_target (pk_Packet D)"
        using un [OF q] q rest [of q] h 2(2-7) F(1,2) by (simp add: unterminated_target_def unat_of_nat)
      then show ?thesis using overread t(1) dec sg un [OF q] by simp
    next
      case (3 w)
      then show ?thesis
        using accept [of "F\<lparr>pk_Signature := sg, pk_DfciWildcard := w\<rparr>"] dec sg ok
        by (auto simp: addressed_def F_def)
    qed
  qed
  have "4 \<le> length (pk_Packet F)" using F(2) h(1) by simp
  with F(1) show ?thesis
  proof (cases rule: decode_signature_cases [of F])
    case (1 st D')
    then show ?thesis using reject dec by simp
  next
    case 2
    with F have "off + n = pk_PacketSize F" "pk_ExpectedSignature D = SETTINGS_APPLY_VAR_SIGNATURE" by auto
    with F(1,2) h assms(2) step [OF 2(1)] show ?thesis by (auto simp: decoded_def F_def)
  next
    case (3 dw)
    have "0 \<in> set (drop (off + n) (pk_Packet F))"
      using small_length_has_zero [OF 3(3)] 3(4) F(1,2,4) h(2) by simp
    then have "0 \<in> set (drop q (pk_Packet F))" using drop_later [of q "pk_Packet F" "off + n"] h(7) by auto
    with 3 F(1,2,4) h assms(2) step [OF 3(1)] show ?thesis by (auto simp: decoded_def F_def)
  qed
qed

lemma decoded_identity [simp]:
  "decoded (D\<lparr>pk_VarIdentity := i, pk_Version := v, pk_LSV := l, pk_Unenroll := u\<rparr>) = decoded D"
  by (simp add: decoded_def split del: if_split cong: option.case_cong if_cong)

section \<open>Properties\<close>

text \<open>
  Property C28: whatever bytes a mailbox variable holds, decoding it ends without reading outside the
  packet, with one exception: the debug message for a wrong target runs past the end of an unsigned
  settings packet that has no zero byte from its serial number on.  A packet that is accepted is
  completely described: the three target strings, the payload and the signature follow each other
  inside the packet, and only a settings packet may lack a signature.
\<close>

theorem DecodePacket_memory_safe:
  assumes "pk_PacketSize D = length (pk_Packet D)" "pk_Payload D = None"
  shows "(\<exists>st D'. DecodePacket ids D s = Some (st, D') \<and> (EFI_ERROR st \<or> decoded D'))
    \<or> (DecodePacket ids D s = None \<and> unterminated_target (pk_Packet D) \<and> pk_ExpectedSignature D = SETTINGS_APPLY_VAR_SIGNATURE)"
  using assms by (cases rule: DecodePacket_cases [of D ids s]) auto

text \<open>
  Property C29: a packet that is accepted and carries no wildcard target has the manufacturer, the
  product name and the serial number of this device.
\<close>

theorem DecodePacket_targets_this_device:
  assumes "pk_PacketSize D = length (pk_Packet D)" "pk_Payload D = None"
    and "DecodePacket ids D s = Some (st, D')" "\<not> EFI_ERROR st" "\<not> pk_DfciWildcard D'"
  shows "addressed ids D' s"
  using assms(1,2) by (cases rule: DecodePacket_cases [of D ids s]) (use assms(3-) in auto)

text \<open>
  An accepted packet other than a settings packet is signed; when it has a payload it
  meets the check that the permission manager repeats before it reads the packet.
\<close>

lemma DecodePacket_then_ValidatePermissionsPacket:
  assumes "pk_PacketSize D = length (pk_Packet D)" "pk_Payload D = None"
    and "DecodePacket ids D s = Some (st, D')" "\<not> EFI_ERROR st"
    and "pk_ExpectedSignature D \<noteq> SETTINGS_APPLY_VAR_SIGNATURE" "pk_PayloadSize D' \<noteq> 0"
  shows "ValidatePermissionsPacket D' = EFI_SUCCESS"
  using assms(1,2)
proof (cases rule: DecodePacket_cases [of D ids s])
  case (3 D1)
  then have d: "decoded D'" "pk_ExpectedSignature D' \<noteq> SETTINGS_APPLY_VAR_SIGNATURE" using assms(3,5) by simp_all
  then obtain off where off: "off + pk_PayloadSize D' = pk_SignedDataLength D'" "22 < off" "pk_Payload D' = Some off"
    using assms(6) by (auto simp: decoded_def)
  show ?thesis using d off by (auto simp: decoded_def ValidatePermissionsPacket_def split: option.splits)
qed (use assms in auto)

text \<open>
  An accepted identity packet has its identity, version and lowest supported version
  inside the packet, and asks for the removal of the identity exactly when it carries no payload.
\<close>

theorem DecodeIdentityPacket_fields:
  assumes "pk_PacketSize D = length (pk_Packet D)" "pk_Payload D = None" "\<not> pk_Unenroll D"
    and "pk_ExpectedSignature D \<noteq> SETTINGS_APPLY_VAR_SIGNATURE"
    and "DecodeIdentityPacket ids D s = Some (st, D')" "\<not> EFI_ERROR st"
  shows "decoded D' \<and> (pk_Unenroll D' \<longleftrightarrow> pk_PayloadSize D' = 0)
    \<and> (\<exists>c. rd8 (pk_Packet D') (the (pk_VarIdentity D')) = Some c)
    \<and> (\<exists>v. rd32 (pk_Packet D') (the (pk_Version D')) = Some v)
    \<and> (\<exists>l. rd32 (pk_Packet D') (the (pk_LSV D')) = Some l)"
proof -
  obtain D1 where d1: "DecodePacket ids D s = Some (st, D1)"
    "D' = D1\<lparr>pk_VarIdentity := Some 5, pk_Version := Some 24, pk_LSV := Some 28,
       pk_Unenroll := (if pk_PayloadSize D1 = 0 then True else pk_Unenroll D1)\<rparr>"
    using assms(5,6) by (auto simp: DecodeIdentityPacket_def split: Option.bind_splits)
  have "decoded D1 \<and> pk_ExpectedSignature D1 \<noteq> SETTINGS_APPLY_VAR_SIGNATURE \<and> \<not> pk_Unenroll D1"
    using assms(1,2) by (cases rule: DecodePacket_cases [of D ids s]) (use d1(1) assms(3,4,6) in auto)
  then have d: "decoded D1" "pk_ExpectedSignature D1 \<noteq> SETTINGS_APPLY_VAR_SIGNATURE" "\<not> pk_Unenroll D1" by auto
  have "32 \<le> length (pk_Packet D1)" using d(1,2) by (auto simp: decoded_def split: option.splits)
  then have "\<exists>c. rd8 (pk_Packet D1) 5 = Some c" "\<exists>v. rd32 (pk_Packet D1) 24 = Some v" "\<exists>l. rd32 (pk_Packet D1) 28 = Some l"
    using rd_defined by simp_all
  moreover have "decoded D'" using d(1) d1(2) by simp
  ultimately show ?thesis using d1(2) d(3) by simp
qed

text \<open>A packet for the device \<open>(A, B, C)\<close> with a payload of two bytes and an empty certificate.\<close>

definition example_bytes :: bytes where
  "example_bytes = [0x4D, 0x53, 0x50, 0x41, 2, 1, 0, 0, 7, 0, 0, 0, 32, 0, 34, 0, 36, 0, 2, 0, 38, 0, 0, 0,
     1, 0, 0, 0, 0, 0, 0, 0, 65, 0, 66, 0, 67, 0, 9, 9, 8, 0, 0, 0, 0, 2, 0xF1, 0x0E]"

definition example_ids :: "unit device_id" where
  "example_ids = \<lparr>DfciIdSupportGetManufacturer = \<lambda>_. (EFI_SUCCESS, [65, 0]),
     DfciIdSupportGetProductName = \<lambda>_. (EFI_SUCCESS, [66, 0]), DfciIdSupportGetSerialNumber = \<lambda>_. (EFI_SUCCESS, [67, 0])\<rparr>"

definition fresh_packet :: "bytes \<Rightarrow> u32 \<Rightarrow> packet" where
  "fresh_packet bs sig = \<lparr>pk_Packet = bs, pk_PacketSize = length bs, pk_MailboxName = [], pk_ResultName = [],
     pk_NameSpace = [], pk_ExpectedSignature = sig, pk_ExpectedVersion = 2, pk_Signature = None,
     pk_SignedDataLength = 0, pk_State = STATE_UNINITIALIZED, pk_SessionId = 0, pk_DfciWildcard = False,
     pk_VarIdentity = None, pk_Version = None, pk_LSV = None, pk_V1Mode = False, pk_StatusCode = 0,
     pk_ResetRequired = False, pk_LKGDirty = False, pk_Unenroll = False, pk_PayloadSize = 0, pk_Payload = None,
     pk_AuthToken = 0, pk_DfciIdentity = 0, pk_UserConfirmationRequired = False, pk_ResultXml = None,
     pk_ResultXmlSize = 0, pk_Manufacturer = None, pk_ManufacturerSize = 0, pk_ProductName = None,
     pk_ProductNameSize = 0, pk_SerialNumber = None, pk_SerialNumberSize = 0\<rparr>"

lemma example_reads:
  "rd32 example_bytes 0 = Some 0x4150534D" "rd8 example_bytes 4 = Some 2" "rd16 example_bytes 12 = Some 32"
  "rd16 example_bytes 14 = Some 34" "rd16 example_bytes 16 = Some 36" "rd16 example_bytes 20 = Some 38"
  "rd16 example_bytes 18 = Some 2" "rd32 example_bytes 8 = Some 7" "length example_bytes = 48" "example_bytes \<noteq> []"
  by (simp_all add: example_bytes_def rd32_def rd16_def rd8_def rd_def)

lemma example_clean_reads:
  fixes b defines "b \<equiv> take 8 example_bytes @ 0 # 0 # 0 # 0 # drop 12 example_bytes"
  shows "rd32 b 0 = Some 0x4150534D" "rd32 b 40 = Some 8" "rd8 b 32 = Some 65" "rd8 b 34 = Some 66"
    "rd8 b 36 = Some 67" "rd b 32 2 = Some [65, 0]" "rd b 34 2 = Some [66, 0]" "rd b 36 2 = Some [67, 0]"
  unfolding b_def by (simp_all add: example_bytes_def rd32_def rd8_def rd_def)

abbreviation (input) example_fresh :: packet where "example_fresh \<equiv> fresh_packet example_bytes 0x4150534D"

lemma example_decodes:
  "\<exists>D'. DecodePacket example_ids example_fresh () = Some (EFI_SUCCESS, D')
     \<and> \<not> pk_DfciWildcard D' \<and> pk_PayloadSize D' = 2"
  by (simp add: DecodePacket_def Let_def fresh_packet_def example_reads example_clean_reads example_ids_def
      decode_fields_def decode_signature_def check_targets_def CheckTarget_def
      example_clean_reads(6-8) [unfolded numeral_2_eq_2] MAX_ALLOWABLE_DFCI_APPLY_VAR_SIZE_def)

lemma example_fresh_simps [simp]:
  "pk_PacketSize (fresh_packet b sig) = length (pk_Packet (fresh_packet b sig))" "pk_Payload (fresh_packet b sig) = None"
  "pk_ExpectedSignature (fresh_packet b sig) = sig" "\<not> pk_Unenroll (fresh_packet b sig)"
  by (simp_all add: fresh_packet_def)

theorem DecodePacket_memory_safe_witness:
  "\<exists>D'. DecodePacket example_ids example_fresh () = Some (EFI_SUCCESS, D') \<and> decoded D'"
proof -
  from example_decodes obtain D' where d: "DecodePacket example_ids example_fresh () = Some (EFI_SUCCESS, D')" by blast
  with DecodePacket_memory_safe [of example_fresh example_ids "()"] show ?thesis by simp
qed

text \<open>
  The exception occurs: an unsigned settings packet for another device, with strings and a payload
  without a terminator.
\<close>

definition overread_bytes :: bytes where
  "overread_bytes = [0x4D, 0x53, 0x53, 0x41, 2, 1, 0, 0, 7, 0, 0, 0, 22, 0, 24, 0, 26, 0, 2, 0, 28, 0, 88, 88, 66, 66, 67, 67, 9, 9]"

lemma overread_reads:
  "rd32 overread_bytes 0 = Some SETTINGS_APPLY_VAR_SIGNATURE" "rd8 overread_bytes 4 = Some 2" "rd16 overread_bytes 12 = Some 22"
  "rd16 overread_bytes 14 = Some 24" "rd16 overread_bytes 16 = Some 26" "rd16 overread_bytes 20 = Some 28"
  "rd16 overread_bytes 18 = Some 2" "rd32 overread_bytes 8 = Some 7" "length overread_bytes = 30" "overread_bytes \<noteq> []"
  by (simp_all add: overread_bytes_def rd32_def rd16_def rd8_def rd_def)

lemma overread_clean_reads:
  fixes b defines "b \<equiv> take 8 overread_bytes @ 0 # 0 # 0 # 0 # drop 12 overread_bytes"
  shows "rd32 b 0 = Some SETTINGS_APPLY_VAR_SIGNATURE" "rd8 b 22 = Some 88" "rd b 22 2 = Some [88, 88]" "print_target b 22 = None"
  unfolding b_def by (simp_all add: overread_bytes_def rd32_def rd8_def rd_def print_target_def)

lemma unterminated_target_is_read_past_the_end:
  "DecodePacket example_ids (fresh_packet overread_bytes SETTINGS_APPLY_VAR_SIGNATURE) () = None" "unterminated_target overread_bytes"
proof -
  show "DecodePacket example_ids (fresh_packet overread_bytes SETTINGS_APPLY_VAR_SIGNATURE) () = None"
    by (simp add: DecodePacket_def Let_def fresh_packet_def overread_reads overread_clean_reads example_ids_def
      decode_fields_def decode_signature_def check_targets_def CheckTarget_def overread_clean_reads(3) [unfolded numeral_2_eq_2]
      MAX_ALLOWABLE_DFCI_APPLY_VAR_SIZE_def)
  show "unterminated_target overread_bytes"
    by (simp add: unterminated_target_def overread_reads) (simp add: overread_bytes_def)
qed

theorem DecodePacket_targets_this_device_witness:
  "\<exists>D'. DecodePacket example_ids example_fresh () = Some (EFI_SUCCESS, D') \<and> addressed example_ids D' ()"
proof -
  from example_decodes obtain D' where d: "DecodePacket example_ids example_fresh () = Some (EFI_SUCCESS, D')"
    "\<not> pk_DfciWildcard D'" by blast
  have "addressed example_ids D' ()" by (rule DecodePacket_targets_this_device [OF _ _ d(1)]) (simp_all add: d(2))
  with d show ?thesis by blast
qed

theorem DecodeIdentityPacket_fields_witness:
  "\<exists>D'. DecodeIdentityPacket example_ids example_fresh () = Some (EFI_SUCCESS, D') \<and> decoded D' \<and> \<not> pk_Unenroll D'
     \<and> (\<exists>l. rd32 (pk_Packet D') (the (pk_LSV D')) = Some l)"
proof -
  from example_decodes obtain D' where d: "DecodeIdentityPacket example_ids example_fresh () = Some (EFI_SUCCESS, D')"
    "pk_PayloadSize D' = 2" by (auto simp: DecodeIdentityPacket_def)
  note f = DecodeIdentityPacket_fields [OF _ _ _ _ d(1)]
  show ?thesis using d f by auto
qed

end
