(* ===== verification/Mailbox.thy ===== *)
theory Mailbox
  imports Packet_Decode Identity_Current Setting_Current Zero_Touch
begin

text \<open>
  The mailboxes of the DFCI manager: the variable policies (\<open>DfciVariablePolicies.h\<close>,
  \<open>DfciVarPolicies.c\<close>) and the part of \<open>DfciManager.c\<close> that reads the six mailbox variables into
  the manager's table and frees them again.  The services the manager calls, its three apply
  protocols included, are the record \<open>manager_env\<close>; \<open>'w\<close> is the state they act on.

  The theory shows that every mailbox the manager reads has a policy and is deleted, and that the
  table is well formed after it was allocated, whatever the mailboxes hold, apart from the packets
  that decoding reads past their end.
\<close>

section \<open>Variable policies\<close>

text \<open>\<open>None\<close> as a name is the NULL of a policy for all variables of a namespace.\<close>

record variable_policy =
  vp_Namespace :: string
  vp_Name :: "string option"
  vp_MinSize :: u32
  vp_MaxSize :: u32
  vp_AttributesMustHave :: u32
  vp_AttributesCantHave :: u32

abbreviation (input) VARIABLE_POLICY_NO_MIN_SIZE :: u32 where "VARIABLE_POLICY_NO_MIN_SIZE \<equiv> 0"
abbreviation (input) VARIABLE_POLICY_NO_MAX_SIZE :: u32 where "VARIABLE_POLICY_NO_MAX_SIZE \<equiv> 0xFFFFFFFF"

definition policy :: "string \<Rightarrow> string option \<Rightarrow> u32 \<Rightarrow> u32 \<Rightarrow> variable_policy" where
  "policy g n MaxSize Attributes = \<lparr>vp_Namespace = g, vp_Name = n, vp_MinSize = VARIABLE_POLICY_NO_MIN_SIZE, vp_MaxSize = MaxSize,
     vp_AttributesMustHave = Attributes, vp_AttributesCantHave = NOT Attributes\<rparr>"

definition gReadyToBootPolicies :: "variable_policy list" where
  "gReadyToBootPolicies = [
     policy gDfciAuthProvisionVarNamespace (Some ''DfciIdentityCurrent'') 8192 7,
     policy gDfciAuthProvisionVarNamespace (Some ''DfciIdentityResult'') 8192 7,
     policy gDfciAuthProvisionVarNamespace (Some ''DfciIdentity2Result'') 8192 7,
     policy gDfciPermissionManagerVarNamespace (Some ''DfciPermissionCurrent'') 8192 7,
     policy gDfciPermissionManagerVarNamespace (Some ''DfciPermissionResult'') 8192 7,
     policy gDfciPermissionManagerVarNamespace (Some ''DfciPermission2Result'') 8192 7,
     policy gDfciSettingsManagerVarNamespace (Some ''DfciSettingsCurrent'') 8192 7,
     policy gDfciSettingsManagerVarNamespace (Some ''DfciSettingsResult'') 8192 7,
     policy gDfciSettingsManagerVarNamespace (Some ''DfciSettings2Result'') 8192 7,
     policy gDfciInternalVariableGuid None VARIABLE_POLICY_NO_MAX_SIZE DFCI_INTERNAL_VAR_ATTRIBUTES,
     policy ''gDfciSettingsGuid'' None VARIABLE_POLICY_NO_MAX_SIZE 3,
     policy ''gDfciDeviceIdVarNamespace'' None 2048 7,
     policy gZeroTouchVariableGuid None 24576 ZERO_TOUCH_VARIABLE_ATTRIBUTES]"

definition gMailBoxPolicies :: "variable_policy list" where
  "gMailBoxPolicies = [
     policy gDfciAuthProvisionVarNamespace (Some ''DfciIdentityApply'') 24576 7,
     policy gDfciAuthProvisionVarNamespace (Some ''DfciIdentity2Apply'') 24576 7,
     policy gDfciPermissionManagerVarNamespace (Some ''DfciPermissionApply'') 24576 7,
     policy gDfciPermissionManagerVarNamespace (Some ''DfciPermission2Apply'') 24576 7,
     policy gDfciSettingsManagerVarNamespace (Some ''DfciSettingsRequest'') 24576 7,
     policy gDfciSettingsManagerVarNamespace (Some ''DfciSettings2Request'') 24576 7]"

section \<open>The manager's environment and state\<close>

text \<open>
  An apply protocol (\<open>DFCI_APPLY_PACKET_PROTOCOL\<close>).  The manager never calls it with a NULL packet;
  the packet is updated in place by the first and the last operation.
\<close>

record 'w apply_protocol =
  ApplyPacket :: "packet \<Rightarrow> 'w \<Rightarrow> (EFI_STATUS \<times> packet \<times> 'w) option"
  ApplyResult :: "packet \<Rightarrow> 'w \<Rightarrow> (EFI_STATUS \<times> 'w) option"
  Lkg :: "packet \<Rightarrow> u8 \<Rightarrow> 'w \<Rightarrow> (EFI_STATUS \<times> packet \<times> 'w) option"

text \<open>
  The pointer to an apply protocol in the manager's table is one of its three static variables.
  \<open>me_Locate\<close> gives the status of locating a protocol and whether the pointer is not NULL.
\<close>

datatype protocol = ApplyIdentityProtocol | ApplyPermissionsProtocol | ApplySettingsProtocol

record 'w manager_env =
  me_AllocateZeroPool :: "'w \<Rightarrow> bool \<times> 'w"
  me_GetVariable2 :: "string \<Rightarrow> string \<Rightarrow> 'w \<Rightarrow> EFI_STATUS \<times> bytes"
  me_SetVariable :: "string \<Rightarrow> string \<Rightarrow> u32 \<Rightarrow> bytes \<Rightarrow> 'w \<Rightarrow> EFI_STATUS \<times> 'w"
  me_Ids :: "'w device_id"
  me_Apply :: "protocol \<Rightarrow> 'w apply_protocol"
  me_Locate :: "protocol \<Rightarrow> 'w \<Rightarrow> EFI_STATUS \<times> bool"
  me_LocateSettingAccess :: "'w \<Rightarrow> EFI_STATUS"
  me_CreateEventEx :: "'w \<Rightarrow> EFI_STATUS \<times> 'w"
  me_CreateEvent :: "'w \<Rightarrow> EFI_STATUS \<times> 'w"
  me_RegisterProtocolNotify :: "'w \<Rightarrow> EFI_STATUS \<times> 'w"
  me_DfciUiIsUiAvailable :: "'w \<Rightarrow> bool"
  me_ResetNotification :: "'w \<Rightarrow> 'w"
  me_LocateVariablePolicy :: "'w \<Rightarrow> EFI_STATUS"
  me_RegisterVarStateVariablePolicy :: "variable_policy \<Rightarrow> 'w \<Rightarrow> EFI_STATUS \<times> 'w"
  me_RegisterBasicVariablePolicy :: "variable_policy \<Rightarrow> 'w \<Rightarrow> EFI_STATUS \<times> 'w"
  me_PcdSKUEnableDfci :: bool

text \<open>
  The static data of the manager.  The two events are booleans: the event exists and is registered.
  \<open>mg_EndOfDxeEvent\<close> is \<open>mEndOfDxeEvent\<close>, \<open>mg_SettingAccessEvent\<close> the event that
  \<open>QueueMailboxAtSettingAccess\<close> leaves behind.
\<close>

record manager_data =
  md_ApplyProtocol :: "protocol option"
  md_Data :: "packet option"
  md_DecodeStatus :: EFI_STATUS

record manager =
  mg_ManagerData :: "manager_data list"
  mg_EndOfDxeEvent :: bool
  mg_SettingAccessEvent :: bool
  mg_ProcessingAtEndOfDxe :: bool
  mg_RebootRequired :: bool

abbreviation (input) MGR_IDENTITY :: nat where "MGR_IDENTITY \<equiv> 0"
abbreviation (input) MGR_PERMISSIONS :: nat where "MGR_PERMISSIONS \<equiv> 1"
abbreviation (input) MGR_SETTINGS :: nat where "MGR_SETTINGS \<equiv> 2"
abbreviation (input) MGR_IDENTITY2 :: nat where "MGR_IDENTITY2 \<equiv> 3"
abbreviation (input) MGR_PERMISSIONS2 :: nat where "MGR_PERMISSIONS2 \<equiv> 4"
abbreviation (input) MGR_SETTINGS2 :: nat where "MGR_SETTINGS2 \<equiv> 5"
abbreviation (input) MGR_MAX :: nat where "MGR_MAX \<equiv> 6"

definition initial_manager :: manager where
  "initial_manager = \<lparr>mg_ManagerData = replicate MGR_MAX \<lparr>md_ApplyProtocol = None, md_Data = None, md_DecodeStatus = EFI_SUCCESS\<rparr>,
     mg_EndOfDxeEvent = False, mg_SettingAccessEvent = False, mg_ProcessingAtEndOfDxe = False, mg_RebootRequired = False\<rparr>"

section \<open>Policies and deletion of the mailboxes\<close>

text \<open>The result of a loop over policies is the status of the last registration.\<close>

fun register_policies :: "(variable_policy \<Rightarrow> 'w \<Rightarrow> EFI_STATUS \<times> 'w) \<Rightarrow> variable_policy list \<Rightarrow> EFI_STATUS \<Rightarrow> 'w \<Rightarrow> EFI_STATUS \<times> 'w" where
  "register_policies register [] Status w = (Status, w)"
| "register_policies register (p # ps) Status w = (case register p w of (Status, w1) \<Rightarrow> register_policies register ps Status w1)"

definition InitializeAndSetPolicyForAllDfciVariables :: "'w manager_env \<Rightarrow> 'w \<Rightarrow> EFI_STATUS \<times> 'w" where
  "InitializeAndSetPolicyForAllDfciVariables E w =
     (let Status = me_LocateVariablePolicy E w in
      if EFI_ERROR Status then (Status, w)
      else case register_policies (me_RegisterVarStateVariablePolicy E) gReadyToBootPolicies Status w of (Status, w1) \<Rightarrow>
        register_policies (me_RegisterBasicVariablePolicy E) gMailBoxPolicies Status w1)"

fun delete_mailboxes :: "'w manager_env \<Rightarrow> variable_policy list \<Rightarrow> EFI_STATUS \<Rightarrow> 'w \<Rightarrow> EFI_STATUS \<times> 'w" where
  "delete_mailboxes E [] ReturnStatus w = (ReturnStatus, w)"
| "delete_mailboxes E (p # ps) ReturnStatus w =
     (case me_SetVariable E (the (vp_Name p)) (vp_Namespace p) 0 [] w of (Status, w1) \<Rightarrow>
      delete_mailboxes E ps (if EFI_ERROR Status \<and> Status \<noteq> EFI_NOT_FOUND then Status else ReturnStatus) w1)"

definition DeleteAllMailboxes :: "'w manager_env \<Rightarrow> 'w \<Rightarrow> EFI_STATUS \<times> 'w" where
  "DeleteAllMailboxes E w = delete_mailboxes E gMailBoxPolicies EFI_SUCCESS w"

section \<open>Reading the mailboxes\<close>

text \<open>A zeroed packet with the names and the expected header of its mailbox.\<close>

definition new_packet :: "string \<Rightarrow> string \<Rightarrow> string \<Rightarrow> u32 \<Rightarrow> u8 \<Rightarrow> packet" where
  "new_packet VariableName ResultName NameSpace HdrSignature HdrVersion =
     (fresh_packet [] HdrSignature)\<lparr>pk_MailboxName := VariableName, pk_ResultName := ResultName, pk_NameSpace := NameSpace,
       pk_ExpectedVersion := HdrVersion\<rparr>"

definition InitializePacket :: "'w manager_env \<Rightarrow> string \<Rightarrow> string \<Rightarrow> string \<Rightarrow> u32 \<Rightarrow> u8
    \<Rightarrow> (packet \<Rightarrow> 'w \<Rightarrow> (EFI_STATUS \<times> packet) option) \<Rightarrow> protocol \<Rightarrow> manager_data option \<Rightarrow> 'w
    \<Rightarrow> (EFI_STATUS \<times> manager_data option \<times> 'w) option" where
  "InitializePacket E VariableName ResultName NameSpace HdrSignature HdrVersion Decoder ApplyProtocol MgrData w =
     (case MgrData of None \<Rightarrow> Some (EFI_INVALID_PARAMETER, None, w)
      | Some m \<Rightarrow> (case me_AllocateZeroPool E w of (ok, w1) \<Rightarrow>
         if \<not> ok then Some (EFI_OUT_OF_RESOURCES, Some (m\<lparr>md_Data := None\<rparr>), w1)
         else let D = new_packet VariableName ResultName NameSpace HdrSignature HdrVersion;
                  m = m\<lparr>md_ApplyProtocol := Some ApplyProtocol\<rparr>
           in (case me_GetVariable2 E VariableName NameSpace w1 of (Status, bs) \<Rightarrow>
             if EFI_ERROR Status
             then Some (EFI_SUCCESS, Some (m\<lparr>md_Data := Some (D\<lparr>pk_StatusCode := Status\<rparr>), md_DecodeStatus := Status\<rparr>), w1)
             else do {
               (Status, D) \<leftarrow> Decoder (D\<lparr>pk_Packet := bs, pk_PacketSize := length bs\<rparr>) w1;
               Some (EFI_SUCCESS, Some (m\<lparr>md_Data := Some D, md_DecodeStatus := Status\<rparr>), w1) })))"

text \<open>The six calls, in the order they are made: index in the table and arguments.\<close>

definition mailboxes :: "'w manager_env \<Rightarrow> (nat \<times> string \<times> string \<times> string \<times> u32
    \<times> (packet \<Rightarrow> 'w \<Rightarrow> (EFI_STATUS \<times> packet) option) \<times> protocol) list" where
  "mailboxes E = [
     (MGR_IDENTITY, ''DfciIdentityApply'', ''DfciIdentityResult'', gDfciAuthProvisionVarNamespace, 0x4150534D,
        DecodeIdentityPacket (me_Ids E), ApplyIdentityProtocol),
     (MGR_PERMISSIONS, ''DfciPermissionApply'', ''DfciPermissionResult'', gDfciPermissionManagerVarNamespace, 0x4150504D,
        DecodePacket (me_Ids E), ApplyPermissionsProtocol),
     (MGR_IDENTITY2, ''DfciIdentity2Apply'', ''DfciIdentity2Result'', gDfciAuthProvisionVarNamespace, 0x4150534D,
        DecodeIdentityPacket (me_Ids E), ApplyIdentityProtocol),
     (MGR_PERMISSIONS2, ''DfciPermission2Apply'', ''DfciPermission2Result'', gDfciPermissionManagerVarNamespace, 0x4150504D,
        DecodePacket (me_Ids E), ApplyPermissionsProtocol),
     (MGR_SETTINGS, ''DfciSettingsRequest'', ''DfciSettingsResult'', gDfciSettingsManagerVarNamespace, SETTINGS_APPLY_VAR_SIGNATURE,
        DecodePacket (me_Ids E), ApplySettingsProtocol),
     (MGR_SETTINGS2, ''DfciSettings2Request'', ''DfciSettings2Result'', gDfciSettingsManagerVarNamespace, SETTINGS_APPLY_VAR_SIGNATURE,
        DecodePacket (me_Ids E), ApplySettingsProtocol)]"

fun allocate_loop :: "'w manager_env \<Rightarrow> (nat \<times> string \<times> string \<times> string \<times> u32
    \<times> (packet \<Rightarrow> 'w \<Rightarrow> (EFI_STATUS \<times> packet) option) \<times> protocol) list \<Rightarrow> EFI_STATUS \<Rightarrow> manager \<Rightarrow> 'w
    \<Rightarrow> (EFI_STATUS \<times> manager \<times> 'w) option" where
  "allocate_loop E [] Status M w = Some (Status, M, w)"
| "allocate_loop E ((k, VariableName, ResultName, NameSpace, HdrSignature, Decoder, ApplyProtocol) # cs) Status M w = do {
     (Status, m, w1) \<leftarrow> InitializePacket E VariableName ResultName NameSpace HdrSignature 2 Decoder ApplyProtocol
        (Some (mg_ManagerData M ! k)) w;
     m \<leftarrow> m;
     let M = M\<lparr>mg_ManagerData := (mg_ManagerData M)[k := m]\<rparr>;
     if EFI_ERROR Status then Some (Status, M, w1)
     else allocate_loop E cs Status M w1 }"

definition AllocateManagerData :: "'w manager_env \<Rightarrow> manager \<Rightarrow> 'w \<Rightarrow> (EFI_STATUS \<times> manager \<times> 'w) option" where
  "AllocateManagerData E M w = allocate_loop E (mailboxes E) EFI_SUCCESS M w"

definition FreeManagerData :: "manager \<Rightarrow> manager" where
  "FreeManagerData M = M\<lparr>mg_ManagerData := map (\<lambda>m. m\<lparr>md_Data := None\<rparr>) (mg_ManagerData M)\<rparr>"

section \<open>The manager's table\<close>

text \<open>
  What decoding leaves alone, as a property of its result; a packet that was decoded is never in the
  initial state again.
\<close>

definition same_identity :: "packet \<Rightarrow> packet \<Rightarrow> bool" where
  "same_identity D D' \<longleftrightarrow> pk_Unenroll D' = pk_Unenroll D \<and> pk_MailboxName D' = pk_MailboxName D \<and> pk_ResultName D' = pk_ResultName D
     \<and> pk_NameSpace D' = pk_NameSpace D"

definition leaves :: "packet \<Rightarrow> (EFI_STATUS \<times> packet) option \<Rightarrow> bool" where
  "leaves D r \<longleftrightarrow> (\<forall>st D'. r = Some (st, D') \<longrightarrow>
     same_identity D D' \<and> pk_State D' \<noteq> STATE_UNINITIALIZED \<and> st \<noteq> EFI_MEDIA_CHANGED)"

lemma leaves_bind: "(\<And>x. leaves D (f x)) \<Longrightarrow> leaves D (m \<bind> f)"
  by (cases m) (auto simp: leaves_def)

lemma leaves_step:
  assumes m: "leaves D m"
    and f: "\<And>st D'. same_identity D D' \<Longrightarrow> pk_State D' \<noteq> STATE_UNINITIALIZED \<Longrightarrow> st \<noteq> EFI_MEDIA_CHANGED \<Longrightarrow> leaves D (f (st, D'))"
  shows "leaves D (m \<bind> f)"
proof (cases m)
  case None
  then show ?thesis by (simp add: leaves_def)
next
  case (Some x)
  obtain st D' where x: "x = (st, D')" by (cases x)
  have "same_identity D D'" "pk_State D' \<noteq> STATE_UNINITIALIZED" "st \<noteq> EFI_MEDIA_CHANGED" using m Some x unfolding leaves_def by blast+
  then have "leaves D (f (st, D'))" by (rule f)
  then show ?thesis by (simp only: Some x Option.bind.simps)
qed

lemma leaves_if: "(c \<Longrightarrow> leaves D r) \<Longrightarrow> (\<not> c \<Longrightarrow> leaves D r') \<Longrightarrow> leaves D (if c then r else r')"
  by simp

lemma leaves_Some: "same_identity D D' \<Longrightarrow> pk_State D' \<noteq> STATE_UNINITIALIZED \<Longrightarrow> st \<noteq> EFI_MEDIA_CHANGED \<Longrightarrow> leaves D (Some (st, D'))"
  by (simp add: leaves_def)

lemma leaves_invalid: "same_identity D D' \<Longrightarrow> st \<noteq> EFI_MEDIA_CHANGED \<Longrightarrow> leaves D (Some (invalid_packet st D'))"
  by (simp add: leaves_def invalid_packet_def same_identity_def)

lemma leaves_CheckTarget: "same_identity D D1 \<Longrightarrow> pk_State D1 \<noteq> STATE_UNINITIALIZED \<Longrightarrow> leaves D (CheckTarget D1 i p n)"
  by (auto simp: CheckTarget_def wrong_target_def leaves_def same_identity_def split: Option.bind_splits prod.splits if_splits)

lemma leaves_check_targets:
  assumes "same_identity D D1" "pk_State D1 \<noteq> STATE_UNINITIALIZED"
  shows "leaves D (check_targets ids m p q D1 s)"
  using assms unfolding check_targets_def
  by (auto intro!: leaves_step leaves_if leaves_Some leaves_CheckTarget)

lemma leaves_decode_signature:
  assumes "same_identity D D1" "pk_State D1 \<noteq> STATE_UNINITIALIZED"
  shows "leaves D (decode_signature D1)"
  using assms by (auto simp: decode_signature_def invalid_packet_def leaves_def same_identity_def Let_def split: Option.bind_splits if_splits)

lemma leaves_DecodePacket: "leaves D (DecodePacket ids D s)"
  unfolding DecodePacket_def Let_def
  by (intro leaves_if leaves_invalid leaves_bind leaves_step [OF leaves_decode_signature])
    (auto simp: decode_fields_def same_identity_def intro!: leaves_if leaves_Some leaves_check_targets)

lemma DecodePacket_keeps:
  "DecodePacket ids D s = Some (st, D') \<Longrightarrow> same_identity D D' \<and> pk_State D' \<noteq> STATE_UNINITIALIZED \<and> st \<noteq> EFI_MEDIA_CHANGED"
  using leaves_DecodePacket [of D ids s] by (simp add: leaves_def)

text \<open>
  The contract of an entry: its packet carries the names of its mailbox and of its result variable and
  their namespace; a packet that passed decoding is completely described and waits to be applied, and
  only an identity packet without payload is put off as a removal.
\<close>

definition identity_index :: "nat \<Rightarrow> bool" where
  "identity_index k \<longleftrightarrow> k = MGR_IDENTITY \<or> k = MGR_IDENTITY2"

definition entry_protocol :: "nat \<Rightarrow> protocol" where
  "entry_protocol k = (if identity_index k then ApplyIdentityProtocol
     else if k = MGR_PERMISSIONS \<or> k = MGR_PERMISSIONS2 then ApplyPermissionsProtocol else ApplySettingsProtocol)"

text \<open>The mailbox, the result variable and the namespace of an index (\<open>DfciManager.c\<close>, \<open>DfciSystemSettingTypes.h\<close>).\<close>

definition entry_names :: "nat \<Rightarrow> string \<times> string \<times> string" where
  "entry_names k = [
     (''DfciIdentityApply'', ''DfciIdentityResult'', gDfciAuthProvisionVarNamespace),
     (''DfciPermissionApply'', ''DfciPermissionResult'', gDfciPermissionManagerVarNamespace),
     (''DfciSettingsRequest'', ''DfciSettingsResult'', gDfciSettingsManagerVarNamespace),
     (''DfciIdentity2Apply'', ''DfciIdentity2Result'', gDfciAuthProvisionVarNamespace),
     (''DfciPermission2Apply'', ''DfciPermission2Result'', gDfciPermissionManagerVarNamespace),
     (''DfciSettings2Request'', ''DfciSettings2Result'', gDfciSettingsManagerVarNamespace)] ! k"

definition entry_wf :: "nat \<Rightarrow> manager_data \<Rightarrow> bool" where
  "entry_wf k m \<longleftrightarrow> md_ApplyProtocol m = Some (entry_protocol k) \<and> (\<exists>D. md_Data m = Some D
     \<and> (pk_MailboxName D, pk_ResultName D, pk_NameSpace D) = entry_names k
     \<and> (pk_Packet D \<noteq> [] \<longrightarrow> pk_State D \<noteq> STATE_UNINITIALIZED \<and> md_DecodeStatus m \<noteq> EFI_MEDIA_CHANGED)
     \<and> (\<not> EFI_ERROR (md_DecodeStatus m) \<longrightarrow> decoded D \<and> (identity_index k \<longrightarrow> pk_PayloadSize D = 0 \<longrightarrow> pk_Unenroll D))
     \<and> (pk_Unenroll D \<longrightarrow> identity_index k \<and> pk_PayloadSize D = 0 \<and> \<not> EFI_ERROR (md_DecodeStatus m)))"

definition manager_wf :: "manager \<Rightarrow> bool" where
  "manager_wf M \<longleftrightarrow> length (mg_ManagerData M) = MGR_MAX \<and> (\<forall>k < MGR_MAX. entry_wf k (mg_ManagerData M ! k))"

lemma new_packet_simps [simp]:
  "pk_Payload (new_packet v r g h x) = None" "pk_ExpectedSignature (new_packet v r g h x) = h" "\<not> pk_Unenroll (new_packet v r g h x)"
  "pk_Packet (new_packet v r g h x) = []" "pk_MailboxName (new_packet v r g h x) = v" "pk_ResultName (new_packet v r g h x) = r"
  "pk_NameSpace (new_packet v r g h x) = g"
  by (simp_all add: new_packet_def) (simp_all add: fresh_packet_def)

text \<open>
  The two decoders end for every content of the variable, except where the debug message of
  \<open>CheckTarget\<close> reads too far.
\<close>

lemma DecodePacket_entry:
  assumes "pk_PacketSize D = length (pk_Packet D)" "pk_Payload D = None" "\<not> unterminated_target (pk_Packet D)"
  obtains st D' where "DecodePacket ids D w = Some (st, D')" "pk_State D' \<noteq> STATE_UNINITIALIZED" "same_identity D D'"
    "st \<noteq> EFI_MEDIA_CHANGED" "\<not> EFI_ERROR st \<longrightarrow> decoded D'"
  using assms(1,2)
proof (cases rule: DecodePacket_cases [of D ids w])
  case (1 st D')
  with DecodePacket_keeps [OF 1(1)] that show ?thesis by blast
next
  case 2
  with assms(3) show ?thesis by simp
next
  case (3 D')
  with DecodePacket_keeps [OF 3(1)] that show ?thesis by blast
qed

definition decodes :: "nat \<Rightarrow> (packet \<Rightarrow> 'w \<Rightarrow> (EFI_STATUS \<times> packet) option) \<Rightarrow> bool" where
  "decodes k Decoder \<longleftrightarrow> (\<forall>D w. pk_PacketSize D = length (pk_Packet D) \<longrightarrow> pk_Payload D = None \<longrightarrow> \<not> pk_Unenroll D
     \<longrightarrow> (pk_MailboxName D, pk_ResultName D, pk_NameSpace D) = entry_names k \<longrightarrow>
     (case Decoder D w of None \<Rightarrow> unterminated_target (pk_Packet D) \<and> pk_ExpectedSignature D = SETTINGS_APPLY_VAR_SIGNATURE
      | Some (st, D') \<Rightarrow> entry_wf k \<lparr>md_ApplyProtocol = Some (entry_protocol k), md_Data = Some D', md_DecodeStatus = st\<rparr>))"

lemma decoders:
  "\<not> identity_index k \<Longrightarrow> decodes k (DecodePacket ids)"
  "identity_index k \<Longrightarrow> decodes k (DecodeIdentityPacket ids)"
proof -
  show "decodes k (DecodePacket ids)" if "\<not> identity_index k"
    unfolding decodes_def
  proof (intro allI impI)
    fix D :: packet and w assume a: "pk_PacketSize D = length (pk_Packet D)" "pk_Payload D = None" "\<not> pk_Unenroll D"
      "(pk_MailboxName D, pk_ResultName D, pk_NameSpace D) = entry_names k"
    show "case DecodePacket ids D w of None \<Rightarrow> unterminated_target (pk_Packet D) \<and> pk_ExpectedSignature D = SETTINGS_APPLY_VAR_SIGNATURE
      | Some (st, D') \<Rightarrow> entry_wf k \<lparr>md_ApplyProtocol = Some (entry_protocol k), md_Data = Some D', md_DecodeStatus = st\<rparr>"
      using a(1,2) by (cases rule: DecodePacket_cases [of D ids w])
        (use that a DecodePacket_keeps [of ids D w] in \<open>auto simp: entry_wf_def same_identity_def\<close>)
  qed
  show "decodes k (DecodeIdentityPacket ids)" if "identity_index k"
    unfolding decodes_def
  proof (intro allI impI)
    fix D :: packet and w assume a: "pk_PacketSize D = length (pk_Packet D)" "pk_Payload D = None" "\<not> pk_Unenroll D"
      "(pk_MailboxName D, pk_ResultName D, pk_NameSpace D) = entry_names k"
    show "case DecodeIdentityPacket ids D w of None \<Rightarrow> unterminated_target (pk_Packet D) \<and> pk_ExpectedSignature D = SETTINGS_APPLY_VAR_SIGNATURE
      | Some (st, D') \<Rightarrow> entry_wf k \<lparr>md_ApplyProtocol = Some (entry_protocol k), md_Data = Some D', md_DecodeStatus = st\<rparr>"
      using a(1,2) by (cases rule: DecodePacket_cases [of D ids w])
        (use that a DecodePacket_keeps [of ids D w] in \<open>auto simp: entry_wf_def same_identity_def DecodeIdentityPacket_def\<close>)
  qed
qed

text \<open>A mailbox on which reading fails: an unsigned settings packet with an unterminated target.\<close>

definition bad_mailbox :: "'w manager_env \<Rightarrow> string \<Rightarrow> string \<Rightarrow> 'w \<Rightarrow> bool" where
  "bad_mailbox E v g w = (case me_GetVariable2 E v g w of (st, bs) \<Rightarrow> \<not> EFI_ERROR st \<and> unterminated_target bs)"

lemma InitializePacket_entry:
  assumes d: "decodes k Decoder" "ApplyProtocol = entry_protocol k" "(v, r, g) = entry_names k"
  shows "case InitializePacket E v r g h x Decoder ApplyProtocol (Some m) w of
      None \<Rightarrow> h = SETTINGS_APPLY_VAR_SIGNATURE \<and> bad_mailbox E v g (snd (me_AllocateZeroPool E w))
    | Some (st, m', w') \<Rightarrow> w' = snd (me_AllocateZeroPool E w) \<and> (\<exists>m1. m' = Some m1
        \<and> (st = EFI_OUT_OF_RESOURCES \<and> \<not> fst (me_AllocateZeroPool E w) \<or> st = EFI_SUCCESS \<and> entry_wf k m1))"
proof -
  obtain ok w1 where a: "me_AllocateZeroPool E w = (ok, w1)" by (metis prod.exhaust)
  obtain gs bs where g: "me_GetVariable2 E v g w1 = (gs, bs)" by (metis prod.exhaust)
  let ?D = "(new_packet v r g h x)\<lparr>pk_Packet := bs, pk_PacketSize := length bs\<rparr>"
  have "case Decoder ?D w1 of None \<Rightarrow> unterminated_target bs \<and> h = SETTINGS_APPLY_VAR_SIGNATURE
      | Some (st, D') \<Rightarrow> entry_wf k \<lparr>md_ApplyProtocol = Some (entry_protocol k), md_Data = Some D', md_DecodeStatus = st\<rparr>"
    using d(1)[unfolded decodes_def, rule_format, of ?D w1] d(3) by (simp split: option.splits prod.splits)
  then show ?thesis
    using a g d(2,3) by (cases "Decoder ?D w1") (auto simp: InitializePacket_def Let_def bad_mailbox_def entry_wf_def)
qed

text \<open>Allocating memory leaves the mailboxes alone.\<close>

definition alloc_keeps_mailboxes :: "'w manager_env \<Rightarrow> bool" where
  "alloc_keeps_mailboxes E \<longleftrightarrow> (\<forall>n g w. me_GetVariable2 E n g (snd (me_AllocateZeroPool E w)) = me_GetVariable2 E n g w)"

lemma bad_mailbox_alloc: "alloc_keeps_mailboxes E \<Longrightarrow> bad_mailbox E v g (snd (me_AllocateZeroPool E w)) = bad_mailbox E v g w"
  by (simp add: bad_mailbox_def alloc_keeps_mailboxes_def)

definition settings_mailboxes :: "(string \<times> string) set" where
  "settings_mailboxes = {(''DfciSettingsRequest'', gDfciSettingsManagerVarNamespace), (''DfciSettings2Request'', gDfciSettingsManagerVarNamespace)}"

definition call_ok :: "nat \<times> string \<times> string \<times> string \<times> u32 \<times> (packet \<Rightarrow> 'w \<Rightarrow> (EFI_STATUS \<times> packet) option) \<times> protocol \<Rightarrow> bool" where
  "call_ok = (\<lambda>(k, v, r, g, h, Decoder, P). k < MGR_MAX \<and> decodes k Decoder \<and> P = entry_protocol k \<and> (v, r, g) = entry_names k
     \<and> (h = SETTINGS_APPLY_VAR_SIGNATURE \<longrightarrow> (v, g) \<in> settings_mailboxes))"

definition table_after :: "'w manager_env \<Rightarrow> nat set \<Rightarrow> manager \<Rightarrow> EFI_STATUS \<Rightarrow> manager \<Rightarrow> bool" where
  "table_after E ks M st M' \<longleftrightarrow> length (mg_ManagerData M') = MGR_MAX \<and> (st = EFI_OUT_OF_RESOURCES \<and> (\<exists>w. \<not> fst (me_AllocateZeroPool E w))
     \<or> st = EFI_SUCCESS \<and> (\<forall>k < MGR_MAX. k \<in> ks \<or> entry_wf k (mg_ManagerData M ! k) \<longrightarrow> entry_wf k (mg_ManagerData M' ! k)))"

lemma table_after_step:
  assumes "table_after E ks (M\<lparr>mg_ManagerData := (mg_ManagerData M)[k := m]\<rparr>) st M'" "entry_wf k m" "length (mg_ManagerData M) = MGR_MAX"
  shows "table_after E (insert k ks) M st M'"
proof -
  have "entry_wf j ((mg_ManagerData M)[k := m] ! j)" if "entry_wf j (mg_ManagerData M ! j) \<or> j = k" "j < MGR_MAX" for j
    using that assms(2,3) by (cases "j = k") auto
  then show ?thesis using assms(1) by (auto simp: table_after_def)
qed

lemma allocate_loop_wf:
  assumes "list_all call_ok cs" "length (mg_ManagerData M) = MGR_MAX"
  shows "case allocate_loop E cs EFI_SUCCESS M w of
      None \<Rightarrow> alloc_keeps_mailboxes E \<longrightarrow> (\<exists>(v, g) \<in> settings_mailboxes. bad_mailbox E v g w)
    | Some (st, M', w') \<Rightarrow> table_after E (fst ` set cs) M st M'"
  using assms
proof (induction cs arbitrary: M w)
  case (Cons c cs)
  obtain k v r g h Decoder P where c: "c = (k, v, r, g, h, Decoder, P)" by (metis prod_cases7)
  with Cons.prems(1) have k: "k < MGR_MAX" "decodes k Decoder" "P = entry_protocol k" "(v, r, g) = entry_names k"
    "h = SETTINGS_APPLY_VAR_SIGNATURE \<longrightarrow> (v, g) \<in> settings_mailboxes" by (simp_all add: call_ok_def)
  define I where "I = InitializePacket E v r g h 2 Decoder P (Some (mg_ManagerData M ! k)) w"
  note i = InitializePacket_entry [OF k(2-4), where E = E and h = h and x = 2 and m = "mg_ManagerData M ! k" and w = w, folded I_def]
  let ?w = "snd (me_AllocateZeroPool E w)"
  consider (none) "I = None" "h = SETTINGS_APPLY_VAR_SIGNATURE" "bad_mailbox E v g ?w"
    | (memory) m where "I = Some (EFI_OUT_OF_RESOURCES, Some m, ?w)" "\<not> fst (me_AllocateZeroPool E w)"
    | (ok) m where "I = Some (EFI_SUCCESS, Some m, ?w)" "entry_wf k m"
    using i by (cases I) auto
  then show ?case
  proof cases
    case none
    then have "allocate_loop E (c # cs) EFI_SUCCESS M w = None" by (simp add: c I_def)
    then show ?thesis using none(2,3) k(5) by (auto simp: bad_mailbox_alloc intro!: bexI [of _ "(v, g)"])
  next
    case memory
    then show ?thesis using Cons.prems(2) by (auto simp: c I_def [symmetric] table_after_def Let_def)
  next
    case ok
    let ?M = "M\<lparr>mg_ManagerData := (mg_ManagerData M)[k := m]\<rparr>"
    have l: "length (mg_ManagerData ?M) = MGR_MAX" using Cons.prems(2) by simp
    have "allocate_loop E (c # cs) EFI_SUCCESS M w = allocate_loop E cs EFI_SUCCESS ?M ?w"
      using ok by (simp add: c I_def [symmetric] Let_def)
    with Cons.IH [OF _ l, of ?w] Cons.prems ok(2) show ?thesis
      using table_after_step [of E "fst ` set cs" M k m]
      by (auto simp: c bad_mailbox_alloc split: option.splits)
  qed
qed (simp add: table_after_def)

lemma mailboxes_ok: "list_all call_ok (mailboxes E)"
  by (auto simp: call_ok_def mailboxes_def entry_protocol_def identity_index_def entry_names_def settings_mailboxes_def intro: decoders)

lemma AllocateManagerData_table:
  assumes "AllocateManagerData E initial_manager w = Some (st, M, w')"
  shows "st = EFI_OUT_OF_RESOURCES \<and> (\<exists>w. \<not> fst (me_AllocateZeroPool E w)) \<or> st = EFI_SUCCESS \<and> manager_wf M"
proof -
  have ks: "k \<in> fst ` set (mailboxes E)" if "k < MGR_MAX" for k using that by (auto simp: mailboxes_def)
  have "length (mg_ManagerData initial_manager) = MGR_MAX" by (simp add: initial_manager_def)
  from allocate_loop_wf [OF mailboxes_ok [of E] this, of E w] assms ks show ?thesis
    unfolding AllocateManagerData_def manager_wf_def table_after_def by auto
qed

text \<open>
  Property C30: whatever the six mailbox variables hold, reading them ends without undefined
  behaviour, unless one of the two settings mailboxes holds an unsigned packet with an unterminated
  target.  The status is out of resources only when an allocation fails; otherwise every entry of the
  manager's table has the mailbox, the result variable and the namespace of its index and its apply
  protocol, and its packet has the state its status asks for.
\<close>

theorem AllocateManagerData_wf:
  assumes "alloc_keeps_mailboxes E"
  shows "(AllocateManagerData E initial_manager w = None \<and> (\<exists>(v, g) \<in> settings_mailboxes. bad_mailbox E v g w))
    \<or> (\<exists>st M w'. AllocateManagerData E initial_manager w = Some (st, M, w')
        \<and> (st = EFI_OUT_OF_RESOURCES \<and> (\<exists>w. \<not> fst (me_AllocateZeroPool E w)) \<or> st = EFI_SUCCESS \<and> manager_wf M))"
proof (cases "AllocateManagerData E initial_manager w")
  case None
  have "length (mg_ManagerData initial_manager) = MGR_MAX" by (simp add: initial_manager_def)
  from allocate_loop_wf [OF mailboxes_ok [of E] this, of E w] None assms show ?thesis unfolding AllocateManagerData_def by auto
next
  case (Some r)
  then show ?thesis using AllocateManagerData_table [of E w] by (cases r) auto
qed

section \<open>Deleting the mailboxes\<close>

text \<open>
  The UEFI variable services: writing no data deletes the variable, a variable that does not exist
  is reported as not found, and other variables keep their contents.
\<close>

definition deletion_laws :: "'w manager_env \<Rightarrow> bool" where
  "deletion_laws E \<longleftrightarrow>
     (\<forall>n g w st w'. me_SetVariable E n g 0 [] w = (st, w') \<longrightarrow> \<not> EFI_ERROR st \<or> st = EFI_NOT_FOUND \<longrightarrow> EFI_ERROR (fst (me_GetVariable2 E n g w')))
   \<and> (\<forall>n g a d w st w' n' g'. me_SetVariable E n g a d w = (st, w') \<longrightarrow> (n', g') \<noteq> (n, g) \<longrightarrow> me_GetVariable2 E n' g' w' = me_GetVariable2 E n' g' w)"

lemma deletion_lawsD:
  "deletion_laws E \<Longrightarrow> me_SetVariable E n g 0 [] w = (st, w') \<Longrightarrow> \<not> EFI_ERROR st \<or> st = EFI_NOT_FOUND \<Longrightarrow> EFI_ERROR (fst (me_GetVariable2 E n g w'))"
  "deletion_laws E \<Longrightarrow> me_SetVariable E n g a d w = (st, w') \<Longrightarrow> (n', g') \<noteq> (n, g) \<Longrightarrow> me_GetVariable2 E n' g' w' = me_GetVariable2 E n' g' w"
  unfolding deletion_laws_def by blast+

lemma delete_mailboxes_error: "EFI_ERROR r \<Longrightarrow> EFI_ERROR (fst (delete_mailboxes E ps r w))"
  by (induction E ps r w rule: delete_mailboxes.induct) (auto split: prod.splits)

lemma delete_mailboxes_gone:
  assumes l: "deletion_laws E"
  shows "delete_mailboxes E ps r w = (st, w') \<Longrightarrow> \<not> EFI_ERROR st \<Longrightarrow>
     (\<exists>p \<in> set ps. n = the (vp_Name p) \<and> g = vp_Namespace p) \<or> EFI_ERROR (fst (me_GetVariable2 E n g w))
     \<Longrightarrow> EFI_ERROR (fst (me_GetVariable2 E n g w'))"
proof (induction ps arbitrary: r w)
  case (Cons p ps)
  obtain u w1 where d: "me_SetVariable E (the (vp_Name p)) (vp_Namespace p) 0 [] w = (u, w1)" by (metis prod.exhaust)
  let ?r = "if EFI_ERROR u \<and> u \<noteq> EFI_NOT_FOUND then u else r"
  have rec: "delete_mailboxes E ps ?r w1 = (st, w')" using Cons.prems(1) d by simp
  have u: "\<not> EFI_ERROR u \<or> u = EFI_NOT_FOUND"
    using delete_mailboxes_error [of ?r E ps w1] rec Cons.prems(2) by (auto split: if_splits)
  have "EFI_ERROR (fst (me_GetVariable2 E n g w1))" if "(n, g) = (the (vp_Name p), vp_Namespace p) \<or> EFI_ERROR (fst (me_GetVariable2 E n g w))"
    using deletion_lawsD(1) [OF l d u] deletion_lawsD(2) [OF l d, of n g] that by (cases "(n, g) = (the (vp_Name p), vp_Namespace p)") auto
  with Cons.IH [OF rec Cons.prems(2)] Cons.prems(3) show ?case by auto
qed simp

lemma DeleteAllMailboxes_gone:
  assumes "deletion_laws E" "DeleteAllMailboxes E w = (st, w')" "\<not> EFI_ERROR st"
    and "(k, v, r, g, rest) \<in> set (mailboxes E)"
  shows "EFI_ERROR (fst (me_GetVariable2 E v g w'))"
proof -
  have "\<exists>p \<in> set gMailBoxPolicies. v = the (vp_Name p) \<and> g = vp_Namespace p"
    using assms(4) by (auto simp: mailboxes_def gMailBoxPolicies_def policy_def)
  from delete_mailboxes_gone [OF assms(1) assms(2) [unfolded DeleteAllMailboxes_def] assms(3)] this show ?thesis by blast
qed

end
