(* ===== verification/Dfci_Manager.thy ===== *)
theory Dfci_Manager
  imports Mailbox
begin

text \<open>
  The DFCI manager (\<open>DfciManager.c\<close>): it applies the identity, permission and settings packets that
  were found in the mailboxes, in a fixed order, and commits or restores the identity and permission
  packets together.  Processing may be put off until the end of the driver phase, where the local
  user can be asked.  Undefined behaviour, here the use of a NULL packet, is the result \<open>None\<close>.
\<close>

section \<open>Queueing\<close>

definition QueueMailboxAtEndOfDxe :: "manager \<Rightarrow> EFI_STATUS" where
  "QueueMailboxAtEndOfDxe M = (if mg_ProcessingAtEndOfDxe M then EFI_SUCCESS else EFI_MEDIA_CHANGED)"

section \<open>Applying and completing one packet\<close>

text \<open>The result carries the packet and whether a restart is required.\<close>

definition ProcessApplyPacket :: "'w manager_env \<Rightarrow> manager \<Rightarrow> packet \<Rightarrow> protocol \<Rightarrow> 'w
    \<Rightarrow> (EFI_STATUS \<times> packet \<times> bool \<times> 'w) option" where
  "ProcessApplyPacket E M Data P w = do {
     (Status, Data, w1) \<leftarrow> ApplyPacket (me_Apply E P) Data w;
     Some (if EFI_ERROR Status then (Status, Data, mg_RebootRequired M, w1)
       else let delayed = (pk_State Data = STATE_DATA_DELAYED_PROCESSING);
                Status = (if delayed then QueueMailboxAtEndOfDxe M else Status);
                Data = (if delayed then Data\<lparr>pk_State := STATE_DATA_PRESENT\<rparr> else Data)
         in (Status, Data, mg_RebootRequired M \<or> pk_ResetRequired Data, w1)) }"

definition set_data :: "nat \<Rightarrow> packet \<Rightarrow> manager \<Rightarrow> manager" where
  "set_data k D M = M\<lparr>mg_ManagerData := (mg_ManagerData M)[k := (mg_ManagerData M ! k)\<lparr>md_Data := Some D\<rparr>]\<rparr>"

definition ProcessPacket :: "'w manager_env \<Rightarrow> nat \<Rightarrow> manager \<Rightarrow> 'w \<Rightarrow> (EFI_STATUS \<times> manager \<times> 'w) option" where
  "ProcessPacket E k M w =
     (let MgrData = mg_ManagerData M ! k in
      case md_Data MgrData of
        None \<Rightarrow> Some (EFI_SUCCESS, M, w)
      | Some Data \<Rightarrow>
        if pk_Packet Data = [] then Some (EFI_SUCCESS, M, w)
        else let Status = md_DecodeStatus MgrData in
          if \<not> EFI_ERROR Status \<and> \<not> pk_Unenroll Data then do {
            P \<leftarrow> md_ApplyProtocol MgrData;
            (Status, Data, reboot, w1) \<leftarrow> ProcessApplyPacket E M Data P w;
            Some (Status, (set_data k Data M)\<lparr>mg_RebootRequired := reboot\<rparr>, w1) }
          else Some (Status, M, w))"

definition ProcessUnEnrollPacket :: "'w manager_env \<Rightarrow> nat \<Rightarrow> manager \<Rightarrow> 'w \<Rightarrow> (EFI_STATUS \<times> manager \<times> 'w) option" where
  "ProcessUnEnrollPacket E k M w = do {
     (Status, M, w) \<leftarrow> ProcessPacket E k M w;
     if EFI_ERROR Status then Some (Status, M, w)
     else do {
       Data \<leftarrow> md_Data (mg_ManagerData M ! k);
       if pk_Packet Data \<noteq> [] \<and> pk_Unenroll Data then do {
         (Status, Data, reboot, w1) \<leftarrow> ProcessApplyPacket E M Data ApplyIdentityProtocol w;
         let M = set_data k Data M;
         Some (Status, M\<lparr>mg_RebootRequired := (if Status = EFI_MEDIA_CHANGED then reboot else True)\<rparr>, w1) }
       else Some (Status, M, w) } }"

definition CompletePacket :: "'w manager_env \<Rightarrow> nat \<Rightarrow> EFI_STATUS \<Rightarrow> manager \<Rightarrow> 'w \<Rightarrow> (EFI_STATUS \<times> manager \<times> 'w) option" where
  "CompletePacket E k ApplyStatus M w = do {
     let MgrData = mg_ManagerData M ! k;
     Data \<leftarrow> md_Data MgrData;
     if pk_Packet Data = [] then Some (EFI_SUCCESS, M, w)
     else do {
       let LkgOperation = (if EFI_ERROR ApplyStatus then DFCI_LKG_RESTORE else DFCI_LKG_COMMIT);
       let Data = (if LkgOperation = DFCI_LKG_RESTORE \<and> pk_State Data = STATE_UNINITIALIZED
             then Data\<lparr>pk_State := STATE_ABORTED, pk_StatusCode := ApplyStatus\<rparr> else Data);
       P \<leftarrow> md_ApplyProtocol MgrData;
       (Status, Data, w1) \<leftarrow> Lkg (me_Apply E P) Data LkgOperation w;
       let M = set_data k Data M;
       if EFI_ERROR Status then Some (Status, M, w1)
       else do {
         (Status, w2) \<leftarrow> ApplyResult (me_Apply E P) Data w1;
         Some (Status, M, w2) } } }"

section \<open>Processing the mailboxes\<close>

text \<open>
  The first part processes identity and permission packets until one fails.  The result says whether
  processing is put off (only an identity packet can ask for that), and the last status.
\<close>

fun process_packets :: "'w manager_env \<Rightarrow> nat list \<Rightarrow> EFI_STATUS \<Rightarrow> manager \<Rightarrow> 'w
    \<Rightarrow> (bool \<times> EFI_STATUS \<times> manager \<times> 'w) option" where
  "process_packets E [] Status M w = Some (False, Status, M, w)"
| "process_packets E (k # ks) Status M w = do {
     (Status, M, w) \<leftarrow> ProcessPacket E k M w;
     if EFI_ERROR Status then Some (Status = EFI_MEDIA_CHANGED \<and> identity_index k, Status, M, w)
     else process_packets E ks Status M w }"

text \<open>A removal is completed in the last part only; \<open>MgrData->Data->Unenroll\<close> needs a packet.\<close>

definition complete_unless_unenroll :: "'w manager_env \<Rightarrow> nat \<Rightarrow> EFI_STATUS \<Rightarrow> manager \<Rightarrow> 'w \<Rightarrow> (manager \<times> 'w) option" where
  "complete_unless_unenroll E k LkgStatus M w = do {
     Data \<leftarrow> md_Data (mg_ManagerData M ! k);
     if pk_Unenroll Data then Some (M, w)
     else map_option snd (CompletePacket E k LkgStatus M w) }"

definition complete_packets :: "'w manager_env \<Rightarrow> EFI_STATUS \<Rightarrow> manager \<Rightarrow> 'w \<Rightarrow> (manager \<times> 'w) option" where
  "complete_packets E LkgStatus M w = do {
     (_, M, w) \<leftarrow> CompletePacket E MGR_PERMISSIONS2 LkgStatus M w;
     (_, M, w) \<leftarrow> CompletePacket E MGR_PERMISSIONS LkgStatus M w;
     (M, w) \<leftarrow> complete_unless_unenroll E MGR_IDENTITY LkgStatus M w;
     complete_unless_unenroll E MGR_IDENTITY2 LkgStatus M w }"

definition process_settings :: "'w manager_env \<Rightarrow> nat \<Rightarrow> manager \<Rightarrow> 'w \<Rightarrow> (manager \<times> 'w) option" where
  "process_settings E k M w = do {
     (_, M, w) \<leftarrow> ProcessPacket E k M w;
     (_, M, w) \<leftarrow> CompletePacket E k EFI_SUCCESS M w;
     Some (M, w) }"

definition unenroll_packet :: "'w manager_env \<Rightarrow> nat \<Rightarrow> EFI_STATUS \<Rightarrow> manager \<Rightarrow> 'w \<Rightarrow> (bool \<times> EFI_STATUS \<times> manager \<times> 'w) option" where
  "unenroll_packet E k Status M w = do {
     Data \<leftarrow> md_Data (mg_ManagerData M ! k);
     if \<not> pk_Unenroll Data then Some (False, Status, M, w)
     else do {
       (Status, M, w) \<leftarrow> ProcessUnEnrollPacket E k M w;
       if Status = EFI_MEDIA_CHANGED then Some (True, Status, M, w)
       else do {
         (_, M, w) \<leftarrow> CompletePacket E k Status M w;
         Some (False, Status, M, w) } } }"

definition final_exit :: "'w manager_env \<Rightarrow> manager \<Rightarrow> 'w \<Rightarrow> manager \<times> 'w" where
  "final_exit E M w =
     (let M = (FreeManagerData M)\<lparr>mg_EndOfDxeEvent := False\<rparr>;
          w = snd (DeleteAllMailboxes E w)
      in (M, if mg_RebootRequired M then me_ResetNotification E w else w))"

definition ProcessMailBoxes :: "'w manager_env \<Rightarrow> manager \<Rightarrow> 'w \<Rightarrow> (EFI_STATUS \<times> manager \<times> 'w) option" where
  "ProcessMailBoxes E M w = do {
     (early, Status, M, w) \<leftarrow> process_packets E [MGR_IDENTITY, MGR_PERMISSIONS, MGR_IDENTITY2, MGR_PERMISSIONS2] EFI_SUCCESS M w;
     if early then Some (Status, M, w)
     else do {
       let LkgStatus = (if EFI_ERROR Status then Status else EFI_SUCCESS);
       (M, w) \<leftarrow> complete_packets E LkgStatus M w;
       (M, w) \<leftarrow> process_settings E MGR_SETTINGS M w;
       (M, w) \<leftarrow> process_settings E MGR_SETTINGS2 M w;
       (early, Status, M, w) \<leftarrow> unenroll_packet E MGR_IDENTITY2 Status M w;
       if early then Some (Status, M, w)
       else do {
         (early, Status, M, w) \<leftarrow> unenroll_packet E MGR_IDENTITY Status M w;
         if early then Some (Status, M, w)
         else (case final_exit E M w of (M, w) \<Rightarrow> Some (Status, M, w)) } } }"

section \<open>Callbacks and entry\<close>

text \<open>The changes of the task priority level around \<open>ProcessMailBoxes\<close> have no effect on the state.\<close>

definition RunProcessMailBoxes :: "'w manager_env \<Rightarrow> manager \<Rightarrow> 'w \<Rightarrow> (manager \<times> 'w) option" where
  "RunProcessMailBoxes E M w = map_option snd (ProcessMailBoxes E M w)"

definition EndOfDxeCallback :: "'w manager_env \<Rightarrow> manager \<Rightarrow> 'w \<Rightarrow> (manager \<times> 'w) option" where
  "EndOfDxeCallback E M w =
     (if \<not> me_DfciUiIsUiAvailable E w then Some (M, w)
      else do {
        (M, w) \<leftarrow> RunProcessMailBoxes E (M\<lparr>mg_ProcessingAtEndOfDxe := True\<rparr>) w;
        Some (M\<lparr>mg_EndOfDxeEvent := False\<rparr>, w) })"

definition SettingAccessCallback :: "'w manager_env \<Rightarrow> manager \<Rightarrow> 'w \<Rightarrow> (manager \<times> 'w) option" where
  "SettingAccessCallback E M w = do {
     (M, w) \<leftarrow> RunProcessMailBoxes E M w;
     Some (M\<lparr>mg_SettingAccessEvent := False\<rparr>, w) }"

definition QueueMailboxAtSettingAccess :: "'w manager_env \<Rightarrow> manager \<Rightarrow> 'w \<Rightarrow> (EFI_STATUS \<times> manager \<times> 'w) option" where
  "QueueMailboxAtSettingAccess E M w =
     (if EFI_ERROR (me_LocateSettingAccess E w) then
        (case me_CreateEvent E w of (Status, w1) \<Rightarrow>
          if EFI_ERROR Status then Some (Status, M, w1)
          else case me_RegisterProtocolNotify E w1 of (Status, w2) \<Rightarrow>
            if EFI_ERROR Status then Some (Status, M, w2)
            else Some (EFI_MEDIA_CHANGED, M\<lparr>mg_SettingAccessEvent := True\<rparr>, w2))
      else ProcessMailBoxes E M w)"

text \<open>Whether all the protocols the manager needs are found.\<close>

definition locate_protocols :: "'w manager_env \<Rightarrow> 'w \<Rightarrow> bool" where
  "locate_protocols E w = list_all (\<lambda>P. case me_Locate E P w of (Status, found) \<Rightarrow> \<not> EFI_ERROR Status \<and> found)
     [ApplyIdentityProtocol, ApplyPermissionsProtocol, ApplySettingsProtocol]"

definition error_exit :: "'w manager_env \<Rightarrow> manager \<Rightarrow> 'w \<Rightarrow> EFI_STATUS \<times> manager \<times> 'w" where
  "error_exit E M w = (EFI_SUCCESS, FreeManagerData M, snd (DeleteAllMailboxes E w))"

definition DfciManagerEntry :: "'w manager_env \<Rightarrow> manager \<Rightarrow> 'w \<Rightarrow> (EFI_STATUS \<times> manager \<times> 'w) option" where
  "DfciManagerEntry E M w =
     (case InitializeAndSetPolicyForAllDfciVariables E w of (Status, w) \<Rightarrow>
      if EFI_ERROR Status then Some (error_exit E M w)
      else if \<not> me_PcdSKUEnableDfci E then Some (error_exit E M w)
      else if \<not> locate_protocols E w then Some (error_exit E M w)
      else do {
        (Status, M, w) \<leftarrow> AllocateManagerData E M w;
        if EFI_ERROR Status then Some (error_exit E M w)
        else (case me_CreateEventEx E w of (Status, w) \<Rightarrow>
          if EFI_ERROR Status then Some (error_exit E M w)
          else do {
            (Status, M, w) \<leftarrow> QueueMailboxAtSettingAccess E (M\<lparr>mg_EndOfDxeEvent := True\<rparr>) w;
            if Status \<noteq> EFI_MEDIA_CHANGED then
              (if EFI_ERROR Status then Some (error_exit E M w)
               else Some (EFI_SUCCESS, M\<lparr>mg_EndOfDxeEvent := False\<rparr>, w))
            else Some (EFI_SUCCESS, M, w) }) })"

section \<open>What the operations keep of the manager's state\<close>

text \<open>The table is allocated, or it was freed; \<open>mg_frame\<close> is what all operations before the final exit keep.\<close>

definition table_ok :: "manager \<Rightarrow> bool" where
  "table_ok M \<longleftrightarrow> length (mg_ManagerData M) = MGR_MAX
     \<and> (\<forall>k < MGR_MAX. md_ApplyProtocol (mg_ManagerData M ! k) = Some (entry_protocol k)
          \<and> (\<exists>D. md_Data (mg_ManagerData M ! k) = Some D \<and> (pk_Packet D = [] \<or> md_DecodeStatus (mg_ManagerData M ! k) \<noteq> EFI_MEDIA_CHANGED)))"

definition table_freed :: "manager \<Rightarrow> bool" where
  "table_freed M \<longleftrightarrow> length (mg_ManagerData M) = MGR_MAX \<and> list_all (\<lambda>m. md_Data m = None) (mg_ManagerData M)"

definition mg_frame :: "manager \<Rightarrow> manager \<Rightarrow> bool" where
  "mg_frame M M' \<longleftrightarrow> (table_ok M \<longrightarrow> table_ok M') \<and> mg_EndOfDxeEvent M' = mg_EndOfDxeEvent M
     \<and> mg_SettingAccessEvent M' = mg_SettingAccessEvent M \<and> mg_ProcessingAtEndOfDxe M' = mg_ProcessingAtEndOfDxe M"

lemma mg_frame_refl [simp]: "mg_frame M M"
  by (simp add: mg_frame_def)

lemma mg_frame_trans [trans]: "mg_frame a b \<Longrightarrow> mg_frame b c \<Longrightarrow> mg_frame a c"
  by (simp add: mg_frame_def)

lemma set_data_frame:
  assumes "md_Data (mg_ManagerData M ! k) = Some D0" "pk_Packet D0 \<noteq> []"
  shows "mg_frame M (set_data k D M)"
  using assms by (cases "k < length (mg_ManagerData M)")
    (fastforce simp: mg_frame_def table_ok_def set_data_def nth_list_update list_update_beyond)+

lemma reboot_frame [simp]: "mg_frame M (M'\<lparr>mg_RebootRequired := b\<rparr>) = mg_frame M M'"
  by (simp add: mg_frame_def table_ok_def)

lemma ProcessPacket_frame: "ProcessPacket E k M w = Some (st, M', w') \<Longrightarrow> mg_frame M M'"
  by (auto simp: ProcessPacket_def Let_def set_data_frame split: option.splits if_splits Option.bind_splits)

lemma ProcessUnEnrollPacket_frame: "ProcessUnEnrollPacket E k M w = Some (st, M', w') \<Longrightarrow> mg_frame M M'"
  by (auto simp: ProcessUnEnrollPacket_def Let_def dest!: ProcessPacket_frame split: if_splits Option.bind_splits)
    (meson mg_frame_trans set_data_frame)+

lemma CompletePacket_frame: "CompletePacket E k st0 M w = Some (st, M', w') \<Longrightarrow> mg_frame M M'"
  by (auto simp: CompletePacket_def Let_def set_data_frame split: option.splits if_splits Option.bind_splits)

lemma process_packets_frame: "process_packets E ks st0 M w = Some (e, st, M', w') \<Longrightarrow> mg_frame M M'"
proof (induction ks arbitrary: st0 M w)
  case (Cons k ks)
  then show ?case
    by (auto split: Option.bind_splits if_splits dest!: ProcessPacket_frame) (meson mg_frame_trans)
qed simp

lemma complete_unless_unenroll_frame: "complete_unless_unenroll E k st M w = Some (M', w') \<Longrightarrow> mg_frame M M'"
  by (auto simp: complete_unless_unenroll_def dest: CompletePacket_frame split: Option.bind_splits if_splits)

lemma complete_packets_frame: "complete_packets E st M w = Some (M', w') \<Longrightarrow> mg_frame M M'"
  by (auto simp: complete_packets_def split: Option.bind_splits dest!: CompletePacket_frame complete_unless_unenroll_frame)
    (meson mg_frame_trans)

lemma process_settings_frame: "process_settings E k M w = Some (M', w') \<Longrightarrow> mg_frame M M'"
  by (auto simp: process_settings_def split: Option.bind_splits dest!: CompletePacket_frame ProcessPacket_frame)
    (meson mg_frame_trans)

lemma unenroll_packet_frame: "unenroll_packet E k st0 M w = Some (e, st, M', w') \<Longrightarrow> mg_frame M M'"
  by (auto simp: unenroll_packet_def split: Option.bind_splits if_splits dest!: CompletePacket_frame ProcessUnEnrollPacket_frame)
    (meson mg_frame_trans)

lemmas manager_frames = process_packets_frame complete_packets_frame process_settings_frame unenroll_packet_frame

section \<open>Processing returns\<close>

lemma mg_frameD:
  "mg_frame M M' \<Longrightarrow> table_ok M \<Longrightarrow> table_ok M'" "mg_frame M M' \<Longrightarrow> mg_ProcessingAtEndOfDxe M' = mg_ProcessingAtEndOfDxe M"
  by (simp_all add: mg_frame_def)

text \<open>
  Every loop of the manager is bounded by the table, so processing returns whenever the calls of the
  apply protocols do: with an allocated table no step meets a NULL packet or a missing protocol.

  The protocols cannot return for every packet and every state: a packet that was not decoded may be
  read outside its bytes.  The contract is therefore stated for a class \<open>G\<close> of packets per protocol and
  a class \<open>W\<close> of states: on these the calls return, and they lead to these again.  The manager itself
  changes only the state and the status code of a packet.
\<close>

definition returns_in :: "'w manager_env \<Rightarrow> (protocol \<Rightarrow> packet \<Rightarrow> bool) \<Rightarrow> ('w \<Rightarrow> bool) \<Rightarrow> bool" where
  "returns_in E G W \<longleftrightarrow> (\<forall>P D w. G P D \<longrightarrow>
     G P (D\<lparr>pk_State := STATE_DATA_PRESENT\<rparr>) \<and> (\<forall>st. G P (D\<lparr>pk_State := STATE_ABORTED, pk_StatusCode := st\<rparr>))
     \<and> (W w \<longrightarrow> (\<exists>st D' w'. ApplyPacket (me_Apply E P) D w = Some (st, D', w') \<and> G P D' \<and> W w')
        \<and> (\<exists>st w'. ApplyResult (me_Apply E P) D w = Some (st, w') \<and> W w')
        \<and> (\<forall>i. \<exists>st D' w'. Lkg (me_Apply E P) D i w = Some (st, D', w') \<and> G P D' \<and> W w')))"

lemma returns_inD:
  assumes "returns_in E G W" "G P D"
  shows "G P (D\<lparr>pk_State := STATE_DATA_PRESENT\<rparr>)" "G P (D\<lparr>pk_State := STATE_ABORTED, pk_StatusCode := st\<rparr>)"
    "W w \<Longrightarrow> \<exists>st D' w'. ApplyPacket (me_Apply E P) D w = Some (st, D', w') \<and> G P D' \<and> W w'"
    "W w \<Longrightarrow> \<exists>st w'. ApplyResult (me_Apply E P) D w = Some (st, w') \<and> W w'"
    "W w \<Longrightarrow> \<exists>st D' w'. Lkg (me_Apply E P) D i w = Some (st, D', w') \<and> G P D' \<and> W w'"
  using assms unfolding returns_in_def by blast+

text \<open>Every packet that is present is in the class of its protocol.\<close>

definition packets_in :: "(protocol \<Rightarrow> packet \<Rightarrow> bool) \<Rightarrow> manager \<Rightarrow> bool" where
  "packets_in G M \<longleftrightarrow> (\<forall>k < MGR_MAX. \<forall>D. md_Data (mg_ManagerData M ! k) = Some D \<longrightarrow> pk_Packet D \<noteq> [] \<longrightarrow> G (entry_protocol k) D)"

lemma packets_inD: "packets_in G M \<Longrightarrow> k < MGR_MAX \<Longrightarrow> md_Data (mg_ManagerData M ! k) = Some D \<Longrightarrow> pk_Packet D \<noteq> [] \<Longrightarrow> G (entry_protocol k) D"
  by (simp add: packets_in_def)

lemma packets_in_flags [simp]:
  "packets_in G (M\<lparr>mg_RebootRequired := b\<rparr>) = packets_in G M" "packets_in G (M\<lparr>mg_ProcessingAtEndOfDxe := b\<rparr>) = packets_in G M"
  by (simp_all add: packets_in_def)

lemma set_data_in:
  assumes "packets_in G M" "G (entry_protocol k) D" "k < length (mg_ManagerData M)"
  shows "packets_in G (set_data k D M)"
  using assms by (auto simp: packets_in_def set_data_def nth_list_update)

definition good :: "(protocol \<Rightarrow> packet \<Rightarrow> bool) \<Rightarrow> ('w \<Rightarrow> bool) \<Rightarrow> manager \<Rightarrow> 'w \<Rightarrow> bool" where
  "good G W M w \<longleftrightarrow> table_ok M \<and> packets_in G M \<and> W w"

lemma table_okE:
  assumes "table_ok M" "k < MGR_MAX"
  obtains D where "md_Data (mg_ManagerData M ! k) = Some D" "md_ApplyProtocol (mg_ManagerData M ! k) = Some (entry_protocol k)"
    "k < length (mg_ManagerData M)"
  using assms unfolding table_ok_def by auto

lemma ProcessApplyPacket_returns:
  assumes r: "returns_in E G W" and D: "G P D" and w: "W w"
  obtains st D' b w' where "ProcessApplyPacket E M D P w = Some (st, D', b, w')" "G P D'" "W w'"
proof -
  obtain st D1 w1 where a: "ApplyPacket (me_Apply E P) D w = Some (st, D1, w1)" "G P D1" "W w1" using returns_inD(3) [OF r D w] by blast
  have "G P (D1\<lparr>pk_State := STATE_DATA_PRESENT\<rparr>)" by (rule returns_inD(1) [OF r a(2)])
  with that a show thesis by (cases "EFI_ERROR st"; cases "pk_State D1 = STATE_DATA_DELAYED_PROCESSING")
      (auto simp: ProcessApplyPacket_def Let_def)
qed

lemma ProcessPacket_returns:
  assumes r: "returns_in E G W" and g: "good G W M w" and k: "k < MGR_MAX"
  obtains st M' w' where "ProcessPacket E k M w = Some (st, M', w')" "good G W M' w'"
proof -
  have t: "table_ok M" "packets_in G M" "W w" using g by (simp_all add: good_def)
  obtain D where D: "md_Data (mg_ManagerData M ! k) = Some D" "md_ApplyProtocol (mg_ManagerData M ! k) = Some (entry_protocol k)"
    "k < length (mg_ManagerData M)" by (rule table_okE [OF t(1) k])
  have "\<exists>st M' w'. ProcessPacket E k M w = Some (st, M', w') \<and> packets_in G M' \<and> W w'"
  proof (cases "pk_Packet D = [] \<or> EFI_ERROR (md_DecodeStatus (mg_ManagerData M ! k)) \<or> pk_Unenroll D")
    case True
    then show ?thesis using D t by (auto simp: ProcessPacket_def Let_def)
  next
    case False
    then have "G (entry_protocol k) D" using packets_inD [OF t(2) k D(1)] by simp
    then obtain st D' b w' where "ProcessApplyPacket E M D (entry_protocol k) w = Some (st, D', b, w')" "G (entry_protocol k) D'" "W w'"
      by (rule ProcessApplyPacket_returns [OF r _ t(3)])
    then show ?thesis using False D t set_data_in [OF t(2) _ D(3), of D'] by (simp add: ProcessPacket_def Let_def)
  qed
  then obtain st M' w' where p: "ProcessPacket E k M w = Some (st, M', w')" "packets_in G M'" "W w'" by blast
  then show thesis using that mg_frameD(1) [OF ProcessPacket_frame [OF p(1)] t(1)] by (simp add: good_def)
qed

lemma CompletePacket_returns:
  assumes r: "returns_in E G W" and g: "good G W M w" and k: "k < MGR_MAX"
  obtains st M' w' where "CompletePacket E k st0 M w = Some (st, M', w')" "good G W M' w'"
proof -
  have t: "table_ok M" "packets_in G M" "W w" using g by (simp_all add: good_def)
  obtain D where D: "md_Data (mg_ManagerData M ! k) = Some D" "md_ApplyProtocol (mg_ManagerData M ! k) = Some (entry_protocol k)"
    "k < length (mg_ManagerData M)" by (rule table_okE [OF t(1) k])
  let ?P = "entry_protocol k" and ?op = "if EFI_ERROR st0 then DFCI_LKG_RESTORE else DFCI_LKG_COMMIT"
  let ?D = "if ?op = DFCI_LKG_RESTORE \<and> pk_State D = STATE_UNINITIALIZED then D\<lparr>pk_State := STATE_ABORTED, pk_StatusCode := st0\<rparr> else D"
  have "\<exists>st M' w'. CompletePacket E k st0 M w = Some (st, M', w') \<and> packets_in G M' \<and> W w'"
  proof (cases "pk_Packet D = []")
    case True
    then show ?thesis using D t by (simp add: CompletePacket_def)
  next
    case False
    then have G: "G ?P ?D" using packets_inD [OF t(2) k D(1)] returns_inD(2) [OF r, of ?P D] by simp
    obtain st1 D1 w1 where l: "Lkg (me_Apply E ?P) ?D ?op w = Some (st1, D1, w1)" "G ?P D1" "W w1" using returns_inD(5) [OF r G t(3)] by blast
    obtain st2 w2 where a: "ApplyResult (me_Apply E ?P) D1 w1 = Some (st2, w2)" "W w2" using returns_inD(4) [OF r l(2,3)] by blast
    have "CompletePacket E k st0 M w = Some (if EFI_ERROR st1 then (st1, set_data k D1 M, w1) else (st2, set_data k D1 M, w2))"
      using False D l(1) a(1) by (simp only: CompletePacket_def Let_def Option.bind.simps prod.case if_False if_True simp_thms) simp
    then show ?thesis using set_data_in [OF t(2) l(2) D(3)] l(3) a(2) by auto
  qed
  then obtain st M' w' where p: "CompletePacket E k st0 M w = Some (st, M', w')" "packets_in G M'" "W w'" by blast
  then show thesis using that mg_frameD(1) [OF CompletePacket_frame [OF p(1)] t(1)] by (simp add: good_def)
qed

lemma process_packets_returns:
  assumes r: "returns_in E G W" and "list_all (\<lambda>k. k < MGR_MAX) ks"
  shows "good G W M w \<Longrightarrow> \<exists>e st' M' w'. process_packets E ks st M w = Some (e, st', M', w') \<and> good G W M' w'"
  using assms(2)
proof (induction ks arbitrary: st M w)
  case (Cons k ks)
  have "k < MGR_MAX" using Cons.prems(2) by simp
  then obtain st1 M1 w1 where "ProcessPacket E k M w = Some (st1, M1, w1)" "good G W M1 w1"
    by (rule ProcessPacket_returns [OF r Cons.prems(1)])
  with Cons show ?case by auto
qed auto

lemma complete_unless_unenroll_returns:
  assumes r: "returns_in E G W" and g: "good G W M w" and k: "k < MGR_MAX"
  obtains M' w' where "complete_unless_unenroll E k st M w = Some (M', w')" "good G W M' w'"
proof -
  have "table_ok M" using g by (simp add: good_def)
  then obtain D where D: "md_Data (mg_ManagerData M ! k) = Some D" by (rule table_okE [OF _ k])
  obtain st1 M1 w1 where "CompletePacket E k st M w = Some (st1, M1, w1)" "good G W M1 w1" by (rule CompletePacket_returns [OF r g k])
  with D g that show thesis by (cases "pk_Unenroll D") (auto simp: complete_unless_unenroll_def)
qed

lemma complete_packets_returns:
  assumes r: "returns_in E G W" and g: "good G W M w"
  obtains M' w' where "complete_packets E st M w = Some (M', w')" "good G W M' w'"
proof -
  obtain s1 M1 w1 where 1: "CompletePacket E MGR_PERMISSIONS2 st M w = Some (s1, M1, w1)" "good G W M1 w1"
    by (rule CompletePacket_returns [OF r g, of MGR_PERMISSIONS2]) simp
  obtain s2 M2 w2 where 2: "CompletePacket E MGR_PERMISSIONS st M1 w1 = Some (s2, M2, w2)" "good G W M2 w2"
    by (rule CompletePacket_returns [OF r 1(2), of MGR_PERMISSIONS]) simp
  obtain M3 w3 where 3: "complete_unless_unenroll E MGR_IDENTITY st M2 w2 = Some (M3, w3)" "good G W M3 w3"
    by (rule complete_unless_unenroll_returns [OF r 2(2), of MGR_IDENTITY]) simp
  obtain M4 w4 where 4: "complete_unless_unenroll E MGR_IDENTITY2 st M3 w3 = Some (M4, w4)" "good G W M4 w4"
    by (rule complete_unless_unenroll_returns [OF r 3(2), of MGR_IDENTITY2]) simp
  show thesis using that 1 2 3 4 by (simp add: complete_packets_def)
qed

lemma process_settings_returns:
  assumes r: "returns_in E G W" and g: "good G W M w" and k: "k < MGR_MAX"
  obtains M' w' where "process_settings E k M w = Some (M', w')" "good G W M' w'"
proof -
  obtain st M1 w1 where 1: "ProcessPacket E k M w = Some (st, M1, w1)" "good G W M1 w1" by (rule ProcessPacket_returns [OF r g k])
  obtain st2 M2 w2 where "CompletePacket E k EFI_SUCCESS M1 w1 = Some (st2, M2, w2)" "good G W M2 w2"
    by (rule CompletePacket_returns [OF r 1(2) k])
  with 1 that show thesis by (simp add: process_settings_def)
qed

lemma ProcessUnEnrollPacket_returns:
  assumes r: "returns_in E G W" and g: "good G W M w" and k: "k < MGR_MAX" "identity_index k"
  obtains st M' w' where "ProcessUnEnrollPacket E k M w = Some (st, M', w')" "good G W M' w'"
proof -
  obtain st1 M1 w1 where 1: "ProcessPacket E k M w = Some (st1, M1, w1)" "good G W M1 w1" by (rule ProcessPacket_returns [OF r g k(1)])
  have t: "table_ok M1" "packets_in G M1" "W w1" using 1(2) by (simp_all add: good_def)
  obtain D where D: "md_Data (mg_ManagerData M1 ! k) = Some D" "k < length (mg_ManagerData M1)" by (rule table_okE [OF t(1) k(1)])
  show thesis
  proof (cases "\<not> EFI_ERROR st1 \<and> pk_Packet D \<noteq> [] \<and> pk_Unenroll D")
    case True
    have P: "entry_protocol k = ApplyIdentityProtocol" using k(2) by (simp add: entry_protocol_def)
    have "G ApplyIdentityProtocol D" using packets_inD [OF t(2) k(1) D(1)] True P by simp
    then obtain st D' b w' where a: "ProcessApplyPacket E M1 D ApplyIdentityProtocol w1 = Some (st, D', b, w')" "G ApplyIdentityProtocol D'" "W w'"
      by (rule ProcessApplyPacket_returns [OF r _ t(3)])
    have "packets_in G (set_data k D' M1)" using set_data_in [OF t(2) _ D(2)] a(2) P by simp
    moreover have "table_ok (set_data k D' M1)" using mg_frameD(1) [OF set_data_frame [OF D(1)] t(1)] True by simp
    then have "table_ok ((set_data k D' M1)\<lparr>mg_RebootRequired := x\<rparr>)" for x by (simp add: table_ok_def)
    ultimately show thesis using that 1 D(1) True a(1,3) by (simp add: ProcessUnEnrollPacket_def Let_def good_def)
  next
    case False
    then show thesis using that 1 D(1) by (auto simp: ProcessUnEnrollPacket_def)
  qed
qed

lemma unenroll_packet_returns:
  assumes r: "returns_in E G W" and g: "good G W M w" and k: "k < MGR_MAX" "identity_index k"
  obtains e st' M' w' where "unenroll_packet E k st M w = Some (e, st', M', w')" "good G W M' w'"
proof -
  have "table_ok M" using g by (simp add: good_def)
  then obtain D where D: "md_Data (mg_ManagerData M ! k) = Some D" by (rule table_okE [OF _ k(1)])
  obtain st1 M1 w1 where 1: "ProcessUnEnrollPacket E k M w = Some (st1, M1, w1)" "good G W M1 w1"
    by (rule ProcessUnEnrollPacket_returns [OF r g k])
  obtain st2 M2 w2 where 2: "CompletePacket E k st1 M1 w1 = Some (st2, M2, w2)" "good G W M2 w2"
    by (rule CompletePacket_returns [OF r 1(2) k(1)])
  show thesis using that D g 1 2 by (cases "pk_Unenroll D"; cases "st1 = EFI_MEDIA_CHANGED") (auto simp: unenroll_packet_def)
qed

lemma ProcessMailBoxes_returns:
  assumes r: "returns_in E G W" and g: "good G W M w"
  obtains st M' w' where "ProcessMailBoxes E M w = Some (st, M', w')"
proof -
  let ?ks = "[MGR_IDENTITY, MGR_PERMISSIONS, MGR_IDENTITY2, MGR_PERMISSIONS2]"
  obtain e1 st1 M1 w1 where 1: "process_packets E ?ks EFI_SUCCESS M w = Some (e1, st1, M1, w1)" "good G W M1 w1"
    using process_packets_returns [OF r _ g, of ?ks EFI_SUCCESS] by (auto simp del: process_packets.simps)
  obtain M2 w2 where 2: "complete_packets E (if EFI_ERROR st1 then st1 else EFI_SUCCESS) M1 w1 = Some (M2, w2)" "good G W M2 w2"
    by (rule complete_packets_returns [OF r 1(2)])
  obtain M3 w3 where 3: "process_settings E MGR_SETTINGS M2 w2 = Some (M3, w3)" "good G W M3 w3"
    by (rule process_settings_returns [OF r 2(2), of MGR_SETTINGS]) simp
  obtain M4 w4 where 4: "process_settings E MGR_SETTINGS2 M3 w3 = Some (M4, w4)" "good G W M4 w4"
    by (rule process_settings_returns [OF r 3(2), of MGR_SETTINGS2]) simp
  obtain e5 st5 M5 w5 where 5: "unenroll_packet E MGR_IDENTITY2 st1 M4 w4 = Some (e5, st5, M5, w5)" "good G W M5 w5"
    by (rule unenroll_packet_returns [OF r 4(2), of MGR_IDENTITY2]) (simp_all add: identity_index_def)
  obtain e6 st6 M6 w6 where 6: "unenroll_packet E MGR_IDENTITY st5 M5 w5 = Some (e6, st6, M6, w6)"
    by (rule unenroll_packet_returns [OF r 5(2), of MGR_IDENTITY]) (simp_all add: identity_index_def)
  have "ProcessMailBoxes E M w \<noteq> None"
    using 1(1) 2(1) 3(1) 4(1) 5(1) 6 by (auto simp: ProcessMailBoxes_def simp del: process_packets.simps split: prod.splits)
  then show thesis using that by auto
qed

section \<open>Putting processing off\<close>

text \<open>What holds of a step that returns holds of its result.\<close>

lemma steps_good:
  assumes r: "returns_in E G W" and g: "good G W M w"
  shows "k < MGR_MAX \<Longrightarrow> ProcessPacket E k M w = Some (st, M', w') \<Longrightarrow> good G W M' w'"
    "list_all (\<lambda>k. k < MGR_MAX) ks \<Longrightarrow> process_packets E ks st0 M w = Some (e, st, M', w') \<Longrightarrow> good G W M' w'"
    "complete_packets E st0 M w = Some (M', w') \<Longrightarrow> good G W M' w'"
    "k < MGR_MAX \<Longrightarrow> process_settings E k M w = Some (M', w') \<Longrightarrow> good G W M' w'"
    "k < MGR_MAX \<Longrightarrow> identity_index k \<Longrightarrow> unenroll_packet E k st0 M w = Some (e, st, M', w') \<Longrightarrow> good G W M' w'"
proof -
  show "good G W M' w'" if "k < MGR_MAX" "ProcessPacket E k M w = Some (st, M', w')"
    by (rule ProcessPacket_returns [OF r g that(1)]) (use that(2) in simp)
  show "good G W M' w'" if "list_all (\<lambda>k. k < MGR_MAX) ks" "process_packets E ks st0 M w = Some (e, st, M', w')"
    using process_packets_returns [OF r that(1) g, of st0] that(2) by simp
  show "good G W M' w'" if "complete_packets E st0 M w = Some (M', w')"
    by (rule complete_packets_returns [OF r g, of st0]) (use that in simp)
  show "good G W M' w'" if "k < MGR_MAX" "process_settings E k M w = Some (M', w')"
    by (rule process_settings_returns [OF r g that(1)]) (use that(2) in simp)
  show "good G W M' w'" if "k < MGR_MAX" "identity_index k" "unenroll_packet E k st0 M w = Some (e, st, M', w')"
    by (rule unenroll_packet_returns [OF r g that(1,2), of st0]) (use that(3) in simp)
qed

text \<open>An apply protocol asks for the delay itself, for one of the packets and in one of the states.\<close>

definition asks_for_media_change :: "'w manager_env \<Rightarrow> (protocol \<Rightarrow> packet \<Rightarrow> bool) \<Rightarrow> ('w \<Rightarrow> bool) \<Rightarrow> bool" where
  "asks_for_media_change E G W \<longleftrightarrow> (\<exists>P D w D' w'. G P D \<and> W w \<and> ApplyPacket (me_Apply E P) D w = Some (EFI_MEDIA_CHANGED, D', w'))"

lemma ProcessApplyPacket_delay:
  "ProcessApplyPacket E M D P w = Some (EFI_MEDIA_CHANGED, D', r, w') \<Longrightarrow> G P D \<Longrightarrow> W w
    \<Longrightarrow> asks_for_media_change E G W \<or> \<not> mg_ProcessingAtEndOfDxe M"
  by (auto simp: ProcessApplyPacket_def asks_for_media_change_def QueueMailboxAtEndOfDxe_def Let_def
      split: Option.bind_splits if_splits)

lemma early_exit_status:
  "process_packets E ks st0 M w = Some (True, st, M', w') \<Longrightarrow> st = EFI_MEDIA_CHANGED"
  "unenroll_packet E k st0 M w = Some (True, st, M', w') \<Longrightarrow> st = EFI_MEDIA_CHANGED"
proof -
  show "process_packets E ks st0 M w = Some (True, st, M', w') \<Longrightarrow> st = EFI_MEDIA_CHANGED"
    by (induction E ks st0 M w rule: process_packets.induct) (auto split: Option.bind_splits if_splits)
qed (auto simp: unenroll_packet_def split: Option.bind_splits if_splits)

lemma ProcessPacket_delay:
  assumes p: "ProcessPacket E k M w = Some (EFI_MEDIA_CHANGED, M', w')" and g: "good G W M w" and k: "k < MGR_MAX"
  shows "asks_for_media_change E G W \<or> \<not> mg_ProcessingAtEndOfDxe M"
proof -
  have t: "table_ok M" "packets_in G M" "W w" using g by (simp_all add: good_def)
  obtain D where D: "md_Data (mg_ManagerData M ! k) = Some D" "md_ApplyProtocol (mg_ManagerData M ! k) = Some (entry_protocol k)"
    by (rule table_okE [OF t(1) k])
  have ne: "pk_Packet D \<noteq> []" "md_DecodeStatus (mg_ManagerData M ! k) \<noteq> EFI_MEDIA_CHANGED"
    using p t(1) k D by (auto simp: ProcessPacket_def Let_def table_ok_def)
  then obtain D' r where "ProcessApplyPacket E M D (entry_protocol k) w = Some (EFI_MEDIA_CHANGED, D', r, w')"
    using p D by (auto simp: ProcessPacket_def Let_def split: Option.bind_splits if_splits)
  from ProcessApplyPacket_delay [OF this, of G W] packets_inD [OF t(2) k D(1) ne(1)] t(3) show ?thesis by simp
qed

lemma process_packets_delay:
  assumes r: "returns_in E G W"
  shows "process_packets E ks st0 M w = Some (True, st, M', w') \<Longrightarrow> good G W M w \<Longrightarrow> list_all (\<lambda>k. k < MGR_MAX) ks
    \<Longrightarrow> asks_for_media_change E G W \<or> \<not> mg_ProcessingAtEndOfDxe M"
proof (induction ks arbitrary: st0 M w)
  case (Cons k ks)
  have k: "k < MGR_MAX" using Cons.prems(3) by simp
  obtain st1 M1 w1 where p: "ProcessPacket E k M w = Some (st1, M1, w1)" using Cons.prems(1) by (auto split: Option.bind_splits)
  have f: "mg_ProcessingAtEndOfDxe M1 = mg_ProcessingAtEndOfDxe M" by (rule mg_frameD(2) [OF ProcessPacket_frame [OF p]])
  show ?case
  proof (cases "EFI_ERROR st1")
    case True
    then show ?thesis using Cons.prems(1) p ProcessPacket_delay [OF _ Cons.prems(2) k] by auto
  next
    case False
    then show ?thesis using Cons.IH [of st1 M1 w1] Cons.prems p f steps_good(1) [OF r Cons.prems(2) k p] by simp
  qed
qed simp

lemma unenroll_packet_delay:
  assumes r: "returns_in E G W" and u: "unenroll_packet E k st0 M w = Some (True, st, M', w')" and g: "good G W M w"
    and k: "k < MGR_MAX" "identity_index k"
  shows "asks_for_media_change E G W \<or> \<not> mg_ProcessingAtEndOfDxe M"
proof -
  have "ProcessUnEnrollPacket E k M w = Some (EFI_MEDIA_CHANGED, M', w')"
    using u by (auto simp: unenroll_packet_def split: Option.bind_splits if_splits)
  then consider (process) "ProcessPacket E k M w = Some (EFI_MEDIA_CHANGED, M', w')"
    | (removal) st1 M1 w1 D D' b where "ProcessPacket E k M w = Some (st1, M1, w1)" "md_Data (mg_ManagerData M1 ! k) = Some D" "pk_Packet D \<noteq> []"
        "ProcessApplyPacket E M1 D ApplyIdentityProtocol w1 = Some (EFI_MEDIA_CHANGED, D', b, w')"
    by (auto simp: ProcessUnEnrollPacket_def Let_def split: Option.bind_splits if_splits)
  then show ?thesis
  proof cases
    case process
    then show ?thesis by (rule ProcessPacket_delay [OF _ g k(1)])
  next
    case removal
    have g1: "packets_in G M1" "W w1" using steps_good(1) [OF r g k(1) removal(1)] by (simp_all add: good_def)
    have "G ApplyIdentityProtocol D" using packets_inD [OF g1(1) k(1) removal(2,3)] k(2) by (simp add: entry_protocol_def)
    then show ?thesis
      using ProcessApplyPacket_delay [OF removal(4), of G W] g1(2) mg_frameD(2) [OF ProcessPacket_frame [OF removal(1)]] by simp
  qed
qed

section \<open>The two ways to leave\<close>

lemma ProcessMailBoxes_exits:
  assumes p: "ProcessMailBoxes E M w = Some (st, M', w')"
  shows "(st = EFI_MEDIA_CHANGED \<and> mg_frame M M'
      \<and> (\<forall>G W. returns_in E G W \<longrightarrow> good G W M w \<longrightarrow> asks_for_media_change E G W \<or> \<not> mg_ProcessingAtEndOfDxe M))
    \<or> (\<exists>M1 w1. mg_frame M M1 \<and> final_exit E M1 w1 = (M', w'))"
proof -
  let ?ks = "[MGR_IDENTITY, MGR_PERMISSIONS, MGR_IDENTITY2, MGR_PERMISSIONS2]"
  let ?delay = "\<lambda>G W. asks_for_media_change E G W \<or> \<not> mg_ProcessingAtEndOfDxe M"
  obtain e1 st1 M1 w1 where 1: "process_packets E ?ks EFI_SUCCESS M w = Some (e1, st1, M1, w1)"
    using p by (auto simp: ProcessMailBoxes_def split: Option.bind_splits)
  note f1 = process_packets_frame [OF 1]
  show ?thesis
  proof (cases e1)
    case True
    have e: "process_packets E ?ks EFI_SUCCESS M w = Some (True, st1, M1, w1)" using 1 True by simp
    have "?delay G W" if "returns_in E G W" "good G W M w" for G W
      by (rule process_packets_delay [OF that(1) e that(2)]) simp
    moreover have "st1 = EFI_MEDIA_CHANGED" using early_exit_status(1) [of E ?ks] 1 True by (simp del: process_packets.simps)
    ultimately show ?thesis using 1 p f1 True by (simp add: ProcessMailBoxes_def del: process_packets.simps)
  next
    case F1: False
    obtain M2 w2 M3 w3 M4 w4 where 2: "complete_packets E (if EFI_ERROR st1 then st1 else EFI_SUCCESS) M1 w1 = Some (M2, w2)"
      "process_settings E MGR_SETTINGS M2 w2 = Some (M3, w3)" "process_settings E MGR_SETTINGS2 M3 w3 = Some (M4, w4)"
      using p 1 F1 by (auto simp: ProcessMailBoxes_def simp del: process_packets.simps split: Option.bind_splits)
    have f4: "mg_frame M M4" by (meson f1 2 complete_packets_frame process_settings_frame mg_frame_trans)
    have g4: "good G W M4 w4" if r: "returns_in E G W" and g: "good G W M w" for G W
    proof -
      have "good G W M1 w1" by (rule steps_good(2) [OF r g _ 1]) simp
      then have "good G W M2 w2" by (rule steps_good(3) [OF r _ 2(1)])
      then have "good G W M3 w3" by (rule steps_good(4) [OF r _ _ 2(2)]) simp
      then show ?thesis by (rule steps_good(4) [OF r _ _ 2(3)]) simp
    qed
    obtain e5 st5 M5 w5 where 5: "unenroll_packet E MGR_IDENTITY2 st1 M4 w4 = Some (e5, st5, M5, w5)"
      using p 1 2 F1 by (auto simp: ProcessMailBoxes_def simp del: process_packets.simps split: Option.bind_splits)
    have f5: "mg_frame M M5" by (meson f4 5 unenroll_packet_frame mg_frame_trans)
    have d: "?delay G W" if r: "returns_in E G W" and g: "good G W M0 w0" and u: "unenroll_packet E k st0 M0 w0 = Some (True, st', M0', w0')"
      and f: "mg_frame M M0" and k: "k < MGR_MAX" "identity_index k" for G W k st0 M0 w0 st' M0' w0'
      using unenroll_packet_delay [OF r u g k] mg_frameD(2) [OF f] by simp
    have i: "identity_index MGR_IDENTITY" "identity_index MGR_IDENTITY2" by (simp_all add: identity_index_def)
    show ?thesis
    proof (cases e5)
      case True
      have "?delay G W" if "returns_in E G W" "good G W M w" for G W
        by (rule d [OF that(1) g4 [OF that] _ f4 _ i(2)]) (use 5 True in simp_all)
      then show ?thesis using 1 2 5 p F1 f5 True early_exit_status(2) [of E MGR_IDENTITY2 st1 M4 w4]
        by (simp add: ProcessMailBoxes_def del: process_packets.simps)
    next
      case F5: False
      obtain e6 st6 M6 w6 where 6: "unenroll_packet E MGR_IDENTITY st5 M5 w5 = Some (e6, st6, M6, w6)"
        using p 1 2 5 F1 F5 by (auto simp: ProcessMailBoxes_def simp del: process_packets.simps split: Option.bind_splits)
      have f6: "mg_frame M M6" by (meson f5 6 unenroll_packet_frame mg_frame_trans)
      show ?thesis
      proof (cases e6)
        case True
        have "?delay G W" if "returns_in E G W" "good G W M w" for G W
          by (rule d [OF that(1) steps_good(5) [OF that(1) g4 [OF that] _ i(2) 5] _ f5 _ i(1)]) (use 6 True in simp_all)
        then show ?thesis using 1 2 5 6 p F1 F5 f6 True early_exit_status(2) [of E MGR_IDENTITY st5 M5 w5]
          by (simp add: ProcessMailBoxes_def del: process_packets.simps)
      next
        case False
        then show ?thesis using 1 2 5 6 p F1 F5 f6 by (auto simp: ProcessMailBoxes_def simp del: process_packets.simps split: prod.splits)
      qed
    qed
  qed
qed

lemma final_exit_table:
  "final_exit E M w = (M', w') \<Longrightarrow> length (mg_ManagerData M) = MGR_MAX \<Longrightarrow> table_freed M' \<and> \<not> mg_EndOfDxeEvent M'
    \<and> mg_SettingAccessEvent M' = mg_SettingAccessEvent M"
  by (auto simp: final_exit_def FreeManagerData_def table_freed_def list_all_iff Let_def)

text \<open>
  The documented behaviour of the services that the end of processing relies on: a mailbox can be
  deleted, deleting follows the laws of the variable service, and the notification of a required
  restart does not create mailboxes.
\<close>

definition mailbox_services :: "'w manager_env \<Rightarrow> bool" where
  "mailbox_services E \<longleftrightarrow> deletion_laws E
     \<and> (\<forall>n g w. \<not> EFI_ERROR (fst (me_SetVariable E n g 0 [] w)) \<or> fst (me_SetVariable E n g 0 [] w) = EFI_NOT_FOUND)
     \<and> (\<forall>n g w. me_GetVariable2 E n g (me_ResetNotification E w) = me_GetVariable2 E n g w)"

definition mailboxes_empty :: "'w manager_env \<Rightarrow> 'w \<Rightarrow> bool" where
  "mailboxes_empty E w \<longleftrightarrow> list_all (\<lambda>(k, v, r, g, rest). EFI_ERROR (fst (me_GetVariable2 E v g w))) (mailboxes E)"

lemma delete_mailboxes_ok:
  assumes "mailbox_services E"
  shows "\<not> EFI_ERROR r \<Longrightarrow> \<not> EFI_ERROR (fst (delete_mailboxes E ps r w))"
proof (induction ps arbitrary: r w)
  case (Cons p ps)
  have "\<not> EFI_ERROR u \<or> u = EFI_NOT_FOUND" if "me_SetVariable E n g 0 [] w = (u, w1)" for n g u w1
    using assms that unfolding mailbox_services_def by (metis fst_conv)
  then show ?case using Cons by (auto split: prod.splits)
qed simp

lemma final_exit_mailboxes:
  assumes m: "mailbox_services E" and f: "final_exit E M w = (M', w')"
  shows "mailboxes_empty E w'"
proof -
  have l: "deletion_laws E" using m by (simp add: mailbox_services_def)
  obtain st w1 where d: "DeleteAllMailboxes E w = (st, w1)" by (metis prod.exhaust)
  have "\<not> EFI_ERROR st" using delete_mailboxes_ok [OF m, of EFI_SUCCESS gMailBoxPolicies w] d by (simp add: DeleteAllMailboxes_def)
  note gone = DeleteAllMailboxes_gone [OF l d this]
  have "me_GetVariable2 E v g w' = me_GetVariable2 E v g w1" for v g
    using f d m by (auto simp: final_exit_def Let_def mailbox_services_def)
  with gone show ?thesis unfolding mailboxes_empty_def list_all_iff by fastforce
qed

lemma ProcessMailBoxes_ends:
  assumes r: "returns_in E G W" and g: "good G W M w" and m: "mailbox_services E" and p: "ProcessMailBoxes E M w = Some (st, M', w')"
  shows "(table_freed M' \<and> \<not> mg_EndOfDxeEvent M' \<and> mailboxes_empty E w')
    \<or> (st = EFI_MEDIA_CHANGED \<and> table_ok M' \<and> mg_EndOfDxeEvent M' = mg_EndOfDxeEvent M
        \<and> (asks_for_media_change E G W \<or> \<not> mg_ProcessingAtEndOfDxe M))"
  using ProcessMailBoxes_exits [OF p]
proof
  assume "st = EFI_MEDIA_CHANGED \<and> mg_frame M M'
      \<and> (\<forall>G W. returns_in E G W \<longrightarrow> good G W M w \<longrightarrow> asks_for_media_change E G W \<or> \<not> mg_ProcessingAtEndOfDxe M)"
  then have "asks_for_media_change E G W \<or> \<not> mg_ProcessingAtEndOfDxe M" "st = EFI_MEDIA_CHANGED" "mg_frame M M'" using r g by blast+
  then show ?thesis using g by (auto simp: mg_frame_def good_def)
next
  assume "\<exists>M1 w1. mg_frame M M1 \<and> final_exit E M1 w1 = (M', w')"
  then obtain M1 w1 where f: "mg_frame M M1" "final_exit E M1 w1 = (M', w')" by blast
  have "length (mg_ManagerData M1) = MGR_MAX" using mg_frameD(1) [OF f(1)] g by (simp add: table_ok_def good_def)
  with final_exit_table [OF f(2)] final_exit_mailboxes [OF m f(2)] show ?thesis by simp
qed

text \<open>
  Property C10: when the calls of the apply protocols return on the packets of the table, and the
  mailboxes can be deleted, processing the mailboxes returns, whatever the protocols answer, and ends
  in one of two ways.  Either everything was processed: the packets are released, the event for the end
  of the driver phase is closed and all mailboxes are empty.  Or processing is put off: the status says
  so, every packet is still in the table and the events stay as they were.  At the end of the driver
  phase processing is not put off again, unless an apply protocol itself, on such a packet, returns the
  status that stands for it.
\<close>

theorem ProcessMailBoxes_completes_or_waits:
  assumes t: "table_ok M" and m: "mailbox_services E" and r: "returns_in E G W" "packets_in G M" "W w"
  shows "\<exists>st M' w'. ProcessMailBoxes E M w = Some (st, M', w')
    \<and> ((table_freed M' \<and> \<not> mg_EndOfDxeEvent M' \<and> mailboxes_empty E w')
      \<or> (st = EFI_MEDIA_CHANGED \<and> table_ok M' \<and> mg_EndOfDxeEvent M' = mg_EndOfDxeEvent M
          \<and> (asks_for_media_change E G W \<or> \<not> mg_ProcessingAtEndOfDxe M)))"
proof -
  have g: "good G W M w" using t r by (simp add: good_def)
  then obtain st M' w' where p: "ProcessMailBoxes E M w = Some (st, M', w')" by (rule ProcessMailBoxes_returns [OF r(1)])
  show ?thesis using p ProcessMailBoxes_ends [OF r(1) g m p] by blast
qed

section \<open>The driver through a boot\<close>

text \<open>
  The states the driver goes through: its entry point, then its callbacks, each at most while its
  event exists.  Between them the rest of the system runs and may do anything to its own state.
\<close>

inductive booted :: "'w manager_env \<Rightarrow> manager \<Rightarrow> 'w \<Rightarrow> bool" for E where
  entry: "DfciManagerEntry E initial_manager w = Some (st, M, w') \<Longrightarrow> booted E M w'"
| setting_access: "booted E M w \<Longrightarrow> mg_SettingAccessEvent M \<Longrightarrow> SettingAccessCallback E M w = Some (M', w') \<Longrightarrow> booted E M' w'"
| end_of_dxe: "booted E M w \<Longrightarrow> mg_EndOfDxeEvent M \<Longrightarrow> EndOfDxeCallback E M w = Some (M', w') \<Longrightarrow> booted E M' w'"
| other: "booted E M w \<Longrightarrow> booted E M w'"

inductive_cases bootedE: "booted E M w"

text \<open>The event services do not fail.\<close>

definition events_succeed :: "'w manager_env \<Rightarrow> bool" where
  "events_succeed E \<longleftrightarrow> (\<forall>w. \<not> EFI_ERROR (fst (me_CreateEvent E w)) \<and> \<not> EFI_ERROR (fst (me_RegisterProtocolNotify E w)))"

text \<open>Either the table is allocated, or it was freed and the event for the end of the driver phase is gone.\<close>

definition driver_inv :: "manager \<Rightarrow> bool" where
  "driver_inv M \<longleftrightarrow> table_ok M \<or> table_freed M \<and> \<not> mg_EndOfDxeEvent M"

text \<open>Processing after everything was released uses a NULL packet.\<close>

lemma ProcessMailBoxes_freed:
  assumes "table_freed M"
  shows "ProcessMailBoxes E M w = None"
proof -
  have d: "md_Data (mg_ManagerData M ! k) = None" if "k < MGR_MAX" for k
    using assms that by (simp add: table_freed_def list_all_length)
  then have "ProcessPacket E k M w = Some (EFI_SUCCESS, M, w)" if "k < MGR_MAX" for k
    using that by (simp add: ProcessPacket_def)
  moreover have "CompletePacket E MGR_PERMISSIONS2 EFI_SUCCESS M w = None"
    using d [of 4] by (simp add: CompletePacket_def)
  ultimately show ?thesis by (simp add: ProcessMailBoxes_def complete_packets_def)
qed

lemma manager_wf_table: "manager_wf M \<Longrightarrow> table_ok M"
  by (fastforce simp: manager_wf_def table_ok_def entry_wf_def)

lemma allocate_loop_flags: "allocate_loop E cs st0 M w = Some (st, M', w') \<Longrightarrow> mg_EndOfDxeEvent M' = mg_EndOfDxeEvent M
    \<and> length (mg_ManagerData M') = length (mg_ManagerData M)"
proof (induction cs arbitrary: st0 M w)
  case (Cons c cs)
  obtain k v r g h Decoder P where c: "c = (k, v, r, g, h, Decoder, P)" by (metis prod_cases7)
  show ?case using Cons by (fastforce simp: c Let_def split: Option.bind_splits if_splits)
qed simp

lemma ProcessMailBoxes_inv:
  assumes "ProcessMailBoxes E M w = Some (st, M', w')" "table_ok M"
  shows "driver_inv M' \<and> (mg_EndOfDxeEvent M' \<longrightarrow> st = EFI_MEDIA_CHANGED)"
  using ProcessMailBoxes_exits [OF assms(1)]
proof
  assume "\<exists>M1 w1. mg_frame M M1 \<and> final_exit E M1 w1 = (M', w')"
  then obtain M1 w1 where f: "mg_frame M M1" "final_exit E M1 w1 = (M', w')" by blast
  have "length (mg_ManagerData M1) = MGR_MAX" using mg_frameD(1) [OF f(1) assms(2)] by (simp add: table_ok_def)
  with final_exit_table [OF f(2)] show ?thesis by (simp add: driver_inv_def table_freed_def)
qed (use assms(2) in \<open>auto simp: mg_frame_def driver_inv_def\<close>)

lemma driver_inv_flags [simp]:
  "driver_inv (M\<lparr>mg_SettingAccessEvent := b\<rparr>) = driver_inv M" "driver_inv (M\<lparr>mg_ProcessingAtEndOfDxe := b\<rparr>) = driver_inv M"
  "table_ok (M\<lparr>mg_SettingAccessEvent := b\<rparr>) = table_ok M" "table_ok (M\<lparr>mg_ProcessingAtEndOfDxe := b\<rparr>) = table_ok M"
  "table_ok (M\<lparr>mg_EndOfDxeEvent := b\<rparr>) = table_ok M"
  by (simp_all add: driver_inv_def table_ok_def table_freed_def)

lemma QueueMailbox_inv:
  assumes "QueueMailboxAtSettingAccess E M w = Some (st, M', w')" "table_ok M" "events_succeed E"
  shows "driver_inv M' \<and> (mg_EndOfDxeEvent M' \<longrightarrow> st = EFI_MEDIA_CHANGED)"
proof (cases "EFI_ERROR (me_LocateSettingAccess E w)")
  case True
  have "\<not> EFI_ERROR a" if "me_CreateEvent E x = (a, y) \<or> me_RegisterProtocolNotify E x = (a, y)" for a x y
    using assms(3) that unfolding events_succeed_def by (metis fst_conv)
  then show ?thesis
    using assms(1,2) True by (auto simp: QueueMailboxAtSettingAccess_def driver_inv_def split: prod.splits if_splits)
next
  case False
  then show ?thesis using assms(1,2) ProcessMailBoxes_inv [of E M w st M' w'] by (simp add: QueueMailboxAtSettingAccess_def)
qed

lemma freed_inv: "length (mg_ManagerData M) = MGR_MAX \<Longrightarrow> \<not> mg_EndOfDxeEvent M \<Longrightarrow> driver_inv (FreeManagerData M)"
  by (simp add: driver_inv_def table_freed_def FreeManagerData_def list_all_iff)

lemma driver_inv_length: "driver_inv M \<Longrightarrow> length (mg_ManagerData M) = MGR_MAX"
  by (auto simp: driver_inv_def table_ok_def table_freed_def)

lemma DfciManagerEntry_inv:
  assumes e: "events_succeed E" and r: "DfciManagerEntry E initial_manager w = Some (st, M, w')"
  shows "driver_inv M"
proof -
  have init: "driver_inv (FreeManagerData initial_manager)" by (rule freed_inv) (simp_all add: initial_manager_def)
  have alloc': "mg_EndOfDxeEvent M1 = False \<and> length (mg_ManagerData M1) = MGR_MAX"
    if "AllocateManagerData E initial_manager x = Some (a, M1, y)" for a x y M1
    using allocate_loop_flags [OF that [unfolded AllocateManagerData_def]] by (simp add: initial_manager_def)
  have ok: "table_ok M1" if "AllocateManagerData E initial_manager x = Some (a, M1, y)" "\<not> EFI_ERROR a" for a x y M1
    using AllocateManagerData_table [OF that(1)] that(2) by (auto intro: manager_wf_table)
  consider (free) "M = FreeManagerData initial_manager"
    | (alloc) a x M1 y where "AllocateManagerData E initial_manager x = Some (a, M1, y)" "M = FreeManagerData M1"
    | (queue) a x M1 y b z M2 z' where "AllocateManagerData E initial_manager x = Some (a, M1, y)" "\<not> EFI_ERROR a"
        "QueueMailboxAtSettingAccess E (M1\<lparr>mg_EndOfDxeEvent := True\<rparr>) z = Some (b, M2, z')"
        "M = M2 \<or> M = M2\<lparr>mg_EndOfDxeEvent := False\<rparr> \<or> M = FreeManagerData M2 \<and> b \<noteq> EFI_MEDIA_CHANGED"
    using r by (auto simp: DfciManagerEntry_def error_exit_def split: prod.splits if_splits Option.bind_splits)
  then show ?thesis
  proof cases
    case alloc
    from freed_inv alloc' [OF alloc(1)] alloc(2) show ?thesis by simp
  next
    case queue
    have "driver_inv M2 \<and> (mg_EndOfDxeEvent M2 \<longrightarrow> b = EFI_MEDIA_CHANGED)"
      using QueueMailbox_inv [OF queue(3) _ e] ok [OF queue(1,2)] by simp
    moreover have "driver_inv (M2\<lparr>mg_EndOfDxeEvent := False\<rparr>)" if "driver_inv M2"
      using that by (auto simp: driver_inv_def table_freed_def)
    ultimately show ?thesis using queue(4) freed_inv driver_inv_length by auto
  qed (simp add: init)
qed


lemma callbacks_inv:
  "driver_inv M \<Longrightarrow> SettingAccessCallback E M w = Some (M', w') \<Longrightarrow> driver_inv M'"
  "driver_inv M \<Longrightarrow> mg_EndOfDxeEvent M \<Longrightarrow> EndOfDxeCallback E M w = Some (M', w') \<Longrightarrow> driver_inv M'"
proof -
  have p: "driver_inv M2" if "ProcessMailBoxes E M1 x = Some (st, M2, y)" "driver_inv M1" for M1 M2 x y st
    using that ProcessMailBoxes_freed [of M1 E x] ProcessMailBoxes_inv [of E M1 x] by (auto simp: driver_inv_def)
  show "driver_inv M'" if "driver_inv M" "SettingAccessCallback E M w = Some (M', w')"
    using that p by (auto simp: SettingAccessCallback_def RunProcessMailBoxes_def split: Option.bind_splits)
  show "driver_inv M'" if "driver_inv M" "mg_EndOfDxeEvent M" "EndOfDxeCallback E M w = Some (M', w')"
  proof -
    have "driver_inv (M2\<lparr>mg_EndOfDxeEvent := False\<rparr>)" if "driver_inv M2" for M2 using that by (auto simp: driver_inv_def table_freed_def)
    then show ?thesis
      using that p [of "M\<lparr>mg_ProcessingAtEndOfDxe := True\<rparr>" w]
      by (auto simp: EndOfDxeCallback_def RunProcessMailBoxes_def split: Option.bind_splits if_splits)
  qed
qed

lemma booted_inv:
  assumes "booted E M w" "events_succeed E"
  shows "driver_inv M"
  using assms(1)
proof (induction rule: booted.induct)
  case (entry w st M w')
  then show ?case by (rule DfciManagerEntry_inv [OF assms(2)])
qed (auto dest: callbacks_inv)

text \<open>
  Property C9: in every state the driver can reach, as long as the event services work, the event for
  the end of the driver phase, if it is still registered, finds the packets in the table.  When the
  dialogs are available, the mailboxes can be deleted and the calls of the apply protocols return on
  the packets of the table, its handler returns, and then all packets are released and all mailboxes
  are empty, unless an apply protocol itself puts processing off.
\<close>

theorem end_of_dxe_completes:
  assumes b: "booted E M w" and e: "events_succeed E" and m: "mailbox_services E"
    and r: "returns_in E G W" "packets_in G M" "W w"
    and d: "mg_EndOfDxeEvent M" "me_DfciUiIsUiAvailable E w"
  shows "\<exists>M' w'. EndOfDxeCallback E M w = Some (M', w') \<and> \<not> mg_EndOfDxeEvent M'
    \<and> (table_freed M' \<and> mailboxes_empty E w' \<or> asks_for_media_change E G W)"
proof -
  let ?M = "M\<lparr>mg_ProcessingAtEndOfDxe := True\<rparr>"
  have t: "table_ok ?M" using booted_inv [OF b e] d(1) by (simp add: driver_inv_def)
  then have g: "good G W ?M w" using r by (simp add: good_def)
  then obtain st M1 w' where p: "ProcessMailBoxes E ?M w = Some (st, M1, w')" by (rule ProcessMailBoxes_returns [OF r(1)])
  then have "EndOfDxeCallback E M w = Some (M1\<lparr>mg_EndOfDxeEvent := False\<rparr>, w')"
    using d(2) by (simp add: EndOfDxeCallback_def RunProcessMailBoxes_def)
  with ProcessMailBoxes_ends [OF r(1) g m p] show ?thesis by (auto simp: table_freed_def)
qed

end
