(* ===== verification/Manager_System.thy ===== *)
theory Manager_System
  imports Stored_Frame Dfci_Manager
begin

text \<open>
  The whole system: the DFCI manager with the apply protocols of the identity, permission and
  settings managers.  The state is the permission store of the settings manager, the state of the
  identity manager and the state of the platform.

  The locale \<open>packet_batch\<close> states what the manager relies on in its protocols so that a batch of
  identity and permission packets that fails has no lasting effect; it is interpreted for the three
  managers.
\<close>

section \<open>What a failed batch leaves behind\<close>

text \<open>An apply protocol for identities is only trusted with enrolments here; removals come last.\<close>

definition enrols :: "protocol \<Rightarrow> packet \<Rightarrow> bool" where
  "enrols P D \<longleftrightarrow> (P = ApplyIdentityProtocol \<longrightarrow> pk_PayloadSize D \<noteq> 0)"

text \<open>No removal is pending, and every identity packet that is processed enrols.\<close>

definition no_removal :: "manager \<Rightarrow> bool" where
  "no_removal M \<longleftrightarrow> (\<forall>k D. identity_index k \<longrightarrow> md_Data (mg_ManagerData M ! k) = Some D \<longrightarrow> \<not> pk_Unenroll D)"

definition enrolment :: "nat \<Rightarrow> manager \<Rightarrow> bool" where
  "enrolment k M \<longleftrightarrow> (\<forall>D. identity_index k \<longrightarrow> md_Data (mg_ManagerData M ! k) = Some D \<longrightarrow> \<not> EFI_ERROR (md_DecodeStatus (mg_ManagerData M ! k))
     \<longrightarrow> pk_PayloadSize D \<noteq> 0)"

locale packet_batch =
  fixes E :: "'w manager_env" and R :: "'w \<Rightarrow> 'w \<Rightarrow> bool"
  assumes refl: "R w w" and trans: "R a b \<Longrightarrow> R b c \<Longrightarrow> R a c"
    and apply_R: "enrols P D \<Longrightarrow> ApplyPacket (me_Apply E P) D w = Some (st, D', w') \<Longrightarrow> R w w'"
    and restore_R: "Lkg (me_Apply E P) D DFCI_LKG_RESTORE w = Some (st, D', w') \<Longrightarrow> R w w'"
    and settings_R: "Lkg (me_Apply E ApplySettingsProtocol) D lop w = Some (st, D', w') \<Longrightarrow> R w w'"
    and result_R: "ApplyResult (me_Apply E P) D w = Some (st, w') \<Longrightarrow> R w w'"
    and apply_unenroll: "ApplyPacket (me_Apply E ApplyIdentityProtocol) D w = Some (st, D', w') \<Longrightarrow> pk_Unenroll D' = pk_Unenroll D"
    and lkg_unenroll: "Lkg (me_Apply E ApplyIdentityProtocol) D lop w = Some (st, D', w') \<Longrightarrow> pk_Unenroll D' = pk_Unenroll D"
    and mailbox_R: "p \<in> set gMailBoxPolicies \<Longrightarrow> me_SetVariable E (the (vp_Name p)) (vp_Namespace p) 0 [] w = (st, w') \<Longrightarrow> R w w'"
    and reset_R: "R w (me_ResetNotification E w)"
begin

lemma ProcessApplyPacket_R:
  assumes "ProcessApplyPacket E M D P w = Some (st, D', r, w')" "enrols P D"
  shows "R w w'" "P = ApplyIdentityProtocol \<Longrightarrow> pk_Unenroll D' = pk_Unenroll D"
  using assms(1) apply_R [OF assms(2)] apply_unenroll by (auto simp: ProcessApplyPacket_def Let_def split: Option.bind_splits if_splits)

lemma table_protocol: "table_ok M \<Longrightarrow> k < MGR_MAX \<Longrightarrow> md_ApplyProtocol (mg_ManagerData M ! k) = Some (entry_protocol k)"
  by (simp add: table_ok_def)

lemma index_protocol [simp]: "entry_protocol k = ApplyIdentityProtocol \<longleftrightarrow> identity_index k"
  by (simp add: entry_protocol_def)

lemma set_data_entry: "j \<noteq> k \<Longrightarrow> mg_ManagerData (set_data k D M) ! j = mg_ManagerData M ! j"
  by (simp add: set_data_def)

lemma set_data_no_removal:
  assumes "no_removal M" "table_ok M" "identity_index k \<Longrightarrow> \<not> pk_Unenroll D"
  shows "no_removal (set_data k D M)"
  unfolding no_removal_def
proof (intro allI impI)
  fix j D1 assume j: "identity_index j" "md_Data (mg_ManagerData (set_data k D M) ! j) = Some D1"
  show "\<not> pk_Unenroll D1"
  proof (cases "j = k")
    case True
    have "k < length (mg_ManagerData M)" using assms(2) j(1) True by (auto simp: table_ok_def identity_index_def)
    with j True assms(3) show ?thesis by (simp add: set_data_def)
  next
    case False
    with j assms(1) show ?thesis by (simp add: set_data_entry no_removal_def)
  qed
qed

lemma ProcessPacket_R:
  assumes p: "ProcessPacket E k M w = Some (st, M', w')" and t: "table_ok M" "k < MGR_MAX" "no_removal M" "enrolment k M"
  shows "R w w'" "no_removal M'" "j \<noteq> k \<Longrightarrow> mg_ManagerData M' ! j = mg_ManagerData M ! j"
proof -
  have "R w w' \<and> no_removal M' \<and> (\<forall>j. j \<noteq> k \<longrightarrow> mg_ManagerData M' ! j = mg_ManagerData M ! j)"
  proof (cases "M' = M \<and> w' = w")
    case True
    then show ?thesis using t by (simp add: refl)
  next
    case False
    obtain D where D: "md_Data (mg_ManagerData M ! k) = Some D" using t(1,2) by (auto simp: table_ok_def)
    let ?c = "\<not> EFI_ERROR (md_DecodeStatus (mg_ManagerData M ! k)) \<and> \<not> pk_Unenroll D"
    have "ProcessPacket E k M w = Some (fst (the (ProcessPacket E k M w)), M, w)" if "pk_Packet D = [] \<or> \<not> ?c"
      using that by (auto simp: ProcessPacket_def D Let_def)
    with False p have d2: "pk_Packet D \<noteq> []" "\<not> EFI_ERROR (md_DecodeStatus (mg_ManagerData M ! k))" "\<not> pk_Unenroll D" by auto
    then have "ProcessPacket E k M w = do {
        (Status, Data, reboot, w1) \<leftarrow> ProcessApplyPacket E M D (entry_protocol k) w;
        Some (Status, (set_data k Data M)\<lparr>mg_RebootRequired := reboot\<rparr>, w1) }"
      by (simp add: ProcessPacket_def D Let_def table_protocol [OF t(1,2)])
    with p obtain D' r where d3: "ProcessApplyPacket E M D (entry_protocol k) w = Some (st, D', r, w')"
      "M' = (set_data k D' M)\<lparr>mg_RebootRequired := r\<rparr>"
      by (cases "ProcessApplyPacket E M D (entry_protocol k) w") auto
    note d = D d2(2,3) d3
    have e: "enrols (entry_protocol k) D" using t(4) d(1,2) by (auto simp: enrols_def enrolment_def)
    note a = ProcessApplyPacket_R [OF d(4) e]
    have "no_removal (set_data k D' M)" by (rule set_data_no_removal [OF t(3,1)]) (use a d(3) in simp)
    with a d(5) set_data_entry show ?thesis by (simp add: no_removal_def)
  qed
  then show "R w w'" "no_removal M'" "j \<noteq> k \<Longrightarrow> mg_ManagerData M' ! j = mg_ManagerData M ! j" by blast+
qed

lemma process_packets_R:
  "process_packets E ks st0 M w = Some (e, st, M', w') \<Longrightarrow> table_ok M \<Longrightarrow> distinct ks \<Longrightarrow> list_all (\<lambda>k. k < MGR_MAX \<and> enrolment k M) ks
    \<Longrightarrow> no_removal M \<Longrightarrow> R w w' \<and> no_removal M'"
proof (induction ks arbitrary: st0 M w)
  case (Cons k ks)
  obtain st1 M1 w1 where p: "ProcessPacket E k M w = Some (st1, M1, w1)" using Cons.prems(1) by (auto split: Option.bind_splits)
  have k: "k < MGR_MAX" "enrolment k M" using Cons.prems(4) by simp_all
  note a = ProcessPacket_R [OF p Cons.prems(2) k(1) Cons.prems(5) k(2)]
  show ?case
  proof (cases "EFI_ERROR st1")
    case True
    then show ?thesis using Cons.prems(1) p a by simp
  next
    case False
    have t: "table_ok M1" by (rule mg_frameD(1) [OF ProcessPacket_frame [OF p] Cons.prems(2)])
    have "enrolment j M1" if "j \<noteq> k" "enrolment j M" for j using that a(3) by (simp add: enrolment_def)
    moreover have "j \<noteq> k" if "j \<in> set ks" for j using Cons.prems(3) that by auto
    ultimately have "list_all (\<lambda>k. k < MGR_MAX \<and> enrolment k M1) ks" using Cons.prems(4) by (simp add: list_all_iff)
    then have "R w1 w' \<and> no_removal M'" using Cons.IH [OF _ t _ _ a(2)] Cons.prems(1,3) p False by simp
    then show ?thesis using trans [OF a(1)] by blast
  qed
qed (simp add: refl)

text \<open>The call of the last-known-good operation that completes a packet.\<close>

lemma CompletePacket_call:
  assumes c: "CompletePacket E k st0 M w = Some (st, M', w')" and t: "table_ok M" "k < MGR_MAX"
  shows "M' = M \<and> w' = w \<or> (\<exists>D0 D D' u w1. md_Data (mg_ManagerData M ! k) = Some D0 \<and> pk_Unenroll D = pk_Unenroll D0
     \<and> Lkg (me_Apply E (entry_protocol k)) D (if EFI_ERROR st0 then DFCI_LKG_RESTORE else DFCI_LKG_COMMIT) w = Some (u, D', w1)
     \<and> M' = set_data k D' M \<and> (w' = w1 \<or> (\<exists>v. ApplyResult (me_Apply E (entry_protocol k)) D' w1 = Some (v, w'))))"
proof (cases "M' = M \<and> w' = w")
  case False
  define D where "D D0 = (if EFI_ERROR st0 \<and> pk_State D0 = STATE_UNINITIALIZED then D0\<lparr>pk_State := STATE_ABORTED, pk_StatusCode := st0\<rparr> else D0)" for D0 :: packet
  obtain D0 u D' w1 where d: "md_Data (mg_ManagerData M ! k) = Some D0"
    "Lkg (me_Apply E (entry_protocol k)) (D D0) (if EFI_ERROR st0 then DFCI_LKG_RESTORE else DFCI_LKG_COMMIT) w = Some (u, D', w1)" "M' = set_data k D' M"
    "w' = w1 \<or> (\<exists>v. ApplyResult (me_Apply E (entry_protocol k)) D' w1 = Some (v, w'))"
    using c False table_protocol [OF t] unfolding D_def
    by (auto simp: CompletePacket_def Let_def split: option.splits if_splits Option.bind_splits)
  have "pk_Unenroll (D D0) = pk_Unenroll D0" by (simp add: D_def)
  with d show ?thesis by blast
qed simp

lemma CompletePacket_no_removal:
  assumes "CompletePacket E k st0 M w = Some (st, M', w')" "table_ok M" "k < MGR_MAX" "no_removal M"
  shows "no_removal M'"
  using CompletePacket_call [OF assms(1-3)]
proof
  assume "\<exists>D0 D D' u w1. md_Data (mg_ManagerData M ! k) = Some D0 \<and> pk_Unenroll D = pk_Unenroll D0
     \<and> Lkg (me_Apply E (entry_protocol k)) D (if EFI_ERROR st0 then DFCI_LKG_RESTORE else DFCI_LKG_COMMIT) w = Some (u, D', w1)
     \<and> M' = set_data k D' M \<and> (w' = w1 \<or> (\<exists>v. ApplyResult (me_Apply E (entry_protocol k)) D' w1 = Some (v, w')))"
  then obtain D0 D D' lop u w1 where d: "md_Data (mg_ManagerData M ! k) = Some D0" "pk_Unenroll D = pk_Unenroll D0"
    "Lkg (me_Apply E (entry_protocol k)) D lop w = Some (u, D', w1)" "M' = set_data k D' M" by blast
  have "no_removal (set_data k D' M)"
  proof (rule set_data_no_removal [OF assms(4,2)])
    assume k: "identity_index k"
    then have "\<not> pk_Unenroll D0" using assms(4) d(1) by (simp add: no_removal_def)
    moreover have "entry_protocol k = ApplyIdentityProtocol" using k by simp
    ultimately show "\<not> pk_Unenroll D'" using lkg_unenroll d(2,3) by metis
  qed
  with d(4) show ?thesis by simp
qed (use assms in simp)

lemma CompletePacket_R:
  assumes c: "CompletePacket E k st0 M w = Some (st, M', w')" and t: "table_ok M" "k < MGR_MAX"
    and o: "EFI_ERROR st0 \<or> entry_protocol k = ApplySettingsProtocol"
  shows "R w w'"
  using CompletePacket_call [OF c t]
proof
  assume "\<exists>D0 D D' u w1. md_Data (mg_ManagerData M ! k) = Some D0 \<and> pk_Unenroll D = pk_Unenroll D0
     \<and> Lkg (me_Apply E (entry_protocol k)) D (if EFI_ERROR st0 then DFCI_LKG_RESTORE else DFCI_LKG_COMMIT) w = Some (u, D', w1)
     \<and> M' = set_data k D' M \<and> (w' = w1 \<or> (\<exists>v. ApplyResult (me_Apply E (entry_protocol k)) D' w1 = Some (v, w')))"
  then obtain D D' u w1 where d: "Lkg (me_Apply E (entry_protocol k)) D (if EFI_ERROR st0 then DFCI_LKG_RESTORE else DFCI_LKG_COMMIT) w = Some (u, D', w1)"
    "w' = w1 \<or> (\<exists>v. ApplyResult (me_Apply E (entry_protocol k)) D' w1 = Some (v, w'))" by blast
  have 1: "R w w1"
  proof (cases "EFI_ERROR st0")
    case True
    with d(1) show ?thesis by (simp add: restore_R)
  next
    case False
    with o d(1) show ?thesis by (simp add: settings_R)
  qed
  have "R w1 w'" using d(2) result_R refl by blast
  with 1 show ?thesis by (rule trans)
qed (simp add: refl)

lemma complete_unless_unenroll_R:
  assumes "complete_unless_unenroll E k st0 M w = Some (M', w')" "table_ok M" "k < MGR_MAX"
  shows "no_removal M \<Longrightarrow> no_removal M'" "EFI_ERROR st0 \<Longrightarrow> R w w'"
  using assms CompletePacket_R [of k st0 M w _ M' w'] CompletePacket_no_removal [of k st0 M w _ M' w']
  by (auto simp: complete_unless_unenroll_def refl split: Option.bind_splits if_splits)

lemma complete_packets_R:
  assumes c: "complete_packets E st0 M w = Some (M', w')" and t: "table_ok M" "no_removal M"
  shows "no_removal M'" "EFI_ERROR st0 \<Longrightarrow> R w w'"
proof -
  obtain u1 M1 w1 u2 M2 w2 M3 w3 where s: "CompletePacket E MGR_PERMISSIONS2 st0 M w = Some (u1, M1, w1)"
    "CompletePacket E MGR_PERMISSIONS st0 M1 w1 = Some (u2, M2, w2)"
    "complete_unless_unenroll E MGR_IDENTITY st0 M2 w2 = Some (M3, w3)" "complete_unless_unenroll E MGR_IDENTITY2 st0 M3 w3 = Some (M', w')"
    using c by (auto simp: complete_packets_def split: Option.bind_splits)
  have t1: "table_ok M1" by (rule mg_frameD(1) [OF CompletePacket_frame [OF s(1)] t(1)])
  have t2: "table_ok M2" by (rule mg_frameD(1) [OF CompletePacket_frame [OF s(2)] t1])
  have t3: "table_ok M3" by (rule mg_frameD(1) [OF complete_unless_unenroll_frame [OF s(3)] t2])
  have n1: "no_removal M1" by (rule CompletePacket_no_removal [OF s(1) t(1) _ t(2)]) simp
  have n2: "no_removal M2" by (rule CompletePacket_no_removal [OF s(2) t1 _ n1]) simp
  have n3: "no_removal M3" by (rule complete_unless_unenroll_R(1) [OF s(3) t2 _ n2]) simp
  show "no_removal M'" by (rule complete_unless_unenroll_R(1) [OF s(4) t3 _ n3]) simp
  show "R w w'" if e: "EFI_ERROR st0"
  proof -
    have 1: "R w w1" by (rule CompletePacket_R [OF s(1) t(1)]) (simp_all add: e)
    have 2: "R w1 w2" by (rule CompletePacket_R [OF s(2) t1]) (simp_all add: e)
    have 3: "R w2 w3" by (rule complete_unless_unenroll_R(2) [OF s(3) t2 _ e]) simp
    have 4: "R w3 w'" by (rule complete_unless_unenroll_R(2) [OF s(4) t3 _ e]) simp
    show ?thesis by (rule trans [OF 1 trans [OF 2 trans [OF 3 4]]])
  qed
qed

lemma process_settings_R:
  assumes c: "process_settings E k M w = Some (M', w')" and t: "table_ok M" "no_removal M" and k: "k = MGR_SETTINGS \<or> k = MGR_SETTINGS2"
  shows "R w w' \<and> no_removal M'"
proof -
  obtain u1 M1 w1 u2 where s: "ProcessPacket E k M w = Some (u1, M1, w1)" "CompletePacket E k EFI_SUCCESS M1 w1 = Some (u2, M', w')"
    using c by (auto simp: process_settings_def split: Option.bind_splits)
  have k': "k < MGR_MAX" "\<not> identity_index k" "entry_protocol k = ApplySettingsProtocol"
    using k by (auto simp: identity_index_def entry_protocol_def)
  have t1: "table_ok M1" by (rule mg_frameD(1) [OF ProcessPacket_frame [OF s(1)] t(1)])
  have e: "enrolment k M" using k'(2) by (simp add: enrolment_def)
  note 1 = ProcessPacket_R [OF s(1) t(1) k'(1) t(2) e]
  have "R w1 w'" by (rule CompletePacket_R [OF s(2) t1 k'(1)]) (simp add: k'(3))
  with trans [OF 1(1) this] CompletePacket_no_removal [OF s(2) t1 k'(1) 1(2)] show ?thesis by blast
qed

lemma unenroll_packet_R:
  assumes "unenroll_packet E k st0 M w = Some (e, st, M', w')" "no_removal M" "identity_index k"
  shows "e = False \<and> st = st0 \<and> M' = M \<and> w' = w"
  using assms by (auto simp: unenroll_packet_def no_removal_def split: Option.bind_splits if_splits)

lemma delete_mailboxes_R: "delete_mailboxes E ps r w = (st, w') \<Longrightarrow> set ps \<subseteq> set gMailBoxPolicies \<Longrightarrow> R w w'"
proof (induction ps arbitrary: r w)
  case (Cons p ps)
  obtain u w1 where d: "me_SetVariable E (the (vp_Name p)) (vp_Namespace p) 0 [] w = (u, w1)" by (metis prod.exhaust)
  have "R w w1" using mailbox_R [OF _ d] Cons.prems(2) by simp
  moreover have "R w1 w'" using Cons.IH [of _ w1] Cons.prems d by simp
  ultimately show ?case by (rule trans)
qed (simp add: refl)

lemma final_exit_R: "final_exit E M w = (M', w') \<Longrightarrow> R w w'"
proof -
  assume f: "final_exit E M w = (M', w')"
  obtain st w1 where d: "DeleteAllMailboxes E w = (st, w1)" by (metis prod.exhaust)
  have 1: "R w w1" by (rule delete_mailboxes_R [OF d [unfolded DeleteAllMailboxes_def]]) simp
  have "w' = w1 \<or> w' = me_ResetNotification E w1" using f d by (auto simp: final_exit_def Let_def)
  with 1 trans [OF 1 reset_R] show ?thesis by blast
qed

lemma failed_batch:
  assumes p: "ProcessMailBoxes E M w = Some (st, M', w')" and t: "table_ok M" "no_removal M" "enrolment MGR_IDENTITY M" "enrolment MGR_IDENTITY2 M"
    and e: "EFI_ERROR st"
  shows "R w w'"
proof -
  let ?ks = "[MGR_IDENTITY, MGR_PERMISSIONS, MGR_IDENTITY2, MGR_PERMISSIONS2]"
  obtain e1 st1 M1 w1 where 1: "process_packets E ?ks EFI_SUCCESS M w = Some (e1, st1, M1, w1)"
    using p by (auto simp: ProcessMailBoxes_def split: Option.bind_splits)
  have "list_all (\<lambda>k. k < MGR_MAX \<and> enrolment k M) ?ks" using t by (simp add: enrolment_def identity_index_def)
  from process_packets_R [OF 1 t(1) _ this t(2)] have r1: "R w w1" "no_removal M1" by simp_all
  have t1: "table_ok M1" by (rule mg_frameD(1) [OF process_packets_frame [OF 1] t(1)])
  show ?thesis
  proof (cases e1)
    case True
    then show ?thesis using 1 p r1 by (simp add: ProcessMailBoxes_def del: process_packets.simps)
  next
    case False
    obtain M2 w2 M3 w3 M4 w4 where 2: "complete_packets E (if EFI_ERROR st1 then st1 else EFI_SUCCESS) M1 w1 = Some (M2, w2)"
      "process_settings E MGR_SETTINGS M2 w2 = Some (M3, w3)" "process_settings E MGR_SETTINGS2 M3 w3 = Some (M4, w4)"
      using p 1 False by (auto simp: ProcessMailBoxes_def simp del: process_packets.simps split: Option.bind_splits)
    have t2: "table_ok M2" by (rule mg_frameD(1) [OF complete_packets_frame [OF 2(1)] t1])
    have t3: "table_ok M3" by (rule mg_frameD(1) [OF process_settings_frame [OF 2(2)] t2])
    note n2 = complete_packets_R [OF 2(1) t1 r1(2)]
    have 3: "R w2 w3" "no_removal M3" using process_settings_R [OF 2(2) t2 n2(1)] by simp_all
    have 4: "R w3 w4" "no_removal M4" using process_settings_R [OF 2(3) t3 3(2)] by simp_all
    have u: "identity_index MGR_IDENTITY2" "identity_index MGR_IDENTITY" by (simp_all add: identity_index_def)
    obtain e5 st5 M5 w5 where 5: "unenroll_packet E MGR_IDENTITY2 st1 M4 w4 = Some (e5, st5, M5, w5)"
      using p 1 2 False by (auto simp: ProcessMailBoxes_def simp del: process_packets.simps split: Option.bind_splits)
    note e5 = unenroll_packet_R [OF 5 4(2) u(1)]
    obtain e6 st6 M6 w6 where 6: "unenroll_packet E MGR_IDENTITY st1 M4 w4 = Some (e6, st6, M6, w6)"
      using p 1 2 5 e5 False by (auto simp: ProcessMailBoxes_def simp del: process_packets.simps split: Option.bind_splits)
    note e6 = unenroll_packet_R [OF 6 4(2) u(2)]
    have f: "st = st1" "final_exit E M4 w4 = (M', w')"
      using p 1 2 5 6 e5 e6 False by (auto simp: ProcessMailBoxes_def simp del: process_packets.simps split: prod.splits)
    have "R w1 w2" by (rule n2(2)) (use e f(1) in simp)
    from trans [OF r1(1) trans [OF this trans [OF 3(1) trans [OF 4(1) final_exit_R [OF f(2)]]]]] show ?thesis .
  qed
qed

end

section \<open>The three managers as apply protocols\<close>

type_synonym 's world = "perm_store option \<times> 's sys"

definition identity_protocol :: "'s identity_env \<Rightarrow> 's world apply_protocol" where
  "identity_protocol I = \<lparr>
     ApplyPacket = (\<lambda>D (Store, z). do {
       (Status, Data, Store, z) \<leftarrow> ApplyNewIdentityPacket I True (Some D) Store z;
       D \<leftarrow> Data;
       Some (Status, D, (Store, z)) }),
     ApplyResult = (\<lambda>D (Store, (a, s)). case SetIdentityResponse (ie_U I) (Some D) s of (Status, s) \<Rightarrow> Some (Status, (Store, (a, s)))),
     Lkg = (\<lambda>D Operation (Store, z). do {
       (Status, Data, z) \<leftarrow> Identity_LKG_Handler I True (Some D) Operation z;
       D \<leftarrow> Data;
       Some (Status, D, (Store, z)) })\<rparr>"

definition permission_protocol :: "'s identity_env \<Rightarrow> bytes \<Rightarrow> 's world apply_protocol" where
  "permission_protocol I rsvd = \<lparr>
     ApplyPacket = (\<lambda>D (Store, z). do {
       (Status, Data, Store, z) \<leftarrow> ApplyNewPermissionsPacket (ie_Platform I) (Some (ie_Auth I)) True (Some D) Store z;
       D \<leftarrow> Data;
       Some (Status, D, (Store, z)) }),
     ApplyResult = (\<lambda>D (Store, z). do {
       (Status, z) \<leftarrow> SetPermissionsResponse (ie_Platform I) rsvd (Some D) z;
       Some (Status, (Store, z)) }),
     Lkg = (\<lambda>D Operation (Store, z). do {
       (Status, Data, Store, z) \<leftarrow> LKG_Handler (ie_Platform I) True (Some D) Operation Store z;
       D \<leftarrow> Data;
       Some (Status, D, (Store, z)) })\<rparr>"

definition settings_protocol :: "'s identity_env \<Rightarrow> 's sys set_env \<Rightarrow> bytes \<Rightarrow> 's world apply_protocol" where
  "settings_protocol I X rsvd = \<lparr>
     ApplyPacket = (\<lambda>D (Store, z). do {
       (Status, Data, z) \<leftarrow> ApplyNewSettingsPacket (ie_Platform I) X (Some (ie_Auth I)) Store (ie_Groups I) (ie_Providers I) rsvd True (Some D) z;
       D \<leftarrow> Data;
       Some (Status, D, (Store, z)) }),
     ApplyResult = (\<lambda>D w. Some (SetSettingsResponse (Some D), w)),
     Lkg = (\<lambda>D Operation w. Some (SettingsLKG_Handler (Some D) Operation, D, w))\<rparr>"

text \<open>
  The services that the managers do not provide come from the environment \<open>B\<close>: memory for the
  packets, device identifiers, events, policies, protocol lookups and the restart notification.
\<close>

definition dfci_system :: "'s identity_env \<Rightarrow> 's sys set_env \<Rightarrow> bytes \<Rightarrow> 's world manager_env \<Rightarrow> 's world manager_env" where
  "dfci_system I X rsvd B = B\<lparr>
     me_GetVariable2 := (\<lambda>n g (Store, (a, s)). case GetVariable (ie_U I) n g s of (Status, d, _) \<Rightarrow> (Status, d)),
     me_SetVariable := (\<lambda>n g at d (Store, z). case SetVariable (ie_Platform I) n g at d z of (Status, z) \<Rightarrow> (Status, (Store, z))),
     me_Apply := (\<lambda>P. case P of ApplyIdentityProtocol \<Rightarrow> identity_protocol I | ApplyPermissionsProtocol \<Rightarrow> permission_protocol I rsvd
       | ApplySettingsProtocol \<Rightarrow> settings_protocol I X rsvd),
     me_DfciUiIsUiAvailable := (\<lambda>(Store, (a, s)). DfciUiIsUiAvailable (ie_Ui I) s)\<rparr>"

section \<open>The managers keep the contract\<close>

lemma identity_unenroll:
  assumes "ApplyNewIdentityPacket I True (Some D) Store z = Some (st, Some D', Store', z')"
  shows "pk_Unenroll D' = pk_Unenroll D"
proof -
  have c: "pk_Unenroll D2 = pk_Unenroll D1" if "check_identity C D1 = Some (e, D2)" for C D1 e D2
    using that by (auto simp: check_identity_def Let_def split: Option.bind_splits)
  have au: "pk_Unenroll D2 = pk_Unenroll D1" if "authorise I Store n D1 x = Some (u, D2, y)" for n D1 x u D2 y
    using that by (auto simp: authorise_def set_outcome_def Let_def split: Option.bind_splits prod.splits if_splits sum.splits)
  have v: "pk_Unenroll D2 = pk_Unenroll D1" if "ValidateAndAuthenticatePendingProvisionData I Store D1 x = Some (u, D2, y)" for D1 x u D2 y
    using that by (auto simp: ValidateAndAuthenticatePendingProvisionData_def set_outcome_def dest!: c au split: Option.bind_splits option.splits sum.splits prod.splits)
  have ui: "pk_Unenroll D2 = pk_Unenroll D1" if "user_input I D1 x = Some (u, D2, y)" for D1 x u D2 y
    using that by (auto simp: user_input_def Let_def set_outcome_def split: Option.bind_splits if_splits)
  have ap: "pk_Unenroll D2 = pk_Unenroll D1" if "ApplyProvisionData I (Some D1) Store x = Some (u, Some D2, S, y)" for D1 x u D2 S y
    using that by (auto simp: ApplyProvisionData_def set_outcome_def Let_def split: Option.bind_splits if_splits option.splits prod.splits)
  have mc: "pk_Unenroll D2 = pk_Unenroll D1" if "make_change I D1 Store x = Some (u, D2, S, y)" for D1 x u D2 S y
    using that by (auto simp: make_change_def set_outcome_def Let_def dest!: ap split: Option.bind_splits if_splits prod.splits)
  have "pk_Unenroll D1 = pk_Unenroll D" if "identity_packet_body I D Store z = Some (u, D1, S, y)" for u D1 S y
    using that by (auto simp: identity_packet_body_def set_outcome_def dest!: v ui mc split: Option.bind_splits if_splits)
  then show ?thesis using assms by (auto simp: ApplyNewIdentityPacket_def split: Option.bind_splits if_splits)
qed

lemma identity_lkg_unenroll:
  "Identity_LKG_Handler I True (Some D) lop z = Some (st, Some D', z') \<Longrightarrow> pk_Unenroll D' = pk_Unenroll D"
  by (auto simp: Identity_LKG_Handler_def Let_def set_outcome_def split: Option.bind_splits if_splits)

text \<open>Setting providers and the notification of a change leave the two variables alone.\<close>

definition setting_services :: "'s identity_env \<Rightarrow> 's sys set_env \<Rightarrow> bool" where
  "setting_services I X \<longleftrightarrow>
     (\<forall>i p v f z. FindProviderById (ie_Platform I) (ie_Providers I) i = Some p \<longrightarrow> stored_same (ie_Platform I) z (snd (snd (pv_Set p v f z))))
   \<and> (\<forall>i t ty v f z. stored_same (ie_Platform I) z (snd (DfciSettingChangedNotification X i t ty v f z)))"

lemma memory_services_stored:
  assumes "alloc_keeps_vars U" "xml_keeps_vars U"
  shows "stored_same U s (snd (AllocatePool U n s))" "stored_same U s (snd (snd (GetTime U s)))"
    "stored_same U s (snd (snd (CreateXmlTree U t s)))" "stored_same U s (snd (snd (snd (AddNode U nd p nm w s))))"
    "stored_same U s (snd (snd (snd (XmlTreeToString U nd s))))"
  using assms by (simp_all add: alloc_keeps_vars_def xml_keeps_vars_def stored_same_vars)

lemma settings_frame:
  assumes i: "identity_services I" and x: "setting_services I X"
  shows "packet_frame (ie_Platform I) X (Some (ie_Auth I)) (ie_Providers I) (\<lambda>_. True) (stored_same (ie_Platform I))"
proof -
  note L = identity_servicesD [OF i]
  note v = memory_services_stored [OF L(1,2)]
  have pw: "stored_same (ie_Platform I) z (snd (snd (ap_AuthWithPW (ie_Auth I) q n z)))" for q n z
  proof -
    obtain a s where z: "z = (a, s)" by (cases z)
    obtain st t a' s' where r: "AuthWithPW (ie_U I) (ie_E I) q n a s = (st, t, a', s')" by (metis prod_cases4)
    have "same_vars (ie_U I) s s'" by (rule AuthWithPW_vars [OF _ _ r]) (use i in \<open>simp_all add: identity_services_def\<close>)
    then show ?thesis by (simp add: ie_Auth_def auth_manager_def z r ie_Platform_def stored_same_lift stored_same_vars)
  qed
  have sd: "stored_same (ie_Platform I) z y" if "ap_AuthWithSignedData (ie_Auth I) d sg t z = Some (st, u, y)" for d sg t z st u y
    using L(4) that unfolding auth_keeps_vars_def by (blast intro: stored_same_vars)
  have dt: "stored_same (ie_Platform I) z (snd (snd (ap_DisposeAuthToken (ie_Auth I) t z)))" for t z
    using L(4) unfolding auth_keeps_vars_def by (metis prod.collapse stored_same_vars)
  have pv: "stored_same (ie_Platform I) z (snd (snd (pv_Set p v f z)))" if "FindProviderById (ie_Platform I) (ie_Providers I) i = Some p" for i p v f z
    using x that unfolding setting_services_def by blast
  have nt: "stored_same (ie_Platform I) z (snd (DfciSettingChangedNotification X i t ty v f z))" for i t ty v f z
    using x unfolding setting_services_def by blast
  show ?thesis
    unfolding packet_frame_def document_frame_def write_frame_def
  proof (intro conjI)
    show "\<forall>x y z. stored_same (ie_Platform I) x y \<longrightarrow> stored_same (ie_Platform I) y z \<longrightarrow> stored_same (ie_Platform I) x z"
      by (intro allI impI) (rule stored_same_trans)
    show "\<forall>i p v f x. FindProviderById (ie_Platform I) (ie_Providers I) i = Some p \<longrightarrow> True \<longrightarrow> stored_same (ie_Platform I) x (snd (snd (pv_Set p v f x)))"
      using pv by blast
    show "\<forall>A. Some (ie_Auth I) = Some A \<longrightarrow> (\<forall>p n x. stored_same (ie_Platform I) x (snd (snd (ap_AuthWithPW A p n x))))
        \<and> (\<forall>d sg t x st u y. ap_AuthWithSignedData A d sg t x = Some (st, u, y) \<longrightarrow> stored_same (ie_Platform I) x y)
        \<and> (\<forall>t x. stored_same (ie_Platform I) x (snd (snd (ap_DisposeAuthToken A t x))))"
      using pw sd dt by blast
  qed (use v nt in \<open>blast intro: stored_same_refl\<close>)+
qed

definition system_services :: "'s identity_env \<Rightarrow> 's sys set_env \<Rightarrow> 's world manager_env \<Rightarrow> bool" where
  "system_services I X B \<longleftrightarrow> identity_services I \<and> setting_services I X
     \<and> (\<forall>w. stored_same (ie_Platform I) (snd w) (snd (me_ResetNotification B w)))"

definition system_same :: "'s identity_env \<Rightarrow> 's sys set_env \<Rightarrow> 's world manager_env \<Rightarrow> 's world \<Rightarrow> 's world \<Rightarrow> bool" where
  "system_same I X B w w' \<longleftrightarrow> (system_services I X B \<longrightarrow> stored_same (ie_Platform I) (snd w) (snd w'))"

lemma settings_packet_stored:
  assumes i: "identity_services I" and x: "setting_services I X"
    and r: "ApplyNewSettingsPacket (ie_Platform I) X (Some (ie_Auth I)) Store (ie_Groups I) (ie_Providers I) rsvd True (Some D) z = Some (st, D', z')"
  shows "stored_same (ie_Platform I) z z'"
proof -
  note f = settings_frame [OF i x]
  have g: "authenticates (Some (ie_Auth I)) Store (ie_Groups I) D (\<lambda>_. True) (stored_same (ie_Platform I)) (stored_same (ie_Platform I)) y" for y
    using packet_frameD(2) [OF f] by (auto simp: authenticates_def guarded_def)
  show ?thesis
    by (rule ApplyNewSettingsPacket_frame [OF packet_frameD(1) [OF f] _ stored_same_trans g packet_frameD(3) [OF f] _ r])
      (auto intro: set_variable_stored(2) [OF identity_servicesD(3) [OF i]])
qed

text \<open>What each operation of the three protocols keeps.\<close>

lemma identity_protocol_same:
  assumes "system_services I X B"
  shows "ApplyPacket (identity_protocol I) D w = Some (st, D', w') \<Longrightarrow> pk_PayloadSize D \<noteq> 0 \<Longrightarrow> stored_same (ie_Platform I) (snd w) (snd w')"
    "Lkg (identity_protocol I) D DFCI_LKG_RESTORE w = Some (st, D', w') \<Longrightarrow> stored_same (ie_Platform I) (snd w) (snd w')"
    "ApplyResult (identity_protocol I) D w = Some (st, w') \<Longrightarrow> stored_same (ie_Platform I) (snd w) (snd w')"
proof -
  have i: "identity_services I" using assms by (simp add: system_services_def)
  then have v: "variable_laws (ie_U I)" by (simp add: identity_services_def)
  show "stored_same (ie_Platform I) (snd w) (snd w')" if "ApplyPacket (identity_protocol I) D w = Some (st, D', w')" "pk_PayloadSize D \<noteq> 0"
    using that(1) stored_same_vars [OF ApplyNewIdentityPacket_vars [OF i that(2)]]
    by (cases w) (auto simp: identity_protocol_def split: Option.bind_splits)
  show "stored_same (ie_Platform I) (snd w) (snd w')" if "Lkg (identity_protocol I) D DFCI_LKG_RESTORE w = Some (st, D', w')"
    using that by (cases w) (auto simp: identity_protocol_def split: Option.bind_splits dest!: Identity_LKG_restore_stored [OF i])
  show "stored_same (ie_Platform I) (snd w) (snd w')" if "ApplyResult (identity_protocol I) D w = Some (st, w')"
    using that by (cases w) (auto simp: identity_protocol_def ie_Platform_def stored_same_lift split: prod.splits dest!: SetIdentityResponse_stored [OF v])
qed

lemma permission_protocol_same:
  assumes "system_services I X B"
  shows "ApplyPacket (permission_protocol I rsvd) D w = Some (st, D', w') \<Longrightarrow> stored_same (ie_Platform I) (snd w) (snd w')"
    "Lkg (permission_protocol I rsvd) D DFCI_LKG_RESTORE w = Some (st, D', w') \<Longrightarrow> stored_same (ie_Platform I) (snd w) (snd w')"
    "ApplyResult (permission_protocol I rsvd) D w = Some (st, w') \<Longrightarrow> stored_same (ie_Platform I) (snd w) (snd w')"
proof -
  have i: "identity_services I" using assms by (simp add: system_services_def)
  note L = identity_servicesD [OF i]
  show "stored_same (ie_Platform I) (snd w) (snd w')" if "ApplyPacket (permission_protocol I rsvd) D w = Some (st, D', w')"
    using that by (cases w) (auto simp: permission_protocol_def split: Option.bind_splits dest!: ApplyNewPermissionsPacket_stored [OF L(2,1,4)])
  show "stored_same (ie_Platform I) (snd w) (snd w')" if "Lkg (permission_protocol I rsvd) D DFCI_LKG_RESTORE w = Some (st, D', w')"
    using that by (cases w) (auto simp: permission_protocol_def split: Option.bind_splits dest!: LKG_restore_stored [OF L(3,1)])
  show "stored_same (ie_Platform I) (snd w) (snd w')" if "ApplyResult (permission_protocol I rsvd) D w = Some (st, w')"
    using that by (cases w) (auto simp: permission_protocol_def split: Option.bind_splits dest!: SetPermissionsResponse_stored [OF L(3,1)])
qed

lemma settings_protocol_same:
  assumes "system_services I X B" "ApplyPacket (settings_protocol I X rsvd) D w = Some (st, D', w')"
  shows "stored_same (ie_Platform I) (snd w) (snd w')"
proof -
  have i: "identity_services I" "setting_services I X" using assms(1) by (simp_all add: system_services_def)
  show ?thesis
    using assms(2) by (cases w) (auto simp: settings_protocol_def split: Option.bind_splits dest!: settings_packet_stored [OF i])
qed

lemma settings_protocol_idle:
  "Lkg (settings_protocol I X rsvd) D lop w = Some (st, D', w') \<Longrightarrow> stored_same (ie_Platform I) (snd w) (snd w')"
  "ApplyResult (settings_protocol I X rsvd) D w = Some (st, w') \<Longrightarrow> stored_same (ie_Platform I) (snd w) (snd w')"
  by (auto simp: settings_protocol_def)

interpretation batch: packet_batch "dfci_system I X rsvd B" "system_same I X B" for I X rsvd B
proof (unfold_locales, goal_cases)
  case (2 a b c)
  then show ?case using stored_same_trans by (auto simp: system_same_def)
next
  case (3 P D w st D' w')
  then show ?case
    using identity_protocol_same(1) [of I X B] permission_protocol_same(1) [of I X B] settings_protocol_same [of I X B]
    by (cases P) (simp_all add: system_same_def dfci_system_def enrols_def)
next
  case (4 P D w st D' w')
  then show ?case
    using identity_protocol_same(2) [of I X B] permission_protocol_same(2) [of I X B] settings_protocol_idle(1) [of I X]
    by (cases P) (simp_all add: system_same_def dfci_system_def)
next
  case (5 D lop w st D' w')
  then show ?case using settings_protocol_idle(1) [of I X] by (simp add: system_same_def dfci_system_def)
next
  case (6 P D w st w')
  then show ?case
    using identity_protocol_same(3) [of I X B] permission_protocol_same(3) [of I X B] settings_protocol_idle(2) [of I X]
    by (cases P) (simp_all add: system_same_def dfci_system_def)
next
  case (7 D w st D' w')
  then show ?case using identity_unenroll [of I D] by (cases w) (auto simp: dfci_system_def identity_protocol_def split: Option.bind_splits)
next
  case (8 D lop w st D' w')
  then show ?case using identity_lkg_unenroll [of I D] by (cases w) (auto simp: dfci_system_def identity_protocol_def split: Option.bind_splits)
next
  case (9 p w st w')
  have "other_variable (the (vp_Name p)) (vp_Namespace p)" using 9(1) by (auto simp: gMailBoxPolicies_def policy_def)
  with 9(2) show ?case
    by (cases w) (auto simp: system_same_def system_services_def dfci_system_def split: prod.splits
        intro: set_variable_stored(1) [OF identity_servicesD(3)])
qed (auto simp: system_same_def system_services_def dfci_system_def)

section \<open>A failed batch\<close>

lemma enrolment_wf:
  assumes M: "manager_wf M" "no_removal M" and k: "identity_index k"
  shows "enrolment k M"
  unfolding enrolment_def
proof (intro allI impI)
  fix D assume d: "md_Data (mg_ManagerData M ! k) = Some D" "\<not> EFI_ERROR (md_DecodeStatus (mg_ManagerData M ! k))"
  have "entry_wf k (mg_ManagerData M ! k)" using M(1) k by (auto simp: manager_wf_def identity_index_def)
  with d k have "pk_PayloadSize D = 0 \<longrightarrow> pk_Unenroll D" by (simp add: entry_wf_def)
  moreover have "\<not> pk_Unenroll D" using M(2) k d(1) by (simp add: no_removal_def)
  ultimately show "pk_PayloadSize D \<noteq> 0" by blast
qed

text \<open>
  Property C2: a batch of packets without removals in which an identity or permission packet fails
  leaves the stored certificates and the stored permissions as they were, whatever the packets contain
  and wherever the failure occurs: what was applied before the failure is not there after a reset.
  The conditions are that no packet of the batch removes an identity (the code applies a pending removal
  even after a failed batch), that the stored permissions have the current format (an older format is
  rewritten when it is loaded), and that the platform's services, the setting providers included, leave
  the two variables alone.
\<close>

theorem failed_batch_has_no_lasting_effect:
  assumes s: "system_services I X B" and v: "perm_current (ie_U I) s"
    and M: "manager_wf M" "no_removal M"
    and p: "ProcessMailBoxes (dfci_system I X rsvd B) M (Store, (a, s)) = Some (st, M', (Store', (a', s')))" and e: "EFI_ERROR st"
  shows "GetVariable (ie_U I) VAR_NAME gDfciInternalVariableGuid s' = GetVariable (ie_U I) VAR_NAME gDfciInternalVariableGuid s
    \<and> GetVariable (ie_U I) CERT_VAR_NAME gDfciInternalVariableGuid s' = GetVariable (ie_U I) CERT_VAR_NAME gDfciInternalVariableGuid s"
proof -
  have en: "enrolment k M" if "identity_index k" for k
    by (rule enrolment_wf [OF M that])
  have "system_same I X B (Store, (a, s)) (Store', (a', s'))"
    by (rule batch.failed_batch [OF p manager_wf_table [OF M(1)] M(2) en en e]) (simp_all add: identity_index_def)
  with s have "stored_same (ie_U I) s s'" by (simp add: system_same_def ie_Platform_def stored_same_lift)
  with v show ?thesis by (simp add: stored_same_def)
qed

end
