(* ===== verification/Field_Code.thy ===== *)
theory Field_Code
  imports Dfci_Prelude
begin

text \<open>
  Fields of a packed structure evaluated on words: code equations that replace the definitions over
  natural numbers when concrete buffers are evaluated.
\<close>

fun le_word :: "bytes \<Rightarrow> 'a::len word" where
  "le_word [] = 0"
| "le_word (b # bs) = ucast b + 256 * le_word bs"

fun word_le :: "nat \<Rightarrow> 'a::len word \<Rightarrow> bytes" where
  "word_le 0 w = []"
| "word_le (Suc n) w = ucast w # word_le n (drop_bit 8 w)"

lemma le_word: "word_of_nat (le_nat bs) = (le_word bs :: 'a::len word)"
  by (induction bs) (simp_all add: of_nat_unat)

lemma word_le: "nat_le n (unat w) = word_le n (w :: 'a::len word)"
proof (induction n arbitrary: w)
  case (Suc n)
  have "unat w div 256 = unat (drop_bit 8 w)" by (subst unat_drop_bit_eq) (simp add: drop_bit_eq_div)
  then show ?case using Suc by (simp only: nat_le.simps word_le.simps of_nat_unat)
qed simp

lemma field_code [code]:
  "rd16 bs off = map_option le_word (rd bs off 2)" "rd32 bs off = map_option le_word (rd bs off 4)"
  "rd64 bs off = map_option le_word (rd bs off 8)"
  "le16 a = word_le 2 a" "le32 b = word_le 4 b" "le64 c = word_le 8 c"
  by (simp_all add: rd16_def rd32_def rd64_def le16_def le32_def le64_def le_word word_le)

end
