(* ===== verification/Manager_Runs.thy ===== *)
theory Manager_Runs
  imports Manager_System Field_Code
begin

text \<open>
  Concrete runs of the whole system: mailbox variables as an operating system writes them, read,
  decoded, applied and answered.
\<close>

section \<open>A concrete system\<close>

definition run_set_env :: "demo_state sys set_env" where
  "run_set_env = \<lparr>Base64Decode = (\<lambda>t b n. (EFI_SUCCESS, 0, [])), Base64Encode = (\<lambda>b. (EFI_SUCCESS, length b, [])),
     AsciiStrHexToBytes = (\<lambda>t. (EFI_SUCCESS, [])), DfciV1NumberFromId = (\<lambda>i. None), CertThumbprint = (\<lambda>b s. (EFI_NOT_FOUND, [])),
     DfciSettingChangedNotification = (\<lambda>i t ty v f s. (EFI_SUCCESS, s))\<rparr>"

text \<open>
  \<open>located\<close> is the result of locating the setting access protocol, \<open>created\<close> that of creating an event.
\<close>

definition run_services :: "EFI_STATUS \<Rightarrow> EFI_STATUS \<Rightarrow> demo_state world manager_env" where
  "run_services located created = \<lparr>
     me_AllocateZeroPool = (\<lambda>w. (True, w)), me_GetVariable2 = (\<lambda>n g w. (EFI_NOT_FOUND, [])), me_SetVariable = (\<lambda>n g a d w. (EFI_SUCCESS, w)),
     me_Ids = \<lparr>DfciIdSupportGetManufacturer = \<lambda>_. (EFI_SUCCESS, [65, 0]), DfciIdSupportGetProductName = \<lambda>_. (EFI_SUCCESS, [66, 0]),
       DfciIdSupportGetSerialNumber = \<lambda>_. (EFI_SUCCESS, [67, 0])\<rparr>,
     me_Apply = (\<lambda>P. \<lparr>ApplyPacket = (\<lambda>D w. None), ApplyResult = (\<lambda>D w. None), Lkg = (\<lambda>D i w. None)\<rparr>),
     me_Locate = (\<lambda>P w. (EFI_SUCCESS, True)), me_LocateSettingAccess = (\<lambda>w. located), me_CreateEventEx = (\<lambda>w. (EFI_SUCCESS, w)),
     me_CreateEvent = (\<lambda>w. (created, w)), me_RegisterProtocolNotify = (\<lambda>w. (EFI_SUCCESS, w)), me_DfciUiIsUiAvailable = (\<lambda>w. True),
     me_ResetNotification = (\<lambda>w. w), me_LocateVariablePolicy = (\<lambda>w. EFI_SUCCESS),
     me_RegisterVarStateVariablePolicy = (\<lambda>p w. (EFI_SUCCESS, w)), me_RegisterBasicVariablePolicy = (\<lambda>p w. (EFI_SUCCESS, w)),
     me_PcdSKUEnableDfci = True\<rparr>"

definition run_system :: "EFI_STATUS \<Rightarrow> EFI_STATUS \<Rightarrow> demo_state world manager_env" where
  "run_system located created = dfci_system demo_identity run_set_env [0, 0, 0] (run_services located created)"

text \<open>
  An identity packet for any device that enrols the certificate \<open>[9]\<close> of the identity user1, signed
  by the owner, and a permission packet that is too short.
\<close>

definition enrol_bytes :: bytes where
  "enrol_bytes = [0x4D, 0x53, 0x50, 0x41, 2, 3, 0, 0, 7, 0, 0, 0, 32, 0, 33, 0, 34, 0, 1, 0, 35, 0, 0, 0, 1, 0, 0, 0, 0, 0, 0, 0, 0, 0, 0, 9]
     @ le32 25 @ le16 0x200 @ le16 0x0EF1 @ replicate 16 0 @ [9] @ owner_signature"

definition saved_certs :: demo_state where
  "saved_certs = snd (the (SaveProvisionedData demo_platform example_certs example_state))"

definition run_world :: "bytes \<Rightarrow> demo_state world" where
  "run_world permissions = (Some key_store, (example_auth_state, saved_certs\<lparr>dm_vars :=
     ((''DfciIdentityApply'', gDfciAuthProvisionVarNamespace), (enrol_bytes, 7)) #
     ((''DfciPermissionApply'', gDfciPermissionManagerVarNamespace), (permissions, 7)) # dm_vars saved_certs\<rparr>))"

definition run_table :: "bytes \<Rightarrow> manager" where
  "run_table permissions = fst (snd (the (AllocateManagerData (run_system EFI_SUCCESS EFI_SUCCESS) initial_manager (run_world permissions))))"

lemma run_system_services: "system_services demo_identity run_set_env (run_services located created)"
proof -
  have "alloc_keeps_vars demo_platform" "xml_keeps_vars demo_platform" "variable_laws demo_platform" using demo_laws by simp_all
  then have "identity_services demo_identity"
    by (simp add: identity_services_def demo_identity_def) (auto simp: rng_keeps_vars_def ui_keeps_vars_def demo_env_def demo_ui_def)
  then show ?thesis
    by (auto simp: system_services_def setting_services_def run_set_env_def run_services_def demo_identity_def FindProviderById_def
        split: option.splits if_splits)
qed

lemma run_alloc: "map_option fst (AllocateManagerData (run_system EFI_SUCCESS EFI_SUCCESS) initial_manager (run_world [1])) = Some EFI_SUCCESS"
  by code_simp

lemma run_fails: "map_option fst (ProcessMailBoxes (run_system EFI_SUCCESS EFI_SUCCESS) (run_table [1]) (run_world [1])) = Some EFI_COMPROMISED_DATA"
  by code_simp

lemma run_no_removal: "list_all (\<lambda>m. case md_Data m of None \<Rightarrow> True | Some D \<Rightarrow> \<not> pk_Unenroll D) (mg_ManagerData (run_table [1]))"
  by code_simp

lemma run_allocated:
  obtains M w' where "AllocateManagerData (run_system EFI_SUCCESS EFI_SUCCESS) initial_manager (run_world [1]) = Some (EFI_SUCCESS, M, w')"
    "run_table [1] = M"
  using run_alloc by (auto simp: run_table_def)

lemma run_table_wf: "manager_wf (run_table [1])" "no_removal (run_table [1])"
proof -
  show w: "manager_wf (run_table [1])" by (rule run_allocated) (auto dest: AllocateManagerData_table)
  have "\<not> pk_Unenroll D" if "k < 6" "md_Data (mg_ManagerData (run_table [1]) ! k) = Some D" for k D
    using run_no_removal w that by (auto simp: list_all_length manager_wf_def split: option.splits)
  from this [of 0] this [of 3] show "no_removal (run_table [1])" by (auto simp: no_removal_def identity_index_def)
qed

theorem AllocateManagerData_wf_witness:
  "\<exists>M w'. AllocateManagerData (run_system EFI_SUCCESS EFI_SUCCESS) initial_manager (run_world [1]) = Some (EFI_SUCCESS, M, w') \<and> manager_wf M"
proof (rule run_allocated)
  fix M w' assume a: "AllocateManagerData (run_system EFI_SUCCESS EFI_SUCCESS) initial_manager (run_world [1]) = Some (EFI_SUCCESS, M, w')"
  have "alloc_keeps_mailboxes (run_system EFI_SUCCESS EFI_SUCCESS)"
    by (simp add: alloc_keeps_mailboxes_def run_system_def dfci_system_def run_services_def)
  from AllocateManagerData_wf [OF this, of "run_world [1]"] a show ?thesis by simp
qed

text \<open>A concrete failure: the identity packet is applied, the permission packet is not, nothing is stored.\<close>

theorem failed_batch_has_no_lasting_effect_witness:
  "\<exists>M' Store' a' s'. ProcessMailBoxes (run_system EFI_SUCCESS EFI_SUCCESS) (run_table [1]) (run_world [1]) = Some (EFI_COMPROMISED_DATA, M', (Store', (a', s')))
     \<and> GetVariable demo_platform CERT_VAR_NAME gDfciInternalVariableGuid s'
       = GetVariable demo_platform CERT_VAR_NAME gDfciInternalVariableGuid (snd (snd (run_world [1])))"
proof -
  obtain M' Store' a' s' where p: "ProcessMailBoxes (run_system EFI_SUCCESS EFI_SUCCESS) (run_table [1]) (run_world [1]) = Some (EFI_COMPROMISED_DATA, M', (Store', (a', s')))"
    using run_fails by auto
  have U: "ie_U demo_identity = demo_platform" by (simp add: demo_identity_def)
  have v: "perm_current demo_platform (snd (snd (run_world [1])))"
    by code_simp
  obtain S a s where w: "run_world [1] = (S, (a, s))" by (metis prod_cases3)
  from failed_batch_has_no_lasting_effect [OF run_system_services _ run_table_wf, of s "[0, 0, 0]" EFI_SUCCESS EFI_SUCCESS S a EFI_COMPROMISED_DATA M' Store' a' s']
    p v show ?thesis by (simp add: run_system_def w U)
qed

section \<open>The ways a run ends\<close>

text \<open>
  Packets that the drivers turn down before they look at anything else: an identity packet for an
  identity that does not exist, and a permission packet without a signature.  On these the protocols of
  the three drivers return in every state.
\<close>

definition rejected :: "protocol \<Rightarrow> packet \<Rightarrow> bool" where
  "rejected P D \<longleftrightarrow> \<not> pk_LKGDirty D \<and> pk_AuthToken D = DFCI_AUTH_TOKEN_INVALID \<and> (case P of
      ApplyIdentityProtocol \<Rightarrow> pk_VarIdentity D = Some 5 \<and> (\<exists>v. rd8 (pk_Packet D) 5 = Some v \<and> VarIdentityToDfciIdentity v = DFCI_IDENTITY_INVALID)
    | ApplyPermissionsProtocol \<Rightarrow> pk_Signature D = None \<and> pk_ResultXmlSize D = 0
    | ApplySettingsProtocol \<Rightarrow> False)"

lemma rejected_identity:
  assumes "rejected ApplyIdentityProtocol D"
  shows "\<exists>st D' w'. ApplyPacket (identity_protocol I) D w = Some (st, D', w') \<and> rejected ApplyIdentityProtocol D' \<and> st \<noteq> EFI_MEDIA_CHANGED"
    "\<exists>st D' w'. Lkg (identity_protocol I) D i w = Some (st, D', w') \<and> rejected ApplyIdentityProtocol D'"
    "\<exists>st w'. ApplyResult (identity_protocol I) D w = Some (st, w')"
proof -
  obtain v where v: "\<not> pk_LKGDirty D" "pk_AuthToken D = DFCI_AUTH_TOKEN_INVALID" "pk_VarIdentity D = Some 5" "rd8 (pk_Packet D) 5 = Some v"
    "VarIdentityToDfciIdentity v = DFCI_IDENTITY_INVALID" using assms by (auto simp: rejected_def)
  obtain Store a s where w: "w = (Store, (a, s))" by (metis prod_cases3)
  have "rd8 (pk_Packet D) 4 \<noteq> None" using v(4) by (simp add: rd8_def split: if_splits)
  then obtain ver where "rd8 (pk_Packet D) 4 = Some ver" by auto
  then have "\<exists>st. ValidateIdentityPacket D = Some st \<and> st \<noteq> EFI_MEDIA_CHANGED" using v(3) by (simp add: ValidateIdentityPacket_def)
  then obtain st where "ValidateIdentityPacket D = Some st" "st \<noteq> EFI_MEDIA_CHANGED" by blast
  moreover have "check_identity C D = Some (Some (STATE_DATA_INVALID, EFI_UNSUPPORTED), D\<lparr>pk_DfciIdentity := DFCI_IDENTITY_INVALID\<rparr>)" for C
    using v(3-5) by (simp add: check_identity_def Let_def)
  ultimately show "\<exists>st D' w'. ApplyPacket (identity_protocol I) D w = Some (st, D', w') \<and> rejected ApplyIdentityProtocol D' \<and> st \<noteq> EFI_MEDIA_CHANGED"
    using v by (auto simp: w identity_protocol_def ApplyNewIdentityPacket_def identity_packet_body_def set_outcome_def
        ValidateAndAuthenticatePendingProvisionData_def rejected_def)
  show "\<exists>st D' w'. Lkg (identity_protocol I) D i w = Some (st, D', w') \<and> rejected ApplyIdentityProtocol D'"
    using v by (auto simp: w identity_protocol_def Identity_LKG_Handler_def Let_def set_outcome_def rejected_def)
  show "\<exists>st w'. ApplyResult (identity_protocol I) D w = Some (st, w')"
    by (auto simp: w identity_protocol_def split: prod.splits)
qed

lemma rejected_permissions:
  assumes "rejected ApplyPermissionsProtocol D"
  shows "\<exists>st D' w'. ApplyPacket (permission_protocol I rsvd) D w = Some (st, D', w') \<and> rejected ApplyPermissionsProtocol D' \<and> st \<noteq> EFI_MEDIA_CHANGED"
    "\<exists>st D' w'. Lkg (permission_protocol I rsvd) D i w = Some (st, D', w') \<and> rejected ApplyPermissionsProtocol D'"
    "\<exists>st w'. ApplyResult (permission_protocol I rsvd) D w = Some (st, w')"
proof -
  have v: "\<not> pk_LKGDirty D" "pk_AuthToken D = DFCI_AUTH_TOKEN_INVALID" "pk_Signature D = None" "pk_ResultXmlSize D = 0"
    using assms by (auto simp: rejected_def)
  obtain Store a s where w: "w = (Store, (a, s))" by (metis prod_cases3)
  have "ValidatePermissionsPacket D = EFI_COMPROMISED_DATA" using v(3) by (simp add: ValidatePermissionsPacket_def)
  then show "\<exists>st D' w'. ApplyPacket (permission_protocol I rsvd) D w = Some (st, D', w') \<and> rejected ApplyPermissionsProtocol D' \<and> st \<noteq> EFI_MEDIA_CHANGED"
    using v by (auto simp: w permission_protocol_def ApplyNewPermissionsPacket_def permissions_packet_body_def Let_def rejected_def)
  show "\<exists>st D' w'. Lkg (permission_protocol I rsvd) D i w = Some (st, D', w') \<and> rejected ApplyPermissionsProtocol D'"
    using v by (auto simp: w permission_protocol_def LKG_Handler_def Let_def rejected_def)
  show "\<exists>st w'. ApplyResult (permission_protocol I rsvd) D w = Some (st, w')"
    using v by (auto simp: w permission_protocol_def SetPermissionsResponse_def Let_def split: prod.splits)
qed

lemma rejected_return:
  "returns_in (dfci_system I X rsvd B) rejected (\<lambda>_. True)" "\<not> asks_for_media_change (dfci_system I X rsvd B) rejected (\<lambda>_. True)"
proof -
  have p: "rejected ApplySettingsProtocol D \<longleftrightarrow> False" "rejected P (D\<lparr>pk_State := a\<rparr>) = rejected P D"
    "rejected P (D\<lparr>pk_State := a, pk_StatusCode := b\<rparr>) = rejected P D" for D P a b
    by (simp_all add: rejected_def split: protocol.splits)
  show "returns_in (dfci_system I X rsvd B) rejected (\<lambda>_. True)"
    unfolding returns_in_def
  proof (intro allI impI)
    fix P :: protocol and D w assume D: "rejected P D"
    show "rejected P (D\<lparr>pk_State := STATE_DATA_PRESENT\<rparr>) \<and> (\<forall>st. rejected P (D\<lparr>pk_State := STATE_ABORTED, pk_StatusCode := st\<rparr>))
     \<and> (True \<longrightarrow> (\<exists>st D' w'. ApplyPacket (me_Apply (dfci_system I X rsvd B) P) D w = Some (st, D', w') \<and> rejected P D' \<and> True)
        \<and> (\<exists>st w'. ApplyResult (me_Apply (dfci_system I X rsvd B) P) D w = Some (st, w') \<and> True)
        \<and> (\<forall>i. \<exists>st D' w'. Lkg (me_Apply (dfci_system I X rsvd B) P) D i w = Some (st, D', w') \<and> rejected P D' \<and> True))"
      using D rejected_identity [of D I] rejected_permissions [of D I rsvd] by (cases P) (simp_all add: p dfci_system_def, blast+)
  qed
  have False if "rejected P D" "ApplyPacket (me_Apply (dfci_system I X rsvd B) P) D w = Some (EFI_MEDIA_CHANGED, D', w')" for P D w D' w'
    using that rejected_identity(1) [of D I w] rejected_permissions(1) [of D I rsvd w] by (cases P) (auto simp: p dfci_system_def)
  then show "\<not> asks_for_media_change (dfci_system I X rsvd B) rejected (\<lambda>_. True)" by (auto simp: asks_for_media_change_def)
qed

text \<open>
  The same mailboxes with a packet for an unknown identity, while the setting access protocol is not
  there yet: the driver waits and finds the packets at the end of the driver phase.
\<close>

definition unknown_identity_bytes :: bytes where
  "unknown_identity_bytes = enrol_bytes[5 := 9]"

definition reject_world :: "demo_state world" where
  "reject_world = (Some key_store, (example_auth_state, saved_certs\<lparr>dm_vars :=
     ((''DfciIdentityApply'', gDfciAuthProvisionVarNamespace), (unknown_identity_bytes, 7)) #
     ((''DfciPermissionApply'', gDfciPermissionManagerVarNamespace), ([1], 7)) # dm_vars saved_certs\<rparr>))"

abbreviation (input) waiting_system :: "demo_state world manager_env" where "waiting_system \<equiv> run_system EFI_NOT_FOUND EFI_SUCCESS"

lemma waiting_services: "mailbox_services waiting_system" "events_succeed waiting_system"
proof -
  show "mailbox_services waiting_system"
    by (auto simp: mailbox_services_def deletion_laws_def run_system_def dfci_system_def run_services_def ie_Platform_def
        demo_identity_def lift_services demo_services map_of_filter_other split: prod.splits option.splits)
qed (simp add: events_succeed_def run_system_def dfci_system_def run_services_def)

lemma waiting_returns: "returns_in waiting_system rejected (\<lambda>_. True)" "\<not> asks_for_media_change waiting_system rejected (\<lambda>_. True)"
  unfolding run_system_def by (rule rejected_return)+

text \<open>What the entry point leaves: both packets present, one decoded and one not.\<close>

definition rejected_code :: "nat \<Rightarrow> packet \<Rightarrow> bool" where
  "rejected_code k D = (pk_Packet D = [] \<or> \<not> pk_LKGDirty D \<and> pk_AuthToken D = DFCI_AUTH_TOKEN_INVALID
     \<and> (k = MGR_IDENTITY \<and> pk_VarIdentity D = Some 5 \<and> rd8 (pk_Packet D) 5 = Some 9
       \<or> k = MGR_PERMISSIONS \<and> pk_Signature D = None \<and> pk_ResultXmlSize D = 0))"

lemma rejected_code: "rejected_code k D \<Longrightarrow> pk_Packet D \<noteq> [] \<Longrightarrow> rejected (entry_protocol k) D"
  by (auto simp: rejected_code_def rejected_def entry_protocol_def identity_index_def VarIdentityToDfciIdentity_def intro!: exI [of _ 9])

lemma waiting_entry:
  obtains M w' where "DfciManagerEntry waiting_system initial_manager reject_world = Some (EFI_SUCCESS, M, w')" "mg_EndOfDxeEvent M"
    "me_DfciUiIsUiAvailable waiting_system w'" "packets_in rejected M" "md_DecodeStatus (mg_ManagerData M ! MGR_IDENTITY) = EFI_SUCCESS"
proof -
  have "map_option (\<lambda>(st, M, w'). (st, mg_EndOfDxeEvent M, me_DfciUiIsUiAvailable waiting_system w',
        list_all (\<lambda>k. case md_Data (mg_ManagerData M ! k) of None \<Rightarrow> True | Some D \<Rightarrow> rejected_code k D) [0, 1, 2, 3, 4, 5],
        md_DecodeStatus (mg_ManagerData M ! MGR_IDENTITY)))
      (DfciManagerEntry waiting_system initial_manager reject_world) = Some (EFI_SUCCESS, True, True, True, EFI_SUCCESS)"
    by code_simp
  then obtain M w' where e: "DfciManagerEntry waiting_system initial_manager reject_world = Some (EFI_SUCCESS, M, w')" "mg_EndOfDxeEvent M"
    "me_DfciUiIsUiAvailable waiting_system w'" "md_DecodeStatus (mg_ManagerData M ! MGR_IDENTITY) = EFI_SUCCESS"
    and c: "list_all (\<lambda>k. case md_Data (mg_ManagerData M ! k) of None \<Rightarrow> True | Some D \<Rightarrow> rejected_code k D) [0, 1, 2, 3, 4, 5]"
    by (auto split: prod.splits)
  have "rejected_code k D" if "k < MGR_MAX" "md_Data (mg_ManagerData M ! k) = Some D" for k D
  proof -
    have "k \<in> {0, 1, 2, 3, 4, 5}" using that(1) by auto
    with c that(2) show ?thesis by (auto simp: list_all_iff)
  qed
  then have "packets_in rejected M" by (auto simp: packets_in_def rejected_code)
  with e that show thesis by blast
qed

theorem ProcessMailBoxes_completes_or_waits_witness:
  "\<exists>M w st M' w'. DfciManagerEntry waiting_system initial_manager reject_world = Some (EFI_SUCCESS, M, w)
     \<and> ProcessMailBoxes waiting_system (M\<lparr>mg_ProcessingAtEndOfDxe := True\<rparr>) w = Some (st, M', w')
     \<and> table_freed M' \<and> mailboxes_empty waiting_system w'"
proof (rule waiting_entry)
  fix M w assume e: "DfciManagerEntry waiting_system initial_manager reject_world = Some (EFI_SUCCESS, M, w)" "mg_EndOfDxeEvent M"
    "packets_in rejected M"
  have "driver_inv M" by (rule DfciManagerEntry_inv [OF waiting_services(2) e(1)])
  then have t: "table_ok (M\<lparr>mg_ProcessingAtEndOfDxe := True\<rparr>)" using e(2) by (simp add: driver_inv_def)
  from ProcessMailBoxes_completes_or_waits [OF t waiting_services(1) waiting_returns(1), of w] e waiting_returns(2) show ?thesis by auto
qed

theorem end_of_dxe_completes_witness:
  "\<exists>M w M' w'. booted waiting_system M w \<and> md_DecodeStatus (mg_ManagerData M ! MGR_IDENTITY) = EFI_SUCCESS
     \<and> EndOfDxeCallback waiting_system M w = Some (M', w') \<and> table_freed M' \<and> mailboxes_empty waiting_system w'"
proof (rule waiting_entry)
  fix M w assume e: "DfciManagerEntry waiting_system initial_manager reject_world = Some (EFI_SUCCESS, M, w)"
    and d: "mg_EndOfDxeEvent M" "me_DfciUiIsUiAvailable waiting_system w" "packets_in rejected M"
      "md_DecodeStatus (mg_ManagerData M ! MGR_IDENTITY) = EFI_SUCCESS"
  have b: "booted waiting_system M w" by (rule booted.entry [OF e])
  from end_of_dxe_completes [OF b waiting_services(2,1) waiting_returns(1) d(3) _ d(1,2)] b d(4) waiting_returns(2) show ?thesis by blast
qed

section \<open>Where the code goes wrong\<close>

text \<open>
  When the event for the setting access protocol cannot be created, the entry point
  releases the packets but keeps the event for the end of the driver phase; its callback then uses a
  NULL packet.
\<close>

theorem failed_registration_then_end_of_dxe:
  "\<exists>M w'. DfciManagerEntry (run_system EFI_NOT_FOUND EFI_OUT_OF_RESOURCES) initial_manager (run_world [1]) = Some (EFI_SUCCESS, M, w')
     \<and> mg_EndOfDxeEvent M \<and> EndOfDxeCallback (run_system EFI_NOT_FOUND EFI_OUT_OF_RESOURCES) M w' = None"
proof -
  have "map_option (\<lambda>(st, M, w'). (st, mg_EndOfDxeEvent M, EndOfDxeCallback (run_system EFI_NOT_FOUND EFI_OUT_OF_RESOURCES) M w' = None))
      (DfciManagerEntry (run_system EFI_NOT_FOUND EFI_OUT_OF_RESOURCES) initial_manager (run_world [1])) = Some (EFI_SUCCESS, True, True)"
    unfolding Option.is_none_def [symmetric] by code_simp
  then show ?thesis by (auto split: prod.splits)
qed

text \<open>
  An identity packet that was applied and then rolled back, because a later permission
  packet failed, is answered with success: the result variable carries the status zero although the
  certificate is not enrolled.
\<close>

theorem rolled_back_packet_reports_success:
  "\<exists>M' Store' a' s'. ProcessMailBoxes (run_system EFI_SUCCESS EFI_SUCCESS) (run_table [1]) (run_world [1]) = Some (EFI_COMPROMISED_DATA, M', (Store', (a', s')))
     \<and> cs_Certs (au_Certs a') ! 1 = no_cert
     \<and> GetVariable demo_platform ''DfciIdentityResult'' gDfciAuthProvisionVarNamespace s'
       = (EFI_SUCCESS, le32 0x5250534D @ [1, VAR_IDENTITY_USER1] @ le32 7 @ le64 EFI_SUCCESS, 7)"
proof -
  have "map_option (\<lambda>(st, M', (Store', (a', s'))). (st, cs_Certs (au_Certs a') ! 1, GetVariable demo_platform ''DfciIdentityResult'' gDfciAuthProvisionVarNamespace s'))
      (ProcessMailBoxes (run_system EFI_SUCCESS EFI_SUCCESS) (run_table [1]) (run_world [1]))
    = Some (EFI_COMPROMISED_DATA, no_cert, (EFI_SUCCESS, le32 0x5250534D @ [1, VAR_IDENTITY_USER1] @ le32 7 @ le64 EFI_SUCCESS, 7))"
    by code_simp
  then show ?thesis by (auto split: prod.splits)
qed

text \<open>
  Once an identity packet has left the state in which it was decoded, processing the
  mailboxes again fails and everything is restored.  A second identity packet that has to wait for the
  local user can therefore never be applied together with a first one: the second pass starts with the
  first packet, which was applied in the first pass, and aborts.
\<close>

theorem second_pass_aborts:
  assumes "md_Data (mg_ManagerData M ! MGR_IDENTITY) = Some D" "md_ApplyProtocol (mg_ManagerData M ! MGR_IDENTITY) = Some ApplyIdentityProtocol"
    and "pk_Packet D \<noteq> []" "\<not> EFI_ERROR (md_DecodeStatus (mg_ManagerData M ! MGR_IDENTITY))" "\<not> pk_Unenroll D"
    and "pk_State D \<noteq> STATE_DATA_PRESENT"
  shows "\<exists>M' w'. process_packets (dfci_system I X rsvd B) [MGR_IDENTITY, MGR_PERMISSIONS, MGR_IDENTITY2, MGR_PERMISSIONS2] EFI_SUCCESS M w
    = Some (False, EFI_ABORTED, M', w')"
proof -
  obtain S z where w: "w = (S, z)" by (cases w)
  have "\<exists>D' z'. ApplyNewIdentityPacket I True (Some D) S z = Some (EFI_ABORTED, Some D', S, z')"
    using assms(6) by (simp add: ApplyNewIdentityPacket_def identity_packet_body_def)
  then obtain D' z' where "ApplyPacket (me_Apply (dfci_system I X rsvd B) ApplyIdentityProtocol) D w = Some (EFI_ABORTED, D', (S, z'))"
    by (auto simp: w dfci_system_def identity_protocol_def)
  then have "ProcessPacket (dfci_system I X rsvd B) MGR_IDENTITY M w
      = Some (EFI_ABORTED, (set_data MGR_IDENTITY D' M)\<lparr>mg_RebootRequired := mg_RebootRequired M\<rparr>, (S, z'))"
    using assms(1-5) by (simp add: ProcessPacket_def ProcessApplyPacket_def Let_def)
  then show ?thesis by (simp add: identity_index_def)
qed

definition applied_table :: manager where
  "applied_table = initial_manager\<lparr>mg_ManagerData := replicate MGR_MAX \<lparr>md_ApplyProtocol = Some ApplyIdentityProtocol,
     md_Data = Some (user1_packet\<lparr>pk_State := STATE_DATA_COMPLETE\<rparr>), md_DecodeStatus = EFI_SUCCESS\<rparr>\<rparr>"

theorem second_pass_aborts_witness:
  "\<exists>M' w'. process_packets (run_system EFI_SUCCESS EFI_SUCCESS) [MGR_IDENTITY, MGR_PERMISSIONS, MGR_IDENTITY2, MGR_PERMISSIONS2] EFI_SUCCESS
     applied_table (run_world [1]) = Some (False, EFI_ABORTED, M', w')"
  unfolding run_system_def
  by (rule second_pass_aborts [of applied_table "user1_packet\<lparr>pk_State := STATE_DATA_COMPLETE\<rparr>"])
    (simp_all add: applied_table_def user1_packet_def, simp add: settings_packet_def)

end
