(* ===== verification/Setting_Authority.thy ===== *)
theory Setting_Authority
  imports Manager_Runs
begin

text \<open>
  Settings packets end to end: the settings manager of \<open>Setting_Apply\<close> with the authentication manager of
  \<open>Auth_Manager\<close> in place of the authentication protocol.  The theory determines the identity a packet is
  applied for from its signature and shows that the packet changes only what this identity may write.
\<close>

section \<open>Settings packets and the authentication manager\<close>

text \<open>
  The identity a settings packet is applied for: the first one whose certificate verifies its
  signature, or the reduced identity of the local user when it has none.
\<close>

definition packet_identity :: "'s auth_env \<Rightarrow> cert_store \<Rightarrow> packet \<Rightarrow> u8 option" where
  "packet_identity E C D = (case pk_Signature D of None \<Rightarrow> Some DFCI_IDENTITY_UNSIGNED_LOCAL
     | Some k \<Rightarrow> find (verifies E C (take (pk_SignedDataLength D) (pk_Packet D)) (drop k (pk_Packet D))) key_order)"

definition packet_may_write :: "'s auth_env \<Rightarrow> cert_store \<Rightarrow> perm_store \<Rightarrow> group list \<Rightarrow> packet \<Rightarrow> string \<Rightarrow> bool" where
  "packet_may_write E C S gs D i \<longleftrightarrow> (case packet_identity E C D of None \<Rightarrow> False | Some k \<Rightarrow> may_write S gs k i)"

text \<open>A relation on the platform that the services of the authentication manager keep.\<close>

lemma CreateAuthTokenWithMapping_keeps:
  assumes tr: "\<And>x y z. R x y \<Longrightarrow> R y z \<Longrightarrow> R x z" and refl: "\<And>x. R x x" and al: "\<And>n x. R x (snd (AllocatePool U n x))"
    and rng: "\<And>x. R x (snd (LocateRng E x))" "\<And>x. R x (snd (snd (GetRNG E x)))"
    and c: "CreateAuthTokenWithMapping U E i a s = (u, a', s')"
  shows "R s s'"
proof -
  have rng': "R x y" if "LocateRng E x = (st, y)" for st x y using rng(1) [of x] that by simp
  have get: "R x y" if "GetRNG E x = (st, v, y)" for st v x y using rng(2) [of x] that by simp
  have al': "R x y" if "AllocatePool U n x = (b, y)" for n b x y using al [where n = n and x = x] that by simp
  have t: "R x y" if "CreateRandomAuthToken E a x = (r, a1, y)" for x r a1 y
    using that refl rng' get by (auto simp: CreateRandomAuthToken_def split: prod.splits if_splits) (meson tr)+
  have m: "R x y" if "AddAuthHandleMapping U j p m x = (st, m', y)" for j p m x st m' y
    using that refl al' by (auto simp: AddAuthHandleMapping_def split: option.splits prod.splits if_splits)
  show ?thesis
    using c t m by (auto simp: CreateAuthTokenWithMapping_def split: prod.splits if_splits option.splits) (meson tr)+
qed

text \<open>The authentication of a settings packet by the manager.\<close>

lemma CheckAuthAndGetToken_manager:
  assumes w: "wf_map (au_Map a)"
    and tr: "\<And>x y z. R x y \<Longrightarrow> R y z \<Longrightarrow> R x z" and refl: "\<And>x. R x x" and al: "\<And>n x. R x (snd (AllocatePool U n x))"
    and rng: "\<And>x. R x (snd (LocateRng E x))" "\<And>x. R x (snd (snd (GetRNG E x)))"
    and c: "CheckAuthAndGetToken (Some (auth_manager U E)) (take (pk_SignedDataLength D) (pk_Packet D))
      (map_option (\<lambda>k. drop k (pk_Packet D)) (pk_Signature D)) t (a, s) = Some (st, tok, (a', s'))"
  shows "R s s' \<and> au_Certs a' = au_Certs a
    \<and> (\<not> EFI_ERROR st \<longrightarrow> (\<exists>k. packet_identity E (au_Certs a) D = Some k \<and> token_map (au_Map a') tok = Some k))"
proof -
  note keeps = CreateAuthTokenWithMapping_keeps [of R, OF tr refl al rng]
  show ?thesis
  proof (cases "pk_Signature D")
    case None
    then have p: "AuthWithPW U E DFCI_AUTH_WITH_NO_PASSWORD_UNSIGNED 0 a s = (st, tok, a', s')"
      using c by (auto simp: CheckAuthAndGetToken_def auth_manager_def split: prod.splits)
    have "R s s'" using p keeps refl by (auto simp: AuthWithPW_def Let_def split: prod.splits if_splits)
    with AuthWithPW_spec [OF w p] None show ?thesis by (auto simp: packet_identity_def split: if_splits)
  next
    case (Some k)
    let ?d = "take (pk_SignedDataLength D) (pk_Packet D)" and ?sg = "drop k (pk_Packet D)"
    obtain t' where p: "AuthWithSignedData U E (Some ?d) (Some ?sg) (Some t) a s = Some (st, t', a', s')" "t' = Some tok"
      using c Some by (auto simp: CheckAuthAndGetToken_def auth_manager_def split: Option.bind_splits)
    have "R s s'" using p(1) keeps refl by (auto simp: AuthWithSignedData_def Let_def split: Option.bind_splits prod.splits if_splits)
    with AuthWithSignedData_spec [OF w p(1)] p(2) Some show ?thesis by (auto simp: packet_identity_def split: if_splits)
  qed
qed

text \<open>
  Property C5: end to end, with the authentication manager in place of the protocol.  A settings packet
  changes settings only as the permissions of its identity allow: of the first identity whose
  certificate verifies the signature, or of the reduced local user for an unsigned packet.  Whatever
  relation between states of the platform is kept by the providers of the settings that this identity
  may write, by the services of the platform and by the three variables that the packet protocol itself
  writes (the result, the mailbox, the versions), holds between the state before and after the packet,
  whatever the packet contains and however its processing ends: a setting the identity may not write
  cannot change.  The certificates stay as they are.
\<close>

theorem settings_packet_only_permitted:
  assumes w: "wf_map (au_Map a)" "wf_store S"
    and f: "document_frame (lift_platform U) X ps (packet_may_write E (au_Certs a) S gs D) (\<lambda>x y. fst y = fst x \<and> R (snd x) (snd y))"
    and rng: "\<And>x. R x (snd (LocateRng E x))" "\<And>x. R x (snd (snd (GetRNG E x)))"
    and var: "\<And>n g at d x. (n, g) \<in> {(pk_ResultName D, gDfciSettingsManagerVarNamespace),
        (pk_MailboxName D, gDfciSettingsManagerVarNamespace), (SMID_VAR_NAME, gDfciInternalVariableGuid)}
      \<Longrightarrow> R x (snd (SetVariable U n g at d x))"
    and r: "ApplyNewSettingsPacket (lift_platform U) X (Some (auth_manager U E)) (Some S) gs ps rsvd True (Some D) (a, s)
      = Some (st, D', (a', s'))"
  shows "R s s' \<and> au_Certs a' = au_Certs a"
proof -
  let ?G = "\<lambda>x y. fst y = fst x \<and> R (snd x) (snd y)" and ?ok = "packet_may_write E (au_Certs a) S gs D"
  let ?R = "\<lambda>x y. R (snd x) (snd y) \<and> au_Certs (fst y) = au_Certs (fst x)" and ?A = "auth_manager U E"
  have refl: "R x x" for x using document_frameD(2) [OF f, of "(a, x)"] by simp
  have tr: "R x z" if "R x y" "R y z" for x y z using document_frameD(3) [OF f, where x = "(a, x)" and y = "(a, y)" and z = "(a, z)"] that by simp
  have al: "R x (snd (AllocatePool U n x))" for n x
    using document_frameD(4) [OF f lift_services(1) [of U n a x]] by simp
  have "authenticates (Some ?A) (Some S) gs D ?ok ?G ?R x" if x: "?G (a, s) x" for x
    unfolding authenticates_def
  proof (intro allI impI)
    fix st tok y assume c: "CheckAuthAndGetToken (Some ?A) (take (pk_SignedDataLength D) (pk_Packet D))
      (map_option (\<lambda>k. drop k (pk_Packet D)) (pk_Signature D)) (pk_AuthToken D) x = Some (st, tok, y)"
    obtain s1 a2 s2 where xy: "x = (a, s1)" "y = (a2, s2)" using x by (cases x; cases y) auto
    have m: "R s1 s2 \<and> au_Certs a2 = au_Certs a
      \<and> (\<not> EFI_ERROR st \<longrightarrow> (\<exists>k. packet_identity E (au_Certs a) D = Some k \<and> token_map (au_Map a2) tok = Some k))"
      by (rule CheckAuthAndGetToken_manager [where R = R, OF w(1) _ refl al rng c [unfolded xy]]) (rule tr)
    have "guarded (Some ?A) (Some S) gs tok ?ok ?G y" if ok: "\<not> EFI_ERROR st"
    proof -
      obtain k where k: "packet_identity E (au_Certs a) D = Some k" "token_map (au_Map a2) tok = Some k" using m ok by blast
      have "\<not> EFI_ERROR (fst (ap_GetIdentityProperties ?A tok z)) \<and> snd (ap_GetIdentityProperties ?A tok z) = k" if "?G y z" for z
        using that k(2) xy(2) by (cases z) (simp add: auth_manager_def GetIdentityProperties_map)
      from guarded_identity [OF w(2) this] show ?thesis by (simp add: guarded_def packet_may_write_def k(1))
    qed
    with m show "?R x y \<and> (\<not> EFI_ERROR st \<longrightarrow> guarded (Some ?A) (Some S) gs tok ?ok ?G y)" by (simp add: xy)
  qed
  moreover have "?R x y" if "AuthTokenDispose (Some ?A) t x = (c, u, y)" for t x c u y
    using that refl by (cases x) (auto simp: AuthTokenDispose_def auth_manager_def split: prod.splits if_splits)
  moreover have "?G x (snd (SetVariable (lift_platform U) n g at d x))"
    if "(n, g) \<in> {(pk_ResultName D, gDfciSettingsManagerVarNamespace),
        (pk_MailboxName D, gDfciSettingsManagerVarNamespace), (SMID_VAR_NAME, gDfciInternalVariableGuid)}" for n g at d x
    using var [OF that] by (cases x) (simp add: lift_services)
  ultimately have "?R (a, s) (a', s')"
    by (intro ApplyNewSettingsPacket_frame [of "lift_platform U" X ps ?ok ?G ?R, OF f _ _ _ _ _ r]) (auto intro: tr)
  then show ?thesis by simp
qed

section \<open>A concrete packet\<close>

text \<open>
  The packet of \<open>Setting_Apply\<close>, which sets \<open>A\<close> and \<open>B\<close>, signed by the owner, who may write \<open>B\<close> only.  The
  providers keep their values in variables of the platform.
\<close>

definition lift_provider :: "'s provider \<Rightarrow> 's sys provider" where
  "lift_provider p = \<lparr>pv_Id = pv_Id p, pv_Type = pv_Type p, pv_Flags = pv_Flags p,
     pv_Set = (\<lambda>v f (a, s). case pv_Set p v f s of (st, f', s') \<Rightarrow> (st, f', (a, s'))),
     pv_Get = (\<lambda>b n (a, s). pv_Get p b n s), pv_GetDefault = (\<lambda>b n (a, s). pv_GetDefault p b n s),
     pv_SetDefault = (\<lambda>(a, s). case pv_SetDefault p s of (st, s') \<Rightarrow> (st, (a, s')))\<rparr>"

definition owner_store :: perm_store where
  "owner_store = example_store\<lparr>ps_List := [\<lparr>pe_Id = ''A'', pe_PMask = 1, pe_DMask = 0xC0, pe_IdSize = 2, pe_MarkedForDeletion = False\<rparr>,
     \<lparr>pe_Id = ''B'', pe_PMask = 0x81, pe_DMask = 0x40, pe_IdSize = 2, pe_MarkedForDeletion = False\<rparr>]\<rparr>"

definition signed_settings :: packet where
  "signed_settings = settings_packet\<lparr>pk_Packet := replicate 22 0 @ to_bytes ''P'' @ owner_signature, pk_PacketSize := 48, pk_Signature := Some 23\<rparr>"

definition sys_providers :: "demo_state sys provider list" where
  "sys_providers = map lift_provider demo_providers"

lemma signed_settings_run:
  "map_option (\<lambda>(st, D', (a', s')). (st, fst (GetVariable demo_platform ''A'' ''Provider'' s'), fst (GetVariable demo_platform ''B'' ''Provider'' s')))
     (ApplyNewSettingsPacket (lift_platform demo_platform) run_set_env (Some (auth_manager demo_platform demo_env)) (Some owner_store) []
       sys_providers [0, 0, 0] True (Some signed_settings) (example_auth_state, settings_state)) = Some (EFI_SUCCESS, EFI_NOT_FOUND, EFI_SUCCESS)"
  by code_simp

lemma sys_provider_found: "FindProviderById (lift_platform demo_platform) sys_providers i = map_option lift_provider (FindProviderById demo_platform demo_providers i)"
  by (simp add: FindProviderById_def sys_providers_def demo_providers_def lift_provider_def lift_platform_def var_provider_def split: option.splits)

lemma signed_settings_not_A: "\<not> packet_may_write demo_env C owner_store [] signed_settings ''A''"
proof -
  have "\<not> may_write owner_store [] k ''A''" if "k \<in> set key_order" for k
    using that by (auto simp: key_order_def may_write_def explicit_masks_def perm_map_def owner_store_def entry_masks_def List.map_filter_def)
  moreover have "k \<in> set key_order" if "packet_identity demo_env C signed_settings = Some k" for k
    using that by (auto simp: packet_identity_def signed_settings_def find_Some_iff)
  ultimately show ?thesis by (auto simp: packet_may_write_def split: option.splits)
qed

lemma signed_settings_frame:
  "document_frame (lift_platform demo_platform) run_set_env sys_providers (packet_may_write demo_env C owner_store [] signed_settings)
     (\<lambda>x y. fst y = fst x \<and> GetVariable demo_platform ''A'' ''Provider'' (snd y) = GetVariable demo_platform ''A'' ''Provider'' (snd x))"
  using signed_settings_not_A
  by (auto simp: document_frame_def write_frame_def run_set_env_def sys_provider_found lift_provider_def demo_provider_found var_provider_def
      lift_services demo_services map_of_filter_other split: if_splits option.splits)

theorem settings_packet_only_permitted_witness:
  "\<exists>D' a' s'. ApplyNewSettingsPacket (lift_platform demo_platform) run_set_env (Some (auth_manager demo_platform demo_env)) (Some owner_store) []
       sys_providers [0, 0, 0] True (Some signed_settings) (example_auth_state, settings_state) = Some (EFI_SUCCESS, D', (a', s'))
     \<and> fst (GetVariable demo_platform ''B'' ''Provider'' s') = EFI_SUCCESS
     \<and> GetVariable demo_platform ''A'' ''Provider'' s' = GetVariable demo_platform ''A'' ''Provider'' settings_state"
proof -
  obtain D' a' s' where r: "ApplyNewSettingsPacket (lift_platform demo_platform) run_set_env (Some (auth_manager demo_platform demo_env)) (Some owner_store) []
       sys_providers [0, 0, 0] True (Some signed_settings) (example_auth_state, settings_state) = Some (EFI_SUCCESS, D', (a', s'))"
    "fst (GetVariable demo_platform ''B'' ''Provider'' s') = EFI_SUCCESS"
    using signed_settings_run by auto
  have w: "wf_store owner_store"
    by (simp add: owner_store_def example_store_def wf_store_def wf_list_def wf_entry_def wf_id_def is_digit_def)
  have "GetVariable demo_platform ''A'' ''Provider'' s' = GetVariable demo_platform ''A'' ''Provider'' settings_state \<and> au_Certs a' = au_Certs example_auth_state"
    by (rule settings_packet_only_permitted [OF example_auth_wf w signed_settings_frame _ _ _ r(1)])
      (auto simp: demo_services map_of_filter_other gDfciSettingsManagerVarNamespace_def SMID_VAR_NAME_def demo_env_def)
  with r show ?thesis by blast
qed

end
