(* ===== verification/Setting_Libraries.thy ===== *)
theory Setting_Libraries
  imports Setting_Provider
begin

text \<open>
  The setting providers that the repository ships as libraries linked into the settings manager:
  the DFCI settings (\<open>DfciSettingsLib/DfciSettings.c\<close>), the asset tag
  (\<open>DfciAssetTagSettingLib/DfciAssetTagSetting.c\<close>), the WPBT switch
  (\<open>DfciWpbtSettingLib/DfciWpbtSetting.c\<close>), virtualization
  (\<open>DfciVirtualizationSettings/DfciVirtualizationSettings.c\<close>), the administrator password
  (\<open>DfciPasswordProvider/DfciPasswordProvider.c\<close>) and the sample provider
  (\<open>DfciSampleProvider/DfciSampleProvider.c\<close>).  Each operation of the provider interface is one
  definition; NULL pointers among its arguments are \<open>None\<close>, or \<open>False\<close> for the output buffer.

  The contract of a setting that lives in a variable is the locale \<open>stored_setting\<close>; the three
  libraries with such settings interpret it.
\<close>

section \<open>What the libraries share\<close>

definition gDfciSettingsGuid :: string where
  "gDfciSettingsGuid = ''gDfciSettingsGuid''"

abbreviation (input) DFCI_SETTINGS_ATTRIBUTES :: u32 where "DFCI_SETTINGS_ATTRIBUTES \<equiv> 3"
abbreviation (input) DFCI_SETTING_MAXIMUM_SIZE :: nat where "DFCI_SETTING_MAXIMUM_SIZE \<equiv> 16384"

text \<open>The fields of \<open>This\<close> that the operations look at.\<close>

record setting_this =
  th_Id :: "string option"
  th_Type :: setting_type

text \<open>
  The runtime service \<open>GetVariable\<close> with the size of the caller's buffer: status, new size and the
  bytes written.  A variable is never empty, so a buffer that is long enough is not NULL.
\<close>

definition RtGetVariable :: "'s platform \<Rightarrow> string \<Rightarrow> nat \<Rightarrow> 's \<Rightarrow> EFI_STATUS \<times> nat \<times> bytes" where
  "RtGetVariable U VariableName DataSize s = (case GetVariable U VariableName gDfciSettingsGuid s of (Status, d, Attributes) \<Rightarrow>
     if EFI_ERROR Status then (Status, DataSize, [])
     else if length d > DataSize then (EFI_BUFFER_TOO_SMALL, length d, [])
     else (Status, length d, d))"

text \<open>The checks at the beginning of every \<open>Get\<close> and \<open>GetDefault\<close> of the libraries with variables.\<close>

definition get_args :: "setting_this option \<Rightarrow> nat option \<Rightarrow> bool \<Rightarrow> (string \<times> setting_type \<times> nat) option" where
  "get_args This ValueSize Value = do {
     t \<leftarrow> This;
     i \<leftarrow> th_Id t;
     n \<leftarrow> ValueSize;
     if \<not> Value \<and> n \<noteq> 0 then None else Some (i, th_Type t, n) }"

definition set_args :: "setting_this option \<Rightarrow> bytes option \<Rightarrow> u64 option \<Rightarrow> (string \<times> bytes \<times> u64) option" where
  "set_args This Value Flags = do {
     t \<leftarrow> This;
     i \<leftarrow> th_Id t;
     v \<leftarrow> Value;
     f \<leftarrow> Flags;
     Some (i, v, f) }"

definition ValidateNvVariable :: "'s platform \<Rightarrow> string \<Rightarrow> 's \<Rightarrow> EFI_STATUS \<times> 's" where
  "ValidateNvVariable U VariableName s = (case GetVariable U VariableName gDfciSettingsGuid s of (Status, Value, Attributes) \<Rightarrow>
     if \<not> EFI_ERROR Status then
       (if DFCI_SETTINGS_ATTRIBUTES \<noteq> Attributes then SetVariable U VariableName gDfciSettingsGuid 0 [] s else (Status, s))
     else (EFI_SUCCESS, s))"

text \<open>
  The common end of \<open>DfciSettingsSet\<close> and \<open>DfciAssetTagSettingSet\<close>: \<open>Status\<close> and \<open>BufferSize\<close> come
  from a read of the setting without a buffer.
\<close>

definition write_setting :: "'s platform \<Rightarrow> string \<Rightarrow> bytes \<Rightarrow> u64 \<Rightarrow> 's \<Rightarrow> EFI_STATUS \<times> u64 option \<times> 's" where
  "write_setting U VariableName Value Flags s =
     (case SetVariable U VariableName gDfciSettingsGuid DFCI_SETTINGS_ATTRIBUTES Value s of (Status, s) \<Rightarrow> (Status, Some Flags, s))"

definition set_if_changed :: "'s platform \<Rightarrow> string \<Rightarrow> EFI_STATUS \<Rightarrow> nat \<Rightarrow> bytes \<Rightarrow> u64 \<Rightarrow> 's
    \<Rightarrow> EFI_STATUS \<times> u64 option \<times> 's" where
  "set_if_changed U VariableName Status BufferSize Value Flags s =
     (if Status = EFI_NOT_FOUND then write_setting U VariableName Value Flags s
      else if EFI_ERROR Status \<and> Status \<noteq> EFI_BUFFER_TOO_SMALL then (Status, Some Flags, s)
      else if BufferSize = 0 \<and> length Value = 0 then (EFI_SUCCESS, Some (Flags OR FLAGS_OUT_ALREADY_SET), s)
      else if length Value \<noteq> 0 \<and> BufferSize = length Value then
        (case AllocatePool U BufferSize s of (ok, s) \<Rightarrow>
          if \<not> ok then (EFI_OUT_OF_RESOURCES, Some Flags, s)
          else case RtGetVariable U VariableName BufferSize s of (Status, n, Buffer) \<Rightarrow>
            if EFI_ERROR Status then (Status, Some Flags, s)
            else if take n Buffer = take n Value then (EFI_SUCCESS, Some (Flags OR FLAGS_OUT_ALREADY_SET), s)
            else write_setting U VariableName Value Flags s)
      else write_setting U VariableName Value Flags s)"

section \<open>DFCI settings\<close>

datatype id_is = ID_IS_BAD | ID_IS_RECOVERY_URL | ID_IS_BOOTSTRAP_URL | ID_IS_CERT | ID_IS_REGISTRATION_ID
  | ID_IS_TENANT_ID | ID_IS_FRIENDLY_NAME | ID_IS_TENANT_NAME

definition ID_DFCI_RECOVERY_URL :: string where "ID_DFCI_RECOVERY_URL = ''Dfci.RecoveryUrl.String''"
definition ID_DFCI_BOOTSTRAP_URL :: string where "ID_DFCI_BOOTSTRAP_URL = ''Dfci.RecoveryBootstrapUrl.String''"
definition ID_DFCI_HTTPS_CERT :: string where "ID_DFCI_HTTPS_CERT = ''Dfci.HttpsCert.Binary''"
definition ID_DFCI_REGISTRATION_ID :: string where "ID_DFCI_REGISTRATION_ID = ''Dfci.RegistrationId.String''"
definition ID_DFCI_TENANT_ID :: string where "ID_DFCI_TENANT_ID = ''Dfci.TenantId.String''"
definition ID_MDM_FRIENDLY_NAME :: string where "ID_MDM_FRIENDLY_NAME = ''MDM.FriendlyName.String''"
definition ID_MDM_TENANT_NAME :: string where "ID_MDM_TENANT_NAME = ''MDM.TenantName.String''"

definition IsIdSupported :: "string \<Rightarrow> id_is" where
  "IsIdSupported IdStr =
     (if AsciiStrnCmp_eq IdStr ID_DFCI_RECOVERY_URL DFCI_MAX_ID_LEN then ID_IS_RECOVERY_URL
      else if AsciiStrnCmp_eq IdStr ID_DFCI_BOOTSTRAP_URL DFCI_MAX_ID_LEN then ID_IS_BOOTSTRAP_URL
      else if AsciiStrnCmp_eq IdStr ID_DFCI_HTTPS_CERT DFCI_MAX_ID_LEN then ID_IS_CERT
      else if AsciiStrnCmp_eq IdStr ID_DFCI_REGISTRATION_ID DFCI_MAX_ID_LEN then ID_IS_REGISTRATION_ID
      else if AsciiStrnCmp_eq IdStr ID_DFCI_TENANT_ID DFCI_MAX_ID_LEN then ID_IS_TENANT_ID
      else if AsciiStrnCmp_eq IdStr ID_MDM_FRIENDLY_NAME DFCI_MAX_ID_LEN then ID_IS_FRIENDLY_NAME
      else if AsciiStrnCmp_eq IdStr ID_MDM_TENANT_NAME DFCI_MAX_ID_LEN then ID_IS_TENANT_NAME
      else ID_IS_BAD)"

text \<open>The variable of a setting: the \<open>switch\<close> of \<open>Set\<close> and \<open>Get\<close>.\<close>

fun setting_variable :: "id_is \<Rightarrow> string option" where
  "setting_variable ID_IS_RECOVERY_URL = Some ''DfciUrl''"
| "setting_variable ID_IS_BOOTSTRAP_URL = Some ''DfciUrl2''"
| "setting_variable ID_IS_CERT = Some ''DfciHttpsCert''"
| "setting_variable ID_IS_REGISTRATION_ID = Some ''DfciRegistrationId''"
| "setting_variable ID_IS_TENANT_ID = Some ''DfciTenantId''"
| "setting_variable ID_IS_FRIENDLY_NAME = Some ''MdmFriendlyName''"
| "setting_variable ID_IS_TENANT_NAME = Some ''MdmTenantName''"
| "setting_variable ID_IS_BAD = None"

text \<open>The status words are combined with a bitwise or.\<close>

fun validate_variables :: "'s platform \<Rightarrow> string list \<Rightarrow> EFI_STATUS \<Rightarrow> 's \<Rightarrow> EFI_STATUS \<times> 's" where
  "validate_variables U [] Status s = (Status, s)"
| "validate_variables U (n # ns) Status s = (case ValidateNvVariable U n s of (st, s) \<Rightarrow> validate_variables U ns (Status OR st) s)"

definition InitializeNvVariables :: "'s platform \<Rightarrow> 's \<Rightarrow> EFI_STATUS \<times> 's" where
  "InitializeNvVariables U = validate_variables U [''DfciUrl'', ''DfciUrl2'', ''DfciHttpsCert'', ''DfciRegistrationId'',
     ''DfciTenantId'', ''MdmFriendlyName'', ''MdmTenantName''] 0"

definition DfciSettingsGetDefault :: "setting_this option \<Rightarrow> nat option \<Rightarrow> bool \<Rightarrow> EFI_STATUS \<times> nat option \<times> bytes" where
  "DfciSettingsGetDefault This ValueSize Value = (case get_args This ValueSize Value of
     None \<Rightarrow> (EFI_INVALID_PARAMETER, ValueSize, [])
   | Some (i, ty, n) \<Rightarrow>
     if IsIdSupported i = ID_IS_BAD then (EFI_UNSUPPORTED, ValueSize, [])
     else if ty = TYPE_CERT then (EFI_SUCCESS, Some 0, [])
     else if ty = TYPE_ENABLE then (if n < 1 then (EFI_BUFFER_TOO_SMALL, Some 1, []) else (EFI_SUCCESS, Some 1, [1]))
     else if n < 1 then (EFI_BUFFER_TOO_SMALL, Some 1, []) else (EFI_SUCCESS, Some 1, [0]))"

definition DfciSettingsGet :: "'s platform \<Rightarrow> setting_this option \<Rightarrow> nat option \<Rightarrow> bool \<Rightarrow> 's \<Rightarrow> EFI_STATUS \<times> nat option \<times> bytes" where
  "DfciSettingsGet U This ValueSize Value s = (case get_args This ValueSize Value of
     None \<Rightarrow> (EFI_INVALID_PARAMETER, ValueSize, [])
   | Some (i, ty, n) \<Rightarrow> (case setting_variable (IsIdSupported i) of
       None \<Rightarrow> (EFI_UNSUPPORTED, ValueSize, [])
     | Some VariableName \<Rightarrow> (case RtGetVariable U VariableName n s of (Status, n, v) \<Rightarrow>
         if Status = EFI_NOT_FOUND then DfciSettingsGetDefault This (Some n) Value else (Status, Some n, v))))"

definition DfciSettingsSet :: "'s platform \<Rightarrow> setting_this option \<Rightarrow> bytes option \<Rightarrow> u64 option \<Rightarrow> 's
    \<Rightarrow> EFI_STATUS \<times> u64 option \<times> 's" where
  "DfciSettingsSet U This Value Flags s = (case set_args This Value Flags of
     None \<Rightarrow> (EFI_INVALID_PARAMETER, Flags, s)
   | Some (i, v, f) \<Rightarrow>
     if length v > DFCI_SETTING_MAXIMUM_SIZE then (EFI_INVALID_PARAMETER, Flags, s)
     else (case setting_variable (IsIdSupported i) of
       None \<Rightarrow> (EFI_UNSUPPORTED, Flags, s)
     | Some VariableName \<Rightarrow> (case DfciSettingsGet U This (Some 0) False s of (Status, BufferSize, _) \<Rightarrow>
         set_if_changed U VariableName Status (the BufferSize) v f s)))"

text \<open>The size given to \<open>GetDefault\<close> is \<open>sizeof (UINTN)\<close> although the buffer is one byte; no default is longer.\<close>

definition DfciSettingsSetDefault :: "'s platform \<Rightarrow> setting_this option \<Rightarrow> 's \<Rightarrow> EFI_STATUS \<times> 's" where
  "DfciSettingsSetDefault U This s = (case This of
     None \<Rightarrow> (EFI_INVALID_PARAMETER, s)
   | Some t \<Rightarrow> (case DfciSettingsGetDefault This (Some 8) True of (Status, ValueSize, Value) \<Rightarrow>
       if EFI_ERROR Status then (Status, s)
       else case DfciSettingsSet U This (Some (take (the ValueSize) Value)) (Some 0) s of (Status, _, s) \<Rightarrow> (Status, s)))"

definition mDfciSettingsProviders :: "(string \<times> setting_type \<times> u64) list" where
  "mDfciSettingsProviders = [
     (ID_DFCI_RECOVERY_URL, TYPE_STRING, FLAGS_NO_PREBOOT_UI),
     (ID_DFCI_BOOTSTRAP_URL, TYPE_STRING, FLAGS_NO_PREBOOT_UI),
     (ID_DFCI_HTTPS_CERT, TYPE_CERT, FLAGS_NO_PREBOOT_UI),
     (ID_DFCI_REGISTRATION_ID, TYPE_STRING, FLAGS_NO_PREBOOT_UI),
     (ID_DFCI_TENANT_ID, TYPE_STRING, FLAGS_NO_PREBOOT_UI),
     (ID_MDM_FRIENDLY_NAME, TYPE_STRING, FLAGS_NO_PREBOOT_UI),
     (ID_MDM_TENANT_NAME, TYPE_STRING, FLAGS_NO_PREBOOT_UI)]"

text \<open>
  A provider as the settings manager sees it: the operations of a library applied to a registered
  copy of the template, with non-NULL pointers for size and flags.
\<close>

definition library_provider :: "(setting_this option \<Rightarrow> bytes option \<Rightarrow> u64 option \<Rightarrow> 's \<Rightarrow> EFI_STATUS \<times> u64 option \<times> 's)
    \<Rightarrow> (setting_this option \<Rightarrow> nat option \<Rightarrow> bool \<Rightarrow> 's \<Rightarrow> EFI_STATUS \<times> nat option \<times> bytes)
    \<Rightarrow> (setting_this option \<Rightarrow> nat option \<Rightarrow> bool \<Rightarrow> EFI_STATUS \<times> nat option \<times> bytes)
    \<Rightarrow> (setting_this option \<Rightarrow> 's \<Rightarrow> EFI_STATUS \<times> 's) \<Rightarrow> string \<times> setting_type \<times> u64 \<Rightarrow> 's provider" where
  "library_provider Set Get GetDefault SetDefault = (\<lambda>(i, ty, fl).
     let This = Some \<lparr>th_Id = Some i, th_Type = ty\<rparr> in
     \<lparr>pv_Id = i, pv_Type = ty, pv_Flags = fl,
      pv_Set = (\<lambda>v f s. case Set This (Some v) (Some f) s of (st, f', s') \<Rightarrow> (st, the f', s')),
      pv_Get = (\<lambda>b n s. case Get This (Some n) b s of (st, m, v) \<Rightarrow> (st, the m, v)),
      pv_GetDefault = (\<lambda>b n s. case GetDefault This (Some n) b of (st, m, v) \<Rightarrow> (st, the m, v)),
      pv_SetDefault = SetDefault This\<rparr>)"

definition mDfciSettingsProviderTemplate :: "'s platform \<Rightarrow> string \<times> setting_type \<times> u64 \<Rightarrow> 's provider" where
  "mDfciSettingsProviderTemplate U = library_provider (DfciSettingsSet U) (DfciSettingsGet U) DfciSettingsGetDefault (DfciSettingsSetDefault U)"

text \<open>
  The notification registers all providers; \<open>located\<close> is the status of locating the provider support
  protocol, the first component of the result says whether the event is closed.
\<close>

fun register_providers :: "'s platform \<Rightarrow> 's provider list \<Rightarrow> 's provider list \<Rightarrow> group list \<Rightarrow> 's
    \<Rightarrow> 's provider list \<times> group list \<times> 's" where
  "register_providers U [] ps gs s = (ps, gs, s)"
| "register_providers U (p # qs) ps gs s = (case RegisterProvider U (Some p) ps gs s of (_, ps, gs, s) \<Rightarrow> register_providers U qs ps gs s)"

definition provider_notify :: "'s platform \<Rightarrow> 's provider list \<Rightarrow> EFI_STATUS \<Rightarrow> 's provider list \<Rightarrow> group list \<Rightarrow> 's
    \<Rightarrow> bool \<times> 's provider list \<times> group list \<times> 's" where
  "provider_notify U new located ps gs s =
     (if EFI_ERROR located then (False, ps, gs, s) else (True, register_providers U new ps gs s))"

definition DfciSettingsProviderSupportProtocolNotify :: "'s platform \<Rightarrow> EFI_STATUS \<Rightarrow> 's provider list \<Rightarrow> group list \<Rightarrow> 's
    \<Rightarrow> bool \<times> 's provider list \<times> group list \<times> 's" where
  "DfciSettingsProviderSupportProtocolNotify U = provider_notify U (map (mDfciSettingsProviderTemplate U) mDfciSettingsProviders)"

text \<open>\<open>Pcd\<close> is \<open>PcdSettingsManagerInstallProvider\<close>; the result says whether the event was created.\<close>

definition DfciSettingsConstructor :: "'s platform \<Rightarrow> bool \<Rightarrow> 's \<Rightarrow> EFI_STATUS \<times> bool \<times> 's" where
  "DfciSettingsConstructor U Pcd s = (EFI_SUCCESS, Pcd, if Pcd then snd (InitializeNvVariables U s) else s)"

section \<open>Asset tag\<close>

definition ID_ASSET_TAG :: string where "ID_ASSET_TAG = ''Dfci3.AssetTag.String''"
definition ASSET_TAG_VAR :: string where "ASSET_TAG_VAR = ''AssetTag''"

definition AssetTag_IsIdSupported :: "string \<Rightarrow> bool" where
  "AssetTag_IsIdSupported IdStr \<longleftrightarrow> AsciiStrnCmp_eq IdStr ID_ASSET_TAG DFCI_MAX_ID_LEN"

text \<open>
  \<open>ValidChars\<close> and \<open>Len\<close> are the fixed PCDs with the characters and the length that the platform
  allows.  \<open>ScanMem8\<close> is the position of the first occurrence of a byte.
\<close>

definition ValidateAssetTagValue :: "bytes \<Rightarrow> nat \<Rightarrow> bytes \<Rightarrow> EFI_STATUS" where
  "ValidateAssetTagValue ValidChars Len Value =
     (if length Value > Len + 1 then EFI_INVALID_PARAMETER
      else case first_index (\<lambda>b. b = 0) Value of
        None \<Rightarrow> EFI_INVALID_PARAMETER
      | Some k \<Rightarrow>
        if k \<noteq> length Value - 1 then EFI_INVALID_PARAMETER
        else if list_ex (\<lambda>b. first_index (\<lambda>c. c = b) ValidChars = None) (take (length Value - 1) Value) then EFI_INVALID_PARAMETER
        else EFI_SUCCESS)"

definition DfciAssetTagSettingGetDefault :: "setting_this option \<Rightarrow> nat option \<Rightarrow> bool \<Rightarrow> EFI_STATUS \<times> nat option \<times> bytes" where
  "DfciAssetTagSettingGetDefault This ValueSize Value = (case get_args This ValueSize Value of
     None \<Rightarrow> (EFI_INVALID_PARAMETER, ValueSize, [])
   | Some (i, ty, n) \<Rightarrow>
     if \<not> AssetTag_IsIdSupported i then (EFI_UNSUPPORTED, ValueSize, [])
     else if n < 1 then (EFI_BUFFER_TOO_SMALL, Some 1, []) else (EFI_SUCCESS, Some 1, [0]))"

definition DfciAssetTagSettingGet :: "'s platform \<Rightarrow> setting_this option \<Rightarrow> nat option \<Rightarrow> bool \<Rightarrow> 's \<Rightarrow> EFI_STATUS \<times> nat option \<times> bytes" where
  "DfciAssetTagSettingGet U This ValueSize Value s = (case get_args This ValueSize Value of
     None \<Rightarrow> (EFI_INVALID_PARAMETER, ValueSize, [])
   | Some (i, ty, n) \<Rightarrow>
     if \<not> AssetTag_IsIdSupported i then (EFI_UNSUPPORTED, ValueSize, [])
     else case RtGetVariable U ASSET_TAG_VAR n s of (Status, n, v) \<Rightarrow>
       if Status = EFI_NOT_FOUND then DfciAssetTagSettingGetDefault This (Some n) Value else (Status, Some n, v))"

definition DfciAssetTagSettingSet :: "bytes \<Rightarrow> nat \<Rightarrow> 's platform \<Rightarrow> setting_this option \<Rightarrow> bytes option \<Rightarrow> u64 option \<Rightarrow> 's
    \<Rightarrow> EFI_STATUS \<times> u64 option \<times> 's" where
  "DfciAssetTagSettingSet ValidChars Len U This Value Flags s = (case set_args This Value Flags of
     None \<Rightarrow> (EFI_INVALID_PARAMETER, Flags, s)
   | Some (i, v, f) \<Rightarrow> (let Status = ValidateAssetTagValue ValidChars Len v in
     if EFI_ERROR Status then (Status, Flags, s)
     else if \<not> AssetTag_IsIdSupported i then (EFI_UNSUPPORTED, Flags, s)
     else case DfciAssetTagSettingGet U This (Some 0) False s of (Status, BufferSize, _) \<Rightarrow>
       set_if_changed U ASSET_TAG_VAR Status (the BufferSize) v f s))"

definition DfciAssetTagSettingSetDefault :: "bytes \<Rightarrow> nat \<Rightarrow> 's platform \<Rightarrow> setting_this option \<Rightarrow> 's \<Rightarrow> EFI_STATUS \<times> 's" where
  "DfciAssetTagSettingSetDefault ValidChars Len U This s = (case This of
     None \<Rightarrow> (EFI_INVALID_PARAMETER, s)
   | Some t \<Rightarrow> (case DfciAssetTagSettingGetDefault This (Some 1) True of (Status, ValueSize, Value) \<Rightarrow>
       if EFI_ERROR Status then (Status, s)
       else case DfciAssetTagSettingSet ValidChars Len U This (Some (take (the ValueSize) Value)) (Some 0) s of (Status, _, s) \<Rightarrow> (Status, s)))"

definition mDfciAssetTagSettingProviderTemplate :: "bytes \<Rightarrow> nat \<Rightarrow> 's platform \<Rightarrow> 's provider" where
  "mDfciAssetTagSettingProviderTemplate ValidChars Len U =
     library_provider (DfciAssetTagSettingSet ValidChars Len U) (DfciAssetTagSettingGet U) DfciAssetTagSettingGetDefault
       (DfciAssetTagSettingSetDefault ValidChars Len U) (ID_ASSET_TAG, TYPE_STRING, 0)"

definition DfciGetAssetTag :: "'s platform \<Rightarrow> nat option \<Rightarrow> bool \<Rightarrow> 's \<Rightarrow> EFI_STATUS \<times> nat option \<times> bytes" where
  "DfciGetAssetTag U = DfciAssetTagSettingGet U (Some \<lparr>th_Id = Some ID_ASSET_TAG, th_Type = TYPE_STRING\<rparr>)"

definition DfciAssetTagSettingProviderSupportProtocolNotify :: "bytes \<Rightarrow> nat \<Rightarrow> 's platform \<Rightarrow> EFI_STATUS \<Rightarrow> 's provider list \<Rightarrow> group list \<Rightarrow> 's
    \<Rightarrow> bool \<times> 's provider list \<times> group list \<times> 's" where
  "DfciAssetTagSettingProviderSupportProtocolNotify ValidChars Len U = provider_notify U [mDfciAssetTagSettingProviderTemplate ValidChars Len U]"

text \<open>The variable is checked by every module that links the library.\<close>

definition DfciAssetTagSettingConstructor :: "'s platform \<Rightarrow> bool \<Rightarrow> 's \<Rightarrow> EFI_STATUS \<times> bool \<times> 's" where
  "DfciAssetTagSettingConstructor U Pcd s = (EFI_SUCCESS, Pcd, snd (ValidateNvVariable U ASSET_TAG_VAR s))"

section \<open>WPBT\<close>

definition ID_ENABLE_WPBT :: string where "ID_ENABLE_WPBT = ''Dfci3.OnboardWpbt.Enable''"
definition WPBT_VAR :: string where "WPBT_VAR = ''WPBTen''"

definition Wpbt_IsIdSupported :: "string \<Rightarrow> bool" where
  "Wpbt_IsIdSupported IdStr \<longleftrightarrow> AsciiStrnCmp_eq IdStr ID_ENABLE_WPBT DFCI_MAX_ID_LEN"

definition DfciWpbtSettingGetDefault :: "setting_this option \<Rightarrow> nat option \<Rightarrow> bool \<Rightarrow> EFI_STATUS \<times> nat option \<times> bytes" where
  "DfciWpbtSettingGetDefault This ValueSize Value = (case get_args This ValueSize Value of
     None \<Rightarrow> (EFI_INVALID_PARAMETER, ValueSize, [])
   | Some (i, ty, n) \<Rightarrow>
     if \<not> Wpbt_IsIdSupported i then (EFI_UNSUPPORTED, ValueSize, [])
     else if n < 1 then (EFI_BUFFER_TOO_SMALL, Some 1, []) else (EFI_SUCCESS, Some 1, [1]))"

definition DfciWpbtSettingGet :: "'s platform \<Rightarrow> setting_this option \<Rightarrow> nat option \<Rightarrow> bool \<Rightarrow> 's \<Rightarrow> EFI_STATUS \<times> nat option \<times> bytes" where
  "DfciWpbtSettingGet U This ValueSize Value s = (case get_args This ValueSize Value of
     None \<Rightarrow> (EFI_INVALID_PARAMETER, ValueSize, [])
   | Some (i, ty, n) \<Rightarrow>
     if \<not> Wpbt_IsIdSupported i then (EFI_UNSUPPORTED, ValueSize, [])
     else case RtGetVariable U WPBT_VAR n s of (Status, n, v) \<Rightarrow>
       if Status = EFI_NOT_FOUND then DfciWpbtSettingGetDefault This (Some n) Value else (Status, Some n, v))"

definition DfciWpbtSettingSet :: "'s platform \<Rightarrow> setting_this option \<Rightarrow> bytes option \<Rightarrow> u64 option \<Rightarrow> 's
    \<Rightarrow> EFI_STATUS \<times> u64 option \<times> 's" where
  "DfciWpbtSettingSet U This Value Flags s = (case set_args This Value Flags of
     None \<Rightarrow> (EFI_INVALID_PARAMETER, Flags, s)
   | Some (i, v, f) \<Rightarrow>
     if length v \<noteq> 1 then (EFI_INVALID_PARAMETER, Flags, s)
     else if \<not> Wpbt_IsIdSupported i then (EFI_UNSUPPORTED, Flags, s)
     else case DfciWpbtSettingGet U This (Some 1) True s of (Status, _, CurrentValue) \<Rightarrow>
       if EFI_ERROR Status then (Status, Flags, s)
       else if take 1 CurrentValue = v then (EFI_SUCCESS, Some (f OR FLAGS_OUT_ALREADY_SET), s)
       else write_setting U WPBT_VAR v f s)"

definition DfciWpbtSettingSetDefault :: "'s platform \<Rightarrow> setting_this option \<Rightarrow> 's \<Rightarrow> EFI_STATUS \<times> 's" where
  "DfciWpbtSettingSetDefault U This s = (case This of
     None \<Rightarrow> (EFI_INVALID_PARAMETER, s)
   | Some t \<Rightarrow> (case DfciWpbtSettingGetDefault This (Some 1) True of (Status, ValueSize, Value) \<Rightarrow>
       if EFI_ERROR Status then (Status, s)
       else case DfciWpbtSettingSet U This (Some (take (the ValueSize) Value)) (Some 0) s of (Status, _, s) \<Rightarrow> (Status, s)))"

definition mDfciWpbtSettingProviderTemplate :: "'s platform \<Rightarrow> 's provider" where
  "mDfciWpbtSettingProviderTemplate U = library_provider (DfciWpbtSettingSet U) (DfciWpbtSettingGet U) DfciWpbtSettingGetDefault
     (DfciWpbtSettingSetDefault U) (ID_ENABLE_WPBT, TYPE_ENABLE, FLAGS_NO_PREBOOT_UI OR FLAGS_OUT_REBOOT_REQUIRED)"

definition DfciWpbtSettingProviderSupportProtocolNotify :: "'s platform \<Rightarrow> EFI_STATUS \<Rightarrow> 's provider list \<Rightarrow> group list \<Rightarrow> 's
    \<Rightarrow> bool \<times> 's provider list \<times> group list \<times> 's" where
  "DfciWpbtSettingProviderSupportProtocolNotify U = provider_notify U [mDfciWpbtSettingProviderTemplate U]"

text \<open>The third component of the result says whether the protocol that announces an enabled WPBT is installed.\<close>

definition DfciWpbtSettingConstructor :: "'s platform \<Rightarrow> bool \<Rightarrow> 's \<Rightarrow> EFI_STATUS \<times> bool \<times> bool \<times> 's" where
  "DfciWpbtSettingConstructor U Pcd s =
     (if \<not> Pcd then (EFI_SUCCESS, False, False, s)
      else case ValidateNvVariable U WPBT_VAR s of (_, s) \<Rightarrow>
        case DfciWpbtSettingGet U (Some \<lparr>th_Id = Some ID_ENABLE_WPBT, th_Type = TYPE_ENABLE\<rparr>) (Some 1) True s of (Status, _, Value) \<Rightarrow>
          (EFI_SUCCESS, True, \<not> EFI_ERROR Status \<and> take 1 Value = [1], s))"

section \<open>The contract of a setting in a variable\<close>

definition reads :: "'s provider \<Rightarrow> 's \<Rightarrow> bytes \<Rightarrow> bool" where
  "reads p s v \<longleftrightarrow> (\<forall>n \<ge> length v. \<exists>st. \<not> EFI_ERROR st \<and> pv_Get p True n s = (st, length v, v))"

text \<open>
  \<open>p\<close> keeps its value in the variable \<open>var\<close>; \<open>known\<close> says whether it supports its own id.  A write
  either stores the value in the variable or finds it there; only the memory service is called before.
\<close>

locale stored_setting =
  fixes U :: "'s platform" and p :: "'s provider" and var :: string and known :: bool
  assumes get_value: "known \<Longrightarrow> GetVariable U var gDfciSettingsGuid s = (EFI_SUCCESS, v, a) \<Longrightarrow> reads p s v"
    and set_known: "pv_Set p v f s = (st, f', s') \<Longrightarrow> \<not> EFI_ERROR st \<Longrightarrow> known"
    and set_value: "pv_Set p v f s = (st, f', s') \<Longrightarrow> \<exists>s1. (s1 = s \<or> s1 = snd (AllocatePool U (length v) s)) \<and>
      (SetVariable U var gDfciSettingsGuid DFCI_SETTINGS_ATTRIBUTES v s1 = (st, s')
       \<or> s' = s1 \<and> (\<not> EFI_ERROR st \<longrightarrow> v \<noteq> [] \<longrightarrow> alloc_keeps_vars U \<longrightarrow> reads p s1 v \<and> f' = f OR FLAGS_OUT_ALREADY_SET))"
    and default_set: "pv_SetDefault p s = (st, s') \<Longrightarrow> s' = s \<or> (\<exists>v f'. pv_Set p v 0 s = (st, f', s'))"
    and get_var: "GetVariable U var gDfciSettingsGuid s' = GetVariable U var gDfciSettingsGuid s \<Longrightarrow> pv_Get p b n s' = pv_Get p b n s"
begin

text \<open>What was set without an error is read back.\<close>

lemma set_reads:
  assumes "variable_laws U" "alloc_keeps_vars U" "pv_Set p v f s = (st, f', s')" "\<not> EFI_ERROR st" "v \<noteq> []"
  shows "reads p s' v"
proof -
  obtain s1 where "SetVariable U var gDfciSettingsGuid DFCI_SETTINGS_ATTRIBUTES v s1 = (st, s') \<or> (s' = s1 \<and> reads p s1 v)"
    using set_value [OF assms(3)] assms(2,4,5) by blast
  then show ?thesis
  proof
    assume "SetVariable U var gDfciSettingsGuid DFCI_SETTINGS_ATTRIBUTES v s1 = (st, s')"
    from variable_lawsD(1) [OF assms(1) this assms(4,5)] show ?thesis by (rule get_value [OF set_known [OF assms(3,4)]])
  qed blast
qed

text \<open>Writing touches no other variable.\<close>

lemma set_frame:
  assumes "variable_laws U" "alloc_keeps_vars U" "pv_Set p v f s = (st, f', s')" "(n, g) \<noteq> (var, gDfciSettingsGuid)"
  shows "GetVariable U n g s' = GetVariable U n g s"
proof -
  obtain s1 where s1: "s1 = s \<or> s1 = snd (AllocatePool U (length v) s)"
    "SetVariable U var gDfciSettingsGuid DFCI_SETTINGS_ATTRIBUTES v s1 = (st, s') \<or> s' = s1"
    using set_value [OF assms(3)] by blast
  have "same_vars U s s1" using s1(1) assms(2) by (auto simp: alloc_keeps_vars_def)
  moreover have "GetVariable U n g s' = GetVariable U n g s1" using s1(2) variable_lawsD(2) [OF assms(1) _ assms(4)] by blast
  ultimately show ?thesis by (simp add: same_vars_def)
qed

lemma default_frame:
  assumes "variable_laws U" "alloc_keeps_vars U" "pv_SetDefault p s = (st, s')" "(n, g) \<noteq> (var, gDfciSettingsGuid)"
  shows "GetVariable U n g s' = GetVariable U n g s"
  using default_set [OF assms(3)] set_frame [OF assms(1,2) _ assms(4)] by blast

end

section \<open>The libraries keep the contract\<close>

lemma library_provider_simps [simp]:
  "pv_Id (library_provider S G D R (i, ty, fl)) = i" "pv_Type (library_provider S G D R (i, ty, fl)) = ty"
  "pv_Flags (library_provider S G D R (i, ty, fl)) = fl"
  "pv_Set (library_provider S G D R (i, ty, fl)) v f s = (case S (Some \<lparr>th_Id = Some i, th_Type = ty\<rparr>) (Some v) (Some f) s of (st, f', s') \<Rightarrow> (st, the f', s'))"
  "pv_Get (library_provider S G D R (i, ty, fl)) b n s = (case G (Some \<lparr>th_Id = Some i, th_Type = ty\<rparr>) (Some n) b s of (st, m, v) \<Rightarrow> (st, the m, v))"
  "pv_GetDefault (library_provider S G D R (i, ty, fl)) b n s = (case D (Some \<lparr>th_Id = Some i, th_Type = ty\<rparr>) (Some n) b of (st, m, v) \<Rightarrow> (st, the m, v))"
  "pv_SetDefault (library_provider S G D R (i, ty, fl)) s = R (Some \<lparr>th_Id = Some i, th_Type = ty\<rparr>) s"
  by (simp_all add: library_provider_def Let_def)

lemma args_simps [simp]:
  "get_args (Some \<lparr>th_Id = Some i, th_Type = ty\<rparr>) (Some n) b = (if \<not> b \<and> n \<noteq> 0 then None else Some (i, ty, n))"
  "set_args (Some \<lparr>th_Id = Some i, th_Type = ty\<rparr>) (Some v) (Some f) = Some (i, v, f)"
  by (simp_all add: get_args_def set_args_def)

lemma RtGetVariable_read:
  "GetVariable U var gDfciSettingsGuid s = (st, v, a) \<Longrightarrow> \<not> EFI_ERROR st \<Longrightarrow> length v \<le> n \<Longrightarrow> RtGetVariable U var n s = (st, length v, v)"
  by (simp add: RtGetVariable_def)

text \<open>
  The comparison with the old value: \<open>st1\<close> and \<open>m\<close> are what a read without a buffer yields, and a
  default stands in for a variable that does not exist.
\<close>

lemma set_if_changed_value:
  assumes r: "set_if_changed U var st0 m v f s = (st, f', s')"
    and g: "RtGetVariable U var 0 s = (st1, m1, b)" "st1 \<noteq> EFI_NOT_FOUND \<longrightarrow> st0 = st1 \<and> m = m1"
  shows "\<exists>s1. (s1 = s \<or> s1 = snd (AllocatePool U (length v) s)) \<and>
    (SetVariable U var gDfciSettingsGuid DFCI_SETTINGS_ATTRIBUTES v s1 = (st, s')
     \<or> s' = s1 \<and> (\<not> EFI_ERROR st \<longrightarrow> v \<noteq> [] \<longrightarrow> alloc_keeps_vars U \<longrightarrow>
          (\<exists>st2 a. \<not> EFI_ERROR st2 \<and> GetVariable U var gDfciSettingsGuid s1 = (st2, v, a)) \<and> f' = Some (f OR FLAGS_OUT_ALREADY_SET)))"
proof -
  obtain ok s1 where al: "AllocatePool U (length v) s = (ok, s1)" by (metis prod.exhaust)
  obtain st2 d a where gv: "GetVariable U var gDfciSettingsGuid s = (st2, d, a)" by (metis prod_cases3)
  have same: "GetVariable U var gDfciSettingsGuid s1 = (st2, d, a)" if "alloc_keeps_vars U"
    using alloc_keeps_varsD(1) [OF that al] gv by (simp add: same_vars_def)
  have len: "\<not> EFI_ERROR st2 \<and> length d = length v" if "m = length v" "v \<noteq> []" "\<not> EFI_ERROR st0 \<or> st0 = EFI_BUFFER_TOO_SMALL" "st1 \<noteq> EFI_NOT_FOUND"
    using that g gv by (auto simp: RtGetVariable_def split: if_splits)
  have nf: "EFI_ERROR st2 \<and> st2 = EFI_NOT_FOUND" if "st1 = EFI_NOT_FOUND"
    using that g(1) gv by (auto simp: RtGetVariable_def split: if_splits)
  have eq: "\<exists>st2 a. \<not> EFI_ERROR st2 \<and> GetVariable U var gDfciSettingsGuid s1 = (st2, v, a)"
    if "m = length v" "v \<noteq> []" "\<not> EFI_ERROR st0 \<or> st0 = EFI_BUFFER_TOO_SMALL" "alloc_keeps_vars U"
      "RtGetVariable U var (length v) s1 = (st3, k, b')" "\<not> EFI_ERROR st3" "take k b' = take k v" for st3 k b'
  proof (cases "st1 = EFI_NOT_FOUND")
    case True
    then show ?thesis using nf that same by (auto simp: RtGetVariable_def)
  next
    case False
    then show ?thesis using len [OF that(1-3)] that(5-7) same [OF that(4)] by (auto simp: RtGetVariable_def)
  qed
  show ?thesis
    using r al eq by (auto simp: set_if_changed_def write_setting_def split: if_splits prod.splits)
qed

lemma set_if_changed_contract:
  assumes "set_if_changed U var st0 m v f s = (st, f', s')"
    and "RtGetVariable U var 0 s = (st1, m1, b)" "st1 \<noteq> EFI_NOT_FOUND \<longrightarrow> st0 = st1 \<and> m = m1"
    and p: "\<And>s st v a. GetVariable U var gDfciSettingsGuid s = (st, v, a) \<Longrightarrow> \<not> EFI_ERROR st \<Longrightarrow> reads p s v"
  shows "\<exists>s1. (s1 = s \<or> s1 = snd (AllocatePool U (length v) s)) \<and>
    (SetVariable U var gDfciSettingsGuid DFCI_SETTINGS_ATTRIBUTES v s1 = (st, s')
     \<or> s' = s1 \<and> (\<not> EFI_ERROR st \<longrightarrow> v \<noteq> [] \<longrightarrow> alloc_keeps_vars U \<longrightarrow> reads p s1 v \<and> the f' = f OR FLAGS_OUT_ALREADY_SET))"
  using set_if_changed_value [OF assms(1-3)] p by fastforce

lemma setting_variable_None: "setting_variable i = None \<longleftrightarrow> i = ID_IS_BAD"
  by (cases i) simp_all

lemma DfciSettingsGet_present:
  assumes "setting_variable (IsIdSupported i) = Some var" "GetVariable U var gDfciSettingsGuid s = (st, v, a)" "\<not> EFI_ERROR st"
  shows "reads (mDfciSettingsProviderTemplate U (i, ty, fl)) s v"
  using assms RtGetVariable_read [OF assms(2,3)]
  by (auto simp: reads_def mDfciSettingsProviderTemplate_def DfciSettingsGet_def)

lemma DfciSettingsSet_value:
  assumes v: "setting_variable (IsIdSupported i) = Some var" and l: "length v \<le> DFCI_SETTING_MAXIMUM_SIZE"
  obtains st0 m st1 m1 b where
    "DfciSettingsSet U (Some \<lparr>th_Id = Some i, th_Type = ty\<rparr>) (Some v) (Some f) s = set_if_changed U var st0 m v f s"
    "RtGetVariable U var 0 s = (st1, m1, b)" "st1 \<noteq> EFI_NOT_FOUND \<longrightarrow> st0 = st1 \<and> m = m1"
proof -
  obtain st1 m1 b where g: "RtGetVariable U var 0 s = (st1, m1, b)" by (metis prod_cases3)
  obtain st0 m x where d: "DfciSettingsGet U (Some \<lparr>th_Id = Some i, th_Type = ty\<rparr>) (Some 0) False s = (st0, m, x)" by (metis prod_cases3)
  show thesis
  proof (rule that)
    show "DfciSettingsSet U (Some \<lparr>th_Id = Some i, th_Type = ty\<rparr>) (Some v) (Some f) s = set_if_changed U var st0 (the m) v f s"
      using v l d by (simp add: DfciSettingsSet_def)
    show "st1 \<noteq> EFI_NOT_FOUND \<longrightarrow> st0 = st1 \<and> the m = m1" using d v g by (auto simp: DfciSettingsGet_def)
  qed (rule g)
qed

interpretation settings: stored_setting U "mDfciSettingsProviderTemplate U (i, ty, fl)" "the (setting_variable (IsIdSupported i))"
  "setting_variable (IsIdSupported i) \<noteq> None" for U :: "'s platform" and i ty fl
proof
  fix s v a assume "setting_variable (IsIdSupported i) \<noteq> None"
    and "GetVariable U (the (setting_variable (IsIdSupported i))) gDfciSettingsGuid s = (EFI_SUCCESS, v, a)"
  then show "reads (mDfciSettingsProviderTemplate U (i, ty, fl)) s v" using DfciSettingsGet_present by (auto intro!: DfciSettingsGet_present)
next
  fix v f s st f' s' assume r: "pv_Set (mDfciSettingsProviderTemplate U (i, ty, fl)) v f s = (st, f', s')"
  show k: "setting_variable (IsIdSupported i) \<noteq> None" if "\<not> EFI_ERROR st"
    using r that by (auto simp: mDfciSettingsProviderTemplate_def DfciSettingsSet_def split: if_splits option.splits)
  let ?R = "\<exists>s1. (s1 = s \<or> s1 = snd (AllocatePool U (length v) s)) \<and>
    (SetVariable U (the (setting_variable (IsIdSupported i))) gDfciSettingsGuid DFCI_SETTINGS_ATTRIBUTES v s1 = (st, s')
     \<or> s' = s1 \<and> (\<not> EFI_ERROR st \<longrightarrow> v \<noteq> [] \<longrightarrow> alloc_keeps_vars U \<longrightarrow>
         reads (mDfciSettingsProviderTemplate U (i, ty, fl)) s1 v \<and> f' = f OR FLAGS_OUT_ALREADY_SET))"
  show ?R
  proof (cases "setting_variable (IsIdSupported i) \<noteq> None \<and> length v \<le> DFCI_SETTING_MAXIMUM_SIZE")
    case False
    then have "s' = s \<and> EFI_ERROR st" using r
      by (auto simp: mDfciSettingsProviderTemplate_def DfciSettingsSet_def split: if_splits option.splits)
    then show ?thesis by blast
  next
    case True
    then obtain var where var: "setting_variable (IsIdSupported i) = Some var" by blast
    obtain st0 m st1 m1 b where "DfciSettingsSet U (Some \<lparr>th_Id = Some i, th_Type = ty\<rparr>) (Some v) (Some f) s = set_if_changed U var st0 m v f s"
      and g: "RtGetVariable U var 0 s = (st1, m1, b)" "st1 \<noteq> EFI_NOT_FOUND \<longrightarrow> st0 = st1 \<and> m = m1"
      using DfciSettingsSet_value [OF var, of v U ty f s] True by blast
    then obtain f1 where c: "set_if_changed U var st0 m v f s = (st, f1, s')" "f' = the f1"
      using r by (auto simp: mDfciSettingsProviderTemplate_def split: prod.splits)
    from set_if_changed_contract [OF c(1) g DfciSettingsGet_present [OF var]] var c(2) show ?thesis by simp
  qed
next
  fix s st s' assume "pv_SetDefault (mDfciSettingsProviderTemplate U (i, ty, fl)) s = (st, s')"
  then show "s' = s \<or> (\<exists>v f'. pv_Set (mDfciSettingsProviderTemplate U (i, ty, fl)) v 0 s = (st, f', s'))"
    by (auto simp: mDfciSettingsProviderTemplate_def DfciSettingsSetDefault_def split: prod.splits if_splits) (metis prod.inject)
next
  fix s s' b n assume "GetVariable U (the (setting_variable (IsIdSupported i))) gDfciSettingsGuid s' = GetVariable U (the (setting_variable (IsIdSupported i))) gDfciSettingsGuid s"
  then show "pv_Get (mDfciSettingsProviderTemplate U (i, ty, fl)) b n s' = pv_Get (mDfciSettingsProviderTemplate U (i, ty, fl)) b n s"
    by (cases "setting_variable (IsIdSupported i)") (simp_all add: mDfciSettingsProviderTemplate_def DfciSettingsGet_def RtGetVariable_def)
qed

lemma DfciAssetTagSettingGet_present:
  assumes "GetVariable U ASSET_TAG_VAR gDfciSettingsGuid s = (st, v, a)" "\<not> EFI_ERROR st"
  shows "reads (mDfciAssetTagSettingProviderTemplate C L U) s v"
  using RtGetVariable_read [OF assms] assms(2)
  by (auto simp: reads_def mDfciAssetTagSettingProviderTemplate_def DfciAssetTagSettingGet_def AssetTag_IsIdSupported_def AsciiStrnCmp_eq_def)

interpretation asset_tag: stored_setting U "mDfciAssetTagSettingProviderTemplate C L U" ASSET_TAG_VAR True
  for U :: "'s platform" and C L
proof
  fix s v a assume "GetVariable U ASSET_TAG_VAR gDfciSettingsGuid s = (EFI_SUCCESS, v, a)"
  then show "reads (mDfciAssetTagSettingProviderTemplate C L U) s v" by (rule DfciAssetTagSettingGet_present) simp
next
  fix v f s st f' s' assume r: "pv_Set (mDfciAssetTagSettingProviderTemplate C L U) v f s = (st, f', s')"
  let ?This = "Some \<lparr>th_Id = Some ID_ASSET_TAG, th_Type = TYPE_STRING\<rparr>"
  show "\<exists>s1. (s1 = s \<or> s1 = snd (AllocatePool U (length v) s)) \<and>
    (SetVariable U ASSET_TAG_VAR gDfciSettingsGuid DFCI_SETTINGS_ATTRIBUTES v s1 = (st, s')
     \<or> s' = s1 \<and> (\<not> EFI_ERROR st \<longrightarrow> v \<noteq> [] \<longrightarrow> alloc_keeps_vars U \<longrightarrow>
         reads (mDfciAssetTagSettingProviderTemplate C L U) s1 v \<and> f' = f OR FLAGS_OUT_ALREADY_SET))"
  proof (cases "EFI_ERROR (ValidateAssetTagValue C L v)")
    case True
    then have "s' = s \<and> EFI_ERROR st" using r by (auto simp: mDfciAssetTagSettingProviderTemplate_def DfciAssetTagSettingSet_def Let_def)
    then show ?thesis by blast
  next
    case False
    obtain st1 m1 b where g: "RtGetVariable U ASSET_TAG_VAR 0 s = (st1, m1, b)" by (metis prod_cases3)
    obtain st0 m x where d: "DfciAssetTagSettingGet U ?This (Some 0) False s = (st0, m, x)" by (metis prod_cases3)
    have g2: "st1 \<noteq> EFI_NOT_FOUND \<longrightarrow> st0 = st1 \<and> the m = m1"
      using d g by (auto simp: DfciAssetTagSettingGet_def AssetTag_IsIdSupported_def AsciiStrnCmp_eq_def)
    obtain f1 where c: "set_if_changed U ASSET_TAG_VAR st0 (the m) v f s = (st, f1, s')" "f' = the f1"
      using r False d by (auto simp: mDfciAssetTagSettingProviderTemplate_def DfciAssetTagSettingSet_def AssetTag_IsIdSupported_def
          AsciiStrnCmp_eq_def Let_def split: prod.splits)
    from set_if_changed_contract [OF c(1) g g2 DfciAssetTagSettingGet_present] c(2) show ?thesis by simp
  qed
next
  fix s st s' assume "pv_SetDefault (mDfciAssetTagSettingProviderTemplate C L U) s = (st, s')"
  then show "s' = s \<or> (\<exists>v f'. pv_Set (mDfciAssetTagSettingProviderTemplate C L U) v 0 s = (st, f', s'))"
    by (auto simp: mDfciAssetTagSettingProviderTemplate_def DfciAssetTagSettingSetDefault_def split: prod.splits if_splits) (metis prod.inject)
next
  fix s s' b n assume "GetVariable U ASSET_TAG_VAR gDfciSettingsGuid s' = GetVariable U ASSET_TAG_VAR gDfciSettingsGuid s"
  then show "pv_Get (mDfciAssetTagSettingProviderTemplate C L U) b n s' = pv_Get (mDfciAssetTagSettingProviderTemplate C L U) b n s"
    by (simp add: mDfciAssetTagSettingProviderTemplate_def DfciAssetTagSettingGet_def RtGetVariable_def split: option.splits)
qed simp

lemma DfciWpbtSettingGet_present:
  assumes "GetVariable U WPBT_VAR gDfciSettingsGuid s = (st, v, a)" "\<not> EFI_ERROR st"
  shows "reads (mDfciWpbtSettingProviderTemplate U) s v"
  using RtGetVariable_read [OF assms] assms(2)
  by (auto simp: reads_def mDfciWpbtSettingProviderTemplate_def DfciWpbtSettingGet_def Wpbt_IsIdSupported_def AsciiStrnCmp_eq_def)

text \<open>Without the variable the default is read; a write of the default does not create it.\<close>

lemma DfciWpbtSettingGet_cases:
  assumes "DfciWpbtSettingGet U (Some \<lparr>th_Id = Some ID_ENABLE_WPBT, th_Type = TYPE_ENABLE\<rparr>) (Some 1) True s = (st, m, c)" "\<not> EFI_ERROR st"
    and "take 1 c = v" "v \<noteq> []"
  shows "reads (mDfciWpbtSettingProviderTemplate U) s v"
proof -
  obtain st1 d a where g: "GetVariable U WPBT_VAR gDfciSettingsGuid s = (st1, d, a)" by (metis prod_cases3)
  have i: "Wpbt_IsIdSupported ID_ENABLE_WPBT" by (simp add: Wpbt_IsIdSupported_def AsciiStrnCmp_eq_def)
  consider (present) "\<not> EFI_ERROR st1" "d = v" | (absent) "st1 = EFI_NOT_FOUND" "v = [1]"
    using assms g i by (auto simp: DfciWpbtSettingGet_def RtGetVariable_def DfciWpbtSettingGetDefault_def split: if_splits)
  then show ?thesis
  proof cases
    case present
    then show ?thesis using DfciWpbtSettingGet_present [OF g] by simp
  next
    case absent
    then show ?thesis using g i
      by (auto simp: reads_def mDfciWpbtSettingProviderTemplate_def DfciWpbtSettingGet_def RtGetVariable_def DfciWpbtSettingGetDefault_def)
  qed
qed

interpretation wpbt: stored_setting U "mDfciWpbtSettingProviderTemplate U" WPBT_VAR True
  for U :: "'s platform"
proof
  fix s v a assume "GetVariable U WPBT_VAR gDfciSettingsGuid s = (EFI_SUCCESS, v, a)"
  then show "reads (mDfciWpbtSettingProviderTemplate U) s v" by (rule DfciWpbtSettingGet_present) simp
next
  fix v f s st f' s' assume r: "pv_Set (mDfciWpbtSettingProviderTemplate U) v f s = (st, f', s')"
  obtain st0 m c where g: "DfciWpbtSettingGet U (Some \<lparr>th_Id = Some ID_ENABLE_WPBT, th_Type = TYPE_ENABLE\<rparr>) (Some 1) True s = (st0, m, c)"
    by (metis prod_cases3)
  consider (error) "s' = s" "EFI_ERROR st" | (same) "s' = s" "f' = f OR FLAGS_OUT_ALREADY_SET" "\<not> EFI_ERROR st0" "take 1 c = v"
    | (set) "SetVariable U WPBT_VAR gDfciSettingsGuid DFCI_SETTINGS_ATTRIBUTES v s = (st, s')"
    using r g by (auto simp: mDfciWpbtSettingProviderTemplate_def DfciWpbtSettingSet_def write_setting_def split: prod.splits if_splits)
  then show "\<exists>s1. (s1 = s \<or> s1 = snd (AllocatePool U (length v) s)) \<and>
    (SetVariable U WPBT_VAR gDfciSettingsGuid DFCI_SETTINGS_ATTRIBUTES v s1 = (st, s')
     \<or> s' = s1 \<and> (\<not> EFI_ERROR st \<longrightarrow> v \<noteq> [] \<longrightarrow> alloc_keeps_vars U \<longrightarrow>
         reads (mDfciWpbtSettingProviderTemplate U) s1 v \<and> f' = f OR FLAGS_OUT_ALREADY_SET))"
    by cases (use DfciWpbtSettingGet_cases [OF g] in blast)+
next
  fix s st s' assume "pv_SetDefault (mDfciWpbtSettingProviderTemplate U) s = (st, s')"
  then show "s' = s \<or> (\<exists>v f'. pv_Set (mDfciWpbtSettingProviderTemplate U) v 0 s = (st, f', s'))"
    by (auto simp: mDfciWpbtSettingProviderTemplate_def DfciWpbtSettingSetDefault_def split: prod.splits if_splits) (metis prod.inject)
next
  fix s s' b n assume "GetVariable U WPBT_VAR gDfciSettingsGuid s' = GetVariable U WPBT_VAR gDfciSettingsGuid s"
  then show "pv_Get (mDfciWpbtSettingProviderTemplate U) b n s' = pv_Get (mDfciWpbtSettingProviderTemplate U) b n s"
    by (simp add: mDfciWpbtSettingProviderTemplate_def DfciWpbtSettingGet_def RtGetVariable_def split: option.splits)
qed simp

section \<open>All settings of the libraries\<close>

text \<open>The providers with the variables they use, in the order in which the libraries are listed above.\<close>

definition library_settings :: "bytes \<Rightarrow> nat \<Rightarrow> 's platform \<Rightarrow> (string \<times> 's provider) list" where
  "library_settings C L U =
     map (\<lambda>e. (the (setting_variable (IsIdSupported (fst e))), mDfciSettingsProviderTemplate U e)) mDfciSettingsProviders
     @ [(ASSET_TAG_VAR, mDfciAssetTagSettingProviderTemplate C L U), (WPBT_VAR, mDfciWpbtSettingProviderTemplate U)]"

definition library_providers :: "bytes \<Rightarrow> nat \<Rightarrow> 's platform \<Rightarrow> 's provider list" where
  "library_providers C L U = map snd (library_settings C L U)"

lemma supported_ids:
  "IsIdSupported ID_DFCI_RECOVERY_URL = ID_IS_RECOVERY_URL" "IsIdSupported ID_DFCI_BOOTSTRAP_URL = ID_IS_BOOTSTRAP_URL"
  "IsIdSupported ID_DFCI_HTTPS_CERT = ID_IS_CERT" "IsIdSupported ID_DFCI_REGISTRATION_ID = ID_IS_REGISTRATION_ID"
  "IsIdSupported ID_DFCI_TENANT_ID = ID_IS_TENANT_ID" "IsIdSupported ID_MDM_FRIENDLY_NAME = ID_IS_FRIENDLY_NAME"
  "IsIdSupported ID_MDM_TENANT_NAME = ID_IS_TENANT_NAME"
  by code_simp+

lemma library_variables: "map fst (library_settings C L U) = [''DfciUrl'', ''DfciUrl2'', ''DfciHttpsCert'', ''DfciRegistrationId'',
    ''DfciTenantId'', ''MdmFriendlyName'', ''MdmTenantName'', ''AssetTag'', ''WPBTen'']"
  by (simp add: library_settings_def mDfciSettingsProviders_def supported_ids ASSET_TAG_VAR_def WPBT_VAR_def)

lemma settings_stored:
  assumes "e \<in> set mDfciSettingsProviders"
  shows "stored_setting U (mDfciSettingsProviderTemplate U e) (the (setting_variable (IsIdSupported (fst e)))) True"
proof -
  obtain i ty fl where e: "e = (i, ty, fl)" by (metis prod_cases3)
  have "setting_variable (IsIdSupported i) \<noteq> None"
    using assms by (auto simp: e mDfciSettingsProviders_def supported_ids)
  with settings.stored_setting_axioms [of U i ty fl] show ?thesis by (simp add: e)
qed

lemma library_stored:
  assumes "(var, p) \<in> set (library_settings C L U)"
  shows "stored_setting U p var True"
  using assms settings_stored asset_tag.stored_setting_axioms wpbt.stored_setting_axioms
  by (auto simp: library_settings_def)

lemma library_distinct: "distinct (map fst (library_settings C L U))"
  by (simp add: library_variables)

text \<open>Two settings of the libraries never share a variable, so a write leaves every other one alone.\<close>

lemma library_other:
  assumes "variable_laws U" "alloc_keeps_vars U" "(var, p) \<in> set (library_settings C L U)" "(var', q) \<in> set (library_settings C L U)" "var' \<noteq> var"
  shows "pv_Set p v f s = (st, f', s') \<Longrightarrow> pv_Get q b n s' = pv_Get q b n s"
    "pv_SetDefault p s = (st, s') \<Longrightarrow> pv_Get q b n s' = pv_Get q b n s"
  using stored_setting.get_var [OF library_stored [OF assms(4)]] stored_setting.set_frame [OF library_stored [OF assms(3)] assms(1,2)]
    stored_setting.default_frame [OF library_stored [OF assms(3)] assms(1,2)] assms(5) by blast+

text \<open>
  Property C36: a non-empty value that a provider of the libraries for DFCI settings, the asset tag and
  the platform binary table accepts is the value it reads back (an empty one deletes the variable);
  every other setting of these libraries, and every variable outside their namespace, keeps its value.
\<close>

theorem library_setting_roundtrip:
  assumes l: "variable_laws U" "alloc_keeps_vars U" and p: "(var, p) \<in> set (library_settings C L U)"
    and r: "pv_Set p v f s = (st, f', s')" "\<not> EFI_ERROR st" "v \<noteq> []"
  shows "reads p s' v \<and> (\<forall>n g. g \<noteq> gDfciSettingsGuid \<longrightarrow> GetVariable U n g s' = GetVariable U n g s)
    \<and> (\<forall>(var', q) \<in> set (library_settings C L U). var' \<noteq> var \<longrightarrow> (\<forall>b n. pv_Get q b n s' = pv_Get q b n s))"
  using stored_setting.set_reads [OF library_stored [OF p] l r] stored_setting.set_frame [OF library_stored [OF p] l r(1)]
    library_other(1) [OF l p _ _ r(1)] by auto

section \<open>Defaults and reset\<close>

text \<open>
  The storage works: memory is available, variables can be read and written, deleting removes.
\<close>

definition storage_works :: "'s platform \<Rightarrow> bool" where
  "storage_works U \<longleftrightarrow> alloc_succeeds U \<and> alloc_keeps_vars U \<and> variable_laws U
     \<and> (\<forall>n g a d s. fst (SetVariable U n g a d s) = EFI_SUCCESS)
     \<and> (\<forall>n g a s. fst (GetVariable U n g (snd (SetVariable U n g a [] s))) = EFI_NOT_FOUND)
     \<and> (\<forall>n g s. fst (GetVariable U n g s) = EFI_SUCCESS \<or> fst (GetVariable U n g s) = EFI_NOT_FOUND)"

definition at_default :: "'s provider \<Rightarrow> 's \<Rightarrow> bool" where
  "at_default p s \<longleftrightarrow> (\<forall>n s0. n > 0 \<longrightarrow> pv_Get p True n s = pv_GetDefault p True n s0)"

text \<open>The value a variable must have, or not have, for a DFCI setting to be at its default.\<close>

definition default_bytes :: "setting_type \<Rightarrow> bytes" where
  "default_bytes ty = (if ty = TYPE_CERT then [] else if ty = TYPE_ENABLE then [1] else [0])"

lemma DfciSettingsGetDefault_value:
  "IsIdSupported i \<noteq> ID_IS_BAD \<Longrightarrow> n > 0 \<Longrightarrow> DfciSettingsGetDefault (Some \<lparr>th_Id = Some i, th_Type = ty\<rparr>) (Some n) True
     = (EFI_SUCCESS, Some (length (default_bytes ty)), default_bytes ty)"
  by (simp add: DfciSettingsGetDefault_def default_bytes_def)

lemma settings_at_default:
  assumes v: "setting_variable (IsIdSupported i) = Some var"
    and g: "GetVariable U var gDfciSettingsGuid s = (st, d, a)" "st = EFI_NOT_FOUND \<or> st = EFI_SUCCESS \<and> d = default_bytes ty"
  shows "at_default (mDfciSettingsProviderTemplate U (i, ty, fl)) s"
proof -
  have i: "IsIdSupported i \<noteq> ID_IS_BAD" using v by auto
  have "length (default_bytes ty) \<le> 1" by (simp add: default_bytes_def)
  then have "pv_Get (mDfciSettingsProviderTemplate U (i, ty, fl)) True n s
      = (EFI_SUCCESS, length (default_bytes ty), default_bytes ty)" if "n > 0" for n
    using v g that DfciSettingsGetDefault_value [OF i that]
    by (auto simp: mDfciSettingsProviderTemplate_def DfciSettingsGet_def RtGetVariable_def)
  then show ?thesis using DfciSettingsGetDefault_value [OF i]
    by (simp add: at_default_def mDfciSettingsProviderTemplate_def)
qed

lemma storage_worksD:
  assumes "storage_works U"
  shows "alloc_succeeds U" "alloc_keeps_vars U" "variable_laws U"
    "SetVariable U n g at v s = (st, s') \<Longrightarrow> fst (GetVariable U n g s') = EFI_NOT_FOUND \<or> (\<exists>a. GetVariable U n g s' = (EFI_SUCCESS, v, a))"
proof -
  show l: "alloc_succeeds U" "alloc_keeps_vars U" "variable_laws U" using assms by (simp_all add: storage_works_def)
  assume r: "SetVariable U n g at v s = (st, s')"
  then have "st = EFI_SUCCESS" using assms unfolding storage_works_def by (metis fst_conv)
  moreover have "fst (GetVariable U n g s') = EFI_NOT_FOUND" if "v = []" using assms r that unfolding storage_works_def by (metis snd_conv)
  ultimately show "fst (GetVariable U n g s') = EFI_NOT_FOUND \<or> (\<exists>a. GetVariable U n g s' = (EFI_SUCCESS, v, a))"
    using variable_lawsD(1) [OF l(3) r] by auto
qed

lemma set_if_changed_works:
  assumes w: "storage_works U" and r: "set_if_changed U var st0 m v f s = (st, f', s')"
    and g: "GetVariable U var gDfciSettingsGuid s = (stg, d, a)"
    and m: "stg = EFI_NOT_FOUND \<and> (st0 = EFI_SUCCESS \<and> m = 0 \<or> st0 = EFI_BUFFER_TOO_SMALL)
      \<or> stg = EFI_SUCCESS \<and> m = length d \<and> (st0 = EFI_SUCCESS \<or> st0 = EFI_BUFFER_TOO_SMALL)"
  shows "fst (GetVariable U var gDfciSettingsGuid s') = EFI_NOT_FOUND \<or> (\<exists>a. GetVariable U var gDfciSettingsGuid s' = (EFI_SUCCESS, v, a))"
proof -
  obtain ok s1 where al: "AllocatePool U (length v) s = (ok, s1)" by (metis prod.exhaust)
  have ok: "ok" and g1: "GetVariable U var gDfciSettingsGuid s1 = (stg, d, a)"
    using alloc_succeedsD [OF storage_worksD(1) [OF w] al] alloc_keeps_varsD(1) [OF storage_worksD(2) [OF w] al] g by (simp_all add: same_vars_def)
  let ?w = "\<lambda>x. write_setting U var v f x = (st, f', s')"
  have st0: "st0 = EFI_SUCCESS \<or> st0 = EFI_BUFFER_TOO_SMALL" using m by blast
  have "?w s \<or> ?w s1 \<or> (s' = s \<or> s' = s1) \<and> (stg = EFI_NOT_FOUND \<or> d = v)"
  proof (cases "stg = EFI_NOT_FOUND")
    case True
    then have "RtGetVariable U var (length v) s1 = (EFI_NOT_FOUND, length v, [])" using g1 by (simp add: RtGetVariable_def)
    with r al ok st0 show ?thesis unfolding True by (elim disjE) (simp_all add: set_if_changed_def split: if_splits)
  next
    case False
    then have d: "m = length d" "RtGetVariable U var (length d) s1 = (EFI_SUCCESS, length d, d)" using g1 m by (simp_all add: RtGetVariable_def)
    from r al ok st0 d(2) show ?thesis unfolding d(1) by (elim disjE) (auto simp add: set_if_changed_def split: if_splits)
  qed
  then consider (stored) x where "SetVariable U var gDfciSettingsGuid DFCI_SETTINGS_ATTRIBUTES v x = (st, s')"
    | (kept) "s' = s \<or> s' = s1" "stg = EFI_NOT_FOUND \<or> d = v"
    by (auto simp: write_setting_def split: prod.splits)
  then show ?thesis
  proof cases
    case stored
    then show ?thesis by (rule storage_worksD(4) [OF w])
  next
    case kept
    then show ?thesis using g g1 m by auto
  qed
qed

lemma settings_set_default:
  assumes w: "storage_works U" and v: "setting_variable (IsIdSupported i) = Some var"
    and r: "DfciSettingsSetDefault U (Some \<lparr>th_Id = Some i, th_Type = ty\<rparr>) s = (st, s')"
  shows "at_default (mDfciSettingsProviderTemplate U (i, ty, fl)) s'"
proof -
  let ?This = "Some \<lparr>th_Id = Some i, th_Type = ty\<rparr>"
  have i: "IsIdSupported i \<noteq> ID_IS_BAD" using v by auto
  obtain stg d a where g: "GetVariable U var gDfciSettingsGuid s = (stg, d, a)" by (metis prod_cases3)
  have stg: "stg = EFI_SUCCESS \<or> stg = EFI_NOT_FOUND" using w g unfolding storage_works_def by (metis fst_conv)
  obtain st0 m x where d: "DfciSettingsGet U ?This (Some 0) False s = (st0, m, x)" by (metis prod_cases3)
  obtain f' where c: "set_if_changed U var st0 (the m) (default_bytes ty) 0 s = (st, f', s')"
    using r DfciSettingsGetDefault_value [OF i, of 8 ty] v d
    by (auto simp: DfciSettingsSetDefault_def DfciSettingsSet_def default_bytes_def split: prod.splits if_splits)
  have "stg = EFI_NOT_FOUND \<and> (st0 = EFI_SUCCESS \<and> the m = 0 \<or> st0 = EFI_BUFFER_TOO_SMALL)
      \<or> stg = EFI_SUCCESS \<and> the m = length d \<and> (st0 = EFI_SUCCESS \<or> st0 = EFI_BUFFER_TOO_SMALL)"
    using d v g stg i by (auto simp: DfciSettingsGet_def RtGetVariable_def DfciSettingsGetDefault_def split: if_splits)
  from set_if_changed_works [OF w c g this] show ?thesis
    by (metis prod.collapse settings_at_default [OF v])
qed

text \<open>Whatever runs after it, a setting of the libraries stays at its default while other defaults are set.\<close>

lemma reset_loop_keeps:
  assumes l: "variable_laws U" "alloc_keeps_vars U" and q: "(var', q) \<in> set (library_settings C L U)"
    and ps: "set xs \<subseteq> set (library_settings C L U)" "var' \<notin> fst ` set xs" and d: "at_default q s"
  shows "at_default q (reset_loop fl (map snd xs) s)"
  using ps d
proof (induction xs arbitrary: s)
  case (Cons x xs)
  obtain var p where x: "x = (var, p)" by (metis prod.exhaust)
  have p: "(var, p) \<in> set (library_settings C L U)" "var' \<noteq> var" using Cons.prems by (auto simp: x)
  have "pv_Get q b n (snd (pv_SetDefault p s)) = pv_Get q b n s" for b n
    by (rule library_other(2) [OF l p(1) q p(2) prod.collapse [symmetric]])
  then have "at_default q (snd (pv_SetDefault p s))" using Cons.prems(3) by (simp add: at_default_def)
  with Cons show ?case by (simp add: x)
qed simp

text \<open>
  The reset of the settings, which unenrolment performs, brings every DFCI setting (the
  recovery URLs, the certificate for HTTPS, registration, tenant and the two display names) back to
  its default, although the call for a string that was never set fails.
\<close>

theorem reset_clears_dfci_settings:
  assumes w: "storage_works U" and e: "e \<in> set mDfciSettingsProviders" and n: "n > 0"
  shows "pv_Get (mDfciSettingsProviderTemplate U e) True n (reset_loop FLAGS_NO_PREBOOT_UI (library_providers C L U) s)
    = pv_GetDefault (mDfciSettingsProviderTemplate U e) True n s0"
proof -
  let ?x = "(the (setting_variable (IsIdSupported (fst e))), mDfciSettingsProviderTemplate U e)"
  obtain i ty fl where i: "e = (i, ty, fl)" by (metis prod_cases3)
  have "?x \<in> set (library_settings C L U)" using e by (auto simp: library_settings_def)
  then obtain xs ys where s: "library_settings C L U = xs @ ?x # ys" by (meson split_list)
  obtain var where var: "setting_variable (IsIdSupported i) = Some var" and fl: "fl AND FLAGS_NO_PREBOOT_UI \<noteq> 0"
    using e by (auto simp: i mDfciSettingsProviders_def supported_ids)
  let ?s = "reset_loop FLAGS_NO_PREBOOT_UI (map snd xs) s"
  have l: "variable_laws U" "alloc_keeps_vars U" using storage_worksD [OF w] by simp_all
  have "at_default (snd ?x) (snd (pv_SetDefault (snd ?x) ?s))"
    using settings_set_default [OF w var, of ty ?s _ _ fl] by (simp add: i mDfciSettingsProviderTemplate_def) (metis prod.collapse)
  moreover have "fst ?x \<notin> fst ` set ys" using library_distinct [of C L U] by (simp add: s)
  ultimately have "at_default (snd ?x) (reset_loop FLAGS_NO_PREBOOT_UI (map snd ys) (snd (pv_SetDefault (snd ?x) ?s)))"
    using reset_loop_keeps [OF l, of "fst ?x" "snd ?x" C L ys] s by auto
  moreover have "pv_Flags (snd ?x) = fl" by (simp add: i mDfciSettingsProviderTemplate_def)
  moreover have "reset_loop F (ps @ qs) t = reset_loop F qs (reset_loop F ps t)" for F :: u64 and ps qs :: "'a provider list" and t
    by (induction ps arbitrary: t) simp_all
  ultimately show ?thesis using fl n by (simp add: library_providers_def s at_default_def)
qed

section \<open>Values at the boundary\<close>

text \<open>
  On a device where a string setting was never written, writing the empty string, and
  with it setting the default, fails with \<open>EFI_NOT_FOUND\<close>: the default has the same length, so the
  code compares it with a variable that does not exist.
\<close>

theorem empty_string_on_fresh_device:
  assumes e: "(i, TYPE_STRING, fl) \<in> set mDfciSettingsProviders" and l: "alloc_succeeds U" "alloc_keeps_vars U"
    and g: "GetVariable U (the (setting_variable (IsIdSupported i))) gDfciSettingsGuid s = (EFI_NOT_FOUND, d, a)"
  shows "fst (pv_Set (mDfciSettingsProviderTemplate U (i, TYPE_STRING, fl)) [0] f s) = EFI_NOT_FOUND
    \<and> fst (pv_SetDefault (mDfciSettingsProviderTemplate U (i, TYPE_STRING, fl)) s) = EFI_NOT_FOUND"
proof -
  obtain var where var: "setting_variable (IsIdSupported i) = Some var" and i: "IsIdSupported i \<noteq> ID_IS_BAD"
    using e by (auto simp: mDfciSettingsProviders_def supported_ids)
  obtain s1 where al: "AllocatePool U 1 s = (True, s1)" using alloc_succeedsD [OF l(1)] by (metis (full_types) prod.exhaust)
  have g0: "GetVariable U var gDfciSettingsGuid s = (EFI_NOT_FOUND, d, a)" using g var by simp
  then have "GetVariable U var gDfciSettingsGuid s1 = (EFI_NOT_FOUND, d, a)"
    using alloc_keeps_varsD(1) [OF l(2) al] by (simp add: same_vars_def)
  then have "fst (DfciSettingsSet U (Some \<lparr>th_Id = Some i, th_Type = TYPE_STRING\<rparr>) (Some [0]) (Some f) s) = EFI_NOT_FOUND" for f
    using g0 var i al by (simp add: DfciSettingsSet_def DfciSettingsGet_def RtGetVariable_def DfciSettingsGetDefault_def set_if_changed_def)
  then show ?thesis
    using DfciSettingsGetDefault_value [OF i, of 8 TYPE_STRING]
    by (simp add: mDfciSettingsProviderTemplate_def DfciSettingsSetDefault_def default_bytes_def split_beta)
qed

text \<open>An asset tag is accepted exactly if it is a terminated string of allowed characters that is not too long.\<close>

lemma ValidateAssetTagValue_iff:
  "\<not> EFI_ERROR (ValidateAssetTagValue C L v) \<longleftrightarrow> (\<exists>t. v = t @ [0] \<and> length t \<le> L \<and> 0 \<notin> set t \<and> set t \<subseteq> set C)"
proof
  assume a: "\<not> EFI_ERROR (ValidateAssetTagValue C L v)"
  then obtain k where k: "first_index (\<lambda>b. b = 0) v = Some k" "k = length v - 1" "length v \<le> L + 1"
    and c: "\<not> list_ex (\<lambda>b. first_index (\<lambda>c. c = b) C = None) (take (length v - 1) v)"
    by (auto simp: ValidateAssetTagValue_def split: if_splits option.splits)
  note d = first_index_SomeD [OF k(1)]
  then have v: "v = take k v @ [0]" using k(2) by (metis Suc_diff_1 gr_zeroI less_nat_zero_code take_Suc_conv_app_nth take_all order_refl)
  moreover have "0 \<notin> set (take k v)" using d by (auto simp: in_set_conv_nth)
  moreover have "set (take k v) \<subseteq> set C" using c k(2) by (auto simp: list_ex_iff first_index_None)
  ultimately show "\<exists>t. v = t @ [0] \<and> length t \<le> L \<and> 0 \<notin> set t \<and> set t \<subseteq> set C"
    using k(2,3) by (intro exI [of _ "take k v"]) auto
next
  assume "\<exists>t. v = t @ [0] \<and> length t \<le> L \<and> 0 \<notin> set t \<and> set t \<subseteq> set C"
  then obtain t where t: "v = t @ [0]" "length t \<le> L" "0 \<notin> set t" "set t \<subseteq> set C" by blast
  have "first_index (\<lambda>b. b = 0) t = None" using t(3) by (auto simp: first_index_None)
  then have "first_index (\<lambda>b. b = 0) v = Some (length t)" by (simp add: t(1) first_index_append)
  then show "\<not> EFI_ERROR (ValidateAssetTagValue C L v)"
    using t(2,4) by (auto simp: ValidateAssetTagValue_def t(1) list_ex_iff first_index_None)
qed

text \<open>A variable of the switch that is longer than a byte is never repaired: every write fails.\<close>

lemma wpbt_long_variable:
  assumes "GetVariable U WPBT_VAR gDfciSettingsGuid s = (EFI_SUCCESS, v, a)" "length v > 1"
  shows "EFI_ERROR (fst (pv_Set (mDfciWpbtSettingProviderTemplate U) b f s))" "snd (snd (pv_Set (mDfciWpbtSettingProviderTemplate U) b f s)) = s"
  using assms by (auto simp: mDfciWpbtSettingProviderTemplate_def DfciWpbtSettingSet_def DfciWpbtSettingGet_def RtGetVariable_def split: prod.splits)

section \<open>Concrete instances\<close>

lemma demo_storage_works: "storage_works demo_platform"
  using demo_laws by (auto simp: storage_works_def demo_services map_of_filter_other split: option.splits)

abbreviation (input) demo_url where
  "demo_url \<equiv> mDfciSettingsProviderTemplate demo_platform (ID_DFCI_RECOVERY_URL, TYPE_STRING, FLAGS_NO_PREBOOT_UI)"

lemma demo_url_setting: "(''DfciUrl'', demo_url) \<in> set (library_settings [] 0 demo_platform)"
  by (simp add: library_settings_def mDfciSettingsProviders_def supported_ids)

theorem library_setting_roundtrip_witness:
  "\<exists>f' s'. pv_Set demo_url [65, 0] 0 example_state = (EFI_SUCCESS, f', s') \<and> reads demo_url s' [65, 0]"
proof -
  have "fst (pv_Set demo_url [65, 0] 0 example_state) = EFI_SUCCESS" by code_simp
  then obtain f' s' where r: "pv_Set demo_url [65, 0] 0 example_state = (EFI_SUCCESS, f', s')" by (metis prod.collapse)
  with library_setting_roundtrip [OF storage_worksD(3,2) [OF demo_storage_works] demo_url_setting r] show ?thesis by simp
qed

theorem reset_clears_dfci_settings_witness:
  "pv_Get demo_url True 1 (reset_loop FLAGS_NO_PREBOOT_UI (library_providers [] 0 demo_platform) example_state) = (EFI_SUCCESS, 1, [0])"
proof -
  have e: "(ID_DFCI_RECOVERY_URL, TYPE_STRING, FLAGS_NO_PREBOOT_UI) \<in> set mDfciSettingsProviders" by (simp add: mDfciSettingsProviders_def)
  from reset_clears_dfci_settings [OF demo_storage_works e, of 1 "[]" 0 example_state example_state] show ?thesis
    by (simp add: mDfciSettingsProviderTemplate_def DfciSettingsGetDefault_def supported_ids)
qed

theorem empty_string_on_fresh_device_witness:
  "fst (pv_Set demo_url [0] 0 example_state) = EFI_NOT_FOUND"
proof -
  have e: "(ID_DFCI_RECOVERY_URL, TYPE_STRING, FLAGS_NO_PREBOOT_UI) \<in> set mDfciSettingsProviders" by (simp add: mDfciSettingsProviders_def)
  have "GetVariable demo_platform ''DfciUrl'' gDfciSettingsGuid example_state = (EFI_NOT_FOUND, [], 0)" by code_simp
  with empty_string_on_fresh_device [OF e storage_worksD(1,2) [OF demo_storage_works]] show ?thesis by (simp add: supported_ids)
qed

end
