(* ===== verification/Setting_Samples.thy ===== *)
theory Setting_Samples
  imports Setting_Libraries
begin

text \<open>
  The setting providers that keep no variable of their own: virtualization, which is fixed
  (\<open>DfciVirtualizationSettings.c\<close>), the administrator password, which lives in the platform's
  password store (\<open>DfciPasswordProvider.c\<close>), and the sample provider with a byte in memory
  (\<open>DfciSampleProvider.c\<close>).
\<close>

section \<open>Virtualization\<close>

definition ID_ENABLE_VIRT_SETTINGS :: string where "ID_ENABLE_VIRT_SETTINGS = ''Device.CpuAndIoVirtualization.Enable''"
abbreviation (input) HARD_CODED_VIRTUALIZATION :: u8 where "HARD_CODED_VIRTUALIZATION \<equiv> 1"

definition Virt_IsIdSupported :: "string \<Rightarrow> bool" where
  "Virt_IsIdSupported IdStr \<longleftrightarrow> AsciiStrnCmp_eq IdStr ID_ENABLE_VIRT_SETTINGS DFCI_MAX_ID_LEN"

text \<open>Here a missing output buffer is always an error.\<close>

definition buffer_args :: "setting_this option \<Rightarrow> nat option \<Rightarrow> bool \<Rightarrow> (string \<times> nat) option" where
  "buffer_args This ValueSize Value = do {
     t \<leftarrow> This;
     i \<leftarrow> th_Id t;
     n \<leftarrow> ValueSize;
     if Value then Some (i, n) else None }"

definition DfciVirtSettingsSet :: "setting_this option \<Rightarrow> bytes option \<Rightarrow> u64 option \<Rightarrow> 's \<Rightarrow> EFI_STATUS \<times> u64 option \<times> 's" where
  "DfciVirtSettingsSet This Value Flags s = (case set_args This Value Flags of
     None \<Rightarrow> (EFI_INVALID_PARAMETER, Flags, s)
   | Some (i, v, f) \<Rightarrow> (case v of
       [] \<Rightarrow> (EFI_INVALID_PARAMETER, Flags, s)
     | NewValue # _ \<Rightarrow>
       if Virt_IsIdSupported i then
         (if NewValue \<noteq> HARD_CODED_VIRTUALIZATION then (EFI_UNSUPPORTED, Flags, s)
          else (EFI_SUCCESS, Some (f OR FLAGS_OUT_ALREADY_SET), s))
       else (EFI_UNSUPPORTED, Flags, s)))"

definition DfciVirtSettingsGet :: "setting_this option \<Rightarrow> nat option \<Rightarrow> bool \<Rightarrow> 's \<Rightarrow> EFI_STATUS \<times> nat option \<times> bytes" where
  "DfciVirtSettingsGet This ValueSize Value s = (case buffer_args This ValueSize Value of
     None \<Rightarrow> (EFI_INVALID_PARAMETER, ValueSize, [])
   | Some (i, n) \<Rightarrow>
     if n < 1 then (EFI_BUFFER_TOO_SMALL, Some 1, [])
     else if Virt_IsIdSupported i then (EFI_SUCCESS, Some 1, [HARD_CODED_VIRTUALIZATION])
     else (EFI_UNSUPPORTED, ValueSize, []))"

definition DfciVirtSettingsGetDefault :: "setting_this option \<Rightarrow> nat option \<Rightarrow> bool \<Rightarrow> EFI_STATUS \<times> nat option \<times> bytes" where
  "DfciVirtSettingsGetDefault This ValueSize Value = (case buffer_args This ValueSize Value of
     None \<Rightarrow> (EFI_INVALID_PARAMETER, ValueSize, [])
   | Some (i, n) \<Rightarrow>
     if n < 1 then (EFI_BUFFER_TOO_SMALL, Some 1, [])
     else if \<not> Virt_IsIdSupported i then (EFI_UNSUPPORTED, ValueSize, [])
     else (EFI_SUCCESS, Some 1, [HARD_CODED_VIRTUALIZATION]))"

definition DfciVirtSettingsSetDefault :: "setting_this option \<Rightarrow> 's \<Rightarrow> EFI_STATUS \<times> 's" where
  "DfciVirtSettingsSetDefault This s = (case This of
     None \<Rightarrow> (EFI_INVALID_PARAMETER, s)
   | Some t \<Rightarrow> (case DfciVirtSettingsGetDefault This (Some 8) True of (Status, ValueSize, Value) \<Rightarrow>
       if EFI_ERROR Status then (Status, s)
       else case DfciVirtSettingsSet This (Some (take (the ValueSize) Value)) (Some 0) s of (Status, _, s) \<Rightarrow> (Status, s)))"

definition mDfciCpuAndIoProviderTemplate :: "'s provider" where
  "mDfciCpuAndIoProviderTemplate = library_provider DfciVirtSettingsSet DfciVirtSettingsGet DfciVirtSettingsGetDefault
     DfciVirtSettingsSetDefault (ID_ENABLE_VIRT_SETTINGS, TYPE_ENABLE, FLAGS_NO_PREBOOT_UI)"

definition GetVirtualizationSetting :: "string option \<Rightarrow> nat option \<Rightarrow> bool \<Rightarrow> EFI_STATUS \<times> nat option \<times> bytes" where
  "GetVirtualizationSetting IdStr ValueSize Value =
     (let This = Some \<lparr>th_Id = IdStr, th_Type = TYPE_ENABLE\<rparr> in
      case DfciVirtSettingsGet This ValueSize Value () of (Status, n, v) \<Rightarrow>
        if EFI_ERROR Status \<and> Status \<noteq> EFI_BUFFER_TOO_SMALL then DfciVirtSettingsGetDefault This n Value else (Status, n, v))"

definition Virt_ProviderSupportProtocolNotify :: "'s platform \<Rightarrow> EFI_STATUS \<Rightarrow> 's provider list \<Rightarrow> group list \<Rightarrow> 's
    \<Rightarrow> bool \<times> 's provider list \<times> group list \<times> 's" where
  "Virt_ProviderSupportProtocolNotify U = provider_notify U [mDfciCpuAndIoProviderTemplate]"

section \<open>Password\<close>

definition ID_PASSWORD :: string where "ID_PASSWORD = ''Device.Password.Password''"

text \<open>The password store of the platform: whether a password is set, and storing a hash.\<close>

record 's password_store =
  pw_IsPasswordSet :: "'s \<Rightarrow> bool"
  pw_SetPassword :: "bytes \<Rightarrow> 's \<Rightarrow> EFI_STATUS \<times> 's"

definition is_password :: "string \<Rightarrow> bool" where
  "is_password i \<longleftrightarrow> AsciiStrnCmp_eq i ID_PASSWORD DFCI_MAX_ID_LEN"

definition PasswordGetDefault :: "setting_this option \<Rightarrow> nat option \<Rightarrow> bool \<Rightarrow> EFI_STATUS \<times> nat option \<times> bytes" where
  "PasswordGetDefault This ValueSize Value = (case buffer_args This ValueSize Value of
     None \<Rightarrow> (EFI_INVALID_PARAMETER, ValueSize, [])
   | Some (i, n) \<Rightarrow>
     if n < 1 then (EFI_BUFFER_TOO_SMALL, Some 1, [])
     else if \<not> is_password i then (EFI_UNSUPPORTED, ValueSize, [])
     else (EFI_SUCCESS, Some 1, [0]))"

text \<open>The remaining operations do not test the id for NULL before comparing it; it is then undefined.\<close>

definition PasswordGet :: "'s password_store \<Rightarrow> (string \<times> setting_type) option \<Rightarrow> nat option \<Rightarrow> bool \<Rightarrow> 's \<Rightarrow> EFI_STATUS \<times> nat option \<times> bytes" where
  "PasswordGet W This ValueSize Value s = (case (This, ValueSize) of
     (Some (i, ty), Some n) \<Rightarrow>
       if \<not> Value then (EFI_INVALID_PARAMETER, ValueSize, [])
       else if n < 1 then (EFI_BUFFER_TOO_SMALL, Some 1, [])
       else if \<not> is_password i then (EFI_UNSUPPORTED, ValueSize, [])
       else (EFI_SUCCESS, Some 1, [if pw_IsPasswordSet W s then 1 else 0])
   | _ \<Rightarrow> (EFI_INVALID_PARAMETER, ValueSize, []))"

definition PasswordSet :: "'s password_store \<Rightarrow> (string \<times> setting_type) option \<Rightarrow> bytes option \<Rightarrow> u64 option \<Rightarrow> 's
    \<Rightarrow> EFI_STATUS \<times> u64 option \<times> 's" where
  "PasswordSet W This Value Flags s = (case (This, Value, Flags) of
     (Some (i, ty), Some v, Some f) \<Rightarrow>
       if \<not> is_password i then (EFI_UNSUPPORTED, Some 0, s)
       else (case pw_SetPassword W v s of (Status, s) \<Rightarrow>
         (Status, Some (if \<not> EFI_ERROR Status then 0 OR FLAGS_OUT_REBOOT_REQUIRED else 0), s))
   | _ \<Rightarrow> (EFI_INVALID_PARAMETER, Flags, s))"

definition PasswordSetDefault :: "(string \<times> setting_type) option \<Rightarrow> EFI_STATUS" where
  "PasswordSetDefault This = (case This of
     None \<Rightarrow> EFI_INVALID_PARAMETER
   | Some (i, ty) \<Rightarrow> if \<not> is_password i then EFI_UNSUPPORTED else EFI_ACCESS_DENIED)"

definition mPasswordProvider :: "'s password_store \<Rightarrow> 's provider" where
  "mPasswordProvider W = (let This = Some (ID_PASSWORD, TYPE_PASSWORD) in
     \<lparr>pv_Id = ID_PASSWORD, pv_Type = TYPE_PASSWORD, pv_Flags = FLAGS_OUT_REBOOT_REQUIRED,
      pv_Set = (\<lambda>v f s. case PasswordSet W This (Some v) (Some f) s of (st, f', s') \<Rightarrow> (st, the f', s')),
      pv_Get = (\<lambda>b n s. case PasswordGet W This (Some n) b s of (st, m, v) \<Rightarrow> (st, the m, v)),
      pv_GetDefault = (\<lambda>b n s. case PasswordGetDefault (Some \<lparr>th_Id = Some ID_PASSWORD, th_Type = TYPE_PASSWORD\<rparr>) (Some n) b of
        (st, m, v) \<Rightarrow> (st, the m, v)),
      pv_SetDefault = (\<lambda>s. (PasswordSetDefault This, s))\<rparr>)"

definition PasswordProviderSupportProtocolNotify :: "'s password_store \<Rightarrow> 's platform \<Rightarrow> EFI_STATUS \<Rightarrow> 's provider list \<Rightarrow> group list \<Rightarrow> 's
    \<Rightarrow> bool \<times> 's provider list \<times> group list \<times> 's" where
  "PasswordProviderSupportProtocolNotify W U = provider_notify U [mPasswordProvider W]"

section \<open>The sample provider\<close>

text \<open>Its store is one byte of memory.\<close>

definition MY_SETTING_ID__SETTING1 :: string where "MY_SETTING_ID__SETTING1 = ''Oem.Setting1.Enable''"

definition Sample_IsIdSupported :: "string \<Rightarrow> bool" where
  "Sample_IsIdSupported IdStr \<longleftrightarrow> AsciiStrnCmp_eq IdStr MY_SETTING_ID__SETTING1 DFCI_MAX_ID_LEN"

definition InitializeSettingStore :: "EFI_STATUS \<times> u8" where
  "InitializeSettingStore = (EFI_SUCCESS, 1)"

definition DfciSampleProviderGet :: "setting_this option \<Rightarrow> nat option \<Rightarrow> bool \<Rightarrow> u8 \<Rightarrow> EFI_STATUS \<times> nat option \<times> bytes" where
  "DfciSampleProviderGet This ValueSize Value mMySettingStore = (case get_args This ValueSize Value of
     None \<Rightarrow> (EFI_INVALID_PARAMETER, ValueSize, [])
   | Some (i, ty, n) \<Rightarrow>
     if \<not> Sample_IsIdSupported i then (EFI_UNSUPPORTED, ValueSize, [])
     else if n < 1 then (EFI_BUFFER_TOO_SMALL, Some 1, [])
     else (EFI_SUCCESS, Some 1, [mMySettingStore]))"

definition DfciSampleProviderSet :: "setting_this option \<Rightarrow> bytes option \<Rightarrow> u64 option \<Rightarrow> u8 \<Rightarrow> EFI_STATUS \<times> u64 option \<times> u8" where
  "DfciSampleProviderSet This Value Flags mMySettingStore = (case set_args This Value Flags of
     None \<Rightarrow> (EFI_INVALID_PARAMETER, Flags, mMySettingStore)
   | Some (i, v, f) \<Rightarrow>
     if length v > DFCI_SETTING_MAXIMUM_SIZE then (EFI_INVALID_PARAMETER, Flags, mMySettingStore)
     else case v of [] \<Rightarrow> (EFI_INVALID_PARAMETER, Flags, mMySettingStore)
     | NewValue # _ \<Rightarrow>
       if \<not> Sample_IsIdSupported i then (EFI_UNSUPPORTED, Flags, mMySettingStore)
       else (case DfciSampleProviderGet This (Some 1) True mMySettingStore of (Status, _, CurrentValue) \<Rightarrow>
         if Status \<noteq> EFI_NOT_FOUND \<and> EFI_ERROR Status then (Status, Flags, mMySettingStore)
         else if Status \<noteq> EFI_NOT_FOUND \<and> CurrentValue = [NewValue] then (EFI_SUCCESS, Some (f OR FLAGS_OUT_ALREADY_SET), mMySettingStore)
         else (EFI_SUCCESS, Flags, NewValue)))"

definition DfciSampleProviderGetDefault :: "setting_this option \<Rightarrow> nat option \<Rightarrow> bool \<Rightarrow> EFI_STATUS \<times> nat option \<times> bytes" where
  "DfciSampleProviderGetDefault This ValueSize Value = (case get_args This ValueSize Value of
     None \<Rightarrow> (EFI_INVALID_PARAMETER, ValueSize, [])
   | Some (i, ty, n) \<Rightarrow>
     if \<not> Sample_IsIdSupported i then (EFI_UNSUPPORTED, ValueSize, [])
     else if n < 1 then (EFI_BUFFER_TOO_SMALL, Some 1, [])
     else (EFI_SUCCESS, Some 1, [1]))"

definition DfciSampleProviderSetDefault :: "setting_this option \<Rightarrow> u8 \<Rightarrow> EFI_STATUS \<times> u8" where
  "DfciSampleProviderSetDefault This mMySettingStore = (case This of
     None \<Rightarrow> (EFI_INVALID_PARAMETER, mMySettingStore)
   | Some t \<Rightarrow> (case DfciSampleProviderGetDefault This (Some 8) True of (Status, ValueSize, Value) \<Rightarrow>
       if EFI_ERROR Status then (Status, mMySettingStore)
       else case DfciSampleProviderSet This (Some (take (the ValueSize) Value)) (Some 0) mMySettingStore of (Status, _, st) \<Rightarrow> (Status, st)))"

definition mDfciSampleProviderProviderSetting1 :: "u8 provider" where
  "mDfciSampleProviderProviderSetting1 = library_provider DfciSampleProviderSet DfciSampleProviderGet DfciSampleProviderGetDefault
     DfciSampleProviderSetDefault (MY_SETTING_ID__SETTING1, TYPE_ENABLE, FLAGS_NO_PREBOOT_UI)"

text \<open>
  The address of the parameter is passed instead of the parameter: the byte goes into the local
  pointer, and the caller's variable keeps its value.
\<close>

definition OEM_GetSampleSetting1 :: "u8 \<Rightarrow> u8 \<Rightarrow> EFI_STATUS \<times> u8" where
  "OEM_GetSampleSetting1 LocalSetting mMySettingStore =
     (case DfciSampleProviderGet (Some \<lparr>th_Id = Some MY_SETTING_ID__SETTING1, th_Type = TYPE_ENABLE\<rparr>) (Some 1) True mMySettingStore of
        (Status, _, _) \<Rightarrow> (Status, LocalSetting))"

section \<open>Properties\<close>

text \<open>Virtualization cannot be changed: a write succeeds only with the fixed value, and never has an effect.\<close>

lemma virtualization_fixed:
  "snd (snd (pv_Set mDfciCpuAndIoProviderTemplate v f s)) = s"
  "fst (pv_Set mDfciCpuAndIoProviderTemplate v f s) = EFI_SUCCESS \<longleftrightarrow> v \<noteq> [] \<and> hd v = 1"
  "pv_SetDefault mDfciCpuAndIoProviderTemplate s = (EFI_SUCCESS, s)"
  "GetVirtualizationSetting (Some ID_ENABLE_VIRT_SETTINGS) (Some 1) True = (EFI_SUCCESS, Some 1, [1])"
  by (cases v; simp add: mDfciCpuAndIoProviderTemplate_def DfciVirtSettingsSet_def DfciVirtSettingsGet_def DfciVirtSettingsSetDefault_def
      DfciVirtSettingsGetDefault_def GetVirtualizationSetting_def Virt_IsIdSupported_def AsciiStrnCmp_eq_def buffer_args_def)+

text \<open>
  The password is changed only through the password store, a successful change asks for a restart,
  and the reset of the settings cannot remove it.
\<close>

lemma password_provider:
  "pv_Set (mPasswordProvider W) v f s = (case pw_SetPassword W v s of (st, s') \<Rightarrow>
     (st, if EFI_ERROR st then 0 else FLAGS_OUT_REBOOT_REQUIRED, s'))"
  "pv_SetDefault (mPasswordProvider W) s = (EFI_ACCESS_DENIED, s)"
  "n > 0 \<Longrightarrow> pv_Get (mPasswordProvider W) True n s = (EFI_SUCCESS, 1, [if pw_IsPasswordSet W s then 1 else 0])"
  by (simp_all add: mPasswordProvider_def PasswordSet_def PasswordGet_def PasswordSetDefault_def is_password_def AsciiStrnCmp_eq_def
      Let_def split_beta)

text \<open>The sample provider reads back what was set, and its accessor never returns it.\<close>

lemma sample_roundtrip:
  assumes "pv_Set mDfciSampleProviderProviderSetting1 v f m = (st, f', m')" "\<not> EFI_ERROR st"
  shows "pv_Get mDfciSampleProviderProviderSetting1 True 1 m' = (EFI_SUCCESS, 1, [hd v])"
  using assms by (cases v) (auto simp: mDfciSampleProviderProviderSetting1_def DfciSampleProviderSet_def DfciSampleProviderGet_def split: if_splits)

lemma sample_accessor: "OEM_GetSampleSetting1 x m = (EFI_SUCCESS, x)"
  by (simp add: OEM_GetSampleSetting1_def DfciSampleProviderGet_def Sample_IsIdSupported_def AsciiStrnCmp_eq_def)

end
