(* ===== verification/Library_System.thy ===== *)
theory Library_System
  imports Setting_Samples Manager_System
begin

text \<open>
  The setting libraries inside the whole system: the providers they register are the ones the settings
  manager calls, so what the other theories ask of providers (they leave the identity manager and the
  stored certificates and permissions alone) is discharged here for the shipped libraries.
\<close>

lemma library_provider_stored:
  assumes l: "variable_laws U" "alloc_keeps_vars U" and p: "(var, p) \<in> set (library_settings C L U)"
  shows "stored_same U s (snd (snd (pv_Set p v f s)))"
proof -
  obtain st f' s' where r: "pv_Set p v f s = (st, f', s')" by (metis prod_cases3)
  have "GetVariable U n gDfciInternalVariableGuid s' = GetVariable U n gDfciInternalVariableGuid s" for n
    by (rule stored_setting.set_frame [OF library_stored [OF p] l r])
      (simp add: gDfciInternalVariableGuid_def gDfciSettingsGuid_def)
  then show ?thesis by (simp add: r stored_same_def)
qed

lemma library_provider_found:
  assumes "FindProviderById V (library_providers C L U) i = Some p"
  obtains var where "(var, p) \<in> set (library_settings C L U)"
proof -
  have "p \<in> set (library_providers C L U)"
    using assms by (auto simp: FindProviderById_def find_Some_iff split: option.splits if_splits)
  then show thesis using that by (auto simp: library_providers_def)
qed

text \<open>A write through the lifted platform stays in its second component.\<close>

lemma lifted_write:
  assumes "stored_setting (lift_platform U) p var k" "pv_Set p v f z = (st, f', z')"
  shows "fst z' = fst z"
  using stored_setting.set_value [OF assms] by (cases z) (auto simp: lift_services)

lemma library_providers_apart: "providers_apart (library_providers C L (lift_platform U))"
  unfolding providers_apart_def
proof (intro ballI allI)
  fix p z assume "p \<in> set (library_providers C L (lift_platform U))"
  then obtain var where p: "(var, p) \<in> set (library_settings C L (lift_platform U))" by (auto simp: library_providers_def)
  note s = library_stored [OF p]
  show "fst (snd (pv_SetDefault p z)) = fst z"
    using stored_setting.default_set [OF s prod.collapse [symmetric], of z] lifted_write [OF s] by metis
qed

text \<open>
  With the providers of the libraries for DFCI settings, the asset tag and the platform binary table
  the settings manager meets what the composition of the drivers asks of it: writing any setting leaves
  the stored certificates and permissions alone, and resetting them does not touch the identity manager.
\<close>

theorem library_setting_services:
  assumes i: "identity_services I" and p: "ie_Providers I = library_providers C L (ie_Platform I)"
    and n: "\<And>j t ty v f z. stored_same (ie_Platform I) z (snd (DfciSettingChangedNotification X j t ty v f z))"
  shows "setting_services I X \<and> providers_apart (ie_Providers I)"
proof -
  note l = identity_servicesD [OF i]
  have "stored_same (ie_Platform I) z (snd (snd (pv_Set q v f z)))" if "FindProviderById (ie_Platform I) (ie_Providers I) j = Some q" for j q v f z
    using that unfolding p by (rule library_provider_found) (rule library_provider_stored [OF l(3,1)])
  moreover have "providers_apart (ie_Providers I)" unfolding p ie_Platform_def by (rule library_providers_apart)
  ultimately show ?thesis using n by (simp add: setting_services_def)
qed

theorem library_setting_services_witness:
  "setting_services (demo_identity\<lparr>ie_Providers := library_providers [] 0 (lift_platform demo_platform)\<rparr>)
     \<lparr>Base64Decode = (\<lambda>t b n. (EFI_SUCCESS, 0, [])), Base64Encode = (\<lambda>b. (EFI_SUCCESS, length b, [])),
      AsciiStrHexToBytes = (\<lambda>t. (EFI_SUCCESS, [])), DfciV1NumberFromId = (\<lambda>i. None), CertThumbprint = (\<lambda>b s. (EFI_NOT_FOUND, [])),
      DfciSettingChangedNotification = (\<lambda>i t ty v f s. (EFI_SUCCESS, s))\<rparr>"
proof -
  have "alloc_keeps_vars demo_platform" "xml_keeps_vars demo_platform" "variable_laws demo_platform" using demo_laws by simp_all
  then have "identity_services (demo_identity\<lparr>ie_Providers := library_providers [] 0 (lift_platform demo_platform)\<rparr>)"
    by (simp add: identity_services_def demo_identity_def) (auto simp: rng_keeps_vars_def ui_keeps_vars_def demo_env_def demo_ui_def)
  from library_setting_services [OF this] show ?thesis by (simp add: ie_Platform_def demo_identity_def)
qed

end
