(* ===== verification/Recovery.thy ===== *)
theory Recovery
  imports Identity_Provision Packet_Decode Field_Code
begin

text \<open>
  Recovery of a device that no longer boots: the challenge and its encryption
  (\<open>DfciRecoveryLib.c\<close>) and the recovery session of the authentication protocol
  (\<open>RecoverySupport.c\<close>).  The random number protocol, the device identifiers, RSA encryption and the
  bounded string concatenation come from the platform.

  The theory shows who can start a session, that a session ends in clearing DFCI only with the secret
  part of the nonce, and that no more than three wrong answers are compared in a boot.
\<close>

section \<open>The environment\<close>

text \<open>
  \<open>re_GetRNG\<close> takes the position of the algorithm in \<open>mSecureRngAlgorithms\<close> and the number of bytes.
  \<open>re_AsciiStrnCatS\<close> takes the destination, its size, the source and the number of characters and
  returns the new destination; \<open>re_Pkcs1v2Encrypt\<close> takes certificate, plain text and seed.
\<close>

record 's recovery_env =
  re_I :: "'s identity_env"
  re_Ids :: "'s device_id"
  re_LocateRng :: "'s \<Rightarrow> EFI_STATUS"
  re_GetRNG :: "nat \<Rightarrow> nat \<Rightarrow> 's \<Rightarrow> EFI_STATUS \<times> bytes \<times> 's"
  re_AsciiStrnCatS :: "bytes \<Rightarrow> nat \<Rightarrow> bytes \<Rightarrow> u64 \<Rightarrow> EFI_STATUS \<times> bytes"
  re_Pkcs1v2Encrypt :: "bytes \<Rightarrow> bytes \<Rightarrow> bytes \<Rightarrow> bytes option"

abbreviation (input) DFCI_RECOVERY_NONCE_SIZE :: nat where "DFCI_RECOVERY_NONCE_SIZE \<equiv> 64"
abbreviation (input) DFCI_RECOVERY_NONCE_KEY_SIZE :: nat where "DFCI_RECOVERY_NONCE_KEY_SIZE \<equiv> 10"
abbreviation (input) DFCI_MULTI_STRING_MAX_SIZE :: nat where "DFCI_MULTI_STRING_MAX_SIZE \<equiv> 104"
abbreviation (input) RANDOM_SEED_BUFFER_SIZE :: nat where "RANDOM_SEED_BUFFER_SIZE \<equiv> 64"
abbreviation (input) SECURE_RNG_ALGORITHMS_SIZE :: nat where "SECURE_RNG_ALGORITHMS_SIZE \<equiv> 4"
abbreviation (input) RECOVERY_RESPONSE_SIZE :: nat where "RECOVERY_RESPONSE_SIZE \<equiv> 10"
abbreviation (input) MAX_TRIES_FOR_RECOVERY :: u64 where "MAX_TRIES_FOR_RECOVERY \<equiv> 3"
abbreviation (input) RECOVERY_TIMEOUT_IN_SECONDS :: nat where "RECOVERY_TIMEOUT_IN_SECONDS \<equiv> 7200"

text \<open>\<open>MultiString\<close> is kept without its terminating NUL.\<close>

record challenge =
  ch_SerialNumber :: u64
  ch_Timestamp :: EFI_TIME
  ch_Nonce :: bytes
  ch_MultiString :: bytes

definition ch_Key :: "challenge \<Rightarrow> bytes" where
  "ch_Key c = drop (DFCI_RECOVERY_NONCE_SIZE - DFCI_RECOVERY_NONCE_KEY_SIZE) (ch_Nonce c)"

definition challenge_bytes :: "challenge \<Rightarrow> bytes" where
  "challenge_bytes c = le64 (ch_SerialNumber c) @ time_bytes (ch_Timestamp c) @ ch_Nonce c @ ch_MultiString c @ [0]"

record recovery_packet =
  rp_Identity :: u8
  rp_DataLength :: nat
  rp_Data :: bytes

section \<open>The recovery library\<close>

text \<open>The loop over the algorithms: the next one is tried only if one is not supported.\<close>

fun try_algorithms :: "(nat \<Rightarrow> nat \<Rightarrow> 's \<Rightarrow> EFI_STATUS \<times> bytes \<times> 's) \<Rightarrow> nat list \<Rightarrow> nat \<Rightarrow> 's \<Rightarrow> EFI_STATUS \<times> bytes \<times> 's" where
  "try_algorithms G [] n s = (EFI_NOT_FOUND, [], s)"
| "try_algorithms G (k # ks) n s = (case G k n s of (Status, b, s) \<Rightarrow>
     if \<not> EFI_ERROR Status then (EFI_SUCCESS, b, s)
     else if Status = EFI_UNSUPPORTED then try_algorithms G ks n s
     else (Status, [], s))"

definition GetRandomValue :: "'s recovery_env \<Rightarrow> bool \<Rightarrow> nat \<Rightarrow> 's \<Rightarrow> EFI_STATUS \<times> bytes \<times> 's" where
  "GetRandomValue R Output OutputLength s =
     (if \<not> Output \<or> OutputLength = 0 then (EFI_INVALID_PARAMETER, [], s)
      else if EFI_ERROR (re_LocateRng R s) then (re_LocateRng R s, [], s)
      else try_algorithms (re_GetRNG R) [0..<SECURE_RNG_ALGORITHMS_SIZE] OutputLength s)"

text \<open>One identifier appended to the string; the length passed on wraps around for an empty identifier.\<close>

definition append_id :: "'s recovery_env \<Rightarrow> ('s \<Rightarrow> EFI_STATUS \<times> bytes) \<Rightarrow> EFI_STATUS \<times> bytes \<Rightarrow> 's \<Rightarrow> EFI_STATUS \<times> bytes" where
  "append_id R Get acc s = (case acc of (Status, m) \<Rightarrow>
     if EFI_ERROR Status then (Status, m)
     else case Get s of (Status, Element) \<Rightarrow>
       if EFI_ERROR Status then (Status, m)
       else re_AsciiStrnCatS R m DFCI_MULTI_STRING_MAX_SIZE Element (word_of_nat (length Element) - 1))"

text \<open>
  The challenge and its size.  The pointer is set as soon as there is a nonce, so an error of the
  identifiers is returned together with a challenge.
\<close>

definition GetRecoveryChallenge :: "'s recovery_env \<Rightarrow> bool \<Rightarrow> 's \<Rightarrow> EFI_STATUS \<times> challenge option \<times> nat \<times> 's" where
  "GetRecoveryChallenge R Challenge s =
     (if \<not> Challenge then (EFI_INVALID_PARAMETER, None, 0, s)
      else case AllocatePool (ie_U (re_I R)) (88 + DFCI_MULTI_STRING_MAX_SIZE) s of (ok, s) \<Rightarrow>
        if \<not> ok then (EFI_OUT_OF_RESOURCES, None, 0, s)
        else case GetTime (ie_U (re_I R)) s of (Status, t, s) \<Rightarrow>
          if EFI_ERROR Status then (Status, None, 0, s)
          else case GetRandomValue R True DFCI_RECOVERY_NONCE_SIZE s of (Status, Nonce, s) \<Rightarrow>
            if EFI_ERROR Status then (Status, None, 0, s)
            else case append_id R (DfciIdSupportGetManufacturer (re_Ids R))
                (append_id R (DfciIdSupportGetProductName (re_Ids R))
                  (append_id R (DfciIdSupportGetSerialNumber (re_Ids R)) (EFI_SUCCESS, []) s) s) s of (Status, m) \<Rightarrow>
              (Status, Some \<lparr>ch_SerialNumber = 0, ch_Timestamp = t, ch_Nonce = Nonce, ch_MultiString = m\<rparr>, 88 + (if length m < DFCI_MULTI_STRING_MAX_SIZE then length m + 1 else DFCI_MULTI_STRING_MAX_SIZE + 1), s))"

definition EncryptRecoveryChallenge :: "'s recovery_env \<Rightarrow> challenge option \<Rightarrow> nat \<Rightarrow> bytes option \<Rightarrow> nat \<Rightarrow> 's
    \<Rightarrow> EFI_STATUS \<times> bytes option \<times> 's" where
  "EncryptRecoveryChallenge R Challenge ChallengeSize PublicKey PublicKeySize s =
     (case (Challenge, PublicKey) of
        (Some c, Some k) \<Rightarrow>
          (case GetRandomValue R True RANDOM_SEED_BUFFER_SIZE s of (Status, ExtraSeed, s) \<Rightarrow>
            if EFI_ERROR Status then (Status, None, s)
            else case re_Pkcs1v2Encrypt R (take PublicKeySize k) (take ChallengeSize (challenge_bytes c)) ExtraSeed of
                None \<Rightarrow> (EFI_ABORTED, None, s)
              | Some e \<Rightarrow> (Status, Some e, s))
      | _ \<Rightarrow> (EFI_INVALID_PARAMETER, None, s))"

section \<open>The recovery session\<close>

text \<open>
  The static data, the seconds of the watchdog (0 when it is off) and whether the system has been shut
  down.
\<close>

record recovery =
  rc_ResponseValidationCount :: u64
  rc_Challenge :: "challenge option"
  rc_Id :: u8
  rc_Watchdog :: nat
  rc_Shutdown :: bool

definition initial_recovery :: recovery where
  "initial_recovery = \<lparr>rc_ResponseValidationCount = 0, rc_Challenge = None, rc_Id = DFCI_IDENTITY_INVALID, rc_Watchdog = 0, rc_Shutdown = False\<rparr>"

definition DoDfciRecovery :: "'s recovery_env \<Rightarrow> bool \<Rightarrow> recovery \<Rightarrow> perm_store option \<Rightarrow> 's sys
    \<Rightarrow> (EFI_STATUS \<times> recovery \<times> perm_store option \<times> 's sys) option" where
  "DoDfciRecovery R PermProtocol rc Store z =
     (case CreateAuthTokenWithMapping (ie_U (re_I R)) (ie_E (re_I R)) (rc_Id rc) (fst z) (snd z) of (Random, z1) \<Rightarrow> do {
        (Status, Store, z2) \<leftarrow> ClearDFCI (re_I R) PermProtocol Random Store z1;
        Some (Status, rc\<lparr>rc_Watchdog := 0, rc_Challenge := None, rc_Id := DFCI_IDENTITY_INVALID\<rparr>, Store, z2) })"

definition ShutdownDueToHammering :: "recovery \<Rightarrow> recovery" where
  "ShutdownDueToHammering rc = rc\<lparr>rc_Shutdown := True\<rparr>"

text \<open>The permission that decides: the one of recovery, or the one of zero-touch recovery when it is empty.\<close>

definition recovery_mask :: "perm_store option \<Rightarrow> EFI_STATUS \<times> u8" where
  "recovery_mask Store = (case SystemSettingPermissionGetPermission True (Some ID_DFCI_RECOVERY) Store (Some 0) of (Status, m) \<Rightarrow>
     if EFI_ERROR Status then (Status, the m)
     else if the m = 0 then
       (case SystemSettingPermissionGetPermission True (Some ID_ZTD_RECOVERY) Store m of (Status, m) \<Rightarrow> (Status, the m))
     else (Status, the m))"

definition GetRecoveryPacket :: "'s recovery_env \<Rightarrow> bool \<Rightarrow> u8 \<Rightarrow> bool \<Rightarrow> bool \<Rightarrow> perm_store option \<Rightarrow> recovery \<Rightarrow> 's sys
    \<Rightarrow> EFI_STATUS \<times> recovery_packet option \<times> recovery \<times> 's sys" where
  "GetRecoveryPacket R This Ident Packet PermProtocol Store rc z =
     (let fail = (\<lambda>Status z. (Status, None, rc, z)) in
      if \<not> This \<or> \<not> Packet then fail EFI_INVALID_PARAMETER z
      else if rc_Challenge rc \<noteq> None then fail EFI_ALREADY_STARTED z
      else if Ident AND DFCI_IDENTITY_MASK_KEYS = 0 then fail EFI_UNSUPPORTED z
      else if Provisioned (au_Certs (fst z)) AND Ident = 0 then fail EFI_UNSUPPORTED z
      else if \<not> PermProtocol then fail EFI_NOT_READY z
      else case recovery_mask Store of (Status, Mask) \<Rightarrow>
        if EFI_ERROR Status then fail Status z
        else if Mask AND Ident = 0 then fail EFI_ACCESS_DENIED z
        else case GetProvisionedCertDataAndSize None 0 Ident (au_Certs (fst z)) of (Status, CertData, CertDataSize) \<Rightarrow>
          if EFI_ERROR Status then fail Status z
          else case GetRecoveryChallenge R True (snd z) of (Status, Challenge, ChallengeSize, s1) \<Rightarrow>
            if EFI_ERROR Status then fail Status (fst z, s1)
            else case EncryptRecoveryChallenge R Challenge ChallengeSize CertData CertDataSize s1 of (Status, EData, s2) \<Rightarrow>
              if EFI_ERROR Status then fail Status (fst z, s2)
              else case AllocatePool (ie_U (re_I R)) (16 + length (the EData)) s2 of (ok, s3) \<Rightarrow>
                if \<not> ok then fail EFI_OUT_OF_RESOURCES (fst z, s3)
                else (Status, Some \<lparr>rp_Identity = Ident, rp_DataLength = length (the EData), rp_Data = the EData\<rparr>,
                  rc\<lparr>rc_Challenge := Challenge, rc_Watchdog := RECOVERY_TIMEOUT_IN_SECONDS, rc_Id := Ident\<rparr>, (fst z, s3)))"

text \<open>The end of \<open>SetRecoveryResponse\<close>: too many tries.\<close>

definition response_cleanup :: "EFI_STATUS \<Rightarrow> recovery \<Rightarrow> EFI_STATUS \<times> recovery" where
  "response_cleanup Status rc =
     (let rc = (if rc_ResponseValidationCount rc > MAX_TRIES_FOR_RECOVERY then ShutdownDueToHammering rc else rc)
      in if rc_ResponseValidationCount rc = MAX_TRIES_FOR_RECOVERY then (EFI_SECURITY_VIOLATION, rc\<lparr>rc_Watchdog := 0\<rparr>)
         else (Status, rc))"

text \<open>\<open>RecoveryResponse\<close> has \<open>Size\<close> bytes.  The status of \<open>DoDfciRecovery\<close> is not looked at.\<close>

definition SetRecoveryResponse :: "'s recovery_env \<Rightarrow> bool \<Rightarrow> bytes option \<Rightarrow> bool \<Rightarrow> recovery \<Rightarrow> perm_store option \<Rightarrow> 's sys
    \<Rightarrow> (EFI_STATUS \<times> recovery \<times> perm_store option \<times> 's sys) option" where
  "SetRecoveryResponse R This RecoveryResponse PermProtocol rc Store z =
     (let exit = (\<lambda>Status rc. case response_cleanup Status rc of (Status, rc) \<Rightarrow> Some (Status, rc, Store, z));
          again = rc\<lparr>rc_ResponseValidationCount := rc_ResponseValidationCount rc + 1\<rparr>
      in case RecoveryResponse of
        None \<Rightarrow> exit EFI_INVALID_PARAMETER rc
      | Some b \<Rightarrow>
        if \<not> This then exit EFI_INVALID_PARAMETER rc
        else if length b \<noteq> RECOVERY_RESPONSE_SIZE then exit EFI_INVALID_PARAMETER rc
        else if rc_ResponseValidationCount rc \<ge> MAX_TRIES_FOR_RECOVERY then exit EFI_SECURITY_VIOLATION again
        else case rc_Challenge rc of
          None \<Rightarrow> exit EFI_NOT_READY rc
        | Some c \<Rightarrow>
          if ch_Key c \<noteq> b then exit EFI_ACCESS_DENIED again
          else do {
            (_, rc, Store, z) \<leftarrow> DoDfciRecovery R PermProtocol rc Store z;
            (case response_cleanup EFI_SUCCESS rc of (Status, rc) \<Rightarrow> Some (Status, rc, Store, z)) })"

section \<open>What a session can do\<close>

lemma response_cleanup_simps:
  "rc_Challenge (snd (response_cleanup st rc)) = rc_Challenge rc"
  "rc_ResponseValidationCount (snd (response_cleanup st rc)) = rc_ResponseValidationCount rc"
  "rc_Id (snd (response_cleanup st rc)) = rc_Id rc"
  "rc_Shutdown (snd (response_cleanup st rc)) \<longleftrightarrow> rc_Shutdown rc \<or> rc_ResponseValidationCount rc > MAX_TRIES_FOR_RECOVERY"
  by (simp_all add: response_cleanup_def ShutdownDueToHammering_def Let_def)

lemma DoDfciRecovery_frame:
  "DoDfciRecovery R P rc Store z = Some (st, rc', Store', z') \<Longrightarrow> rc_Challenge rc' = None
    \<and> rc_ResponseValidationCount rc' = rc_ResponseValidationCount rc \<and> rc_Shutdown rc' = rc_Shutdown rc"
  by (auto simp: DoDfciRecovery_def split: prod.splits Option.bind_splits)

text \<open>Whether a call compares its answer with the secret of the running session, and whether it is right.\<close>

definition compares :: "bool \<Rightarrow> bytes option \<Rightarrow> recovery \<Rightarrow> bool" where
  "compares This b rc \<longleftrightarrow> This \<and> rc_ResponseValidationCount rc < MAX_TRIES_FOR_RECOVERY \<and> rc_Challenge rc \<noteq> None
     \<and> (case b of None \<Rightarrow> False | Some x \<Rightarrow> length x = RECOVERY_RESPONSE_SIZE)"

definition right_answer :: "bytes option \<Rightarrow> recovery \<Rightarrow> bool" where
  "right_answer b rc \<longleftrightarrow> (case rc_Challenge rc of None \<Rightarrow> False | Some c \<Rightarrow> b = Some (ch_Key c))"

lemma SetRecoveryResponse_cases:
  assumes r: "SetRecoveryResponse R This b P rc Store z = Some (st, rc', Store', z')"
  obtains (ignored) "\<not> compares This b rc" "Store' = Store" "z' = z" "rc_Challenge rc' = rc_Challenge rc"
      "rc_ResponseValidationCount rc' = rc_ResponseValidationCount rc
        \<or> rc_ResponseValidationCount rc \<ge> MAX_TRIES_FOR_RECOVERY \<and> rc_ResponseValidationCount rc' = rc_ResponseValidationCount rc + 1"
      "rc_Shutdown rc' \<longleftrightarrow> rc_Shutdown rc \<or> rc_ResponseValidationCount rc' > MAX_TRIES_FOR_RECOVERY"
  | (wrong) "compares This b rc" "\<not> right_answer b rc" "Store' = Store" "z' = z" "rc_Challenge rc' = rc_Challenge rc"
      "rc_ResponseValidationCount rc' = rc_ResponseValidationCount rc + 1"
      "rc_Shutdown rc' \<longleftrightarrow> rc_Shutdown rc \<or> rc_ResponseValidationCount rc' > MAX_TRIES_FOR_RECOVERY"
  | (right) st1 rc1 where "compares This b rc" "right_answer b rc" "DoDfciRecovery R P rc Store z = Some (st1, rc1, Store', z')"
      "(st, rc') = response_cleanup EFI_SUCCESS rc1"
proof -
  let ?again = "rc\<lparr>rc_ResponseValidationCount := rc_ResponseValidationCount rc + 1\<rparr>"
  show thesis
  proof (cases "compares This b rc")
    case False
    then obtain S rc1 where c: "response_cleanup S rc1 = (st, rc')" "Store' = Store" "z' = z"
      "rc1 = rc \<or> rc1 = ?again \<and> rc_ResponseValidationCount rc \<ge> MAX_TRIES_FOR_RECOVERY"
      using r by (auto simp: SetRecoveryResponse_def compares_def Let_def split: option.splits prod.splits if_splits)
    have "rc' = snd (response_cleanup S rc1)" by (simp add: c(1))
    with c(2-) response_cleanup_simps [of S rc1] False show thesis by (intro ignored) auto
  next
    case True
    then obtain x c where b: "b = Some x" "rc_Challenge rc = Some c" "This" "length x = RECOVERY_RESPONSE_SIZE"
      "\<not> rc_ResponseValidationCount rc \<ge> MAX_TRIES_FOR_RECOVERY"
      by (auto simp: compares_def split: option.splits)
    show thesis
    proof (cases "ch_Key c = x")
      case right_key: True
      with r b obtain st1 rc1 where "DoDfciRecovery R P rc Store z = Some (st1, rc1, Store', z')" "(st, rc') = response_cleanup EFI_SUCCESS rc1"
        by (auto simp: SetRecoveryResponse_def Let_def split: prod.splits Option.bind_splits)
      with True b right_key show thesis by (intro right) (simp_all add: right_answer_def)
    next
      case wrong_key: False
      with r b have c: "response_cleanup EFI_ACCESS_DENIED ?again = (st, rc')" "Store' = Store" "z' = z"
        by (auto simp: SetRecoveryResponse_def Let_def split: prod.splits)
      have "rc' = snd (response_cleanup EFI_ACCESS_DENIED ?again)" by (simp add: c(1))
      with c(2-) response_cleanup_simps [of EFI_ACCESS_DENIED ?again] True b wrong_key show thesis
        by (intro wrong) (simp_all add: right_answer_def)
    qed
  qed
qed

text \<open>
  Property C7: the recovery of a device has an effect on its certificates, permissions, settings or
  tokens only if the answer is the secret part of the nonce of the running session and fewer than
  three wrong answers came before; the session is then over.
\<close>

theorem recovery_needs_the_key:
  assumes r: "SetRecoveryResponse R This b P rc Store z = Some (st, rc', Store', z')" and c: "Store' \<noteq> Store \<or> z' \<noteq> z"
  shows "\<exists>c. rc_Challenge rc = Some c \<and> b = Some (ch_Key c) \<and> rc_ResponseValidationCount rc < MAX_TRIES_FOR_RECOVERY \<and> rc_Challenge rc' = None"
  using r
proof (cases rule: SetRecoveryResponse_cases)
  case (right st1 rc1)
  have "rc_Challenge rc' = None"
    using DoDfciRecovery_frame [OF right(3)] right(4) response_cleanup_simps(1) [of EFI_SUCCESS rc1] by (metis snd_conv)
  with right(1,2) show ?thesis by (auto simp: compares_def right_answer_def split: option.splits)
qed (use c in auto)

section \<open>Anti-hammering\<close>

text \<open>
  The recovery session through a boot: packets are requested and answers given until the system is
  shut down, while anything may happen to the rest of the system in between.  The number counts the
  wrong answers that were compared with the secret.
\<close>

inductive session :: "'s recovery_env \<Rightarrow> nat \<Rightarrow> recovery \<Rightarrow> bool" for R where
  start: "session R 0 initial_recovery"
| packet: "session R n rc \<Longrightarrow> \<not> rc_Shutdown rc \<Longrightarrow> GetRecoveryPacket R This i b P Store rc z = (st, p, rc', z') \<Longrightarrow> session R n rc'"
| answer: "session R n rc \<Longrightarrow> \<not> rc_Shutdown rc \<Longrightarrow> SetRecoveryResponse R This b P rc Store z = Some (st, rc', Store', z')
    \<Longrightarrow> session R (if compares This b rc \<and> \<not> right_answer b rc then n + 1 else n) rc'"

inductive_cases sessionE: "session R n rc"

lemma GetRecoveryPacket_count:
  "GetRecoveryPacket R This i b P Store rc z = (st, p, rc', z') \<Longrightarrow>
     rc_ResponseValidationCount rc' = rc_ResponseValidationCount rc \<and> rc_Shutdown rc' = rc_Shutdown rc"
  by (auto simp: GetRecoveryPacket_def Let_def split: if_splits prod.splits)

definition session_inv :: "nat \<Rightarrow> recovery \<Rightarrow> bool" where
  "session_inv n rc \<longleftrightarrow> n \<le> 3 \<and> (if rc_Shutdown rc then n = 3 \<and> rc_ResponseValidationCount rc = 4
     else rc_ResponseValidationCount rc = word_of_nat n)"

lemma small_count: "n \<le> 3 \<Longrightarrow> (word_of_nat n :: u64) < 3 \<longleftrightarrow> n < 3" "n \<le> 3 \<Longrightarrow> (word_of_nat n :: u64) \<le> 3"
  by (auto simp: word_less_nat_alt word_le_nat_alt unat_of_nat)

lemma session_inv_step:
  assumes i: "session_inv n rc" "\<not> rc_Shutdown rc" and r: "SetRecoveryResponse R This b P rc Store z = Some (st, rc', Store', z')"
  shows "session_inv (if compares This b rc \<and> \<not> right_answer b rc then n + 1 else n) rc'"
proof -
  have n: "n \<le> 3" "rc_ResponseValidationCount rc = word_of_nat n" using i by (simp_all add: session_inv_def)
  from r show ?thesis
  proof (cases rule: SetRecoveryResponse_cases)
    case ignored
    consider "rc_ResponseValidationCount rc' = word_of_nat n" | "n = 3" "rc_ResponseValidationCount rc' = 4"
      using ignored(5) n small_count(1) [OF n(1)] by (auto simp: not_less)
    then show ?thesis
      using ignored(1,6) i(2) n small_count(2) [OF n(1)] by cases (auto simp: session_inv_def not_le [symmetric])
  next
    case wrong
    have "n < 3" using wrong(1) n small_count(1) [OF n(1)] by (simp add: compares_def)
    moreover have "rc_ResponseValidationCount rc' = word_of_nat (n + 1)" using wrong(6) n(2) by simp
    ultimately show ?thesis
      using wrong(1,2,7) i(2) small_count(2) [of "n + 1"] by (auto simp: session_inv_def not_le [symmetric])
  next
    case (right st1 rc1)
    have c: "rc_ResponseValidationCount rc' = word_of_nat n" "rc_Shutdown rc' \<longleftrightarrow> (word_of_nat n :: u64) > 3"
      using DoDfciRecovery_frame [OF right(3)] right(4) response_cleanup_simps(2,4) [of EFI_SUCCESS rc1] i(2) n(2) by (metis snd_conv)+
    with right(2) n small_count(2) [OF n(1)] show ?thesis by (auto simp: session_inv_def not_le [symmetric])
  qed
qed

text \<open>
  Property C8: however often recovery packets are requested and answers given in a boot, at most three
  wrong answers are ever compared with a secret, the counter does not overflow, and the system is shut
  down exactly when a further answer is given after that.
\<close>

theorem recovery_hammering_bound:
  assumes "session R n rc"
  shows "n \<le> 3 \<and> rc_ResponseValidationCount rc \<le> 4 \<and> (rc_Shutdown rc \<longleftrightarrow> rc_ResponseValidationCount rc = 4)"
proof -
  have "session_inv n rc" using assms
  proof (induction rule: session.induct)
    case (packet n rc This i b P Store z st p rc' z')
    then show ?case using GetRecoveryPacket_count [OF packet.hyps(3)] by (simp add: session_inv_def)
  next
    case (answer n rc This b P Store z st rc' Store' z')
    then show ?case using session_inv_step [OF answer.IH answer.hyps(2,3)] by simp
  qed (simp add: session_inv_def initial_recovery_def)
  moreover have "n = 0 \<or> n = 1 \<or> n = 2 \<or> n = 3" if "n \<le> 3" using that by arith
  ultimately show ?thesis by (auto simp: session_inv_def split: if_splits)
qed

section \<open>Starting a session\<close>

lemma recovery_mask_value:
  assumes "wf_store S"
  shows "recovery_mask (Some S) = (EFI_SUCCESS, if key_mask S ID_DFCI_RECOVERY = 0 then key_mask S ID_ZTD_RECOVERY else key_mask S ID_DFCI_RECOVERY)"
  by (simp add: recovery_mask_def GetPermission_mask [OF assms])

lemma EncryptRecoveryChallenge_ok:
  assumes "EncryptRecoveryChallenge R c n k m s = (st, e, s')" "\<not> EFI_ERROR st"
  obtains c0 k0 seed e0 where "c = Some c0" "k = Some k0" "re_Pkcs1v2Encrypt R (take m k0) (take n (challenge_bytes c0)) seed = Some e0" "e = Some e0"
  using assms by (auto simp: EncryptRecoveryChallenge_def split: option.splits prod.splits if_splits) metis

text \<open>
  The documented behaviour of two libraries: the random number protocol fills the whole buffer, and
  the bounded concatenation keeps a string that fits into its buffer, with its terminator.
\<close>

definition recovery_libraries :: "'s recovery_env \<Rightarrow> bool" where
  "recovery_libraries R \<longleftrightarrow> (\<forall>k n s st b s'. re_GetRNG R k n s = (st, b, s') \<longrightarrow> \<not> EFI_ERROR st \<longrightarrow> length b = n)
     \<and> (\<forall>m sz e n. length m < sz \<longrightarrow> length (snd (re_AsciiStrnCatS R m sz e n)) < sz)"

lemma GetRandomValue_length:
  assumes "recovery_libraries R" "GetRandomValue R out n s = (st, b, s')" "\<not> EFI_ERROR st"
  shows "length b = n"
proof -
  have rng: "length b' = n'" if "re_GetRNG R k n' x = (st', b', y)" "\<not> EFI_ERROR st'" for k n' x st' b' y
    using assms(1) that unfolding recovery_libraries_def by blast
  have "try_algorithms (re_GetRNG R) ks n x = (st, b, y) \<Longrightarrow> length b = n" for ks x y
    using assms(3) by (induction ks arbitrary: x) (auto split: prod.splits if_splits intro: rng)
  then show ?thesis using assms(2,3) by (auto simp: GetRandomValue_def split: if_splits)
qed

lemma append_id_length:
  assumes "recovery_libraries R" "length (snd acc) < DFCI_MULTI_STRING_MAX_SIZE"
  shows "length (snd (append_id R Get acc s)) < DFCI_MULTI_STRING_MAX_SIZE"
  using assms by (auto simp: append_id_def recovery_libraries_def split: prod.splits)

text \<open>The size of a challenge is that of all its bytes: serial number, time, nonce and identifiers with the terminator.\<close>

lemma GetRecoveryChallenge_size:
  assumes l: "recovery_libraries R" and g: "GetRecoveryChallenge R b s = (st, Some c, n, s')"
  shows "n = length (challenge_bytes c) \<and> length (ch_Nonce c) = DFCI_RECOVERY_NONCE_SIZE"
proof -
  define ids where "ids x = append_id R (DfciIdSupportGetManufacturer (re_Ids R)) (append_id R (DfciIdSupportGetProductName (re_Ids R))
    (append_id R (DfciIdSupportGetSerialNumber (re_Ids R)) (EFI_SUCCESS, []) x) x) x" for x
  have m: "length (snd (ids x)) < DFCI_MULTI_STRING_MAX_SIZE" for x
    unfolding ids_def by (intro append_id_length [OF l]) simp
  obtain ok s1 st2 t s2 st3 nonce s3 where r: "AllocatePool (ie_U (re_I R)) (88 + DFCI_MULTI_STRING_MAX_SIZE) s = (ok, s1)"
    "GetTime (ie_U (re_I R)) s1 = (st2, t, s2)" "GetRandomValue R True DFCI_RECOVERY_NONCE_SIZE s2 = (st3, nonce, s3)" by (metis prod_cases3 surj_pair)
  have ok: "b" "ok" "\<not> EFI_ERROR st2" "\<not> EFI_ERROR st3" using g r by (auto simp: GetRecoveryChallenge_def split: if_splits)
  have c: "c = \<lparr>ch_SerialNumber = 0, ch_Timestamp = t, ch_Nonce = nonce, ch_MultiString = snd (ids s3)\<rparr>"
    "n = 88 + (if length (snd (ids s3)) < DFCI_MULTI_STRING_MAX_SIZE then length (snd (ids s3)) + 1 else DFCI_MULTI_STRING_MAX_SIZE + 1)"
    using g r ok by (auto simp: GetRecoveryChallenge_def ids_def [symmetric] case_prod_beta)
  have "length nonce = DFCI_RECOVERY_NONCE_SIZE" by (rule GetRandomValue_length [OF l r(3) ok(4)])
  with c m [of s3] show ?thesis by (simp add: challenge_bytes_def)
qed

text \<open>
  Property C35: a recovery packet is given out only for a provisioned key that the permissions name
  for recovery (for zero-touch recovery when no one may recover), only while no other session runs,
  and it is the whole new challenge, with its 64 bytes of nonce, encrypted with the certificate of that
  key.
\<close>

theorem recovery_packet_is_permitted:
  assumes S: "wf_store S" and l: "recovery_libraries R" and r: "GetRecoveryPacket R This i b P (Some S) rc z = (st, Some p, rc', z')"
  shows "rc_Challenge rc = None \<and> i AND DFCI_IDENTITY_MASK_KEYS \<noteq> 0 \<and> Provisioned (au_Certs (fst z)) AND i \<noteq> 0
    \<and> (if key_mask S ID_DFCI_RECOVERY = 0 then key_mask S ID_ZTD_RECOVERY else key_mask S ID_DFCI_RECOVERY) AND i \<noteq> 0
    \<and> (\<exists>c k cert seed. rc' = rc\<lparr>rc_Challenge := Some c, rc_Watchdog := RECOVERY_TIMEOUT_IN_SECONDS, rc_Id := i\<rparr>
        \<and> length (ch_Nonce c) = DFCI_RECOVERY_NONCE_SIZE
        \<and> DfciIdentityToCertIndex i = Some k \<and> cd_Cert (cs_Certs (au_Certs (fst z)) ! k) = Some cert
        \<and> re_Pkcs1v2Encrypt R (take (cd_CertSize (cs_Certs (au_Certs (fst z)) ! k)) cert) (challenge_bytes c) seed = Some (rp_Data p))
    \<and> rp_Identity p = i \<and> rp_DataLength p = length (rp_Data p) \<and> fst z' = fst z"
proof -
  let ?m = "if key_mask S ID_DFCI_RECOVERY = 0 then key_mask S ID_ZTD_RECOVERY else key_mask S ID_DFCI_RECOVERY"
  obtain cst cert csz gst c n s1 est e s2 ok s3 where g:
    "GetProvisionedCertDataAndSize None 0 i (au_Certs (fst z)) = (cst, cert, csz)" "\<not> EFI_ERROR cst"
    "GetRecoveryChallenge R True (snd z) = (gst, c, n, s1)" "EncryptRecoveryChallenge R c n cert csz s1 = (est, e, s2)" "\<not> EFI_ERROR est"
    "p = \<lparr>rp_Identity = i, rp_DataLength = length (the e), rp_Data = the e\<rparr>"
    "rc' = rc\<lparr>rc_Challenge := c, rc_Watchdog := RECOVERY_TIMEOUT_IN_SECONDS, rc_Id := i\<rparr>" "z' = (fst z, s3)"
    and t: "rc_Challenge rc = None" "i AND DFCI_IDENTITY_MASK_KEYS \<noteq> 0" "Provisioned (au_Certs (fst z)) AND i \<noteq> 0" "?m AND i \<noteq> 0"
    using r by (auto simp: GetRecoveryPacket_def recovery_mask_value [OF S] Let_def split: if_splits prod.splits)
  obtain k where k: "DfciIdentityToCertIndex i = Some k" "cert = cd_Cert (cs_Certs (au_Certs (fst z)) ! k)" "csz = cd_CertSize (cs_Certs (au_Certs (fst z)) ! k)"
    using g(1,2) by (auto simp: GetProvisionedCertDataAndSize_def split: if_splits option.splits)
  obtain c0 k0 seed e0 where e: "c = Some c0" "cert = Some k0"
    "re_Pkcs1v2Encrypt R (take csz k0) (take n (challenge_bytes c0)) seed = Some e0" "e = Some e0"
    by (rule EncryptRecoveryChallenge_ok [OF g(4,5)])
  have n: "n = length (challenge_bytes c0)" "length (ch_Nonce c0) = DFCI_RECOVERY_NONCE_SIZE"
    using GetRecoveryChallenge_size [OF l, of True "snd z" gst c0 n s1] g(3) e(1) by simp_all
  then have "re_Pkcs1v2Encrypt R (take (cd_CertSize (cs_Certs (au_Certs (fst z)) ! k)) k0) (challenge_bytes c0) seed = Some (rp_Data p)"
    using e(3,4) g(6) k(3) by simp
  moreover have "cd_Cert (cs_Certs (au_Certs (fst z)) ! k) = Some k0" using k(2) e(2) by simp
  ultimately show ?thesis using g(6-8) k(1) t e(1,4) n(2) by auto
qed

section \<open>The end of a session\<close>

text \<open>
  The right answer is always reported as success, even when clearing DFCI failed and the
  certificates and permissions are still in place.
\<close>

theorem recovery_reports_success:
  assumes c: "compares True b rc" "right_answer b rc" and d: "DoDfciRecovery R P rc Store z = Some (st, rc1, Store', z')"
  shows "\<exists>rc'. SetRecoveryResponse R True b P rc Store z = Some (EFI_SUCCESS, rc', Store', z')"
proof -
  obtain x where b: "b = Some x" "rc_Challenge rc \<noteq> None" "length x = RECOVERY_RESPONSE_SIZE" "rc_ResponseValidationCount rc < MAX_TRIES_FOR_RECOVERY"
    using c(1) by (auto simp: compares_def split: option.splits)
  have "rc_ResponseValidationCount rc1 \<noteq> MAX_TRIES_FOR_RECOVERY" using DoDfciRecovery_frame [OF d] b(4) by auto
  then have "fst (response_cleanup EFI_SUCCESS rc1) = EFI_SUCCESS" by (simp add: response_cleanup_def Let_def ShutdownDueToHammering_def)
  then show ?thesis
    using b c(2) d by (auto simp: SetRecoveryResponse_def right_answer_def Let_def not_le split: option.splits prod.splits)
qed

text \<open>When clearing succeeds, only the zero-touch certificate is left and no token of a key is valid.\<close>

lemma DoDfciRecovery_clears:
  assumes p: "providers_apart (ie_Providers (re_I R))" and i: "identity_inv (fst z)"
    and d: "DoDfciRecovery R P rc Store z = Some (st, rc', Store', z')" "\<not> EFI_ERROR st"
  shows "identity_inv (fst z') \<and> cs_Certs (au_Certs (fst z')) = [no_cert, no_cert, no_cert, no_cert, cs_Certs (au_Certs (fst z)) ! 4, no_cert, no_cert]
    \<and> (\<forall>e \<in> set (au_Map (fst z')). ae_Identity e AND DFCI_IDENTITY_MASK_KEYS = 0)"
proof -
  obtain u a1 s1 where t: "CreateAuthTokenWithMapping (ie_U (re_I R)) (ie_E (re_I R)) (rc_Id rc) (fst z) (snd z) = (u, a1, s1)" by (metis prod_cases3)
  have w: "wf_map (au_Map (fst z))" using i by (simp add: identity_inv_def)
  have "au_Certs a1 = au_Certs (fst z)" "identity_inv (fst (a1, s1))"
    using CreateAuthTokenWithMapping_ok [OF w t] i by (simp_all add: identity_inv_def)
  moreover have "ClearDFCI (re_I R) P u Store (a1, s1) = Some (st, Store', z')"
    using d(1) t by (auto simp: DoDfciRecovery_def split: Option.bind_splits)
  ultimately show ?thesis using ClearDFCI_spec [OF p, of "(a1, s1)" P u Store st Store' z'] d(2) by auto
qed

section \<open>Concrete instances\<close>

definition demo_recovery :: "EFI_STATUS \<Rightarrow> demo_state recovery_env" where
  "demo_recovery access = \<lparr>re_I = demo_identity\<lparr>ie_SettingsAccess := access\<rparr>,
     re_Ids = \<lparr>DfciIdSupportGetManufacturer = \<lambda>_. (EFI_SUCCESS, [65, 0]), DfciIdSupportGetProductName = \<lambda>_. (EFI_SUCCESS, [66, 0]),
       DfciIdSupportGetSerialNumber = \<lambda>_. (EFI_SUCCESS, [67, 0])\<rparr>,
     re_LocateRng = (\<lambda>s. EFI_SUCCESS), re_GetRNG = (\<lambda>k n s. if k = 0 then (EFI_UNSUPPORTED, [], s) else (EFI_SUCCESS, replicate n 7, s)),
     re_AsciiStrnCatS = (\<lambda>d m e n. if length d + length e \<le> m then (EFI_SUCCESS, d @ butlast e) else (EFI_BUFFER_TOO_SMALL, d)), re_Pkcs1v2Encrypt = (\<lambda>k p r. Some p)\<rparr>"

abbreviation (input) demo_system where "demo_system \<equiv> (example_auth_state, example_state)"

definition demo_session :: recovery where
  "demo_session = (case GetRecoveryPacket (demo_recovery EFI_SUCCESS) True 0x80 True True (Some key_store) initial_recovery demo_system of
     (st, p, rc, z) \<Rightarrow> rc)"

lemma demo_packet: "map_option rp_Identity (fst (snd (GetRecoveryPacket (demo_recovery EFI_SUCCESS) True 0x80 True True (Some key_store)
    initial_recovery demo_system))) = Some 0x80"
  by code_simp

lemma demo_libraries: "recovery_libraries (demo_recovery x)"
  by (auto simp: recovery_libraries_def demo_recovery_def)

theorem recovery_packet_is_permitted_witness:
  "\<exists>st p rc' z' c. GetRecoveryPacket (demo_recovery EFI_SUCCESS) True 0x80 True True (Some key_store) initial_recovery demo_system = (st, Some p, rc', z')
     \<and> key_mask key_store ID_DFCI_RECOVERY AND 0x80 \<noteq> 0 \<and> rp_Identity p = 0x80 \<and> rc_Challenge rc' = Some c \<and> length (ch_Nonce c) = 64"
proof -
  obtain st p rc' z' where r: "GetRecoveryPacket (demo_recovery EFI_SUCCESS) True 0x80 True True (Some key_store) initial_recovery demo_system = (st, Some p, rc', z')"
    using demo_packet by (cases "GetRecoveryPacket (demo_recovery EFI_SUCCESS) True 0x80 True True (Some key_store) initial_recovery demo_system") auto
  have "key_mask key_store ID_DFCI_RECOVERY = 0x80" by code_simp
  with recovery_packet_is_permitted [OF key_store_wf demo_libraries r] r show ?thesis by auto
qed

theorem recovery_needs_the_key_witness:
  "\<exists>rc' Store' z'. SetRecoveryResponse (demo_recovery EFI_SUCCESS) True (Some (replicate 10 7)) True demo_session (Some key_store) demo_system
     = Some (EFI_SUCCESS, rc', Store', z') \<and> (\<exists>c. rc_Challenge demo_session = Some c \<and> replicate 10 7 = ch_Key c \<and> rc_Challenge rc' = None)"
proof -
  have "map_option (\<lambda>(st, rc', Store', z'). (st, cs_Certs (au_Certs (fst z')) ! 3)) (SetRecoveryResponse (demo_recovery EFI_SUCCESS) True
      (Some (replicate 10 7)) True demo_session (Some key_store) demo_system) = Some (EFI_SUCCESS, no_cert)"
    by code_simp
  then obtain rc' Store' z' where r: "SetRecoveryResponse (demo_recovery EFI_SUCCESS) True (Some (replicate 10 7)) True demo_session (Some key_store) demo_system
      = Some (EFI_SUCCESS, rc', Store', z')" "cs_Certs (au_Certs (fst z')) ! 3 = no_cert" by auto
  have "cs_Certs example_certs ! 3 \<noteq> no_cert" by code_simp
  then have "z' \<noteq> demo_system" using r(2) by (auto simp: example_auth_state_def)
  with recovery_needs_the_key [OF r(1)] r(1) show ?thesis by auto
qed

theorem recovery_hammering_bound_witness:
  "\<exists>rc. session (demo_recovery EFI_SUCCESS) 1 rc \<and> \<not> rc_Shutdown rc \<and> rc_ResponseValidationCount rc \<le> 4"
proof -
  obtain st p rc' z' where g: "GetRecoveryPacket (demo_recovery EFI_SUCCESS) True 0x80 True True (Some key_store) initial_recovery demo_system = (st, p, rc', z')"
    by (metis prod_cases4)
  have "\<not> rc_Shutdown initial_recovery" by (simp add: initial_recovery_def)
  from session.packet [OF session.start this g] have s: "session (demo_recovery EFI_SUCCESS) 0 demo_session" by (simp add: demo_session_def g)
  have "map_option (\<lambda>(st, rc', x). rc_ResponseValidationCount rc') (SetRecoveryResponse (demo_recovery EFI_SUCCESS) True (Some (replicate 10 8)) True
      demo_session (Some key_store) demo_system) = Some 1" by code_simp
  then obtain st rc' Store' z' where a: "SetRecoveryResponse (demo_recovery EFI_SUCCESS) True (Some (replicate 10 8)) True demo_session (Some key_store) demo_system
      = Some (st, rc', Store', z')" "rc_ResponseValidationCount rc' = 1" by (auto split: prod.splits)
  have c: "compares True (Some (replicate 10 8)) demo_session" "\<not> right_answer (Some (replicate 10 8)) demo_session" "\<not> rc_Shutdown demo_session"
    by code_simp+
  have n: "session (demo_recovery EFI_SUCCESS) 1 rc'" using session.answer [OF s c(3) a(1)] c(1,2) by simp
  from recovery_hammering_bound [OF n] n a(2) show ?thesis by auto
qed

theorem recovery_reports_success_witness:
  "\<exists>rc' Store' z'. SetRecoveryResponse (demo_recovery EFI_NOT_FOUND) True (Some (replicate 10 7)) True demo_session (Some key_store) demo_system
     = Some (EFI_SUCCESS, rc', Store', z') \<and> cs_Certs (au_Certs (fst z')) = cs_Certs example_certs"
proof -
  have "map_option (\<lambda>(st, rc', Store', z'). (st, cs_Certs (au_Certs (fst z')))) (DoDfciRecovery (demo_recovery EFI_NOT_FOUND) True demo_session (Some key_store) demo_system)
      = Some (EFI_NOT_FOUND, cs_Certs example_certs)" by code_simp
  then obtain rc1 Store' z' where d: "DoDfciRecovery (demo_recovery EFI_NOT_FOUND) True demo_session (Some key_store) demo_system = Some (EFI_NOT_FOUND, rc1, Store', z')"
    "cs_Certs (au_Certs (fst z')) = cs_Certs example_certs" by auto
  have c: "compares True (Some (replicate 10 7)) demo_session" "right_answer (Some (replicate 10 7)) demo_session" by code_simp+
  from recovery_reports_success [OF c d(1)] d(2) show ?thesis by blast
qed

end
