(* ===== verification/Cert_Info.thy ===== *)
theory Cert_Info
  imports Identity_Current
begin

text \<open>
  What a certificate says about itself: the names and thumbprints of \<open>CertSupport.c\<close>, the
  operation \<open>GetCertInfo\<close> of the authentication protocol (\<open>AuthManagerProvisionedData.c\<close>) and the
  texts of the enrolment dialog (\<open>UiSupport.c\<close>).  The X.509 parser of the crypto library and the
  wide-character print function are the record \<open>cert_lib\<close>.

  The theory shows that a subject is cut to the limit with a mark, what happens to long issuer
  names, and that the dialog shows the thumbprint without exactly the two digits the user is asked for.
\<close>

section \<open>Services\<close>

text \<open>
  \<open>cl_CommonNameSize\<close> and \<open>cl_OrganizationNameSize\<close> are the calls without a buffer: status and size;
  \<open>cl_CommonName\<close> and \<open>cl_OrganizationName\<close> the calls with a buffer of the given size: status, size and
  the contents of the buffer afterwards.
\<close>

record cert_lib =
  cl_Sha1 :: sha1_lib
  cl_CommonNameSize :: "bytes \<Rightarrow> EFI_STATUS \<times> nat"
  cl_CommonName :: "bytes \<Rightarrow> nat \<Rightarrow> EFI_STATUS \<times> nat \<times> bytes"
  cl_OrganizationNameSize :: "bytes \<Rightarrow> EFI_STATUS \<times> nat"
  cl_OrganizationName :: "bytes \<Rightarrow> nat \<Rightarrow> EFI_STATUS \<times> nat \<times> bytes"
  cl_UnicodeValueToStringS :: "nat \<Rightarrow> u64 \<Rightarrow> nat \<Rightarrow> EFI_STATUS \<times> string"

text \<open>Writing into a buffer; outside of it the behaviour is undefined.\<close>

definition wr :: "bytes \<Rightarrow> nat \<Rightarrow> bytes \<Rightarrow> bytes option" where
  "wr bs off d = (if off + length d \<le> length bs then Some (take off bs @ d @ drop (off + length d) bs) else None)"

text \<open>The string at the start of a buffer; a buffer without a NUL is read past its end.\<close>

definition buf_string :: "bytes \<Rightarrow> string option" where
  "buf_string bs = (if 0 \<in> set bs then scan_cstr (length bs) bs else None)"

text \<open>
  \<open>AsciiStrToUnicodeStrS\<close>, \<open>StrCatS\<close> and \<open>StrnCatS\<close> of the base library, with a limit in characters:
  when the result and its NUL do not fit the destination is left as it was.
\<close>

definition AsciiStrToUnicodeStrS :: "string \<Rightarrow> nat \<Rightarrow> EFI_STATUS \<times> string option" where
  "AsciiStrToUnicodeStrS Source DestMax =
     (if DestMax = 0 then (EFI_INVALID_PARAMETER, None)
      else if length Source < DestMax then (EFI_SUCCESS, Some Source) else (EFI_BUFFER_TOO_SMALL, None))"

definition StrCatS :: "nat \<Rightarrow> string \<Rightarrow> string \<Rightarrow> string" where
  "StrCatS DestMax Source Dest = (if length Dest + length Source < DestMax then Dest @ Source else Dest)"

definition StrnCatS :: "nat \<Rightarrow> nat \<Rightarrow> string \<Rightarrow> string \<Rightarrow> string" where
  "StrnCatS DestMax n Source Dest = StrCatS DestMax (take n Source) Dest"

section \<open>Names\<close>

abbreviation (input) MAX_SUBJECT_ISSUER_LENGTH :: nat where "MAX_SUBJECT_ISSUER_LENGTH \<equiv> 300"
abbreviation (input) CERT_STRING_SIZE :: nat where "CERT_STRING_SIZE \<equiv> 80"
definition MORE_INDICATOR :: string where "MORE_INDICATOR = ''...''"

text \<open>
  The common part of the two narrow names: the query of the size, the buffer and the read.  On
  success the result is the size and the buffer; \<open>Inl\<close> is an early return, which leaves the caller's
  pointer alone.
\<close>

definition read_name :: "'s platform \<Rightarrow> (bytes \<Rightarrow> EFI_STATUS \<times> nat) \<Rightarrow> (bytes \<Rightarrow> nat \<Rightarrow> EFI_STATUS \<times> nat \<times> bytes)
    \<Rightarrow> bytes option \<Rightarrow> nat \<Rightarrow> nat \<Rightarrow> 's \<Rightarrow> (EFI_STATUS + EFI_STATUS \<times> nat \<times> bytes) option \<times> 's" where
  "read_name U query read TrustedCert CertLength MaxStringLength s = (case TrustedCert of
     None \<Rightarrow> (Some (Inl EFI_UNSUPPORTED), s)
   | Some cert \<Rightarrow>
       if CertLength = 0 \<or> MaxStringLength = 0 \<or> MaxStringLength > MAX_SUBJECT_ISSUER_LENGTH
       then (Some (Inl EFI_UNSUPPORTED), s)
       else case rd cert 0 CertLength of None \<Rightarrow> (None, s)
       | Some c \<Rightarrow> (case query c of (Status, AsciiNameSize) \<Rightarrow>
           if Status \<noteq> EFI_BUFFER_TOO_SMALL then (Some (Inl Status), s)
           else case AllocatePool U AsciiNameSize s of (ok, s1) \<Rightarrow>
             if \<not> ok then (Some (Inl EFI_OUT_OF_RESOURCES), s1)
             else case read c AsciiNameSize of (Status, AsciiNameSize, AsciiName) \<Rightarrow>
               (Some (if EFI_ERROR Status then Inl Status else Inr (Status, AsciiNameSize, AsciiName)), s1)))"

text \<open>
  \<open>Value\<close> and \<open>ValueSize\<close> are a pair, \<open>None\<close> when the code does not store them.  The position of the mark
  is an unsigned subtraction.
\<close>

definition GetSubjectName8 :: "'s platform \<Rightarrow> cert_lib \<Rightarrow> bytes option \<Rightarrow> nat \<Rightarrow> nat \<Rightarrow> 's
    \<Rightarrow> (EFI_STATUS \<times> (bytes \<times> nat) option \<times> 's) option" where
  "GetSubjectName8 U L TrustedCert CertLength MaxStringLength s =
     (case read_name U (cl_CommonNameSize L) (cl_CommonName L) TrustedCert CertLength MaxStringLength s of (r, s1) \<Rightarrow> do {
        r \<leftarrow> r;
        (case r of Inl Status \<Rightarrow> Some (Status, None, s1)
         | Inr (Status, AsciiNameSize, AsciiName) \<Rightarrow>
             if AsciiNameSize > MaxStringLength + 1 then do {
               AsciiName \<leftarrow> wr AsciiName (uintn_sub MaxStringLength 3) (to_bytes MORE_INDICATOR @ [0]);
               Some (Status, Some (AsciiName, MaxStringLength + 1), s1) }
             else Some (Status, Some (AsciiName, AsciiNameSize), s1)) })"

definition GetIssuerName8 :: "'s platform \<Rightarrow> cert_lib \<Rightarrow> bytes option \<Rightarrow> nat \<Rightarrow> nat \<Rightarrow> 's
    \<Rightarrow> (EFI_STATUS \<times> (bytes \<times> nat) option \<times> 's) option" where
  "GetIssuerName8 U L TrustedCert CertLength MaxStringLength s =
     (case read_name U (cl_OrganizationNameSize L) (cl_OrganizationName L) TrustedCert CertLength MaxStringLength s of (r, s1) \<Rightarrow> do {
        r \<leftarrow> r;
        (case r of Inl Status \<Rightarrow> Some (Status, None, s1)
         | Inr (Status, AsciiNameSize, AsciiName) \<Rightarrow>
             if AsciiNameSize \<ge> MaxStringLength then do {
               AsciiName \<leftarrow> wr AsciiName MaxStringLength [0];
               Some (Status, Some (AsciiName, MaxStringLength), s1) }
             else Some (Status, Some (AsciiName, AsciiNameSize), s1)) })"

text \<open>
  The wide versions.  A wide buffer whose contents were never written is \<open>None\<close>.  The narrow version
  reports success without a value only if the size query does; its pointer is then NULL and the
  size is not set.
\<close>

definition GetSubjectName16 :: "'s platform \<Rightarrow> cert_lib \<Rightarrow> bytes option \<Rightarrow> nat \<Rightarrow> nat \<Rightarrow> 's
    \<Rightarrow> (EFI_STATUS \<times> (string option \<times> nat) option \<times> 's) option" where
  "GetSubjectName16 U L TrustedCert CertLength MaxStringLength s =
     (if TrustedCert = None \<or> CertLength = 0 \<or> MaxStringLength = 0 \<or> MaxStringLength > MAX_SUBJECT_ISSUER_LENGTH
      then Some (EFI_INVALID_PARAMETER, None, s)
      else do {
        (Status, v, s1) \<leftarrow> GetSubjectName8 U L TrustedCert CertLength MaxStringLength s;
        if EFI_ERROR Status then Some (Status, None, s1)
        else do {
          (AsciiName, AsciiNameSize) \<leftarrow> v;
          (case AllocatePool U (AsciiNameSize * 2) s1 of (ok, s2) \<Rightarrow>
             if \<not> ok then Some (EFI_OUT_OF_RESOURCES, None, s2)
             else do {
               Source \<leftarrow> buf_string AsciiName;
               (case AsciiStrToUnicodeStrS Source AsciiNameSize of (Status, NameBuffer) \<Rightarrow>
                  Some (Status, if EFI_ERROR Status then None else Some (NameBuffer, AsciiNameSize * 2), s2)) }) } })"

definition GetIssuerName16 :: "'s platform \<Rightarrow> cert_lib \<Rightarrow> bytes option \<Rightarrow> nat \<Rightarrow> nat \<Rightarrow> 's
    \<Rightarrow> (EFI_STATUS \<times> (string option \<times> nat) option \<times> 's) option" where
  "GetIssuerName16 U L TrustedCert CertLength MaxStringLength s =
     (if TrustedCert = None \<or> CertLength = 0 \<or> MaxStringLength = 0 \<or> MaxStringLength > MAX_SUBJECT_ISSUER_LENGTH
      then Some (EFI_INVALID_PARAMETER, None, s)
      else do {
        (Status, v, s1) \<leftarrow> GetIssuerName8 U L TrustedCert CertLength MaxStringLength s;
        if EFI_ERROR Status then Some (Status, None, s1)
        else do {
          (AsciiName, AsciiNameSize) \<leftarrow> v;
          (case AllocatePool U (AsciiNameSize * 2) s1 of (ok, s2) \<Rightarrow>
             if \<not> ok then Some (EFI_OUT_OF_RESOURCES, None, s2)
             else do {
               Source \<leftarrow> buf_string AsciiName;
               Some (Status, Some (snd (AsciiStrToUnicodeStrS Source AsciiNameSize), AsciiNameSize * 2), s2) }) } })"

section \<open>Thumbprints\<close>

fun hex_loop16 :: "cert_lib \<Rightarrow> nat \<Rightarrow> bool \<Rightarrow> nat \<Rightarrow> bytes \<Rightarrow> EFI_STATUS \<Rightarrow> string \<Rightarrow> EFI_STATUS \<times> string" where
  "hex_loop16 L FormatSize UiFormat i [] Status Temp = (Status, Temp)"
| "hex_loop16 L FormatSize UiFormat i (b # bs) Status Temp =
     (let Temp = (if UiFormat \<and> i \<noteq> 0 then Temp @ '' '' else Temp) in
      case cl_UnicodeValueToStringS L ((FormatSize + 1) * 2) (ucast b) 2 of (Status, t) \<Rightarrow>
        if EFI_ERROR Status then (Status, Temp)
        else hex_loop16 L FormatSize UiFormat (i + 1) bs Status (Temp @ t))"

definition GetSha1Thumbprint16 :: "'s platform \<Rightarrow> cert_lib \<Rightarrow> bytes option \<Rightarrow> nat \<Rightarrow> bool \<Rightarrow> 's
    \<Rightarrow> (EFI_STATUS \<times> (string \<times> nat) option \<times> 's) option" where
  "GetSha1Thumbprint16 U L TrustedCert CertSize UiFormat s = do {
     (Status, CertDigest, s1) \<leftarrow> GetSha1Thumbprint U (cl_Sha1 L) TrustedCert CertSize s;
     if EFI_ERROR Status then Some (Status, None, s1)
     else let FormatSize = (if UiFormat then 3 else 2); ResultSize = (length CertDigest * FormatSize + 1) * 2 in
       case AllocatePool U ResultSize s1 of (ok, s2) \<Rightarrow>
         if \<not> ok then Some (EFI_OUT_OF_RESOURCES, None, s2)
         else case hex_loop16 L FormatSize UiFormat 0 CertDigest EFI_INVALID_PARAMETER [] of (Status, Result) \<Rightarrow>
           Some (Status, if EFI_ERROR Status then None else Some (Result, ResultSize), s2) }"

section \<open>The operation of the authentication protocol\<close>

datatype cert_request = DFCI_CERT_SUBJECT | DFCI_CERT_ISSUER | DFCI_CERT_THUMBPRINT | DFCI_CERT_REQUEST_MAX

datatype cert_format = DFCI_CERT_FORMAT_CHAR8 | DFCI_CERT_FORMAT_CHAR16 | DFCI_CERT_FORMAT_BINARY
  | DFCI_CERT_FORMAT_CHAR8_UI | DFCI_CERT_FORMAT_CHAR16_UI | DFCI_CERT_FORMAT_MAX

text \<open>The buffer \<open>GetCertInfo\<close> returns: narrow characters, wide characters (\<open>None\<close>: never written) or a digest.\<close>

datatype cert_value = Char8 bytes | Char16 "string option" | Digest bytes

definition thumbprint8 :: "'s platform \<Rightarrow> cert_lib \<Rightarrow> bytes option \<Rightarrow> nat \<Rightarrow> bool \<Rightarrow> 's
    \<Rightarrow> (EFI_STATUS \<times> (cert_value \<times> nat) option \<times> 's) option" where
  "thumbprint8 U L Cert CertSize UiFormat s = do {
     (Status, Result, s1) \<leftarrow> GetSha1Thumbprint8 U (cl_Sha1 L) Cert CertSize UiFormat [] s;
     Some (Status, if EFI_ERROR Status then None
       else Some (Char8 (to_bytes Result @ [0]), 20 * (if UiFormat then 3 else 2) + 1), s1) }"

definition GetCertInfo :: "'s platform \<Rightarrow> cert_lib \<Rightarrow> cert_store \<Rightarrow> u8 \<Rightarrow> bytes option \<Rightarrow> nat \<Rightarrow> cert_request \<Rightarrow> cert_format \<Rightarrow> 's
    \<Rightarrow> (EFI_STATUS \<times> (cert_value \<times> nat) option \<times> 's) option" where
  "GetCertInfo U L C Identity Cert CertSize CertRequest CertFormat s =
     (if CertRequest = DFCI_CERT_REQUEST_MAX \<or> CertFormat = DFCI_CERT_FORMAT_MAX then Some (EFI_INVALID_PARAMETER, None, s)
      else case (if Cert = None then GetProvisionedCertDataAndSize None 0 Identity C else (EFI_SUCCESS, Cert, CertSize))
        of (Status, Cert, CertSize) \<Rightarrow>
        if EFI_ERROR Status then Some (Status, None, s)
        else case (CertRequest, CertFormat) of
          (DFCI_CERT_SUBJECT, DFCI_CERT_FORMAT_CHAR8) \<Rightarrow>
            map_option (\<lambda>(st, v, s). (st, map_option (apfst Char8) v, s)) (GetSubjectName8 U L Cert CertSize CERT_STRING_SIZE s)
        | (DFCI_CERT_SUBJECT, DFCI_CERT_FORMAT_CHAR16) \<Rightarrow>
            map_option (\<lambda>(st, v, s). (st, map_option (apfst Char16) v, s)) (GetSubjectName16 U L Cert CertSize CERT_STRING_SIZE s)
        | (DFCI_CERT_ISSUER, DFCI_CERT_FORMAT_CHAR8) \<Rightarrow>
            map_option (\<lambda>(st, v, s). (st, map_option (apfst Char8) v, s)) (GetIssuerName8 U L Cert CertSize CERT_STRING_SIZE s)
        | (DFCI_CERT_ISSUER, DFCI_CERT_FORMAT_CHAR16) \<Rightarrow>
            map_option (\<lambda>(st, v, s). (st, map_option (apfst Char16) v, s)) (GetIssuerName16 U L Cert CertSize CERT_STRING_SIZE s)
        | (DFCI_CERT_THUMBPRINT, DFCI_CERT_FORMAT_CHAR8_UI) \<Rightarrow> thumbprint8 U L Cert CertSize True s
        | (DFCI_CERT_THUMBPRINT, DFCI_CERT_FORMAT_CHAR8) \<Rightarrow> thumbprint8 U L Cert CertSize False s
        | (DFCI_CERT_THUMBPRINT, DFCI_CERT_FORMAT_CHAR16_UI) \<Rightarrow>
            map_option (\<lambda>(st, v, s). (st, map_option (apfst (Char16 \<circ> Some)) v, s)) (GetSha1Thumbprint16 U L Cert CertSize True s)
        | (DFCI_CERT_THUMBPRINT, DFCI_CERT_FORMAT_CHAR16) \<Rightarrow>
            map_option (\<lambda>(st, v, s). (st, map_option (apfst (Char16 \<circ> Some)) v, s)) (GetSha1Thumbprint16 U L Cert CertSize False s)
        | (DFCI_CERT_THUMBPRINT, DFCI_CERT_FORMAT_BINARY) \<Rightarrow> do {
            (Status, CertDigest, s1) \<leftarrow> GetSha1Thumbprint U (cl_Sha1 L) Cert CertSize s;
            if EFI_ERROR Status then Some (Status, None, s1)
            else case AllocatePool U 20 s1 of (ok, s2) \<Rightarrow>
              Some (if ok then (Status, Some (Digest CertDigest, 20), s2) else (EFI_OUT_OF_RESOURCES, None, s2)) }
        | _ \<Rightarrow> Some (EFI_UNSUPPORTED, None, s))"

section \<open>The enrolment dialog\<close>

abbreviation (input) CERT_DETAILS_MAX_STRING_LEN :: nat where "CERT_DETAILS_MAX_STRING_LEN \<equiv> 1024"

text \<open>
  The wide string a call returns.  On success without a value, or with a value that was never
  written, the code reads indeterminate memory; the code's test for a NULL field never holds.
\<close>

definition wide_field :: "(cert_value \<times> nat) option \<Rightarrow> string option" where
  "wide_field v = (case v of Some (Char16 t, _) \<Rightarrow> t | _ \<Rightarrow> None)"

text \<open>The part of the text for one request, \<open>Inl\<close> when the call fails and the text is returned as it is.\<close>

definition append_field :: "'s platform \<Rightarrow> cert_lib \<Rightarrow> cert_store \<Rightarrow> bytes option \<Rightarrow> nat \<Rightarrow> cert_request \<Rightarrow> cert_format
    \<Rightarrow> string \<Rightarrow> (string \<Rightarrow> string \<Rightarrow> string) \<Rightarrow> string \<Rightarrow> 's \<Rightarrow> ((string + string) \<times> 's) option" where
  "append_field U L C TrustedCert TrustedCertSize req fmt label add StringToPrint s = do {
     (Status, v, s1) \<leftarrow> GetCertInfo U L C 0 TrustedCert TrustedCertSize req fmt s;
     if EFI_ERROR Status then Some (Inl StringToPrint, s1)
     else do {
       Field \<leftarrow> wide_field v;
       Some (Inr (StrCatS CERT_DETAILS_MAX_STRING_LEN [CHR 0x0A]
         (add Field (StrCatS CERT_DETAILS_MAX_STRING_LEN label StringToPrint))), s1) } }"

definition QueryCertificateDetails :: "'s platform \<Rightarrow> cert_lib \<Rightarrow> cert_store \<Rightarrow> bytes option \<Rightarrow> nat \<Rightarrow> 's
    \<Rightarrow> (string option \<times> 's) option" where
  "QueryCertificateDetails U L C TrustedCert TrustedCertSize s =
     (if TrustedCert = None then Some (None, s)
      else case AllocatePool U (2 * CERT_DETAILS_MAX_STRING_LEN) s of (ok, s1) \<Rightarrow>
        if \<not> ok then Some (None, s1)
        else do {
          (r, s2) \<leftarrow> append_field U L C TrustedCert TrustedCertSize DFCI_CERT_SUBJECT DFCI_CERT_FORMAT_CHAR16
            ''Subject:           '' (StrCatS CERT_DETAILS_MAX_STRING_LEN) [] s1;
          (case r of Inl t \<Rightarrow> Some (Some t, s2) | Inr t \<Rightarrow> do {
          (r, s3) \<leftarrow> append_field U L C TrustedCert TrustedCertSize DFCI_CERT_ISSUER DFCI_CERT_FORMAT_CHAR16
            ''Issuer:              '' (StrCatS CERT_DETAILS_MAX_STRING_LEN) t s2;
          (case r of Inl t \<Rightarrow> Some (Some t, s3) | Inr t \<Rightarrow> do {
          (r, s4) \<leftarrow> append_field U L C TrustedCert TrustedCertSize DFCI_CERT_THUMBPRINT DFCI_CERT_FORMAT_CHAR16_UI
            ''Thumbprint:      '' (\<lambda>Field t. StrCatS CERT_DETAILS_MAX_STRING_LEN ''    ''
                (StrnCatS CERT_DETAILS_MAX_STRING_LEN 56 Field t)) t s3;
          Some (Some (case r of Inl t \<Rightarrow> t | Inr t \<Rightarrow> t), s4) }) }) })"

text \<open>
  The two digits \<open>UiEnrollRequest\<close> asks for; \<open>None\<close> as the code when it is left uninitialised.
\<close>

abbreviation (input) SHA1_FINGERPRINT_DIGEST_STRING_SIZE_UI :: nat where "SHA1_FINGERPRINT_DIGEST_STRING_SIZE_UI \<equiv> 59"

definition thumbprint_code :: "'s platform \<Rightarrow> cert_lib \<Rightarrow> cert_store \<Rightarrow> bytes option \<Rightarrow> nat \<Rightarrow> 's \<Rightarrow> (string option \<times> 's) option" where
  "thumbprint_code U L C TrustedCert TrustedCertSize s = do {
     (Status, v, s1) \<leftarrow> GetCertInfo U L C 0 TrustedCert TrustedCertSize DFCI_CERT_THUMBPRINT DFCI_CERT_FORMAT_CHAR16_UI s;
     Some (case v of
         Some (Char16 (Some t), _) \<Rightarrow> if length t = SHA1_FINGERPRINT_DIGEST_STRING_SIZE_UI then Some (drop (length t - 2) t) else None
       | _ \<Rightarrow> None, s1) }"

section \<open>What the parser promises\<close>

text \<open>The certificate \<open>c\<close> has the name \<open>n\<close>: the size counts the NUL, and the read fills the buffer with the name.\<close>

definition has_name :: "(bytes \<Rightarrow> EFI_STATUS \<times> nat) \<Rightarrow> (bytes \<Rightarrow> nat \<Rightarrow> EFI_STATUS \<times> nat \<times> bytes) \<Rightarrow> bytes \<Rightarrow> string \<Rightarrow> bool" where
  "has_name query read c n \<longleftrightarrow> cstring n \<and> query c = (EFI_BUFFER_TOO_SMALL, length n + 1)
     \<and> read c (length n + 1) = (EFI_SUCCESS, length n + 1, to_bytes n @ [0])"

text \<open>A byte prints as two characters, and the digest has twenty bytes.\<close>

definition prints_two_digits :: "cert_lib \<Rightarrow> (byte \<Rightarrow> string) \<Rightarrow> bool" where
  "prints_two_digits L h \<longleftrightarrow> (\<forall>k b. cl_UnicodeValueToStringS L k (ucast b) 2 = (EFI_SUCCESS, h b) \<and> length (h b) = 2)"

definition ui_hex :: "(byte \<Rightarrow> string) \<Rightarrow> bytes \<Rightarrow> string" where
  "ui_hex h d = (case d of [] \<Rightarrow> [] | b # bs \<Rightarrow> h b @ concat (map (\<lambda>b. '' '' @ h b) bs))"

lemma wr_append: "length xs = off \<Longrightarrow> length d = length ys \<Longrightarrow> wr (xs @ ys @ zs) off d = Some (xs @ d @ zs)"
  by (simp add: wr_def)

lemma wr_outside: "off + length d > length bs \<Longrightarrow> wr bs off d = None"
  by (simp add: wr_def)

lemma buf_string_to_bytes: "cstring n \<Longrightarrow> buf_string (to_bytes n @ 0 # rest) = Some n"
  by (simp add: buf_string_def scan_cstr_to_bytes)

lemma cstring_take: "cstring n \<Longrightarrow> cstring (take k n)"
  by (auto simp: cstring_def dest: in_set_takeD)

lemma to_bytes_append: "to_bytes (a @ b) = to_bytes a @ to_bytes b"
  by (simp add: to_bytes_def)

lemma to_bytes_split: "k \<le> length n \<Longrightarrow> to_bytes n = to_bytes (take k n) @ to_bytes (drop k n)"
  by (simp flip: to_bytes_append)

lemma rd_whole: "rd c 0 (length c) = Some c"
  by (simp add: rd_def)

lemma read_name_ok:
  assumes "has_name query read c n" "c \<noteq> []" "alloc_succeeds U" "0 < m" "m \<le> 300"
  shows "\<exists>s'. read_name U query read (Some c) (length c) m s = (Some (Inr (EFI_SUCCESS, length n + 1, to_bytes n @ [0])), s')"
proof -
  obtain s1 where a: "AllocatePool U (length n + 1) s = (True, s1)"
    using alloc_succeedsD [OF assms(3)] by (metis surj_pair)
  show ?thesis
    using assms a by (simp add: read_name_def has_name_def rd_whole)
qed

section \<open>Names\<close>

text \<open>A subject up to the limit is returned as it is; a longer one is cut and its end replaced by the mark.\<close>

definition shown_subject :: "string \<Rightarrow> string" where
  "shown_subject n = (if length n \<le> CERT_STRING_SIZE then n else take 77 n @ MORE_INDICATOR)"

lemma MORE_INDICATOR_props [simp]: "length MORE_INDICATOR = 3" "cstring MORE_INDICATOR" "MORE_INDICATOR \<noteq> []"
  by (simp_all add: MORE_INDICATOR_def cstring_def NUL_def)

lemma length_shown_subject: "length (shown_subject n) \<le> CERT_STRING_SIZE"
  by (simp add: shown_subject_def)

lemma cut_name:
  assumes "80 < length n"
  shows "\<exists>rest. wr (to_bytes n @ [0]) 77 (to_bytes MORE_INDICATOR @ [0]) = Some (to_bytes (take 77 n @ MORE_INDICATOR) @ 0 # rest)"
proof -
  have "to_bytes n = to_bytes (take 77 n) @ to_bytes (take 4 (drop 77 n)) @ to_bytes (drop 81 n)"
    using arg_cong [OF take_drop_split [of n 77 4], of to_bytes] by (simp add: to_bytes_append)
  moreover have "length (to_bytes (take 77 n)) = 77" "length (to_bytes MORE_INDICATOR @ [0]) = length (to_bytes (take 4 (drop 77 n)))"
    using assms by simp_all
  ultimately have "wr (to_bytes n @ [0]) 77 (to_bytes MORE_INDICATOR @ [0])
      = Some (to_bytes (take 77 n) @ (to_bytes MORE_INDICATOR @ [0]) @ to_bytes (drop 81 n) @ [0])"
    by (metis append.assoc wr_append)
  then show ?thesis by (simp add: to_bytes_append)
qed

lemma GetSubjectName16_shows:
  assumes n: "has_name (cl_CommonNameSize L) (cl_CommonName L) c n" and c: "c \<noteq> []" and U: "alloc_succeeds U"
  shows "\<exists>k s'. GetSubjectName16 U L (Some c) (length c) CERT_STRING_SIZE s = Some (EFI_SUCCESS, Some (Some (shown_subject n), k), s')"
proof -
  obtain s1 where r: "read_name U (cl_CommonNameSize L) (cl_CommonName L) (Some c) (length c) 80 s
      = (Some (Inr (EFI_SUCCESS, length n + 1, to_bytes n @ [0])), s1)"
    using read_name_ok [OF n c U, of 80 s] by auto
  have m: "uintn_sub 80 3 = 77" by (simp add: uintn_sub_def)
  have cs: "cstring n" "cstring (take 77 n @ MORE_INDICATOR)"
    using n by (auto simp: has_name_def cstring_def MORE_INDICATOR_def NUL_def dest: in_set_takeD)
  obtain rest where w: "GetSubjectName8 U L (Some c) (length c) 80 s
      = Some (EFI_SUCCESS, Some (to_bytes (shown_subject n) @ 0 # rest, length (shown_subject n) + 1), s1)"
    using cut_name [of n] by (cases "length n \<le> 80") (auto simp: GetSubjectName8_def r m shown_subject_def)
  obtain s2 where a: "AllocatePool U (Suc (Suc (length (shown_subject n) * 2))) s1 = (True, s2)"
    using alloc_succeedsD [OF U] by (metis surj_pair)
  have "buf_string (to_bytes (shown_subject n) @ 0 # rest) = Some (shown_subject n)"
    using cs by (intro buf_string_to_bytes) (simp add: shown_subject_def)
  then show ?thesis
    using c by (simp add: GetSubjectName16_def w a AsciiStrToUnicodeStrS_def)
qed

text \<open>
  An issuer of 79 characters is written past its buffer; from 80 characters on the conversion fails
  unnoticed and the caller gets a buffer that was never written.
\<close>

lemma GetIssuerName_cases:
  assumes n: "has_name (cl_OrganizationNameSize L) (cl_OrganizationName L) c n" and c: "c \<noteq> []" and U: "alloc_succeeds U"
  shows "length n < 79 \<Longrightarrow> \<exists>s'. GetIssuerName16 U L (Some c) (length c) CERT_STRING_SIZE s = Some (EFI_SUCCESS, Some (Some n, 2 * length n + 2), s')"
    "length n = 79 \<Longrightarrow> GetIssuerName16 U L (Some c) (length c) CERT_STRING_SIZE s = None"
    "length n \<ge> 80 \<Longrightarrow> \<exists>s'. GetIssuerName16 U L (Some c) (length c) CERT_STRING_SIZE s = Some (EFI_SUCCESS, Some (None, 160), s')"
proof -
  obtain s1 where r: "read_name U (cl_OrganizationNameSize L) (cl_OrganizationName L) (Some c) (length c) 80 s
      = (Some (Inr (EFI_SUCCESS, length n + 1, to_bytes n @ [0])), s1)"
    using read_name_ok [OF n c U, of 80 s] by auto
  have cs: "cstring n" using n by (simp add: has_name_def)
  have a: "\<exists>s2. AllocatePool U k s1 = (True, s2)" for k
    using alloc_succeedsD [OF U] by (metis surj_pair)
  note d = GetIssuerName16_def GetIssuerName8_def r AsciiStrToUnicodeStrS_def
  show "\<exists>s'. GetIssuerName16 U L (Some c) (length c) 80 s = Some (EFI_SUCCESS, Some (Some n, 2 * length n + 2), s')" if "length n < 79"
    using that c a [of "Suc (Suc (length n * 2))"] buf_string_to_bytes [OF cs, of "[]"] by (auto simp: d)
  show "GetIssuerName16 U L (Some c) (length c) 80 s = None" if "length n = 79"
    using that c by (simp add: d wr_def)
  show "\<exists>s'. GetIssuerName16 U L (Some c) (length c) 80 s = Some (EFI_SUCCESS, Some (None, 160), s')" if l: "length n \<ge> 80"
  proof -
    obtain d0 ds where e: "to_bytes (drop 80 n) @ [0] = d0 # ds" by (metis append_is_Nil_conv neq_Nil_conv not_Cons_self2)
    have "to_bytes n @ [0] = to_bytes (take 80 n) @ [d0] @ ds"
      using to_bytes_split [OF l] e by simp
    then have "wr (to_bytes n @ [0]) 80 [0] = Some (to_bytes (take 80 n) @ 0 # ds)"
      using l wr_append [of "to_bytes (take 80 n)" 80 "[0]" "[d0]" ds] by simp
    moreover have "buf_string (to_bytes (take 80 n) @ 0 # ds) = Some (take 80 n)"
      by (rule buf_string_to_bytes) (rule cstring_take [OF cs])
    ultimately show ?thesis using l c a [of 160] by (auto simp: d)
  qed
qed

section \<open>The dialog\<close>

lemma hex_loop16_Suc:
  assumes "prints_two_digits L h"
  shows "hex_loop16 L 3 True (Suc i) d EFI_SUCCESS t = (EFI_SUCCESS, t @ concat (map (\<lambda>b. '' '' @ h b) d))"
  using assms by (induction d arbitrary: i t) (auto simp: prints_two_digits_def Let_def)

lemma hex_loop16_ui:
  assumes "prints_two_digits L h" "d \<noteq> []"
  shows "hex_loop16 L 3 True 0 d EFI_INVALID_PARAMETER [] = (EFI_SUCCESS, ui_hex h d)"
  using assms hex_loop16_Suc [OF assms(1)] by (cases d) (auto simp: prints_two_digits_def ui_hex_def Let_def)

lemma length_ui_hex:
  assumes "prints_two_digits L h" "d \<noteq> []"
  shows "length (ui_hex h d) = 3 * length d - 1"
proof -
  have "length (h b) = 2" for b using assms(1) by (simp add: prints_two_digits_def)
  then have "sum_list (map (length \<circ> (\<lambda>b. '' '' @ h b)) bs) = 3 * length bs" for bs
    by (induction bs) auto
  then show ?thesis
    using assms by (cases d) (auto simp: ui_hex_def length_concat prints_two_digits_def)
qed

lemma ui_hex_snoc: "d \<noteq> [] \<Longrightarrow> ui_hex h (d @ [b]) = ui_hex h d @ '' '' @ h b"
  by (cases d) (auto simp: ui_hex_def)

lemma GetSha1Thumbprint16_ui:
  assumes h: "prints_two_digits L h" and x: "Sha1 (cl_Sha1 L) c = Some d" and d: "d \<noteq> []" and c: "c \<noteq> []" and U: "alloc_succeeds U"
  shows "\<exists>k s'. GetSha1Thumbprint16 U L (Some c) (length c) True s = Some (EFI_SUCCESS, Some (ui_hex h d, k), s')"
proof -
  obtain s1 where a: "AllocatePool U (Sha1GetContextSize (cl_Sha1 L)) s = (True, s1)"
    using alloc_succeedsD [OF U] by (metis surj_pair)
  obtain s2 where b: "AllocatePool U ((length d * 3 + 1) * 2) s1 = (True, s2)"
    using alloc_succeedsD [OF U] by (metis surj_pair)
  show ?thesis
    using c b by (simp add: GetSha1Thumbprint16_def GetSha1Thumbprint_def a rd_whole x hex_loop16_ui [OF h d])
qed

lemma StrCatS_fits: "length t + length x < CERT_DETAILS_MAX_STRING_LEN \<Longrightarrow> StrCatS CERT_DETAILS_MAX_STRING_LEN x t = t @ x"
  by (simp add: StrCatS_def)

lemma append_field_ok:
  assumes "GetCertInfo U L C 0 c k req fmt s = Some (EFI_SUCCESS, Some (Char16 (Some f), n), s1)"
  shows "append_field U L C c k req fmt label add t s
    = Some (Inr (StrCatS 1024 [CHR 0x0A] (add f (StrCatS 1024 label t))), s1)"
  using assms by (simp add: append_field_def wide_field_def)

lemma GetCertInfo_wide:
  assumes "c \<noteq> []"
  shows "GetSubjectName16 U L (Some c) (length c) 80 s = Some (EFI_SUCCESS, Some (t, k), s1)
    \<Longrightarrow> GetCertInfo U L C i (Some c) (length c) DFCI_CERT_SUBJECT DFCI_CERT_FORMAT_CHAR16 s = Some (EFI_SUCCESS, Some (Char16 t, k), s1)"
    "GetIssuerName16 U L (Some c) (length c) 80 s = Some (EFI_SUCCESS, Some (t, k), s1)
    \<Longrightarrow> GetCertInfo U L C i (Some c) (length c) DFCI_CERT_ISSUER DFCI_CERT_FORMAT_CHAR16 s = Some (EFI_SUCCESS, Some (Char16 t, k), s1)"
    "GetSha1Thumbprint16 U L (Some c) (length c) True s = Some (EFI_SUCCESS, Some (u, k), s1)
    \<Longrightarrow> GetCertInfo U L C i (Some c) (length c) DFCI_CERT_THUMBPRINT DFCI_CERT_FORMAT_CHAR16_UI s
      = Some (EFI_SUCCESS, Some (Char16 (Some u), k), s1)"
  using assms by (simp_all add: GetCertInfo_def)

text \<open>
  Property C27: for a certificate with a readable subject, an issuer of fewer than 79 characters and a
  SHA-1 digest of 20 bytes, and when memory can be allocated, the dialog that asks the local user to
  approve it shows its subject (cut with a mark when it is long), its issuer and its thumbprint without
  the last byte, and the code it asks the user to type is exactly the two digits it hides.  The
  comment in the code speaks of the last two bytes; 56 of the 59 characters are shown, so one byte, that
  is two digits, and the space before it are left out.
\<close>

theorem enroll_dialog_asks_for_hidden_digits:
  assumes U: "alloc_succeeds U" and c: "c \<noteq> []"
    and sub: "has_name (cl_CommonNameSize L) (cl_CommonName L) c subject"
    and iss: "has_name (cl_OrganizationNameSize L) (cl_OrganizationName L) c issuer" "length issuer < 79"
    and h: "prints_two_digits L h" and x: "Sha1 (cl_Sha1 L) c = Some digest" "length digest = 20"
  shows "\<exists>s1 s2 code. QueryCertificateDetails U L C (Some c) (length c) s
      = Some (Some (''Subject:           '' @ shown_subject subject @ [CHR 0x0A] @ ''Issuer:              '' @ issuer @ [CHR 0x0A]
          @ ''Thumbprint:      '' @ ui_hex h (butlast digest) @ ''    '' @ [CHR 0x0A]), s1)
    \<and> thumbprint_code U L C (Some c) (length c) s1 = Some (Some code, s2) \<and> length code = 2
    \<and> ui_hex h digest = ui_hex h (butlast digest) @ '' '' @ code"
proof -
  have d: "digest \<noteq> []" "butlast digest \<noteq> []" using x(2) by (auto simp: butlast_conv_take)
  have hex: "ui_hex h digest = ui_hex h (butlast digest) @ '' '' @ h (last digest)"
    using ui_hex_snoc [OF d(2), of h "last digest"] d(1) by simp
  have l: "length (ui_hex h digest) = 59" "length (ui_hex h (butlast digest)) = 56" "length (h (last digest)) = 2"
    using length_ui_hex [OF h d(1)] length_ui_hex [OF h d(2)] x(2) h by (simp_all add: prints_two_digits_def)
  then have tk: "take 56 (ui_hex h digest) = ui_hex h (butlast digest)" "drop 57 (ui_hex h digest) = h (last digest)"
    using hex by simp_all
  obtain s0 where a: "AllocatePool U 2048 s = (True, s0)" using alloc_succeedsD [OF U] by (metis surj_pair)
  obtain k1 s1 where g1: "GetSubjectName16 U L (Some c) (length c) 80 s0 = Some (EFI_SUCCESS, Some (Some (shown_subject subject), k1), s1)"
    using GetSubjectName16_shows [OF sub c U] by blast
  obtain k2 s2 where g2: "GetIssuerName16 U L (Some c) (length c) 80 s1 = Some (EFI_SUCCESS, Some (Some issuer, k2), s2)"
    using GetIssuerName_cases(1) [OF iss(1) c U iss(2)] by blast
  obtain k3 s3 where g3: "GetSha1Thumbprint16 U L (Some c) (length c) True s2 = Some (EFI_SUCCESS, Some (ui_hex h digest, k3), s3)"
    using GetSha1Thumbprint16_ui [OF h x(1) d(1) c U] by blast
  obtain k4 s4 where g4: "GetSha1Thumbprint16 U L (Some c) (length c) True s3 = Some (EFI_SUCCESS, Some (ui_hex h digest, k4), s4)"
    using GetSha1Thumbprint16_ui [OF h x(1) d(1) c U] by blast
  note f = append_field_ok [OF GetCertInfo_wide(1) [OF c g1]] append_field_ok [OF GetCertInfo_wide(2) [OF c g2]]
    append_field_ok [OF GetCertInfo_wide(3) [OF c g3]]
  have "QueryCertificateDetails U L C (Some c) (length c) s
      = Some (Some (''Subject:           '' @ shown_subject subject @ [CHR 0x0A] @ ''Issuer:              '' @ issuer @ [CHR 0x0A]
          @ ''Thumbprint:      '' @ ui_hex h (butlast digest) @ ''    '' @ [CHR 0x0A]), s3)"
    using length_shown_subject [of subject] iss(2)
    by (simp add: QueryCertificateDetails_def a f StrnCatS_def tk StrCatS_fits l)
  moreover have "thumbprint_code U L C (Some c) (length c) s3 = Some (Some (h (last digest)), s4)"
    by (simp add: thumbprint_code_def GetCertInfo_wide(3) [OF c g4] l tk)
  ultimately show ?thesis using hex l(3) by blast
qed

definition demo_names :: "string \<Rightarrow> string \<Rightarrow> cert_lib" where
  "demo_names subject issuer = \<lparr>cl_Sha1 = \<lparr>Sha1GetContextSize = 8, Sha1 = (\<lambda>c. Some (replicate 20 0xAB))\<rparr>,
     cl_CommonNameSize = (\<lambda>c. (EFI_BUFFER_TOO_SMALL, length subject + 1)),
     cl_CommonName = (\<lambda>c n. (EFI_SUCCESS, length subject + 1, to_bytes subject @ [0])),
     cl_OrganizationNameSize = (\<lambda>c. (EFI_BUFFER_TOO_SMALL, length issuer + 1)),
     cl_OrganizationName = (\<lambda>c n. (EFI_SUCCESS, length issuer + 1, to_bytes issuer @ [0])),
     cl_UnicodeValueToStringS = (\<lambda>n v w. (EFI_SUCCESS, ''AB''))\<rparr>"

lemma demo_names_props:
  "cstring subject \<Longrightarrow> has_name (cl_CommonNameSize (demo_names subject issuer)) (cl_CommonName (demo_names subject issuer)) c subject"
  "cstring issuer \<Longrightarrow> has_name (cl_OrganizationNameSize (demo_names subject issuer)) (cl_OrganizationName (demo_names subject issuer)) c issuer"
  "prints_two_digits (demo_names subject issuer) (\<lambda>b. ''AB'')"
  "Sha1 (cl_Sha1 (demo_names subject issuer)) c = Some (replicate 20 0xAB)"
  by (simp_all add: has_name_def prints_two_digits_def demo_names_def)

theorem enroll_dialog_asks_for_hidden_digits_witness:
  "\<exists>s1 s2 code. QueryCertificateDetails demo_platform (demo_names ''Contoso'' ''Root'') mInternalCertStore (Some [0x30]) 1 \<lparr>dm_vars = [], dm_docs = []\<rparr>
      = Some (Some (''Subject:           '' @ shown_subject ''Contoso'' @ [CHR 0x0A] @ ''Issuer:              '' @ ''Root'' @ [CHR 0x0A]
          @ ''Thumbprint:      '' @ ui_hex (\<lambda>b. ''AB'') (butlast (replicate 20 0xAB)) @ ''    '' @ [CHR 0x0A]), s1)
    \<and> thumbprint_code demo_platform (demo_names ''Contoso'' ''Root'') mInternalCertStore (Some [0x30]) 1 s1 = Some (Some code, s2)
    \<and> length code = 2 \<and> ui_hex (\<lambda>b. ''AB'') (replicate 20 0xAB) = ui_hex (\<lambda>b. ''AB'') (butlast (replicate 20 0xAB)) @ '' '' @ code"
proof -
  have cs: "cstring ''Contoso''" "cstring ''Root''" by (simp_all add: cstring_def NUL_def)
  show ?thesis
    using enroll_dialog_asks_for_hidden_digits [OF demo_laws(1) _ demo_names_props(1) [OF cs(1)] demo_names_props(2) [OF cs(2)] _
        demo_names_props(3,4), of "[0x30]" mInternalCertStore "\<lparr>dm_vars = [], dm_docs = []\<rparr>"] by simp
qed

text \<open>
  A certificate whose issuer has 79 or more characters.  At 79 the terminating NUL is
  written one byte past the buffer; from 80 on the wide name is reported as a success although the
  conversion failed and its buffer was never written.
\<close>

theorem long_issuer_name_is_lost:
  assumes "has_name (cl_OrganizationNameSize L) (cl_OrganizationName L) c issuer" "c \<noteq> []" "alloc_succeeds U" "79 \<le> length issuer"
  shows "if length issuer = 79
    then GetCertInfo U L C i (Some c) (length c) DFCI_CERT_ISSUER DFCI_CERT_FORMAT_CHAR16 s = None
    else \<exists>s'. GetCertInfo U L C i (Some c) (length c) DFCI_CERT_ISSUER DFCI_CERT_FORMAT_CHAR16 s
      = Some (EFI_SUCCESS, Some (Char16 None, 160), s')"
proof (cases "length issuer = 79")
  case True
  then show ?thesis using GetIssuerName_cases(2) [OF assms(1-3)] by (simp add: GetCertInfo_def)
next
  case False
  then have "80 \<le> length issuer" using assms(4) by simp
  then obtain s' where "GetIssuerName16 U L (Some c) (length c) 80 s = Some (EFI_SUCCESS, Some (None, 160), s')"
    using GetIssuerName_cases(3) [OF assms(1-3)] by blast
  then show ?thesis using False GetCertInfo_wide(2) [OF assms(2), of U L s None 160 s'] by simp
qed

theorem long_issuer_name_is_lost_witness:
  "GetCertInfo demo_platform (demo_names ''Contoso'' (replicate 79 CHR ''x'')) mInternalCertStore 0 (Some [0x30]) 1
     DFCI_CERT_ISSUER DFCI_CERT_FORMAT_CHAR16 \<lparr>dm_vars = [], dm_docs = []\<rparr> = None"
proof -
  have "cstring (replicate 79 CHR ''x'')" by (simp add: cstring_def NUL_def)
  then show ?thesis
    using long_issuer_name_is_lost [OF demo_names_props(2) _ demo_laws(1), of "replicate 79 CHR ''x''" "[0x30]" "''Contoso''"
        mInternalCertStore 0 "\<lparr>dm_vars = [], dm_docs = []\<rparr>"] by simp
qed

end
