(* ===== verification/Menu_App.thy ===== *)
theory Menu_App
  imports Cert_Info Packet_Decode Setting_Libraries
begin

text \<open>
  Data and helpers of the DFCI menu applications: the private data of a network request
  (\<open>DfciPrivate.h\<close>), the helpers of \<open>DfciUtility.c\<close>, and from \<open>DfciRequest.c\<close> the messages for
  HTTP results and the set-up and clean-up of a request.

  A \<open>CHAR8\<close> pointer of this data is NULL, points to the bytes of a buffer, or is left behind after
  its buffer was freed; freeing such a pointer again, or reading through it, is undefined
  behaviour.  The static data of the application is the record \<open>menu_app\<close>.

  The theory shows that cleaning up never frees twice when the pointers are intact, that a
  request is set up with terminated strings, and on which inputs these guarantees are lost.
\<close>

section \<open>Data\<close>

datatype ptr = NullPtr | Ptr bytes | Freed

text \<open>\<open>FreePool\<close> behind a test for NULL.\<close>

fun free_ptr :: "ptr \<Rightarrow> ptr option" where
  "free_ptr NullPtr = Some NullPtr"
| "free_ptr (Ptr b) = Some Freed"
| "free_ptr Freed = None"

definition deref :: "ptr \<Rightarrow> bytes option" where
  "deref p = (case p of Ptr b \<Rightarrow> Some b | _ \<Rightarrow> None)"

record system_info =
  si_SerialNumber :: ptr
  si_SerialNumberSize :: nat
  si_Manufacturer :: ptr
  si_ManufacturerSize :: nat
  si_ProductName :: ptr
  si_ProductNameSize :: nat

datatype logic_state = DFCI_PRE_BOOTSTRAP | DFCI_BOOTSTRAP | DFCI_BOOTSTRAP_COMPLETE | DFCI_PRE_RECOVERY | DFCI_RECOVERY
  | DFCI_RECOVERY_COMPLETE | DFCI_NO_RECOVERY_AVAILABLE | DFCI_CHECK_429 | DFCI_CHECK_429_COMPLETE

datatype http_status_code =
    HTTP_STATUS_100_CONTINUE | HTTP_STATUS_101_SWITCHING_PROTOCOLS | HTTP_STATUS_200_OK | HTTP_STATUS_201_CREATED
  | HTTP_STATUS_202_ACCEPTED | HTTP_STATUS_203_NON_AUTHORITATIVE_INFORMATION | HTTP_STATUS_204_NO_CONTENT
  | HTTP_STATUS_205_RESET_CONTENT | HTTP_STATUS_206_PARTIAL_CONTENT | HTTP_STATUS_300_MULTIPLE_CHOICES
  | HTTP_STATUS_301_MOVED_PERMANENTLY | HTTP_STATUS_302_FOUND | HTTP_STATUS_303_SEE_OTHER | HTTP_STATUS_304_NOT_MODIFIED
  | HTTP_STATUS_305_USE_PROXY | HTTP_STATUS_307_TEMPORARY_REDIRECT | HTTP_STATUS_308_PERMANENT_REDIRECT
  | HTTP_STATUS_400_BAD_REQUEST | HTTP_STATUS_401_UNAUTHORIZED | HTTP_STATUS_402_PAYMENT_REQUIRED | HTTP_STATUS_403_FORBIDDEN
  | HTTP_STATUS_404_NOT_FOUND | HTTP_STATUS_405_METHOD_NOT_ALLOWED | HTTP_STATUS_406_NOT_ACCEPTABLE
  | HTTP_STATUS_407_PROXY_AUTHENTICATION_REQUIRED | HTTP_STATUS_408_REQUEST_TIME_OUT | HTTP_STATUS_409_CONFLICT
  | HTTP_STATUS_410_GONE | HTTP_STATUS_411_LENGTH_REQUIRED | HTTP_STATUS_412_PRECONDITION_FAILED
  | HTTP_STATUS_413_REQUEST_ENTITY_TOO_LARGE | HTTP_STATUS_414_REQUEST_URI_TOO_LARGE | HTTP_STATUS_415_UNSUPPORTED_MEDIA_TYPE
  | HTTP_STATUS_416_REQUESTED_RANGE_NOT_SATISFIED | HTTP_STATUS_417_EXPECTATION_FAILED | HTTP_STATUS_429_TOO_MANY_REQUESTS
  | HTTP_STATUS_500_INTERNAL_SERVER_ERROR | HTTP_STATUS_501_NOT_IMPLEMENTED | HTTP_STATUS_502_BAD_GATEWAY
  | HTTP_STATUS_503_SERVICE_UNAVAILABLE | HTTP_STATUS_504_GATEWAY_TIME_OUT | HTTP_STATUS_505_HTTP_VERSION_NOT_SUPPORTED
  | HTTP_STATUS_UNSUPPORTED_STATUS | HTTP_STATUS_OTHER

text \<open>The texts are those of the source.\<close>

primrec GetHttpErrorMsg :: "http_status_code \<Rightarrow> string" where
  "GetHttpErrorMsg HTTP_STATUS_100_CONTINUE = ''Informational: 100 Continue''"
| "GetHttpErrorMsg HTTP_STATUS_101_SWITCHING_PROTOCOLS = ''Informational: 301 Switching Protocols''"
| "GetHttpErrorMsg HTTP_STATUS_200_OK = ''Success: 200 OK''"
| "GetHttpErrorMsg HTTP_STATUS_201_CREATED = ''Success: 201 Created''"
| "GetHttpErrorMsg HTTP_STATUS_202_ACCEPTED = ''Success: 202 Accepted''"
| "GetHttpErrorMsg HTTP_STATUS_203_NON_AUTHORITATIVE_INFORMATION = ''Success: 203 Non Authoritative Information''"
| "GetHttpErrorMsg HTTP_STATUS_204_NO_CONTENT = ''Success: 3204 No Content''"
| "GetHttpErrorMsg HTTP_STATUS_205_RESET_CONTENT = ''Success: 205 Reset Content''"
| "GetHttpErrorMsg HTTP_STATUS_206_PARTIAL_CONTENT = ''Success: 206 Partial Choices''"
| "GetHttpErrorMsg HTTP_STATUS_300_MULTIPLE_CHOICES = ''Redirection: 300 Multiple Choices''"
| "GetHttpErrorMsg HTTP_STATUS_301_MOVED_PERMANENTLY = ''Redirection: 301 Moved Permanently''"
| "GetHttpErrorMsg HTTP_STATUS_302_FOUND = ''Redirection: 302 Found''"
| "GetHttpErrorMsg HTTP_STATUS_303_SEE_OTHER = ''Redirection: 303 See Other''"
| "GetHttpErrorMsg HTTP_STATUS_304_NOT_MODIFIED = ''Redirection: 304 Not Modified''"
| "GetHttpErrorMsg HTTP_STATUS_305_USE_PROXY = ''Redirection: 305 Use Proxy''"
| "GetHttpErrorMsg HTTP_STATUS_307_TEMPORARY_REDIRECT = ''Redirection: 307 Temporary Redirect''"
| "GetHttpErrorMsg HTTP_STATUS_308_PERMANENT_REDIRECT = ''Redirection: 308 Permanent Redirect''"
| "GetHttpErrorMsg HTTP_STATUS_400_BAD_REQUEST = ''Client Error: 400 Bad Request''"
| "GetHttpErrorMsg HTTP_STATUS_401_UNAUTHORIZED = ''Client Error: 401 Unauthorized''"
| "GetHttpErrorMsg HTTP_STATUS_402_PAYMENT_REQUIRED = ''Client Error: 402 Payment Required''"
| "GetHttpErrorMsg HTTP_STATUS_403_FORBIDDEN = ''Client Error: 403 Forbidden''"
| "GetHttpErrorMsg HTTP_STATUS_404_NOT_FOUND = ''Client Error: 404 Not Found''"
| "GetHttpErrorMsg HTTP_STATUS_405_METHOD_NOT_ALLOWED = ''Client Error: 405 Method Not Allowed''"
| "GetHttpErrorMsg HTTP_STATUS_406_NOT_ACCEPTABLE = ''Client Error: 406 Not Acceptable''"
| "GetHttpErrorMsg HTTP_STATUS_407_PROXY_AUTHENTICATION_REQUIRED = ''Client Error: 407 Proxy Authentication Required''"
| "GetHttpErrorMsg HTTP_STATUS_408_REQUEST_TIME_OUT = ''Client Error: 408 Request Timeout''"
| "GetHttpErrorMsg HTTP_STATUS_409_CONFLICT = ''Client Error: 409 Conflict''"
| "GetHttpErrorMsg HTTP_STATUS_410_GONE = ''Client Error: 410 Gone''"
| "GetHttpErrorMsg HTTP_STATUS_411_LENGTH_REQUIRED = ''Client Error: 411 Length Required''"
| "GetHttpErrorMsg HTTP_STATUS_412_PRECONDITION_FAILED = ''Client Error: 412 Precondition Failed''"
| "GetHttpErrorMsg HTTP_STATUS_413_REQUEST_ENTITY_TOO_LARGE = ''Client Error: 413 Request Entity Too Large''"
| "GetHttpErrorMsg HTTP_STATUS_414_REQUEST_URI_TOO_LARGE = ''Client Error: 414 Request URI Too Long''"
| "GetHttpErrorMsg HTTP_STATUS_415_UNSUPPORTED_MEDIA_TYPE = ''Client Error: 415 Unsupported Media Type''"
| "GetHttpErrorMsg HTTP_STATUS_416_REQUESTED_RANGE_NOT_SATISFIED = ''Client Error: 416 Requested Range Not Satisfiable''"
| "GetHttpErrorMsg HTTP_STATUS_417_EXPECTATION_FAILED = ''Client Error: 417 Expectation Failed''"
| "GetHttpErrorMsg HTTP_STATUS_429_TOO_MANY_REQUESTS = ''Server Error: 429 Too Many Requests''"
| "GetHttpErrorMsg HTTP_STATUS_500_INTERNAL_SERVER_ERROR = ''Server Error: 500 Internal Server Error''"
| "GetHttpErrorMsg HTTP_STATUS_501_NOT_IMPLEMENTED = ''Server Error: 501 Not Implemented''"
| "GetHttpErrorMsg HTTP_STATUS_502_BAD_GATEWAY = ''Server Error: 502 Bad Gateway''"
| "GetHttpErrorMsg HTTP_STATUS_503_SERVICE_UNAVAILABLE = ''Server Error: 503 Service Unavailable''"
| "GetHttpErrorMsg HTTP_STATUS_504_GATEWAY_TIME_OUT = ''Server Error: 504 Gateway Timeout''"
| "GetHttpErrorMsg HTTP_STATUS_505_HTTP_VERSION_NOT_SUPPORTED = ''Server Error: 505 HTTP Version Not Supported''"
| "GetHttpErrorMsg HTTP_STATUS_UNSUPPORTED_STATUS = ''Http Error. Unsupported Status''"
| "GetHttpErrorMsg HTTP_STATUS_OTHER = ''Unknown HTTP Error''"

text \<open>
  The zones of \<open>DFCI_NETWORK_REQUEST\<close>.  Handles are numbers, protocol and event pointers are booleans.
  \<open>MainLogic\<close> is an argument of the operation that calls it.
\<close>

record request_zone =
  rq_Url :: ptr
  rq_UrlSize :: nat
  rq_BootstrapUrl :: ptr
  rq_BootstrapUrlSize :: nat
  rq_Body :: ptr
  rq_BodySize :: nat

record response_zone =
  rs_Body :: ptr
  rs_BodySize :: nat
  rs_Headers :: "(string \<times> string) list option"
  rs_HeaderCount :: nat

record status_zone =
  hs_HttpReturnCode :: ptr
  hs_HttpReturnCodeSize :: nat
  hs_HttpMessage :: ptr
  hs_HttpMessageSize :: nat
  hs_HttpStatus :: http_status_code

record http_zone =
  ht_HttpProtocol :: bool
  ht_HttpChildHandle :: "nat option"
  ht_HttpVersion11 :: bool
  ht_LocalAddressIsIPv6 :: bool
  ht_IPv4Node :: bool

record nic_zone =
  nc_NicHandle :: "nat option"
  nc_DhcpRequested :: bool
  nc_HttpSbProtocol :: bool
  nc_UseDefaultAddress :: bool
  nc_WaitEvent :: bool

record network_request =
  nq_ZeroTouchThumbprint :: ptr
  nq_ZeroTouchThumbprintSize :: nat
  nq_OwnerThumbprint :: ptr
  nq_OwnerThumbprintSize :: nat
  nq_HttpsThumbprint :: ptr
  nq_HttpsThumbprintSize :: nat
  nq_HttpsCert :: ptr
  nq_HttpsCertSize :: nat
  nq_RegistrationId :: ptr
  nq_RegistrationIdSize :: nat
  nq_TenantId :: ptr
  nq_TenantIdSize :: nat
  nq_DfciInfo :: system_info
  nq_LogicState :: logic_state
  nq_RegistrationEvent :: bool
  nq_Request :: request_zone
  nq_Response :: response_zone
  nq_Status :: status_zone
  nq_Http :: http_zone
  nq_Nic :: nic_zone

definition no_info :: system_info where
  "no_info = \<lparr>si_SerialNumber = NullPtr, si_SerialNumberSize = 0, si_Manufacturer = NullPtr, si_ManufacturerSize = 0,
     si_ProductName = NullPtr, si_ProductNameSize = 0\<rparr>"

definition no_request :: request_zone where
  "no_request = \<lparr>rq_Url = NullPtr, rq_UrlSize = 0, rq_BootstrapUrl = NullPtr, rq_BootstrapUrlSize = 0, rq_Body = NullPtr, rq_BodySize = 0\<rparr>"

definition no_response :: response_zone where
  "no_response = \<lparr>rs_Body = NullPtr, rs_BodySize = 0, rs_Headers = None, rs_HeaderCount = 0\<rparr>"

definition no_status :: status_zone where
  "no_status = \<lparr>hs_HttpReturnCode = NullPtr, hs_HttpReturnCodeSize = 0, hs_HttpMessage = NullPtr, hs_HttpMessageSize = 0,
     hs_HttpStatus = HTTP_STATUS_UNSUPPORTED_STATUS\<rparr>"

definition no_http :: http_zone where
  "no_http = \<lparr>ht_HttpProtocol = False, ht_HttpChildHandle = None, ht_HttpVersion11 = False, ht_LocalAddressIsIPv6 = False, ht_IPv4Node = False\<rparr>"

definition no_nic :: nic_zone where
  "no_nic = \<lparr>nc_NicHandle = None, nc_DhcpRequested = False, nc_HttpSbProtocol = False, nc_UseDefaultAddress = False, nc_WaitEvent = False\<rparr>"

definition zero_request :: network_request where
  "zero_request = \<lparr>nq_ZeroTouchThumbprint = NullPtr, nq_ZeroTouchThumbprintSize = 0, nq_OwnerThumbprint = NullPtr, nq_OwnerThumbprintSize = 0,
     nq_HttpsThumbprint = NullPtr, nq_HttpsThumbprintSize = 0, nq_HttpsCert = NullPtr, nq_HttpsCertSize = 0,
     nq_RegistrationId = NullPtr, nq_RegistrationIdSize = 0, nq_TenantId = NullPtr, nq_TenantIdSize = 0, nq_DfciInfo = no_info,
     nq_LogicState = DFCI_PRE_BOOTSTRAP, nq_RegistrationEvent = False, nq_Request = no_request, nq_Response = no_response,
     nq_Status = no_status, nq_Http = no_http, nq_Nic = no_nic\<rparr>"

text \<open>
  The services of the applications.  \<open>mu_SettingGet\<close> is \<open>Get\<close> of the setting access protocol without
  a token, with the size of the caller's buffer.
\<close>

record 's menu_env =
  mu_U :: "'s platform"
  mu_LocateSettingAccess :: "'s \<Rightarrow> EFI_STATUS"
  mu_SettingGet :: "string \<Rightarrow> setting_type \<Rightarrow> nat \<Rightarrow> 's \<Rightarrow> (EFI_STATUS \<times> nat \<times> bytes) option"
  mu_Ids :: "'s device_id"
  mu_HiiSetString :: "nat \<Rightarrow> string \<Rightarrow> 's \<Rightarrow> nat \<times> 's"

section \<open>Utilities\<close>

definition DfciConvertToCHAR16 :: "'s platform \<Rightarrow> string \<Rightarrow> nat \<Rightarrow> 's \<Rightarrow> EFI_STATUS \<times> string option \<times> 's" where
  "DfciConvertToCHAR16 U Text8 Text8Len s = (case AllocatePool U ((Text8Len + 1) * 2) s of (ok, s1) \<Rightarrow>
     if \<not> ok then (EFI_OUT_OF_RESOURCES, None, s1)
     else case AsciiStrToUnicodeStrS Text8 (Text8Len + 1) of (Status, WideString) \<Rightarrow> (Status, WideString, s1))"

text \<open>The base library converts at most \<open>Text16Len\<close> characters.\<close>

definition DfciConvertToCHAR8 :: "'s platform \<Rightarrow> string \<Rightarrow> nat \<Rightarrow> 's \<Rightarrow> EFI_STATUS \<times> string option \<times> 's" where
  "DfciConvertToCHAR8 U Text16 Text16Len s = (case AllocatePool U (Text16Len + 1) s of (ok, s1) \<Rightarrow>
     if \<not> ok then (EFI_OUT_OF_RESOURCES, None, s1)
     else (EFI_SUCCESS, Some (take Text16Len Text16), s1))"

definition DfciSetString16Entry :: "'s menu_env \<Rightarrow> nat \<Rightarrow> string \<Rightarrow> 's \<Rightarrow> EFI_STATUS \<times> 's" where
  "DfciSetString16Entry M IdName StringValue s = (case mu_HiiSetString M IdName StringValue s of (r, s1) \<Rightarrow>
     (if IdName \<noteq> r then EFI_NO_MAPPING else EFI_SUCCESS, s1))"

definition DfciSetStringEntry :: "'s menu_env \<Rightarrow> nat \<Rightarrow> string \<Rightarrow> 's \<Rightarrow> EFI_STATUS \<times> 's" where
  "DfciSetStringEntry M IdName StringValue s =
     (case DfciConvertToCHAR16 (mu_U M) StringValue (length StringValue) s of (Status, WideString, s1) \<Rightarrow>
      case WideString of None \<Rightarrow> (Status, s1) | Some w \<Rightarrow>
        if EFI_ERROR Status then (Status, s1) else DfciSetString16Entry M IdName w s1)"

text \<open>
  \<open>SettingAccess\<close> is the static pointer to the protocol.  The first read gets a buffer of one byte
  and a size of 0.  On the error exit the buffer is freed and the caller's pointer keeps its address.
\<close>

definition DfciGetASetting :: "'s menu_env \<Rightarrow> string \<Rightarrow> setting_type \<Rightarrow> bool \<Rightarrow> 's
    \<Rightarrow> (EFI_STATUS \<times> ptr \<times> nat \<times> bool \<times> 's) option" where
  "DfciGetASetting M IdName Type SettingAccess s =
     (if \<not> SettingAccess \<and> EFI_ERROR (mu_LocateSettingAccess M s)
      then Some (mu_LocateSettingAccess M s, NullPtr, 0, False, s)
      else do {
        (Status, n, d) \<leftarrow> mu_SettingGet M IdName Type 0 s;
        if length d > 1 then None
        else let ValueSize = (if EFI_ERROR Status \<and> EFI_BUFFER_TOO_SMALL \<noteq> Status then 0 else n) in
        if ValueSize = 0 then Some (EFI_NOT_FOUND, NullPtr, 0, True, s)
        else case AllocatePool (mu_U M) ValueSize s of (ok, s1) \<Rightarrow>
          if \<not> ok then Some (EFI_NOT_FOUND, NullPtr, ValueSize, True, s1)
          else do {
            (Status, n, d) \<leftarrow> mu_SettingGet M IdName Type ValueSize s1;
            if length d > ValueSize then None
            else if EFI_ERROR Status then Some (EFI_NOT_FOUND, Freed, n, True, s1)
            else if Type = TYPE_STRING then
              (if n > length d then None
               else if 0 \<notin> set (take n d) then Some (EFI_NOT_FOUND, Freed, n, True, s1)
               else Some (Status, Ptr d, n, True, s1))
            else Some (Status, Ptr d, n, True, s1) } })"

definition DfciFreeSystemInfo :: "system_info \<Rightarrow> system_info option" where
  "DfciFreeSystemInfo i = do {
     a \<leftarrow> free_ptr (si_SerialNumber i);
     b \<leftarrow> free_ptr (si_Manufacturer i);
     c \<leftarrow> free_ptr (si_ProductName i);
     Some (i\<lparr>si_SerialNumber := a, si_Manufacturer := b, si_ProductName := c\<rparr>) }"

text \<open>One identifier: on success its buffer and size, otherwise the error exit.\<close>

definition DfciGetSystemInfo :: "'s device_id \<Rightarrow> 's \<Rightarrow> (EFI_STATUS \<times> system_info) option" where
  "DfciGetSystemInfo I s =
     (case DfciIdSupportGetSerialNumber I s of (Status, d) \<Rightarrow>
      if EFI_ERROR Status then map_option (Pair Status) (DfciFreeSystemInfo no_info)
      else let i = no_info\<lparr>si_SerialNumber := Ptr d, si_SerialNumberSize := length d\<rparr> in
      case DfciIdSupportGetManufacturer I s of (Status, d) \<Rightarrow>
      if EFI_ERROR Status then map_option (Pair Status) (DfciFreeSystemInfo i)
      else let i = i\<lparr>si_Manufacturer := Ptr d, si_ManufacturerSize := length d\<rparr> in
      case DfciIdSupportGetProductName I s of (Status, d) \<Rightarrow>
      if EFI_ERROR Status then map_option (Pair Status) (DfciFreeSystemInfo i)
      else Some (EFI_SUCCESS, i\<lparr>si_ProductName := Ptr d, si_ProductNameSize := length d\<rparr>))"

section \<open>Setting up and cleaning up a request\<close>

abbreviation (input) CLEANUP_REQUEST :: u8 where "CLEANUP_REQUEST \<equiv> 0x01"
abbreviation (input) CLEANUP_RESPONSE :: u8 where "CLEANUP_RESPONSE \<equiv> 0x02"
abbreviation (input) CLEANUP_STATUS :: u8 where "CLEANUP_STATUS \<equiv> 0x04"
abbreviation (input) CLEANUP_HTTP :: u8 where "CLEANUP_HTTP \<equiv> 0x08"
abbreviation (input) CLEANUP_NIC :: u8 where "CLEANUP_NIC \<equiv> 0x10"
abbreviation (input) CLEANUP_MAIN :: u8 where "CLEANUP_MAIN \<equiv> 0x20"
abbreviation (input) CLEAR_ALL :: u8 where "CLEAR_ALL \<equiv> 0x80"
abbreviation (input) CLEANUP_ALL :: u8 where "CLEANUP_ALL \<equiv> 0x3F"

text \<open>A zone is freed when its bit is set, and zeroed when its bit or \<open>CLEAR_ALL\<close> is.  The body of a request is never freed.\<close>

definition CleanupNetworkRequest :: "network_request \<Rightarrow> u8 \<Rightarrow> network_request option" where
  "CleanupNetworkRequest q CleanupMask = do {
     (if CleanupMask AND CLEANUP_REQUEST \<noteq> 0
      then do { free_ptr (rq_Url (nq_Request q)); free_ptr (rq_BootstrapUrl (nq_Request q)) } else Some NullPtr);
     let q = (if CleanupMask AND (CLEANUP_REQUEST OR CLEAR_ALL) \<noteq> 0 then q\<lparr>nq_Request := no_request\<rparr> else q);
     (if CleanupMask AND CLEANUP_RESPONSE \<noteq> 0 then free_ptr (rs_Body (nq_Response q)) else Some NullPtr);
     let q = (if CleanupMask AND (CLEANUP_RESPONSE OR CLEAR_ALL) \<noteq> 0 then q\<lparr>nq_Response := no_response\<rparr> else q);
     (if CleanupMask AND CLEANUP_STATUS \<noteq> 0
      then do { free_ptr (hs_HttpMessage (nq_Status q)); free_ptr (hs_HttpReturnCode (nq_Status q)) } else Some NullPtr);
     let q = (if CleanupMask AND (CLEANUP_STATUS OR CLEAR_ALL) \<noteq> 0 then q\<lparr>nq_Status := no_status\<rparr> else q);
     let q = (if CleanupMask AND (CLEANUP_HTTP OR CLEAR_ALL) \<noteq> 0 then q\<lparr>nq_Http := no_http\<rparr> else q);
     let q = (if CleanupMask AND (CLEANUP_NIC OR CLEAR_ALL) \<noteq> 0 then q\<lparr>nq_Nic := no_nic\<rparr> else q);
     let q = (if CleanupMask AND (CLEANUP_MAIN OR CLEAR_ALL) \<noteq> 0 then q\<lparr>nq_RegistrationEvent := False\<rparr> else q);
     Some q }"

definition InitializeNetworkRequest :: "'s menu_env \<Rightarrow> network_request \<Rightarrow> bool \<Rightarrow> 's
    \<Rightarrow> (EFI_STATUS \<times> network_request \<times> bool \<times> 's) option" where
  "InitializeNetworkRequest M q SettingAccess s = do {
     q \<leftarrow> CleanupNetworkRequest q CLEAR_ALL;
     (Status, p, n, SettingAccess, s1) \<leftarrow> DfciGetASetting M ''Dfci.RecoveryUrl.String'' TYPE_STRING SettingAccess s;
     let q = q\<lparr>nq_Request := (nq_Request q)\<lparr>rq_Url := p, rq_UrlSize := n\<rparr>\<rparr>;
     if EFI_ERROR Status \<or> n \<le> 1 then Some (Status, q, SettingAccess, s1)
     else do {
       (Status, p, n, SettingAccess, s2) \<leftarrow> DfciGetASetting M ''Dfci.RecoveryBootstrapUrl.String'' TYPE_STRING SettingAccess s1;
       Some (Status, q\<lparr>nq_Request := (nq_Request q)\<lparr>rq_BootstrapUrl := p, rq_BootstrapUrlSize := n\<rparr>\<rparr>, SettingAccess, s2) } }"

section \<open>Pointers stay valid\<close>

text \<open>No pointer that a clean-up frees has been freed already.\<close>

definition intact :: "network_request \<Rightarrow> bool" where
  "intact q \<longleftrightarrow> Freed \<notin> {rq_Url (nq_Request q), rq_BootstrapUrl (nq_Request q), rs_Body (nq_Response q),
     hs_HttpMessage (nq_Status q), hs_HttpReturnCode (nq_Status q)}"

lemma free_ptr_bind: "p \<noteq> Freed \<Longrightarrow> Option.bind (free_ptr p) (\<lambda>_. r) = r"
  by (cases p) auto

lemma intact_zero [simp]: "intact zero_request"
  by (simp add: intact_def zero_request_def no_request_def no_response_def no_status_def)

lemma free_ptr_defined: "p \<noteq> Freed \<Longrightarrow> \<exists>x. free_ptr p = Some x"
  by (cases p) auto

text \<open>What the masks of the code do to a request with intact pointers.\<close>

lemma cleanup_masks:
  assumes "intact q"
  shows "CleanupNetworkRequest q CLEANUP_STATUS = Some (q\<lparr>nq_Status := no_status\<rparr>)"
    "CleanupNetworkRequest q (CLEANUP_RESPONSE OR CLEANUP_STATUS) = Some (q\<lparr>nq_Response := no_response, nq_Status := no_status\<rparr>)"
    "CleanupNetworkRequest q CLEANUP_HTTP = Some (q\<lparr>nq_Http := no_http\<rparr>)"
    "CleanupNetworkRequest q CLEANUP_NIC = Some (q\<lparr>nq_Nic := no_nic\<rparr>)"
    "CleanupNetworkRequest q CLEANUP_ALL = Some (q\<lparr>nq_Request := no_request, nq_Response := no_response, nq_Status := no_status,
       nq_Http := no_http, nq_Nic := no_nic, nq_RegistrationEvent := False\<rparr>)"
  using assms free_ptr_defined
  by (auto simp: CleanupNetworkRequest_def intact_def free_ptr_bind no_response_def no_status_def)

text \<open>Clearing frees nothing, so it is always defined.\<close>

lemma cleanup_clear:
  "CleanupNetworkRequest q CLEAR_ALL = Some (q\<lparr>nq_Request := no_request, nq_Response := no_response, nq_Status := no_status,
     nq_Http := no_http, nq_Nic := no_nic, nq_RegistrationEvent := False\<rparr>)"
  "CleanupNetworkRequest q CLEANUP_NIC = Some (q\<lparr>nq_Nic := no_nic\<rparr>)"
  "CleanupNetworkRequest q CLEANUP_HTTP = Some (q\<lparr>nq_Http := no_http\<rparr>)"
  by (simp_all add: CleanupNetworkRequest_def)

lemma intact_updates [simp]:
  "intact (q\<lparr>nq_Http := h\<rparr>) = intact q" "intact (q\<lparr>nq_Nic := n\<rparr>) = intact q" "intact (q\<lparr>nq_LogicState := l\<rparr>) = intact q"
  by (simp_all add: intact_def)

lemma intact_zones [simp]:
  "intact (q\<lparr>nq_Status := no_status\<rparr>) \<longleftrightarrow> Freed \<notin> {rq_Url (nq_Request q), rq_BootstrapUrl (nq_Request q), rs_Body (nq_Response q)}"
  "intact (q\<lparr>nq_Response := no_response, nq_Status := no_status\<rparr>) \<longleftrightarrow> Freed \<notin> {rq_Url (nq_Request q), rq_BootstrapUrl (nq_Request q)}"
  by (auto simp: intact_def no_status_def no_response_def)

section \<open>Reading a setting\<close>

text \<open>A string setting that is returned is terminated inside its buffer.\<close>

lemma DfciGetASetting_string:
  assumes "DfciGetASetting M i TYPE_STRING a s = Some (st, p, n, a', s')" "\<not> EFI_ERROR st"
  shows "\<exists>d. p = Ptr d \<and> n \<le> length d \<and> 0 \<in> set (take n d)"
  using assms by (auto simp: DfciGetASetting_def Let_def split: if_splits Option.bind_splits prod.splits)

lemma buf_string_terminated: "0 \<in> set d \<Longrightarrow> \<exists>t. buf_string d = Some t"
proof -
  have "0 \<in> set d \<Longrightarrow> \<exists>t. scan_cstr (length d) d = Some t" by (induction d) auto
  then show "0 \<in> set d \<Longrightarrow> \<exists>t. buf_string d = Some t" by (simp add: buf_string_def)
qed

text \<open>
  A recovery address that is stored without a terminating NUL.  Reading it fails, its
  buffer is freed, but the pointer in the request keeps pointing to it, and the clean-up that
  follows the failure frees it a second time.
\<close>

theorem unterminated_url_is_freed_twice:
  assumes g: "mu_SettingGet M ''Dfci.RecoveryUrl.String'' TYPE_STRING 0 s = Some (EFI_BUFFER_TOO_SMALL, length url, [])"
      "mu_SettingGet M ''Dfci.RecoveryUrl.String'' TYPE_STRING (length url) s1 = Some (EFI_SUCCESS, length url, url)"
    and u: "url \<noteq> []" "0 \<notin> set url" and a: "AllocatePool (mu_U M) (length url) s = (True, s1)"
  shows "\<exists>q'. InitializeNetworkRequest M q True s = Some (EFI_NOT_FOUND, q', True, s1) \<and> CleanupNetworkRequest q' CLEANUP_ALL = None"
proof -
  have "DfciGetASetting M ''Dfci.RecoveryUrl.String'' TYPE_STRING True s = Some (EFI_NOT_FOUND, Freed, length url, True, s1)"
    using assms by (simp add: DfciGetASetting_def)
  then show ?thesis
    by (simp add: InitializeNetworkRequest_def cleanup_clear CleanupNetworkRequest_def)
qed

definition url_menu :: "bytes \<Rightarrow> demo_state menu_env" where
  "url_menu url = \<lparr>mu_U = demo_platform, mu_LocateSettingAccess = (\<lambda>s. EFI_SUCCESS),
     mu_SettingGet = (\<lambda>i t n s. Some (if n < length url then (EFI_BUFFER_TOO_SMALL, length url, []) else (EFI_SUCCESS, length url, url))),
     mu_Ids = \<lparr>DfciIdSupportGetManufacturer = (\<lambda>s. (EFI_SUCCESS, [0])), DfciIdSupportGetProductName = (\<lambda>s. (EFI_SUCCESS, [0])),
       DfciIdSupportGetSerialNumber = (\<lambda>s. (EFI_SUCCESS, [0]))\<rparr>, mu_HiiSetString = (\<lambda>i t s. (i, s))\<rparr>"

theorem unterminated_url_is_freed_twice_witness:
  "\<exists>q'. InitializeNetworkRequest (url_menu [0x68, 0x74]) zero_request True \<lparr>dm_vars = [], dm_docs = []\<rparr>
      = Some (EFI_NOT_FOUND, q', True, \<lparr>dm_vars = [], dm_docs = []\<rparr>) \<and> CleanupNetworkRequest q' CLEANUP_ALL = None"
  by (rule unterminated_url_is_freed_twice [of _ _ "[0x68, 0x74]"]) (simp_all add: url_menu_def demo_simps)

end
