(* ===== verification/Dfci_Update.thy ===== *)
theory Dfci_Update
  imports Menu_App Mailbox
begin

text \<open>
  Updates from outside (\<open>DfciUpdate.c\<close>, \<open>DfciUsb.c\<close>): the tables that say what each element of a JSON
  answer does, the operation that puts a packet into its mailbox, the JSON of the requests, the
  name of the file on a USB drive and the search for it.  The JSON library, base64 and the file
  systems are the record \<open>update_env\<close>.

  The theory shows that an update can only fill the six mailboxes of the manager, each with a
  packet of the right signature, and that the file names are valid; it also shows where the code
  reads or frees memory it must not.
\<close>

section \<open>Tables\<close>

record json_mailbox =
  jm_MailboxName :: string
  jm_MailboxNamespace :: string
  jm_MailboxAttributes :: u32
  jm_Signature :: u32

definition mJsonSetVariableEntryMailbox :: "json_mailbox list" where
  "mJsonSetVariableEntryMailbox = [
     \<lparr>jm_MailboxName = ''DfciIdentityApply'', jm_MailboxNamespace = gDfciAuthProvisionVarNamespace, jm_MailboxAttributes = 7, jm_Signature = 0x4150534D\<rparr>,
     \<lparr>jm_MailboxName = ''DfciIdentity2Apply'', jm_MailboxNamespace = gDfciAuthProvisionVarNamespace, jm_MailboxAttributes = 7, jm_Signature = 0x4150534D\<rparr>,
     \<lparr>jm_MailboxName = ''DfciPermissionApply'', jm_MailboxNamespace = gDfciPermissionManagerVarNamespace, jm_MailboxAttributes = 7, jm_Signature = 0x4150504D\<rparr>,
     \<lparr>jm_MailboxName = ''DfciPermission2Apply'', jm_MailboxNamespace = gDfciPermissionManagerVarNamespace, jm_MailboxAttributes = 7, jm_Signature = 0x4150504D\<rparr>,
     \<lparr>jm_MailboxName = ''DfciSettingsRequest'', jm_MailboxNamespace = gDfciSettingsManagerVarNamespace, jm_MailboxAttributes = 7, jm_Signature = SETTINGS_APPLY_VAR_SIGNATURE\<rparr>,
     \<lparr>jm_MailboxName = ''DfciSettings2Request'', jm_MailboxNamespace = gDfciSettingsManagerVarNamespace, jm_MailboxAttributes = 7, jm_Signature = SETTINGS_APPLY_VAR_SIGNATURE\<rparr>]"

abbreviation (input) JSON_SET_IDENTITY :: nat where "JSON_SET_IDENTITY \<equiv> 0"
abbreviation (input) JSON_SET_IDENTITY2 :: nat where "JSON_SET_IDENTITY2 \<equiv> 1"
abbreviation (input) JSON_SET_PERMISSIONS :: nat where "JSON_SET_PERMISSIONS \<equiv> 2"
abbreviation (input) JSON_SET_PERMISSIONS2 :: nat where "JSON_SET_PERMISSIONS2 \<equiv> 3"
abbreviation (input) JSON_SET_SETTINGS :: nat where "JSON_SET_SETTINGS \<equiv> 4"
abbreviation (input) JSON_SET_SETTINGS2 :: nat where "JSON_SET_SETTINGS2 \<equiv> 5"

datatype json_action = JSON_ACTION_SET_VARIABLE nat | JSON_ACTION_SET_RETURN_CODE | JSON_ACTION_SET_HTTP_MESSAGE

text \<open>
  An entry: field name, action (with the index of the mailbox) and whether the value is base64.  The
  pointers to the message and the return code of the network request follow from the action; the
  entry without a name that ends a table in the source is the end of the list.
\<close>

record json_entry =
  je_FieldName :: string
  je_Action :: json_action
  je_DecodeBase64 :: bool

definition packet_entry :: "string \<Rightarrow> nat \<Rightarrow> json_entry" where
  "packet_entry n i = \<lparr>je_FieldName = n, je_Action = JSON_ACTION_SET_VARIABLE i, je_DecodeBase64 = True\<rparr>"

definition message_entries :: "json_entry list" where
  "message_entries = [
     \<lparr>je_FieldName = ''ResultMessage'', je_Action = JSON_ACTION_SET_HTTP_MESSAGE, je_DecodeBase64 = False\<rparr>,
     \<lparr>je_FieldName = ''ResultCode'', je_Action = JSON_ACTION_SET_RETURN_CODE, je_DecodeBase64 = False\<rparr>]"

definition mRecoveryBootstrapResponse :: "json_entry list" where
  "mRecoveryBootstrapResponse = [packet_entry ''TransitionPacket1'' JSON_SET_IDENTITY, packet_entry ''TransitionPacket2'' JSON_SET_IDENTITY2,
     packet_entry ''SettingsPacket'' JSON_SET_SETTINGS] @ message_entries"

definition mRecoveryResponse :: "json_entry list" where
  "mRecoveryResponse = [packet_entry ''ProvisioningPacket'' JSON_SET_IDENTITY, packet_entry ''PermissionsPacket'' JSON_SET_PERMISSIONS,
     packet_entry ''SettingsPacket'' JSON_SET_SETTINGS] @ message_entries"

definition mUsbRecovery :: "json_entry list" where
  "mUsbRecovery = [packet_entry ''ProvisioningPacket'' JSON_SET_IDENTITY, packet_entry ''ProvisioningPacket2'' JSON_SET_IDENTITY2,
     packet_entry ''PermissionsPacket'' JSON_SET_PERMISSIONS, packet_entry ''PermissionsPacket2'' JSON_SET_PERMISSIONS2,
     packet_entry ''SettingsPacket'' JSON_SET_SETTINGS, packet_entry ''SettingsPacket2'' JSON_SET_SETTINGS2]"

section \<open>Services\<close>

text \<open>
  An element of a JSON text points into the text, with its length; \<open>None\<close> is NULL.  \<open>up_JsonLibParse\<close>
  gets the text, its size and the function to call on the elements.  A file system handle carries
  the answers of the services that are asked about it, in the order of the code: is there a device
  path, is it below a USB and a block device, does its file system open, does the file open, its
  size (\<open>None\<close>: no information) and what reading it gives.
\<close>

record json_element =
  jr_FieldName :: "string option"
  jr_FieldLen :: nat
  jr_Value :: "string option"
  jr_ValueLen :: nat

record fs_handle =
  fs_DevicePath :: bool
  fs_Usb :: EFI_STATUS
  fs_BlockIo :: EFI_STATUS
  fs_SimpleFs :: EFI_STATUS
  fs_OpenVolume :: EFI_STATUS
  fs_Open :: "string \<Rightarrow> EFI_STATUS"
  fs_FileSize :: "string \<Rightarrow> nat option"
  fs_Read :: "string \<Rightarrow> EFI_STATUS \<times> bytes"

record 's update_env =
  up_M :: "'s menu_env"
  up_Base64Decode :: "string \<Rightarrow> bool \<Rightarrow> nat \<Rightarrow> EFI_STATUS \<times> nat \<times> bytes"
  up_JsonLibParse :: "bytes \<Rightarrow> nat \<Rightarrow> (json_element option \<Rightarrow> status_zone \<times> 's \<Rightarrow> (EFI_STATUS \<times> status_zone \<times> 's) option)
    \<Rightarrow> status_zone \<times> 's \<Rightarrow> (EFI_STATUS \<times> status_zone \<times> 's) option"
  up_JsonLibEncode :: "(string \<times> nat \<times> ptr \<times> nat) list \<Rightarrow> 's \<Rightarrow> EFI_STATUS \<times> bytes \<times> 's"
  up_FileSystems :: "'s \<Rightarrow> EFI_STATUS \<times> fs_handle list"

abbreviation up_U :: "'s update_env \<Rightarrow> 's platform" where "up_U E \<equiv> mu_U (up_M E)"

section \<open>Applying an element\<close>

text \<open>The value of an element as the code decodes it: \<open>Inl\<close> an error, \<open>Inr\<close> the buffer with its NUL and the size.\<close>

definition decode_value :: "'s update_env \<Rightarrow> bool \<Rightarrow> string \<Rightarrow> nat \<Rightarrow> 's \<Rightarrow> ((EFI_STATUS + bytes \<times> nat) \<times> 's) option" where
  "decode_value E DecodeBase64 Value ValueLen s =
     (if ValueLen > length Value then None
      else if DecodeBase64 then
        (case up_Base64Decode E (take ValueLen Value) False 0 of (Status, n, _) \<Rightarrow>
         if Status \<noteq> EFI_BUFFER_TOO_SMALL then Some (Inl EFI_INVALID_PARAMETER, s)
         else case AllocatePool (up_U E) (n + 1) s of (ok, s1) \<Rightarrow>
           if \<not> ok then Some (Inl EFI_OUT_OF_RESOURCES, s1)
           else case up_Base64Decode E (take ValueLen Value) True n of (Status, m, d) \<Rightarrow>
             if EFI_ERROR Status then Some (Inl Status, s1)
             else if m > n \<or> length d \<noteq> m then None
             else Some (Inr (d @ [0], m), s1))
      else case AllocatePool (up_U E) (ValueLen + 1) s of (ok, s1) \<Rightarrow>
        if \<not> ok then Some (Inl EFI_OUT_OF_RESOURCES, s1)
        else Some (Inr (to_bytes (take ValueLen Value) @ [0], ValueLen + 1), s1))"

text \<open>The signature is read from the buffer without a check of its length.\<close>

definition set_mailbox :: "'s update_env \<Rightarrow> json_mailbox \<Rightarrow> bytes \<Rightarrow> nat \<Rightarrow> 's \<Rightarrow> (EFI_STATUS \<times> 's) option" where
  "set_mailbox E m StringValue ValueSize s = do {
     Signature \<leftarrow> rd32 StringValue 0;
     if jm_Signature m \<noteq> Signature then Some (EFI_INVALID_PARAMETER, s)
     else case SetVariable (up_U E) (jm_MailboxName m) (jm_MailboxNamespace m) (jm_MailboxAttributes m) (take ValueSize StringValue) s
       of (Status, s1) \<Rightarrow> Some (if EFI_ERROR Status then (Status, s1) else (EFI_MEDIA_CHANGED, s1)) }"

definition ProcessFunction :: "'s update_env \<Rightarrow> json_entry list \<Rightarrow> json_element option \<Rightarrow> status_zone \<times> 's
    \<Rightarrow> (EFI_STATUS \<times> status_zone \<times> 's) option" where
  "ProcessFunction E ResponseTable Rqst x = (case x of (z, s) \<Rightarrow> (case Rqst of
     None \<Rightarrow> Some (EFI_INVALID_PARAMETER, z, s)
   | Some r \<Rightarrow> (case (jr_FieldName r, jr_Value r) of
       (Some FieldName, Some Value) \<Rightarrow>
         (case find (\<lambda>e. jr_FieldLen r = length (je_FieldName e)
               \<and> AsciiStrnCmp_eq (je_FieldName e) FieldName (jr_FieldLen r)) ResponseTable of
            None \<Rightarrow> Some (EFI_INVALID_PARAMETER, z, s)
          | Some e \<Rightarrow> do {
              (v, s1) \<leftarrow> decode_value E (je_DecodeBase64 e) Value (jr_ValueLen r) s;
              (case v of Inl Status \<Rightarrow> Some (Status, z, s1)
               | Inr (StringValue, ValueSize) \<Rightarrow> (case je_Action e of
                   JSON_ACTION_SET_VARIABLE i \<Rightarrow>
                     map_option (\<lambda>(Status, s2). (Status, z, s2)) (set_mailbox E (mJsonSetVariableEntryMailbox ! i) StringValue ValueSize s1)
                 | JSON_ACTION_SET_RETURN_CODE \<Rightarrow>
                     Some (EFI_SUCCESS, z\<lparr>hs_HttpReturnCode := Ptr StringValue, hs_HttpReturnCodeSize := ValueSize\<rparr>, s1)
                 | JSON_ACTION_SET_HTTP_MESSAGE \<Rightarrow>
                     Some (EFI_SUCCESS, z\<lparr>hs_HttpMessage := Ptr StringValue, hs_HttpMessageSize := ValueSize\<rparr>, s1))) })
     | _ \<Rightarrow> Some (EFI_INVALID_PARAMETER, z, s))))"

definition DfciUpdateFromJson :: "'s update_env \<Rightarrow> bytes \<Rightarrow> nat \<Rightarrow> json_entry list \<Rightarrow> status_zone \<times> 's
    \<Rightarrow> (EFI_STATUS \<times> status_zone \<times> 's) option" where
  "DfciUpdateFromJson E JsonString JsonStringSize ResponseTable =
     up_JsonLibParse E JsonString JsonStringSize (ProcessFunction E ResponseTable)"

section \<open>Requests\<close>

text \<open>The lengths are sizes without the NUL, an unsigned subtraction.\<close>

definition BuildJsonBootstrapRequest :: "'s update_env \<Rightarrow> network_request \<Rightarrow> 's \<Rightarrow> EFI_STATUS \<times> network_request \<times> 's" where
  "BuildJsonBootstrapRequest E q s =
     (case up_JsonLibEncode E [
         (''DdsEncryptionCertificateThumbprint'', 34, nq_HttpsThumbprint q, uintn_sub (nq_HttpsThumbprintSize q) 1),
         (''DdsWildcardCertificateThumbprint'', 32, nq_OwnerThumbprint q, uintn_sub (nq_OwnerThumbprintSize q) 1)] s of (Status, b, s1) \<Rightarrow>
      (Status, if EFI_ERROR Status then q else q\<lparr>nq_Request := (nq_Request q)\<lparr>rq_Body := Ptr b, rq_BodySize := length b\<rparr>\<rparr>, s1))"

text \<open>The old body is freed only when it is NULL, that is never.\<close>

definition BuildJsonRecoveryRequest :: "'s update_env \<Rightarrow> network_request \<Rightarrow> 's \<Rightarrow> EFI_STATUS \<times> network_request \<times> 's" where
  "BuildJsonRecoveryRequest E q s =
     (let i = nq_DfciInfo q in
      case up_JsonLibEncode E [
         (''OemManufacturer'', 15, si_Manufacturer i, uintn_sub (si_ManufacturerSize i) 1),
         (''ModelName'', 9, si_ProductName i, uintn_sub (si_ProductNameSize i) 1),
         (''SerialNumber'', 12, si_SerialNumber i, uintn_sub (si_SerialNumberSize i) 1),
         (''DdsWildcardCertificateThumbprint'', 32, nq_OwnerThumbprint q, uintn_sub (nq_OwnerThumbprintSize q) 1),
         (''TenantId'', 8, nq_TenantId q, uintn_sub (nq_TenantIdSize q) 1),
         (''RegistrationId'', 14, nq_RegistrationId q, uintn_sub (nq_RegistrationIdSize q) 1)] s of (Status, b, s1) \<Rightarrow>
      (Status, if EFI_ERROR Status then q else q\<lparr>nq_Request := (nq_Request q)\<lparr>rq_Body := Ptr b, rq_BodySize := length b\<rparr>\<rparr>, s1))"

section \<open>USB\<close>

abbreviation (input) MAX_USB_FILE_NAME_LENGTH :: nat where "MAX_USB_FILE_NAME_LENGTH \<equiv> 256"

definition invalid_char :: "char \<Rightarrow> bool" where
  "invalid_char c \<longleftrightarrow> of_char c \<le> (0x1F :: nat) \<or> c \<in> set [CHR 0x22, CHR ''*'', CHR ''/'', CHR '':'', CHR ''<'', CHR ''>'', CHR ''?'', CHR 0x5C, CHR ''|'']"

text \<open>
  \<open>UnicodeSPrintAsciiFormat\<close> with a buffer of 252 characters writes at most 251 and a NUL.  The
  extension is appended with a limit of 512 characters to a buffer of 256.  \<open>Error\<close> frees the system
  information a second time when \<open>DfciGetSystemInfo\<close> or a later step failed.
\<close>

definition BuildUsbRequest :: "'s update_env \<Rightarrow> string \<Rightarrow> 's \<Rightarrow> (EFI_STATUS \<times> string option \<times> 's) option" where
  "BuildUsbRequest E FileExtension s = do {
     (Status, i) \<leftarrow> DfciGetSystemInfo (mu_Ids (up_M E)) s;
     if EFI_ERROR Status then do { DfciFreeSystemInfo i; Some (Status, None, s) }
     else case AllocatePool (up_U E) (MAX_USB_FILE_NAME_LENGTH * 2) s of (ok, s1) \<Rightarrow>
       if \<not> ok then do { DfciFreeSystemInfo i; Some (EFI_OUT_OF_RESOURCES, None, s1) }
       else do {
         a \<leftarrow> deref (si_SerialNumber i); b \<leftarrow> deref (si_ProductName i); c \<leftarrow> deref (si_Manufacturer i);
         a \<leftarrow> buf_string a; b \<leftarrow> buf_string b; c \<leftarrow> buf_string c;
         let PktFileName = take (MAX_USB_FILE_NAME_LENGTH - 5) (a @ ''_'' @ b @ ''_'' @ c);
         i \<leftarrow> DfciFreeSystemInfo i;
         if PktFileName = [] \<or> length PktFileName \<ge> MAX_USB_FILE_NAME_LENGTH - 4
         then do { DfciFreeSystemInfo i; Some (EFI_BAD_BUFFER_SIZE, None, s1) }
         else let PktFileName = map (\<lambda>c. if invalid_char c then CHR ''@'' else c) PktFileName in
           if length PktFileName + length FileExtension \<ge> MAX_USB_FILE_NAME_LENGTH * 2
           then do { DfciFreeSystemInfo i; Some (EFI_BUFFER_TOO_SMALL, None, s1) }
           else if length PktFileName + length FileExtension \<ge> MAX_USB_FILE_NAME_LENGTH then None
           else Some (EFI_SUCCESS, Some (PktFileName @ FileExtension), s1) } }"

abbreviation (input) MAX_DFI_FILE_SIZE :: nat where "MAX_DFI_FILE_SIZE \<equiv> 24576 * 6 * 4 div 3 + 384"

text \<open>
  The search: \<open>Status\<close> is that of the last step taken, \<open>b\<close> the buffer and the size that were stored last
  (\<open>None\<close>: the caller's variables are not set).
\<close>

fun find_update :: "'s update_env \<Rightarrow> string \<Rightarrow> fs_handle list \<Rightarrow> EFI_STATUS \<Rightarrow> (ptr \<times> nat) option \<Rightarrow> 's \<Rightarrow> EFI_STATUS \<times> (ptr \<times> nat) option \<times> 's" where
  "find_update E f [] Status b s = (Status, b, s)"
| "find_update E f (h # hs) Status b s =
     (if \<not> fs_DevicePath h then find_update E f hs Status b s
      else if EFI_ERROR (fs_Usb h) then find_update E f hs (fs_Usb h) b s
      else if EFI_ERROR (fs_BlockIo h) then find_update E f hs (fs_BlockIo h) b s
      else if EFI_ERROR (fs_SimpleFs h) then find_update E f hs (fs_SimpleFs h) b s
      else if EFI_ERROR (fs_OpenVolume h) then find_update E f hs (fs_OpenVolume h) b s
      else if EFI_ERROR (fs_Open h f) then find_update E f hs (fs_Open h f) b s
      else case fs_FileSize h f of None \<Rightarrow> find_update E f hs (fs_Open h f) b s
      | Some FileSize \<Rightarrow>
          if FileSize = 0 \<or> FileSize > MAX_DFI_FILE_SIZE then find_update E f hs EFI_BAD_BUFFER_SIZE b s
          else case AllocatePool (up_U E) (FileSize + 1) s of (ok, s1) \<Rightarrow>
            if \<not> ok then (EFI_OUT_OF_RESOURCES, map_option (\<lambda>(_, n). (NullPtr, n)) b, s1)
            else case fs_Read h f of (Status, d) \<Rightarrow>
              if EFI_ERROR Status \<or> length d \<noteq> FileSize
              then find_update E f hs (if Status = EFI_SUCCESS then EFI_BAD_BUFFER_SIZE else Status) (Some (NullPtr, FileSize + 1)) s1
              else (EFI_SUCCESS, Some (Ptr (d @ [0]), FileSize + 1), s1))"

definition FindUsbDriveWithDfciUpdate :: "'s update_env \<Rightarrow> string \<Rightarrow> 's \<Rightarrow> EFI_STATUS \<times> (ptr \<times> nat) option \<times> 's" where
  "FindUsbDriveWithDfciUpdate E PktFileName s = (case up_FileSystems E s of (Status, hs) \<Rightarrow>
     if EFI_ERROR Status then (Status, None, s) else find_update E PktFileName hs Status None s)"

text \<open>On success the code copies \<open>Buffer\<close> and \<open>BufferSize\<close>, set or not.\<close>

definition DfciRequestJsonFromUSB :: "'s update_env \<Rightarrow> string option \<Rightarrow> 's \<Rightarrow> (EFI_STATUS \<times> (ptr \<times> nat) option \<times> 's) option" where
  "DfciRequestJsonFromUSB E FileName s = (case FileName of
     None \<Rightarrow> Some (EFI_INVALID_PARAMETER, None, s)
   | Some f \<Rightarrow> (case FindUsbDriveWithDfciUpdate E f s of (Status, b, s1) \<Rightarrow>
       if EFI_ERROR Status then Some (Status, None, s1)
       else do { b \<leftarrow> b; Some (Status, Some b, s1) }))"

section \<open>What an update can do\<close>

text \<open>
  The JSON library acts on the state only through the function it is given: what every call keeps,
  parsing keeps.
\<close>

definition json_calls :: "'s update_env \<Rightarrow> bool" where
  "json_calls E \<longleftrightarrow> (\<forall>js n f x st x' P. up_JsonLibParse E js n f x = Some (st, x') \<longrightarrow> P x
     \<longrightarrow> (\<forall>e y st y'. P y \<longrightarrow> f e y = Some (st, y') \<longrightarrow> P y') \<longrightarrow> P x')"

lemma json_callsD:
  assumes "json_calls E" "up_JsonLibParse E js n f x = Some (st, x')" "P x"
    "\<And>e y st y'. P y \<Longrightarrow> f e y = Some (st, y') \<Longrightarrow> P y'"
  shows "P x'"
  using assms unfolding json_calls_def by blast

text \<open>A variable is as before, or it is a mailbox that now holds a packet with the signature of the mailbox.\<close>

definition holds_packet :: "'s platform \<Rightarrow> json_mailbox \<Rightarrow> 's \<Rightarrow> bool" where
  "holds_packet U m s \<longleftrightarrow> (\<exists>d. GetVariable U (jm_MailboxName m) (jm_MailboxNamespace m) s = (EFI_SUCCESS, d, jm_MailboxAttributes m)
     \<and> rd32 d 0 = Some (jm_Signature m))"

definition only_mailboxes :: "'s platform \<Rightarrow> json_mailbox set \<Rightarrow> 's \<Rightarrow> 's \<Rightarrow> bool" where
  "only_mailboxes U ms s s' \<longleftrightarrow> (\<forall>n g. GetVariable U n g s' = GetVariable U n g s
     \<or> (\<exists>m\<in>ms. n = jm_MailboxName m \<and> g = jm_MailboxNamespace m \<and> holds_packet U m s'))"

definition table_mailboxes :: "json_entry list \<Rightarrow> json_mailbox set" where
  "table_mailboxes t = {mJsonSetVariableEntryMailbox ! i | i. \<exists>e\<in>set t. je_Action e = JSON_ACTION_SET_VARIABLE i}"

definition json_tables :: "json_entry list set" where
  "json_tables = {mRecoveryBootstrapResponse, mRecoveryResponse, mUsbRecovery}"

lemmas json_table_defs = mRecoveryBootstrapResponse_def mRecoveryResponse_def mUsbRecovery_def packet_entry_def message_entries_def

lemma table_mailboxes_subset: "t \<in> json_tables \<Longrightarrow> table_mailboxes t \<subseteq> set mJsonSetVariableEntryMailbox"
  by (auto simp: json_tables_def table_mailboxes_def json_table_defs mJsonSetVariableEntryMailbox_def)

text \<open>The signatures have a fourth byte that is not 0, so a packet that passes the test has at least four bytes.\<close>

lemma mailbox_signature_high: "m \<in> set mJsonSetVariableEntryMailbox \<Longrightarrow> 2 ^ 24 \<le> unat (jm_Signature m)"
  by (auto simp: mJsonSetVariableEntryMailbox_def)

lemma le_nat_snoc0: "le_nat (bs @ [0]) = le_nat bs"
  by (induction bs) auto

lemma le_nat_less: "le_nat bs < 256 ^ length bs"
proof (induction bs)
  case (Cons b bs)
  have "unat b < 256" using unat_bound [of b] by simp
  then show ?case using Cons by simp
qed simp

lemma rd32_without_nul:
  assumes r: "rd32 (d @ [0]) 0 = Some w" and w: "2 ^ 24 \<le> unat w"
  shows "rd32 d 0 = Some w"
proof -
  have l: "4 \<le> length d + 1" and w': "w = word_of_nat (le_nat (take 4 (d @ [0])))"
    using r by (auto simp: rd32_def rd_def split: if_splits)
  have "length d \<noteq> 3"
  proof
    assume d: "length d = 3"
    then have "le_nat (take 4 (d @ [0])) < 2 ^ 24" using le_nat_less [of d] by (simp add: le_nat_snoc0)
    then have "unat w < 2 ^ 24" using w' by (simp add: unat_of_nat)
    then show False using w by simp
  qed
  then have "4 \<le> length d" using l by simp
  then show ?thesis using w' by (simp add: rd32_def rd_def)
qed

lemma decode_value_vars:
  assumes "alloc_keeps_vars (up_U E)" "decode_value E b v n s = Some (r, s')"
  shows "same_vars (up_U E) s s'"
  using assms alloc_keeps_varsD(1)
  by (auto simp: decode_value_def split: if_splits prod.splits)

lemma decode_value_base64: "decode_value E True v n s = Some (Inr (b, k), s') \<Longrightarrow> b = take k b @ [0]"
  by (auto simp: decode_value_def split: if_splits prod.splits)

lemma same_vars_only: "same_vars U s s' \<Longrightarrow> only_mailboxes U ms s s'"
  by (simp add: same_vars_def only_mailboxes_def)

lemma holds_packet_same: "same_vars U s s' \<Longrightarrow> holds_packet U m s' = holds_packet U m s"
  by (simp add: holds_packet_def same_vars_def)

lemma only_mailboxes_step:
  assumes "only_mailboxes U ms a b" "same_vars U b c"
  shows "only_mailboxes U ms a c"
  using assms holds_packet_same [OF assms(2)] unfolding only_mailboxes_def same_vars_def by metis

lemma set_mailbox_only:
  assumes l: "variable_laws (up_U E)" and m: "m \<in> ms" "ms \<subseteq> set mJsonSetVariableEntryMailbox"
    and b: "b = take k b @ [0]" and r: "set_mailbox E m b k s = Some (st, s')" and o: "only_mailboxes (up_U E) ms a s"
  shows "only_mailboxes (up_U E) ms a s'"
proof -
  obtain w where w: "rd32 b 0 = Some w" using r by (auto simp: set_mailbox_def split: Option.bind_splits)
  show ?thesis
  proof (cases "jm_Signature m = w")
    case False
    then show ?thesis using r w o by (simp add: set_mailbox_def)
  next
    case True
    define d where "d = take k b"
    have sig: "rd32 d 0 = Some (jm_Signature m)"
      using rd32_without_nul [of d w] mailbox_signature_high m w b True by (auto simp: d_def)
    then have d: "d \<noteq> []" by (auto simp: rd32_def rd_def)
    obtain st1 where v: "SetVariable (up_U E) (jm_MailboxName m) (jm_MailboxNamespace m) (jm_MailboxAttributes m) d s = (st1, s')"
      using r w True by (auto simp: set_mailbox_def d_def split: prod.splits if_splits)
    show ?thesis
    proof (cases "EFI_ERROR st1")
      case True
      then show ?thesis using only_mailboxes_step [OF o] variable_lawsD(3) [OF l v] by blast
    next
      case False
      have h: "holds_packet (up_U E) m s'"
        using variable_lawsD(1) [OF l v False d] sig by (auto simp: holds_packet_def)
      have other: "(n, g) \<noteq> (jm_MailboxName m, jm_MailboxNamespace m) \<Longrightarrow> GetVariable (up_U E) n g s' = GetVariable (up_U E) n g s" for n g
        using variable_lawsD(2) [OF l v] by blast
      then have "(jm_MailboxName m', jm_MailboxNamespace m') \<noteq> (jm_MailboxName m, jm_MailboxNamespace m)
          \<Longrightarrow> holds_packet (up_U E) m' s' = holds_packet (up_U E) m' s" for m'
        by (simp add: holds_packet_def)
      with o h other m(1) show ?thesis unfolding only_mailboxes_def by (metis prod.inject)
    qed
  qed
qed

text \<open>In the tables exactly the packets are base64.\<close>

lemma json_tables_base64: "t \<in> json_tables \<Longrightarrow> e \<in> set t \<Longrightarrow> je_Action e = JSON_ACTION_SET_VARIABLE i \<Longrightarrow> je_DecodeBase64 e"
  by (auto simp: json_tables_def json_table_defs)

lemma ProcessFunction_only:
  assumes l: "variable_laws (up_U E)" "alloc_keeps_vars (up_U E)" and t: "t \<in> json_tables"
    and r: "ProcessFunction E t e (z, s) = Some (st, z', s')" and o: "only_mailboxes (up_U E) (table_mailboxes t) a s"
  shows "only_mailboxes (up_U E) (table_mailboxes t) a s'"
proof -
  consider "s' = s" | q je v n w s1 where "q \<in> set t" "je = je_DecodeBase64 q" "decode_value E je v n s = Some (w, s1)"
      "s' = s1 \<or> (\<exists>b k i. w = Inr (b, k) \<and> je_Action q = JSON_ACTION_SET_VARIABLE i
        \<and> set_mailbox E (mJsonSetVariableEntryMailbox ! i) b k s1 = Some (st, s'))"
  proof -
    assume 1: "s' = s \<Longrightarrow> thesis" and 2: "\<And>q je v n w s1. q \<in> set t \<Longrightarrow> je = je_DecodeBase64 q \<Longrightarrow> decode_value E je v n s = Some (w, s1)
      \<Longrightarrow> s' = s1 \<or> (\<exists>b k i. w = Inr (b, k) \<and> je_Action q = JSON_ACTION_SET_VARIABLE i
        \<and> set_mailbox E (mJsonSetVariableEntryMailbox ! i) b k s1 = Some (st, s')) \<Longrightarrow> thesis"
    show thesis
      using r 1 by (auto simp: ProcessFunction_def find_Some_iff split: option.splits Option.bind_splits sum.splits prod.splits json_action.splits
          intro!: 2 [OF nth_mem refl])
  qed
  then show ?thesis
  proof cases
    case 1
    then show ?thesis using o by simp
  next
    case 2
    note o1 = only_mailboxes_step [OF o decode_value_vars [OF l(2) 2(3)]]
    from 2(4) show ?thesis
    proof (elim disjE exE conjE)
      fix b k i
      assume w: "w = Inr (b, k)" "je_Action q = JSON_ACTION_SET_VARIABLE i"
        and sm: "set_mailbox E (mJsonSetVariableEntryMailbox ! i) b k s1 = Some (st, s')"
      have "je" using json_tables_base64 [OF t 2(1) w(2)] 2(2) by simp
      then have b: "b = take k b @ [0]" using decode_value_base64 2(3) w(1) by auto
      show ?thesis
        by (rule set_mailbox_only [OF l(1) _ table_mailboxes_subset [OF t] b sm o1]) (use 2(1) w(2) in \<open>auto simp: table_mailboxes_def\<close>)
    qed (use o1 in simp)
  qed
qed

lemma DfciUpdateFromJson_only:
  assumes l: "variable_laws (up_U E)" "alloc_keeps_vars (up_U E)" "json_calls E" and t: "t \<in> json_tables"
    and r: "DfciUpdateFromJson E js n t (z, s) = Some (st, z', s')"
  shows "only_mailboxes (up_U E) (table_mailboxes t) s s'"
proof -
  define P where "P x \<longleftrightarrow> only_mailboxes (up_U E) (table_mailboxes t) s (snd x)" for x :: "status_zone \<times> 'a"
  have "P (z', s')"
  proof (rule json_callsD [OF l(3) r [unfolded DfciUpdateFromJson_def]])
    show "P (z, s)" by (simp add: P_def same_vars_only)
    show "P y'" if "P y" "ProcessFunction E t e y = Some (st, y')" for e y st y'
      using that ProcessFunction_only [OF l(1,2) t] by (cases y, cases y') (auto simp: P_def)
  qed
  then show ?thesis by (simp add: P_def)
qed

text \<open>The mailboxes of the tables are those of the manager, with the signatures it checks.\<close>

lemma mailbox_of_manager:
  assumes "m \<in> set mJsonSetVariableEntryMailbox" "holds_packet U m s"
  shows "\<exists>k rn sig dec prot d. (k, jm_MailboxName m, rn, jm_MailboxNamespace m, sig, dec, prot) \<in> set (mailboxes ME)
    \<and> GetVariable U (jm_MailboxName m) (jm_MailboxNamespace m) s = (EFI_SUCCESS, d, 7) \<and> rd32 d 0 = Some sig"
proof -
  obtain d where d: "GetVariable U (jm_MailboxName m) (jm_MailboxNamespace m) s = (EFI_SUCCESS, d, jm_MailboxAttributes m)" "rd32 d 0 = Some (jm_Signature m)"
    using assms(2) by (auto simp: holds_packet_def)
  have a: "jm_MailboxAttributes m = 7" using assms(1) by (auto simp: mJsonSetVariableEntryMailbox_def)
  have "\<exists>k rn dec prot. (k, jm_MailboxName m, rn, jm_MailboxNamespace m, jm_Signature m, dec, prot) \<in> set (mailboxes ME)"
    using assms(1) unfolding mJsonSetVariableEntryMailbox_def by (auto simp: mailboxes_def)
  then show ?thesis using d a by metis
qed

text \<open>
  Whatever a server or a USB drive sends, an update through JSON changes no variable
  except the mailboxes the manager reads, and a mailbox it changes holds a packet that starts with
  the signature the manager expects there, with the attributes of the mailbox.
\<close>

theorem update_only_fills_mailboxes:
  assumes l: "variable_laws (up_U E)" "alloc_keeps_vars (up_U E)" "json_calls E" and t: "t \<in> json_tables"
    and r: "DfciUpdateFromJson E js n t (z, s) = Some (st, z', s')"
    and c: "GetVariable (up_U E) name g s' \<noteq> GetVariable (up_U E) name g s"
  shows "\<exists>k rn sig dec prot d. (k, name, rn, g, sig, dec, prot) \<in> set (mailboxes ME)
    \<and> GetVariable (up_U E) name g s' = (EFI_SUCCESS, d, 7) \<and> rd32 d 0 = Some sig"
proof -
  obtain m where m: "m \<in> set mJsonSetVariableEntryMailbox" "name = jm_MailboxName m" "g = jm_MailboxNamespace m" "holds_packet (up_U E) m s'"
    using DfciUpdateFromJson_only [OF l t r] c table_mailboxes_subset [OF t] unfolding only_mailboxes_def by blast
  show ?thesis using mailbox_of_manager [OF m(1,4)] m(2,3) by simp
qed

definition demo_packet :: bytes where
  "demo_packet = [0x4D, 0x53, 0x50, 0x41, 2]"

definition demo_update :: "demo_state update_env" where
  "demo_update = \<lparr>up_M = \<lparr>mu_U = demo_platform, mu_LocateSettingAccess = (\<lambda>s. EFI_SUCCESS), mu_SettingGet = (\<lambda>i t n s. Some (EFI_NOT_FOUND, n, [])),
       mu_Ids = \<lparr>DfciIdSupportGetManufacturer = (\<lambda>s. (EFI_SUCCESS, to_bytes ''M:1'' @ [0])), DfciIdSupportGetProductName = (\<lambda>s. (EFI_SUCCESS, to_bytes ''P'' @ [0])),
         DfciIdSupportGetSerialNumber = (\<lambda>s. (EFI_SUCCESS, to_bytes ''7'' @ [0]))\<rparr>, mu_HiiSetString = (\<lambda>i t s. (i, s))\<rparr>,
     up_Base64Decode = (\<lambda>v b n. if b then (EFI_SUCCESS, 5, demo_packet) else (EFI_BUFFER_TOO_SMALL, 5, [])),
     up_JsonLibParse = (\<lambda>js n f x. f (Some \<lparr>jr_FieldName = Some ''ProvisioningPacket'', jr_FieldLen = 18, jr_Value = Some ''TVNQQQI='', jr_ValueLen = 8\<rparr>) x),
     up_JsonLibEncode = (\<lambda>es s. (EFI_SUCCESS, to_bytes ''{}'' @ [0], s)),
     up_FileSystems = (\<lambda>s. (EFI_SUCCESS, []))\<rparr>"

lemma demo_update_laws: "up_U demo_update = demo_platform" "json_calls demo_update"
  by (auto simp: demo_update_def json_calls_def)

lemma demo_update_run:
  "DfciUpdateFromJson demo_update [] 0 mRecoveryResponse (no_status, \<lparr>dm_vars = [], dm_docs = []\<rparr>)
     = Some (EFI_MEDIA_CHANGED, no_status, \<lparr>dm_vars = [((''DfciIdentityApply'', gDfciAuthProvisionVarNamespace), (demo_packet, 7))], dm_docs = []\<rparr>)"
  by (simp add: DfciUpdateFromJson_def ProcessFunction_def demo_update_def decode_value_def set_mailbox_def json_table_defs AsciiStrnCmp_eq_def
      demo_simps demo_packet_def rd32_def rd_def mJsonSetVariableEntryMailbox_def)

theorem update_only_fills_mailboxes_witness:
  "\<exists>k rn sig dec prot d. (k, ''DfciIdentityApply'', rn, gDfciAuthProvisionVarNamespace, sig, dec, prot) \<in> set (mailboxes (undefined :: unit manager_env))
    \<and> GetVariable demo_platform ''DfciIdentityApply'' gDfciAuthProvisionVarNamespace
        \<lparr>dm_vars = [((''DfciIdentityApply'', gDfciAuthProvisionVarNamespace), (demo_packet, 7))], dm_docs = []\<rparr> = (EFI_SUCCESS, d, 7) \<and> rd32 d 0 = Some sig"
  using update_only_fills_mailboxes [OF _ _ demo_update_laws(2) _ demo_update_run, of "''DfciIdentityApply''" gDfciAuthProvisionVarNamespace
      "undefined :: unit manager_env"]
  by (simp add: demo_update_laws demo_laws json_tables_def demo_simps)

section \<open>File names\<close>

lemma invalid_at: "\<not> invalid_char CHR ''@''"
  by (simp add: invalid_char_def)

text \<open>
  The name of the update file on a USB drive is built from the serial number, the
  product and the manufacturer; it has no character that a file name must not have, fits into its
  buffer with the extension, and is never longer than 255 characters.
\<close>

theorem usb_file_name_is_valid:
  assumes "alloc_succeeds (up_U E)" "up_M E = M" "mu_Ids M = I"
    and "DfciIdSupportGetSerialNumber I s = (EFI_SUCCESS, to_bytes sn @ [0])" "DfciIdSupportGetProductName I s = (EFI_SUCCESS, to_bytes pn @ [0])"
      "DfciIdSupportGetManufacturer I s = (EFI_SUCCESS, to_bytes mf @ [0])"
    and "cstring sn" "cstring pn" "cstring mf" and ext: "length ext \<le> 4" "\<forall>c\<in>set ext. \<not> invalid_char c"
  shows "\<exists>name s'. BuildUsbRequest E ext s = Some (EFI_SUCCESS, Some (name @ ext), s')
    \<and> name = map (\<lambda>c. if invalid_char c then CHR ''@'' else c) (take 251 (sn @ ''_'' @ pn @ ''_'' @ mf))
    \<and> length (name @ ext) \<le> 255 \<and> (\<forall>c\<in>set (name @ ext). \<not> invalid_char c)"
proof -
  obtain s1 where a: "AllocatePool (up_U E) 512 s = (True, s1)" using alloc_succeedsD [OF assms(1)] by (metis surj_pair)
  define t where "t = take 251 (sn @ CHR ''_'' # pn @ CHR ''_'' # mf)"
  have t: "t \<noteq> []" "length t \<le> 251" by (simp_all add: t_def)
  have "BuildUsbRequest E ext s = Some (EFI_SUCCESS, Some (map (\<lambda>c. if invalid_char c then CHR ''@'' else c) t @ ext), s1)"
    using a t ext(1) assms(2-9)
    by (simp add: BuildUsbRequest_def DfciGetSystemInfo_def DfciFreeSystemInfo_def no_info_def deref_def buf_string_to_bytes Let_def del: take_append length_append flip: t_def)
  then show ?thesis using t ext by (auto simp: t_def [symmetric] invalid_at simp del: take_append)
qed

theorem usb_file_name_is_valid_witness:
  "\<exists>name s'. BuildUsbRequest demo_update ''.Dfi'' \<lparr>dm_vars = [], dm_docs = []\<rparr> = Some (EFI_SUCCESS, Some (name @ ''.Dfi''), s')
    \<and> name = map (\<lambda>c. if invalid_char c then CHR ''@'' else c) (take 251 (''7'' @ ''_'' @ ''P'' @ ''_'' @ ''M:1''))
    \<and> length (name @ ''.Dfi'') \<le> 255 \<and> list_all (\<lambda>c. \<not> invalid_char c) (name @ ''.Dfi'')"
  using usb_file_name_is_valid [of demo_update "up_M demo_update" "mu_Ids (up_M demo_update)" "\<lparr>dm_vars = [], dm_docs = []\<rparr>" "''7''" "''P''" "''M:1''" "''.Dfi''"]
  by (simp add: demo_update_laws(1) demo_laws) (simp add: demo_update_def cstring_def NUL_def invalid_char_def)

text \<open>
  When the serial number is known and the manufacturer is not, building the name frees
  the serial number twice: the error exit of \<open>DfciGetSystemInfo\<close> frees it and \<open>BuildUsbRequest\<close>
  frees the same pointers again.
\<close>

theorem usb_request_frees_twice:
  assumes "DfciIdSupportGetSerialNumber (mu_Ids (up_M E)) s = (EFI_SUCCESS, sn)" "DfciIdSupportGetManufacturer (mu_Ids (up_M E)) s = (st, mf)" "EFI_ERROR st"
  shows "BuildUsbRequest E ext s = None"
  using assms by (simp add: BuildUsbRequest_def DfciGetSystemInfo_def DfciFreeSystemInfo_def no_info_def)

theorem usb_request_frees_twice_witness:
  "BuildUsbRequest (demo_update\<lparr>up_M := (up_M demo_update)\<lparr>mu_Ids := (mu_Ids (up_M demo_update))\<lparr>DfciIdSupportGetManufacturer := (\<lambda>s. (EFI_NOT_FOUND, []))\<rparr>\<rparr>\<rparr>)
     ''.Dfi'' \<lparr>dm_vars = [], dm_docs = []\<rparr> = None"
  by (rule usb_request_frees_twice [of _ _ "to_bytes ''7'' @ [0]" EFI_NOT_FOUND "[]"]) (simp_all add: demo_update_def)

text \<open>
  A drive whose file opens but gives no file information ends the search with the status of
  opening it: a success without a buffer.
\<close>

lemma usb_success_without_file:
  assumes "up_FileSystems E s = (EFI_SUCCESS, [h])" "fs_DevicePath h" "fs_Usb h = EFI_SUCCESS" "fs_BlockIo h = EFI_SUCCESS" "fs_SimpleFs h = EFI_SUCCESS"
    "fs_OpenVolume h = EFI_SUCCESS" "fs_Open h f = EFI_SUCCESS" "fs_FileSize h f = None"
  shows "DfciRequestJsonFromUSB E (Some f) s = None"
  using assms by (simp add: DfciRequestJsonFromUSB_def FindUsbDriveWithDfciUpdate_def)

text \<open>A search that finds a file returns it whole, with a NUL added.\<close>

lemma find_update_file:
  "find_update E f hs st b s = (st', Some (Ptr d, n), s') \<Longrightarrow> b = None \<or> (\<exists>k. b = Some (NullPtr, k))
    \<Longrightarrow> \<exists>h c x. h \<in> set hs \<and> fs_FileSize h f = Some (length c) \<and> fs_Read h f = (x, c) \<and> \<not> EFI_ERROR x \<and> d = c @ [0] \<and> n = length d
      \<and> length c \<le> MAX_DFI_FILE_SIZE"
proof (induction hs arbitrary: st b s)
  case (Cons h hs)
  note ih = Cons.IH
  show ?case
    using Cons.prems by (auto split: if_splits option.splits prod.splits dest!: ih)
qed auto

end
