(* ===== verification/Http_Client.thy ===== *)
theory Http_Client
  imports Dfci_Update
begin

text \<open>
  The HTTP client of the DFCI menu (\<open>DfciRequest.c\<close>): waiting for events, configuring the network
  interface, building and sending a request, collecting the answer, and the retries.  Events, the
  IPv4 configuration, the HTTP protocol and the URL and header functions of the HTTP library are the
  record \<open>http_env\<close>.  An answer is delivered asynchronously: \<open>he_Message\<close> is what the stack has stored in
  the response token when the wait is over.

  Two loops of the code end only if the environment cooperates: waiting ends when the timer fires,
  collecting a body when every answer brings data.  They are partial functions (\<open>None\<close>: the loop
  never ends, or the behaviour is undefined), and the theory proves that they return under these
  two conditions.  It also bounds the number of requests and the delays of the retries, and shows
  what a content length of all ones does.
\<close>

section \<open>Services\<close>

abbreviation (input) EFI_TIMEOUT :: EFI_STATUS where "EFI_TIMEOUT \<equiv> 0x8000000000000012"
abbreviation (input) EFI_NO_MEDIA :: EFI_STATUS where "EFI_NO_MEDIA \<equiv> 0x800000000000000C"

lemma EFI_ERROR_net [status_simps, simp]: "EFI_ERROR EFI_TIMEOUT" "EFI_ERROR EFI_NO_MEDIA"
  by (simp_all add: EFI_ERROR_def)

datatype net_event = WaitEvent | HttpEvent | TimeOutEvent

datatype http_method = HttpMethodGet | HttpMethodPost

datatype ip4_data = PolicyStatic | PolicyDhcp | NoManualAddress | NoGateway

text \<open>A stored answer: the status code if one arrived, the headers, and the bytes written to the body buffer.\<close>

record http_message =
  hm_StatusCode :: "http_status_code option"
  hm_Headers :: "(string \<times> string) list"
  hm_Body :: bytes

record 's http_env =
  he_E :: "'s update_env"
  he_CreateEvent :: "'s \<Rightarrow> EFI_STATUS \<times> 's"
  he_SetTimer :: "u64 \<Rightarrow> 's \<Rightarrow> EFI_STATUS \<times> 's"
  he_Poll :: "'s \<Rightarrow> 's"
  he_CheckEvent :: "net_event \<Rightarrow> 's \<Rightarrow> EFI_STATUS \<times> 's"
  he_Ip4Config2 :: "nat option \<Rightarrow> 's \<Rightarrow> EFI_STATUS"
  he_SetData :: "nat option \<Rightarrow> ip4_data \<Rightarrow> 's \<Rightarrow> EFI_STATUS \<times> 's"
  he_GetManualAddress :: "nat option \<Rightarrow> 's \<Rightarrow> EFI_STATUS \<times> u8"
  he_GetInterfaceInfoSize :: "nat option \<Rightarrow> 's \<Rightarrow> EFI_STATUS \<times> nat"
  he_GetInterfaceInfo :: "nat option \<Rightarrow> nat \<Rightarrow> 's \<Rightarrow> EFI_STATUS \<times> u8"
  he_CreateChild :: "'s \<Rightarrow> EFI_STATUS \<times> 's"
  he_LocateHttp :: "'s \<Rightarrow> EFI_STATUS"
  he_Configure :: "bool \<Rightarrow> 's \<Rightarrow> EFI_STATUS \<times> 's"
  he_DestroyChild :: "'s \<Rightarrow> EFI_STATUS \<times> 's"
  he_HttpParseUrl :: "string \<Rightarrow> EFI_STATUS"
  he_HttpUrlGetHostName :: "string \<Rightarrow> EFI_STATUS \<times> string"
  he_HttpFindHeader :: "(string \<times> string) list \<Rightarrow> string \<Rightarrow> string option"
  he_PrintDecimal :: "nat \<Rightarrow> string"
  he_Request :: "http_method \<Rightarrow> string \<Rightarrow> (string \<times> string) list \<Rightarrow> bytes \<Rightarrow> 's \<Rightarrow> EFI_STATUS \<times> 's"
  he_Response :: "nat \<Rightarrow> 's \<Rightarrow> EFI_STATUS \<times> 's"
  he_Message :: "'s \<Rightarrow> http_message"
  he_Cancel :: "'s \<Rightarrow> EFI_STATUS \<times> 's"

abbreviation he_U :: "'s http_env \<Rightarrow> 's platform" where "he_U H \<equiv> up_U (he_E H)"

section \<open>Waiting\<close>

abbreviation (input) TIMER_PERIOD_1s :: u64 where "TIMER_PERIOD_1s \<equiv> 10000000"
abbreviation (input) DHCP_TIMEOUT :: u64 where "DHCP_TIMEOUT \<equiv> 1800000000"
abbreviation (input) HTTP_TIMEOUT :: u64 where "HTTP_TIMEOUT \<equiv> 900000000"

text \<open>\<open>req\<close> is \<open>None\<close> without a network request, otherwise whether its HTTP protocol pointer is set.\<close>

definition check_main :: "'s http_env \<Rightarrow> bool option \<Rightarrow> net_event \<Rightarrow> 's \<Rightarrow> bool \<times> 's" where
  "check_main H req MainEvent s = (case req of None \<Rightarrow> (False, s)
     | Some http \<Rightarrow> (case he_CheckEvent H MainEvent (if http then he_Poll H s else s) of (Status, s1) \<Rightarrow> (Status = EFI_SUCCESS, s1)))"

partial_function (option) wait_loop :: "'s http_env \<Rightarrow> bool option \<Rightarrow> net_event \<Rightarrow> 's \<Rightarrow> (EFI_STATUS \<times> 's) option" where
  "wait_loop H req MainEvent s = (case check_main H req MainEvent s of (signalled, s1) \<Rightarrow>
     if signalled then Some (EFI_SUCCESS, s1)
     else case he_CheckEvent H TimeOutEvent s1 of (Status, s2) \<Rightarrow>
       if Status = EFI_SUCCESS then Some (EFI_TIMEOUT, s2) else wait_loop H req MainEvent s2)"

definition EventWait :: "'s http_env \<Rightarrow> bool option \<Rightarrow> net_event \<Rightarrow> u64 \<Rightarrow> 's \<Rightarrow> (EFI_STATUS \<times> 's) option" where
  "EventWait H req MainEvent Timeout s = (case he_CreateEvent H s of (Status, s1) \<Rightarrow>
     if EFI_ERROR Status then Some (Status, s1)
     else case he_SetTimer H Timeout s1 of (Status, s2) \<Rightarrow>
       if EFI_ERROR Status then Some (Status, s2) else wait_loop H req MainEvent s2)"

section \<open>Network interface\<close>

text \<open>
  The handler of the timer that polls for an address: whether it signals the wait event (if that
  exists).  It does so when the interface has an address, and when it cannot be asked.
\<close>

definition TimerTick :: "'s http_env \<Rightarrow> nic_zone \<Rightarrow> 's \<Rightarrow> bool \<times> 's" where
  "TimerTick H nic s =
     (if EFI_ERROR (he_Ip4Config2 H (nc_NicHandle nic) s) then (nc_WaitEvent nic, s)
      else case he_GetInterfaceInfoSize H (nc_NicHandle nic) s of (Status, DataSize) \<Rightarrow>
        if EFI_BUFFER_TOO_SMALL \<noteq> Status then (False, s)
        else case AllocatePool (he_U H) DataSize s of (ok, s1) \<Rightarrow>
          if \<not> ok then (False, s1)
          else case he_GetInterfaceInfo H (nc_NicHandle nic) DataSize s1 of (Status, addr) \<Rightarrow>
            (\<not> EFI_ERROR Status \<and> addr \<noteq> 0 \<and> nc_WaitEvent nic, s1))"

definition UnconfigureNIC :: "'s http_env \<Rightarrow> nat option \<Rightarrow> 's \<Rightarrow> EFI_STATUS \<times> 's" where
  "UnconfigureNIC H nic s =
     (if EFI_ERROR (he_Ip4Config2 H nic s) then (he_Ip4Config2 H nic s, s)
      else case he_SetData H nic PolicyStatic s of (Status, s1) \<Rightarrow>
        if EFI_ERROR Status then (Status, s1)
        else case he_SetData H nic NoManualAddress s1 of (Status, s2) \<Rightarrow>
          if EFI_ERROR Status then (Status, s2) else he_SetData H nic NoGateway s2)"

definition set_wait_event :: "bool \<Rightarrow> network_request \<Rightarrow> network_request" where
  "set_wait_event b q = q\<lparr>nq_Nic := (nq_Nic q)\<lparr>nc_WaitEvent := b\<rparr>\<rparr>"

text \<open>When the IPv4 protocol is gone the second time it is asked for, the wait event is left behind.\<close>

definition ConfigureDHCP :: "'s http_env \<Rightarrow> network_request \<Rightarrow> 's \<Rightarrow> (EFI_STATUS \<times> network_request \<times> 's) option" where
  "ConfigureDHCP H q s = (case he_CreateEvent H s of (Status, s1) \<Rightarrow>
     if EFI_ERROR Status then Some (Status, q, s1)
     else let q = set_wait_event True q in
       case UnconfigureNIC H (nc_NicHandle (nq_Nic q)) s1 of (Status, s2) \<Rightarrow>
       if EFI_ERROR Status then Some (Status, set_wait_event False q, s2)
       else if EFI_ERROR (he_Ip4Config2 H (nc_NicHandle (nq_Nic q)) s2) then Some (he_Ip4Config2 H (nc_NicHandle (nq_Nic q)) s2, q, s2)
       else case he_SetData H (nc_NicHandle (nq_Nic q)) PolicyDhcp s2 of (_, s3) \<Rightarrow>
         let q = q\<lparr>nq_Nic := (nq_Nic q)\<lparr>nc_DhcpRequested := True\<rparr>\<rparr> in
         case he_CreateEvent H s3 of (Status, s4) \<Rightarrow>
         if EFI_ERROR Status then Some (Status, set_wait_event False q, s4)
         else case he_SetTimer H TIMER_PERIOD_1s s4 of (Status, s5) \<Rightarrow>
         if EFI_ERROR Status then Some (Status, set_wait_event False q, s5)
         else do {
           (Status, s6) \<leftarrow> EventWait H (Some (ht_HttpProtocol (nq_Http q))) WaitEvent DHCP_TIMEOUT s5;
           Some (Status, set_wait_event False q, s6) })"

definition ConfigureHTTP :: "'s http_env \<Rightarrow> network_request \<Rightarrow> 's \<Rightarrow> (EFI_STATUS \<times> network_request \<times> 's) option" where
  "ConfigureHTTP H q s =
     (if ht_LocalAddressIsIPv6 (nq_Http q) then Some (EFI_UNSUPPORTED, q, s)
      else let q = q\<lparr>nq_Http := (nq_Http q)\<lparr>ht_HttpVersion11 := True, ht_LocalAddressIsIPv6 := False, ht_IPv4Node := True\<rparr>,
                 nq_Nic := (nq_Nic q)\<lparr>nc_UseDefaultAddress := True\<rparr>\<rparr>;
               nic = nc_NicHandle (nq_Nic q) in
      if EFI_ERROR (he_Ip4Config2 H nic s) then Some (he_Ip4Config2 H nic s, q, s)
      else do {
        (Status, q, s1) \<leftarrow> (case he_GetManualAddress H nic s of (Status, addr) \<Rightarrow>
           if EFI_ERROR Status \<or> addr = 0 then ConfigureDHCP H q s else Some (Status, q, s));
        if EFI_ERROR Status then Some (Status, q, s1)
        else case he_CreateChild H s1 of (Status, s2) \<Rightarrow>
          if EFI_ERROR Status then Some (Status, q, s2)
          else if EFI_ERROR (he_LocateHttp H s2) then Some (he_LocateHttp H s2, q\<lparr>nq_Http := (nq_Http q)\<lparr>ht_HttpProtocol := False\<rparr>\<rparr>, s2)
          else case he_Configure H True s2 of (Status, s3) \<Rightarrow>
            Some (Status, q\<lparr>nq_Http := (nq_Http q)\<lparr>ht_HttpProtocol := True\<rparr>\<rparr>, s3) })"

section \<open>One request\<close>

fun alloc_all :: "'s platform \<Rightarrow> nat list \<Rightarrow> 's \<Rightarrow> bool \<times> 's" where
  "alloc_all U [] s = (True, s)"
| "alloc_all U (n # ns) s = (case AllocatePool U n s of (ok, s1) \<Rightarrow> case alloc_all U ns s1 of (oks, s2) \<Rightarrow> (ok \<and> oks, s2))"

text \<open>The strings are copied into buffers with their NUL; a copy that fails is noticed only after all have been made.\<close>

definition DfciBuildRequestHeaders :: "'s http_env \<Rightarrow> string \<Rightarrow> nat \<Rightarrow> string \<Rightarrow> 's \<Rightarrow> EFI_STATUS \<times> (string \<times> string) list \<times> 's" where
  "DfciBuildRequestHeaders H Url BodyLength ContentType s =
     (case AllocatePool (he_U H) (16 * (if BodyLength \<noteq> 0 then 5 else 4)) s of (ok, s1) \<Rightarrow>
      if \<not> ok then (EFI_OUT_OF_RESOURCES, [], s1)
      else if EFI_ERROR (he_HttpParseUrl H Url) then (he_HttpParseUrl H Url, [], s1)
      else case alloc_all (he_U H) [5, 11, 11, 7, 4, 15, length (he_PrintDecimal H BodyLength) + 1] s1 of (ok, s2) \<Rightarrow>
        if \<not> ok then (EFI_OUT_OF_RESOURCES, [], s2)
        else case he_HttpUrlGetHostName H Url of (Status, Host) \<Rightarrow>
          if EFI_ERROR Status then (Status, [], s2)
          else let hs = [(''Host'', Host), (''User-Agent'', ''DFCI-Agent''), (''Accept'', ''*/*''), (''Content-Length'', he_PrintDecimal H BodyLength)] in
            if BodyLength = 0 then (Status, hs, s2)
            else case alloc_all (he_U H) [13, length ContentType + 1] s2 of (ok, s3) \<Rightarrow>
              if \<not> ok then (EFI_OUT_OF_RESOURCES, [], s3) else (Status, hs @ [(''Content-Type'', ContentType)], s3))"

definition DfciIssueRequest :: "'s http_env \<Rightarrow> network_request \<Rightarrow> http_method \<Rightarrow> string \<Rightarrow> (string \<times> string) list \<Rightarrow> bytes \<Rightarrow> 's
    \<Rightarrow> (EFI_STATUS \<times> 's) option" where
  "DfciIssueRequest H q Method Url Headers Body s = (case he_CreateEvent H s of (Status, s1) \<Rightarrow>
     if EFI_ERROR Status then Some (Status, s1)
     else case he_Request H Method Url Headers Body s1 of (Status, s2) \<Rightarrow>
       if EFI_ERROR Status then Some (Status, s2)
       else do {
         (Status, s3) \<leftarrow> EventWait H (Some (ht_HttpProtocol (nq_Http q))) HttpEvent HTTP_TIMEOUT s2;
         Some (Status, if EFI_ERROR Status then snd (he_Cancel H s3) else s3) })"

text \<open>
  \<open>ResponseData\<close>: whether the token has a place for the status code, as it has for the first answer of a
  request; the code stores it whether or not the wait succeeded.
\<close>

definition DfciGetResponse :: "'s http_env \<Rightarrow> network_request \<Rightarrow> bool \<Rightarrow> nat \<Rightarrow> 's
    \<Rightarrow> (EFI_STATUS \<times> http_message \<times> network_request \<times> 's) option" where
  "DfciGetResponse H q ResponseData BodyLength s = (case he_CreateEvent H s of (Status, s1) \<Rightarrow>
     if EFI_ERROR Status then Some (Status, he_Message H s1, q, s1)
     else case he_Response H BodyLength s1 of (Status, s2) \<Rightarrow>
       if EFI_ERROR Status then Some (Status, he_Message H s2, q, s2)
       else do {
         (Status, s3) \<leftarrow> EventWait H (Some (ht_HttpProtocol (nq_Http q))) HttpEvent HTTP_TIMEOUT s2;
         let s4 = (if EFI_ERROR Status then snd (he_Cancel H s3) else s3);
         let m = he_Message H s4;
         Some (Status, m, if ResponseData then q\<lparr>nq_Status := (nq_Status q)\<lparr>hs_HttpStatus :=
             (case hm_StatusCode m of None \<Rightarrow> HTTP_STATUS_UNSUPPORTED_STATUS | Some c \<Rightarrow> c)\<rparr>\<rparr> else q, s4) })"

text \<open>The loop that collects the body into a buffer of \<open>BufferSize\<close> bytes.\<close>

partial_function (option) body_loop :: "'s http_env \<Rightarrow> network_request \<Rightarrow> nat \<Rightarrow> nat \<Rightarrow> bytes \<Rightarrow> 's \<Rightarrow> (EFI_STATUS \<times> bytes \<times> 's) option" where
  "body_loop H q BufferSize ContentLength Packet s =
     (if length Packet < ContentLength then do {
        (Status, m, _, s1) \<leftarrow> DfciGetResponse H q False (ContentLength - length Packet) s;
        if EFI_ERROR Status then Some (Status, [], s1)
        else if length Packet + length (hm_Body m) > BufferSize then None
        else body_loop H q BufferSize ContentLength (Packet @ hm_Body m) s1 }
      else Some (EFI_SUCCESS, Packet, s))"

text \<open>The content length is a 64-bit number; the size of the buffer is the sum with 1, which wraps.\<close>

definition ProcessHttpRequest :: "'s http_env \<Rightarrow> network_request \<Rightarrow> http_method \<Rightarrow> string \<Rightarrow> 's
    \<Rightarrow> (EFI_STATUS \<times> network_request \<times> 's) option" where
  "ProcessHttpRequest H q HttpMethod Url s = (case DfciConvertToCHAR16 (he_U H) Url (length Url) s of (Status, _, s1) \<Rightarrow>
     if EFI_ERROR Status then Some (Status, q, s1)
     else do {
       Body \<leftarrow> (if rq_BodySize (nq_Request q) = 0 then Some []
          else do { b \<leftarrow> deref (rq_Body (nq_Request q)); rd b 0 (rq_BodySize (nq_Request q) - 1) });
       (case DfciBuildRequestHeaders H Url (length Body) ''application/json'' s1 of (Status, Headers, s2) \<Rightarrow>
        if EFI_ERROR Status then Some (Status, q, s2)
        else do {
          (Status, s3) \<leftarrow> DfciIssueRequest H q HttpMethod Url Headers Body s2;
          if EFI_ERROR Status then Some (Status, q, s3)
          else do {
            (Status, m, q, s4) \<leftarrow> DfciGetResponse H q True 0 s3;
            if EFI_ERROR Status then Some (Status, q, s4)
            else let ContentLength = (case he_HttpFindHeader H (hm_Headers m) ''Content-Length'' of None \<Rightarrow> 0
                       | Some v \<Rightarrow> AsciiStrDecimalToUintn (he_U H) (Some v));
                     q = q\<lparr>nq_Response := (nq_Response q)\<lparr>rs_Headers := Some (hm_Headers m), rs_HeaderCount := length (hm_Headers m)\<rparr>\<rparr>
              in if ContentLength = 0 then Some (EFI_SUCCESS, q, s4)
              else case AllocatePool (he_U H) (unat (ContentLength + 1)) s4 of (ok, s5) \<Rightarrow>
                if \<not> ok then Some (EFI_OUT_OF_RESOURCES, q, s5)
                else do {
                  (Status, Packet, s6) \<leftarrow> body_loop H q (unat (ContentLength + 1)) (unat ContentLength) [] s5;
                  if EFI_ERROR Status then Some (Status, q, s6)
                  else if unat ContentLength \<ge> unat (ContentLength + 1) then None
                  else Some (Status, q\<lparr>nq_Response := (nq_Response q)\<lparr>rs_Body := Ptr (take (unat ContentLength) Packet @ [0]),
                         rs_BodySize := unat (ContentLength + 1)\<rparr>\<rparr>, s6) } } }) })"

section \<open>Retries\<close>

abbreviation (input) MIN_DELAY_BEFORE_RETRY :: u64 where "MIN_DELAY_BEFORE_RETRY \<equiv> 1"
abbreviation (input) MAX_DELAY_BEFORE_RETRY :: u64 where "MAX_DELAY_BEFORE_RETRY \<equiv> 24"

definition DelayTable :: "u64 list" where
  "DelayTable = [0, 16, 8, 4, 2, 1]"

text \<open>Whether to retry after an answer, and the delay in seconds.\<close>

definition retry_delay :: "'s http_env \<Rightarrow> network_request \<Rightarrow> bool \<Rightarrow> nat \<Rightarrow> bool \<times> u64" where
  "retry_delay H q RetryOn202 RetryCount =
     (if hs_HttpStatus (nq_Status q) = HTTP_STATUS_429_TOO_MANY_REQUESTS then
        (let d = (case Option.bind (rs_Headers (nq_Response q)) (\<lambda>hs. he_HttpFindHeader H hs ''Retry-After'') of
               None \<Rightarrow> DelayTable ! RetryCount | Some v \<Rightarrow> AsciiStrDecimalToUintn (he_U H) (Some v))
         in (True, if d < MIN_DELAY_BEFORE_RETRY then MIN_DELAY_BEFORE_RETRY
                   else if d > MAX_DELAY_BEFORE_RETRY then MAX_DELAY_BEFORE_RETRY else d))
      else (RetryOn202 \<and> hs_HttpStatus (nq_Status q) = HTTP_STATUS_202_ACCEPTED, DelayTable ! RetryCount))"

text \<open>The loop over the attempts; its argument is \<open>RetryCount\<close> before it is decremented, so 0 is not reached.\<close>

fun retry_loop :: "'s http_env \<Rightarrow> http_method \<Rightarrow> string \<Rightarrow> bool \<Rightarrow> nat \<Rightarrow> network_request \<Rightarrow> 's
    \<Rightarrow> (EFI_STATUS \<times> network_request \<times> 's) option" where
  "retry_loop H HttpMethod Url RetryOn202 0 q s = None"
| "retry_loop H HttpMethod Url RetryOn202 (Suc RetryCount) q s = do {
     (Status, q, s1) \<leftarrow> ProcessHttpRequest H q HttpMethod Url s;
     if EFI_ERROR Status then Some (Status, q, s1)
     else case retry_delay H q RetryOn202 RetryCount of (Retry, DelayInSeconds) \<Rightarrow>
       if Retry \<and> RetryCount > 0 then do {
         (_, s2) \<leftarrow> EventWait H None TimeOutEvent (DelayInSeconds * 10 * 1000 * 1000) s1;
         q \<leftarrow> CleanupNetworkRequest q (CLEANUP_RESPONSE OR CLEANUP_STATUS);
         retry_loop H HttpMethod Url RetryOn202 RetryCount q s2 }
       else Some (Status, q, s1) }"

definition ProcessHttpRequestInternal :: "'s http_env \<Rightarrow> network_request \<Rightarrow> http_method \<Rightarrow> string \<Rightarrow> bool \<Rightarrow> 's
    \<Rightarrow> (EFI_STATUS \<times> network_request \<times> 's) option" where
  "ProcessHttpRequestInternal H q HttpMethod Url RetryOn202 s = do {
     q \<leftarrow> CleanupNetworkRequest q CLEANUP_STATUS;
     retry_loop H HttpMethod Url RetryOn202 6 q s }"

abbreviation (input) gImageHandle :: nat where "gImageHandle \<equiv> 0"

definition ProcessHttpRequestWithRetries :: "'s http_env \<Rightarrow> network_request \<Rightarrow> http_method \<Rightarrow> string \<Rightarrow> bool \<Rightarrow> 's
    \<Rightarrow> (EFI_STATUS \<times> network_request \<times> 's) option" where
  "ProcessHttpRequestWithRetries H q HttpMethod Url RetryOn202 s = do {
     (Status, q, s1) \<leftarrow> ConfigureHTTP H (q\<lparr>nq_Http := (nq_Http q)\<lparr>ht_LocalAddressIsIPv6 := False, ht_HttpChildHandle := Some gImageHandle\<rparr>\<rparr>) s;
     if EFI_ERROR Status then Some (Status, q, s1)
     else do {
       (Status, q, s2) \<leftarrow> ProcessHttpRequestInternal H q HttpMethod Url RetryOn202 s1;
       let s3 = (if ht_HttpProtocol (nq_Http q) then snd (he_Configure H False s2) else s2);
       let s4 = snd (he_DestroyChild H s3);
       q \<leftarrow> CleanupNetworkRequest q CLEANUP_HTTP;
       Some (Status, q, s4) } }"

section \<open>The loops end\<close>

text \<open>
  The timer runs: \<open>clock\<close> bounds how often the time-out event can still be checked before it fires, and
  no other service sets it back.
\<close>

definition timer_runs :: "'s http_env \<Rightarrow> ('s \<Rightarrow> nat) \<Rightarrow> bool" where
  "timer_runs H clock \<longleftrightarrow> (\<forall>s. clock (he_Poll H s) \<le> clock s) \<and> (\<forall>e s. clock (snd (he_CheckEvent H e s)) \<le> clock s)
     \<and> (\<forall>s. fst (he_CheckEvent H TimeOutEvent s) = EFI_SUCCESS \<or> clock (snd (he_CheckEvent H TimeOutEvent s)) < clock s)"

lemma wait_loop_returns:
  assumes t: "timer_runs H clock"
  shows "\<exists>st s'. wait_loop H req e s = Some (st, s')"
proof (induction "clock s" arbitrary: s rule: less_induct)
  case less
  obtain b s1 where c: "check_main H req e s = (b, s1)" by (metis surj_pair)
  obtain st s2 where k: "he_CheckEvent H TimeOutEvent s1 = (st, s2)" by (metis surj_pair)
  have p: "clock (he_Poll H x) \<le> clock x" "clock (snd (he_CheckEvent H e' x)) \<le> clock x" for x e'
    using t by (simp_all add: timer_runs_def)
  have "clock s1 \<le> clock s"
    using c p(1) [of s] p(2) [of e "he_Poll H s"] p(2) [of e s]
    by (auto simp: check_main_def split: option.splits prod.splits if_splits)
  moreover have "st = EFI_SUCCESS \<or> clock s2 < clock s1"
    using t k unfolding timer_runs_def by (metis fst_conv snd_conv)
  ultimately show ?case
    using less [of s2] by (subst wait_loop.simps) (auto simp: c k)
qed

lemma EventWait_returns: "timer_runs H clock \<Longrightarrow> \<exists>st s'. EventWait H req e n s = Some (st, s')"
  using wait_loop_returns by (fastforce simp: EventWait_def split: prod.splits)

text \<open>
  An answer brings data: after a successful wait for a body at least one and at most the requested
  number of bytes have been stored.  The server is honest about lengths when the content length of no
  message it sends is read as the largest number, as \<open>AsciiStrDecimalToUintn\<close> reads every number
  that does not fit; \<open>content_length_of_all_ones\<close> shows what happens otherwise.
\<close>

definition delivers :: "'s http_env \<Rightarrow> bool" where
  "delivers H \<longleftrightarrow> (\<forall>q n s st m q' s'. 0 < n \<longrightarrow> DfciGetResponse H q False n s = Some (st, m, q', s') \<longrightarrow> \<not> EFI_ERROR st
     \<longrightarrow> 0 < length (hm_Body m) \<and> length (hm_Body m) \<le> n)"

definition honest_length :: "'s http_env \<Rightarrow> bool" where
  "honest_length H \<longleftrightarrow> (\<forall>s v. he_HttpFindHeader H (hm_Headers (he_Message H s)) ''Content-Length'' = Some v
     \<longrightarrow> AsciiStrDecimalToUintn (he_U H) (Some v) \<noteq> -1)"

lemma DfciGetResponse_message: "DfciGetResponse H q b n s = Some (st, m, q', s') \<Longrightarrow> \<exists>x. m = he_Message H x"
  by (auto simp: DfciGetResponse_def Let_def split: prod.splits if_splits Option.bind_splits)

lemma DfciGetResponse_returns:
  assumes "timer_runs H clock"
  shows "\<exists>st m z s'. DfciGetResponse H q b n s = Some (st, m, q\<lparr>nq_Status := z\<rparr>, s')
    \<and> (z = nq_Status q \<or> (\<exists>c. z = (nq_Status q)\<lparr>hs_HttpStatus := c\<rparr>))"
proof -
  have u: "q = q\<lparr>nq_Status := nq_Status q\<rparr>" by simp
  obtain st1 s1 where 1: "he_CreateEvent H s = (st1, s1)" by (metis surj_pair)
  obtain st2 s2 where 2: "he_Response H n s1 = (st2, s2)" by (metis surj_pair)
  obtain st3 s3 where 3: "EventWait H (Some (ht_HttpProtocol (nq_Http q))) HttpEvent HTTP_TIMEOUT s2 = Some (st3, s3)"
    using EventWait_returns [OF assms] by blast
  show ?thesis
    unfolding DfciGetResponse_def by (simp add: 1 2 3 Let_def) (metis u)
qed

lemma body_loop_returns:
  assumes t: "timer_runs H clock" and d: "delivers H" and k: "k \<le> B"
  shows "length P \<le> k \<Longrightarrow> \<exists>st P' s'. body_loop H q B k P s = Some (st, P', s') \<and> (EFI_ERROR st \<or> length P' = k)"
proof (induction "k - length P" arbitrary: P s rule: less_induct)
  case less
  show ?case
  proof (cases "length P < k")
    case False
    then show ?thesis using less.prems by (subst body_loop.simps) auto
  next
    case True
    obtain st m z s1 where g: "DfciGetResponse H q False (k - length P) s = Some (st, m, q\<lparr>nq_Status := z\<rparr>, s1)"
      using DfciGetResponse_returns [OF t] by blast
    show ?thesis
    proof (cases "EFI_ERROR st")
      case True
      then show ?thesis using g \<open>length P < k\<close> by (subst body_loop.simps) auto
    next
      case False
      have l: "0 < length (hm_Body m)" "length (hm_Body m) \<le> k - length P"
        using d g False True unfolding delivers_def by (metis zero_less_diff)+
      then have "k - length (P @ hm_Body m) < k - length P" "length (P @ hm_Body m) \<le> k" using True by (simp_all del: length_greater_0_conv)
      from less.hyps [OF this] show ?thesis
        using g False True l k by (subst body_loop.simps) auto
    qed
  qed
qed

text \<open>A request with intact pointers and a readable body.\<close>

definition sendable :: "network_request \<Rightarrow> bool" where
  "sendable q \<longleftrightarrow> intact q \<and> (rq_BodySize (nq_Request q) = 0
     \<or> (\<exists>b. rq_Body (nq_Request q) = Ptr b \<and> rq_BodySize (nq_Request q) \<le> length b + 1))"

text \<open>The result of an exchange: the request part is as before and the pointers are intact.\<close>

definition exchanged :: "network_request \<Rightarrow> network_request \<Rightarrow> bool" where
  "exchanged q q' \<longleftrightarrow> nq_Request q' = nq_Request q \<and> intact q'"

lemma exchanged_sendable: "sendable q \<Longrightarrow> exchanged q q' \<Longrightarrow> sendable q'"
  by (simp add: sendable_def exchanged_def)

lemma exchanged_trans: "exchanged a b \<Longrightarrow> exchanged b c \<Longrightarrow> exchanged a c"
  by (simp add: exchanged_def)

lemma sendable_exchanged: "sendable q \<Longrightarrow> exchanged q q"
  by (simp add: sendable_def exchanged_def)

lemma sendable_body:
  "sendable q \<Longrightarrow> \<exists>b. (if rq_BodySize (nq_Request q) = 0 then Some []
     else do { b \<leftarrow> deref (rq_Body (nq_Request q)); rd b 0 (rq_BodySize (nq_Request q) - 1) }) = Some b"
  by (auto simp: sendable_def deref_def rd_def)

lemma unat_plus_one:
  assumes "(x :: u64) \<noteq> -1"
  shows "unat (x + 1) = unat x + 1"
proof -
  have "unat x \<noteq> unat (-1 :: u64)" using assms by (metis word_unat_eq_iff)
  then have "unat x + 1 < 2 ^ 64" using unat_bound [of x] by (simp add: unsigned_minus_1_eq_mask mask_eq_exp_minus_1)
  then show ?thesis by (simp add: unat_word_ariths)
qed

lemma DfciIssueRequest_returns:
  assumes "timer_runs H clock"
  shows "\<exists>st s'. DfciIssueRequest H q m u h b s = Some (st, s')"
proof -
  obtain st1 s1 where 1: "he_CreateEvent H s = (st1, s1)" by (metis surj_pair)
  obtain st2 s2 where 2: "he_Request H m u h b s1 = (st2, s2)" by (metis surj_pair)
  obtain st3 s3 where 3: "EventWait H (Some (ht_HttpProtocol (nq_Http q))) HttpEvent HTTP_TIMEOUT s2 = Some (st3, s3)"
    using EventWait_returns [OF assms] by blast
  show ?thesis by (simp add: DfciIssueRequest_def 1 2 3)
qed

lemma ProcessHttpRequest_returns:
  assumes t: "timer_runs H clock" and d: "delivers H" and h: "honest_length H" and q: "sendable q"
  shows "\<exists>st q' s'. ProcessHttpRequest H q m u s = Some (st, q', s') \<and> exchanged q q'"
proof -
  obtain st1 w s1 where 1: "DfciConvertToCHAR16 (he_U H) u (length u) s = (st1, w, s1)" by (metis surj_pair)
  obtain b where b: "(if rq_BodySize (nq_Request q) = 0 then Some []
     else do { b \<leftarrow> deref (rq_Body (nq_Request q)); rd b 0 (rq_BodySize (nq_Request q) - 1) }) = Some b"
    using sendable_body [OF q] by blast
  obtain st2 hs s2 where 2: "DfciBuildRequestHeaders H u (length b) ''application/json'' s1 = (st2, hs, s2)" by (metis surj_pair)
  obtain st3 s3 where 3: "DfciIssueRequest H q m u hs b s2 = Some (st3, s3)" using DfciIssueRequest_returns [OF t] by blast
  obtain st4 g z s4 where 4: "DfciGetResponse H q True 0 s3 = Some (st4, g, q\<lparr>nq_Status := z\<rparr>, s4)"
    "z = nq_Status q \<or> (\<exists>c. z = (nq_Status q)\<lparr>hs_HttpStatus := c\<rparr>)"
    using DfciGetResponse_returns [OF t] by blast
  define q2 where "q2 = q\<lparr>nq_Status := z, nq_Response := (nq_Response q)\<lparr>rs_Headers := Some (hm_Headers g), rs_HeaderCount := length (hm_Headers g)\<rparr>\<rparr>"
  define cl where "cl = (case he_HttpFindHeader H (hm_Headers g) ''Content-Length'' of None \<Rightarrow> 0
      | Some v \<Rightarrow> AsciiStrDecimalToUintn (he_U H) (Some v))"
  obtain ok s5 where 5: "AllocatePool (he_U H) (unat (cl + 1)) s4 = (ok, s5)" by (metis surj_pair)
  have "cl \<noteq> -1" using h DfciGetResponse_message [OF 4(1)] by (auto simp: cl_def honest_length_def split: option.splits)
  then have cl: "unat (cl + 1) = unat cl + 1" by (rule unat_plus_one)
  obtain st6 P s6 where 6: "body_loop H q2 (unat (cl + 1)) (unat cl) [] s5 = Some (st6, P, s6)"
    using body_loop_returns [OF t d, of "unat cl" "unat (cl + 1)" "[]" q2 s5] cl by auto
  have ncl: "\<not> unat cl \<ge> unat (cl + 1)" using cl by simp
  have e: "exchanged q (q\<lparr>nq_Status := z\<rparr>)" "exchanged q q2"
    "exchanged q (q2\<lparr>nq_Response := (nq_Response q2)\<lparr>rs_Body := Ptr x, rs_BodySize := n\<rparr>\<rparr>)" for x n
    using q 4(2) by (auto simp: exchanged_def sendable_def intact_def q2_def)
  have "ProcessHttpRequest H q m u s =
     (if EFI_ERROR st1 then Some (st1, q, s1) else if EFI_ERROR st2 then Some (st2, q, s2) else if EFI_ERROR st3 then Some (st3, q, s3)
      else if EFI_ERROR st4 then Some (st4, q\<lparr>nq_Status := z\<rparr>, s4) else if cl = 0 then Some (EFI_SUCCESS, q2, s4)
      else if \<not> ok then Some (EFI_OUT_OF_RESOURCES, q2, s5) else if EFI_ERROR st6 then Some (st6, q2, s6)
      else Some (st6, q2\<lparr>nq_Response := (nq_Response q2)\<lparr>rs_Body := Ptr (take (unat cl) P @ [0]), rs_BodySize := unat (cl + 1)\<rparr>\<rparr>, s6))"
    unfolding ProcessHttpRequest_def b by (simp add: 1 2 3 4(1) 5 6 ncl Let_def flip: q2_def cl_def)
  then show ?thesis using e sendable_exchanged [OF q] by (metis (full_types))
qed

lemma exchanged_clean: "exchanged q q' \<Longrightarrow> exchanged q (q'\<lparr>nq_Response := no_response, nq_Status := no_status\<rparr>)"
  by (auto simp: exchanged_def intact_def no_response_def no_status_def)

lemma retry_loop_returns:
  assumes t: "timer_runs H clock" and d: "delivers H" and h: "honest_length H"
  shows "sendable q \<Longrightarrow> 0 < n \<Longrightarrow> \<exists>st q' s'. retry_loop H m u r n q s = Some (st, q', s') \<and> exchanged q q'"
proof (induction n arbitrary: q s)
  case (Suc n)
  obtain st1 q1 s1 where 1: "ProcessHttpRequest H q m u s = Some (st1, q1, s1)" "exchanged q q1"
    using ProcessHttpRequest_returns [OF t d h Suc.prems(1)] by blast
  obtain b dl where r: "retry_delay H q1 r n = (b, dl)" by (metis surj_pair)
  obtain st2 s2 where 2: "EventWait H None TimeOutEvent (dl * 10 * 1000 * 1000) s1 = Some (st2, s2)"
    using EventWait_returns [OF t] by blast
  let ?q2 = "q1\<lparr>nq_Response := no_response, nq_Status := no_status\<rparr>"
  have c: "CleanupNetworkRequest q1 (CLEANUP_RESPONSE OR CLEANUP_STATUS) = Some ?q2"
    using 1(2) cleanup_masks(2) by (simp add: exchanged_def)
  have e: "exchanged q ?q2" by (rule exchanged_clean [OF 1(2)])
  have s: "sendable ?q2" by (rule exchanged_sendable [OF Suc.prems(1) e])
  show ?case
  proof (cases "\<not> EFI_ERROR st1 \<and> b \<and> 0 < n")
    case True
    then obtain st q' s' where "retry_loop H m u r n ?q2 s2 = Some (st, q', s')" "exchanged ?q2 q'"
      using Suc.IH [OF s] by blast
    then show ?thesis using True 1(1) r 2 c exchanged_trans [OF e] by (auto simp del: or_numerals)
  next
    case False
    then show ?thesis using 1 r by auto
  qed
qed simp

lemma ConfigureDHCP_returns:
  assumes "timer_runs H clock" "sendable q"
  shows "\<exists>st q' s'. ConfigureDHCP H q s = Some (st, q', s') \<and> exchanged q q'"
proof -
  note ev = EventWait_returns [OF assms(1)]
  have i: "exchanged q (set_wait_event b q)" "exchanged q (set_wait_event b (set_wait_event c q))"
    "exchanged q (set_wait_event b ((set_wait_event c q)\<lparr>nq_Nic := n\<rparr>))" for b c n
    using assms(2) by (simp_all add: exchanged_def sendable_def set_wait_event_def)
  show ?thesis
    unfolding ConfigureDHCP_def Let_def
    using i sendable_exchanged [OF assms(2)] ev
    by (auto simp: Option.bind_eq_Some_conv split: prod.splits)
qed

lemma ConfigureHTTP_returns:
  assumes t: "timer_runs H clock" and q: "sendable q"
  shows "\<exists>st q' s'. ConfigureHTTP H q s = Some (st, q', s') \<and> exchanged q q'"
proof -
  define q1 where "q1 = q\<lparr>nq_Http := (nq_Http q)\<lparr>ht_HttpVersion11 := True, ht_LocalAddressIsIPv6 := False, ht_IPv4Node := True\<rparr>,
    nq_Nic := (nq_Nic q)\<lparr>nc_UseDefaultAddress := True\<rparr>\<rparr>"
  have q1: "exchanged q q1" using q by (simp add: q1_def exchanged_def sendable_def)
  have s1: "sendable q1" by (rule exchanged_sendable [OF q q1])
  obtain sa a where g: "he_GetManualAddress H (nc_NicHandle (nq_Nic q1)) s = (sa, a)" by (metis surj_pair)
  obtain st2 q2 s2 where 2: "(if EFI_ERROR sa \<or> a = 0 then ConfigureDHCP H q1 s else Some (sa, q1, s)) = Some (st2, q2, s2)" "exchanged q1 q2"
    using ConfigureDHCP_returns [OF t s1] sendable_exchanged [OF s1] by (metis (full_types))
  have e: "exchanged q q2" by (rule exchanged_trans [OF q1 2(2)])
  then have h: "exchanged q (q2\<lparr>nq_Http := x\<rparr>)" for x by (simp add: exchanged_def)
  show ?thesis
    unfolding ConfigureHTTP_def Let_def q1_def [symmetric] g
    using 2(1) e h q1 sendable_exchanged [OF q] by (auto split: prod.splits)
qed

lemma ProcessHttpRequestWithRetries_returns:
  assumes t: "timer_runs H clock" and d: "delivers H" and h: "honest_length H" and q: "sendable q"
  shows "\<exists>st q' s'. ProcessHttpRequestWithRetries H q m u r s = Some (st, q', s') \<and> exchanged q q'"
proof -
  let ?q0 = "q\<lparr>nq_Http := (nq_Http q)\<lparr>ht_LocalAddressIsIPv6 := False, ht_HttpChildHandle := Some gImageHandle\<rparr>\<rparr>"
  have e0: "exchanged q ?q0" using q by (simp add: exchanged_def sendable_def)
  obtain st1 q1 s1 where 1: "ConfigureHTTP H ?q0 s = Some (st1, q1, s1)" "exchanged ?q0 q1"
    using ConfigureHTTP_returns [OF t exchanged_sendable [OF q e0]] by blast
  have e1: "exchanged q q1" by (rule exchanged_trans [OF e0 1(2)])
  then have c: "CleanupNetworkRequest q1 CLEANUP_STATUS = Some (q1\<lparr>nq_Status := no_status\<rparr>)"
    using cleanup_masks(1) by (simp add: exchanged_def)
  have e2: "exchanged q (q1\<lparr>nq_Status := no_status\<rparr>)" using e1 by (auto simp: exchanged_def intact_def no_status_def)
  obtain st3 q3 s3 where 3: "retry_loop H m u r 6 (q1\<lparr>nq_Status := no_status\<rparr>) s1 = Some (st3, q3, s3)" "exchanged (q1\<lparr>nq_Status := no_status\<rparr>) q3"
    using retry_loop_returns [OF t d h exchanged_sendable [OF q e2]] by (metis zero_less_numeral)
  have "exchanged q (q3\<lparr>nq_Http := no_http\<rparr>)" using exchanged_trans [OF e2 3(2)] by (simp add: exchanged_def)
  then show ?thesis
    using 1(1) 3(1) c e1 by (auto simp: ProcessHttpRequestWithRetries_def ProcessHttpRequestInternal_def cleanup_clear Let_def)
qed

section \<open>How often a server is asked\<close>

text \<open>
  \<open>count\<close> measures what requests cost: sending one raises it by at most \<open>k\<close>, and no other service raises
  it.  With cost 1 it counts the requests; with cost 0 it says that a property of the state is kept.
\<close>

definition counts_requests :: "'s http_env \<Rightarrow> nat \<Rightarrow> ('s \<Rightarrow> nat) \<Rightarrow> bool" where
  "counts_requests H k count \<longleftrightarrow> (\<forall>m u h b s. count (snd (he_Request H m u h b s)) \<le> count s + k)
     \<and> (\<forall>s. count (snd (he_CreateEvent H s)) \<le> count s) \<and> (\<forall>n s. count (snd (he_SetTimer H n s)) \<le> count s)
     \<and> (\<forall>s. count (he_Poll H s) \<le> count s) \<and> (\<forall>e s. count (snd (he_CheckEvent H e s)) \<le> count s)
     \<and> (\<forall>n s. count (snd (he_Response H n s)) \<le> count s) \<and> (\<forall>s. count (snd (he_Cancel H s)) \<le> count s)
     \<and> (\<forall>n d s. count (snd (he_SetData H n d s)) \<le> count s) \<and> (\<forall>s. count (snd (he_CreateChild H s)) \<le> count s)
     \<and> (\<forall>s. count (snd (he_DestroyChild H s)) \<le> count s) \<and> (\<forall>b s. count (snd (he_Configure H b s)) \<le> count s)
     \<and> (\<forall>n s. count (snd (AllocatePool (he_U H) n s)) \<le> count s)"

lemma counts:
  assumes "counts_requests H k count"
  shows "he_Request H m u h b s = (st, s') \<Longrightarrow> count s' \<le> count s + k"
    "he_CreateEvent H s = (st, s') \<Longrightarrow> count s' \<le> count s" "he_SetTimer H n s = (st, s') \<Longrightarrow> count s' \<le> count s"
    "count (he_Poll H s) \<le> count s" "he_CheckEvent H e s = (st, s') \<Longrightarrow> count s' \<le> count s"
    "he_Response H x s = (st, s') \<Longrightarrow> count s' \<le> count s" "count (snd (he_Cancel H s)) \<le> count s"
    "he_SetData H nic d s = (st, s') \<Longrightarrow> count s' \<le> count s" "he_CreateChild H s = (st, s') \<Longrightarrow> count s' \<le> count s"
    "count (snd (he_DestroyChild H s)) \<le> count s" "count (snd (he_Configure H c s)) \<le> count s"
    "AllocatePool (he_U H) x s = (ok, s') \<Longrightarrow> count s' \<le> count s"
  using assms unfolding counts_requests_def by (metis snd_conv)+

lemma check_main_count:
  assumes c: "counts_requests H k count" and r: "check_main H req e s = (b, s')"
  shows "count s' \<le> count s"
proof (cases req)
  case None
  then show ?thesis using r by (simp add: check_main_def)
next
  case (Some x)
  define s0 where "s0 = (if x then he_Poll H s else s)"
  obtain st where "he_CheckEvent H e s0 = (st, s')"
    using r Some by (auto simp: check_main_def s0_def split: prod.splits)
  then have "count s' \<le> count s0" by (rule counts(5) [OF c])
  also have "count s0 \<le> count s" using counts(4) [OF c] by (simp add: s0_def)
  finally show ?thesis .
qed

lemma wait_loop_count:
  "wait_loop H req e s = Some r \<Longrightarrow> counts_requests H k count \<Longrightarrow> count (snd r) \<le> count s"
proof (induction H req e s r rule: wait_loop.raw_induct [rotated, consumes 1, case_names 1])
  case (1 w H req e s r)
  obtain b s1 where c: "check_main H req e s = (b, s1)" by (metis surj_pair)
  obtain st s2 where t: "he_CheckEvent H TimeOutEvent s1 = (st, s2)" by (metis surj_pair)
  have l: "count s1 \<le> count s" "count s2 \<le> count s1"
    using check_main_count [OF 1(3) c] counts(5) [OF 1(3) t] by simp_all
  have "r = (EFI_SUCCESS, s1) \<or> r = (EFI_TIMEOUT, s2) \<or> w H req e s2 = Some r"
    using 1(2) unfolding c t prod.case by (metis option.inject)
  then show ?case
  proof (elim disjE)
    assume w: "w H req e s2 = Some r"
    show ?thesis using 1(1) [OF w 1(3)] l by simp
  qed (use l in simp_all)
qed

lemma EventWait_count:
  assumes c: "counts_requests H k count" and r: "EventWait H req e n s = Some (st, s')"
  shows "count s' \<le> count s"
proof -
  obtain st1 s1 st2 s2 where 1: "he_CreateEvent H s = (st1, s1)" and 2: "he_SetTimer H n s1 = (st2, s2)" by (metis surj_pair)
  have "count s1 \<le> count s" "count s2 \<le> count s1" using counts(2) [OF c 1] counts(3) [OF c 2] by simp_all
  moreover have "s' = s1 \<or> s' = s2 \<or> count s' \<le> count s2"
    using r wait_loop_count [OF _ c] by (fastforce simp: EventWait_def 1 2 split: if_splits)
  ultimately show ?thesis by (elim disjE) simp_all
qed

lemma alloc_all_count:
  assumes c: "counts_requests H k count"
  shows "alloc_all (he_U H) ns s = (ok, s') \<Longrightarrow> count s' \<le> count s"
proof (induction ns arbitrary: s ok)
  case (Cons n ns)
  then obtain a s1 b where "AllocatePool (he_U H) n s = (a, s1)" "alloc_all (he_U H) ns s1 = (b, s')"
    by (auto split: prod.splits)
  then show ?case using counts(12) [OF c] Cons.IH by (metis order_trans)
qed simp

lemma DfciBuildRequestHeaders_count:
  assumes c: "counts_requests H k count" and r: "DfciBuildRequestHeaders H u n t s = (st, hs, s')"
  shows "count s' \<le> count s"
proof -
  obtain a s1 where 1: "AllocatePool (he_U H) (16 * (if n \<noteq> 0 then 5 else 4)) s = (a, s1)" by (metis surj_pair)
  obtain b s2 where 2: "alloc_all (he_U H) [5, 11, 11, 7, 4, 15, length (he_PrintDecimal H n) + 1] s1 = (b, s2)" by (metis surj_pair)
  obtain d s3 where 3: "alloc_all (he_U H) [13, Suc (length t)] s2 = (d, s3)" by (metis surj_pair)
  have "s' \<in> {s1, s2, s3}"
    using r unfolding DfciBuildRequestHeaders_def 1 prod.case 2 by (simp add: 3 Let_def del: alloc_all.simps split: if_splits prod.splits)
  then show ?thesis
    using counts(12) [OF c 1] alloc_all_count [OF c 2] alloc_all_count [OF c 3] by (elim insertE) auto
qed

lemma DfciIssueRequest_count:
  assumes c: "counts_requests H k count" and r: "DfciIssueRequest H q m u h b s = Some (st, s')"
  shows "count s' \<le> count s + k"
proof -
  obtain st1 s1 st2 s2 where 1: "he_CreateEvent H s = (st1, s1)" and 2: "he_Request H m u h b s1 = (st2, s2)" by (metis surj_pair)
  have l: "count s1 \<le> count s" "count s2 \<le> count s1 + k" using counts(2) [OF c 1] counts(1) [OF c 2] by simp_all
  consider "s' = s1" | "s' = s2" | st3 s3 where "EventWait H (Some (ht_HttpProtocol (nq_Http q))) HttpEvent HTTP_TIMEOUT s2 = Some (st3, s3)"
      "s' = s3 \<or> s' = snd (he_Cancel H s3)"
    using r by (auto simp: DfciIssueRequest_def 1 2 split: if_splits Option.bind_splits)
  then show ?thesis
  proof cases
    case 3
    then show ?thesis using EventWait_count [OF c 3(1)] counts(7) [OF c, of s3] l by (elim disjE) simp_all
  qed (use l in simp_all)
qed

lemma DfciGetResponse_count:
  assumes c: "counts_requests H k count" and r: "DfciGetResponse H q b n s = Some (st, m, q', s')"
  shows "count s' \<le> count s"
proof -
  obtain st1 s1 st2 s2 where 1: "he_CreateEvent H s = (st1, s1)" and 2: "he_Response H n s1 = (st2, s2)" by (metis surj_pair)
  have l: "count s1 \<le> count s" "count s2 \<le> count s1" using counts(2) [OF c 1] counts(6) [OF c 2] by simp_all
  consider "s' = s1" | "s' = s2" | st3 s3 where "EventWait H (Some (ht_HttpProtocol (nq_Http q))) HttpEvent HTTP_TIMEOUT s2 = Some (st3, s3)"
      "s' = s3 \<or> s' = snd (he_Cancel H s3)"
    using r by (auto simp: DfciGetResponse_def 1 2 Let_def split: if_splits Option.bind_splits)
  then show ?thesis
  proof cases
    case 3
    then show ?thesis using EventWait_count [OF c 3(1)] counts(7) [OF c, of s3] l by (elim disjE) simp_all
  qed (use l in simp_all)
qed

lemma body_loop_count:
  "body_loop H q B L P s = Some r \<Longrightarrow> counts_requests H k count \<Longrightarrow> count (snd (snd r)) \<le> count s"
proof (induction H q B L P s r rule: body_loop.raw_induct [rotated, consumes 1, case_names 1])
  case (1 w H q B L P s r)
  show ?case
  proof (cases "length P < L")
    case False
    then show ?thesis using 1(2) by auto
  next
    case True
    obtain st m z s1 where g: "DfciGetResponse H q False (L - length P) s = Some (st, m, z, s1)"
      using 1(2) True by (auto split: Option.bind_splits)
    have l: "count s1 \<le> count s" by (rule DfciGetResponse_count [OF 1(3) g])
    have "r = (st, [], s1) \<or> w H q B L (P @ hm_Body m) s1 = Some r"
      using 1(2) True by (auto simp: g split: if_splits)
    then show ?thesis
    proof (elim disjE)
      assume w: "w H q B L (P @ hm_Body m) s1 = Some r"
      show ?thesis using 1(1) [OF w 1(3)] l by simp
    qed (use l in simp)
  qed
qed

lemma DfciConvertToCHAR16_count:
  "counts_requests H k count \<Longrightarrow> DfciConvertToCHAR16 (he_U H) t n s = (st, w, s') \<Longrightarrow> count s' \<le> count s"
  by (auto simp: DfciConvertToCHAR16_def split: prod.splits if_splits dest!: counts(12))

lemma ProcessHttpRequest_count:
  assumes c: "counts_requests H k count" and r: "ProcessHttpRequest H q m u s = Some (st, q', s')"
  shows "count s' \<le> count s + k"
proof -
  obtain st1 w s1 where 1: "DfciConvertToCHAR16 (he_U H) u (length u) s = (st1, w, s1)" by (metis surj_pair)
  have l1: "count s1 \<le> count s" by (rule DfciConvertToCHAR16_count [OF c 1])
  show ?thesis
  proof (cases "EFI_ERROR st1")
    case True
    then show ?thesis using r 1 l1 by (simp add: ProcessHttpRequest_def)
  next
    case False
    let ?B = "if rq_BodySize (nq_Request q) = 0 then Some []
        else do { b \<leftarrow> deref (rq_Body (nq_Request q)); rd b 0 (rq_BodySize (nq_Request q) - 1) }"
    have "?B \<noteq> None"
    proof
      assume n: "?B = None"
      show False using r False unfolding ProcessHttpRequest_def 1 prod.case n by simp
    qed
    then obtain b where b: "?B = Some b" by blast
    obtain st2 hs s2 where 2: "DfciBuildRequestHeaders H u (length b) ''application/json'' s1 = (st2, hs, s2)" by (metis surj_pair)
    have l2: "count s2 \<le> count s1" by (rule DfciBuildRequestHeaders_count [OF c 2])
    note r1 = r [unfolded ProcessHttpRequest_def 1 prod.case b bind.bind_lunit 2]
    show ?thesis
    proof (cases "EFI_ERROR st2")
      case True
      then show ?thesis using r1 False l1 l2 by simp
    next
      case no2: False
      then obtain st3 s3 where 3: "DfciIssueRequest H q m u hs b s2 = Some (st3, s3)"
        using r1 False by (auto split: Option.bind_splits)
      have l3: "count s3 \<le> count s2 + k" by (rule DfciIssueRequest_count [OF c 3])
      show ?thesis
      proof (cases "EFI_ERROR st3")
        case True
        then show ?thesis using r1 False no2 3 l1 l2 l3 by simp
      next
        case no3: False
        then obtain st4 g q4 s4 where 4: "DfciGetResponse H q True 0 s3 = Some (st4, g, q4, s4)"
          using r1 False no2 3 by (auto split: Option.bind_splits)
        have l4: "count s4 \<le> count s3" by (rule DfciGetResponse_count [OF c 4])
        have "s' = s4 \<or> (\<exists>n ok s5. AllocatePool (he_U H) n s4 = (ok, s5) \<and> (s' = s5 \<or> (\<exists>q5 B L st6 P. body_loop H q5 B L [] s5 = Some (st6, P, s'))))"
          using r1 False no2 no3 by (simp add: 3 4 Let_def split: if_splits Option.bind_splits prod.splits) blast+
        then have "count s' \<le> count s4"
          using counts(12) [OF c] body_loop_count [OF _ c] by (fastforce dest: order_trans)
        then show ?thesis using l1 l2 l3 l4 by simp
      qed
    qed
  qed
qed

lemma retry_loop_count:
  assumes c: "counts_requests H k count"
  shows "retry_loop H m u r n q s = Some (st, q', s') \<Longrightarrow> count s' \<le> count s + n * k"
proof (induction n arbitrary: q s)
  case (Suc n)
  obtain st1 q1 s1 where 1: "ProcessHttpRequest H q m u s = Some (st1, q1, s1)"
    using Suc.prems by (auto split: Option.bind_splits)
  have l: "count s1 \<le> count s + k" by (rule ProcessHttpRequest_count [OF c 1])
  consider "s' = s1" | st2 s2 q2 x where "EventWait H None TimeOutEvent x s1 = Some (st2, s2)" "retry_loop H m u r n q2 s2 = Some (st, q', s')"
    using Suc.prems by (auto simp: 1 split: Option.bind_splits if_splits prod.splits)
  then show ?case
  proof cases
    case 2
    then show ?thesis using EventWait_count [OF c 2(1)] Suc.IH [OF 2(2)] l by simp
  qed (use l in simp)
qed simp

lemma UnconfigureNIC_count:
  assumes c: "counts_requests H k count" and r: "UnconfigureNIC H n s = (st, s')"
  shows "count s' \<le> count s"
proof -
  obtain a1 s1 a2 s2 a3 s3 where d: "he_SetData H n PolicyStatic s = (a1, s1)" "he_SetData H n NoManualAddress s1 = (a2, s2)" "he_SetData H n NoGateway s2 = (a3, s3)"
    by (metis surj_pair)
  have "s' \<in> {s, s1, s2, s3}" using r by (auto simp: UnconfigureNIC_def d split: if_splits)
  then show ?thesis using counts(8) [OF c d(1)] counts(8) [OF c d(2)] counts(8) [OF c d(3)] by auto
qed

lemma ConfigureDHCP_count:
  assumes c: "counts_requests H k count" and r: "ConfigureDHCP H q s = Some (st, q', s')"
  shows "count s' \<le> count s"
proof -
  obtain a1 s1 where 1: "he_CreateEvent H s = (a1, s1)" by (metis surj_pair)
  obtain a2 s2 where 2: "UnconfigureNIC H (nc_NicHandle (nq_Nic (set_wait_event True q))) s1 = (a2, s2)" by (metis surj_pair)
  obtain a3 s3 where 3: "he_SetData H (nc_NicHandle (nq_Nic (set_wait_event True q))) PolicyDhcp s2 = (a3, s3)" by (metis surj_pair)
  obtain a4 s4 where 4: "he_CreateEvent H s3 = (a4, s4)" by (metis surj_pair)
  obtain a5 s5 where 5: "he_SetTimer H TIMER_PERIOD_1s s4 = (a5, s5)" by (metis surj_pair)
  have l: "count s1 \<le> count s" "count s2 \<le> count s1" "count s3 \<le> count s2" "count s4 \<le> count s3" "count s5 \<le> count s4"
    using counts(2) [OF c 1] UnconfigureNIC_count [OF c 2] counts(8) [OF c 3] counts(2) [OF c 4] counts(3) [OF c 5] by simp_all
  consider "s' \<in> {s1, s2, s3, s4, s5}" | b n x where "EventWait H b WaitEvent n s5 = Some (x, s')"
    using r unfolding ConfigureDHCP_def 1 prod.case Let_def 2 3
    by (auto simp: 4 5 split: if_splits Option.bind_splits)
  then show ?thesis
    using l EventWait_count [OF c] by cases (auto, fastforce)
qed

lemma ConfigureHTTP_count:
  assumes c: "counts_requests H k count" and r: "ConfigureHTTP H q s = Some (st, q', s')"
  shows "count s' \<le> count s"
proof -
  have "s' = s \<or> (\<exists>x y s1. (s1 = s \<or> (\<exists>z. ConfigureDHCP H z s = Some (x, y, s1)))
      \<and> (s' = s1 \<or> (\<exists>a s2. he_CreateChild H s1 = (a, s2) \<and> (s' = s2 \<or> s' = snd (he_Configure H True s2)))))"
    using r unfolding ConfigureHTTP_def Let_def
    by (auto split: if_splits Option.bind_splits prod.splits) (metis snd_conv)+
  then show ?thesis
    using ConfigureDHCP_count [OF c] counts(9) [OF c] counts(11) [OF c] by (fastforce dest: order_trans)
qed

lemma ProcessHttpRequestWithRetries_count:
  assumes c: "counts_requests H k count" and r: "ProcessHttpRequestWithRetries H q m u b s = Some (st, q', s')"
  shows "count s' \<le> count s + 6 * k"
proof -

  obtain st1 q1 s1 where 1: "ConfigureHTTP H (q\<lparr>nq_Http := (nq_Http q)\<lparr>ht_LocalAddressIsIPv6 := False, ht_HttpChildHandle := Some gImageHandle\<rparr>\<rparr>) s = Some (st1, q1, s1)"
    using r by (auto simp: ProcessHttpRequestWithRetries_def split: Option.bind_splits)
  have l: "count s1 \<le> count s" by (rule ConfigureHTTP_count [OF c 1])
  show ?thesis
  proof (cases "EFI_ERROR st1")
    case True
    then show ?thesis using r 1 l by (simp add: ProcessHttpRequestWithRetries_def)
  next
    case False
    then obtain q2 st2 q3 s2 where 2: "retry_loop H m u b 6 q2 s1 = Some (st2, q3, s2)"
      and s': "s' = snd (he_DestroyChild H (if ht_HttpProtocol (nq_Http q3) then snd (he_Configure H False s2) else s2))"
      using r by (auto simp: ProcessHttpRequestWithRetries_def ProcessHttpRequestInternal_def 1 Let_def split: Option.bind_splits)
    have "count s2 \<le> count s1 + 6 * k" by (rule retry_loop_count [OF c 2])
    moreover have "count s' \<le> count s2"
      using s' counts(10) [OF c] counts(11) [OF c, of False s2] by (auto intro: order_trans)
    ultimately show ?thesis using l by simp
  qed
qed

text \<open>
  Property C13: an exchange with a server ends if the timer runs, every successful wait for a part of
  the body brings data, and the content length of no message of the server is read as the largest
  number: all retries included, the operation returns, the request is as it was and no pointer has
  been freed that a later clean-up frees again.
\<close>

theorem http_exchange_returns:
  assumes "timer_runs H clock" "delivers H" "honest_length H" "sendable q"
  shows "\<exists>st q' s'. ProcessHttpRequestWithRetries H q m u r s = Some (st, q', s') \<and> nq_Request q' = nq_Request q \<and> intact q'"
  using ProcessHttpRequestWithRetries_returns [OF assms] by (simp add: exchanged_def)

text \<open>
  A server that always answers at once with one byte and announces the length \<open>len\<close>, on a platform
  whose conversion of decimal numbers gives the largest number when the value does not fit.
\<close>

definition decimal_or_max :: "string option \<Rightarrow> u64" where
  "decimal_or_max v = (case v of None \<Rightarrow> 0 | Some t \<Rightarrow> if parse_decimal 0 t < 2 ^ 64 then word_of_nat (parse_decimal 0 t) else -1)"

definition demo_http :: "http_status_code \<Rightarrow> string \<Rightarrow> demo_state http_env" where
  "demo_http code len = \<lparr>he_E = demo_update\<lparr>up_M := (up_M demo_update)\<lparr>mu_U := demo_platform\<lparr>AsciiStrDecimalToUintn := decimal_or_max\<rparr>\<rparr>\<rparr>,
     he_CreateEvent = (\<lambda>s. (EFI_SUCCESS, s)), he_SetTimer = (\<lambda>n s. (EFI_SUCCESS, s)), he_Poll = (\<lambda>s. s), he_CheckEvent = (\<lambda>e s. (EFI_SUCCESS, s)),
     he_Ip4Config2 = (\<lambda>n s. EFI_SUCCESS), he_SetData = (\<lambda>n d s. (EFI_SUCCESS, s)), he_GetManualAddress = (\<lambda>n s. (EFI_SUCCESS, 10)),
     he_GetInterfaceInfoSize = (\<lambda>n s. (EFI_BUFFER_TOO_SMALL, 1)), he_GetInterfaceInfo = (\<lambda>n k s. (EFI_SUCCESS, 10)),
     he_CreateChild = (\<lambda>s. (EFI_SUCCESS, s)), he_LocateHttp = (\<lambda>s. EFI_SUCCESS), he_Configure = (\<lambda>b s. (EFI_SUCCESS, s)), he_DestroyChild = (\<lambda>s. (EFI_SUCCESS, s)),
     he_HttpParseUrl = (\<lambda>u. EFI_SUCCESS), he_HttpUrlGetHostName = (\<lambda>u. (EFI_SUCCESS, ''host'')), he_HttpFindHeader = (\<lambda>hs n. map_of hs n),
     he_PrintDecimal = (\<lambda>n. ''0''), he_Request = (\<lambda>m u h b s. (EFI_SUCCESS, s\<lparr>dm_docs := (u, XmlNode [] None [] False []) # dm_docs s\<rparr>)),
     he_Response = (\<lambda>n s. (EFI_SUCCESS, s)),
     he_Message = (\<lambda>s. \<lparr>hm_StatusCode = Some code, hm_Headers = [(''Content-Length'', len)], hm_Body = [0x7B]\<rparr>), he_Cancel = (\<lambda>s. (EFI_SUCCESS, s))\<rparr>"

lemma demo_http_laws:
  "timer_runs (demo_http c n) (\<lambda>s. 0)" "counts_requests (demo_http c n) 1 (\<lambda>s. length (dm_docs s))" "decimal_or_max (Some n) \<noteq> -1 \<Longrightarrow> honest_length (demo_http c n)"
  "he_U (demo_http c n) = demo_platform\<lparr>AsciiStrDecimalToUintn := decimal_or_max\<rparr>"
  by (simp_all add: timer_runs_def counts_requests_def honest_length_def demo_http_def demo_simps)

lemma demo_lengths: "decimal_or_max (Some ''0'') = 0" "decimal_or_max (Some ''3'') = 3" "decimal_or_max (Some ''18446744073709551616'') = -1"
  by (simp_all add: decimal_or_max_def is_digit_def)

lemma demo_http_delivers: "delivers (demo_http c n)"
  unfolding delivers_def
  by (auto simp: DfciGetResponse_def EventWait_def demo_http_def split: Option.bind_splits)

theorem http_exchange_returns_witness:
  "\<exists>st q' s'. ProcessHttpRequestWithRetries (demo_http HTTP_STATUS_200_OK ''3'') zero_request HttpMethodGet ''http://host/x'' True
       \<lparr>dm_vars = [], dm_docs = []\<rparr> = Some (st, q', s') \<and> nq_Request q' = nq_Request zero_request \<and> intact q'"
proof -
  have "sendable zero_request" by (simp add: sendable_def) (simp add: zero_request_def no_request_def)
  then show ?thesis
    by (intro http_exchange_returns [OF demo_http_laws(1) demo_http_delivers demo_http_laws(3)]) (simp_all add: demo_lengths)
qed

text \<open>
  Property C14: an exchange sends at most six requests to the server, however often the server answers
  that it has too many requests or that the result is not ready.
\<close>

theorem requests_per_exchange:
  assumes "counts_requests H 1 count" "ProcessHttpRequestWithRetries H q m u b s = Some (st, q', s')"
  shows "count s' \<le> count s + 6"
  using ProcessHttpRequestWithRetries_count [OF assms] by simp

theorem requests_per_exchange_witness:
  "\<exists>st q' s'. ProcessHttpRequestWithRetries (demo_http HTTP_STATUS_429_TOO_MANY_REQUESTS ''0'') zero_request HttpMethodGet ''http://host/x'' True
       \<lparr>dm_vars = [], dm_docs = []\<rparr> = Some (st, q', s') \<and> length (dm_docs s') \<le> 6"
proof -
  have "sendable zero_request" by (simp add: sendable_def) (simp add: zero_request_def no_request_def)
  then obtain st q' s' where r: "ProcessHttpRequestWithRetries (demo_http HTTP_STATUS_429_TOO_MANY_REQUESTS ''0'') zero_request HttpMethodGet ''http://host/x'' True
       \<lparr>dm_vars = [], dm_docs = []\<rparr> = Some (st, q', s')"
    using ProcessHttpRequestWithRetries_returns [OF demo_http_laws(1) demo_http_delivers demo_http_laws(3),
        of "''0''" zero_request HTTP_STATUS_429_TOO_MANY_REQUESTS HttpMethodGet "''http://host/x''" True "\<lparr>dm_vars = [], dm_docs = []\<rparr>"] by (auto simp: demo_lengths)
  show ?thesis using requests_per_exchange [OF demo_http_laws(2) r] r by simp
qed

text \<open>The delay before a retry, in seconds.\<close>

lemma retry_delay_bounds:
  assumes "retry_delay H q b n = (True, d)" "0 < n" "n < 6"
  shows "1 \<le> d \<and> d \<le> 24"
proof -
  have "n \<in> {1, 2, 3, 4, 5}" using assms(2,3) by auto
  then have "1 \<le> DelayTable ! n \<and> DelayTable ! n \<le> 24" by (elim insertE) (simp_all add: DelayTable_def)
  moreover have "1 \<le> x \<longleftrightarrow> x \<noteq> 0" for x :: u64 using not_less [of x 1] by simp
  ultimately show ?thesis using assms(1) by (auto simp: retry_delay_def Let_def not_less split: if_splits)
qed

text \<open>
  A server that announces a content length of all ones (the value every longer number
  is read as) makes the buffer size wrap to 0, and the first byte of the body is written outside
  of the buffer.
\<close>

theorem content_length_of_all_ones:
  assumes c: "DfciConvertToCHAR16 (he_U H) u (length u) s = (EFI_SUCCESS, w, s1)" and b: "rq_BodySize (nq_Request q) = 0"
    and h: "DfciBuildRequestHeaders H u 0 ''application/json'' s1 = (EFI_SUCCESS, hs, s2)"
    and i: "DfciIssueRequest H q m u hs [] s2 = Some (EFI_SUCCESS, s3)" and g: "DfciGetResponse H q True 0 s3 = Some (EFI_SUCCESS, msg, q4, s4)"
    and l: "he_HttpFindHeader H (hm_Headers msg) ''Content-Length'' = Some v" "AsciiStrDecimalToUintn (he_U H) (Some v) = -1"
    and a: "AllocatePool (he_U H) 0 s4 = (True, s5)"
    and d: "\<And>q5. \<exists>msg' q6 s6. DfciGetResponse H q5 False (2 ^ 64 - 1) s5 = Some (EFI_SUCCESS, msg', q6, s6) \<and> hm_Body msg' \<noteq> []"
  shows "ProcessHttpRequest H q m u s = None"
proof -
  have n: "unat (-1 :: u64) = 2 ^ 64 - 1" by (simp add: unsigned_minus_1_eq_mask mask_eq_exp_minus_1)
  have body: "body_loop H q5 0 (2 ^ 64 - 1) [] s5 = None" for q5
  proof -
    obtain msg' q6 s6 where "DfciGetResponse H q5 False (2 ^ 64 - 1) s5 = Some (EFI_SUCCESS, msg', q6, s6)" "hm_Body msg' \<noteq> []"
      using d [of q5] by blast
    then show ?thesis by (subst body_loop.simps) simp
  qed
  show ?thesis
    using b by (simp add: ProcessHttpRequest_def c h i g l a n body [simplified] Let_def)
qed

lemma demo_http_response:
  "DfciGetResponse (demo_http c n) q b k s = Some (EFI_SUCCESS, he_Message (demo_http c n) s,
     if b then q\<lparr>nq_Status := (nq_Status q)\<lparr>hs_HttpStatus := c\<rparr>\<rparr> else q, s)"
  by (simp add: DfciGetResponse_def EventWait_def demo_http_def wait_loop.simps check_main_def Let_def)

theorem content_length_of_all_ones_witness:
  "ProcessHttpRequest (demo_http HTTP_STATUS_200_OK ''18446744073709551616'') zero_request HttpMethodGet ''u'' \<lparr>dm_vars = [], dm_docs = []\<rparr> = None"
  by (rule content_length_of_all_ones [OF _ _ _ _ demo_http_response, where v = "''18446744073709551616''"])
     (simp_all add: demo_http_response, simp_all add: demo_http_def demo_simps demo_lengths zero_request_def no_request_def DfciConvertToCHAR16_def
       AsciiStrToUnicodeStrS_def DfciBuildRequestHeaders_def DfciIssueRequest_def EventWait_def wait_loop.simps check_main_def)

end
