(* ===== verification/Network_Recovery.thy ===== *)
theory Network_Recovery
  imports Http_Client
begin

text \<open>
  Recovery over the network (the second half of \<open>DfciRequest.c\<close>): the two-step protocol with the
  recovery service, the walk over the network interfaces, the exchange of the TLS certificate and
  the request as a whole, and the test application \<open>DfciCheck429.c\<close>.  Locating the interfaces, the boot
  manager policy, media detection and the formatted message are the record \<open>net_env\<close>.

  The theory shows that, besides the variables of the network stack itself, a network request changes
  no variable but the mailboxes and the TLS
  certificate, which steps of the protocol lead to which result, when the TLS certificate of the
  system is restored and when it is not, and that an answer without content leaves the previous
  one in place.
\<close>

section \<open>Services and static data\<close>

datatype msg_format = MSG_FORMAT_ERROR_OCCURRED | MSG_FORMAT_NO_UPDATE_NEEDED | MSG_FORMAT_MORE_UPDATES_NEEDED | MSG_FORMAT_RECOVERY_COMPLETE

record 's net_env =
  ne_H :: "'s http_env"
  ne_LocateBootPolicy :: "'s \<Rightarrow> EFI_STATUS"
  ne_ConnectDeviceClass :: "'s \<Rightarrow> EFI_STATUS \<times> 's"
  ne_LocateNics :: "'s \<Rightarrow> EFI_STATUS \<times> nat list"
  ne_HttpServiceBinding :: "nat \<Rightarrow> 's \<Rightarrow> EFI_STATUS"
  ne_DetectMedia :: "nat \<Rightarrow> 's \<Rightarrow> EFI_STATUS \<times> bool \<times> 's"
  ne_Message :: "msg_format \<Rightarrow> EFI_STATUS \<Rightarrow> network_request \<Rightarrow> string"
  ne_CertX509Guid :: bytes
  ne_CallerIdGuid :: bytes

abbreviation ne_E :: "'s net_env \<Rightarrow> 's update_env" where "ne_E N \<equiv> he_E (ne_H N)"
abbreviation ne_U :: "'s net_env \<Rightarrow> 's platform" where "ne_U N \<equiv> he_U (ne_H N)"

text \<open>The static variables of \<open>DfciRequest.c\<close> and the static protocol pointer of \<open>DfciGetASetting\<close>.\<close>

record net_static =
  ns_OldCertificateList :: "bytes option"
  ns_OldCertificateSize :: nat
  ns_OldCertificateAttr :: u32
  ns_SettingAccess :: bool

definition initial_static :: net_static where
  "initial_static = \<lparr>ns_OldCertificateList = None, ns_OldCertificateSize = 0, ns_OldCertificateAttr = 0, ns_SettingAccess = False\<rparr>"

section \<open>The protocol with the recovery service\<close>

text \<open>
  An exchange with an address given by pointer: the pointer is first used when the interface has
  been configured.
\<close>

definition exchange :: "'s http_env \<Rightarrow> network_request \<Rightarrow> http_method \<Rightarrow> ptr \<Rightarrow> bool \<Rightarrow> 's \<Rightarrow> (EFI_STATUS \<times> network_request \<times> 's) option" where
  "exchange H q HttpMethod Url RetryOn202 s = (case Option.bind (deref Url) buf_string of
     Some u \<Rightarrow> ProcessHttpRequestWithRetries H q HttpMethod u RetryOn202 s
   | None \<Rightarrow> do {
       (Status, q, s1) \<leftarrow> ConfigureHTTP H (q\<lparr>nq_Http := (nq_Http q)\<lparr>ht_LocalAddressIsIPv6 := False, ht_HttpChildHandle := Some gImageHandle\<rparr>\<rparr>) s;
       if EFI_ERROR Status then Some (Status, q, s1) else None })"

definition ProcessAsyncRequest :: "'s http_env \<Rightarrow> network_request \<Rightarrow> ptr \<Rightarrow> bool \<Rightarrow> 's \<Rightarrow> (EFI_STATUS \<times> network_request \<times> bool \<times> 's) option" where
  "ProcessAsyncRequest H q Url DoneProcessing s = do {
     (Status, q, s1) \<leftarrow> exchange H q HttpMethodPost Url False s;
     if EFI_ERROR Status then Some (Status, q, DoneProcessing, s1)
     else if hs_HttpStatus (nq_Status q) \<noteq> HTTP_STATUS_202_ACCEPTED then Some (EFI_PROTOCOL_ERROR, q, DoneProcessing, s1)
     else case Option.bind (rs_Headers (nq_Response q)) (\<lambda>hs. he_HttpFindHeader H hs ''Location'') of
         None \<Rightarrow> Some (EFI_PROTOCOL_ERROR, q, True, s1)
       | Some Location \<Rightarrow> do {
           (Status, q, s2) \<leftarrow> ProcessHttpRequestWithRetries H q HttpMethodGet Location True s1;
           if EFI_ERROR Status then Some (Status, q, True, s2)
           else if hs_HttpStatus (nq_Status q) \<noteq> HTTP_STATUS_200_OK then Some (EFI_PROTOCOL_ERROR, q, True, s2)
           else if rs_Body (nq_Response q) = NullPtr \<or> rs_BodySize (nq_Response q) = 0 then Some (EFI_PROTOCOL_ERROR, q, True, s2)
           else Some (Status, q, True, s2) } }"

definition SimpleMainLogic :: "network_request \<Rightarrow> bool \<Rightarrow> 's \<Rightarrow> (EFI_STATUS \<times> network_request \<times> bool \<times> 's) option" where
  "SimpleMainLogic q DoneProcessing s = Some (EFI_UNSUPPORTED, q, DoneProcessing, s)"

definition Check429Logic :: "'s http_env \<Rightarrow> network_request \<Rightarrow> bool \<Rightarrow> 's \<Rightarrow> (EFI_STATUS \<times> network_request \<times> bool \<times> 's) option" where
  "Check429Logic H q DoneProcessing s = do {
     (Status, q, s1) \<leftarrow> exchange H (q\<lparr>nq_LogicState := DFCI_CHECK_429\<rparr>) HttpMethodGet (rq_Url (nq_Request q)) False s;
     if EFI_ERROR Status then Some (Status, q, False, s1)
     else Some (Status, q\<lparr>nq_LogicState := DFCI_CHECK_429_COMPLETE\<rparr>, True, s1) }"

text \<open>One of the two steps: post the body, fetch the answer and apply it with a table.\<close>

definition recovery_step :: "'s http_env \<Rightarrow> network_request \<Rightarrow> ptr \<Rightarrow> logic_state \<Rightarrow> json_entry list \<Rightarrow> bool \<Rightarrow> 's
    \<Rightarrow> (EFI_STATUS \<times> network_request \<times> bool \<times> 's) option" where
  "recovery_step H q Url l t DoneProcessing s = do {
     (Status, q, DoneProcessing, s1) \<leftarrow> ProcessAsyncRequest H q Url DoneProcessing s;
     if EFI_ERROR Status then Some (Status, q, DoneProcessing, s1)
     else do {
       b \<leftarrow> deref (rs_Body (nq_Response q));
       (Status, z, s2) \<leftarrow> DfciUpdateFromJson (he_E H) b (rs_BodySize (nq_Response q)) t (nq_Status q, s1);
       Some (Status, q\<lparr>nq_LogicState := l, nq_Status := z\<rparr>, DoneProcessing, s2) } }"

definition DfciMainLogic :: "'s http_env \<Rightarrow> network_request \<Rightarrow> bool \<Rightarrow> 's \<Rightarrow> (EFI_STATUS \<times> network_request \<times> bool \<times> 's) option" where
  "DfciMainLogic H q DoneProcessing s =
     (case BuildJsonBootstrapRequest (he_E H) (q\<lparr>nq_LogicState := DFCI_PRE_BOOTSTRAP\<rparr>) s of (Status, q, s1) \<Rightarrow>
      if EFI_ERROR Status then Some (Status, q, False, s1)
      else do {
        (Status, q, DoneProcessing, s2) \<leftarrow> recovery_step H q (rq_BootstrapUrl (nq_Request q)) DFCI_BOOTSTRAP mRecoveryBootstrapResponse False s1;
        if Status = EFI_MEDIA_CHANGED then Some (Status, q\<lparr>nq_LogicState := DFCI_BOOTSTRAP_COMPLETE\<rparr>, DoneProcessing, s2)
        else if Status \<noteq> EFI_SUCCESS \<and> Status \<noteq> EFI_NOT_FOUND then Some (Status, q, DoneProcessing, s2)
        else case BuildJsonRecoveryRequest (he_E H) (q\<lparr>nq_LogicState := DFCI_PRE_RECOVERY\<rparr>) s2 of (Status, q, s3) \<Rightarrow>
          if EFI_ERROR Status then Some (Status, q, DoneProcessing, s3)
          else do {
            (Status, q, DoneProcessing, s4) \<leftarrow> recovery_step H q (rq_Url (nq_Request q)) DFCI_RECOVERY mRecoveryResponse DoneProcessing s3;
            Some (if Status = EFI_SUCCESS \<or> Status = EFI_NOT_FOUND then (EFI_SUCCESS, q\<lparr>nq_LogicState := DFCI_NO_RECOVERY_AVAILABLE\<rparr>, DoneProcessing, s4)
                  else if Status = EFI_MEDIA_CHANGED then (Status, q\<lparr>nq_LogicState := DFCI_RECOVERY_COMPLETE\<rparr>, DoneProcessing, s4)
                  else (Status, q, DoneProcessing, s4)) } })"

section \<open>Network interfaces\<close>

fun nic_loop :: "'s net_env \<Rightarrow> (network_request \<Rightarrow> bool \<Rightarrow> 's \<Rightarrow> (EFI_STATUS \<times> network_request \<times> bool \<times> 's) option) \<Rightarrow> nat list
    \<Rightarrow> EFI_STATUS \<Rightarrow> network_request \<Rightarrow> bool \<Rightarrow> 's \<Rightarrow> (EFI_STATUS \<times> network_request \<times> 's) option" where
  "nic_loop N MainLogic [] Status q DoneProcessing s = Some (Status, q, s)"
| "nic_loop N MainLogic (h # hs) Status q DoneProcessing s =
     (if DoneProcessing then Some (Status, q, s)
      else do {
        q \<leftarrow> CleanupNetworkRequest q CLEANUP_NIC;
        let Status = ne_HttpServiceBinding N h s;
        let q = q\<lparr>nq_Nic := (nq_Nic q)\<lparr>nc_NicHandle := Some h, nc_HttpSbProtocol := \<not> EFI_ERROR Status\<rparr>\<rparr>;
        if EFI_ERROR Status then nic_loop N MainLogic hs Status q DoneProcessing s
        else case ne_DetectMedia N h s of (_, MediaPresent, s1) \<Rightarrow>
          if \<not> MediaPresent then nic_loop N MainLogic hs EFI_NO_MEDIA q DoneProcessing s1
          else do {
            (Status, q, DoneProcessing, s2) \<leftarrow> MainLogic q DoneProcessing s1;
            let s3 = (if nc_DhcpRequested (nq_Nic q) then snd (UnconfigureNIC (ne_H N) (nc_NicHandle (nq_Nic q)) s2) else s2);
            nic_loop N MainLogic hs Status q DoneProcessing s3 } })"

definition TryEachNICThenProcessRequest :: "'s net_env \<Rightarrow> (network_request \<Rightarrow> bool \<Rightarrow> 's \<Rightarrow> (EFI_STATUS \<times> network_request \<times> bool \<times> 's) option)
    \<Rightarrow> network_request \<Rightarrow> 's \<Rightarrow> (EFI_STATUS \<times> network_request \<times> 's) option" where
  "TryEachNICThenProcessRequest N MainLogic q s =
     (let s1 = (if EFI_ERROR (ne_LocateBootPolicy N s) then s else snd (ne_ConnectDeviceClass N s)) in
      case ne_LocateNics N s1 of (Status, HandleBuffer) \<Rightarrow> do {
        (Status, q, s2) \<leftarrow> (if EFI_ERROR Status \<or> HandleBuffer = [] then Some (EFI_NOT_FOUND, q, s1)
           else nic_loop N MainLogic HandleBuffer Status q False s1);
        q \<leftarrow> CleanupNetworkRequest q CLEANUP_NIC;
        Some (Status, q, s2) })"

section \<open>The TLS certificate\<close>

definition EFI_TLS_CA_CERTIFICATE_VARIABLE :: string where "EFI_TLS_CA_CERTIFICATE_VARIABLE = ''TlsCaCertificate''"
definition gEfiTlsCaCertificateGuid :: string where "gEfiTlsCaCertificateGuid = ''gEfiTlsCaCertificateGuid''"

abbreviation tls_variable :: "'s platform \<Rightarrow> 's \<Rightarrow> EFI_STATUS \<times> bytes \<times> u32" where
  "tls_variable U s \<equiv> GetVariable U EFI_TLS_CA_CERTIFICATE_VARIABLE gEfiTlsCaCertificateGuid s"

definition RestoreCertificates :: "'s platform \<Rightarrow> net_static \<Rightarrow> 's \<Rightarrow> EFI_STATUS \<times> net_static \<times> 's" where
  "RestoreCertificates U c s = (case ns_OldCertificateList c of None \<Rightarrow> (EFI_SUCCESS, c, s)
     | Some d \<Rightarrow> (EFI_SUCCESS, c\<lparr>ns_OldCertificateList := None\<rparr>,
         snd (SetVariable U EFI_TLS_CA_CERTIFICATE_VARIABLE gEfiTlsCaCertificateGuid (ns_OldCertificateAttr c) (take (ns_OldCertificateSize c) d) s)))"

text \<open>
  \<open>GetVariable\<close> without a buffer: a size that is too small is replaced by the size of the variable; a
  size that is large enough makes the missing buffer an invalid parameter.
\<close>

definition query_tls :: "'s platform \<Rightarrow> net_static \<Rightarrow> 's \<Rightarrow> EFI_STATUS \<times> net_static" where
  "query_tls U c s = (case tls_variable U s of (Status, d, a) \<Rightarrow>
     if EFI_ERROR Status then (Status, c)
     else if ns_OldCertificateSize c < length d then (EFI_BUFFER_TOO_SMALL, c\<lparr>ns_OldCertificateSize := length d, ns_OldCertificateAttr := a\<rparr>)
     else (EFI_INVALID_PARAMETER, c))"

definition signature_list :: "'s net_env \<Rightarrow> bytes \<Rightarrow> bytes" where
  "signature_list N cert = ne_CertX509Guid N @ le32 (word_of_nat (44 + length cert)) @ le32 0 @ le32 (word_of_nat (16 + length cert))
     @ ne_CallerIdGuid N @ cert"

text \<open>
  The first half of \<open>EnableDfciCertificate\<close>: the old variable is saved, if it can be, and deleted.  The
  first result is false when the buffer cannot be allocated.
\<close>

definition save_certificate :: "'s platform \<Rightarrow> net_static \<Rightarrow> 's \<Rightarrow> bool \<times> net_static \<times> 's" where
  "save_certificate U c s = (case query_tls U c s of (Status, c) \<Rightarrow>
     if Status \<noteq> EFI_BUFFER_TOO_SMALL then (True, c, s)
     else case AllocatePool U (ns_OldCertificateSize c) s of (ok, s1) \<Rightarrow>
       if \<not> ok then (False, c\<lparr>ns_OldCertificateList := None\<rparr>, s1)
       else case tls_variable U s1 of (Status, d, a) \<Rightarrow>
         (True, if EFI_ERROR Status \<or> length d > ns_OldCertificateSize c then c\<lparr>ns_OldCertificateList := None\<rparr>
                else c\<lparr>ns_OldCertificateList := Some d, ns_OldCertificateSize := length d, ns_OldCertificateAttr := a\<rparr>,
          snd (SetVariable U EFI_TLS_CA_CERTIFICATE_VARIABLE gEfiTlsCaCertificateGuid 0 [] s1)))"

definition EnableDfciCertificate :: "'s net_env \<Rightarrow> network_request \<Rightarrow> net_static \<Rightarrow> 's \<Rightarrow> (EFI_STATUS \<times> net_static \<times> 's) option" where
  "EnableDfciCertificate N q c s = (case save_certificate (ne_U N) c s of (ok, c, s1) \<Rightarrow>
     if \<not> ok then Some (EFI_OUT_OF_RESOURCES, c, s1)
     else case AllocatePool (ne_U N) (44 + nq_HttpsCertSize q) s1 of (ok, s2) \<Rightarrow>
       if \<not> ok then Some (EFI_OUT_OF_RESOURCES, c, s2)
       else do {
         b \<leftarrow> (if nq_HttpsCertSize q = 0 then Some [] else do { p \<leftarrow> deref (nq_HttpsCert q); rd p 0 (nq_HttpsCertSize q) });
         (case SetVariable (ne_U N) EFI_TLS_CA_CERTIFICATE_VARIABLE gEfiTlsCaCertificateGuid 3 (signature_list N b) s2 of (Status, s3) \<Rightarrow>
            if EFI_ERROR Status then (case RestoreCertificates (ne_U N) c s3 of (_, c, s4) \<Rightarrow> Some (Status, c, s4))
            else Some (Status, c, s3)) })"

section \<open>The request\<close>

definition message_format :: "EFI_STATUS \<Rightarrow> logic_state \<Rightarrow> msg_format" where
  "message_format Status l =
     (if Status = EFI_SUCCESS \<and> l = DFCI_NO_RECOVERY_AVAILABLE then MSG_FORMAT_NO_UPDATE_NEEDED
      else if Status = EFI_MEDIA_CHANGED \<and> l = DFCI_BOOTSTRAP_COMPLETE then MSG_FORMAT_MORE_UPDATES_NEEDED
      else if Status = EFI_MEDIA_CHANGED \<and> l = DFCI_RECOVERY_COMPLETE then MSG_FORMAT_RECOVERY_COMPLETE
      else MSG_FORMAT_ERROR_OCCURRED)"

text \<open>The text is stored when it is not empty and its buffer can be allocated.\<close>

definition build_message :: "'s net_env \<Rightarrow> EFI_STATUS \<Rightarrow> network_request \<Rightarrow> 's \<Rightarrow> string option \<times> 's" where
  "build_message N Status q s = (let t = ne_Message N (message_format Status (nq_LogicState q)) Status q in
     if t = [] then (None, s)
     else case AllocatePool (ne_U N) ((length t + 1) * 2) s of (ok, s1) \<Rightarrow> (if ok then Some t else None, s1))"

text \<open>The common exit: the old certificate and the clean-up of all zones.\<close>

definition exit_request :: "'s net_env \<Rightarrow> EFI_STATUS \<Rightarrow> string option \<Rightarrow> network_request \<Rightarrow> net_static \<Rightarrow> 's
    \<Rightarrow> (EFI_STATUS \<times> string option \<times> network_request \<times> net_static \<times> 's) option" where
  "exit_request N Status Message q c s = (case RestoreCertificates (ne_U N) c s of (_, c, s1) \<Rightarrow> do {
     q \<leftarrow> CleanupNetworkRequest q CLEANUP_ALL;
     Some (Status, Message, q, c, s1) })"

definition ProcessDfciNetworkRequest :: "'s net_env \<Rightarrow> network_request \<Rightarrow> net_static \<Rightarrow> 's
    \<Rightarrow> (EFI_STATUS \<times> string option \<times> network_request \<times> net_static \<times> 's) option" where
  "ProcessDfciNetworkRequest N q c s = do {
     (Status, q, a, s1) \<leftarrow> InitializeNetworkRequest (up_M (ne_E N)) q (ns_SettingAccess c) s;
     let c = c\<lparr>ns_SettingAccess := a\<rparr>;
     if EFI_ERROR Status then exit_request N Status None q c s1
     else do {
       (Status, c, s2) \<leftarrow> EnableDfciCertificate N q c s1;
       if EFI_ERROR Status then exit_request N Status None q c s2
       else do {
         (Status, q, s3) \<leftarrow> TryEachNICThenProcessRequest N (DfciMainLogic (ne_H N)) q s2;
         (case build_message N Status q s3 of (Message, s4) \<Rightarrow> exit_request N Status Message q c s4) } } }"

definition ProcessSimpleNetworkRequest :: "'s net_env \<Rightarrow> network_request \<Rightarrow> net_static \<Rightarrow> 's
    \<Rightarrow> (EFI_STATUS \<times> network_request \<times> net_static \<times> 's) option" where
  "ProcessSimpleNetworkRequest N q c s = do {
     (Status, q, a, s1) \<leftarrow> InitializeNetworkRequest (up_M (ne_E N)) q (ns_SettingAccess c) s;
     (Status, q, s2) \<leftarrow> (if EFI_ERROR Status then Some (Status, q, s1) else TryEachNICThenProcessRequest N SimpleMainLogic q s1);
     q \<leftarrow> CleanupNetworkRequest q CLEANUP_ALL;
     Some (Status, q, c\<lparr>ns_SettingAccess := a\<rparr>, s2) }"

section \<open>The test for status 429\<close>

text \<open>
  \<open>DfciCheck429.c\<close>: \<open>args\<close> are the arguments of the shell (\<open>None\<close> outside of it); the result is the exit code
  (8 or 0) and what is printed about the test, \<open>None\<close> when it is not run.  The three copies of the
  address fit by construction of the length.
\<close>

definition DfciCheck429Entry :: "'s net_env \<Rightarrow> string list option \<Rightarrow> 's \<Rightarrow> (u64 \<times> bool option \<times> 's) option" where
  "DfciCheck429Entry N args s = (case args of None \<Rightarrow> Some (8, None, s)
     | Some argv \<Rightarrow>
         if length argv \<noteq> 2 \<or> argv ! 1 = [] then Some (8, None, s)
         else case AllocatePool (ne_U N) (length (argv ! 1) + 19) s of (ok, s1) \<Rightarrow>
           if \<not> ok then Some (8, None, s1)
           else let url = ''http://'' @ (argv ! 1) @ ''/return_429'';
                    q = zero_request\<lparr>nq_Request := no_request\<lparr>rq_Url := Ptr (to_bytes url @ [0])\<rparr>\<rparr>
             in do {
               (Status, q, s2) \<leftarrow> TryEachNICThenProcessRequest N (Check429Logic (ne_H N)) q s1;
               Some (EFI_SUCCESS, Some (\<not> EFI_ERROR Status \<and> hs_HttpStatus (nq_Status q) = HTTP_STATUS_429_TOO_MANY_REQUESTS), s2) })"

section \<open>What a network request changes\<close>

text \<open>An exchange leaves the state of the protocol alone.\<close>

lemma cleanup_results:
  "CleanupNetworkRequest q CLEANUP_STATUS = Some q' \<Longrightarrow> q' = q\<lparr>nq_Status := no_status\<rparr>"
  "CleanupNetworkRequest q (CLEANUP_RESPONSE OR CLEANUP_STATUS) = Some q' \<Longrightarrow> q' = q\<lparr>nq_Response := no_response, nq_Status := no_status\<rparr>"
  by (auto simp: CleanupNetworkRequest_def split: Option.bind_splits)

lemma DfciGetResponse_state: "DfciGetResponse H q b n s = Some (st, m, q', s') \<Longrightarrow> nq_LogicState q' = nq_LogicState q"
  by (auto simp: DfciGetResponse_def Let_def split: Option.bind_splits if_splits prod.splits)

lemma ProcessHttpRequest_state:
  assumes r: "ProcessHttpRequest H q m u s = Some (st, q', s')"
  shows "nq_LogicState q' = nq_LogicState q"
proof -
  obtain a1 w s1 where 1: "DfciConvertToCHAR16 (he_U H) u (length u) s = (a1, w, s1)" by (metis surj_pair)
  show ?thesis
  proof (cases "q' = q")
    case False
    then obtain b where b: "(if rq_BodySize (nq_Request q) = 0 then Some []
        else do { b \<leftarrow> deref (rq_Body (nq_Request q)); rd b 0 (rq_BodySize (nq_Request q) - 1) }) = Some b"
      using r unfolding ProcessHttpRequest_def 1 prod.case by (cases "EFI_ERROR a1") (simp_all split: Option.bind_split_asm)
    obtain a2 hs s2 where 2: "DfciBuildRequestHeaders H u (length b) ''application/json'' s1 = (a2, hs, s2)" by (metis surj_pair)
    note r1 = r [unfolded ProcessHttpRequest_def 1 prod.case b bind.bind_lunit 2]
    have "\<not> EFI_ERROR a1 \<and> \<not> EFI_ERROR a2" using r1 False by (auto split: if_splits)
    with r1 obtain a3 s3 where 3: "DfciIssueRequest H q m u hs b s2 = Some (a3, s3)" by (auto split: Option.bind_splits)
    have "\<not> EFI_ERROR a3" using r1 \<open>\<not> EFI_ERROR a1 \<and> _\<close> False by (auto simp: 3 split: if_splits)
    with r1 \<open>\<not> EFI_ERROR a1 \<and> _\<close> obtain a4 g q4 s4 where 4: "DfciGetResponse H q True 0 s3 = Some (a4, g, q4, s4)"
      by (auto simp: 3 split: Option.bind_splits)
    have "nq_LogicState q' = nq_LogicState q4"
      using r1 \<open>\<not> EFI_ERROR a1 \<and> _\<close> \<open>\<not> EFI_ERROR a3\<close>
      by (simp add: 3 4 Let_def split: if_splits Option.bind_splits prod.splits) auto
    then show ?thesis using DfciGetResponse_state [OF 4] by simp
  qed simp
qed

lemma retry_loop_state: "retry_loop H m u b n q s = Some (st, q', s') \<Longrightarrow> nq_LogicState q' = nq_LogicState q"
proof (induction n arbitrary: q s)
  case (Suc n)
  obtain st1 q1 s1 where 1: "ProcessHttpRequest H q m u s = Some (st1, q1, s1)"
    using Suc.prems by (auto split: Option.bind_splits)
  note e = ProcessHttpRequest_state [OF 1]
  consider "q' = q1" | q2 s2 where "CleanupNetworkRequest q1 (CLEANUP_RESPONSE OR CLEANUP_STATUS) = Some q2" "retry_loop H m u b n q2 s2 = Some (st, q', s')"
    using Suc.prems by (auto simp: 1 split: Option.bind_splits if_splits prod.splits)
  then show ?case
  proof cases
    case 2
    then show ?thesis using Suc.IH [OF 2(2)] cleanup_results(2) [OF 2(1)] e by simp
  qed (use e in simp)
qed simp

lemma set_wait_event_state [simp]: "nq_LogicState (set_wait_event b q) = nq_LogicState q"
  by (simp add: set_wait_event_def)

lemma ConfigureDHCP_state: "ConfigureDHCP H q s = Some (st, q', s') \<Longrightarrow> nq_LogicState q' = nq_LogicState q"
  by (auto simp: ConfigureDHCP_def Let_def split: Option.bind_splits if_splits prod.splits)

lemma ConfigureHTTP_state:
  assumes r: "ConfigureHTTP H q s = Some (st, q', s')"
  shows "nq_LogicState q' = nq_LogicState q"
  using r ConfigureDHCP_state by (force simp: ConfigureHTTP_def Let_def split: Option.bind_splits if_splits prod.splits)

lemma retries_state:
  assumes r: "ProcessHttpRequestWithRetries H q m u b s = Some (st, q', s')"
  shows "nq_LogicState q' = nq_LogicState q"
proof -
  obtain st1 q1 s1 where 1: "ConfigureHTTP H (q\<lparr>nq_Http := (nq_Http q)\<lparr>ht_LocalAddressIsIPv6 := False, ht_HttpChildHandle := Some gImageHandle\<rparr>\<rparr>) s = Some (st1, q1, s1)"
    using r by (auto simp: ProcessHttpRequestWithRetries_def split: Option.bind_splits)
  have e1: "nq_LogicState q1 = nq_LogicState q" using ConfigureHTTP_state [OF 1] by simp
  show ?thesis
  proof (cases "EFI_ERROR st1")
    case True
    then show ?thesis using r 1 e1 by (simp add: ProcessHttpRequestWithRetries_def)
  next
    case False
    then obtain q2 q3 st2 s2 where "CleanupNetworkRequest q1 CLEANUP_STATUS = Some q2" "retry_loop H m u b 6 q2 s1 = Some (st2, q3, s2)" "q' = q3\<lparr>nq_Http := no_http\<rparr>"
      using r by (auto simp: ProcessHttpRequestWithRetries_def ProcessHttpRequestInternal_def 1 Let_def cleanup_clear split: Option.bind_splits)
    then show ?thesis using retry_loop_state cleanup_results(1) e1 by fastforce
  qed
qed

lemma exchange_state:
  assumes r: "exchange H q m p b s = Some (st, q', s')"
  shows "nq_LogicState q' = nq_LogicState q"
  using r ConfigureHTTP_state retries_state
  by (fastforce simp: exchange_def split: option.splits Option.bind_splits if_splits)

lemma ProcessAsyncRequest_state:
  assumes r: "ProcessAsyncRequest H q p d s = Some (st, q', d', s')"
  shows "nq_LogicState q' = nq_LogicState q"
proof -
  obtain st1 q1 s1 where 1: "exchange H q HttpMethodPost p False s = Some (st1, q1, s1)"
    using r by (auto simp: ProcessAsyncRequest_def split: Option.bind_splits)
  have "q' = q1 \<or> (\<exists>u st2 s2. ProcessHttpRequestWithRetries H q1 HttpMethodGet u True s1 = Some (st2, q', s2))"
    using r unfolding ProcessAsyncRequest_def 1 by (auto split: if_splits option.splits Option.bind_splits prod.splits)
  then show ?thesis using exchange_state [OF 1] retries_state by metis
qed

lemma recovery_step_state:
  assumes r: "recovery_step H q p ls t d s = Some (st, q', d', s')"
  shows "nq_LogicState q' \<in> {nq_LogicState q, ls}"
  using r ProcessAsyncRequest_state by (fastforce simp: recovery_step_def split: Option.bind_splits if_splits)

text \<open>
  The network stack keeps variables of its own: \<open>EFI_IP4_CONFIG2_PROTOCOL.SetData\<close> stores the
  configuration of an interface so that it is valid after a reset.  \<open>K\<close> is the set of the
  variables (name and namespace) that the stack may write; \<open>same_outside K\<close> says that all others are
  as before, and \<open>mailboxes_outside K\<close> that of the others only mailboxes have changed.
\<close>

definition same_outside :: "(string \<times> string) set \<Rightarrow> 's platform \<Rightarrow> 's \<Rightarrow> 's \<Rightarrow> bool" where
  "same_outside K U s s' \<longleftrightarrow> (\<forall>n g. (n, g) \<notin> K \<longrightarrow> GetVariable U n g s' = GetVariable U n g s)"

definition mailboxes_outside :: "(string \<times> string) set \<Rightarrow> 's platform \<Rightarrow> json_mailbox set \<Rightarrow> 's \<Rightarrow> 's \<Rightarrow> bool" where
  "mailboxes_outside K U ms s s' \<longleftrightarrow> (\<forall>n g. (n, g) \<in> K \<or> GetVariable U n g s' = GetVariable U n g s
     \<or> (\<exists>m\<in>ms. n = jm_MailboxName m \<and> g = jm_MailboxNamespace m \<and> holds_packet U m s'))"

lemma same_outside_refl [simp]: "same_outside K U s s"
  by (simp add: same_outside_def)

lemma same_outside_trans: "same_outside K U a b \<Longrightarrow> same_outside K U b c \<Longrightarrow> same_outside K U a c"
  by (simp add: same_outside_def)

lemma same_vars_outside: "same_vars U s s' \<Longrightarrow> same_outside K U s s'"
  by (simp add: same_outside_def same_vars_def)

lemma mailboxes_outsideI:
  "same_outside K U s s' \<Longrightarrow> mailboxes_outside K U ms s s'"
  "only_mailboxes U ms s s' \<Longrightarrow> mailboxes_outside K U ms s s'"
  by (auto simp: mailboxes_outside_def same_outside_def only_mailboxes_def)

lemma mailboxes_outside_trans:
  assumes 1: "mailboxes_outside K U ms a b" and 2: "mailboxes_outside K U ms' b c" and m: "ms \<subseteq> ns" "ms' \<subseteq> ns"
  shows "mailboxes_outside K U ns a c"
  unfolding mailboxes_outside_def
proof (intro allI)
  fix n g
  have "holds_packet U m b \<Longrightarrow> GetVariable U (jm_MailboxName m) (jm_MailboxNamespace m) c = GetVariable U (jm_MailboxName m) (jm_MailboxNamespace m) b
      \<Longrightarrow> holds_packet U m c" for m by (simp add: holds_packet_def)
  then show "(n, g) \<in> K \<or> GetVariable U n g c = GetVariable U n g a
     \<or> (\<exists>m\<in>ns. n = jm_MailboxName m \<and> g = jm_MailboxNamespace m \<and> holds_packet U m c)"
    using 1 2 m unfolding mailboxes_outside_def by (metis subsetD)
qed

lemma only_mailboxes_outside: "only_mailboxes U ms s s' = mailboxes_outside {} U ms s s'"
  by (simp add: only_mailboxes_def mailboxes_outside_def)

lemma only_mailboxes_trans: "only_mailboxes U ms a b \<Longrightarrow> only_mailboxes U ms' b c \<Longrightarrow> ms \<subseteq> ns \<Longrightarrow> ms' \<subseteq> ns \<Longrightarrow> only_mailboxes U ns a c"
  unfolding only_mailboxes_outside by (rule mailboxes_outside_trans)

lemmas mailboxes_outside_after = mailboxes_outside_trans [OF mailboxes_outsideI(1) _ subset_refl subset_refl]
lemmas mailboxes_outside_step = mailboxes_outside_trans [OF _ mailboxes_outsideI(1) subset_refl subset_refl]

text \<open>The services of the network stack write variables of \<open>K\<close> only; the JSON encoder writes none.\<close>

definition http_keeps_vars :: "(string \<times> string) set \<Rightarrow> 's http_env \<Rightarrow> bool" where
  "http_keeps_vars K H \<longleftrightarrow> (\<forall>m u h b s. same_outside K (he_U H) s (snd (he_Request H m u h b s)))
     \<and> (\<forall>s. same_outside K (he_U H) s (snd (he_CreateEvent H s))) \<and> (\<forall>n s. same_outside K (he_U H) s (snd (he_SetTimer H n s)))
     \<and> (\<forall>s. same_outside K (he_U H) s (he_Poll H s)) \<and> (\<forall>e s. same_outside K (he_U H) s (snd (he_CheckEvent H e s)))
     \<and> (\<forall>n s. same_outside K (he_U H) s (snd (he_Response H n s))) \<and> (\<forall>s. same_outside K (he_U H) s (snd (he_Cancel H s)))
     \<and> (\<forall>n d s. same_outside K (he_U H) s (snd (he_SetData H n d s))) \<and> (\<forall>s. same_outside K (he_U H) s (snd (he_CreateChild H s)))
     \<and> (\<forall>s. same_outside K (he_U H) s (snd (he_DestroyChild H s))) \<and> (\<forall>b s. same_outside K (he_U H) s (snd (he_Configure H b s)))
     \<and> (\<forall>e s. same_vars (he_U H) s (snd (snd (up_JsonLibEncode (he_E H) e s))))"

definition net_keeps_vars :: "(string \<times> string) set \<Rightarrow> 's net_env \<Rightarrow> bool" where
  "net_keeps_vars K N \<longleftrightarrow> http_keeps_vars K (ne_H N) \<and> (\<forall>s. same_outside K (ne_U N) s (snd (ne_ConnectDeviceClass N s)))
     \<and> (\<forall>h s. same_outside K (ne_U N) s (snd (snd (ne_DetectMedia N h s))))"

definition net_laws :: "(string \<times> string) set \<Rightarrow> 's net_env \<Rightarrow> bool" where
  "net_laws K N \<longleftrightarrow> net_keeps_vars K N \<and> variable_laws (ne_U N) \<and> alloc_keeps_vars (ne_U N) \<and> json_calls (ne_E N)"

lemma net_lawsD:
  assumes "net_laws K N"
  shows "net_keeps_vars K N" "variable_laws (ne_U N)" "alloc_keeps_vars (ne_U N)" "json_calls (ne_E N)" "http_keeps_vars K (ne_H N)"
  using assms by (simp_all add: net_laws_def net_keeps_vars_def)

text \<open>Keeping the variables is a cost of 0, so the lemmas on the cost of requests apply.\<close>

lemma vars_count:
  assumes k: "http_keeps_vars K H" and a: "alloc_keeps_vars (he_U H)"
  shows "counts_requests H 0 (\<lambda>x. if same_outside K (he_U H) s x then 0 else 1)"
proof -
  have t: "same_outside K (he_U H) x y \<Longrightarrow> (if same_outside K (he_U H) s y then 0 else 1) \<le> (if same_outside K (he_U H) s x then 0 else 1 :: nat)" for x y
    by (simp add: same_outside_def)
  show ?thesis
    using k a unfolding counts_requests_def http_keeps_vars_def alloc_keeps_vars_def by (simp add: t same_vars_outside)
qed

lemma exchange_vars:
  assumes k: "http_keeps_vars K H" and a: "alloc_keeps_vars (he_U H)" and r: "exchange H q m p b s = Some (st, q', s')"
  shows "same_outside K (he_U H) s s'"
proof (cases "Option.bind (deref p) buf_string")
  case None
  then have "ConfigureHTTP H (q\<lparr>nq_Http := (nq_Http q)\<lparr>ht_LocalAddressIsIPv6 := False, ht_HttpChildHandle := Some gImageHandle\<rparr>\<rparr>) s = Some (st, q', s')"
    using r by (auto simp: exchange_def split: Option.bind_splits if_splits)
  then show ?thesis using ConfigureHTTP_count [OF vars_count [OF k a, of s]] by (force simp: same_outside_def split: if_splits)
next
  case (Some u)
  then have "ProcessHttpRequestWithRetries H q m u b s = Some (st, q', s')" using r by (simp add: exchange_def)
  then show ?thesis using ProcessHttpRequestWithRetries_count [OF vars_count [OF k a, of s]] by (force simp: same_outside_def split: if_splits)
qed

lemma retries_vars:
  assumes k: "http_keeps_vars K H" and a: "alloc_keeps_vars (he_U H)" and r: "ProcessHttpRequestWithRetries H q m u b s = Some (st, q', s')"
  shows "same_outside K (he_U H) s s'"
  using ProcessHttpRequestWithRetries_count [OF vars_count [OF k a, of s] r] by (simp add: same_outside_def split: if_splits)

text \<open>Fetching an answer keeps the variables; whenever it succeeds, processing is done.\<close>

lemma ProcessAsyncRequest_vars:
  assumes k: "http_keeps_vars K H" "alloc_keeps_vars (he_U H)" and r: "ProcessAsyncRequest H q p d s = Some (st, q', d', s')"
  shows "same_outside K (he_U H) s s' \<and> (d \<longrightarrow> d') \<and> (\<not> EFI_ERROR st \<longrightarrow> d')"
proof -
  obtain st1 q1 s1 where 1: "exchange H q HttpMethodPost p False s = Some (st1, q1, s1)"
    using r by (auto simp: ProcessAsyncRequest_def split: Option.bind_splits)
  note v1 = exchange_vars [OF k 1]
  show ?thesis
  proof (cases "\<exists>u st2 q2 s2. ProcessHttpRequestWithRetries H q1 HttpMethodGet u True s1 = Some (st2, q2, s2) \<and> s' = s2 \<and> d'")
    case True
    then show ?thesis using retries_vars [OF k] same_outside_trans [OF v1] by blast
  next
    case False
    then show ?thesis
      using r v1 unfolding ProcessAsyncRequest_def 1
      by (auto split: if_splits option.splits Option.bind_splits prod.splits)
  qed
qed

text \<open>A step that does not end the processing changes no variable; one that does fills mailboxes of its table.\<close>

lemma recovery_step_changes:
  assumes k: "http_keeps_vars K H" "alloc_keeps_vars (he_U H)" and l: "variable_laws (he_U H)" "json_calls (he_E H)" and t: "t \<in> json_tables"
    and r: "recovery_step H q p ls t d s = Some (st, q', d', s')"
  shows "mailboxes_outside K (he_U H) (table_mailboxes t) s s' \<and> (d \<longrightarrow> d') \<and> (\<not> d' \<longrightarrow> same_outside K (he_U H) s s')"
proof -
  obtain st1 q1 d1 s1 where 1: "ProcessAsyncRequest H q p d s = Some (st1, q1, d1, s1)"
    using r by (auto simp: recovery_step_def split: Option.bind_splits)
  note v = ProcessAsyncRequest_vars [OF k 1]
  show ?thesis
  proof (cases "EFI_ERROR st1")
    case True
    then show ?thesis using r 1 v mailboxes_outsideI(1) by (auto simp: recovery_step_def)
  next
    case False
    then obtain b z where "DfciUpdateFromJson (he_E H) b (rs_BodySize (nq_Response q1)) t (nq_Status q1, s1) = Some (st, z, s')" "d' = d1"
      using r 1 by (auto simp: recovery_step_def split: Option.bind_splits)
    then have "mailboxes_outside K (he_U H) (table_mailboxes t) s1 s'"
      using mailboxes_outsideI(2) [OF DfciUpdateFromJson_only [OF l(1) k(2) l(2) t]] by blast
    then have "mailboxes_outside K (he_U H) (table_mailboxes t) s s'" by (rule mailboxes_outside_after [OF conjunct1 [OF v]])
    then show ?thesis using v False \<open>d' = d1\<close> by blast
  qed
qed

lemma response_tables [simp]: "mRecoveryBootstrapResponse \<in> json_tables" "mRecoveryResponse \<in> json_tables"
  by (simp_all add: json_tables_def)

lemma encode_vars:
  assumes "http_keeps_vars K H"
  shows "BuildJsonBootstrapRequest (he_E H) q s = (st, q', s') \<Longrightarrow> same_outside K (he_U H) s s' \<and> nq_LogicState q' = nq_LogicState q"
    "BuildJsonRecoveryRequest (he_E H) q s = (st, q', s') \<Longrightarrow> same_outside K (he_U H) s s' \<and> nq_LogicState q' = nq_LogicState q"
proof -
  have e: "same_outside K (he_U H) s (snd (snd (up_JsonLibEncode (he_E H) x s)))" for x
    using assms by (simp add: http_keeps_vars_def same_vars_outside)
  show "BuildJsonBootstrapRequest (he_E H) q s = (st, q', s') \<Longrightarrow> same_outside K (he_U H) s s' \<and> nq_LogicState q' = nq_LogicState q"
    by (auto simp: BuildJsonBootstrapRequest_def split: prod.splits) (metis e snd_conv)
  show "BuildJsonRecoveryRequest (he_E H) q s = (st, q', s') \<Longrightarrow> same_outside K (he_U H) s s' \<and> nq_LogicState q' = nq_LogicState q"
    by (auto simp: BuildJsonRecoveryRequest_def Let_def split: prod.splits) (metis e snd_conv)
qed

text \<open>
  The main logic changes mailboxes only, and nothing unless it ends the processing.  It succeeds
  exactly in the state \<open>DFCI_NO_RECOVERY_AVAILABLE\<close>, and the state \<open>DFCI_BOOTSTRAP_COMPLETE\<close> means that the
  second step was not taken.
\<close>

definition main_outcome :: "(string \<times> string) set \<Rightarrow> 's http_env \<Rightarrow> 's \<Rightarrow> EFI_STATUS \<times> network_request \<times> bool \<times> 's \<Rightarrow> bool" where
  "main_outcome K H s r = (case r of (st, q', d', s') \<Rightarrow>
     mailboxes_outside K (he_U H) (set mJsonSetVariableEntryMailbox) s s' \<and> (d' \<or> same_outside K (he_U H) s s')
     \<and> (st = EFI_SUCCESS \<longleftrightarrow> nq_LogicState q' = DFCI_NO_RECOVERY_AVAILABLE)
     \<and> (nq_LogicState q' = DFCI_BOOTSTRAP_COMPLETE \<longrightarrow> st = EFI_MEDIA_CHANGED
          \<and> mailboxes_outside K (he_U H) (table_mailboxes mRecoveryBootstrapResponse) s s'))"

lemma second_step_outcome:
  assumes k: "http_keeps_vars K H" "alloc_keeps_vars (he_U H)" and l: "variable_laws (he_U H)" "json_calls (he_E H)"
    and o: "mailboxes_outside K (he_U H) (set mJsonSetVariableEntryMailbox) s s3" "d2 \<or> same_outside K (he_U H) s s3"
    and q: "nq_LogicState q3 = DFCI_PRE_RECOVERY"
    and r: "recovery_step H q3 p DFCI_RECOVERY mRecoveryResponse d2 s3 = Some (st4, q4, d4, s4)"
    and f: "x = (if st4 = EFI_SUCCESS \<or> st4 = EFI_NOT_FOUND then (EFI_SUCCESS, q4\<lparr>nq_LogicState := DFCI_NO_RECOVERY_AVAILABLE\<rparr>, d4, s4)
         else if st4 = EFI_MEDIA_CHANGED then (st4, q4\<lparr>nq_LogicState := DFCI_RECOVERY_COMPLETE\<rparr>, d4, s4) else (st4, q4, d4, s4))"
  shows "main_outcome K H s x"
proof -
  note v = recovery_step_changes [OF k l response_tables(2) r]
  have "mailboxes_outside K (he_U H) (set mJsonSetVariableEntryMailbox) s s4"
    by (rule mailboxes_outside_trans [OF o(1) conjunct1 [OF v] order_refl table_mailboxes_subset [OF response_tables(2)]])
  moreover have "d4 \<or> same_outside K (he_U H) s s4" using v o(2) by (auto simp: same_outside_def)
  moreover have "nq_LogicState q4 \<in> {DFCI_PRE_RECOVERY, DFCI_RECOVERY}" using recovery_step_state [OF r] q by simp
  ultimately show ?thesis by (auto simp: f main_outcome_def)
qed

lemma DfciMainLogic_outcome:
  assumes k: "http_keeps_vars K H" "alloc_keeps_vars (he_U H)" and l: "variable_laws (he_U H)" "json_calls (he_E H)"
    and r: "DfciMainLogic H q d s = Some x"
  shows "main_outcome K H s x"
proof -
  obtain st1 q1 s1 where 1: "BuildJsonBootstrapRequest (he_E H) (q\<lparr>nq_LogicState := DFCI_PRE_BOOTSTRAP\<rparr>) s = (st1, q1, s1)" by (metis surj_pair)
  note v1 = encode_vars(1) [OF k(1) 1]
  show ?thesis
  proof (cases "EFI_ERROR st1")
    case True
    then have "x = (st1, q1, False, s1)" "st1 \<noteq> EFI_SUCCESS" using r by (auto simp: DfciMainLogic_def 1)
    then show ?thesis using v1 mailboxes_outsideI(1) by (auto simp: main_outcome_def)
  next
    case no1: False
    then obtain st2 q2 d2 s2 where 2: "recovery_step H q1 (rq_BootstrapUrl (nq_Request q1)) DFCI_BOOTSTRAP mRecoveryBootstrapResponse False s1 = Some (st2, q2, d2, s2)"
      using r by (auto simp: DfciMainLogic_def 1 split: Option.bind_splits)
    note v2 = recovery_step_changes [OF k l response_tables(1) 2]
    have o2: "mailboxes_outside K (he_U H) (table_mailboxes mRecoveryBootstrapResponse) s s2" "d2 \<or> same_outside K (he_U H) s s2"
      using v2 mailboxes_outside_after [OF conjunct1 [OF v1]] same_outside_trans [OF conjunct1 [OF v1]] by auto
    have o2': "mailboxes_outside K (he_U H) (set mJsonSetVariableEntryMailbox) s s2"
      by (rule mailboxes_outside_trans [OF o2(1) mailboxes_outsideI(1) [OF same_outside_refl] table_mailboxes_subset [OF response_tables(1)] empty_subsetI])
    have q2: "nq_LogicState q2 \<in> {DFCI_PRE_BOOTSTRAP, DFCI_BOOTSTRAP}" using recovery_step_state [OF 2] v1 by simp
    note r2 = r [unfolded DfciMainLogic_def 1 prod.case 2 bind.bind_lunit]
    show ?thesis
    proof (cases "st2 \<noteq> EFI_SUCCESS \<and> st2 \<noteq> EFI_NOT_FOUND")
      case True
      then have "x = (st2, if st2 = EFI_MEDIA_CHANGED then q2\<lparr>nq_LogicState := DFCI_BOOTSTRAP_COMPLETE\<rparr> else q2, d2, s2)"
        using r2 no1 by (auto split: if_splits)
      then show ?thesis using True o2 o2' q2 by (auto simp: main_outcome_def)
    next
      case go: False
      obtain st3 q3 s3 where 3: "BuildJsonRecoveryRequest (he_E H) (q2\<lparr>nq_LogicState := DFCI_PRE_RECOVERY\<rparr>) s2 = (st3, q3, s3)" by (metis surj_pair)
      note v3 = encode_vars(2) [OF k(1) 3]
      have o3: "mailboxes_outside K (he_U H) (set mJsonSetVariableEntryMailbox) s s3" "d2 \<or> same_outside K (he_U H) s s3"
        using mailboxes_outside_step [OF o2'] v3 o2(2) by (auto simp: same_outside_def)
      have m: "st2 \<noteq> EFI_MEDIA_CHANGED" using go by auto
      note r3 = r2 [unfolded 3 prod.case]
      show ?thesis
      proof (cases "EFI_ERROR st3")
        case True
        then have "x = (st3, q3, d2, s3)" "st3 \<noteq> EFI_SUCCESS" using r3 no1 go m by auto
        then show ?thesis using o3 v3 by (auto simp: main_outcome_def)
      next
        case no3: False
        let ?R = "recovery_step H q3 (rq_Url (nq_Request q3)) DFCI_RECOVERY mRecoveryResponse d2 s3"
        have "?R \<noteq> None"
        proof
          assume n: "?R = None"
          show False using r3 no1 go m no3 unfolding n by (auto split: if_splits)
        qed
        then obtain st4 q4 d4 s4 where 4: "?R = Some (st4, q4, d4, s4)" by (metis option.exhaust surj_pair)
        have "nq_LogicState q3 = DFCI_PRE_RECOVERY" using v3 by simp
        then show ?thesis
          by (rule second_step_outcome [OF k l o3 _ 4]) (use r3 no1 go m no3 in \<open>auto simp: 4 split: if_splits\<close>)
      qed
    qed
  qed
qed

section \<open>The request as a whole\<close>

lemma nic_loop_mailboxes:
  assumes n: "net_keeps_vars K N"
    and m: "\<And>q d s st q' d' s'. MainLogic q d s = Some (st, q', d', s') \<Longrightarrow> mailboxes_outside K (ne_U N) ms s s'"
  shows "nic_loop N MainLogic hs st q d s = Some (st', q', s') \<Longrightarrow> mailboxes_outside K (ne_U N) ms s s'"
proof (induction hs arbitrary: st q d s)
  case Nil
  then show ?case by (simp add: mailboxes_outside_def)
next
  case (Cons h hs)
  have media: "same_outside K (ne_U N) s (snd (snd (ne_DetectMedia N h s)))" for s using n by (simp add: net_keeps_vars_def)
  have un: "same_outside K (ne_U N) x (snd (UnconfigureNIC (ne_H N) y x))" for x y
  proof -
    have "same_outside K (ne_U N) s (snd (he_SetData (ne_H N) y z s))" for s z using n by (simp add: net_keeps_vars_def http_keeps_vars_def)
    then show ?thesis by (auto simp: UnconfigureNIC_def same_outside_def split: prod.splits) (metis snd_conv)+
  qed
  note pre = mailboxes_outside_after [where U = "ne_U N" and ms = ms and K = K]
  obtain e mp s1 where 1: "ne_DetectMedia N h s = (e, mp, s1)" by (metis surj_pair)
  have s1: "same_outside K (ne_U N) s s1" using media [of s] by (simp add: 1)
  show ?case
  proof (cases "d \<or> EFI_ERROR (ne_HttpServiceBinding N h s) \<or> \<not> mp")
    case True
    then consider "s' = s" | a b where "nic_loop N MainLogic hs a b d s = Some (st', q', s')" | a b where "nic_loop N MainLogic hs a b d s1 = Some (st', q', s')"
      using Cons.prems by (simp add: cleanup_clear 1 Let_def split: if_splits)
    then show ?thesis
    proof cases
      case 1
      then show ?thesis by (simp add: mailboxes_outside_def)
    qed (use Cons.IH pre [OF s1] in blast)+
  next
    case False
    then obtain st2 q2 q3 d2 s2 where 2: "MainLogic q3 d s1 = Some (st2, q2, d2, s2)"
      "nic_loop N MainLogic hs st2 q2 d2 (if nc_DhcpRequested (nq_Nic q2) then snd (UnconfigureNIC (ne_H N) (nc_NicHandle (nq_Nic q2)) s2) else s2) = Some (st', q', s')"
      using Cons.prems by (auto simp: cleanup_clear 1 Let_def split: Option.bind_splits)
    have "mailboxes_outside K (ne_U N) ms s2 s'" using Cons.IH [OF 2(2)] pre [OF un] by (simp split: if_splits)
    then show ?thesis using mailboxes_outside_trans [OF m [OF 2(1)] _ order_refl order_refl] pre [OF s1] by blast
  qed
qed

lemma TryEachNIC_mailboxes:
  assumes n: "net_laws K N" and r: "TryEachNICThenProcessRequest N (DfciMainLogic (ne_H N)) q s = Some (st, q', s')"
  shows "mailboxes_outside K (ne_U N) (set mJsonSetVariableEntryMailbox) s s'"
proof -
  have m: "mailboxes_outside K (ne_U N) (set mJsonSetVariableEntryMailbox) s s'" if "DfciMainLogic (ne_H N) q d s = Some (st, q', d', s')" for q d s st q' d' s'
    using DfciMainLogic_outcome [OF net_lawsD(5,3,2,4) [OF n] that] by (simp add: main_outcome_def)
  define s1 where "s1 = (if EFI_ERROR (ne_LocateBootPolicy N s) then s else snd (ne_ConnectDeviceClass N s))"
  have v: "same_outside K (ne_U N) s s1" using net_lawsD(1) [OF n] by (simp add: s1_def net_keeps_vars_def same_outside_def)
  obtain e hs where h: "ne_LocateNics N s1 = (e, hs)" by (metis surj_pair)
  consider "s' = s1" | x y where "nic_loop N (DfciMainLogic (ne_H N)) hs e q False s1 = Some (x, y, s')"
    using r by (auto simp: TryEachNICThenProcessRequest_def s1_def [symmetric] Let_def h split: Option.bind_splits if_splits)
  then have "mailboxes_outside K (ne_U N) (set mJsonSetVariableEntryMailbox) s1 s'"
    using nic_loop_mailboxes [OF net_lawsD(1) [OF n] m] by cases (auto simp: mailboxes_outside_def)
  then show ?thesis by (rule mailboxes_outside_after [OF v])
qed

lemma InitializeNetworkRequest_vars:
  assumes a: "alloc_keeps_vars (mu_U M)" and r: "InitializeNetworkRequest M q b s = Some (st, q', b', s')"
  shows "same_vars (mu_U M) s s' \<and> nq_HttpsCert q' = nq_HttpsCert q \<and> nq_HttpsCertSize q' = nq_HttpsCertSize q"
proof -
  have g: "same_vars (mu_U M) s s'" if "DfciGetASetting M i t b s = Some (st, p, n, b', s')" for i t b s st p n b' s'
    using that alloc_keeps_varsD(1) [OF a]
    by (auto simp: DfciGetASetting_def Let_def same_vars_def split: if_splits Option.bind_splits prod.splits)
  obtain st1 p1 n1 b1 s1 where 1: "DfciGetASetting M ''Dfci.RecoveryUrl.String'' TYPE_STRING b s = Some (st1, p1, n1, b1, s1)"
    using r by (auto simp: InitializeNetworkRequest_def cleanup_clear split: Option.bind_splits)
  note r1 = r [unfolded InitializeNetworkRequest_def cleanup_clear bind.bind_lunit 1 prod.case Let_def]
  show ?thesis
  proof (cases "EFI_ERROR st1 \<or> n1 \<le> 1")
    case True
    then show ?thesis using r1 g [OF 1] by auto
  next
    case False
    then obtain st2 p2 n2 b2 where "DfciGetASetting M ''Dfci.RecoveryBootstrapUrl.String'' TYPE_STRING b1 s1 = Some (st2, p2, n2, b2, s')"
      "nq_HttpsCert q' = nq_HttpsCert q" "nq_HttpsCertSize q' = nq_HttpsCertSize q"
      using r1 by (auto split: Option.bind_splits)
    then show ?thesis using g [OF 1] g by (auto simp: same_vars_def)
  qed
qed

lemma tls_is_no_mailbox: "m \<in> set mJsonSetVariableEntryMailbox \<Longrightarrow> jm_MailboxName m \<noteq> EFI_TLS_CA_CERTIFICATE_VARIABLE"
  by (auto simp: mJsonSetVariableEntryMailbox_def EFI_TLS_CA_CERTIFICATE_VARIABLE_def)

lemma tls_kept:
  assumes "mailboxes_outside K U (set mJsonSetVariableEntryMailbox) s s'" "(EFI_TLS_CA_CERTIFICATE_VARIABLE, gEfiTlsCaCertificateGuid) \<notin> K"
  shows "tls_variable U s' = tls_variable U s"
  using assms tls_is_no_mailbox unfolding mailboxes_outside_def by metis

lemma build_message_vars: "alloc_keeps_vars (ne_U N) \<Longrightarrow> build_message N st q s = (m, s') \<Longrightarrow> same_vars (ne_U N) s s'"
  using alloc_keeps_varsD(1) by (fastforce simp: build_message_def Let_def same_vars_def split: if_splits prod.splits)

text \<open>All but the variables of \<open>X\<close>: unchanged, or a mailbox with a packet.\<close>

definition beside :: "'s platform \<Rightarrow> (string \<times> string) set \<Rightarrow> 's \<Rightarrow> 's \<Rightarrow> bool" where
  "beside U X s s' \<longleftrightarrow> mailboxes_outside X U (set mJsonSetVariableEntryMailbox) s s'"

abbreviation beside_tls :: "(string \<times> string) set \<Rightarrow> 's platform \<Rightarrow> 's \<Rightarrow> 's \<Rightarrow> bool" where
  "beside_tls K U \<equiv> beside U (insert (EFI_TLS_CA_CERTIFICATE_VARIABLE, gEfiTlsCaCertificateGuid) K)"

lemma besideI:
  "same_vars U s s' \<Longrightarrow> beside U X s s'"
  "only_mailboxes U (set mJsonSetVariableEntryMailbox) s s' \<Longrightarrow> beside U X s s'"
  "mailboxes_outside K U (set mJsonSetVariableEntryMailbox) s s' \<Longrightarrow> K \<subseteq> X \<Longrightarrow> beside U X s s'"
  unfolding beside_def same_vars_def only_mailboxes_def mailboxes_outside_def by blast+

lemma beside_set:
  assumes "variable_laws U" "(n, g) \<in> X"
  shows "beside U X s (snd (SetVariable U n g a d s))"
  using variable_lawsD(2) [OF assms(1) prod.collapse [symmetric]] assms(2) unfolding beside_def mailboxes_outside_def by metis

lemma beside_mono: "beside U X s s' \<Longrightarrow> X \<subseteq> Y \<Longrightarrow> beside U Y s s'"
  unfolding beside_def mailboxes_outside_def by blast

lemma beside_trans: "beside U X a b \<Longrightarrow> beside U X b c \<Longrightarrow> beside U X a c"
  unfolding beside_def by (rule mailboxes_outside_trans [OF _ _ subset_refl subset_refl])

lemma beside_manager:
  assumes "beside U X s s'" "(name, g) \<notin> X" "GetVariable U name g s' \<noteq> GetVariable U name g s"
  shows "\<exists>k rn sig dec prot d. (k, name, rn, g, sig, dec, prot) \<in> set (mailboxes ME)
    \<and> GetVariable U name g s' = (EFI_SUCCESS, d, 7) \<and> rd32 d 0 = Some sig"
proof -
  obtain m where m: "m \<in> set mJsonSetVariableEntryMailbox" "name = jm_MailboxName m" "g = jm_MailboxNamespace m" "holds_packet U m s'"
    using assms unfolding beside_def mailboxes_outside_def by blast
  show ?thesis using mailbox_of_manager [OF m(1,4)] m(2,3) by simp
qed

lemma RestoreCertificates_beside: "variable_laws U \<Longrightarrow> RestoreCertificates U c s = (st, c', s') \<Longrightarrow> beside_tls K U s s'"
  using besideI(1) [of U s s] beside_set [of U EFI_TLS_CA_CERTIFICATE_VARIABLE gEfiTlsCaCertificateGuid]
  by (auto simp: RestoreCertificates_def same_vars_def split: option.splits)

lemma save_certificate_beside:
  assumes l: "variable_laws U" "alloc_keeps_vars U" and r: "save_certificate U c s = (ok, c', s')"
  shows "beside_tls K U s s'"
proof -
  obtain e c1 where 1: "query_tls U c s = (e, c1)" by (metis surj_pair)
  obtain k s1 where 2: "AllocatePool U (ns_OldCertificateSize c1) s = (k, s1)" by (metis surj_pair)
  note v = besideI(1) [OF alloc_keeps_varsD(1) [OF l(2) 2]]
  have "s' \<in> {s, s1, snd (SetVariable U EFI_TLS_CA_CERTIFICATE_VARIABLE gEfiTlsCaCertificateGuid 0 [] s1)}"
    using r by (auto simp: save_certificate_def 1 2 split: if_splits prod.splits)
  then show ?thesis using v besideI(1) [of U s s] beside_trans [OF v beside_set [OF l(1) insertI1]] by (auto simp: same_vars_def)
qed

text \<open>How the second half of the installation ends.\<close>

definition installed :: "'s net_env \<Rightarrow> network_request \<Rightarrow> net_static \<Rightarrow> 's \<Rightarrow> EFI_STATUS \<Rightarrow> net_static \<Rightarrow> 's \<Rightarrow> bool" where
  "installed N q c s1 st c' s' \<longleftrightarrow> (\<exists>s2. same_vars (ne_U N) s1 s2 \<and> (EFI_ERROR st \<and> c' = c \<and> s' = s2
     \<or> (\<exists>b s3. (if nq_HttpsCertSize q = 0 then Some [] else do { p \<leftarrow> deref (nq_HttpsCert q); rd p 0 (nq_HttpsCertSize q) }) = Some b
          \<and> SetVariable (ne_U N) EFI_TLS_CA_CERTIFICATE_VARIABLE gEfiTlsCaCertificateGuid 3 (signature_list N b) s2 = (st, s3)
          \<and> (if EFI_ERROR st then \<exists>x. RestoreCertificates (ne_U N) c s3 = (x, c', s') else c' = c \<and> s' = s3))))"

lemma EnableDfciCertificate_installed:
  assumes a: "alloc_keeps_vars (ne_U N)" and r: "EnableDfciCertificate N q c s = Some (st, c', s')"
    and 1: "save_certificate (ne_U N) c s = (ok, c1, s1)"
  shows "if ok then installed N q c1 s1 st c' s' else EFI_ERROR st \<and> c' = c1 \<and> s' = s1"
proof (cases ok)
  case True
  obtain k s2 where 2: "AllocatePool (ne_U N) (44 + nq_HttpsCertSize q) s1 = (k, s2)" by (metis surj_pair)
  note v = alloc_keeps_varsD(1) [OF a 2]
  have "installed N q c1 s1 st c' s'"
  proof (cases k)
    case False
    then show ?thesis using r v True by (auto simp: EnableDfciCertificate_def 1 2 installed_def)
  next
    case kk: True
    note r1 = r [unfolded EnableDfciCertificate_def 1 2 prod.case]
    then obtain b where b: "(if nq_HttpsCertSize q = 0 then Some [] else do { p \<leftarrow> deref (nq_HttpsCert q); rd p 0 (nq_HttpsCertSize q) }) = Some b"
      using True kk by (auto split: Option.bind_split_asm)
    obtain e s3 where 3: "SetVariable (ne_U N) EFI_TLS_CA_CERTIFICATE_VARIABLE gEfiTlsCaCertificateGuid 3 (signature_list N b) s2 = (e, s3)" by (metis surj_pair)
    note r2 = r1 [unfolded b bind.bind_lunit 3 prod.case]
    then have "e = st" "if EFI_ERROR st then \<exists>x. RestoreCertificates (ne_U N) c1 s3 = (x, c', s') else c' = c1 \<and> s' = s3"
      using True kk by (auto split: if_splits prod.splits)
    then show ?thesis unfolding installed_def using v b 3 by blast
  qed
  then show ?thesis using True by simp
qed (use r in \<open>auto simp: EnableDfciCertificate_def 1\<close>)

lemma EnableDfciCertificate_beside:
  assumes l: "variable_laws (ne_U N)" "alloc_keeps_vars (ne_U N)" and r: "EnableDfciCertificate N q c s = Some (st, c', s')"
  shows "beside_tls K (ne_U N) s s'"
proof -
  obtain ok c1 s1 where 1: "save_certificate (ne_U N) c s = (ok, c1, s1)" by (metis surj_pair)
  note v = save_certificate_beside [OF l 1]
  have "beside_tls K (ne_U N) s1 s'" if i: "installed N q c1 s1 st c' s'"
  proof -
    obtain s2 where s2: "same_vars (ne_U N) s1 s2" and o: "s' = s2 \<or> (\<exists>b s3. SetVariable (ne_U N) EFI_TLS_CA_CERTIFICATE_VARIABLE gEfiTlsCaCertificateGuid 3 b s2 = (st, s3)
        \<and> (s' = s3 \<or> (\<exists>x. RestoreCertificates (ne_U N) c1 s3 = (x, c', s'))))"
      using i unfolding installed_def by (auto split: if_splits)
    have set: "beside_tls K (ne_U N) s2 s3" if "SetVariable (ne_U N) EFI_TLS_CA_CERTIFICATE_VARIABLE gEfiTlsCaCertificateGuid 3 b s2 = (st, s3)" for b s3
      using beside_set [OF l(1) insertI1, of EFI_TLS_CA_CERTIFICATE_VARIABLE gEfiTlsCaCertificateGuid K s2 3 b] that by simp
    have "beside_tls K (ne_U N) s2 s'"
      using o besideI(1) [of "ne_U N" s2 s2] set beside_trans [OF set RestoreCertificates_beside [OF l(1)]] by (auto simp: same_vars_def)
    then show ?thesis by (rule beside_trans [OF besideI(1) [OF s2]])
  qed
  then show ?thesis
    using EnableDfciCertificate_installed [OF l(2) r 1] v beside_trans [OF v] by (auto split: if_splits)
qed

lemma exit_request_restores:
  "exit_request N st m q c s = Some (st', m', q', c', s') \<Longrightarrow> m' = m \<and> (\<exists>x. RestoreCertificates (ne_U N) c s = (x, c', s'))"
  by (auto simp: exit_request_def split: prod.splits Option.bind_splits)

text \<open>A request is set up, the certificate is installed, the interfaces are tried; the exit restores the certificate.\<close>

lemma request_steps:
  assumes n: "net_laws K N" and r: "ProcessDfciNetworkRequest N q c s = Some (st, m, q', c', s')"
  obtains (init) c1 s1 x where "same_vars (ne_U N) s s1" "c1 = c\<lparr>ns_SettingAccess := ns_SettingAccess c1\<rparr>" "m = None" "RestoreCertificates (ne_U N) c1 s1 = (x, c', s')"
  | (enable) q1 c1 s1 st2 c2 s2 s3 x where "same_vars (ne_U N) s s1" "c1 = c\<lparr>ns_SettingAccess := ns_SettingAccess c1\<rparr>"
      "nq_HttpsCert q1 = nq_HttpsCert q" "nq_HttpsCertSize q1 = nq_HttpsCertSize q"
      "EnableDfciCertificate N q1 c1 s1 = Some (st2, c2, s2)" "EFI_ERROR st2 \<longrightarrow> m = None \<and> s3 = s2"
      "mailboxes_outside K (ne_U N) (set mJsonSetVariableEntryMailbox) s2 s3" "RestoreCertificates (ne_U N) c2 s3 = (x, c', s')"
proof -
  obtain st1 q1 a s1 where 1: "InitializeNetworkRequest (up_M (ne_E N)) q (ns_SettingAccess c) s = Some (st1, q1, a, s1)"
    using r by (auto simp: ProcessDfciNetworkRequest_def split: Option.bind_splits)
  note v1 = InitializeNetworkRequest_vars [OF net_lawsD(3) [OF n] 1]
  define c1 where "c1 = c\<lparr>ns_SettingAccess := a\<rparr>"
  have c1: "c1 = c\<lparr>ns_SettingAccess := ns_SettingAccess c1\<rparr>" by (simp add: c1_def)
  note r1 = r [unfolded ProcessDfciNetworkRequest_def 1 bind.bind_lunit prod.case Let_def c1_def [symmetric]]
  show thesis
  proof (cases "EFI_ERROR st1")
    case True
    then show thesis using r1 exit_request_restores v1 c1 init by (metis (lifting))
  next
    case False
    then obtain st2 c2 s2 where 2: "EnableDfciCertificate N q1 c1 s1 = Some (st2, c2, s2)"
      using r1 by (auto split: Option.bind_splits)
    show thesis
    proof (cases "EFI_ERROR st2")
      case True
      then have "exit_request N st2 None q1 c2 s2 = Some (st, m, q', c', s')" using r1 False by (simp add: 2)
      from exit_request_restores [OF this] show thesis
        using enable [OF conjunct1 [OF v1] c1 _ _ 2, of s2] v1 mailboxes_outsideI(1) [OF same_outside_refl, of K "ne_U N"] by auto
    next
      case ok: False
      then obtain st3 q3 s3 where 3: "TryEachNICThenProcessRequest N (DfciMainLogic (ne_H N)) q1 s2 = Some (st3, q3, s3)"
        using r1 False by (auto simp: 2 split: Option.bind_splits)
      obtain m3 s4 where 4: "build_message N st3 q3 s3 = (m3, s4)" by (metis surj_pair)
      have e: "exit_request N st3 m3 q3 c2 s4 = Some (st, m, q', c', s')" using r1 False ok by (simp add: 2 3 4)
      note o = mailboxes_outside_step [OF TryEachNIC_mailboxes [OF n 3] same_vars_outside [OF build_message_vars [OF net_lawsD(3) [OF n] 4]]]
      from exit_request_restores [OF e] show thesis
        using enable [OF conjunct1 [OF v1] c1 _ _ 2 _ o] v1 ok by blast
    qed
  qed
qed

lemma ProcessDfciNetworkRequest_beside:
  assumes n: "net_laws K N" and r: "ProcessDfciNetworkRequest N q c s = Some (st, m, q', c', s')"
  shows "beside_tls K (ne_U N) s s'"
  using n r
proof (cases rule: request_steps)
  case init
  then show ?thesis using beside_trans [OF besideI(1) [OF init(1)] RestoreCertificates_beside [OF net_lawsD(2) [OF n] init(4)]] by simp
next
  case enable
  note e = beside_trans [OF besideI(1) [OF enable(1)] EnableDfciCertificate_beside [OF net_lawsD(2) [OF n] net_lawsD(3) [OF n] enable(5)]]
  show ?thesis
    by (rule beside_trans [OF e beside_trans [OF besideI(3) [OF enable(7) subset_insertI] RestoreCertificates_beside [OF net_lawsD(2) [OF n] enable(8)]]])
qed

text \<open>
  Property C11: a recovery over the network, whatever the servers answer and on whichever path it
  ends, changes no variable except those \<open>K\<close> in which the network stack keeps its own configuration,
  the TLS certificate of the system and the mailboxes the manager reads at the next start; a mailbox
  outside \<open>K\<close> that it changes holds a packet that starts with the signature the manager expects there.
\<close>

theorem network_request_only_fills_mailboxes:
  assumes n: "net_laws K N" and r: "ProcessDfciNetworkRequest N q c s = Some (st, m, q', c', s')"
    and t: "(name, g) \<noteq> (EFI_TLS_CA_CERTIFICATE_VARIABLE, gEfiTlsCaCertificateGuid)" and k: "(name, g) \<notin> K"
    and d: "GetVariable (ne_U N) name g s' \<noteq> GetVariable (ne_U N) name g s"
  shows "\<exists>k rn sig dec prot d. (k, name, rn, g, sig, dec, prot) \<in> set (mailboxes ME)
    \<and> GetVariable (ne_U N) name g s' = (EFI_SUCCESS, d, 7) \<and> rd32 d 0 = Some sig"
proof -
  have "beside_tls K (ne_U N) s s'" by (rule ProcessDfciNetworkRequest_beside [OF n r])
  then show ?thesis by (rule beside_manager) (use t k d in simp_all)
qed

text \<open>
  Where the old certificate is: in the variable, when it has not been saved, or in the saved copy with
  its size and attributes.
\<close>

definition tls_safe :: "'s platform \<Rightarrow> bytes \<Rightarrow> u32 \<Rightarrow> net_static \<Rightarrow> 's \<Rightarrow> bool" where
  "tls_safe U d a c s \<longleftrightarrow> (case ns_OldCertificateList c of None \<Rightarrow> tls_variable U s = (EFI_SUCCESS, d, a)
     | Some x \<Rightarrow> x = d \<and> ns_OldCertificateSize c = length d \<and> ns_OldCertificateAttr c = a)"

lemma tls_safe_kept: "tls_variable U s' = tls_variable U s \<Longrightarrow> tls_safe U d a c s \<Longrightarrow> tls_safe U d a c s'"
  by (simp add: tls_safe_def split: option.splits)

lemma RestoreCertificates_safe:
  assumes l: "variable_laws U" and w: "\<And>x. \<not> EFI_ERROR (fst (SetVariable U EFI_TLS_CA_CERTIFICATE_VARIABLE gEfiTlsCaCertificateGuid a d x))"
    and d: "d \<noteq> []" and t: "tls_safe U d a c s" and r: "RestoreCertificates U c s = (st, c', s')"
  shows "tls_variable U s' = (EFI_SUCCESS, d, a) \<and> ns_OldCertificateList c' = None"
  using t r variable_lawsD(1) [OF l prod.collapse [symmetric] w [of s] d]
  by (auto simp: tls_safe_def RestoreCertificates_def split: option.splits)

lemma save_certificate_safe:
  assumes a: "alloc_keeps_vars U" and t: "tls_variable U s = (EFI_SUCCESS, d, a)" "d \<noteq> []"
    and c: "ns_OldCertificateList c = None" "ns_OldCertificateSize c = 0" and r: "save_certificate U c s = (ok, c', s')"
  shows "tls_safe U d a c' s' \<and> (ok \<longrightarrow> ns_OldCertificateList c' = Some d)"
proof -
  have 1: "query_tls U c s = (EFI_BUFFER_TOO_SMALL, c\<lparr>ns_OldCertificateSize := length d, ns_OldCertificateAttr := a\<rparr>)"
    using t c by (simp add: query_tls_def)
  obtain k s1 where 2: "AllocatePool U (length d) s = (k, s1)" by (metis surj_pair)
  have "tls_variable U s1 = (EFI_SUCCESS, d, a)" using alloc_keeps_varsD(1) [OF a 2] t by (simp add: same_vars_def)
  then show ?thesis using r by (auto simp: save_certificate_def 1 2 tls_safe_def split: if_splits)
qed

lemma signature_list_nonempty: "signature_list N c \<noteq> []"
proof -
  have "le32 0 \<noteq> []" using length_le(2) [of 0] by (metis list.size(3) zero_neq_numeral)
  then show ?thesis by (simp add: signature_list_def)
qed

lemma EnableDfciCertificate_safe:
  assumes l: "variable_laws (ne_U N)" and k: "alloc_keeps_vars (ne_U N)"
    and w: "\<And>x. \<not> EFI_ERROR (fst (SetVariable (ne_U N) EFI_TLS_CA_CERTIFICATE_VARIABLE gEfiTlsCaCertificateGuid a d x))"
    and t: "tls_variable (ne_U N) s = (EFI_SUCCESS, d, a)" "d \<noteq> []" and c: "ns_OldCertificateList c = None" "ns_OldCertificateSize c = 0"
    and r: "EnableDfciCertificate N q c s = Some (st, c', s')"
  shows "tls_safe (ne_U N) d a c' s'"
proof -
  obtain ok c1 s1 where 1: "save_certificate (ne_U N) c s = (ok, c1, s1)" by (metis surj_pair)
  note v = save_certificate_safe [OF k t c 1]
  have "tls_safe (ne_U N) d a c' s'" if ok and i: "installed N q c1 s1 st c' s'"
  proof -
    have any: "tls_safe (ne_U N) d a c1 x" for x using v that(1) by (auto simp: tls_safe_def)
    have "tls_safe (ne_U N) d a c' s'" if "RestoreCertificates (ne_U N) c1 x = (y, c', s')" for x y
      using RestoreCertificates_safe [OF l w t(2) any that] by (simp add: tls_safe_def)
    then show ?thesis using i any unfolding installed_def by (auto split: if_splits)
  qed
  then show ?thesis using EnableDfciCertificate_installed [OF k r 1] v by (auto split: if_splits)
qed

text \<open>
  Property C12: whatever happens during a recovery over the network, on every path to its end the TLS
  certificate that the system had before the first request is in place again, with its attributes,
  provided that writing it back does not fail and that the certificate is not among the variables \<open>K\<close>
  the network stack writes.
\<close>

theorem tls_certificate_is_restored:
  assumes n: "net_laws K N" and k: "(EFI_TLS_CA_CERTIFICATE_VARIABLE, gEfiTlsCaCertificateGuid) \<notin> K" and r: "ProcessDfciNetworkRequest N q c s = Some (st, m, q', c', s')"
    and c: "ns_OldCertificateList c = None" "ns_OldCertificateSize c = 0" and t: "tls_variable (ne_U N) s = (EFI_SUCCESS, d, a)" "d \<noteq> []"
    and w: "\<And>x. \<not> EFI_ERROR (fst (SetVariable (ne_U N) EFI_TLS_CA_CERTIFICATE_VARIABLE gEfiTlsCaCertificateGuid a d x))"
  shows "tls_variable (ne_U N) s' = (EFI_SUCCESS, d, a)"
  using n r
proof (cases rule: request_steps)
  case (init c1 s1 x)
  have "ns_OldCertificateList c1 = None" using c(1) by (subst init(2)) simp
  then show ?thesis using init(1,4) t by (simp add: RestoreCertificates_def same_vars_def)
next
  case (enable q1 c1 s1 st2 c2 s2 s3 x)
  note l = net_lawsD(2) [OF n] and a = net_lawsD(3) [OF n]
  have c1: "ns_OldCertificateList c1 = None" "ns_OldCertificateSize c1 = 0" using c by (subst enable(2), simp)+
  have t1: "tls_variable (ne_U N) s1 = (EFI_SUCCESS, d, a)" using enable(1) t by (simp add: same_vars_def)
  have "tls_safe (ne_U N) d a c2 s2" by (rule EnableDfciCertificate_safe [OF l a w t1 t(2) c1 enable(5)])
  then have "tls_safe (ne_U N) d a c2 s3" by (rule tls_safe_kept [OF tls_kept [OF enable(7) k]])
  then show ?thesis using RestoreCertificates_safe [OF l w t(2) _ enable(8)] by blast
qed

text \<open>
  A certificate that was not saved is not restored.  When the system had no TLS
  certificate, and from the second request on when it has one that is not longer than the first
  (the size of the first is kept and makes the query fail), a request that reaches the servers
  leaves the certificate of the recovery service in the variable.
\<close>

theorem tls_certificate_is_replaced:
  assumes n: "net_laws K N" and k: "(EFI_TLS_CA_CERTIFICATE_VARIABLE, gEfiTlsCaCertificateGuid) \<notin> K" and r: "ProcessDfciNetworkRequest N q c s = Some (st, Some msg, q', c', s')"
    and c: "ns_OldCertificateList c = None" and t: "tls_variable (ne_U N) s = (e, d, a)" "e \<noteq> EFI_BUFFER_TOO_SMALL"
      "EFI_ERROR e \<or> length d \<le> ns_OldCertificateSize c"
    and q: "nq_HttpsCert q = Ptr cert" "nq_HttpsCertSize q = length cert"
  shows "tls_variable (ne_U N) s' = (EFI_SUCCESS, signature_list N cert, 3)"
  using n r
proof (cases rule: request_steps)
  case (enable q1 c1 s1 st2 c2 s2 s3 x)
  have c1: "ns_OldCertificateList c1 = None" "ns_OldCertificateSize c1 = ns_OldCertificateSize c" using c by (subst enable(2), simp)+
  have "tls_variable (ne_U N) s1 = (e, d, a)" using enable(1) t(1) by (simp add: same_vars_def)
  then have 1: "save_certificate (ne_U N) c1 s1 = (True, c1, s1)"
    using t(2,3) c1(2) by (auto simp: save_certificate_def query_tls_def)
  have ok: "\<not> EFI_ERROR st2" using enable(6) by auto
  have b: "(if nq_HttpsCertSize q1 = 0 then Some [] else do { p \<leftarrow> deref (nq_HttpsCert q1); rd p 0 (nq_HttpsCertSize q1) }) = Some cert"
    using enable(3,4) q by (simp add: deref_def rd_def)
  obtain s0 where "c2 = c1" and s2: "SetVariable (ne_U N) EFI_TLS_CA_CERTIFICATE_VARIABLE gEfiTlsCaCertificateGuid 3 (signature_list N cert) s0 = (st2, s2)"
    using EnableDfciCertificate_installed [OF net_lawsD(3) [OF n] enable(5) 1] ok unfolding installed_def b by auto
  have "tls_variable (ne_U N) s2 = (EFI_SUCCESS, signature_list N cert, 3)"
    by (rule variable_lawsD(1) [OF net_lawsD(2) [OF n] s2 ok signature_list_nonempty])
  then show ?thesis using tls_kept [OF enable(7) k] enable(8) \<open>c2 = c1\<close> c1(1) by (simp add: RestoreCertificates_def)
qed simp

text \<open>
  A server that accepts a post and answers a get with one byte; the JSON library reports one packet.
  The state records the methods of the requests; the configuration of an interface is kept in a variable.
\<close>

definition demo_ip4 :: "(string \<times> string) set" where
  "demo_ip4 = {(''00155D010203'', ''gEfiIp4Config2ProtocolGuid'')}"

definition demo_server :: "demo_state http_env" where
  "demo_server = (demo_http HTTP_STATUS_200_OK ''1'')\<lparr>he_E := demo_update\<lparr>
       up_M := url_menu [0x68, 0],
       up_JsonLibParse := (\<lambda>js n f x. f (Some \<lparr>jr_FieldName = Some ''TransitionPacket1'', jr_FieldLen = 17, jr_Value = Some ''TVNQQQI='', jr_ValueLen = 8\<rparr>) x)\<rparr>,
     he_SetData := (\<lambda>n d s. SetVariable demo_platform ''00155D010203'' ''gEfiIp4Config2ProtocolGuid'' 7 [1] s),
     he_Request := (\<lambda>m u h b s. (EFI_SUCCESS, s\<lparr>dm_docs := [(case m of HttpMethodGet \<Rightarrow> ''get'' | HttpMethodPost \<Rightarrow> ''post'', XmlNode [] None [] False [])]\<rparr>)),
     he_Message := (\<lambda>s. if map fst (dm_docs s) = [''post''] then \<lparr>hm_StatusCode = Some HTTP_STATUS_202_ACCEPTED, hm_Headers = [(''Location'', ''l'')], hm_Body = []\<rparr>
        else \<lparr>hm_StatusCode = Some HTTP_STATUS_200_OK, hm_Headers = [(''Content-Length'', ''1'')], hm_Body = [0x7B]\<rparr>)\<rparr>"

definition demo_net :: "demo_state net_env" where
  "demo_net = \<lparr>ne_H = demo_server, ne_LocateBootPolicy = (\<lambda>s. EFI_NOT_FOUND), ne_ConnectDeviceClass = (\<lambda>s. (EFI_SUCCESS, s)),
     ne_LocateNics = (\<lambda>s. (EFI_SUCCESS, [5])), ne_HttpServiceBinding = (\<lambda>h s. EFI_SUCCESS), ne_DetectMedia = (\<lambda>h s. (EFI_SUCCESS, True, s)),
     ne_Message = (\<lambda>f st q. ''done''), ne_CertX509Guid = replicate 16 1, ne_CallerIdGuid = replicate 16 2\<rparr>"

lemmas demo_net_simps = demo_net_def demo_server_def demo_http_def demo_update_def url_menu_def

lemma demo_net_laws: "net_laws demo_ip4 demo_net"
  unfolding net_laws_def net_keeps_vars_def http_keeps_vars_def
  by (auto simp: demo_net_simps same_vars_def same_outside_def demo_ip4_def json_calls_def demo_laws) (simp_all add: demo_simps)

lemma demo_ip4_keys: "(EFI_TLS_CA_CERTIFICATE_VARIABLE, gEfiTlsCaCertificateGuid) \<notin> demo_ip4" "(''DfciIdentityApply'', g) \<notin> demo_ip4"
  "(''DfciPermissionApply'', g) \<notin> demo_ip4"
  by (simp_all add: demo_ip4_def EFI_TLS_CA_CERTIFICATE_VARIABLE_def)

lemma demo_server_services:
  "he_CreateEvent demo_server s = (EFI_SUCCESS, s)" "he_SetTimer demo_server n s = (EFI_SUCCESS, s)" "he_Poll demo_server s = s"
  "he_CheckEvent demo_server e s = (EFI_SUCCESS, s)" "he_Response demo_server k s = (EFI_SUCCESS, s)" "he_Ip4Config2 demo_server nic s = EFI_SUCCESS"
  "he_GetManualAddress demo_server nic s = (EFI_SUCCESS, 10)" "he_CreateChild demo_server s = (EFI_SUCCESS, s)" "he_LocateHttp demo_server s = EFI_SUCCESS"
  "he_Configure demo_server c s = (EFI_SUCCESS, s)" "he_DestroyChild demo_server s = (EFI_SUCCESS, s)" "he_U demo_server = demo_platform"
  "he_HttpParseUrl demo_server u = EFI_SUCCESS" "he_HttpUrlGetHostName demo_server u = (EFI_SUCCESS, ''host'')"
  "he_HttpFindHeader demo_server hs x = map_of hs x" "he_PrintDecimal demo_server k = ''0''"
  "he_Request demo_server m u h b s = (EFI_SUCCESS, s\<lparr>dm_docs := [(case m of HttpMethodGet \<Rightarrow> ''get'' | HttpMethodPost \<Rightarrow> ''post'', XmlNode [] None [] False [])]\<rparr>)"
  "he_Message demo_server s = (if map fst (dm_docs s) = [''post''] then \<lparr>hm_StatusCode = Some HTTP_STATUS_202_ACCEPTED, hm_Headers = [(''Location'', ''l'')], hm_Body = []\<rparr>
        else \<lparr>hm_StatusCode = Some HTTP_STATUS_200_OK, hm_Headers = [(''Content-Length'', ''1'')], hm_Body = [0x7B]\<rparr>)"
  "up_JsonLibEncode (he_E demo_server) es s = (EFI_SUCCESS, to_bytes ''{}'' @ [0], s)"
  by (simp_all add: demo_net_simps)

lemma demo_server_wait: "EventWait demo_server (Some b) e n s = Some (EFI_SUCCESS, s)"
  by (simp add: EventWait_def demo_server_services wait_loop.simps check_main_def)

lemma demo_server_response:
  "DfciGetResponse demo_server q b k s = Some (EFI_SUCCESS, he_Message demo_server s,
     if b then q\<lparr>nq_Status := (nq_Status q)\<lparr>hs_HttpStatus := if map fst (dm_docs s) = [''post''] then HTTP_STATUS_202_ACCEPTED else HTTP_STATUS_200_OK\<rparr>\<rparr> else q, s)"
  by (simp add: DfciGetResponse_def demo_server_wait Let_def demo_server_services)

lemma demo_server_issue:
  "DfciIssueRequest demo_server q m u hs b s = Some (EFI_SUCCESS,
     s\<lparr>dm_docs := [(case m of HttpMethodGet \<Rightarrow> ''get'' | HttpMethodPost \<Rightarrow> ''post'', XmlNode [] None [] False [])]\<rparr>)"
  by (simp add: DfciIssueRequest_def demo_server_wait demo_server_services)

lemma demo_server_headers: "\<exists>hs. DfciBuildRequestHeaders demo_server u n t s = (EFI_SUCCESS, hs, s)"
  by (simp add: DfciBuildRequestHeaders_def demo_server_services demo_simps Let_def)

lemma demo_server_configure:
  "\<not> ht_LocalAddressIsIPv6 (nq_Http q) \<Longrightarrow> ConfigureHTTP demo_server q s = Some (EFI_SUCCESS,
     q\<lparr>nq_Http := (nq_Http q)\<lparr>ht_HttpVersion11 := True, ht_LocalAddressIsIPv6 := False, ht_IPv4Node := True, ht_HttpProtocol := True\<rparr>,
       nq_Nic := (nq_Nic q)\<lparr>nc_UseDefaultAddress := True\<rparr>\<rparr>, s)"
  by (simp add: ConfigureHTTP_def demo_server_services)

text \<open>The answers to a post and to a get.\<close>

lemma demo_server_http:
  assumes b: "rq_Body (nq_Request q) = Ptr (to_bytes ''{}'' @ [0])" "rq_BodySize (nq_Request q) = 3"
  shows "ProcessHttpRequest demo_server q HttpMethodPost u s = Some (EFI_SUCCESS,
      q\<lparr>nq_Status := (nq_Status q)\<lparr>hs_HttpStatus := HTTP_STATUS_202_ACCEPTED\<rparr>,
        nq_Response := (nq_Response q)\<lparr>rs_Headers := Some [(''Location'', ''l'')], rs_HeaderCount := 1\<rparr>\<rparr>,
      s\<lparr>dm_docs := [(''post'', XmlNode [] None [] False [])]\<rparr>)"
    "ProcessHttpRequest demo_server q HttpMethodGet u s = Some (EFI_SUCCESS,
      q\<lparr>nq_Status := (nq_Status q)\<lparr>hs_HttpStatus := HTTP_STATUS_200_OK\<rparr>,
        nq_Response := (nq_Response q)\<lparr>rs_Headers := Some [(''Content-Length'', ''1'')], rs_HeaderCount := 1, rs_Body := Ptr [0x7B, 0], rs_BodySize := 2\<rparr>\<rparr>,
      s\<lparr>dm_docs := [(''get'', XmlNode [] None [] False [])]\<rparr>)"
proof -
  have bl: "body_loop demo_server q' 2 (Suc 0) [] s' = Some (EFI_SUCCESS, [0x7B], s')" if "map fst (dm_docs s') \<noteq> [''post'']" for q' s'
    using that by (subst body_loop.simps) (simp add: demo_server_response demo_server_services, subst body_loop.simps, simp)
  obtain hs where h: "DfciBuildRequestHeaders demo_server u (Suc (Suc 0)) ''application/json'' s = (EFI_SUCCESS, hs, s)" using demo_server_headers by blast
  have c: "DfciConvertToCHAR16 demo_platform u (length u) s = (EFI_SUCCESS, Some u, s)"
    by (simp add: DfciConvertToCHAR16_def AsciiStrToUnicodeStrS_def demo_simps)
  have p: "AllocatePool demo_platform n x = (True, x)" "AsciiStrDecimalToUintn demo_platform (Some ''1'') = 1" for n x
    by (simp_all add: demo_simps is_digit_def)
  note ev = ProcessHttpRequest_def c h b demo_server_issue demo_server_response demo_server_services(12,15,18) rd_def deref_def to_bytes_def Let_def bl
  show "ProcessHttpRequest demo_server q HttpMethodPost u s = Some (EFI_SUCCESS,
      q\<lparr>nq_Status := (nq_Status q)\<lparr>hs_HttpStatus := HTTP_STATUS_202_ACCEPTED\<rparr>,
        nq_Response := (nq_Response q)\<lparr>rs_Headers := Some [(''Location'', ''l'')], rs_HeaderCount := 1\<rparr>\<rparr>,
      s\<lparr>dm_docs := [(''post'', XmlNode [] None [] False [])]\<rparr>)"
    by (simp add: ev)
  show "ProcessHttpRequest demo_server q HttpMethodGet u s = Some (EFI_SUCCESS,
      q\<lparr>nq_Status := (nq_Status q)\<lparr>hs_HttpStatus := HTTP_STATUS_200_OK\<rparr>,
        nq_Response := (nq_Response q)\<lparr>rs_Headers := Some [(''Content-Length'', ''1'')], rs_HeaderCount := 1, rs_Body := Ptr [0x7B, 0], rs_BodySize := 2\<rparr>\<rparr>,
      s\<lparr>dm_docs := [(''get'', XmlNode [] None [] False [])]\<rparr>)"
    by (simp add: ev p)
qed

lemma demo_server_retries:
  assumes "rq_Body (nq_Request q) = Ptr (to_bytes ''{}'' @ [0])" "rq_BodySize (nq_Request q) = 3"
    "hs_HttpMessage (nq_Status q) = NullPtr" "hs_HttpReturnCode (nq_Status q) = NullPtr"
  shows "\<exists>n. nc_DhcpRequested n = nc_DhcpRequested (nq_Nic q) \<and> ProcessHttpRequestWithRetries demo_server q HttpMethodPost u False s = Some (EFI_SUCCESS,
      q\<lparr>nq_Status := no_status\<lparr>hs_HttpStatus := HTTP_STATUS_202_ACCEPTED\<rparr>, nq_Http := no_http, nq_Nic := n,
        nq_Response := (nq_Response q)\<lparr>rs_Headers := Some [(''Location'', ''l'')], rs_HeaderCount := 1\<rparr>\<rparr>,
      s\<lparr>dm_docs := [(''post'', XmlNode [] None [] False [])]\<rparr>)"
    "\<exists>n. nc_DhcpRequested n = nc_DhcpRequested (nq_Nic q) \<and> ProcessHttpRequestWithRetries demo_server q HttpMethodGet u True s = Some (EFI_SUCCESS,
      q\<lparr>nq_Status := no_status\<lparr>hs_HttpStatus := HTTP_STATUS_200_OK\<rparr>, nq_Http := no_http, nq_Nic := n,
        nq_Response := (nq_Response q)\<lparr>rs_Headers := Some [(''Content-Length'', ''1'')], rs_HeaderCount := 1, rs_Body := Ptr [0x7B, 0], rs_BodySize := 2\<rparr>\<rparr>,
      s\<lparr>dm_docs := [(''get'', XmlNode [] None [] False [])]\<rparr>)"
proof -
  have cl: "CleanupNetworkRequest x CLEANUP_STATUS = Some (x\<lparr>nq_Status := no_status\<rparr>)" if "nq_Status x = nq_Status q" for x
    using that assms by (simp add: CleanupNetworkRequest_def)
  note rl = retry_loop.simps(2) [of demo_server _ _ _ 5, simplified]
  note ev = ProcessHttpRequestWithRetries_def ProcessHttpRequestInternal_def demo_server_configure cl demo_server_http assms(1,2) rl retry_delay_def
    demo_server_services(10,11) cleanup_clear Let_def
  show "\<exists>n. nc_DhcpRequested n = nc_DhcpRequested (nq_Nic q) \<and> ProcessHttpRequestWithRetries demo_server q HttpMethodPost u False s = Some (EFI_SUCCESS,
      q\<lparr>nq_Status := no_status\<lparr>hs_HttpStatus := HTTP_STATUS_202_ACCEPTED\<rparr>, nq_Http := no_http, nq_Nic := n,
        nq_Response := (nq_Response q)\<lparr>rs_Headers := Some [(''Location'', ''l'')], rs_HeaderCount := 1\<rparr>\<rparr>,
      s\<lparr>dm_docs := [(''post'', XmlNode [] None [] False [])]\<rparr>)"
    by (rule exI [of _ "(nq_Nic q)\<lparr>nc_UseDefaultAddress := True\<rparr>"]) (simp add: ev)
  show "\<exists>n. nc_DhcpRequested n = nc_DhcpRequested (nq_Nic q) \<and> ProcessHttpRequestWithRetries demo_server q HttpMethodGet u True s = Some (EFI_SUCCESS,
      q\<lparr>nq_Status := no_status\<lparr>hs_HttpStatus := HTTP_STATUS_200_OK\<rparr>, nq_Http := no_http, nq_Nic := n,
        nq_Response := (nq_Response q)\<lparr>rs_Headers := Some [(''Content-Length'', ''1'')], rs_HeaderCount := 1, rs_Body := Ptr [0x7B, 0], rs_BodySize := 2\<rparr>\<rparr>,
      s\<lparr>dm_docs := [(''get'', XmlNode [] None [] False [])]\<rparr>)"
    by (rule exI [of _ "(nq_Nic q)\<lparr>nc_UseDefaultAddress := True\<rparr>"]) (simp add: ev)
qed

text \<open>The main logic with this server: the packet goes to the mailbox of the identities.\<close>

lemma demo_server_json:
  "DfciUpdateFromJson (he_E demo_server) b n mRecoveryBootstrapResponse (z, s)
     = Some (EFI_MEDIA_CHANGED, z, s\<lparr>dm_vars := ((''DfciIdentityApply'', gDfciAuthProvisionVarNamespace), (demo_packet, 7)) # dm_vars s\<rparr>)"
  by (simp add: DfciUpdateFromJson_def ProcessFunction_def demo_net_simps decode_value_def set_mailbox_def json_table_defs AsciiStrnCmp_eq_def
      demo_simps demo_packet_def rd32_def rd_def mJsonSetVariableEntryMailbox_def)

definition demo_after :: "demo_state \<Rightarrow> demo_state" where
  "demo_after s = s\<lparr>dm_docs := [(''get'', XmlNode [] None [] False [])],
     dm_vars := ((''DfciIdentityApply'', gDfciAuthProvisionVarNamespace), (demo_packet, 7)) # dm_vars s\<rparr>"

lemma demo_main_logic:
  assumes q: "hs_HttpMessage (nq_Status q) = NullPtr" "hs_HttpReturnCode (nq_Status q) = NullPtr" "rq_BootstrapUrl (nq_Request q) = Ptr [0x68, 0]"
    "rq_Url (nq_Request q) = Ptr [0x68, 0]" "rs_Body (nq_Response q) = NullPtr"
  shows "\<exists>q'. DfciMainLogic demo_server q d s = Some (EFI_MEDIA_CHANGED, q', True, demo_after s) \<and> nq_LogicState q' = DFCI_BOOTSTRAP_COMPLETE \<and> intact q'
    \<and> nc_DhcpRequested (nq_Nic q') = nc_DhcpRequested (nq_Nic q)"
proof -
  define q1 where "q1 = q\<lparr>nq_LogicState := DFCI_PRE_BOOTSTRAP, nq_Request := (nq_Request q)\<lparr>rq_Body := Ptr (to_bytes ''{}'' @ [0]), rq_BodySize := 3\<rparr>\<rparr>"
  have 1: "BuildJsonBootstrapRequest (he_E demo_server) (q\<lparr>nq_LogicState := DFCI_PRE_BOOTSTRAP\<rparr>) s = (EFI_SUCCESS, q1, s)"
    by (simp add: BuildJsonBootstrapRequest_def demo_server_services q1_def to_bytes_def)
  obtain u where u: "buf_string [0x68, 0] = Some u" using buf_string_terminated [of "[0x68, 0]"] by auto
  obtain n where n: "nc_DhcpRequested n = nc_DhcpRequested (nq_Nic q1)" and 2: "ProcessHttpRequestWithRetries demo_server q1 HttpMethodPost u False s = Some (EFI_SUCCESS,
      q1\<lparr>nq_Status := no_status\<lparr>hs_HttpStatus := HTTP_STATUS_202_ACCEPTED\<rparr>, nq_Http := no_http, nq_Nic := n,
        nq_Response := (nq_Response q1)\<lparr>rs_Headers := Some [(''Location'', ''l'')], rs_HeaderCount := 1\<rparr>\<rparr>,
      s\<lparr>dm_docs := [(''post'', XmlNode [] None [] False [])]\<rparr>)" (is "_ = Some (_, ?q2, ?s2)")
    using demo_server_retries(1) [of q1 u s] q by (auto simp: q1_def)
  obtain n' where n': "nc_DhcpRequested n' = nc_DhcpRequested (nq_Nic ?q2)" and 3: "ProcessHttpRequestWithRetries demo_server ?q2 HttpMethodGet ''l'' True ?s2 = Some (EFI_SUCCESS,
      ?q2\<lparr>nq_Status := no_status\<lparr>hs_HttpStatus := HTTP_STATUS_200_OK\<rparr>, nq_Http := no_http, nq_Nic := n',
        nq_Response := (nq_Response ?q2)\<lparr>rs_Headers := Some [(''Content-Length'', ''1'')], rs_HeaderCount := 1, rs_Body := Ptr [0x7B, 0], rs_BodySize := 2\<rparr>\<rparr>,
      ?s2\<lparr>dm_docs := [(''get'', XmlNode [] None [] False [])]\<rparr>)" (is "_ = Some (_, ?q3, ?s3)")
    using demo_server_retries(2) [of ?q2 "''l''" ?s2] q by (auto simp: q1_def no_status_def)
  show ?thesis
  proof -
    have b: "rq_BootstrapUrl (nq_Request q1) = Ptr [0x68, 0]" "rq_Url (nq_Request q1) = Ptr [0x68, 0]" "nq_Response q1 = nq_Response q"
      using q by (simp_all add: q1_def)
    have 4: "ProcessAsyncRequest demo_server q1 (Ptr [0x68, 0]) False s = Some (EFI_SUCCESS, ?q3, True, ?s3)"
      unfolding ProcessAsyncRequest_def exchange_def by (simp add: deref_def u 2 3 [simplified] demo_server_services)
    show ?thesis
      by (simp add: DfciMainLogic_def recovery_step_def 1 b 4 [simplified] demo_server_json deref_def intact_def no_status_def demo_after_def n n')
         (simp add: q1_def)
  qed
qed

text \<open>A whole request: the state before the interfaces are tried is \<open>s1\<close>.\<close>

definition demo_request :: network_request where
  "demo_request = zero_request\<lparr>nq_HttpsCert := Ptr [9], nq_HttpsCertSize := 1\<rparr>"

lemma demo_net_services:
  "ne_H demo_net = demo_server" "ne_LocateBootPolicy demo_net s = EFI_NOT_FOUND" "ne_LocateNics demo_net s = (EFI_SUCCESS, [5])"
  "ne_HttpServiceBinding demo_net h s = EFI_SUCCESS" "ne_DetectMedia demo_net h s = (EFI_SUCCESS, True, s)" "ne_Message demo_net f st q = ''done''"
  by (simp_all add: demo_net_def)

lemma demo_try:
  assumes "q = demo_request\<lparr>nq_Request := no_request\<lparr>rq_Url := Ptr [0x68, 0], rq_UrlSize := 2, rq_BootstrapUrl := Ptr [0x68, 0], rq_BootstrapUrlSize := 2\<rparr>\<rparr>"
  shows "\<exists>q'. TryEachNICThenProcessRequest demo_net (DfciMainLogic demo_server) q s = Some (EFI_MEDIA_CHANGED, q', demo_after s) \<and> intact q'"
proof -
  let ?q = "q\<lparr>nq_Nic := no_nic\<lparr>nc_NicHandle := Some 5, nc_HttpSbProtocol := True\<rparr>\<rparr>"
  obtain q' where 1: "DfciMainLogic demo_server ?q False s = Some (EFI_MEDIA_CHANGED, q', True, demo_after s)" "intact q'"
    "\<not> nc_DhcpRequested (nq_Nic q')"
    using demo_main_logic [of ?q False s] by (auto simp: no_nic_def assms demo_request_def zero_request_def no_request_def no_status_def no_response_def)
  show ?thesis
    using 1(2) by (simp add: TryEachNICThenProcessRequest_def demo_net_services cleanup_clear Let_def 1(1,3))
qed

lemma demo_initialize:
  "InitializeNetworkRequest (up_M (he_E demo_server)) demo_request a s = Some (EFI_SUCCESS,
     demo_request\<lparr>nq_Request := no_request\<lparr>rq_Url := Ptr [0x68, 0], rq_UrlSize := 2, rq_BootstrapUrl := Ptr [0x68, 0], rq_BootstrapUrlSize := 2\<rparr>\<rparr>, True, s)"
  by (simp add: InitializeNetworkRequest_def cleanup_clear DfciGetASetting_def demo_net_simps demo_simps)
     (simp add: demo_request_def zero_request_def)

lemma demo_request_run:
  assumes "save_certificate demo_platform (c\<lparr>ns_SettingAccess := True\<rparr>) s = (True, c1, s1)"
    "RestoreCertificates demo_platform c1 (demo_after (snd (SetVariable demo_platform EFI_TLS_CA_CERTIFICATE_VARIABLE gEfiTlsCaCertificateGuid 3 (signature_list demo_net [9]) s1))) = (x, c2, s2)"
  shows "\<exists>q'. ProcessDfciNetworkRequest demo_net demo_request c s = Some (EFI_MEDIA_CHANGED, Some ''done'', q', c2, s2)"
proof -
  let ?q = "demo_request\<lparr>nq_Request := no_request\<lparr>rq_Url := Ptr [0x68, 0], rq_UrlSize := 2, rq_BootstrapUrl := Ptr [0x68, 0], rq_BootstrapUrlSize := 2\<rparr>\<rparr>"
  let ?s = "snd (SetVariable demo_platform EFI_TLS_CA_CERTIFICATE_VARIABLE gEfiTlsCaCertificateGuid 3 (signature_list demo_net [9]) s1)"
  have p: "AllocatePool demo_platform n x = (True, x)" "SetVariable demo_platform v g a d x = (EFI_SUCCESS, snd (SetVariable demo_platform v g a d x))" for n x v g a d
    by (simp_all add: demo_simps)
  have e: "EnableDfciCertificate demo_net ?q (c\<lparr>ns_SettingAccess := True\<rparr>) s = Some (EFI_SUCCESS, c1, ?s)"
    unfolding EnableDfciCertificate_def demo_net_services demo_server_services(12) assms(1)
    by (subst p(2)) (simp add: p(1) demo_request_def deref_def rd_def)
  obtain q' where t: "TryEachNICThenProcessRequest demo_net (DfciMainLogic demo_server) ?q ?s = Some (EFI_MEDIA_CHANGED, q', demo_after ?s)" "intact q'"
    using demo_try [OF refl] by blast
  show ?thesis
    by (simp add: ProcessDfciNetworkRequest_def demo_net_services demo_initialize e t(1) build_message_def demo_server_services(12) p(1)
        exit_request_def assms(2) cleanup_masks(5) [OF t(2)])
qed

text \<open>No certificate before: the packet arrives in its mailbox, the certificate of the service stays.\<close>

abbreviation no_vars :: demo_state where "no_vars \<equiv> \<lparr>dm_vars = [], dm_docs = []\<rparr>"

lemma demo_first_run:
  "\<exists>q' c'. ProcessDfciNetworkRequest demo_net demo_request initial_static no_vars = Some (EFI_MEDIA_CHANGED, Some ''done'', q', c',
     \<lparr>dm_vars = [((''DfciIdentityApply'', gDfciAuthProvisionVarNamespace), (demo_packet, 7)),
        ((EFI_TLS_CA_CERTIFICATE_VARIABLE, gEfiTlsCaCertificateGuid), (signature_list demo_net [9], 3))], dm_docs = [(''get'', XmlNode [] None [] False [])]\<rparr>)"
proof -
  have 1: "save_certificate demo_platform (initial_static\<lparr>ns_SettingAccess := True\<rparr>) no_vars = (True, initial_static\<lparr>ns_SettingAccess := True\<rparr>, no_vars)"
    by (simp add: save_certificate_def query_tls_def demo_simps)
  show ?thesis
    using demo_request_run [OF 1] signature_list_nonempty [of demo_net "[9]"] by (simp add: RestoreCertificates_def initial_static_def demo_after_def demo_simps) blast
qed

theorem network_request_only_fills_mailboxes_witness:
  "\<exists>q' c' s' k rn sig dec prot d. ProcessDfciNetworkRequest demo_net demo_request initial_static no_vars = Some (EFI_MEDIA_CHANGED, Some ''done'', q', c', s')
    \<and> (k, ''DfciIdentityApply'', rn, gDfciAuthProvisionVarNamespace, sig, dec, prot) \<in> set (mailboxes (undefined :: unit manager_env))
    \<and> GetVariable demo_platform ''DfciIdentityApply'' gDfciAuthProvisionVarNamespace s' = (EFI_SUCCESS, d, 7) \<and> rd32 d 0 = Some sig"
proof -
  obtain q' c' s' where r: "ProcessDfciNetworkRequest demo_net demo_request initial_static no_vars = Some (EFI_MEDIA_CHANGED, Some ''done'', q', c', s')"
    and v: "GetVariable demo_platform ''DfciIdentityApply'' gDfciAuthProvisionVarNamespace s' = (EFI_SUCCESS, demo_packet, 7)"
    using demo_first_run by (auto simp: demo_simps)
  have u: "ne_U demo_net = demo_platform" by (simp add: demo_net_services demo_server_services)
  have d: "GetVariable (ne_U demo_net) ''DfciIdentityApply'' gDfciAuthProvisionVarNamespace s'
      \<noteq> GetVariable (ne_U demo_net) ''DfciIdentityApply'' gDfciAuthProvisionVarNamespace no_vars" unfolding u v by (simp add: demo_simps)
  show ?thesis
    using network_request_only_fills_mailboxes [OF demo_net_laws r _ demo_ip4_keys(2) d, of "undefined :: unit manager_env"] r
    unfolding u by (simp add: EFI_TLS_CA_CERTIFICATE_VARIABLE_def)
qed

theorem tls_certificate_is_replaced_witness:
  "\<exists>s'. tls_variable demo_platform s' = (EFI_SUCCESS, signature_list demo_net [9], 3)"
proof -
  obtain q' c' s' where r: "ProcessDfciNetworkRequest demo_net demo_request initial_static no_vars = Some (EFI_MEDIA_CHANGED, Some ''done'', q', c', s')"
    using demo_first_run by blast
  have u: "ne_U demo_net = demo_platform" by (simp add: demo_net_services demo_server_services)
  have "tls_variable (ne_U demo_net) s' = (EFI_SUCCESS, signature_list demo_net [9], 3)"
    by (rule tls_certificate_is_replaced [OF demo_net_laws demo_ip4_keys(1) r, of EFI_NOT_FOUND "[]" 0]) (simp_all add: u demo_simps initial_static_def demo_request_def)
  then show ?thesis unfolding u by blast
qed

definition with_tls :: demo_state where
  "with_tls = \<lparr>dm_vars = [((EFI_TLS_CA_CERTIFICATE_VARIABLE, gEfiTlsCaCertificateGuid), ([4, 2], 7))], dm_docs = []\<rparr>"

theorem tls_certificate_is_restored_witness:
  "\<exists>q' c' s'. ProcessDfciNetworkRequest demo_net demo_request initial_static with_tls = Some (EFI_MEDIA_CHANGED, Some ''done'', q', c', s')
    \<and> tls_variable demo_platform s' = (EFI_SUCCESS, [4, 2], 7)"
proof -
  obtain c1 s1 where 1: "save_certificate demo_platform (initial_static\<lparr>ns_SettingAccess := True\<rparr>) with_tls = (True, c1, s1)"
    by (simp add: save_certificate_def query_tls_def initial_static_def with_tls_def demo_simps)
  obtain q' c' s' where r: "ProcessDfciNetworkRequest demo_net demo_request initial_static with_tls = Some (EFI_MEDIA_CHANGED, Some ''done'', q', c', s')"
    using demo_request_run [OF 1] by (metis surj_pair)
  have u: "ne_U demo_net = demo_platform" by (simp add: demo_net_services demo_server_services)
  have "tls_variable (ne_U demo_net) s' = (EFI_SUCCESS, [4, 2], 7)"
    by (rule tls_certificate_is_restored [OF demo_net_laws demo_ip4_keys(1) r]) (simp_all add: u demo_simps with_tls_def initial_static_def)
  then show ?thesis using r unfolding u by blast
qed

text \<open>
  Property C31: an attempt over one network interface.  Unless it ends the walk over the interfaces it
  has changed no variable besides those \<open>K\<close> of the network stack, so at most one interface delivers
  updates; it reports success exactly when it ends in the state in which no recovery is available; and
  when it ends with new certificates that need a restart, no variable of the permission manager outside
  \<open>K\<close> has been touched.
\<close>

theorem attempt_outcomes:
  assumes n: "net_laws K N" and r: "DfciMainLogic (ne_H N) q d s = Some (st, q', d', s')"
  shows "(d' \<or> same_outside K (ne_U N) s s') \<and> (st = EFI_SUCCESS \<longleftrightarrow> nq_LogicState q' = DFCI_NO_RECOVERY_AVAILABLE)
    \<and> (nq_LogicState q' = DFCI_BOOTSTRAP_COMPLETE \<longrightarrow> st = EFI_MEDIA_CHANGED
         \<and> ((name, gDfciPermissionManagerVarNamespace) \<in> K
              \<or> GetVariable (ne_U N) name gDfciPermissionManagerVarNamespace s' = GetVariable (ne_U N) name gDfciPermissionManagerVarNamespace s))"
proof -
  have o: "main_outcome K (ne_H N) s (st, q', d', s')" by (rule DfciMainLogic_outcome [OF net_lawsD(5,3,2,4) [OF n] r])
  have "jm_MailboxNamespace m \<noteq> gDfciPermissionManagerVarNamespace" if "m \<in> table_mailboxes mRecoveryBootstrapResponse" for m
    using that by (auto simp: table_mailboxes_def json_table_defs mJsonSetVariableEntryMailbox_def gDfciPermissionManagerVarNamespace_def
        gDfciAuthProvisionVarNamespace_def gDfciSettingsManagerVarNamespace_def)
  then show ?thesis using o unfolding main_outcome_def mailboxes_outside_def prod.case by metis
qed

theorem attempt_outcomes_witness:
  "\<exists>q'. DfciMainLogic demo_server (demo_request\<lparr>nq_Request := no_request\<lparr>rq_Url := Ptr [0x68, 0], rq_BootstrapUrl := Ptr [0x68, 0]\<rparr>\<rparr>) False no_vars
      = Some (EFI_MEDIA_CHANGED, q', True, demo_after no_vars)
    \<and> GetVariable demo_platform ''DfciPermissionApply'' gDfciPermissionManagerVarNamespace (demo_after no_vars)
        = GetVariable demo_platform ''DfciPermissionApply'' gDfciPermissionManagerVarNamespace no_vars"
proof -
  let ?q = "demo_request\<lparr>nq_Request := no_request\<lparr>rq_Url := Ptr [0x68, 0], rq_BootstrapUrl := Ptr [0x68, 0]\<rparr>\<rparr>"
  have u: "ne_H demo_net = demo_server" "he_U demo_server = demo_platform" by (simp_all add: demo_net_services demo_server_services)
  obtain q' where r: "DfciMainLogic (ne_H demo_net) ?q False no_vars = Some (EFI_MEDIA_CHANGED, q', True, demo_after no_vars)"
    and l: "nq_LogicState q' = DFCI_BOOTSTRAP_COMPLETE"
    using demo_main_logic [of ?q False no_vars] unfolding u by (auto simp: demo_request_def zero_request_def no_request_def no_status_def no_response_def)
  show ?thesis using attempt_outcomes [OF demo_net_laws r, of "''DfciPermissionApply''"] r l demo_ip4_keys(3) unfolding u by blast
qed

end
