(* ===== verification/Dfci_Menu.thy ===== *)
theory Dfci_Menu
  imports Network_Recovery Identity_Provision Zero_Touch
begin

text \<open>
  The menu of DFCI (\<open>DfciMenu.c\<close>) and the recovery tool for the shell (\<open>DfciSARecovery.c\<close>): which entries the
  menu shows, how the parameters of a recovery are collected, the requests the user can start and
  the restart that follows them.  The certificate store and the permission store of the other
  drivers are read; the form browser, the message box, events and the reset are the record
  \<open>ui_env\<close>, as are the string identifiers that the build generates.

  The theory shows that no action of the menu touches a variable other than the mailboxes, the TLS
  certificate, the opt-in state and the request to start into the menu, that the parameters of an
  enabled network recovery are valid when it is started, and when a system counts as enrolled.
\<close>

section \<open>State and services\<close>

record menu_config =
  mc_RecoveryEnabled :: bool
  mc_HttpRecoveryEnabled :: bool
  mc_ZeroTouchEnabled :: bool
  mc_ZeroTouchCertAvailable :: bool
  mc_ZeroTouchOptGrayOut :: bool
  mc_OwnerEnabled :: bool
  mc_UserEnabled :: bool
  mc_FriendlyName :: bool
  mc_TenantName :: bool
  mc_OptInChanged :: bool

text \<open>The globals of the application, with the static \<open>AlreadyRun\<close> of \<open>GetDfciParameters\<close>.\<close>

record menu_state =
  mn_Config :: menu_config
  mn_IdMask :: u8
  mn_Url :: ptr
  mn_UrlSize :: nat
  mn_AlreadyRun :: bool
  mn_Request :: network_request
  mn_Static :: net_static

datatype config_event = gDfciConfigStartEventGroupGuid | gDfciConfigCompleteEventGroupGuid

record 's ui_env =
  me_N :: "'s net_env"
  me_L :: cert_lib
  me_Certs :: cert_store
  me_Permissions :: "perm_store option"
  me_ZeroTouchSection :: "'s \<Rightarrow> EFI_STATUS \<times> bytes"
  me_Token :: "string \<Rightarrow> nat"
  me_HiiGetString :: "nat \<Rightarrow> 's \<Rightarrow> string option"
  me_UnicodeSPrint :: "nat \<Rightarrow> string \<Rightarrow> string \<Rightarrow> string"
  me_MessageBox :: "string \<Rightarrow> string \<Rightarrow> string \<Rightarrow> bool \<Rightarrow> 's \<Rightarrow> EFI_STATUS \<times> 's"
  me_RecoveryForms :: "'s \<Rightarrow> bool"
  me_HttpParseUrl :: "bytes \<Rightarrow> u32 \<Rightarrow> EFI_STATUS"
  me_HttpUrlGetHostName :: "bytes \<Rightarrow> EFI_STATUS \<times> string"
  me_ExitSecurityBoundary :: "'s \<Rightarrow> 's"
  me_Signal :: "config_event \<Rightarrow> 's \<Rightarrow> 's"
  me_ResetNotification :: "'s \<Rightarrow> 's"
  me_ResetWarm :: "'s \<Rightarrow> 's"
  me_PcdSetupUiReducedFunction :: bool
  me_PcdSKUEnableDfci :: bool
  me_LocateAuthentication :: "'s \<Rightarrow> EFI_STATUS"
  me_LocatePermissions :: "'s \<Rightarrow> EFI_STATUS"
  me_InstallProtocols :: "'s \<Rightarrow> EFI_STATUS \<times> 's"
  me_HiiAddPackages :: "'s \<Rightarrow> bool \<times> 's"
  me_InstallFormset :: "'s \<Rightarrow> EFI_STATUS \<times> 's"
  me_UninstallProtocols :: "'s \<Rightarrow> 's"
  me_HiiRemovePackages :: "'s \<Rightarrow> 's"
  me_MenuForms :: "'s \<Rightarrow> bool list option"
  me_HdrMatch :: "string \<Rightarrow> bool"
  me_BlockToConfig :: "string \<Rightarrow> menu_config \<Rightarrow> EFI_STATUS \<times> string option"

abbreviation me_U :: "'s ui_env \<Rightarrow> 's platform" where "me_U V \<equiv> ne_U (me_N V)"
abbreviation me_M :: "'s ui_env \<Rightarrow> 's menu_env" where "me_M V \<equiv> up_M (ne_E (me_N V))"

section \<open>Enrolment\<close>

text \<open>The thumbprint of an identity; on an error the pointer and the size are left alone.\<close>

definition get_thumbprint :: "'s ui_env \<Rightarrow> u8 \<Rightarrow> bytes option \<Rightarrow> nat \<Rightarrow> ptr \<times> nat \<Rightarrow> 's \<Rightarrow> (EFI_STATUS \<times> (ptr \<times> nat) \<times> 's) option" where
  "get_thumbprint V Identity Cert CertSize old s = do {
     (Status, v, s1) \<leftarrow> GetCertInfo (me_U V) (me_L V) (me_Certs V) Identity Cert CertSize DFCI_CERT_THUMBPRINT DFCI_CERT_FORMAT_CHAR8 s;
     Some (Status, case v of Some (Char8 b, n) \<Rightarrow> (Ptr b, n) | _ \<Rightarrow> old, s1) }"

definition ztd_thumbprint :: "'s ui_env \<Rightarrow> menu_state \<Rightarrow> 's \<Rightarrow> (bool \<times> menu_state \<times> 's) option" where
  "ztd_thumbprint V m s = (if mn_IdMask m AND DFCI_IDENTITY_SIGNER_ZTD = 0 then Some (False, m, s)
     else do {
       (Status, (p, n), s1) \<leftarrow> get_thumbprint V DFCI_IDENTITY_SIGNER_ZTD None 0
          (nq_ZeroTouchThumbprint (mn_Request m), nq_ZeroTouchThumbprintSize (mn_Request m)) s;
       let m = m\<lparr>mn_Request := (mn_Request m)\<lparr>nq_ZeroTouchThumbprint := p, nq_ZeroTouchThumbprintSize := n\<rparr>\<rparr>;
       let ok = (\<not> EFI_ERROR Status \<and> p \<noteq> NullPtr);
       Some (ok, if ok then m\<lparr>mn_Config := (mn_Config m)\<lparr>mc_ZeroTouchEnabled := True\<rparr>\<rparr> else m, s1) })"

definition owner_thumbprint :: "'s ui_env \<Rightarrow> menu_state \<Rightarrow> 's \<Rightarrow> (menu_state \<times> 's) option" where
  "owner_thumbprint V m s = (if mn_IdMask m AND DFCI_IDENTITY_SIGNER_OWNER = 0 then Some (m, s)
     else do {
       (Status, (p, n), s1) \<leftarrow> get_thumbprint V DFCI_IDENTITY_SIGNER_OWNER None 0
          (nq_OwnerThumbprint (mn_Request m), nq_OwnerThumbprintSize (mn_Request m)) s;
       let m = m\<lparr>mn_Request := (mn_Request m)\<lparr>nq_OwnerThumbprint := p, nq_OwnerThumbprintSize := n\<rparr>\<rparr>;
       Some (if \<not> EFI_ERROR Status \<and> p \<noteq> NullPtr then m\<lparr>mn_Config := (mn_Config m)\<lparr>mc_OwnerEnabled := True\<rparr>\<rparr> else m, s1) })"

definition CheckIfDfciEnrolled :: "'s ui_env \<Rightarrow> menu_state \<Rightarrow> 's \<Rightarrow> (bool \<times> menu_state \<times> 's) option" where
  "CheckIfDfciEnrolled V m s =
     (let m = m\<lparr>mn_Config := (mn_Config m)\<lparr>mc_ZeroTouchOptGrayOut := False, mc_ZeroTouchCertAvailable := False, mc_ZeroTouchEnabled := False,
            mc_OwnerEnabled := False, mc_UserEnabled := False\<rparr>\<rparr> in
      case GetEnrolledIdentities (me_Certs V) of (Status, ids) \<Rightarrow>
      if EFI_ERROR Status then Some (False, m, s)
      else let m = m\<lparr>mn_IdMask := ids\<rparr> in
      case GetZeroTouchCertificate (me_ZeroTouchSection V) None 0 s of (Status, _, _) \<Rightarrow>
      let m = (if EFI_ERROR Status then m else m\<lparr>mn_Config := (mn_Config m)\<lparr>mc_ZeroTouchCertAvailable := True\<rparr>\<rparr>) in do {
        (ztd, m, s1) \<leftarrow> ztd_thumbprint V m s;
        (m, s2) \<leftarrow> owner_thumbprint V m s1;
        let user = (mn_IdMask m AND DFCI_IDENTITY_SIGNER_USER \<noteq> 0);
        let m = (if user then m\<lparr>mn_Config := (mn_Config m)\<lparr>mc_UserEnabled := True\<rparr>\<rparr> else m);
        (_, i) \<leftarrow> DfciGetSystemInfo (mu_Ids (me_M V)) s2;
        Some (ztd \<or> user, m\<lparr>mn_Request := (mn_Request m)\<lparr>nq_DfciInfo := i\<rparr>\<rparr>, s2) })"

section \<open>Parameters\<close>

definition mCertInitTable :: "(u8 \<times> cert_request \<times> cert_format \<times> string) list" where
  "mCertInitTable = [
     (DFCI_IDENTITY_SIGNER_ZTD, DFCI_CERT_SUBJECT, DFCI_CERT_FORMAT_CHAR16, ''STR_DFCI_ZTD_SUBJECT_FIELD''),
     (DFCI_IDENTITY_SIGNER_ZTD, DFCI_CERT_THUMBPRINT, DFCI_CERT_FORMAT_CHAR16_UI, ''STR_DFCI_ZTD_THUMBPRINT_FIELD''),
     (DFCI_IDENTITY_SIGNER_OWNER, DFCI_CERT_SUBJECT, DFCI_CERT_FORMAT_CHAR16, ''STR_DFCI_OWNER_SUBJECT_FIELD''),
     (DFCI_IDENTITY_SIGNER_OWNER, DFCI_CERT_THUMBPRINT, DFCI_CERT_FORMAT_CHAR16_UI, ''STR_DFCI_OWNER_THUMBPRINT_FIELD''),
     (DFCI_IDENTITY_SIGNER_USER, DFCI_CERT_SUBJECT, DFCI_CERT_FORMAT_CHAR16, ''STR_DFCI_USER_SUBJECT_FIELD''),
     (DFCI_IDENTITY_SIGNER_USER, DFCI_CERT_THUMBPRINT, DFCI_CERT_FORMAT_CHAR16_UI, ''STR_DFCI_USER_THUMBPRINT_FIELD'')]"

text \<open>The loop over the table; the tool for the shell (\<open>show\<close> false) only prints the strings.\<close>

fun cert_fields :: "'s ui_env \<Rightarrow> bool \<Rightarrow> (u8 \<times> cert_request \<times> cert_format \<times> string) list \<Rightarrow> 's \<Rightarrow> 's option" where
  "cert_fields V show [] s = Some s"
| "cert_fields V show ((Identity, CertRequest, CertFormat, VfrField) # es) s = do {
     (Status, v, s1) \<leftarrow> GetCertInfo (me_U V) (me_L V) (me_Certs V) Identity None 0 CertRequest CertFormat s;
     s2 \<leftarrow> (if EFI_ERROR Status \<or> \<not> show then Some s1
        else case v of None \<Rightarrow> Some s1
          | Some (Char16 (Some t), _) \<Rightarrow> Some (snd (DfciSetString16Entry (me_M V) (me_Token V VfrField) t s1))
          | Some _ \<Rightarrow> None);
     cert_fields V show es s2 }"

text \<open>
  Whether recovery is offered.  The permission for \<open>Dfci.Recovery.Enable\<close>, restricted to the enrolled
  identities, is read as well, but only appears in messages.
\<close>

definition recovery_enabled :: "'s ui_env \<Rightarrow> 's \<Rightarrow> bool" where
  "recovery_enabled V s \<longleftrightarrow> me_RecoveryForms V s
     \<or> snd (SystemSettingPermissionGetPermission True (Some ID_ZTD_RECOVERY) (me_Permissions V) (Some 0)) \<noteq> Some 0"

text \<open>A setting as \<open>GetDfciParameters\<close> reads it, with the static protocol pointer.\<close>

definition read_setting :: "'s ui_env \<Rightarrow> string \<Rightarrow> setting_type \<Rightarrow> menu_state \<Rightarrow> 's \<Rightarrow> (EFI_STATUS \<times> ptr \<times> nat \<times> menu_state \<times> 's) option" where
  "read_setting V IdName Type m s = do {
     (Status, p, n, a, s1) \<leftarrow> DfciGetASetting (me_M V) IdName Type (ns_SettingAccess (mn_Static m)) s;
     Some (Status, p, n, m\<lparr>mn_Static := (mn_Static m)\<lparr>ns_SettingAccess := a\<rparr>\<rparr>, s1) }"

text \<open>The tests for recovery over the network: the host name when all of them pass.\<close>

definition http_parameters :: "'s ui_env \<Rightarrow> menu_state \<Rightarrow> 's \<Rightarrow> (string option \<times> menu_state \<times> 's) option" where
  "http_parameters V m s = do {
     (Status, p, n, m, s) \<leftarrow> read_setting V ''Dfci.RecoveryUrl.String'' TYPE_STRING m s;
     let m = m\<lparr>mn_Url := p, mn_UrlSize := n\<rparr>;
     if EFI_ERROR Status \<or> n \<le> 1 then Some (None, m, s) else do {
     (Status, p, n, m, s) \<leftarrow> read_setting V ''Dfci.HttpsCert.Binary'' TYPE_CERT m s;
     let m = m\<lparr>mn_Request := (mn_Request m)\<lparr>nq_HttpsCert := p, nq_HttpsCertSize := n\<rparr>\<rparr>;
     if EFI_ERROR Status \<or> n \<le> 1 then Some (None, m, s) else do {
     (Status, p, n, m, s) \<leftarrow> read_setting V ''Dfci.TenantId.String'' TYPE_STRING m s;
     let m = m\<lparr>mn_Request := (mn_Request m)\<lparr>nq_TenantId := p, nq_TenantIdSize := n\<rparr>\<rparr>;
     if EFI_ERROR Status \<or> n \<le> 1 then Some (None, m, s) else do {
     (Status, p, n, m, s) \<leftarrow> read_setting V ''Dfci.RegistrationId.String'' TYPE_STRING m s;
     let m = m\<lparr>mn_Request := (mn_Request m)\<lparr>nq_RegistrationId := p, nq_RegistrationIdSize := n\<rparr>\<rparr>;
     if EFI_ERROR Status \<or> n \<le> 1 then Some (None, m, s) else do {
     cert \<leftarrow> deref (nq_HttpsCert (mn_Request m));
     (Status, (p, n), s) \<leftarrow> get_thumbprint V 0 (Some cert) (nq_HttpsCertSize (mn_Request m)) (nq_HttpsThumbprint (mn_Request m), nq_HttpsThumbprintSize (mn_Request m)) s;
     let m = m\<lparr>mn_Request := (mn_Request m)\<lparr>nq_HttpsThumbprint := p, nq_HttpsThumbprintSize := n\<rparr>\<rparr>;
     if EFI_ERROR Status \<or> p = NullPtr then Some (None, m, s) else do {
     url \<leftarrow> deref (mn_Url m);
     if EFI_ERROR (me_HttpParseUrl V url (word_of_nat (mn_UrlSize m))) then Some (None, m, s)
     else case me_HttpUrlGetHostName V url of (Status, HostName) \<Rightarrow>
       Some (if EFI_ERROR Status then None else Some HostName, m, s) } } } } } }"

text \<open>A name that is shown if it is there.\<close>

definition name_parameter :: "'s ui_env \<Rightarrow> bool \<Rightarrow> string \<Rightarrow> string \<Rightarrow> menu_state \<Rightarrow> 's \<Rightarrow> (bool \<times> menu_state \<times> 's) option" where
  "name_parameter V show IdName VfrField m s = do {
     (Status, p, n, m, s1) \<leftarrow> read_setting V IdName TYPE_STRING m s;
     if EFI_ERROR Status \<or> n < 1 then Some (False, m, s1)
     else if \<not> show then Some (True, m, s1)
     else do { b \<leftarrow> deref p; Name \<leftarrow> buf_string b; Some (True, m, snd (DfciSetStringEntry (me_M V) (me_Token V VfrField) Name s1)) } }"

definition name_parameters :: "'s ui_env \<Rightarrow> bool \<Rightarrow> menu_state \<Rightarrow> 's \<Rightarrow> (menu_state \<times> 's) option" where
  "name_parameters V show m s = do {
     (b, m, s1) \<leftarrow> name_parameter V show ''MDM.FriendlyName.String'' ''STR_DFCI_MDM_FRIENDLY_NAME'' m s;
     let m = (if b then m\<lparr>mn_Config := (mn_Config m)\<lparr>mc_FriendlyName := True\<rparr>\<rparr> else m);
     (b, m, s2) \<leftarrow> name_parameter V show ''MDM.TenantName.String'' ''STR_DFCI_MDM_TENANT_NAME'' m s1;
     Some (if b then m\<lparr>mn_Config := (mn_Config m)\<lparr>mc_TenantName := True\<rparr>\<rparr> else m, s2) }"

definition GetDfciParameters :: "'s ui_env \<Rightarrow> menu_state \<Rightarrow> 's \<Rightarrow> (EFI_STATUS \<times> menu_state \<times> 's) option" where
  "GetDfciParameters V m s =
     (if mn_AlreadyRun m then Some (EFI_SUCCESS, m, s)
      else let m = m\<lparr>mn_AlreadyRun := True\<rparr>;
               m = (if me_PcdSetupUiReducedFunction V then m\<lparr>mn_Config := (mn_Config m)\<lparr>mc_ZeroTouchOptGrayOut := True\<rparr>\<rparr> else m);
               m = m\<lparr>mn_Config := (mn_Config m)\<lparr>mc_HttpRecoveryEnabled := False, mc_RecoveryEnabled := False\<rparr>\<rparr>
        in do {
          s1 \<leftarrow> cert_fields V True mCertInitTable s;
          let m = m\<lparr>mn_Config := (mn_Config m)\<lparr>mc_RecoveryEnabled := recovery_enabled V s1\<rparr>\<rparr>;
          (HostName, m, s2) \<leftarrow> http_parameters V m s1;
          let s3 = (case HostName of None \<Rightarrow> s2 | Some h \<Rightarrow> snd (DfciSetStringEntry (me_M V) (me_Token V ''STR_DFCI_URL_FIELD'') h s2));
          let m = (if HostName = None then m else m\<lparr>mn_Config := (mn_Config m)\<lparr>mc_HttpRecoveryEnabled := True\<rparr>\<rparr>);
          (m, s4) \<leftarrow> name_parameters V True m s3;
          Some (EFI_SUCCESS, m, s4) })"

text \<open>The tool for the shell collects the same parameters without a form to show them in.\<close>

definition SA_GetDfciParameters :: "'s ui_env \<Rightarrow> menu_state \<Rightarrow> 's \<Rightarrow> (EFI_STATUS \<times> menu_state \<times> 's) option" where
  "SA_GetDfciParameters V m s =
     (if mn_AlreadyRun m then Some (EFI_SUCCESS, m, s)
      else let m = m\<lparr>mn_AlreadyRun := True, mn_Config := (mn_Config m)\<lparr>mc_HttpRecoveryEnabled := False, mc_RecoveryEnabled := False\<rparr>\<rparr>
        in do {
          s1 \<leftarrow> cert_fields V False mCertInitTable s;
          let m = m\<lparr>mn_Config := (mn_Config m)\<lparr>mc_RecoveryEnabled := recovery_enabled V s1\<rparr>\<rparr>;
          (HostName, m, s2) \<leftarrow> http_parameters V m s1;
          let m = (if HostName = None then m else m\<lparr>mn_Config := (mn_Config m)\<lparr>mc_HttpRecoveryEnabled := True\<rparr>\<rparr>);
          (m, s3) \<leftarrow> name_parameters V False m s2;
          Some (EFI_SUCCESS, m, s3) })"

section \<open>Messages and restart\<close>

abbreviation (input) MAX_MSG_SIZE :: nat where "MAX_MSG_SIZE \<equiv> 600"

text \<open>The body of a message; a text to insert is dropped when its buffer cannot be allocated.\<close>

definition message_body :: "'s ui_env \<Rightarrow> string \<Rightarrow> EFI_STATUS \<Rightarrow> string option \<Rightarrow> 's \<Rightarrow> string option \<times> 's" where
  "message_body V MsgToken StatusIn MessageText s =
     (let get = (\<lambda>t. me_HiiGetString V (me_Token V t) s) in
      if StatusIn = EFI_NO_MEDIA then (get ''STR_DFCI_MB_NO_MEDIA'', s)
      else case (get (if StatusIn = EFI_NOT_FOUND then ''STR_DFCI_MB_NOT_FOUND'' else MsgToken), MessageText) of
        (Some pBody, Some t) \<Rightarrow> (case AllocatePool (me_U V) MAX_MSG_SIZE s of (ok, s1) \<Rightarrow>
          (Some (if ok then me_UnicodeSPrint V MAX_MSG_SIZE pBody t else pBody), s1))
      | (pBody, _) \<Rightarrow> (pBody, s))"

definition DisplayMessageBox :: "'s ui_env \<Rightarrow> string \<Rightarrow> EFI_STATUS \<Rightarrow> bool \<Rightarrow> string option \<Rightarrow> 's \<Rightarrow> EFI_STATUS \<times> 's" where
  "DisplayMessageBox V MsgToken StatusIn Restart MessageText s =
     (let get = (\<lambda>t. me_HiiGetString V (me_Token V t) s);
          pTitle = get ''STR_DFCI_MB_TITLE'';
          pCaption = get (if StatusIn = EFI_SUCCESS then ''STR_DFCI_MB_CAPTION'' else ''STR_DFCI_MB_CAPTION_FAIL'') in
      case message_body V MsgToken StatusIn MessageText s of (pBody, s1) \<Rightarrow>
      case (pTitle, pCaption, pBody) of
        (Some t, Some c, Some b) \<Rightarrow> me_MessageBox V t b c Restart s1
      | _ \<Rightarrow> (EFI_INVALID_PARAMETER, s1))"

text \<open>The tool for the shell only prints the texts.\<close>

definition SA_DisplayMessageBox :: "'s ui_env \<Rightarrow> string \<Rightarrow> EFI_STATUS \<Rightarrow> bool \<Rightarrow> string option \<Rightarrow> 's \<Rightarrow> EFI_STATUS \<times> 's" where
  "SA_DisplayMessageBox V MsgToken StatusIn Restart MessageText s = (EFI_SUCCESS, snd (message_body V MsgToken StatusIn MessageText s))"

definition EFI_OS_INDICATIONS_VARIABLE_NAME :: string where "EFI_OS_INDICATIONS_VARIABLE_NAME = ''OsIndications''"
definition gEfiGlobalVariableGuid :: string where "gEfiGlobalVariableGuid = ''gEfiGlobalVariableGuid''"
abbreviation (input) EFI_OS_INDICATIONS_BOOT_TO_FW_UI :: u64 where "EFI_OS_INDICATIONS_BOOT_TO_FW_UI \<equiv> 1"

text \<open>The state returned is the one at the reset.\<close>

definition RebootToFrontPage :: "'s ui_env \<Rightarrow> 's \<Rightarrow> 's" where
  "RebootToFrontPage V s =
     me_ResetWarm V (me_ResetNotification V
       (snd (SetVariable (me_U V) EFI_OS_INDICATIONS_VARIABLE_NAME gEfiGlobalVariableGuid 7 (le64 EFI_OS_INDICATIONS_BOOT_TO_FW_UI) s)))"

section \<open>Requests\<close>

definition IssueDfciNetworkRequest :: "'s ui_env \<Rightarrow> menu_state \<Rightarrow> 's \<Rightarrow> (menu_state \<times> 's) option" where
  "IssueDfciNetworkRequest V m s = do {
     (NetworkStatus, Msg, q, c, s1) \<leftarrow> ProcessDfciNetworkRequest (me_N V) (mn_Request m) (mn_Static m)
        (me_Signal V gDfciConfigStartEventGroupGuid (me_ExitSecurityBoundary V s));
     let NetworkStatus = (if NetworkStatus = EFI_MEDIA_CHANGED then EFI_SUCCESS else NetworkStatus);
     Some (m\<lparr>mn_Request := q, mn_Static := c\<rparr>,
       RebootToFrontPage V (snd (DisplayMessageBox V ''STR_DFCI_MB_NEW_SETTINGS'' NetworkStatus True Msg
         (me_Signal V gDfciConfigCompleteEventGroupGuid s1)))) }"

definition SA_IssueDfciNetworkRequest :: "'s ui_env \<Rightarrow> menu_state \<Rightarrow> 's \<Rightarrow> (menu_state \<times> 's) option" where
  "SA_IssueDfciNetworkRequest V m s = do {
     (NetworkStatus, Msg, q, c, s1) \<leftarrow> ProcessDfciNetworkRequest (me_N V) (mn_Request m) (mn_Static m) s;
     let NetworkStatus = (if NetworkStatus = EFI_MEDIA_CHANGED then EFI_SUCCESS else NetworkStatus);
     Some (m\<lparr>mn_Request := q, mn_Static := c\<rparr>, snd (SA_DisplayMessageBox V ''STR_DFCI_MB_NEW_SETTINGS'' NetworkStatus True Msg s1)) }"

abbreviation (input) DEFAULT_USB_FILE_NAME :: string where "DEFAULT_USB_FILE_NAME \<equiv> ''DfciUpdate.Dfi''"

text \<open>The file with the name of the system or, failing that, the one with the default name.\<close>

definition usb_file :: "'s update_env \<Rightarrow> string option \<Rightarrow> 's \<Rightarrow> (EFI_STATUS \<times> (ptr \<times> nat) option \<times> string option \<times> 's) option" where
  "usb_file E FileName s = do {
     (Status, b, s1) \<leftarrow> DfciRequestJsonFromUSB E FileName s;
     if \<not> EFI_ERROR Status then Some (Status, b, FileName, s1)
     else case AllocatePool (up_U E) 30 s1 of (ok, s2) \<Rightarrow>
       if \<not> ok then Some (Status, None, FileName, s2)
       else do {
         (Status, b, s3) \<leftarrow> DfciRequestJsonFromUSB E (Some DEFAULT_USB_FILE_NAME) s2;
         Some (Status, b, if EFI_ERROR Status then FileName else Some DEFAULT_USB_FILE_NAME, s3) } }"

definition usb_update :: "'s update_env \<Rightarrow> menu_state \<Rightarrow> 's \<Rightarrow> (EFI_STATUS \<times> string option \<times> menu_state \<times> 's) option" where
  "usb_update E m s = do {
     (Status, FileName, s1) \<leftarrow> BuildUsbRequest E ''.Dfi'' s;
     if EFI_ERROR Status then Some (Status, FileName, m, s1)
     else do {
       (Status, b, FileName, s2) \<leftarrow> usb_file E FileName s1;
       if EFI_ERROR Status then Some (Status, FileName, m, s2)
       else do {
         (JsonString, JsonStringSize) \<leftarrow> b;
         js \<leftarrow> deref JsonString;
         (Status, z, s3) \<leftarrow> DfciUpdateFromJson E js JsonStringSize mUsbRecovery (nq_Status (mn_Request m), s2);
         Some (if Status = EFI_MEDIA_CHANGED then EFI_SUCCESS else Status, FileName, m\<lparr>mn_Request := (mn_Request m)\<lparr>nq_Status := z\<rparr>\<rparr>, s3) } } }"

definition IssueDfciUsbRequest :: "'s ui_env \<Rightarrow> menu_state \<Rightarrow> 's \<Rightarrow> (menu_state \<times> 's) option" where
  "IssueDfciUsbRequest V m s = do {
     (Status, FileName, m, s1) \<leftarrow> usb_update (ne_E (me_N V)) m (me_ExitSecurityBoundary V s);
     Some (m, RebootToFrontPage V (snd (DisplayMessageBox V ''STR_DFCI_MB_NEW_SETTINGS'' Status True FileName
        (me_Signal V gDfciConfigCompleteEventGroupGuid s1)))) }"

section \<open>The form browser\<close>

datatype browser_action = EFI_BROWSER_ACTION_FORM_OPEN | EFI_BROWSER_ACTION_CHANGED | OTHER_ACTION
datatype action_request = REQUEST_NONE | REQUEST_SUBMIT | REQUEST_FORM_SUBMIT_EXIT | REQUEST_FORM_APPLY

definition opt_change :: "'s ui_env \<Rightarrow> zero_touch_state \<Rightarrow> menu_state \<Rightarrow> 's \<Rightarrow> menu_state \<times> 's" where
  "opt_change V z m s = (m\<lparr>mn_Config := (mn_Config m)\<lparr>mc_OptInChanged := True\<rparr>\<rparr>,
     me_ResetNotification V (snd (DisplayMessageBox V ''STR_DFCI_MB_OPT_CHANGE'' EFI_SUCCESS True None (snd (SetZeroTouchState (me_U V) z s)))))"

definition DriverCallback :: "'s ui_env \<Rightarrow> browser_action \<Rightarrow> nat \<Rightarrow> menu_state \<Rightarrow> 's
    \<Rightarrow> (EFI_STATUS \<times> action_request \<times> menu_state \<times> 's) option" where
  "DriverCallback V Action QuestionId m s = (case Action of
     EFI_BROWSER_ACTION_FORM_OPEN \<Rightarrow> Some (EFI_UNSUPPORTED, REQUEST_NONE, m, s)
   | EFI_BROWSER_ACTION_CHANGED \<Rightarrow>
       if QuestionId = 0x2700 then do { (m, s1) \<leftarrow> IssueDfciNetworkRequest V m s; Some (EFI_UNSUPPORTED, REQUEST_NONE, m, s1) }
       else if QuestionId = 0x2800 \<or> QuestionId = 0x2E00 then do { (m, s1) \<leftarrow> IssueDfciUsbRequest V m s; Some (EFI_UNSUPPORTED, REQUEST_NONE, m, s1) }
       else if QuestionId = 0x2900 \<or> QuestionId = 0x2A00 then Some (EFI_SUCCESS, REQUEST_FORM_APPLY, m, s)
       else if QuestionId = 0x2D00 then Some (EFI_SUCCESS, REQUEST_FORM_SUBMIT_EXIT, m, s)
       else if QuestionId = 0x2B00 then (case opt_change V ZERO_TOUCH_OPT_IN m s of (m, s1) \<Rightarrow> Some (EFI_SUCCESS, REQUEST_SUBMIT, m, s1))
       else if QuestionId = 0x2C00 then (case opt_change V ZERO_TOUCH_OPT_OUT m s of (m, s1) \<Rightarrow> Some (EFI_SUCCESS, REQUEST_SUBMIT, m, s1))
       else Some (EFI_UNSUPPORTED, REQUEST_NONE, m, s)
   | OTHER_ACTION \<Rightarrow> Some (EFI_UNSUPPORTED, REQUEST_NONE, m, s))"

text \<open>\<open>Progress\<close>: whether the caller's pointer is not NULL.  The pointer is never written through.\<close>

definition RouteConfig :: "string option \<Rightarrow> bool \<Rightarrow> EFI_STATUS" where
  "RouteConfig Configuration Progress =
     (if Configuration = None \<or> \<not> Progress then EFI_INVALID_PARAMETER
      else if AsciiStrStr (the Configuration) ''OFFSET'' = None then EFI_UNSUPPORTED else EFI_SUCCESS)"

text \<open>The result of \<open>BlockToConfig\<close> is ignored: the operation succeeds with or without \<open>Results\<close>.\<close>

definition ExtractConfig :: "'s ui_env \<Rightarrow> string option \<Rightarrow> bool \<Rightarrow> bool \<Rightarrow> menu_state \<Rightarrow> 's
    \<Rightarrow> (EFI_STATUS \<times> string option \<times> menu_state \<times> 's) option" where
  "ExtractConfig V Request Progress Results m s =
     (if \<not> Progress \<or> \<not> Results then Some (EFI_INVALID_PARAMETER, None, m, s)
      else case Request of None \<Rightarrow> Some (EFI_UNSUPPORTED, None, m, s)
      | Some r \<Rightarrow>
          if AsciiStrStr r ''OFFSET'' = None then Some (EFI_UNSUPPORTED, None, m, s)
          else do {
            (_, m, s1) \<leftarrow> GetDfciParameters V m s;
            Some (EFI_SUCCESS, if me_HdrMatch V r then snd (me_BlockToConfig V r (mn_Config m)) else None, m, s1) })"

section \<open>Entry points\<close>

text \<open>A missing protocol returns \<open>FALSE\<close>, which is the status for success.\<close>

definition DfciMenuEntry :: "'s ui_env \<Rightarrow> menu_state \<Rightarrow> 's \<Rightarrow> (EFI_STATUS \<times> menu_state \<times> 's) option" where
  "DfciMenuEntry V m s =
     (if \<not> me_PcdSKUEnableDfci V then Some (EFI_UNSUPPORTED, m, s)
      else if EFI_ERROR (me_LocateAuthentication V s) then Some (EFI_SUCCESS, m, s)
      else if EFI_ERROR (me_LocatePermissions V s) then Some (EFI_SUCCESS, m, s)
      else do {
        (_, m, s1) \<leftarrow> CheckIfDfciEnrolled V m s;
        (case me_InstallProtocols V s1 of (Status, s2) \<Rightarrow>
         if EFI_ERROR Status then Some (EFI_SUCCESS, m, s2)
         else case me_HiiAddPackages V s2 of (hii, s3) \<Rightarrow>
           case (if hii then me_InstallFormset V s3 else (EFI_OUT_OF_RESOURCES, s3)) of (Status, s4) \<Rightarrow>
           Some (EFI_SUCCESS, m, if EFI_ERROR Status
             then (if hii then me_HiiRemovePackages V (me_UninstallProtocols V s4) else me_UninstallProtocols V s4) else s4)) })"

text \<open>\<open>me_MenuForms\<close>: the handles of the menu's forms, true for one that is not NULL.\<close>

definition DfciSARecoveryEntry :: "'s ui_env \<Rightarrow> menu_state \<Rightarrow> 's \<Rightarrow> (EFI_STATUS \<times> menu_state \<times> 's) option" where
  "DfciSARecoveryEntry V m s = (case me_MenuForms V s of None \<Rightarrow> Some (EFI_INVALID_PARAMETER, m, s)
     | Some hs \<Rightarrow> (case hs of [] \<Rightarrow> None | h # _ \<Rightarrow>
         if \<not> h then Some (EFI_INVALID_PARAMETER, m, s)
         else if EFI_ERROR (me_LocateAuthentication V s) then Some (EFI_SUCCESS, m, s)
         else if EFI_ERROR (me_LocatePermissions V s) then Some (EFI_SUCCESS, m, s)
         else do {
           (_, m, s1) \<leftarrow> SA_GetDfciParameters V m s;
           (enrolled, m, s2) \<leftarrow> CheckIfDfciEnrolled V m s1;
           if \<not> enrolled then Some (EFI_SUCCESS, m, s2)
           else do {
             (m, s3) \<leftarrow> (if mc_HttpRecoveryEnabled (mn_Config m) then SA_IssueDfciNetworkRequest V m s2 else Some (m, s2));
             Some (EFI_NOT_FOUND, m, s3) } }))"

section \<open>What the menu changes\<close>

text \<open>The services of the user interface touch no variable, those of the network stack only variables of \<open>K\<close>.\<close>

definition ui_laws :: "(string \<times> string) set \<Rightarrow> 's ui_env \<Rightarrow> bool" where
  "ui_laws K V \<longleftrightarrow> net_laws K (me_N V)
     \<and> (\<forall>t b c r s. same_vars (me_U V) s (snd (me_MessageBox V t b c r s))) \<and> (\<forall>s. same_vars (me_U V) s (me_ExitSecurityBoundary V s))
     \<and> (\<forall>e s. same_vars (me_U V) s (me_Signal V e s)) \<and> (\<forall>s. same_vars (me_U V) s (me_ResetNotification V s))
     \<and> (\<forall>s. same_vars (me_U V) s (me_ResetWarm V s))"

lemma ui_lawsD:
  assumes "ui_laws K V"
  shows "net_laws K (me_N V)" "same_vars (me_U V) s (snd (me_MessageBox V t b c r s))" "same_vars (me_U V) s (me_ExitSecurityBoundary V s)"
    "same_vars (me_U V) s (me_Signal V e s)" "same_vars (me_U V) s (me_ResetNotification V s)" "same_vars (me_U V) s (me_ResetWarm V s)"
  using assms unfolding ui_laws_def by blast+

lemma message_body_vars: "alloc_keeps_vars (me_U V) \<Longrightarrow> same_vars (me_U V) s (snd (message_body V t st m s))"
  using alloc_keeps_varsD(1) by (fastforce simp: message_body_def Let_def same_vars_def split: option.splits prod.splits)

lemma DisplayMessageBox_vars:
  assumes "ui_laws K V"
  shows "same_vars (me_U V) s (snd (DisplayMessageBox V t st r m s))"
proof -
  obtain b s1 where 1: "message_body V t st m s = (b, s1)" by (metis surj_pair)
  have "same_vars (me_U V) s s1" using message_body_vars [OF net_lawsD(3) [OF ui_lawsD(1) [OF assms]], of s t st m] by (simp add: 1)
  then show ?thesis using ui_lawsD(2) [OF assms, of s1] by (auto simp: DisplayMessageBox_def Let_def 1 same_vars_def split: option.splits)
qed

text \<open>The variables a menu action may change besides the mailboxes.\<close>

definition menu_variables :: "(string \<times> string) set" where
  "menu_variables = {(EFI_TLS_CA_CERTIFICATE_VARIABLE, gEfiTlsCaCertificateGuid), (EFI_OS_INDICATIONS_VARIABLE_NAME, gEfiGlobalVariableGuid),
     (ZERO_TOUCH_VARIABLE_OPT_IN_VAR_NAME, gZeroTouchVariableGuid)}"

lemma RebootToFrontPage_beside:
  assumes "ui_laws K V"
  shows "beside (me_U V) (menu_variables \<union> K) s (RebootToFrontPage V s)"
proof -
  let ?s = "snd (SetVariable (me_U V) EFI_OS_INDICATIONS_VARIABLE_NAME gEfiGlobalVariableGuid 7 (le64 1) s)"
  have "beside (me_U V) (menu_variables \<union> K) s ?s"
    by (rule beside_set [OF net_lawsD(2) [OF ui_lawsD(1) [OF assms]]]) (simp add: menu_variables_def)
  moreover have "same_vars (me_U V) ?s (RebootToFrontPage V s)"
    using ui_lawsD(5,6) [OF assms] by (simp add: RebootToFrontPage_def same_vars_def)
  ultimately show ?thesis using beside_trans besideI(1) by metis
qed

text \<open>The end of both requests: spinner, message and restart.\<close>

lemma finish_beside:
  assumes "ui_laws K V"
  shows "beside (me_U V) (menu_variables \<union> K) s (RebootToFrontPage V (snd (DisplayMessageBox V t st r m (me_Signal V e s))))"
proof -
  have "same_vars (me_U V) s (snd (DisplayMessageBox V t st r m (me_Signal V e s)))"
    using DisplayMessageBox_vars [OF assms] ui_lawsD(4) [OF assms] by (simp add: same_vars_def)
  then show ?thesis by (rule beside_trans [OF besideI(1) RebootToFrontPage_beside [OF assms]])
qed

lemma IssueDfciNetworkRequest_beside:
  assumes u: "ui_laws K V" and r: "IssueDfciNetworkRequest V m s = Some (m', s')"
  shows "beside (me_U V) (menu_variables \<union> K) s s'"
proof -
  let ?s = "me_Signal V gDfciConfigStartEventGroupGuid (me_ExitSecurityBoundary V s)"
  obtain st t q c s1 msg st' where 1: "ProcessDfciNetworkRequest (me_N V) (mn_Request m) (mn_Static m) ?s = Some (st, msg, q, c, s1)"
    and s': "s' = RebootToFrontPage V (snd (DisplayMessageBox V t st' True msg (me_Signal V gDfciConfigCompleteEventGroupGuid s1)))"
    using r by (auto simp: IssueDfciNetworkRequest_def Let_def split: Option.bind_splits)
  have "same_vars (me_U V) s ?s" using ui_lawsD(3,4) [OF u] by (simp add: same_vars_def)
  moreover have "beside (me_U V) (menu_variables \<union> K) ?s s1"
    by (rule beside_mono [OF ProcessDfciNetworkRequest_beside [OF ui_lawsD(1) [OF u] 1]]) (auto simp: menu_variables_def)
  moreover have "beside (me_U V) (menu_variables \<union> K) s1 s'" unfolding s' by (rule finish_beside [OF u])
  ultimately show ?thesis using beside_trans besideI(1) by metis
qed

lemma BuildUsbRequest_vars:
  assumes "alloc_keeps_vars (up_U E)" "BuildUsbRequest E x s = Some (st, f, s')"
  shows "same_vars (up_U E) s s'"
proof -
  obtain st1 i where 1: "DfciGetSystemInfo (mu_Ids (up_M E)) s = Some (st1, i)"
    using assms(2) by (auto simp: BuildUsbRequest_def split: Option.bind_splits)
  obtain ok s1 where 2: "AllocatePool (up_U E) 512 s = (ok, s1)" by (metis surj_pair)
  have "s' = s \<or> s' = s1"
    using assms(2) by (auto simp: BuildUsbRequest_def 1 2 Let_def split: Option.bind_splits if_splits)
  then show ?thesis using alloc_keeps_varsD(1) [OF assms(1) 2] by (auto simp: same_vars_def)
qed

lemma find_update_vars: "alloc_keeps_vars (up_U E) \<Longrightarrow> find_update E f hs st b s = (st', b', s') \<Longrightarrow> same_vars (up_U E) s s'"
proof (induction hs arbitrary: st b s)
  case (Cons h hs)
  define n where "n = (case fs_FileSize h f of None \<Rightarrow> 0 | Some k \<Rightarrow> k)"
  have n: "fs_FileSize h f = None \<or> fs_FileSize h f = Some n" by (simp add: n_def split: option.splits)
  obtain ok s1 where a: "AllocatePool (up_U E) (n + 1) s = (ok, s1)" by (metis surj_pair)
  obtain e d where d: "fs_Read h f = (e, d)" by (metis surj_pair)
  have "s' = s1 \<or> (\<exists>x y z. find_update E f hs x y z = (st', b', s') \<and> (z = s \<or> z = s1))"
    using Cons.prems(2) n a d by (auto split: if_splits; blast)
  then show ?case using Cons.IH [OF Cons.prems(1)] alloc_keeps_varsD(1) [OF Cons.prems(1) a] by (auto simp: same_vars_def)
qed (simp add: same_vars_def)

lemma DfciRequestJsonFromUSB_vars:
  assumes "alloc_keeps_vars (up_U E)" "DfciRequestJsonFromUSB E f s = Some (st, b, s')"
  shows "same_vars (up_U E) s s'"
  using assms find_update_vars
  by (fastforce simp: DfciRequestJsonFromUSB_def FindUsbDriveWithDfciUpdate_def same_vars_def split: option.splits prod.splits if_splits Option.bind_splits)

lemma usb_file_vars:
  assumes a: "alloc_keeps_vars (up_U E)" and r: "usb_file E f s = Some (st, b, f', s')"
  shows "same_vars (up_U E) s s'"
proof -
  note k = DfciRequestJsonFromUSB_vars [OF a]
  obtain st1 b1 s1 where 1: "DfciRequestJsonFromUSB E f s = Some (st1, b1, s1)"
    using r by (auto simp: usb_file_def split: Option.bind_splits)
  obtain ok s2 where 2: "AllocatePool (up_U E) 30 s1 = (ok, s2)" by (metis surj_pair)
  have "s' = s1 \<or> s' = s2 \<or> (\<exists>x st b. DfciRequestJsonFromUSB E x s2 = Some (st, b, s'))"
    using r by (auto simp: usb_file_def 1 2 split: Option.bind_splits if_splits)
  then show ?thesis using k [OF 1] alloc_keeps_varsD(1) [OF a 2] k by (auto simp: same_vars_def)
qed

lemma usb_update_mailboxes:
  assumes l: "variable_laws (up_U E)" "alloc_keeps_vars (up_U E)" "json_calls E" and r: "usb_update E m s = Some (st, f, m', s')"
  shows "only_mailboxes (up_U E) (set mJsonSetVariableEntryMailbox) s s'"
proof -
  obtain st1 f1 s1 where 1: "BuildUsbRequest E ''.Dfi'' s = Some (st1, f1, s1)"
    using r by (auto simp: usb_update_def split: Option.bind_splits)
  note v1 = BuildUsbRequest_vars [OF l(2) 1]
  show ?thesis
  proof (cases "EFI_ERROR st1")
    case True
    then show ?thesis using r v1 same_vars_only by (auto simp: usb_update_def 1)
  next
    case False
    then obtain st2 b f2 s2 where 2: "usb_file E f1 s1 = Some (st2, b, f2, s2)"
      using r by (auto simp: usb_update_def 1 split: Option.bind_splits)
    have v2: "same_vars (up_U E) s s2" using v1 usb_file_vars [OF l(2) 2] by (simp add: same_vars_def)
    show ?thesis
    proof (cases "EFI_ERROR st2")
      case True
      then show ?thesis using r False v2 same_vars_only by (auto simp: usb_update_def 1 2)
    next
      case ok: False
      then obtain js n z st3 z' where 3: "DfciUpdateFromJson E js n mUsbRecovery (z, s2) = Some (st3, z', s')"
        using r False by (auto simp: usb_update_def 1 2 split: Option.bind_splits)
      have "only_mailboxes (up_U E) (table_mailboxes mUsbRecovery) s2 s'"
        by (rule DfciUpdateFromJson_only [OF l _ 3]) (simp add: json_tables_def)
      then show ?thesis
        by (rule only_mailboxes_trans [OF same_vars_only [OF v2] _ empty_subsetI])
           (rule table_mailboxes_subset, simp add: json_tables_def)
    qed
  qed
qed

lemma IssueDfciUsbRequest_beside:
  assumes u: "ui_laws K V" and r: "IssueDfciUsbRequest V m s = Some (m', s')"
  shows "beside (me_U V) (menu_variables \<union> K) s s'"
proof -
  note n = ui_lawsD(1) [OF u]
  obtain st f t x s1 where 1: "usb_update (ne_E (me_N V)) m (me_ExitSecurityBoundary V s) = Some (st, f, x, s1)"
    and s': "s' = RebootToFrontPage V (snd (DisplayMessageBox V t st True f (me_Signal V gDfciConfigCompleteEventGroupGuid s1)))"
    using r by (auto simp: IssueDfciUsbRequest_def split: Option.bind_splits)
  have "beside (me_U V) (menu_variables \<union> K) (me_ExitSecurityBoundary V s) s1"
    by (rule besideI(2) [OF usb_update_mailboxes [OF net_lawsD(2,3,4) [OF n] 1]])
  moreover have "beside (me_U V) (menu_variables \<union> K) s1 s'" unfolding s' by (rule finish_beside [OF u])
  ultimately show ?thesis using beside_trans besideI(1) [OF ui_lawsD(3) [OF u]] by metis
qed

lemma opt_change_beside:
  assumes u: "ui_laws K V" and z: "z \<noteq> ZERO_TOUCH_INACTIVE"
  shows "beside (me_U V) (menu_variables \<union> K) s (snd (opt_change V z m s))"
proof -
  let ?s = "snd (SetZeroTouchState (me_U V) z s)"
  have "beside (me_U V) (menu_variables \<union> K) s (snd (SetVariable (me_U V) ZERO_TOUCH_VARIABLE_OPT_IN_VAR_NAME gZeroTouchVariableGuid a d s))" for a d
    by (rule beside_set [OF net_lawsD(2) [OF ui_lawsD(1) [OF u]]]) (simp add: menu_variables_def)
  then have "beside (me_U V) (menu_variables \<union> K) s ?s" using z by (simp add: SetZeroTouchState_def split: zero_touch_state.splits)
  moreover have "same_vars (me_U V) ?s (snd (opt_change V z m s))"
    using DisplayMessageBox_vars [OF u] ui_lawsD(5) [OF u] by (simp add: opt_change_def same_vars_def)
  ultimately show ?thesis using beside_trans besideI(1) by metis
qed

text \<open>
  Property C15: no action in the menu, not even a whole recovery from the network or from a USB drive,
  touches a variable besides the mailboxes of the manager, the TLS certificate, the opt-in state, the
  request to start into the menu again and the variables \<open>K\<close> in which the network stack keeps its own
  configuration; a mailbox outside \<open>K\<close> that it changes holds a packet that starts with the signature the
  manager expects there.
\<close>

theorem menu_actions_only_fill_mailboxes:
  assumes u: "ui_laws K V" and r: "DriverCallback V act i m s = Some (st, ar, m', s')" and x: "(name, g) \<notin> menu_variables \<union> K"
    and d: "GetVariable (me_U V) name g s' \<noteq> GetVariable (me_U V) name g s"
  shows "\<exists>k rn sig dec prot d. (k, name, rn, g, sig, dec, prot) \<in> set (mailboxes ME)
    \<and> GetVariable (me_U V) name g s' = (EFI_SUCCESS, d, 7) \<and> rd32 d 0 = Some sig"
proof -
  have "s' = s \<or> (\<exists>n. IssueDfciNetworkRequest V m s = Some (n, s')) \<or> (\<exists>n. IssueDfciUsbRequest V m s = Some (n, s'))
      \<or> (\<exists>z. z \<noteq> ZERO_TOUCH_INACTIVE \<and> s' = snd (opt_change V z m s))"
    using r by (auto simp: DriverCallback_def split: browser_action.splits if_splits Option.bind_splits prod.splits)
  then have "beside (me_U V) (menu_variables \<union> K) s s'"
    using IssueDfciNetworkRequest_beside [OF u] IssueDfciUsbRequest_beside [OF u] opt_change_beside [OF u] d by blast
  then show ?thesis using x d by (rule beside_manager)
qed

section \<open>The parameters of a recovery\<close>

text \<open>What the setting access protocol documents: on success the size is the number of bytes returned.\<close>

definition setting_sizes :: "'s menu_env \<Rightarrow> bool" where
  "setting_sizes M \<longleftrightarrow> (\<forall>i t n s st k d. mu_SettingGet M i t n s = Some (st, k, d) \<longrightarrow> EFI_ERROR st \<or> length d = k)"

lemma read_setting_valid:
  assumes l: "setting_sizes (me_M V)" and r: "read_setting V i t m s = Some (st, p, n, m', s')" and e: "\<not> EFI_ERROR st"
  shows "(\<exists>d. p = Ptr d \<and> length d = n \<and> (t = TYPE_STRING \<longrightarrow> 0 \<in> set d)) \<and> mn_Request m' = mn_Request m"
proof -
  let ?g = "DfciGetASetting (me_M V) i t (ns_SettingAccess (mn_Static m)) s"
  have "?g \<noteq> None"
  proof
    assume n: "?g = None"
    show False using r unfolding read_setting_def n by simp
  qed
  then obtain st0 p0 n0 a s0 where g: "?g = Some (st0, p0, n0, a, s0)" by (metis option.exhaust surj_pair)
  then have a: "?g = Some (st, p, n, a, s')" and m: "mn_Request m' = mn_Request m"
    using r by (auto simp: read_setting_def)
  have "\<exists>x y d. p = Ptr d \<and> mu_SettingGet (me_M V) i t x y = Some (st, n, d) \<and> (t = TYPE_STRING \<longrightarrow> 0 \<in> set (take n d))"
    using a e by (auto simp: DfciGetASetting_def Let_def split: if_splits Option.bind_splits prod.splits)
  then obtain x y d where d: "p = Ptr d" "mu_SettingGet (me_M V) i t x y = Some (st, n, d)" "t = TYPE_STRING \<longrightarrow> 0 \<in> set (take n d)" by blast
  have "length d = n" using l d(2) e unfolding setting_sizes_def by blast
  then show ?thesis using d(1,3) m by simp
qed

text \<open>A pointer to a string with its NUL, and what a recovery over the network needs.\<close>

definition text_at :: "ptr \<Rightarrow> nat \<Rightarrow> bool" where
  "text_at p n \<longleftrightarrow> (\<exists>d. p = Ptr d \<and> length d = n \<and> 0 \<in> set d \<and> 2 \<le> n)"

definition recovery_parameters :: "network_request \<Rightarrow> bool" where
  "recovery_parameters q \<longleftrightarrow> text_at (nq_TenantId q) (nq_TenantIdSize q) \<and> text_at (nq_RegistrationId q) (nq_RegistrationIdSize q)
     \<and> (\<exists>d. nq_HttpsCert q = Ptr d \<and> length d = nq_HttpsCertSize q \<and> 2 \<le> length d) \<and> nq_HttpsThumbprint q \<noteq> NullPtr"

lemma http_parameters_valid:
  assumes l: "setting_sizes (me_M V)" and r: "http_parameters V m s = Some (Some h, m', s')"
  shows "recovery_parameters (mn_Request m')"
proof -
  note rv = read_setting_valid [OF l]
  obtain st1 p1 n1 m1 s1 where 1: "read_setting V ''Dfci.RecoveryUrl.String'' TYPE_STRING m s = Some (st1, p1, n1, m1, s1)"
    using r by (auto simp: http_parameters_def split: Option.bind_splits)
  note r1 = r [unfolded http_parameters_def 1 bind.bind_lunit prod.case Let_def]
  have e1: "\<not> EFI_ERROR st1" "\<not> n1 \<le> 1" using r1 by (auto split: if_splits)
  let ?m1 = "m1\<lparr>mn_Url := p1, mn_UrlSize := n1\<rparr>"
  obtain st2 p2 n2 m2 s2 where 2: "read_setting V ''Dfci.HttpsCert.Binary'' TYPE_CERT ?m1 s1 = Some (st2, p2, n2, m2, s2)"
    using r1 e1 by (auto split: Option.bind_splits)
  have e2: "\<not> EFI_ERROR st2" "\<not> n2 \<le> 1" using r1 e1 by (auto simp: 2 split: if_splits)
  let ?m2 = "m2\<lparr>mn_Request := (mn_Request m2)\<lparr>nq_HttpsCert := p2, nq_HttpsCertSize := n2\<rparr>\<rparr>"
  obtain st3 p3 n3 m3 s3 where 3: "read_setting V ''Dfci.TenantId.String'' TYPE_STRING ?m2 s2 = Some (st3, p3, n3, m3, s3)"
    using r1 e1 e2 by (auto simp: 2 split: Option.bind_splits)
  have e3: "\<not> EFI_ERROR st3" "\<not> n3 \<le> 1" using r1 e1 e2 by (auto simp: 2 3 split: if_splits)
  let ?m3 = "m3\<lparr>mn_Request := (mn_Request m3)\<lparr>nq_TenantId := p3, nq_TenantIdSize := n3\<rparr>\<rparr>"
  obtain st4 p4 n4 m4 s4 where 4: "read_setting V ''Dfci.RegistrationId.String'' TYPE_STRING ?m3 s3 = Some (st4, p4, n4, m4, s4)"
    using r1 e1 e2 e3 by (auto simp: 2 3 split: Option.bind_splits)
  have e4: "\<not> EFI_ERROR st4" "\<not> n4 \<le> 1" using r1 e1 e2 e3 by (auto simp: 2 3 4 split: if_splits)
  let ?q = "(mn_Request m4)\<lparr>nq_RegistrationId := p4, nq_RegistrationIdSize := n4\<rparr>"
  have m': "\<exists>p n. mn_Request m' = ?q\<lparr>nq_HttpsThumbprint := p, nq_HttpsThumbprintSize := n\<rparr> \<and> p \<noteq> NullPtr"
    using r1 e1 e2 e3 e4 by (auto simp: 2 3 4 split: if_splits Option.bind_splits prod.splits) blast
  obtain d2 d3 d4 where d: "p2 = Ptr d2" "length d2 = n2" "p3 = Ptr d3" "length d3 = n3" "0 \<in> set d3" "p4 = Ptr d4" "length d4 = n4" "0 \<in> set d4"
    using rv [OF 2 e2(1)] rv [OF 3 e3(1)] rv [OF 4 e4(1)] by auto
  have q3: "mn_Request m3 = mn_Request ?m2" "mn_Request m4 = mn_Request ?m3"
    using conjunct2 [OF rv [OF 3 e3(1)]] conjunct2 [OF rv [OF 4 e4(1)]] by simp_all
  show ?thesis
    using m' d e2(2) e3(2) e4(2) by (auto simp: recovery_parameters_def text_at_def q3)
qed

lemma read_setting_config: "read_setting V i t m s = Some (st, p, n, m', s') \<Longrightarrow> mn_Config m' = mn_Config m"
  by (auto simp: read_setting_def split: Option.bind_splits)

lemma http_parameters_config: "http_parameters V m s = Some (h, m', s') \<Longrightarrow> mn_Config m' = mn_Config m"
  by (auto simp: http_parameters_def Let_def split: Option.bind_splits if_splits prod.splits dest!: read_setting_config)

lemma name_parameter_keeps:
  assumes "name_parameter V b i f m s = Some (x, m', s')"
  shows "mn_Config m' = mn_Config m \<and> mn_Request m' = mn_Request m"
proof -
  obtain st p n m1 s1 where 1: "read_setting V i TYPE_STRING m s = Some (st, p, n, m1, s1)"
    using assms by (auto simp: name_parameter_def split: Option.bind_splits)
  have "m' = m1" using assms by (auto simp: name_parameter_def 1 split: Option.bind_splits if_splits)
  then show ?thesis using 1 by (auto simp: read_setting_def split: Option.bind_splits)
qed

lemma name_parameters_request:
  assumes "name_parameters V b m s = Some (m', s')"
  shows "mn_Request m' = mn_Request m \<and> mc_HttpRecoveryEnabled (mn_Config m') = mc_HttpRecoveryEnabled (mn_Config m)"
proof -
  obtain x m1 s1 where 1: "name_parameter V b ''MDM.FriendlyName.String'' ''STR_DFCI_MDM_FRIENDLY_NAME'' m s = Some (x, m1, s1)"
    using assms by (auto simp: name_parameters_def split: Option.bind_splits)
  let ?m = "if x then m1\<lparr>mn_Config := (mn_Config m1)\<lparr>mc_FriendlyName := True\<rparr>\<rparr> else m1"
  obtain y m2 s2 where 2: "name_parameter V b ''MDM.TenantName.String'' ''STR_DFCI_MDM_TENANT_NAME'' ?m s1 = Some (y, m2, s2)"
    using assms by (auto simp: name_parameters_def 1 Let_def split: Option.bind_splits)
  have "m' = (if y then m2\<lparr>mn_Config := (mn_Config m2)\<lparr>mc_TenantName := True\<rparr>\<rparr> else m2)"
    using assms unfolding name_parameters_def 1 bind.bind_lunit prod.case Let_def 2 by simp
  then show ?thesis using name_parameter_keeps [OF 1] name_parameter_keeps [OF 2] by simp
qed

text \<open>
  Property C32: when the menu offers recovery over the network, what a recovery needs is there: the
  tenant and the registration are strings of at least one character with their NUL, the certificate
  and its thumbprint are in memory.  Installing the certificate is then defined in every state.
\<close>

theorem offered_recovery_has_parameters:
  assumes l: "setting_sizes (me_M V)" and a: "\<not> mn_AlreadyRun m" and r: "GetDfciParameters V m s = Some (st, m', s')"
    and e: "mc_HttpRecoveryEnabled (mn_Config m')"
  shows "recovery_parameters (mn_Request m') \<and> EnableDfciCertificate (me_N V) (mn_Request m') c x \<noteq> None"
proof -
  obtain m1 s1 h m2 s2 m3 s3 where h: "http_parameters V m1 s1 = Some (h, m2, s2)" and n: "name_parameters V True m3 s3 = Some (m', s')"
    and c: "\<not> mc_HttpRecoveryEnabled (mn_Config m1)" and m3: "m3 = (if h = None then m2 else m2\<lparr>mn_Config := (mn_Config m2)\<lparr>mc_HttpRecoveryEnabled := True\<rparr>\<rparr>)"
    using r a by (simp add: GetDfciParameters_def Let_def split: Option.bind_splits prod.splits)
  have "mc_HttpRecoveryEnabled (mn_Config m3)" "mn_Request m' = mn_Request m3" using name_parameters_request [OF n] e by simp_all
  moreover have "mn_Config m2 = mn_Config m1" if "h = None"
    using http_parameters_config [OF h] .
  ultimately obtain y where "h = Some y" using c m3 by (cases h) auto
  then have "recovery_parameters (mn_Request m')"
    using http_parameters_valid [OF l] h m3 \<open>mn_Request m' = mn_Request m3\<close> by simp
  then show ?thesis
    by (auto simp: EnableDfciCertificate_def recovery_parameters_def deref_def rd_def split: prod.splits)
qed

text \<open>A menu over the services of the previous theories, in a system without provisioned certificates.\<close>

definition menu_ui :: "demo_state ui_env" where
  "menu_ui = \<lparr>me_N = demo_net, me_L = demo_names ''S'' ''I'', me_Certs = mInternalCertStore, me_Permissions = None,
     me_ZeroTouchSection = (\<lambda>s. (EFI_NOT_FOUND, [])), me_Token = length, me_HiiGetString = (\<lambda>i s. Some ''text''), me_UnicodeSPrint = (\<lambda>n f t. t),
     me_MessageBox = (\<lambda>t b c r s. (EFI_SUCCESS, s)), me_RecoveryForms = (\<lambda>s. False), me_HttpParseUrl = (\<lambda>u n. EFI_SUCCESS),
     me_HttpUrlGetHostName = (\<lambda>u. (EFI_SUCCESS, ''host'')), me_ExitSecurityBoundary = (\<lambda>s. s), me_Signal = (\<lambda>e s. s),
     me_ResetNotification = (\<lambda>s. s), me_ResetWarm = (\<lambda>s. s), me_PcdSetupUiReducedFunction = False, me_PcdSKUEnableDfci = True,
     me_LocateAuthentication = (\<lambda>s. EFI_SUCCESS), me_LocatePermissions = (\<lambda>s. EFI_SUCCESS), me_InstallProtocols = (\<lambda>s. (EFI_SUCCESS, s)),
     me_HiiAddPackages = (\<lambda>s. (True, s)), me_InstallFormset = (\<lambda>s. (EFI_SUCCESS, s)), me_UninstallProtocols = (\<lambda>s. s),
     me_HiiRemovePackages = (\<lambda>s. s), me_MenuForms = (\<lambda>s. Some [True]), me_HdrMatch = (\<lambda>r. True), me_BlockToConfig = (\<lambda>r c. (EFI_SUCCESS, None))\<rparr>"

definition no_config :: menu_config where
  "no_config = \<lparr>mc_RecoveryEnabled = False, mc_HttpRecoveryEnabled = False, mc_ZeroTouchEnabled = False, mc_ZeroTouchCertAvailable = False,
     mc_ZeroTouchOptGrayOut = False, mc_OwnerEnabled = False, mc_UserEnabled = False, mc_FriendlyName = False, mc_TenantName = False, mc_OptInChanged = False\<rparr>"

definition start_menu :: menu_state where
  "start_menu = \<lparr>mn_Config = no_config, mn_IdMask = 0, mn_Url = NullPtr, mn_UrlSize = 0, mn_AlreadyRun = False, mn_Request = zero_request, mn_Static = initial_static\<rparr>"

lemma menu_ui_laws: "ui_laws demo_ip4 menu_ui" "me_N menu_ui = demo_net"
  using demo_net_laws by (simp_all add: ui_laws_def menu_ui_def same_vars_def)

theorem menu_actions_only_fill_mailboxes_witness:
  "\<exists>m' s' k rn sig dec prot d. DriverCallback menu_ui EFI_BROWSER_ACTION_CHANGED 0x2700 (start_menu\<lparr>mn_Request := demo_request\<rparr>) no_vars
      = Some (EFI_UNSUPPORTED, REQUEST_NONE, m', s')
    \<and> (k, ''DfciIdentityApply'', rn, gDfciAuthProvisionVarNamespace, sig, dec, prot) \<in> set (mailboxes (undefined :: unit manager_env))
    \<and> GetVariable demo_platform ''DfciIdentityApply'' gDfciAuthProvisionVarNamespace s' = (EFI_SUCCESS, d, 7) \<and> rd32 d 0 = Some sig"
proof -
  let ?m = "start_menu\<lparr>mn_Request := demo_request\<rparr>"
  obtain q' c' s1 where 1: "ProcessDfciNetworkRequest demo_net demo_request initial_static no_vars = Some (EFI_MEDIA_CHANGED, Some ''done'', q', c', s1)"
    and v: "map_of (dm_vars s1) (''DfciIdentityApply'', gDfciAuthProvisionVarNamespace) = Some (demo_packet, 7)"
    using demo_first_run by auto
  define s' where "s' = snd (SetVariable demo_platform EFI_OS_INDICATIONS_VARIABLE_NAME gEfiGlobalVariableGuid 7 (le64 1) s1)"
  have u: "ne_U demo_net = demo_platform" by (simp add: demo_net_services demo_server_services)
  have a: "AllocatePool demo_platform n x = (True, x)" for n x by (simp add: demo_simps)
  have 2: "DriverCallback menu_ui EFI_BROWSER_ACTION_CHANGED 0x2700 ?m no_vars
      = Some (EFI_UNSUPPORTED, REQUEST_NONE, ?m\<lparr>mn_Request := q', mn_Static := c'\<rparr>, s')"
    by (simp add: DriverCallback_def IssueDfciNetworkRequest_def menu_ui_def start_menu_def 1 RebootToFrontPage_def DisplayMessageBox_def
        message_body_def s'_def u a)
  have "le64 1 \<noteq> []" using length_le(3) [of 1] by (metis list.size(3) zero_neq_numeral)
  then have d: "GetVariable demo_platform ''DfciIdentityApply'' gDfciAuthProvisionVarNamespace s'
      \<noteq> GetVariable demo_platform ''DfciIdentityApply'' gDfciAuthProvisionVarNamespace no_vars"
    by (simp add: s'_def demo_simps v EFI_OS_INDICATIONS_VARIABLE_NAME_def)
  show ?thesis
    using menu_actions_only_fill_mailboxes [OF menu_ui_laws(1) 2, of "''DfciIdentityApply''" gDfciAuthProvisionVarNamespace "undefined :: unit manager_env"] d 2
      demo_ip4_keys(2)
    unfolding menu_ui_laws(2) u menu_variables_def EFI_TLS_CA_CERTIFICATE_VARIABLE_def EFI_OS_INDICATIONS_VARIABLE_NAME_def ZERO_TOUCH_VARIABLE_OPT_IN_VAR_NAME_def
    by (simp; blast)
qed

text \<open>The settings of the demonstration are all the string \<open>h\<close>.\<close>

lemma demo_setting:
  "t = TYPE_STRING \<or> t = TYPE_CERT \<Longrightarrow> read_setting menu_ui i t m s
     = Some (EFI_SUCCESS, Ptr [0x68, 0], 2, m\<lparr>mn_Static := (mn_Static m)\<lparr>ns_SettingAccess := True\<rparr>\<rparr>, s)"
  by (auto simp: read_setting_def DfciGetASetting_def menu_ui_def demo_net_simps demo_simps)

lemma menu_ui_simps: "me_U menu_ui = demo_platform" "me_Certs menu_ui = mInternalCertStore" "me_L menu_ui = demo_names ''S'' ''I''"
  "AllocatePool demo_platform n x = (True, x)" "AsciiValueToStringS demo_platform k b v w = (EFI_SUCCESS, ''0'')"
  by (simp_all add: menu_ui_def demo_net_services demo_server_services demo_simps)

lemma demo_cert_fields: "cert_fields menu_ui True mCertInitTable s = Some s"
  by (simp add: mCertInitTable_def GetCertInfo_def menu_ui_simps GetProvisionedCertDataAndSize_def mInternalCertStore_def Provisioned_def
      DFCI_IDENTITY_MASK_KEYS_def)

lemma demo_thumbprint: "\<exists>b n. get_thumbprint menu_ui 0 (Some [0x68, 0]) 2 old s = Some (EFI_SUCCESS, (Ptr b, n), s)"
proof -
  have h: "fst (hex_loop demo_platform f False i bs st t) = EFI_SUCCESS" if "bs \<noteq> [] \<or> st = EFI_SUCCESS" for f i bs st t
    using that by (induction bs arbitrary: i st t) (simp_all add: menu_ui_simps)
  obtain t where "hex_loop demo_platform 2 False 0 (replicate 20 0xAB) EFI_INVALID_PARAMETER [] = (EFI_SUCCESS, t)"
    using h [of "replicate 20 0xAB" EFI_INVALID_PARAMETER 2 0 "[]"] by (cases "hex_loop demo_platform 2 False 0 (replicate 20 0xAB) EFI_INVALID_PARAMETER []") auto
  then have "GetSha1Thumbprint8 demo_platform (cl_Sha1 (demo_names ''S'' ''I'')) (Some [0x68, 0]) 2 False [] s = Some (EFI_SUCCESS, t, s)"
    by (simp add: GetSha1Thumbprint8_def GetSha1Thumbprint_def menu_ui_simps demo_names_props rd_def Let_def)
  then show ?thesis
    by (simp add: get_thumbprint_def GetCertInfo_def thumbprint8_def menu_ui_simps)
qed

lemma demo_parameters:
  "\<exists>m' s'. GetDfciParameters menu_ui start_menu no_vars = Some (EFI_SUCCESS, m', s') \<and> mc_HttpRecoveryEnabled (mn_Config m')"
proof -
  have u: "me_HttpParseUrl menu_ui x n = EFI_SUCCESS" "me_HttpUrlGetHostName menu_ui x = (EFI_SUCCESS, ''host'')" for x n
    by (simp_all add: menu_ui_def)
  have h: "\<exists>m'. http_parameters menu_ui m s = Some (Some ''host'', m', s)" for m s
  proof -
    obtain b n where "get_thumbprint menu_ui 0 (Some [0x68, 0]) 2 (nq_HttpsThumbprint (mn_Request m), nq_HttpsThumbprintSize (mn_Request m)) s
        = Some (EFI_SUCCESS, (Ptr b, n), s)" using demo_thumbprint by blast
    then show ?thesis by (simp add: http_parameters_def demo_setting deref_def u Let_def)
  qed
  have n: "\<exists>m' s'. name_parameters menu_ui True m s = Some (m', s')" for m s
  proof -
    obtain t where "buf_string [0x68, 0] = Some t" using buf_string_terminated [of "[0x68, 0]"] by auto
    then show ?thesis by (simp add: name_parameters_def name_parameter_def demo_setting deref_def Let_def)
  qed
  obtain s1 m1 where 1: "http_parameters menu_ui (start_menu\<lparr>mn_AlreadyRun := True, mn_Config := (mn_Config start_menu)\<lparr>mc_HttpRecoveryEnabled := False,
      mc_RecoveryEnabled := recovery_enabled menu_ui no_vars\<rparr>\<rparr>) no_vars = Some (Some ''host'', m1, s1)" using h by blast
  let ?s = "snd (DfciSetStringEntry (me_M menu_ui) (me_Token menu_ui ''STR_DFCI_URL_FIELD'') ''host'' s1)"
  obtain m2 s2 where 2: "name_parameters menu_ui True (m1\<lparr>mn_Config := (mn_Config m1)\<lparr>mc_HttpRecoveryEnabled := True\<rparr>\<rparr>) ?s = Some (m2, s2)"
    using n by blast
  have "GetDfciParameters menu_ui start_menu no_vars = Some (EFI_SUCCESS, m2, s2)"
    using 1 2 by (simp add: GetDfciParameters_def demo_cert_fields Let_def) (simp add: start_menu_def menu_ui_def)
  then show ?thesis using name_parameters_request [OF 2] by simp
qed

theorem offered_recovery_has_parameters_witness:
  "\<exists>m' s'. GetDfciParameters menu_ui start_menu no_vars = Some (EFI_SUCCESS, m', s') \<and> recovery_parameters (mn_Request m')
    \<and> EnableDfciCertificate (me_N menu_ui) (mn_Request m') initial_static no_vars \<noteq> None"
proof -
  have l: "setting_sizes (me_M menu_ui)"
    by (auto simp: setting_sizes_def menu_ui_def demo_net_simps split: if_splits)
  obtain m' s' where r: "GetDfciParameters menu_ui start_menu no_vars = Some (EFI_SUCCESS, m', s')" "mc_HttpRecoveryEnabled (mn_Config m')"
    using demo_parameters by blast
  have "\<not> mn_AlreadyRun start_menu" by (simp add: start_menu_def)
  then show ?thesis using offered_recovery_has_parameters [OF l _ r] r by blast
qed

lemma ztd_thumbprint_result:
  assumes "ztd_thumbprint V m s = Some (b, m', s')"
  shows "mn_IdMask m' = mn_IdMask m" "mc_ZeroTouchEnabled (mn_Config m') \<longleftrightarrow> b \<or> mc_ZeroTouchEnabled (mn_Config m)"
    "mc_UserEnabled (mn_Config m') = mc_UserEnabled (mn_Config m)" "mn_IdMask m AND DFCI_IDENTITY_SIGNER_ZTD = 0 \<Longrightarrow> \<not> b"
  using assms by (auto simp: ztd_thumbprint_def Let_def split: Option.bind_splits if_splits prod.splits)

lemma owner_thumbprint_result:
  assumes "owner_thumbprint V m s = Some (m', s')"
  shows "mn_IdMask m' = mn_IdMask m" "mc_ZeroTouchEnabled (mn_Config m') = mc_ZeroTouchEnabled (mn_Config m)"
    "mc_UserEnabled (mn_Config m') = mc_UserEnabled (mn_Config m)"
  using assms by (auto simp: owner_thumbprint_def Let_def split: Option.bind_splits if_splits prod.splits)

text \<open>
  When a system counts as managed.  Zero-touch with a readable certificate or a user key
  is needed; an owner key alone is not enough, as the comment of the code says.
\<close>

theorem owner_alone_is_not_enrolled:
  assumes r: "CheckIfDfciEnrolled V m s = Some (b, m', s')"
  shows "(b \<longleftrightarrow> mc_ZeroTouchEnabled (mn_Config m') \<or> mc_UserEnabled (mn_Config m'))
    \<and> (Provisioned (me_Certs V) AND DFCI_IDENTITY_SIGNER_ZTD = 0 \<longrightarrow> \<not> mc_ZeroTouchEnabled (mn_Config m'))
    \<and> (mc_UserEnabled (mn_Config m') \<longleftrightarrow> Provisioned (me_Certs V) AND DFCI_IDENTITY_SIGNER_USER \<noteq> 0)"
proof -
  define m0 where "m0 = m\<lparr>mn_Config := (mn_Config m)\<lparr>mc_ZeroTouchOptGrayOut := False, mc_ZeroTouchCertAvailable := False, mc_ZeroTouchEnabled := False,
     mc_OwnerEnabled := False, mc_UserEnabled := False\<rparr>, mn_IdMask := Provisioned (me_Certs V)\<rparr>"
  obtain e x y where z: "GetZeroTouchCertificate (me_ZeroTouchSection V) None 0 s = (e, x, y)" by (metis surj_pair)
  define m1 where "m1 = (if EFI_ERROR e then m0 else m0\<lparr>mn_Config := (mn_Config m0)\<lparr>mc_ZeroTouchCertAvailable := True\<rparr>\<rparr>)"
  have m1: "mn_IdMask m1 = Provisioned (me_Certs V)" "\<not> mc_ZeroTouchEnabled (mn_Config m1)" "\<not> mc_UserEnabled (mn_Config m1)"
    by (simp_all add: m1_def m0_def)
  obtain b2 m2 s2 m3 s3 where 2: "ztd_thumbprint V m1 s = Some (b2, m2, s2)" and 3: "owner_thumbprint V m2 s2 = Some (m3, s3)"
    and b: "b \<longleftrightarrow> b2 \<or> mn_IdMask m3 AND DFCI_IDENTITY_SIGNER_USER \<noteq> 0"
    and f: "mn_Config m' = (if mn_IdMask m3 AND DFCI_IDENTITY_SIGNER_USER \<noteq> 0 then (mn_Config m3)\<lparr>mc_UserEnabled := True\<rparr> else mn_Config m3)"
    using r by (cases "EFI_ERROR e") (auto simp: CheckIfDfciEnrolled_def GetEnrolledIdentities_def m0_def z m1_def Let_def split: Option.bind_splits if_splits)
  note z2 = ztd_thumbprint_result [OF 2] and o3 = owner_thumbprint_result [OF 3]
  show ?thesis using z2 o3 m1 b f by auto
qed

theorem owner_alone_is_not_enrolled_witness:
  "\<exists>b m' s'. CheckIfDfciEnrolled (menu_ui\<lparr>me_Certs := mInternalCertStore\<lparr>cs_PopulatedIdentities := DFCI_IDENTITY_SIGNER_OWNER\<rparr>\<rparr>) start_menu no_vars = Some (b, m', s') \<and> \<not> b"
proof -
  let ?V = "menu_ui\<lparr>me_Certs := mInternalCertStore\<lparr>cs_PopulatedIdentities := DFCI_IDENTITY_SIGNER_OWNER\<rparr>\<rparr>"
  have g: "get_thumbprint ?V DFCI_IDENTITY_SIGNER_OWNER None 0 old s = Some (EFI_INVALID_PARAMETER, old, s)" for old s
    by (simp add: get_thumbprint_def GetCertInfo_def GetProvisionedCertDataAndSize_def DFCI_IDENTITY_MASK_KEYS_def DfciIdentityToCertIndex_def
        Provisioned_def mInternalCertStore_def no_cert_def thumbprint8_def GetSha1Thumbprint8_def GetSha1Thumbprint_def)
  have i: "\<exists>e i. DfciGetSystemInfo (mu_Ids (me_M menu_ui)) s = Some (e, i)" for s
    by (simp add: menu_ui_def demo_net_simps DfciGetSystemInfo_def)
  have z: "GetZeroTouchCertificate (me_ZeroTouchSection menu_ui) None 0 s = (EFI_NOT_FOUND, None, 0)" for s
    by (simp add: menu_ui_def GetZeroTouchCertificate_def)
  obtain e i where "DfciGetSystemInfo (mu_Ids (me_M menu_ui)) no_vars = Some (e, i)" using i by blast
  then have "\<exists>b m' s'. CheckIfDfciEnrolled ?V start_menu no_vars = Some (b, m', s')"
    by (simp add: CheckIfDfciEnrolled_def GetEnrolledIdentities_def Provisioned_def z ztd_thumbprint_def owner_thumbprint_def g [simplified] Let_def) blast
  then obtain b m' s' where r: "CheckIfDfciEnrolled ?V start_menu no_vars = Some (b, m', s')" by blast
  have "\<not> b" using owner_alone_is_not_enrolled [OF r] by (simp add: Provisioned_def)
  then show ?thesis using r by blast
qed

end
