(* ===== verification/Device_Id.thy ===== *)
theory Device_Id
  imports Setting_Current Cert_Info Packet_Decode
begin

text \<open>
  The driver of the settings manager (\<open>SettingsManagerDxe.c\<close>): its entry point, its two events and
  the published document with the identifiers of the device, whose schema is
  \<open>DfciXmlDeviceIdSchemaSupportLib.c\<close>.  The boot services that install protocols and create events
  are parameters, like the XML tree library and the identifiers of the device.

  The theory shows which document is published, that the events write no other variables, and that
  without DFCI in the build the document is deleted.
\<close>

section \<open>The schema\<close>

definition DEVICE_ID_PACKET_ELEMENT_NAME :: string where "DEVICE_ID_PACKET_ELEMENT_NAME = ''UEFIDeviceIdentifierPacket''"
definition DEVICE_ID_LIST_ELEMENT_NAME :: string where "DEVICE_ID_LIST_ELEMENT_NAME = ''Identifiers''"
definition DEVICE_ID_XML_TEMPLATE :: string where
  "DEVICE_ID_XML_TEMPLATE = ''<?xml version=\"1.0\" encoding=\"utf-8\"?><UEFIDeviceIdentifierPacket></UEFIDeviceIdentifierPacket>''"

definition GetDeviceIdPacketNode :: "xml_node option \<Rightarrow> xml_node option" where
  "GetDeviceIdPacketNode = root_element DEVICE_ID_PACKET_ELEMENT_NAME"

definition GetDeviceIdListNodeFromPacketNode :: "'s platform \<Rightarrow> xml_node \<Rightarrow> nat option" where
  "GetDeviceIdListNodeFromPacketNode U PacketNode = FindFirstChildNodeByName U PacketNode DEVICE_ID_LIST_ELEMENT_NAME"

definition New_DeviceIdPacketNodeList :: "'s platform \<Rightarrow> 's \<Rightarrow> xml_node option \<times> 's" where
  "New_DeviceIdPacketNodeList U s = (case CreateXmlTree U DEVICE_ID_XML_TEMPLATE s of (Status, Root, s1) \<Rightarrow>
     if EFI_ERROR Status then (None, s1)
     else case AddNode U Root [] DEVICE_ID_LIST_ELEMENT_NAME None s1 of (Status, Root, _, s2) \<Rightarrow>
       if EFI_ERROR Status then (None, s2) else (Some Root, s2))"

definition AddDfciVersionNode :: "'s platform \<Rightarrow> xml_node \<Rightarrow> string option \<Rightarrow> 's \<Rightarrow> EFI_STATUS \<times> xml_node \<times> 's" where
  "AddDfciVersionNode U t DfciVersion s = (case DfciVersion of None \<Rightarrow> (EFI_INVALID_PARAMETER, t, s) | Some v \<Rightarrow>
     if \<not> is_element DEVICE_ID_PACKET_ELEMENT_NAME t then (EFI_INVALID_PARAMETER, t, s)
     else case AddNode U t [] ''DfciVersion'' (Some v) s of (Status, t', _, s') \<Rightarrow> (Status, t', s'))"

text \<open>\<open>p\<close> is the path of the parent; unlike the id, the value may be NULL.\<close>

definition SetDeviceIdIdentifier :: "'s platform \<Rightarrow> xml_node \<Rightarrow> nat list \<Rightarrow> string option \<Rightarrow> string option \<Rightarrow> 's
    \<Rightarrow> (EFI_STATUS \<times> xml_node \<times> 's) option" where
  "SetDeviceIdIdentifier U t p IdPtr Value s = (case IdPtr of None \<Rightarrow> Some (EFI_INVALID_PARAMETER, t, s) | Some i \<Rightarrow> do {
     par \<leftarrow> node_at t p;
     if \<not> is_element DEVICE_ID_LIST_ELEMENT_NAME par then Some (EFI_INVALID_PARAMETER, t, s)
     else case AddNode U t p ''Identifier'' None s of (Status, t1, q, s1) \<Rightarrow>
       if EFI_ERROR Status then Some (EFI_DEVICE_ERROR, t1, s1)
       else case AddNode U t1 q ''Id'' (Some i) s1 of (Status, t2, _, s2) \<Rightarrow>
         if EFI_ERROR Status then Some (EFI_DEVICE_ERROR, t2, s2)
         else case AddNode U t2 q ''Value'' Value s2 of (Status, t3, _, s3) \<Rightarrow>
           Some (if EFI_ERROR Status then EFI_DEVICE_ERROR else EFI_SUCCESS, t3, s3) })"

section \<open>Publishing the identifiers\<close>

definition DFCI_DEVICE_ID_VAR_NAME :: string where "DFCI_DEVICE_ID_VAR_NAME = ''DfciDeviceIdentifier''"
definition gDfciDeviceIdVarNamespace :: string where "gDfciDeviceIdVarNamespace = ''gDfciDeviceIdVarNamespace''"
abbreviation (input) DFCI_DEVICE_ID_VAR_ATTRIBUTES :: u32 where "DFCI_DEVICE_ID_VAR_ATTRIBUTES \<equiv> 7"
abbreviation (input) DFCI_FEATURE_VERSION :: string where "DFCI_FEATURE_VERSION \<equiv> ''2''"

text \<open>The three identifiers in the order of the table; the first that cannot be read ends the operation.\<close>

definition mInitTable :: "'s device_id \<Rightarrow> (string \<times> ('s \<Rightarrow> EFI_STATUS \<times> bytes)) list" where
  "mInitTable I = [(''Manufacturer'', DfciIdSupportGetManufacturer I), (''Product Name'', DfciIdSupportGetProductName I),
     (''Serial Number'', DfciIdSupportGetSerialNumber I)]"

fun device_ids :: "(string \<times> ('s \<Rightarrow> EFI_STATUS \<times> bytes)) list \<Rightarrow> 's \<Rightarrow> (string \<times> bytes) list option" where
  "device_ids [] s = Some []"
| "device_ids ((i, f) # t) s = (case f s of (Status, v) \<Rightarrow> if EFI_ERROR Status then None else map_option ((#) (i, v)) (device_ids t s))"

text \<open>The loop over the table; an identifier without a NUL is read past its end.\<close>

fun id_loop :: "'s platform \<Rightarrow> nat list \<Rightarrow> (string \<times> bytes) list \<Rightarrow> xml_node \<Rightarrow> 's \<Rightarrow> (EFI_STATUS \<times> xml_node \<times> 's) option" where
  "id_loop U p [] t s = Some (EFI_SUCCESS, t, s)"
| "id_loop U p ((i, b) # vs) t s = do {
     v \<leftarrow> buf_string b;
     (Status, t, s) \<leftarrow> SetDeviceIdIdentifier U t p (Some i) (Some v) s;
     if EFI_ERROR Status then Some (Status, t, s) else id_loop U p vs t s }"

definition PublishDeviceIdentifier :: "'s platform \<Rightarrow> 's device_id \<Rightarrow> 's \<Rightarrow> 's option" where
  "PublishDeviceIdentifier U I s = (case device_ids (mInitTable I) s of None \<Rightarrow> Some s | Some vs \<Rightarrow>
     (case New_DeviceIdPacketNodeList U s of (List, s1) \<Rightarrow> (case List of None \<Rightarrow> Some s1 | Some t \<Rightarrow>
      if GetDeviceIdPacketNode (Some t) = None then Some s1
      else case AddDfciVersionNode U t (Some DFCI_FEATURE_VERSION) s1 of (Status, t, s2) \<Rightarrow>
        if EFI_ERROR Status then Some s2
        else case GetDeviceIdListNodeFromPacketNode U t of None \<Rightarrow> Some s2 | Some k \<Rightarrow> do {
          (Status, t, s3) \<leftarrow> id_loop U [k] vs t s2;
          if EFI_ERROR Status then Some s3
          else case XmlTreeToString U t s3 of (Status, XmlString, StringSize, s4) \<Rightarrow>
            if EFI_ERROR Status then Some s4
            else Some (snd (SetVariable U DFCI_DEVICE_ID_VAR_NAME gDfciDeviceIdVarNamespace DFCI_DEVICE_ID_VAR_ATTRIBUTES
                   (take StringSize (to_bytes XmlString @ [0])) s4)) })))"

section \<open>The driver\<close>

datatype settings_protocol_id = gDfciSettingsProviderSupportProtocolGuid | gDfciSettingPermissionsProtocolGuid
  | gDfciApplySettingsProtocolGuid | gDfciSettingAccessProtocolGuid

datatype settings_event = gDfciStartOfBdsNotifyGuid | gEfiEventReadyToBootGuid

record 's boot_services =
  bs_Install :: "settings_protocol_id list \<Rightarrow> 's \<Rightarrow> EFI_STATUS \<times> 's"
  bs_CreateEventEx :: "settings_event \<Rightarrow> 's \<Rightarrow> EFI_STATUS \<times> 's"
  bs_CloseEvent :: "settings_event \<Rightarrow> 's \<Rightarrow> 's"

definition SettingManagerOnStartOfBds :: "'s boot_services \<Rightarrow> 's \<Rightarrow> 's" where
  "SettingManagerOnStartOfBds B s = snd (bs_Install B [gDfciSettingAccessProtocolGuid] (bs_CloseEvent B gDfciStartOfBdsNotifyGuid s))"

definition SettingsManagerOnReadyToBoot :: "'s boot_services \<Rightarrow> 's platform \<Rightarrow> bool \<Rightarrow> 's device_id \<Rightarrow> 's set_env \<Rightarrow> 's auth_protocol option
    \<Rightarrow> perm_store option \<Rightarrow> group list \<Rightarrow> 's provider list \<Rightarrow> 's \<Rightarrow> 's option" where
  "SettingsManagerOnReadyToBoot B U PcdDfciEnabled I X mAuth Store gs ps s = do {
     (_, s1) \<leftarrow> PopulateCurrentSettingsIfNeeded U X mAuth Store gs ps s;
     s2 \<leftarrow> (if PcdDfciEnabled then PublishDeviceIdentifier U I s1
           else Some (snd (SetVariable U DFCI_DEVICE_ID_VAR_NAME gDfciDeviceIdVarNamespace DFCI_DEVICE_ID_VAR_ATTRIBUTES [] s1)));
     Some (bs_CloseEvent B gEfiEventReadyToBootGuid s2) }"

text \<open>The status of the first event is overwritten by that of the second.\<close>

definition Settings_Init :: "'s boot_services \<Rightarrow> 's \<Rightarrow> EFI_STATUS \<times> 's" where
  "Settings_Init B s = (case bs_Install B [gDfciSettingsProviderSupportProtocolGuid, gDfciSettingPermissionsProtocolGuid, gDfciApplySettingsProtocolGuid] s
     of (Status, s1) \<Rightarrow>
       if EFI_ERROR Status then (Status, s1)
       else bs_CreateEventEx B gEfiEventReadyToBootGuid (snd (bs_CreateEventEx B gDfciStartOfBdsNotifyGuid s1)))"

section \<open>The published document\<close>

text \<open>
  What the documentation of the tree library promises: the template is parsed into an empty packet,
  a node is added behind the children of its parent, and a search finds the first child with a name.
\<close>

definition builds_trees :: "'s platform \<Rightarrow> bool" where
  "builds_trees U \<longleftrightarrow> (\<forall>t p nm v s. \<exists>s'. AddNode U t p nm v s = (EFI_SUCCESS, add_child t p (XmlNode nm v [] False []),
       p @ [case node_at t p of None \<Rightarrow> 0 | Some n \<Rightarrow> length (xn_Children n)], s'))
   \<and> (\<forall>n nm. FindFirstChildNodeByName U n nm = first_index (\<lambda>c. xn_Name c = nm) (xn_Children n))"

definition parses_template :: "'s platform \<Rightarrow> 's \<Rightarrow> bool" where
  "parses_template U s \<longleftrightarrow> (\<exists>s'. CreateXmlTree U DEVICE_ID_XML_TEMPLATE s = (EFI_SUCCESS, XmlNode DEVICE_ID_PACKET_ELEMENT_NAME None [] True [], s'))"

definition text_element :: "string \<Rightarrow> string \<Rightarrow> xml_node" where
  "text_element nm v = XmlNode nm (Some v) [] False []"

definition identifier_element :: "string \<times> string \<Rightarrow> xml_node" where
  "identifier_element x = XmlNode ''Identifier'' None [] False [text_element ''Id'' (fst x), text_element ''Value'' (snd x)]"

definition device_document :: "(string \<times> string) list \<Rightarrow> xml_node" where
  "device_document vs = XmlNode DEVICE_ID_PACKET_ELEMENT_NAME None [] True
     [XmlNode DEVICE_ID_LIST_ELEMENT_NAME None [] False (map identifier_element vs), text_element ''DfciVersion'' DFCI_FEATURE_VERSION]"

lemma AddNode_builds:
  assumes "builds_trees U" "\<And>s'. AddNode U t p nm v s = (EFI_SUCCESS, t', q, s') \<Longrightarrow> thesis"
    "node_at t p \<noteq> None" "t' = add_child t p (XmlNode nm v [] False [])" "q = p @ [length (xn_Children (the (node_at t p)))]"
  shows thesis
proof -
  obtain n where n: "node_at t p = Some n" using assms(3) by blast
  obtain s' where "AddNode U t p nm v s = (EFI_SUCCESS, add_child t p (XmlNode nm v [] False []),
       p @ [case node_at t p of None \<Rightarrow> 0 | Some n \<Rightarrow> length (xn_Children n)], s')"
    using assms(1) unfolding builds_trees_def by blast
  then show thesis using assms(4,5) n by (intro assms(2) [of s']) simp
qed

text \<open>The tree while the identifiers are added: the list is the first child of the packet.\<close>

definition partial_document :: "xml_node list \<Rightarrow> xml_node list \<Rightarrow> xml_node" where
  "partial_document ids rest = XmlNode DEVICE_ID_PACKET_ELEMENT_NAME None [] True (XmlNode DEVICE_ID_LIST_ELEMENT_NAME None [] False ids # rest)"

lemma partial_document_tree:
  "node_at (partial_document ids rest) [0] = Some (XmlNode DEVICE_ID_LIST_ELEMENT_NAME None [] False ids)"
  "add_child (partial_document ids rest) [0] c = partial_document (ids @ [c]) rest"
  "add_child (partial_document ids rest) [] c = partial_document ids (rest @ [c])"
  "node_at (partial_document (ids @ [c]) rest) [0, length ids] = Some c"
  "add_child (partial_document (ids @ [c]) rest) [0, length ids] x = partial_document (ids @ [add_child c [] x]) rest"
  by (simp_all add: partial_document_def)

lemmas tree_simps = partial_document_tree text_element_def identifier_element_def

lemma SetDeviceIdIdentifier_adds:
  assumes "builds_trees U"
  shows "\<exists>s'. SetDeviceIdIdentifier U (partial_document ids rest) [0] (Some i) (Some v) s
    = Some (EFI_SUCCESS, partial_document (ids @ [identifier_element (i, v)]) rest, s')"
proof -
  obtain s1 where 1: "AddNode U (partial_document ids rest) [0] ''Identifier'' None s
      = (EFI_SUCCESS, partial_document (ids @ [XmlNode ''Identifier'' None [] False []]) rest, [0, length ids], s1)"
    by (rule AddNode_builds [OF assms], erule that) (simp_all add: tree_simps del: node_at.simps add_child.simps)
  obtain s2 where 2: "AddNode U (partial_document (ids @ [XmlNode ''Identifier'' None [] False []]) rest) [0, length ids] ''Id'' (Some i) s1
      = (EFI_SUCCESS, partial_document (ids @ [XmlNode ''Identifier'' None [] False [text_element ''Id'' i]]) rest, [0, length ids, 0], s2)"
    by (rule AddNode_builds [OF assms], erule that) (simp_all add: tree_simps del: node_at.simps add_child.simps, simp_all)
  obtain s3 where 3: "AddNode U (partial_document (ids @ [XmlNode ''Identifier'' None [] False [text_element ''Id'' i]]) rest) [0, length ids] ''Value'' (Some v) s2
      = (EFI_SUCCESS, partial_document (ids @ [identifier_element (i, v)]) rest, [0, length ids, 1], s3)"
    by (rule AddNode_builds [OF assms], erule that) (simp_all add: tree_simps del: node_at.simps add_child.simps, simp_all)
  show ?thesis
    by (simp add: SetDeviceIdIdentifier_def partial_document_tree is_element_def AsciiStrnCmp_eq_def 1 2 3 del: node_at.simps)
qed

lemma id_loop_adds:
  assumes "builds_trees U" "list_all2 (\<lambda>(i, b) (j, v). i = j \<and> buf_string b = Some v) bs vs"
  shows "\<exists>s'. id_loop U [0] bs (partial_document ids rest) s = Some (EFI_SUCCESS, partial_document (ids @ map identifier_element vs) rest, s')"
  using assms(2)
proof (induction bs vs arbitrary: ids s rule: list_all2_induct)
  case (Cons x bs y vs)
  obtain s1 where "SetDeviceIdIdentifier U (partial_document ids rest) [0] (Some (fst y)) (Some (snd y)) s
      = Some (EFI_SUCCESS, partial_document (ids @ [identifier_element y]) rest, s1)"
    using SetDeviceIdIdentifier_adds [OF assms(1), of ids rest "fst y" "snd y"] by fastforce
  then show ?case using Cons.IH [of "ids @ [identifier_element y]" s1] Cons.hyps(1) by (auto split: prod.splits)
qed simp

text \<open>The identifiers of the device as strings.\<close>

definition identified :: "'s device_id \<Rightarrow> 's \<Rightarrow> string \<Rightarrow> string \<Rightarrow> string \<Rightarrow> bool" where
  "identified I s m p n \<longleftrightarrow> (\<exists>st1 b1 st2 b2 st3 b3. DfciIdSupportGetManufacturer I s = (st1, b1) \<and> \<not> EFI_ERROR st1 \<and> buf_string b1 = Some m
     \<and> DfciIdSupportGetProductName I s = (st2, b2) \<and> \<not> EFI_ERROR st2 \<and> buf_string b2 = Some p
     \<and> DfciIdSupportGetSerialNumber I s = (st3, b3) \<and> \<not> EFI_ERROR st3 \<and> buf_string b3 = Some n)"

lemma identified_ids:
  assumes "identified I s m p n"
  obtains bs where "device_ids (mInitTable I) s = Some bs"
    "list_all2 (\<lambda>(i, b) (j, v). i = j \<and> buf_string b = Some v) bs [(''Manufacturer'', m), (''Product Name'', p), (''Serial Number'', n)]"
  using assms unfolding identified_def mInitTable_def by (auto simp: list_all2_Cons2)

lemma SetDeviceIdIdentifier_vars:
  assumes "xml_keeps_vars U" "SetDeviceIdIdentifier U t p i v s = Some (st, t', s')"
  shows "same_vars U s s'"
  using assms(2) xml_vars(2) [OF assms(1)]
  by (auto simp: SetDeviceIdIdentifier_def split: option.splits Option.bind_splits if_splits prod.splits) (meson same_vars_trans)+

lemma id_loop_vars:
  assumes x: "xml_keeps_vars U"
  shows "id_loop U p vs t s = Some (st, t', s') \<Longrightarrow> same_vars U s s'"
proof (induction vs arbitrary: t s)
  case (Cons v vs)
  obtain w st1 t1 s1 where 1: "SetDeviceIdIdentifier U t p (Some (fst v)) (Some w) s = Some (st1, t1, s1)"
    and r: "(if EFI_ERROR st1 then Some (st1, t1, s1) else id_loop U p vs t1 s1) = Some (st, t', s')"
    using Cons.prems by (cases v) (simp split: Option.bind_splits, auto)
  show ?case
  proof (cases "EFI_ERROR st1")
    case True
    then show ?thesis using r SetDeviceIdIdentifier_vars [OF x 1] by simp
  next
    case False
    then show ?thesis using r same_vars_trans [OF SetDeviceIdIdentifier_vars [OF x 1] Cons.IH] by simp
  qed
qed simp

lemma PublishDeviceIdentifier_writes:
  assumes x: "xml_keeps_vars U" and b: "builds_trees U" and t: "parses_template U s" and i: "identified I s m p n"
  obtains s1 st str k s2 where "XmlTreeToString U (device_document [(''Manufacturer'', m), (''Product Name'', p), (''Serial Number'', n)]) s1 = (st, str, k, s2)"
    "PublishDeviceIdentifier U I s = Some (if EFI_ERROR st then s2
      else snd (SetVariable U DFCI_DEVICE_ID_VAR_NAME gDfciDeviceIdVarNamespace DFCI_DEVICE_ID_VAR_ATTRIBUTES (take k (to_bytes str @ [0])) s2))"
    "same_vars U s s2"
proof -
  let ?vs = "[(''Manufacturer'', m), (''Product Name'', p), (''Serial Number'', n)]"
  obtain bs where ids: "device_ids (mInitTable I) s = Some bs" "list_all2 (\<lambda>(i, b) (j, v). i = j \<and> buf_string b = Some v) bs ?vs"
    by (rule identified_ids [OF i])
  obtain s1 where 1: "CreateXmlTree U DEVICE_ID_XML_TEMPLATE s = (EFI_SUCCESS, XmlNode DEVICE_ID_PACKET_ELEMENT_NAME None [] True [], s1)"
    using t by (auto simp: parses_template_def)
  obtain s2 where 2: "AddNode U (XmlNode DEVICE_ID_PACKET_ELEMENT_NAME None [] True []) [] DEVICE_ID_LIST_ELEMENT_NAME None s1
      = (EFI_SUCCESS, partial_document [] [], [0], s2)"
    by (rule AddNode_builds [OF b], erule that) (simp_all add: partial_document_def)
  obtain s3 where 3: "AddNode U (partial_document [] []) [] ''DfciVersion'' (Some DFCI_FEATURE_VERSION) s2
      = (EFI_SUCCESS, partial_document [] [text_element ''DfciVersion'' DFCI_FEATURE_VERSION], [1], s3)"
    by (rule AddNode_builds [OF b], erule that) (simp_all add: partial_document_def text_element_def)
  obtain s4 where 4: "id_loop U [0] bs (partial_document [] [text_element ''DfciVersion'' DFCI_FEATURE_VERSION]) s3
      = Some (EFI_SUCCESS, device_document ?vs, s4)"
    using id_loop_adds [OF b ids(2), of "[]" "[text_element ''DfciVersion'' DFCI_FEATURE_VERSION]" s3]
    by (auto simp: partial_document_def device_document_def)
  have f: "FindFirstChildNodeByName U (partial_document [] [text_element ''DfciVersion'' DFCI_FEATURE_VERSION]) DEVICE_ID_LIST_ELEMENT_NAME = Some 0"
    using b by (simp add: builds_trees_def partial_document_def)
  have r: "is_element DEVICE_ID_PACKET_ELEMENT_NAME (partial_document [] [])" "GetDeviceIdPacketNode (Some (partial_document [] [])) \<noteq> None"
    by (simp_all add: GetDeviceIdPacketNode_def root_element_def is_element_def AsciiStrnCmp_eq_def partial_document_def)
  obtain st str k s5 where 5: "XmlTreeToString U (device_document ?vs) s4 = (st, str, k, s5)" by (metis surj_pair)
  have v: "same_vars U s s5"
    using xml_vars(1) [OF x 1] xml_vars(2) [OF x 2] xml_vars(2) [OF x 3] id_loop_vars [OF x 4] xml_vars(4) [OF x 5] by (meson same_vars_trans)
  show thesis
    by (rule that [OF 5 _ v]) (simp add: PublishDeviceIdentifier_def ids(1) New_DeviceIdPacketNodeList_def AddDfciVersionNode_def
        GetDeviceIdListNodeFromPacketNode_def 1 2 3 4 5 f r)
qed

section \<open>What the event writes\<close>

definition outside :: "'s platform \<Rightarrow> (string \<times> string) set \<Rightarrow> 's \<Rightarrow> 's \<Rightarrow> bool" where
  "outside U X s s' \<longleftrightarrow> (\<forall>n g. (n, g) \<notin> X \<longrightarrow> GetVariable U n g s' = GetVariable U n g s)"

lemma outside_trans: "outside U X a b \<Longrightarrow> outside U X b c \<Longrightarrow> outside U X a c"
  by (simp add: outside_def)

lemma outside_same: "same_vars U s s' \<Longrightarrow> outside U X s s'"
  by (simp add: outside_def same_vars_def)

lemma outside_set: "variable_laws U \<Longrightarrow> SetVariable U n g a d s = (st, s') \<Longrightarrow> (n, g) \<in> X \<Longrightarrow> outside U X s s'"
  unfolding outside_def by (metis variable_lawsD(2))

text \<open>The two documents of the current settings, and what the event publishes as a whole.\<close>

definition current_documents :: "(string \<times> string) set" where
  "current_documents = {(DFCI_SETTINGS_CURRENT_OUTPUT_VAR_NAME, gDfciSettingsManagerVarNamespace), (V1_SETTINGS_CURRENT_VAR_NAME, gDfciSettingsManagerVarNamespace)}"

definition published :: "(string \<times> string) set" where
  "published = insert (DFCI_DEVICE_ID_VAR_NAME, gDfciDeviceIdVarNamespace) current_documents"

lemma device_id_is_no_current_document: "(DFCI_DEVICE_ID_VAR_NAME, gDfciDeviceIdVarNamespace) \<notin> current_documents"
  by (simp add: current_documents_def DFCI_DEVICE_ID_VAR_NAME_def DFCI_SETTINGS_CURRENT_OUTPUT_VAR_NAME_def V1_SETTINGS_CURRENT_VAR_NAME_def)

lemma outside_mono: "outside U X s s' \<Longrightarrow> X \<subseteq> Y \<Longrightarrow> outside U Y s s'"
  unfolding outside_def by blast

lemma write_both_outside:
  assumes l: "alloc_keeps_vars U" "variable_laws U" and x: "xml_keeps_vars U" and r: "write_both U X A S gs ps v s = Some (st, s')"
  shows "outside U current_documents s s'"
proof -
  obtain st1 s1 where 1: "write_current U DFCI_SETTINGS_CURRENT_OUTPUT_VAR_NAME v s = (st1, s1)" by (metis surj_pair)
  have o1: "outside U current_documents s s1"
    by (rule outside_set [OF l(2) 1 [unfolded write_current_def]]) (simp add: current_documents_def)
  show ?thesis
  proof (cases "EFI_ERROR st1")
    case True
    then show ?thesis using r 1 o1 by (simp add: write_both_def)
  next
    case False
    obtain st2 w s2 where 2: "CreateXmlStringFromCurrentSettings U X A S gs ps True s1 = Some (st2, w, s2)"
      using r 1 False by (auto simp: write_both_def split: Option.bind_splits)
    have o2: "outside U current_documents s s2"
      by (rule outside_trans [OF o1 outside_same [OF CreateXmlStringFromCurrentSettings_vars [OF l(1) x 2]]])
    show ?thesis
    proof (cases "EFI_ERROR st2")
      case True
      then show ?thesis using r 1 2 False o2 by (simp add: write_both_def)
    next
      case ok: False
      obtain y where "write_current U V1_SETTINGS_CURRENT_VAR_NAME y s2 = (st, s')"
        using r 1 2 False ok by (auto simp: write_both_def split: Option.bind_splits)
      then have "outside U current_documents s2 s'"
        by (intro outside_set [OF l(2)]) (auto simp: write_current_def current_documents_def)
      then show ?thesis by (rule outside_trans [OF o2])
    qed
  qed
qed

lemma PopulateCurrentSettings_outside:
  assumes l: "alloc_keeps_vars U" "variable_laws U" and x: "xml_keeps_vars U" and r: "PopulateCurrentSettingsIfNeeded U X A S gs ps s = Some (st, s')"
  shows "outside U current_documents s s'"
proof -
  have "(st, s') = (EFI_INVALID_PARAMETER, s) \<or> (\<exists>st1 v s1. CreateXmlStringFromCurrentSettings U X A S gs ps False s = Some (st1, v, s1)
      \<and> (s' = s1 \<or> (\<exists>w. write_both U X A S gs ps w s1 = Some (st, s'))))"
    using r by (auto simp: PopulateCurrentSettingsIfNeeded_def split: Option.bind_splits if_splits prod.splits option.splits)
  then show ?thesis
    using write_both_outside [OF l x] outside_same [OF CreateXmlStringFromCurrentSettings_vars [OF l(1) x]]
      outside_same [OF same_vars_refl] outside_trans by (metis prod.inject)
qed

lemma New_DeviceIdPacketNodeList_vars:
  assumes x: "xml_keeps_vars U" and r: "New_DeviceIdPacketNodeList U s = (t, s')"
  shows "same_vars U s s'"
  using r xml_vars(1,2) [OF x] by (auto simp: New_DeviceIdPacketNodeList_def split: if_splits prod.splits) (meson same_vars_trans)+

lemma AddDfciVersionNode_vars:
  assumes x: "xml_keeps_vars U" and r: "AddDfciVersionNode U t v s = (st, t', s')"
  shows "same_vars U s s'"
  using r xml_vars(2) [OF x] by (auto simp: AddDfciVersionNode_def split: if_splits prod.splits option.splits)

lemma outside_set_snd: "variable_laws U \<Longrightarrow> (n, g) \<in> X \<Longrightarrow> same_vars U r s \<Longrightarrow> outside U X r (snd (SetVariable U n g a d s))"
  by (rule outside_trans [OF outside_same outside_set]) (assumption, assumption, rule surjective_pairing)

lemma PublishDeviceIdentifier_outside:
  assumes l: "variable_laws U" and x: "xml_keeps_vars U" and r: "PublishDeviceIdentifier U I s = Some s'"
  shows "outside U published s s'"
proof -
  have m: "(DFCI_DEVICE_ID_VAR_NAME, gDfciDeviceIdVarNamespace) \<in> published" by (simp add: published_def)
  note vars = New_DeviceIdPacketNodeList_vars [OF x] AddDfciVersionNode_vars [OF x] id_loop_vars [OF x] xml_vars(4) [OF x]
  show ?thesis
    using r by (auto simp: PublishDeviceIdentifier_def split: option.splits prod.splits if_splits Option.bind_splits
        intro!: outside_set_snd [OF l m] dest!: vars intro: outside_same same_vars_trans)
qed

lemma SettingsManagerOnReadyToBoot_outside:
  assumes l: "alloc_keeps_vars U" "variable_laws U" and x: "xml_keeps_vars U" and c: "\<And>e y. same_vars U y (bs_CloseEvent B e y)"
    and r: "SettingsManagerOnReadyToBoot B U en I X A S gs ps s = Some s'"
  shows "outside U published s s'"
proof -
  obtain st s1 s2 where 1: "PopulateCurrentSettingsIfNeeded U X A S gs ps s = Some (st, s1)"
    and 2: "(if en then PublishDeviceIdentifier U I s1
        else Some (snd (SetVariable U DFCI_DEVICE_ID_VAR_NAME gDfciDeviceIdVarNamespace DFCI_DEVICE_ID_VAR_ATTRIBUTES [] s1))) = Some s2"
    and 3: "s' = bs_CloseEvent B gEfiEventReadyToBootGuid s2"
    using r by (auto simp: SettingsManagerOnReadyToBoot_def split: Option.bind_splits)
  have "outside U published s1 s2"
  proof (cases en)
    case True
    then show ?thesis using 2 PublishDeviceIdentifier_outside [OF l(2) x] by simp
  next
    case False
    then show ?thesis using 2 outside_set_snd [OF l(2) _ same_vars_refl] by (auto simp: published_def)
  qed
  moreover have "outside U published s s1"
    by (rule outside_mono [OF PopulateCurrentSettings_outside [OF l x 1]]) (auto simp: published_def)
  ultimately show ?thesis using outside_trans outside_same [OF c] 3 by metis
qed

text \<open>
  What the event needs to describe the device: the three identifiers can be read as strings, the tree
  library builds the document and prints it as \<open>text\<close>.
\<close>

definition describes_device :: "'s platform \<Rightarrow> 's device_id \<Rightarrow> string \<Rightarrow> string \<Rightarrow> string \<Rightarrow> string \<Rightarrow> bool" where
  "describes_device U I m p sn text \<longleftrightarrow> builds_trees U \<and> (\<forall>y. parses_template U y) \<and> (\<forall>y. identified I y m p sn)
     \<and> (\<forall>y. \<exists>y'. XmlTreeToString U (device_document [(''Manufacturer'', m), (''Product Name'', p), (''Serial Number'', sn)]) y
          = (EFI_SUCCESS, text, length text + 1, y'))"

text \<open>Writing no data deletes the variable, unless the service refuses or there was none.\<close>

definition empty_write_deletes :: "'s platform \<Rightarrow> bool" where
  "empty_write_deletes U \<longleftrightarrow> (\<forall>n g a y st y'. SetVariable U n g a [] y = (st, y') \<longrightarrow> \<not> EFI_ERROR st \<longrightarrow> fst (GetVariable U n g y') = EFI_NOT_FOUND)"

abbreviation set_device_id :: "'s platform \<Rightarrow> bytes \<Rightarrow> 's \<Rightarrow> EFI_STATUS \<times> 's" where
  "set_device_id U \<equiv> SetVariable U DFCI_DEVICE_ID_VAR_NAME gDfciDeviceIdVarNamespace DFCI_DEVICE_ID_VAR_ATTRIBUTES"

abbreviation get_device_id :: "'s platform \<Rightarrow> 's \<Rightarrow> EFI_STATUS \<times> bytes \<times> u32" where
  "get_device_id U \<equiv> GetVariable U DFCI_DEVICE_ID_VAR_NAME gDfciDeviceIdVarNamespace"

text \<open>
  Property C34: what the event at which the system is ready to boot leaves in the device identifier
  variable, whatever became of the current settings.  With DFCI in the build, and when the identifiers
  can be read and the document can be built and printed, it is the document that names exactly the
  manufacturer, the product and the serial number of this device and the version of DFCI; without DFCI
  in the build the variable is gone.  Only when the variable service refuses this very document, or the
  deletion, is the variable as it was before the event.  No variable besides this one and the two
  documents of the current settings is written.
\<close>

theorem ready_to_boot_publishes:
  assumes l: "alloc_keeps_vars U" "variable_laws U" "empty_write_deletes U" and x: "xml_keeps_vars U" and c: "\<And>e y. same_vars U y (bs_CloseEvent B e y)"
    and d: "en \<Longrightarrow> describes_device U I m p sn text"
    and r: "SettingsManagerOnReadyToBoot B U en I X A S gs ps s = Some s'"
  shows "(if en then get_device_id U s' = (EFI_SUCCESS, to_bytes text @ [0], DFCI_DEVICE_ID_VAR_ATTRIBUTES)
        \<or> (\<exists>y. EFI_ERROR (fst (set_device_id U (to_bytes text @ [0]) y))) \<and> get_device_id U s' = get_device_id U s
      else fst (get_device_id U s') = EFI_NOT_FOUND
        \<or> (\<exists>y. EFI_ERROR (fst (set_device_id U [] y))) \<and> get_device_id U s' = get_device_id U s)
    \<and> ((name, g) \<notin> published \<longrightarrow> GetVariable U name g s' = GetVariable U name g s)"
proof -
  obtain st s1 s2 where 1: "PopulateCurrentSettingsIfNeeded U X A S gs ps s = Some (st, s1)"
    and 2: "(if en then PublishDeviceIdentifier U I s1 else Some (snd (set_device_id U [] s1))) = Some s2"
    and 3: "s' = bs_CloseEvent B gEfiEventReadyToBootGuid s2"
    using r by (auto simp: SettingsManagerOnReadyToBoot_def split: Option.bind_splits)
  have s1: "get_device_id U s1 = get_device_id U s"
    using PopulateCurrentSettings_outside [OF l(1,2) x 1] device_id_is_no_current_document unfolding outside_def by blast
  have s2: "get_device_id U s' = get_device_id U s2" using c 3 by (simp add: same_vars_def)
  obtain b s4 where v: "same_vars U s1 s4" and w: "s2 = snd (set_device_id U b s4)" and b: "b = (if en then to_bytes text @ [0] else [])"
  proof (cases en)
    case True
    obtain s3 e str k s4 where p: "XmlTreeToString U (device_document [(''Manufacturer'', m), (''Product Name'', p), (''Serial Number'', sn)]) s3 = (e, str, k, s4)"
      "PublishDeviceIdentifier U I s1 = Some (if EFI_ERROR e then s4 else snd (set_device_id U (take k (to_bytes str @ [0])) s4))" "same_vars U s1 s4"
      using d [OF True] PublishDeviceIdentifier_writes [OF x, of s1 I m p sn] unfolding describes_device_def by metis
    have "e = EFI_SUCCESS" "str = text" "k = length text + 1" using d [OF True] p(1) unfolding describes_device_def by (metis prod.inject)+
    then show ?thesis using that [of s4] 2 p True by simp
  next
    case False
    then show ?thesis using that [of s1] 2 by (simp add: same_vars_def)
  qed
  obtain e where e: "set_device_id U b s4 = (e, s2)" using w by (metis prod.collapse)
  have "EFI_ERROR e \<Longrightarrow> get_device_id U s2 = get_device_id U s" using variable_lawsD(3) [OF l(2) e] v s1 by (simp add: same_vars_def)
  moreover have "get_device_id U s2 = (EFI_SUCCESS, b, DFCI_DEVICE_ID_VAR_ATTRIBUTES)" if "\<not> EFI_ERROR e" "b \<noteq> []"
    by (rule variable_lawsD(1) [OF l(2) e that])
  moreover have "fst (get_device_id U s2) = EFI_NOT_FOUND" if "\<not> EFI_ERROR e" "b = []"
    using l(3) e that unfolding empty_write_deletes_def by blast
  moreover have "EFI_ERROR e \<Longrightarrow> \<exists>y. EFI_ERROR (fst (set_device_id U b y))" using e by (metis fst_conv)
  ultimately show ?thesis
    unfolding s2 using b SettingsManagerOnReadyToBoot_outside [OF l(1,2) x c r] by (cases "EFI_ERROR e"; auto simp: outside_def)
qed

text \<open>A platform that parses every template into an empty document.\<close>

definition boot_platform :: "demo_state platform" where
  "boot_platform = demo_platform\<lparr>CreateXmlTree := (\<lambda>t s. (EFI_SUCCESS,
     XmlNode (if t = DEVICE_ID_XML_TEMPLATE then DEVICE_ID_PACKET_ELEMENT_NAME else CURRENT_PACKET_ELEMENT_NAME) None [] True [], s))\<rparr>"

definition boot_ids :: "demo_state device_id" where
  "boot_ids = \<lparr>DfciIdSupportGetManufacturer = (\<lambda>s. (EFI_SUCCESS, [0x4D, 0])), DfciIdSupportGetProductName = (\<lambda>s. (EFI_SUCCESS, [0x50, 0])),
     DfciIdSupportGetSerialNumber = (\<lambda>s. (EFI_SUCCESS, [0x53, 0]))\<rparr>"

definition boot_demo :: "demo_state boot_services" where
  "boot_demo = \<lparr>bs_Install = (\<lambda>p s. (EFI_SUCCESS, s)), bs_CreateEventEx = (\<lambda>e s. (EFI_SUCCESS, s)), bs_CloseEvent = (\<lambda>e s. s)\<rparr>"

lemma boot_services_eq: "GetVariable boot_platform = GetVariable demo_platform" "SetVariable boot_platform = SetVariable demo_platform"
  "AllocatePool boot_platform = AllocatePool demo_platform" "GetTime boot_platform = GetTime demo_platform"
  "AddNode boot_platform = AddNode demo_platform" "AddAttributeToNode boot_platform = AddAttributeToNode demo_platform"
  "XmlTreeToString boot_platform = XmlTreeToString demo_platform" "FindFirstChildNodeByName boot_platform = FindFirstChildNodeByName demo_platform"
  "CreateXmlTree boot_platform t s = (EFI_SUCCESS,
     XmlNode (if t = DEVICE_ID_XML_TEMPLATE then DEVICE_ID_PACKET_ELEMENT_NAME else CURRENT_PACKET_ELEMENT_NAME) None [] True [], s)"
  by (simp_all add: boot_platform_def)

lemma boot_laws: "nv_laws boot_platform" "xml_keeps_vars boot_platform" "builds_trees boot_platform" "parses_template boot_platform y"
  "same_vars boot_platform y (bs_CloseEvent boot_demo e y)"
  using demo_laws
  by (simp_all add: nv_laws_def xml_keeps_vars_def alloc_succeeds_def alloc_keeps_vars_def variable_laws_def same_vars_def
      boot_services_eq builds_trees_def demo_simps parses_template_def boot_demo_def)

lemma boot_identified: "identified boot_ids y ''M'' ''P'' ''S''"
proof -
  have "buf_string [0x4D, 0] = Some ''M''" "buf_string [0x50, 0] = Some ''P''" "buf_string [0x53, 0] = Some ''S''" by code_simp+
  then show ?thesis by (simp add: identified_def boot_ids_def EFI_ERROR_def)
qed

lemma boot_describes: "describes_device boot_platform boot_ids ''M'' ''P'' ''S'' ''<xml/>''"
  unfolding describes_device_def by (intro conjI allI boot_laws boot_identified) (simp add: boot_services_eq demo_simps)

text \<open>With DFCI in the build the document is published; without it, an old document is deleted.\<close>

theorem ready_to_boot_publishes_witness:
  "(\<exists>s'. SettingsManagerOnReadyToBoot boot_demo boot_platform True boot_ids demo_set_env None None [] [] \<lparr>dm_vars = [], dm_docs = []\<rparr> = Some s'
     \<and> get_device_id boot_platform s' = (EFI_SUCCESS, to_bytes ''<xml/>'' @ [0], 7))
   \<and> (\<exists>s'. SettingsManagerOnReadyToBoot boot_demo boot_platform False boot_ids demo_set_env None None [] []
        \<lparr>dm_vars = [((DFCI_DEVICE_ID_VAR_NAME, gDfciDeviceIdVarNamespace), ([1], 7))], dm_docs = []\<rparr> = Some s'
     \<and> fst (get_device_id boot_platform s') = EFI_NOT_FOUND)"
proof -
  let ?run = "\<lambda>en s. SettingsManagerOnReadyToBoot boot_demo boot_platform en boot_ids demo_set_env None None [] [] s"
  let ?old = "\<lparr>dm_vars = [((DFCI_DEVICE_ID_VAR_NAME, gDfciDeviceIdVarNamespace), ([1], 7))], dm_docs = []\<rparr>"
  have "?run True \<lparr>dm_vars = [], dm_docs = []\<rparr> \<noteq> None" "?run False ?old \<noteq> None" by code_simp+
  then obtain s' t' where r: "?run True \<lparr>dm_vars = [], dm_docs = []\<rparr> = Some s'" "?run False ?old = Some t'" by blast
  have ok: "\<not> EFI_ERROR (fst (SetVariable boot_platform n g a d y))" for n g a d y by (simp add: boot_services_eq demo_simps)
  have n: "alloc_keeps_vars boot_platform" "variable_laws boot_platform" using boot_laws(1) by (simp_all add: nv_laws_def)
  have "map_of (filter (\<lambda>p. fst p \<noteq> k) xs) k = None" for k :: "string \<times> string" and xs :: "((string \<times> string) \<times> bytes \<times> u32) list"
    by (induction xs) auto
  then have e: "empty_write_deletes boot_platform" by (simp add: empty_write_deletes_def boot_services_eq demo_simps)
  show ?thesis
    using ready_to_boot_publishes [OF n e boot_laws(2,5) boot_describes r(1)] ready_to_boot_publishes [OF n e boot_laws(2,5) boot_describes r(2)] r ok
    by (simp only: if_True if_False) simp
qed

end
