(* ===== verification/Setup_Tools.thy ===== *)
theory Setup_Tools
  imports Setting_Libraries Dfci_Update
begin

text \<open>
  Tools for the shell that prepare a device: \<open>EnrollInDfci.c\<close> stores the URL and the certificate of
  the recovery service, \<open>DfciApply.c\<close> puts packets from files into the mailboxes.  The command line,
  files and the compressor are parameters; output on the console has no effect.

  The theory compares the in-place filter of \<open>ReadUrlFileIntoMemory\<close> with a reading of the file from
  left to right, and relates what the tools write to what the settings library and the manager read.
\<close>

section \<open>The shell\<close>

text \<open>
  A file is named by its name; \<open>sh_Read\<close> returns the bytes that were read.  \<open>sh_CompressSize\<close> is the
  call of \<open>Compress\<close> without a buffer.
\<close>

record 's shell_env =
  sh_U :: "'s platform"
  sh_Parse :: EFI_STATUS
  sh_Flag :: "string \<Rightarrow> bool"
  sh_Value :: "string \<Rightarrow> string option"
  sh_Open :: "string \<Rightarrow> 's \<Rightarrow> EFI_STATUS \<times> 's"
  sh_FileSize :: "string \<Rightarrow> 's \<Rightarrow> EFI_STATUS \<times> nat"
  sh_Read :: "string \<Rightarrow> nat \<Rightarrow> 's \<Rightarrow> EFI_STATUS \<times> bytes"
  sh_Close :: "string \<Rightarrow> 's \<Rightarrow> 's"
  sh_CompressSize :: "bytes \<Rightarrow> EFI_STATUS \<times> nat"
  sh_Compress :: "bytes \<Rightarrow> nat \<Rightarrow> EFI_STATUS \<times> bytes"
  sh_CertX509Guid :: bytes
  sh_SettingsGuid :: bytes

section \<open>Files of the enrolment tool\<close>

abbreviation (input) MAX_URL_FILE_SIZE :: nat where "MAX_URL_FILE_SIZE \<equiv> 512"
abbreviation (input) MAX_CERT_FILE_SIZE :: nat where "MAX_CERT_FILE_SIZE \<equiv> 8000"

definition AllowedChars :: bytes where
  "AllowedChars = to_bytes (''ABCDEFGHIJKLMNOPQRSTUVWXYZabcdefghijklmnopqrstuvwxyz0123456789_.~-%!*'' @ [CHR 0x27] @ ''();:@&=+$,/?#[]'')"

definition mValidCertSuffix :: "string list" where
  "mValidCertSuffix = [''.cer'', ''.der'', ''.crt'', ''.pem'']"

definition ValidateFileExtension :: "string \<Rightarrow> bool" where
  "ValidateFileExtension FileSuffix = list_ex (\<lambda>x. FileSuffix = x) mValidCertSuffix"

definition EnrollGetFileSize :: "'s shell_env \<Rightarrow> string \<Rightarrow> 's \<Rightarrow> nat \<times> 's" where
  "EnrollGetFileSize E FileName s = (case sh_Open E FileName s of (Status, s1) \<Rightarrow>
     if EFI_ERROR Status then (0, s1)
     else case sh_FileSize E FileName s1 of (Status, FileSize) \<Rightarrow>
       (if EFI_ERROR Status then 0 else FileSize, sh_Close E FileName s1))"

text \<open>The errors before the read leave the file open.\<close>

definition Enroll_ReadFileIntoMemory :: "'s shell_env \<Rightarrow> string \<Rightarrow> nat \<Rightarrow> 's \<Rightarrow> EFI_STATUS \<times> bytes \<times> 's" where
  "Enroll_ReadFileIntoMemory E FileName BufferSize s = (case sh_Open E FileName s of (Status, s1) \<Rightarrow>
     if EFI_ERROR Status then (Status, [], s1)
     else case sh_FileSize E FileName s1 of (Status, FileSize) \<Rightarrow>
       if EFI_ERROR Status then (Status, [], s1)
       else if BufferSize \<noteq> FileSize then (EFI_INVALID_PARAMETER, [], s1)
       else case sh_Read E FileName FileSize s1 of (Status, Buffer) \<Rightarrow>
         let s2 = sh_Close E FileName s1 in
         if EFI_ERROR Status then (Status, [], s2)
         else if length Buffer \<noteq> FileSize then (EFI_BUFFER_TOO_SMALL, [], s2)
         else (EFI_SUCCESS, Buffer, s2))"

section \<open>The URL filter\<close>

text \<open>
  \<open>i\<close> is an integer: after the decrement at 0 it stands for the address before the buffer, where
  reading is undefined; the increment of the outer loop brings it back to 0.  \<open>CopyMem\<close> moves the rest
  of the string with its NUL.
\<close>

definition url_at :: "bytes \<Rightarrow> int \<Rightarrow> byte option" where
  "url_at Url i = (if i < 0 then None else rd8 Url (nat i))"

definition url_remove :: "bytes \<Rightarrow> int \<Rightarrow> nat \<Rightarrow> bytes" where
  "url_remove Url i FileSize = take (nat i) Url @ take (FileSize - nat i) (drop (nat i + 1) Url) @ drop FileSize Url"

definition is_newline :: "byte \<Rightarrow> bool" where
  "is_newline c \<longleftrightarrow> c = 0x0D \<or> c = 0x0A"

text \<open>The inner loop over the characters that are left of \<open>AllowedChars\<close>; its first result is \<open>UrlValid\<close>.\<close>

fun allowed_loop :: "bytes \<Rightarrow> bytes \<Rightarrow> int \<Rightarrow> nat \<Rightarrow> nat \<Rightarrow> (bool \<times> bytes \<times> int \<times> nat \<times> nat) option" where
  "allowed_loop [] Url i FileSize AllocateSize = Some (False, Url, i, FileSize, AllocateSize)"
| "allowed_loop (a # allowed) Url i FileSize AllocateSize = do {
     c \<leftarrow> url_at Url i;
     if c = a then Some (True, Url, i, FileSize, AllocateSize)
     else if is_newline c then allowed_loop allowed (url_remove Url i FileSize) (i - 1) (FileSize - 1) (AllocateSize - 1)
     else allowed_loop allowed Url i FileSize AllocateSize }"

lemma allowed_loop_rest:
  "allowed_loop al Url i F A = Some (v, Url', i', F', A') \<Longrightarrow> i < int F \<Longrightarrow> int F' - i' = int F - i"
proof (induction al Url i F A rule: allowed_loop.induct)
  case (2 a al Url i F A)
  then show ?case by (auto simp: url_at_def split: if_splits Option.bind_splits)
qed simp

function url_loop :: "bytes \<Rightarrow> int \<Rightarrow> nat \<Rightarrow> nat \<Rightarrow> (bool \<times> bytes \<times> nat) option" where
  "url_loop Url i FileSize AllocateSize =
     (if i < int FileSize then do {
        (UrlValid, Url, i, FileSize, AllocateSize) \<leftarrow> allowed_loop AllowedChars Url i FileSize AllocateSize;
        if UrlValid then url_loop Url (i + 1) FileSize AllocateSize else Some (False, Url, AllocateSize) }
      else Some (True, Url, AllocateSize))"
  by pat_completeness auto
termination
  by (relation "measure (\<lambda>(Url, i, F, A). nat (int F - i))") (auto dest: allowed_loop_rest)

declare url_loop.simps [simp del]

text \<open>The URL in its buffer with the size that is to be stored, or NULL.\<close>

definition ReadUrlFileIntoMemory :: "'s shell_env \<Rightarrow> string \<Rightarrow> 's \<Rightarrow> ((bytes \<times> nat) option \<times> 's) option" where
  "ReadUrlFileIntoMemory E FileName s = (case EnrollGetFileSize E FileName s of (FileSize, s1) \<Rightarrow>
     if FileSize = 0 \<or> FileSize > MAX_URL_FILE_SIZE then Some (None, s1)
     else case AllocatePool (sh_U E) (FileSize + 1) s1 of (ok, s2) \<Rightarrow>
       if \<not> ok then Some (None, s2)
       else case Enroll_ReadFileIntoMemory E FileName FileSize s2 of (Status, Buffer, s3) \<Rightarrow>
         if EFI_ERROR Status then Some (None, s3)
         else do {
           (UrlValid, Url, AllocateSize) \<leftarrow> url_loop (Buffer @ [0]) 0 FileSize (FileSize + 1);
           Some (if UrlValid then Some (Url, AllocateSize) else None, s3) })"

text \<open>The certificate file as the only entry of a signature list.\<close>

definition ReadCertFileIntoMemory :: "'s shell_env \<Rightarrow> string \<Rightarrow> 's \<Rightarrow> bytes option \<times> 's" where
  "ReadCertFileIntoMemory E FileName s = (case EnrollGetFileSize E FileName s of (FileSize, s1) \<Rightarrow>
     if FileSize = 0 \<or> FileSize > MAX_CERT_FILE_SIZE then (None, s1)
     else case AllocatePool (sh_U E) (FileSize + 44) s1 of (ok, s2) \<Rightarrow>
       if \<not> ok then (None, s2)
       else case Enroll_ReadFileIntoMemory E FileName FileSize s2 of (Status, Buffer, s3) \<Rightarrow>
         (if EFI_ERROR Status then None
          else Some (sh_CertX509Guid E @ le32 (word_of_nat (FileSize + 44)) @ le32 0 @ le32 (word_of_nat (16 + FileSize)) @ sh_SettingsGuid E @ Buffer), s3))"

section \<open>The enrolment tool\<close>

abbreviation (input) SHELL_INVALID_PARAMETER :: EFI_STATUS where "SHELL_INVALID_PARAMETER \<equiv> 2"

text \<open>The certificate to store: as it is, or compressed in two calls; \<open>None\<close> ends the tool.\<close>

definition stored_cert :: "'s shell_env \<Rightarrow> bytes \<Rightarrow> 's \<Rightarrow> bytes option \<times> 's" where
  "stored_cert E CertBuffer s = (if \<not> sh_Flag E ''-z'' then (Some CertBuffer, s)
     else case sh_CompressSize E CertBuffer of (Status, CompressedSize) \<Rightarrow>
       if Status \<noteq> EFI_BUFFER_TOO_SMALL then (None, s)
       else case AllocatePool (sh_U E) CompressedSize s of (ok, s1) \<Rightarrow>
         if \<not> ok then (None, s1)
         else case sh_Compress E CertBuffer CompressedSize of (Status, Compressed) \<Rightarrow>
           (if EFI_ERROR Status then None else Some Compressed, s1))"

text \<open>The suffix of a name with less than four characters starts before the name.\<close>

definition EnrollInDfciEntry :: "'s shell_env \<Rightarrow> 's \<Rightarrow> (EFI_STATUS \<times> 's) option" where
  "EnrollInDfciEntry E s =
     (if EFI_ERROR (sh_Parse E) then Some (SHELL_INVALID_PARAMETER, s)
      else if sh_Flag E ''-h'' \<or> sh_Flag E ''-?'' then Some (0, s)
      else case (sh_Value E ''-c'', sh_Value E ''-u'') of
        (Some CertFileName, Some UrlFileName) \<Rightarrow>
          if length CertFileName < 4 then None
          else if \<not> ValidateFileExtension (drop (length CertFileName - 4) CertFileName) then Some (8, s)
          else (case ReadCertFileIntoMemory E CertFileName s of (CertBuffer, s1) \<Rightarrow> (case CertBuffer of None \<Rightarrow> Some (8, s1) | Some cert \<Rightarrow> do {
            (UrlBuffer, s2) \<leftarrow> ReadUrlFileIntoMemory E UrlFileName s1;
            (case UrlBuffer of None \<Rightarrow> Some (8, s2) | Some (Url, UrlFileSize) \<Rightarrow>
             case SetVariable (sh_U E) ''DfciUrl'' gDfciSettingsGuid 3 (take UrlFileSize Url) s2 of (Status, s3) \<Rightarrow>
             if EFI_ERROR Status then Some (8, s3)
             else case stored_cert E cert s3 of (CertBuffer, s4) \<Rightarrow> (case CertBuffer of None \<Rightarrow> Some (8, s4) | Some c \<Rightarrow>
               (case SetVariable (sh_U E) ''DfciHttpsCert'' gDfciSettingsGuid 3 c s4 of (Status, s5) \<Rightarrow>
                Some (if EFI_ERROR Status then 8 else 0, s5)))) }))
      | _ \<Rightarrow> Some (8, s))"

section \<open>Packets from files\<close>

definition Apply_ReadFileIntoMemory :: "'s shell_env \<Rightarrow> string \<Rightarrow> 's \<Rightarrow> EFI_STATUS \<times> bytes \<times> 's" where
  "Apply_ReadFileIntoMemory E FileName s = (case sh_Open E FileName s of (Status, s1) \<Rightarrow>
     if EFI_ERROR Status then (Status, [], s1)
     else case sh_FileSize E FileName s1 of (Status, BufferSize) \<Rightarrow>
       if EFI_ERROR Status then (Status, [], s1)
       else case AllocatePool (sh_U E) BufferSize s1 of (ok, s2) \<Rightarrow>
         if \<not> ok then (EFI_OUT_OF_RESOURCES, [], s2)
         else case sh_Read E FileName BufferSize s2 of (Status, Buffer) \<Rightarrow>
           let s3 = sh_Close E FileName s2 in
           if EFI_ERROR Status then (Status, [], s3)
           else if length Buffer \<noteq> BufferSize then (EFI_BUFFER_TOO_SMALL, [], s3)
           else (Status, Buffer, s3))"

definition SetDfciVariable :: "'s shell_env \<Rightarrow> string option \<Rightarrow> string \<Rightarrow> string \<Rightarrow> u32 \<Rightarrow> 's \<Rightarrow> EFI_STATUS \<times> 's" where
  "SetDfciVariable E FileName VariableName VariableGuid Attributes s = (case FileName of
     None \<Rightarrow> (EFI_INVALID_PARAMETER, s)
   | Some f \<Rightarrow> (case Apply_ReadFileIntoMemory E f s of (Status, Buffer, s1) \<Rightarrow>
       if EFI_ERROR Status then (Status, s1)
       else if Buffer = [] then (EFI_UNSUPPORTED, s1)
       else SetVariable (sh_U E) VariableName VariableGuid Attributes Buffer s1))"

text \<open>The option for a mailbox, when it is given; the options for results and current values only print.\<close>

definition apply_option :: "'s shell_env \<Rightarrow> string \<Rightarrow> json_mailbox \<Rightarrow> 's \<Rightarrow> 's" where
  "apply_option E opt m s = (case sh_Value E opt of None \<Rightarrow> s
     | Some f \<Rightarrow> snd (SetDfciVariable E (Some f) (jm_MailboxName m) (jm_MailboxNamespace m) (jm_MailboxAttributes m) s))"

definition DfciApplyEntry :: "'s shell_env \<Rightarrow> 's \<Rightarrow> EFI_STATUS \<times> 's" where
  "DfciApplyEntry E s =
     (if EFI_ERROR (sh_Parse E) then (SHELL_INVALID_PARAMETER, s)
      else if sh_Flag E ''-h'' \<or> sh_Flag E ''-?'' then (0, s)
      else (0, apply_option E ''-s'' (mJsonSetVariableEntryMailbox ! JSON_SET_SETTINGS)
               (apply_option E ''-p'' (mJsonSetVariableEntryMailbox ! JSON_SET_PERMISSIONS)
                 (apply_option E ''-i'' (mJsonSetVariableEntryMailbox ! JSON_SET_IDENTITY) s))))"

section \<open>The filter reads from left to right\<close>

datatype url_outcome = Undefined | Rejected | Accepted bytes

text \<open>
  What the filter does with a file: characters outside the table reject it, a newline is skipped
  unless it follows an upper-case A, the first character of the table, or nothing.
\<close>

fun url_scan :: "bytes \<Rightarrow> bytes \<Rightarrow> url_outcome" where
  "url_scan url [] = Accepted url"
| "url_scan url (c # cs) =
     (if is_newline c then (if url = [] then Undefined else if last url = 0x41 then Rejected else url_scan url cs)
      else if c \<in> set AllowedChars then url_scan (url @ [c]) cs else Rejected)"

definition AllowedRest :: bytes where
  "AllowedRest = tl AllowedChars"

lemma AllowedChars_Cons: "AllowedChars = 0x41 # AllowedRest" "0x41 \<notin> set AllowedRest" "AllowedRest \<noteq> []"
  "list_all (\<lambda>c. \<not> is_newline c) AllowedChars"
  by code_simp+

lemma allowed_loop_member:
  "url_at Url i = Some c \<Longrightarrow> \<not> is_newline c \<Longrightarrow> allowed_loop al Url i F A = Some (c \<in> set al, Url, i, F, A)"
  by (induction al) auto

lemma url_at_middle: "url_at (acc @ c # r) (int (length acc)) = Some c"
  by (simp add: url_at_def rd8_def)

lemma url_remove_middle:
  "url_remove (acc @ c # cs @ 0 # junk) (int (length acc)) (Suc (length acc + length cs)) = acc @ cs @ 0 # 0 # junk"
  by (simp add: url_remove_def)

lemma allowed_loop_newline:
  assumes "is_newline c" "acc \<noteq> [] \<Longrightarrow> \<not> is_newline (last acc)"
  shows "allowed_loop AllowedChars (acc @ c # cs @ 0 # junk) (int (length acc)) (Suc (length acc + length cs)) A =
    (if acc = [] then None else Some (last acc \<in> set AllowedRest, acc @ cs @ 0 # 0 # junk, int (length acc) - 1, length acc + length cs, A - 1))"
proof -
  have c: "c \<noteq> 0x41" using assms(1) by (auto simp: is_newline_def)
  have 1: "allowed_loop AllowedChars (acc @ c # cs @ 0 # junk) (int (length acc)) (Suc (length acc + length cs)) A
      = allowed_loop AllowedRest (acc @ cs @ 0 # 0 # junk) (int (length acc) - 1) (length acc + length cs) (A - 1)"
    using assms(1) c by (simp add: AllowedChars_Cons(1) url_at_middle url_remove_middle)
  show ?thesis
  proof (cases acc rule: rev_cases)
    case Nil
    have "al \<noteq> [] \<Longrightarrow> allowed_loop al U (- 1) F B = None" for al U F B by (cases al) (simp_all add: url_at_def)
    then show ?thesis unfolding 1 using Nil AllowedChars_Cons(3) by simp
  next
    case (snoc xs x)
    have "url_at (acc @ cs @ 0 # 0 # junk) (int (length acc) - 1) = Some x" using snoc url_at_middle [of xs x] by simp
    then show ?thesis unfolding 1 using allowed_loop_member assms(2) snoc by simp
  qed
qed

lemma url_loop_scan:
  assumes "set acc \<subseteq> set AllowedChars"
  shows "case url_scan acc cs of
      Undefined \<Rightarrow> url_loop (acc @ cs @ 0 # junk) (int (length acc)) (length acc + length cs) (Suc (length acc + length cs)) = None
    | Rejected \<Rightarrow> \<exists>u n. url_loop (acc @ cs @ 0 # junk) (int (length acc)) (length acc + length cs) (Suc (length acc + length cs)) = Some (False, u, n)
    | Accepted url \<Rightarrow> \<exists>junk'. url_loop (acc @ cs @ 0 # junk) (int (length acc)) (length acc + length cs) (Suc (length acc + length cs))
        = Some (True, url @ 0 # junk', Suc (length url))"
  using assms
proof (induction cs arbitrary: acc junk)
  case Nil
  then show ?case by (simp add: url_loop.simps)
next
  case (Cons c cs)
  have last: "\<not> is_newline (last acc)" if "acc \<noteq> []"
    using Cons.prems AllowedChars_Cons(4) last_in_set [OF that] unfolding list_all_iff by blast
  show ?case
  proof (cases "is_newline c")
    case True
    note l = allowed_loop_newline [OF True last, of cs junk "Suc (Suc (length acc + length cs))"]
    show ?thesis
    proof (cases "acc = []")
      case Nil: True
      then show ?thesis using True l by (simp add: url_loop.simps)
    next
      case False
      have v: "last acc \<in> set AllowedRest \<longleftrightarrow> last acc \<noteq> 0x41"
      proof -
        have "last acc \<in> set (0x41 # AllowedRest)"
          using Cons.prems last_in_set [OF False] unfolding AllowedChars_Cons(1) [symmetric] by blast
        then show ?thesis using AllowedChars_Cons(2) by auto
      qed
      have e: "url_loop (acc @ (c # cs) @ 0 # junk) (int (length acc)) (length acc + length (c # cs)) (Suc (length acc + length (c # cs)))
          = (if last acc = 0x41 then Some (False, acc @ cs @ 0 # 0 # junk, Suc (length acc + length cs))
             else url_loop (acc @ cs @ 0 # 0 # junk) (int (length acc)) (length acc + length cs) (Suc (length acc + length cs)))"
        by (subst url_loop.simps) (use False l v in simp)
      show ?thesis unfolding e using True False Cons.IH [OF Cons.prems, of "0 # junk"] by simp
    qed
  next
    case False
    have m: "allowed_loop AllowedChars (acc @ c # cs @ 0 # junk) (int (length acc)) F A = Some (c \<in> set AllowedChars, acc @ c # cs @ 0 # junk, int (length acc), F, A)" for F A
      by (rule allowed_loop_member [OF url_at_middle False])
    have e: "url_loop (acc @ (c # cs) @ 0 # junk) (int (length acc)) (length acc + length (c # cs)) (Suc (length acc + length (c # cs)))
        = (if c \<in> set AllowedChars then url_loop ((acc @ [c]) @ cs @ 0 # junk) (int (length (acc @ [c]))) (length (acc @ [c]) + length cs) (Suc (length (acc @ [c]) + length cs))
           else Some (False, acc @ c # cs @ 0 # junk, Suc (length acc + length (c # cs))))"
      by (subst url_loop.simps) (simp add: m add.commute)
    show ?thesis
    proof (cases "c \<in> set AllowedChars")
      case True
      then show ?thesis unfolding e using False Cons.IH [of "acc @ [c]" junk] Cons.prems by simp
    next
      case out: False
      then show ?thesis unfolding e using False by simp
    qed
  qed
qed


section \<open>What the tools write\<close>

text \<open>A file with the contents \<open>cs\<close>; the shell touches no variable.\<close>

definition has_file :: "'s shell_env \<Rightarrow> string \<Rightarrow> bytes \<Rightarrow> bool" where
  "has_file E f cs \<longleftrightarrow> (\<forall>s. fst (sh_Open E f s) = EFI_SUCCESS \<and> sh_FileSize E f s = (EFI_SUCCESS, length cs) \<and> sh_Read E f (length cs) s = (EFI_SUCCESS, cs))"

definition shell_keeps_vars :: "'s shell_env \<Rightarrow> bool" where
  "shell_keeps_vars E \<longleftrightarrow> (\<forall>f s. same_vars (sh_U E) s (snd (sh_Open E f s))) \<and> (\<forall>f s. same_vars (sh_U E) s (sh_Close E f s))"

lemma has_file_reads:
  assumes "has_file E f cs"
  shows "\<exists>s'. EnrollGetFileSize E f s = (length cs, s')" "\<exists>s'. Enroll_ReadFileIntoMemory E f (length cs) s = (EFI_SUCCESS, cs, s')"
  using assms unfolding has_file_def EnrollGetFileSize_def Enroll_ReadFileIntoMemory_def
  by (auto simp: Let_def split: prod.splits dest: spec [of _ s])

text \<open>
  Property C33: the filter of the URL file, which deletes newlines in place while it searches each
  character in the table, computes the same as reading the file once from left to right, on every
  file of an admissible size: the URL without its newlines and with the size that counts its NUL, NULL
  for a character outside the table and for a newline behind an upper-case A, and a read before the
  buffer for a file that starts with a newline.
\<close>

theorem url_filter_is_a_scan:
  assumes a: "alloc_succeeds (sh_U E)" and f: "has_file E name cs" and l: "cs \<noteq> []" "length cs \<le> 512"
  shows "case url_scan [] cs of
      Undefined \<Rightarrow> ReadUrlFileIntoMemory E name s = None
    | Rejected \<Rightarrow> \<exists>s'. ReadUrlFileIntoMemory E name s = Some (None, s')
    | Accepted url \<Rightarrow> \<exists>junk s'. ReadUrlFileIntoMemory E name s = Some (Some (url @ 0 # junk, length url + 1), s')"
proof -
  obtain s1 where 1: "EnrollGetFileSize E name s = (length cs, s1)" using has_file_reads(1) [OF f] by blast
  obtain s2 where 2: "AllocatePool (sh_U E) (length cs + 1) s1 = (True, s2)" using alloc_succeedsD [OF a] by (metis surj_pair)
  obtain s3 where 3: "Enroll_ReadFileIntoMemory E name (length cs) s2 = (EFI_SUCCESS, cs, s3)" using has_file_reads(2) [OF f] by blast
  have r: "ReadUrlFileIntoMemory E name s = do {
      (UrlValid, Url, AllocateSize) \<leftarrow> url_loop (cs @ [0]) 0 (length cs) (length cs + 1);
      Some (if UrlValid then Some (Url, AllocateSize) else None, s3) }"
    using l by (simp add: ReadUrlFileIntoMemory_def 1 2 [simplified] 3)
  show ?thesis unfolding r using url_loop_scan [of "[]" cs "[]"] by (cases "url_scan [] cs") (auto; force)+
qed


text \<open>A URL that ends its line in the usual way, and one that ends in an upper-case A.\<close>

definition demo_shell :: "bytes \<Rightarrow> demo_state shell_env" where
  "demo_shell cs = \<lparr>sh_U = demo_platform, sh_Parse = EFI_SUCCESS, sh_Flag = (\<lambda>x. False),
     sh_Value = (\<lambda>x. if x = ''-c'' then Some ''a.cer'' else if x = ''-u'' then Some ''url'' else if x = ''-p'' then Some ''perm'' else None),
     sh_Open = (\<lambda>f s. (EFI_SUCCESS, s)), sh_FileSize = (\<lambda>f s. (EFI_SUCCESS, length cs)), sh_Read = (\<lambda>f n s. (EFI_SUCCESS, cs)), sh_Close = (\<lambda>f s. s),
     sh_CompressSize = (\<lambda>b. (EFI_BUFFER_TOO_SMALL, length b)), sh_Compress = (\<lambda>b n. (EFI_SUCCESS, b)), sh_CertX509Guid = replicate 16 1, sh_SettingsGuid = replicate 16 2\<rparr>"

lemma demo_shell_laws: "sh_U (demo_shell cs) = demo_platform" "has_file (demo_shell cs) f cs" "shell_keeps_vars (demo_shell cs)"
  by (simp_all add: demo_shell_def has_file_def shell_keeps_vars_def)

theorem url_filter_is_a_scan_witness:
  "(\<exists>junk s'. ReadUrlFileIntoMemory (demo_shell (to_bytes ''http://x'' @ [0x0D, 0x0A])) ''url'' \<lparr>dm_vars = [], dm_docs = []\<rparr>
      = Some (Some (to_bytes ''http://x'' @ 0 # junk, 9), s'))
   \<and> (\<exists>s'. ReadUrlFileIntoMemory (demo_shell (to_bytes ''http://A'' @ [0x0A])) ''url'' \<lparr>dm_vars = [], dm_docs = []\<rparr> = Some (None, s'))"
proof -
  have 1: "url_scan [] (to_bytes ''http://x'' @ [0x0D, 0x0A]) = Accepted (to_bytes ''http://x'')" "url_scan [] (to_bytes ''http://A'' @ [0x0A]) = Rejected"
    by code_simp+
  show ?thesis
    using url_filter_is_a_scan [of "demo_shell (to_bytes ''http://x'' @ [0x0D, 0x0A])" "''url''" "to_bytes ''http://x'' @ [0x0D, 0x0A]" "\<lparr>dm_vars = [], dm_docs = []\<rparr>"]
      url_filter_is_a_scan [of "demo_shell (to_bytes ''http://A'' @ [0x0A])" "''url''" "to_bytes ''http://A'' @ [0x0A]" "\<lparr>dm_vars = [], dm_docs = []\<rparr>"]
    unfolding 1 by (simp add: demo_shell_laws demo_laws numeral_eq_Suc)
qed

text \<open>What a successful enrolment has stored.\<close>

lemma Enroll_files_vars:
  assumes "shell_keeps_vars E"
  shows "EnrollGetFileSize E f s = (n, s') \<Longrightarrow> same_vars (sh_U E) s s'"
    "Enroll_ReadFileIntoMemory E f n s = (st, b, s') \<Longrightarrow> same_vars (sh_U E) s s'"
proof -
  have o: "sh_Open E f s = (st, x) \<Longrightarrow> same_vars (sh_U E) s x" and c: "same_vars (sh_U E) s (sh_Close E f s)" for s st x
    using assms unfolding shell_keeps_vars_def by (metis snd_conv)+
  show "EnrollGetFileSize E f s = (n, s') \<Longrightarrow> same_vars (sh_U E) s s'"
    by (auto simp: EnrollGetFileSize_def split: prod.splits if_splits dest!: o intro: same_vars_trans [OF _ c])
  show "Enroll_ReadFileIntoMemory E f n s = (st, b, s') \<Longrightarrow> same_vars (sh_U E) s s'"
    by (auto simp: Enroll_ReadFileIntoMemory_def Let_def split: prod.splits if_splits dest!: o intro: same_vars_trans [OF _ c])
qed

lemma ReadUrl_success:
  assumes f: "has_file E name cs" and r: "ReadUrlFileIntoMemory E name s = Some (Some (Url, n), s')"
  obtains u junk where "url_scan [] cs = Accepted u" "Url = u @ 0 # junk" "n = length u + 1"
proof -
  obtain s1 where 1: "EnrollGetFileSize E name s = (length cs, s1)" using has_file_reads(1) [OF f] by blast
  obtain ok s2 where 2: "AllocatePool (sh_U E) (Suc (length cs)) s1 = (ok, s2)" by (metis surj_pair)
  obtain s3 where 3: "Enroll_ReadFileIntoMemory E name (length cs) s2 = (EFI_SUCCESS, cs, s3)" using has_file_reads(2) [OF f] by blast
  have "url_loop (cs @ [0]) 0 (length cs) (Suc (length cs)) = Some (True, Url, n)"
    using r by (auto simp: ReadUrlFileIntoMemory_def 1 2 3 split: if_splits Option.bind_splits)
  then show thesis using url_loop_scan [of "[]" cs "[]"] that by (cases "url_scan [] cs") auto
qed

lemma Read_files_vars:
  assumes k: "shell_keeps_vars E" and a: "alloc_keeps_vars (sh_U E)"
  shows "ReadUrlFileIntoMemory E f s = Some (b, s') \<Longrightarrow> same_vars (sh_U E) s s'"
    "ReadCertFileIntoMemory E f s = (c, s') \<Longrightarrow> same_vars (sh_U E) s s'"
    "stored_cert E d s = (c, s') \<Longrightarrow> same_vars (sh_U E) s s'"
  by (auto simp: ReadUrlFileIntoMemory_def ReadCertFileIntoMemory_def stored_cert_def split: prod.splits if_splits Option.bind_splits
      dest!: Enroll_files_vars [OF k] alloc_keeps_varsD(1) [OF a] intro: same_vars_trans)

text \<open>
  When the enrolment tool ends without an error, the recovery URL that the settings
  library reads is the URL of the file without its newlines, terminated, and no variable besides the
  URL and the certificate has changed.
\<close>

theorem enrolled_url_is_read:
  assumes v: "variable_laws (sh_U E)" and a: "alloc_keeps_vars (sh_U E)" and k: "shell_keeps_vars E"
    and p: "\<not> EFI_ERROR (sh_Parse E)" "\<not> sh_Flag E ''-h''" "\<not> sh_Flag E ''-?''" and u: "sh_Value E ''-u'' = Some f" "has_file E f cs"
    and r: "EnrollInDfciEntry E s = Some (0, s')"
  shows "\<exists>url. url_scan [] cs = Accepted url
    \<and> reads (mDfciSettingsProviderTemplate (sh_U E) (ID_DFCI_RECOVERY_URL, TYPE_STRING, fl)) s' (url @ [0])
    \<and> (\<forall>n g. (n, g) \<notin> {(''DfciUrl'', gDfciSettingsGuid), (''DfciHttpsCert'', gDfciSettingsGuid)} \<longrightarrow>
         GetVariable (sh_U E) n g s' = GetVariable (sh_U E) n g s)"
proof -
  obtain cf where c: "sh_Value E ''-c'' = Some cf" using r p by (cases "sh_Value E ''-c''") (simp_all add: EnrollInDfciEntry_def)
  obtain cb s1 where 1: "ReadCertFileIntoMemory E cf s = (cb, s1)" by (metis surj_pair)
  obtain cert where cb: "cb = Some cert" using r p u(1) c 1 by (cases cb) (simp_all add: EnrollInDfciEntry_def split: if_splits)
  obtain ub s2 where 2: "ReadUrlFileIntoMemory E f s1 = Some (ub, s2)"
    using r p u(1) c 1 cb by (cases "ReadUrlFileIntoMemory E f s1") (auto simp: EnrollInDfciEntry_def split: if_splits)
  obtain Url n where ub: "ub = Some (Url, n)" using r p u(1) c 1 cb 2 by (cases ub) (auto simp: EnrollInDfciEntry_def split: if_splits)
  obtain st3 s3 where 3: "SetVariable (sh_U E) ''DfciUrl'' gDfciSettingsGuid 3 (take n Url) s2 = (st3, s3)" by (metis surj_pair)
  have e3: "\<not> EFI_ERROR st3" using r p u(1) c 1 cb 2 ub 3 by (auto simp: EnrollInDfciEntry_def split: if_splits)
  obtain sc s4 where 4: "stored_cert E cert s3 = (sc, s4)" by (metis surj_pair)
  obtain d where sc: "sc = Some d" using r p u(1) c 1 cb 2 ub 3 e3 4 by (cases sc) (simp_all add: EnrollInDfciEntry_def split: if_splits)
  obtain st5 where 5: "SetVariable (sh_U E) ''DfciHttpsCert'' gDfciSettingsGuid 3 d s4 = (st5, s')"
    using r p u(1) c 1 cb 2 ub 3 e3 4 sc by (cases "SetVariable (sh_U E) ''DfciHttpsCert'' gDfciSettingsGuid 3 d s4") (simp add: EnrollInDfciEntry_def split: if_splits)
  obtain url junk where url: "url_scan [] cs = Accepted url" "Url = url @ 0 # junk" "n = length url + 1" by (rule ReadUrl_success [OF u(2) 2 [unfolded ub]])
  have w: "GetVariable (sh_U E) ''DfciUrl'' gDfciSettingsGuid s3 = (EFI_SUCCESS, url @ [0], 3)"
    using variable_lawsD(1) [OF v 3 e3] url by simp
  have s4: "same_vars (sh_U E) s3 s4" and s2: "same_vars (sh_U E) s s2"
    by (rule Read_files_vars(3) [OF k a 4], rule same_vars_trans [OF Read_files_vars(2) [OF k a 1] Read_files_vars(1) [OF k a 2]])
  have "GetVariable (sh_U E) ''DfciUrl'' gDfciSettingsGuid s' = (EFI_SUCCESS, url @ [0], 3)"
    using variable_lawsD(2) [OF v 5, of "''DfciUrl''"] s4 w by (simp add: same_vars_def)
  moreover have "setting_variable (IsIdSupported ID_DFCI_RECOVERY_URL) = Some ''DfciUrl''" by code_simp
  ultimately have "reads (mDfciSettingsProviderTemplate (sh_U E) (ID_DFCI_RECOVERY_URL, TYPE_STRING, fl)) s' (url @ [0])"
    by (intro settings.get_value) auto
  moreover have "GetVariable (sh_U E) x g s' = GetVariable (sh_U E) x g s"
    if "(x, g) \<notin> {(''DfciUrl'', gDfciSettingsGuid), (''DfciHttpsCert'', gDfciSettingsGuid)}" for x g
    using that variable_lawsD(2) [OF v 5, of x g] variable_lawsD(2) [OF v 3, of x g] s4 s2 by (simp add: same_vars_def)
  ultimately show ?thesis using url(1) by blast
qed

theorem enrolled_url_is_read_witness:
  "\<exists>s'. EnrollInDfciEntry (demo_shell (to_bytes ''http://x'' @ [0x0D, 0x0A])) \<lparr>dm_vars = [], dm_docs = []\<rparr> = Some (0, s')
     \<and> reads (mDfciSettingsProviderTemplate demo_platform (ID_DFCI_RECOVERY_URL, TYPE_STRING, 0)) s' (to_bytes ''http://x'' @ [0])"
proof -
  have "map_option fst (EnrollInDfciEntry (demo_shell (to_bytes ''http://x'' @ [0x0D, 0x0A])) \<lparr>dm_vars = [], dm_docs = []\<rparr>) = Some 0"
    by code_simp
  then obtain s' where r: "EnrollInDfciEntry (demo_shell (to_bytes ''http://x'' @ [0x0D, 0x0A])) \<lparr>dm_vars = [], dm_docs = []\<rparr> = Some (0, s')"
    by fastforce
  have p: "\<not> EFI_ERROR (sh_Parse (demo_shell cs))" "\<not> sh_Flag (demo_shell cs) ''-h''" "\<not> sh_Flag (demo_shell cs) ''-?''" "sh_Value (demo_shell cs) ''-u'' = Some ''url''" for cs
    by (simp_all add: demo_shell_def)
  have "url_scan [] (to_bytes ''http://x'' @ [0x0D, 0x0A]) = Accepted (to_bytes ''http://x'')" by code_simp
  then show ?thesis
    using enrolled_url_is_read [OF _ _ demo_shell_laws(3) p demo_shell_laws(2) r, of 0] demo_laws r by (simp add: demo_shell_laws)
qed


section \<open>Packets from files\<close>

definition apply_mailboxes :: "(string \<times> json_mailbox) list" where
  "apply_mailboxes = [(''-i'', mJsonSetVariableEntryMailbox ! JSON_SET_IDENTITY), (''-p'', mJsonSetVariableEntryMailbox ! JSON_SET_PERMISSIONS),
     (''-s'', mJsonSetVariableEntryMailbox ! JSON_SET_SETTINGS)]"

definition mailbox_key :: "json_mailbox \<Rightarrow> string \<times> string" where
  "mailbox_key m = (jm_MailboxName m, jm_MailboxNamespace m)"

lemma apply_mailboxes_distinct: "distinct (map (mailbox_key \<circ> snd) apply_mailboxes)"
  by code_simp

lemma Apply_ReadFile_vars:
  assumes k: "shell_keeps_vars E" and a: "alloc_keeps_vars (sh_U E)" and r: "Apply_ReadFileIntoMemory E f s = (st, b, s')"
  shows "same_vars (sh_U E) s s'"
proof -
  have o: "sh_Open E f s = (st, x) \<Longrightarrow> same_vars (sh_U E) s x" and c: "same_vars (sh_U E) s (sh_Close E f s)" for s st x
    using k unfolding shell_keeps_vars_def by (metis snd_conv)+
  show ?thesis
    using r by (auto simp: Apply_ReadFileIntoMemory_def Let_def split: prod.splits if_splits
        dest!: o alloc_keeps_varsD(1) [OF a] intro: same_vars_trans same_vars_trans [OF _ c])
qed

lemma apply_option_other:
  assumes k: "shell_keeps_vars E" and a: "alloc_keeps_vars (sh_U E)" and v: "variable_laws (sh_U E)" and n: "(n, g) \<noteq> mailbox_key m"
  shows "GetVariable (sh_U E) n g (apply_option E opt m s) = GetVariable (sh_U E) n g s"
proof (cases "sh_Value E opt")
  case (Some f)
  obtain st b s1 where 1: "Apply_ReadFileIntoMemory E f s = (st, b, s1)" by (metis prod_cases3)
  obtain st2 s2 where 2: "SetVariable (sh_U E) (jm_MailboxName m) (jm_MailboxNamespace m) (jm_MailboxAttributes m) b s1 = (st2, s2)" by (metis surj_pair)
  have "apply_option E opt m s = s1 \<or> apply_option E opt m s = s2"
    using Some 1 2 by (simp add: apply_option_def SetDfciVariable_def)
  then show ?thesis
    using Apply_ReadFile_vars [OF k a 1] variable_lawsD(2) [OF v 2, of n g] n by (auto simp: same_vars_def mailbox_key_def)
qed (simp add: apply_option_def)

lemma apply_option_sets:
  assumes v: "variable_laws (sh_U E)" and a: "alloc_succeeds (sh_U E)" and o: "sh_Value E opt = Some f" "has_file E f cs" "cs \<noteq> []"
    and w: "\<And>y. \<not> EFI_ERROR (fst (SetVariable (sh_U E) (jm_MailboxName m) (jm_MailboxNamespace m) (jm_MailboxAttributes m) cs y))"
  shows "GetVariable (sh_U E) (jm_MailboxName m) (jm_MailboxNamespace m) (apply_option E opt m s) = (EFI_SUCCESS, cs, jm_MailboxAttributes m)"
proof -
  obtain s1 where 1: "sh_Open E f s = (EFI_SUCCESS, s1)" using o(2) unfolding has_file_def by (metis prod.collapse)
  obtain s2 where 2: "AllocatePool (sh_U E) (length cs) s1 = (True, s2)" using alloc_succeedsD [OF a] by (metis surj_pair)
  have "apply_option E opt m s = snd (SetVariable (sh_U E) (jm_MailboxName m) (jm_MailboxNamespace m) (jm_MailboxAttributes m) cs (sh_Close E f s2))"
    using o by (simp add: apply_option_def SetDfciVariable_def Apply_ReadFileIntoMemory_def 1 2 has_file_def)
  then show ?thesis
    using variable_lawsD(1) [OF v prod.collapse [symmetric] w [of "sh_Close E f s2"] o(3)] by simp
qed

text \<open>
  Every packet file that is named on the command line of \<open>DfciApply\<close> ends in its own
  mailbox, unchanged and with the attributes the manager asks for, and the tool changes no variable
  besides the mailboxes.
\<close>

theorem apply_tool_fills_mailboxes:
  assumes k: "shell_keeps_vars E" and a: "alloc_keeps_vars (sh_U E)" "alloc_succeeds (sh_U E)" and v: "variable_laws (sh_U E)"
    and p: "\<not> EFI_ERROR (sh_Parse E)" "\<not> sh_Flag E ''-h''" "\<not> sh_Flag E ''-?''"
    and o: "(opt, m) \<in> set apply_mailboxes" "sh_Value E opt = Some f" "has_file E f cs" "cs \<noteq> []"
    and w: "\<And>y. \<not> EFI_ERROR (fst (SetVariable (sh_U E) (jm_MailboxName m) (jm_MailboxNamespace m) (jm_MailboxAttributes m) cs y))"
  shows "GetVariable (sh_U E) (jm_MailboxName m) (jm_MailboxNamespace m) (snd (DfciApplyEntry E s)) = (EFI_SUCCESS, cs, jm_MailboxAttributes m)
    \<and> ((n, g) \<notin> mailbox_key ` snd ` set apply_mailboxes \<longrightarrow> GetVariable (sh_U E) n g (snd (DfciApplyEntry E s)) = GetVariable (sh_U E) n g s)"
proof -
  let ?i = "mJsonSetVariableEntryMailbox ! JSON_SET_IDENTITY" and ?p = "mJsonSetVariableEntryMailbox ! JSON_SET_PERMISSIONS"
    and ?s = "mJsonSetVariableEntryMailbox ! JSON_SET_SETTINGS"
  have e: "snd (DfciApplyEntry E s) = apply_option E ''-s'' ?s (apply_option E ''-p'' ?p (apply_option E ''-i'' ?i s))"
    using p by (simp add: DfciApplyEntry_def)
  have d: "mailbox_key ?i \<noteq> mailbox_key ?p" "mailbox_key ?i \<noteq> mailbox_key ?s" "mailbox_key ?p \<noteq> mailbox_key ?s"
    using apply_mailboxes_distinct by (simp_all add: apply_mailboxes_def)
  note other = apply_option_other [OF k a(1) v] and set = apply_option_sets [OF v a(2) o(2-4) w]
  have m: "(opt, m) = (''-i'', ?i) \<or> (opt, m) = (''-p'', ?p) \<or> (opt, m) = (''-s'', ?s)" using o(1) by (simp add: apply_mailboxes_def)
  have "GetVariable (sh_U E) (jm_MailboxName m) (jm_MailboxNamespace m) (snd (DfciApplyEntry E s)) = (EFI_SUCCESS, cs, jm_MailboxAttributes m)"
    using m set d unfolding e by (elim disjE) (simp_all add: other mailbox_key_def)
  moreover have "GetVariable (sh_U E) n g (snd (DfciApplyEntry E s)) = GetVariable (sh_U E) n g s" if "(n, g) \<notin> mailbox_key ` snd ` set apply_mailboxes"
    using that unfolding e by (simp add: apply_mailboxes_def other)
  ultimately show ?thesis by blast
qed

theorem apply_tool_fills_mailboxes_witness:
  "GetVariable demo_platform ''DfciPermissionApply'' gDfciPermissionManagerVarNamespace
     (snd (DfciApplyEntry (demo_shell [1, 2, 3]) \<lparr>dm_vars = [], dm_docs = []\<rparr>)) = (EFI_SUCCESS, [1, 2, 3], 7)"
proof -
  let ?m = "mJsonSetVariableEntryMailbox ! JSON_SET_PERMISSIONS"
  have p: "\<not> EFI_ERROR (sh_Parse (demo_shell [1, 2, 3]))" "\<not> sh_Flag (demo_shell [1, 2, 3]) ''-h''" "\<not> sh_Flag (demo_shell [1, 2, 3]) ''-?''"
    "sh_Value (demo_shell [1, 2, 3]) ''-p'' = Some ''perm''" by (simp_all add: demo_shell_def)
  have m: "jm_MailboxName ?m = ''DfciPermissionApply''" "jm_MailboxNamespace ?m = gDfciPermissionManagerVarNamespace" "jm_MailboxAttributes ?m = 7"
    by code_simp+
  have "(''-p'', ?m) \<in> set apply_mailboxes" by (simp add: apply_mailboxes_def)
  from apply_tool_fills_mailboxes [OF demo_shell_laws(3) _ _ _ p(1-3) this p(4) demo_shell_laws(2)]
  show ?thesis by (simp add: demo_shell_laws demo_laws m demo_simps)
qed

end
