(* ===== verification/Spec2Isabelle.thy ===== *)
theory Spec2Isabelle
  imports Setting_Authority Manager_Runs Library_System Recovery Dfci_Menu Device_Id Setup_Tools
begin

text \<open>
  Verification of the Device Firmware Configuration Interface (DFCI) of \<^verbatim>\<open>microsoft/mu_feature_dfci\<close>,
  the C code under \<^verbatim>\<open>src/DfciPkg\<close> and \<^verbatim>\<open>src/ZeroTouchPkg\<close>.

  \<^bold>\<open>The program.\<close>  DFCI lets a management service configure the firmware of a device with signed packets.
  An operating system, the menu of the firmware or a USB drive leaves packets in mailbox variables; at the
  next boot the \<^emph>\<open>DFCI manager\<close> reads and decodes them and hands each to one of three drivers over the
  apply-packet protocol.  The \<^emph>\<open>identity manager\<close> keeps the certificates of the identities (zero touch,
  owner, users) and gives out tokens for signatures and passwords; the \<^emph>\<open>permission library\<close> keeps who may
  change which setting and who may delegate that; the \<^emph>\<open>settings manager\<close> calls the providers of settings.
  Identity and permission packets are committed or rolled back together after the batch, settings packets
  take effect at once.  Each driver publishes its current state as an XML document.  The \<^emph>\<open>menu\<close> fetches
  new packets over HTTPS or from USB, and a \<^emph>\<open>recovery\<close> session unenrols a device whose owner is lost.

  \<^bold>\<open>Conventions.\<close>  Every C function is one definition with its C name (a prefix where two files use the same
  name, for example \<open>Identity_Init\<close>, \<open>SA_GetDfciParameters\<close>, \<open>Settings_Init\<close>); a part of a long function or
  the body of a loop has a name of its own and is composed the way the C code composes it.  Structures are
  records, enumerations are datatypes, machine integers are words of their width, packed structures are byte
  lists that are read at offsets.  A result in \<open>option\<close> is \<open>None\<close> where the C code has undefined behaviour
  (a read outside a buffer, a NULL pointer, a second free) or, for the two loops that wait for the network,
  where it never ends; a theorem that an operation returns says that the result is \<open>Some\<close>.  Errors are the
  status codes of UEFI, an intermediate failure is \<open>Inl\<close> of a sum.  Global variables are arguments and results.
  What is not under \<^verbatim>\<open>src\<close> (UEFI services, XML tree, crypto, JSON, HTTP and base libraries, platform
  libraries) is a field of a record that is an argument of the operations: \<open>platform\<close>, \<open>auth_env\<close>, \<open>ui_lib\<close>,
  \<open>set_env\<close>, \<open>device_id\<close>, \<open>cert_lib\<close>, \<open>menu_env\<close>, \<open>update_env\<close>, \<open>http_env\<close>, \<open>net_env\<close>, \<open>ui_env\<close>,
  \<open>boot_services\<close>, \<open>shell_env\<close>.  What a theorem needs of it is a named predicate (\<open>variable_laws\<close>, \<open>alloc_keeps_vars\<close>,
  \<open>xml_keeps_vars\<close>, \<open>net_laws\<close> and others), which the witnesses discharge for a concrete platform.  Two of
  them have a parameter: \<open>net_laws K\<close> lets the network stack write the variables \<open>K\<close> of its own configuration, and
  \<open>returns_in E G W\<close> asks the apply protocols to return on a class \<open>G\<close> of packets in a class \<open>W\<close> of states that they
  keep, not on everything.  Debug messages, assertions and freed memory have no effect, with two exceptions: the
  message of \<open>CheckTarget\<close> reads the target of a packet up to its NUL (\<open>print_target\<close>), and in the menu application
  pointers can be freed.  \<open>UINTN\<close> is 64 bits wide; sums of sizes of a packet are natural numbers, since their
  summands are fields of at most 32 bits and do not wrap at that width.

  \<^bold>\<open>Foundations.\<close>
  \<^item> \<open>Dfci_Prelude\<close>, \<open>Field_Code\<close>: words, status codes, little-endian fields, C strings, list lemmas, and code
    equations that evaluate fields on words.
  \<^item> \<open>Platform\<close>: the services, their laws and the platform \<open>demo_platform\<close> of the witnesses.
  \<^item> \<open>Nv_Storage\<close>: the locale \<open>nv_component\<close>, state in memory with a copy in a variable; commit and restore are
    proved once and interpreted for permissions, certificates and settings versions.
  \<^item> \<open>Service_Frame\<close>, \<open>Stored_Frame\<close>: the locales \<open>memory_frame\<close> and \<open>service_frame\<close>, what operations leave
    alone because they only allocate, build documents and write their own variables.

  \<^bold>\<open>Permissions\<close> (\<^verbatim>\<open>Library/DfciSettingPermissionLib\<close>).
  \<^item> \<open>Permission_Store\<close>, \<open>Permission_Groups\<close>: the store and the groups; the locale \<open>permission_table\<close> and the
    refinement of the list to a map from settings to masks.
  \<^item> \<open>Permission_Xml_Schema\<close>, \<open>Permission_Default\<close>, \<open>Permission_Flash\<close>, \<open>Permission_Current\<close>: documents, initial
    permissions, the four versions of the variable with the round trip, the published document.
  \<^item> \<open>Permission_Access\<close>: who may write a setting, equal to an access rule on the map and the groups.
  \<^item> \<open>Permission_Apply\<close>: a permission packet from validation to commit; only delegated permissions change, the
    lowest supported version never decreases, a failed packet has no effect.

  \<^bold>\<open>Identities\<close> (\<^verbatim>\<open>IdentityAndAuthManager\<close>, \<^verbatim>\<open>ZeroTouchPkg\<close>).
  \<^item> \<open>Identity_Map\<close> (locale \<open>token_table\<close>), \<open>Cert_Store\<close>, \<open>Auth_Manager\<close>, \<open>Auth_Protocol\<close>: tokens, certificates in
    memory and in their variable, passwords and signatures, and the protocol the other drivers call.
  \<^item> \<open>Cert_Info\<close>, \<open>Identity_Current\<close>: names and thumbprints of certificates, the enrolment dialog, the document.
  \<^item> \<open>Ui_Support\<close>, \<open>Zero_Touch\<close>, \<open>Identity_Provision\<close>: the local user, the opt-in state, and identity packets with
    their authorisation, effect, invariant and commit.
  \<^item> \<open>Recovery\<close>: challenge, session and the limit on wrong answers.

  \<^bold>\<open>Settings\<close> (\<^verbatim>\<open>SettingsManager\<close> and the setting libraries).
  \<^item> \<open>Setting_Provider\<close>, \<open>Setting_Store\<close>, \<open>Setting_Xml_Schema\<close>, \<open>Setting_Current\<close>, \<open>Setting_Apply\<close>: providers and
    access, versions in flash, documents, and settings packets; the lowest supported version never decreases.
  \<^item> \<open>Setting_Authority\<close>: settings packets with the authentication manager as the protocol; only settings that
    the identity of the packet may write change.
  \<^item> \<open>Setting_Libraries\<close> (locale \<open>stored_setting\<close>), \<open>Setting_Samples\<close>, \<open>Library_System\<close>: the shipped providers,
    round trips and reset, and that they meet what the composed system asks of providers.
  \<^item> \<open>Device_Id\<close>: the driver itself, its events and the document with the identifiers of the device.

  \<^bold>\<open>The manager\<close> (\<^verbatim>\<open>DfciManager\<close>).
  \<^item> \<open>Dfci_Packet\<close>, \<open>Packet_Decode\<close>, \<open>Mailbox\<close>: packets, decoding, which reads outside of them only in one debug message,
    the table of the six mailboxes and the variable policies.
  \<^item> \<open>Dfci_Manager\<close>: order, delay, completion and the events; when the protocols return on the packets of
    the table every pass ends or waits, and at the end of DXE all mailboxes are deleted.
  \<^item> \<open>Manager_System\<close> (locale \<open>packet_batch\<close>), \<open>Manager_Runs\<close>: the manager with the three drivers as its protocols;
    a failed batch has no lasting effect; concrete runs.

  \<^bold>\<open>The menu\<close> (\<^verbatim>\<open>Application/DfciMenu\<close>).
  \<^item> \<open>Menu_App\<close>, \<open>Dfci_Update\<close>: the network request with its zones, utilities, JSON updates and USB drives; an
    update only fills mailboxes with packets that carry the right signature.
  \<^item> \<open>Http_Client\<close>: events, interfaces, requests and retries; an exchange ends and sends at most six requests.
  \<^item> \<open>Network_Recovery\<close>, \<open>Dfci_Menu\<close>: the recovery protocol, the exchange of the TLS certificate, the questions of
    the menu and the tool for the shell; which variables outside those of the network stack they may change.
  \<^item> \<open>Setup_Tools\<close> (\<^verbatim>\<open>Application/EnrollInDfci\<close>, \<^verbatim>\<open>Application/DfciApply\<close>): the tools that store the URL and the
    certificate of the service and put packet files into mailboxes; the in-place URL filter equals a scan.

  This theory holds the property that spans the permission library and the authentication manager.

  \<^bold>\<open>Recursion and bounds.\<close>  All loops over data are structural recursions or functions with a termination
  proof (\<open>dispose_loop\<close>, \<open>group_loop\<close>, \<open>url_loop\<close>).  There is no fuel.  The two loops \<open>wait_loop\<close> and \<open>body_loop\<close> may
  not end, so they are partial functions; \<open>http_exchange_returns\<close> proves that they return when the timer
  fires, answers carry data and no content length is read as the largest number.  Sizes are those of the code: six mailboxes, six attempts of a request, three
  wrong answers in a recovery session, 256 characters of a file name.

  \<^bold>\<open>Not modelled.\<close>  The tool \<^verbatim>\<open>SetRecovery\<close>, which only prints sizes; the compressor \<^verbatim>\<open>Compress.c\<close>, a copy
  of the one of the EDK2 base tools, which is a parameter of the enrolment tool; the null libraries, which are empty
  implementations of interfaces that are parameters here; the audit and test applications; functions that
  only print.  Interrupts of one handler by another are not modelled: UEFI runs the handlers of these events
  one after the other, and an interleaving is a sequence of calls.
\<close>

section \<open>Permission packets and the authentication manager\<close>

text \<open>
  Property C1: end to end, with the authentication manager in place of the protocol.  A
  permission packet takes effect only if the certificate of a provisioned identity verifies the
  signature over the signed part of the packet, and then it changes only permissions that are
  delegated to the first such identity.
\<close>

theorem permission_packet_is_signed_and_delegated:
  assumes w: "wf_map (au_Map a)" and S: "sound_store S" "unmarked S"
    and r: "ApplyNewPermissionsPacket (lift_platform U) (Some (auth_manager U E)) True (Some D) (Some S) (a, s)
      = Some (st, D', Store', s')" and ok: "\<not> EFI_ERROR st"
  shows "\<exists>k S'. find (verifies E (au_Certs a) (take (pk_SignedDataLength D) (pk_Packet D))
        (drop (pk_SignedDataLength D) (pk_Packet D))) key_order = Some k
    \<and> Store' = Some S' \<and> sound_store S' \<and> ps_Lsv S \<le> ps_Lsv S'
    \<and> (\<forall>i p d. perm_map S i = Some (p, d) \<longrightarrow> k AND d = 0 \<longrightarrow> perm_map S' i = Some (p, d))
    \<and> (k AND ps_DefaultDMask S = 0 \<longrightarrow> dom (perm_map S') \<subseteq> dom (perm_map S)
         \<and> ps_DefaultPMask S' = ps_DefaultPMask S \<and> ps_DefaultDMask S' = ps_DefaultDMask S)"
proof -
  obtain st1 D1 s1 st2 D2 S2 s2 where
    v: "ValidateAndAuthenticatePermissions (auth_manager U E) D (a, s) = Some (st1, D1, s1)" "\<not> EFI_ERROR st1"
    and x: "ApplyPermissionsInXml (lift_platform U) (auth_manager U E) D1 (Some S) s1 = Some (st2, D2, Some S2, s2)"
      "\<not> EFI_ERROR st2" and S': "Store' = Some (S2\<lparr>ps_Modified := True\<rparr>)"
    using r ok
    by (auto simp: ApplyNewPermissionsPacket_def permissions_packet_body_def Let_def
        split: Option.bind_splits if_splits prod.splits)
  obtain k where k: "find (verifies E (au_Certs a) (take (pk_SignedDataLength D) (pk_Packet D))
      (drop (pk_SignedDataLength D) (pk_Packet D))) key_order = Some k"
    "ap_GetIdentityProperties (auth_manager U E) (pk_AuthToken D1) s1 = (EFI_SUCCESS, k)"
    by (rule ValidateAndAuthenticate_signed [OF w v])
  have c: "sound_store S2" "confined k S S2" "ps_Lsv S \<le> ps_Lsv S2"
    using ApplyPermissionsInXml_success [OF S k(2) x] by auto
  have m: "perm_map (S2\<lparr>ps_Modified := True\<rparr>) = perm_map S2" "sound_store (S2\<lparr>ps_Modified := True\<rparr>)"
    using c(1) by (simp_all add: perm_map_def sound_store_def wf_store_def keyed_def)
  show ?thesis
    using k(1) S' m c confined_map [OF c(2)] S(1)
    by (auto simp: sound_store_def confined_def)
qed

definition user_signed_packet :: packet where
  "user_signed_packet = example_packet\<lparr>pk_Packet := replicate 22 0 @ to_bytes ''P'' @
     le32 26 @ le16 0x200 @ le16 0x0EF1 @ replicate 16 0 @ [1, 2], pk_PacketSize := 49\<rparr>"

theorem permission_packet_is_signed_and_delegated_witness:
  "\<exists>D' S' s'. ApplyNewPermissionsPacket (lift_platform demo_platform) (Some (auth_manager demo_platform demo_env)) True
      (Some user_signed_packet) (Some example_store) (example_auth_state, example_docs) = Some (EFI_SUCCESS, D', Some S', s')
    \<and> sound_store S'"
proof -
  have "map_option fst (ApplyNewPermissionsPacket (lift_platform demo_platform) (Some (auth_manager demo_platform demo_env))
      True (Some user_signed_packet) (Some example_store) (example_auth_state, example_docs)) = Some EFI_SUCCESS"
    by code_simp
  then obtain D' Store' s' where r: "ApplyNewPermissionsPacket (lift_platform demo_platform)
      (Some (auth_manager demo_platform demo_env)) True (Some user_signed_packet) (Some example_store)
      (example_auth_state, example_docs) = Some (EFI_SUCCESS, D', Store', s')"
    by fastforce
  from permission_packet_is_signed_and_delegated [OF example_auth_wf example_sound r] r show ?thesis by auto
qed

end
